(* ===== verification/Prelude.thy ===== *)
theory Prelude
  imports Main "HOL-Library.Word"
begin

text \<open>
  Shared vocabulary of the development: wire bytes and fixed-width integers, the SDK's
  error values (\<^verbatim>\<open>foundation/include/desfire/foundation/error.hpp\<close>), results as the sum
  \<open>error + 'a\<close> (\<^verbatim>\<open>result.hpp\<close>), dependencies that may throw, the limits of
  \<^verbatim>\<open>std::size_t\<close>, and the generic lemmas on lists, words and results that the component
  theories use. Diagnostics are kept as string literals, so that two error branches of the
  source are two values of the model.
\<close>

unbundle bit_operations_syntax

section \<open>Types\<close>

type_synonym byte = "8 word"
type_synonym bytes = "byte list"
type_synonym u16 = "16 word"
type_synonym u32 = "32 word"
type_synonym u64 = "64 word"

text \<open>\<^verbatim>\<open>enum class ErrorCode\<close>.\<close>

datatype error_code =
    EC_invalid_argument | EC_transport | EC_card_removed | EC_timeout | EC_cancelled
  | EC_malformed_response | EC_card_rejected | EC_authentication | EC_integrity
  | EC_unsupported | EC_stale_handle | EC_busy | EC_session_invalid
  | EC_counter_exhausted | EC_buffer_too_small | EC_crypto | EC_internal

text \<open>\<^verbatim>\<open>enum class Outcome\<close>: evidence about execution, not a recommendation to retry.\<close>

datatype outcome = OC_not_sent | OC_rejected | OC_succeeded | OC_unknown

text \<open>\<^verbatim>\<open>struct Error\<close>.\<close>

record error =
  err_code :: error_code
  err_message :: String.literal
  err_outcome :: outcome
  err_status :: u16

type_synonym 'a result = "error + 'a"

text \<open>
  \<^verbatim>\<open>Error{code, message}\<close> leaves the outcome at \<open>not_sent\<close> and the status at zero;
  \<^verbatim>\<open>Error{code, message, outcome}\<close> leaves the status at zero.
\<close>

definition make_error :: "error_code \<Rightarrow> String.literal \<Rightarrow> outcome \<Rightarrow> u16 \<Rightarrow> error" where
  "make_error c m oc st = \<lparr>err_code = c, err_message = m, err_outcome = oc, err_status = st\<rparr>"

definition local_error :: "error_code \<Rightarrow> String.literal \<Rightarrow> error" where
  "local_error c m = make_error c m OC_not_sent 0"

definition unknown_error :: "error_code \<Rightarrow> String.literal \<Rightarrow> error" where
  "unknown_error c m = make_error c m OC_unknown 0"

text \<open>\<^verbatim>\<open>invalid(message)\<close>: a pre-transmission argument failure.\<close>

definition invalid :: "String.literal \<Rightarrow> error" where
  "invalid m = \<lparr>err_code = EC_invalid_argument, err_message = m,
                err_outcome = OC_not_sent, err_status = 0\<rparr>"

text \<open>
  A call of an injected dependency (transport, cryptographic provider, key provider) either
  throws or returns; every such call of the source stands inside a \<^verbatim>\<open>try\<close> block whose
  \<^verbatim>\<open>catch (...)\<close> is a branch of the model.
\<close>

datatype 'a dep = Threw | Returned 'a

text \<open>\<^verbatim>\<open>std::numeric_limits<std::size_t>::max()\<close> on the 64-bit targets of the SDK.\<close>

definition size_max :: nat where
  "size_max = 2 ^ 64 - 1"

text \<open>\<^verbatim>\<open>error.outcome = Outcome::unknown; return error;\<close>\<close>

definition with_unknown_outcome :: "error \<Rightarrow> error" where
  "with_unknown_outcome e = e\<lparr>err_outcome := OC_unknown\<rparr>"

text \<open>\<^verbatim>\<open>subspan(offset, count)\<close> of a byte view.\<close>

definition subspan :: "'a list \<Rightarrow> nat \<Rightarrow> nat \<Rightarrow> 'a list" where
  "subspan xs offset count = take count (drop offset xs)"

text \<open>\<^verbatim>\<open>last(count)\<close> of a byte view.\<close>

definition last_bytes :: "nat \<Rightarrow> 'a list \<Rightarrow> 'a list" where
  "last_bytes count xs = drop (length xs - count) xs"

section \<open>Actions\<close>

text \<open>
  The body of a \<^verbatim>\<open>try\<close> block that calls several dependencies: an action threads the
  environment state and may throw, return an error early, or produce a value. \<open>catch_as\<close> is
  the \<^verbatim>\<open>catch (...)\<close> at the end of the function.
\<close>

type_synonym ('s, 'a) action = "'s \<Rightarrow> 'a result dep \<times> 's"

definition act_require :: "'a result \<Rightarrow> ('s, 'a) action" where
  "act_require r s = (Returned r, s)"

definition act_return :: "'a \<Rightarrow> ('s, 'a) action" where
  "act_return a s = (Returned (Inr a), s)"

definition act_lift :: "'a result dep \<Rightarrow> ('s, 'a) action" where
  "act_lift d s = (d, s)"

definition act_bind :: "('s, 'a) action \<Rightarrow> ('a \<Rightarrow> ('s, 'b) action) \<Rightarrow> ('s, 'b) action" where
  "act_bind m f s =
     (case m s of
        (Threw, s') \<Rightarrow> (Threw, s')
      | (Returned (Inl e), s') \<Rightarrow> (Returned (Inl e), s')
      | (Returned (Inr a), s') \<Rightarrow> f a s')"

definition act_map_error :: "(error \<Rightarrow> error) \<Rightarrow> ('s, 'a) action \<Rightarrow> ('s, 'a) action" where
  "act_map_error g m s =
     (case m s of (Returned (Inl e), s') \<Rightarrow> (Returned (Inl (g e)), s') | other \<Rightarrow> other)"

definition catch_as :: "error \<Rightarrow> ('s, 'a) action \<Rightarrow> 's \<Rightarrow> 'a result \<times> 's" where
  "catch_as e m s = (case m s of (Threw, s') \<Rightarrow> (Inl e, s') | (Returned r, s') \<Rightarrow> (r, s'))"

text \<open>\<^verbatim>\<open>if (error.outcome == Outcome::not_sent) error.outcome = Outcome::unknown;\<close>\<close>

definition sent_outcome :: "error \<Rightarrow> error" where
  "sent_outcome e = (if err_outcome e = OC_not_sent then with_unknown_outcome e else e)"

section \<open>Lemma collections\<close>

named_theorems error_simps \<open>projections of the error constructors\<close>
named_theorems wire_simps \<open>lengths and positions of wire fields\<close>

section \<open>Errors and results\<close>

lemma make_error_sel [simp, error_simps]:
  "err_code (make_error c m oc st) = c"
  "err_message (make_error c m oc st) = m"
  "err_outcome (make_error c m oc st) = oc"
  "err_status (make_error c m oc st) = st"
  by (simp_all add: make_error_def)

lemma local_error_sel [simp, error_simps]:
  "err_code (local_error c m) = c"
  "err_message (local_error c m) = m"
  "err_outcome (local_error c m) = OC_not_sent"
  "err_status (local_error c m) = 0"
  by (simp_all add: local_error_def)

lemma unknown_error_sel [simp, error_simps]:
  "err_code (unknown_error c m) = c"
  "err_message (unknown_error c m) = m"
  "err_outcome (unknown_error c m) = OC_unknown"
  "err_status (unknown_error c m) = 0"
  by (simp_all add: unknown_error_def)

lemma invalid_sel [simp, error_simps]:
  "err_code (invalid m) = EC_invalid_argument"
  "err_message (invalid m) = m"
  "err_outcome (invalid m) = OC_not_sent"
  "err_status (invalid m) = 0"
  by (simp_all add: invalid_def)

lemma with_unknown_outcome_sel [simp, error_simps]:
  "err_code (with_unknown_outcome e) = err_code e"
  "err_message (with_unknown_outcome e) = err_message e"
  "err_outcome (with_unknown_outcome e) = OC_unknown"
  "err_status (with_unknown_outcome e) = err_status e"
  by (simp_all add: with_unknown_outcome_def)

lemma sent_outcome_sent [simp]: "err_outcome (sent_outcome e) \<noteq> OC_not_sent"
  by (simp add: sent_outcome_def)

section \<open>Action lemmas\<close>

lemma act_simps [simp]:
  "act_require r s = (Returned r, s)"
  "act_return a s = (Returned (Inr a), s)"
  "act_lift d s = (d, s)"
  by (simp_all add: act_require_def act_return_def act_lift_def)

lemma act_bind_Inr:
  "act_bind m f s = (Returned (Inr b), s'') \<longleftrightarrow>
     (\<exists>a s'. m s = (Returned (Inr a), s') \<and> f a s' = (Returned (Inr b), s''))"
  by (auto simp: act_bind_def split: prod.splits dep.splits sum.splits)

lemma act_bind_Inl:
  "act_bind m f s = (Returned (Inl e), s'') \<longleftrightarrow>
     m s = (Returned (Inl e), s'') \<or>
     (\<exists>a s'. m s = (Returned (Inr a), s') \<and> f a s' = (Returned (Inl e), s''))"
  by (auto simp: act_bind_def split: prod.splits dep.splits sum.splits)

lemma act_bind_run [simp]:
  "m s = (Returned (Inr a), s') \<Longrightarrow> act_bind m f s = f a s'"
  by (simp add: act_bind_def)

lemma act_map_error_Inr [simp]:
  "act_map_error g m s = (Returned (Inr a), s') \<longleftrightarrow> m s = (Returned (Inr a), s')"
  by (auto simp: act_map_error_def split: prod.splits dep.splits sum.splits)

lemma act_map_error_Inl:
  "act_map_error g m s = (Returned (Inl e), s') \<longleftrightarrow>
     (\<exists>e0. m s = (Returned (Inl e0), s') \<and> e = g e0)"
  by (auto simp: act_map_error_def split: prod.splits dep.splits sum.splits)

lemma catch_as_Inr [simp]:
  "catch_as e m s = (Inr a, s') \<longleftrightarrow> m s = (Returned (Inr a), s')"
  by (auto simp: catch_as_def split: prod.splits dep.splits)

lemma catch_as_Inl:
  "catch_as e m s = (Inl e', s') \<longleftrightarrow>
     m s = (Threw, s') \<and> e' = e \<or> m s = (Returned (Inl e'), s')"
  by (auto simp: catch_as_def split: prod.splits dep.splits)

lemmas act_success = act_bind_Inr act_map_error_Inr
lemmas act_failure = act_bind_Inl act_map_error_Inl

section \<open>Spans\<close>

lemma length_subspan [simp, wire_simps]:
  "length (subspan xs i n) = min n (length xs - i)"
  by (simp add: subspan_def min.commute)

lemma subspan_append_left [simp]:
  "i + n \<le> length xs \<Longrightarrow> subspan (xs @ ys) i n = subspan xs i n"
  by (simp add: subspan_def)

lemma subspan_append_right [simp]:
  "length xs \<le> i \<Longrightarrow> subspan (xs @ ys) i n = subspan ys (i - length xs) n"
  by (simp add: subspan_def)

lemma subspan_all [simp]: "length xs \<le> n \<Longrightarrow> subspan xs 0 n = xs"
  by (simp add: subspan_def)

lemma length_last_bytes [simp, wire_simps]:
  "length (last_bytes n xs) = min n (length xs)"
  by (simp add: last_bytes_def)

lemma last_bytes_append [simp]:
  "length ys = n \<Longrightarrow> last_bytes n (xs @ ys) = ys"
  by (simp add: last_bytes_def)

lemma take_last_bytes: "take (length xs - n) xs @ last_bytes n xs = xs"
  by (simp add: last_bytes_def)

lemma subspan_self_split: "take i xs @ subspan xs i n @ drop (i + n) xs = xs"
proof -
  have "subspan xs i n @ drop (i + n) xs = drop i xs"
    by (simp add: subspan_def add.commute [of i n] flip: drop_drop)
  then show ?thesis by simp
qed

lemma two_at_end:
  assumes "2 \<le> length f"
  obtains g a b where "f = g @ [a, b]"
proof -
  obtain h b where h: "f = h @ [b]" using assms by (cases f rule: rev_cases) auto
  obtain g a where "h = g @ [a]" using assms h by (cases h rule: rev_cases) auto
  with h that show thesis by simp
qed

section \<open>Words\<close>

lemma xor_word_eq_0_iff [simp]: "(a :: 'a::len word) XOR b = 0 \<longleftrightarrow> a = b"
proof
  assume "a XOR b = 0"
  then have "(a XOR b) XOR b = b" by simp
  then show "a = b" by (simp only: xor.assoc) simp
qed simp

lemma xor_word_cancel [simp]:
  "(a XOR c = b XOR c) \<longleftrightarrow> a = (b :: 'a::len word)"
  "(c XOR a = c XOR b) \<longleftrightarrow> a = (b :: 'a::len word)"
proof -
  have *: "a = b" if "a XOR c = b XOR c" for a b c :: "'a word"
  proof -
    have "(a XOR c) XOR c = (b XOR c) XOR c" using that by simp
    then show ?thesis by (simp only: xor.assoc) simp
  qed
  show "(a XOR c = b XOR c) \<longleftrightarrow> a = b" using * by blast
  show "(c XOR a = c XOR b) \<longleftrightarrow> a = b" using * [of a c b] by (auto simp: xor.commute)
qed

lemma ucast_byte_inject [simp]: "((ucast (a :: byte) :: u32) = ucast b) \<longleftrightarrow> a = b"
proof
  assume eq: "(ucast a :: u32) = ucast b"
  show "a = b"
  proof (rule bit_word_eqI)
    fix n assume "n < LENGTH(8)"
    then have "bit a n \<longleftrightarrow> bit (ucast a :: u32) n" "bit b n \<longleftrightarrow> bit (ucast b :: u32) n"
      by (simp_all add: bit_ucast_iff)
    then show "bit a n = bit b n" using eq by simp
  qed
qed simp

end
