(* ===== verification/Foundation.thy ===== *)
theory Foundation
  imports Prelude
begin

text \<open>
  Byte utilities of \<^verbatim>\<open>foundation/\<close>: little-endian wire integers (\<^verbatim>\<open>bytes.hpp\<close>),
  hexadecimal text, the DESFire CRC-16 and CRC-32 accumulators, the comparison without an
  early mismatch return (\<^verbatim>\<open>bytes.cpp\<close>) and the wipe of secret storage
  (\<^verbatim>\<open>secure_buffer.cpp\<close>). The theorems show the round trips of the wire integers and of
  hexadecimal text, that the CRC-16 register never leaves sixteen bits, that the CRC-32 detects
  every corruption of a single byte, and that the comparison decides equality.
\<close>

section \<open>Wire integers\<close>

text \<open>\<^verbatim>\<open>put_le\<close>: append the low-order bytes in little-endian order.\<close>

definition put_le :: "bytes \<Rightarrow> u32 \<Rightarrow> nat \<Rightarrow> bytes" where
  "put_le out v n = out @ map (\<lambda>i. ucast (drop_bit (8 * i) v)) [0..<n]"

text \<open>\<^verbatim>\<open>get_le\<close>: decode up to four little-endian bytes; later bytes are ignored.\<close>

definition get_le :: "bytes \<Rightarrow> u32" where
  "get_le input =
     fold (\<lambda>i v. v OR push_bit (8 * i) (ucast (input ! i))) [0..<min 4 (length input)] 0"

section \<open>Hexadecimal text\<close>

text \<open>\<^verbatim>\<open>make_hex_digit_table\<close>: a 256-entry table filled with -1, then the digits.\<close>

definition make_hex_digit_table :: "int list" where
  "make_hex_digit_table =
     (let decimal = fold (\<lambda>d t. t[of_char (CHR ''0'') + d := int d]) [0..<10] (replicate 256 (-1))
      in fold (\<lambda>d t. (t[of_char (CHR ''a'') + d := 10 + int d])
                        [of_char (CHR ''A'') + d := 10 + int d]) [0..<6] decimal)"

definition hex_digits :: string where
  "hex_digits = ''0123456789abcdef''"

fun from_hex_loop :: "string \<Rightarrow> bytes \<Rightarrow> bytes result" where
  "from_hex_loop (h # l # text) decoded =
     (let high_nibble = make_hex_digit_table ! of_char h;
          low_nibble = make_hex_digit_table ! of_char l
      in if high_nibble < 0 \<or> low_nibble < 0 then Inl (invalid (STR ''Invalid hexadecimal input''))
         else from_hex_loop text
           (decoded @ [ucast (push_bit 4 (word_of_int high_nibble :: u32)
                              OR (word_of_int low_nibble :: u32))]))"
| "from_hex_loop _ decoded = Inr decoded"

definition from_hex :: "string \<Rightarrow> bytes result" where
  "from_hex text =
     (if length text mod 2 \<noteq> 0
      then Inl (invalid (STR ''Hexadecimal input must have an even length''))
      else from_hex_loop text [])"

definition to_hex :: "bytes \<Rightarrow> string" where
  "to_hex data =
     concat (map (\<lambda>b. [hex_digits ! drop_bit 4 (unat b), hex_digits ! (unat b AND 15)]) data)"

section \<open>Checksums\<close>

text \<open>One shift of a reflected CRC register.\<close>

definition crc_shift :: "u32 \<Rightarrow> u32 \<Rightarrow> u32" where
  "crc_shift polynomial checksum =
     (if checksum AND 1 \<noteq> 0 then drop_bit 1 checksum XOR polynomial else drop_bit 1 checksum)"

definition crc_byte :: "u32 \<Rightarrow> byte \<Rightarrow> u32 \<Rightarrow> u32" where
  "crc_byte polynomial b checksum = (crc_shift polynomial ^^ 8) (checksum XOR ucast b)"

definition crc16 :: "bytes \<Rightarrow> u16" where
  "crc16 data = ucast (fold (crc_byte 0x8408) data (0x6363 :: u32))"

text \<open>
  The specification of the CRC-16: the same shifts on a register of exactly sixteen bits.
\<close>

definition crc16_shift :: "u16 \<Rightarrow> u16" where
  "crc16_shift c = (if bit c 0 then drop_bit 1 c XOR 0x8408 else drop_bit 1 c)"

definition crc16_spec :: "bytes \<Rightarrow> u16" where
  "crc16_spec data = fold (\<lambda>b c. (crc16_shift ^^ 8) (c XOR ucast b)) data 0x6363"

definition crc32 :: "bytes \<Rightarrow> u32" where
  "crc32 data = fold (crc_byte 0xEDB88320) data 0xFFFFFFFF"

section \<open>Comparison and wiping\<close>

text \<open>\<^verbatim>\<open>constant_time_equal\<close> accumulates the differences of all positions.\<close>

definition constant_time_equal :: "bytes \<Rightarrow> bytes \<Rightarrow> bool" where
  "constant_time_equal left right =
     (if length left \<noteq> length right then False
      else fold (\<lambda>i d. d OR (ucast (left ! i XOR right ! i) :: u32)) [0..<length left] 0 = 0)"

definition wipe :: "bytes \<Rightarrow> bytes" where
  "wipe bs = map (\<lambda>_. 0) bs"

section \<open>Wire integers: bits, bounds and round trips\<close>

lemma length_put_le [simp, wire_simps]: "length (put_le out v n) = length out + n"
  by (simp add: put_le_def)

lemma put_le_append: "put_le out v n = out @ put_le [] v n"
  by (simp add: put_le_def)

lemma bit_get_le_fold:
  "n \<le> 4 \<Longrightarrow>
   bit (fold (\<lambda>i v. v OR push_bit (8 * i) (ucast (xs ! i))) [0..<n] (0 :: u32)) k \<longleftrightarrow>
     k div 8 < n \<and> bit (xs ! (k div 8) :: byte) (k mod 8)"
proof (induction n)
  case 0
  then show ?case by simp
next
  case (Suc n)
  have len: "bit (xs ! n) m \<Longrightarrow> m < 8" for m
    using bit_imp_le_length [of "xs ! n" m] by simp
  have "bit (push_bit (8 * n) (ucast (xs ! n) :: u32)) k \<longleftrightarrow>
          k div 8 = n \<and> bit (xs ! n) (k mod 8)"
  proof
    assume "bit (push_bit (8 * n) (ucast (xs ! n) :: u32)) k"
    then have "8 * n \<le> k" "bit (xs ! n) (k - 8 * n)"
      by (auto simp: bit_push_bit_iff bit_ucast_iff)
    moreover define m where "m = k - 8 * n"
    ultimately have "k = 8 * n + m" "m < 8" "bit (xs ! n) m"
      using len [of m] by auto
    then show "k div 8 = n \<and> bit (xs ! n) (k mod 8)" by simp
  next
    assume a: "k div 8 = n \<and> bit (xs ! n) (k mod 8)"
    then have "k - 8 * n = k mod 8" "8 * n \<le> k" "k < 32"
      using Suc.prems by (auto simp: minus_mult_div_eq_mod)
    with a show "bit (push_bit (8 * n) (ucast (xs ! n) :: u32)) k"
      by (auto simp: bit_push_bit_iff bit_ucast_iff)
  qed
  with Suc show ?case
    by (auto simp: bit_or_iff less_Suc_eq)
qed

lemma bit_get_le:
  "bit (get_le xs) k \<longleftrightarrow> k < 32 \<and> k div 8 < length xs \<and> bit (xs ! (k div 8)) (k mod 8)"
  by (auto simp: get_le_def bit_get_le_fold)

lemma get_le_take_bit: "take_bit (8 * length xs) (get_le xs) = get_le xs"
  by (rule bit_word_eqI) (auto simp: bit_take_bit_iff bit_get_le)

lemma get_le_take_bit_le: "length xs \<le> n \<Longrightarrow> take_bit (8 * n) (get_le xs) = get_le xs"
  by (rule bit_word_eqI) (auto simp: bit_take_bit_iff bit_get_le)

lemma unat_get_le_less: "length xs \<le> n \<Longrightarrow> n \<le> 3 \<Longrightarrow> unat (get_le xs) < 2 ^ (8 * n)"
  by (metis get_le_take_bit_le unsigned_take_bit_eq take_bit_nat_less_exp)

lemma nth_put_le: "i < n \<Longrightarrow> put_le [] v n ! i = ucast (drop_bit (8 * i) v)"
  by (simp add: put_le_def)

lemma get_le_put_le_gen: "n \<le> 4 \<Longrightarrow> get_le (put_le [] v n) = take_bit (8 * n) v"
proof (rule bit_word_eqI)
  fix k assume "n \<le> 4" "k < LENGTH(32)"
  show "bit (get_le (put_le [] v n)) k = bit (take_bit (8 * n) v) k"
  proof (cases "k div 8 < n")
    case True
    then show ?thesis
      using \<open>k < LENGTH(32)\<close>
      by (auto simp: bit_get_le nth_put_le bit_take_bit_iff bit_ucast_iff bit_drop_bit_eq)
  next
    case False
    then show ?thesis by (auto simp: bit_get_le bit_take_bit_iff)
  qed
qed

lemma put_le_get_le_gen: "length xs \<le> 4 \<Longrightarrow> put_le [] (get_le xs) (length xs) = xs"
proof (rule nth_equalityI)
  fix i assume len: "length xs \<le> 4" and i: "i < length (put_le [] (get_le xs) (length xs))"
  have "put_le [] (get_le xs) (length xs) ! i = ucast (drop_bit (8 * i) (get_le xs))"
    using i by (simp add: nth_put_le)
  also have "\<dots> = xs ! i"
  proof (rule bit_word_eqI)
    fix m assume "m < LENGTH(8)"
    then have "(8 * i + m) div 8 = i" "(8 * i + m) mod 8 = m" "8 * i + m < 32"
      using i len by auto
    then show "bit (ucast (drop_bit (8 * i) (get_le xs)) :: byte) m = bit (xs ! i) m"
      using \<open>m < LENGTH(8)\<close> i by (auto simp: bit_ucast_iff bit_drop_bit_eq bit_get_le)
  qed
  finally show "put_le [] (get_le xs) (length xs) ! i = xs ! i" .
qed simp

lemma get_le_inject:
  assumes "length xs = length ys" "length xs \<le> 4" "get_le xs = get_le ys"
  shows "xs = ys"
  using assms by (metis put_le_get_le_gen)

section \<open>Comparison and wiping\<close>

lemma fold_or_zero_iff:
  "fold (\<lambda>i d. d OR f i) is (a :: 'b::len word) = 0 \<longleftrightarrow> a = 0 \<and> (\<forall>i \<in> set is. f i = 0)"
  by (induction "is" arbitrary: a) (auto simp: or_eq_0_iff)

lemma ucast_byte_eq_0 [simp]: "(ucast (b :: byte) :: u32) = 0 \<longleftrightarrow> b = 0"
  using ucast_byte_inject [of b 0] by simp

lemma constant_time_equal_iff [simp]: "constant_time_equal xs ys \<longleftrightarrow> xs = ys"
proof (cases "length xs = length ys")
  case True
  have "constant_time_equal xs ys \<longleftrightarrow> (\<forall>i < length xs. xs ! i XOR ys ! i = 0)"
    using True by (simp only: constant_time_equal_def fold_or_zero_iff ucast_byte_eq_0) auto
  also have "\<dots> \<longleftrightarrow> xs = ys"
    using True by (simp add: list_eq_iff_nth_eq)
  finally show ?thesis .
next
  case False
  then show ?thesis by (auto simp: constant_time_equal_def)
qed

lemma wipe_eq_replicate [simp]: "wipe bs = replicate (length bs) 0"
  by (simp add: wipe_def map_replicate_const)

section \<open>Hexadecimal text\<close>

lemma hex_table_digits:
  "\<forall>n \<in> set [0..<16]. make_hex_digit_table ! of_char (hex_digits ! n) = int n"
  by code_simp

lemma hex_table_lookup: "n < 16 \<Longrightarrow> make_hex_digit_table ! of_char (hex_digits ! n) = int n"
  using hex_table_digits by simp

lemma nibble_mask: "(15 :: nat) = mask 4"
  by (simp add: mask_eq_exp_minus_1)

lemma high_nibble_less: "drop_bit 4 (unat (b :: byte)) < 16"
proof -
  have "unat b < 2 ^ LENGTH(8)" by (rule unsigned_less)
  then show ?thesis by (simp add: drop_bit_eq_div)
qed

lemma low_nibble_less: "unat (b :: byte) AND 15 < 16"
proof -
  have "unat b AND 15 = unat b mod 16"
    by (simp add: nibble_mask take_bit_eq_mod flip: take_bit_eq_mask)
  then show ?thesis by simp
qed

lemma nibbles_join:
  "ucast (push_bit 4 (word_of_int (int (drop_bit 4 (unat b))) :: u32)
          OR (word_of_int (int (unat b AND 15)) :: u32)) = (b :: byte)"
proof (rule bit_word_eqI)
  fix n assume n: "n < LENGTH(8)"
  have low: "bit (15 :: nat) n \<longleftrightarrow> n < 4"
    by (simp add: nibble_mask bit_mask_iff)
  show "bit (ucast (push_bit 4 (word_of_int (int (drop_bit 4 (unat b))) :: u32)
            OR (word_of_int (int (unat b AND 15)) :: u32)) :: byte) n = bit b n"
    using n low
    by (auto simp: bit_ucast_iff bit_or_iff bit_push_bit_iff bit_word_of_int_iff bit_of_nat_iff
        bit_drop_bit_eq bit_and_iff bit_unsigned_iff)
qed

lemma from_hex_loop_to_hex: "from_hex_loop (to_hex data) decoded = Inr (decoded @ data)"
  by (induction data arbitrary: decoded)
    (simp_all add: to_hex_def hex_table_lookup high_nibble_less low_nibble_less nibbles_join Let_def
      del: of_int_of_nat_eq)

lemma length_to_hex [simp]: "length (to_hex data) = 2 * length data"
  by (induction data) (simp_all add: to_hex_def)

section \<open>Checksums\<close>

lemma low_bit_iff: "c AND 1 \<noteq> 0 \<longleftrightarrow> bit (c :: u32) 0"
  by (simp add: and_one_eq bit_0 odd_iff_mod_2_eq_one)

lemma crc_shift_inject:
  assumes top: "bit polynomial 31" and eq: "crc_shift polynomial a = crc_shift polynomial b"
  shows "a = b"
proof -
  have top_bit: "bit (crc_shift polynomial c) 31 \<longleftrightarrow> bit c 0" for c
    using top bit_imp_le_length [of c 32]
    by (auto simp: crc_shift_def low_bit_iff bit_drop_bit_eq bit_xor_iff)
  have low: "bit a 0 = bit b 0" using top_bit [of a] top_bit [of b] eq by simp
  then have "drop_bit 1 a = drop_bit 1 b"
    using eq by (simp add: crc_shift_def low_bit_iff split: if_splits)
  then have "bit a (Suc n) = bit b (Suc n)" for n
    by (metis bit_drop_bit_eq comp_apply plus_1_eq_Suc)
  with low have "bit a n = bit b n" for n by (cases n) auto
  then show ?thesis by (intro bit_word_eqI) auto
qed

lemma crc_byte_inject:
  assumes "bit polynomial 31" and "crc_byte polynomial x a = crc_byte polynomial y b"
  shows "a XOR ucast x = b XOR ucast y"
proof -
  have "inj (crc_shift polynomial)" using assms(1) by (auto intro: injI crc_shift_inject)
  then have "inj (crc_shift polynomial ^^ 8)" by (rule inj_fn)
  then show ?thesis using assms(2) unfolding crc_byte_def by (rule injD)
qed

lemma crc_fold_inject:
  assumes "bit polynomial 31"
    and "fold (crc_byte polynomial) xs a = fold (crc_byte polynomial) xs b"
  shows "a = b"
  using assms(2)
proof (induction xs arbitrary: a b)
  case (Cons x xs)
  then have "crc_byte polynomial x a = crc_byte polynomial x b" by simp
  then show ?case using crc_byte_inject [OF assms(1), of x a x b] by simp
qed simp

lemma crc_shift_16_bits:
  assumes "take_bit 16 c = c"
  shows "take_bit 16 (crc_shift 0x8408 c) = crc_shift 0x8408 c"
proof -
  have "\<not> bit c (Suc n)" if "16 \<le> n" for n
    using assms that by (metis bit_take_bit_iff not_le le_SucI)
  then have "take_bit 16 (drop_bit 1 c) = drop_bit 1 c"
    by (intro bit_word_eqI) (auto simp: bit_take_bit_iff bit_drop_bit_eq not_less [symmetric])
  moreover have "take_bit 16 (0x8408 :: u32) = 0x8408" by simp
  ultimately show ?thesis by (auto simp: crc_shift_def take_bit_xor)
qed

lemma crc_shift_ucast:
  assumes "take_bit 16 c = c"
  shows "ucast (crc_shift 0x8408 c) = crc16_shift (ucast c)"
proof -
  have "\<not> bit c 16" using assms by (metis bit_take_bit_iff less_irrefl)
  then have "(ucast (drop_bit 1 c) :: u16) = drop_bit 1 (ucast c)"
  proof (intro bit_word_eqI)
    fix n assume "\<not> bit c 16" "n < LENGTH(16)"
    then show "bit (ucast (drop_bit 1 c) :: u16) n = bit (drop_bit 1 (ucast c :: u16)) n"
      by (cases "n = 15") (auto simp: bit_ucast_iff bit_drop_bit_eq)
  qed
  moreover have "(ucast (a XOR b) :: u16) = ucast a XOR ucast b" for a b :: u32
    by (rule bit_word_eqI) (simp add: bit_ucast_iff bit_xor_iff)
  moreover have "bit (ucast c :: u16) 0 \<longleftrightarrow> bit c 0" by (simp add: bit_ucast_iff)
  ultimately show ?thesis
    by (simp add: crc_shift_def crc16_shift_def low_bit_iff)
qed

lemma crc_shifts_16:
  assumes "take_bit 16 c = c"
  shows "take_bit 16 ((crc_shift 0x8408 ^^ n) c) = (crc_shift 0x8408 ^^ n) c \<and>
         ucast ((crc_shift 0x8408 ^^ n) c) = (crc16_shift ^^ n) (ucast c)"
  by (induction n) (use assms in \<open>simp_all add: crc_shift_16_bits crc_shift_ucast\<close>)

lemma crc_byte_16:
  assumes "take_bit 16 c = c"
  shows "take_bit 16 (crc_byte 0x8408 b c) = crc_byte 0x8408 b c \<and>
         ucast (crc_byte 0x8408 b c) = (crc16_shift ^^ 8) (ucast c XOR ucast b)"
proof -
  have "take_bit 16 (c XOR ucast b) = c XOR ucast b"
  proof (rule bit_word_eqI)
    fix n
    have "\<not> bit c n" if "16 \<le> n" using assms that by (metis bit_take_bit_iff not_le)
    moreover have "\<not> bit b n" if "16 \<le> n" using that bit_imp_le_length [of b n] by auto
    ultimately show "bit (take_bit 16 (c XOR ucast b)) n = bit (c XOR ucast b) n"
      by (cases "n < 16") (auto simp: bit_take_bit_iff bit_xor_iff bit_ucast_iff)
  qed
  moreover have "(ucast (c XOR ucast b) :: u16) = ucast c XOR ucast b"
    by (rule bit_word_eqI) (auto simp: bit_ucast_iff bit_xor_iff)
  ultimately show ?thesis
    unfolding crc_byte_def using crc_shifts_16 [of "c XOR ucast b" 8] by simp
qed

lemma crc16_fold:
  assumes "take_bit 16 c = c"
  shows "take_bit 16 (fold (crc_byte 0x8408) data c) = fold (crc_byte 0x8408) data c \<and>
         ucast (fold (crc_byte 0x8408) data c) =
           fold (\<lambda>b c. (crc16_shift ^^ 8) (c XOR ucast b)) data (ucast c)"
  using assms by (induction data arbitrary: c) (simp_all add: crc_byte_16)

section \<open>Properties\<close>

text \<open>
  Little-endian wire fields round trip. Encoding a value into \<open>n\<close> bytes (at most four) and
  decoding it gives the value's low-order \<open>8 * n\<close> bits, so nothing is lost exactly when the value
  fits; decoding a field of at most four bytes and encoding it again gives the field back.
\<close>

theorem put_get_le_roundtrip:
  assumes "n \<le> 4" and "length field \<le> 4"
  shows "get_le (put_le [] v n) = take_bit (8 * n) v \<and>
         (get_le (put_le [] v n) = v \<longleftrightarrow> unat v < 2 ^ (8 * n)) \<and>
         put_le [] (get_le field) (length field) = field"
proof -
  have "take_bit (8 * n) v = v \<longleftrightarrow> take_bit (8 * n) (unat v) = unat v"
    by (metis unsigned_take_bit_eq unsigned_word_eqI)
  also have "\<dots> \<longleftrightarrow> unat v < 2 ^ (8 * n)"
    by (simp add: take_bit_nat_eq_self_iff)
  finally show ?thesis using assms by (simp add: get_le_put_le_gen put_le_get_le_gen)
qed

theorem put_get_le_roundtrip_witness:
  "get_le (put_le [] 0x01A2B3C4 3) = take_bit 24 0x01A2B3C4 \<and>
   put_le [] (get_le [0xC4, 0xB3, 0xA2]) 3 = [0xC4, 0xB3, 0xA2]"
  using put_get_le_roundtrip [of 3 "[0xC4, 0xB3, 0xA2]" "0x01A2B3C4"]
  by (simp add: numeral_3_eq_3)

text \<open>
  Hexadecimal text round trips: decoding the lowercase text that \<^verbatim>\<open>to_hex\<close> prints gives the
  bytes back, for every byte sequence, and the text has two characters for each byte.
\<close>

theorem from_hex_to_hex:
  "from_hex (to_hex data) = Inr data \<and> length (to_hex data) = 2 * length data"
  by (simp add: from_hex_def from_hex_loop_to_hex)

text \<open>
  The CRC-16 computed in the source's 32-bit accumulator is the CRC-16 of a sixteen-bit
  register: the accumulator stays below \<open>2 ^ 16\<close> after every message, so the final narrowing cast
  drops no bit.
\<close>

theorem crc16_refines_register:
  "crc16 data = crc16_spec data \<and> unat (fold (crc_byte 0x8408) data 0x6363) < 2 ^ 16"
proof -
  have start: "take_bit 16 (0x6363 :: u32) = 0x6363" by simp
  let ?register = "fold (crc_byte 0x8408) data 0x6363"
  have "unat ?register = take_bit 16 (unat ?register)"
    using conjunct1 [OF crc16_fold [OF start, of data]] by (simp flip: unsigned_take_bit_eq)
  then have "unat ?register < 2 ^ 16" by (metis take_bit_nat_less_exp)
  moreover have "crc16 data = crc16_spec data"
    using conjunct2 [OF crc16_fold [OF start, of data]] by (simp add: crc16_def crc16_spec_def)
  ultimately show ?thesis by simp
qed

text \<open>
  The DESFire CRC-32 detects every change confined to one byte: two messages that differ
  in exactly one position have different checksums, wherever the position is.
\<close>

theorem crc32_detects_single_byte:
  "crc32 (before @ a # after) = crc32 (before @ b # after) \<longleftrightarrow> a = b"
proof
  assume eq: "crc32 (before @ a # after) = crc32 (before @ b # after)"
  have top: "bit (0xEDB88320 :: u32) 31" by simp
  let ?c = "fold (crc_byte 0xEDB88320) before 0xFFFFFFFF"
  have "crc_byte 0xEDB88320 a ?c = crc_byte 0xEDB88320 b ?c"
    by (rule crc_fold_inject [OF top, of after]) (use eq in \<open>simp add: crc32_def\<close>)
  from crc_byte_inject [OF top this] show "a = b" by simp
qed simp

text \<open>
  The comparison without an early return decides equality of byte sequences: it answers
  true exactly when lengths and contents agree.
\<close>

theorem constant_time_equal_correct: "constant_time_equal left right \<longleftrightarrow> left = right"
  by (rule constant_time_equal_iff)

end
