(* ===== verification/Environment.thy ===== *)
theory Environment
  imports Foundation
begin

text \<open>
  The world around the protocol core: the reader transport of
  \<^verbatim>\<open>foundation/include/desfire/foundation/transport.hpp\<close>, the steady clock, cancellation
  tokens, the random source and the cryptographic primitives of
  \<^verbatim>\<open>crypto_provider.hpp\<close>. All of them are injected by the SDK's caller, so they are
  parameters of the model: a record of functions over an arbitrary environment state. Reading the
  clock, the connection generation or a cancellation token may change that state, because the world
  moves between two reads; a card removal or a cancellation can therefore become visible at every
  read. The block-cipher and MAC primitives are functions of their inputs that may also fail or
  throw.
\<close>

section \<open>Transport contract\<close>

text \<open>\<^verbatim>\<open>enum class Framing\<close> of the transport.\<close>

datatype framing = Framing_native | Framing_iso7816

text \<open>\<^verbatim>\<open>struct TransportCapabilities\<close>: hard bounds of the opened connection.\<close>

record transport_capabilities =
  cap_framing :: framing
  max_transmit :: nat
  max_receive :: nat
  max_native_frame :: nat
  can_cancel :: bool
  can_reset :: bool
  hardware_timing :: bool

type_synonym stop_token = nat

text \<open>\<^verbatim>\<open>struct ExchangeOptions\<close>; the timeout counts milliseconds.\<close>

record exchange_options =
  opt_timeout :: int
  opt_stop :: stop_token

text \<open>
  \<^verbatim>\<open>class CardTransport\<close> together with the clock (nanoseconds of
  \<^verbatim>\<open>std::chrono::steady_clock\<close>), the cancellation tokens and
  \<^verbatim>\<open>CryptoProvider::random\<close>.
\<close>

record 's environment =
  env_capabilities :: transport_capabilities
  env_generation :: "'s \<Rightarrow> u64 \<times> 's"
  env_exchange :: "bytes \<Rightarrow> exchange_options \<Rightarrow> 's \<Rightarrow> bytes result dep \<times> 's"
  env_reset :: "'s \<Rightarrow> unit result dep \<times> 's"
  env_cancel :: "'s \<Rightarrow> 's"
  env_now :: "'s \<Rightarrow> int \<times> 's"
  env_stop_requested :: "stop_token \<Rightarrow> 's \<Rightarrow> bool \<times> 's"
  env_random :: "nat \<Rightarrow> 's \<Rightarrow> bytes result dep \<times> 's"

section \<open>Cryptographic primitives\<close>

text \<open>\<^verbatim>\<open>enum class Cipher\<close> with its key and block widths.\<close>

datatype cipher = aes128 | aes192 | aes256 | des | tdes2 | tdes3

fun key_size :: "cipher \<Rightarrow> nat" where
  "key_size des = 8"
| "key_size aes128 = 16"
| "key_size tdes2 = 16"
| "key_size aes192 = 24"
| "key_size tdes3 = 24"
| "key_size aes256 = 32"

definition block_size :: "cipher \<Rightarrow> nat" where
  "block_size c = (if c = des \<or> c = tdes2 \<or> c = tdes3 then 8 else 16)"

text \<open>\<^verbatim>\<open>class CryptoProvider\<close>: \<open>cbc cipher key iv input encrypt\<close>, \<open>cmac cipher key input\<close>.\<close>

record crypto_provider =
  cbc :: "cipher \<Rightarrow> bytes \<Rightarrow> bytes \<Rightarrow> bytes \<Rightarrow> bool \<Rightarrow> bytes result dep"
  cmac :: "cipher \<Rightarrow> bytes \<Rightarrow> bytes \<Rightarrow> bytes result dep"
  verify_ecdsa :: "String.literal \<Rightarrow> bytes \<Rightarrow> bytes \<Rightarrow> bytes \<Rightarrow> bool result dep"

text \<open>
  The documented behaviour of a provider for AES-128, the cipher of the protocols, on inputs of the right
  widths: CBC preserves the length and decryption with the same key and initial vector inverts
  encryption; CMAC returns one block. A provider may refuse to encrypt more bytes than \<^verbatim>\<open>int\<close> counts with
  room for two blocks, as the one of the SDK does.
\<close>

abbreviation largest_cipher_input :: nat where
  "largest_cipher_input \<equiv> 2147483615"

definition cbc_sound :: "crypto_provider \<Rightarrow> bool" where
  "cbc_sound C \<longleftrightarrow>
     (\<forall>key iv input. length key = 16 \<and> length iv = 16 \<and> length input mod 16 = 0 \<and>
        length input \<le> largest_cipher_input \<longrightarrow>
        (\<exists>out. cbc C aes128 key iv input True = Returned (Inr out) \<and> length out = length input \<and>
           cbc C aes128 key iv out False = Returned (Inr input)))"

definition cmac_sound :: "crypto_provider \<Rightarrow> bool" where
  "cmac_sound C \<longleftrightarrow>
     (\<forall>key input. length key = 16 \<longrightarrow>
        (\<exists>mac. cmac C aes128 key input = Returned (Inr mac) \<and> length mac = 16))"

text \<open>
  A provider that satisfies both, for concrete evaluation: blocks are masked with the first key byte
  and the MAC mixes the key and the input into one byte.
\<close>

definition sample_provider :: crypto_provider where
  "sample_provider =
     \<lparr>cbc = (\<lambda>c key iv input encrypt. Returned (Inr (map (\<lambda>b. b XOR (hd key XOR 0x5A)) input))),
      cmac = (\<lambda>c key input. Returned (Inr
        (map (\<lambda>i. foldl (\<lambda>a b. a + a + b + 1) (hd key) input + of_nat i) [0..<block_size c]))),
      verify_ecdsa = (\<lambda>curve key message signature. Returned (Inr (signature = message)))\<rparr>"

section \<open>Observing the transport\<close>

text \<open>
  A transport that records every frame handed to it, with the transport's answer. The recording
  does not change what the wrapped environment does; it only makes the physical exchanges of an
  operation visible, so that theorems can speak about them.
\<close>

type_synonym exchange_log = "(bytes \<times> bytes result dep) list"

definition observe :: "('s \<Rightarrow> 'a \<times> 's) \<Rightarrow> ('s \<times> exchange_log) \<Rightarrow> 'a \<times> ('s \<times> exchange_log)" where
  "observe f = (\<lambda>(s, log). case f s of (a, s') \<Rightarrow> (a, (s', log)))"

definition recording :: "'s environment \<Rightarrow> ('s \<times> exchange_log) environment" where
  "recording E =
     \<lparr>env_capabilities = env_capabilities E,
      env_generation = observe (env_generation E),
      env_exchange = (\<lambda>frame options (s, log).
        case env_exchange E frame options s of (r, s') \<Rightarrow> (r, (s', log @ [(frame, r)]))),
      env_reset = observe (env_reset E),
      env_cancel = (\<lambda>(s, log). (env_cancel E s, log)),
      env_now = observe (env_now E),
      env_stop_requested = (\<lambda>token. observe (env_stop_requested E token)),
      env_random = (\<lambda>n. observe (env_random E n))\<rparr>"

definition delivered :: "bytes \<times> bytes result dep \<Rightarrow> bool" where
  "delivered entry = (case snd entry of Returned (Inr _) \<Rightarrow> True | _ \<Rightarrow> False)"

definition not_sent_entry :: "bytes \<times> bytes result dep \<Rightarrow> bool" where
  "not_sent_entry entry =
     (case snd entry of Returned (Inl e) \<Rightarrow> err_outcome e = OC_not_sent | _ \<Rightarrow> False)"

section \<open>Recording lemmas\<close>

lemma recording_capabilities [simp]: "env_capabilities (recording E) = env_capabilities E"
  by (simp add: recording_def)

lemma recording_reads [simp]:
  "env_generation (recording E) (s, log) = (case env_generation E s of (g, s') \<Rightarrow> (g, (s', log)))"
  "env_now (recording E) (s, log) = (case env_now E s of (t, s') \<Rightarrow> (t, (s', log)))"
  "env_stop_requested (recording E) token (s, log) =
     (case env_stop_requested E token s of (b, s') \<Rightarrow> (b, (s', log)))"
  "env_random (recording E) n (s, log) = (case env_random E n s of (r, s') \<Rightarrow> (r, (s', log)))"
  by (simp_all add: recording_def observe_def)

lemma recording_exchange [simp]:
  "env_exchange (recording E) frame options (s, log) =
     (case env_exchange E frame options s of (r, s') \<Rightarrow> (r, (s', log @ [(frame, r)])))"
  by (simp add: recording_def)

lemma not_sent_not_delivered: "not_sent_entry entry \<Longrightarrow> \<not> delivered entry"
  by (auto simp: not_sent_entry_def delivered_def split: dep.splits sum.splits)

section \<open>AES with a sound provider\<close>

lemma cbc_encrypt_block:
  assumes "cbc_sound C" "length key = 16" "length iv = 16" "length input mod 16 = 0"
    "length input \<le> largest_cipher_input"
  obtains out where "cbc C aes128 key iv input True = Returned (Inr out)" "length out = length input"
    "cbc C aes128 key iv out False = Returned (Inr input)"
  using assms unfolding cbc_sound_def by metis

lemma cmac_block:
  assumes "cmac_sound C" "length key = 16"
  obtains mac where "cmac C aes128 key input = Returned (Inr mac)" "length mac = 16"
  using assms unfolding cmac_sound_def by metis

section \<open>The sample provider\<close>

lemma sample_provider_sound: "cbc_sound sample_provider" "cmac_sound sample_provider"
proof -
  have inverse: "(b XOR m) XOR m = (b :: byte)" for b m by (simp add: xor.assoc)
  show "cbc_sound sample_provider"
    by (simp add: cbc_sound_def sample_provider_def comp_def inverse)
  show "cmac_sound sample_provider"
    by (simp add: cmac_sound_def sample_provider_def block_size_def)
qed

end
