(* ===== verification/Native_Codec.thy ===== *)
theory Native_Codec
  imports Environment
begin

text \<open>
  Codecs for one DESFire native frame, \<^verbatim>\<open>core/src/native/raw/codec.cpp\<close>: direct framing
  places the instruction byte first; ISO-wrapped framing is the proprietary short APDU
  \<open>90 INS 00 00 [Lc Data] 00\<close>, answered by \<open>Data 91 SW2\<close>. The locale \<open>frame_codec\<close>
  states what the channel relies on (what is encoded, how much overhead a frame adds, when encoding
  can fail, which responses decode), and both framings are interpretations of it.
\<close>

section \<open>Messages\<close>

text \<open>\<^verbatim>\<open>enum class Framing\<close> of \<^verbatim>\<open>native/framing.hpp\<close>.\<close>

datatype native_framing = direct | iso_wrapped

text \<open>\<^verbatim>\<open>struct Response\<close> of \<^verbatim>\<open>native/raw/message.hpp\<close>.\<close>

record raw_response =
  rs_status :: byte
  rs_data :: bytes

section \<open>Codecs\<close>

definition encode_direct :: "byte \<Rightarrow> bytes \<Rightarrow> bytes result" where
  "encode_direct command data = Inr ([command] @ data)"

definition decode_direct :: "bytes \<Rightarrow> raw_response result" where
  "decode_direct frame =
     (case frame of
        [] \<Rightarrow> Inl (unknown_error EC_malformed_response (STR ''Direct native response has no status''))
      | status # data \<Rightarrow> Inr \<lparr>rs_status = status, rs_data = data\<rparr>)"

definition encode_iso_wrapped :: "byte \<Rightarrow> bytes \<Rightarrow> bytes result" where
  "encode_iso_wrapped command data =
     (if length data > 255
      then Inl (invalid (STR ''ISO-wrapped native frame exceeds short APDU capacity''))
      else Inr ([0x90, command, 0x00, 0x00]
                @ (if data \<noteq> [] then [word_of_nat (length data)] @ data else []) @ [0x00]))"

definition decode_iso_wrapped :: "bytes \<Rightarrow> raw_response result" where
  "decode_iso_wrapped frame =
     (if length frame < 2 \<or> frame ! (length frame - 2) \<noteq> 0x91
      then Inl (unknown_error EC_malformed_response
                 (STR ''ISO-wrapped native response lacks 91xx status''))
      else Inr \<lparr>rs_status = last frame, rs_data = take (length frame - 2) frame\<rparr>)"

definition encode :: "byte \<Rightarrow> bytes \<Rightarrow> native_framing \<Rightarrow> bytes result" where
  "encode command data framing =
     (if framing = direct then encode_direct command data else encode_iso_wrapped command data)"

definition decode :: "bytes \<Rightarrow> native_framing \<Rightarrow> raw_response result" where
  "decode frame framing =
     (if framing = direct then decode_direct frame else decode_iso_wrapped frame)"

text \<open>
  The card's side of the two framings, the specification the codecs are checked against: how a card
  reads a command frame and how it presents a status and response data.
\<close>

definition card_parse_direct :: "bytes \<Rightarrow> (byte \<times> bytes) option" where
  "card_parse_direct frame = (case frame of [] \<Rightarrow> None | c # d \<Rightarrow> Some (c, d))"

definition card_parse_iso_wrapped :: "bytes \<Rightarrow> (byte \<times> bytes) option" where
  "card_parse_iso_wrapped frame =
     (case frame of
        cla # ins # p1 # p2 # body \<Rightarrow>
          if cla \<noteq> 0x90 \<or> p1 \<noteq> 0 \<or> p2 \<noteq> 0 then None
          else (case body of
                  [le] \<Rightarrow> if le = 0 then Some (ins, []) else None
                | lc # rest \<Rightarrow>
                    if rest \<noteq> [] \<and> unat lc = length rest - 1 \<and> lc \<noteq> 0 \<and> last rest = 0
                    then Some (ins, butlast rest) else None
                | [] \<Rightarrow> None)
      | _ \<Rightarrow> None)"

definition card_present_direct :: "raw_response \<Rightarrow> bytes" where
  "card_present_direct r = rs_status r # rs_data r"

definition card_present_iso_wrapped :: "raw_response \<Rightarrow> bytes" where
  "card_present_iso_wrapped r = rs_data r @ [0x91, rs_status r]"

section \<open>The contract of a framing\<close>

locale frame_codec =
  fixes enc :: "byte \<Rightarrow> bytes \<Rightarrow> bytes result"
    and dec :: "bytes \<Rightarrow> raw_response result"
    and card_parse :: "bytes \<Rightarrow> (byte \<times> bytes) option"
    and card_present :: "raw_response \<Rightarrow> bytes"
    and overhead :: nat
    and capacity :: "nat option"
  assumes enc_defined:
      "(case capacity of None \<Rightarrow> True | Some n \<Rightarrow> length d \<le> n) \<Longrightarrow> \<exists>f. enc c d = Inr f"
    and enc_parse: "enc c d = Inr f \<Longrightarrow> card_parse f = Some (c, d)"
    and enc_length: "enc c d = Inr f \<Longrightarrow> length f \<le> overhead + length d"
    and enc_error: "enc c d = Inl e \<Longrightarrow> err_outcome e = OC_not_sent"
    and dec_present: "dec (card_present r) = Inr r"
    and dec_inverse: "dec f = Inr r \<Longrightarrow> card_present r = f"
    and dec_error: "dec f = Inl e \<Longrightarrow> err_outcome e = OC_unknown"
begin

lemma enc_inject:
  assumes "enc c d = Inr f" and "enc c' d' = Inr f"
  shows "c' = c \<and> d' = d"
  using enc_parse [OF assms(1)] enc_parse [OF assms(2)] by simp

lemma dec_iff: "dec f = Inr r \<longleftrightarrow> f = card_present r"
  using dec_present [of r] dec_inverse [of f r] by auto

lemma present_inject: "card_present r = card_present r' \<Longrightarrow> r = r'"
  by (metis dec_present sum.inject(2))

end

section \<open>Both framings satisfy the contract\<close>

lemma decode_card_present_iso: "decode_iso_wrapped (card_present_iso_wrapped r) = Inr r"
  by (simp add: decode_iso_wrapped_def card_present_iso_wrapped_def)

lemma decode_iso_wrapped_Inr:
  "decode_iso_wrapped f = Inr r \<longleftrightarrow> f = card_present_iso_wrapped r"
proof
  assume dec: "decode_iso_wrapped f = Inr r"
  then have len: "2 \<le> length f" by (simp add: decode_iso_wrapped_def split: if_splits)
  obtain g a b where f: "f = g @ [a, b]" using len by (rule two_at_end)
  have "a = 0x91" "r = \<lparr>rs_status = b, rs_data = g\<rparr>"
    using dec unfolding f by (simp_all add: decode_iso_wrapped_def nth_append split: if_splits)
  then show "f = card_present_iso_wrapped r" by (simp add: f card_present_iso_wrapped_def)
qed (simp add: decode_card_present_iso)

lemma card_parse_encode_iso_wrapped:
  assumes "encode_iso_wrapped c d = Inr f"
  shows "card_parse_iso_wrapped f = Some (c, d)"
proof (cases d)
  case Nil
  then show ?thesis using assms by (auto simp: encode_iso_wrapped_def card_parse_iso_wrapped_def)
next
  case (Cons x xs)
  have len: "length d \<le> 255" using assms by (simp add: encode_iso_wrapped_def split: if_splits)
  then have u: "unat (word_of_nat (length d) :: byte) = length d"
    by (simp add: unsigned_of_nat take_bit_nat_eq_self)
  then have "(word_of_nat (length d) :: byte) \<noteq> 0" using Cons by (metis length_0_conv list.simps(3) unat_0)
  moreover have "f = [0x90, c, 0, 0] @ [word_of_nat (length d)] @ (d @ [0])"
    using assms len Cons by (simp add: encode_iso_wrapped_def)
  ultimately show ?thesis
    using u Cons by (simp add: card_parse_iso_wrapped_def split: list.splits)
qed

interpretation direct_codec: frame_codec encode_direct decode_direct card_parse_direct
  card_present_direct 1 None
  by unfold_locales
    (auto simp: encode_direct_def decode_direct_def card_parse_direct_def card_present_direct_def
      split: list.splits)

interpretation iso_wrapped_codec: frame_codec encode_iso_wrapped decode_iso_wrapped
  card_parse_iso_wrapped card_present_iso_wrapped 6 "Some 255"
proof unfold_locales
  show "(case Some 255 of None \<Rightarrow> True | Some n \<Rightarrow> length d \<le> n) \<Longrightarrow> \<exists>f. encode_iso_wrapped c d = Inr f"
    for c d by (simp add: encode_iso_wrapped_def)
qed (auto simp: card_parse_encode_iso_wrapped decode_iso_wrapped_Inr, 
     auto simp: encode_iso_wrapped_def decode_iso_wrapped_def split: if_splits)

end
