(* ===== verification/Session_Contract.thy ===== *)
theory Session_Contract
  imports Native_Codec
begin

text \<open>
  The vocabulary shared by the native secure sessions and their clients: communication modes
  (\<^verbatim>\<open>model/communication.hpp\<close>), the checked view of a command that secure messaging consumes
  (\<^verbatim>\<open>native/secure/request.hpp\<close>), and the operations the template
  \<^verbatim>\<open>exchange_protected\<close> calls on a session. The locale \<open>secure_session\<close> states what
  every session type promises to that client; it is interpreted for the EV2 session in
  \<open>Ev2_Session\<close> and for the standard AES session in \<open>Standard_Aes_Session\<close>, and its
  client lemmas are proved in \<open>Secure_Channel\<close>.
\<close>

section \<open>Modes and requests\<close>

text \<open>
  \<^verbatim>\<open>enum class CommunicationMode : Byte\<close>. A value of the type outside the three enumerators
  is \<open>Mode_other\<close>: the source rejects such values explicitly.
\<close>

datatype communication_mode = Mode_plain | Mode_mac | Mode_full | Mode_other byte

fun mode_code :: "communication_mode \<Rightarrow> byte" where
  "mode_code Mode_plain = 0"
| "mode_code Mode_mac = 1"
| "mode_code Mode_full = 3"
| "mode_code (Mode_other b) = b"

text \<open>\<^verbatim>\<open>static_cast<CommunicationMode>(byte)\<close>.\<close>

definition mode_of_code :: "byte \<Rightarrow> communication_mode" where
  "mode_of_code b =
     (if b = 0 then Mode_plain else if b = 1 then Mode_mac else if b = 3 then Mode_full
      else Mode_other b)"

text \<open>\<^verbatim>\<open>struct Request\<close> of the secure channel.\<close>

record secure_request =
  sq_command :: byte
  sq_header :: bytes
  sq_data :: bytes
  sq_request_mode :: communication_mode
  sq_response_mode :: communication_mode
  sq_minimum_response :: nat
  sq_maximum_response :: nat
  sq_first_frame_data_size :: "nat option"
  sq_single_continuation_frame :: bool
  sq_invalidates_session :: bool

section \<open>Session operations\<close>

text \<open>The members of a session class that \<^verbatim>\<open>exchange_protected<Session>\<close> calls.\<close>

record 't session_ops =
  so_prepare_plain :: "byte \<Rightarrow> bytes \<Rightarrow> bytes \<Rightarrow> 't \<Rightarrow> bytes result \<times> 't"
  so_prepare_mac :: "byte \<Rightarrow> bytes \<Rightarrow> bytes \<Rightarrow> 't \<Rightarrow> bytes result \<times> 't"
  so_prepare_full :: "byte \<Rightarrow> bytes \<Rightarrow> bytes \<Rightarrow> 't \<Rightarrow> bytes result \<times> 't"
  so_accept_plain :: "raw_response \<Rightarrow> 't \<Rightarrow> bytes result \<times> 't"
  so_verify :: "raw_response \<Rightarrow> 't \<Rightarrow> bytes result \<times> 't"
  so_verify_full :: "raw_response \<Rightarrow> nat option \<Rightarrow> 't \<Rightarrow> bytes result \<times> 't"
  so_invalidate :: "'t \<Rightarrow> 't"

text \<open>The choice of the preparation by the request mode.\<close>

definition session_prepare ::
  "'t session_ops \<Rightarrow> communication_mode \<Rightarrow> byte \<Rightarrow> bytes \<Rightarrow> bytes \<Rightarrow> 't \<Rightarrow> bytes result \<times> 't" where
  "session_prepare ops mode =
     (if mode = Mode_plain then so_prepare_plain ops
      else if mode = Mode_mac then so_prepare_mac ops
      else so_prepare_full ops)"

text \<open>The choice of the verification by the response mode.\<close>

definition session_answer ::
  "'t session_ops \<Rightarrow> communication_mode \<Rightarrow> raw_response \<Rightarrow> nat option \<Rightarrow> 't \<Rightarrow> bytes result \<times> 't" where
  "session_answer ops mode response expected =
     (if mode = Mode_plain then so_accept_plain ops response
      else if mode = Mode_mac then so_verify ops response
      else so_verify_full ops response expected)"

section \<open>Contract\<close>

text \<open>
  \<open>inv\<close> is the session's data invariant; \<open>ready\<close> allows a new command; \<open>awaiting\<close> tells for
  which response modes the answer to the prepared command is accepted; a \<open>dead\<close> session holds no
  secret and refuses every further command.
\<close>

locale secure_session =
  fixes ops :: "'t session_ops"
    and inv :: "'t \<Rightarrow> bool"
    and ready :: "'t \<Rightarrow> bool"
    and awaiting :: "'t \<Rightarrow> communication_mode \<Rightarrow> bool"
    and dead :: "'t \<Rightarrow> bool"
  assumes invalidate_dead: "inv s \<Longrightarrow> inv (so_invalidate ops s) \<and> dead (so_invalidate ops s)"
    and dead_not_ready: "dead s \<Longrightarrow> \<not> ready s"
    and prepared: "inv s \<Longrightarrow> session_prepare ops mode c h d s = (Inr w, s')
      \<Longrightarrow> ready s \<and> inv s' \<and> ((mode = Mode_plain) = (mode' = Mode_plain) \<longrightarrow> awaiting s' mode')"
    and prepare_failed: "inv s \<Longrightarrow> session_prepare ops mode c h d s = (Inl e, s') \<Longrightarrow> inv s'"
    and prepare_refused: "\<not> ready s
      \<Longrightarrow> \<exists>e. session_prepare ops mode c h d s = (Inl e, s) \<and>
            err_code e = EC_session_invalid \<and> err_outcome e = OC_not_sent"
    and answered: "inv s \<Longrightarrow> session_answer ops mode resp n s = (Inr d, s')
      \<Longrightarrow> rs_status resp = 0 \<and> ready s' \<and> inv s' \<and> length d \<le> length (rs_data resp)"
    and answer_failed: "inv s \<Longrightarrow> session_answer ops mode resp n s = (Inl e, s') \<Longrightarrow> inv s'"
    and answer_outcome: "inv s \<Longrightarrow> awaiting s mode \<Longrightarrow> session_answer ops mode resp n s = (Inl e, s')
      \<Longrightarrow> err_outcome e \<noteq> OC_not_sent \<and> dead s'"

section \<open>Mode codes\<close>

lemma mode_code_of_code [simp]: "mode_code (mode_of_code b) = b"
  by (simp add: mode_of_code_def)

end
