(* ===== verification/Ev2_Session.thy ===== *)
theory Ev2_Session
  imports Session_Contract
begin

text \<open>
  EV2 secure messaging, \<^verbatim>\<open>core/src/security/ev2/session.cpp\<close>: Plain, MAC and Full protection
  of commands, verification and decryption of responses, the command counter and the wiping of a
  session that must not be used again. The theorems show that the operations keep the session's
  invariant, that a command counter is never used twice in the life of a session, that a response is
  accepted exactly when its MAC is the one of the expected counter, transaction and data, that a
  rejected response leaves a wiped session, and that Full data round trips.
\<close>

section \<open>Session state\<close>

text \<open>\<^verbatim>\<open>struct AuthenticationInfo\<close> of \<^verbatim>\<open>model/authentication.hpp\<close>.\<close>

record authentication_info =
  transaction_identifier :: bytes
  picc_capabilities :: bytes
  pcd_capabilities :: bytes

text \<open>\<^verbatim>\<open>struct AuthenticationMaterial\<close>.\<close>

record ev2_material =
  mat_encryption_key :: bytes
  mat_mac_key :: bytes
  mat_information :: authentication_info

text \<open>\<^verbatim>\<open>enum class Phase\<close>.\<close>

datatype ev2_phase = Ev2_ready | Ev2_awaiting_response | Ev2_awaiting_plain_response | Ev2_invalid

text \<open>The members of \<^verbatim>\<open>class Session\<close>; the provider is an argument of its operations.\<close>

record ev2_session =
  e_encryption_key :: bytes
  e_mac_key :: bytes
  e_authentication :: authentication_info
  e_counter :: u16
  e_phase :: ev2_phase

section \<open>Helpers\<close>

definition ev2_secret_output :: "bytes result \<Rightarrow> nat \<Rightarrow> bytes result" where
  "ev2_secret_output r expected =
     (case r of
        Inl e \<Rightarrow> Inl e
      | Inr out \<Rightarrow>
          if length out \<noteq> expected
          then Inl (local_error EC_crypto (STR ''EV2 secure-message primitive returned an invalid length''))
          else Inr out)"

definition truncate_mac :: "bytes \<Rightarrow> bytes result" where
  "truncate_mac full_mac =
     (if length full_mac \<noteq> 16 then Inl (local_error EC_crypto (STR ''EV2 CMAC has an invalid length''))
      else Inr (map (\<lambda>i. full_mac ! (i * 2 + 1)) [0..<8]))"

definition append_counter :: "bytes \<Rightarrow> u16 \<Rightarrow> bytes" where
  "append_counter out counter = out @ [ucast counter, ucast (drop_bit 8 counter)]"

definition pad_method_2 :: "bytes \<Rightarrow> bytes result" where
  "pad_method_2 data =
     (if length data > size_max - 16
      then Inl (invalid (STR ''EV2 Full command data is too large to pad''))
      else let unrounded_size = length data + 1;
               size = ((unrounded_size + 16 - 1) div 16) * 16
           in Inr ((data @ replicate (size - length data) 0)[length data := 0x80]))"

text \<open>The IV input block of a direction: two label bytes, the transaction identifier, the counter.\<close>

definition iv_input :: "byte \<Rightarrow> byte \<Rightarrow> ev2_session \<Rightarrow> bytes" where
  "iv_input a b s =
     [a, b] @ transaction_identifier (e_authentication s)
       @ [ucast (e_counter s), ucast (drop_bit 8 (e_counter s))] @ replicate 8 0"

section \<open>Operations\<close>

definition ev2_invalidate :: "ev2_session \<Rightarrow> ev2_session" where
  "ev2_invalidate s =
     s\<lparr>e_encryption_key := wipe (e_encryption_key s), e_mac_key := wipe (e_mac_key s),
       e_counter := 0, e_phase := Ev2_invalid\<rparr>"

definition ev2_create :: "ev2_material \<Rightarrow> u16 \<Rightarrow> ev2_session result" where
  "ev2_create material counter =
     (if length (mat_encryption_key material) \<noteq> 16 \<or> length (mat_mac_key material) \<noteq> 16
      then Inl (invalid (STR ''EV2 secure session requires AES provider and two 16-byte keys''))
      else Inr \<lparr>e_encryption_key = mat_encryption_key material, e_mac_key = mat_mac_key material,
                e_authentication = mat_information material, e_counter = counter,
                e_phase = Ev2_ready\<rparr>)"

definition ev2_not_ready :: error where
  "ev2_not_ready = local_error EC_session_invalid (STR ''EV2 secure session is not ready'')"

definition ev2_exhausted :: error where
  "ev2_exhausted =
     local_error EC_counter_exhausted (STR ''EV2 command counter exhausted; authenticate before more I/O'')"

definition ev2_prepare_plain ::
  "byte \<Rightarrow> bytes \<Rightarrow> bytes \<Rightarrow> ev2_session \<Rightarrow> bytes result \<times> ev2_session" where
  "ev2_prepare_plain command header data s =
     (if e_phase s \<noteq> Ev2_ready then (Inl ev2_not_ready, s)
      else if e_counter s = 0xFFFF then (Inl ev2_exhausted, ev2_invalidate s)
      else if length header > size_max - length data
      then (Inl (invalid (STR ''EV2 Plain command data is too large'')), s)
      else (Inr (header @ data),
            s\<lparr>e_counter := e_counter s + 1, e_phase := Ev2_awaiting_plain_response\<rparr>))"

definition ev2_accept_plain_response ::
  "raw_response \<Rightarrow> ev2_session \<Rightarrow> bytes result \<times> ev2_session" where
  "ev2_accept_plain_response response s =
     (if e_phase s \<noteq> Ev2_awaiting_plain_response
      then (Inl (local_error EC_session_invalid (STR ''EV2 secure session is not awaiting a Plain response'')), s)
      else if rs_status response \<noteq> 0
      then (Inl (if rs_status response = 0xAF
                 then make_error EC_malformed_response (STR ''EV2 Plain response is not terminal'')
                        OC_unknown (ucast (rs_status response))
                 else make_error EC_card_rejected (STR ''Card rejected EV2 Plain command'')
                        OC_rejected (ucast (rs_status response))),
            ev2_invalidate s)
      else (Inr (rs_data response), s\<lparr>e_phase := Ev2_ready\<rparr>))"

text \<open>The bytes a command MAC or a response MAC covers.\<close>

definition ev2_mac_input :: "byte \<Rightarrow> bytes \<Rightarrow> ev2_session \<Rightarrow> bytes" where
  "ev2_mac_input command payload s =
     append_counter [command] (e_counter s) @ transaction_identifier (e_authentication s) @ payload"

definition ev2_prepare_mac ::
  "crypto_provider \<Rightarrow> byte \<Rightarrow> bytes \<Rightarrow> bytes \<Rightarrow> ev2_session \<Rightarrow> bytes result \<times> ev2_session" where
  "ev2_prepare_mac C command header data s =
     (if e_phase s \<noteq> Ev2_ready then (Inl ev2_not_ready, s)
      else if e_counter s = 0xFFFF then (Inl ev2_exhausted, ev2_invalidate s)
      else if length data > size_max - 8 \<or> length header > size_max - 8 - length data
      then (Inl (invalid (STR ''EV2 secure-message MAC input is too large'')), s)
      else (case cmac C aes128 (e_mac_key s) (ev2_mac_input command (header @ data) s) of
              Threw \<Rightarrow> (Inl (local_error EC_internal (STR ''EV2 command MAC construction failed'')),
                         ev2_invalidate s)
            | Returned r \<Rightarrow>
                (case ev2_secret_output r 16 of
                   Inl e \<Rightarrow> (Inl e, ev2_invalidate s)
                 | Inr full_mac \<Rightarrow>
                     (case truncate_mac full_mac of
                        Inl e \<Rightarrow> (Inl e, ev2_invalidate s)
                      | Inr truncated \<Rightarrow>
                          (Inr (header @ data @ truncated),
                           s\<lparr>e_counter := e_counter s + 1, e_phase := Ev2_awaiting_response\<rparr>)))))"

definition ev2_prepare_full ::
  "crypto_provider \<Rightarrow> byte \<Rightarrow> bytes \<Rightarrow> bytes \<Rightarrow> ev2_session \<Rightarrow> bytes result \<times> ev2_session" where
  "ev2_prepare_full C command clear_header clear_data s =
     (if e_phase s \<noteq> Ev2_ready then (Inl ev2_not_ready, s)
      else if e_counter s = 0xFFFF then (Inl ev2_exhausted, ev2_invalidate s)
      else if clear_data = [] then ev2_prepare_mac C command clear_header [] s
      else (case pad_method_2 clear_data of
              Inl e \<Rightarrow> (Inl e, s)
            | Inr padded \<Rightarrow>
                (case cbc C aes128 (e_encryption_key s) (replicate 16 0) (iv_input 0xA5 0x5A s) True of
                   Threw \<Rightarrow> (Inl (local_error EC_internal (STR ''EV2 Full command protection failed'')),
                              ev2_invalidate s)
                 | Returned r \<Rightarrow>
                     (case ev2_secret_output r 16 of
                        Inl e \<Rightarrow> (Inl e, ev2_invalidate s)
                      | Inr iv \<Rightarrow>
                          (case cbc C aes128 (e_encryption_key s) iv padded True of
                             Threw \<Rightarrow> (Inl (local_error EC_internal
                                         (STR ''EV2 Full command protection failed'')), ev2_invalidate s)
                           | Returned r2 \<Rightarrow>
                               (case ev2_secret_output r2 (length padded) of
                                  Inl e \<Rightarrow> (Inl e, ev2_invalidate s)
                                | Inr ciphertext \<Rightarrow>
                                    ev2_prepare_mac C command clear_header ciphertext s))))))"

definition ev2_verify_response ::
  "crypto_provider \<Rightarrow> raw_response \<Rightarrow> ev2_session \<Rightarrow> bytes result \<times> ev2_session" where
  "ev2_verify_response C response s =
     (if e_phase s \<noteq> Ev2_awaiting_response
      then (Inl (local_error EC_session_invalid (STR ''EV2 secure session is not awaiting a response'')), s)
      else if rs_status response \<noteq> 0
      then (Inl (if rs_status response = 0xAF
                 then make_error EC_malformed_response (STR ''EV2 protected response is not terminal'')
                        OC_unknown (ucast (rs_status response))
                 else make_error EC_card_rejected (STR ''Card rejected EV2 protected command'')
                        OC_rejected (ucast (rs_status response))),
            ev2_invalidate s)
      else if length (rs_data response) < 8
      then (Inl (unknown_error EC_integrity (STR ''EV2 protected response has no complete MAC'')),
            ev2_invalidate s)
      else let data_size = length (rs_data response) - 8;
               data = take data_size (rs_data response);
               received_mac = drop data_size (rs_data response)
      in (case cmac C aes128 (e_mac_key s) (ev2_mac_input (rs_status response) data s) of
            Threw \<Rightarrow> (Inl (unknown_error EC_internal (STR ''EV2 response MAC verification failed'')),
                       ev2_invalidate s)
          | Returned r \<Rightarrow>
              (case ev2_secret_output r 16 of
                 Inl e \<Rightarrow> (Inl (with_unknown_outcome e), ev2_invalidate s)
               | Inr full_mac \<Rightarrow>
                   (case truncate_mac full_mac of
                      Inl e \<Rightarrow> (Inl e, ev2_invalidate s)
                    | Inr expected_mac \<Rightarrow>
                        if \<not> constant_time_equal received_mac expected_mac
                        then (Inl (unknown_error EC_integrity
                                    (STR ''EV2 protected response MAC verification failed'')), ev2_invalidate s)
                        else (Inr data, s\<lparr>e_phase := Ev2_ready\<rparr>)))))"

text \<open>The backward scan for the padding marker.\<close>

fun scan_marker :: "bytes \<Rightarrow> nat \<Rightarrow> nat" where
  "scan_marker padded 0 = 0"
| "scan_marker padded (Suc marker) =
     (if padded ! marker = 0 then scan_marker padded marker else Suc marker)"

text \<open>The checks on a decrypted Full response, after decryption.\<close>

definition ev2_strip_padding :: "bytes \<Rightarrow> nat option \<Rightarrow> bytes result" where
  "ev2_strip_padding padded expected_size =
     (let marker = scan_marker padded (length padded)
      in if marker = 0 \<or> padded ! (marker - 1) \<noteq> 0x80 \<or> length padded - (marker - 1) > 16
         then Inl (unknown_error EC_integrity (STR ''EV2 Full response has invalid method-2 padding''))
         else if (case expected_size of None \<Rightarrow> False | Some n \<Rightarrow> marker - 1 \<noteq> n)
         then Inl (unknown_error EC_integrity
                    (STR ''EV2 Full response plaintext length differs from the request''))
         else Inr (take (marker - 1) padded))"

text \<open>The decryption of a verified ciphertext.\<close>

definition ev2_decrypt_verified ::
  "crypto_provider \<Rightarrow> bytes \<Rightarrow> nat option \<Rightarrow> ev2_session \<Rightarrow> bytes result \<times> ev2_session" where
  "ev2_decrypt_verified C ciphertext expected_size s =
     (case cbc C aes128 (e_encryption_key s) (replicate 16 0) (iv_input 0x5A 0xA5 s) True of
        Threw \<Rightarrow> (Inl (unknown_error EC_internal (STR ''EV2 Full response decryption failed'')),
                   ev2_invalidate s)
      | Returned r \<Rightarrow>
          (case ev2_secret_output r 16 of
             Inl e \<Rightarrow> (Inl (with_unknown_outcome e), ev2_invalidate s)
           | Inr iv \<Rightarrow>
               (case cbc C aes128 (e_encryption_key s) iv ciphertext False of
                  Threw \<Rightarrow> (Inl (unknown_error EC_internal (STR ''EV2 Full response decryption failed'')),
                             ev2_invalidate s)
                | Returned r2 \<Rightarrow>
                    (case ev2_secret_output r2 (length ciphertext) of
                       Inl e \<Rightarrow> (Inl (with_unknown_outcome e), ev2_invalidate s)
                     | Inr padded \<Rightarrow>
                         (case ev2_strip_padding padded expected_size of
                            Inl e \<Rightarrow> (Inl e, ev2_invalidate s)
                          | Inr clear \<Rightarrow> (Inr clear, s))))))"

definition ev2_verify_and_decrypt_full_response ::
  "crypto_provider \<Rightarrow> raw_response \<Rightarrow> nat option \<Rightarrow> ev2_session \<Rightarrow> bytes result \<times> ev2_session" where
  "ev2_verify_and_decrypt_full_response C response expected_size s =
     (case ev2_verify_response C response s of
        (Inl e, s1) \<Rightarrow> (Inl e, s1)
      | (Inr ciphertext, s1) \<Rightarrow>
          if ciphertext = [] \<and> (case expected_size of None \<Rightarrow> True | Some n \<Rightarrow> n = 0) then (Inr [], s1)
          else if ciphertext = [] \<or> length ciphertext mod 16 \<noteq> 0
          then (Inl (unknown_error EC_integrity
                      (STR ''EV2 Full response ciphertext must contain whole AES blocks'')), ev2_invalidate s1)
          else ev2_decrypt_verified C ciphertext expected_size s1)"

section \<open>Specification: the session as a state machine\<close>

datatype ev2_op =
    Prepare_plain byte bytes bytes
  | Prepare_mac byte bytes bytes
  | Prepare_full byte bytes bytes
  | Accept_plain raw_response
  | Verify raw_response
  | Verify_full raw_response "nat option"
  | Invalidate

fun ev2_apply :: "crypto_provider \<Rightarrow> ev2_op \<Rightarrow> ev2_session \<Rightarrow> bytes result \<times> ev2_session" where
  "ev2_apply C (Prepare_plain c h d) s = ev2_prepare_plain c h d s"
| "ev2_apply C (Prepare_mac c h d) s = ev2_prepare_mac C c h d s"
| "ev2_apply C (Prepare_full c h d) s = ev2_prepare_full C c h d s"
| "ev2_apply C (Accept_plain r) s = ev2_accept_plain_response r s"
| "ev2_apply C (Verify r) s = ev2_verify_response C r s"
| "ev2_apply C (Verify_full r n) s = ev2_verify_and_decrypt_full_response C r n s"
| "ev2_apply C Invalidate s = (Inr [], ev2_invalidate s)"

fun is_prepare :: "ev2_op \<Rightarrow> bool" where
  "is_prepare (Prepare_plain c h d) = True"
| "is_prepare (Prepare_mac c h d) = True"
| "is_prepare (Prepare_full c h d) = True"
| "is_prepare _ = False"

text \<open>The command counters consumed by the successful preparations of a run, in order.\<close>

fun consumed_counters :: "crypto_provider \<Rightarrow> ev2_op list \<Rightarrow> ev2_session \<Rightarrow> u16 list" where
  "consumed_counters C [] s = []"
| "consumed_counters C (op # ops) s =
     (case ev2_apply C op s of
        (Inl e, s') \<Rightarrow> consumed_counters C ops s'
      | (Inr w, s') \<Rightarrow>
          if is_prepare op then e_counter s # consumed_counters C ops s'
          else consumed_counters C ops s')"

text \<open>The states a session can reach from its creation.\<close>

inductive ev2_reachable :: "crypto_provider \<Rightarrow> ev2_session \<Rightarrow> bool" for C where
  created: "ev2_create material counter = Inr s
    \<Longrightarrow> length (transaction_identifier (mat_information material)) = 4 \<Longrightarrow> ev2_reachable C s"
| step: "ev2_reachable C s \<Longrightarrow> ev2_apply C op s = (r, s') \<Longrightarrow> ev2_reachable C s'"

text \<open>
  The invariant: the keys have their width, a session that is not invalid has not run out of
  counters while a response is outstanding, and an invalid session holds no secret.
\<close>

definition ev2_inv :: "ev2_session \<Rightarrow> bool" where
  "ev2_inv s \<longleftrightarrow>
     length (e_encryption_key s) = 16 \<and> length (e_mac_key s) = 16 \<and>
     length (transaction_identifier (e_authentication s)) = 4 \<and>
     (e_phase s = Ev2_awaiting_response \<or> e_phase s = Ev2_awaiting_plain_response \<longrightarrow> 0 < e_counter s) \<and>
     (e_phase s = Ev2_invalid \<longrightarrow>
        e_encryption_key s = replicate 16 0 \<and> e_mac_key s = replicate 16 0 \<and> e_counter s = 0)"

text \<open>
  The card's side of Full protection, with the same keys and counter: opening a command with a
  header of known size, and sealing an answer.
\<close>

definition odd_bytes :: "bytes \<Rightarrow> bytes" where
  "odd_bytes mac = map (\<lambda>i. mac ! (i * 2 + 1)) [0..<8]"

definition card_open_full ::
  "crypto_provider \<Rightarrow> byte \<Rightarrow> nat \<Rightarrow> bytes \<Rightarrow> ev2_session \<Rightarrow> bytes option" where
  "card_open_full C command header_size wire s =
     (let payload = take (length wire - 8) wire
      in case cmac C aes128 (e_mac_key s) (ev2_mac_input command payload s) of
           Returned (Inr mac) \<Rightarrow>
             if drop (length wire - 8) wire \<noteq> odd_bytes mac then None
             else (case cbc C aes128 (e_encryption_key s) (replicate 16 0) (iv_input 0xA5 0x5A s) True of
                     Returned (Inr iv) \<Rightarrow>
                       (case cbc C aes128 (e_encryption_key s) iv (drop header_size payload) False of
                          Returned (Inr padded) \<Rightarrow>
                            (case ev2_strip_padding padded None of Inr d \<Rightarrow> Some d | Inl e \<Rightarrow> None)
                        | _ \<Rightarrow> None)
                   | _ \<Rightarrow> None)
         | _ \<Rightarrow> None)"

definition card_seal_full :: "crypto_provider \<Rightarrow> bytes \<Rightarrow> ev2_session \<Rightarrow> bytes option" where
  "card_seal_full C answer s =
     (case (if answer = [] then Returned (Inr [])
            else (case cbc C aes128 (e_encryption_key s) (replicate 16 0) (iv_input 0x5A 0xA5 s) True of
                    Returned (Inr iv) \<Rightarrow>
                      (case pad_method_2 answer of
                         Inr padded \<Rightarrow> cbc C aes128 (e_encryption_key s) iv padded True
                       | Inl e \<Rightarrow> Threw)
                  | _ \<Rightarrow> Threw)) of
        Returned (Inr ciphertext) \<Rightarrow>
          (case cmac C aes128 (e_mac_key s) (ev2_mac_input 0 ciphertext s) of
             Returned (Inr mac) \<Rightarrow> Some (ciphertext @ odd_bytes mac)
           | _ \<Rightarrow> None)
      | _ \<Rightarrow> None)"

text \<open>The EV2 session as the operations of the secure channel.\<close>

definition ev2_ops :: "crypto_provider \<Rightarrow> ev2_session session_ops" where
  "ev2_ops C =
     \<lparr>so_prepare_plain = ev2_prepare_plain, so_prepare_mac = ev2_prepare_mac C,
      so_prepare_full = ev2_prepare_full C, so_accept_plain = ev2_accept_plain_response,
      so_verify = ev2_verify_response C,
      so_verify_full = ev2_verify_and_decrypt_full_response C,
      so_invalidate = ev2_invalidate\<rparr>"

definition ev2_awaiting :: "ev2_session \<Rightarrow> communication_mode \<Rightarrow> bool" where
  "ev2_awaiting s mode =
     (e_phase s = (if mode = Mode_plain then Ev2_awaiting_plain_response else Ev2_awaiting_response))"

fun prepare_op :: "communication_mode \<Rightarrow> byte \<Rightarrow> bytes \<Rightarrow> bytes \<Rightarrow> ev2_op" where
  "prepare_op Mode_plain c h d = Prepare_plain c h d"
| "prepare_op Mode_mac c h d = Prepare_mac c h d"
| "prepare_op _ c h d = Prepare_full c h d"

fun answer_op :: "communication_mode \<Rightarrow> raw_response \<Rightarrow> nat option \<Rightarrow> ev2_op" where
  "answer_op Mode_plain r n = Accept_plain r"
| "answer_op Mode_mac r n = Verify r"
| "answer_op _ r n = Verify_full r n"

text \<open>A concrete session for evaluation.\<close>

definition sample_material :: ev2_material where
  "sample_material =
     \<lparr>mat_encryption_key = replicate 16 3, mat_mac_key = replicate 16 5,
      mat_information = \<lparr>transaction_identifier = [1, 2, 3, 4], picc_capabilities = replicate 6 0,
                         pcd_capabilities = replicate 6 0\<rparr>\<rparr>"

definition sample_ev2 :: ev2_session where
  "sample_ev2 = projr (ev2_create sample_material 7)"

section \<open>Effects of the operations\<close>

lemma ev2_secret_output_Inr [simp]:
  "ev2_secret_output r n = Inr out \<longleftrightarrow> r = Inr out \<and> length out = n"
  by (auto simp: ev2_secret_output_def split: sum.splits if_splits)

lemma truncate_mac_16 [simp]:
  "length mac = 16 \<Longrightarrow> truncate_mac mac = Inr (map (\<lambda>i. mac ! (i * 2 + 1)) [0..<8])"
  by (simp add: truncate_mac_def)

lemma truncate_mac_length: "truncate_mac mac = Inr t \<Longrightarrow> length mac = 16 \<and> length t = 8"
  by (auto simp: truncate_mac_def split: if_splits)

lemma ev2_invalidate_sel [simp]:
  "e_phase (ev2_invalidate s) = Ev2_invalid"
  "e_counter (ev2_invalidate s) = 0"
  "e_encryption_key (ev2_invalidate s) = replicate (length (e_encryption_key s)) 0"
  "e_mac_key (ev2_invalidate s) = replicate (length (e_mac_key s)) 0"
  "e_authentication (ev2_invalidate s) = e_authentication s"
  by (simp_all add: ev2_invalidate_def)

lemma ev2_invalidate_phase [simp]: "ev2_invalidate (s\<lparr>e_phase := p\<rparr>) = ev2_invalidate s"
  by (simp add: ev2_invalidate_def)

text \<open>What a preparation does to the session, in one place for the three modes.\<close>

lemma ev2_prepare_mac_effect:
  assumes "ev2_prepare_mac C c h d s = (r, s')"
  shows "(\<exists>e. r = Inl e \<and> (s' = s \<or> s' = ev2_invalidate s)) \<or>
         (\<exists>mac. r = Inr (h @ d @ map (\<lambda>i. mac ! (i * 2 + 1)) [0..<8]) \<and> length mac = 16 \<and>
            cmac C aes128 (e_mac_key s) (ev2_mac_input c (h @ d) s) = Returned (Inr mac) \<and>
            e_phase s = Ev2_ready \<and> e_counter s \<noteq> 0xFFFF \<and>
            s' = s\<lparr>e_counter := e_counter s + 1, e_phase := Ev2_awaiting_response\<rparr>)"
  using assms
  by (cases r) (auto simp: ev2_prepare_mac_def split: if_splits dep.splits sum.splits)

lemma ev2_prepare_full_effect:
  assumes "ev2_prepare_full C c h d s = (r, s')"
  shows "(\<exists>e. r = Inl e \<and> (s' = s \<or> s' = ev2_invalidate s)) \<or>
         (\<exists>w. r = Inr w \<and> e_phase s = Ev2_ready \<and> e_counter s \<noteq> 0xFFFF \<and>
            s' = s\<lparr>e_counter := e_counter s + 1, e_phase := Ev2_awaiting_response\<rparr>)"
  using assms
  by (cases r) (auto simp: ev2_prepare_full_def dest!: ev2_prepare_mac_effect
      split: if_splits dep.splits sum.splits)

lemma ev2_prepare_plain_effect:
  assumes "ev2_prepare_plain c h d s = (r, s')"
  shows "(\<exists>e. r = Inl e \<and> (s' = s \<or> s' = ev2_invalidate s)) \<or>
         (r = Inr (h @ d) \<and> e_phase s = Ev2_ready \<and> e_counter s \<noteq> 0xFFFF \<and>
            s' = s\<lparr>e_counter := e_counter s + 1, e_phase := Ev2_awaiting_plain_response\<rparr>)"
  using assms by (auto simp: ev2_prepare_plain_def split: if_splits)

text \<open>What a response does to the session: accepted data, or a wiped session.\<close>

lemma ev2_verify_response_effect:
  assumes "ev2_verify_response C resp s = (r, s')"
  shows "(\<exists>e. r = Inl e \<and> (if e_phase s = Ev2_awaiting_response then s' = ev2_invalidate s else s' = s)) \<or>
         (\<exists>d. r = Inr d \<and> e_phase s = Ev2_awaiting_response \<and> s' = s\<lparr>e_phase := Ev2_ready\<rparr>)"
  using assms
  by (auto simp: ev2_verify_response_def Let_def split: if_splits dep.splits sum.splits)

lemma ev2_decrypt_verified_effect:
  assumes "ev2_decrypt_verified C ct n s = (r, s')"
  shows "(\<exists>e. r = Inl e \<and> s' = ev2_invalidate s) \<or> (\<exists>d. r = Inr d \<and> s' = s)"
  using assms
  by (cases r) (auto simp: ev2_decrypt_verified_def split: dep.splits sum.splits)

lemma ev2_verify_full_effect:
  assumes "ev2_verify_and_decrypt_full_response C resp n s = (r, s')"
  shows "(\<exists>e. r = Inl e \<and> (if e_phase s = Ev2_awaiting_response then s' = ev2_invalidate s else s' = s)) \<or>
         (\<exists>d. r = Inr d \<and> e_phase s = Ev2_awaiting_response \<and> s' = s\<lparr>e_phase := Ev2_ready\<rparr>)"
proof -
  obtain r1 s1 where v: "ev2_verify_response C resp s = (r1, s1)" by fastforce
  show ?thesis
  proof (cases r1)
    case (Inl e)
    then show ?thesis
      using assms v ev2_verify_response_effect [OF v]
      by (auto simp: ev2_verify_and_decrypt_full_response_def)
  next
    case (Inr ct)
    then have s1: "e_phase s = Ev2_awaiting_response" "s1 = s\<lparr>e_phase := Ev2_ready\<rparr>"
      using ev2_verify_response_effect [OF v] by auto
    then show ?thesis
      using assms v Inr
      by (auto simp: ev2_verify_and_decrypt_full_response_def dest!: ev2_decrypt_verified_effect
          split: if_splits)
  qed
qed

lemma ev2_accept_plain_effect:
  assumes "ev2_accept_plain_response resp s = (r, s')"
  shows "(\<exists>e. r = Inl e \<and>
            (if e_phase s = Ev2_awaiting_plain_response then s' = ev2_invalidate s else s' = s)) \<or>
         (r = Inr (rs_data resp) \<and> e_phase s = Ev2_awaiting_plain_response \<and> rs_status resp = 0 \<and>
            s' = s\<lparr>e_phase := Ev2_ready\<rparr>)"
  using assms by (auto simp: ev2_accept_plain_response_def split: if_splits)

lemmas ev2_effects = ev2_prepare_plain_effect ev2_prepare_mac_effect ev2_prepare_full_effect
  ev2_accept_plain_effect ev2_verify_response_effect ev2_verify_full_effect

lemma ev2_apply_failed:
  "ev2_apply C op s = (Inl e, s') \<Longrightarrow> s' = s \<or> s' = ev2_invalidate s"
  by (cases op) (auto dest!: ev2_effects split: if_splits)

lemma ev2_apply_prepared:
  "ev2_apply C op s = (Inr w, s') \<Longrightarrow> is_prepare op \<Longrightarrow>
     e_phase s = Ev2_ready \<and> e_counter s \<noteq> 0xFFFF \<and>
     (\<exists>p. p \<in> {Ev2_awaiting_response, Ev2_awaiting_plain_response} \<and>
        s' = s\<lparr>e_counter := e_counter s + 1, e_phase := p\<rparr>)"
  by (cases op) (auto dest!: ev2_effects)

lemma ev2_apply_answered:
  "ev2_apply C op s = (Inr w, s') \<Longrightarrow> \<not> is_prepare op \<Longrightarrow>
     s' = ev2_invalidate s \<or> e_phase s \<noteq> Ev2_ready \<and> e_phase s \<noteq> Ev2_invalid \<and> s' = s\<lparr>e_phase := Ev2_ready\<rparr>"
  by (cases op) (auto dest!: ev2_effects)

section \<open>The invariant\<close>

lemma counter_succ_pos:
  assumes "(c :: u16) \<noteq> 0xFFFF"
  shows "unat (c + 1) = unat c + 1" "0 < c + 1"
proof -
  have "unat c \<noteq> 65535" using assms by (simp add: word_unat_eq_iff)
  moreover have "unat c < 65536" using unsigned_less [of c] by simp
  ultimately show *: "unat (c + 1) = unat c + 1" by (simp add: unat_word_ariths)
  then show "0 < c + 1" by (metis add_is_0 unat_0 word_neq_0_conv zero_neq_one)
qed

lemma ev2_inv_invalidate: "ev2_inv s \<Longrightarrow> ev2_inv (ev2_invalidate s)"
  by (simp add: ev2_inv_def)

lemma ev2_inv_create:
  "ev2_create material counter = Inr s
     \<Longrightarrow> length (transaction_identifier (mat_information material)) = 4 \<Longrightarrow> ev2_inv s"
  by (auto simp: ev2_create_def ev2_inv_def split: if_splits)

lemma ev2_inv_apply:
  assumes inv: "ev2_inv s" and step: "ev2_apply C op s = (r, s')"
  shows "ev2_inv s'"
proof (cases r)
  case (Inl e)
  then show ?thesis using ev2_apply_failed [of C op s e s'] step inv ev2_inv_invalidate by blast
next
  case (Inr w)
  show ?thesis
  proof (cases "is_prepare op")
    case True
    then show ?thesis
      using ev2_apply_prepared [OF step [unfolded Inr]] inv counter_succ_pos [of "e_counter s"]
      by (auto simp: ev2_inv_def)
  next
    case False
    then show ?thesis
      using ev2_apply_answered [OF step [unfolded Inr]] inv by (auto simp: ev2_inv_def)
  qed
qed

section \<open>The session contract\<close>

lemma ev2_session_prepare: "session_prepare (ev2_ops C) m c h d = ev2_apply C (prepare_op m c h d)"
  by (cases m) (simp_all add: session_prepare_def ev2_ops_def fun_eq_iff)

lemma ev2_session_answer: "session_answer (ev2_ops C) m r n = ev2_apply C (answer_op m r n)"
  by (cases m) (simp_all add: session_answer_def ev2_ops_def fun_eq_iff)

lemma is_prepare_op [simp]: "is_prepare (prepare_op m c h d)" "\<not> is_prepare (answer_op m r n)"
  by (cases m; simp)+

lemma ev2_prepare_refused:
  assumes "e_phase s \<noteq> Ev2_ready"
  shows "ev2_apply C (prepare_op m c h d) s = (Inl ev2_not_ready, s)"
  using assms
  by (cases m) (simp_all add: ev2_prepare_plain_def ev2_prepare_mac_def ev2_prepare_full_def)

lemma ev2_strip_padding_length:
  "ev2_strip_padding p n = Inr d \<Longrightarrow> length d \<le> length p"
  by (auto simp: ev2_strip_padding_def Let_def split: if_splits)

lemma ev2_verify_response_data:
  assumes "ev2_verify_response C resp s = (Inr d, s')"
  shows "rs_status resp = 0 \<and> length d + 8 = length (rs_data resp)"
  using assms
  by (auto simp: ev2_verify_response_def Let_def split: if_splits dep.splits sum.splits)

lemma ev2_decrypt_verified_length:
  "ev2_decrypt_verified C ct n s = (Inr d, s') \<Longrightarrow> length d \<le> length ct"
  by (auto simp: ev2_decrypt_verified_def dest!: ev2_strip_padding_length split: dep.splits sum.splits)

lemma ev2_answer_data:
  assumes "ev2_apply C (answer_op m resp n) s = (Inr d, s')"
  shows "rs_status resp = 0 \<and> length d \<le> length (rs_data resp)"
proof -
  have full: "rs_status resp = 0 \<and> length d \<le> length (rs_data resp)"
    if "ev2_verify_and_decrypt_full_response C resp n s = (Inr d, s')"
    using that
    by (auto simp: ev2_verify_and_decrypt_full_response_def dest!: ev2_verify_response_data
        ev2_decrypt_verified_length split: prod.splits sum.splits if_splits)
  show ?thesis
    using assms full
    by (cases m) (auto dest!: ev2_verify_response_data ev2_accept_plain_effect)
qed

lemma ev2_verify_response_outcome:
  assumes "ev2_verify_response C resp s = (Inl e, s')" "e_phase s = Ev2_awaiting_response"
  shows "err_outcome e \<noteq> OC_not_sent"
  using assms
  by (auto simp: ev2_verify_response_def Let_def dest!: arg_cong [of "Inl _" _ projl]
      split: if_splits dep.splits sum.splits)

lemma ev2_strip_padding_outcome:
  "ev2_strip_padding p n = Inl e \<Longrightarrow> err_outcome e = OC_unknown"
  by (auto simp: ev2_strip_padding_def Let_def split: if_splits)

lemma ev2_decrypt_verified_outcome:
  assumes "ev2_decrypt_verified C ct n s = (Inl e, s')"
  shows "err_outcome e = OC_unknown"
  using assms ev2_strip_padding_outcome
  by (auto simp: ev2_decrypt_verified_def split: dep.splits sum.splits)

lemma ev2_answer_outcome:
  assumes step: "ev2_apply C (answer_op m resp n) s = (Inl e, s')" and due: "ev2_awaiting s m"
  shows "err_outcome e \<noteq> OC_not_sent \<and> e_phase s' = Ev2_invalid"
proof -
  have plain: ?thesis if "ev2_accept_plain_response resp s = (Inl e, s')"
      "e_phase s = Ev2_awaiting_plain_response"
    using that by (auto simp: ev2_accept_plain_response_def split: if_splits)
  have mac: ?thesis if "ev2_verify_response C resp s = (Inl e, s')" "e_phase s = Ev2_awaiting_response"
    using ev2_verify_response_outcome [OF that] ev2_verify_response_effect [OF that(1)] that by simp
  have full: ?thesis if f: "ev2_verify_and_decrypt_full_response C resp n s = (Inl e, s')"
      "e_phase s = Ev2_awaiting_response"
  proof -
    have "err_outcome e \<noteq> OC_not_sent"
      using f by (auto simp: ev2_verify_and_decrypt_full_response_def
          dest!: ev2_verify_response_outcome ev2_decrypt_verified_outcome
          split: prod.splits sum.splits if_splits)
    then show ?thesis using ev2_verify_full_effect [OF f(1)] f(2) by simp
  qed
  show ?thesis
    using step due plain mac full by (cases m) (auto simp: ev2_awaiting_def)
qed

interpretation ev2: secure_session "ev2_ops C" ev2_inv "\<lambda>s. e_phase s = Ev2_ready" ev2_awaiting
  "\<lambda>s. e_phase s = Ev2_invalid" for C
proof (unfold_locales, unfold ev2_session_prepare ev2_session_answer)
  fix s s' m m' c h d w e resp n
  show "ev2_inv s \<Longrightarrow> ev2_inv (so_invalidate (ev2_ops C) s) \<and> e_phase (so_invalidate (ev2_ops C) s) = Ev2_invalid"
    by (simp add: ev2_ops_def ev2_inv_invalidate)
  show "e_phase s = Ev2_invalid \<Longrightarrow> e_phase s \<noteq> Ev2_ready" by simp
  show "ev2_inv s \<Longrightarrow> ev2_apply C (prepare_op m c h d) s = (Inr w, s') \<Longrightarrow>
      e_phase s = Ev2_ready \<and> ev2_inv s' \<and>
      ((m = Mode_plain) = (m' = Mode_plain) \<longrightarrow> ev2_awaiting s' m')"
    using ev2_apply_prepared [of C "prepare_op m c h d" s w s']
      ev2_inv_apply [of s C "prepare_op m c h d" "Inr w" s']
    by (cases m) (auto simp: ev2_awaiting_def dest!: ev2_effects)
  show "ev2_inv s \<Longrightarrow> ev2_apply C (prepare_op m c h d) s = (Inl e, s') \<Longrightarrow> ev2_inv s'"
    by (rule ev2_inv_apply)
  show "e_phase s \<noteq> Ev2_ready \<Longrightarrow> \<exists>e. ev2_apply C (prepare_op m c h d) s = (Inl e, s) \<and>
      err_code e = EC_session_invalid \<and> err_outcome e = OC_not_sent"
    by (simp add: ev2_prepare_refused ev2_not_ready_def)
  show "ev2_inv s \<Longrightarrow> ev2_apply C (answer_op m resp n) s = (Inr d, s') \<Longrightarrow>
      rs_status resp = 0 \<and> e_phase s' = Ev2_ready \<and> ev2_inv s' \<and> length d \<le> length (rs_data resp)"
    using ev2_answer_data [of C m resp n s d s'] ev2_inv_apply [of s C "answer_op m resp n" "Inr d" s']
    by (cases m) (auto dest!: ev2_effects)
  show "ev2_inv s \<Longrightarrow> ev2_apply C (answer_op m resp n) s = (Inl e, s') \<Longrightarrow> ev2_inv s'"
    by (rule ev2_inv_apply)
  show "ev2_inv s \<Longrightarrow> ev2_awaiting s m \<Longrightarrow> ev2_apply C (answer_op m resp n) s = (Inl e, s') \<Longrightarrow>
      err_outcome e \<noteq> OC_not_sent \<and> e_phase s' = Ev2_invalid"
    by (rule ev2_answer_outcome)
qed

section \<open>Padding\<close>

lemma pad_method_2_eq:
  assumes "length d \<le> size_max - 16"
  shows "pad_method_2 d = Inr (d @ 0x80 # replicate (15 - length d mod 16) 0)"
proof -
  have "((n + 1 + 16 - 1) div 16) * 16 - n = Suc (15 - n mod 16)" for n :: nat
  proof -
    have "(n + 1 + 16 - 1) div 16 = n div 16 + 1" by simp
    then show ?thesis using div_mult_mod_eq [of n 16] mod_less_divisor [of 16 n] by linarith
  qed
  then show ?thesis using assms by (simp add: pad_method_2_def Let_def list_update_append)
qed

lemma scan_marker_zeros:
  "p ! k \<noteq> 0 \<Longrightarrow> k < m \<Longrightarrow> \<forall>i. k < i \<and> i < m \<longrightarrow> p ! i = 0 \<Longrightarrow> scan_marker p m = Suc k"
proof (induction m)
  case (Suc m)
  then show ?case by (cases "k = m") auto
qed simp

text \<open>The scan is the position after the last byte that is not zero.\<close>

lemma scan_marker_split:
  "m \<le> length p \<Longrightarrow> scan_marker p m \<le> m \<and>
     take m p = take (scan_marker p m) p @ replicate (m - scan_marker p m) 0 \<and>
     (scan_marker p m \<noteq> 0 \<longrightarrow> p ! (scan_marker p m - 1) \<noteq> 0)"
proof (induction m)
  case (Suc m)
  then show ?case
    by (auto simp: take_Suc_conv_app_nth Suc_diff_le replicate_append_same)
qed simp

lemma ev2_strip_padding_pad:
  assumes "padded = d @ 0x80 # replicate k 0" "k < 16" "\<And>n. expected = Some n \<Longrightarrow> n = length d"
  shows "ev2_strip_padding padded expected = Inr d"
proof -
  have "scan_marker padded (length padded) = Suc (length d)"
    by (rule scan_marker_zeros) (auto simp: assms(1) nth_append nth_Cons')
  then show ?thesis
    using assms by (auto simp: ev2_strip_padding_def Let_def nth_append split: option.splits)
qed

lemma ev2_strip_padding_sound:
  assumes "ev2_strip_padding padded expected = Inr d"
  shows "\<exists>k<16. padded = d @ 0x80 # replicate k 0"
proof -
  let ?m = "scan_marker padded (length padded)"
  from assms have m: "?m \<noteq> 0" "padded ! (?m - 1) = 0x80" "length padded - (?m - 1) \<le> 16"
      "d = take (?m - 1) padded"
    by (auto simp: ev2_strip_padding_def Let_def split: if_splits)
  have split: "?m \<le> length padded" "padded = take ?m padded @ replicate (length padded - ?m) 0"
    using scan_marker_split [of "length padded" padded] by auto
  have "take ?m padded = d @ [0x80]"
    using m split(1) take_Suc_conv_app_nth [of "?m - 1" padded] by simp
  then have "padded = d @ 0x80 # replicate (length padded - ?m) 0" using split(2) by simp
  moreover have "length padded - ?m < 16" using m split(1) by linarith
  ultimately show ?thesis by blast
qed

section \<open>Counters\<close>

lemma ev2_dead_apply:
  assumes "e_phase s = Ev2_invalid" "ev2_apply C op s = (r, s')"
  shows "e_phase s' = Ev2_invalid \<and> (is_prepare op \<longrightarrow> (\<exists>e. r = Inl e))"
proof (cases r)
  case (Inl e)
  then show ?thesis using ev2_apply_failed [of C op s e s'] assms by auto
next
  case (Inr w)
  then show ?thesis using assms by (cases op) (auto dest!: ev2_effects)
qed

lemma ev2_dead_consumes_nothing:
  "e_phase s = Ev2_invalid \<Longrightarrow> consumed_counters C ops s = []"
proof (induction ops arbitrary: s)
  case (Cons op ops)
  obtain r s' where step: "ev2_apply C op s = (r, s')" by fastforce
  show ?case using ev2_dead_apply [OF Cons.prems step] Cons.IH [of s'] step
    by (cases r) auto
qed simp

lemma consumed_counters_increase:
  "sorted_wrt (<) (map unat (consumed_counters C ops s)) \<and>
   (\<forall>c\<in>set (consumed_counters C ops s). unat (e_counter s) \<le> unat c)"
proof (induction ops arbitrary: s)
  case (Cons op ops)
  obtain r s' where step: "ev2_apply C op s = (r, s')" by fastforce
  show ?case
  proof (cases "e_phase s' = Ev2_invalid")
    case True
    then show ?thesis using step ev2_dead_consumes_nothing [of s' C ops] by (cases r) auto
  next
    case False
    show ?thesis
    proof (cases "\<exists>w. r = Inr w \<and> is_prepare op")
      case True
      then obtain w where w: "r = Inr w" "is_prepare op" by blast
      then have next_counter: "unat (e_counter s') = unat (e_counter s) + 1"
        using ev2_apply_prepared [of C op s w s'] step counter_succ_pos(1) by auto
      then show ?thesis using Cons.IH [of s'] step w by fastforce
    next
      case same: False
      have "e_counter s' = e_counter s"
      proof (cases r)
        case (Inl e)
        then show ?thesis using ev2_apply_failed [of C op s e s'] step False by auto
      next
        case (Inr w)
        then show ?thesis using ev2_apply_answered [of C op s w s'] step False same by auto
      qed
      then show ?thesis using Cons.IH [of s'] step same by (cases r) auto
    qed
  qed
qed simp

section \<open>Full protection\<close>

lemma iv_input_length:
  "ev2_inv s \<Longrightarrow> length (iv_input a b s) = 16"
  by (simp add: iv_input_def ev2_inv_def)

lemma padded_length: "(length d + Suc (15 - length d mod 16)) mod 16 = 0"
proof -
  have *: "n = 16 * q + r \<Longrightarrow> r < 16 \<Longrightarrow> n + Suc (15 - r) = 16 * (q + 1)" for n q r :: nat by simp
  have "length d + Suc (15 - length d mod 16) = 16 * (length d div 16 + 1)"
    by (rule *) simp_all
  then show ?thesis by (metis mod_mult_self1_is_0)
qed

text \<open>Encryption of padded data under the session's IV of a direction, and its inverse.\<close>

lemma ev2_encrypt_padded:
  assumes sound: "cbc_sound C" and inv: "ev2_inv s" and small: "length d \<le> largest_cipher_input - 16"
  obtains iv padded ct where
    "cbc C aes128 (e_encryption_key s) (replicate 16 0) (iv_input a b s) True = Returned (Inr iv)"
    "length iv = 16" "pad_method_2 d = Inr padded" "padded = d @ 0x80 # replicate (15 - length d mod 16) 0"
    "cbc C aes128 (e_encryption_key s) iv padded True = Returned (Inr ct)"
    "length ct = length padded" "length padded mod 16 = 0"
    "cbc C aes128 (e_encryption_key s) iv ct False = Returned (Inr padded)"
proof -
  have key: "length (e_encryption_key s) = 16" using inv by (simp add: ev2_inv_def)
  define padded where "padded = d @ 0x80 # replicate (15 - length d mod 16) 0"
  have size: "length padded mod 16 = 0" "length padded \<le> largest_cipher_input"
    using padded_length [of d] small by (simp_all add: padded_def)
  obtain iv where iv: "length iv = length (iv_input a b s)"
    "cbc C aes128 (e_encryption_key s) (replicate 16 0) (iv_input a b s) True = Returned (Inr iv)"
    by (rule cbc_encrypt_block [OF sound key, of "replicate 16 0" "iv_input a b s"])
      (simp_all add: iv_input_length [OF inv])
  moreover have "length iv = 16" using iv iv_input_length [OF inv] by simp
  moreover obtain ct where "cbc C aes128 (e_encryption_key s) iv padded True = Returned (Inr ct)"
    "length ct = length padded" "cbc C aes128 (e_encryption_key s) iv ct False = Returned (Inr padded)"
    by (rule cbc_encrypt_block [OF sound key \<open>length iv = 16\<close> size])
  moreover have "length d \<le> size_max - 16" using small by (simp add: size_max_def)
  ultimately show thesis
    using that [of iv padded ct] pad_method_2_eq [of d] size(1) unfolding padded_def by simp
qed

lemma odd_bytes_length [simp]: "length (odd_bytes mac) = 8"
  by (simp add: odd_bytes_def)

lemma truncate_odd [simp]: "length mac = 16 \<Longrightarrow> truncate_mac mac = Inr (odd_bytes mac)"
  by (simp add: odd_bytes_def)

lemma ev2_prepare_mac_ok:
  assumes "cmac C aes128 (e_mac_key s) (ev2_mac_input c (h @ d) s) = Returned (Inr mac)"
    "length mac = 16" "e_phase s = Ev2_ready" "e_counter s \<noteq> 0xFFFF"
    "length h + length d \<le> size_max - 8"
  shows "ev2_prepare_mac C c h d s =
    (Inr (h @ d @ odd_bytes mac), s\<lparr>e_counter := e_counter s + 1, e_phase := Ev2_awaiting_response\<rparr>)"
  using assms by (auto simp: ev2_prepare_mac_def ev2_secret_output_def odd_bytes_def)

lemma ev2_full_request:
  assumes sound: "cbc_sound C" "cmac_sound C" and inv: "ev2_inv s"
    and ready: "e_phase s = Ev2_ready" "e_counter s \<noteq> 0xFFFF"
    and size: "d \<noteq> []" "length h + length d \<le> size_max - 24" "length d \<le> largest_cipher_input - 16"
  shows "\<exists>wire. ev2_prepare_full C c h d s =
           (Inr wire, s\<lparr>e_counter := e_counter s + 1, e_phase := Ev2_awaiting_response\<rparr>) \<and>
         take (length h) wire = h \<and> card_open_full C c (length h) wire s = Some d"
proof -
  obtain iv padded ct where enc:
    "cbc C aes128 (e_encryption_key s) (replicate 16 0) (iv_input 0xA5 0x5A s) True = Returned (Inr iv)"
    "length iv = 16" "pad_method_2 d = Inr padded" "padded = d @ 0x80 # replicate (15 - length d mod 16) 0"
    "cbc C aes128 (e_encryption_key s) iv padded True = Returned (Inr ct)"
    "length ct = length padded" "cbc C aes128 (e_encryption_key s) iv ct False = Returned (Inr padded)"
    by (rule ev2_encrypt_padded [OF sound(1) inv size(3), where a = "0xA5" and b = "0x5A"])
  obtain mac where mac: "cmac C aes128 (e_mac_key s) (ev2_mac_input c (h @ ct) s) = Returned (Inr mac)"
    "length mac = 16"
    by (rule cmac_block [OF sound(2), of "e_mac_key s"]) (use inv in \<open>simp add: ev2_inv_def\<close>)
  have "length ct \<le> length d + 16" using enc by simp
  then have fits: "length h + length ct \<le> size_max - 8" using size(2) by (simp add: size_max_def)
  have "ev2_prepare_full C c h d s = ev2_prepare_mac C c h ct s"
    using enc ready size by (simp add: ev2_prepare_full_def ev2_secret_output_def)
  moreover have "card_open_full C c (length h) (h @ ct @ odd_bytes mac) s = Some d"
    using mac enc ev2_strip_padding_pad [of padded d "15 - length d mod 16" None]
    by (simp add: card_open_full_def Let_def)
  ultimately show ?thesis using ev2_prepare_mac_ok [OF mac ready fits] by simp
qed

lemma ev2_verify_sealed:
  assumes mac: "cmac C aes128 (e_mac_key s) (ev2_mac_input 0 d s) = Returned (Inr mac)" "length mac = 16"
    and due: "e_phase s = Ev2_awaiting_response" and resp: "rs_status resp = 0" "rs_data resp = d @ odd_bytes mac"
  shows "ev2_verify_response C resp s = (Inr d, s\<lparr>e_phase := Ev2_ready\<rparr>)"
  using assms
  by (simp add: ev2_verify_response_def Let_def ev2_secret_output_def odd_bytes_def)

lemma ev2_full_answer:
  assumes sound: "cbc_sound C" "cmac_sound C" and inv: "ev2_inv s"
    and due: "e_phase s = Ev2_awaiting_response" and size: "length a \<le> largest_cipher_input - 16"
    and n: "n = None \<or> n = Some (length a)"
  shows "\<exists>sealed. card_seal_full C a s = Some sealed \<and>
           ev2_verify_and_decrypt_full_response C \<lparr>rs_status = 0, rs_data = sealed\<rparr> n s =
             (Inr a, s\<lparr>e_phase := Ev2_ready\<rparr>)"
proof (cases "a = []")
  case True
  obtain mac where mac: "cmac C aes128 (e_mac_key s) (ev2_mac_input 0 [] s) = Returned (Inr mac)"
    "length mac = 16"
    by (rule cmac_block [OF sound(2), of "e_mac_key s"]) (use inv in \<open>simp add: ev2_inv_def\<close>)
  then show ?thesis
    using True n ev2_verify_sealed [OF mac due]
    by (auto simp: card_seal_full_def ev2_verify_and_decrypt_full_response_def)
next
  case False
  obtain iv padded ct where enc:
    "cbc C aes128 (e_encryption_key s) (replicate 16 0) (iv_input 0x5A 0xA5 s) True = Returned (Inr iv)"
    "length iv = 16" "pad_method_2 a = Inr padded" "padded = a @ 0x80 # replicate (15 - length a mod 16) 0"
    "cbc C aes128 (e_encryption_key s) iv padded True = Returned (Inr ct)" "length ct = length padded"
    "length padded mod 16 = 0" "cbc C aes128 (e_encryption_key s) iv ct False = Returned (Inr padded)"
    by (rule ev2_encrypt_padded [OF sound(1) inv size, where a = "0x5A" and b = "0xA5"])
  obtain mac where mac: "cmac C aes128 (e_mac_key s) (ev2_mac_input 0 ct s) = Returned (Inr mac)"
    "length mac = 16"
    by (rule cmac_block [OF sound(2), of "e_mac_key s"]) (use inv in \<open>simp add: ev2_inv_def\<close>)
  have "ct \<noteq> []" using enc by auto
  have "ev2_strip_padding padded n = Inr a"
    by (rule ev2_strip_padding_pad [where k = "15 - length a mod 16"]) (use enc n in auto)
  then have "ev2_decrypt_verified C ct n (s\<lparr>e_phase := Ev2_ready\<rparr>) = (Inr a, s\<lparr>e_phase := Ev2_ready\<rparr>)"
    using enc(1,2,6,8) by (simp add: ev2_decrypt_verified_def ev2_secret_output_def iv_input_def)
  then show ?thesis
    using False enc mac ev2_verify_sealed [OF mac due] \<open>ct \<noteq> []\<close>
    by (simp add: card_seal_full_def ev2_verify_and_decrypt_full_response_def)
qed

section \<open>Properties\<close>

lemma sample_ev2_simps [simp]:
  "ev2_create sample_material 7 = Inr sample_ev2"
  "e_encryption_key sample_ev2 = replicate 16 3" "e_mac_key sample_ev2 = replicate 16 5"
  "e_counter sample_ev2 = 7" "e_phase sample_ev2 = Ev2_ready"
  "transaction_identifier (e_authentication sample_ev2) = [1, 2, 3, 4]"
  by (simp_all add: sample_ev2_def ev2_create_def sample_material_def)

text \<open>
  A reachable EV2 session is well formed: its keys and its transaction identifier have their
  widths, an outstanding response belongs to a counter that was consumed, and an invalid session
  holds no key material and the counter zero.
\<close>

theorem ev2_session_invariant: "ev2_reachable C s \<Longrightarrow> ev2_inv s"
proof (induction rule: ev2_reachable.induct)
  case (created material counter s)
  then show ?case by (rule ev2_inv_create)
next
  case (step s op r s')
  then show ?case using ev2_inv_apply by blast
qed

theorem ev2_session_invariant_witness:
  "ev2_inv (snd (ev2_apply sample_provider (Prepare_full 0x3D [1] [7, 8]) sample_ev2))"
proof (rule ev2_session_invariant [of sample_provider])
  have "ev2_reachable sample_provider sample_ev2"
    by (rule ev2_reachable.created [of sample_material 7]) (simp, simp add: sample_material_def)
  then show "ev2_reachable sample_provider
      (snd (ev2_apply sample_provider (Prepare_full 0x3D [1] [7, 8]) sample_ev2))"
    by (rule ev2_reachable.step) (rule surjective_pairing)
qed

text \<open>
  C9. No command counter is used twice: along every sequence of operations on a session (with every
  provider behaviour, every card answer and every failure) the counters consumed by successfully
  protected commands are strictly increasing as numbers, so the sixteen-bit counter never wraps
  around within a session.
\<close>

theorem ev2_counters_strictly_increase:
  "sorted_wrt (<) (map unat (consumed_counters C ops s)) \<and> distinct (consumed_counters C ops s)"
proof -
  have inc: "sorted_wrt (<) (map unat (consumed_counters C ops s))"
    using consumed_counters_increase by blast
  then have "distinct (map unat (consumed_counters C ops s))"
    using strict_sorted_iff by blast
  then show ?thesis using inc by (simp add: distinct_map)
qed

text \<open>
  C22. A MAC-protected response is accepted exactly when a response is due, its status is success and
  its bytes are the returned data followed by the truncated CMAC of the status, the session's
  counter, the transaction identifier and that data.
\<close>

theorem ev2_verify_response_iff:
  "(\<exists>s'. ev2_verify_response C resp s = (Inr d, s')) \<longleftrightarrow>
   e_phase s = Ev2_awaiting_response \<and> rs_status resp = 0 \<and>
   (\<exists>mac. cmac C aes128 (e_mac_key s)
             ([0, ucast (e_counter s), ucast (drop_bit 8 (e_counter s))] @
              transaction_identifier (e_authentication s) @ d) = Returned (Inr mac) \<and>
      length mac = 16 \<and> rs_data resp = d @ odd_bytes mac)"
  (is "?accepted \<longleftrightarrow> ?authentic")
proof
  assume ?accepted
  then obtain s' where ok: "ev2_verify_response C resp s = (Inr d, s')" by blast
  let ?n = "length (rs_data resp) - 8"
  from ok have "e_phase s = Ev2_awaiting_response" "rs_status resp = 0" "d = take ?n (rs_data resp)"
    "\<exists>mac. cmac C aes128 (e_mac_key s) (ev2_mac_input 0 d s) = Returned (Inr mac) \<and>
       length mac = 16 \<and> drop ?n (rs_data resp) = odd_bytes mac"
    by (auto simp: ev2_verify_response_def Let_def odd_bytes_def split: if_splits dep.splits sum.splits)
  then show ?authentic by (auto simp: ev2_mac_input_def append_counter_def dest!: sym [of "drop _ _"])
next
  assume ?authentic
  then show ?accepted
    using ev2_verify_sealed [of C s d _ resp]
    by (fastforce simp: ev2_mac_input_def append_counter_def)
qed

text \<open>
  C27. A response that fails any check while it is due ends the session: the error never claims that
  the command was not sent, both keys are wiped to zero, and no later sequence of operations
  protects another command.
\<close>

theorem ev2_rejected_answer_is_final:
  assumes inv: "ev2_inv s" and due: "ev2_awaiting s mode"
    and failed: "session_answer (ev2_ops C) mode resp n s = (Inl e, s')"
  shows "err_outcome e \<noteq> OC_not_sent \<and> e_encryption_key s' = replicate 16 0 \<and>
         e_mac_key s' = replicate 16 0 \<and> consumed_counters C' ops s' = []"
  using ev2.answer_outcome [OF inv due failed] ev2.answer_failed [OF inv failed]
    ev2_dead_consumes_nothing [of s'] by (simp add: ev2_inv_def)

theorem ev2_rejected_answer_is_final_witness:
  "\<exists>e s'. session_answer (ev2_ops sample_provider) Mode_mac \<lparr>rs_status = 0, rs_data = [1, 2, 3]\<rparr> None
            (sample_ev2\<lparr>e_phase := Ev2_awaiting_response\<rparr>) = (Inl e, s') \<and>
          err_outcome e \<noteq> OC_not_sent \<and> e_mac_key s' = replicate 16 0"
proof -
  let ?s = "sample_ev2\<lparr>e_phase := Ev2_awaiting_response\<rparr>"
  let ?r = "\<lparr>rs_status = 0, rs_data = [1, 2, 3]\<rparr>"
  obtain e s' where bad: "session_answer (ev2_ops sample_provider) Mode_mac ?r None ?s = (Inl e, s')"
    by (simp add: session_answer_def ev2_ops_def ev2_verify_response_def)
  have "ev2_inv ?s" by (simp add: ev2_inv_def)
  moreover have "ev2_awaiting ?s Mode_mac" by (simp add: ev2_awaiting_def)
  ultimately show ?thesis using ev2_rejected_answer_is_final [OF _ _ bad] bad by blast
qed

text \<open>
  C26. Full protection round trips in both directions, for every provider whose CBC and CMAC behave
  as documented: the card, holding the same keys and counter, opens the prepared command to exactly
  the clear data behind an unchanged header, and an answer sealed by the card for the next counter is
  decrypted to exactly the card's data, leaving the session ready with the counter advanced by one.
\<close>

theorem ev2_full_roundtrip:
  assumes "cbc_sound C" "cmac_sound C" "ev2_inv s" "e_phase s = Ev2_ready" "e_counter s \<noteq> 0xFFFF"
    and "d \<noteq> []" "length h + length d \<le> size_max - 24" "length d \<le> largest_cipher_input - 16"
    and "length a \<le> largest_cipher_input - 16"
    and "n = None \<or> n = Some (length a)"
  shows "\<exists>wire s' sealed.
           ev2_prepare_full C c h d s = (Inr wire, s') \<and> take (length h) wire = h \<and>
           card_open_full C c (length h) wire s = Some d \<and> card_seal_full C a s' = Some sealed \<and>
           ev2_verify_and_decrypt_full_response C \<lparr>rs_status = 0, rs_data = sealed\<rparr> n s' =
             (Inr a, s\<lparr>e_counter := e_counter s + 1\<rparr>)"
proof -
  let ?s' = "s\<lparr>e_counter := e_counter s + 1, e_phase := Ev2_awaiting_response\<rparr>"
  have inv: "ev2_inv ?s'"
    using assms(3,4) counter_succ_pos [OF assms(5)] by (simp add: ev2_inv_def)
  have "?s'\<lparr>e_phase := Ev2_ready\<rparr> = s\<lparr>e_counter := e_counter s + 1\<rparr>" using assms(4) by simp
  then show ?thesis
    using ev2_full_request [OF assms(1-8), of c] ev2_full_answer [OF assms(1,2) inv _ assms(9,10)] by auto
qed

theorem ev2_full_roundtrip_witness:
  "\<exists>wire s' sealed.
     ev2_prepare_full sample_provider 0x3D [2] [7, 8, 9] sample_ev2 = (Inr wire, s') \<and>
     card_open_full sample_provider 0x3D 1 wire sample_ev2 = Some [7, 8, 9] \<and>
     card_seal_full sample_provider [0x80, 0] s' = Some sealed \<and>
     ev2_verify_and_decrypt_full_response sample_provider \<lparr>rs_status = 0, rs_data = sealed\<rparr> (Some 2) s' =
       (Inr [0x80, 0], sample_ev2\<lparr>e_counter := 8\<rparr>)"
  using ev2_full_roundtrip [OF sample_provider_sound, of sample_ev2 "[7, 8, 9]" "[2]" "[0x80, 0]" "Some 2" "0x3D"]
  by (auto simp: ev2_inv_def size_max_def)

end
