(* ===== verification/Standard_Aes_Session.thy ===== *)
theory Standard_Aes_Session
  imports Session_Contract
begin

text \<open>
  Standard AES (EV1) secure messaging, \<^verbatim>\<open>core/src/security/standard_aes/session.cpp\<close>: the
  session's own CMAC over a chained initial vector, Plain, MAC and Full commands, verification of
  responses and the search for the CRC boundary of an encrypted response. The theorems show that the
  subkey doubling is multiplication by \<open>x\<close> in the field of CMAC, that the session keeps its
  invariant, that a response is accepted exactly when its MAC continues the chain, and that an
  encrypted response is accepted exactly when one boundary of CRC and zero padding fits.
\<close>

section \<open>Session state\<close>

text \<open>\<^verbatim>\<open>enum class Phase\<close>.\<close>

datatype sa_phase = Sa_ready | Sa_awaiting_response | Sa_invalid

text \<open>The members of \<^verbatim>\<open>class Session\<close>.\<close>

record sa_session =
  sa_session_key :: bytes
  sa_iv :: bytes
  sa_phase :: sa_phase

section \<open>Helpers\<close>

definition sa_secret_output :: "bytes result \<Rightarrow> nat \<Rightarrow> bytes result" where
  "sa_secret_output r expected =
     (case r of
        Inl e \<Rightarrow> Inl e
      | Inr out \<Rightarrow>
          if length out \<noteq> expected
          then Inl (local_error EC_crypto (STR ''Standard AES primitive returned an unexpected output length''))
          else Inr out)"

text \<open>The shift loop of \<^verbatim>\<open>double_cmac_subkey\<close>, from the last byte to the first.\<close>

fun double_loop :: "nat \<Rightarrow> byte \<Rightarrow> bytes \<Rightarrow> bytes" where
  "double_loop 0 carry block = block"
| "double_loop (Suc index) carry block =
     (let current = block ! index
      in double_loop index (drop_bit 7 current) (block[index := push_bit 1 current OR carry]))"

definition double_cmac_subkey :: "bytes \<Rightarrow> bytes" where
  "double_cmac_subkey block =
     (let reduce = (hd block AND 0x80 \<noteq> 0);
          shifted = double_loop (length block) 0 block
      in if reduce then shifted[length shifted - 1 := last shifted XOR 0x87] else shifted)"

text \<open>The four little-endian bytes of a checksum, as the loops of the source write them.\<close>

definition crc_bytes :: "u32 \<Rightarrow> bytes" where
  "crc_bytes calculated = map (\<lambda>index. ucast (drop_bit (index * 8) calculated)) [0..<4]"

definition crc_matches :: "bytes \<Rightarrow> u32 \<Rightarrow> bool" where
  "crc_matches stored calculated =
     (if length stored \<noteq> 4 then False else constant_time_equal stored (crc_bytes calculated))"

text \<open>XOR of a key into the last sixteen bytes.\<close>

definition xor_last_block :: "bytes \<Rightarrow> bytes \<Rightarrow> bytes" where
  "xor_last_block key blocks =
     take (length blocks - 16) blocks @ map2 (XOR) (last_bytes 16 blocks) key"

text \<open>The blocks that are encrypted: complete input, or input padded with \<open>80 00 ...\<close>.\<close>

definition cmac_blocks :: "bytes \<Rightarrow> bytes \<Rightarrow> bytes" where
  "cmac_blocks first_subkey input =
     (let complete = (input \<noteq> [] \<and> length input mod 16 = 0);
          block_count = (if input = [] then 1 else (length input + 16 - 1) div 16);
          blocks = input @ replicate (block_count * 16 - length input) 0
      in if complete then xor_last_block first_subkey blocks
         else let used = length input mod 16
              in xor_last_block (double_cmac_subkey first_subkey)
                   (blocks[length blocks - 16 + used := 0x80]))"

section \<open>Operations\<close>

definition sa_invalidate :: "sa_session \<Rightarrow> sa_session" where
  "sa_invalidate s =
     s\<lparr>sa_session_key := wipe (sa_session_key s), sa_iv := wipe (sa_iv s), sa_phase := Sa_invalid\<rparr>"

definition sa_create :: "bytes \<Rightarrow> sa_session result" where
  "sa_create session_key =
     (if length session_key \<noteq> 16
      then Inl (invalid (STR ''Standard AES session requires a provider and sixteen-byte session key''))
      else Inr \<lparr>sa_session_key = session_key, sa_iv = replicate 16 0, sa_phase = Sa_ready\<rparr>)"

definition calculate_cmac :: "crypto_provider \<Rightarrow> bytes \<Rightarrow> sa_session \<Rightarrow> bytes result" where
  "calculate_cmac C input s =
     (let failed = Inl (local_error EC_internal (STR ''Standard AES CMAC calculation failed''));
          block_count = (if input = [] then 1 else (length input + 16 - 1) div 16)
      in case cbc C aes128 (sa_session_key s) (replicate 16 0) (replicate 16 0) True of
           Threw \<Rightarrow> failed
         | Returned r \<Rightarrow>
             (case sa_secret_output r 16 of
                Inl e \<Rightarrow> Inl e
              | Inr encrypted_zero \<Rightarrow>
                  if block_count > size_max div 16
                  then Inl (invalid (STR ''Standard AES CMAC input is too large''))
                  else let blocks = cmac_blocks (double_cmac_subkey encrypted_zero) input
                  in (case cbc C aes128 (sa_session_key s) (sa_iv s) blocks True of
                        Threw \<Rightarrow> failed
                      | Returned r2 \<Rightarrow>
                          (case sa_secret_output r2 (length blocks) of
                             Inl e \<Rightarrow> Inl e
                           | Inr encrypted \<Rightarrow> Inr (last_bytes 16 encrypted)))))"

definition sa_not_ready :: error where
  "sa_not_ready = local_error EC_session_invalid (STR ''Standard AES session is not ready'')"

definition prepare_cmac_command ::
  "crypto_provider \<Rightarrow> byte \<Rightarrow> bytes \<Rightarrow> bytes \<Rightarrow> bool \<Rightarrow> sa_session \<Rightarrow> bytes result \<times> sa_session" where
  "prepare_cmac_command C command header data transmit_mac s =
     (let mac_bytes = (if transmit_mac then 8 else 0)
      in if sa_phase s \<noteq> Sa_ready then (Inl sa_not_ready, s)
         else if length header > size_max - 1 \<or> length data > size_max - 1 - length header \<or>
                 length data > size_max - length header \<or> length data + length header > size_max - mac_bytes
         then (Inl (invalid (STR ''Standard AES command is too large'')), s)
         else (case calculate_cmac C ([command] @ header @ data) s of
                 Inl e \<Rightarrow> (Inl e, sa_invalidate s)
               | Inr mac \<Rightarrow>
                   (Inr (header @ data @ (if transmit_mac then take 8 mac else [])),
                    s\<lparr>sa_iv := mac, sa_phase := Sa_awaiting_response\<rparr>)))"

definition sa_prepare_plain ::
  "crypto_provider \<Rightarrow> byte \<Rightarrow> bytes \<Rightarrow> bytes \<Rightarrow> sa_session \<Rightarrow> bytes result \<times> sa_session" where
  "sa_prepare_plain C command header data = prepare_cmac_command C command header data False"

definition sa_prepare_mac ::
  "crypto_provider \<Rightarrow> byte \<Rightarrow> bytes \<Rightarrow> bytes \<Rightarrow> sa_session \<Rightarrow> bytes result \<times> sa_session" where
  "sa_prepare_mac C command header data = prepare_cmac_command C command header data (data \<noteq> [])"

text \<open>The clear blocks of a Full command: data, CRC, the replaced-key CRC if present, zeros.\<close>

definition changes_another_aes_key :: "byte \<Rightarrow> bytes \<Rightarrow> bool" where
  "changes_another_aes_key command data = ((command = 0xC4 \<or> command = 0xC6) \<and> length data = 21)"

definition full_command_blocks :: "byte \<Rightarrow> bytes \<Rightarrow> bytes \<Rightarrow> bytes" where
  "full_command_blocks command header data =
     (let command_data_size =
            (if changes_another_aes_key command data then length data - 4 else length data);
          checksum = crc32 ([command] @ header @ take command_data_size data);
          clear_size = length data + 4;
          padded_size = ((clear_size + 16 - 1) div 16) * 16;
          clear = take command_data_size data @ crc_bytes checksum @
                    (if changes_another_aes_key command data then last_bytes 4 data else [])
      in clear @ replicate (padded_size - length clear) 0)"

definition sa_prepare_full ::
  "crypto_provider \<Rightarrow> byte \<Rightarrow> bytes \<Rightarrow> bytes \<Rightarrow> sa_session \<Rightarrow> bytes result \<times> sa_session" where
  "sa_prepare_full C command header data s =
     (if data = [] then prepare_cmac_command C command header data False s
      else if sa_phase s \<noteq> Sa_ready then (Inl sa_not_ready, s)
      else if length header > size_max - 1 \<or> length data > size_max - 1 - length header \<or>
              length data > size_max - 4 \<or> length data + 4 > size_max - (16 - 1)
      then (Inl (invalid (STR ''Standard AES Full command is too large'')), s)
      else let padded = full_command_blocks command header data
      in if length header > size_max - length padded
         then (Inl (invalid (STR ''Standard AES Full command is too large'')), s)
         else (case cbc C aes128 (sa_session_key s) (sa_iv s) padded True of
                 Threw \<Rightarrow> (Inl (local_error EC_internal
                             (STR ''Standard AES Full command preparation failed'')), sa_invalidate s)
               | Returned r \<Rightarrow>
                   (case sa_secret_output r (length padded) of
                      Inl e \<Rightarrow> (Inl e, sa_invalidate s)
                    | Inr ciphertext \<Rightarrow>
                        (Inr (header @ ciphertext),
                         s\<lparr>sa_iv := last_bytes 16 ciphertext, sa_phase := Sa_awaiting_response\<rparr>))))"

definition sa_verify_response ::
  "crypto_provider \<Rightarrow> raw_response \<Rightarrow> sa_session \<Rightarrow> bytes result \<times> sa_session" where
  "sa_verify_response C response s =
     (if sa_phase s \<noteq> Sa_awaiting_response
      then (Inl (local_error EC_session_invalid (STR ''Standard AES session is not awaiting a response'')), s)
      else if rs_status response \<noteq> 0
      then (Inl (if rs_status response = 0xAF
                 then make_error EC_malformed_response (STR ''Standard AES protected response is not terminal'')
                        OC_unknown (ucast (rs_status response))
                 else make_error EC_card_rejected (STR ''Card rejected standard AES command'')
                        OC_rejected (ucast (rs_status response))),
            sa_invalidate s)
      else if length (rs_data response) < 8
      then (Inl (unknown_error EC_integrity (STR ''Standard AES response has no complete CMAC'')),
            sa_invalidate s)
      else let data_size = length (rs_data response) - 8;
               data = take data_size (rs_data response);
               received_mac = drop data_size (rs_data response)
      in (case calculate_cmac C (data @ [rs_status response]) s of
            Inl e \<Rightarrow> (Inl (with_unknown_outcome e), sa_invalidate s)
          | Inr mac \<Rightarrow>
              if \<not> constant_time_equal received_mac (take 8 mac)
              then (Inl (unknown_error EC_integrity (STR ''Standard AES response CMAC verification failed'')),
                    sa_invalidate s)
              else (Inr data, s\<lparr>sa_iv := mac, sa_phase := Sa_ready\<rparr>)))"

definition sa_accept_plain_response ::
  "crypto_provider \<Rightarrow> raw_response \<Rightarrow> sa_session \<Rightarrow> bytes result \<times> sa_session" where
  "sa_accept_plain_response C response = sa_verify_response C response"

text \<open>The lambda \<^verbatim>\<open>verifies\<close> on a decrypted response.\<close>

definition verifies :: "bytes \<Rightarrow> byte \<Rightarrow> nat \<Rightarrow> bool" where
  "verifies clear status data_size =
     (if data_size > length clear - 4 then False
      else let padding_size = length clear - data_size - 4
           in if padding_size \<ge> 16 \<or> \<not> list_all (\<lambda>value. value = 0) (drop (data_size + 4) clear) then False
              else crc_matches (subspan clear data_size 4) (crc32 (take data_size clear @ [status])))"

text \<open>The loop over the padding sizes; \<open>None\<close> is the ambiguous boundary.\<close>

fun search_boundary ::
  "(nat \<Rightarrow> bool) \<Rightarrow> nat \<Rightarrow> nat list \<Rightarrow> nat option \<Rightarrow> nat option option" where
  "search_boundary check clear_size [] verified = Some verified"
| "search_boundary check clear_size (padding # rest) verified =
     (let candidate = clear_size - 4 - padding
      in if check candidate
         then (case verified of
                 Some _ \<Rightarrow> None
               | None \<Rightarrow> search_boundary check clear_size rest (Some candidate))
         else search_boundary check clear_size rest verified)"

definition verified_boundary :: "bytes \<Rightarrow> byte \<Rightarrow> nat option \<Rightarrow> nat option option" where
  "verified_boundary clear status expected_size =
     (case expected_size of
        Some n \<Rightarrow> Some (if verifies clear status n then Some n else None)
      | None \<Rightarrow>
          let maximum_padding = min (16 - 1) (length clear - 4)
          in search_boundary (verifies clear status) (length clear) [0..<maximum_padding + 1] None)"

definition sa_verify_and_decrypt_full_response ::
  "crypto_provider \<Rightarrow> raw_response \<Rightarrow> nat option \<Rightarrow> sa_session \<Rightarrow> bytes result \<times> sa_session" where
  "sa_verify_and_decrypt_full_response C response expected_size s =
     (if sa_phase s \<noteq> Sa_awaiting_response
      then (Inl (local_error EC_session_invalid (STR ''Standard AES session is not awaiting a response'')), s)
      else if rs_status response \<noteq> 0
      then (Inl (if rs_status response = 0xAF
                 then make_error EC_malformed_response (STR ''Standard AES encrypted response is not terminal'')
                        OC_unknown (ucast (rs_status response))
                 else make_error EC_card_rejected (STR ''Card rejected standard AES command'')
                        OC_rejected (ucast (rs_status response))),
            sa_invalidate s)
      else if rs_data response = [] \<or> length (rs_data response) mod 16 \<noteq> 0
      then (Inl (unknown_error EC_integrity (STR ''Standard AES encrypted response has invalid length'')),
            sa_invalidate s)
      else (case cbc C aes128 (sa_session_key s) (sa_iv s) (rs_data response) False of
              Threw \<Rightarrow> (Inl (unknown_error EC_internal (STR ''Standard AES response decryption failed'')),
                         sa_invalidate s)
            | Returned r \<Rightarrow>
                (case sa_secret_output r (length (rs_data response)) of
                   Inl e \<Rightarrow> (Inl (with_unknown_outcome e), sa_invalidate s)
                 | Inr clear \<Rightarrow>
                     (case verified_boundary clear (rs_status response) expected_size of
                        None \<Rightarrow> (Inl (unknown_error EC_integrity
                                   (STR ''Standard AES response has ambiguous CRC boundary'')), sa_invalidate s)
                      | Some None \<Rightarrow> (Inl (unknown_error EC_integrity
                                   (STR ''Standard AES response CRC or zero padding is invalid'')), sa_invalidate s)
                      | Some (Some verified_size) \<Rightarrow>
                          (Inr (take verified_size clear),
                           s\<lparr>sa_iv := last_bytes 16 (rs_data response), sa_phase := Sa_ready\<rparr>)))))"

section \<open>Specification\<close>

text \<open>The session as the operations of the secure channel.\<close>

definition sa_ops :: "crypto_provider \<Rightarrow> sa_session session_ops" where
  "sa_ops C =
     \<lparr>so_prepare_plain = sa_prepare_plain C, so_prepare_mac = sa_prepare_mac C,
      so_prepare_full = sa_prepare_full C, so_accept_plain = sa_accept_plain_response C,
      so_verify = sa_verify_response C,
      so_verify_full = sa_verify_and_decrypt_full_response C,
      so_invalidate = sa_invalidate\<rparr>"

definition sa_inv :: "sa_session \<Rightarrow> bool" where
  "sa_inv s \<longleftrightarrow>
     length (sa_session_key s) = 16 \<and> length (sa_iv s) = 16 \<and>
     (sa_phase s = Sa_invalid \<longrightarrow> sa_session_key s = replicate 16 0 \<and> sa_iv s = replicate 16 0)"

text \<open>A block as a 128-bit number, most significant byte first.\<close>

definition block_word :: "bytes \<Rightarrow> 128 word" where
  "block_word block = foldl (\<lambda>acc b. push_bit 8 acc OR ucast b) 0 block"

text \<open>Multiplication by \<open>x\<close> modulo \<open>x^128 + x^7 + x^2 + x + 1\<close>.\<close>

definition field_double :: "128 word \<Rightarrow> 128 word" where
  "field_double w = push_bit 1 w XOR (if bit w 127 then 0x87 else 0)"

text \<open>The clear text of an encrypted response with a given boundary.\<close>

definition full_response_text :: "bytes \<Rightarrow> byte \<Rightarrow> nat \<Rightarrow> bytes" where
  "full_response_text d status padding = d @ crc_bytes (crc32 (d @ [status])) @ replicate padding 0"

text \<open>Every preparation either fails (the session stays or is wiped) or makes an answer due.\<close>

definition sa_prepared :: "sa_session \<Rightarrow> bytes result \<times> sa_session \<Rightarrow> bool" where
  "sa_prepared s out \<longleftrightarrow>
     (case out of
        (Inl e, s') \<Rightarrow> s' = s \<or> s' = sa_invalidate s
      | (Inr w, s') \<Rightarrow> sa_phase s = Sa_ready \<and>
          length (sa_iv s') = 16 \<and> sa_session_key s' = sa_session_key s \<and> sa_phase s' = Sa_awaiting_response)"

text \<open>Every answer that is due is accepted with data, or wipes the session.\<close>

definition sa_answered :: "raw_response \<Rightarrow> sa_session \<Rightarrow> bytes result \<times> sa_session \<Rightarrow> bool" where
  "sa_answered resp s out \<longleftrightarrow>
     (case out of
        (Inl e, s') \<Rightarrow>
          if sa_phase s = Sa_awaiting_response then s' = sa_invalidate s \<and> err_outcome e \<noteq> OC_not_sent
          else s' = s
      | (Inr d, s') \<Rightarrow> sa_phase s = Sa_awaiting_response \<and> rs_status resp = 0 \<and>
          length d \<le> length (rs_data resp) \<and>
          length (sa_iv s') = 16 \<and> sa_session_key s' = sa_session_key s \<and> sa_phase s' = Sa_ready)"

section \<open>Effects of the operations\<close>

lemma sa_secret_output_Inr [simp]:
  "sa_secret_output r n = Inr out \<longleftrightarrow> r = Inr out \<and> length out = n"
  by (auto simp: sa_secret_output_def split: sum.splits if_splits)

lemma crc_bytes_length [simp]: "length (crc_bytes c) = 4"
  by (simp add: crc_bytes_def)

lemma double_loop_length [simp]: "length (double_loop n c b) = length b"
  by (induction n c b rule: double_loop.induct) (simp_all add: Let_def)

lemma double_cmac_subkey_length [simp]: "length (double_cmac_subkey b) = length b"
  by (simp add: double_cmac_subkey_def Let_def)

lemma xor_last_block_length [simp]:
  "length key = 16 \<Longrightarrow> 16 \<le> length b \<Longrightarrow> length (xor_last_block key b) = length b"
  by (simp add: xor_last_block_def)

lemma block_count_length:
  "input \<noteq> [] \<Longrightarrow> length input \<le> (length input + 16 - 1) div 16 * 16 \<and>
     16 \<le> (length input + 16 - 1) div 16 * 16"
  using div_mult_mod_eq [of "length input + 15" 16] mod_less_divisor [of 16 "length input + 15"]
  by (cases input) auto

lemma cmac_blocks_length:
  "length key = 16 \<Longrightarrow> length (cmac_blocks key input) =
     (if input = [] then 16 else (length input + 16 - 1) div 16 * 16)"
  using block_count_length [of input] by (auto simp: cmac_blocks_def Let_def)

lemma calculate_cmac_length: "calculate_cmac C input s = Inr mac \<Longrightarrow> length mac = 16"
  using cmac_blocks_length block_count_length [of input]
  by (auto simp: calculate_cmac_def Let_def split: dep.splits sum.splits if_splits)

lemma calculate_cmac_Inr:
  assumes "length input \<le> 2 ^ 60"
  shows "calculate_cmac C input ses = Inr mac \<longleftrightarrow>
   (\<exists>base out. cbc C aes128 (sa_session_key ses) (replicate 16 0) (replicate 16 0) True = Returned (Inr base) \<and>
      length base = 16 \<and>
      cbc C aes128 (sa_session_key ses) (sa_iv ses) (cmac_blocks (double_cmac_subkey base) input) True =
        Returned (Inr out) \<and>
      length out = length (cmac_blocks (double_cmac_subkey base) input) \<and> mac = last_bytes 16 out)"
proof -
  have "(length input + 16 - 1) div 16 \<le> (2 ^ 60 + 15) div 16"
    using assms by (intro div_le_mono) simp
  also have "\<dots> \<le> size_max div 16" by (simp add: size_max_def)
  finally have "\<not> (if input = [] then 1 else (length input + 16 - 1) div 16) > size_max div 16"
    by (auto simp: size_max_def)
  then show ?thesis
    unfolding calculate_cmac_def sa_secret_output_def Let_def
    by (auto split: dep.splits sum.splits if_splits)
qed

lemma sa_invalidate_sel [simp]:
  "sa_phase (sa_invalidate s) = Sa_invalid"
  "sa_session_key (sa_invalidate s) = replicate (length (sa_session_key s)) 0"
  "sa_iv (sa_invalidate s) = replicate (length (sa_iv s)) 0"
  by (simp_all add: sa_invalidate_def)

lemma full_command_blocks_length:
  "length (full_command_blocks c h d) = (length d + 4 + 16 - 1) div 16 * 16"
proof -
  have "length d + 4 \<le> (length d + 4 + 16 - 1) div 16 * 16"
    using div_mult_mod_eq [of "length d + 19" 16] mod_less_divisor [of 16 "length d + 19"] by simp
  then show ?thesis
    by (auto simp: full_command_blocks_def Let_def changes_another_aes_key_def)
qed

lemma prepare_cmac_command_effect: "sa_prepared s (prepare_cmac_command C c h d t s)"
  by (auto simp: sa_prepared_def prepare_cmac_command_def Let_def dest!: calculate_cmac_length
      split: if_splits sum.splits)

lemma sa_prepare_full_effect: "sa_prepared s (sa_prepare_full C c h d s)"
proof (cases "d = []")
  case True
  then show ?thesis
    using prepare_cmac_command_effect [of s C c h "[]" False] by (simp add: sa_prepare_full_def)
next
  case False
  have "16 \<le> (19 + length d) div 16 * 16"
    using div_mult_mod_eq [of "19 + length d" 16] mod_less_divisor [of 16 "19 + length d"] by simp
  then show ?thesis
    using False
    by (auto simp: sa_prepared_def sa_prepare_full_def Let_def full_command_blocks_length min_absorb1
        split: if_splits sum.splits dep.splits)
qed

lemma sa_session_prepare_effect: "sa_prepared s (session_prepare (sa_ops C) m c h d s)"
  using sa_prepare_full_effect prepare_cmac_command_effect
  by (simp add: session_prepare_def sa_ops_def sa_prepare_plain_def sa_prepare_mac_def)

lemma sa_verify_response_effect: "sa_answered resp s (sa_verify_response C resp s)"
  by (auto simp: sa_answered_def sa_verify_response_def Let_def dest!: calculate_cmac_length
      split: if_splits sum.splits)

lemma sa_verify_full_effect: "sa_answered resp s (sa_verify_and_decrypt_full_response C resp n s)"
proof -
  have "16 \<le> length xs" if "16 dvd length xs" "xs \<noteq> []" for xs :: bytes
    using that by (simp add: dvd_imp_le)
  then show ?thesis
    by (auto simp: sa_answered_def sa_verify_and_decrypt_full_response_def
        split: if_splits sum.splits dep.splits option.splits)
qed

lemma sa_session_answer_effect: "sa_answered resp s (session_answer (sa_ops C) m resp n s)"
  using sa_verify_response_effect sa_verify_full_effect
  by (simp add: session_answer_def sa_ops_def sa_accept_plain_response_def)

lemma sa_prepare_refused:
  assumes "sa_phase s \<noteq> Sa_ready"
  shows "session_prepare (sa_ops C) m c h d s = (Inl sa_not_ready, s)"
  using assms
  by (auto simp: session_prepare_def sa_ops_def sa_prepare_plain_def sa_prepare_mac_def
      sa_prepare_full_def prepare_cmac_command_def Let_def)

lemma sa_inv_prepared:
  "sa_inv s \<Longrightarrow> sa_prepared s (r, s') \<Longrightarrow> sa_inv s'"
  by (auto simp: sa_inv_def sa_prepared_def split: sum.splits)

lemma sa_inv_answered:
  "sa_inv s \<Longrightarrow> sa_answered resp s (r, s') \<Longrightarrow> sa_inv s'"
  by (auto simp: sa_inv_def sa_answered_def split: sum.splits if_splits)

interpretation sa: secure_session "sa_ops C" sa_inv "\<lambda>s. sa_phase s = Sa_ready"
  "\<lambda>s mode. sa_phase s = Sa_awaiting_response" "\<lambda>s. sa_phase s = Sa_invalid" for C
proof (unfold_locales)
  fix s s' m m' c h d w e resp n
  show "sa_inv s \<Longrightarrow> sa_inv (so_invalidate (sa_ops C) s) \<and> sa_phase (so_invalidate (sa_ops C) s) = Sa_invalid"
    by (simp add: sa_ops_def sa_inv_def)
  show "sa_phase s = Sa_invalid \<Longrightarrow> sa_phase s \<noteq> Sa_ready" by simp
  show "sa_inv s \<Longrightarrow> session_prepare (sa_ops C) m c h d s = (Inr w, s') \<Longrightarrow>
      sa_phase s = Sa_ready \<and> sa_inv s' \<and>
      ((m = Mode_plain) = (m' = Mode_plain) \<longrightarrow> sa_phase s' = Sa_awaiting_response)"
    using sa_session_prepare_effect [of s C m c h d] sa_inv_prepared [of s "Inr w" s']
    by (auto simp: sa_prepared_def)
  show "sa_inv s \<Longrightarrow> session_prepare (sa_ops C) m c h d s = (Inl e, s') \<Longrightarrow> sa_inv s'"
    using sa_session_prepare_effect [of s C m c h d] sa_inv_prepared [of s "Inl e" s'] by simp
  show "sa_phase s \<noteq> Sa_ready \<Longrightarrow> \<exists>e. session_prepare (sa_ops C) m c h d s = (Inl e, s) \<and>
      err_code e = EC_session_invalid \<and> err_outcome e = OC_not_sent"
    by (simp add: sa_prepare_refused sa_not_ready_def)
  show "sa_inv s \<Longrightarrow> session_answer (sa_ops C) m resp n s = (Inr d, s') \<Longrightarrow>
      rs_status resp = 0 \<and> sa_phase s' = Sa_ready \<and> sa_inv s' \<and> length d \<le> length (rs_data resp)"
    using sa_session_answer_effect [of resp s C m n] sa_inv_answered [of s resp "Inr d" s']
    by (auto simp: sa_answered_def)
  show "sa_inv s \<Longrightarrow> session_answer (sa_ops C) m resp n s = (Inl e, s') \<Longrightarrow> sa_inv s'"
    using sa_session_answer_effect [of resp s C m n] sa_inv_answered [of s resp "Inl e" s'] by simp
  show "sa_inv s \<Longrightarrow> sa_phase s = Sa_awaiting_response \<Longrightarrow>
      session_answer (sa_ops C) m resp n s = (Inl e, s') \<Longrightarrow>
      err_outcome e \<noteq> OC_not_sent \<and> sa_phase s' = Sa_invalid"
    using sa_session_answer_effect [of resp s C m n] by (auto simp: sa_answered_def)
qed

section \<open>Subkey doubling\<close>

lemma block_word_snoc: "block_word (xs @ [x]) = push_bit 8 (block_word xs) OR ucast x"
  by (simp add: block_word_def)

lemma bit_block_word:
  "n < 128 \<Longrightarrow> bit (block_word b) n \<longleftrightarrow>
     n div 8 < length b \<and> bit (b ! (length b - 1 - n div 8)) (n mod 8)"
proof (induction b arbitrary: n rule: rev_induct)
  case Nil
  then show ?case by (simp add: block_word_def)
next
  case (snoc x xs)
  show ?case
  proof (cases "n < 8")
    case True
    then show ?thesis using snoc.prems by (simp add: block_word_snoc bit_or_iff bit_push_bit_iff bit_ucast_iff)
  next
    case False
    have d: "n div 8 = Suc ((n - 8) div 8)" "n mod 8 = (n - 8) mod 8"
      using False by (simp_all add: le_div_geq le_mod_geq)
    have "\<not> bit x n" using False bit_imp_le_length [of x n] by auto
    then have "bit (block_word (xs @ [x])) n \<longleftrightarrow> bit (block_word xs) (n - 8)"
      using False snoc.prems by (simp add: block_word_snoc bit_or_iff bit_push_bit_iff bit_ucast_iff)
    then show ?thesis using snoc.IH [of "n - 8"] snoc.prems d by (auto simp: nth_append)
  qed
qed

lemma double_loop_nth:
  "n \<le> length b \<Longrightarrow> i < length b \<Longrightarrow> double_loop n c b ! i =
     (if n \<le> i then b ! i
      else push_bit 1 (b ! i) OR (if Suc i = n then c else drop_bit 7 (b ! Suc i)))"
proof (induction n c b rule: double_loop.induct)
  case (2 index carry block)
  then show ?case
    by (cases "i = index") (auto simp: Let_def nth_list_update)
qed simp

lemma bit_shift_1: "bit (push_bit 1 (w :: 'a::len word)) n \<longleftrightarrow> 0 < n \<and> n < LENGTH('a) \<and> bit w (n - 1)"
  by (simp only: bit_push_bit_iff possible_bit_word) auto

lemma bit_shifted_byte:
  "bit (push_bit 1 (x :: byte) OR drop_bit 7 y) k \<longleftrightarrow> 0 < k \<and> k < 8 \<and> bit x (k - 1) \<or> k = 0 \<and> bit y 7"
proof -
  have "bit y (7 + k) \<longleftrightarrow> k = 0 \<and> bit y 7" using bit_imp_le_length [of y "7 + k"] by auto
  then show ?thesis by (simp only: bit_or_iff bit_shift_1 bit_drop_bit_eq comp_apply) auto
qed

lemma block_word_shift:
  assumes "length b = 16"
  shows "block_word (double_loop 16 0 b) = push_bit 1 (block_word b)"
proof (rule bit_word_eqI)
  fix n assume n: "n < LENGTH(128)"
  then have n16: "n div 8 < 16" by simp
  define i where "i = 15 - n div 8"
  have i: "i < 16" "length b - 1 - n div 8 = i" using n16 assms by (simp_all add: i_def)
  have "bit (block_word (double_loop 16 0 b)) n \<longleftrightarrow> bit (double_loop 16 0 b ! i) (n mod 8)"
    using n n16 i assms by (simp add: bit_block_word)
  also have "\<dots> \<longleftrightarrow> 0 < n mod 8 \<and> bit (b ! i) (n mod 8 - 1) \<or>
      n mod 8 = 0 \<and> 0 < n div 8 \<and> bit (b ! Suc i) 7"
  proof (cases "n div 8 = 0")
    case True
    then have "double_loop 16 0 b ! i = push_bit 1 (b ! i)"
      using i assms double_loop_nth [of 16 b i 0] by (simp add: i_def)
    then show ?thesis using True by (simp only: bit_shift_1) auto
  next
    case False
    then have "double_loop 16 0 b ! i = push_bit 1 (b ! i) OR drop_bit 7 (b ! Suc i)"
      using i assms double_loop_nth [of 16 b i 0] by (simp add: i_def)
    then show ?thesis using False by (simp only: bit_shifted_byte) auto
  qed
  also have "\<dots> \<longleftrightarrow> 0 < n \<and> bit (block_word b) (n - 1)"
  proof (cases "n mod 8")
    case 0
    then have "0 < n \<Longrightarrow> 0 < n div 8 \<and> (n - 1) div 8 = n div 8 - 1 \<and> (n - 1) mod 8 = 7"
      by (cases n) (auto simp: mod_Suc div_Suc split: if_splits)
    moreover have "Suc (15 - n div 8) = 16 - n div 8" using n16 by simp
    ultimately show ?thesis using 0 n n16 assms by (auto simp: bit_block_word i_def)
  next
    case (Suc k)
    then have "0 < n \<and> (n - 1) div 8 = n div 8 \<and> (n - 1) mod 8 = k"
      by (cases n) (auto simp: mod_Suc div_Suc split: if_splits)
    then show ?thesis using Suc n n16 i assms by (simp add: bit_block_word)
  qed
  also have "\<dots> \<longleftrightarrow> bit (push_bit 1 (block_word b)) n" using n by (simp only: bit_shift_1) auto
  finally show "bit (block_word (double_loop 16 0 b)) n = bit (push_bit 1 (block_word b)) n" .
qed

lemma block_word_xor_last:
  assumes "b \<noteq> []"
  shows "block_word (b[length b - 1 := last b XOR v]) = block_word b XOR ucast v"
proof -
  obtain xs x where b: "b = xs @ [x]" using assms by (cases b rule: rev_cases) auto
  have "push_bit 8 a OR ucast (x XOR v) = (push_bit 8 a OR ucast x) XOR (ucast v :: 128 word)" for a :: "128 word"
    by (intro bit_word_eqI)
      (auto simp: bit_or_iff bit_xor_iff bit_push_bit_iff bit_ucast_iff dest: bit_imp_le_length)
  then show ?thesis by (simp add: b block_word_snoc)
qed

lemma double_cmac_subkey_field:
  assumes "length b = 16"
  shows "block_word (double_cmac_subkey b) = field_double (block_word b)"
proof -
  have "b \<noteq> []" using assms by auto
  have "(hd b AND 0x80 \<noteq> 0) = bit (hd b) 7"
    using and_exp_eq_0_iff_not_bit [of "hd b" 7] by simp
  also have "\<dots> = bit (block_word b) 127" using assms \<open>b \<noteq> []\<close> by (simp add: bit_block_word hd_conv_nth)
  finally have reduce: "(hd b AND 0x80 \<noteq> 0) = bit (block_word b) 127" .
  have "double_loop 16 0 b \<noteq> []" using assms by (metis double_loop_length \<open>b \<noteq> []\<close> length_0_conv)
  then show ?thesis
    using block_word_xor_last [of "double_loop 16 0 b" "0x87"] block_word_shift [OF assms] reduce assms
    by (simp add: double_cmac_subkey_def Let_def field_double_def)
qed

section \<open>Boundary search\<close>

lemma verifies_iff:
  assumes "4 \<le> length clear"
  shows "verifies clear status n \<longleftrightarrow>
           (\<exists>padding<16. n \<le> length clear \<and> clear = full_response_text (take n clear) status padding)"
proof
  assume v: "verifies clear status n"
  let ?d = "take n clear"
  from v have n: "n + 4 \<le> length clear" "length clear - n - 4 < 16"
      "list_all (\<lambda>value. value = 0) (drop (n + 4) clear)"
      "subspan clear n 4 = crc_bytes (crc32 (?d @ [status]))"
    using assms by (auto simp: verifies_def crc_matches_def Let_def split: if_splits)
  have "replicate (length (drop (n + 4) clear)) 0 = drop (n + 4) clear"
    by (rule replicate_length_same) (use n(3) in \<open>auto simp: list_all_iff\<close>)
  then have "drop (n + 4) clear = replicate (length clear - n - 4) 0" by simp
  then have "clear = full_response_text ?d status (length clear - n - 4)"
    using subspan_self_split [of n clear 4] n(4) by (simp add: full_response_text_def)
  then show "\<exists>padding<16. n \<le> length clear \<and> clear = full_response_text ?d status padding" using n by auto
next
  assume "\<exists>padding<16. n \<le> length clear \<and> clear = full_response_text (take n clear) status padding"
  then obtain padding d where c: "padding < 16" "length d = n" "clear = full_response_text d status padding"
    by (metis length_take min_absorb2)
  then show "verifies clear status n"
    by (simp add: verifies_def full_response_text_def crc_matches_def list_all_iff subspan_def)
qed

lemma search_boundary_Some:
  "search_boundary check total' ps v = Some out \<Longrightarrow>
     out = (case v of Some c \<Rightarrow> Some c | None \<Rightarrow> find check (map (\<lambda>p. total' - 4 - p) ps)) \<and>
     length (filter check (map (\<lambda>p. total' - 4 - p) ps)) + (if v = None then 0 else 1) \<le> 1"
proof (induction check total' ps v rule: search_boundary.induct)
  case (2 check total' p ps v)
  then show ?case by (auto simp: Let_def filter_map split: if_splits option.splits)
qed (auto split: option.splits)

lemma search_boundary_None:
  "search_boundary check total' ps v = None \<Longrightarrow>
     1 < length (filter check (map (\<lambda>p. total' - 4 - p) ps)) + (if v = None then 0 else 1)"
proof (induction check total' ps v rule: search_boundary.induct)
  case (2 check total' p ps v)
  then show ?case by (auto simp: Let_def filter_map split: if_splits option.splits)
qed auto

lemma verified_boundary_unique:
  assumes "16 \<le> length clear"
  shows "verified_boundary clear status None = Some (Some n) \<longleftrightarrow>
           verifies clear status n \<and> (\<forall>m. verifies clear status m \<longrightarrow> m = n)"
proof -
  let ?check = "verifies clear status" and ?total = "length clear"
  define ps where "ps = [0..<min 15 (?total - 4) + 1]"
  define cs where "cs = map (\<lambda>p. ?total - 4 - p) ps"
  have distinct: "distinct cs"
    by (auto simp: cs_def ps_def distinct_map inj_on_def)
  have covers: "m \<in> set cs" if "?check m" for m
  proof -
    have m: "m \<le> ?total - 4" "?total - m - 4 < 16"
      using that by (auto simp: verifies_def Let_def split: if_splits)
    then have "m = ?total - 4 - (?total - 4 - m)" "?total - 4 - m \<in> set ps" by (auto simp: ps_def)
    then show ?thesis unfolding cs_def by (metis (no_types, lifting) image_eqI list.set_map)
  qed
  have def: "verified_boundary clear status None = search_boundary ?check ?total ps None"
    by (simp add: verified_boundary_def Let_def ps_def)
  show ?thesis
  proof
    assume some: "verified_boundary clear status None = Some (Some n)"
    then have find: "find ?check cs = Some n" and few: "length (filter ?check cs) \<le> 1"
      using search_boundary_Some [OF some [unfolded def], folded cs_def] by simp_all
    then have n: "?check n" by (auto simp: find_Some_iff)
    moreover have "m = n" if "?check m" for m
    proof -
      have "m \<in> set (filter ?check cs)" "n \<in> set (filter ?check cs)"
        using covers [OF that] covers [OF n] n that by simp_all
      then show ?thesis using few by (cases "filter ?check cs") auto
    qed
    ultimately show "?check n \<and> (\<forall>m. ?check m \<longrightarrow> m = n)" by blast
  next
    assume unique: "?check n \<and> (\<forall>m. ?check m \<longrightarrow> m = n)"
    then have "set (filter ?check cs) \<subseteq> {n}" by auto
    then have few: "length (filter ?check cs) \<le> 1"
      using distinct_card [of "filter ?check cs"] distinct card_mono [of "{n}" "set (filter ?check cs)"] by simp
    then obtain out where out: "search_boundary ?check ?total ps None = Some out"
      using search_boundary_None [of ?check ?total ps None, folded cs_def]
      by (cases "search_boundary ?check ?total ps None") simp_all
    have "find ?check cs = Some n"
      using unique covers [of n] by (metis find_None_iff find_Some_iff option.exhaust)
    then show "verified_boundary clear status None = Some (Some n)"
      using search_boundary_Some [OF out, folded cs_def] out unfolding def by simp
  qed
qed

section \<open>Properties\<close>

text \<open>
  C34. The subkey doubling of the session's CMAC is multiplication by \<open>x\<close> in the field with the
  reduction constant \<open>0x87\<close>, when a block is read as a 128-bit number.
\<close>

theorem double_cmac_subkey_correct:
  assumes "length block = 16"
  shows "length (double_cmac_subkey block) = 16 \<and>
         block_word (double_cmac_subkey block) = field_double (block_word block)"
  using double_cmac_subkey_field [OF assms] assms by simp

theorem double_cmac_subkey_correct_witness:
  "block_word (double_cmac_subkey (0xC0 # replicate 14 0 @ [0x81])) =
     field_double (block_word (0xC0 # replicate 14 0 @ [0x81]))"
  using double_cmac_subkey_correct [of "0xC0 # replicate 14 0 @ [0x81]"] by simp

text \<open>
  A response under Plain or MAC mode is accepted exactly when it is due, its status is success and
  its last eight bytes are the first eight of the CMAC of data and status under the chained initial
  vector; the accepted CMAC becomes the next initial vector.
\<close>

theorem sa_verify_response_iff:
  "sa_verify_response C resp s = (Inr d, s') \<longleftrightarrow>
   sa_phase s = Sa_awaiting_response \<and> rs_status resp = 0 \<and>
   (\<exists>mac. calculate_cmac C (d @ [0]) s = Inr mac \<and> rs_data resp = d @ take 8 mac \<and>
      s' = s\<lparr>sa_iv := mac, sa_phase := Sa_ready\<rparr>)"
  (is "?accepted \<longleftrightarrow> ?authentic")
proof
  assume ok: ?accepted
  let ?n = "length (rs_data resp) - 8"
  from ok have "sa_phase s = Sa_awaiting_response" "rs_status resp = 0" "d = take ?n (rs_data resp)"
    "\<exists>mac. calculate_cmac C (d @ [0]) s = Inr mac \<and> drop ?n (rs_data resp) = take 8 mac \<and>
       s' = s\<lparr>sa_iv := mac, sa_phase := Sa_ready\<rparr>"
    by (auto simp: sa_verify_response_def Let_def split: if_splits sum.splits)
  then show ?authentic by (metis append_take_drop_id)
next
  assume ?authentic
  then obtain mac where mac: "calculate_cmac C (d @ [0]) s = Inr mac" "rs_data resp = d @ take 8 mac"
      "sa_phase s = Sa_awaiting_response" "rs_status resp = 0" "s' = s\<lparr>sa_iv := mac, sa_phase := Sa_ready\<rparr>"
    by blast
  moreover have "length mac = 16" using calculate_cmac_length mac(1) .
  ultimately show ?accepted by (simp add: sa_verify_response_def Let_def)
qed

text \<open>
  An encrypted response of unknown length is accepted with the data \<open>d\<close> exactly when it is due,
  its status is success, it consists of whole blocks, and its clear text is \<open>d\<close>, the CRC of \<open>d\<close> and
  the status, and fewer than sixteen zero bytes, in one way only: a second boundary that also fits
  is refused instead of being guessed.
\<close>

theorem sa_full_response_exact:
  "(\<exists>s'. sa_verify_and_decrypt_full_response C resp None s = (Inr d, s')) \<longleftrightarrow>
   sa_phase s = Sa_awaiting_response \<and> rs_status resp = 0 \<and>
   rs_data resp \<noteq> [] \<and> length (rs_data resp) mod 16 = 0 \<and>
   (\<exists>clear. cbc C aes128 (sa_session_key s) (sa_iv s) (rs_data resp) False = Returned (Inr clear) \<and>
      length clear = length (rs_data resp) \<and>
      {d'. \<exists>p<16. clear = full_response_text d' 0 p} = {d})"
  (is "_ \<longleftrightarrow> ?exact")
proof -
  have boundary: "(\<exists>n. verified_boundary clear 0 None = Some (Some n) \<and> d = take n clear) \<longleftrightarrow>
      {d'. \<exists>p<16. clear = full_response_text d' 0 p} = {d}"
    (is "?found \<longleftrightarrow> ?set") if size: "16 \<le> length clear" for clear
  proof -
    have unique: "?set \<longleftrightarrow> (\<exists>p<16. clear = full_response_text d 0 p) \<and>
        (\<forall>d' p. p < 16 \<and> clear = full_response_text d' 0 p \<longrightarrow> d' = d)"
      (is "_ \<longleftrightarrow> ?unique") by blast
    have four: "4 \<le> length clear" using size by simp
    have sealed: "verifies clear 0 (length d') \<and> take (length d') clear = d'"
      if "p < 16" "clear = full_response_text d' 0 p" for d' p
      using that verifies_iff [OF four, of 0 "length d'"] by (auto simp: full_response_text_def)
    have fits: "n \<le> length clear" if "verifies clear 0 n" for n
      using that verifies_iff [OF four] by blast
    show ?thesis
      unfolding verified_boundary_unique [OF size] unique
    proof
      assume "\<exists>n. (verifies clear 0 n \<and> (\<forall>m. verifies clear 0 m \<longrightarrow> m = n)) \<and> d = take n clear"
      then show ?unique using sealed verifies_iff [OF four] by metis
    next
      assume u: ?unique
      then have d: "verifies clear 0 (length d)" "take (length d) clear = d" using sealed by blast+
      moreover have "m = length d" if "verifies clear 0 m" for m
        using that u fits [OF that] verifies_iff [OF four, of 0 m] by (metis length_take min_absorb2)
      ultimately show "\<exists>n. (verifies clear 0 n \<and> (\<forall>m. verifies clear 0 m \<longrightarrow> m = n)) \<and> d = take n clear"
        by metis
    qed
  qed
  have blocks: "16 \<le> length xs" if "xs \<noteq> []" "length xs mod 16 = 0" for xs :: bytes
    using that by (metis length_0_conv mod_less not_le)
  have "(\<exists>s'. sa_verify_and_decrypt_full_response C resp None s = (Inr d, s')) \<longleftrightarrow>
    sa_phase s = Sa_awaiting_response \<and> rs_status resp = 0 \<and>
    rs_data resp \<noteq> [] \<and> length (rs_data resp) mod 16 = 0 \<and>
    (\<exists>clear. cbc C aes128 (sa_session_key s) (sa_iv s) (rs_data resp) False = Returned (Inr clear) \<and>
       length clear = length (rs_data resp) \<and>
       (\<exists>n. verified_boundary clear 0 None = Some (Some n) \<and> d = take n clear))"
    by (auto simp: sa_verify_and_decrypt_full_response_def sa_secret_output_def
        split: if_splits dep.splits sum.splits option.splits)
  also have "\<dots> \<longleftrightarrow> ?exact"
    by (intro conj_cong refl ex_cong1 boundary) (use blocks in simp)
  finally show ?thesis .
qed

end
