(* ===== verification/Authentication.thy ===== *)
theory Authentication
  imports Ev2_Session Standard_Aes_Session
begin

text \<open>
  The three-pass handshakes of \<^verbatim>\<open>core/src/security/ev2/authentication.cpp\<close> and
  \<^verbatim>\<open>core/src/security/standard_aes/authentication.cpp\<close>. The random source and the exchange
  callback are arguments, as in the source: the managed card passes a callback that runs one frame
  exchange of its transaction. The theorems show what a success establishes (the card proved
  knowledge of the key on the host's nonce), that a card holding the same key is always accepted and
  ends with the same session keys, and that an error after the first answer is never reported as not
  sent.
\<close>

section \<open>Shared pieces\<close>

text \<open>\<^verbatim>\<open>AuthenticationExchange\<close>: command and payload to a response.\<close>

type_synonym 's auth_exchange = "byte \<Rightarrow> bytes \<Rightarrow> ('s, raw_response) action"

text \<open>\<^verbatim>\<open>secret_output(result, expected)\<close> around the call that produces the result.\<close>

definition act_secret ::
  "(bytes result \<Rightarrow> nat \<Rightarrow> bytes result) \<Rightarrow> ('s, bytes) action \<Rightarrow> nat \<Rightarrow> ('s, bytes) action" where
  "act_secret secret_output m expected s =
     (case m s of (Threw, s') \<Rightarrow> (Threw, s') | (Returned r, s') \<Rightarrow> (Returned (secret_output r expected), s'))"

definition rotate_left :: "bytes \<Rightarrow> bytes" where
  "rotate_left input = drop 1 input @ take 1 input"

section \<open>EV2\<close>

definition ev2_auth_secret_output :: "bytes result \<Rightarrow> nat \<Rightarrow> bytes result" where
  "ev2_auth_secret_output r expected =
     (case r of
        Inl e \<Rightarrow> Inl e
      | Inr out \<Rightarrow>
          if length out \<noteq> expected
          then Inl (local_error EC_crypto (STR ''EV2 AES primitive returned an unexpected output length''))
          else Inr out)"

definition ev2_require_phase :: "raw_response \<Rightarrow> byte \<Rightarrow> nat \<Rightarrow> String.literal \<Rightarrow> unit result" where
  "ev2_require_phase response expected_status expected_size operation =
     (if rs_status response \<noteq> expected_status
      then if rs_status response \<noteq> 0 \<and> rs_status response \<noteq> 0xAF
           then Inl (make_error EC_card_rejected (operation + STR '' was rejected by card'')
                       OC_rejected (ucast (rs_status response)))
           else Inl (make_error EC_malformed_response
                       (operation + STR '' returned an unexpected phase status'')
                       OC_unknown (ucast (rs_status response)))
      else if length (rs_data response) \<noteq> expected_size
      then Inl (unknown_error EC_malformed_response
                 (operation + STR '' returned an invalid encrypted field length''))
      else Inr ())"

definition write_session_context :: "bytes \<Rightarrow> bytes \<Rightarrow> bytes" where
  "write_session_context random_a random_b =
     [random_a ! 0, random_a ! 1] @
     map (\<lambda>index. random_a ! (2 + index) XOR random_b ! index) [0..<6] @
     map (\<lambda>index. random_b ! (6 + index)) [0..<10] @
     map (\<lambda>index. random_a ! (8 + index)) [0..<8]"

definition derive_key ::
  "crypto_provider \<Rightarrow> bytes \<Rightarrow> bytes \<Rightarrow> bytes \<Rightarrow> bytes \<Rightarrow> ('s, bytes) action" where
  "derive_key C key label random_a random_b =
     act_secret ev2_auth_secret_output
       (act_lift (cmac C aes128 key (label @ write_session_context random_a random_b))) 16"

definition derive_material ::
  "crypto_provider \<Rightarrow> bytes \<Rightarrow> bytes \<Rightarrow> bytes \<Rightarrow> authentication_info \<Rightarrow> ('s, ev2_material) action" where
  "derive_material C key random_a random_b information =
     act_bind (derive_key C key [0xA5, 0x5A, 0x00, 0x01, 0x00, 0x80] random_a random_b) (\<lambda>encryption.
     act_bind (derive_key C key [0x5A, 0xA5, 0x00, 0x01, 0x00, 0x80] random_a random_b) (\<lambda>mac.
     act_return \<lparr>mat_encryption_key = encryption, mat_mac_key = mac, mat_information = information\<rparr>))"

definition exchange_nonces ::
  "crypto_provider \<Rightarrow> (nat \<Rightarrow> ('s, bytes) action) \<Rightarrow> 's auth_exchange \<Rightarrow> byte \<Rightarrow> bytes \<Rightarrow> bytes \<Rightarrow> nat
     \<Rightarrow> String.literal \<Rightarrow> ('s, bytes \<times> bytes \<times> bytes) action" where
  "exchange_nonces C random exchange initial_command initial_payload key terminal_size operation =
     act_bind (act_secret ev2_auth_secret_output (random 16) 16) (\<lambda>random_a.
     act_bind (exchange initial_command initial_payload) (\<lambda>initial.
     act_bind (act_require (ev2_require_phase initial 0xAF 16 operation)) (\<lambda>_.
     act_bind (act_map_error with_unknown_outcome (act_secret ev2_auth_secret_output
       (act_lift (cbc C aes128 key (replicate 16 0) (rs_data initial) False)) 16)) (\<lambda>random_b.
     let proof = random_a @ rotate_left random_b in
     act_bind (act_map_error with_unknown_outcome (act_secret ev2_auth_secret_output
       (act_lift (cbc C aes128 key (replicate 16 0) proof True)) (length proof))) (\<lambda>encrypted_proof.
     act_bind (act_map_error sent_outcome (exchange 0xAF encrypted_proof)) (\<lambda>terminal.
     act_bind (act_require (ev2_require_phase terminal 0x00 terminal_size operation)) (\<lambda>_.
     act_bind (act_map_error with_unknown_outcome (act_secret ev2_auth_secret_output
       (act_lift (cbc C aes128 key (replicate 16 0) (rs_data terminal) False)) terminal_size)) (\<lambda>plaintext.
     act_return (random_a, random_b, plaintext)))))))))"

text \<open>Six bytes that start with the requested capabilities.\<close>

definition pad_capabilities :: "bytes \<Rightarrow> bytes" where
  "pad_capabilities pcd = pcd @ replicate (6 - length pcd) 0"

definition ev2_authenticate_first ::
  "crypto_provider \<Rightarrow> (nat \<Rightarrow> ('s, bytes) action) \<Rightarrow> byte \<Rightarrow> bytes \<Rightarrow> bytes \<Rightarrow> 's auth_exchange
     \<Rightarrow> 's \<Rightarrow> ev2_material result \<times> 's" where
  "ev2_authenticate_first C random key_number key pcd exchange s =
     (if length key \<noteq> 16 \<or> key_number > 0x3F \<or> length pcd > 6
      then (Inl (invalid (STR ''EV2 AES First authentication requires a 16-byte key, zero through six PCD capability bytes, and an exchange'')), s)
      else catch_as (unknown_error EC_internal (STR ''EV2 AES First dependency threw an exception''))
        (act_bind (exchange_nonces C random exchange 0x71
            ([key_number, of_nat (length pcd)] @ pcd) key 32
            (STR ''EV2 AES First authentication''))
          (\<lambda>(random_a, random_b, terminal).
             if \<not> constant_time_equal (subspan terminal 4 16) (rotate_left random_a)
             then act_require (Inl (unknown_error EC_authentication
                    (STR ''EV2 AES First card proof did not match the host nonce'')))
             else if \<not> constant_time_equal (subspan terminal 26 6) (pad_capabilities pcd)
             then act_require (Inl (unknown_error EC_authentication
                    (STR ''EV2 AES First card capability echo did not match the request'')))
             else act_map_error with_unknown_outcome
                    (derive_material C key random_a random_b
                       \<lparr>transaction_identifier = take 4 terminal, picc_capabilities = subspan terminal 20 6,
                        pcd_capabilities = subspan terminal 26 6\<rparr>))) s)"

definition ev2_authenticate_nonfirst ::
  "crypto_provider \<Rightarrow> (nat \<Rightarrow> ('s, bytes) action) \<Rightarrow> byte \<Rightarrow> bytes \<Rightarrow> authentication_info \<Rightarrow> 's auth_exchange
     \<Rightarrow> 's \<Rightarrow> ev2_material result \<times> 's" where
  "ev2_authenticate_nonfirst C random key_number key previous exchange s =
     (if length key \<noteq> 16 \<or> key_number > 0x3F
      then (Inl (invalid (STR ''EV2 AES NonFirst authentication requires a 16-byte key and exchange'')), s)
      else catch_as (unknown_error EC_internal (STR ''EV2 AES NonFirst dependency threw an exception''))
        (act_bind (exchange_nonces C random exchange 0x77 [key_number] key 16
            (STR ''EV2 AES NonFirst authentication''))
          (\<lambda>(random_a, random_b, terminal).
             if \<not> constant_time_equal terminal (rotate_left random_a)
             then act_require (Inl (unknown_error EC_authentication
                    (STR ''EV2 AES NonFirst card proof did not match the host nonce'')))
             else act_map_error with_unknown_outcome
                    (derive_material C key random_a random_b previous))) s)"

section \<open>Standard AES\<close>

definition sa_require_phase :: "raw_response \<Rightarrow> byte \<Rightarrow> nat \<Rightarrow> unit result" where
  "sa_require_phase response expected_status expected_size =
     (if rs_status response \<noteq> expected_status
      then if rs_status response \<noteq> 0 \<and> rs_status response \<noteq> 0xAF
           then Inl (make_error EC_card_rejected (STR ''Standard AES authentication was rejected by card'')
                       OC_rejected (ucast (rs_status response)))
           else Inl (make_error EC_malformed_response
                       (STR ''Standard AES authentication returned an unexpected phase status'')
                       OC_unknown (ucast (rs_status response)))
      else if length (rs_data response) \<noteq> expected_size
      then Inl (unknown_error EC_malformed_response
                 (STR ''Standard AES authentication returned an invalid encrypted field length''))
      else Inr ())"

definition standard_session_key :: "bytes \<Rightarrow> bytes \<Rightarrow> bytes" where
  "standard_session_key random_a random_b =
     take 4 random_a @ take 4 random_b @ subspan random_a 12 4 @ subspan random_b 12 4"

definition sa_authenticate ::
  "crypto_provider \<Rightarrow> (nat \<Rightarrow> ('s, bytes) action) \<Rightarrow> byte \<Rightarrow> bytes \<Rightarrow> 's auth_exchange
     \<Rightarrow> 's \<Rightarrow> bytes result \<times> 's" where
  "sa_authenticate C random key_number key exchange s =
     (if length key \<noteq> 16 \<or> key_number > 0x3F
      then (Inl (invalid (STR ''Standard AES authentication requires a 16-byte key and an exchange'')), s)
      else catch_as (unknown_error EC_internal (STR ''Standard AES dependency threw an exception''))
        (act_bind (act_secret sa_secret_output (random 16) 16) (\<lambda>random_a.
         act_bind (exchange 0xAA [key_number]) (\<lambda>initial.
         act_bind (act_require (sa_require_phase initial 0xAF 16)) (\<lambda>_.
         act_bind (act_map_error with_unknown_outcome (act_secret sa_secret_output
           (act_lift (cbc C aes128 key (replicate 16 0) (rs_data initial) False)) 16)) (\<lambda>random_b.
         let proof = random_a @ rotate_left random_b in
         act_bind (act_map_error with_unknown_outcome (act_secret sa_secret_output
           (act_lift (cbc C aes128 key (rs_data initial) proof True)) (length proof))) (\<lambda>encrypted_proof.
         act_bind (act_map_error sent_outcome (exchange 0xAF encrypted_proof)) (\<lambda>terminal.
         act_bind (act_require (sa_require_phase terminal 0x00 16)) (\<lambda>_.
         act_bind (act_map_error with_unknown_outcome (act_secret sa_secret_output
           (act_lift (cbc C aes128 key (last_bytes 16 encrypted_proof) (rs_data terminal) False)) 16))
           (\<lambda>card_proof.
         if \<not> constant_time_equal card_proof (rotate_left random_a)
         then act_require (Inl (unknown_error EC_authentication
                (STR ''Standard AES card proof did not match the host nonce'')))
         else act_return (standard_session_key random_a random_b)))))))))) s)"

section \<open>Specification: a card that holds the key\<close>

text \<open>The card's memory of a handshake.\<close>

record card_handshake =
  ch_key :: bytes
  ch_nonce :: bytes
  ch_transaction :: bytes
  ch_capabilities :: bytes
  ch_pending :: "(byte \<times> bytes) option"
  ch_first_block :: bytes
  ch_host_nonce :: "bytes option"

text \<open>
  What the card calculates, as the card's specification writes it and not as the host's code does: a nonce
  turned by one byte, a capability field of six bytes, and the session vector
  \<open>A[15..14], A[13..8] XOR B[15..10], B[9..0], A[7..0]\<close>, where byte 15 of a nonce is the first on the wire.
\<close>

definition card_rotated :: "bytes \<Rightarrow> bytes" where
  "card_rotated nonce = map (\<lambda>i. nonce ! ((i + 1) mod 16)) [0..<16]"

definition card_capability_field :: "bytes \<Rightarrow> bytes" where
  "card_capability_field caps = map (\<lambda>i. if i < length caps then caps ! i else 0) [0..<6]"

definition numbered_byte :: "bytes \<Rightarrow> nat \<Rightarrow> byte" where
  "numbered_byte nonce k = nonce ! (15 - k)"

definition card_session_vector :: "bytes \<Rightarrow> bytes \<Rightarrow> bytes" where
  "card_session_vector a b =
     map (numbered_byte a) [15, 14] @
     map (\<lambda>(i, j). numbered_byte a i XOR numbered_byte b j)
       [(13, 15), (12, 14), (11, 13), (10, 12), (9, 11), (8, 10)] @
     map (numbered_byte b) [9, 8, 7, 6, 5, 4, 3, 2, 1, 0] @
     map (numbered_byte a) [7, 6, 5, 4, 3, 2, 1, 0]"

text \<open>
  EV2: the first command is answered with the encrypted nonce; the proof is checked against the
  rotated nonce and answered with the rotated host nonce, for First together with the transaction
  identifier and both capability fields.
\<close>

definition card_reply :: "byte \<Rightarrow> bytes \<Rightarrow> raw_response" where
  "card_reply status data = \<lparr>rs_status = status, rs_data = data\<rparr>"

definition encrypted :: "crypto_provider \<Rightarrow> bytes \<Rightarrow> bytes \<Rightarrow> bytes \<Rightarrow> bytes" where
  "encrypted C key iv clear = (case cbc C aes128 key iv clear True of Returned (Inr x) \<Rightarrow> x | _ \<Rightarrow> [])"

definition decrypted :: "crypto_provider \<Rightarrow> bytes \<Rightarrow> bytes \<Rightarrow> bytes \<Rightarrow> bytes" where
  "decrypted C key iv text = (case cbc C aes128 key iv text False of Returned (Inr x) \<Rightarrow> x | _ \<Rightarrow> [])"

definition ev2_card_exchange :: "crypto_provider \<Rightarrow> card_handshake auth_exchange" where
  "ev2_card_exchange C command payload c =
     (let zero = replicate 16 0
      in if command = 0x71 \<or> command = 0x77
         then (Returned (Inr (card_reply 0xAF (encrypted C (ch_key c) zero (ch_nonce c)))),
               c\<lparr>ch_pending := Some (command, drop 2 payload)\<rparr>)
         else (case ch_pending c of
                 None \<Rightarrow> (Returned (Inr (card_reply 0xCA [])), c)
               | Some (first, caps) \<Rightarrow>
                   let proof = decrypted C (ch_key c) zero payload;
                       host = take 16 proof
                   in if drop 16 proof \<noteq> card_rotated (ch_nonce c)
                      then (Returned (Inr (card_reply 0xAE [])), c\<lparr>ch_pending := None\<rparr>)
                      else (Returned (Inr (card_reply 0x00 (encrypted C (ch_key c) zero
                              (if first = 0x71
                               then ch_transaction c @ card_rotated host @ ch_capabilities c @ card_capability_field caps
                               else card_rotated host)))),
                            c\<lparr>ch_pending := None, ch_host_nonce := Some host\<rparr>)))"

text \<open>Standard AES: the same passes with the initial vector chained through the cipher texts.\<close>

definition sa_card_exchange :: "crypto_provider \<Rightarrow> card_handshake auth_exchange" where
  "sa_card_exchange C command payload c =
     (if command = 0xAA
      then let challenge = encrypted C (ch_key c) (replicate 16 0) (ch_nonce c)
           in (Returned (Inr (card_reply 0xAF challenge)),
               c\<lparr>ch_pending := Some (command, []), ch_first_block := challenge\<rparr>)
      else let proof = decrypted C (ch_key c) (ch_first_block c) payload;
               host = take 16 proof
      in if ch_pending c = None \<or> drop 16 proof \<noteq> card_rotated (ch_nonce c)
         then (Returned (Inr (card_reply 0xAE [])), c\<lparr>ch_pending := None\<rparr>)
         else (Returned (Inr (card_reply 0x00
                 (encrypted C (ch_key c) (last_bytes 16 payload) (card_rotated host)))),
               c\<lparr>ch_pending := None, ch_host_nonce := Some host\<rparr>))"

text \<open>The session key a card derives for a label.\<close>

definition card_session_key :: "crypto_provider \<Rightarrow> bytes \<Rightarrow> card_handshake \<Rightarrow> bytes option" where
  "card_session_key C label c =
     (case ch_host_nonce c of
        None \<Rightarrow> None
      | Some host \<Rightarrow>
          (case cmac C aes128 (ch_key c) (label @ card_session_vector host (ch_nonce c)) of
             Returned (Inr k) \<Rightarrow> Some k
           | _ \<Rightarrow> None))"

text \<open>What the EV2 card sends back last.\<close>

definition card_terminal :: "byte \<Rightarrow> bytes \<Rightarrow> bytes \<Rightarrow> card_handshake \<Rightarrow> bytes" where
  "card_terminal command ra caps c =
     (if command = 0x71
      then ch_transaction c @ card_rotated ra @ ch_capabilities c @ card_capability_field caps
      else card_rotated ra)"

text \<open>A failure with outcome \<open>not_sent\<close> can only stem from the random source or the first exchange.\<close>

definition first_pass_failed ::
  "(bytes result \<Rightarrow> nat \<Rightarrow> bytes result) \<Rightarrow> (nat \<Rightarrow> ('s, bytes) action) \<Rightarrow> ('s, raw_response) action
     \<Rightarrow> 's \<Rightarrow> bool" where
  "first_pass_failed so random first s \<longleftrightarrow>
     (case act_secret so (random 16) 16 s of
        (Returned (Inr ra), s1) \<Rightarrow> (case first s1 of (Returned (Inr r), s2) \<Rightarrow> False | _ \<Rightarrow> True)
      | _ \<Rightarrow> True)"

text \<open>A concrete card for evaluation.\<close>

definition sample_card :: card_handshake where
  "sample_card = \<lparr>ch_key = replicate 16 7, ch_nonce = replicate 16 9, ch_transaction = [1, 2, 3, 4],
     ch_capabilities = replicate 6 2, ch_pending = None, ch_first_block = [], ch_host_nonce = None\<rparr>"

section \<open>Successful handshakes\<close>

lemma act_secret_Inr:
  assumes "\<And>r n out. so r n = Inr out \<longleftrightarrow> r = Inr out \<and> length out = n"
  shows "act_secret so m n s = (Returned (Inr out), s') \<longleftrightarrow>
           m s = (Returned (Inr out), s') \<and> length out = n"
  using assms by (auto simp: act_secret_def split: prod.splits dep.splits)

lemma ev2_auth_secret_output_Inr:
  "ev2_auth_secret_output r n = Inr out \<longleftrightarrow> r = Inr out \<and> length out = n"
  by (auto simp: ev2_auth_secret_output_def split: sum.splits if_splits)

lemmas ev2_secret_Inr [simp] = act_secret_Inr [of ev2_auth_secret_output, OF ev2_auth_secret_output_Inr]
lemmas sa_secret_Inr [simp] = act_secret_Inr [of sa_secret_output, OF sa_secret_output_Inr]

lemma ev2_require_phase_Inr [simp]:
  "ev2_require_phase r st n oper = Inr () \<longleftrightarrow> rs_status r = st \<and> length (rs_data r) = n"
  by (auto simp: ev2_require_phase_def)

lemma sa_require_phase_Inr [simp]:
  "sa_require_phase r st n = Inr () \<longleftrightarrow> rs_status r = st \<and> length (rs_data r) = n"
  by (auto simp: sa_require_phase_def)

lemma rotate_left_length [simp]: "length (rotate_left xs) = length xs"
  by (simp add: rotate_left_def)

lemma rotate_left_inject [simp]:
  assumes "length xs = length ys"
  shows "rotate_left xs = rotate_left ys \<longleftrightarrow> xs = ys"
proof
  assume eq: "rotate_left xs = rotate_left ys"
  then have "drop 1 xs = drop 1 ys \<and> take 1 xs = take 1 ys"
    using assms by (simp add: rotate_left_def)
  then show "xs = ys" by (metis append_take_drop_id)
qed simp

text \<open>The host's code calculates what the card's specification says.\<close>

lemma card_rotated_eq: "length xs = 16 \<Longrightarrow> card_rotated xs = rotate_left xs"
proof (rule nth_equalityI)
  fix i
  assume "length xs = 16" "i < length (card_rotated xs)"
  then show "card_rotated xs ! i = rotate_left xs ! i"
    by (cases "i = 15") (simp_all add: card_rotated_def rotate_left_def nth_append)
qed (simp add: card_rotated_def rotate_left_def)

lemma card_capability_field_eq: "length caps \<le> 6 \<Longrightarrow> card_capability_field caps = pad_capabilities caps"
  by (rule nth_equalityI) (auto simp: card_capability_field_def pad_capabilities_def nth_append)

lemma card_session_vector_eq: "card_session_vector a b = write_session_context a b"
  by (simp add: card_session_vector_def numbered_byte_def write_session_context_def upt_rec eval_nat_numeral)

lemma exchange_nonces_success:
  "exchange_nonces C random exchange cmd payload key n oper s = (Returned (Inr (ra, rb, plain)), s') \<longleftrightarrow>
   (\<exists>s1 s2 initial proof terminal.
      random 16 s = (Returned (Inr ra), s1) \<and> length ra = 16 \<and>
      exchange cmd payload s1 = (Returned (Inr initial), s2) \<and>
      rs_status initial = 0xAF \<and> length (rs_data initial) = 16 \<and>
      cbc C aes128 key (replicate 16 0) (rs_data initial) False = Returned (Inr rb) \<and> length rb = 16 \<and>
      cbc C aes128 key (replicate 16 0) (ra @ rotate_left rb) True = Returned (Inr proof) \<and>
      length proof = 32 \<and>
      exchange 0xAF proof s2 = (Returned (Inr terminal), s') \<and>
      rs_status terminal = 0 \<and> length (rs_data terminal) = n \<and>
      cbc C aes128 key (replicate 16 0) (rs_data terminal) False = Returned (Inr plain) \<and> length plain = n)"
  by (auto simp: exchange_nonces_def act_success Let_def)

lemma derive_material_success:
  "derive_material C key ra rb info s = (Returned (Inr m), s') \<longleftrightarrow>
   (\<exists>enc mac. cmac C aes128 key ([0xA5, 0x5A, 0, 1, 0, 0x80] @ write_session_context ra rb) = Returned (Inr enc) \<and>
      cmac C aes128 key ([0x5A, 0xA5, 0, 1, 0, 0x80] @ write_session_context ra rb) = Returned (Inr mac) \<and>
      length enc = 16 \<and> length mac = 16 \<and> s' = s \<and>
      m = \<lparr>mat_encryption_key = enc, mat_mac_key = mac, mat_information = info\<rparr>)"
  by (auto simp: derive_material_def derive_key_def act_success)

section \<open>Outcomes of failures\<close>

lemma require_phase_outcome:
  "ev2_require_phase r st n oper = Inl e \<Longrightarrow> err_outcome e \<noteq> OC_not_sent"
  "sa_require_phase r st n = Inl e \<Longrightarrow> err_outcome e \<noteq> OC_not_sent"
  by (auto simp: ev2_require_phase_def sa_require_phase_def split: if_splits)

lemma exchange_nonces_not_sent:
  assumes "exchange_nonces C random exchange cmd payload key n oper s = (Returned (Inl e), s')"
    and "err_outcome e = OC_not_sent"
  shows "first_pass_failed ev2_auth_secret_output random (exchange cmd payload) s"
  using assms
  by (auto simp: exchange_nonces_def act_failure Let_def first_pass_failed_def simp del: ev2_secret_Inr
      dest!: require_phase_outcome split: prod.splits dep.splits sum.splits)

section \<open>The card that holds the key\<close>

lemma cbc_pair:
  assumes "cbc_sound C" "length key = 16" "length iv = 16" "length x mod 16 = 0"
    and "length x \<le> largest_cipher_input"
  shows "cbc C aes128 key iv x True = Returned (Inr (encrypted C key iv x))"
    "length (encrypted C key iv x) = length x"
    "cbc C aes128 key iv (encrypted C key iv x) False = Returned (Inr x)"
    "decrypted C key iv (encrypted C key iv x) = x"
proof -
  obtain out where out: "cbc C aes128 key iv x True = Returned (Inr out)" "length out = length x"
    "cbc C aes128 key iv out False = Returned (Inr x)"
    by (rule cbc_encrypt_block [OF assms])
  then have "encrypted C key iv x = out" by (simp add: encrypted_def)
  then show "cbc C aes128 key iv x True = Returned (Inr (encrypted C key iv x))"
    "length (encrypted C key iv x) = length x"
    "cbc C aes128 key iv (encrypted C key iv x) False = Returned (Inr x)"
    "decrypted C key iv (encrypted C key iv x) = x"
    using out by (simp_all add: decrypted_def)
qed

lemma ev2_card_nonces:
  assumes sound: "cbc_sound C" and card: "length (ch_key c) = 16" "length (ch_nonce c) = 16"
    and host: "random 16 c = (Returned (Inr ra), c)" "length ra = 16"
    and cmd: "cmd = 0x71 \<or> cmd = 0x77"
    and n: "length (card_terminal cmd ra (drop 2 payload) c) = n" "n mod 16 = 0" "n \<le> 32"
  shows "exchange_nonces C random (ev2_card_exchange C) cmd payload (ch_key c) n oper c =
     (Returned (Inr (ra, ch_nonce c, card_terminal cmd ra (drop 2 payload) c)),
      c\<lparr>ch_pending := None, ch_host_nonce := Some ra\<rparr>)"
proof -
  let ?E = "\<lambda>x. encrypted C (ch_key c) (replicate 16 0) x"
  let ?c1 = "c\<lparr>ch_pending := Some (cmd, drop 2 payload)\<rparr>"
  let ?t = "card_terminal cmd ra (drop 2 payload) c"
  have turned: "card_rotated (ch_nonce c) = rotate_left (ch_nonce c)" by (rule card_rotated_eq [OF card(2)])
  note pair = cbc_pair [OF sound card(1), of "replicate 16 0"]
  have one: "ev2_card_exchange C cmd payload c = (Returned (Inr (card_reply 0xAF (?E (ch_nonce c)))), ?c1)"
    using cmd by (auto simp: ev2_card_exchange_def Let_def)
  have "decrypted C (ch_key c) (replicate 16 0) (?E (ra @ rotate_left (ch_nonce c))) = ra @ rotate_left (ch_nonce c)"
    using pair(4) [of "ra @ rotate_left (ch_nonce c)"] host(2) card(2) by simp
  then have two: "ev2_card_exchange C 0xAF (?E (ra @ rotate_left (ch_nonce c))) ?c1 =
      (Returned (Inr (card_reply 0 (?E ?t))), c\<lparr>ch_pending := None, ch_host_nonce := Some ra\<rparr>)"
    using host(2) by (simp add: ev2_card_exchange_def Let_def card_terminal_def turned)
  show ?thesis
    unfolding exchange_nonces_success
    using host one two card n pair [of "ch_nonce c"] pair [of "ra @ rotate_left (ch_nonce c)"] pair [of ?t]
    by (simp add: card_reply_def)
qed

lemma derive_material_success':
  "derive_material C key ra rb info s = (Returned (Inr m), s') \<longleftrightarrow>
   s' = s \<and> mat_information m = info \<and>
   cmac C aes128 key ([0xA5, 0x5A, 0, 1, 0, 0x80] @ write_session_context ra rb) = Returned (Inr (mat_encryption_key m)) \<and>
   cmac C aes128 key ([0x5A, 0xA5, 0, 1, 0, 0x80] @ write_session_context ra rb) = Returned (Inr (mat_mac_key m)) \<and>
   length (mat_encryption_key m) = 16 \<and> length (mat_mac_key m) = 16"
  unfolding derive_material_success by (cases m) auto

lemma ev2_first_split:
  "ev2_authenticate_first C random key_number key pcd exchange s = (Inr m, s') \<longleftrightarrow>
   length key = 16 \<and> key_number \<le> 0x3F \<and> length pcd \<le> 6 \<and>
   (\<exists>ra rb plain. exchange_nonces C random exchange 0x71 ([key_number, of_nat (length pcd)] @ pcd) key 32
        (STR ''EV2 AES First authentication'') s = (Returned (Inr (ra, rb, plain)), s') \<and>
      subspan plain 4 16 = rotate_left ra \<and> subspan plain 26 6 = pad_capabilities pcd \<and>
      derive_material C key ra rb
       \<lparr>transaction_identifier = take 4 plain, picc_capabilities = subspan plain 20 6,
        pcd_capabilities = pad_capabilities pcd\<rparr> s' = (Returned (Inr m), s'))"
  by (auto simp: ev2_authenticate_first_def act_bind_Inr derive_material_success' not_less split: if_splits)

lemma derive_material_sound:
  assumes "cmac_sound C" "length key = 16"
  obtains m where "derive_material C key ra rb info s = (Returned (Inr m), s)"
    "cmac C aes128 key ([0xA5, 0x5A, 0, 1, 0, 0x80] @ write_session_context ra rb) = Returned (Inr (mat_encryption_key m))"
    "cmac C aes128 key ([0x5A, 0xA5, 0, 1, 0, 0x80] @ write_session_context ra rb) = Returned (Inr (mat_mac_key m))"
    "length (mat_encryption_key m) = 16" "length (mat_mac_key m) = 16" "mat_information m = info"
proof -
  obtain enc where enc: "length enc = 16"
    "cmac C aes128 key ([0xA5, 0x5A, 0, 1, 0, 0x80] @ write_session_context ra rb) = Returned (Inr enc)"
    by (rule cmac_block [OF assms])
  obtain mac where mac: "length mac = 16"
    "cmac C aes128 key ([0x5A, 0xA5, 0, 1, 0, 0x80] @ write_session_context ra rb) = Returned (Inr mac)"
    by (rule cmac_block [OF assms])
  show thesis
    by (rule that [of "\<lparr>mat_encryption_key = enc, mat_mac_key = mac, mat_information = info\<rparr>"])
      (use enc mac in \<open>simp_all add: derive_material_success\<close>)
qed

section \<open>Properties\<close>

text \<open>
  C32. EV2 First authentication succeeds exactly when the key, key number and capabilities are in range
  and the card answered two exchanges in order: the first with the encrypted nonce of sixteen bytes,
  the second, to the encrypted proof, with a block that decrypts to the rotated host nonce and to the
  requested capabilities; the session keys are the two CMACs over the labels and both nonces.
\<close>

theorem ev2_authenticate_first_iff:
  "ev2_authenticate_first C random key_number key pcd exchange s = (Inr m, s') \<longleftrightarrow>
   length key = 16 \<and> key_number \<le> 0x3F \<and> length pcd \<le> 6 \<and>
   (\<exists>ra rb plain s1 s2 initial proof terminal.
      random 16 s = (Returned (Inr ra), s1) \<and> length ra = 16 \<and>
      exchange 0x71 ([key_number, of_nat (length pcd)] @ pcd) s1 = (Returned (Inr initial), s2) \<and>
      rs_status initial = 0xAF \<and> length (rs_data initial) = 16 \<and>
      cbc C aes128 key (replicate 16 0) (rs_data initial) False = Returned (Inr rb) \<and> length rb = 16 \<and>
      cbc C aes128 key (replicate 16 0) (ra @ rotate_left rb) True = Returned (Inr proof) \<and>
      length proof = 32 \<and>
      exchange 0xAF proof s2 = (Returned (Inr terminal), s') \<and>
      rs_status terminal = 0 \<and> length (rs_data terminal) = 32 \<and>
      cbc C aes128 key (replicate 16 0) (rs_data terminal) False = Returned (Inr plain) \<and>
      length plain = 32 \<and>
      subspan plain 4 16 = rotate_left ra \<and> subspan plain 26 6 = pad_capabilities pcd \<and>
      mat_information m = \<lparr>transaction_identifier = take 4 plain, picc_capabilities = subspan plain 20 6,
                           pcd_capabilities = pad_capabilities pcd\<rparr> \<and>
      cmac C aes128 key ([0xA5, 0x5A, 0, 1, 0, 0x80] @ write_session_context ra rb) =
        Returned (Inr (mat_encryption_key m)) \<and>
      cmac C aes128 key ([0x5A, 0xA5, 0, 1, 0, 0x80] @ write_session_context ra rb) =
        Returned (Inr (mat_mac_key m)) \<and>
      length (mat_encryption_key m) = 16 \<and> length (mat_mac_key m) = 16)"
  unfolding ev2_first_split exchange_nonces_success derive_material_success' by (auto simp: not_less)

text \<open>
  C29. A card that holds the key is accepted by EV2 First authentication, for every provider whose
  primitives behave as documented and every nonce, and both sides then hold the same two session keys,
  the card's transaction identifier and both capability fields.
\<close>

theorem ev2_first_agreement:
  assumes sound: "cbc_sound C" "cmac_sound C"
    and card: "length (ch_key c) = 16" "length (ch_nonce c) = 16" "length (ch_transaction c) = 4"
      "length (ch_capabilities c) = 6"
    and host: "random 16 c = (Returned (Inr ra), c)" "length ra = 16" "key_number \<le> 0x3F" "length pcd \<le> 6"
  shows "\<exists>m c'. ev2_authenticate_first C random key_number (ch_key c) pcd (ev2_card_exchange C) c = (Inr m, c') \<and>
           card_session_key C [0xA5, 0x5A, 0, 1, 0, 0x80] c' = Some (mat_encryption_key m) \<and>
           card_session_key C [0x5A, 0xA5, 0, 1, 0, 0x80] c' = Some (mat_mac_key m) \<and>
           mat_information m = \<lparr>transaction_identifier = ch_transaction c, picc_capabilities = ch_capabilities c,
                                pcd_capabilities = card_capability_field pcd\<rparr> \<and>
           (\<exists>session. ev2_create m 0 = Inr session \<and> ev2_inv session)"
proof -
  let ?p = "[key_number, of_nat (length pcd)] @ pcd"
  let ?t = "ch_transaction c @ rotate_left ra @ ch_capabilities c @ pad_capabilities pcd"
  let ?c' = "c\<lparr>ch_pending := None, ch_host_nonce := Some ra\<rparr>"
  have terminal: "card_terminal 0x71 ra (drop 2 ?p) c = ?t" 
    using host by (simp add: card_terminal_def card_rotated_eq card_capability_field_eq)
  have size: "length ?t = 32" using card host by (simp add: pad_capabilities_def)
  have nonces: "exchange_nonces C random (ev2_card_exchange C) 0x71 ?p (ch_key c) 32
      (STR ''EV2 AES First authentication'') c = (Returned (Inr (ra, ch_nonce c, ?t)), ?c')"
    using ev2_card_nonces [where cmd = "0x71" and payload = ?p and n = 32
        and random = random and c = c, OF sound(1) card(1,2) host(1,2)]
      terminal size by simp
  have fields: "take 4 ?t = ch_transaction c" "subspan ?t 4 16 = rotate_left ra"
    "subspan ?t 20 6 = ch_capabilities c" "subspan ?t 26 6 = pad_capabilities pcd"
    using card host by (simp_all add: pad_capabilities_def subspan_def)
  obtain m where m: "derive_material C (ch_key c) ra (ch_nonce c)
      \<lparr>transaction_identifier = ch_transaction c, picc_capabilities = ch_capabilities c,
       pcd_capabilities = pad_capabilities pcd\<rparr> ?c' = (Returned (Inr m), ?c')"
    "cmac C aes128 (ch_key c) ([0xA5, 0x5A, 0, 1, 0, 0x80] @ write_session_context ra (ch_nonce c)) = Returned (Inr (mat_encryption_key m))"
    "cmac C aes128 (ch_key c) ([0x5A, 0xA5, 0, 1, 0, 0x80] @ write_session_context ra (ch_nonce c)) = Returned (Inr (mat_mac_key m))"
    "length (mat_encryption_key m) = 16" "length (mat_mac_key m) = 16"
    "mat_information m = \<lparr>transaction_identifier = ch_transaction c, picc_capabilities = ch_capabilities c,
       pcd_capabilities = pad_capabilities pcd\<rparr>"
    by (rule derive_material_sound [OF sound(2) card(1)])
  have "ev2_authenticate_first C random key_number (ch_key c) pcd (ev2_card_exchange C) c = (Inr m, ?c')"
    using card host fields m(1) nonces unfolding ev2_first_split
    by (intro conjI exI [of _ ra] exI [of _ "ch_nonce c"] exI [of _ ?t]) simp_all
  moreover have "\<exists>session. ev2_create m 0 = Inr session \<and> ev2_inv session"
    using m card by (simp add: ev2_create_def ev2_inv_def)
  ultimately show ?thesis
    using m host(4) by (auto simp: card_session_key_def card_session_vector_eq card_capability_field_eq)
qed

theorem ev2_first_agreement_witness:
  "\<exists>m c'. ev2_authenticate_first sample_provider (\<lambda>n c. (Returned (Inr (replicate n 5)), c)) 0
      (ch_key sample_card) [1] (ev2_card_exchange sample_provider) sample_card = (Inr m, c') \<and>
     card_session_key sample_provider [0x5A, 0xA5, 0, 1, 0, 0x80] c' = Some (mat_mac_key m)"
  using ev2_first_agreement [OF sample_provider_sound, of sample_card
      "\<lambda>n c. (Returned (Inr (replicate n 5)), c)" "replicate 16 5" 0 "[1]"]
  by (auto simp: sample_card_def)

text \<open>
  Standard AES authentication accepts a card that holds the key, and the session key is the
  interleaving of both nonces.
\<close>

theorem sa_agreement:
  assumes sound: "cbc_sound C" and card: "length (ch_key c) = 16" "length (ch_nonce c) = 16"
    and host: "random 16 c = (Returned (Inr ra), c)" "length ra = 16" "key_number \<le> 0x3F"
  shows "\<exists>c'. sa_authenticate C random key_number (ch_key c) (sa_card_exchange C) c =
                (Inr (standard_session_key ra (ch_nonce c)), c') \<and>
              ch_host_nonce c' = Some ra \<and>
              (\<exists>session. sa_create (standard_session_key ra (ch_nonce c)) = Inr session \<and> sa_inv session)"
proof -
  let ?E = "encrypted C (ch_key c)"
  let ?first = "?E (replicate 16 0) (ch_nonce c)"
  let ?proof = "?E ?first (ra @ rotate_left (ch_nonce c))"
  let ?last = "?E (last_bytes 16 ?proof) (rotate_left ra)"
  let ?c1 = "c\<lparr>ch_pending := Some (0xAA, []), ch_first_block := ?first\<rparr>"
  let ?c' = "?c1\<lparr>ch_pending := None, ch_host_nonce := Some ra\<rparr>"
  note a = cbc_pair [OF sound card(1), of "replicate 16 0" "ch_nonce c"]
  have iv: "length ?first = 16" using a card by simp
  note b = cbc_pair [OF sound card(1) iv, of "ra @ rotate_left (ch_nonce c)"]
  have iv2: "length (last_bytes 16 ?proof) = 16" using b card host by simp
  note d = cbc_pair [OF sound card(1) iv2, of "rotate_left ra"]
  have one: "sa_card_exchange C 0xAA [key_number] c = (Returned (Inr (card_reply 0xAF ?first)), ?c1)"
    by (simp add: sa_card_exchange_def Let_def)
  have two: "sa_card_exchange C 0xAF ?proof ?c1 = (Returned (Inr (card_reply 0 ?last)), ?c')"
    using b host card by (simp add: sa_card_exchange_def Let_def card_rotated_eq)
  have "sa_authenticate C random key_number (ch_key c) (sa_card_exchange C) c =
      (Inr (standard_session_key ra (ch_nonce c)), ?c')"
    using one two a b d card host
    by (auto simp: sa_authenticate_def act_success card_reply_def not_less Let_def)
  then show ?thesis using card host
    by (simp add: sa_create_def sa_inv_def standard_session_key_def)
qed

theorem sa_agreement_witness:
  "\<exists>c'. sa_authenticate sample_provider (\<lambda>n c. (Returned (Inr (replicate n 5)), c)) 1
      (ch_key sample_card) (sa_card_exchange sample_provider) sample_card =
      (Inr (standard_session_key (replicate 16 5) (replicate 16 9)), c')"
  using sa_agreement [OF sample_provider_sound(1), of sample_card
      "\<lambda>n c. (Returned (Inr (replicate n 5)), c)" "replicate 16 5" 1]
  by (auto simp: sample_card_def)

lemma sa_authenticate_not_sent:
  assumes "sa_authenticate C random key_number key exchange s = (Inl e, s')" "err_outcome e = OC_not_sent"
    and "length key = 16" "key_number \<le> 0x3F"
  shows "first_pass_failed sa_secret_output random (exchange 0xAA [key_number]) s"
  using assms
  by (auto simp: sa_authenticate_def catch_as_Inl act_failure Let_def first_pass_failed_def not_less
      simp del: sa_secret_Inr dest!: require_phase_outcome split: prod.splits dep.splits sum.splits if_splits)

lemma ev2_first_not_sent:
  assumes "ev2_authenticate_first C random key_number key pcd exchange s = (Inl e, s')"
    "err_outcome e = OC_not_sent" and "length key = 16" "key_number \<le> 0x3F" "length pcd \<le> 6"
  shows "first_pass_failed ev2_auth_secret_output random
           (exchange 0x71 ([key_number, of_nat (length pcd)] @ pcd)) s"
  using assms exchange_nonces_not_sent [of C random exchange "0x71" "[key_number, of_nat (length pcd)] @ pcd"]
  by (auto simp: ev2_authenticate_first_def catch_as_Inl act_failure not_less split: if_splits)

lemma ev2_nonfirst_not_sent:
  assumes "ev2_authenticate_nonfirst C random key_number key previous exchange s = (Inl e, s')"
    "err_outcome e = OC_not_sent" and "length key = 16" "key_number \<le> 0x3F"
  shows "first_pass_failed ev2_auth_secret_output random (exchange 0x77 [key_number]) s"
  using assms exchange_nonces_not_sent [of C random exchange "0x77" "[key_number]"]
  by (auto simp: ev2_authenticate_nonfirst_def catch_as_Inl act_failure not_less split: if_splits)

text \<open>
  Once the card has answered the first pass of a handshake, no error claims that the command was
  not sent: for valid arguments an error with that outcome only arises when the random source or the
  first exchange itself failed. This holds for EV2 First, EV2 NonFirst and standard AES.
\<close>

theorem authentication_not_sent:
  assumes "length key = 16" "key_number \<le> 0x3F" "length pcd \<le> 6" "err_outcome e = OC_not_sent"
  shows "(ev2_authenticate_first C random key_number key pcd exchange s = (Inl e, s') \<longrightarrow>
            first_pass_failed ev2_auth_secret_output random
              (exchange 0x71 ([key_number, of_nat (length pcd)] @ pcd)) s) \<and>
         (ev2_authenticate_nonfirst C random key_number key previous exchange s = (Inl e, s') \<longrightarrow>
            first_pass_failed ev2_auth_secret_output random (exchange 0x77 [key_number]) s) \<and>
         (sa_authenticate C random key_number key exchange s = (Inl e, s') \<longrightarrow>
            first_pass_failed sa_secret_output random (exchange 0xAA [key_number]) s)"
  using ev2_first_not_sent [of C random key_number key pcd exchange s e s']
    ev2_nonfirst_not_sent [of C random key_number key previous exchange s e s']
    sa_authenticate_not_sent [of C random key_number key exchange s e s'] assms by simp

theorem authentication_not_sent_witness:
  "first_pass_failed sa_secret_output (\<lambda>n c. (Returned (Inr (replicate n 5)), c))
     ((\<lambda>_ _ c. (Returned (Inl (local_error EC_busy (STR ''busy''))), c)) (0xAA :: byte) [1 :: byte]) sample_card"
proof -
  let ?random = "\<lambda>n c. (Returned (Inr (replicate n (5 :: byte))), c :: card_handshake)"
  let ?busy = "local_error EC_busy (STR ''busy'')"
  let ?exchange = "(\<lambda>_ _ c. (Returned (Inl ?busy), c)) :: card_handshake auth_exchange"
  have "sa_authenticate sample_provider ?random 1 (replicate 16 7) ?exchange sample_card = (Inl ?busy, sample_card)"
    by (simp add: sa_authenticate_def catch_as_def act_bind_def act_secret_def sa_secret_output_def)
  then show ?thesis
    using authentication_not_sent [of "replicate 16 7" 1 "[]" ?busy sample_provider ?random ?exchange
        sample_card sample_card] by simp
qed

end
