(* ===== verification/Transports.thy ===== *)
theory Transports
  imports Environment
begin

text \<open>
  The reader transports of \<^verbatim>\<open>transports/\<close> that carry no platform code: the scripted
  \<^verbatim>\<open>ReplayTransport\<close> (\<^verbatim>\<open>replay.cpp\<close>) and the \<^verbatim>\<open>CallbackTransport\<close> that wraps
  functions of the host application (\<^verbatim>\<open>callback.cpp\<close>). The replay transport with a host
  clock, one cancellation flag and a finite supply of random bytes is an environment of the protocol
  core, on which the development runs its concrete examples.
\<close>

section \<open>Replay transport\<close>

text \<open>\<^verbatim>\<open>struct ReplayStep\<close>.\<close>

record replay_step =
  step_request :: bytes
  step_response :: "bytes result"

text \<open>The transport's mutable members, and the host it runs in.\<close>

record replay_transport =
  rp_steps :: "replay_step list"
  rp_generation :: u64
  rp_clock :: int
  rp_stopped :: bool
  rp_random :: bytes

text \<open>The constructor fixes three capability flags.\<close>

definition replay_capabilities :: "transport_capabilities \<Rightarrow> transport_capabilities" where
  "replay_capabilities caps =
     caps\<lparr>can_cancel := False, can_reset := True, hardware_timing := False\<rparr>"

definition replay_exchange ::
  "transport_capabilities \<Rightarrow> bytes \<Rightarrow> exchange_options \<Rightarrow> replay_transport
     \<Rightarrow> bytes result \<times> replay_transport" where
  "replay_exchange caps frame opts t =
     (if rp_stopped t
      then (Inl (local_error EC_cancelled (STR ''Replay cancelled before transmission'')), t)
      else if opt_timeout opts \<le> 0 \<or> length frame > max_transmit caps
      then (Inl (invalid (STR ''Replay exchange exceeds configured limits'')), t)
      else (case rp_steps t of
              [] \<Rightarrow> (Inl (invalid (STR ''Unexpected exchange after the replay script ended'')), t)
            | step # steps \<Rightarrow>
                if frame \<noteq> step_request step
                then (Inl (invalid (STR ''Exchange does not match the next replay expectation'')), t)
                else (step_response step, t\<lparr>rp_steps := steps\<rparr>)))"

definition replay_reset :: "replay_transport \<Rightarrow> unit result \<times> replay_transport" where
  "replay_reset t = (Inr (), t\<lparr>rp_generation := rp_generation t + 1\<rparr>)"

definition replay_remaining :: "replay_transport \<Rightarrow> nat" where
  "replay_remaining t = length (rp_steps t)"

text \<open>
  The replay transport as an environment: the clock advances by one nanosecond at each reading and
  the random source hands out its bytes in order, failing when they are used up.
\<close>

definition replay_environment :: "transport_capabilities \<Rightarrow> replay_transport environment" where
  "replay_environment caps =
     \<lparr>env_capabilities = replay_capabilities caps,
      env_generation = (\<lambda>t. (rp_generation t, t)),
      env_exchange = (\<lambda>frame opts t.
        case replay_exchange (replay_capabilities caps) frame opts t of (r, t') \<Rightarrow> (Returned r, t')),
      env_reset = (\<lambda>t. case replay_reset t of (r, t') \<Rightarrow> (Returned r, t')),
      env_cancel = (\<lambda>t. t),
      env_now = (\<lambda>t. (rp_clock t, t\<lparr>rp_clock := rp_clock t + 1\<rparr>)),
      env_stop_requested = (\<lambda>token t. (rp_stopped t, t)),
      env_random = (\<lambda>n t.
        if length (rp_random t) < n
        then (Returned (Inl (local_error EC_crypto (STR ''Random source is exhausted''))), t)
        else (Returned (Inr (take n (rp_random t))), t\<lparr>rp_random := drop n (rp_random t)\<rparr>))\<rparr>"

section \<open>Callback transport\<close>

text \<open>
  \<^verbatim>\<open>struct TransportCallbacks\<close>: functions of the host application over its own state.
\<close>

record 'h transport_callbacks =
  cb_exchange :: "(bytes \<Rightarrow> exchange_options \<Rightarrow> 'h \<Rightarrow> bytes result dep \<times> 'h) option"
  cb_cancel :: "('h \<Rightarrow> unit dep \<times> 'h) option"
  cb_reset :: "('h \<Rightarrow> unit result dep \<times> 'h) option"

definition callback_capabilities ::
  "transport_capabilities \<Rightarrow> 'h transport_callbacks \<Rightarrow> transport_capabilities" where
  "callback_capabilities caps cb =
     caps\<lparr>can_cancel := cb_cancel cb \<noteq> None, can_reset := cb_reset cb \<noteq> None,
          hardware_timing := False\<rparr>"

definition callback_exchange ::
  "transport_capabilities \<Rightarrow> 'h transport_callbacks \<Rightarrow> (stop_token \<Rightarrow> 'h \<Rightarrow> bool \<times> 'h)
     \<Rightarrow> bytes \<Rightarrow> exchange_options \<Rightarrow> 'h \<Rightarrow> bytes result \<times> 'h" where
  "callback_exchange caps cb stop_requested frame opts h =
     (case cb_exchange cb of
        None \<Rightarrow> (Inl (invalid (STR ''An exchange callback is required'')), h)
      | Some call \<Rightarrow>
          let (stopped, h1) = stop_requested (opt_stop opts) h
          in if stopped
             then (Inl (local_error EC_cancelled (STR ''Cancelled before invoking the reader'')), h1)
             else if opt_timeout opts \<le> 0 \<or> length frame > max_transmit caps
             then (Inl (invalid (STR ''Callback exchange exceeds configured limits'')), h1)
             else (case call frame opts h1 of
                     (Threw, h2) \<Rightarrow>
                       (Inl (unknown_error EC_transport (STR ''Reader callback threw an exception'')), h2)
                   | (Returned (Inl e), h2) \<Rightarrow> (Inl e, h2)
                   | (Returned (Inr response), h2) \<Rightarrow>
                       if length response > max_receive caps
                       then (Inl (unknown_error EC_malformed_response
                                   (STR ''Reader response exceeds its limit'')), h2)
                       else (Inr response, h2)))"

definition callback_cancel :: "'h transport_callbacks \<Rightarrow> 'h \<Rightarrow> 'h" where
  "callback_cancel cb h = (case cb_cancel cb of None \<Rightarrow> h | Some call \<Rightarrow> snd (call h))"

definition notify_state_change :: "u64 \<Rightarrow> u64" where
  "notify_state_change generation = generation + 1"

text \<open>The generation advances before the callback runs, whether or not the reset succeeds.\<close>

definition callback_reset ::
  "'h transport_callbacks \<Rightarrow> u64 \<Rightarrow> 'h \<Rightarrow> unit result \<times> u64 \<times> 'h" where
  "callback_reset cb generation h =
     (case cb_reset cb of
        None \<Rightarrow> (Inl (local_error EC_unsupported (STR ''Reader reset callback is unavailable'')),
                 generation, h)
      | Some call \<Rightarrow>
          (case call h of
             (Threw, h1) \<Rightarrow>
               (Inl (unknown_error EC_transport (STR ''Reader reset callback threw an exception'')),
                notify_state_change generation, h1)
           | (Returned r, h1) \<Rightarrow> (r, notify_state_change generation, h1)))"

section \<open>Evaluation\<close>

lemma replay_environment_sel [simp]:
  "env_capabilities (replay_environment caps) = replay_capabilities caps"
  "env_generation (replay_environment caps) t = (rp_generation t, t)"
  "env_now (replay_environment caps) t = (rp_clock t, t\<lparr>rp_clock := rp_clock t + 1\<rparr>)"
  "env_stop_requested (replay_environment caps) token t = (rp_stopped t, t)"
  "env_exchange (replay_environment caps) frame opts t =
     (case replay_exchange (replay_capabilities caps) frame opts t of (r, t') \<Rightarrow> (Returned r, t'))"
  "env_reset (replay_environment caps) t = (Returned (Inr ()), t\<lparr>rp_generation := rp_generation t + 1\<rparr>)"
  by (simp_all add: replay_environment_def replay_reset_def)

section \<open>Properties\<close>

text \<open>
  The callback transport keeps its promises towards the channel. A returned response respects
  the receive limit and was produced by the host callback for a frame within the transmit limit and
  a positive timeout; a host callback that throws is reported with an unknown outcome instead of
  escaping; and a request the transport refuses never reaches the host.
\<close>

theorem callback_exchange_contract:
  assumes "callback_exchange caps cb stop frame opts h = (r, h')"
  shows "(\<forall>response. r = Inr response \<longrightarrow>
            length response \<le> max_receive caps \<and> length frame \<le> max_transmit caps \<and>
            0 < opt_timeout opts \<and>
            (\<exists>call h1. cb_exchange cb = Some call \<and> stop (opt_stop opts) h = (False, h1) \<and>
               call frame opts h1 = (Returned (Inr response), h'))) \<and>
         (\<forall>call h1. cb_exchange cb = Some call \<and> stop (opt_stop opts) h = (False, h1) \<longrightarrow>
            (if 0 < opt_timeout opts \<and> length frame \<le> max_transmit caps
             then call frame opts h1 = (Threw, h') \<longrightarrow>
               r = Inl (unknown_error EC_transport (STR ''Reader callback threw an exception''))
             else h' = h1 \<and> (\<exists>e. r = Inl e \<and> err_outcome e = OC_not_sent)))"
  using assms
  by (auto simp: callback_exchange_def split: option.splits prod.splits if_splits dep.splits sum.splits)

theorem callback_exchange_contract_witness:
  "\<exists>h'. callback_exchange
      \<lparr>cap_framing = Framing_native, max_transmit = 261, max_receive = 4, max_native_frame = 60,
       can_cancel = False, can_reset = False, hardware_timing = False\<rparr>
      \<lparr>cb_exchange = Some (\<lambda>frame opts h. (Returned (Inr [0x00]), Suc h)), cb_cancel = None, cb_reset = None\<rparr>
      (\<lambda>_ h. (False, h)) [0x5A] \<lparr>opt_timeout = 10, opt_stop = 0\<rparr> (0 :: nat) = (Inr [0x00], h') \<and>
    length [0x00 :: byte] \<le> 4 \<and> h' = 1"
proof -
  let ?caps = "\<lparr>cap_framing = Framing_native, max_transmit = 261, max_receive = 4, max_native_frame = 60,
       can_cancel = False, can_reset = False, hardware_timing = False\<rparr>"
  let ?cb = "\<lparr>cb_exchange = Some (\<lambda>(frame :: bytes) (opts :: exchange_options) h. (Returned (Inr [0x00]), Suc h)),
       cb_cancel = None, cb_reset = None\<rparr> :: nat transport_callbacks"
  have "callback_exchange ?caps ?cb (\<lambda>_ h. (False, h)) [0x5A] \<lparr>opt_timeout = 10, opt_stop = 0\<rparr> 0
          = (Inr [0x00], 1)"
    by (simp add: callback_exchange_def)
  with callback_exchange_contract [OF this] show ?thesis by auto
qed

end
