(* ===== verification/Native_Channel.thy ===== *)
theory Native_Channel
  imports Native_Codec Transports
begin

text \<open>
  The serialized unprotected native channel, \<^verbatim>\<open>core/src/native/raw/channel.cpp\<close>: admission
  of one transaction at a time, the common deadline and card generation of a transaction, the
  exchange of one physical frame, and the bounded upload and download of one logical command through
  additional frames. The theorems show which frames reach the transport and in which order, that the
  number of frames and the size of the response are bounded, and that an error reported as not sent
  really means that no frame was delivered.
\<close>

section \<open>State\<close>

text \<open>\<^verbatim>\<open>struct Request\<close> of \<^verbatim>\<open>native/raw/message.hpp\<close>.\<close>

record raw_request =
  rq_command :: byte
  rq_data :: bytes
  rq_maximum_response :: nat
  rq_first_frame_data_size :: "nat option"
  rq_single_continuation_frame :: bool

text \<open>\<^verbatim>\<open>RawNativeChannel::State\<close>; the mutex serializes callers and has no content.\<close>

record raw_channel =
  ch_framing :: native_framing
  ch_operation_active :: bool

text \<open>\<^verbatim>\<open>RawNativeChannel::Transaction\<close>; the deadline counts nanoseconds.\<close>

record transaction =
  tx_deadline :: int
  tx_stop :: stop_token
  tx_generation :: u64
  tx_sent_any_frame :: bool

definition additional_frame_status :: byte where
  "additional_frame_status = 0xAF"

definition maximum_chain_frames :: nat where
  "maximum_chain_frames = 4096"

definition map_framing :: "framing \<Rightarrow> native_framing" where
  "map_framing f = (if f = Framing_native then direct else iso_wrapped)"

definition normalize_delivery :: "error \<Rightarrow> bool \<Rightarrow> error" where
  "normalize_delivery e sent_any_frame =
     (if sent_any_frame \<and> err_outcome e = OC_not_sent then e\<lparr>err_outcome := OC_unknown\<rparr> else e)"

section \<open>One physical frame\<close>

text \<open>\<^verbatim>\<open>std::chrono::ceil<std::chrono::milliseconds>\<close> of a positive duration.\<close>

definition ceil_milliseconds :: "int \<Rightarrow> int" where
  "ceil_milliseconds ns = (ns + 999999) div 1000000"

definition remaining_options ::
  "'s environment \<Rightarrow> transaction \<Rightarrow> 's \<Rightarrow> exchange_options result \<times> 's" where
  "remaining_options E tx s =
     (let (now, s1) = env_now E s;
          prior_outcome = (if tx_sent_any_frame tx then OC_unknown else OC_not_sent)
      in if now \<ge> tx_deadline tx
         then (Inl (make_error EC_timeout (STR ''Native operation deadline expired'') prior_outcome 0), s1)
         else let (generation, s2) = env_generation E s1
         in if generation \<noteq> tx_generation tx
            then (Inl (make_error EC_card_removed (STR ''Card state changed during native operation'')
                        prior_outcome 0), s2)
            else let (stopped, s3) = env_stop_requested E (tx_stop tx) s2
            in if stopped
               then (Inl (make_error EC_cancelled (STR ''Native operation cancelled'') prior_outcome 0), s3)
               else (Inr \<lparr>opt_timeout = ceil_milliseconds (tx_deadline tx - now),
                          opt_stop = tx_stop tx\<rparr>, s3))"

text \<open>
  The part of \<^verbatim>\<open>exchange_frame\<close> after the transport returned a response: the frame counts
  as sent, then the generation and the receive limit are checked, then the response is decoded.
\<close>

definition accept_frame ::
  "'s environment \<Rightarrow> native_framing \<Rightarrow> bytes \<Rightarrow> transaction \<Rightarrow> 's
     \<Rightarrow> raw_response result \<times> transaction \<times> 's" where
  "accept_frame E fr wire tx s =
     (let tx1 = tx\<lparr>tx_sent_any_frame := True\<rparr>;
          (generation, s1) = env_generation E s
      in if generation \<noteq> tx_generation tx1
         then (Inl (unknown_error EC_card_removed (STR ''Card state changed after native frame'')), tx1, s1)
         else if length wire > max_receive (env_capabilities E)
         then (Inl (unknown_error EC_malformed_response
                     (STR ''Native response exceeds transport receive capacity'')), tx1, s1)
         else (decode wire fr, tx1, s1))"

text \<open>
  The part of \<^verbatim>\<open>exchange_frame\<close> before the transport is called: the controls of the frame and
  its encoding, or the reason why the frame is not transmitted.
\<close>

definition admit_frame ::
  "'s environment \<Rightarrow> native_framing \<Rightarrow> byte \<Rightarrow> bytes \<Rightarrow> transaction \<Rightarrow> 's
     \<Rightarrow> (exchange_options \<times> bytes) result \<times> 's" where
  "admit_frame E fr command data tx s =
     (case remaining_options E tx s of
        (Inl e, s1) \<Rightarrow> (Inl e, s1)
      | (Inr controls, s1) \<Rightarrow>
          if max_native_frame (env_capabilities E) = 0
             \<or> length data > max_native_frame (env_capabilities E) - 1
          then (Inl (normalize_delivery (invalid (STR ''Native frame exceeds transport native capacity''))
                      (tx_sent_any_frame tx)), s1)
          else (case encode command data fr of
             Inl e \<Rightarrow> (Inl (normalize_delivery e (tx_sent_any_frame tx)), s1)
           | Inr encoded \<Rightarrow>
               if length encoded > max_transmit (env_capabilities E)
               then (Inl (normalize_delivery
                           (invalid (STR ''Native frame exceeds transport transmit capacity''))
                           (tx_sent_any_frame tx)), s1)
               else (Inr (controls, encoded), s1)))"

definition exchange_frame ::
  "'s environment \<Rightarrow> native_framing \<Rightarrow> byte \<Rightarrow> bytes \<Rightarrow> transaction \<Rightarrow> 's
     \<Rightarrow> raw_response result \<times> transaction \<times> 's" where
  "exchange_frame E fr command data tx s =
     (case admit_frame E fr command data tx s of
        (Inl e, s1) \<Rightarrow> (Inl e, tx, s1)
      | (Inr (controls, encoded), s1) \<Rightarrow>
          (case env_exchange E encoded controls s1 of
             (Threw, s2) \<Rightarrow> (Inl (unknown_error EC_internal (STR ''Native transport threw'')), tx, s2)
           | (Returned (Inl e), s2) \<Rightarrow> (Inl (normalize_delivery e (tx_sent_any_frame tx)), tx, s2)
           | (Returned (Inr wire), s2) \<Rightarrow> accept_frame E fr wire tx s2))"

section \<open>One logical command\<close>

definition framing_overhead :: "native_framing \<Rightarrow> nat" where
  "framing_overhead fr = (if fr = direct then 1 else 6)"

text \<open>The data capacity of one frame, and the checks of \<^verbatim>\<open>exchange\<close> before its loop.\<close>

definition data_per_frame :: "transport_capabilities \<Rightarrow> native_framing \<Rightarrow> nat" where
  "data_per_frame caps fr =
     (let d = min (max_transmit caps - framing_overhead fr) (max_native_frame caps - 1)
      in if fr = iso_wrapped then min d 255 else d)"

definition exchange_precheck ::
  "transport_capabilities \<Rightarrow> native_framing \<Rightarrow> raw_request \<Rightarrow> error option" where
  "exchange_precheck caps fr rq =
     (if rq_maximum_response rq = 0
      then Some (invalid (STR ''Native response limit must be positive''))
      else if max_transmit caps \<le> framing_overhead fr \<or> max_native_frame caps < 2
      then Some (invalid (STR ''Transport cannot carry a native command frame''))
      else if data_per_frame caps fr = 0
      then Some (invalid (STR ''Transport has no native command data capacity''))
      else if (case rq_first_frame_data_size rq of
                 None \<Rightarrow> False
               | Some n \<Rightarrow> n = 0 \<or> n \<ge> length (rq_data rq) \<or> n > data_per_frame caps fr)
      then Some (invalid (STR ''Required first-frame boundary cannot fit this transport''))
      else if rq_single_continuation_frame rq \<and>
              (case rq_first_frame_data_size rq of
                 None \<Rightarrow> True
               | Some n \<Rightarrow> length (rq_data rq) - n > data_per_frame caps fr)
      then Some (invalid (STR ''Required continuation frame cannot fit this transport''))
      else None)"

text \<open>The size of the next upload frame.\<close>

definition current_size :: "raw_request \<Rightarrow> nat \<Rightarrow> nat \<Rightarrow> nat \<Rightarrow> nat" where
  "current_size rq dpf frame_index uploaded =
     (case rq_first_frame_data_size rq of
        Some n \<Rightarrow> if frame_index = 0 then n else min dpf (length (rq_data rq) - uploaded)
      | None \<Rightarrow> min dpf (length (rq_data rq) - uploaded))"

text \<open>
  The body of the frame loop: either the loop returns (\<open>Inl\<close>) or it goes on with the uploaded
  byte count and the assembled response (\<open>Inr\<close>).
\<close>

definition exchange_step ::
  "'s environment \<Rightarrow> native_framing \<Rightarrow> raw_request \<Rightarrow> nat \<Rightarrow> nat \<Rightarrow> nat \<Rightarrow> byte \<Rightarrow> bytes
     \<Rightarrow> transaction \<Rightarrow> 's \<Rightarrow> (raw_response result + nat \<times> bytes) \<times> transaction \<times> 's" where
  "exchange_step E fr rq dpf frame_index uploaded next_command assembled tx s =
     (let size = current_size rq dpf frame_index uploaded
      in case exchange_frame E fr next_command (subspan (rq_data rq) uploaded size) tx s of
           (Inl e, tx1, s1) \<Rightarrow> (Inl (Inl e), tx1, s1)
         | (Inr response, tx1, s1) \<Rightarrow>
             let uploaded1 = uploaded + size
             in if length (rs_data response) > rq_maximum_response rq - length assembled
                then (Inl (Inl (unknown_error EC_malformed_response
                        (STR ''Native chained response exceeds configured limit''))), tx1, s1)
                else if uploaded1 < length (rq_data rq) \<and>
                        (rs_data response \<noteq> [] \<or> rs_status response \<noteq> additional_frame_status)
                then (Inl (Inl (unknown_error EC_malformed_response
                        (STR ''Card did not acknowledge native request continuation''))), tx1, s1)
                else let assembled1 = assembled @ rs_data response
                in if rs_status response \<noteq> additional_frame_status
                   then if uploaded1 < length (rq_data rq)
                        then (Inl (Inl (unknown_error EC_malformed_response
                               (STR ''Card ended native request before accepting all data''))), tx1, s1)
                        else (Inl (Inr \<lparr>rs_status = rs_status response, rs_data = assembled1\<rparr>), tx1, s1)
                   else (Inr (uploaded1, assembled1), tx1, s1))"

function exchange_loop ::
  "'s environment \<Rightarrow> native_framing \<Rightarrow> raw_request \<Rightarrow> nat \<Rightarrow> nat \<Rightarrow> nat \<Rightarrow> byte \<Rightarrow> bytes
     \<Rightarrow> transaction \<Rightarrow> 's \<Rightarrow> raw_response result \<times> transaction \<times> 's" where
  "exchange_loop E fr rq dpf frame_index uploaded next_command assembled tx s =
     (if frame_index < maximum_chain_frames
      then (case exchange_step E fr rq dpf frame_index uploaded next_command assembled tx s of
              (Inl r, tx1, s1) \<Rightarrow> (r, tx1, s1)
            | (Inr (uploaded1, assembled1), tx1, s1) \<Rightarrow>
                exchange_loop E fr rq dpf (frame_index + 1) uploaded1 additional_frame_status
                  assembled1 tx1 s1)
      else (Inl (unknown_error EC_malformed_response
                  (STR ''Native command exceeded additional-frame limit'')), tx, s))"
  by pat_completeness auto
termination
  by (relation "measure (\<lambda>(E, fr, rq, dpf, i, _). maximum_chain_frames - i)") auto

declare exchange_loop.simps [simp del]

definition transaction_exchange ::
  "'s environment \<Rightarrow> native_framing \<Rightarrow> raw_request \<Rightarrow> transaction \<Rightarrow> 's
     \<Rightarrow> raw_response result \<times> transaction \<times> 's" where
  "transaction_exchange E fr rq tx s =
     (case exchange_precheck (env_capabilities E) fr rq of
        Some e \<Rightarrow> (Inl (normalize_delivery e (tx_sent_any_frame tx)), tx, s)
      | None \<Rightarrow> exchange_loop E fr rq (data_per_frame (env_capabilities E) fr) 0 0 (rq_command rq) [] tx s)"

section \<open>The channel\<close>

text \<open>\<^verbatim>\<open>RawNativeChannel::connect\<close> of a present transport.\<close>

definition raw_connect :: "'s environment \<Rightarrow> raw_channel" where
  "raw_connect E = \<lparr>ch_framing = map_framing (cap_framing (env_capabilities E)),
                    ch_operation_active = False\<rparr>"

definition raw_begin ::
  "'s environment \<Rightarrow> exchange_options \<Rightarrow> raw_channel \<Rightarrow> 's \<Rightarrow> transaction result \<times> raw_channel \<times> 's" where
  "raw_begin E opts ch s =
     (if opt_timeout opts \<le> 0
      then (Inl (invalid (STR ''Native operation timeout must be positive'')), ch, s)
      else let (stopped, s1) = env_stop_requested E (opt_stop opts) s
      in if stopped
         then (Inl (local_error EC_cancelled (STR ''Native operation cancelled before transmission'')), ch, s1)
         else if ch_operation_active ch
         then (Inl (local_error EC_busy (STR ''Native transport callback cannot reenter the channel'')), ch, s1)
         else let (now, s2) = env_now E s1;
                  (generation, s3) = env_generation E s2
              in (Inr \<lparr>tx_deadline = now + opt_timeout opts * 1000000, tx_stop = opt_stop opts,
                       tx_generation = generation, tx_sent_any_frame = False\<rparr>,
                  ch\<lparr>ch_operation_active := True\<rparr>, s3))"

text \<open>\<^verbatim>\<open>Transaction::~Transaction\<close> of an owning transaction.\<close>

definition end_transaction :: "raw_channel \<Rightarrow> raw_channel" where
  "end_transaction ch = ch\<lparr>ch_operation_active := False\<rparr>"

definition raw_exchange ::
  "'s environment \<Rightarrow> raw_request \<Rightarrow> exchange_options \<Rightarrow> raw_channel \<Rightarrow> 's
     \<Rightarrow> raw_response result \<times> raw_channel \<times> 's" where
  "raw_exchange E rq opts ch s =
     (case raw_begin E opts ch s of
        (Inl e, ch1, s1) \<Rightarrow> (Inl e, ch1, s1)
      | (Inr tx, ch1, s1) \<Rightarrow>
          (case transaction_exchange E (ch_framing ch1) rq tx s1 of
             (r, _, s2) \<Rightarrow> (r, end_transaction ch1, s2)))"

definition raw_reset ::
  "'s environment \<Rightarrow> raw_channel \<Rightarrow> 's \<Rightarrow> unit result \<times> raw_channel \<times> 's" where
  "raw_reset E ch s =
     (if ch_operation_active ch
      then (Inl (local_error EC_busy
                  (STR ''Native transport callback cannot reset an active channel'')), ch, s)
      else (case env_reset E s of
              (Threw, s1) \<Rightarrow> (Inl (unknown_error EC_internal (STR ''Native transport reset threw'')), ch, s1)
            | (Returned r, s1) \<Rightarrow> (r, ch, s1)))"

section \<open>Specification: the frames of one upload\<close>

text \<open>
  The upload plan of a request, independent of any response: where the \<open>i\<close>-th frame starts, how
  many bytes it carries, and its reader frame. The first frame carries the instruction, every later
  one the additional-frame code.
\<close>

fun upload_offset :: "raw_request \<Rightarrow> nat \<Rightarrow> nat \<Rightarrow> nat" where
  "upload_offset rq dpf 0 = 0"
| "upload_offset rq dpf (Suc i) =
     upload_offset rq dpf i + current_size rq dpf i (upload_offset rq dpf i)"

definition planned_chunk :: "raw_request \<Rightarrow> nat \<Rightarrow> nat \<Rightarrow> bytes" where
  "planned_chunk rq dpf i =
     subspan (rq_data rq) (upload_offset rq dpf i) (current_size rq dpf i (upload_offset rq dpf i))"

definition planned_command :: "raw_request \<Rightarrow> nat \<Rightarrow> byte" where
  "planned_command rq i = (if i = 0 then rq_command rq else additional_frame_status)"

definition planned_frame :: "native_framing \<Rightarrow> raw_request \<Rightarrow> nat \<Rightarrow> nat \<Rightarrow> bytes result" where
  "planned_frame fr rq dpf i = encode (planned_command rq i) (planned_chunk rq dpf i) fr"

text \<open>
  What the run of the frame loop from frame \<open>i\<close> on may do, given its result and the entries it
  added to the transport log; \<open>sent\<close> tells whether an earlier frame of the transaction was sent.
\<close>

definition upload_report ::
  "transport_capabilities \<Rightarrow> native_framing \<Rightarrow> raw_request \<Rightarrow> nat \<Rightarrow> nat \<Rightarrow> bool
     \<Rightarrow> raw_response result \<Rightarrow> exchange_log \<Rightarrow> bool" where
  "upload_report caps fr rq dpf i sent r new \<longleftrightarrow>
     i + length new \<le> maximum_chain_frames \<and>
     (\<forall>j < length new. planned_frame fr rq dpf (i + j) = Inr (fst (new ! j)) \<and>
                       length (fst (new ! j)) \<le> max_transmit caps) \<and>
     list_all delivered (butlast new) \<and>
     (case r of
        Inl e \<Rightarrow> err_outcome e = OC_not_sent \<longrightarrow>
                  \<not> sent \<and> length new \<le> 1 \<and> list_all not_sent_entry new
      | Inr resp \<Rightarrow> new \<noteq> [] \<and> list_all delivered new \<and>
                   length (rq_data rq) \<le> upload_offset rq dpf (i + length new) \<and>
                   rs_status resp \<noteq> additional_frame_status \<and>
                   length (rs_data resp) \<le> rq_maximum_response rq)"

text \<open>
  A scripted example: a reader with three data bytes per native frame, a five-byte write that needs
  two frames, and a card that acknowledges the first and completes the second.
\<close>

definition demo_capabilities :: transport_capabilities where
  "demo_capabilities = \<lparr>cap_framing = Framing_native, max_transmit = 261, max_receive = 65538,
     max_native_frame = 4, can_cancel = False, can_reset = True, hardware_timing = False\<rparr>"

definition demo_options :: exchange_options where
  "demo_options = \<lparr>opt_timeout = 5000, opt_stop = 0\<rparr>"

definition demo_request :: raw_request where
  "demo_request = \<lparr>rq_command = 0x3D, rq_data = [1, 2, 3, 4, 5], rq_maximum_response = 16,
     rq_first_frame_data_size = None, rq_single_continuation_frame = False\<rparr>"

definition demo_transport :: "replay_step list \<Rightarrow> replay_transport" where
  "demo_transport steps = \<lparr>rp_steps = steps, rp_generation = 1, rp_clock = 0, rp_stopped = False,
     rp_random = []\<rparr>"

definition demo_channel :: raw_channel where
  "demo_channel = \<lparr>ch_framing = direct, ch_operation_active = False\<rparr>"

definition demo_script :: "replay_step list" where
  "demo_script =
     [\<lparr>step_request = [0x3D, 1, 2, 3], step_response = Inr [0xAF]\<rparr>,
      \<lparr>step_request = [0xAF, 4, 5], step_response = Inr [0x00, 9]\<rparr>]"

section \<open>Frames: what one physical exchange does\<close>

lemma normalize_delivery_sel [simp]:
  "err_code (normalize_delivery e b) = err_code e"
  "err_outcome (normalize_delivery e b) =
     (if b \<and> err_outcome e = OC_not_sent then OC_unknown else err_outcome e)"
  by (simp_all add: normalize_delivery_def)

lemma remaining_options_recording [simp]:
  "remaining_options (recording E) tx (s, log) =
     (case remaining_options E tx s of (r, s') \<Rightarrow> (r, (s', log)))"
  by (simp add: remaining_options_def Let_def split: prod.splits)

lemma remaining_options_error:
  "remaining_options E tx s = (Inl e, s') \<Longrightarrow>
     err_outcome e = (if tx_sent_any_frame tx then OC_unknown else OC_not_sent)"
  by (auto simp: remaining_options_def Let_def split: prod.splits if_splits)

lemma remaining_options_timeout:
  assumes "remaining_options E tx s = (Inr opts, s')"
  shows "0 < opt_timeout opts \<and> opt_stop opts = tx_stop tx"
  using assms
  by (auto simp: remaining_options_def Let_def ceil_milliseconds_def split: prod.splits if_splits)

lemma accept_frame_recording [simp]:
  "accept_frame (recording E) fr w tx (s, log) =
     (case accept_frame E fr w tx s of (r, tx', s') \<Rightarrow> (r, tx', (s', log)))"
  by (simp add: accept_frame_def Let_def split: prod.splits)

lemma decode_error: "decode w fr = Inl e \<Longrightarrow> err_outcome e = OC_unknown"
  by (auto simp: decode_def direct_codec.dec_error iso_wrapped_codec.dec_error split: if_splits)

lemma encode_error: "encode c d fr = Inl e \<Longrightarrow> err_outcome e = OC_not_sent"
  by (auto simp: encode_def direct_codec.enc_error iso_wrapped_codec.enc_error split: if_splits)

lemma encode_length: "encode c d fr = Inr f \<Longrightarrow> length f \<le> framing_overhead fr + length d"
  by (auto simp: encode_def framing_overhead_def
      dest: direct_codec.enc_length iso_wrapped_codec.enc_length split: if_splits)

lemma accept_frame_result:
  assumes "accept_frame E fr w tx s = (r, tx', s')"
  shows "tx' = tx\<lparr>tx_sent_any_frame := True\<rparr> \<and>
         ((\<exists>e. r = Inl e \<and> err_outcome e = OC_unknown) \<or>
          (\<exists>resp. r = Inr resp \<and> decode w fr = Inr resp \<and> length w \<le> max_receive (env_capabilities E)))"
  using assms
  by (cases r) (auto simp: accept_frame_def Let_def decode_error split: prod.splits if_splits)

lemma admit_frame_recording [simp]:
  "admit_frame (recording E) fr c d tx (s, log) =
     (case admit_frame E fr c d tx s of (r, s') \<Rightarrow> (r, (s', log)))"
  by (simp add: admit_frame_def split: prod.splits sum.splits)

lemma admit_frame_Inl:
  assumes "admit_frame E fr c d tx s = (Inl e, s')" and "tx_sent_any_frame tx"
  shows "err_outcome e = OC_unknown"
  using assms
  by (auto simp: admit_frame_def encode_error dest: remaining_options_error
      split: prod.splits sum.splits if_splits)

lemma admit_frame_Inr:
  assumes "admit_frame E fr c d tx s = (Inr (controls, f), s')"
  shows "encode c d fr = Inr f \<and> length f \<le> max_transmit (env_capabilities E)"
  using assms by (auto simp: admit_frame_def split: prod.splits sum.splits if_splits)

text \<open>
  Three things can happen to a frame: it is refused before the transport is called, the transport
  is called and gives no response, or the transport gives a response and the frame counts as sent.
\<close>

lemma exchange_frame_cases [consumes 1, case_names unsent failed answered]:
  assumes "exchange_frame (recording E) fr c d tx (s, log) = (r, tx', (s', log'))"
  obtains (unsent) e where "r = Inl e" "tx' = tx" "log' = log"
      "tx_sent_any_frame tx \<Longrightarrow> err_outcome e = OC_unknown"
  | (failed) f a e where "encode c d fr = Inr f" "length f \<le> max_transmit (env_capabilities E)"
      "log' = log @ [(f, a)]" "r = Inl e" "tx' = tx" "\<not> delivered (f, a)"
      "err_outcome e = OC_not_sent \<Longrightarrow> \<not> tx_sent_any_frame tx \<and> not_sent_entry (f, a)"
  | (answered) f w where "encode c d fr = Inr f" "length f \<le> max_transmit (env_capabilities E)"
      "log' = log @ [(f, Returned (Inr w))]" "tx' = tx\<lparr>tx_sent_any_frame := True\<rparr>"
      "(\<exists>e. r = Inl e \<and> err_outcome e = OC_unknown) \<or>
       (\<exists>resp. r = Inr resp \<and> decode w fr = Inr resp)"
proof -
  obtain adm s1 where adm: "admit_frame E fr c d tx s = (adm, s1)" by fastforce
  show thesis
  proof (cases adm)
    case (Inl e)
    then show thesis
      using assms adm by (intro unsent [of e]) (auto simp: exchange_frame_def dest: admit_frame_Inl)
  next
    case (Inr cf)
    then obtain controls f where cf: "adm = Inr (controls, f)" by (cases cf) auto
    note enc = admit_frame_Inr [OF adm [unfolded cf]]
    obtain a s2 where ex: "env_exchange E f controls s1 = (a, s2)" by fastforce
    note step = assms [unfolded exchange_frame_def, simplified, unfolded adm cf, simplified,
        unfolded ex, simplified]
    consider "a = Threw" | e where "a = Returned (Inl e)" | w where "a = Returned (Inr w)"
      by (cases a) (auto, metis sum.exhaust)
    then show thesis
    proof cases
      case 1
      then show thesis
        using step enc failed [of f a] by (auto simp: delivered_def)
    next
      case (2 e)
      show thesis
        by (rule failed [of f a "normalize_delivery e (tx_sent_any_frame tx)"])
          (use step enc 2 in \<open>auto simp: delivered_def not_sent_entry_def split: if_splits\<close>)
    next
      case (3 w)
      obtain r2 tx2 s3 where acc: "accept_frame E fr w tx s2 = (r2, tx2, s3)" by (metis prod_cases3)
      then have "r = r2" "tx' = tx2" "log' = log @ [(f, Returned (Inr w))]" using step 3 by auto
      then show thesis using answered [of f w] accept_frame_result [OF acc] enc by auto
    qed
  qed
qed

section \<open>One iteration of the frame loop\<close>

lemma exchange_step_cases [consumes 2, case_names refused failed aborted finished continued]:
  assumes "exchange_step (recording E) fr rq dpf i up c asm tx (s, log) = (x, tx', (s', log'))"
    and "length asm \<le> rq_maximum_response rq"
  obtains (refused) e where "x = Inl (Inl e)" "tx' = tx" "log' = log"
      "tx_sent_any_frame tx \<Longrightarrow> err_outcome e = OC_unknown"
  | (failed) f a e where "encode c (subspan (rq_data rq) up (current_size rq dpf i up)) fr = Inr f"
      "length f \<le> max_transmit (env_capabilities E)" "log' = log @ [(f, a)]" "x = Inl (Inl e)"
      "\<not> delivered (f, a)"
      "err_outcome e = OC_not_sent \<Longrightarrow> \<not> tx_sent_any_frame tx \<and> not_sent_entry (f, a)"
  | (aborted) f w e where "encode c (subspan (rq_data rq) up (current_size rq dpf i up)) fr = Inr f"
      "length f \<le> max_transmit (env_capabilities E)" "log' = log @ [(f, Returned (Inr w))]"
      "x = Inl (Inl e)" "err_outcome e = OC_unknown"
  | (finished) f w resp where "encode c (subspan (rq_data rq) up (current_size rq dpf i up)) fr = Inr f"
      "length f \<le> max_transmit (env_capabilities E)" "log' = log @ [(f, Returned (Inr w))]"
      "x = Inl (Inr resp)" "length (rq_data rq) \<le> up + current_size rq dpf i up"
      "rs_status resp \<noteq> additional_frame_status" "length (rs_data resp) \<le> rq_maximum_response rq"
  | (continued) f w asm' where "encode c (subspan (rq_data rq) up (current_size rq dpf i up)) fr = Inr f"
      "length f \<le> max_transmit (env_capabilities E)" "log' = log @ [(f, Returned (Inr w))]"
      "x = Inr (up + current_size rq dpf i up, asm')" "length asm' \<le> rq_maximum_response rq"
      "tx_sent_any_frame tx'"
proof -
  let ?d = "subspan (rq_data rq) up (current_size rq dpf i up)"
  obtain r1 tx1 s1 log1
    where ex: "exchange_frame (recording E) fr c ?d tx (s, log) = (r1, tx1, (s1, log1))"
    by (metis prod_cases3 surj_pair)
  note step = assms(1) [unfolded exchange_step_def Let_def ex, simplified]
  from ex show thesis
  proof (cases rule: exchange_frame_cases)
    case (unsent e)
    show thesis by (rule refused [of e]) (use step unsent in auto)
  next
    case (failed f a e)
    show thesis by (rule that(2) [of f a e]) (use step failed in auto)
  next
    case (answered f w)
    show thesis
    proof (cases r1)
      case (Inl e)
      show thesis by (rule aborted [of f w e]) (use step answered Inl in auto)
    next
      case (Inr resp)
      show thesis
      proof (cases x)
        case x: (Inl res)
        show thesis
        proof (cases res)
          case (Inl e)
          show thesis
            by (rule aborted [of f w e]) (use step answered Inr x Inl in \<open>auto split: if_splits\<close>)
        next
          case res: (Inr resp')
          show thesis
            by (rule finished [of f w resp'])
              (use step answered Inr x res assms(2) in \<open>auto split: if_splits\<close>)
        qed
      next
        case x: (Inr ua)
        show thesis
          by (rule continued [of f w "snd ua"])
            (use step answered Inr x assms(2) in \<open>auto split: if_splits\<close>)
      qed
    qed
  qed
qed

section \<open>The frame loop follows the upload plan\<close>

lemma upload_report_Nil:
  "i \<le> maximum_chain_frames \<Longrightarrow> (sent \<Longrightarrow> err_outcome e = OC_unknown) \<Longrightarrow>
     upload_report caps fr rq dpf i sent (Inl e) []"
  by (auto simp: upload_report_def)

lemma upload_report_single:
  assumes "i < maximum_chain_frames" and "planned_frame fr rq dpf i = Inr f"
    and "length f \<le> max_transmit caps"
    and "\<And>e. r = Inl e \<Longrightarrow> err_outcome e = OC_not_sent \<Longrightarrow> \<not> sent \<and> not_sent_entry (f, a)"
    and "\<And>resp. r = Inr resp \<Longrightarrow> delivered (f, a) \<and>
            length (rq_data rq) \<le> upload_offset rq dpf (Suc i) \<and>
            rs_status resp \<noteq> additional_frame_status \<and> length (rs_data resp) \<le> rq_maximum_response rq"
  shows "upload_report caps fr rq dpf i sent r [(f, a)]"
  using assms by (auto simp: upload_report_def split: sum.splits)

lemma upload_report_Cons:
  assumes "upload_report caps fr rq dpf (Suc i) True r new"
    and "planned_frame fr rq dpf i = Inr f" and "length f \<le> max_transmit caps"
    and "delivered (f, a)"
  shows "upload_report caps fr rq dpf i sent r ((f, a) # new)"
proof -
  have "planned_frame fr rq dpf (i + j) = Inr (fst (((f, a) # new) ! j)) \<and>
        length (fst (((f, a) # new) ! j)) \<le> max_transmit caps" if "j < Suc (length new)" for j
    using assms that by (cases j) (auto simp: upload_report_def)
  moreover have "list_all delivered (butlast ((f, a) # new))"
    using assms by (auto simp: upload_report_def)
  ultimately show ?thesis
    using assms by (auto simp: upload_report_def split: sum.splits)
qed

lemma exchange_loop_report:
  assumes "exchange_loop (recording E) fr rq dpf i (upload_offset rq dpf i) (planned_command rq i)
             asm tx (s, log) = (r, tx', (s', log'))"
    and "i \<le> maximum_chain_frames" and "length asm \<le> rq_maximum_response rq"
  shows "\<exists>new. log' = log @ new \<and>
           upload_report (env_capabilities E) fr rq dpf i (tx_sent_any_frame tx) r new"
  using assms
proof (induction "maximum_chain_frames - i" arbitrary: i asm tx s log)
  case 0
  then have "r = Inl (unknown_error EC_malformed_response
               (STR ''Native command exceeded additional-frame limit''))" "log' = log"
    by (auto simp: exchange_loop.simps)
  with 0 show ?case by (auto intro!: exI [of _ "[]"] upload_report_Nil)
next
  case (Suc n)
  let ?caps = "env_capabilities E"
  let ?up = "upload_offset rq dpf i"
  have less: "i < maximum_chain_frames" using Suc.hyps(2) by simp
  obtain x tx1 s1 log1 where step: "exchange_step (recording E) fr rq dpf i ?up
      (planned_command rq i) asm tx (s, log) = (x, tx1, (s1, log1))"
    by (metis prod_cases3 surj_pair)
  note run = Suc.prems(1) [unfolded exchange_loop.simps [of _ _ _ _ i] step, simplified]
  have plan: "planned_frame fr rq dpf i = Inr f"
    if "encode (planned_command rq i) (subspan (rq_data rq) ?up (current_size rq dpf i ?up)) fr = Inr f"
    for f using that by (simp add: planned_frame_def planned_chunk_def)
  from step Suc.prems(3) show ?case
  proof (cases rule: exchange_step_cases)
    case (refused e)
    then show ?thesis
      using run less by (auto intro!: exI [of _ "[]"] upload_report_Nil)
  next
    case (failed f a e)
    then show ?thesis
      using run less plan by (auto intro!: exI [of _ "[(f, a)]"] upload_report_single)
  next
    case (aborted f w e)
    then show ?thesis
      using run less plan
      by (auto intro!: exI [of _ "[(f, Returned (Inr w))]"] upload_report_single)
  next
    case (finished f w resp)
    then show ?thesis
      using run less plan
      by (auto intro!: exI [of _ "[(f, Returned (Inr w))]"] upload_report_single
          simp: delivered_def)
  next
    case (continued f w asm')
    have "exchange_loop (recording E) fr rq dpf (Suc i) (upload_offset rq dpf (Suc i))
            (planned_command rq (Suc i)) asm' tx1 (s1, log1) = (r, tx', (s', log'))"
      using run less continued by (simp add: planned_command_def)
    moreover have "n = maximum_chain_frames - Suc i" using Suc.hyps(2) by simp
    ultimately obtain new where new: "log' = log1 @ new"
      "upload_report ?caps fr rq dpf (Suc i) True r new"
      using Suc.hyps(1) [of "Suc i" asm' tx1 s1 log1] less continued by auto
    then show ?thesis
      using continued plan
      by (intro exI [of _ "(f, Returned (Inr w)) # new"])
        (auto intro: upload_report_Cons simp: delivered_def)
  qed
qed

lemma transaction_exchange_report:
  assumes "transaction_exchange (recording E) fr rq tx (s, log) = (r, tx', (s', log'))"
  shows "\<exists>new. log' = log @ new \<and>
           upload_report (env_capabilities E) fr rq (data_per_frame (env_capabilities E) fr) 0
             (tx_sent_any_frame tx) r new"
proof (cases "exchange_precheck (env_capabilities E) fr rq")
  case (Some e)
  then have "err_outcome e = OC_not_sent" by (auto simp: exchange_precheck_def split: if_splits)
  with Some assms show ?thesis
    by (auto simp: transaction_exchange_def intro!: exI [of _ "[]"] upload_report_Nil split: if_splits)
next
  case None
  then show ?thesis
    using assms exchange_loop_report [of E fr rq "data_per_frame (env_capabilities E) fr" 0 "[]"]
    by (simp add: transaction_exchange_def planned_command_def)
qed

lemma precheck_boundary:
  assumes "exchange_precheck caps fr rq = None" and "rq_first_frame_data_size rq = Some n"
  shows "n < length (rq_data rq) \<and> n \<le> data_per_frame caps fr"
  using assms by (auto simp: exchange_precheck_def split: if_splits)

lemma upload_offset_le:
  assumes "exchange_precheck caps fr rq = None"
  shows "upload_offset rq (data_per_frame caps fr) i \<le> length (rq_data rq)"
proof (induction i)
  case (Suc i)
  then show ?case
    using precheck_boundary [OF assms]
    by (auto simp: current_size_def less_imp_le split: option.splits)
qed simp

lemma planned_chunk_length:
  assumes "exchange_precheck caps fr rq = None"
  shows "length (planned_chunk rq (data_per_frame caps fr) i) \<le> data_per_frame caps fr"
  using precheck_boundary [OF assms]
  by (auto simp: planned_chunk_def current_size_def split: option.splits)

lemma planned_chunks_concat:
  "concat (map (planned_chunk rq dpf) [0..<k]) = take (upload_offset rq dpf k) (rq_data rq)"
  by (induction k) (simp_all add: planned_chunk_def subspan_def take_add)

lemma raw_begin_recording [simp]:
  "raw_begin (recording E) opts ch (s, log) =
     (case raw_begin E opts ch s of (r, ch', s') \<Rightarrow> (r, ch', (s', log)))"
  by (simp add: raw_begin_def Let_def split: prod.splits)

lemma raw_begin_Inr:
  assumes "raw_begin E opts ch s = (Inr tx, ch', s')"
  shows "\<not> ch_operation_active ch \<and> ch' = ch\<lparr>ch_operation_active := True\<rparr> \<and>
         \<not> tx_sent_any_frame tx \<and> 0 < opt_timeout opts"
  using assms by (auto simp: raw_begin_def Let_def split: prod.splits if_splits)

lemma raw_begin_Inl:
  assumes "raw_begin E opts ch s = (Inl e, ch', s')"
  shows "ch' = ch \<and> err_outcome e = OC_not_sent"
  using assms by (auto simp: raw_begin_def Let_def split: prod.splits if_splits)

lemma raw_exchange_report:
  assumes "raw_exchange (recording E) rq opts ch (s, log) = (r, ch', (s', log'))"
  shows "\<exists>new. log' = log @ new \<and>
           upload_report (env_capabilities E) (ch_framing ch) rq
             (data_per_frame (env_capabilities E) (ch_framing ch)) 0 False r new"
proof -
  obtain b ch1 s1 where beg: "raw_begin E opts ch s = (b, ch1, s1)" by (metis prod_cases3)
  show ?thesis
  proof (cases b)
    case (Inl e)
    with beg assms have "r = Inl e" "log' = log" by (auto simp: raw_exchange_def)
    then show ?thesis by (auto intro!: exI [of _ "[]"] upload_report_Nil)
  next
    case (Inr tx)
    obtain r1 tx1 s2 log2
      where run: "transaction_exchange (recording E) (ch_framing ch1) rq tx (s1, log) = (r1, tx1, (s2, log2))"
      by (metis prod_cases3 surj_pair)
    have "r = r1" "log' = log2" using assms beg Inr run by (auto simp: raw_exchange_def)
    then show ?thesis
      using transaction_exchange_report [OF run] raw_begin_Inr [OF beg [unfolded Inr]] by simp
  qed
qed

section \<open>The scripted example\<close>

lemmas demo_defs = demo_capabilities_def demo_options_def demo_request_def demo_transport_def
  demo_channel_def demo_script_def

lemmas channel_eval = raw_exchange_def raw_begin_def transaction_exchange_def exchange_precheck_def
  data_per_frame_def framing_overhead_def exchange_loop.simps exchange_step_def exchange_frame_def
  admit_frame_def remaining_options_def accept_frame_def current_size_def end_transaction_def
  maximum_chain_frames_def additional_frame_status_def ceil_milliseconds_def subspan_def
  encode_def encode_direct_def decode_def decode_direct_def replay_exchange_def
  replay_capabilities_def

lemma demo_run:
  "\<exists>t. raw_exchange (recording (replay_environment demo_capabilities)) demo_request demo_options
         demo_channel (demo_transport demo_script, []) =
       (Inr \<lparr>rs_status = 0, rs_data = [9]\<rparr>, demo_channel,
        (t, [([0x3D, 1, 2, 3], Returned (Inr [0xAF])), ([0xAF, 4, 5], Returned (Inr [0x00, 9]))]))"
  by (simp add: demo_defs channel_eval)

lemma demo_not_sent:
  "\<exists>e t. raw_exchange (recording (replay_environment demo_capabilities)) demo_request demo_options
         demo_channel (demo_transport [], []) =
       (Inl e, demo_channel, (t, [([0x3D, 1, 2, 3], Returned (Inl e))])) \<and> err_outcome e = OC_not_sent"
  by (simp add: demo_defs channel_eval normalize_delivery_def)

section \<open>Properties\<close>

text \<open>
  C7. The physical frames of one native command. Whatever the card and the reader answer, the
  frames that \<^verbatim>\<open>RawNativeChannel::exchange\<close> hands to the transport are, in order, the first
  \<open>k\<close> frames of the request's upload plan (the instruction byte first, the additional-frame code
  afterwards, each chunk following the previous one); there are at most 4096 of them, each fits the
  transport's transmit limit, and every frame but the last was answered before the next was sent.
\<close>

theorem raw_exchange_frames:
  assumes "raw_exchange (recording E) rq opts ch (s, log) = (r, ch', (s', log'))"
  shows "\<exists>new. log' = log @ new \<and> length new \<le> maximum_chain_frames \<and>
           map (Inr \<circ> fst) new =
             map (planned_frame (ch_framing ch) rq (data_per_frame (env_capabilities E) (ch_framing ch)))
               [0..<length new] \<and>
           (\<forall>entry \<in> set new. length (fst entry) \<le> max_transmit (env_capabilities E)) \<and>
           (\<forall>entry \<in> set (butlast new). delivered entry)"
proof -
  from raw_exchange_report [OF assms] obtain new where new: "log' = log @ new"
    "upload_report (env_capabilities E) (ch_framing ch) rq
       (data_per_frame (env_capabilities E) (ch_framing ch)) 0 False r new" by blast
  have "length (fst entry) \<le> max_transmit (env_capabilities E)" if "entry \<in> set new" for entry
  proof -
    from that obtain i where "i < length new" "entry = new ! i" by (auto simp: in_set_conv_nth)
    then show ?thesis using new(2) by (auto simp: upload_report_def)
  qed
  with new show ?thesis
    by (intro exI [of _ new]) (auto simp: upload_report_def list_all_iff intro!: nth_equalityI)
qed

theorem raw_exchange_frames_witness:
  "\<exists>t new. snd (snd (raw_exchange (recording (replay_environment demo_capabilities)) demo_request demo_options
         demo_channel (demo_transport demo_script, []))) = (t, new) \<and>
     length new = 2 \<and> length new \<le> maximum_chain_frames \<and>
     map (Inr \<circ> fst) new =
       map (planned_frame direct demo_request (data_per_frame (replay_capabilities demo_capabilities) direct))
         [0..<length new]"
proof -
  from demo_run obtain t where run: "raw_exchange (recording (replay_environment demo_capabilities)) demo_request demo_options
         demo_channel (demo_transport demo_script, []) =
       (Inr \<lparr>rs_status = 0, rs_data = [9]\<rparr>, demo_channel,
        (t, [([0x3D, 1, 2, 3], Returned (Inr [0xAF])), ([0xAF, 4, 5], Returned (Inr [0x00, 9]))]))"
    by blast
  have "ch_framing demo_channel = direct" by (simp add: demo_channel_def)
  with raw_exchange_frames [OF run] run show ?thesis by auto
qed

text \<open>
  A successful native exchange uploaded the whole request. When
  \<^verbatim>\<open>RawNativeChannel::exchange\<close> returns a response, every frame it sent was answered, the
  chunks of these frames concatenate to exactly the request data, the returned status is not the
  additional-frame status, and the assembled response respects the caller's bound.
\<close>

theorem raw_exchange_success:
  assumes "raw_exchange (recording E) rq opts ch (s, log) = (Inr resp, ch', (s', log'))"
  shows "\<exists>new. log' = log @ new \<and> new \<noteq> [] \<and> (\<forall>entry \<in> set new. delivered entry) \<and>
           concat (map (planned_chunk rq (data_per_frame (env_capabilities E) (ch_framing ch)))
                     [0..<length new]) = rq_data rq \<and>
           rs_status resp \<noteq> additional_frame_status \<and>
           length (rs_data resp) \<le> rq_maximum_response rq"
proof -
  from raw_exchange_report [OF assms] obtain new where new: "log' = log @ new"
    "upload_report (env_capabilities E) (ch_framing ch) rq
       (data_per_frame (env_capabilities E) (ch_framing ch)) 0 False (Inr resp) new" by blast
  then show ?thesis
    by (intro exI [of _ new]) (auto simp: upload_report_def planned_chunks_concat list_all_iff)
qed

theorem raw_exchange_success_witness:
  "\<exists>t new. raw_exchange (recording (replay_environment demo_capabilities)) demo_request demo_options
         demo_channel (demo_transport demo_script, []) =
        (Inr \<lparr>rs_status = 0, rs_data = [9]\<rparr>, demo_channel, (t, new)) \<and>
     concat (map (planned_chunk demo_request
        (data_per_frame (replay_capabilities demo_capabilities) direct)) [0..<length new]) = [1, 2, 3, 4, 5]"
proof -
  from demo_run obtain t where run: "raw_exchange (recording (replay_environment demo_capabilities)) demo_request demo_options
         demo_channel (demo_transport demo_script, []) =
       (Inr \<lparr>rs_status = 0, rs_data = [9]\<rparr>, demo_channel,
        (t, [([0x3D, 1, 2, 3], Returned (Inr [0xAF])), ([0xAF, 4, 5], Returned (Inr [0x00, 9]))]))"
    by blast
  have "ch_framing demo_channel = direct" "rq_data demo_request = [1, 2, 3, 4, 5]"
    by (simp_all add: demo_defs)
  with raw_exchange_success [OF run] run show ?thesis by auto
qed

text \<open>
  C8. Delivery evidence is never optimistic. When the channel reports an error whose outcome is
  \<open>not_sent\<close>, no frame of the command was delivered: the transport was called at most once, and
  that call itself reported that nothing was sent.
\<close>

theorem raw_exchange_not_sent:
  assumes "raw_exchange (recording E) rq opts ch (s, log) = (Inl e, ch', (s', log'))"
    and "err_outcome e = OC_not_sent"
  shows "\<exists>new. log' = log @ new \<and> length new \<le> 1 \<and>
           (\<forall>entry \<in> set new. not_sent_entry entry \<and> \<not> delivered entry)"
proof -
  from raw_exchange_report [OF assms(1)] obtain new where new: "log' = log @ new"
    "upload_report (env_capabilities E) (ch_framing ch) rq
       (data_per_frame (env_capabilities E) (ch_framing ch)) 0 False (Inl e) new" by blast
  then show ?thesis
    using assms(2)
    by (intro exI [of _ new]) (auto simp: upload_report_def list_all_iff not_sent_not_delivered)
qed

theorem raw_exchange_not_sent_witness:
  "\<exists>e t entry. raw_exchange (recording (replay_environment demo_capabilities)) demo_request demo_options
         demo_channel (demo_transport [], []) = (Inl e, demo_channel, (t, [entry])) \<and>
     err_outcome e = OC_not_sent \<and> not_sent_entry entry \<and> \<not> delivered entry"
proof -
  from demo_not_sent obtain e t where run: "raw_exchange (recording (replay_environment demo_capabilities)) demo_request demo_options
         demo_channel (demo_transport [], []) =
       (Inl e, demo_channel, (t, [([0x3D, 1, 2, 3], Returned (Inl e))]))"
    and e: "err_outcome e = OC_not_sent" by blast
  from raw_exchange_not_sent [OF run e] run e show ?thesis by auto
qed

text \<open>
  Admission. An operation on an active channel (a transport callback that reenters it) is
  refused before any frame is transmitted and leaves the channel's state as it is; every other
  operation leaves the channel inactive again, so a failed command never blocks the next one.
\<close>

theorem raw_exchange_admission:
  assumes "raw_exchange (recording E) rq opts ch (s, log) = (r, ch', (s', log'))"
  shows "if ch_operation_active ch
         then (\<exists>e. r = Inl e \<and> err_outcome e = OC_not_sent) \<and> ch' = ch \<and> log' = log
         else ch' = ch"
proof -
  obtain b ch1 s1 where beg: "raw_begin E opts ch s = (b, ch1, s1)" by (metis prod_cases3)
  show ?thesis
  proof (cases b)
    case (Inl e)
    with beg assms raw_begin_Inl [OF beg [unfolded Inl]] show ?thesis
      by (auto simp: raw_exchange_def)
  next
    case (Inr tx)
    with beg assms raw_begin_Inr [OF beg [unfolded Inr]] show ?thesis
      by (auto simp: raw_exchange_def end_transaction_def split: prod.splits)
  qed
qed

theorem raw_exchange_admission_witness:
  "\<exists>s log. snd (raw_exchange (recording (replay_environment demo_capabilities)) demo_request demo_options
         demo_channel (demo_transport demo_script, [])) = (demo_channel, (s, log))"
proof -
  from demo_run obtain t where run: "raw_exchange (recording (replay_environment demo_capabilities)) demo_request demo_options
         demo_channel (demo_transport demo_script, []) =
       (Inr \<lparr>rs_status = 0, rs_data = [9]\<rparr>, demo_channel,
        (t, [([0x3D, 1, 2, 3], Returned (Inr [0xAF])), ([0xAF, 4, 5], Returned (Inr [0x00, 9]))]))"
    by blast
  have "\<not> ch_operation_active demo_channel" by (simp add: demo_channel_def)
  with raw_exchange_admission [OF run] run show ?thesis by auto
qed

end
