(* ===== verification/Checked_Commands.thy ===== *)
theory Checked_Commands
  imports Session_Contract
begin

text \<open>
  Identifiers and configuration values (\<^verbatim>\<open>core/include/desfire/ev3/model\<close>) and the builders of
  checked native commands (\<^verbatim>\<open>core/src/native/checked\<close>): every builder validates its
  arguments before it produces a command, or returns an argument error. The theorems show that every
  command any builder produces satisfies the bounds and the mode rules that secure messaging relies
  on, what the access-range checks guarantee of the wire fields, and that the key-change data can be
  undone by the holder of the old key.
\<close>

section \<open>Model values\<close>

text \<open>\<^verbatim>\<open>Number<Tag, Maximum>::make\<close>.\<close>

definition number_make :: "u32 \<Rightarrow> u32 \<Rightarrow> u32 result" where
  "number_make maximum value =
     (if value > maximum then Inl (invalid (STR ''Value exceeds the EV3 field range'')) else Inr value)"

type_synonym application_id = u32
type_synonym file_number = u32
type_synonym key_number = u32
type_synonym offset = u32
type_synonym byte_count = u32

text \<open>The ranges of the five identifier types.\<close>

definition application_id_ok :: "u32 \<Rightarrow> bool" where
  "application_id_ok v = (v \<le> 0x00FFFFFF)"

definition file_number_ok :: "u32 \<Rightarrow> bool" where
  "file_number_ok v = (v \<le> 31)"

definition key_number_ok :: "u32 \<Rightarrow> bool" where
  "key_number_ok v = (v \<le> 63)"

definition three_byte_ok :: "u32 \<Rightarrow> bool" where
  "three_byte_ok v = (v \<le> 0x00FFFFFF)"

record key_set_configuration =
  active_version :: byte
  number_of_sets :: byte
  maximum_key_size :: byte
  key_set_settings :: byte

record application_configuration =
  ac_id :: application_id
  ac_key_settings :: byte
  ac_number_of_keys :: byte
  ac_iso_file_identifiers :: bool
  ac_key_settings3 :: "byte option"
  ac_key_sets :: "key_set_configuration option"
  ac_iso_id :: "u16 option"
  ac_df_name :: bytes

record delegated_application_configuration =
  dc_application :: application_configuration
  dc_slot :: u16
  dc_slot_version :: byte
  dc_quota_limit :: u16

record access_rights =
  ar_read_write :: byte
  ar_change :: byte
  ar_read :: byte
  ar_write :: byte

record data_file_configuration =
  df_file :: file_number
  df_size :: byte_count
  df_communication :: communication_mode
  df_access :: access_rights
  df_iso_id :: "u16 option"
  df_backup :: bool
  df_additional_access_rights :: bool

text \<open>Signed 32-bit fields are 32-bit words that are read with \<open>sint\<close>.\<close>

record value_file_configuration =
  vf_file :: file_number
  vf_lower_limit :: u32
  vf_upper_limit :: u32
  vf_initial_value :: u32
  vf_communication :: communication_mode
  vf_access :: access_rights
  vf_limited_credit_enabled :: bool
  vf_free_get_value :: bool
  vf_additional_access_rights :: bool

record record_file_configuration =
  rf_file :: file_number
  rf_record_size :: byte_count
  rf_maximum_records :: byte_count
  rf_communication :: communication_mode
  rf_access :: access_rights
  rf_iso_id :: "u16 option"
  rf_cyclic :: bool
  rf_additional_access_rights :: bool

record file_settings_change =
  fc_file :: file_number
  fc_communication :: communication_mode
  fc_access :: access_rights
  fc_additional_access :: "access_rights list"
  fc_transaction_counter_limit :: "u32 option"
  fc_command_communication :: communication_mode

record picc_configuration =
  pc_disable_format :: bool
  pc_random_identifier :: bool
  pc_proximity_check_mandatory :: bool
  pc_virtual_card_authentication_mandatory :: bool
  pc_error_code_binding :: bool
  pc_random_identifier_configuration :: bool
  pc_four_byte_nuid_configuration :: bool

section \<open>Commands\<close>

text \<open>The members of \<^verbatim>\<open>class Command\<close> that its builder fills.\<close>

record command =
  c_opcode :: byte
  c_header :: bytes
  c_data :: bytes
  c_request_mode :: communication_mode
  c_response_mode :: communication_mode
  c_minimum_response :: nat
  c_maximum_response :: nat
  c_requires_authentication :: bool
  c_requires_ev2_session :: bool
  c_requires_picc_selection :: bool
  c_requires_single_continuation_frame :: bool
  c_invalidates_session :: bool
  c_current_authenticated_key :: "byte option"
  c_allowed_authenticated_keys :: u64
  c_first_frame_payload_size :: "nat option"

definition restricts_authenticated_key :: "command \<Rightarrow> bool" where
  "restricts_authenticated_key c = (c_allowed_authenticated_keys c \<noteq> 0)"

definition accepts_authenticated_key :: "command \<Rightarrow> byte \<Rightarrow> bool" where
  "accepts_authenticated_key c key =
     (c_allowed_authenticated_keys c = 0 \<or>
      (key < 64 \<and> c_allowed_authenticated_keys c AND push_bit (unat key) 1 \<noteq> 0))"

definition maximum_logical_response :: nat where
  "maximum_logical_response = 16 * 1024 * 1024"

definition malformed :: "String.literal \<Rightarrow> error" where
  "malformed m = unknown_error EC_malformed_response m"

definition valid_mode :: "communication_mode \<Rightarrow> bool" where
  "valid_mode mode = (mode = Mode_plain \<or> mode = Mode_mac \<or> mode = Mode_full)"

definition valid_access :: "access_rights \<Rightarrow> bool" where
  "valid_access a = (ar_read_write a \<le> 15 \<and> ar_change a \<le> 15 \<and> ar_read a \<le> 15 \<and> ar_write a \<le> 15)"

definition append_access :: "bytes \<Rightarrow> access_rights \<Rightarrow> bytes" where
  "append_access output a =
     output @ [push_bit 4 (ar_read_write a) OR ar_change a, push_bit 4 (ar_read a) OR ar_write a]"

definition read_access :: "bytes \<Rightarrow> access_rights" where
  "read_access input =
     \<lparr>ar_read_write = drop_bit 4 (input ! 0), ar_change = input ! 0 AND 15,
      ar_read = drop_bit 4 (input ! 1), ar_write = input ! 1 AND 15\<rparr>"

definition management :: "byte \<Rightarrow> bytes \<Rightarrow> nat \<Rightarrow> nat \<Rightarrow> command" where
  "management opcode header minimum maximum =
     \<lparr>c_opcode = opcode, c_header = header, c_data = [], c_request_mode = Mode_mac,
      c_response_mode = Mode_mac, c_minimum_response = minimum, c_maximum_response = maximum,
      c_requires_authentication = False, c_requires_ev2_session = False,
      c_requires_picc_selection = False, c_requires_single_continuation_frame = False,
      c_invalidates_session = False, c_current_authenticated_key = None,
      c_allowed_authenticated_keys = 0, c_first_frame_payload_size = None\<rparr>"

definition file_command ::
  "byte \<Rightarrow> bytes \<Rightarrow> bytes \<Rightarrow> communication_mode \<Rightarrow> bool \<Rightarrow> nat \<Rightarrow> nat \<Rightarrow> command result" where
  "file_command opcode header data mode reading minimum maximum =
     (if \<not> valid_mode mode then Inl (invalid (STR ''Invalid EV3 communication mode''))
      else let command = (management opcode header minimum maximum)
                 \<lparr>c_data := data, c_requires_authentication := (mode \<noteq> Mode_plain),
                  c_request_mode := mode, c_response_mode := mode\<rparr>
           in Inr (if mode = Mode_full
                   then if reading then command\<lparr>c_request_mode := Mode_mac\<rparr>
                        else command\<lparr>c_response_mode := Mode_mac\<rparr>
                   else command))"

definition configuration :: "byte \<Rightarrow> bytes \<Rightarrow> command" where
  "configuration selector data =
     (management 0x5C [selector] 0 0)
       \<lparr>c_request_mode := Mode_full, c_requires_authentication := True, c_data := data\<rparr>"

definition file_creation_prefix :: "file_number \<Rightarrow> u16 option \<Rightarrow> bytes" where
  "file_creation_prefix file iso_id =
     (case iso_id of None \<Rightarrow> [ucast file] | Some v \<Rightarrow> put_le [ucast file] (ucast v) 2)"

definition range_header :: "file_number \<Rightarrow> offset \<Rightarrow> u32 \<Rightarrow> bytes" where
  "range_header file off len = put_le (put_le [ucast file] off 3) len 3"

definition maximum_three_byte :: nat where
  "maximum_three_byte = 0x00FFFFFF"

definition valid_range :: "offset \<Rightarrow> nat \<Rightarrow> bool" where
  "valid_range off len = (len \<le> maximum_three_byte \<and> len \<le> maximum_three_byte - unat off)"

definition application_tail :: "application_configuration \<Rightarrow> bytes result" where
  "application_tail settings =
     (let third0 = (case ac_key_settings3 settings of None \<Rightarrow> 0 | Some v \<Rightarrow> v);
          has_third = (ac_key_settings3 settings \<noteq> None \<or> ac_key_sets settings \<noteq> None)
      in if ac_id settings = 0 \<or> ac_number_of_keys settings < 1 \<or> ac_number_of_keys settings > 14 \<or>
            length (ac_df_name settings) > 16 \<or> (ac_df_name settings \<noteq> [] \<and> ac_iso_id settings = None)
         then Inl (invalid (STR ''Invalid EV3 application ID, key count, or ISO directory name''))
         else if third0 AND 0xE8 \<noteq> 0 \<or> (third0 AND 1 \<noteq> 0 \<and> ac_key_sets settings = None)
         then Inl (invalid (STR ''Invalid EV3 third key settings or missing key-set configuration''))
         else if (case ac_key_sets settings of
                    None \<Rightarrow> False
                  | Some sets \<Rightarrow> number_of_sets sets < 2 \<or> number_of_sets sets > 16 \<or> maximum_key_size sets \<noteq> 16)
         then Inl (invalid (STR ''AES application key sets require 2..16 sets and 16-byte keys''))
         else let third = (if ac_key_sets settings \<noteq> None then third0 OR 1 else third0);
                  second = (0x80 OR ac_number_of_keys settings)
                             OR (if ac_iso_file_identifiers settings then 0x20 else 0)
                             OR (if has_third then 0x10 else 0);
                  fields = [ac_key_settings settings, second]
                    @ (if has_third then [third] else [])
                    @ (case ac_key_sets settings of
                         None \<Rightarrow> []
                       | Some sets \<Rightarrow> [active_version sets, number_of_sets sets, maximum_key_size sets,
                                       key_set_settings sets])
              in Inr ((case ac_iso_id settings of None \<Rightarrow> fields | Some v \<Rightarrow> put_le fields (ucast v) 2)
                      @ ac_df_name settings))"

definition value_change ::
  "byte \<Rightarrow> file_number \<Rightarrow> u32 \<Rightarrow> communication_mode \<Rightarrow> command result" where
  "value_change opcode file amount mode =
     (if amount > 0x7FFFFFFF
      then Inl (invalid (STR ''EV3 value operation amount exceeds signed 32-bit range''))
      else file_command opcode [ucast file] (put_le [] amount 4) mode False 0 0)"

section \<open>Applications\<close>

definition get_application_ids :: "command result" where
  "get_application_ids = Inr (management 0x6A [] 0 maximum_logical_response)"

definition get_df_names :: "command result" where
  "get_df_names = Inr (management 0x6D [] 0 maximum_logical_response)"

definition get_iso_file_ids :: "command result" where
  "get_iso_file_ids = Inr (management 0x61 [] 0 64)"

definition create_application :: "application_configuration \<Rightarrow> command result" where
  "create_application settings =
     (case application_tail settings of
        Inl e \<Rightarrow> Inl e
      | Inr tail \<Rightarrow> Inr (management 0xCA (put_le [] (ac_id settings) 3 @ tail) 0 0))"

definition create_delegated_application ::
  "delegated_application_configuration \<Rightarrow> bytes \<Rightarrow> bytes \<Rightarrow> command result" where
  "create_delegated_application settings encrypted_default_key dam_mac =
     (if length encrypted_default_key \<noteq> 32 \<or> length dam_mac \<noteq> 8
      then Inl (invalid (STR ''Delegated application creation requires 32-byte EncK and 8-byte DAM MAC''))
      else (case application_tail (dc_application settings) of
              Inl e \<Rightarrow> Inl e
            | Inr tail \<Rightarrow>
                let header = put_le (put_le (put_le [] (ac_id (dc_application settings)) 3)
                               (ucast (dc_slot settings)) 2 @ [dc_slot_version settings])
                               (ucast (dc_quota_limit settings)) 2 @ tail
                in Inr ((management 0xC9 header 0 0)
                     \<lparr>c_data := encrypted_default_key @ dam_mac, c_requires_authentication := True,
                      c_requires_ev2_session := True, c_requires_picc_selection := True,
                      c_requires_single_continuation_frame := True,
                      c_current_authenticated_key := Some 0x10, c_request_mode := Mode_mac,
                      c_response_mode := Mode_mac, c_first_frame_payload_size := Some (length header)\<rparr>)))"

definition get_delegated_application_info :: "u16 \<Rightarrow> command result" where
  "get_delegated_application_info slot =
     Inr ((management 0x69 (put_le [] (ucast slot) 2) 8 8)\<lparr>c_requires_picc_selection := True\<rparr>)"

definition delete_application :: "application_id \<Rightarrow> command result" where
  "delete_application aid =
     (if aid = 0 then Inl (invalid (STR ''DeleteApplication cannot target the PICC identifier''))
      else Inr (management 0xDA (put_le [] aid 3) 0 0))"

definition delete_delegated_application :: "application_id \<Rightarrow> bytes \<Rightarrow> command result" where
  "delete_delegated_application aid dam_mac =
     (if aid = 0 \<or> length dam_mac \<noteq> 8
      then Inl (invalid (STR ''Delegated deletion requires a nonzero AID and eight-byte DAM MAC''))
      else Inr ((management 0xDA (put_le [] aid 3 @ dam_mac) 0 0)
             \<lparr>c_requires_authentication := True, c_requires_picc_selection := True,
              c_allowed_authenticated_keys := push_bit 0x10 1 OR push_bit 0x18 1\<rparr>))"

section \<open>Keys\<close>

definition get_key_settings :: "command result" where
  "get_key_settings = Inr (management 0x45 [] 2 6)"

definition change_key_settings :: "byte \<Rightarrow> command result" where
  "change_key_settings settings = file_command 0x54 [] [settings] Mode_full False 0 0"

definition get_key_version :: "key_number \<Rightarrow> byte option \<Rightarrow> command result" where
  "get_key_version key key_set =
     (case key_set of
        None \<Rightarrow> Inr (management 0x64 [ucast key] 1 1)
      | Some set_number \<Rightarrow>
          if set_number > 15 \<or> key > 13
          then Inl (invalid (STR ''Application key version requires key 0..13 and set 0..15''))
          else Inr (management 0x64 [ucast key OR 0x40, set_number] 1 1))"

definition get_key_set_versions :: "command result" where
  "get_key_set_versions = Inr (management 0x64 [0x40, 0x80] 2 16)"

definition changes_current_key :: "key_number \<Rightarrow> key_number \<Rightarrow> byte option \<Rightarrow> bool" where
  "changes_current_key key authenticated_key key_set =
     (key = authenticated_key \<and> (case key_set of None \<Rightarrow> 0 | Some v \<Rightarrow> v) = 0)"

definition change_key_data :: "bool \<Rightarrow> bytes \<Rightarrow> byte \<Rightarrow> bytes \<Rightarrow> bytes" where
  "change_key_data current new_key version old_key =
     (if current then new_key @ [version]
      else map (\<lambda>index. new_key ! index XOR old_key ! index) [0..<16] @ [version] @
             map (\<lambda>index. ucast (drop_bit (index * 8) (crc32 new_key))) [0..<4])"

definition change_aes_key ::
  "key_number \<Rightarrow> bytes \<Rightarrow> byte \<Rightarrow> key_number \<Rightarrow> bytes \<Rightarrow> byte option \<Rightarrow> bool \<Rightarrow> command result" where
  "change_aes_key key new_key version authenticated_key old_key key_set picc_master_key =
     (let current = changes_current_key key authenticated_key key_set
      in if length new_key \<noteq> 16 \<or> (case key_set of None \<Rightarrow> False | Some v \<Rightarrow> v > 15) \<or>
            (picc_master_key \<and> key \<noteq> 0)
         then Inl (invalid (STR ''Invalid AES key length, key set, or PICC master key selector''))
         else if (current \<and> old_key \<noteq> []) \<or> (\<not> current \<and> length old_key \<noteq> 16)
         then Inl (invalid (STR ''Old AES key is required only when changing another key or key set''))
         else let opcode = (case key_set of None \<Rightarrow> 0xC4 | Some v \<Rightarrow> 0xC6);
                  selector = (if picc_master_key then ucast key OR 0x80 else ucast key);
                  header = (case key_set of None \<Rightarrow> [] | Some v \<Rightarrow> [v]) @ [selector]
              in Inr ((management opcode header 0 0)
                   \<lparr>c_data := change_key_data current new_key version old_key,
                    c_request_mode := Mode_full, c_requires_authentication := True,
                    c_invalidates_session := current,
                    c_current_authenticated_key := Some (ucast authenticated_key),
                    c_response_mode := (if current then Mode_plain else Mode_mac)\<rparr>))"

definition initialize_key_set :: "byte \<Rightarrow> command result" where
  "initialize_key_set key_set =
     (if key_set > 15 then Inl (invalid (STR ''EV3 key-set number exceeds 15''))
      else Inr ((management 0x56 [] 0 0)\<lparr>c_data := [key_set, 0x02], c_requires_authentication := True\<rparr>))"

definition finalize_key_set :: "byte \<Rightarrow> byte \<Rightarrow> command result" where
  "finalize_key_set key_set version =
     (if key_set > 15 then Inl (invalid (STR ''EV3 key-set number exceeds 15''))
      else Inr ((management 0x57 [] 0 0)\<lparr>c_data := [key_set, version], c_requires_authentication := True\<rparr>))"

definition roll_key_set :: "byte \<Rightarrow> command result" where
  "roll_key_set key_set =
     (if key_set > 15 then Inl (invalid (STR ''EV3 key-set number exceeds 15''))
      else Inr ((management 0x55 [] 0 0)
             \<lparr>c_data := [key_set], c_requires_authentication := True, c_invalidates_session := True\<rparr>))"

section \<open>Files\<close>

definition creation_options :: "communication_mode \<Rightarrow> bool \<Rightarrow> byte" where
  "creation_options mode additional =
     (if additional then mode_code mode OR 0x80 else mode_code mode)"

definition get_file_ids :: "command result" where
  "get_file_ids = Inr (management 0x6F [] 0 32)"

definition create_data_file :: "data_file_configuration \<Rightarrow> command result" where
  "create_data_file settings =
     (if \<not> valid_mode (df_communication settings) \<or> \<not> valid_access (df_access settings) \<or> df_size settings = 0
      then Inl (invalid (STR ''Invalid EV3 data-file communication, access rights, or size''))
      else let header = file_creation_prefix (df_file settings) (df_iso_id settings) @
                 [creation_options (df_communication settings) (df_additional_access_rights settings)];
               full_header = put_le (append_access header (df_access settings)) (df_size settings) 3
           in Inr (management (if df_backup settings then 0xCB else 0xCD) full_header 0 0))"

definition create_value_file :: "value_file_configuration \<Rightarrow> command result" where
  "create_value_file settings =
     (if \<not> valid_mode (vf_communication settings) \<or> \<not> valid_access (vf_access settings) \<or>
         sint (vf_lower_limit settings) > sint (vf_upper_limit settings) \<or>
         sint (vf_initial_value settings) < sint (vf_lower_limit settings) \<or>
         sint (vf_initial_value settings) > sint (vf_upper_limit settings)
      then Inl (invalid (STR ''Invalid EV3 value-file communication, access rights, or limits''))
      else let options = creation_options (vf_communication settings) (vf_additional_access_rights settings);
               header0 = append_access [ucast (vf_file settings), options] (vf_access settings);
               header1 = put_le (put_le (put_le header0 (vf_lower_limit settings) 4)
                           (vf_upper_limit settings) 4) (vf_initial_value settings) 4;
               limited_options = (if vf_limited_credit_enabled settings then 1 else 0) OR
                                 (if vf_free_get_value settings then 2 else 0)
           in Inr (management 0xCC (header1 @ [limited_options]) 0 0))"

definition create_record_file :: "record_file_configuration \<Rightarrow> command result" where
  "create_record_file settings =
     (if \<not> valid_mode (rf_communication settings) \<or> \<not> valid_access (rf_access settings) \<or>
         rf_record_size settings = 0 \<or> rf_maximum_records settings = 0
      then Inl (invalid (STR ''Invalid EV3 record-file communication, access rights, or dimensions''))
      else let header = file_creation_prefix (rf_file settings) (rf_iso_id settings) @
                 [creation_options (rf_communication settings) (rf_additional_access_rights settings)];
               full_header = put_le (put_le (append_access header (rf_access settings))
                               (rf_record_size settings) 3) (rf_maximum_records settings) 3
           in Inr (management (if rf_cyclic settings then 0xC0 else 0xC1) full_header 0 0))"

definition create_transaction_mac_file ::
  "file_number \<Rightarrow> access_rights \<Rightarrow> bytes \<Rightarrow> byte \<Rightarrow> command result" where
  "create_transaction_mac_file file access aes_key key_version =
     (if \<not> valid_access access \<or> length aes_key \<noteq> 16
      then Inl (invalid (STR ''Transaction MAC file requires valid access rights and an AES key''))
      else Inr ((management 0xCE (append_access [ucast file, 0x00] access @ [0x02]) 0 0)
             \<lparr>c_data := aes_key @ [key_version], c_request_mode := Mode_full,
              c_requires_authentication := True\<rparr>))"

definition delete_file :: "file_number \<Rightarrow> command result" where
  "delete_file file = Inr (management 0xDF [ucast file] 0 0)"

definition get_file_settings :: "file_number \<Rightarrow> command result" where
  "get_file_settings file = Inr (management 0xF5 [ucast file] 6 128)"

definition get_file_counters :: "file_number \<Rightarrow> communication_mode \<Rightarrow> command result" where
  "get_file_counters file mode =
     (if mode = Mode_mac
      then Inl (invalid (STR ''GetFileCounters supports plain or fully enciphered responses''))
      else file_command 0xF6 [ucast file] [] mode True 5 5)"

text \<open>The loop over the additional rights stops at the first invalid one.\<close>

fun append_accesses :: "bytes \<Rightarrow> access_rights list \<Rightarrow> bytes result" where
  "append_accesses data [] = Inr data"
| "append_accesses data (a # rest) =
     (if \<not> valid_access a then Inl (invalid (STR ''Invalid EV3 additional access-right selector''))
      else append_accesses (append_access data a) rest)"

definition change_file_settings :: "file_settings_change \<Rightarrow> command result" where
  "change_file_settings settings =
     (if \<not> valid_mode (fc_communication settings) \<or> \<not> valid_access (fc_access settings) \<or>
         length (fc_additional_access settings) > 7
      then Inl (invalid (STR ''Invalid EV3 file mode, access rights, or additional rights count''))
      else let options = mode_code (fc_communication settings)
                 OR (if fc_additional_access settings \<noteq> [] then 0x80 else 0)
                 OR (if fc_transaction_counter_limit settings \<noteq> None then 0x20 else 0);
               prefix = append_access [options] (fc_access settings)
           in (case (if fc_additional_access settings \<noteq> []
                     then append_accesses (prefix @ [of_nat (length (fc_additional_access settings))])
                            (fc_additional_access settings)
                     else Inr prefix) of
                 Inl e \<Rightarrow> Inl e
               | Inr data \<Rightarrow>
                   file_command 0x5F [ucast (fc_file settings)]
                     (case fc_transaction_counter_limit settings of
                        None \<Rightarrow> data | Some limit \<Rightarrow> put_le data limit 4)
                     (fc_command_communication settings) False 0 0))"

definition read_data ::
  "file_number \<Rightarrow> offset \<Rightarrow> byte_count \<Rightarrow> communication_mode \<Rightarrow> command result" where
  "read_data file off len mode =
     (if \<not> valid_range off (unat len)
      then Inl (invalid (STR ''EV3 read range exceeds the three-byte address space''))
      else file_command 0xBD (range_header file off len) [] mode True (unat len)
             (if len = 0 then maximum_three_byte - unat off else unat len))"

definition write_data ::
  "file_number \<Rightarrow> offset \<Rightarrow> bytes \<Rightarrow> communication_mode \<Rightarrow> command result" where
  "write_data file off data mode =
     (if data = [] \<or> \<not> valid_range off (length data)
      then Inl (invalid (STR ''EV3 write requires a nonempty in-range payload''))
      else file_command 0x3D (range_header file off (of_nat (length data))) data mode False 0 0)"

definition read_records ::
  "file_number \<Rightarrow> offset \<Rightarrow> byte_count \<Rightarrow> communication_mode \<Rightarrow> nat \<Rightarrow> command result" where
  "read_records file first_record count mode maximum_response =
     (if \<not> valid_range first_record (unat count) \<or> maximum_response = 0 \<or>
         maximum_response > maximum_logical_response
      then Inl (invalid (STR ''Invalid EV3 record range or response bound''))
      else file_command 0xBB (range_header file first_record count) [] mode True 0 maximum_response)"

definition write_record ::
  "file_number \<Rightarrow> offset \<Rightarrow> bytes \<Rightarrow> communication_mode \<Rightarrow> command result" where
  "write_record file off data mode =
     (if data = [] \<or> \<not> valid_range off (length data)
      then Inl (invalid (STR ''EV3 record write requires a nonempty in-range payload''))
      else file_command 0x3B (range_header file off (of_nat (length data))) data mode False 0 0)"

definition update_record ::
  "file_number \<Rightarrow> offset \<Rightarrow> offset \<Rightarrow> bytes \<Rightarrow> communication_mode \<Rightarrow> command result" where
  "update_record file record_number off data mode =
     (if data = [] \<or> \<not> valid_range off (length data)
      then Inl (invalid (STR ''EV3 record update requires a nonempty in-range payload''))
      else file_command 0xDB
             (put_le (put_le (put_le [ucast file] record_number 3) off 3) (of_nat (length data)) 3)
             data mode False 0 0)"

definition clear_record_file :: "file_number \<Rightarrow> command result" where
  "clear_record_file file = Inr (management 0xEB [ucast file] 0 0)"

section \<open>Values and transactions\<close>

definition get_value :: "file_number \<Rightarrow> communication_mode \<Rightarrow> command result" where
  "get_value file mode = file_command 0x6C [ucast file] [] mode True 4 4"

definition credit :: "file_number \<Rightarrow> u32 \<Rightarrow> communication_mode \<Rightarrow> command result" where
  "credit file amount mode = value_change 0x0C file amount mode"

definition debit :: "file_number \<Rightarrow> u32 \<Rightarrow> communication_mode \<Rightarrow> command result" where
  "debit file amount mode = value_change 0xDC file amount mode"

definition limited_credit :: "file_number \<Rightarrow> u32 \<Rightarrow> communication_mode \<Rightarrow> command result" where
  "limited_credit file amount mode = value_change 0x1C file amount mode"

definition restore_transfer :: "file_number \<Rightarrow> file_number \<Rightarrow> communication_mode \<Rightarrow> command result" where
  "restore_transfer target source mode =
     (if mode \<noteq> Mode_plain \<and> mode \<noteq> Mode_mac
      then Inl (invalid (STR ''RestoreTransfer supports only Plain or MAC communication''))
      else file_command 0xB1 [] [ucast target, ucast source] mode False 0 0)"

definition commit_transaction :: "bool \<Rightarrow> command result" where
  "commit_transaction return_transaction_mac =
     (if return_transaction_mac then Inr (management 0xC7 [0x01] 12 12)
      else Inr (management 0xC7 [] 0 0))"

definition abort_transaction :: "command result" where
  "abort_transaction = Inr (management 0xA7 [] 0 0)"

definition commit_reader_id :: "bytes \<Rightarrow> command result" where
  "commit_reader_id reader_id =
     (if length reader_id \<noteq> 16
      then Inl (invalid (STR ''CommitReaderID requires a sixteen-byte reader identifier''))
      else Inr ((management 0xC8 reader_id 16 16)\<lparr>c_requires_authentication := True\<rparr>))"

section \<open>Card management\<close>

text \<open>\<^verbatim>\<open>enum class CardUidRequest\<close>; a value outside the enumerators is rejected by the source.\<close>

datatype card_uid_request = Uid_omit_option | Uid_without_nuid | Uid_with_nuid | Uid_other

definition get_version :: "command result" where
  "get_version = Inr (management 0x60 [] 28 28)"

definition free_memory :: "command result" where
  "free_memory = Inr (management 0x6E [] 3 3)"

definition get_card_uid :: "card_uid_request \<Rightarrow> command result" where
  "get_card_uid request =
     (case request of
        Uid_omit_option \<Rightarrow> file_command 0x51 [] [] Mode_full True 6 12
      | Uid_without_nuid \<Rightarrow> file_command 0x51 [0x00] [] Mode_full True 6 12
      | Uid_with_nuid \<Rightarrow> file_command 0x51 [0x01] [] Mode_full True (6 + 4) (12 + 4)
      | Uid_other \<Rightarrow> Inl (invalid (STR ''Invalid GetCardUID request variant'')))"

definition read_originality_signature :: "command result" where
  "read_originality_signature = Inr ((management 0x3C [0x00] 56 56)\<lparr>c_response_mode := Mode_full\<rparr>)"

definition format_picc :: "command result" where
  "format_picc = Inr ((management 0xFC [] 0 0)\<lparr>c_requires_authentication := True\<rparr>)"

definition picc_bits :: "picc_configuration \<Rightarrow> bool list" where
  "picc_bits settings =
     [pc_disable_format settings, pc_random_identifier settings, pc_proximity_check_mandatory settings,
      pc_virtual_card_authentication_mandatory settings, pc_error_code_binding settings,
      pc_random_identifier_configuration settings, pc_four_byte_nuid_configuration settings]"

definition picc_flags :: "bool list \<Rightarrow> byte" where
  "picc_flags bits =
     fold (\<lambda>index flags. if bits ! index then flags OR push_bit index 1 else flags) [0..<length bits] 0"

definition set_picc_configuration :: "picc_configuration \<Rightarrow> command result" where
  "set_picc_configuration settings = Inr (configuration 0x00 [picc_flags (picc_bits settings)])"

definition set_capability_configuration :: "bytes \<Rightarrow> command result" where
  "set_capability_configuration settings = Inr (configuration 0x05 settings)"

definition set_default_aes_key :: "bytes \<Rightarrow> byte \<Rightarrow> command result" where
  "set_default_aes_key aes_key key_version =
     (if length aes_key \<noteq> 16 then Inl (invalid (STR ''Default AES key requires sixteen bytes''))
      else Inr (configuration 0x01 ((aes_key @ replicate (25 - length aes_key) 0)[24 := key_version])))"

definition set_ats :: "bytes \<Rightarrow> command result" where
  "set_ats ats =
     (if length ats < 2 \<or> length ats > 20 \<or> unat (ats ! 0) \<noteq> length ats
      then Inl (invalid (STR ''ATS must include a matching length byte and contain 2..20 bytes''))
      else Inr (configuration 0x02 ats))"

definition set_atqa :: "u16 \<Rightarrow> command result" where
  "set_atqa atqa = Inr (configuration 0x0C (put_le [] (ucast atqa) 2))"

section \<open>Specification: all builders\<close>

text \<open>One constructor per builder of the checked layer.\<close>

datatype checked_call =
    Get_application_ids | Get_df_names | Get_iso_file_ids
  | Create_application application_configuration
  | Create_delegated_application delegated_application_configuration bytes bytes
  | Get_delegated_application_info u16
  | Delete_application application_id | Delete_delegated_application application_id bytes
  | Get_key_settings | Change_key_settings byte | Get_key_version key_number "byte option"
  | Get_key_set_versions | Change_aes_key key_number bytes byte key_number bytes "byte option" bool
  | Initialize_key_set byte | Finalize_key_set byte byte | Roll_key_set byte
  | Get_file_ids | Create_data_file data_file_configuration
  | Create_value_file value_file_configuration | Create_record_file record_file_configuration
  | Create_transaction_mac_file file_number access_rights bytes byte
  | Delete_file file_number | Get_file_settings file_number
  | Get_file_counters file_number communication_mode | Change_file_settings file_settings_change
  | Read_data file_number offset byte_count communication_mode
  | Write_data file_number offset bytes communication_mode
  | Read_records file_number offset byte_count communication_mode nat
  | Write_record file_number offset bytes communication_mode
  | Update_record file_number offset offset bytes communication_mode
  | Clear_record_file file_number
  | Get_value file_number communication_mode
  | Credit file_number u32 communication_mode | Debit file_number u32 communication_mode
  | Limited_credit file_number u32 communication_mode
  | Restore_transfer file_number file_number communication_mode
  | Commit_transaction bool | Abort_transaction | Commit_reader_id bytes
  | Get_version | Free_memory | Get_card_uid card_uid_request | Read_originality_signature
  | Format_picc | Set_picc_configuration picc_configuration | Set_capability_configuration bytes
  | Set_default_aes_key bytes byte | Set_ats bytes | Set_atqa u16

fun checked_build :: "checked_call \<Rightarrow> command result" where
  "checked_build Get_application_ids = get_application_ids"
| "checked_build Get_df_names = get_df_names"
| "checked_build Get_iso_file_ids = get_iso_file_ids"
| "checked_build (Create_application a) = create_application a"
| "checked_build (Create_delegated_application d k m) = create_delegated_application d k m"
| "checked_build (Get_delegated_application_info slot) = get_delegated_application_info slot"
| "checked_build (Delete_application a) = delete_application a"
| "checked_build (Delete_delegated_application a m) = delete_delegated_application a m"
| "checked_build Get_key_settings = get_key_settings"
| "checked_build (Change_key_settings b) = change_key_settings b"
| "checked_build (Get_key_version k n) = get_key_version k n"
| "checked_build Get_key_set_versions = get_key_set_versions"
| "checked_build (Change_aes_key k n v a old ks pm) = change_aes_key k n v a old ks pm"
| "checked_build (Initialize_key_set b) = initialize_key_set b"
| "checked_build (Finalize_key_set b v) = finalize_key_set b v"
| "checked_build (Roll_key_set b) = roll_key_set b"
| "checked_build Get_file_ids = get_file_ids"
| "checked_build (Create_data_file f) = create_data_file f"
| "checked_build (Create_value_file f) = create_value_file f"
| "checked_build (Create_record_file f) = create_record_file f"
| "checked_build (Create_transaction_mac_file f a k v) = create_transaction_mac_file f a k v"
| "checked_build (Delete_file f) = delete_file f"
| "checked_build (Get_file_settings f) = get_file_settings f"
| "checked_build (Get_file_counters f m) = get_file_counters f m"
| "checked_build (Change_file_settings f) = change_file_settings f"
| "checked_build (Read_data f off n m) = read_data f off n m"
| "checked_build (Write_data f off d m) = write_data f off d m"
| "checked_build (Read_records f off n m mx) = read_records f off n m mx"
| "checked_build (Write_record f off d m) = write_record f off d m"
| "checked_build (Update_record f r off d m) = update_record f r off d m"
| "checked_build (Clear_record_file f) = clear_record_file f"
| "checked_build (Get_value f m) = get_value f m"
| "checked_build (Credit f n m) = credit f n m"
| "checked_build (Debit f n m) = debit f n m"
| "checked_build (Limited_credit f n m) = limited_credit f n m"
| "checked_build (Restore_transfer a b m) = restore_transfer a b m"
| "checked_build (Commit_transaction b) = commit_transaction b"
| "checked_build Abort_transaction = abort_transaction"
| "checked_build (Commit_reader_id r) = commit_reader_id r"
| "checked_build Get_version = get_version"
| "checked_build Free_memory = free_memory"
| "checked_build (Get_card_uid r) = get_card_uid r"
| "checked_build Read_originality_signature = read_originality_signature"
| "checked_build Format_picc = format_picc"
| "checked_build (Set_picc_configuration c) = set_picc_configuration c"
| "checked_build (Set_capability_configuration d) = set_capability_configuration d"
| "checked_build (Set_default_aes_key k v) = set_default_aes_key k v"
| "checked_build (Set_ats a) = set_ats a"
| "checked_build (Set_atqa a) = set_atqa a"

text \<open>
  What secure messaging relies on: ordered response bounds within the logical maximum, proper modes,
  and a response mode whose answer the prepared request makes due (a Plain answer to a protected
  request is only allowed when the command ends the session).
\<close>

definition command_ok :: "command \<Rightarrow> bool" where
  "command_ok c \<longleftrightarrow>
     c_minimum_response c \<le> c_maximum_response c \<and> c_maximum_response c \<le> maximum_logical_response \<and>
     valid_mode (c_request_mode c) \<and> valid_mode (c_response_mode c) \<and>
     ((c_request_mode c = Mode_plain) = (c_response_mode c = Mode_plain) \<or>
      c_invalidates_session c \<and> c_response_mode c = Mode_plain) \<and>
     (c_request_mode c = Mode_full \<longrightarrow> c_requires_authentication c)"

section \<open>Access rights\<close>

lemma nibble_pack:
  assumes "a \<le> (15 :: byte)" "b \<le> 15"
  shows "drop_bit 4 (push_bit 4 a OR b) = a" "(push_bit 4 a OR b) AND 15 = b"
proof -
  have m: "(15 :: byte) = mask 4" by (simp add: mask_eq_exp_minus_1)
  have small: "bit x n \<Longrightarrow> n < 4" if "x \<le> (15 :: byte)" for x n
  proof -
    have "unat x < 2 ^ 4" using that by (simp add: word_le_nat_alt)
    then have "take_bit 4 x = x" by (simp add: word_unat_eq_iff unsigned_take_bit_eq take_bit_nat_eq_self)
    then show "bit x n \<Longrightarrow> n < 4" by (metis bit_take_bit_iff)
  qed
  show "drop_bit 4 (push_bit 4 a OR b) = a"
    using small [OF assms(1)] small [OF assms(2)]
    by (intro bit_word_eqI) (fastforce simp: bit_drop_bit_eq bit_or_iff bit_push_bit_iff)
  show "(push_bit 4 a OR b) AND 15 = b"
    unfolding m using small [OF assms(2)]
    by (intro bit_word_eqI) (fastforce simp: bit_and_iff bit_mask_iff bit_or_iff bit_push_bit_iff)
qed

lemma nibble_unpack: "push_bit 4 (drop_bit 4 b) OR (b AND 15) = (b :: byte)"
proof -
  have m: "(15 :: byte) = mask 4" by (simp add: mask_eq_exp_minus_1)
  show ?thesis unfolding m
    by (intro bit_word_eqI) (auto simp: bit_drop_bit_eq bit_or_iff bit_push_bit_iff bit_and_iff bit_mask_iff)
qed

lemma read_append_access:
  "valid_access a \<Longrightarrow> read_access (append_access [] a) = a"
  by (simp add: read_access_def append_access_def valid_access_def nibble_pack del: drop_bit_or)

lemma append_read_access: "length bs = 2 \<Longrightarrow> append_access [] (read_access bs) = bs"
  by (auto simp: read_access_def append_access_def nibble_unpack numeral_2_eq_2 length_Suc_conv)

lemma read_access_valid: "valid_access (read_access bs)"
proof -
  have "b AND 15 \<le> (15 :: byte)" "drop_bit 4 b \<le> (15 :: byte)" for b
  proof -
    show "b AND 15 \<le> 15" by (rule word_and_le1)
    have "unat b < 2 ^ LENGTH(8)" by (rule unsigned_less)
    then have "take_bit 8 (unat b) = unat b" by (simp add: take_bit_nat_eq_self)
    then have "unat (drop_bit 4 b) < 16" using high_nibble_less [of b] by (simp add: unsigned_drop_bit_eq)
    then show "drop_bit 4 b \<le> 15" by (simp add: word_le_nat_alt)
  qed
  then show ?thesis by (simp add: valid_access_def read_access_def)
qed

section \<open>All builders\<close>

lemma management_ok: "minimum \<le> maximum \<Longrightarrow> maximum \<le> maximum_logical_response \<Longrightarrow>
    command_ok (management opcode header minimum maximum)"
  by (simp add: command_ok_def management_def valid_mode_def)

lemma file_command_ok:
  "file_command opcode header data mode reading minimum maximum = Inr c \<Longrightarrow>
     minimum \<le> maximum \<Longrightarrow> maximum \<le> maximum_logical_response \<Longrightarrow> command_ok c"
  by (auto simp: file_command_def Let_def command_ok_def management_def valid_mode_def split: if_splits)

lemma configuration_ok: "command_ok (configuration selector data)"
  by (simp add: configuration_def command_ok_def management_def valid_mode_def)

lemma file_command_error:
  "file_command opcode header data mode reading minimum maximum = Inl e \<Longrightarrow>
     err_code e = EC_invalid_argument \<and> err_outcome e = OC_not_sent"
  by (auto simp: file_command_def Let_def split: if_splits)

lemma application_tail_error:
  "application_tail a = Inl e \<Longrightarrow> err_code e = EC_invalid_argument \<and> err_outcome e = OC_not_sent"
  by (auto simp: application_tail_def Let_def split: if_splits)

lemma append_accesses_error:
  "append_accesses data as = Inl e \<Longrightarrow> err_code e = EC_invalid_argument \<and> err_outcome e = OC_not_sent"
  by (induction data as rule: append_accesses.induct) (auto split: if_splits)

lemma range_maximum: "maximum_three_byte \<le> maximum_logical_response"
  by (simp add: maximum_three_byte_def maximum_logical_response_def)

lemmas builder_defs = get_application_ids_def get_df_names_def get_iso_file_ids_def create_application_def
  delete_application_def get_key_settings_def change_key_settings_def
  get_key_version_def get_key_set_versions_def get_file_ids_def create_data_file_def create_value_file_def
  create_record_file_def delete_file_def get_file_settings_def get_file_counters_def clear_record_file_def
  get_value_def credit_def debit_def limited_credit_def value_change_def restore_transfer_def
  commit_transaction_def abort_transaction_def get_version_def free_memory_def get_card_uid_def
  set_picc_configuration_def set_capability_configuration_def set_default_aes_key_def set_ats_def set_atqa_def

lemmas direct_builder_defs = get_delegated_application_info_def create_delegated_application_def delete_delegated_application_def
  change_aes_key_def initialize_key_set_def finalize_key_set_def roll_key_set_def
  create_transaction_mac_file_def commit_reader_id_def read_originality_signature_def format_picc_def

lemma read_data_ok: "read_data f off n m = Inr c \<Longrightarrow> command_ok c"
  by (rule file_command_ok [of "0xBD" "range_header f off n" "[]" m True "unat n"
        "if n = 0 then maximum_three_byte - unat off else unat n"])
    (use range_maximum in \<open>auto simp: read_data_def valid_range_def split: if_splits\<close>)

lemma change_file_settings_ok: "change_file_settings f = Inr c \<Longrightarrow> command_ok c"
  by (auto simp: change_file_settings_def Let_def split: if_splits sum.splits dest!: file_command_ok)

lemma ranged_commands_ok:
  "write_data f off d m = Inr c \<Longrightarrow> command_ok c"
  "write_record f off d m = Inr c \<Longrightarrow> command_ok c"
  "update_record f r off d m = Inr c \<Longrightarrow> command_ok c"
  "read_records f off n m mx = Inr c \<Longrightarrow> command_ok c"
  by (auto simp: write_data_def write_record_def update_record_def read_records_def
      split: if_splits dest!: file_command_ok)

lemma direct_command_ok:
  "create_delegated_application d k t = Inr c \<Longrightarrow> command_ok c"
  "get_delegated_application_info slot = Inr c \<Longrightarrow> command_ok c"
  "delete_delegated_application a t = Inr c \<Longrightarrow> command_ok c"
  "change_aes_key key n v auth old ks pm = Inr c \<Longrightarrow> command_ok c"
  "initialize_key_set b = Inr c \<Longrightarrow> command_ok c"
  "finalize_key_set b v = Inr c \<Longrightarrow> command_ok c"
  "roll_key_set b = Inr c \<Longrightarrow> command_ok c"
  "create_transaction_mac_file f ar k v = Inr c \<Longrightarrow> command_ok c"
  "commit_reader_id k = Inr c \<Longrightarrow> command_ok c"
  "read_originality_signature = Inr c \<Longrightarrow> command_ok c"
  "format_picc = Inr c \<Longrightarrow> command_ok c"
  by (auto simp: direct_builder_defs command_ok_def management_def valid_mode_def Let_def
      maximum_logical_response_def split: if_splits sum.splits)

lemma checked_build_ok: "checked_build call = Inr c \<Longrightarrow> command_ok c"
  by (cases call)
    (auto simp: builder_defs Let_def maximum_logical_response_def
      intro!: management_ok configuration_ok
      dest!: file_command_ok read_data_ok change_file_settings_ok ranged_commands_ok direct_command_ok
      split: if_splits sum.splits option.splits card_uid_request.splits)

lemma checked_build_error:
  "checked_build call = Inl e \<Longrightarrow> err_code e = EC_invalid_argument \<and> err_outcome e = OC_not_sent"
  by (cases call)
    (auto simp: builder_defs direct_builder_defs read_data_def write_data_def write_record_def
      update_record_def read_records_def change_file_settings_def Let_def
      dest!: file_command_error application_tail_error append_accesses_error
      split: if_splits sum.splits option.splits card_uid_request.splits)

section \<open>Properties\<close>

text \<open>
  Every checked native command that any builder produces has ordered response bounds within
  sixteen mebibytes, proper communication modes, a response mode that fits its request mode, and needs
  authentication when it is enciphered; every refusal is an argument error reported before
  transmission.
\<close>

theorem checked_commands_ok:
  "(\<forall>c. checked_build call = Inr c \<longrightarrow> command_ok c) \<and>
   (\<forall>e. checked_build call = Inl e \<longrightarrow> err_code e = EC_invalid_argument \<and> err_outcome e = OC_not_sent)"
  using checked_build_ok checked_build_error by blast

theorem checked_commands_ok_witness:
  "\<exists>c. checked_build (Read_data 3 0x10 0 Mode_full) = Inr c \<and> command_ok c"
  using checked_commands_ok [of "Read_data 3 0x10 0 Mode_full"]
  by (simp add: read_data_def file_command_def valid_mode_def valid_range_def maximum_three_byte_def Let_def)

text \<open>
  A data write that is built addresses a range inside the three-byte address space, and its header
  carries exactly the requested offset and the size of the payload.
\<close>

theorem write_data_range:
  assumes "write_data file off data mode = Inr c" "three_byte_ok off"
  shows "unat off + length data \<le> 0x00FFFFFF \<and> data \<noteq> [] \<and> c_data c = data \<and> length (c_header c) = 7 \<and>
         get_le (subspan (c_header c) 1 3) = off \<and>
         unat (get_le (subspan (c_header c) 4 3)) = length data"
proof -
  have range: "valid_range off (length data)" "data \<noteq> []"
    and c: "c_data c = data" "c_header c = range_header file off (of_nat (length data))"
    using assms(1) by (auto simp: write_data_def file_command_def management_def Let_def split: if_splits)
  have off: "unat off \<le> 0xFFFFFF" using assms(2) by (simp add: three_byte_ok_def word_le_nat_alt)
  have small: "take_bit 24 v = v" if "unat v \<le> 0xFFFFFF" for v :: u32
    using that by (simp add: word_unat_eq_iff unsigned_take_bit_eq take_bit_nat_eq_self)
  have len: "length data \<le> 0xFFFFFF" using range by (simp add: valid_range_def maximum_three_byte_def)
  then have ulen: "unat (of_nat (length data) :: u32) = length data"
    by (simp add: unsigned_of_nat take_bit_nat_eq_self)
  have split: "range_header file off n = ucast file # put_le [] off 3 @ put_le [] n 3" for n
    by (simp add: range_header_def put_le_def)
  have "get_le (subspan (c_header c) 1 3) = off"
    using get_le_put_le_gen [of 3 off] small [OF off] by (simp add: c split subspan_def)
  moreover have "get_le (subspan (c_header c) 4 3) = of_nat (length data)"
    using get_le_put_le_gen [of 3 "of_nat (length data)"] small [of "of_nat (length data)"] ulen len
    by (simp add: c split subspan_def)
  ultimately show ?thesis
    using range c ulen off by (auto simp: valid_range_def maximum_three_byte_def range_header_def)
qed

theorem write_data_range_witness:
  "\<exists>c. write_data 2 0x20 [1, 2, 3] Mode_mac = Inr c \<and> unat (get_le (subspan (c_header c) 4 3)) = 3"
proof -
  obtain c where c: "write_data 2 0x20 [1, 2, 3] Mode_mac = Inr c"
    by (simp add: write_data_def file_command_def valid_mode_def valid_range_def maximum_three_byte_def Let_def)
  then show ?thesis using write_data_range [OF c] by (simp add: three_byte_ok_def)
qed

text \<open>
  The data of a key change: when another key is changed, the card recovers the new key with the
  old one, followed by the version and the CRC of the new key; when the authenticated key is changed,
  the new key and version are sent and exactly then the command ends the session.
\<close>

theorem change_aes_key_data:
  assumes "change_aes_key key new_key version auth old_key key_set picc = Inr c"
  shows "c_invalidates_session c = changes_current_key key auth key_set \<and>
         c_requires_authentication c \<and> c_request_mode c = Mode_full \<and>
         (if changes_current_key key auth key_set
          then c_data c = new_key @ [version]
          else length (c_data c) = 21 \<and> length old_key = 16 \<and>
               map2 (XOR) (take 16 (c_data c)) old_key = new_key \<and> c_data c ! 16 = version \<and>
               get_le (drop 17 (c_data c)) = crc32 new_key)"
proof -
  let ?current = "changes_current_key key auth key_set"
  have len: "length new_key = 16" "\<not> ?current \<longrightarrow> length old_key = 16"
    and c: "c_data c = change_key_data ?current new_key version old_key" "c_invalidates_session c = ?current"
      "c_requires_authentication c" "c_request_mode c = Mode_full"
    using assms by (auto simp: change_aes_key_def management_def Let_def split: if_splits)
  have crc: "get_le (map (\<lambda>i. ucast (drop_bit (i * 8) v)) [0..<4]) = v" for v :: u32
    using get_le_put_le_gen [of 4 v] take_bit_length_eq [of v] by (simp add: put_le_def mult.commute)
  have recover: "map2 (XOR) (map (\<lambda>i. new_key ! i XOR old_key ! i) [0..<16]) old_key = new_key"
    if "length old_key = 16"
    using that len by (intro nth_equalityI) (simp_all add: xor.assoc)
  show ?thesis using c len crc [of "crc32 new_key"] recover
    by (auto simp: change_key_data_def nth_append simp del: upt.simps)
qed

theorem change_aes_key_data_witness:
  "\<exists>c. change_aes_key 1 (replicate 16 0xAB) 2 0 (replicate 16 0x11) None False = Inr c \<and>
       map2 (XOR) (take 16 (c_data c)) (replicate 16 0x11) = replicate 16 0xAB"
proof -
  obtain c where c: "change_aes_key 1 (replicate 16 0xAB) 2 0 (replicate 16 0x11) None False = Inr c"
    by (simp add: change_aes_key_def changes_current_key_def Let_def)
  then show ?thesis using change_aes_key_data [OF c] by (simp add: changes_current_key_def)
qed

end
