(* ===== verification/Secure_Channel.thy ===== *)
theory Secure_Channel
  imports Native_Channel Ev2_Session Standard_Aes_Session Checked_Commands
begin

text \<open>
  The native secure channel, \<^verbatim>\<open>core/src/native/secure/channel.cpp\<close>: one checked command is
  protected by a session, exchanged in one raw transaction and its answer verified. The template
  \<^verbatim>\<open>exchange_protected<Session>\<close> is one definition over the operations of a session; what it
  guarantees is proved once, in the locale \<open>secure_session\<close>, and holds for the EV2 and the
  standard AES session through their interpretations.
\<close>

section \<open>Operations\<close>

definition secure_validate :: "secure_request \<Rightarrow> unit result" where
  "secure_validate rq =
     (if sq_minimum_response rq > sq_maximum_response rq \<or> sq_maximum_response rq > 16 * 1024 * 1024
      then Inl (invalid (STR ''Invalid secure native response bounds''))
      else if sq_request_mode rq \<noteq> Mode_plain \<and> sq_request_mode rq \<noteq> Mode_mac \<and> sq_request_mode rq \<noteq> Mode_full
      then Inl (invalid (STR ''Invalid native request communication mode''))
      else if sq_response_mode rq \<noteq> Mode_plain \<and> sq_response_mode rq \<noteq> Mode_mac \<and> sq_response_mode rq \<noteq> Mode_full
      then Inl (invalid (STR ''Invalid native response communication mode''))
      else Inr ())"

definition rejected_error :: "byte \<Rightarrow> error" where
  "rejected_error status =
     make_error EC_card_rejected (STR ''Native command was rejected by card'') OC_rejected (ucast status)"

definition clear_payload :: "secure_request \<Rightarrow> bytes" where
  "clear_payload rq = sq_header rq @ sq_data rq"

definition secure_raw_request :: "secure_request \<Rightarrow> bytes \<Rightarrow> raw_request" where
  "secure_raw_request rq wire_data =
     \<lparr>rq_command = sq_command rq, rq_data = wire_data,
      rq_maximum_response = sq_maximum_response rq + 32,
      rq_first_frame_data_size = sq_first_frame_data_size rq,
      rq_single_continuation_frame = sq_single_continuation_frame rq\<rparr>"

definition check_response_size :: "bytes \<Rightarrow> secure_request \<Rightarrow> bytes result" where
  "check_response_size response rq =
     (if length response < sq_minimum_response rq \<or> length response > sq_maximum_response rq
      then Inl (unknown_error EC_malformed_response (STR ''Native response violates checked command length''))
      else Inr response)"

text \<open>The verification of a successful response according to the request.\<close>

definition verify_answer ::
  "'t session_ops \<Rightarrow> secure_request \<Rightarrow> raw_response \<Rightarrow> 't \<Rightarrow> bytes result \<times> 't" where
  "verify_answer ops rq response t =
     (if sq_invalidates_session rq \<and> sq_response_mode rq = Mode_plain then (Inr (rs_data response), t)
      else session_answer ops (sq_response_mode rq) response
             (if sq_minimum_response rq = sq_maximum_response rq then Some (sq_maximum_response rq) else None) t)"

text \<open>What follows the exchange: status, verification, length, and the end of the session.\<close>

definition conclude_protected ::
  "'t session_ops \<Rightarrow> secure_request \<Rightarrow> raw_response result \<Rightarrow> 't \<Rightarrow> bytes result \<times> 't" where
  "conclude_protected ops rq response t =
     (case response of
        Inl e \<Rightarrow> (Inl e, so_invalidate ops t)
      | Inr answer \<Rightarrow>
          if rs_status answer \<noteq> 0 then (Inl (rejected_error (rs_status answer)), so_invalidate ops t)
          else (case verify_answer ops rq answer t of
                  (Inl e, t1) \<Rightarrow> (Inl e, so_invalidate ops t1)
                | (Inr clear, t1) \<Rightarrow>
                    (case check_response_size clear rq of
                       Inl e \<Rightarrow> (Inl e, so_invalidate ops t1)
                     | Inr checked \<Rightarrow>
                         (Inr checked, if sq_invalidates_session rq then so_invalidate ops t1 else t1))))"

definition exchange_protected ::
  "'t session_ops \<Rightarrow> 's environment \<Rightarrow> secure_request \<Rightarrow> exchange_options \<Rightarrow> 't \<Rightarrow> raw_channel \<Rightarrow> 's
     \<Rightarrow> bytes result \<times> 't \<times> raw_channel \<times> 's" where
  "exchange_protected ops E rq opts t ch s =
     (case secure_validate rq of
        Inl e \<Rightarrow> (Inl e, t, ch, s)
      | Inr _ \<Rightarrow>
          (case raw_begin E opts ch s of
             (Inl e, ch1, s1) \<Rightarrow> (Inl e, t, ch1, s1)
           | (Inr tx, ch1, s1) \<Rightarrow>
               (case session_prepare ops (sq_request_mode rq) (sq_command rq) (sq_header rq) (sq_data rq) t of
                  (Inl e, t1) \<Rightarrow> (Inl e, so_invalidate ops t1, end_transaction ch1, s1)
                | (Inr prepared, t1) \<Rightarrow>
                    (case transaction_exchange E (ch_framing ch1) (secure_raw_request rq prepared) tx s1 of
                       (response, _, s2) \<Rightarrow>
                         (case conclude_protected ops rq response t1 of
                            (r, t2) \<Rightarrow> (r, t2, end_transaction ch1, s2))))))"

definition exchange_unprotected ::
  "'s environment \<Rightarrow> secure_request \<Rightarrow> exchange_options \<Rightarrow> raw_channel \<Rightarrow> 's
     \<Rightarrow> bytes result \<times> raw_channel \<times> 's" where
  "exchange_unprotected E rq opts ch s =
     (case secure_validate rq of
        Inl e \<Rightarrow> (Inl e, ch, s)
      | Inr _ \<Rightarrow>
          (case raw_exchange E (secure_raw_request rq (clear_payload rq)) opts ch s of
             (Inl e, ch1, s1) \<Rightarrow> (Inl e, ch1, s1)
           | (Inr response, ch1, s1) \<Rightarrow>
               if rs_status response \<noteq> 0 then (Inl (rejected_error (rs_status response)), ch1, s1)
               else (check_response_size (rs_data response) rq, ch1, s1)))"

section \<open>Specification\<close>

text \<open>The request a checked command is executed with (\<^verbatim>\<open>managed/card_management.cpp\<close>).\<close>

definition request_of :: "command \<Rightarrow> secure_request" where
  "request_of c =
     \<lparr>sq_command = c_opcode c, sq_header = c_header c, sq_data = c_data c,
      sq_request_mode = c_request_mode c, sq_response_mode = c_response_mode c,
      sq_minimum_response = c_minimum_response c, sq_maximum_response = c_maximum_response c,
      sq_first_frame_data_size = c_first_frame_payload_size c,
      sq_single_continuation_frame = c_requires_single_continuation_frame c,
      sq_invalidates_session = c_invalidates_session c\<rparr>"

text \<open>The answer to the request is one that its preparation makes due, or is taken as it is.\<close>

definition modes_fit :: "secure_request \<Rightarrow> bool" where
  "modes_fit rq \<longleftrightarrow>
     (sq_request_mode rq = Mode_plain) = (sq_response_mode rq = Mode_plain) \<or>
     sq_invalidates_session rq \<and> sq_response_mode rq = Mode_plain"

text \<open>An error reported as not sent, and what the transport then saw.\<close>

definition honest_not_sent :: "'a result \<Rightarrow> exchange_log \<Rightarrow> bool" where
  "honest_not_sent r new \<longleftrightarrow>
     (\<forall>e. r = Inl e \<and> err_outcome e = OC_not_sent \<longrightarrow> length new \<le> 1 \<and> list_all not_sent_entry new)"

text \<open>A concrete Plain command, the answer of a scripted card, and a standard AES session.\<close>

definition demo_value_request :: secure_request where
  "demo_value_request =
     \<lparr>sq_command = 0x6C, sq_header = [1], sq_data = [], sq_request_mode = Mode_plain,
      sq_response_mode = Mode_plain, sq_minimum_response = 4, sq_maximum_response = 4,
      sq_first_frame_data_size = None, sq_single_continuation_frame = False, sq_invalidates_session = False\<rparr>"

definition demo_value_script :: "replay_step list" where
  "demo_value_script = [\<lparr>step_request = [0x6C, 1], step_response = Inr [0x00, 9, 8, 7, 6]\<rparr>]"

definition sample_sa :: sa_session where
  "sample_sa = \<lparr>sa_session_key = replicate 16 3, sa_iv = replicate 16 0, sa_phase = Sa_ready\<rparr>"

section \<open>Conclusion of an exchange\<close>

lemma check_response_size_cases:
  "check_response_size d rq = Inr d' \<Longrightarrow>
     d' = d \<and> sq_minimum_response rq \<le> length d \<and> length d \<le> sq_maximum_response rq"
  "check_response_size d rq = Inl e \<Longrightarrow> err_outcome e = OC_unknown"
  by (auto simp: check_response_size_def split: if_splits)

lemma request_of_fits: "command_ok c \<Longrightarrow> modes_fit (request_of c) \<and> secure_validate (request_of c) = Inr ()"
  by (auto simp: command_ok_def modes_fit_def secure_validate_def request_of_def valid_mode_def
      maximum_logical_response_def)

context secure_session
begin

lemma verify_answer_Inr:
  assumes "inv t" "verify_answer ops rq resp t = (Inr d, t')"
  shows "inv t' \<and> (\<not> sq_invalidates_session rq \<longrightarrow> ready t') \<and> length d \<le> length (rs_data resp)"
  using assms answered by (auto simp: verify_answer_def split: if_splits)

lemma verify_answer_Inl:
  assumes "inv t" "verify_answer ops rq resp t = (Inl e, t')"
  shows "inv t' \<and> (awaiting t (sq_response_mode rq) \<longrightarrow> err_outcome e \<noteq> OC_not_sent)"
  using assms answer_failed answer_outcome by (auto simp: verify_answer_def split: if_splits)

lemma conclude_Inr:
  assumes inv: "inv t" and run: "conclude_protected ops rq resp t = (Inr d, t')"
  shows "inv t' \<and> (if sq_invalidates_session rq then dead t' else ready t') \<and>
         sq_minimum_response rq \<le> length d \<and> length d \<le> sq_maximum_response rq \<and>
         (\<exists>a t1. resp = Inr a \<and> rs_status a = 0 \<and> verify_answer ops rq a t = (Inr d, t1))"
proof -
  from run obtain a t1 where a: "resp = Inr a" "rs_status a = 0" "verify_answer ops rq a t = (Inr d, t1)"
    "sq_minimum_response rq \<le> length d" "length d \<le> sq_maximum_response rq" "t' = (if sq_invalidates_session rq then so_invalidate ops t1 else t1)"
    by (auto simp: conclude_protected_def dest!: check_response_size_cases(1) split: sum.splits if_splits prod.splits)
  have "inv t1 \<and> (\<not> sq_invalidates_session rq \<longrightarrow> ready t1)" using verify_answer_Inr [OF inv a(3)] by simp
  then show ?thesis
    using a invalidate_dead [of t1] by auto
qed

lemma conclude_Inl:
  assumes inv: "inv t" and run: "conclude_protected ops rq resp t = (Inl e, t')"
  shows "inv t' \<and> dead t' \<and>
         (awaiting t (sq_response_mode rq) \<or> sq_invalidates_session rq \<and> sq_response_mode rq = Mode_plain \<longrightarrow>
          err_outcome e = OC_not_sent \<longrightarrow> resp = Inl e)"
proof -
  consider (failed) "resp = Inl e" "t' = so_invalidate ops t"
    | (rejected) a where "resp = Inr a" "e = rejected_error (rs_status a)" "t' = so_invalidate ops t"
    | (unverified) a t1 where "verify_answer ops rq a t = (Inl e, t1)" "t' = so_invalidate ops t1"
    | (size) a d t1 where "verify_answer ops rq a t = (Inr d, t1)" "check_response_size d rq = Inl e"
        "t' = so_invalidate ops t1"
    using run by (auto simp: conclude_protected_def split: sum.splits if_splits prod.splits)
  then show ?thesis
  proof cases
    case failed
    then show ?thesis using invalidate_dead [OF inv] by simp
  next
    case rejected
    then show ?thesis using invalidate_dead [OF inv] by (simp add: rejected_error_def)
  next
    case unverified
    have "\<not> (sq_invalidates_session rq \<and> sq_response_mode rq = Mode_plain)"
      using unverified(1) by (auto simp: verify_answer_def)
    then show ?thesis
      using verify_answer_Inl [OF inv unverified(1)] invalidate_dead unverified(2) by blast
  next
    case size
    then show ?thesis
      using verify_answer_Inr [OF inv size(1)] invalidate_dead [of t1] check_response_size_cases(2) [OF size(2)]
      by simp
  qed
qed

text \<open>
  The four ways a protected exchange can end: refused before the session was used, a failed
  preparation, a failed exchange, or verified data.
\<close>

lemma exchange_protected_cases [consumes 1, case_names refused unprepared failed answered]:
  assumes "exchange_protected ops (recording E) rq opts t ch (s, log) = (r, t', ch', (s', log'))"
  obtains e where "r = Inl e" "err_outcome e = OC_not_sent" "t' = t" "ch' = ch" "log' = log"
  | e t1 where "session_prepare ops (sq_request_mode rq) (sq_command rq) (sq_header rq) (sq_data rq) t = (Inl e, t1)"
      "r = Inl e" "t' = so_invalidate ops t1" "ch' = ch" "log' = log" "\<not> ch_operation_active ch"
  | e wire t1 resp new where
      "session_prepare ops (sq_request_mode rq) (sq_command rq) (sq_header rq) (sq_data rq) t = (Inr wire, t1)"
      "r = Inl e" "conclude_protected ops rq resp t1 = (Inl e, t')" "ch' = ch" "log' = log @ new"
      "upload_report (env_capabilities E) (ch_framing ch) (secure_raw_request rq wire)
         (data_per_frame (env_capabilities E) (ch_framing ch)) 0 False resp new"
  | d wire t1 resp new where
      "session_prepare ops (sq_request_mode rq) (sq_command rq) (sq_header rq) (sq_data rq) t = (Inr wire, t1)"
      "r = Inr d" "conclude_protected ops rq resp t1 = (Inr d, t')" "ch' = ch" "log' = log @ new"
      "upload_report (env_capabilities E) (ch_framing ch) (secure_raw_request rq wire)
         (data_per_frame (env_capabilities E) (ch_framing ch)) 0 False resp new"
proof (cases "secure_validate rq")
  case (Inl e)
  then have "err_outcome e = OC_not_sent" by (auto simp: secure_validate_def split: if_splits)
  then show thesis using Inl assms that(1) [of e] by (auto simp: exchange_protected_def)
next
  case valid: (Inr u)
  obtain b ch1 s1 where beg: "raw_begin E opts ch s = (b, ch1, s1)" by (metis prod_cases3)
  show thesis
  proof (cases b)
    case (Inl e)
    then have "r = Inl e \<and> t' = t \<and> ch' = ch \<and> log' = log \<and> err_outcome e = OC_not_sent"
      using assms valid beg raw_begin_Inl [OF beg [unfolded Inl]] by (simp add: exchange_protected_def)
    then show thesis using that(1) [of e] by blast
  next
    case (Inr tx)
    have ch1: "\<not> ch_operation_active ch" "ch_framing ch1 = ch_framing ch" "end_transaction ch1 = ch"
      "\<not> tx_sent_any_frame tx"
      using raw_begin_Inr [OF beg [unfolded Inr]] by (auto simp: end_transaction_def)
    obtain p t1 where prep: "session_prepare ops (sq_request_mode rq) (sq_command rq) (sq_header rq) (sq_data rq) t = (p, t1)"
      by fastforce
    show thesis
    proof (cases p)
      case (Inl e)
      then have "r = Inl e \<and> t' = so_invalidate ops t1 \<and> ch' = ch \<and> log' = log"
        using assms valid beg \<open>b = Inr tx\<close> prep ch1(3) by (simp add: exchange_protected_def)
      then show thesis using that(2) [of e t1] prep Inl ch1(1) by blast
    next
      case wire: (Inr wire)
      obtain resp tx1 s2 log2 where run: "transaction_exchange (recording E) (ch_framing ch)
          (secure_raw_request rq wire) tx (s1, log) = (resp, tx1, (s2, log2))" by (metis prod_cases3 surj_pair)
      obtain r2 t2 where con: "conclude_protected ops rq resp t1 = (r2, t2)" by fastforce
      have out: "r = r2" "t' = t2" "ch' = ch" "log' = log2"
        using assms valid beg \<open>b = Inr tx\<close> prep wire run con ch1 by (simp_all add: exchange_protected_def)
      obtain new where new: "log2 = log @ new" "upload_report (env_capabilities E) (ch_framing ch)
          (secure_raw_request rq wire) (data_per_frame (env_capabilities E) (ch_framing ch)) 0 False resp new"
        using transaction_exchange_report [OF run] ch1(4) by auto
      show thesis
        by (cases r2) (use that(3,4) [of wire t1] prep wire con out new in blast)+
    qed
  qed
qed

text \<open>The session after a protected exchange.\<close>

lemma exchange_protected_session:
  assumes run: "exchange_protected ops (recording E) rq opts t ch (s, log) = (r, t', ch', (s', log'))"
    and inv: "inv t"
  shows "inv t' \<and> ch' = ch \<and>
         (case r of
            Inl e \<Rightarrow> t' = t \<and> log' = log \<and> err_outcome e = OC_not_sent \<or> dead t'
          | Inr d \<Rightarrow> ready t \<and> (if sq_invalidates_session rq then dead t' else ready t') \<and>
              sq_minimum_response rq \<le> length d \<and> length d \<le> sq_maximum_response rq)"
  using run
proof (cases rule: exchange_protected_cases)
  case refused
  then show ?thesis using inv by simp
next
  case (unprepared e t1)
  then show ?thesis using prepare_failed [OF inv unprepared(1)] invalidate_dead [of t1] by simp
next
  case (failed e wire t1 resp new)
  have "inv t1" using prepared [OF inv failed(1)] by simp
  then show ?thesis using conclude_Inl [of t1] failed by simp
next
  case (answered d wire t1 resp new)
  have "inv t1 \<and> ready t" using prepared [OF inv answered(1)] by simp
  then show ?thesis using conclude_Inr [of t1] answered by simp
qed

text \<open>A session that is not ready transmits nothing.\<close>

lemma exchange_protected_not_ready:
  assumes run: "exchange_protected ops (recording E) rq opts t ch (s, log) = (r, t', ch', (s', log'))"
    and "\<not> ready t"
  shows "log' = log \<and> (\<exists>e. r = Inl e \<and> err_outcome e = OC_not_sent)"
  using run
proof (cases rule: exchange_protected_cases)
  case (unprepared e t1)
  then show ?thesis
    using prepare_refused [OF assms(2), of "sq_request_mode rq" "sq_command rq" "sq_header rq" "sq_data rq"] by auto
next
  case (failed e wire t1 resp new)
  then show ?thesis
    using prepare_refused [OF assms(2), of "sq_request_mode rq" "sq_command rq" "sq_header rq" "sq_data rq"] by auto
next
  case (answered d wire t1 resp new)
  then show ?thesis
    using prepare_refused [OF assms(2), of "sq_request_mode rq" "sq_command rq" "sq_header rq" "sq_data rq"] by auto
qed simp

text \<open>Delivery evidence of a protected exchange whose modes fit.\<close>

lemma exchange_protected_honest:
  assumes run: "exchange_protected ops (recording E) rq opts t ch (s, log) = (r, t', ch', (s', log'))"
    and inv: "inv t" and fit: "modes_fit rq"
  shows "\<exists>new. log' = log @ new \<and> honest_not_sent r new"
  using run
proof (cases rule: exchange_protected_cases)
  case (failed e wire t1 resp new)
  have "inv t1" and due: "(sq_request_mode rq = Mode_plain) = (sq_response_mode rq = Mode_plain) \<longrightarrow>
      awaiting t1 (sq_response_mode rq)"
    using prepared [OF inv failed(1), of "sq_response_mode rq"] by simp_all
  then have "err_outcome e = OC_not_sent \<longrightarrow> resp = Inl e"
    using conclude_Inl [OF \<open>inv t1\<close> failed(3)] fit by (auto simp: modes_fit_def)
  then show ?thesis
    using failed by (auto simp: honest_not_sent_def upload_report_def)
qed (auto simp: honest_not_sent_def)

text \<open>A successful protected exchange delivered exactly the prepared bytes, in order.\<close>

lemma exchange_protected_uploaded:
  assumes run: "exchange_protected ops (recording E) rq opts t ch (s, log) = (Inr d, t', ch', (s', log'))"
    and inv: "inv t"
  shows "\<exists>wire t1 resp new. log' = log @ new \<and> list_all delivered new \<and>
           session_prepare ops (sq_request_mode rq) (sq_command rq) (sq_header rq) (sq_data rq) t = (Inr wire, t1) \<and>
           concat (map (planned_chunk (secure_raw_request rq wire)
             (data_per_frame (env_capabilities E) (ch_framing ch))) [0..<length new]) = wire \<and>
           rs_status resp = 0 \<and> (\<exists>t2. verify_answer ops rq resp t1 = (Inr d, t2))"
  using run
proof (cases rule: exchange_protected_cases)
  case (answered d0 wire t1 resp new)
  have "inv t1" using prepared [OF inv answered(1)] by simp
  then obtain a t2 where a: "resp = Inr a" "rs_status a = 0" "verify_answer ops rq a t1 = (Inr d, t2)"
    using conclude_Inr answered by blast
  then show ?thesis
    using answered by (auto simp: upload_report_def planned_chunks_concat secure_raw_request_def)
qed auto

end

section \<open>A scripted exchange\<close>

lemma sample_ev2_inv: "ev2_inv sample_ev2"
  by (simp add: ev2_inv_def)

lemma demo_secure_run:
  "\<exists>tr. exchange_protected (ev2_ops sample_provider) (recording (replay_environment demo_capabilities))
      demo_value_request demo_options sample_ev2 demo_channel (demo_transport demo_value_script, []) =
     (Inr [9, 8, 7, 6], sample_ev2\<lparr>e_counter := 8\<rparr>, demo_channel,
      (tr, [([0x6C, 1], Returned (Inr [0x00, 9, 8, 7, 6]))]))"
  by (simp add: demo_defs channel_eval exchange_protected_def secure_validate_def demo_value_request_def
      demo_value_script_def session_prepare_def ev2_ops_def ev2_prepare_plain_def size_max_def
      secure_raw_request_def conclude_protected_def verify_answer_def session_answer_def
      ev2_accept_plain_response_def check_response_size_def)

section \<open>Properties\<close>

text \<open>
  A protected exchange over an EV2 session keeps the session well formed and releases the
  channel. If it succeeds, the session was ready, the data satisfies the requested bounds and the
  session is ready again, or wiped when the command ends it; if it fails, either nothing was
  transmitted and the session is untouched, or the session is wiped.
\<close>

theorem ev2_exchange_session:
  assumes "exchange_protected (ev2_ops C) (recording E) rq opts t ch (s, log) = (r, t', ch', (s', log'))"
    and "ev2_inv t"
  shows "ev2_inv t' \<and> ch' = ch \<and>
         (case r of
            Inl e \<Rightarrow> t' = t \<and> log' = log \<and> err_outcome e = OC_not_sent \<or> e_phase t' = Ev2_invalid
          | Inr d \<Rightarrow> e_phase t = Ev2_ready \<and>
              (if sq_invalidates_session rq then e_phase t' = Ev2_invalid else e_phase t' = Ev2_ready) \<and>
              sq_minimum_response rq \<le> length d \<and> length d \<le> sq_maximum_response rq)"
  by (rule ev2.exchange_protected_session [OF assms])

theorem ev2_exchange_session_witness:
  "\<exists>d t'. fst (exchange_protected (ev2_ops sample_provider) (recording (replay_environment demo_capabilities))
        demo_value_request demo_options sample_ev2 demo_channel (demo_transport demo_value_script, [])) = Inr d \<and>
      length d \<le> 4 \<and> ev2_inv t' \<and> e_phase t' = Ev2_ready"
proof -
  from demo_secure_run obtain tr where run:
    "exchange_protected (ev2_ops sample_provider) (recording (replay_environment demo_capabilities))
      demo_value_request demo_options sample_ev2 demo_channel (demo_transport demo_value_script, []) =
     (Inr [9, 8, 7, 6], sample_ev2\<lparr>e_counter := 8\<rparr>, demo_channel,
      (tr, [([0x6C, 1], Returned (Inr [0x00, 9, 8, 7, 6]))]))" by blast
  show ?thesis
    using ev2_exchange_session [OF run sample_ev2_inv] run by (auto simp: demo_value_request_def)
qed

text \<open>
  The same for a standard AES session.
\<close>

theorem sa_exchange_session:
  assumes "exchange_protected (sa_ops C) (recording E) rq opts t ch (s, log) = (r, t', ch', (s', log'))"
    and "sa_inv t"
  shows "sa_inv t' \<and> ch' = ch \<and>
         (case r of
            Inl e \<Rightarrow> t' = t \<and> log' = log \<and> err_outcome e = OC_not_sent \<or> sa_phase t' = Sa_invalid
          | Inr d \<Rightarrow> sa_phase t = Sa_ready \<and>
              (if sq_invalidates_session rq then sa_phase t' = Sa_invalid else sa_phase t' = Sa_ready) \<and>
              sq_minimum_response rq \<le> length d \<and> length d \<le> sq_maximum_response rq)"
  by (rule sa.exchange_protected_session [OF assms])

theorem sa_exchange_session_witness:
  "\<exists>r t' ch' w. exchange_protected (sa_ops sample_provider) (recording (replay_environment demo_capabilities))
        demo_value_request demo_options (sa_invalidate sample_sa) demo_channel (demo_transport [], []) =
        (r, t', ch', w) \<and> sa_inv t' \<and> ch' = demo_channel \<and> sa_phase t' = Sa_invalid"
proof -
  obtain r t' ch' s' log' where run:
    "exchange_protected (sa_ops sample_provider) (recording (replay_environment demo_capabilities))
        demo_value_request demo_options (sa_invalidate sample_sa) demo_channel (demo_transport [], []) =
        (r, t', ch', (s', log'))" by (metis prod_cases3 surj_pair)
  have inv: "sa_inv (sa_invalidate sample_sa)" by (simp add: sa_inv_def sample_sa_def)
  show ?thesis
    using sa_exchange_session [OF run inv] run by (auto split: sum.splits)
qed

text \<open>
  C21. Delivery evidence of checked commands: for every command that a builder of the checked layer
  produces, executed over an EV2 or a standard AES session, an error reported as not sent means that
  no frame was delivered to the card, whatever the card, the reader and the provider do.
\<close>

theorem checked_exchange_not_sent:
  assumes "checked_build call = Inr c" "err_outcome e = OC_not_sent"
  shows "(ev2_inv t \<and> exchange_protected (ev2_ops C) (recording E) (request_of c) opts t ch (s, log) =
            (Inl e, t', ch', (s', log')) \<longrightarrow>
          (\<exists>new. log' = log @ new \<and> length new \<le> 1 \<and> list_all not_sent_entry new)) \<and>
         (sa_inv u \<and> exchange_protected (sa_ops C) (recording E) (request_of c) opts u ch (s, log) =
            (Inl e, u', ch', (s', log')) \<longrightarrow>
          (\<exists>new. log' = log @ new \<and> length new \<le> 1 \<and> list_all not_sent_entry new))"
proof -
  have fit: "modes_fit (request_of c)" using request_of_fits [OF checked_build_ok [OF assms(1)]] by simp
  show ?thesis
    using ev2.exchange_protected_honest [of C E "request_of c" opts t ch s log "Inl e" t' ch' s' log']
      sa.exchange_protected_honest [of C E "request_of c" opts u ch s log "Inl e" u' ch' s' log'] fit assms(2)
    by (auto simp: honest_not_sent_def)
qed

theorem checked_exchange_not_sent_witness:
  "\<exists>c e t' ch' s' log'. checked_build (Get_value 1 Mode_plain) = Inr c \<and>
     exchange_protected (ev2_ops sample_provider) (recording (replay_environment demo_capabilities))
        (request_of c) demo_options (ev2_invalidate sample_ev2) demo_channel (demo_transport [], []) =
        (Inl e, t', ch', (s', log')) \<and> length log' \<le> 1 \<and> list_all not_sent_entry log'"
proof -
  obtain c where c: "checked_build (Get_value 1 Mode_plain) = Inr c"
    by (simp add: get_value_def file_command_def valid_mode_def Let_def)
  obtain r t' ch' s' log' where run:
    "exchange_protected (ev2_ops sample_provider) (recording (replay_environment demo_capabilities))
        (request_of c) demo_options (ev2_invalidate sample_ev2) demo_channel (demo_transport [], []) =
        (r, t', ch', (s', log'))" by (metis prod_cases3 surj_pair)
  obtain e where e: "r = Inl e" "err_outcome e = OC_not_sent"
    using ev2.exchange_protected_not_ready [OF run] by auto
  have "ev2_inv (ev2_invalidate sample_ev2)" using sample_ev2_inv by (rule ev2_inv_invalidate)
  then show ?thesis using checked_exchange_not_sent [OF c e(2)] run e c by fastforce
qed

text \<open>
  A successful protected exchange uploaded exactly the bytes that the session prepared for the
  command, frame after frame, and its result is what the session verified in the card's answer.
\<close>

theorem ev2_exchange_uploaded:
  assumes "exchange_protected (ev2_ops C) (recording E) rq opts t ch (s, log) = (Inr d, t', ch', (s', log'))"
    and "ev2_inv t"
  shows "\<exists>wire t1 resp new. log' = log @ new \<and> list_all delivered new \<and>
           session_prepare (ev2_ops C) (sq_request_mode rq) (sq_command rq) (sq_header rq) (sq_data rq) t = (Inr wire, t1) \<and>
           concat (map (planned_chunk (secure_raw_request rq wire)
             (data_per_frame (env_capabilities E) (ch_framing ch))) [0..<length new]) = wire \<and>
           rs_status resp = 0 \<and> (\<exists>t2. verify_answer (ev2_ops C) rq resp t1 = (Inr d, t2))"
  by (rule ev2.exchange_protected_uploaded [OF assms])

theorem ev2_exchange_uploaded_witness:
  "\<exists>wire t1 resp. session_prepare (ev2_ops sample_provider) Mode_plain 0x6C [1] [] sample_ev2 = (Inr wire, t1) \<and>
     rs_status resp = 0 \<and>
     (\<exists>t2. verify_answer (ev2_ops sample_provider) demo_value_request resp t1 = (Inr [9, 8, 7, 6], t2))"
proof -
  from demo_secure_run obtain tr where run:
    "exchange_protected (ev2_ops sample_provider) (recording (replay_environment demo_capabilities))
      demo_value_request demo_options sample_ev2 demo_channel (demo_transport demo_value_script, []) =
     (Inr [9, 8, 7, 6], sample_ev2\<lparr>e_counter := 8\<rparr>, demo_channel,
      (tr, [([0x6C, 1], Returned (Inr [0x00, 9, 8, 7, 6]))]))" by blast
  show ?thesis
    using ev2_exchange_uploaded [OF run sample_ev2_inv] by (auto simp: demo_value_request_def)
qed

end
