(* ===== verification/Checked_Parsers.thy ===== *)
theory Checked_Parsers
  imports Checked_Commands
begin

text \<open>
  The parsers of checked native responses (\<^verbatim>\<open>core/src/native/checked\<close>,
  \<^verbatim>\<open>core/src/model/version.cpp\<close>). For file settings the theory also states what a card
  reports, as an encoder, and shows that the parser accepts exactly the encodings of well-formed
  settings and returns what was encoded.
\<close>

section \<open>Results\<close>

record version_part =
  vp_vendor :: byte
  vp_type :: byte
  vp_subtype :: byte
  vp_major :: byte
  vp_minor :: byte
  vp_storage :: byte
  vp_protocol :: byte

record version_info =
  vi_hardware :: version_part
  vi_software :: version_part
  vi_uid :: bytes
  vi_batch :: bytes
  vi_production_week :: byte
  vi_production_year :: byte

datatype file_type = Standard_data | Backup_data | Value_file | Linear_record | Cyclic_record | Transaction_mac_file

text \<open>\<^verbatim>\<open>static_cast<FileType>\<close> and its inverse.\<close>

definition file_type_of :: "byte \<Rightarrow> file_type" where
  "file_type_of b =
     (if b = 0 then Standard_data else if b = 1 then Backup_data else if b = 2 then Value_file
      else if b = 3 then Linear_record else if b = 4 then Cyclic_record else Transaction_mac_file)"

fun file_type_code :: "file_type \<Rightarrow> byte" where
  "file_type_code Standard_data = 0"
| "file_type_code Backup_data = 1"
| "file_type_code Value_file = 2"
| "file_type_code Linear_record = 3"
| "file_type_code Cyclic_record = 4"
| "file_type_code Transaction_mac_file = 5"

text \<open>The variant of \<^verbatim>\<open>FileSettings::details\<close>.\<close>

datatype file_details =
    Data_details u32
  | Value_details u32 u32 u32 bool bool
  | Record_details u32 u32 u32
  | Transaction_mac_details byte byte

record file_settings =
  fs_type :: file_type
  fs_communication :: communication_mode
  fs_options :: byte
  fs_access :: access_rights
  fs_details :: file_details
  fs_additional_access :: "access_rights list"
  fs_transaction_counter_limit :: "u32 option"

record key_settings_info =
  ks_settings :: byte
  ks_key_type_and_count :: byte
  ks_key_set_details :: "bytes option"

record df_name_info =
  dn_application :: application_id
  dn_iso_id :: u16
  dn_name :: bytes

record delegated_application_info =
  di_slot_version :: byte
  di_quota_limit :: u16
  di_free_blocks :: u16
  di_application :: application_id

record card_uid_info =
  cu_uid :: bytes
  cu_nuid :: "bytes option"

record transaction_mac_info =
  tm_counter :: u32
  tm_mac :: bytes

section \<open>Parsers\<close>

definition decode_part :: "bytes \<Rightarrow> version_part" where
  "decode_part b =
     \<lparr>vp_vendor = b ! 0, vp_type = b ! 1, vp_subtype = b ! 2, vp_major = b ! 3, vp_minor = b ! 4,
      vp_storage = b ! 5, vp_protocol = b ! 6\<rparr>"

definition parse_version :: "bytes \<Rightarrow> version_info result" where
  "parse_version payload =
     (if length payload \<noteq> 28
      then Inl (unknown_error EC_malformed_response (STR ''GetVersion response must contain exactly 28 bytes''))
      else Inr \<lparr>vi_hardware = decode_part (subspan payload 0 7), vi_software = decode_part (subspan payload 7 7),
                vi_uid = subspan payload 14 7, vi_batch = subspan payload 21 5,
                vi_production_week = payload ! 26, vi_production_year = payload ! 27\<rparr>)"

fun application_ids_loop :: "bytes \<Rightarrow> u32 set \<Rightarrow> application_id list \<Rightarrow> application_id list result" where
  "application_ids_loop (a # b # c # rest) unique applications =
     (let v = get_le [a, b, c]
      in if v = 0 \<or> v \<in> unique
         then Inl (malformed (STR ''EV3 application list contains a PICC or duplicate identifier''))
         else application_ids_loop rest (insert v unique) (applications @ [v]))"
| "application_ids_loop _ unique applications = Inr applications"

definition parse_application_ids :: "bytes \<Rightarrow> application_id list result" where
  "parse_application_ids payload =
     (if length payload mod 3 \<noteq> 0 \<or> length payload > maximum_logical_response
      then Inl (malformed (STR ''EV3 application identifiers require complete three-byte fields''))
      else application_ids_loop payload {} [])"

fun iso_file_ids_loop :: "bytes \<Rightarrow> u16 set \<Rightarrow> u16 list \<Rightarrow> u16 list result" where
  "iso_file_ids_loop (a # b # rest) unique identifiers =
     (let v = ucast (get_le [a, b])
      in if v \<in> unique then Inl (malformed (STR ''EV3 ISO file list contains duplicate identifiers''))
         else iso_file_ids_loop rest (insert v unique) (identifiers @ [v]))"
| "iso_file_ids_loop _ unique identifiers = Inr identifiers"

definition parse_iso_file_ids :: "bytes \<Rightarrow> u16 list result" where
  "parse_iso_file_ids payload =
     (if length payload mod 2 \<noteq> 0 \<or> length payload > 64
      then Inl (malformed (STR ''EV3 ISO file identifiers require up to 32 complete two-byte fields''))
      else iso_file_ids_loop payload {} [])"

definition parse_df_name_frame :: "bytes \<Rightarrow> df_name_info result" where
  "parse_df_name_frame payload =
     (if length payload < 5 \<or> length payload > 21
      then Inl (malformed (STR ''EV3 DF name record must occupy one 5-to-21-byte response frame''))
      else let identifier = get_le (take 3 payload)
           in if identifier = 0
              then Inl (malformed (STR ''EV3 DF name contains the PICC application identifier''))
              else Inr \<lparr>dn_application = identifier, dn_iso_id = ucast (get_le (subspan payload 3 2)),
                        dn_name = drop 5 payload\<rparr>)"

definition parse_delegated_application_info :: "bytes \<Rightarrow> delegated_application_info result" where
  "parse_delegated_application_info payload =
     (if length payload \<noteq> 8
      then Inl (malformed (STR ''GetDelegatedInfo response must contain exactly eight bytes''))
      else (case number_make 0x00FFFFFF (get_le (subspan payload 5 3)) of
              Inl e \<Rightarrow> Inl (malformed (STR ''GetDelegatedInfo response contains an invalid application ID''))
            | Inr application \<Rightarrow>
                Inr \<lparr>di_slot_version = payload ! 0, di_quota_limit = ucast (get_le (subspan payload 1 2)),
                     di_free_blocks = ucast (get_le (subspan payload 3 2)), di_application = application\<rparr>))"

definition parse_key_settings :: "bytes \<Rightarrow> key_settings_info result" where
  "parse_key_settings payload =
     (if length payload \<noteq> 2 \<and> length payload \<noteq> 6
      then Inl (malformed (STR ''EV3 key settings must contain two or six bytes''))
      else Inr \<lparr>ks_settings = payload ! 0, ks_key_type_and_count = payload ! 1,
                ks_key_set_details = (if length payload = 6 then Some (drop 2 payload) else None)\<rparr>)"

text \<open>The switch over the file type: the details and the number of bytes consumed.\<close>

definition parse_file_details :: "file_type \<Rightarrow> bytes \<Rightarrow> (file_details \<times> nat) result" where
  "parse_file_details ftype payload =
     (case ftype of
        Value_file \<Rightarrow>
          if length payload < 17 \<or> payload ! 16 AND 0xFC \<noteq> 0
          then Inl (malformed (STR ''EV3 value-file settings are truncated or have invalid flags''))
          else Inr (Value_details (get_le (subspan payload 4 4)) (get_le (subspan payload 8 4))
                      (get_le (subspan payload 12 4)) (payload ! 16 AND 1 \<noteq> 0) (payload ! 16 AND 2 \<noteq> 0), 17)
      | Transaction_mac_file \<Rightarrow>
          if length payload < 6 then Inl (malformed (STR ''EV3 transaction-MAC settings are truncated''))
          else Inr (Transaction_mac_details (payload ! 4) (payload ! 5), 6)
      | _ \<Rightarrow>
          if ftype = Standard_data \<or> ftype = Backup_data
          then if length payload < 7 then Inl (malformed (STR ''EV3 data-file settings are truncated''))
               else Inr (Data_details (get_le (subspan payload 4 3)), 7)
          else if length payload < 13 then Inl (malformed (STR ''EV3 record-file settings are truncated''))
               else Inr (Record_details (get_le (subspan payload 4 3)) (get_le (subspan payload 7 3))
                           (get_le (subspan payload 10 3)), 13))"

text \<open>The optional table of additional access rights.\<close>

definition parse_additional_access ::
  "byte \<Rightarrow> bytes \<Rightarrow> nat \<Rightarrow> (access_rights list \<times> nat) result" where
  "parse_additional_access options payload consumed =
     (if options AND 0x80 = 0 then Inr ([], consumed)
      else if consumed = length payload
      then Inl (malformed (STR ''EV3 additional access-right count is absent''))
      else let count = payload ! consumed
           in if count > 7 \<or> length payload - (consumed + 1) < unat count * 2
              then Inl (malformed (STR ''EV3 additional access rights are truncated or exceed seven''))
              else Inr (map (\<lambda>index. read_access (subspan payload (consumed + 1 + 2 * index) 2))
                          [0..<unat count], consumed + 1 + 2 * unat count))"

text \<open>The SDM refusal, the optional counter limit and the check for trailing bytes.\<close>

definition parse_settings_tail ::
  "file_type \<Rightarrow> byte \<Rightarrow> bytes \<Rightarrow> nat \<Rightarrow> u32 option result" where
  "parse_settings_tail ftype options payload consumed =
     (if options AND 0x40 \<noteq> 0
      then Inl (make_error EC_unsupported
                 (STR ''EV3 SDM settings require the verified device-specific conditional layout'') OC_succeeded 0)
      else if options AND 0x20 \<noteq> 0
      then if ftype \<noteq> Transaction_mac_file \<or> length payload - consumed < 4
           then Inl (malformed (STR ''EV3 transaction-counter limit has an invalid layout''))
           else if consumed + 4 \<noteq> length payload
           then Inl (malformed (STR ''EV3 file settings contain unexpected trailing bytes''))
           else Inr (Some (get_le (subspan payload consumed 4)))
      else if consumed \<noteq> length payload
      then Inl (malformed (STR ''EV3 file settings contain unexpected trailing bytes''))
      else Inr None)"

definition parse_file_settings :: "bytes \<Rightarrow> file_settings result" where
  "parse_file_settings payload =
     (if length payload < 4 \<or> length payload > 128 \<or> payload ! 0 > 5
      then Inl (malformed (STR ''EV3 file settings have an invalid prefix or length''))
      else let ftype = file_type_of (payload ! 0);
               options = payload ! 1;
               communication = mode_of_code (payload ! 1 AND 3);
               access = read_access (subspan payload 2 2)
           in if \<not> valid_mode communication \<or> options AND 0x1C \<noteq> 0
              then Inl (malformed (STR ''EV3 file settings contain reserved option bits''))
              else (case parse_file_details ftype payload of
                      Inl e \<Rightarrow> Inl e
                    | Inr (details, consumed) \<Rightarrow>
                        (case parse_additional_access options payload consumed of
                           Inl e \<Rightarrow> Inl e
                         | Inr (additional, consumed1) \<Rightarrow>
                             (case parse_settings_tail ftype options payload consumed1 of
                                Inl e \<Rightarrow> Inl e
                              | Inr limit \<Rightarrow>
                                  Inr \<lparr>fs_type = ftype, fs_communication = communication, fs_options = options,
                                       fs_access = access, fs_details = details,
                                       fs_additional_access = additional,
                                       fs_transaction_counter_limit = limit\<rparr>))))"

definition parse_file_counters :: "bytes \<Rightarrow> (u32 \<times> bytes) result" where
  "parse_file_counters payload =
     (if length payload \<noteq> 5
      then Inl (malformed (STR ''EV3 file counter response requires three counter and two reserved bytes''))
      else Inr (get_le (take 3 payload), [payload ! 3, payload ! 4]))"

definition parse_value :: "bytes \<Rightarrow> u32 result" where
  "parse_value payload =
     (if length payload \<noteq> 4 then Inl (malformed (STR ''EV3 value response requires four bytes''))
      else Inr (get_le payload))"

definition parse_transaction_mac :: "bytes \<Rightarrow> transaction_mac_info result" where
  "parse_transaction_mac payload =
     (if length payload \<noteq> 12
      then Inl (malformed (STR ''EV3 transaction MAC requires a counter and eight MAC bytes''))
      else Inr \<lparr>tm_counter = get_le (take 4 payload), tm_mac = drop 4 payload\<rparr>)"

definition parse_card_uid :: "bytes \<Rightarrow> card_uid_request \<Rightarrow> card_uid_info result" where
  "parse_card_uid payload request =
     (case (case request of
              Uid_with_nuid \<Rightarrow>
                if length payload < 4
                then Inl (malformed (STR ''EV3 UID response omits the requested four-byte NUID''))
                else Inr (take (length payload - 4) payload, Some (last_bytes 4 payload))
            | Uid_other \<Rightarrow> Inl (invalid (STR ''Invalid GetCardUID request variant''))
            | _ \<Rightarrow> Inr (payload, None)) of
        Inl e \<Rightarrow> Inl e
      | Inr (uid_payload, nuid) \<Rightarrow>
          if length uid_payload = 7 then Inr \<lparr>cu_uid = uid_payload, cu_nuid = nuid\<rparr>
          else if (length uid_payload \<noteq> 6 \<and> length uid_payload \<noteq> 12) \<or> uid_payload ! 0 \<noteq> 0 \<or>
                  unat (uid_payload ! 1) \<noteq> length uid_payload - 2
          then Inl (malformed (STR ''EV3 UID response has an invalid length or format prefix''))
          else Inr \<lparr>cu_uid = drop 2 uid_payload, cu_nuid = nuid\<rparr>)"

definition parse_originality_signature :: "bytes \<Rightarrow> bytes result" where
  "parse_originality_signature payload =
     (if length payload \<noteq> 56 then Inl (malformed (STR ''EV3 fixed response has an unexpected length''))
      else Inr payload)"

section \<open>Specification: what a card reports\<close>

definition encode_details :: "file_details \<Rightarrow> bytes" where
  "encode_details d =
     (case d of
        Data_details n \<Rightarrow> put_le [] n 3
      | Value_details lower upper limited enabled free \<Rightarrow>
          put_le [] lower 4 @ put_le [] upper 4 @ put_le [] limited 4 @
          [(if enabled then 1 else 0) OR (if free then 2 else 0)]
      | Record_details width maximum current \<Rightarrow> put_le [] width 3 @ put_le [] maximum 3 @ put_le [] current 3
      | Transaction_mac_details option_byte version \<Rightarrow> [option_byte, version])"

definition encode_file_settings :: "file_settings \<Rightarrow> bytes" where
  "encode_file_settings fs =
     [file_type_code (fs_type fs), fs_options fs] @ append_access [] (fs_access fs) @
     encode_details (fs_details fs) @
     (if fs_options fs AND 0x80 \<noteq> 0
      then of_nat (length (fs_additional_access fs)) # concat (map (append_access []) (fs_additional_access fs))
      else []) @
     (case fs_transaction_counter_limit fs of None \<Rightarrow> [] | Some limit \<Rightarrow> put_le [] limit 4)"

definition details_ok :: "file_type \<Rightarrow> file_details \<Rightarrow> bool" where
  "details_ok t d =
     (case d of
        Data_details n \<Rightarrow> (t = Standard_data \<or> t = Backup_data) \<and> n \<le> 0xFFFFFF
      | Value_details _ _ _ _ _ \<Rightarrow> t = Value_file
      | Record_details width maximum current \<Rightarrow> (t = Linear_record \<or> t = Cyclic_record) \<and>
          width \<le> 0xFFFFFF \<and> maximum \<le> 0xFFFFFF \<and> current \<le> 0xFFFFFF
      | Transaction_mac_details _ _ \<Rightarrow> t = Transaction_mac_file)"

definition file_settings_ok :: "file_settings \<Rightarrow> bool" where
  "file_settings_ok fs \<longleftrightarrow>
     fs_communication fs = mode_of_code (fs_options fs AND 3) \<and> valid_mode (fs_communication fs) \<and>
     fs_options fs AND 0x1C = 0 \<and> fs_options fs AND 0x40 = 0 \<and> valid_access (fs_access fs) \<and>
     details_ok (fs_type fs) (fs_details fs) \<and>
     length (fs_additional_access fs) \<le> 7 \<and> list_all valid_access (fs_additional_access fs) \<and>
     (fs_options fs AND 0x80 = 0 \<longrightarrow> fs_additional_access fs = []) \<and>
     (fs_options fs AND 0x20 \<noteq> 0 \<longleftrightarrow> fs_transaction_counter_limit fs \<noteq> None) \<and>
     (fs_transaction_counter_limit fs \<noteq> None \<longrightarrow> fs_type fs = Transaction_mac_file)"

text \<open>The table of additional rights as the card encodes it.\<close>

definition encode_additional :: "byte \<Rightarrow> access_rights list \<Rightarrow> bytes" where
  "encode_additional options rights =
     (if options AND 0x80 \<noteq> 0 then of_nat (length rights) # concat (map (append_access []) rights) else [])"

section \<open>Segments\<close>

lemma concat_pairs:
  "2 * n \<le> length xs \<Longrightarrow> concat (map (\<lambda>i. subspan xs (2 * i) 2) [0..<n]) = take (2 * n) xs"
proof (induction n)
  case (Suc n)
  have "take (2 * Suc n) xs = take (2 * n) xs @ subspan xs (2 * n) 2"
    using take_add [of "2 * n" 2 xs] by (simp add: subspan_def)
  then show ?case using Suc by simp
qed simp

lemma pairs_concat:
  "\<forall>p\<in>set ps. length p = 2 \<Longrightarrow>
     map (\<lambda>i. subspan (concat ps @ rest) (2 * i) 2) [0..<length ps] = ps"
proof (induction ps)
  case (Cons p ps)
  have "map (\<lambda>i. subspan (concat (p # ps) @ rest) (2 * i) 2) [0..<length (p # ps)] =
      subspan (p @ concat ps @ rest) 0 2 # map (\<lambda>i. subspan (p @ concat ps @ rest) (2 * Suc i) 2) [0..<length ps]"
    by (simp add: upt_conv_Cons map_Suc_upt [symmetric] comp_def del: upt_Suc)
  also have "\<dots> = p # map (\<lambda>i. subspan (concat ps @ rest) (2 * i) 2) [0..<length ps]"
    using Cons.prems by (simp add: subspan_def)
  finally show ?case using Cons by simp
qed simp

lemma append_access_length [simp]: "length (append_access [] a) = 2"
  by (simp add: append_access_def)

lemma three_bytes_put_get: "n \<le> 0xFFFFFF \<Longrightarrow> get_le (put_le [] n 3) = n"
proof -
  assume "n \<le> 0xFFFFFF"
  then have "unat n \<le> 0xFFFFFF" by (simp add: word_le_nat_alt)
  then have "take_bit 24 n = n" by (simp add: word_unat_eq_iff unsigned_take_bit_eq take_bit_nat_eq_self)
  then show ?thesis using get_le_put_le_gen [of 3 n] by simp
qed

lemma four_bytes_put_get: "get_le (put_le [] n 4) = n"
  using get_le_put_le_gen [of 4 n] take_bit_length_eq [of n] by simp

lemma three_bytes_get_put: "length xs = 3 \<Longrightarrow> put_le [] (get_le xs) 3 = xs"
  using put_le_get_le_gen [of xs] by simp

lemma four_bytes_get_put: "length xs = 4 \<Longrightarrow> put_le [] (get_le xs) 4 = xs"
  using put_le_get_le_gen [of xs] by simp

lemma put_le_3_nonempty [simp]: "put_le [] v 3 \<noteq> []"
  by (simp add: put_le_def)

lemma three_bytes_bound: "length xs = 3 \<Longrightarrow> get_le xs \<le> 0xFFFFFF"
  using unat_get_le_less [of xs 3] by (simp add: word_le_nat_alt)

lemma byte_exhaust:
  assumes "\<forall>k\<in>set [0..<256]. P (of_nat k)"
  shows "P (b :: byte)"
proof -
  have "unat b < 2 ^ LENGTH(8)" by (rule unsigned_less)
  then have "P (of_nat (unat b))" using assms [rule_format, of "unat b"] by (simp only: set_upt) simp
  then show ?thesis by simp
qed

lemma value_flags: "f AND 0xFC = 0 \<Longrightarrow>
    (if f AND 1 \<noteq> 0 then 1 else 0) OR (if f AND 2 \<noteq> 0 then 2 else 0) = (f :: byte)"
proof -
  have "f AND 0xFC = 0 \<longrightarrow> (if f AND 1 \<noteq> 0 then 1 else 0) OR (if f AND 2 \<noteq> 0 then 2 else 0) = f"
    by (rule byte_exhaust) code_simp
  then show "f AND 0xFC = 0 \<Longrightarrow>
      (if f AND 1 \<noteq> 0 then 1 else 0) OR (if f AND 2 \<noteq> 0 then 2 else 0) = f" by blast
qed

lemma value_flags_bits:
  "(((if a then 1 else 0) OR (if b then 2 else 0)) AND 0xFC) = (0 :: byte)"
  "((((if a then 1 else 0) OR (if b then 2 else 0)) AND 1) \<noteq> (0 :: byte)) = a"
  "((((if a then 1 else 0) OR (if b then 2 else 0)) AND 2) \<noteq> (0 :: byte)) = b"
  by (cases a; cases b; simp)+

lemma file_type_code_inverse [simp]: "file_type_of (file_type_code t) = t" "file_type_code t \<le> 5"
  by (cases t; simp add: file_type_of_def)+

lemma file_type_of_inverse: "b \<le> 5 \<Longrightarrow> file_type_code (file_type_of b) = b"
proof -
  have "b \<le> 5 \<longrightarrow> file_type_code (file_type_of b) = b"
    by (rule byte_exhaust) code_simp
  then show "b \<le> 5 \<Longrightarrow> file_type_code (file_type_of b) = b" by blast
qed

lemma subspan_at: "length pre = i \<Longrightarrow> length xs = n \<Longrightarrow> subspan (pre @ xs @ rest) i n = xs"
  by (simp add: subspan_def)

lemma parse_file_details_encode:
  assumes "length pre = 4" "details_ok t d"
  shows "parse_file_details t (pre @ encode_details d @ rest) = Inr (d, 4 + length (encode_details d))"
proof (cases d)
  case (Data_details n)
  then show ?thesis using assms subspan_at [of pre 4 "put_le [] n 3" 3 rest]
    by (auto simp: parse_file_details_def details_ok_def encode_details_def three_bytes_put_get)
next
  case (Value_details a b c en fr)
  let ?f = "((if en then 1 else 0) OR (if fr then 2 else 0)) :: byte"
  let ?p = "pre @ encode_details d @ rest"
  have "subspan ?p 4 4 = put_le [] a 4" "subspan ?p 8 4 = put_le [] b 4" "subspan ?p 12 4 = put_le [] c 4"
    "?p ! 16 = ?f"
    using Value_details assms subspan_at [of pre 4 "put_le [] a 4" 4]
      subspan_at [of "pre @ put_le [] a 4" 8 "put_le [] b 4" 4]
      subspan_at [of "pre @ put_le [] a 4 @ put_le [] b 4" 12 "put_le [] c 4" 4]
    by (simp_all add: encode_details_def nth_append)
  then show ?thesis using Value_details assms
    by (simp add: parse_file_details_def details_ok_def four_bytes_put_get value_flags_bits)
      (simp add: encode_details_def)
next
  case (Record_details a b c)
  let ?p = "pre @ encode_details d @ rest"
  have "subspan ?p 4 3 = put_le [] a 3" "subspan ?p 7 3 = put_le [] b 3" "subspan ?p 10 3 = put_le [] c 3"
    using Record_details assms subspan_at [of pre 4 "put_le [] a 3" 3]
      subspan_at [of "pre @ put_le [] a 3" 7 "put_le [] b 3" 3]
      subspan_at [of "pre @ put_le [] a 3 @ put_le [] b 3" 10 "put_le [] c 3" 3]
    by (simp_all add: encode_details_def)
  then show ?thesis using Record_details assms
    by (auto simp: parse_file_details_def details_ok_def three_bytes_put_get encode_details_def)
next
  case (Transaction_mac_details a b)
  then show ?thesis using assms
    by (simp add: parse_file_details_def details_ok_def encode_details_def nth_append)
qed

lemma subspan_split_at:
  "i + n \<le> length xs \<Longrightarrow> take (i + n) xs = take i xs @ subspan xs i n"
  by (simp add: subspan_def take_add)

lemma parse_file_details_sound:
  assumes "parse_file_details t p = Inr (d, n)"
  shows "details_ok t d \<and> n = 4 + length (encode_details d) \<and> n \<le> length p \<and>
         take n p = take 4 p @ encode_details d"
proof -
  consider (vals) "t = Value_file" | (tmac) "t = Transaction_mac_file"
    | (data) "t = Standard_data \<or> t = Backup_data" | (records) "t = Linear_record \<or> t = Cyclic_record"
    by (cases t) auto
  then show ?thesis
  proof cases
    case vals
    then have v: "17 \<le> length p" "p ! 16 AND 0xFC = 0" "n = 17"
      "d = Value_details (get_le (subspan p 4 4)) (get_le (subspan p 8 4)) (get_le (subspan p 12 4))
             (p ! 16 AND 1 \<noteq> 0) (p ! 16 AND 2 \<noteq> 0)"
      using assms by (auto simp: parse_file_details_def split: if_splits)
    have "take 17 p = take 4 p @ subspan p 4 4 @ subspan p 8 4 @ subspan p 12 4 @ [p ! 16]"
      using v(1) subspan_split_at [of 4 4 p] subspan_split_at [of 8 4 p] subspan_split_at [of 12 4 p]
        take_Suc_conv_app_nth [of 16 p] by simp
    then show ?thesis
      using v vals value_flags [OF v(2)]
      by (simp add: details_ok_def encode_details_def four_bytes_get_put)
  next
    case tmac
    then have v: "6 \<le> length p" "n = 6" "d = Transaction_mac_details (p ! 4) (p ! 5)"
      using assms by (auto simp: parse_file_details_def split: if_splits)
    then have "take 6 p = take 4 p @ [p ! 4, p ! 5]"
      using take_Suc_conv_app_nth [of 4 p] take_Suc_conv_app_nth [of 5 p] by simp
    then show ?thesis using v tmac by (simp add: details_ok_def encode_details_def)
  next
    case data
    then have v: "7 \<le> length p" "n = 7" "d = Data_details (get_le (subspan p 4 3))"
      using assms by (auto simp: parse_file_details_def split: if_splits)
    then show ?thesis using data subspan_split_at [of 4 3 p]
      by (simp add: details_ok_def encode_details_def three_bytes_get_put three_bytes_bound)
  next
    case records
    then have v: "13 \<le> length p" "n = 13"
      "d = Record_details (get_le (subspan p 4 3)) (get_le (subspan p 7 3)) (get_le (subspan p 10 3))"
      using assms by (auto simp: parse_file_details_def split: if_splits)
    then show ?thesis
      using records subspan_split_at [of 4 3 p] subspan_split_at [of 7 3 p] subspan_split_at [of 10 3 p]
      by (simp add: details_ok_def encode_details_def three_bytes_get_put three_bytes_bound)
  qed
qed

lemma small_count: "n \<le> 7 \<Longrightarrow> unat (of_nat n :: byte) = n \<and> (of_nat n :: byte) \<le> 7"
  by (simp add: unsigned_of_nat take_bit_nat_eq_self word_le_nat_alt)

lemma parse_additional_encode:
  assumes "length pre = n" "length rights \<le> 7" "list_all valid_access rights"
    "options AND 0x80 = 0 \<longrightarrow> rights = []"
  shows "parse_additional_access options (pre @ encode_additional options rights @ rest) n =
         Inr (rights, n + length (encode_additional options rights))"
proof (cases "options AND 0x80 = 0")
  case True
  then show ?thesis using assms by (simp add: parse_additional_access_def encode_additional_def)
next
  case False
  let ?cs = "concat (map (append_access []) rights)"
  let ?p = "pre @ (of_nat (length rights) # ?cs) @ rest"
  have size: "length ?cs = 2 * length rights" by (induction rights) simp_all
  have sub: "subspan ?p (n + 1 + 2 * i) 2 = subspan (?cs @ rest) (2 * i) 2" for i
    using assms(1) by (simp add: subspan_def)
  have "map (\<lambda>i. read_access (subspan ?p (n + 1 + 2 * i) 2)) [0..<length rights] =
      map read_access (map (\<lambda>i. subspan (?cs @ rest) (2 * i) 2) [0..<length (map (append_access []) rights)])"
    by (simp only: sub length_map map_map comp_def)
  also have "\<dots> = map read_access (map (append_access []) rights)"
    by (subst pairs_concat) auto
  also have "\<dots> = rights" using assms(3) by (auto simp: list_all_iff read_append_access intro: map_idI)
  finally have read: "map (\<lambda>i. read_access (subspan ?p (n + 1 + 2 * i) 2)) [0..<length rights] = rights" .
  have "?p ! n = of_nat (length rights)" using assms(1) by (simp add: nth_append)
  then show ?thesis
    using False assms(1) size read small_count [OF assms(2)]
    by (simp add: parse_additional_access_def encode_additional_def Let_def not_less)
qed

lemma parse_additional_sound:
  assumes "parse_additional_access options p n = Inr (rights, m)" "n \<le> length p"
  shows "length rights \<le> 7 \<and> list_all valid_access rights \<and> (options AND 0x80 = 0 \<longrightarrow> rights = []) \<and>
         m = n + length (encode_additional options rights) \<and> m \<le> length p \<and>
         take m p = take n p @ encode_additional options rights"
proof (cases "options AND 0x80 = 0")
  case True
  then show ?thesis using assms by (simp add: parse_additional_access_def encode_additional_def)
next
  case False
  define k where "k = unat (p ! n)"
  have v: "n < length p" "k \<le> 7" "n + 1 + 2 * k \<le> length p" "m = n + 1 + 2 * k"
    "rights = map (\<lambda>i. read_access (subspan p (n + 1 + 2 * i) 2)) [0..<k]"
    using False assms by (auto simp: parse_additional_access_def Let_def k_def word_less_nat_alt split: if_splits)
  let ?q = "drop (n + 1) p"
  have sub: "subspan p (n + 1 + 2 * i) 2 = subspan ?q (2 * i) 2" for i by (simp add: subspan_def add.commute)
  have "concat (map (append_access []) rights) = concat (map (\<lambda>i. subspan ?q (2 * i) 2) [0..<k])"
    using v(3) unfolding v(5) sub
    by (intro arg_cong [where f = concat]) (simp add: append_read_access)
  also have "\<dots> = take (2 * k) ?q" using v(3) by (intro concat_pairs) simp
  finally have cs: "concat (map (append_access []) rights) = take (2 * k) ?q" .
  have "take m p = take n p @ p ! n # take (2 * k) ?q"
    using take_add [of "n + 1" "2 * k" p] take_Suc_conv_app_nth [OF v(1)] v(4) by simp
  moreover have "of_nat (length rights) = p ! n" using v(5) by (simp add: k_def)
  ultimately show ?thesis
    using False v cs by (simp add: encode_additional_def list_all_iff read_access_valid)
qed

lemma encode_file_settings_segments:
  "encode_file_settings fs =
     ([file_type_code (fs_type fs), fs_options fs] @ append_access [] (fs_access fs)) @
     encode_details (fs_details fs) @ encode_additional (fs_options fs) (fs_additional_access fs) @
     (case fs_transaction_counter_limit fs of None \<Rightarrow> [] | Some limit \<Rightarrow> put_le [] limit 4)"
  by (simp add: encode_file_settings_def encode_additional_def)

lemma encode_lengths:
  "length (encode_details d) \<le> 13"
  "length rights \<le> 7 \<Longrightarrow> length (encode_additional options rights) \<le> 15"
proof -
  show "length (encode_details d) \<le> 13" by (cases d) (simp_all add: encode_details_def)
  have "length (concat (map (append_access []) rights)) = 2 * length rights" by (induction rights) simp_all
  then show "length rights \<le> 7 \<Longrightarrow> length (encode_additional options rights) \<le> 15"
    by (simp add: encode_additional_def)
qed

lemma parse_settings_tail_encode:
  assumes "length pre = n" "options AND 0x40 = 0" "(options AND 0x20 \<noteq> 0) = (limit \<noteq> None)"
    "limit \<noteq> None \<longrightarrow> t = Transaction_mac_file"
  shows "parse_settings_tail t options
           (pre @ (case limit of None \<Rightarrow> [] | Some l \<Rightarrow> put_le [] l 4)) n = Inr limit"
  using assms by (cases limit) (simp_all add: parse_settings_tail_def subspan_def four_bytes_put_get)

lemma parse_settings_tail_sound:
  assumes "parse_settings_tail t options p n = Inr limit" "n \<le> length p"
  shows "options AND 0x40 = 0 \<and> (options AND 0x20 \<noteq> 0) = (limit \<noteq> None) \<and>
         (limit \<noteq> None \<longrightarrow> t = Transaction_mac_file) \<and>
         p = take n p @ (case limit of None \<Rightarrow> [] | Some l \<Rightarrow> put_le [] l 4)"
  using assms by (auto simp: parse_settings_tail_def subspan_def four_bytes_get_put split: if_splits)

lemma parse_file_settings_encode:
  assumes ok: "file_settings_ok fs"
  shows "parse_file_settings (encode_file_settings fs) = Inr fs"
proof -
  let ?pre = "[file_type_code (fs_type fs), fs_options fs] @ append_access [] (fs_access fs)"
  let ?d = "encode_details (fs_details fs)"
  let ?a = "encode_additional (fs_options fs) (fs_additional_access fs)"
  let ?l = "case fs_transaction_counter_limit fs of None \<Rightarrow> [] | Some limit \<Rightarrow> put_le [] limit 4"
  let ?p = "?pre @ ?d @ ?a @ ?l"
  note fs = ok [unfolded file_settings_ok_def]
  have "length ?l \<le> 4" by (simp split: option.split)
  then have size: "4 \<le> length ?p" "length ?p \<le> 128"
    using encode_lengths(1) [of "fs_details fs"]
      encode_lengths(2) [of "fs_additional_access fs" "fs_options fs"] fs by auto
  have prefix: "?p ! 0 = file_type_code (fs_type fs)" "?p ! 1 = fs_options fs"
    "subspan ?p 2 2 = append_access [] (fs_access fs)"
    by (simp_all add: subspan_def)
  have details: "parse_file_details (fs_type fs) ?p = Inr (fs_details fs, 4 + length ?d)"
    using parse_file_details_encode [of ?pre "fs_type fs" "fs_details fs" "?a @ ?l"] fs by simp
  have additional: "parse_additional_access (fs_options fs) ?p (4 + length ?d) =
      Inr (fs_additional_access fs, 4 + length ?d + length ?a)"
    using parse_additional_encode [of "?pre @ ?d" "4 + length ?d" "fs_additional_access fs" "fs_options fs" ?l] fs
    by simp
  have tail: "parse_settings_tail (fs_type fs) (fs_options fs) ?p (4 + length ?d + length ?a) =
      Inr (fs_transaction_counter_limit fs)"
    using parse_settings_tail_encode [of "?pre @ ?d @ ?a" "4 + length ?d + length ?a" "fs_options fs"
        "fs_transaction_counter_limit fs" "fs_type fs"] fs by simp
  have mode: "valid_mode (mode_of_code (fs_options fs AND 3))"
    "mode_of_code (fs_options fs AND 3) = fs_communication fs" using fs by auto
  have "\<not> file_type_code (fs_type fs) > 5" by (simp add: not_less)
  then have "parse_file_settings ?p = Inr fs"
    unfolding parse_file_settings_def Let_def prefix file_type_code_inverse details
    using size additional tail fs mode by (simp add: read_append_access del: append.simps append_assoc)
  then show ?thesis by (simp only: encode_file_settings_segments)
qed

lemma parse_file_settings_sound:
  assumes "parse_file_settings p = Inr fs"
  shows "file_settings_ok fs \<and> p = encode_file_settings fs"
proof -
  from assms obtain d n r m l where
    pre: "4 \<le> length p" "p ! 0 \<le> 5" "valid_mode (mode_of_code (p ! 1 AND 3))" "p ! 1 AND 0x1C = 0"
    and d: "parse_file_details (file_type_of (p ! 0)) p = Inr (d, n)"
    and r: "parse_additional_access (p ! 1) p n = Inr (r, m)"
    and l: "parse_settings_tail (file_type_of (p ! 0)) (p ! 1) p m = Inr l"
    and fs: "fs = \<lparr>fs_type = file_type_of (p ! 0), fs_communication = mode_of_code (p ! 1 AND 3),
               fs_options = p ! 1, fs_access = read_access (subspan p 2 2), fs_details = d,
               fs_additional_access = r, fs_transaction_counter_limit = l\<rparr>"
    by (auto simp: parse_file_settings_def Let_def split: if_splits sum.splits)
  note ds = parse_file_details_sound [OF d]
  note rs = parse_additional_sound [OF r conjunct1 [OF conjunct2 [OF conjunct2 [OF ds]]]]
  have m: "m \<le> length p" using rs by blast
  note ls = parse_settings_tail_sound [OF l m]
  have four: "take 4 p = [p ! 0, p ! 1] @ subspan p 2 2"
  proof -
    have "take 2 p = [p ! 0, p ! 1]" using pre(1) by (cases p; cases "tl p") auto
    then show ?thesis using pre(1) subspan_split_at [of 2 2 p] by simp
  qed
  have "p = take 4 p @ encode_details d @ encode_additional (p ! 1) r @
      (case l of None \<Rightarrow> [] | Some l \<Rightarrow> put_le [] l 4)"
    using ds rs ls by (metis append_assoc)
  moreover have "append_access [] (read_access (subspan p 2 2)) = subspan p 2 2"
    using pre(1) by (simp add: append_read_access)
  ultimately show ?thesis
    using pre ds rs ls four
    by (simp add: fs encode_file_settings_segments file_settings_ok_def file_type_of_inverse read_access_valid)
qed

lemma application_ids_loop_iff:
  "length p mod 3 = 0 \<Longrightarrow>
     application_ids_loop p seen acc = Inr ids \<longleftrightarrow>
       (\<exists>new. ids = acc @ new \<and> distinct new \<and> 0 \<notin> set new \<and> set new \<inter> seen = {} \<and>
          (\<forall>v\<in>set new. v \<le> 0xFFFFFF) \<and> p = concat (map (\<lambda>v. put_le [] v 3) new))"
  (is "_ \<Longrightarrow> _ \<longleftrightarrow> (\<exists>new. ?ok p seen acc ids new)")
proof (induction p seen acc rule: application_ids_loop.induct)
  case (1 a b c rest seen acc)
  let ?v = "get_le [a, b, c]"
  have bytes: "put_le [] ?v 3 = [a, b, c]" "?v \<le> 0xFFFFFF"
    using three_bytes_get_put [of "[a, b, c]"] three_bytes_bound [of "[a, b, c]"] by simp_all
  have first: "w = ?v" if "put_le [] w 3 @ xs = a # b # c # rest" "w \<le> 0xFFFFFF" for w xs
  proof -
    have "take 3 (put_le [] w 3 @ xs) = put_le [] w 3" by simp
    then have "put_le [] w 3 = [a, b, c]" using that(1) by simp
    then show ?thesis using three_bytes_put_get [OF that(2)] by simp
  qed
  show ?case
  proof (cases "?v = 0 \<or> ?v \<in> seen")
    case True
    have "\<not> ?ok (a # b # c # rest) seen acc ids new" for new
    proof
      assume ok: "?ok (a # b # c # rest) seen acc ids new"
      then obtain w ws where w: "new = w # ws" by (cases new) auto
      then have "w = ?v" using first [of w] ok by auto
      then show False using True ok w by auto
    qed
    then show ?thesis using True by (simp add: Let_def)
  next
    case False
    have "length rest mod 3 = 0" using "1.prems" by (simp add: mod_Suc split: if_splits)
    then have IH: "application_ids_loop (a # b # c # rest) seen acc = Inr ids \<longleftrightarrow>
        (\<exists>new. ?ok rest (insert ?v seen) (acc @ [?v]) ids new)"
      using "1.IH" [OF refl] False by (simp add: Let_def)
    also have "\<dots> \<longleftrightarrow> (\<exists>new. ?ok (a # b # c # rest) seen acc ids new)"
    proof
      assume "\<exists>new. ?ok rest (insert ?v seen) (acc @ [?v]) ids new"
      then obtain new where "?ok rest (insert ?v seen) (acc @ [?v]) ids new" by blast
      then have "?ok (a # b # c # rest) seen acc ids (?v # new)" using False bytes by auto
      then show "\<exists>new. ?ok (a # b # c # rest) seen acc ids new" by blast
    next
      assume "\<exists>new. ?ok (a # b # c # rest) seen acc ids new"
      then obtain new where new: "?ok (a # b # c # rest) seen acc ids new" by blast
      then obtain w ws where w: "new = w # ws" by (cases new) auto
      then have "w = ?v" using first [of w] new by auto
      then have "?ok rest (insert ?v seen) (acc @ [?v]) ids ws" using new w bytes by auto
      then show "\<exists>new. ?ok rest (insert ?v seen) (acc @ [?v]) ids new" by blast
    qed
    finally show ?thesis .
  qed
qed (auto simp: Let_def intro: ccontr)

section \<open>Properties\<close>

text \<open>
  C37. The parser of file settings accepts exactly the encodings of well-formed settings, and returns
  the encoded value: nothing is dropped, no trailing or reserved byte is accepted, and no two different
  settings share an encoding.
\<close>

theorem parse_file_settings_exact:
  "parse_file_settings payload = Inr fs \<longleftrightarrow> file_settings_ok fs \<and> payload = encode_file_settings fs"
  using parse_file_settings_encode parse_file_settings_sound by blast

text \<open>
  The application list is accepted exactly when it is the three-byte little-endian encoding of
  pairwise distinct, non-zero identifiers within the logical maximum, and these are returned in order.
\<close>

theorem parse_application_ids_exact:
  "parse_application_ids payload = Inr ids \<longleftrightarrow>
   distinct ids \<and> 0 \<notin> set ids \<and> (\<forall>v\<in>set ids. v \<le> 0xFFFFFF) \<and>
   payload = concat (map (\<lambda>v. put_le [] v 3) ids) \<and> 3 * length ids \<le> maximum_logical_response"
proof -
  have size: "length (concat (map (\<lambda>v. put_le [] v 3) ids)) = 3 * length ids" for ids :: "u32 list"
    by (induction ids) simp_all
  show ?thesis
  proof (cases "length payload mod 3 = 0")
    case True
    then show ?thesis
      using application_ids_loop_iff [OF True, of "{}" "[]" ids] size [of ids]
      by (auto simp: parse_application_ids_def not_less)
  next
    case False
    then show ?thesis using size [of ids] by (auto simp: parse_application_ids_def)
  qed
qed

theorem parse_application_ids_exact_witness:
  "parse_application_ids (put_le [] 0x112233 3 @ put_le [] 7 3) = Inr [0x112233, 7]"
  using parse_application_ids_exact [of "put_le [] 0x112233 3 @ put_le [] 7 3" "[0x112233, 7]"]
  by (simp add: maximum_logical_response_def)

end
