(* ===== verification/Iso_Channel.thy ===== *)
theory Iso_Channel
  imports Transports
begin

text \<open>
  Raw ISO 7816-4 exchanges: the APDU codec (\<^verbatim>\<open>core/src/iso7816/raw/codec.cpp\<close> with
  \<^verbatim>\<open>detail/codec_support.hpp\<close>) and the serialized channel
  (\<^verbatim>\<open>core/src/iso7816/raw/channel.cpp\<close> with \<^verbatim>\<open>detail/channel_support.hpp\<close>), which
  follows response continuation (61xx), corrects one rejected length (6Cxx) on request, and bounds
  the frames and bytes of a logical command. The theorems show that a receiver recovers every field
  of an encoded APDU, and which frames a command puts on the wire and what its response consists of.
\<close>

section \<open>APDUs\<close>

text \<open>\<^verbatim>\<open>enum class LengthEncoding\<close>; \<open>encoding_other\<close> stands for a value outside the enumeration.\<close>

datatype length_encoding = automatic | short_apdu | extended | encoding_other

text \<open>\<^verbatim>\<open>struct Apdu\<close> and \<^verbatim>\<open>struct Response\<close> of \<^verbatim>\<open>raw/apdu.hpp\<close>.\<close>

record apdu =
  a_cla :: byte
  a_ins :: byte
  a_p1 :: byte
  a_p2 :: byte
  a_data :: bytes
  a_le :: "u32 option"
  a_encoding :: length_encoding

record iso_response =
  ir_data :: bytes
  ir_status :: u16

definition iso_success :: "iso_response \<Rightarrow> bool" where
  "iso_success r = (ir_status r = 0x9000)"

definition iso_malformed :: "String.literal \<Rightarrow> u16 \<Rightarrow> error" where
  "iso_malformed message status = make_error EC_malformed_response message OC_unknown status"

definition valid_encoding :: "length_encoding \<Rightarrow> bool" where
  "valid_encoding e = (e = automatic \<or> e = short_apdu \<or> e = extended)"

definition maximum_command_data :: nat where
  "maximum_command_data = 65535"

definition maximum_expected_data :: u32 where
  "maximum_expected_data = 65536"

definition needs_extended :: "apdu \<Rightarrow> bool" where
  "needs_extended a = (length (a_data a) > 255 \<or> (case a_le a of None \<Rightarrow> False | Some le \<Rightarrow> le > 256))"

text \<open>The bytes that \<^verbatim>\<open>encode_fields\<close> appends after the header.\<close>

definition encode_body :: "bool \<Rightarrow> bytes \<Rightarrow> u32 option \<Rightarrow> bytes" where
  "encode_body ext data le =
     (if data = [] then []
      else (if ext then [0x00, of_nat (drop_bit 8 (length data))] else []) @ [of_nat (length data)] @ data) @
     (case le of
        None \<Rightarrow> []
      | Some n \<Rightarrow> (if ext then (if data = [] then [0x00] else []) @ [ucast (drop_bit 8 n)] else []) @ [ucast n])"

definition iso_encode :: "apdu \<Rightarrow> bytes result" where
  "iso_encode a =
     (if \<not> valid_encoding (a_encoding a) \<or> length (a_data a) > maximum_command_data \<or>
         (case a_le a of None \<Rightarrow> False | Some le \<Rightarrow> le = 0 \<or> le > maximum_expected_data)
      then Inl (invalid (STR ''ISO command has an invalid data or expected length''))
      else if a_encoding a = short_apdu \<and> needs_extended a
      then Inl (invalid (STR ''ISO command exceeds short APDU length capacity''))
      else Inr ([a_cla a, a_ins a, a_p1 a, a_p2 a] @
                encode_body (a_encoding a = extended \<or> needs_extended a) (a_data a) (a_le a)))"

definition iso_decode :: "bytes \<Rightarrow> iso_response result" where
  "iso_decode frame =
     (if length frame < 2 then Inl (iso_malformed (STR ''ISO response lacks SW1 and SW2'') 0)
      else Inr \<lparr>ir_data = take (length frame - 2) frame,
                ir_status = push_bit 8 (ucast (frame ! (length frame - 2))) OR ucast (last frame)\<rparr>)"

section \<open>The elapsed-time budget\<close>

text \<open>\<^verbatim>\<open>duration_cast<milliseconds>\<close> rounds toward zero.\<close>

definition truncate_milliseconds :: "int \<Rightarrow> int" where
  "truncate_milliseconds ns = (if 0 \<le> ns then ns div 1000000 else - ((- ns) div 1000000))"

record iso_budget =
  bd_options :: exchange_options
  bd_generation :: u64
  bd_started :: int

definition budget_make :: "'s environment \<Rightarrow> exchange_options \<Rightarrow> 's \<Rightarrow> iso_budget \<times> 's" where
  "budget_make E opts s =
     (let (generation, s1) = env_generation E s;
          (now, s2) = env_now E s1
      in (\<lparr>bd_options = opts, bd_generation = generation, bd_started = now\<rparr>, s2))"

text \<open>
  \<^verbatim>\<open>Budget::next\<close>, with its three diagnostics as arguments: the raw channel and the
  authentication keep one copy of this class each, which differ in the diagnostics only.
\<close>

definition budget_step ::
  "String.literal \<Rightarrow> String.literal \<Rightarrow> String.literal \<Rightarrow> 's environment \<Rightarrow> iso_budget \<Rightarrow> bool \<Rightarrow> 's
     \<Rightarrow> exchange_options result \<times> 's" where
  "budget_step removed cancelled expired E b sent s =
     (let oc = (if sent then OC_unknown else OC_not_sent);
          (generation, s1) = env_generation E s
      in if generation \<noteq> bd_generation b then (Inl (make_error EC_card_removed removed oc 0), s1)
         else let (stopped, s2) = env_stop_requested E (opt_stop (bd_options b)) s1
         in if stopped then (Inl (make_error EC_cancelled cancelled oc 0), s2)
         else let (now, s3) = env_now E s2;
                  elapsed = truncate_milliseconds (now - bd_started b)
         in if opt_timeout (bd_options b) \<le> 0 \<or> elapsed \<ge> opt_timeout (bd_options b)
            then (Inl (make_error EC_timeout expired oc 0), s3)
            else (Inr ((bd_options b)\<lparr>opt_timeout := opt_timeout (bd_options b) - elapsed\<rparr>), s3))"

definition budget_next :: "'s environment \<Rightarrow> iso_budget \<Rightarrow> bool \<Rightarrow> 's \<Rightarrow> exchange_options result \<times> 's" where
  "budget_next =
     budget_step (STR ''Card state changed during ISO command'') (STR ''ISO command cancelled'')
       (STR ''ISO logical command deadline expired'')"

section \<open>The channel\<close>

text \<open>\<^verbatim>\<open>struct Limits\<close> of \<^verbatim>\<open>raw/channel.hpp\<close> and the activity marker of the channel.\<close>

record iso_limits =
  lim_max_response :: nat
  lim_max_frames :: nat
  lim_correct_length :: bool

record iso_channel =
  ic_operation_active :: bool

text \<open>The local variables of the frame loop.\<close>

record iso_progress =
  ip_request :: bytes
  ip_sent :: bool
  ip_continuation :: bool
  ip_corrected :: bool
  ip_assembled :: bytes

definition sw1 :: "u16 \<Rightarrow> byte" where
  "sw1 status = ucast (drop_bit 8 status)"

definition sw2 :: "u16 \<Rightarrow> byte" where
  "sw2 status = ucast status"

definition get_response :: "byte \<Rightarrow> bytes" where
  "get_response n = [0x00, 0xC0, 0x00, 0x00, n]"

definition adjusted_length :: "byte \<Rightarrow> u32" where
  "adjusted_length n = (if n = 0 then 256 else ucast n)"

text \<open>
  One iteration after the transport returned a frame of the same card: either the command ends
  (\<open>Inl\<close> with its result) or the loop goes on with new local variables.
\<close>

definition iso_accept ::
  "transport_capabilities \<Rightarrow> apdu \<Rightarrow> iso_limits \<Rightarrow> bytes \<Rightarrow> iso_progress \<Rightarrow> iso_response result + iso_progress" where
  "iso_accept caps a limits frame p =
     (if length frame > max_receive caps
      then Inl (Inl (iso_malformed (STR ''ISO response exceeds advertised transport capacity'') 0))
      else case iso_decode frame of
        Inl e \<Rightarrow> Inl (Inl e)
      | Inr response \<Rightarrow>
          let status = ir_status response
          in if sw1 status = 0x6C \<and> ir_data response \<noteq> []
             then Inl (Inl (iso_malformed
                    (STR ''ISO length-rejection response unexpectedly contains data'') status))
             else if sw1 status = 0x6C \<and> lim_correct_length limits \<and> \<not> ip_continuation p \<and> \<not> ip_corrected p
             then if unat (adjusted_length (sw2 status)) > lim_max_response limits
                  then Inl (Inl (iso_malformed
                         (STR ''ISO corrected length exceeds configured response limit'') status))
                  else (case iso_encode (a\<lparr>a_le := Some (adjusted_length (sw2 status))\<rparr>) of
                          Inl e \<Rightarrow> Inl (Inl (sent_outcome e))
                        | Inr encoded \<Rightarrow>
                            Inr (p\<lparr>ip_request := encoded, ip_sent := True, ip_corrected := True\<rparr>))
             else if length (ir_data response) > lim_max_response limits - length (ip_assembled p)
             then Inl (Inl (iso_malformed
                    (STR ''ISO response exceeds configured aggregate byte limit'') status))
             else let assembled = ip_assembled p @ ir_data response
             in if sw1 status \<noteq> 0x61
                then Inl (Inr \<lparr>ir_data = assembled, ir_status = status\<rparr>)
                else if length assembled = lim_max_response limits
                then Inl (Inl (iso_malformed
                       (STR ''ISO continuation would exceed configured aggregate byte limit'') status))
                else Inr (p\<lparr>ip_request := get_response (sw2 status), ip_sent := True,
                            ip_continuation := True, ip_assembled := assembled\<rparr>))"

definition iso_step ::
  "'s environment \<Rightarrow> apdu \<Rightarrow> iso_limits \<Rightarrow> iso_budget \<Rightarrow> iso_progress \<Rightarrow> 's
     \<Rightarrow> (iso_response result + iso_progress) \<times> 's" where
  "iso_step E a limits b p s =
     (case budget_next E b (ip_sent p) s of
        (Inl e, s1) \<Rightarrow> (Inl (Inl e), s1)
      | (Inr controls, s1) \<Rightarrow>
          if length (ip_request p) > max_transmit (env_capabilities E)
          then (Inl (Inl (make_error EC_invalid_argument (STR ''ISO continuation exceeds transport capacity'')
                      (if ip_sent p then OC_unknown else OC_not_sent) 0)), s1)
          else (case env_exchange E (ip_request p) controls s1 of
             (Threw, s2) \<Rightarrow>
               (Inl (Inl (unknown_error EC_transport (STR ''ISO transport threw during exchange''))), s2)
           | (Returned (Inl e), s2) \<Rightarrow> (Inl (Inl (if ip_sent p then sent_outcome e else e)), s2)
           | (Returned (Inr frame), s2) \<Rightarrow>
               let (generation, s3) = env_generation E s2
               in if generation \<noteq> bd_generation b
                  then (Inl (Inl (unknown_error EC_card_removed
                          (STR ''Card state changed after ISO response''))), s3)
                  else (iso_accept (env_capabilities E) a limits frame p, s3)))"

text \<open>
  \<^verbatim>\<open>for (frame_index = 0; frame_index < limits.max_frames; ++frame_index)\<close>: the first argument
  counts the iterations that are left.
\<close>

primrec iso_loop ::
  "nat \<Rightarrow> 's environment \<Rightarrow> apdu \<Rightarrow> iso_limits \<Rightarrow> iso_budget \<Rightarrow> iso_progress \<Rightarrow> 's
     \<Rightarrow> iso_response result \<times> 's" where
  "iso_loop 0 E a limits b p s =
     (Inl (iso_malformed (STR ''ISO command exceeded configured physical frame limit'') 0), s)"
| "iso_loop (Suc n) E a limits b p s =
     (case iso_step E a limits b p s of
        (Inl r, s1) \<Rightarrow> (r, s1)
      | (Inr p1, s1) \<Rightarrow> iso_loop n E a limits b p1 s1)"

text \<open>The checks before the loop and the first request.\<close>

definition iso_precheck ::
  "transport_capabilities \<Rightarrow> apdu \<Rightarrow> exchange_options \<Rightarrow> iso_limits \<Rightarrow> bytes result" where
  "iso_precheck caps a opts limits =
     (if opt_timeout opts \<le> 0 \<or> lim_max_response limits = 0 \<or> lim_max_frames limits = 0 \<or>
         lim_max_frames limits > 65536
      then Inl (invalid (STR ''ISO exchange requires positive timeout and bounded byte/frame limits''))
      else if cap_framing caps \<noteq> Framing_iso7816
      then Inl (local_error EC_unsupported (STR ''Raw ISO commands require an APDU-capable transport''))
      else if max_receive caps < 2
      then Inl (invalid (STR ''ISO transport cannot receive a status word''))
      else case iso_encode a of
        Inl e \<Rightarrow> Inl e
      | Inr initial \<Rightarrow>
          if length initial > max_transmit caps
          then Inl (invalid (STR ''ISO command exceeds transport transmit capacity''))
          else Inr initial)"

definition initial_progress :: "bytes \<Rightarrow> iso_progress" where
  "initial_progress request = \<lparr>ip_request = request, ip_sent = False, ip_continuation = False,
     ip_corrected = False, ip_assembled = []\<rparr>"

definition iso_exchange ::
  "'s environment \<Rightarrow> apdu \<Rightarrow> exchange_options \<Rightarrow> iso_limits \<Rightarrow> iso_channel \<Rightarrow> 's
     \<Rightarrow> iso_response result \<times> iso_channel \<times> 's" where
  "iso_exchange E a opts limits ch s =
     (if ic_operation_active ch
      then (Inl (local_error EC_busy (STR ''ISO transport callback cannot reenter the channel'')), ch, s)
      else case iso_precheck (env_capabilities E) a opts limits of
        Inl e \<Rightarrow> (Inl e, ch\<lparr>ic_operation_active := False\<rparr>, s)
      | Inr request \<Rightarrow>
          let (b, s1) = budget_make E opts s;
              (r, s2) = iso_loop (lim_max_frames limits) E a limits b (initial_progress request) s1
          in (r, ch\<lparr>ic_operation_active := False\<rparr>, s2))"

definition iso_create :: iso_channel where
  "iso_create = \<lparr>ic_operation_active = False\<rparr>"

definition iso_reset :: "'s environment \<Rightarrow> iso_channel \<Rightarrow> 's \<Rightarrow> unit result \<times> iso_channel \<times> 's" where
  "iso_reset E ch s =
     (if ic_operation_active ch
      then (Inl (local_error EC_busy (STR ''ISO transport callback cannot reenter the channel'')), ch, s)
      else (case env_reset E s of
              (Threw, s1) \<Rightarrow> (Inl (unknown_error EC_internal (STR ''ISO transport reset threw'')),
                               ch\<lparr>ic_operation_active := False\<rparr>, s1)
            | (Returned r, s1) \<Rightarrow> (r, ch\<lparr>ic_operation_active := False\<rparr>, s1)))"

section \<open>Specification: what a receiver reads\<close>

text \<open>
  The body of a command APDU by the cases of ISO 7816-3: nothing, \<open>Le\<close>, data, data and \<open>Le\<close>, each
  with one-byte lengths or, after a zero byte, with two-byte lengths; an \<open>Le\<close> field of zero stands
  for the maximum of its width.
\<close>

definition short_le :: "byte \<Rightarrow> nat" where
  "short_le b = (if b = 0 then 256 else unat b)"

definition be16 :: "byte \<Rightarrow> byte \<Rightarrow> nat" where
  "be16 hi lo = 256 * unat hi + unat lo"

definition extended_le :: "byte \<Rightarrow> byte \<Rightarrow> nat" where
  "extended_le hi lo = (if be16 hi lo = 0 then 65536 else be16 hi lo)"

definition read_short_body :: "nat \<Rightarrow> bytes \<Rightarrow> (bytes \<times> nat option) option" where
  "read_short_body n rest =
     (if n = 0 then None
      else if length rest = n then Some (rest, None)
      else if length rest = n + 1 then Some (take n rest, Some (short_le (rest ! n)))
      else None)"

definition read_extended_body :: "nat \<Rightarrow> bytes \<Rightarrow> (bytes \<times> nat option) option" where
  "read_extended_body n rest =
     (if n = 0 then None
      else if length rest = n then Some (rest, None)
      else if length rest = n + 2 then Some (take n rest, Some (extended_le (rest ! n) (rest ! (n + 1))))
      else None)"

definition read_apdu_body :: "bytes \<Rightarrow> (bytes \<times> nat option) option" where
  "read_apdu_body body =
     (case body of
        [] \<Rightarrow> Some ([], None)
      | [le] \<Rightarrow> Some ([], Some (short_le le))
      | first # second # rest \<Rightarrow>
          if first \<noteq> 0 then read_short_body (unat first) (second # rest)
          else (case rest of
                  [] \<Rightarrow> None
                | [third] \<Rightarrow> Some ([], Some (extended_le second third))
                | third # tail \<Rightarrow> read_extended_body (be16 second third) tail))"

definition read_apdu :: "bytes \<Rightarrow> (byte \<times> byte \<times> byte \<times> byte \<times> bytes \<times> nat option) option" where
  "read_apdu wire =
     (case wire of
        cla # ins # p1 # p2 # body \<Rightarrow> map_option (\<lambda>(data, le). (cla, ins, p1, p2, data, le)) (read_apdu_body body)
      | _ \<Rightarrow> None)"

section \<open>Specification: the frames of one command\<close>

text \<open>The status word and the data of a delivered answer.\<close>

definition answer_status :: "bytes \<Rightarrow> u16" where
  "answer_status w = push_bit 8 (ucast (w ! (length w - 2))) OR ucast (last w)"

definition answer_data :: "bytes \<times> bytes result dep \<Rightarrow> bytes" where
  "answer_data entry = (case snd entry of Returned (Inr w) \<Rightarrow> take (length w - 2) w | _ \<Rightarrow> [])"

text \<open>
  The frames a command may put on the wire, given the answers: the expected request comes first; an
  answer 61xx is followed by a GET RESPONSE for xx bytes; an answer 6Cxx may be followed by the same
  command with the corrected length, once and only before any continuation; nothing else continues.
\<close>

fun iso_trace :: "apdu \<Rightarrow> bool \<Rightarrow> bytes \<Rightarrow> exchange_log \<Rightarrow> bool" where
  "iso_trace a correctable request [] = True"
| "iso_trace a correctable request (entry # rest) =
     (fst entry = request \<and>
      (rest = [] \<or>
       (case snd entry of
          Returned (Inr w) \<Rightarrow>
            if sw1 (answer_status w) = 0x61
            then iso_trace a False (get_response (sw2 (answer_status w))) rest
            else sw1 (answer_status w) = 0x6C \<and> correctable \<and>
                 (case iso_encode (a\<lparr>a_le := Some (adjusted_length (sw2 (answer_status w)))\<rparr>) of
                    Inr retry \<Rightarrow> iso_trace a False retry rest
                  | Inl _ \<Rightarrow> False)
        | _ \<Rightarrow> False)))"

definition iso_report ::
  "transport_capabilities \<Rightarrow> apdu \<Rightarrow> iso_limits \<Rightarrow> nat \<Rightarrow> iso_progress \<Rightarrow> iso_response result
     \<Rightarrow> exchange_log \<Rightarrow> bool" where
  "iso_report caps a limits n p r new \<longleftrightarrow>
     length new \<le> n \<and>
     list_all (\<lambda>entry. length (fst entry) \<le> max_transmit caps) new \<and>
     iso_trace a (lim_correct_length limits \<and> \<not> ip_continuation p \<and> \<not> ip_corrected p) (ip_request p) new \<and>
     (case r of
        Inl e \<Rightarrow> err_outcome e \<noteq> OC_not_sent \<or>
                 (\<not> ip_sent p \<and> length new \<le> 1 \<and> list_all not_sent_entry new)
      | Inr resp \<Rightarrow>
          new \<noteq> [] \<and> list_all delivered new \<and>
          ir_data resp = ip_assembled p @ concat (map answer_data new) \<and>
          length (ir_data resp) \<le> lim_max_response limits \<and>
          (case snd (last new) of
             Returned (Inr w) \<Rightarrow> ir_status resp = answer_status w \<and> sw1 (answer_status w) \<noteq> 0x61
           | _ \<Rightarrow> False))"

text \<open>
  A scripted example: a read with a wrong expected length, its correction and one continuation.
\<close>

definition demo_iso_capabilities :: transport_capabilities where
  "demo_iso_capabilities = \<lparr>cap_framing = Framing_iso7816, max_transmit = 261, max_receive = 258,
     max_native_frame = 60, can_cancel = False, can_reset = True, hardware_timing = False\<rparr>"

definition demo_apdu :: apdu where
  "demo_apdu = \<lparr>a_cla = 0, a_ins = 0xB0, a_p1 = 0, a_p2 = 0, a_data = [], a_le = Some 4,
     a_encoding = automatic\<rparr>"

definition demo_iso_transport :: replay_transport where
  "demo_iso_transport = \<lparr>rp_steps =
     [\<lparr>step_request = [0x00, 0xB0, 0, 0, 4], step_response = Inr [0x6C, 3]\<rparr>,
      \<lparr>step_request = [0x00, 0xB0, 0, 0, 3], step_response = Inr [1, 2, 0x61, 1]\<rparr>,
      \<lparr>step_request = [0x00, 0xC0, 0, 0, 1], step_response = Inr [3, 0x90, 0x00]\<rparr>],
     rp_generation = 1, rp_clock = 0, rp_stopped = False, rp_random = []\<rparr>"

section \<open>Codec lemmas\<close>

lemma be16_of_nat:
  assumes "n < 65536"
  shows "be16 (of_nat (drop_bit 8 n)) (of_nat n) = n"
proof -
  have "n div 256 < 256" using assms by simp
  then show ?thesis
    by (simp add: be16_def unat_of_nat drop_bit_eq_div mult_div_mod_eq)
qed

lemma be16_ucast:
  fixes v :: u32
  shows "be16 (ucast (drop_bit 8 v)) (ucast v) = unat v mod 65536"
proof -
  have "unat v = unat v" ..
  have "unat v mod (256 * 256) = 256 * (unat v div 256 mod 256) + unat v mod 256"
    by (rule mod_mult2_eq)
  then show ?thesis
    by (simp add: be16_def unsigned_ucast_eq unsigned_drop_bit_eq drop_bit_eq_div take_bit_eq_mod
        unsigned_take_bit_eq unat_div)
qed

lemma short_le_ucast:
  fixes v :: u32
  assumes "v \<noteq> 0" "\<not> 256 < v"
  shows "short_le (ucast v) = unat v"
proof -
  have bound: "unat v \<le> 256" using assms(2) by (simp add: word_less_nat_alt)
  have pos: "unat v \<noteq> 0" using assms(1) by (simp add: unat_eq_zero)
  have low: "unat (ucast v :: byte) = unat v mod 256"
    by (simp add: unsigned_ucast_eq take_bit_eq_mod)
  show ?thesis
  proof (cases "unat v = 256")
    case True
    then have "unat (ucast v :: byte) = 0" using low by simp
    then show ?thesis using True by (simp add: short_le_def unat_eq_zero)
  next
    case False
    then have "unat (ucast v :: byte) = unat v" using low bound by simp
    then show ?thesis using pos by (metis short_le_def unat_eq_zero)
  qed
qed

lemma extended_le_ucast:
  fixes v :: u32
  assumes "v \<noteq> 0" "\<not> maximum_expected_data < v"
  shows "extended_le (ucast (drop_bit 8 v)) (ucast v) = unat v"
proof -
  have bound: "unat v \<le> 65536" using assms(2) by (simp add: maximum_expected_data_def word_less_nat_alt)
  have pos: "unat v \<noteq> 0" using assms(1) by (simp add: unat_eq_zero)
  show ?thesis
    using bound pos by (cases "unat v = 65536") (simp_all add: extended_le_def be16_ucast)
qed

lemma read_short_length:
  assumes "0 < n" "n \<le> 255"
  shows "unat (of_nat n :: byte) = n" "(of_nat n :: byte) \<noteq> 0"
proof -
  show "unat (of_nat n :: byte) = n" using assms by (simp add: unat_of_nat)
  then show "(of_nat n :: byte) \<noteq> 0" using assms by (metis less_irrefl unat_0)
qed

lemma read_apdu_body_encode:
  assumes "length data \<le> maximum_command_data"
    and "\<And>n. le = Some n \<Longrightarrow> n \<noteq> 0 \<and> \<not> maximum_expected_data < n"
    and "\<not> ext \<Longrightarrow> length data \<le> 255 \<and> (\<forall>n. le = Some n \<longrightarrow> \<not> 256 < n)"
  shows "read_apdu_body (encode_body ext data le) = Some (data, map_option unat le)"
proof (cases data)
  case Nil
  then show ?thesis
    using assms(2,3)
    by (cases le) (auto simp: read_apdu_body_def encode_body_def short_le_ucast extended_le_ucast)
next
  case (Cons d ds)
  note size = assms(1)[unfolded maximum_command_data_def]
  show ?thesis
  proof (cases ext)
    case True
    have "be16 (of_nat (drop_bit 8 (length data))) (of_nat (length data)) = length data"
      using size by (intro be16_of_nat) simp
    then show ?thesis
      using Cons True assms(2)
      by (cases le) (auto simp: read_apdu_body_def encode_body_def read_extended_body_def
          extended_le_ucast nth_append simp del: of_nat_Suc)
  next
    case False
    have "unat (of_nat (length data) :: byte) = length data" "(of_nat (length data) :: byte) \<noteq> 0"
      using read_short_length [of "length data"] Cons False assms(3) by auto
    then show ?thesis
      using Cons False assms(2,3)
      by (cases le) (auto simp: read_apdu_body_def encode_body_def read_short_body_def
          short_le_ucast nth_append simp del: of_nat_Suc)
  qed
qed

section \<open>Channel lemmas\<close>

lemma budget_make_recording:
  "budget_make (recording E) opts (s, log) = (case budget_make E opts s of (b, s') \<Rightarrow> (b, (s', log)))"
  by (simp add: budget_make_def Let_def split: prod.splits)

lemma budget_step_recording [simp]:
  "budget_step m1 m2 m3 (recording E) b sent (s, log) =
     (case budget_step m1 m2 m3 E b sent s of (r, s') \<Rightarrow> (r, (s', log)))"
  by (simp add: budget_step_def Let_def split: prod.splits)

lemma budget_step_error:
  "budget_step m1 m2 m3 E b sent s = (Inl e, s') \<Longrightarrow>
     err_outcome e = (if sent then OC_unknown else OC_not_sent)"
  by (auto simp: budget_step_def Let_def split: prod.splits if_splits)

lemma budget_step_timeout:
  "budget_step m1 m2 m3 E b sent s = (Inr opts, s') \<Longrightarrow>
     0 < opt_timeout opts \<and> opt_stop opts = opt_stop (bd_options b)"
  by (auto simp: budget_step_def Let_def split: prod.splits if_splits)

lemma iso_malformed_outcome [simp]: "err_outcome (iso_malformed m st) = OC_unknown"
  by (simp add: iso_malformed_def)

lemma iso_decode_Inr:
  "iso_decode w = Inr resp \<longleftrightarrow>
     2 \<le> length w \<and> ir_data resp = answer_data (f, Returned (Inr w)) \<and> ir_status resp = answer_status w"
  by (cases resp) (auto simp: iso_decode_def answer_data_def answer_status_def)

lemma iso_decode_Inl: "iso_decode w = Inl e \<Longrightarrow> err_outcome e = OC_unknown"
  by (auto simp: iso_decode_def split: if_splits)

text \<open>What accepting one frame means for the loop.\<close>

lemma iso_accept_error: "iso_accept caps a limits w p = Inl (Inl e) \<Longrightarrow> err_outcome e \<noteq> OC_not_sent"
  by (auto simp: iso_accept_def Let_def dest: iso_decode_Inl split: if_splits sum.splits)

lemma iso_accept_done:
  assumes "iso_accept caps a limits w p = Inl (Inr resp)"
    and "length (ip_assembled p) \<le> lim_max_response limits"
  shows "ir_data resp = ip_assembled p @ answer_data (f, Returned (Inr w)) \<and>
         ir_status resp = answer_status w \<and> sw1 (answer_status w) \<noteq> 0x61 \<and>
         length (ir_data resp) \<le> lim_max_response limits"
  using assms
  by (auto simp: iso_accept_def Let_def iso_decode_Inr [where f = f] split: if_splits sum.splits)

lemma iso_accept_more:
  assumes "iso_accept caps a limits w p = Inr p1"
    and "length (ip_assembled p) \<le> lim_max_response limits"
  shows "ip_sent p1 \<and> length (ip_assembled p1) \<le> lim_max_response limits \<and>
         ip_assembled p1 = ip_assembled p @ answer_data (f, Returned (Inr w)) \<and>
         (ip_continuation p1 \<or> ip_corrected p1) \<and>
         (if sw1 (answer_status w) = 0x61 then ip_request p1 = get_response (sw2 (answer_status w))
          else sw1 (answer_status w) = 0x6C \<and>
               (lim_correct_length limits \<and> \<not> ip_continuation p \<and> \<not> ip_corrected p) \<and>
               iso_encode (a\<lparr>a_le := Some (adjusted_length (sw2 (answer_status w)))\<rparr>) = Inr (ip_request p1))"
  using assms
  by (auto simp: iso_accept_def Let_def iso_decode_Inr [where f = f] split: if_splits sum.splits)

lemma iso_step_cases [consumes 1, case_names unsent failed answered]:
  assumes "iso_step (recording E) a limits b p (s, log) = (r, (s', log'))"
  obtains (unsent) e where "r = Inl (Inl e)" "log' = log"
      "ip_sent p \<Longrightarrow> err_outcome e \<noteq> OC_not_sent"
  | (failed) ans e where "length (ip_request p) \<le> max_transmit (env_capabilities E)"
      "log' = log @ [(ip_request p, ans)]" "r = Inl (Inl e)" "\<not> delivered (ip_request p, ans)"
      "err_outcome e = OC_not_sent \<Longrightarrow> \<not> ip_sent p \<and> not_sent_entry (ip_request p, ans)"
  | (answered) w where "length (ip_request p) \<le> max_transmit (env_capabilities E)"
      "log' = log @ [(ip_request p, Returned (Inr w))]"
      "(\<exists>e. r = Inl (Inl e) \<and> err_outcome e = OC_unknown) \<or>
       r = iso_accept (env_capabilities E) a limits w p"
proof -
  obtain n s1 where nx: "budget_next E b (ip_sent p) s = (n, s1)" by fastforce
  show thesis
  proof (cases n)
    case (Inl e)
    then show thesis
      using assms nx
      by (intro unsent [of e]) (auto simp: iso_step_def budget_next_def dest: budget_step_error)
  next
    case (Inr controls)
    note nx' = nx [unfolded Inr budget_next_def]
    show thesis
    proof (cases "length (ip_request p) > max_transmit (env_capabilities E)")
      case True
      then show thesis
        using assms nx' by (intro unsent) (auto simp: iso_step_def budget_next_def)
    next
      case False
      obtain ans s2 where ex: "env_exchange E (ip_request p) controls s1 = (ans, s2)" by fastforce
      note step = assms [unfolded iso_step_def budget_next_def, simplified, unfolded nx', simplified]
      show thesis
      proof (cases ans)
        case Threw
        then show thesis
          using step False ex
          by (intro failed [of Threw]) (auto simp: delivered_def)
      next
        case (Returned x)
        show thesis
        proof (cases x)
          case (Inl e)
          then show thesis
            using step False ex Returned
            by (intro failed [of "Returned (Inl e)" "if ip_sent p then sent_outcome e else e"])
               (auto simp: delivered_def not_sent_entry_def split: if_splits)
        next
          case (Inr w)
          then show thesis
            using step False ex Returned
            by (intro answered [of w]) (auto simp: Let_def split: prod.splits if_splits)
        qed
      qed
    qed
  qed
qed

lemma iso_loop_report:
  assumes "iso_loop n (recording E) a limits b p (s, log) = (r, (s', log'))"
    and "length (ip_assembled p) \<le> lim_max_response limits"
  obtains new where "log' = log @ new" "iso_report (env_capabilities E) a limits n p r new"
  using assms
proof (induction n arbitrary: p s log thesis)
  case 0
  then show ?case by (intro "0.prems"(1) [of "[]"]) (auto simp: iso_report_def)
next
  case (Suc n)
  obtain q s1 log1 where st: "iso_step (recording E) a limits b p (s, log) = (q, (s1, log1))"
    by (metis prod.exhaust)
  from st show ?case
  proof (cases rule: iso_step_cases)
    case (unsent e)
    then show ?thesis
      using Suc.prems(2) st by (intro Suc.prems(1) [of "[]"]) (auto simp: iso_report_def)
  next
    case (failed ans e)
    then show ?thesis
      using Suc.prems(2) st
      by (intro Suc.prems(1) [of "[(ip_request p, ans)]"]) (auto simp: iso_report_def)
  next
    case (answered w)
    let ?entry = "(ip_request p, Returned (Inr w)) :: bytes \<times> bytes result dep"
    show ?thesis
    proof (cases q)
      case (Inl res)
      show ?thesis
      proof (intro Suc.prems(1) [of "[?entry]"])
        show "log' = log @ [?entry]" using Suc.prems(2) st Inl answered by simp
        have "r = res" using Suc.prems(2) st Inl by simp
        show "iso_report (env_capabilities E) a limits (Suc n) p r [?entry]"
        proof (cases res)
          case (Inl e)
          then show ?thesis
            using \<open>r = res\<close> answered \<open>q = Inl res\<close> iso_accept_error [of "env_capabilities E" a limits w p e]
            by (auto simp: iso_report_def)
        next
          case (Inr resp)
          then have "iso_accept (env_capabilities E) a limits w p = Inl (Inr resp)"
            using answered(3) \<open>q = Inl res\<close> by simp
          from iso_accept_done [OF this Suc.prems(3), of "ip_request p"] show ?thesis
            using \<open>r = res\<close> Inr answered(1) by (auto simp: iso_report_def delivered_def)
        qed
      qed
    next
      case (Inr p1)
      then have acc: "iso_accept (env_capabilities E) a limits w p = Inr p1" using answered by simp
      note more = iso_accept_more [OF acc Suc.prems(3), of "ip_request p"]
      have "iso_loop n (recording E) a limits b p1 (s1, log1) = (r, (s', log'))"
        using Suc.prems(2) st Inr by simp
      then obtain new where new: "log' = log1 @ new" "iso_report (env_capabilities E) a limits n p1 r new"
        using Suc.IH more by blast
      show ?thesis
      proof (intro Suc.prems(1) [of "?entry # new"])
        show "log' = log @ ?entry # new" using new answered by simp
        show "iso_report (env_capabilities E) a limits (Suc n) p r (?entry # new)"
          using new(2) more answered(1)
          by (cases r) (auto simp: iso_report_def delivered_def split: if_splits)
      qed
    qed
  qed
qed

text \<open>A logical command either stops before its first frame or runs the frame loop.\<close>

lemma iso_exchange_report:
  assumes "iso_exchange (recording E) a opts limits ch (s, log) = (r, ch', (s', log'))"
  shows "ch' = ch \<and>
    ((\<exists>e. r = Inl e) \<and> log' = log \<or>
     (\<exists>request new. iso_encode a = Inr request \<and> log' = log @ new \<and>
        iso_report (env_capabilities E) a limits (lim_max_frames limits) (initial_progress request) r new))"
proof (cases "ic_operation_active ch")
  case True
  then show ?thesis using assms by (auto simp: iso_exchange_def)
next
  case False
  show ?thesis
  proof (cases "iso_precheck (env_capabilities E) a opts limits")
    case (Inl e)
    show ?thesis using False Inl assms by (auto simp: iso_exchange_def)
  next
    case (Inr request)
    then have enc: "iso_encode a = Inr request"
      by (auto simp: iso_precheck_def split: if_splits sum.splits)
    obtain b s1 where bm: "budget_make (recording E) opts (s, log) = (b, (s1, log))"
      by (cases "budget_make E opts s") (simp add: budget_make_recording)
    obtain ch2: "ch' = ch" and
      run: "iso_loop (lim_max_frames limits) (recording E) a limits b (initial_progress request) (s1, log)
              = (r, (s', log'))"
      using assms False Inr bm by (auto simp: iso_exchange_def split: prod.splits)
    from iso_loop_report [OF run] show ?thesis
      using ch2 enc by (fastforce simp: initial_progress_def)
  qed
qed

lemmas iso_channel_eval = iso_exchange_def iso_precheck_def budget_make_def budget_next_def
  budget_step_def iso_step_def iso_accept_def iso_decode_def iso_encode_def encode_body_def
  needs_extended_def valid_encoding_def maximum_command_data_def maximum_expected_data_def
  initial_progress_def sw1_def sw2_def adjusted_length_def get_response_def truncate_milliseconds_def
  replay_exchange_def replay_capabilities_def

lemma iso_loop_numeral:
  "iso_loop (numeral k) E a limits b p s =
     (case iso_step E a limits b p s of
        (Inl r, s1) \<Rightarrow> (r, s1)
      | (Inr p1, s1) \<Rightarrow> iso_loop (pred_numeral k) E a limits b p1 s1)"
  by (simp add: numeral_eq_Suc)

lemma demo_iso_run:
  "iso_exchange (recording (replay_environment demo_iso_capabilities)) demo_apdu
         \<lparr>opt_timeout = 5000, opt_stop = 0\<rparr>
         \<lparr>lim_max_response = 16, lim_max_frames = 4, lim_correct_length = True\<rparr> iso_create
         (demo_iso_transport, []) =
       (Inr \<lparr>ir_data = [1, 2, 3], ir_status = 0x9000\<rparr>, iso_create,
        (demo_iso_transport\<lparr>rp_steps := [], rp_clock := 4\<rparr>,
            [([0x00, 0xB0, 0, 0, 4], Returned (Inr [0x6C, 3])),
             ([0x00, 0xB0, 0, 0, 3], Returned (Inr [1, 2, 0x61, 1])),
             ([0x00, 0xC0, 0, 0, 1], Returned (Inr [3, 0x90, 0x00]))]))"
  by (simp add: iso_channel_eval demo_iso_capabilities_def demo_apdu_def demo_iso_transport_def
      iso_create_def Let_def iso_loop_numeral replay_environment_def recording_def observe_def
      cong: prod.case_cong_weak sum.case_cong_weak)

section \<open>Properties\<close>

text \<open>
  C23. Frames of an ISO command. Whatever the transport and the card do, a logical command puts at
  most the configured number of frames on the wire, none longer than the transmit capacity: first
  the encoded command, then only GET RESPONSE frames after 61xx answers and at most one repetition
  with the corrected length after a 6Cxx answer that precedes every continuation. A success returns
  the concatenated data of all answers, within the configured limit, and the last status, which is
  not 61xx; an error reported as not sent means that no frame was delivered. The channel is left as
  it was.
\<close>

theorem iso_exchange_frames:
  assumes "iso_exchange (recording E) a opts limits ch (s, log) = (r, ch', (s', log'))"
  shows "ch' = ch \<and> (\<exists>new. log' = log @ new \<and> length new \<le> lim_max_frames limits \<and>
           list_all (\<lambda>entry. length (fst entry) \<le> max_transmit (env_capabilities E)) new \<and>
           (case iso_encode a of
              Inl _ \<Rightarrow> new = []
            | Inr request \<Rightarrow> iso_trace a (lim_correct_length limits) request new) \<and>
           (case r of
              Inl e \<Rightarrow> err_outcome e \<noteq> OC_not_sent \<or> length new \<le> 1 \<and> list_all not_sent_entry new
            | Inr resp \<Rightarrow>
                new \<noteq> [] \<and> list_all delivered new \<and>
                ir_data resp = concat (map answer_data new) \<and>
                length (ir_data resp) \<le> lim_max_response limits \<and>
                (case snd (last new) of
                   Returned (Inr w) \<Rightarrow> ir_status resp = answer_status w \<and> sw1 (answer_status w) \<noteq> 0x61
                 | _ \<Rightarrow> False)))"
  using iso_exchange_report [OF assms]
  by (cases r) (auto simp: iso_report_def initial_progress_def split: sum.splits)

theorem iso_exchange_frames_witness:
  "\<exists>new. snd (snd (snd (iso_exchange (recording (replay_environment demo_iso_capabilities)) demo_apdu
         \<lparr>opt_timeout = 5000, opt_stop = 0\<rparr>
         \<lparr>lim_max_response = 16, lim_max_frames = 4, lim_correct_length = True\<rparr> iso_create
         (demo_iso_transport, [])))) = new \<and>
     iso_trace demo_apdu True [0x00, 0xB0, 0, 0, 4] new \<and> concat (map answer_data new) = [1, 2, 3]"
proof -
  have "iso_encode demo_apdu = Inr [0x00, 0xB0, 0, 0, 4]"
    by (simp add: demo_apdu_def iso_channel_eval)
  with demo_iso_run iso_exchange_frames show ?thesis by fastforce
qed

text \<open>
  C35. APDU round trip. A receiver that parses an encoded command by the cases of ISO 7816-3 recovers
  its header, its data and its expected length, for short and extended encodings and also at the
  boundary values 256 and 65536 that are encoded as zero.
\<close>

theorem iso_encode_read:
  assumes "iso_encode a = Inr wire"
  shows "read_apdu wire = Some (a_cla a, a_ins a, a_p1 a, a_p2 a, a_data a, map_option unat (a_le a))"
proof -
  have "read_apdu_body (encode_body (a_encoding a = extended \<or> needs_extended a) (a_data a) (a_le a)) =
        Some (a_data a, map_option unat (a_le a))"
    using assms
    by (intro read_apdu_body_encode)
       (auto simp: iso_encode_def needs_extended_def split: if_splits option.splits)
  then show ?thesis
    using assms by (auto simp: iso_encode_def read_apdu_def split: if_splits)
qed

theorem iso_encode_read_witness:
  "read_apdu [0x00, 0xB0, 0, 0, 4] = Some (0, 0xB0, 0, 0, [], Some 4)"
  using iso_encode_read [of demo_apdu "[0x00, 0xB0, 0, 0, 4]"]
  by (simp add: demo_apdu_def iso_channel_eval)

end
