(* ===== verification/Iso_Commands.thy ===== *)
theory Iso_Commands
  imports Iso_Channel
begin

text \<open>
  Checked ISO commands (\<^verbatim>\<open>core/src/iso7816/checked/command.cpp\<close>) and the checked channel
  (\<^verbatim>\<open>checked/channel.cpp\<close>): builders that validate every selector and length before they
  produce an interindustry APDU, the classification of commands, and the exchange that allows the
  length correction for reads only. The theorems show that every command a builder produces can be
  encoded and owns the payload its instruction needs, and that a command that is not a read is
  transmitted at most once.
\<close>

section \<open>Selectors\<close>

text \<open>
  The enumerations of \<^verbatim>\<open>checked/command.hpp\<close> have a byte as underlying type; the last
  constructor stands for a value outside the enumeration.
\<close>

datatype file_selection = by_identifier | child_df | elementary_file | file_selection_other byte
datatype selection_response = fci | no_fci | selection_response_other byte
datatype record_selection = one_record | from_record | record_selection_other byte
datatype update_record_instruction = update_record_dc | update_record_dd | update_record_other byte
datatype iso_algorithm = algorithm_context | algorithm_tdes2 | algorithm_tdes3 | algorithm_aes128
  | algorithm_other byte

fun file_selection_byte :: "file_selection \<Rightarrow> byte" where
  "file_selection_byte by_identifier = 0x00"
| "file_selection_byte child_df = 0x01"
| "file_selection_byte elementary_file = 0x02"
| "file_selection_byte (file_selection_other b) = b"

fun selection_response_byte :: "selection_response \<Rightarrow> byte" where
  "selection_response_byte fci = 0x00"
| "selection_response_byte no_fci = 0x0C"
| "selection_response_byte (selection_response_other b) = b"

fun record_selection_byte :: "record_selection \<Rightarrow> byte" where
  "record_selection_byte one_record = 0x04"
| "record_selection_byte from_record = 0x05"
| "record_selection_byte (record_selection_other b) = b"

fun update_record_byte :: "update_record_instruction \<Rightarrow> byte" where
  "update_record_byte update_record_dc = 0xDC"
| "update_record_byte update_record_dd = 0xDD"
| "update_record_byte (update_record_other b) = b"

fun algorithm_byte :: "iso_algorithm \<Rightarrow> byte" where
  "algorithm_byte algorithm_context = 0x00"
| "algorithm_byte algorithm_tdes2 = 0x02"
| "algorithm_byte algorithm_tdes3 = 0x04"
| "algorithm_byte algorithm_aes128 = 0x09"
| "algorithm_byte (algorithm_other b) = b"

definition valid_selection_response :: "selection_response \<Rightarrow> bool" where
  "valid_selection_response r = (r = fci \<or> r = no_fci)"

fun valid_algorithm_length :: "iso_algorithm \<Rightarrow> nat \<Rightarrow> bool" where
  "valid_algorithm_length algorithm_context n = (n = 8 \<or> n = 16)"
| "valid_algorithm_length algorithm_tdes2 n = (n = 8)"
| "valid_algorithm_length algorithm_tdes3 n = (n = 16)"
| "valid_algorithm_length algorithm_aes128 n = (n = 16)"
| "valid_algorithm_length (algorithm_other b) n = False"

text \<open>\<^verbatim>\<open>class BinaryAddress\<close> and the private value of \<^verbatim>\<open>class KeyReference\<close>.\<close>

record binary_address =
  ba_p1 :: byte
  ba_p2 :: byte

type_synonym iso_key_reference = byte

definition current_file :: "u32 \<Rightarrow> binary_address result" where
  "current_file off =
     (if off > 0x7FFF then Inl (invalid (STR ''ISO current-file offset exceeds fifteen bits''))
      else Inr \<lparr>ba_p1 = ucast (drop_bit 8 off), ba_p2 = ucast off\<rparr>)"

definition short_file :: "u32 \<Rightarrow> u32 \<Rightarrow> binary_address result" where
  "short_file identifier off =
     (if identifier > 31 \<or> off > 255
      then Inl (invalid (STR ''ISO short-file identifier or byte offset exceeds its field''))
      else Inr \<lparr>ba_p1 = ucast (0x80 OR identifier), ba_p2 = ucast off\<rparr>)"

definition iso_picc_master :: iso_key_reference where
  "iso_picc_master = 0"

definition iso_application_key :: "u32 \<Rightarrow> iso_key_reference result" where
  "iso_application_key number =
     (if number > 13 then Inl (invalid (STR ''ISO application key number must be zero through thirteen''))
      else Inr (ucast (0x80 OR number)))"

section \<open>Builders\<close>

type_synonym iso_command = apdu

definition iso_make ::
  "byte \<Rightarrow> byte \<Rightarrow> byte \<Rightarrow> bytes \<Rightarrow> u32 option \<Rightarrow> length_encoding \<Rightarrow> iso_command result" where
  "iso_make instruction p1 p2 data expected encoding =
     (let c = \<lparr>a_cla = 0x00, a_ins = instruction, a_p1 = p1, a_p2 = p2, a_data = data, a_le = expected,
               a_encoding = encoding\<rparr>
      in case iso_encode c of Inl e \<Rightarrow> Inl e | Inr _ \<Rightarrow> Inr c)"

definition fci_length :: "selection_response \<Rightarrow> length_encoding \<Rightarrow> u32 option" where
  "fci_length response encoding =
     (if response = fci then Some (if encoding = extended then 65536 else 256) else None)"

definition iso_select_file ::
  "u32 \<Rightarrow> file_selection \<Rightarrow> selection_response \<Rightarrow> length_encoding \<Rightarrow> iso_command result" where
  "iso_select_file identifier selection response encoding =
     (if identifier > 65535 \<or> \<not> valid_selection_response response \<or>
         (selection \<noteq> by_identifier \<and> selection \<noteq> child_df \<and> selection \<noteq> elementary_file)
      then Inl (invalid (STR ''ISO file selection has an invalid identifier or selector''))
      else iso_make 0xA4 (file_selection_byte selection) (selection_response_byte response)
             [ucast (drop_bit 8 identifier), ucast identifier] (fci_length response encoding) encoding)"

definition iso_select_df_name ::
  "bytes \<Rightarrow> selection_response \<Rightarrow> length_encoding \<Rightarrow> iso_command result" where
  "iso_select_df_name name response encoding =
     (if name = [] \<or> length name > 16 \<or> \<not> valid_selection_response response
      then Inl (invalid (STR ''ISO DF name must contain one through sixteen bytes''))
      else iso_make 0xA4 0x04 (selection_response_byte response) name (fci_length response encoding) encoding)"

definition iso_read_binary :: "binary_address \<Rightarrow> u32 \<Rightarrow> length_encoding \<Rightarrow> iso_command result" where
  "iso_read_binary address expected encoding =
     iso_make 0xB0 (ba_p1 address) (ba_p2 address) [] (Some expected) encoding"

definition iso_update_binary :: "binary_address \<Rightarrow> bytes \<Rightarrow> length_encoding \<Rightarrow> iso_command result" where
  "iso_update_binary address data encoding =
     (if data = [] then Inl (invalid (STR ''ISO UPDATE BINARY requires nonempty data''))
      else iso_make 0xD6 (ba_p1 address) (ba_p2 address) data None encoding)"

definition iso_read_records ::
  "u32 \<Rightarrow> u32 \<Rightarrow> record_selection \<Rightarrow> u32 \<Rightarrow> length_encoding \<Rightarrow> iso_command result" where
  "iso_read_records number short_identifier selection expected encoding =
     (if number > 255 \<or> short_identifier > 31 \<or> (selection \<noteq> one_record \<and> selection \<noteq> from_record)
      then Inl (invalid (STR ''ISO record selection exceeds its field or uses an invalid mode''))
      else iso_make 0xB2 (ucast number)
             (ucast (push_bit 3 short_identifier OR ucast (record_selection_byte selection))) []
             (Some expected) encoding)"

definition iso_append_record :: "u32 \<Rightarrow> bytes \<Rightarrow> length_encoding \<Rightarrow> iso_command result" where
  "iso_append_record short_identifier data encoding =
     (if short_identifier > 31 \<or> data = []
      then Inl (invalid (STR ''ISO APPEND RECORD requires a five-bit identifier and nonempty data''))
      else iso_make 0xE2 0x00 (ucast (push_bit 3 short_identifier)) data None encoding)"

definition iso_update_record ::
  "update_record_instruction \<Rightarrow> u32 \<Rightarrow> u32 \<Rightarrow> u32 \<Rightarrow> bytes \<Rightarrow> iso_command result" where
  "iso_update_record instruction number short_identifier reference_control data =
     (if (instruction \<noteq> update_record_dc \<and> instruction \<noteq> update_record_dd) \<or> number > 255 \<or>
         short_identifier > 31 \<or> reference_control > 7 \<or> data = [] \<or> length data > 255
      then Inl (invalid (STR ''ISO UPDATE RECORD has an invalid instruction, selector, or length''))
      else iso_make (update_record_byte instruction) (ucast number)
             (ucast (push_bit 3 short_identifier OR reference_control)) data None short_apdu)"

definition iso_get_challenge :: "u32 \<Rightarrow> length_encoding \<Rightarrow> iso_command result" where
  "iso_get_challenge expected encoding =
     (if expected \<noteq> 8 \<and> expected \<noteq> 16
      then Inl (invalid (STR ''ISO GET CHALLENGE requires eight or sixteen bytes''))
      else iso_make 0x84 0x00 0x00 [] (Some expected) encoding)"

definition iso_external_authenticate ::
  "iso_algorithm \<Rightarrow> iso_key_reference \<Rightarrow> bytes \<Rightarrow> length_encoding \<Rightarrow> iso_command result" where
  "iso_external_authenticate algorithm key cryptogram encoding =
     (if length cryptogram mod 2 \<noteq> 0 \<or> \<not> valid_algorithm_length algorithm (length cryptogram div 2)
      then Inl (invalid (STR ''ISO external authentication cryptogram length does not match its algorithm''))
      else iso_make 0x82 (algorithm_byte algorithm) key cryptogram None encoding)"

definition iso_internal_authenticate ::
  "iso_algorithm \<Rightarrow> iso_key_reference \<Rightarrow> bytes \<Rightarrow> length_encoding \<Rightarrow> iso_command result" where
  "iso_internal_authenticate algorithm key challenge encoding =
     (if \<not> valid_algorithm_length algorithm (length challenge)
      then Inl (invalid (STR ''ISO internal authentication challenge length does not match its algorithm''))
      else iso_make 0x88 (algorithm_byte algorithm) key challenge
             (Some (of_nat (length challenge * 2))) encoding)"

section \<open>Classification\<close>

definition is_read :: "iso_command \<Rightarrow> bool" where
  "is_read c = (a_ins c = 0xB0 \<or> a_ins c = 0xB2)"

definition is_write :: "iso_command \<Rightarrow> bool" where
  "is_write c = (a_ins c = 0xD6 \<or> a_ins c = 0xDC \<or> a_ins c = 0xDD \<or> a_ins c = 0xE2)"

definition is_selection :: "iso_command \<Rightarrow> bool" where
  "is_selection c = (a_ins c = 0xA4)"

definition resets_authentication :: "iso_command \<Rightarrow> bool" where
  "resets_authentication c =
     ((is_selection c \<and> a_p1 c \<noteq> 0x02) \<or> a_ins c = 0x84 \<or> a_ins c = 0x82 \<or> a_ins c = 0x88)"

section \<open>The checked channel\<close>

text \<open>
  \<^verbatim>\<open>struct Limits\<close> of \<^verbatim>\<open>checked/response.hpp\<close> has the fields of the raw limits with
  \<^verbatim>\<open>correct_read_length\<close> in the last place; a checked response has the fields of a raw one.
\<close>

definition requires_payload :: "iso_command \<Rightarrow> bool" where
  "requires_payload c = (is_selection c \<or> is_write c \<or> a_ins c = 0x82 \<or> a_ins c = 0x88)"

definition checked_exchange ::
  "'s environment \<Rightarrow> iso_command \<Rightarrow> exchange_options \<Rightarrow> iso_limits \<Rightarrow> iso_channel \<Rightarrow> 's
     \<Rightarrow> iso_response result \<times> iso_channel \<times> 's" where
  "checked_exchange E c opts limits ch s =
     (if requires_payload c \<and> a_data c = []
      then (Inl (invalid (STR ''ISO checked command no longer owns its required payload'')), ch, s)
      else iso_exchange E c opts (limits\<lparr>lim_correct_length := lim_correct_length limits \<and> is_read c\<rparr>) ch s)"

section \<open>Specification: the calls of a client\<close>

text \<open>One constructor for each builder a client can call.\<close>

datatype iso_call =
    Select_file u32 file_selection selection_response length_encoding
  | Select_df_name bytes selection_response length_encoding
  | Read_binary binary_address u32 length_encoding
  | Update_binary binary_address bytes length_encoding
  | Read_records u32 u32 record_selection u32 length_encoding
  | Append_record u32 bytes length_encoding
  | Update_record update_record_instruction u32 u32 u32 bytes
  | Get_challenge u32 length_encoding
  | External_authenticate iso_algorithm iso_key_reference bytes length_encoding
  | Internal_authenticate iso_algorithm iso_key_reference bytes length_encoding

fun iso_build :: "iso_call \<Rightarrow> iso_command result" where
  "iso_build (Select_file i sel r enc) = iso_select_file i sel r enc"
| "iso_build (Select_df_name name r enc) = iso_select_df_name name r enc"
| "iso_build (Read_binary addr n enc) = iso_read_binary addr n enc"
| "iso_build (Update_binary addr data enc) = iso_update_binary addr data enc"
| "iso_build (Read_records n i sel expected enc) = iso_read_records n i sel expected enc"
| "iso_build (Append_record i data enc) = iso_append_record i data enc"
| "iso_build (Update_record ins n i ref data) = iso_update_record ins n i ref data"
| "iso_build (Get_challenge n enc) = iso_get_challenge n enc"
| "iso_build (External_authenticate alg key data enc) = iso_external_authenticate alg key data enc"
| "iso_build (Internal_authenticate alg key data enc) = iso_internal_authenticate alg key data enc"

text \<open>
  The type of a checked command: interindustry class, a known instruction, encodable, with the
  payload its instruction requires, and a read asks for at least one byte.
\<close>

definition iso_command_ok :: "iso_command \<Rightarrow> bool" where
  "iso_command_ok c \<longleftrightarrow>
     a_cla c = 0 \<and>
     a_ins c \<in> {0xA4, 0xB0, 0xB2, 0xD6, 0xDC, 0xDD, 0xE2, 0x82, 0x84, 0x88} \<and>
     (case iso_encode c of Inr _ \<Rightarrow> True | Inl _ \<Rightarrow> False) \<and>
     (requires_payload c \<longleftrightarrow> a_data c \<noteq> []) \<and>
     (is_read c \<longrightarrow> (case a_le c of None \<Rightarrow> False | Some n \<Rightarrow> 0 < n))"

section \<open>Lemmas\<close>

lemma iso_make_Inr:
  "iso_make ins p1 p2 data le enc = Inr c \<longleftrightarrow>
     c = \<lparr>a_cla = 0, a_ins = ins, a_p1 = p1, a_p2 = p2, a_data = data, a_le = le, a_encoding = enc\<rparr> \<and>
     (\<exists>wire. iso_encode c = Inr wire)"
  by (auto simp: iso_make_def Let_def split: sum.splits)

lemmas iso_builder_defs = iso_select_file_def iso_select_df_name_def iso_read_binary_def
  iso_update_binary_def iso_read_records_def iso_append_record_def iso_update_record_def
  iso_get_challenge_def iso_external_authenticate_def iso_internal_authenticate_def

lemmas iso_class_defs = requires_payload_def is_selection_def is_write_def is_read_def

lemma iso_encode_le: "iso_encode c = Inr wire \<Longrightarrow> a_le c = Some n \<Longrightarrow> 0 < n"
  by (auto simp: iso_encode_def word_neq_0_conv split: if_splits)

lemma valid_algorithm_length_pos: "valid_algorithm_length alg n \<Longrightarrow> 0 < n"
  by (cases alg) auto

lemma update_record_code: "ins = update_record_dc \<or> ins = update_record_dd \<Longrightarrow>
    update_record_byte ins = 0xDC \<or> update_record_byte ins = 0xDD"
  by auto

text \<open>Without correction, everything after the first frame is a GET RESPONSE.\<close>

lemma iso_trace_uncorrected:
  "iso_trace a False request new \<Longrightarrow> \<forall>entry \<in> set (tl new). \<exists>n. fst entry = get_response n"
proof (induction a "False" request new rule: iso_trace.induct)
  case (2 a request entry rest)
  show ?case
  proof (cases rest)
    case (Cons e2 rest2)
    then obtain w where "snd entry = Returned (Inr w)" "sw1 (answer_status w) = 0x61"
      "iso_trace a False (get_response (sw2 (answer_status w))) rest"
      using "2.prems" by (auto split: dep.splits sum.splits if_splits)
    then show ?thesis using "2.hyps"(1) Cons by auto
  qed simp
qed simp

text \<open>The address fields of the two selector forms do not overlap and lose nothing.\<close>

lemma current_file_fields:
  assumes "current_file off = Inr a"
  shows "be16 (ba_p1 a) (ba_p2 a) = unat off \<and> \<not> bit (ba_p1 a) 7"
proof -
  have bound: "unat off \<le> 32767"
    using assms by (auto simp: current_file_def word_less_nat_alt split: if_splits)
  have a: "a = \<lparr>ba_p1 = ucast (drop_bit 8 off), ba_p2 = ucast off\<rparr>"
    using assms by (auto simp: current_file_def split: if_splits)
  have "\<not> bit (unat off) 15" using bound by (simp add: bit_iff_odd)
  then have "\<not> bit off 15" by (simp add: bit_unsigned_iff)
  then show ?thesis
    using a bound be16_ucast [of off] by (simp add: bit_simps)
qed

section \<open>Properties\<close>

text \<open>
  C36. Every checked ISO command is well typed. Whatever arguments a client passes, a command that a
  builder returns has the interindustry class and a known instruction, can be encoded, carries data
  exactly when its instruction needs data, and asks for at least one byte when it is a read; so the
  channel's check for a lost payload never refuses a command a client just built.
\<close>

theorem iso_build_ok:
  assumes "iso_build call = Inr c"
  shows "iso_command_ok c \<and> \<not> (requires_payload c \<and> a_data c = [])"
proof -
  from assms obtain wire where "iso_encode c = Inr wire"
    by (cases call) (auto simp: iso_builder_defs iso_make_Inr split: if_splits)
  moreover have "a_cla c = 0 \<and> a_ins c \<in> {0xA4, 0xB0, 0xB2, 0xD6, 0xDC, 0xDD, 0xE2, 0x82, 0x84, 0x88} \<and>
      (requires_payload c \<longleftrightarrow> a_data c \<noteq> []) \<and> (is_read c \<longrightarrow> a_le c \<noteq> None)"
    using assms
    by (cases call) (auto simp: iso_builder_defs iso_make_Inr iso_class_defs
        dest: valid_algorithm_length_pos update_record_code split: if_splits)
  ultimately show ?thesis
    by (auto simp: iso_command_ok_def dest: iso_encode_le split: option.splits)
qed

theorem iso_build_ok_witness:
  "\<exists>c. iso_build (Update_binary \<lparr>ba_p1 = 0, ba_p2 = 4\<rparr> [1, 2, 3] automatic) = Inr c \<and> iso_command_ok c"
proof -
  obtain c where "iso_build (Update_binary \<lparr>ba_p1 = 0, ba_p2 = 4\<rparr> [1, 2, 3] automatic) = Inr c"
    by (simp add: iso_update_binary_def iso_make_def iso_encode_def Let_def valid_encoding_def
        maximum_command_data_def needs_extended_def)
  with iso_build_ok show ?thesis by blast
qed

text \<open>
  Commands with effects are not repeated. For a command that is not a read, every frame after
  the first is a GET RESPONSE, whatever the card answers and whatever limits the client asks for: a
  length rejection never makes the channel transmit a write, selection or authentication twice.
\<close>

theorem checked_exchange_once:
  assumes "checked_exchange (recording E) c opts limits ch (s, log) = (r, ch', (s', log'))"
    and "\<not> is_read c"
  shows "\<exists>new. log' = log @ new \<and> (\<forall>entry \<in> set (tl new). \<exists>n. fst entry = get_response n)"
proof (cases "requires_payload c \<and> a_data c = []")
  case True
  then show ?thesis using assms(1) by (auto simp: checked_exchange_def)
next
  case False
  then have run: "iso_exchange (recording E) c opts (limits\<lparr>lim_correct_length := False\<rparr>) ch (s, log) =
      (r, ch', (s', log'))"
    using assms by (simp add: checked_exchange_def split: if_splits)
  from iso_exchange_report [OF run] show ?thesis
    by (auto simp: iso_report_def dest: iso_trace_uncorrected)
qed

theorem checked_exchange_once_witness:
  "\<exists>c new. iso_build (Get_challenge 8 automatic) = Inr c \<and>
     snd (snd (snd (checked_exchange (recording (replay_environment demo_iso_capabilities)) c
         \<lparr>opt_timeout = 5000, opt_stop = 0\<rparr>
         \<lparr>lim_max_response = 16, lim_max_frames = 4, lim_correct_length = True\<rparr> iso_create
         (demo_iso_transport, [])))) = new \<and> (\<forall>entry \<in> set (tl new). \<exists>n. fst entry = get_response n)"
proof -
  obtain c where c: "iso_build (Get_challenge 8 automatic) = Inr c" "\<not> is_read c"
    by (simp add: iso_get_challenge_def iso_make_def iso_encode_def Let_def valid_encoding_def
        maximum_command_data_def maximum_expected_data_def needs_extended_def is_read_def)
  obtain r ch' s' log' where "checked_exchange (recording (replay_environment demo_iso_capabilities)) c
         \<lparr>opt_timeout = 5000, opt_stop = 0\<rparr>
         \<lparr>lim_max_response = 16, lim_max_frames = 4, lim_correct_length = True\<rparr> iso_create
         (demo_iso_transport, []) = (r, ch', (s', log'))"
    by (metis prod.exhaust)
  with checked_exchange_once [OF this c(2)] c(1) show ?thesis by auto
qed

end
