(* ===== verification/Iso_Session.thy ===== *)
theory Iso_Session
  imports Iso_Commands Standard_Aes_Session
begin

text \<open>
  ISO AES authentication and the session it yields
  (\<^verbatim>\<open>core/src/iso7816/security/aes\<close>): the three commands of the mutual authentication, the
  retained CMAC with its own subkey derivation, and the execution of data commands whose read
  responses carry an eight-byte MAC. The theorems show that this CMAC and the one of the native
  standard AES session are the same function, what a successful authentication establishes, and
  that a session never survives a command whose effect is uncertain and never returns unverified
  data.
\<close>

section \<open>State and helpers\<close>

text \<open>The members of \<^verbatim>\<open>class Session\<close>; the channel it is bound to is compared by identity only.\<close>

record iso_session =
  is_reference :: iso_key_reference
  is_key :: bytes
  is_iv :: bytes
  is_generation :: u64
  is_valid :: bool

definition success_status :: u16 where
  "success_status = 0x9000"

definition aes_budget_next :: "'s environment \<Rightarrow> iso_budget \<Rightarrow> bool \<Rightarrow> 's \<Rightarrow> exchange_options result \<times> 's" where
  "aes_budget_next =
     budget_step (STR ''Card state changed during ISO AES authentication'')
       (STR ''ISO AES authentication cancelled'') (STR ''ISO AES authentication deadline expired'')"

text \<open>\<^verbatim>\<open>equal_secret\<close>: the accumulated difference of all positions is zero.\<close>

definition equal_secret :: "bytes \<Rightarrow> bytes \<Rightarrow> bool" where
  "equal_secret left right =
     (if length left \<noteq> length right then False
      else foldl (\<lambda>difference (l, r). difference OR (ucast (l XOR r) :: u32)) 0 (zip left right) = 0)"

text \<open>The loop of \<^verbatim>\<open>double_subkey\<close> from the last byte to the first, with its final carry.\<close>

fun subkey_loop :: "nat \<Rightarrow> byte \<Rightarrow> bytes \<Rightarrow> bytes \<Rightarrow> bytes \<times> byte" where
  "subkey_loop 0 carry input result = (result, carry)"
| "subkey_loop (Suc index) carry input result =
     subkey_loop index (drop_bit 7 (input ! index)) input
       (result[index := push_bit 1 (input ! index) OR carry])"

definition double_subkey :: "bytes \<Rightarrow> bytes" where
  "double_subkey input =
     (case subkey_loop 16 0 input (replicate 16 0) of
        (result, carry) \<Rightarrow> if carry \<noteq> 0 then result[15 := result ! 15 XOR 0x87] else result)"

text \<open>The padded blocks of \<^verbatim>\<open>retained_cmac\<close> with the subkey mixed into the last one.\<close>

definition retained_blocks :: "bytes \<Rightarrow> bytes \<Rightarrow> bytes" where
  "retained_blocks base_key input =
     (let complete = (input \<noteq> [] \<and> length input mod 16 = 0);
          first = double_subkey base_key;
          subkey = (if complete then first else double_subkey first);
          padded_size = (length input div 16 + (if complete then 0 else 1)) * 16;
          bytes = input @ replicate (padded_size - length input) 0;
          bytes1 = (if complete then bytes else bytes[length input := 0x80])
      in take (padded_size - 16) bytes1 @
         map (\<lambda>index. bytes1 ! (padded_size - 16 + index) XOR subkey ! index) [0..<16])"

definition retained_cmac :: "crypto_provider \<Rightarrow> bytes \<Rightarrow> bytes \<Rightarrow> bytes \<Rightarrow> ('s, bytes) action" where
  "retained_cmac C key iv input =
     act_bind (act_lift (cbc C aes128 key (replicate 16 0) (replicate 16 0) True)) (\<lambda>base_key.
     if length base_key \<noteq> 16
     then act_require (Inl (local_error EC_crypto (STR ''ISO AES provider returned invalid CMAC subkey size'')))
     else let blocks = retained_blocks base_key input
     in act_bind (act_lift (cbc C aes128 key iv blocks True)) (\<lambda>ciphertext.
        if length ciphertext \<noteq> length blocks
        then act_require (Inl (local_error EC_crypto (STR ''ISO AES provider returned invalid CMAC block size'')))
        else act_return (last_bytes 16 ciphertext)))"

definition require_success :: "iso_response result \<Rightarrow> nat \<Rightarrow> String.literal \<Rightarrow> iso_response result" where
  "require_success response exact_length operation =
     (case response of
        Inl e \<Rightarrow> Inl e
      | Inr r \<Rightarrow>
          if \<not> iso_success r
          then Inl (make_error EC_card_rejected (operation + STR '' rejected'') OC_rejected (ir_status r))
          else if length (ir_data r) \<noteq> exact_length
          then Inl (iso_malformed (operation + STR '' returned an unexpected length'') success_status)
          else Inr r)"

section \<open>The session\<close>

definition iso_invalidate :: "iso_session \<Rightarrow> iso_session" where
  "iso_invalidate ses = ses\<lparr>is_key := [], is_iv := wipe (is_iv ses), is_valid := False\<rparr>"

text \<open>The limits a protected command runs with, or the reason why it is refused.\<close>

definition protected_limits :: "iso_command \<Rightarrow> iso_limits \<Rightarrow> iso_limits result" where
  "protected_limits c limits =
     (if \<not> is_read c \<and> \<not> is_write c \<and> \<not> (is_selection c \<and> \<not> resets_authentication c)
      then Inl (local_error EC_unsupported (STR ''ISO AES session accepts data commands and EF selection only''))
      else if is_read c
      then if lim_max_response limits = 0 \<or> lim_max_response limits > unat maximum_expected_data
           then Inl (invalid (STR ''ISO authenticated read requires a response limit from one through 65536''))
           else Inr (limits\<lparr>lim_correct_length := False, lim_max_response := lim_max_response limits + 8\<rparr>)
      else Inr (limits\<lparr>lim_correct_length := False\<rparr>))"

text \<open>The verification of a read response of at least eight bytes.\<close>

definition verify_read ::
  "'s environment \<Rightarrow> crypto_provider \<Rightarrow> iso_response \<Rightarrow> iso_session \<Rightarrow> 's
     \<Rightarrow> iso_response result \<times> iso_session \<times> 's" where
  "verify_read E C response ses s =
     (let payload_size = length (ir_data response) - 8
      in case retained_cmac C (is_key ses) (is_iv ses) (take payload_size (ir_data response) @ [0]) s of
           (Threw, s1) \<Rightarrow> (Inl (unknown_error EC_internal (STR ''ISO AES response dependency failed'')),
                           iso_invalidate ses, s1)
         | (Returned (Inl e), s1) \<Rightarrow> (Inl (sent_outcome e), iso_invalidate ses, s1)
         | (Returned (Inr mac), s1) \<Rightarrow>
             if \<not> equal_secret (take 8 mac) (last_bytes 8 (ir_data response))
             then (Inl (unknown_error EC_integrity (STR ''ISO authenticated response CMAC verification failed'')),
                   iso_invalidate ses, s1)
             else let (generation, s2) = env_generation E s1
             in if generation \<noteq> is_generation ses
                then (Inl (unknown_error EC_card_removed (STR ''Card changed while verifying ISO response'')),
                      iso_invalidate ses, s2)
                else (Inr (response\<lparr>ir_data := take payload_size (ir_data response)\<rparr>),
                      ses\<lparr>is_iv := mac\<rparr>, s2))"

text \<open>What follows the exchange of a protected command.\<close>

definition conclude_execute ::
  "'s environment \<Rightarrow> crypto_provider \<Rightarrow> iso_command \<Rightarrow> iso_response result \<Rightarrow> iso_session \<Rightarrow> 's
     \<Rightarrow> iso_response result \<times> iso_session \<times> 's" where
  "conclude_execute E C c exchanged ses s =
     (case exchanged of
        Inl e \<Rightarrow> (Inl e, if err_outcome e \<noteq> OC_not_sent then iso_invalidate ses else ses, s)
      | Inr response \<Rightarrow>
          if \<not> iso_success response
          then (Inl (make_error EC_card_rejected (STR ''ISO authenticated command rejected'') OC_rejected
                      (ir_status response)), iso_invalidate ses, s)
          else if \<not> is_read c
          then if is_write c \<and> ir_data response \<noteq> []
               then (Inl (iso_malformed (STR ''ISO write unexpectedly returned response data'') success_status),
                     iso_invalidate ses, s)
               else (Inr response, ses, s)
          else if length (ir_data response) < 8
          then (Inl (iso_malformed (STR ''ISO authenticated read lacks its response CMAC'') success_status),
                iso_invalidate ses, s)
          else verify_read E C response ses s)"

definition iso_execute ::
  "'s environment \<Rightarrow> crypto_provider \<Rightarrow> bool \<Rightarrow> iso_command \<Rightarrow> exchange_options \<Rightarrow> iso_limits \<Rightarrow> iso_session
     \<Rightarrow> iso_channel \<Rightarrow> 's \<Rightarrow> iso_response result \<times> iso_session \<times> iso_channel \<times> 's" where
  "iso_execute E C same_channel c opts limits ses ch s =
     (let removed = local_error EC_card_removed (STR ''ISO AES session belongs to an earlier card generation'')
      in if \<not> is_valid ses
         then (Inl (local_error EC_session_invalid (STR ''ISO AES session is no longer valid'')), ses, ch, s)
         else if \<not> same_channel then (Inl removed, iso_invalidate ses, ch, s)
         else let (generation, s1) = env_generation E s
         in if generation \<noteq> is_generation ses then (Inl removed, iso_invalidate ses, ch, s1)
         else case protected_limits c limits of
           Inl e \<Rightarrow> (Inl e, ses, ch, s1)
         | Inr plimits \<Rightarrow>
             let (exchanged, ch1, s2) = checked_exchange E c opts plimits ch s1;
                 (r, ses1, s3) = conclude_execute E C c exchanged ses s2
             in (r, ses1, ch1, s3))"

section \<open>Authentication\<close>

text \<open>A checked exchange as an action over the channel and the environment.\<close>

definition act_exchange ::
  "'s environment \<Rightarrow> iso_command result \<Rightarrow> exchange_options \<Rightarrow> iso_limits \<Rightarrow> nat \<Rightarrow> String.literal
     \<Rightarrow> (iso_channel \<times> 's, iso_response) action" where
  "act_exchange E command opts limits exact operation st =
     (case command of
        Inl _ \<Rightarrow> (Threw, st)
      | Inr c \<Rightarrow>
          (case checked_exchange E c opts limits (fst st) (snd st) of
             (r, ch1, s1) \<Rightarrow> (Returned (require_success r exact operation), (ch1, s1))))"

definition act_environment :: "('s \<Rightarrow> 'a \<times> 's) \<Rightarrow> (iso_channel \<times> 's) \<Rightarrow> 'a \<times> (iso_channel \<times> 's)" where
  "act_environment f = (\<lambda>(ch, s). case f s of (a, s1) \<Rightarrow> (a, (ch, s1)))"

definition act_budget ::
  "'s environment \<Rightarrow> iso_budget \<Rightarrow> bool \<Rightarrow> (iso_channel \<times> 's, exchange_options) action" where
  "act_budget E b sent = act_environment (\<lambda>s. case aes_budget_next E b sent s of (r, s1) \<Rightarrow> (Returned r, s1))"

definition authentication_commands ::
  "iso_key_reference \<Rightarrow> bytes \<Rightarrow> length_encoding \<Rightarrow> iso_command result list" where
  "authentication_commands reference host_second encoding =
     [iso_get_challenge 16 encoding,
      iso_internal_authenticate algorithm_aes128 reference host_second encoding,
      iso_external_authenticate algorithm_aes128 reference (replicate 32 0) encoding]"

text \<open>
  The capacity check of the three frames in order; a missing value or frame is the exception of
  \<^verbatim>\<open>Result::value\<close>, which the arguments above exclude.
\<close>

fun frames_fit :: "transport_capabilities \<Rightarrow> iso_command result list \<Rightarrow> unit result dep" where
  "frames_fit caps [] = Returned (Inr ())"
| "frames_fit caps (command # rest) =
     (case command of
        Inl _ \<Rightarrow> Threw
      | Inr c \<Rightarrow>
          (case iso_encode c of
             Inl _ \<Rightarrow> Threw
           | Inr frame \<Rightarrow>
               if length frame > max_transmit caps
               then Returned (Inl (invalid (STR ''ISO authentication frame exceeds transport transmit capacity'')))
               else frames_fit caps rest))"

text \<open>Everything before the first frame: random bytes, capacity, remaining time.\<close>

definition iso_prepare_authentication ::
  "'s environment \<Rightarrow> iso_key_reference \<Rightarrow> length_encoding \<Rightarrow> iso_budget
     \<Rightarrow> (iso_channel \<times> 's, bytes \<times> exchange_options) action" where
  "iso_prepare_authentication E reference encoding b =
     act_bind (act_budget E b False) (\<lambda>_.
     act_bind (act_environment (env_random E 32)) (\<lambda>host_random.
     if length host_random \<noteq> 32
     then act_require (Inl (local_error EC_crypto (STR ''ISO AES provider returned the wrong random byte count'')))
     else act_bind (act_lift (frames_fit (env_capabilities E)
            (authentication_commands reference (last_bytes 16 host_random) encoding))) (\<lambda>_.
          act_bind (act_budget E b False) (\<lambda>remaining. act_return (host_random, remaining)))))"

definition iso_session_key :: "bytes \<Rightarrow> bytes \<Rightarrow> bytes" where
  "iso_session_key host_first card_proof =
     take 4 host_first @ take 4 card_proof @ subspan host_first 12 4 @ subspan card_proof 12 4"

text \<open>The exchanges; the first argument block is what the preparation produced.\<close>

definition iso_run_authentication ::
  "'s environment \<Rightarrow> crypto_provider \<Rightarrow> iso_key_reference \<Rightarrow> bytes \<Rightarrow> length_encoding \<Rightarrow> iso_budget
     \<Rightarrow> bytes \<Rightarrow> exchange_options \<Rightarrow> (iso_channel \<times> 's, iso_session) action" where
  "iso_run_authentication E C reference derived_key encoding b host_random remaining =
     (let host_first = take 16 host_random;
          host_second = last_bytes 16 host_random;
          limits = (\<lambda>n. \<lparr>lim_max_response = n, lim_max_frames = 4, lim_correct_length = False\<rparr>)
      in
      act_bind (act_exchange E (iso_get_challenge 16 encoding) remaining (limits 16) 16
        (STR ''ISO GET CHALLENGE'')) (\<lambda>first.
      act_bind (act_map_error sent_outcome (act_lift
        (cbc C aes128 derived_key (replicate 16 0) (host_first @ ir_data first) True))) (\<lambda>ciphertext.
      if length ciphertext \<noteq> 32
      then act_require (Inl (unknown_error EC_crypto (STR ''ISO AES provider returned the wrong proof length'')))
      else
      act_bind (act_budget E b True) (\<lambda>remaining2.
      act_bind (act_map_error sent_outcome (act_exchange E
        (iso_external_authenticate algorithm_aes128 reference ciphertext encoding) remaining2 (limits 32) 0
        (STR ''ISO EXTERNAL AUTHENTICATE''))) (\<lambda>_.
      act_bind (act_budget E b True) (\<lambda>remaining3.
      act_bind (act_map_error sent_outcome (act_exchange E
        (iso_internal_authenticate algorithm_aes128 reference host_second encoding) remaining3 (limits 32) 32
        (STR ''ISO INTERNAL AUTHENTICATE''))) (\<lambda>third.
      act_bind (act_map_error sent_outcome (act_lift
        (cbc C aes128 derived_key (last_bytes 16 ciphertext) (ir_data third) False))) (\<lambda>card_proof.
      if length card_proof \<noteq> 32
      then act_require (Inl (unknown_error EC_crypto
             (STR ''ISO AES provider returned the wrong card proof length'')))
      else if \<not> equal_secret host_second (last_bytes 16 card_proof)
      then act_require (Inl (unknown_error EC_authentication
             (STR ''ISO card proof does not match the host challenge'')))
      else
      act_bind (act_budget E b True) (\<lambda>_.
      act_return \<lparr>is_reference = reference, is_key = iso_session_key host_first card_proof,
        is_iv = replicate 16 0, is_generation = bd_generation b, is_valid = True\<rparr>)))))))))"

definition iso_authenticate ::
  "'s environment \<Rightarrow> crypto_provider \<Rightarrow> iso_key_reference \<Rightarrow> bytes \<Rightarrow> exchange_options \<Rightarrow> length_encoding
     \<Rightarrow> iso_channel \<times> 's \<Rightarrow> iso_session result \<times> iso_channel \<times> 's" where
  "iso_authenticate E C reference derived_key opts encoding st =
     (let failed = (\<lambda>oc. make_error EC_internal (STR ''ISO AES authentication dependency failed'') oc 0)
      in if length derived_key \<noteq> 16 \<or> opt_timeout opts \<le> 0 \<or> \<not> valid_encoding encoding
         then (Inl (invalid (STR ''ISO AES authentication requires a sixteen-byte key and valid controls'')), st)
         else if cap_framing (env_capabilities E) \<noteq> Framing_iso7816
         then (Inl (local_error EC_unsupported (STR ''ISO AES authentication requires an APDU transport'')), st)
         else let (b, st1) = act_environment (budget_make E opts) st
         in case catch_as (failed OC_not_sent) (iso_prepare_authentication E reference encoding b) st1 of
              (Inl e, st2) \<Rightarrow> (Inl e, st2)
            | (Inr (host_random, remaining), st2) \<Rightarrow>
                catch_as (failed OC_unknown)
                  (iso_run_authentication E C reference derived_key encoding b host_random remaining) st2)"

section \<open>Specification\<close>

text \<open>The card answered a command with the given data and the success status.\<close>

definition answered :: "'s environment \<Rightarrow> iso_command result \<Rightarrow> bytes \<Rightarrow> bool" where
  "answered E command data \<longleftrightarrow>
     (\<exists>c opts limits ch s ch' s'. command = Inr c \<and>
        checked_exchange E c opts limits ch s = (Inr \<lparr>ir_data = data, ir_status = 0x9000\<rparr>, ch', s'))"

definition demo_handshake_transport :: replay_transport where
  "demo_handshake_transport = \<lparr>rp_steps =
     [\<lparr>step_request = [0x00, 0x84, 0, 0, 16], step_response = Inr (replicate 16 3 @ [0x90, 0x00])\<rparr>,
      \<lparr>step_request = [0x00, 0x82, 9, 0x81, 32] @ replicate 16 1 @ replicate 16 3,
       step_response = Inr [0x90, 0x00]\<rparr>,
      \<lparr>step_request = [0x00, 0x88, 9, 0x81, 16] @ replicate 16 2 @ [32],
       step_response = Inr (replicate 16 4 @ replicate 16 2 @ [0x90, 0x00])\<rparr>],
     rp_generation = 1, rp_clock = 0, rp_stopped = False, rp_random = replicate 16 1 @ replicate 16 2\<rparr>"

definition demo_iso_session :: iso_session where
  "demo_iso_session = \<lparr>is_reference = 0x81, is_key = replicate 16 1, is_iv = replicate 16 0,
     is_generation = 1, is_valid = True\<rparr>"

definition demo_write :: iso_command where
  "demo_write = \<lparr>a_cla = 0, a_ins = 0xD6, a_p1 = 0, a_p2 = 4, a_data = [1, 2, 3], a_le = None,
     a_encoding = automatic\<rparr>"

definition demo_write_transport :: replay_transport where
  "demo_write_transport = \<lparr>rp_steps =
     [\<lparr>step_request = [0x00, 0xD6, 0, 4, 3, 1, 2, 3], step_response = Inr [0x90, 0x00]\<rparr>],
     rp_generation = 1, rp_clock = 0, rp_stopped = False, rp_random = []\<rparr>"

section \<open>Comparison\<close>

lemma fold_or_pairs_zero:
  "foldl (\<lambda>d (l, r). d OR (ucast (l XOR r) :: u32)) a ps = 0 \<longleftrightarrow> a = 0 \<and> (\<forall>(l, r) \<in> set ps. (l :: byte) = r)"
  by (induction ps arbitrary: a) (auto simp: or_eq_0_iff)

lemma equal_secret_iff [simp]: "equal_secret xs ys \<longleftrightarrow> xs = ys"
proof (cases "length xs = length ys")
  case True
  then have "(\<forall>(l, r) \<in> set (zip xs ys). l = r) \<longleftrightarrow> xs = ys"
    by (induction xs ys rule: list_induct2) auto
  then show ?thesis using True by (simp only: equal_secret_def fold_or_pairs_zero) simp
next
  case False
  then show ?thesis by (auto simp: equal_secret_def)
qed

section \<open>The two CMAC implementations\<close>

lemma subkey_loop_nth:
  "n \<le> length result \<Longrightarrow>
     length (fst (subkey_loop n c input result)) = length result \<and>
     (i < length result \<longrightarrow> fst (subkey_loop n c input result) ! i =
       (if n \<le> i then result ! i
        else push_bit 1 (input ! i) OR (if Suc i = n then c else drop_bit 7 (input ! Suc i)))) \<and>
     snd (subkey_loop n c input result) = (if n = 0 then c else drop_bit 7 (input ! 0))"
proof (induction n c input result rule: subkey_loop.induct)
  case (2 index carry input result)
  then show ?case by (cases "i = index") (auto simp: nth_list_update)
qed simp

lemma top_bit: "drop_bit 7 (b :: byte) \<noteq> 0 \<longleftrightarrow> b AND 0x80 \<noteq> 0"
proof -
  have "b AND 0x80 \<noteq> 0 \<longleftrightarrow> bit b 7" using and_exp_eq_0_iff_not_bit [of b 7] by simp
  moreover have "drop_bit 7 b \<noteq> 0 \<longleftrightarrow> bit b 7"
  proof
    assume "bit b 7"
    then have "bit (drop_bit 7 b) 0" by (simp add: bit_drop_bit_eq)
    then show "drop_bit 7 b \<noteq> 0" by auto
  next
    assume "drop_bit 7 b \<noteq> 0"
    then obtain k where "bit (drop_bit 7 b) k" by (auto simp: bit_eq_iff)
    then have "bit b (7 + k)" by (simp add: bit_drop_bit_eq)
    with bit_imp_le_length [OF this] show "bit b 7" by (cases k) auto
  qed
  ultimately show ?thesis by simp
qed

lemma double_subkey_eq:
  assumes "length b = 16"
  shows "double_subkey b = double_cmac_subkey b"
proof -
  obtain r c where rc: "subkey_loop 16 0 b (replicate 16 0) = (r, c)" by fastforce
  note nth = subkey_loop_nth [of 16 "replicate 16 0" 0 b, unfolded rc, simplified]
  have r: "r = double_loop 16 0 b"
    using nth assms by (intro nth_equalityI) (auto simp: double_loop_nth)
  have "hd b = b ! 0" using assms by (intro hd_conv_nth) auto
  then have c: "(c \<noteq> 0) = (hd b AND 0x80 \<noteq> 0)" using nth top_bit [of "b ! 0"] by simp
  have "last (double_loop 16 0 b) = double_loop 16 0 b ! 15"
    using assms by (subst last_conv_nth) (auto simp flip: length_0_conv)
  then show ?thesis
    using rc r c assms by (simp add: double_subkey_def double_cmac_subkey_def Let_def)
qed

lemma padded_count:
  fixes n :: nat
  assumes "0 < n"
  shows "(n + 16 - 1) div 16 = n div 16 + (if n mod 16 = 0 then 0 else 1)"
proof -
  define q r where "q = n div 16" and "r = n mod 16"
  have n: "n = 16 * q + r" "r < 16" by (simp_all add: q_def r_def)
  show ?thesis
  proof (cases "r = 0")
    case True
    have "(16 * q + 15) div 16 = q" by simp
    then show ?thesis using n True by simp
  next
    case False
    have "(16 * q + r + 15) div 16 = (16 * (q + 1) + (r - 1)) div 16" using False by (simp add: algebra_simps)
    also have "\<dots> = q + 1" using n(2) by (subst div_mult_self4) auto
    finally show ?thesis using n False by simp
  qed
qed

lemma retained_blocks_eq:
  assumes "length base = 16"
  shows "retained_blocks base input = cmac_blocks (double_cmac_subkey base) input"
proof -
  define complete where "complete \<longleftrightarrow> input \<noteq> [] \<and> length input mod 16 = 0"
  define count where "count = length input div 16 + (if complete then 0 else 1)"
  define blocks where "blocks = input @ replicate (count * 16 - length input) 0"
  define padded where "padded = (if complete then blocks else blocks[length input := 0x80])"
  define subkey where "subkey = (if complete then double_cmac_subkey base
                                 else double_cmac_subkey (double_cmac_subkey base))"
  have count: "(if input = [] then 1 else (length input + 16 - 1) div 16) = count"
    using padded_count [of "length input"] by (auto simp: count_def complete_def)
  have len: "length input \<le> count * 16" "16 \<le> count * 16"
    unfolding count_def complete_def
    using div_mult_mod_eq [of "length input" 16] mod_less_divisor [of 16 "length input"]
    by (auto simp: algebra_simps dvd_imp_le Suc_le_eq div_greater_zero_iff)
  have used: "\<not> complete \<Longrightarrow> count * 16 - 16 + length input mod 16 = length input"
    using div_mult_mod_eq [of "length input" 16] by (auto simp: count_def)
  have lens: "length blocks = count * 16" "length padded = count * 16" "length subkey = 16"
    using len assms by (auto simp: blocks_def padded_def subkey_def)
  have "retained_blocks base input =
      take (count * 16 - 16) padded @ map (\<lambda>i. padded ! (count * 16 - 16 + i) XOR subkey ! i) [0..<16]"
    using assms unfolding retained_blocks_def Let_def complete_def [symmetric] count_def [symmetric]
      blocks_def [symmetric]
    by (simp add: padded_def subkey_def double_subkey_eq)
  also have "\<dots> = xor_last_block subkey padded"
    using lens len by (auto simp: xor_last_block_def last_bytes_def intro!: nth_equalityI)
  also have "\<dots> = cmac_blocks (double_cmac_subkey base) input"
    using used lens unfolding cmac_blocks_def Let_def complete_def [symmetric] count blocks_def [symmetric]
    by (simp add: padded_def subkey_def)
  finally show ?thesis .
qed

lemma retained_cmac_Inr:
  "retained_cmac C key iv input s = (Returned (Inr mac), s') \<longleftrightarrow>
   s' = s \<and> (\<exists>base out. cbc C aes128 key (replicate 16 0) (replicate 16 0) True = Returned (Inr base) \<and>
      length base = 16 \<and>
      cbc C aes128 key iv (retained_blocks base input) True = Returned (Inr out) \<and>
      length out = length (retained_blocks base input) \<and> mac = last_bytes 16 out)"
  by (auto simp: retained_cmac_def act_bind_Inr Let_def split: if_splits)

lemma retained_blocks_length:
  "length base = 16 \<Longrightarrow> 16 \<le> length (retained_blocks base input)"
  using cmac_blocks_length [of "double_cmac_subkey base" input] block_count_length [of input]
  by (simp add: retained_blocks_eq)

lemma retained_cmac_length:
  "retained_cmac C key iv input s = (Returned (Inr mac), s') \<Longrightarrow> length mac = 16"
  by (auto simp: retained_cmac_Inr retained_blocks_length min_absorb1)

section \<open>Execution\<close>

lemma iso_invalidate_sel [simp]:
  "\<not> is_valid (iso_invalidate ses)" "is_key (iso_invalidate ses) = []"
  by (simp_all add: iso_invalidate_def)

lemma verify_read_result:
  assumes "verify_read E C response ses s = (r, ses', s')" and "8 \<le> length (ir_data response)"
  shows "case r of
      Inl e \<Rightarrow> err_outcome e \<noteq> OC_not_sent \<and> ses' = iso_invalidate ses
    | Inr resp \<Rightarrow>
        ir_status resp = ir_status response \<and>
        (\<exists>mac s1. retained_cmac C (is_key ses) (is_iv ses) (ir_data resp @ [0]) s = (Returned (Inr mac), s1) \<and>
           ir_data response = ir_data resp @ take 8 mac \<and> ses' = ses\<lparr>is_iv := mac\<rparr>)"
proof -
  let ?n = "length (ir_data response) - 8"
  let ?data = "ir_data response"
  have split: "take ?n ?data @ last_bytes 8 ?data = ?data" by (rule take_last_bytes)
  obtain m s1 where m: "retained_cmac C (is_key ses) (is_iv ses) (take ?n ?data @ [0]) s = (m, s1)"
    by fastforce
  show ?thesis
  proof (cases m)
    case Threw
    then show ?thesis using assms(1) m by (auto simp: verify_read_def)
  next
    case (Returned x)
    show ?thesis
    proof (cases x)
      case (Inl e)
      then show ?thesis using assms(1) m Returned by (auto simp: verify_read_def)
    next
      case (Inr mac)
      show ?thesis
      proof (cases "take 8 mac = last_bytes 8 ?data")
        case True
        then show ?thesis
          using assms(1) m Returned Inr split
          by (auto simp: verify_read_def Let_def split: prod.splits if_splits)
      next
        case False
        then show ?thesis using assms(1) m Returned Inr by (auto simp: verify_read_def)
      qed
    qed
  qed
qed

lemma conclude_execute_result:
  assumes "conclude_execute E C c exchanged ses s = (r, ses', s')"
  shows "case r of
      Inl e \<Rightarrow> ses' = ses \<and> err_outcome e = OC_not_sent \<and> exchanged = Inl e \<or>
               ses' = iso_invalidate ses \<and> err_outcome e \<noteq> OC_not_sent
    | Inr resp \<Rightarrow> \<exists>response. exchanged = Inr response \<and> iso_success response \<and> iso_success resp \<and>
        (if is_read c
         then \<exists>mac s1. retained_cmac C (is_key ses) (is_iv ses) (ir_data resp @ [0]) s = (Returned (Inr mac), s1) \<and>
                ir_data response = ir_data resp @ take 8 mac \<and> ses' = ses\<lparr>is_iv := mac\<rparr>
         else resp = response \<and> ses' = ses \<and> (is_write c \<longrightarrow> ir_data resp = []))"
proof (cases exchanged)
  case (Inl e)
  then show ?thesis using assms by (auto simp: conclude_execute_def split: if_splits)
next
  case (Inr response)
  show ?thesis
  proof (cases "iso_success response \<and> is_read c \<and> 8 \<le> length (ir_data response)")
    case True
    then have "verify_read E C response ses s = (r, ses', s')"
      using assms Inr by (simp add: conclude_execute_def)
    from verify_read_result [OF this] True Inr show ?thesis by (cases r) (auto simp: iso_success_def)
  next
    case False
    then show ?thesis
      using assms Inr by (cases r) (auto simp: conclude_execute_def split: if_splits)
  qed
qed

text \<open>What follows the exchange transmits nothing.\<close>

lemma retained_cmac_state: "retained_cmac C key iv input s = (r, s') \<Longrightarrow> s' = s"
  by (auto simp: retained_cmac_def act_bind_def act_lift_def act_require_def act_return_def Let_def
      split: if_splits dep.splits sum.splits)

lemma conclude_execute_log:
  assumes "conclude_execute (recording E) C c exchanged ses (s, log) = (r, ses', (s', log'))"
  shows "log' = log"
  using assms
  by (auto simp: conclude_execute_def verify_read_def Let_def
      split: sum.splits if_splits dep.splits prod.splits dest!: retained_cmac_state)

text \<open>What a checked exchange leaves in the record of the transport.\<close>

lemma checked_exchange_report:
  assumes "checked_exchange (recording E) c opts limits ch (s, log) = (r, ch', (s', log'))"
  obtains new where "log' = log @ new"
    "\<And>e. r = Inl e \<Longrightarrow> err_outcome e = OC_not_sent \<Longrightarrow> length new \<le> 1 \<and> list_all not_sent_entry new"
    "\<And>resp. r = Inr resp \<Longrightarrow>
       new \<noteq> [] \<and> list_all delivered new \<and> ir_data resp = concat (map answer_data new)"
proof (cases "requires_payload c \<and> a_data c = []")
  case True
  then show ?thesis using assms by (intro that [of "[]"]) (auto simp: checked_exchange_def)
next
  case False
  then have run: "iso_exchange (recording E) c opts
      (limits\<lparr>lim_correct_length := lim_correct_length limits \<and> is_read c\<rparr>) ch (s, log) = (r, ch', (s', log'))"
    using assms by (simp add: checked_exchange_def split: if_splits)
  from iso_exchange_report [OF run] show ?thesis
    by (elim conjE disjE exE) (auto intro!: that simp: iso_report_def initial_progress_def)
qed

lemma protected_limits_Inl: "protected_limits c limits = Inl e \<Longrightarrow> err_outcome e = OC_not_sent"
  by (auto simp: protected_limits_def split: if_splits)

section \<open>Handshake\<close>

lemma require_success_Inr:
  "require_success r n oper = Inr resp \<longleftrightarrow> r = Inr resp \<and> iso_success resp \<and> length (ir_data resp) = n"
  by (auto simp: require_success_def split: sum.splits)

lemma act_environment_Inr:
  "act_environment f st = (a, st') \<Longrightarrow> f (snd st) = (a, snd st')"
  by (auto simp: act_environment_def split: prod.splits)

lemma act_exchange_answered:
  assumes "act_exchange E command opts limits n oper st = (Returned (Inr resp), st')"
  shows "answered E command (ir_data resp) \<and> length (ir_data resp) = n"
proof -
  obtain c where "command = Inr c"
    "checked_exchange E c opts limits (fst st) (snd st) = (Inr resp, st')" "iso_success resp"
    "length (ir_data resp) = n"
    using assms by (auto simp: act_exchange_def require_success_Inr split: sum.splits prod.splits)
  moreover from this(3) have "resp = \<lparr>ir_data = ir_data resp, ir_status = 0x9000\<rparr>"
    by (cases resp) (simp add: iso_success_def)
  ultimately show ?thesis unfolding answered_def by (metis prod.collapse)
qed

lemma iso_session_key_length:
  "length hf = 16 \<Longrightarrow> length cp = 32 \<Longrightarrow> length (iso_session_key hf cp) = 16"
  by (simp add: iso_session_key_def)

lemma iso_run_authentication_Inr:
  assumes "iso_run_authentication E C reference key enc b host remaining st = (Returned (Inr ses), st')"
  shows "\<exists>challenge cryptogram answer card.
     answered E (iso_get_challenge 16 enc) challenge \<and> length challenge = 16 \<and>
     cbc C aes128 key (replicate 16 0) (take 16 host @ challenge) True = Returned (Inr cryptogram) \<and>
     answered E (iso_external_authenticate algorithm_aes128 reference cryptogram enc) [] \<and>
     answered E (iso_internal_authenticate algorithm_aes128 reference (last_bytes 16 host) enc) answer \<and>
     length answer = 32 \<and>
     cbc C aes128 key (last_bytes 16 cryptogram) answer False = Returned (Inr card) \<and> length card = 32 \<and>
     last_bytes 16 card = last_bytes 16 host \<and>
     ses = \<lparr>is_reference = reference, is_key = iso_session_key (take 16 host) card,
            is_iv = replicate 16 0, is_generation = bd_generation b, is_valid = True\<rparr>"
  using assms
  by (auto simp: iso_run_authentication_def Let_def act_bind_Inr split: if_splits
      dest!: act_exchange_answered) blast

lemmas iso_session_eval = iso_channel_eval iso_builder_defs iso_make_def checked_exchange_def
  requires_payload_def is_selection_def is_write_def is_read_def demo_iso_capabilities_def iso_create_def
  Let_def iso_loop_numeral replay_environment_def

lemma demo_iso_handshake:
  "\<exists>ses st. iso_authenticate (replay_environment demo_iso_capabilities) sample_provider 0x81
     (replicate 16 0x5A) \<lparr>opt_timeout = 5000, opt_stop = 0\<rparr> automatic
     (iso_create, demo_handshake_transport) = (Inr ses, st)"
  by (simp add: iso_session_eval iso_authenticate_def iso_prepare_authentication_def
      iso_run_authentication_def authentication_commands_def act_environment_def act_budget_def
      aes_budget_next_def act_bind_def act_map_error_def catch_as_def act_exchange_def require_success_def
      iso_success_def demo_handshake_transport_def sample_provider_def last_bytes_def nth_append
      cong: prod.case_cong_weak sum.case_cong_weak dep.case_cong_weak)

lemma demo_iso_write:
  "\<exists>ch t log. iso_execute (recording (replay_environment demo_iso_capabilities)) sample_provider True demo_write
     \<lparr>opt_timeout = 5000, opt_stop = 0\<rparr>
     \<lparr>lim_max_response = 16, lim_max_frames = 4, lim_correct_length = True\<rparr>
     demo_iso_session iso_create (demo_write_transport, []) =
     (Inr \<lparr>ir_data = [], ir_status = 0x9000\<rparr>, demo_iso_session, ch, (t, log))"
  by (simp add: iso_session_eval iso_execute_def conclude_execute_def protected_limits_def recording_def observe_def
      demo_write_def demo_write_transport_def demo_iso_session_def iso_success_def
      cong: prod.case_cong_weak sum.case_cong_weak dep.case_cong_weak)

section \<open>Properties\<close>

text \<open>The three ways an execution on a valid session of this channel and card can go.\<close>

lemma iso_execute_cases:
  assumes "iso_execute (recording E) C same_channel c opts limits ses ch (s, log) = (r, ses', ch', (s', log'))"
    and "is_valid ses"
  obtains (stale) e where "r = Inl e" "\<not> is_valid ses'" "is_key ses' = []" "log' = log"
  | (refused) e where "r = Inl e" "ses' = ses" "err_outcome e = OC_not_sent" "log' = log"
  | (exchanged) pl x s1 s2 where "same_channel" "\<not> resets_authentication c"
      "checked_exchange (recording E) c opts pl ch (s1, log) = (x, ch', (s2, log'))"
      "conclude_execute (recording E) C c x ses (s2, log') = (r, ses', (s', log'))"
proof -
  obtain g s1 where g: "env_generation E s = (g, s1)" by fastforce
  show thesis
  proof (cases "same_channel \<and> g = is_generation ses")
    case False
    then show thesis using assms g stale by (auto simp: iso_execute_def Let_def split: if_splits)
  next
    case True
    show thesis
    proof (cases "protected_limits c limits")
      case (Inl e)
      then show thesis
        using assms g True protected_limits_Inl [OF Inl] refused by (auto simp: iso_execute_def)
    next
      case (Inr pl)
      obtain x ch1 s2 log2 where x: "checked_exchange (recording E) c opts pl ch (s1, log) = (x, ch1, (s2, log2))"
        by (metis prod_cases3 surj_pair)
      with assms g True Inr have concl: "conclude_execute (recording E) C c x ses (s2, log2) = (r, ses', (s', log'))"
        and same: "ch1 = ch'"
        by (auto simp: iso_execute_def split: prod.splits)
      have "\<not> resets_authentication c"
        using Inr by (auto simp: protected_limits_def resets_authentication_def is_read_def is_write_def
            is_selection_def split: if_splits)
      then show thesis using exchanged True x concl same conclude_execute_log [OF concl] by blast
    qed
  qed
qed

text \<open>
  C25. ISO sessions fail closed. A command on a valid session either succeeds, or is refused with the
  session unchanged and no frame delivered (nothing was handed to the transport, or one frame which
  the transport itself reports as not sent), or leaves a session that is invalid and holds
  no key. A success requires the session's own channel and a command that does not reset
  authentication, and what it returns are the delivered answers: of a read exactly the payload whose
  CMAC, over the payload and a zero status with the retained vector, matches the eight bytes the card
  appended, and that CMAC becomes the next vector; of another command all of their data, which for a
  write is empty.
\<close>

theorem iso_execute_fail_closed:
  assumes "iso_execute (recording E) C same_channel c opts limits ses ch (s, log) = (r, ses', ch', (s', log'))"
    and "is_valid ses"
  shows "\<exists>new. log' = log @ new \<and>
    (case r of
      Inl e \<Rightarrow> ses' = ses \<and> err_outcome e = OC_not_sent \<and> length new \<le> 1 \<and> list_all not_sent_entry new \<or>
        \<not> is_valid ses' \<and> is_key ses' = []
    | Inr resp \<Rightarrow>
        is_valid ses' \<and> same_channel \<and> \<not> resets_authentication c \<and> iso_success resp \<and>
        new \<noteq> [] \<and> list_all delivered new \<and>
        (if is_read c
         then \<exists>mac. retained_cmac C (is_key ses) (is_iv ses) (ir_data resp @ [0]) () = (Returned (Inr mac), ()) \<and>
                concat (map answer_data new) = ir_data resp @ take 8 mac \<and> ses' = ses\<lparr>is_iv := mac\<rparr>
         else ses' = ses \<and> ir_data resp = concat (map answer_data new) \<and> (is_write c \<longrightarrow> ir_data resp = [])))"
  using assms
proof (cases rule: iso_execute_cases)
  case (exchanged pl x s1 s2)
  from exchanged(3) obtain new where new: "log' = log @ new"
    "\<And>e. x = Inl e \<Longrightarrow> err_outcome e = OC_not_sent \<Longrightarrow> length new \<le> 1 \<and> list_all not_sent_entry new"
    "\<And>response. x = Inr response \<Longrightarrow>
       new \<noteq> [] \<and> list_all delivered new \<and> ir_data response = concat (map answer_data new)"
    by (rule checked_exchange_report) blast
  note result = conclude_execute_result [OF exchanged(4)]
  show ?thesis
  proof (cases r)
    case (Inl e)
    then show ?thesis using result new by auto
  next
    case (Inr resp)
    then obtain response where "x = Inr response" using result by auto
    from new(3) [OF this] this show ?thesis
      using result Inr new(1) assms(2) exchanged(1,2)
      by (cases "is_read c") (auto simp: retained_cmac_Inr)
  qed
qed auto

theorem iso_execute_fail_closed_witness:
  "\<exists>ses ch t log. iso_execute (recording (replay_environment demo_iso_capabilities)) sample_provider True demo_write
     \<lparr>opt_timeout = 5000, opt_stop = 0\<rparr>
     \<lparr>lim_max_response = 16, lim_max_frames = 4, lim_correct_length = True\<rparr>
     demo_iso_session iso_create (demo_write_transport, []) =
     (Inr \<lparr>ir_data = [], ir_status = 0x9000\<rparr>, ses, ch, (t, log)) \<and> is_valid ses \<and> log \<noteq> [] \<and> list_all delivered log"
proof -
  obtain ch t log where run: "iso_execute (recording (replay_environment demo_iso_capabilities)) sample_provider True demo_write
     \<lparr>opt_timeout = 5000, opt_stop = 0\<rparr>
     \<lparr>lim_max_response = 16, lim_max_frames = 4, lim_correct_length = True\<rparr>
     demo_iso_session iso_create (demo_write_transport, []) =
     (Inr \<lparr>ir_data = [], ir_status = 0x9000\<rparr>, demo_iso_session, ch, (t, log))"
    using demo_iso_write by auto
  have "is_valid demo_iso_session" by (simp add: demo_iso_session_def)
  with iso_execute_fail_closed [OF run] run show ?thesis by auto
qed

text \<open>
  C28. ISO mutual authentication. When it returns a session, the card answered the three commands
  with success, in particular the external authentication of a cryptogram of the host's first
  sixteen random bytes and the card's challenge, and the internal authentication with data that
  decrypts, chained to that cryptogram, to the host's second sixteen random bytes; the session key
  mixes both parties' random bytes, the vector starts at zero and the session is valid.
\<close>

theorem iso_authenticate_success:
  assumes "iso_authenticate E C reference key opts enc st = (Inr ses, st')"
  shows "\<exists>host challenge cryptogram answer card s1 s2.
     env_random E 32 s1 = (Returned (Inr host), s2) \<and>
     answered E (iso_get_challenge 16 enc) challenge \<and>
     cbc C aes128 key (replicate 16 0) (take 16 host @ challenge) True = Returned (Inr cryptogram) \<and>
     answered E (iso_external_authenticate algorithm_aes128 reference cryptogram enc) [] \<and>
     answered E (iso_internal_authenticate algorithm_aes128 reference (last_bytes 16 host) enc) answer \<and>
     cbc C aes128 key (last_bytes 16 cryptogram) answer False = Returned (Inr card) \<and>
     last_bytes 16 card = last_bytes 16 host \<and>
     is_key ses = iso_session_key (take 16 host) card \<and> length (is_key ses) = 16 \<and>
     is_iv ses = replicate 16 0 \<and> is_reference ses = reference \<and> is_valid ses"
proof -
  obtain b st1 host remaining st2 where
    prep: "iso_prepare_authentication E reference enc b st1 = (Returned (Inr (host, remaining)), st2)" and
    run: "iso_run_authentication E C reference key enc b host remaining st2 = (Returned (Inr ses), st')"
    using assms by (auto simp: iso_authenticate_def Let_def split: prod.splits sum.splits if_splits)
  from prep obtain s1 s2 where "env_random E 32 s1 = (Returned (Inr host), s2)" "length host = 32"
    by (auto simp: iso_prepare_authentication_def act_bind_Inr dest!: act_environment_Inr split: if_splits)
  moreover from iso_run_authentication_Inr [OF run] obtain challenge cryptogram answer card where
    "answered E (iso_get_challenge 16 enc) challenge"
    "cbc C aes128 key (replicate 16 0) (take 16 host @ challenge) True = Returned (Inr cryptogram)"
    "answered E (iso_external_authenticate algorithm_aes128 reference cryptogram enc) []"
    "answered E (iso_internal_authenticate algorithm_aes128 reference (last_bytes 16 host) enc) answer"
    "cbc C aes128 key (last_bytes 16 cryptogram) answer False = Returned (Inr card)" "length card = 32"
    "last_bytes 16 card = last_bytes 16 host"
    "ses = \<lparr>is_reference = reference, is_key = iso_session_key (take 16 host) card,
            is_iv = replicate 16 0, is_generation = bd_generation b, is_valid = True\<rparr>"
    by auto
  ultimately show ?thesis
    using iso_session_key_length [of "take 16 host" card]
    by (intro exI [of _ host] exI [of _ challenge] exI [of _ cryptogram] exI [of _ answer] exI [of _ card]
        exI [of _ s1] exI [of _ s2]) simp
qed

theorem iso_authenticate_success_witness:
  "\<exists>ses st. iso_authenticate (replay_environment demo_iso_capabilities) sample_provider 0x81
     (replicate 16 0x5A) \<lparr>opt_timeout = 5000, opt_stop = 0\<rparr> automatic
     (iso_create, demo_handshake_transport) = (Inr ses, st) \<and> is_valid ses \<and> length (is_key ses) = 16"
  using demo_iso_handshake iso_authenticate_success by blast

text \<open>
  One CMAC. The CMAC of the ISO session and the CMAC of the native standard AES session are two
  implementations, one with a copied subkey and an explicit final carry, one in place; for every
  provider, key, vector and input they succeed on the same inputs with the same result.
\<close>

theorem retained_cmac_native:
  assumes "length input \<le> 2 ^ 60"
  shows "retained_cmac C (sa_session_key ses) (sa_iv ses) input s = (Returned (Inr mac), s') \<longleftrightarrow>
         s' = s \<and> calculate_cmac C input ses = Inr mac"
  using retained_blocks_eq by (auto simp: retained_cmac_Inr calculate_cmac_Inr [OF assms])

theorem retained_cmac_native_witness:
  "\<exists>mac. retained_cmac sample_provider (replicate 16 1) (replicate 16 0) [5] () = (Returned (Inr mac), ()) \<and>
     calculate_cmac sample_provider [5]
       \<lparr>sa_session_key = replicate 16 1, sa_iv = replicate 16 0, sa_phase = Sa_ready\<rparr> = Inr mac"
proof -
  let ?ses = "\<lparr>sa_session_key = replicate 16 1, sa_iv = replicate 16 0, sa_phase = Sa_ready\<rparr>"
  obtain mac where "retained_cmac sample_provider (replicate 16 1) (replicate 16 0) [5] () =
      (Returned (Inr mac), ())"
    by (simp add: retained_cmac_Inr sample_provider_def)
  with retained_cmac_native [of "[5]" sample_provider ?ses "()" mac "()"] show ?thesis by auto
qed

end
