(* ===== verification/Key_Derivation.thy ===== *)
theory Key_Derivation
  imports Standard_Aes_Session Checked_Commands
begin

text \<open>
  Key material and its derivation: AES-128 keys, references, derivation contexts and provider
  requests (\<^verbatim>\<open>core/include/desfire/ev3/model/authentication.hpp\<close>,
  \<^verbatim>\<open>core/src/security/key_derivation/aes128.cpp\<close>) and the NXP diversification
  (\<^verbatim>\<open>nxp_aes128.cpp\<close>), whose in-place subkey doubling and fixed two-block message are a third
  implementation of CMAC in the SDK. The theorems relate it to the CMAC of the secure sessions and
  show which requests a key provider can ever see.
\<close>

section \<open>Keys and requests\<close>

text \<open>\<^verbatim>\<open>Aes128Key::import\<close> and \<^verbatim>\<open>adopt\<close> make the same check; a moved-from key is empty.\<close>

definition aes128_key_import :: "bytes \<Rightarrow> bytes result" where
  "aes128_key_import bs =
     (if length bs \<noteq> 16 then Inl (invalid (STR ''AES-128 key must contain exactly 16 bytes'')) else Inr bs)"

definition aes128_key_valid :: "bytes \<Rightarrow> bool" where
  "aes128_key_valid bs = (length bs = 16)"

datatype key_purpose = purpose_authentication | purpose_current_key | purpose_replacement_key
  | purpose_delegated_application | purpose_transaction_mac | purpose_offline_operation | purpose_other

datatype authentication_profile = profile_standard_aes | profile_ev2_first | profile_ev2_non_first
  | profile_iso_aes | profile_other

datatype key_scope = scope_native | scope_iso_picc | scope_iso_application | scope_other

type_synonym key_reference = bytes

definition key_reference_make :: "bytes \<Rightarrow> key_reference result" where
  "key_reference_make identifier =
     (if identifier = [] \<or> length identifier > 1024
      then Inl (invalid (STR ''Key reference must contain 1 through 1024 bytes''))
      else Inr identifier)"

record derivation_context =
  dx_purpose :: key_purpose
  dx_key_number :: key_number
  dx_application :: "application_id option"
  dx_key_set :: "byte option"
  dx_diversification_input :: bytes
  dx_user_context :: bytes

definition maximum_context_size :: nat where
  "maximum_context_size = 65536"

definition derivation_context_make ::
  "key_purpose \<Rightarrow> key_number \<Rightarrow> application_id option \<Rightarrow> byte option \<Rightarrow> bytes \<Rightarrow> bytes
     \<Rightarrow> derivation_context result" where
  "derivation_context_make purpose key application key_set diversification_input user_context =
     (if purpose = purpose_other then Inl (invalid (STR ''Unknown AES-128 key purpose''))
      else if (case key_set of None \<Rightarrow> False | Some n \<Rightarrow> n > 15)
      then Inl (invalid (STR ''AES-128 derivation key set must be zero through 15''))
      else if length diversification_input > maximum_context_size \<or>
              length user_context > maximum_context_size \<or>
              length diversification_input > maximum_context_size - length user_context
      then Inl (invalid (STR ''AES-128 derivation context exceeds 65536 bytes''))
      else Inr \<lparr>dx_purpose = purpose, dx_key_number = key, dx_application = application, dx_key_set = key_set,
                dx_diversification_input = diversification_input, dx_user_context = user_context\<rparr>)"

record key_request =
  kr_reference :: key_reference
  kr_context :: derivation_context
  kr_scope :: key_scope
  kr_profile :: "authentication_profile option"
  kr_cancellation :: stop_token

definition key_request_make ::
  "key_reference \<Rightarrow> derivation_context \<Rightarrow> key_scope \<Rightarrow> authentication_profile option \<Rightarrow> stop_token
     \<Rightarrow> key_request result" where
  "key_request_make reference ctx scope profile cancellation =
     (if scope = scope_other then Inl (invalid (STR ''Unknown key-provider scope''))
      else if profile = Some profile_other then Inl (invalid (STR ''Unknown authentication profile''))
      else if (dx_purpose ctx = purpose_authentication) \<noteq> (profile \<noteq> None)
      then Inl (invalid (STR ''Key request authentication purpose and profile must be supplied together''))
      else if (case profile of None \<Rightarrow> False
               | Some p \<Rightarrow> (p = profile_iso_aes) = (scope = scope_native))
      then Inl (invalid (STR ''Key request authentication profile does not match its scope''))
      else Inr \<lparr>kr_reference = reference, kr_context = ctx, kr_scope = scope, kr_profile = profile,
                kr_cancellation = cancellation\<rparr>)"

section \<open>NXP AES-128 diversification\<close>

text \<open>The in-place loop of \<^verbatim>\<open>double_subkey\<close> from the first byte to the last but one.\<close>

function shift_loop :: "nat \<Rightarrow> bytes \<Rightarrow> bytes" where
  "shift_loop index subkey =
     (if index + 1 < length subkey
      then shift_loop (index + 1)
             (subkey[index := push_bit 1 (subkey ! index) OR drop_bit 7 (subkey ! (index + 1))])
      else subkey)"
  by pat_completeness auto
termination
  by (relation "measure (\<lambda>(index, subkey). length subkey - index)") auto

declare shift_loop.simps [simp del]

definition nxp_double_subkey :: "bytes \<Rightarrow> bytes" where
  "nxp_double_subkey subkey =
     (let reduction = ucast ((0x87 :: u32) AND (0 - ucast (drop_bit 7 (hd subkey)))) :: byte;
          shifted = shift_loop 0 subkey
      in shifted[length shifted - 1 := push_bit 1 (last shifted) XOR reduction])"

text \<open>The two blocks that are encrypted: \<open>01\<close>, the input, padding, with the subkey in the second block.\<close>

definition nxp_blocks :: "bytes \<Rightarrow> bytes \<Rightarrow> bytes" where
  "nxp_blocks encrypted_zero diversification_input =
     (let first = nxp_double_subkey encrypted_zero;
          input = 0x01 # diversification_input @ replicate (31 - length diversification_input) 0;
          short = length diversification_input < 31;
          padded = (if short then input[length diversification_input + 1 := 0x80] else input);
          subkey = (if short then nxp_double_subkey first else first)
      in take 16 padded @ map (\<lambda>index. padded ! (16 + index) XOR subkey ! index) [0..<16])"

definition nxp_derive :: "crypto_provider \<Rightarrow> bytes \<Rightarrow> derivation_context \<Rightarrow> bytes result" where
  "nxp_derive C master_key ctx =
     (let input = dx_diversification_input ctx;
          zero = replicate 16 0;
          failed = Inl (local_error EC_internal (STR ''NXP AES-128 dependency failed''));
          wrong = Inl (local_error EC_crypto (STR ''NXP AES-128 primitive returned an invalid length''))
      in if \<not> aes128_key_valid master_key \<or> input = [] \<or> length input > 31
         then Inl (invalid (STR ''NXP AES-128 requires an exact key and 1 through 31 diversification bytes''))
         else case cbc C aes128 master_key zero zero True of
           Threw \<Rightarrow> failed
         | Returned (Inl e) \<Rightarrow> Inl e
         | Returned (Inr encrypted_zero) \<Rightarrow>
             if length encrypted_zero \<noteq> 16 then wrong
             else let blocks = nxp_blocks encrypted_zero input
             in (case cbc C aes128 master_key zero blocks True of
                   Threw \<Rightarrow> failed
                 | Returned (Inl e) \<Rightarrow> Inl e
                 | Returned (Inr out) \<Rightarrow>
                     if length out \<noteq> length blocks then wrong else aes128_key_import (last_bytes 16 out)))"

definition deriver_derive :: "crypto_provider option \<Rightarrow> bytes \<Rightarrow> derivation_context \<Rightarrow> bytes result" where
  "deriver_derive crypto master_key ctx =
     (case crypto of
        None \<Rightarrow> Inl (invalid (STR ''NXP AES-128 derivation requires an AES provider''))
      | Some C \<Rightarrow> nxp_derive C master_key ctx)"

text \<open>Thirty-one is the longest input; sixteen bytes make the message longer than one block.\<close>

definition demo_context :: derivation_context where
  "demo_context = \<lparr>dx_purpose = purpose_authentication, dx_key_number = 1, dx_application = Some 0x123456,
     dx_key_set = None, dx_diversification_input = replicate 16 4, dx_user_context = []\<rparr>"

section \<open>The subkey\<close>

lemma shift_loop_nth:
  "length (shift_loop i b) = length b \<and>
   (j < length b \<longrightarrow> shift_loop i b ! j =
      (if j < i \<or> length b \<le> j + 1 then b ! j else push_bit 1 (b ! j) OR drop_bit 7 (b ! (j + 1))))"
proof (induction i b rule: shift_loop.induct)
  case (1 index subkey)
  show ?case
  proof (cases "index + 1 < length subkey")
    case True
    note IH = "1.IH" [OF True]
    show ?thesis
      using IH True
      by (subst shift_loop.simps, subst (2) shift_loop.simps) (cases "j = index"; auto simp: nth_list_update)
  next
    case False
    then show ?thesis by (auto simp: shift_loop.simps [of index subkey])
  qed
qed

lemma reduction_byte:
  "(ucast ((0x87 :: u32) AND (0 - ucast (drop_bit 7 (b :: byte)))) :: byte) =
     (if b AND 0x80 \<noteq> 0 then 0x87 else 0)"
proof -
  have "drop_bit 7 b = (if bit b 7 then 1 else 0)"
  proof (intro bit_word_eqI)
    fix n assume "n < LENGTH(8)"
    show "bit (drop_bit 7 b) n \<longleftrightarrow> bit (if bit b 7 then 1 else 0 :: byte) n"
      using bit_imp_le_length [of b "7 + n"] by (cases n) (auto simp: bit_drop_bit_eq)
  qed
  moreover have "b AND 0x80 \<noteq> 0 \<longleftrightarrow> bit b 7" using and_exp_eq_0_iff_not_bit [of b 7] by simp
  ultimately show ?thesis by auto
qed

lemma nxp_double_subkey_eq:
  assumes "length b = 16"
  shows "nxp_double_subkey b = double_cmac_subkey b"
proof -
  let ?s = "shift_loop 0 b"
  have len: "length ?s = 16" using shift_loop_nth [of 0 b] assms by simp
  have "last ?s = ?s ! 15" using len by (subst last_conv_nth) (auto simp flip: length_0_conv)
  also have "\<dots> = b ! 15" using shift_loop_nth [of 0 b 15] assms by simp
  finally have lst: "last ?s = b ! 15" .
  have dlast: "last (double_loop 16 0 b) = push_bit 1 (b ! 15)"
    using assms by (subst last_conv_nth) (auto simp: double_loop_nth simp flip: length_0_conv)
  have loop: "?s[15 := push_bit 1 (b ! 15)] = double_loop 16 0 b"
    using len assms shift_loop_nth [of 0 b]
    by (intro nth_equalityI) (auto simp: double_loop_nth nth_list_update)
  then have "?s[15 := x] = (double_loop 16 0 b)[15 := x]" for x
    by (metis list_update_overwrite)
  then show ?thesis
    using len lst dlast loop assms
    by (simp only: nxp_double_subkey_def double_cmac_subkey_def Let_def reduction_byte) auto
qed

lemma nxp_blocks_eq:
  assumes "length base = 16" "16 \<le> length input" "length input \<le> 31"
  shows "nxp_blocks base input = cmac_blocks (double_cmac_subkey base) (1 # input)"
proof -
  define short where "short \<longleftrightarrow> length input < 31"
  define blocks where "blocks = 1 # input @ replicate (31 - length input) (0 :: byte)"
  define padded where "padded = (if short then blocks[length input + 1 := 0x80] else blocks)"
  define subkey where "subkey = (if short then double_cmac_subkey (double_cmac_subkey base)
                                 else double_cmac_subkey base)"
  have len: "length blocks = 32" "length padded = 32" "length subkey = 16"
    using assms by (auto simp: blocks_def padded_def subkey_def)
  have count: "(length (1 # input) + 16 - 1) div 16 = 2"
    using assms by (intro div_nat_eqI) auto
  have complete: "(1 # input \<noteq> [] \<and> length (1 # input) mod 16 = 0) = (\<not> short)"
  proof (cases "length input = 31")
    case False
    then have "(length (1 # input) mod 16) = length input + 1 - 16"
      using assms by (intro mod_nat_eqI) auto
    then show ?thesis using False assms by (simp add: short_def)
  qed (simp add: short_def)
  have used: "short \<Longrightarrow> 16 + length (1 # input) mod 16 = length input + 1"
    using assms by (subst mod_if) (auto simp: short_def)
  have "nxp_blocks base input = take 16 padded @ map (\<lambda>i. padded ! (16 + i) XOR subkey ! i) [0..<16]"
    using assms(1) unfolding nxp_blocks_def Let_def blocks_def [symmetric] short_def [symmetric]
    by (simp add: padded_def subkey_def nxp_double_subkey_eq)
  also have "\<dots> = xor_last_block subkey padded"
    using len by (auto simp: xor_last_block_def last_bytes_def intro!: nth_equalityI)
  also have "\<dots> = cmac_blocks (double_cmac_subkey base) (1 # input)"
    using used len complete unfolding cmac_blocks_def Let_def count
    by (simp add: padded_def subkey_def blocks_def)
  finally show ?thesis .
qed

lemma nxp_derive_Inr:
  assumes "1 \<le> length (dx_diversification_input ctx)" "length (dx_diversification_input ctx) \<le> 31"
    "length key = 16"
  shows "nxp_derive C key ctx = Inr k \<longleftrightarrow>
   (\<exists>base out. cbc C aes128 key (replicate 16 0) (replicate 16 0) True = Returned (Inr base) \<and>
      length base = 16 \<and>
      cbc C aes128 key (replicate 16 0) (nxp_blocks base (dx_diversification_input ctx)) True =
        Returned (Inr out) \<and>
      length out = length (nxp_blocks base (dx_diversification_input ctx)) \<and> k = last_bytes 16 out)"
proof -
  have len: "length (nxp_blocks b (dx_diversification_input ctx)) = 32" for b
    using assms(1,2) by (auto simp: nxp_blocks_def Let_def)
  then show ?thesis
    using assms unfolding nxp_derive_def Let_def
    by (auto simp: aes128_key_valid_def aes128_key_import_def split: dep.splits sum.splits if_splits)
qed

section \<open>Requests\<close>

text \<open>What a key provider may rely on: purpose, profile and scope fit each other.\<close>

lemma key_request_make_Inr:
  assumes "key_request_make reference ctx scope profile token = Inr q"
  shows "kr_context q = ctx \<and> kr_reference q = reference \<and>
    (kr_profile q \<noteq> None \<longleftrightarrow> dx_purpose (kr_context q) = purpose_authentication) \<and>
    (kr_profile q = Some profile_iso_aes \<longrightarrow> kr_scope q = scope_iso_picc \<or> kr_scope q = scope_iso_application) \<and>
    (kr_profile q \<in> {Some profile_standard_aes, Some profile_ev2_first, Some profile_ev2_non_first} \<longrightarrow>
       kr_scope q = scope_native)"
  using assms
  by (cases scope) (auto simp: key_request_make_def split: if_splits option.splits)

lemma derivation_context_make_Inr:
  assumes "derivation_context_make purpose key application key_set input user = Inr ctx"
  shows "length (dx_diversification_input ctx) + length (dx_user_context ctx) \<le> maximum_context_size \<and>
    dx_purpose ctx \<noteq> purpose_other \<and> (case dx_key_set ctx of None \<Rightarrow> True | Some n \<Rightarrow> n \<le> 15)"
  using assms by (auto simp: derivation_context_make_def split: if_splits option.splits)

section \<open>Properties\<close>

text \<open>
  Diversification is CMAC. For sixteen to thirty-one bytes of diversification input, the derived
  key is exactly the CMAC, under the master key, of the input with the constant \<open>01\<close> in front,
  computed by the secure session's own implementation from a zero vector; derivation fails exactly
  when that computation fails.
\<close>

theorem nxp_derive_cmac:
  assumes "16 \<le> length (dx_diversification_input ctx)" "length (dx_diversification_input ctx) \<le> 31"
    and "sa_create key = Inr ses"
  shows "nxp_derive C key ctx = Inr k \<longleftrightarrow> calculate_cmac C (1 # dx_diversification_input ctx) ses = Inr k"
proof -
  have ses: "length key = 16" "sa_session_key ses = key" "sa_iv ses = replicate 16 0"
    using assms(3) by (auto simp: sa_create_def split: if_splits)
  show ?thesis
    using nxp_derive_Inr [of ctx key C k] calculate_cmac_Inr [of "1 # dx_diversification_input ctx" C ses k]
      nxp_blocks_eq [of _ "dx_diversification_input ctx"] assms(1,2) ses by auto
qed

theorem nxp_derive_cmac_witness:
  "\<exists>k ses. sa_create (replicate 16 1) = Inr ses \<and>
     nxp_derive sample_provider (replicate 16 1) demo_context = Inr k \<and>
     calculate_cmac sample_provider (1 # replicate 16 4) ses = Inr k"
proof -
  obtain ses where ses: "sa_create (replicate 16 1) = Inr ses" by (simp add: sa_create_def)
  have "\<exists>k. nxp_derive sample_provider (replicate 16 1) demo_context = Inr k"
    by (subst nxp_derive_Inr) (simp_all add: demo_context_def sample_provider_def)
  then obtain k where "nxp_derive sample_provider (replicate 16 1) demo_context = Inr k" by blast
  with nxp_derive_cmac [OF _ _ ses, of demo_context sample_provider k] ses show ?thesis
    by (simp add: demo_context_def)
qed

end
