(* ===== verification/Managed_Card.thy ===== *)
theory Managed_Card
  imports Authentication Secure_Channel Checked_Parsers Iso_Session Key_Derivation
begin

text \<open>
  The managed card (\<^verbatim>\<open>core/src/managed\<close>): one object that owns the transport, the native and
  the ISO channel and at most one authenticated session, and admits one operation at a time. This
  theory holds its state (\<^verbatim>\<open>card_impl.hpp\<close>, \<^verbatim>\<open>operation_guard.hpp\<close>), its lifecycle
  (\<^verbatim>\<open>card_lifecycle.cpp\<close>), the execution of checked commands (\<^verbatim>\<open>card_management.cpp\<close>),
  selection and discovery (\<^verbatim>\<open>card_applications.cpp\<close>, \<^verbatim>\<open>card_discovery.cpp\<close>), the typed
  wrappers (\<^verbatim>\<open>card_files.cpp\<close>, \<^verbatim>\<open>card_keys.cpp\<close>) and ISO commands
  (\<^verbatim>\<open>card_iso7816.cpp\<close>). The calls inside the outer \<^verbatim>\<open>try\<close> blocks catch their own
  exceptions, so the outer handlers, which invalidate the card, have no branch here.
\<close>

section \<open>State\<close>

text \<open>
  \<^verbatim>\<open>class CardImpl\<close>. A session that is invalidated and destroyed is \<open>None\<close>; the mutex
  serializes threads and has no content.
\<close>

record card_state =
  card_standard_aes :: "sa_session option"
  card_ev2 :: "ev2_session option"
  card_key :: "byte option"
  card_iso :: "iso_session option"
  card_operation_active :: bool
  card_generation :: u64
  card_usable :: bool
  card_reset_pending :: bool
  card_selected :: "u32 option"
  card_raw :: raw_channel
  card_iso_channel :: iso_channel

text \<open>A checked command a caller hands over; \<open>None\<close> is a moved-from object.\<close>

type_synonym owned_command = "command option"

type_synonym ('s, 'a) card_operation = "card_state \<Rightarrow> 's \<Rightarrow> 'a result \<times> card_state \<times> 's"

definition has_native_session :: "card_state \<Rightarrow> bool" where
  "has_native_session k = (card_standard_aes k \<noteq> None \<or> card_ev2 k \<noteq> None)"

definition clear_native_session :: "card_state \<Rightarrow> card_state" where
  "clear_native_session k = k\<lparr>card_standard_aes := None, card_ev2 := None\<rparr>"

definition invalidate_locked :: "card_state \<Rightarrow> card_state" where
  "invalidate_locked k =
     (clear_native_session (k\<lparr>card_key := None, card_iso := None\<rparr>))
       \<lparr>card_reset_pending := False, card_selected := None, card_usable := False\<rparr>"

text \<open>\<^verbatim>\<open>OperationGuard\<close> around the body of a public operation.\<close>

definition guarded :: "String.literal \<Rightarrow> ('s, 'a) card_operation \<Rightarrow> ('s, 'a) card_operation" where
  "guarded message body k s =
     (if card_operation_active k then (Inl (local_error EC_busy message), k, s)
      else (case body (k\<lparr>card_operation_active := True\<rparr>) s of
              (r, k1, s1) \<Rightarrow> (r, k1\<lparr>card_operation_active := False\<rparr>, s1)))"

definition reentry_message :: String.literal where
  "reentry_message = STR ''Card callback cannot reenter an active operation''"

section \<open>Lifecycle\<close>

text \<open>\<^verbatim>\<open>Card::connect\<close> of a present transport and provider.\<close>

definition card_connect :: "'s environment \<Rightarrow> 's \<Rightarrow> card_state \<times> 's" where
  "card_connect E s =
     (let (generation, s1) = env_generation E s
      in (\<lparr>card_standard_aes = None, card_ev2 = None, card_key = None, card_iso = None,
           card_operation_active = False, card_generation = generation, card_usable = True,
           card_reset_pending = False, card_selected = Some 0, card_raw = raw_connect E,
           card_iso_channel = iso_create\<rparr>, s1))"

definition reset_authentication :: "('s, unit) card_operation" where
  "reset_authentication =
     guarded reentry_message (\<lambda>k s.
       let had_authentication = (has_native_session k \<or> card_iso k \<noteq> None)
       in (Inr (), (clear_native_session (k\<lparr>card_key := None, card_iso := None\<rparr>))
             \<lparr>card_reset_pending := card_reset_pending k \<or> had_authentication\<rparr>, s))"

definition card_reset :: "'s environment \<Rightarrow> ('s, unit) card_operation" where
  "card_reset E =
     guarded reentry_message (\<lambda>k s.
       let k1 = invalidate_locked k
       in case raw_reset E (card_raw k1) s of
            (Inl e, raw, s1) \<Rightarrow> (Inl e, k1\<lparr>card_raw := raw\<rparr>, s1)
          | (Inr _, raw, s1) \<Rightarrow>
              let (generation, s2) = env_generation E s1
              in (Inr (), k1\<lparr>card_raw := raw, card_generation := generation, card_usable := True,
                            card_reset_pending := False, card_selected := Some 0\<rparr>, s2))"

definition managed_rejected :: "byte \<Rightarrow> String.literal \<Rightarrow> error" where
  "managed_rejected status operation =
     make_error EC_card_rejected (operation + STR '' was rejected by card'') OC_rejected (ucast status)"

section \<open>Checked commands\<close>

text \<open>The conditions of \<^verbatim>\<open>execute_locked\<close> before and after the generation check.\<close>

definition admit_command :: "owned_command \<Rightarrow> card_state \<Rightarrow> command result" where
  "admit_command cmd k =
     (if \<not> card_usable k
      then Inl (local_error EC_session_invalid (STR ''Reset or reconnect before further card I/O''))
      else if card_reset_pending k
      then Inl (local_error EC_session_invalid
             (STR ''Select an application, authenticate EV2 First, or reset after local authentication reset''))
      else case cmd of
        None \<Rightarrow> Inl (invalid (STR ''Cannot execute a moved-from command''))
      | Some c \<Rightarrow>
          if c_opcode c = 0x6D
          then Inl (invalid (STR ''Use df_names() to preserve physical response boundaries''))
          else Inr c)"

definition authorize_command :: "command \<Rightarrow> card_state \<Rightarrow> unit result" where
  "authorize_command c k =
     (if card_iso k \<noteq> None
      then Inl (local_error EC_session_invalid (STR ''Native command requires native authentication or selection''))
      else if \<not> has_native_session k \<and> c_requires_authentication c
      then Inl (local_error EC_authentication (STR ''This command requires native authentication''))
      else if c_requires_ev2_session c \<and> card_ev2 k = None
      then Inl (local_error EC_authentication (STR ''This command requires EV2 AES authentication''))
      else if c_requires_picc_selection c \<and> card_selected k \<noteq> Some 0
      then Inl (local_error EC_authentication (STR ''This command requires PICC application selection''))
      else if c_current_authenticated_key c \<noteq> None \<and> c_current_authenticated_key c \<noteq> card_key k
      then Inl (local_error EC_authentication
             (STR ''native::checked::Command key selector differs from verified authentication''))
      else if restricts_authenticated_key c \<and>
              (case card_key k of None \<Rightarrow> True | Some key \<Rightarrow> \<not> accepts_authenticated_key c key)
      then Inl (local_error EC_authentication (STR ''Authenticated key is not authorized for this command''))
      else Inr ())"

text \<open>The exchange through the session the card holds.\<close>

definition exchange_command ::
  "'s environment \<Rightarrow> crypto_provider \<Rightarrow> command \<Rightarrow> exchange_options \<Rightarrow> ('s, bytes) card_operation" where
  "exchange_command E C c opts k s =
     (case card_ev2 k of
        Some t \<Rightarrow>
          (case exchange_protected (ev2_ops C) E (request_of c) opts t (card_raw k) s of
             (r, t1, raw, s1) \<Rightarrow> (r, k\<lparr>card_ev2 := Some t1, card_raw := raw\<rparr>, s1))
      | None \<Rightarrow>
          (case card_standard_aes k of
             Some t \<Rightarrow>
               (case exchange_protected (sa_ops C) E (request_of c) opts t (card_raw k) s of
                  (r, t1, raw, s1) \<Rightarrow> (r, k\<lparr>card_standard_aes := Some t1, card_raw := raw\<rparr>, s1))
           | None \<Rightarrow>
               (case exchange_unprotected E (request_of c) opts (card_raw k) s of
                  (r, raw, s1) \<Rightarrow> (r, k\<lparr>card_raw := raw\<rparr>, s1))))"

text \<open>The structural check of the response of each instruction that has a parser.\<close>

definition failure_of :: "'a result \<Rightarrow> error option" where
  "failure_of r = (case r of Inl e \<Rightarrow> Some e | Inr _ \<Rightarrow> None)"

definition uid_request_of :: "bytes \<Rightarrow> card_uid_request option" where
  "uid_request_of header =
     (if header = [] then Some Uid_omit_option
      else if header = [0x00] then Some Uid_without_nuid
      else if header = [0x01] then Some Uid_with_nuid
      else None)"

definition parse_failure :: "command \<Rightarrow> bytes \<Rightarrow> error option" where
  "parse_failure c payload =
     (if c_opcode c = 0x60 then failure_of (parse_version payload)
      else if c_opcode c = 0x6A then failure_of (parse_application_ids payload)
      else if c_opcode c = 0x61 then failure_of (parse_iso_file_ids payload)
      else if c_opcode c = 0x45 then failure_of (parse_key_settings payload)
      else if c_opcode c = 0xF5 then failure_of (parse_file_settings payload)
      else if c_opcode c = 0xF6 then failure_of (parse_file_counters payload)
      else if c_opcode c = 0x6C then failure_of (parse_value payload)
      else if c_opcode c = 0x51
      then (case uid_request_of (c_header c) of
              None \<Rightarrow> Some (unknown_error EC_malformed_response (STR ''GetCardUID command header is invalid''))
            | Some request \<Rightarrow> failure_of (parse_card_uid payload request))
      else if c_opcode c = 0x69 then failure_of (parse_delegated_application_info payload)
      else if c_opcode c = 0x3C then failure_of (parse_originality_signature payload)
      else if c_opcode c = 0xC7 \<and> payload \<noteq> [] then failure_of (parse_transaction_mac payload)
      else None)"

text \<open>What follows the exchange in \<^verbatim>\<open>execute_locked\<close>.\<close>

definition conclude_command ::
  "'s environment \<Rightarrow> command \<Rightarrow> bool \<Rightarrow> bytes result \<Rightarrow> ('s, bytes) card_operation" where
  "conclude_command E c protected_session result k s =
     (case result of
        Inl e \<Rightarrow>
          (Inl e, if protected_session \<or> err_outcome e = OC_unknown then invalidate_locked k else k, s)
      | Inr payload \<Rightarrow>
          let (generation, s1) = env_generation E s
          in if generation \<noteq> card_generation k
             then (Inl (unknown_error EC_card_removed (STR ''Card changed during managed command'')),
                   invalidate_locked k, s1)
             else (case parse_failure c payload of
                     Some e \<Rightarrow> (Inl e, invalidate_locked k, s1)
                   | None \<Rightarrow>
                       (Inr payload,
                        if c_invalidates_session c then (clear_native_session k)\<lparr>card_key := None\<rparr> else k,
                        s1)))"

definition execute_locked ::
  "'s environment \<Rightarrow> crypto_provider \<Rightarrow> owned_command \<Rightarrow> exchange_options \<Rightarrow> ('s, bytes) card_operation" where
  "execute_locked E C cmd opts k s =
     (case admit_command cmd k of
        Inl e \<Rightarrow> (Inl e, k, s)
      | Inr c \<Rightarrow>
          let (generation, s1) = env_generation E s
          in if generation \<noteq> card_generation k
             then (Inl (local_error EC_card_removed (STR ''Card changed before managed command'')),
                   invalidate_locked k, s1)
             else (case authorize_command c k of
                     Inl e \<Rightarrow> (Inl e, k, s1)
                   | Inr _ \<Rightarrow>
                       (case exchange_command E C c opts k s1 of
                          (result, k1, s2) \<Rightarrow> conclude_command E c (has_native_session k) result k1 s2)))"

definition card_execute ::
  "'s environment \<Rightarrow> crypto_provider \<Rightarrow> owned_command \<Rightarrow> exchange_options \<Rightarrow> ('s, bytes) card_operation" where
  "card_execute E C cmd opts = guarded reentry_message (execute_locked E C cmd opts)"

section \<open>Typed wrappers\<close>

text \<open>\<^verbatim>\<open>run\<close> and \<^verbatim>\<open>run_void\<close>: a builder's error is returned, its command executed.\<close>

definition card_run ::
  "'s environment \<Rightarrow> crypto_provider \<Rightarrow> command result \<Rightarrow> exchange_options \<Rightarrow> ('s, bytes) card_operation" where
  "card_run E C built opts k s =
     (case built of Inl e \<Rightarrow> (Inl e, k, s) | Inr c \<Rightarrow> card_execute E C (Some c) opts k s)"

definition card_run_void ::
  "'s environment \<Rightarrow> crypto_provider \<Rightarrow> command result \<Rightarrow> exchange_options \<Rightarrow> ('s, unit) card_operation" where
  "card_run_void E C built opts k s =
     (case card_run E C built opts k s of
        (Inl e, k1, s1) \<Rightarrow> (Inl e, k1, s1)
      | (Inr _, k1, s1) \<Rightarrow> (Inr (), k1, s1))"

text \<open>The wrappers that parse what \<^verbatim>\<open>run\<close> returned.\<close>

definition card_query ::
  "'s environment \<Rightarrow> crypto_provider \<Rightarrow> command result \<Rightarrow> (bytes \<Rightarrow> 'a result) \<Rightarrow> exchange_options
     \<Rightarrow> ('s, 'a) card_operation" where
  "card_query E C built parse opts k s =
     (case card_run E C built opts k s of
        (Inl e, k1, s1) \<Rightarrow> (Inl e, k1, s1)
      | (Inr payload, k1, s1) \<Rightarrow> (parse payload, k1, s1))"

definition application_ids ::
  "'s environment \<Rightarrow> crypto_provider \<Rightarrow> exchange_options \<Rightarrow> ('s, application_id list) card_operation" where
  "application_ids E C = card_query E C get_application_ids parse_application_ids"

definition card_delegated_application_info ::
  "'s environment \<Rightarrow> crypto_provider \<Rightarrow> u16 \<Rightarrow> exchange_options
     \<Rightarrow> ('s, delegated_application_info) card_operation" where
  "card_delegated_application_info E C slot =
     card_query E C (get_delegated_application_info slot) parse_delegated_application_info"

definition iso_file_ids ::
  "'s environment \<Rightarrow> crypto_provider \<Rightarrow> exchange_options \<Rightarrow> ('s, u16 list) card_operation" where
  "iso_file_ids E C = card_query E C get_iso_file_ids parse_iso_file_ids"

definition card_file_settings ::
  "'s environment \<Rightarrow> crypto_provider \<Rightarrow> file_number \<Rightarrow> exchange_options \<Rightarrow> ('s, file_settings) card_operation" where
  "card_file_settings E C file = card_query E C (get_file_settings file) parse_file_settings"

definition card_value ::
  "'s environment \<Rightarrow> crypto_provider \<Rightarrow> file_number \<Rightarrow> communication_mode \<Rightarrow> exchange_options
     \<Rightarrow> ('s, u32) card_operation" where
  "card_value E C file mode = card_query E C (get_value file mode) parse_value"

definition card_file_counters ::
  "'s environment \<Rightarrow> crypto_provider \<Rightarrow> file_number \<Rightarrow> communication_mode \<Rightarrow> exchange_options
     \<Rightarrow> ('s, u32 \<times> bytes) card_operation" where
  "card_file_counters E C file mode = card_query E C (get_file_counters file mode) parse_file_counters"

definition card_key_settings ::
  "'s environment \<Rightarrow> crypto_provider \<Rightarrow> exchange_options \<Rightarrow> ('s, key_settings_info) card_operation" where
  "card_key_settings E C = card_query E C get_key_settings parse_key_settings"

definition parse_key_version :: "bytes \<Rightarrow> byte result" where
  "parse_key_version payload =
     (if length payload \<noteq> 1
      then Inl (unknown_error EC_malformed_response (STR ''GetKeyVersion response must contain exactly one byte''))
      else Inr (hd payload))"

definition card_key_version ::
  "'s environment \<Rightarrow> crypto_provider \<Rightarrow> key_number \<Rightarrow> byte option \<Rightarrow> exchange_options
     \<Rightarrow> ('s, byte) card_operation" where
  "card_key_version E C key key_set = card_query E C (get_key_version key key_set) parse_key_version"

definition card_uid ::
  "'s environment \<Rightarrow> crypto_provider \<Rightarrow> card_uid_request \<Rightarrow> exchange_options
     \<Rightarrow> ('s, card_uid_info) card_operation" where
  "card_uid E C request = card_query E C (get_card_uid request) (\<lambda>payload. parse_card_uid payload request)"

definition card_originality_signature ::
  "'s environment \<Rightarrow> crypto_provider \<Rightarrow> exchange_options \<Rightarrow> ('s, bytes) card_operation" where
  "card_originality_signature E C =
     card_query E C read_originality_signature parse_originality_signature"

section \<open>Plain execution and selection\<close>

definition authenticated_discovery :: "byte \<Rightarrow> command result" where
  "authenticated_discovery instruction =
     (if instruction = 0x60 then get_version
      else if instruction = 0x6E then free_memory
      else if instruction = 0x6F then get_file_ids
      else Inl (invalid (STR ''Unsupported authenticated discovery command'')))"

definition plain_request :: "byte \<Rightarrow> bytes \<Rightarrow> raw_request" where
  "plain_request instruction data =
     \<lparr>rq_command = instruction, rq_data = data, rq_maximum_response = 16 * 1024 * 1024,
      rq_first_frame_data_size = None, rq_single_continuation_frame = False\<rparr>"

text \<open>The unauthenticated part of \<^verbatim>\<open>execute_plain_locked\<close>.\<close>

definition exchange_plain ::
  "'s environment \<Rightarrow> byte \<Rightarrow> bytes \<Rightarrow> exchange_options \<Rightarrow> String.literal \<Rightarrow> ('s, bytes) card_operation" where
  "exchange_plain E instruction data opts operation k s =
     (let (generation, s1) = env_generation E s
      in if generation \<noteq> card_generation k
         then (Inl (local_error EC_card_removed (STR ''Card state changed before native command'')),
               invalidate_locked k, s1)
         else case raw_exchange E (plain_request instruction data) opts (card_raw k) s1 of
           (Inl e, raw, s2) \<Rightarrow>
             (Inl e, if err_outcome e = OC_unknown then invalidate_locked (k\<lparr>card_raw := raw\<rparr>)
                     else k\<lparr>card_raw := raw\<rparr>, s2)
         | (Inr response, raw, s2) \<Rightarrow>
             let k1 = k\<lparr>card_raw := raw\<rparr>;
                 (generation2, s3) = env_generation E s2
             in if generation2 \<noteq> card_generation k
                then (Inl (unknown_error EC_card_removed (STR ''Card state changed after native command'')),
                      invalidate_locked k1, s3)
                else if rs_status response \<noteq> 0
                then (Inl (managed_rejected (rs_status response) operation), k1, s3)
                else (Inr (rs_data response), k1, s3))"

definition execute_plain_locked ::
  "'s environment \<Rightarrow> crypto_provider \<Rightarrow> byte \<Rightarrow> bytes \<Rightarrow> exchange_options \<Rightarrow> String.literal
     \<Rightarrow> ('s, bytes) card_operation" where
  "execute_plain_locked E C instruction data opts operation k s =
     (if \<not> card_usable k
      then (Inl (local_error EC_session_invalid
                  (STR ''Managed session is uncertain; reconnect before further I/O'')), k, s)
      else if card_reset_pending k
      then (Inl (local_error EC_session_invalid
             (STR ''Select an application, authenticate EV2 First, or reset after local authentication reset'')), k, s)
      else if card_iso k \<noteq> None
      then (Inl (local_error EC_session_invalid
             (STR ''Select an application before switching ISO to native commands'')), k, s)
      else if has_native_session k
      then (case authenticated_discovery instruction of
              Inl e \<Rightarrow> (Inl e, k, s)
            | Inr c \<Rightarrow> execute_locked E C (Some c) opts k s)
      else exchange_plain E instruction data opts operation k s)"

definition application_data :: "application_id \<Rightarrow> bytes" where
  "application_data app = [ucast app, ucast (drop_bit 8 app), ucast (drop_bit 16 app)]"

text \<open>The state changes that follow the exchange of \<^verbatim>\<open>select_application\<close>.\<close>

definition conclude_selection ::
  "application_id \<Rightarrow> bool \<Rightarrow> bool \<Rightarrow> bytes result \<Rightarrow> card_state \<Rightarrow> unit result \<times> card_state" where
  "conclude_selection app was_authenticated reset_was_pending response k =
     (case response of
        Inl e \<Rightarrow>
          (Inl e,
           if was_authenticated then invalidate_locked k
           else if reset_was_pending \<and> card_usable k
           then if err_outcome e = OC_unknown then invalidate_locked k else k\<lparr>card_reset_pending := True\<rparr>
           else k)
      | Inr payload \<Rightarrow>
          if payload \<noteq> []
          then (Inl (unknown_error EC_malformed_response
                      (STR ''SelectApplication response must contain no data'')), invalidate_locked k)
          else (Inr (), k\<lparr>card_selected := Some app\<rparr>))"

definition select_application_locked ::
  "'s environment \<Rightarrow> crypto_provider \<Rightarrow> application_id \<Rightarrow> exchange_options \<Rightarrow> ('s, unit) card_operation" where
  "select_application_locked E C app opts k s =
     (if opt_timeout opts \<le> 0
      then (Inl (invalid (STR ''Application selection timeout must be positive'')), k, s)
      else let (stopped, s1) = env_stop_requested E (opt_stop opts) s
      in if stopped
         then (Inl (local_error EC_cancelled (STR ''Application selection cancelled before I/O'')), k, s1)
         else let was_authenticated = (has_native_session k \<or> card_iso k \<noteq> None);
                  reset_was_pending = card_reset_pending k;
                  k1 = (clear_native_session k)\<lparr>card_iso := None, card_key := None, card_reset_pending := False\<rparr>
         in case execute_plain_locked E C 0x5A (application_data app) opts (STR ''SelectApplication'') k1 s1 of
              (response, k2, s2) \<Rightarrow>
                (case conclude_selection app was_authenticated reset_was_pending response k2 of
                   (r, k3) \<Rightarrow> (r, k3, s2)))"

definition select_application ::
  "'s environment \<Rightarrow> crypto_provider \<Rightarrow> application_id \<Rightarrow> exchange_options \<Rightarrow> ('s, unit) card_operation" where
  "select_application E C app opts = guarded reentry_message (select_application_locked E C app opts)"

section \<open>Discovery\<close>

text \<open>A discovery command whose payload is decoded; a decoding failure invalidates the card.\<close>

definition discover ::
  "'s environment \<Rightarrow> crypto_provider \<Rightarrow> byte \<Rightarrow> exchange_options \<Rightarrow> String.literal \<Rightarrow> (bytes \<Rightarrow> 'a result)
     \<Rightarrow> ('s, 'a) card_operation" where
  "discover E C instruction opts operation parse k s =
     (case execute_plain_locked E C instruction [] opts operation k s of
        (Inl e, k1, s1) \<Rightarrow> (Inl e, k1, s1)
      | (Inr payload, k1, s1) \<Rightarrow>
          (case parse payload of
             Inl e \<Rightarrow> (Inl e, invalidate_locked k1, s1)
           | Inr v \<Rightarrow> (Inr v, k1, s1)))"

definition card_get_version ::
  "'s environment \<Rightarrow> crypto_provider \<Rightarrow> exchange_options \<Rightarrow> ('s, version_info) card_operation" where
  "card_get_version E C opts =
     guarded reentry_message (discover E C 0x60 opts (STR ''GetVersion'') parse_version)"

definition parse_free_memory :: "bytes \<Rightarrow> u32 result" where
  "parse_free_memory payload =
     (if length payload \<noteq> 3
      then Inl (unknown_error EC_malformed_response (STR ''FreeMem response must contain exactly three bytes''))
      else Inr (get_le payload))"

definition card_free_memory ::
  "'s environment \<Rightarrow> crypto_provider \<Rightarrow> exchange_options \<Rightarrow> ('s, u32) card_operation" where
  "card_free_memory E C opts =
     guarded reentry_message (discover E C 0x6E opts (STR ''FreeMem'') parse_free_memory)"

fun file_ids_loop :: "bytes \<Rightarrow> file_number list \<Rightarrow> file_number list result" where
  "file_ids_loop [] files = Inr files"
| "file_ids_loop (raw_file # rest) files =
     (case number_make 31 (ucast raw_file) of
        Inl _ \<Rightarrow> Inl (unknown_error EC_malformed_response
                  (STR ''GetFileIDs contains an invalid or duplicate file number''))
      | Inr file \<Rightarrow>
          if file \<in> set files
          then Inl (unknown_error EC_malformed_response
                  (STR ''GetFileIDs contains an invalid or duplicate file number''))
          else file_ids_loop rest (files @ [file]))"

definition parse_file_ids :: "bytes \<Rightarrow> file_number list result" where
  "parse_file_ids payload =
     (if length payload > 32
      then Inl (unknown_error EC_malformed_response (STR ''GetFileIDs exceeds DESFire file capacity''))
      else file_ids_loop payload [])"

definition card_file_ids ::
  "'s environment \<Rightarrow> crypto_provider \<Rightarrow> exchange_options \<Rightarrow> ('s, file_number list) card_operation" where
  "card_file_ids E C opts =
     guarded reentry_message (discover E C 0x6F opts (STR ''GetFileIDs'') parse_file_ids)"

text \<open>The names decoded from the collected frames; the first failure ends the loop.\<close>

fun decode_df_names :: "bytes list \<Rightarrow> df_name_info list result" where
  "decode_df_names [] = Inr []"
| "decode_df_names (frame # frames) =
     (case parse_df_name_frame frame of
        Inl e \<Rightarrow> Inl e
      | Inr name \<Rightarrow> (case decode_df_names frames of Inl e \<Rightarrow> Inl e | Inr names \<Rightarrow> Inr (name # names)))"

text \<open>
  The frame loop of \<^verbatim>\<open>df_names\<close>: the first argument counts the iterations that are left,
  the result tells whether the card is to be invalidated.
\<close>

primrec df_names_loop ::
  "nat \<Rightarrow> 's environment \<Rightarrow> native_framing \<Rightarrow> byte \<Rightarrow> bytes list \<Rightarrow> transaction \<Rightarrow> 's
     \<Rightarrow> (df_name_info list result \<times> bool) \<times> 's" where
  "df_names_loop 0 E fr command records tx s =
     ((Inl (unknown_error EC_malformed_response (STR ''DF-name chain exceeded the record limit'')), True), s)"
| "df_names_loop (Suc n) E fr command records tx s =
     (case exchange_frame E fr command [] tx s of
        (Inl e, tx1, s1) \<Rightarrow> ((Inl e, err_outcome e = OC_unknown), s1)
      | (Inr frame, tx1, s1) \<Rightarrow>
          if rs_status frame \<noteq> 0 \<and> rs_status frame \<noteq> 0xAF
          then ((Inl (managed_rejected (rs_status frame) (STR ''GetDFNames'')), False), s1)
          else if length (rs_data frame) > 29 \<or>
                  (rs_status frame = 0xAF \<and> (rs_data frame = [] \<or> length (rs_data frame) > 21))
          then ((Inl (unknown_error EC_malformed_response (STR ''DF-name frame violates its record bound'')),
                 True), s1)
          else let records1 = (if rs_data frame \<noteq> [] then records @ [rs_data frame] else records)
          in if rs_status frame = 0
             then (case decode_df_names records1 of
                     Inl e \<Rightarrow> ((Inl e, True), s1)
                   | Inr names \<Rightarrow> ((Inr names, False), s1))
             else df_names_loop n E fr 0xAF records1 tx1 s1)"

definition df_names_locked ::
  "'s environment \<Rightarrow> exchange_options \<Rightarrow> ('s, df_name_info list) card_operation" where
  "df_names_locked E opts k s =
     (if \<not> card_usable k \<or> card_iso k \<noteq> None
      then (Inl (local_error EC_session_invalid (STR ''GetDFNames requires usable native card state'')), k, s)
      else if card_reset_pending k
      then (Inl (local_error EC_session_invalid
             (STR ''Select an application, authenticate EV2 First, or reset before GetDFNames after local authentication reset'')), k, s)
      else if has_native_session k
      then (Inl (local_error EC_authentication
             (STR ''GetDFNames requires unauthenticated native card state'')), k, s)
      else let (generation, s1) = env_generation E s
      in if generation \<noteq> card_generation k
         then (Inl (local_error EC_card_removed (STR ''Card changed before GetDFNames'')),
               invalidate_locked k, s1)
         else case raw_begin E opts (card_raw k) s1 of
           (Inl e, raw, s2) \<Rightarrow> (Inl e, k\<lparr>card_raw := raw\<rparr>, s2)
         | (Inr tx, raw, s2) \<Rightarrow>
             (case df_names_loop 4096 E (ch_framing raw) 0x6D [] tx s2 of
                ((r, uncertain), s3) \<Rightarrow>
                  let k1 = k\<lparr>card_raw := end_transaction raw\<rparr>
                  in (r, if uncertain then invalidate_locked k1 else k1, s3)))"

definition card_df_names ::
  "'s environment \<Rightarrow> exchange_options \<Rightarrow> ('s, df_name_info list) card_operation" where
  "card_df_names E opts = guarded reentry_message (df_names_locked E opts)"

section \<open>ISO commands\<close>

definition default_iso_limits :: iso_limits where
  "default_iso_limits = \<lparr>lim_max_response = 65536, lim_max_frames = 1024, lim_correct_length = True\<rparr>"

text \<open>The authentication state that a resetting ISO command sets aside and may restore.\<close>

definition restore_authentication :: "card_state \<Rightarrow> card_state \<Rightarrow> card_state" where
  "restore_authentication saved k =
     k\<lparr>card_standard_aes := card_standard_aes saved, card_ev2 := card_ev2 saved, card_iso := card_iso saved,
       card_key := card_key saved, card_reset_pending := card_reset_pending saved,
       card_selected := card_selected saved\<rparr>"

definition set_aside :: "card_state \<Rightarrow> card_state" where
  "set_aside k = (clear_native_session k)\<lparr>card_iso := None, card_key := None, card_reset_pending := False\<rparr>"

definition exchange_iso ::
  "'s environment \<Rightarrow> crypto_provider \<Rightarrow> iso_command \<Rightarrow> exchange_options \<Rightarrow> ('s, iso_response) card_operation" where
  "exchange_iso E C c opts k s =
     (case card_iso k of
        Some ses \<Rightarrow>
          (case iso_execute E C True c opts default_iso_limits ses (card_iso_channel k) s of
             (r, ses1, ch, s1) \<Rightarrow> (r, k\<lparr>card_iso := Some ses1, card_iso_channel := ch\<rparr>, s1))
      | None \<Rightarrow>
          (case checked_exchange E c opts default_iso_limits (card_iso_channel k) s of
             (r, ch, s1) \<Rightarrow> (r, k\<lparr>card_iso_channel := ch\<rparr>, s1)))"

text \<open>What follows the exchange; \<open>saved\<close> is the state before the command.\<close>

definition conclude_iso ::
  "'s environment \<Rightarrow> iso_command \<Rightarrow> card_state \<Rightarrow> iso_response result \<Rightarrow> ('s, iso_response) card_operation" where
  "conclude_iso E c saved response k s =
     (case response of
        Inl e \<Rightarrow>
          (Inl e,
           if err_outcome e = OC_not_sent \<and> resets_authentication c then restore_authentication saved k
           else if has_native_session saved \<or> card_iso saved \<noteq> None \<or> card_reset_pending saved \<or>
                   card_iso k \<noteq> None \<or> err_outcome e = OC_unknown
           then invalidate_locked k
           else k, s)
      | Inr resp \<Rightarrow>
          let (generation, s1) = env_generation E s
          in if generation \<noteq> card_generation k
             then (Inl (unknown_error EC_card_removed (STR ''Card changed during ISO operation'')),
                   invalidate_locked k, s1)
             else let k1 = (case card_iso k of
                              None \<Rightarrow> k
                            | Some ses \<Rightarrow> if is_valid ses then k else invalidate_locked k)
             in (Inr resp,
                 if resets_authentication c
                 then if ir_status resp = 0x9000
                      then k1\<lparr>card_reset_pending := False, card_selected := None\<rparr>
                      else restore_authentication saved k1
                 else k1, s1))"

definition iso_command_locked ::
  "'s environment \<Rightarrow> crypto_provider \<Rightarrow> iso_command \<Rightarrow> exchange_options \<Rightarrow> ('s, iso_response) card_operation" where
  "iso_command_locked E C c opts k s =
     (if \<not> card_usable k
      then (Inl (local_error EC_session_invalid (STR ''Reset or reconnect before ISO operation'')), k, s)
      else if card_reset_pending k \<and> \<not> resets_authentication c
      then (Inl (local_error EC_session_invalid
             (STR ''Select an application or reset before ISO operation after local reset'')), k, s)
      else let (generation, s1) = env_generation E s
      in if generation \<noteq> card_generation k
         then (Inl (local_error EC_card_removed (STR ''Card changed before ISO operation'')),
               invalidate_locked k, s1)
         else if has_native_session k \<and> \<not> resets_authentication c
         then (Inl (local_error EC_session_invalid
                (STR ''ISO operation cannot reuse a native secure session'')), k, s1)
         else let k1 = (if resets_authentication c then set_aside k else k)
         in case exchange_iso E C c opts k1 s1 of
              (response, k2, s2) \<Rightarrow> conclude_iso E c k response k2 s2)"

definition iso_command ::
  "'s environment \<Rightarrow> crypto_provider \<Rightarrow> iso_command \<Rightarrow> exchange_options \<Rightarrow> ('s, iso_response) card_operation" where
  "iso_command E C c opts = guarded reentry_message (iso_command_locked E C c opts)"

end
