(* ===== verification/Managed_Authentication.thy ===== *)
theory Managed_Authentication
  imports Managed_Card
begin

text \<open>
  Authentication of the managed card (\<^verbatim>\<open>core/src/managed/card_authentication.cpp\<close>): the checks
  on derivation contexts and provider requests, the single call of an injected deriver or key
  provider, the preflight, and the three kinds of authentication, each with a key handed over, derived
  or resolved. A deriver and a provider are parameters, as in the source.
\<close>

section \<open>Key sources\<close>

type_synonym 's key_deriver = "bytes \<Rightarrow> derivation_context \<Rightarrow> 's \<Rightarrow> bytes result dep \<times> 's"
type_synonym 's key_provider = "key_request \<Rightarrow> 's \<Rightarrow> bytes result dep \<times> 's"

definition local_resolution_error :: "error_code \<Rightarrow> String.literal \<Rightarrow> error" where
  "local_resolution_error code message = make_error code message OC_not_sent 0"

definition validate_derivation_context :: "derivation_context \<Rightarrow> unit result" where
  "validate_derivation_context ctx =
     (if dx_purpose ctx \<noteq> purpose_authentication
      then Inl (invalid (STR ''Managed authentication requires authentication-purpose key context''))
      else Inr ())"

definition selected_iso_key :: "iso_key_reference \<Rightarrow> u32" where
  "selected_iso_key key = (if key = 0 then 0 else ucast (key AND 0x0F))"

definition validate_iso_context_key :: "derivation_context \<Rightarrow> iso_key_reference \<Rightarrow> unit result" where
  "validate_iso_context_key ctx key =
     (if dx_key_number ctx \<noteq> selected_iso_key key
      then Inl (invalid (STR ''ISO derivation context key number does not match card key reference''))
      else Inr ())"

definition validate_provider_request ::
  "key_request \<Rightarrow> authentication_profile \<Rightarrow> iso_key_reference option \<Rightarrow> unit result" where
  "validate_provider_request request expected_profile iso_key =
     (case validate_derivation_context (kr_context request) of
        Inl e \<Rightarrow> Inl e
      | Inr _ \<Rightarrow>
          if kr_profile request \<noteq> Some expected_profile
          then Inl (invalid (STR ''Key provider request authentication profile does not match method''))
          else (case iso_key of
                  None \<Rightarrow>
                    if kr_scope request \<noteq> scope_native
                    then Inl (invalid (STR ''Native authentication requires a native key-provider scope''))
                    else Inr ()
                | Some key \<Rightarrow>
                    if kr_scope request \<noteq> (if key = 0 then scope_iso_picc else scope_iso_application)
                    then Inl (invalid (STR ''ISO key-provider scope does not match the card key reference''))
                    else if dx_key_number (kr_context request) \<noteq> selected_iso_key key
                    then Inl (invalid (STR ''ISO provider context key number does not match card key reference''))
                    else Inr ()))"

definition derive_once ::
  "'s environment \<Rightarrow> 's key_deriver \<Rightarrow> bytes \<Rightarrow> derivation_context \<Rightarrow> exchange_options \<Rightarrow> 's
     \<Rightarrow> bytes result \<times> 's" where
  "derive_once E deriver master_key ctx opts s =
     (if \<not> aes128_key_valid master_key
      then (Inl (invalid (STR ''Managed authentication master key was moved from'')), s)
      else let (stopped, s1) = env_stop_requested E (opt_stop opts) s
      in if stopped
         then (Inl (local_resolution_error EC_cancelled
                (STR ''Authentication cancelled before key derivation'')), s1)
         else case deriver master_key ctx s1 of
           (Threw, s2) \<Rightarrow>
             (Inl (local_resolution_error EC_internal (STR ''AES-128 key deriver threw an exception'')), s2)
         | (Returned (Inl e), s2) \<Rightarrow>
             (Inl (local_resolution_error (err_code e) (STR ''AES-128 key derivation failed'')), s2)
         | (Returned (Inr key), s2) \<Rightarrow>
             let (stopped2, s3) = env_stop_requested E (opt_stop opts) s2
             in if stopped2
                then (Inl (local_resolution_error EC_cancelled
                       (STR ''Authentication cancelled after key derivation'')), s3)
                else if \<not> aes128_key_valid key
                then (Inl (local_resolution_error EC_crypto (STR ''AES-128 deriver returned no exact key'')), s3)
                else (Inr key, s3))"

text \<open>
  Either of two tokens; the second is read only when the first has not been requested. The combined
  token of \<^verbatim>\<open>resolve_once\<close> is requested when either of its sources is.
\<close>

definition either_stop :: "'s environment \<Rightarrow> stop_token \<Rightarrow> stop_token \<Rightarrow> 's \<Rightarrow> bool \<times> 's" where
  "either_stop E a b s =
     (let (stopped, s1) = env_stop_requested E a s
      in if stopped then (True, s1) else env_stop_requested E b s1)"

text \<open>\<open>combined\<close> names the token of the local \<^verbatim>\<open>std::stop_source\<close>.\<close>

definition resolve_once ::
  "'s environment \<Rightarrow> stop_token \<Rightarrow> 's key_provider \<Rightarrow> key_request \<Rightarrow> exchange_options \<Rightarrow> 's
     \<Rightarrow> bytes result \<times> 's" where
  "resolve_once E combined provider request opts s =
     (let (stopped, s1) = either_stop E (kr_cancellation request) (opt_stop opts) s
      in if stopped
         then (Inl (local_resolution_error EC_cancelled
                (STR ''Authentication cancelled before key resolution'')), s1)
         else case key_request_make (kr_reference request) (kr_context request) (kr_scope request)
                     (kr_profile request) combined of
           Inl _ \<Rightarrow> (Inl (local_resolution_error EC_internal
                      (STR ''Validated key request could not be copied'')), s1)
         | Inr effective \<Rightarrow>
             (case provider effective s1 of
                (Threw, s2) \<Rightarrow>
                  (Inl (local_resolution_error EC_internal (STR ''AES-128 key provider threw an exception'')), s2)
              | (Returned (Inl e), s2) \<Rightarrow>
                  (Inl (local_resolution_error (err_code e) (STR ''AES-128 key provider failed'')), s2)
              | (Returned (Inr key), s2) \<Rightarrow>
                  let (stopped2, s3) = either_stop E (kr_cancellation request) (opt_stop opts) s2
                  in if stopped2
                     then (Inl (local_resolution_error EC_cancelled
                            (STR ''Authentication cancelled after key resolution'')), s3)
                     else if \<not> aes128_key_valid key
                     then (Inl (local_resolution_error EC_crypto
                            (STR ''AES-128 key provider returned no exact key'')), s3)
                     else (Inr key, s3)))"

section \<open>Preflight\<close>

definition authentication_preflight_locked ::
  "'s environment \<Rightarrow> bool \<Rightarrow> exchange_options \<Rightarrow> ('s, unit) card_operation" where
  "authentication_preflight_locked E require_ev2_session opts k s =
     (if opt_timeout opts \<le> 0
      then (Inl (invalid (STR ''Authentication requires a positive timeout'')), k, s)
      else let (stopped, s1) = env_stop_requested E (opt_stop opts) s
      in if stopped
         then (Inl (local_error EC_cancelled (STR ''Authentication cancelled before card I/O'')), k, s1)
         else if \<not> card_usable k
         then (Inl (local_error EC_session_invalid
                (STR ''Managed session is uncertain; reset before authentication'')), k, s1)
         else if require_ev2_session \<and> card_ev2 k = None
         then (Inl (local_error EC_session_invalid
                (STR ''EV2 NonFirst requires an active verified EV2 First session'')), k, s1)
         else let (generation, s2) = env_generation E s1
         in if generation \<noteq> card_generation k
            then (Inl (local_error EC_card_removed (STR ''Card state changed before authentication'')),
                  invalidate_locked k, s2)
            else (Inr (), k, s2))"

section \<open>The three authentications\<close>

text \<open>One frame of the card's transaction, and the random source, as the handshakes see them.\<close>

definition transaction_frame :: "'s environment \<Rightarrow> native_framing \<Rightarrow> (transaction \<times> 's) auth_exchange" where
  "transaction_frame E fr command payload st =
     (case exchange_frame E fr command payload (fst st) (snd st) of
        (r, tx, s) \<Rightarrow> (Returned r, (tx, s)))"

definition transaction_random :: "'s environment \<Rightarrow> nat \<Rightarrow> (transaction \<times> 's, bytes) action" where
  "transaction_random E n st = (case env_random E n (snd st) of (r, s) \<Rightarrow> (r, (fst st, s)))"

definition empty_information :: authentication_info where
  "empty_information = \<lparr>transaction_identifier = replicate 4 0, picc_capabilities = replicate 6 0,
     pcd_capabilities = replicate 6 0\<rparr>"

text \<open>
  What follows a handshake: a failure before anything was sent gives the ISO session back, every
  other failure invalidates the card; \<open>install\<close> creates the new session.
\<close>

definition conclude_handshake ::
  "'s environment \<Rightarrow> String.literal \<Rightarrow> iso_session option \<Rightarrow> 'm result \<Rightarrow> ('m \<Rightarrow> card_state \<Rightarrow> ('a \<times> card_state) result)
     \<Rightarrow> ('s, 'a) card_operation" where
  "conclude_handshake E changed previous_iso material install k s =
     (case material of
        Inl e \<Rightarrow>
          (Inl e, if err_outcome e = OC_not_sent then k\<lparr>card_iso := previous_iso\<rparr> else invalidate_locked k, s)
      | Inr m \<Rightarrow>
          let (generation, s1) = env_generation E s
          in if generation \<noteq> card_generation k
             then (Inl (unknown_error EC_card_removed changed), invalidate_locked k, s1)
             else (case install m k of
                     Inl e \<Rightarrow> (Inl (with_unknown_outcome e), invalidate_locked k, s1)
                   | Inr (a, k1) \<Rightarrow> (Inr a, k1, s1)))"

definition install_ev2 ::
  "u16 \<Rightarrow> key_number \<Rightarrow> ev2_material \<Rightarrow> card_state \<Rightarrow> (authentication_info \<times> card_state) result" where
  "install_ev2 counter key_number material k =
     (case ev2_create material counter of
        Inl e \<Rightarrow> Inl e
      | Inr session \<Rightarrow>
          Inr (e_authentication session,
               (clear_native_session k)\<lparr>card_ev2 := Some session, card_key := Some (ucast key_number),
                 card_reset_pending := False\<rparr>))"

definition authenticate_ev2_locked ::
  "'s environment \<Rightarrow> crypto_provider \<Rightarrow> bool \<Rightarrow> key_number \<Rightarrow> bytes \<Rightarrow> bytes \<Rightarrow> exchange_options
     \<Rightarrow> ('s, authentication_info) card_operation" where
  "authenticate_ev2_locked E C first key_number key pcd opts k s =
     (if \<not> aes128_key_valid key then (Inl (invalid (STR ''EV2 AES key was moved from'')), k, s)
      else if length pcd > 6 \<or> (\<not> first \<and> pcd \<noteq> [])
      then (Inl (invalid (STR ''PCD capabilities must contain zero through six bytes and require EV2 First'')), k, s)
      else case raw_begin E opts (card_raw k) s of
        (Inl e, raw, s1) \<Rightarrow> (Inl e, k\<lparr>card_raw := raw\<rparr>, s1)
      | (Inr tx, raw, s1) \<Rightarrow>
          let previous_information =
                (case card_ev2 k of None \<Rightarrow> empty_information | Some t \<Rightarrow> e_authentication t);
              previous_counter = (case card_ev2 k of None \<Rightarrow> 0 | Some t \<Rightarrow> e_counter t);
              exchange = transaction_frame E (ch_framing raw);
              (material, tx1, s2) =
                (if first
                 then ev2_authenticate_first C (transaction_random E) (ucast key_number) key pcd exchange (tx, s1)
                 else ev2_authenticate_nonfirst C (transaction_random E) (ucast key_number) key
                        previous_information exchange (tx, s1))
          in conclude_handshake E (STR ''Card state changed after EV2 authentication'') (card_iso k) material
               (install_ev2 (if first then 0 else previous_counter) key_number)
               (k\<lparr>card_iso := None, card_raw := end_transaction raw\<rparr>) s2)"

definition install_standard_aes ::
  "key_number \<Rightarrow> bytes \<Rightarrow> card_state \<Rightarrow> (unit \<times> card_state) result" where
  "install_standard_aes key_number material k =
     (case sa_create material of
        Inl e \<Rightarrow> Inl e
      | Inr session \<Rightarrow>
          Inr ((), (clear_native_session k)\<lparr>card_standard_aes := Some session,
                 card_key := Some (ucast key_number), card_reset_pending := False\<rparr>))"

definition authenticate_standard_aes_locked ::
  "'s environment \<Rightarrow> crypto_provider \<Rightarrow> key_number \<Rightarrow> bytes \<Rightarrow> exchange_options \<Rightarrow> ('s, unit) card_operation" where
  "authenticate_standard_aes_locked E C key_number key opts k s =
     (if \<not> aes128_key_valid key then (Inl (invalid (STR ''Standard AES key was moved from'')), k, s)
      else case raw_begin E opts (card_raw k) s of
        (Inl e, raw, s1) \<Rightarrow> (Inl e, k\<lparr>card_raw := raw\<rparr>, s1)
      | (Inr tx, raw, s1) \<Rightarrow>
          (case sa_authenticate C (transaction_random E) (ucast key_number) key
                  (transaction_frame E (ch_framing raw)) (tx, s1) of
             (material, tx1, s2) \<Rightarrow>
               conclude_handshake E (STR ''Card state changed after Standard AES authentication'') (card_iso k)
                 material (install_standard_aes key_number)
                 (k\<lparr>card_iso := None, card_raw := end_transaction raw\<rparr>) s2))"

definition authenticate_iso_aes_locked ::
  "'s environment \<Rightarrow> crypto_provider \<Rightarrow> iso_key_reference \<Rightarrow> bytes \<Rightarrow> exchange_options
     \<Rightarrow> ('s, unit) card_operation" where
  "authenticate_iso_aes_locked E C key aes_key opts k s =
     (if card_reset_pending k
      then (Inl (local_error EC_session_invalid
             (STR ''Select an ISO file or reset before ISO authentication after local reset'')), k, s)
      else if \<not> aes128_key_valid aes_key then (Inl (invalid (STR ''ISO AES key was moved from'')), k, s)
      else let k1 = (clear_native_session k)\<lparr>card_iso := None, card_key := None\<rparr>
      in case iso_authenticate E C key aes_key opts automatic (card_iso_channel k1, s) of
           (Inl e, ch, s1) \<Rightarrow>
             (Inl e,
              if err_outcome e = OC_not_sent
              then k1\<lparr>card_standard_aes := card_standard_aes k, card_ev2 := card_ev2 k, card_iso := card_iso k,
                      card_key := card_key k, card_iso_channel := ch\<rparr>
              else invalidate_locked (k1\<lparr>card_iso_channel := ch\<rparr>), s1)
         | (Inr session, ch, s1) \<Rightarrow>
             let k2 = k1\<lparr>card_iso_channel := ch\<rparr>;
                 (generation, s2) = env_generation E s1
             in if generation \<noteq> card_generation k2
                then (Inl (unknown_error EC_card_removed (STR ''Card state changed after ISO authentication'')),
                      invalidate_locked k2, s2)
                else (Inr (), k2\<lparr>card_iso := Some session, card_reset_pending := False\<rparr>, s2))"

section \<open>Public operations\<close>

text \<open>Guard and preflight around the rest of an authentication.\<close>

definition preflighted ::
  "'s environment \<Rightarrow> bool \<Rightarrow> exchange_options \<Rightarrow> ('s, 'a) card_operation \<Rightarrow> ('s, 'a) card_operation" where
  "preflighted E require_ev2_session opts body =
     guarded reentry_message (\<lambda>k s.
       case authentication_preflight_locked E require_ev2_session opts k s of
         (Inl e, k1, s1) \<Rightarrow> (Inl e, k1, s1)
       | (Inr _, k1, s1) \<Rightarrow> body k1 s1)"

text \<open>A validation, then a key of one of the two injected sources, then the authentication.\<close>

definition with_key ::
  "unit result \<Rightarrow> ('s \<Rightarrow> bytes result \<times> 's) \<Rightarrow> (bytes \<Rightarrow> ('s, 'a) card_operation) \<Rightarrow> ('s, 'a) card_operation" where
  "with_key checked obtain_key body k s =
     (case checked of
        Inl e \<Rightarrow> (Inl e, k, s)
      | Inr _ \<Rightarrow> (case obtain_key s of (Inl e, s1) \<Rightarrow> (Inl e, k, s1) | (Inr key, s1) \<Rightarrow> body key k s1))"

definition both_checks :: "unit result \<Rightarrow> unit result \<Rightarrow> unit result" where
  "both_checks a b = (case a of Inl e \<Rightarrow> Inl e | Inr _ \<Rightarrow> b)"

definition pcd_check :: "bytes \<Rightarrow> unit result" where
  "pcd_check pcd =
     (if length pcd > 6 then Inl (invalid (STR ''EV2 First PCD capabilities cannot exceed six bytes'')) else Inr ())"

definition authenticate_standard_aes ::
  "'s environment \<Rightarrow> crypto_provider \<Rightarrow> key_number \<Rightarrow> bytes \<Rightarrow> exchange_options \<Rightarrow> ('s, unit) card_operation" where
  "authenticate_standard_aes E C key_number key opts =
     preflighted E False opts (authenticate_standard_aes_locked E C key_number key opts)"

definition authenticate_standard_aes_derived ::
  "'s environment \<Rightarrow> crypto_provider \<Rightarrow> bytes \<Rightarrow> 's key_deriver \<Rightarrow> derivation_context \<Rightarrow> exchange_options
     \<Rightarrow> ('s, unit) card_operation" where
  "authenticate_standard_aes_derived E C master_key deriver ctx opts =
     preflighted E False opts
       (with_key (validate_derivation_context ctx) (derive_once E deriver master_key ctx opts)
         (\<lambda>key. authenticate_standard_aes_locked E C (dx_key_number ctx) key opts))"

definition authenticate_standard_aes_resolved ::
  "'s environment \<Rightarrow> crypto_provider \<Rightarrow> stop_token \<Rightarrow> 's key_provider \<Rightarrow> key_request \<Rightarrow> exchange_options
     \<Rightarrow> ('s, unit) card_operation" where
  "authenticate_standard_aes_resolved E C combined provider request opts =
     preflighted E False opts
       (with_key (validate_provider_request request profile_standard_aes None)
         (resolve_once E combined provider request opts)
         (\<lambda>key. authenticate_standard_aes_locked E C (dx_key_number (kr_context request)) key opts))"

definition authenticate_ev2_first_aes ::
  "'s environment \<Rightarrow> crypto_provider \<Rightarrow> key_number \<Rightarrow> bytes \<Rightarrow> bytes \<Rightarrow> exchange_options
     \<Rightarrow> ('s, authentication_info) card_operation" where
  "authenticate_ev2_first_aes E C key_number key pcd opts =
     preflighted E False opts (authenticate_ev2_locked E C True key_number key pcd opts)"

definition authenticate_ev2_first_aes_derived ::
  "'s environment \<Rightarrow> crypto_provider \<Rightarrow> bytes \<Rightarrow> 's key_deriver \<Rightarrow> derivation_context \<Rightarrow> bytes
     \<Rightarrow> exchange_options \<Rightarrow> ('s, authentication_info) card_operation" where
  "authenticate_ev2_first_aes_derived E C master_key deriver ctx pcd opts =
     preflighted E False opts
       (with_key (both_checks (pcd_check pcd) (validate_derivation_context ctx))
         (derive_once E deriver master_key ctx opts)
         (\<lambda>key. authenticate_ev2_locked E C True (dx_key_number ctx) key pcd opts))"

definition authenticate_ev2_first_aes_resolved ::
  "'s environment \<Rightarrow> crypto_provider \<Rightarrow> stop_token \<Rightarrow> 's key_provider \<Rightarrow> key_request \<Rightarrow> bytes
     \<Rightarrow> exchange_options \<Rightarrow> ('s, authentication_info) card_operation" where
  "authenticate_ev2_first_aes_resolved E C combined provider request pcd opts =
     preflighted E False opts
       (with_key (both_checks (pcd_check pcd) (validate_provider_request request profile_ev2_first None))
         (resolve_once E combined provider request opts)
         (\<lambda>key. authenticate_ev2_locked E C True (dx_key_number (kr_context request)) key pcd opts))"

definition authenticate_ev2_non_first_aes ::
  "'s environment \<Rightarrow> crypto_provider \<Rightarrow> key_number \<Rightarrow> bytes \<Rightarrow> exchange_options
     \<Rightarrow> ('s, authentication_info) card_operation" where
  "authenticate_ev2_non_first_aes E C key_number key opts =
     preflighted E True opts (authenticate_ev2_locked E C False key_number key [] opts)"

definition authenticate_ev2_non_first_aes_derived ::
  "'s environment \<Rightarrow> crypto_provider \<Rightarrow> bytes \<Rightarrow> 's key_deriver \<Rightarrow> derivation_context \<Rightarrow> exchange_options
     \<Rightarrow> ('s, authentication_info) card_operation" where
  "authenticate_ev2_non_first_aes_derived E C master_key deriver ctx opts =
     preflighted E True opts
       (with_key (validate_derivation_context ctx) (derive_once E deriver master_key ctx opts)
         (\<lambda>key. authenticate_ev2_locked E C False (dx_key_number ctx) key [] opts))"

definition authenticate_ev2_non_first_aes_resolved ::
  "'s environment \<Rightarrow> crypto_provider \<Rightarrow> stop_token \<Rightarrow> 's key_provider \<Rightarrow> key_request \<Rightarrow> exchange_options
     \<Rightarrow> ('s, authentication_info) card_operation" where
  "authenticate_ev2_non_first_aes_resolved E C combined provider request opts =
     preflighted E True opts
       (with_key (validate_provider_request request profile_ev2_non_first None)
         (resolve_once E combined provider request opts)
         (\<lambda>key. authenticate_ev2_locked E C False (dx_key_number (kr_context request)) key [] opts))"

definition authenticate_iso_aes ::
  "'s environment \<Rightarrow> crypto_provider \<Rightarrow> iso_key_reference \<Rightarrow> bytes \<Rightarrow> exchange_options
     \<Rightarrow> ('s, unit) card_operation" where
  "authenticate_iso_aes E C key aes_key opts =
     preflighted E False opts (authenticate_iso_aes_locked E C key aes_key opts)"

definition authenticate_iso_aes_derived ::
  "'s environment \<Rightarrow> crypto_provider \<Rightarrow> iso_key_reference \<Rightarrow> bytes \<Rightarrow> 's key_deriver \<Rightarrow> derivation_context
     \<Rightarrow> exchange_options \<Rightarrow> ('s, unit) card_operation" where
  "authenticate_iso_aes_derived E C key master_key deriver ctx opts =
     preflighted E False opts
       (with_key (both_checks (validate_derivation_context ctx) (validate_iso_context_key ctx key))
         (derive_once E deriver master_key ctx opts)
         (\<lambda>derived. authenticate_iso_aes_locked E C key derived opts))"

definition authenticate_iso_aes_resolved ::
  "'s environment \<Rightarrow> crypto_provider \<Rightarrow> iso_key_reference \<Rightarrow> stop_token \<Rightarrow> 's key_provider \<Rightarrow> key_request
     \<Rightarrow> exchange_options \<Rightarrow> ('s, unit) card_operation" where
  "authenticate_iso_aes_resolved E C key combined provider request opts =
     preflighted E False opts
       (with_key (validate_provider_request request profile_iso_aes (Some key))
         (resolve_once E combined provider request opts)
         (\<lambda>resolved. authenticate_iso_aes_locked E C key resolved opts))"

end
