(* ===== verification/Managed_Invariant.thy ===== *)
theory Managed_Invariant
  imports Managed_Authentication
begin

text \<open>
  The invariant of the managed card and the guarantee that its operations share: each keeps the
  invariant, gives the card up when it reports an unknown outcome, and does not touch the transport
  of a card that has been given up. The guarantee is proved here for the bodies of the checked
  commands, of plain commands, selection and discovery, of ISO commands and of the authentications,
  and for the guard, the preflight and the key sources around them.
\<close>

section \<open>Specification\<close>

text \<open>
  Between two operations a card holds at most one session; a native session is stored together with
  its key number and is ready for the next command; an ISO session is valid; a pending local reset
  excludes sessions; and an unusable card holds nothing that a command could use.
\<close>

definition card_inv :: "card_state \<Rightarrow> bool" where
  "card_inv k \<longleftrightarrow>
     \<not> ch_operation_active (card_raw k) \<and> \<not> ic_operation_active (card_iso_channel k) \<and>
     (case card_ev2 k of None \<Rightarrow> True | Some t \<Rightarrow> ev2_inv t \<and> e_phase t = Ev2_ready) \<and>
     (case card_standard_aes k of None \<Rightarrow> True | Some t \<Rightarrow> sa_inv t \<and> sa_phase t = Sa_ready) \<and>
     (case card_iso k of
        None \<Rightarrow> True
      | Some t \<Rightarrow> is_valid t \<and> length (is_key t) = 16 \<and> length (is_iv t) = 16) \<and>
     (card_iso k \<noteq> None \<longrightarrow> \<not> has_native_session k) \<and>
     (card_ev2 k = None \<or> card_standard_aes k = None) \<and>
     (card_key k \<noteq> None) = has_native_session k \<and>
     (card_reset_pending k \<longrightarrow> \<not> has_native_session k \<and> card_iso k = None) \<and>
     (\<not> card_usable k \<longrightarrow> \<not> has_native_session k \<and> card_iso k = None \<and> \<not> card_reset_pending k \<and>
        card_selected k = None)"

text \<open>What every operation guarantees, given its result and the transport log.\<close>

definition operation_ok ::
  "card_state \<Rightarrow> exchange_log \<Rightarrow> 'a result \<Rightarrow> card_state \<Rightarrow> exchange_log \<Rightarrow> bool" where
  "operation_ok k log r k' log' \<longleftrightarrow>
     card_inv k' \<and> card_operation_active k' = card_operation_active k \<and>
     (case r of Inl e \<Rightarrow> err_outcome e = OC_unknown \<longrightarrow> \<not> card_usable k' | Inr _ \<Rightarrow> True) \<and>
     (\<not> card_usable k \<longrightarrow> \<not> card_usable k' \<and> log' = log)"

text \<open>An authentication step that leaves the ISO channel as it found it.\<close>

definition keeps_channel :: "(iso_channel \<times> 's, 'a) action \<Rightarrow> bool" where
  "keeps_channel m \<longleftrightarrow> (\<forall>st. fst (snd (m st)) = fst st)"

section \<open>State changes\<close>

lemma native_session_simps [simp]:
  "has_native_session (k\<lparr>card_key := a\<rparr>) = has_native_session k"
  "has_native_session (k\<lparr>card_iso := b\<rparr>) = has_native_session k"
  "has_native_session (k\<lparr>card_operation_active := c\<rparr>) = has_native_session k"
  "has_native_session (k\<lparr>card_raw := d\<rparr>) = has_native_session k"
  "has_native_session (k\<lparr>card_iso_channel := f\<rparr>) = has_native_session k"
  "has_native_session (k\<lparr>card_reset_pending := g\<rparr>) = has_native_session k"
  "has_native_session (k\<lparr>card_selected := h\<rparr>) = has_native_session k"
  "has_native_session (k\<lparr>card_usable := i\<rparr>) = has_native_session k"
  "has_native_session (k\<lparr>card_generation := j\<rparr>) = has_native_session k"
  "\<not> has_native_session (clear_native_session k)"
  by (simp_all add: has_native_session_def clear_native_session_def)

lemma clear_native_session_sel [simp]:
  "card_ev2 (clear_native_session k) = None" "card_standard_aes (clear_native_session k) = None"
  "card_key (clear_native_session k) = card_key k" "card_iso (clear_native_session k) = card_iso k"
  "card_operation_active (clear_native_session k) = card_operation_active k"
  "card_generation (clear_native_session k) = card_generation k"
  "card_usable (clear_native_session k) = card_usable k"
  "card_reset_pending (clear_native_session k) = card_reset_pending k"
  "card_selected (clear_native_session k) = card_selected k"
  "card_raw (clear_native_session k) = card_raw k"
  "card_iso_channel (clear_native_session k) = card_iso_channel k"
  by (simp_all add: clear_native_session_def)

lemma invalidate_locked_sel [simp]:
  "card_ev2 (invalidate_locked k) = None" "card_standard_aes (invalidate_locked k) = None"
  "card_key (invalidate_locked k) = None" "card_iso (invalidate_locked k) = None"
  "card_operation_active (invalidate_locked k) = card_operation_active k"
  "card_generation (invalidate_locked k) = card_generation k"
  "\<not> card_usable (invalidate_locked k)" "\<not> card_reset_pending (invalidate_locked k)"
  "card_selected (invalidate_locked k) = None" "card_raw (invalidate_locked k) = card_raw k"
  "card_iso_channel (invalidate_locked k) = card_iso_channel k" "\<not> has_native_session (invalidate_locked k)"
  by (simp_all add: invalidate_locked_def)

lemma card_inv_channels:
  "card_inv k \<Longrightarrow> \<not> ch_operation_active (card_raw k) \<and> \<not> ic_operation_active (card_iso_channel k)"
  by (simp add: card_inv_def)

lemma card_inv_invalidated [simp]:
  "card_inv (invalidate_locked k) \<longleftrightarrow>
     \<not> ch_operation_active (card_raw k) \<and> \<not> ic_operation_active (card_iso_channel k)"
  by (simp add: card_inv_def)

lemma card_inv_active [simp]: "card_inv (k\<lparr>card_operation_active := b\<rparr>) = card_inv k"
  by (simp add: card_inv_def)

text \<open>Ways to meet the guarantee: nothing happened, or the card is given up.\<close>

lemma operation_refused:
  "card_inv k \<Longrightarrow> err_outcome e \<noteq> OC_unknown \<Longrightarrow> operation_ok k log (Inl e) k log"
  by (simp add: operation_ok_def)

lemma operation_fenced:
  assumes "card_inv k" "card_usable k" "card_raw k' = card_raw k" "card_iso_channel k' = card_iso_channel k"
    "card_operation_active k' = card_operation_active k"
  shows "operation_ok k log (Inl e) (invalidate_locked k') log'"
  using assms by (simp add: operation_ok_def card_inv_def)

lemma operation_usable:
  assumes "card_usable k" "card_inv k'" "card_operation_active k' = card_operation_active k"
    "\<And>e. r = Inl e \<Longrightarrow> err_outcome e = OC_unknown \<Longrightarrow> \<not> card_usable k'"
  shows "operation_ok k log r k' log'"
  using assms by (cases r) (simp_all add: operation_ok_def)

section \<open>Channels stay idle\<close>

lemma raw_exchange_channel: "raw_exchange E rq opts ch s = (r, ch', s') \<Longrightarrow> ch' = ch"
  by (auto simp: raw_exchange_def end_transaction_def dest!: raw_begin_Inl raw_begin_Inr
      split: prod.splits sum.splits)

lemma exchange_unprotected_channel:
  "exchange_unprotected E rq opts ch s = (r, ch', s') \<Longrightarrow> ch' = ch"
  by (auto simp: exchange_unprotected_def dest!: raw_exchange_channel
      split: prod.splits sum.splits if_splits)

lemma end_of_transaction:
  "raw_begin E opts ch s = (Inr tx, ch', s') \<Longrightarrow> end_transaction ch' = ch"
  by (auto simp: end_transaction_def dest!: raw_begin_Inr)

lemma iso_exchange_channel: "iso_exchange E a opts limits ch s = (r, ch', s') \<Longrightarrow> ch' = ch"
  by (auto simp: iso_exchange_def split: prod.splits sum.splits if_splits)

lemma checked_exchange_channel: "checked_exchange E c opts limits ch s = (r, ch', s') \<Longrightarrow> ch' = ch"
  by (auto simp: checked_exchange_def dest: iso_exchange_channel split: if_splits)

lemma iso_execute_channel:
  "iso_execute E C same c opts limits ses ch s = (r, ses', ch', s') \<Longrightarrow> ch' = ch"
  by (auto simp: iso_execute_def Let_def dest!: checked_exchange_channel
      split: prod.splits sum.splits if_splits)

section \<open>Checked commands\<close>

lemma admit_command_Inr:
  "admit_command cmd k = Inr c \<Longrightarrow> card_usable k \<and> \<not> card_reset_pending k \<and> cmd = Some c \<and> c_opcode c \<noteq> 0x6D"
  by (auto simp: admit_command_def split: if_splits option.splits)

lemma admit_command_Inl: "admit_command cmd k = Inl e \<Longrightarrow> err_outcome e = OC_not_sent"
  by (auto simp: admit_command_def split: if_splits option.splits)

lemma authorize_command_Inl: "authorize_command c k = Inl e \<Longrightarrow> err_outcome e = OC_not_sent"
  by (auto simp: authorize_command_def split: if_splits)

lemma authorize_command_Inr: "authorize_command c k = Inr u \<Longrightarrow> card_iso k = None"
  by (auto simp: authorize_command_def split: if_splits)

text \<open>The card after the exchange differs in its session only.\<close>

lemma exchange_command_effect:
  assumes run: "exchange_command (recording E) C c opts k (s, log) = (r, k1, (s1, log1))" and inv: "card_inv k"
  shows "card_raw k1 = card_raw k \<and> card_iso_channel k1 = card_iso_channel k \<and>
    card_operation_active k1 = card_operation_active k \<and> card_generation k1 = card_generation k \<and>
    has_native_session k1 = has_native_session k \<and> card_usable k1 = card_usable k \<and>
    (\<not> has_native_session k \<longrightarrow> k1 = k) \<and>
    (case r of
       Inr d \<Rightarrow> card_iso k = None \<longrightarrow>
         card_inv (if c_invalidates_session c then (clear_native_session k1)\<lparr>card_key := None\<rparr> else k1)
     | Inl e \<Rightarrow> True)"
proof -
  have req: "sq_invalidates_session (request_of c) = c_invalidates_session c" by (simp add: request_of_def)
  consider (e) t where "card_ev2 k = Some t"
    | (a) t where "card_ev2 k = None" "card_standard_aes k = Some t"
    | (n) "card_ev2 k = None" "card_standard_aes k = None"
    by (cases "card_ev2 k"; cases "card_standard_aes k") auto
  then show ?thesis
  proof cases
    case e
    with inv have t: "ev2_inv t" "e_phase t = Ev2_ready" "card_standard_aes k = None"
      by (auto simp: card_inv_def)
    from run e obtain t1 raw where x:
      "exchange_protected (ev2_ops C) (recording E) (request_of c) opts t (card_raw k) (s, log) =
         (r, t1, raw, (s1, log1))" "k1 = k\<lparr>card_ev2 := Some t1, card_raw := raw\<rparr>"
      by (auto simp: exchange_command_def split: prod.splits)
    from ev2.exchange_protected_session [OF x(1) t(1)] x(2) e t inv show ?thesis
      by (cases r) (auto simp: card_inv_def has_native_session_def req)
  next
    case a
    with inv have t: "sa_inv t" "sa_phase t = Sa_ready"
      by (auto simp: card_inv_def)
    from run a obtain t1 raw where x:
      "exchange_protected (sa_ops C) (recording E) (request_of c) opts t (card_raw k) (s, log) =
         (r, t1, raw, (s1, log1))" "k1 = k\<lparr>card_standard_aes := Some t1, card_raw := raw\<rparr>"
      by (auto simp: exchange_command_def split: prod.splits)
    from sa.exchange_protected_session [OF x(1) t(1)] x(2) a t inv show ?thesis
      by (cases r) (auto simp: card_inv_def has_native_session_def req)
  next
    case n
    from run n have "k1 = k"
      by (auto simp: exchange_command_def dest!: exchange_unprotected_channel split: prod.splits)
    then show ?thesis using n inv by (cases r) (auto simp: card_inv_def has_native_session_def)
  qed
qed

lemma conclude_command_ok:
  assumes inv: "card_inv k" "card_usable k" "card_iso k = None"
    and run: "exchange_command (recording E) C c opts k (s, log) = (result, k1, (s1, log1))"
    and concl: "conclude_command E' c (has_native_session k) result k1 s2 = (r, k', s')"
  shows "operation_ok k log r k' log'"
proof (cases result)
  case (Inl e)
  then show ?thesis
    using exchange_command_effect [OF run inv(1)] inv concl card_inv_channels [OF inv(1)]
    by (auto simp: conclude_command_def split: if_splits intro: operation_fenced
        intro!: operation_usable)
next
  case (Inr payload)
  note eff = exchange_command_effect [OF run inv(1), unfolded Inr]
  from concl Inr consider (fenced) e where "r = Inl e" "k' = invalidate_locked k1"
    | (finished) "r = Inr payload"
        "k' = (if c_invalidates_session c then (clear_native_session k1)\<lparr>card_key := None\<rparr> else k1)"
    by (auto simp: conclude_command_def Let_def split: prod.splits if_splits option.splits)
  then show ?thesis
  proof cases
    case fenced
    then show ?thesis using eff inv by (auto intro: operation_fenced)
  next
    case finished
    then show ?thesis using eff inv by (intro operation_usable) auto
  qed
qed

lemma execute_locked_ok:
  assumes inv: "card_inv k"
    and run: "execute_locked (recording E) C cmd opts k (s, log) = (r, k', (s', log'))"
  shows "operation_ok k log r k' log'"
proof (cases "admit_command cmd k")
  case (Inl e)
  then show ?thesis
    using run inv admit_command_Inl [OF Inl] by (auto simp: execute_locked_def intro: operation_refused)
next
  case (Inr c)
  note adm = admit_command_Inr [OF Inr]
  obtain g s1 where g: "env_generation (recording E) (s, log) = (g, (s1, log))"
    by (cases "env_generation E s") simp
  show ?thesis
  proof (cases "g = card_generation k")
    case False
    then show ?thesis
      using run Inr g adm inv by (auto simp: execute_locked_def intro: operation_fenced)
  next
    case True
    show ?thesis
    proof (cases "authorize_command c k")
      case Inl2: (Inl e)
      then show ?thesis
        using run Inr g True inv authorize_command_Inl [OF Inl2]
        by (auto simp: execute_locked_def intro: operation_refused)
    next
      case Inr2: (Inr u)
      obtain result k1 s2 log2 where x:
        "exchange_command (recording E) C c opts k (s1, log) = (result, k1, (s2, log2))"
        by (metis prod.exhaust)
      have "conclude_command (recording E) c (has_native_session k) result k1 (s2, log2) = (r, k', (s', log'))"
        using run Inr g True Inr2 x by (simp add: execute_locked_def)
      from conclude_command_ok [OF inv _ authorize_command_Inr [OF Inr2] x this] adm show ?thesis by simp
    qed
  qed
qed

section \<open>Plain commands, selection and discovery\<close>

lemma operation_okD:
  assumes "operation_ok k log r k' log'"
  shows "card_inv k'" "card_operation_active k' = card_operation_active k"
    "\<not> card_usable k \<Longrightarrow> \<not> card_usable k' \<and> log' = log"
    "r = Inl e \<Longrightarrow> err_outcome e = OC_unknown \<Longrightarrow> \<not> card_usable k'"
  using assms by (auto simp: operation_ok_def)

lemma exchange_plain_ok:
  assumes inv: "card_inv k" "card_usable k"
    and run: "exchange_plain (recording E) ins data opts oper k (s, log) = (r, k', (s', log'))"
  shows "operation_ok k log r k' log'"
proof -
  obtain g s1 where g: "env_generation E s = (g, s1)" by fastforce
  show ?thesis
  proof (cases "g = card_generation k")
    case False
    then show ?thesis using run g inv by (auto simp: exchange_plain_def intro: operation_fenced)
  next
    case True
    obtain x raw st where x: "raw_exchange (recording E) (plain_request ins data) opts (card_raw k) (s1, log) = (x, raw, st)"
      by (metis prod_cases3)
    then have raw: "k\<lparr>card_raw := raw\<rparr> = k" using raw_exchange_channel [OF x] by simp
    note chan = card_inv_channels [OF inv(1)]
    show ?thesis
    proof (cases x)
      case (Inl e)
      then show ?thesis
        using run g True x raw inv chan
        by (auto simp: exchange_plain_def split: if_splits intro!: operation_usable)
    next
      case (Inr response)
      then show ?thesis
        using run g True x raw inv chan
        by (auto simp: exchange_plain_def managed_rejected_def Let_def
            split: if_splits prod.splits intro!: operation_usable)
    qed
  qed
qed

lemma execute_plain_locked_ok:
  assumes inv: "card_inv k"
    and run: "execute_plain_locked (recording E) C ins data opts oper k (s, log) = (r, k', (s', log'))"
  shows "operation_ok k log r k' log'"
proof (cases "card_usable k \<and> \<not> card_reset_pending k \<and> card_iso k = None")
  case False
  then show ?thesis
    using run inv by (auto simp: execute_plain_locked_def split: if_splits intro!: operation_refused)
next
  case ok: True
  show ?thesis
  proof (cases "has_native_session k")
    case True
    show ?thesis
    proof (cases "authenticated_discovery ins")
      case (Inl e)
      then have "err_outcome e = OC_not_sent"
        by (auto simp: authenticated_discovery_def get_version_def free_memory_def get_file_ids_def
            split: if_splits)
      then show ?thesis
        using run inv ok True Inl by (auto simp: execute_plain_locked_def intro!: operation_refused)
    next
      case (Inr c)
      then show ?thesis
        using run ok True by (intro execute_locked_ok [OF inv]) (auto simp: execute_plain_locked_def)
    qed
  next
    case False
    then show ?thesis
      using run ok by (intro exchange_plain_ok [OF inv]) (auto simp: execute_plain_locked_def)
  qed
qed

lemma card_inv_set_aside:
  assumes "card_inv k"
  shows "card_inv (set_aside k)"
  using assms by (auto simp: card_inv_def set_aside_def)

lemma set_aside_sel [simp]:
  "card_usable (set_aside k) = card_usable k" "card_operation_active (set_aside k) = card_operation_active k"
  "card_raw (set_aside k) = card_raw k" "card_iso_channel (set_aside k) = card_iso_channel k"
  "card_selected (set_aside k) = card_selected k" "card_generation (set_aside k) = card_generation k"
  "card_iso (set_aside k) = None" "\<not> has_native_session (set_aside k)" "\<not> card_reset_pending (set_aside k)"
  by (simp_all add: set_aside_def)

text \<open>A plain command on a card without sessions leaves it without sessions.\<close>

lemma exchange_plain_state:
  assumes "exchange_plain (recording E) ins data opts oper k (s, log) = (r, k', (s', log'))"
  shows "k' = k \<or> k' = invalidate_locked k"
proof -
  obtain g s1 where g: "env_generation E s = (g, s1)" by fastforce
  obtain x raw st where x: "raw_exchange (recording E) (plain_request ins data) opts (card_raw k) (s1, log) = (x, raw, st)"
    by (metis prod_cases3)
  then have raw: "k\<lparr>card_raw := raw\<rparr> = k" using raw_exchange_channel [OF x] by simp
  show ?thesis
    using assms g x raw
    by (cases x) (auto simp: exchange_plain_def Let_def split: if_splits prod.splits)
qed

lemma execute_plain_bare:
  assumes "\<not> has_native_session k" "\<not> card_reset_pending k" "card_iso k = None"
    and "execute_plain_locked (recording E) C ins data opts oper k (s, log) = (r, k', (s', log'))"
  shows "k' = k \<or> k' = invalidate_locked k"
  using assms exchange_plain_state [of E ins data opts oper k s log r k' s' log']
  by (auto simp: execute_plain_locked_def split: if_splits)

lemma select_application_locked_ok:
  assumes inv: "card_inv k"
    and run: "select_application_locked (recording E) C app opts k (s, log) = (r, k', (s', log'))"
  shows "operation_ok k log r k' log'"
proof -
  obtain b s1 where b: "env_stop_requested E (opt_stop opts) s = (b, s1)" by fastforce
  show ?thesis
  proof (cases "opt_timeout opts \<le> 0 \<or> b")
    case True
    then show ?thesis
      using run inv b
      by (cases "opt_timeout opts \<le> 0") (auto simp: select_application_locked_def intro!: operation_refused)
  next
    case False
    let ?k1 = "set_aside k"
    obtain x k2 s2 log2 where x: "execute_plain_locked (recording E) C 0x5A (application_data app) opts
        (STR ''SelectApplication'') ?k1 (s1, log) = (x, k2, (s2, log2))" by (metis prod.exhaust)
    from execute_plain_locked_ok [OF card_inv_set_aside [OF inv] x]
    have ok: "operation_ok ?k1 log x k2 log2" .
    have bare: "k2 = ?k1 \<or> k2 = invalidate_locked ?k1"
      using execute_plain_bare [OF _ _ _ x] by simp
    have concl: "conclude_selection app (has_native_session k \<or> card_iso k \<noteq> None) (card_reset_pending k) x k2 = (r, k')"
      "log' = log2"
      using run b False x by (auto simp: select_application_locked_def set_aside_def Let_def split: prod.splits)
    have same: "operation_ok k log x k2 log2"
      using ok by (simp add: operation_ok_def)
    show ?thesis
    proof (cases "card_usable k")
      case False
      then have "\<not> has_native_session k" "card_iso k = None" "\<not> card_reset_pending k"
        using inv by (auto simp: card_inv_def)
      moreover obtain e where "x = Inl e" using x False by (auto simp: execute_plain_locked_def)
      ultimately show ?thesis
        using same concl by (auto simp: conclude_selection_def operation_ok_def)
    next
      case True
      consider (fenced) e where "r = Inl e" "k' = invalidate_locked k2"
        | (again) e where "r = Inl e" "k' = k2\<lparr>card_reset_pending := True\<rparr>" "err_outcome e \<noteq> OC_unknown" "card_usable k2"
        | (kept) e where "r = Inl e" "x = Inl e" "k' = k2"
        | (selected) "r = Inr ()" "k' = k2\<lparr>card_selected := Some app\<rparr>" "x = Inr []"
        using concl(1) by (cases x) (auto simp: conclude_selection_def split: if_splits)
      then show ?thesis
      proof cases
        case fenced
        then show ?thesis using inv True bare by (auto intro: operation_fenced)
      next
        case again
        then have "k2 = set_aside k" using bare by auto
        then show ?thesis
          using again card_inv_set_aside [OF inv] True
          by (intro operation_usable) (auto simp: card_inv_def)
      next
        case kept
        then show ?thesis using same concl(2) by (simp add: operation_ok_def)
      next
        case selected
        then have "card_usable k2"
          using x True by (auto simp: execute_plain_locked_def exchange_plain_def Let_def
              split: if_splits prod.splits sum.splits)
        then have "k2 = set_aside k" using bare by auto
        then show ?thesis
          using selected card_inv_set_aside [OF inv] True
          by (intro operation_usable) (auto simp: card_inv_def)
      qed
    qed
  qed
qed

lemma discover_ok:
  assumes inv: "card_inv k"
    and run: "discover (recording E) C ins opts oper parse k (s, log) = (r, k', (s', log'))"
  shows "operation_ok k log r k' log'"
proof -
  obtain x k1 s1 log1 where x: "execute_plain_locked (recording E) C ins [] opts oper k (s, log) = (x, k1, (s1, log1))"
    by (metis prod.exhaust)
  note ok = execute_plain_locked_ok [OF inv x]
  show ?thesis
  proof (cases x)
    case (Inl e)
    then show ?thesis using run x ok by (auto simp: discover_def operation_ok_def)
  next
    case (Inr payload)
    then show ?thesis
      using run x ok card_inv_channels [OF operation_okD(1) [OF ok]]
      by (auto simp: discover_def operation_ok_def split: sum.splits)
  qed
qed

lemma df_names_loop_unknown:
  "df_names_loop n E fr cmd records tx s = ((Inl e, u), s') \<Longrightarrow> err_outcome e = OC_unknown \<Longrightarrow> u"
  by (induction n arbitrary: cmd records tx s)
     (auto simp: managed_rejected_def Let_def split: prod.splits sum.splits if_splits)

lemma df_names_locked_ok:
  assumes inv: "card_inv k"
    and run: "df_names_locked (recording E) opts k (s, log) = (r, k', (s', log'))"
  shows "operation_ok k log r k' log'"
proof (cases "card_usable k \<and> card_iso k = None \<and> \<not> card_reset_pending k \<and> \<not> has_native_session k")
  case False
  then show ?thesis
    using run inv by (auto simp: df_names_locked_def split: if_splits intro!: operation_refused)
next
  case ok: True
  note chan = card_inv_channels [OF inv]
  obtain g s1 where g: "env_generation E s = (g, s1)" by fastforce
  show ?thesis
  proof (cases "g = card_generation k")
    case False
    then show ?thesis using run g inv ok by (auto simp: df_names_locked_def intro: operation_fenced)
  next
    case True
    obtain b raw st where b: "raw_begin (recording E) opts (card_raw k) (s1, log) = (b, raw, st)"
      by (metis prod_cases3)
    show ?thesis
    proof (cases b)
      case (Inl e)
      then show ?thesis
        using run g True ok b inv raw_begin_Inl [OF b [unfolded Inl]]
        by (auto simp: df_names_locked_def intro!: operation_usable)
    next
      case (Inr tx)
      obtain x u st2 where x: "df_names_loop 4096 (recording E) (ch_framing raw) 0x6D [] tx st = ((x, u), st2)"
        by (metis prod.exhaust)
      have same: "k\<lparr>card_raw := end_transaction raw\<rparr> = k"
        using end_of_transaction [OF b [unfolded Inr]] by simp
      have "r = x" "k' = (if u then invalidate_locked k else k)"
        using run g True ok b Inr x same by (auto simp: df_names_locked_def Let_def)
      moreover have "u" if "x = Inl e" "err_outcome e = OC_unknown" for e
        using df_names_loop_unknown x that by metis
      ultimately show ?thesis
        using inv ok chan by (intro operation_usable) (auto split: if_splits)
    qed
  qed
qed

section \<open>ISO commands\<close>

lemma iso_execute_Inr:
  assumes "iso_execute E C same c opts limits ses ch s = (Inr resp, ses', ch', s')"
  shows "is_valid ses \<and> \<not> resets_authentication c \<and> (ses' = ses \<or> (\<exists>mac. length mac = 16 \<and> ses' = ses\<lparr>is_iv := mac\<rparr>))"
proof -
  obtain g s1 where g: "env_generation E s = (g, s1)" by fastforce
  from assms g obtain pl where pl: "protected_limits c limits = Inr pl" "is_valid ses"
    by (auto simp: iso_execute_def Let_def split: if_splits sum.splits)
  obtain x ch1 s2 where x: "checked_exchange E c opts pl ch s1 = (x, ch1, s2)" by (metis prod_cases3)
  obtain s3 where concl: "conclude_execute E C c x ses s2 = (Inr resp, ses', s3)"
    using assms g pl x by (auto simp: iso_execute_def Let_def split: prod.splits if_splits)
  have "\<not> resets_authentication c"
    using pl(1) by (auto simp: protected_limits_def resets_authentication_def is_read_def is_write_def
        is_selection_def split: if_splits)
  then show ?thesis
    using pl(2) conclude_execute_result [OF concl] by (auto split: if_splits dest: retained_cmac_length)
qed

lemma exchange_iso_effect:
  assumes run: "exchange_iso (recording E) C c opts k (s, log) = (r, k1, (s1, log1))" and inv: "card_inv k"
  shows "(\<exists>ses. k1 = k\<lparr>card_iso := ses\<rparr>) \<and> (card_iso k = None \<longrightarrow> k1 = k) \<and> (card_iso k1 = None) = (card_iso k = None) \<and>
    (case r of Inr resp \<Rightarrow> card_inv k1 | Inl e \<Rightarrow> True)"
proof (cases "card_iso k")
  case None
  moreover have "k = k\<lparr>card_iso := card_iso k\<rparr>" by simp
  ultimately show ?thesis
    using run inv by (auto simp: exchange_iso_def dest!: checked_exchange_channel
        split: prod.splits sum.splits intro: exI [of _ "card_iso k"])
next
  case (Some ses)
  obtain ses1 ch where x: "iso_execute (recording E) C True c opts default_iso_limits ses (card_iso_channel k) (s, log) =
      (r, ses1, ch, (s1, log1))" "k1 = k\<lparr>card_iso := Some ses1, card_iso_channel := ch\<rparr>"
    using run Some by (auto simp: exchange_iso_def split: prod.splits)
  then have k1: "k1 = k\<lparr>card_iso := Some ses1\<rparr>" using iso_execute_channel [OF x(1)] by simp
  show ?thesis
  proof (cases r)
    case (Inr resp)
    from iso_execute_Inr [OF x(1) [unfolded Inr]] show ?thesis
      using k1 Some inv Inr by (auto simp: card_inv_def)
  qed (use k1 Some in auto)
qed

lemma restore_authentication_inv:
  assumes "card_inv saved" "card_raw k = card_raw saved" "card_iso_channel k = card_iso_channel saved"
    "card_usable k = card_usable saved"
  shows "card_inv (restore_authentication saved k)"
  using assms by (auto simp: card_inv_def restore_authentication_def has_native_session_def)

lemma restore_authentication_sel [simp]:
  "card_usable (restore_authentication saved k) = card_usable k"
  "card_operation_active (restore_authentication saved k) = card_operation_active k"
  by (simp_all add: restore_authentication_def)

lemma iso_command_locked_ok:
  assumes inv: "card_inv k"
    and run: "iso_command_locked (recording E) C c opts k (s, log) = (r, k', (s', log'))"
  shows "operation_ok k log r k' log'"
proof -
  obtain g s1 where g: "env_generation E s = (g, s1)" by fastforce
  note chan = card_inv_channels [OF inv]
  consider (refused) e where "r = Inl e" "err_outcome e = OC_not_sent" "k' = k" "log' = log"
    | (removed) e where "r = Inl e" "k' = invalidate_locked k" "card_usable k"
    | (admitted) "card_usable k" "card_reset_pending k \<longrightarrow> resets_authentication c"
        "has_native_session k \<longrightarrow> resets_authentication c"
        "(case exchange_iso (recording E) C c opts (if resets_authentication c then set_aside k else k) (s1, log) of
            (x, k2, s2) \<Rightarrow> conclude_iso (recording E) c k x k2 s2) = (r, k', (s', log'))"
  proof -
    show thesis
    proof (cases "card_usable k \<and> (card_reset_pending k \<longrightarrow> resets_authentication c)")
      case False
      then obtain e where "r = Inl e" "err_outcome e = OC_not_sent" "k' = k" "log' = log"
        using run by (auto simp: iso_command_locked_def split: if_splits)
      then show thesis by (rule refused)
    next
      case ok: True
      show thesis
      proof (cases "g = card_generation k")
        case False
        then show thesis using run g ok by (intro removed) (auto simp: iso_command_locked_def)
      next
        case True
        show thesis
        proof (cases "has_native_session k \<and> \<not> resets_authentication c")
          case native: True
          then show thesis
            using run g ok True
            by (intro refused [of "local_error EC_session_invalid
                  (STR ''ISO operation cannot reuse a native secure session'')"])
               (auto simp: iso_command_locked_def)
        next
          case False
          then show thesis
            using run g ok True by (intro admitted) (auto simp: iso_command_locked_def Let_def)
        qed
      qed
    qed
  qed
  then show ?thesis
  proof cases
    case refused
    then show ?thesis using inv by (simp add: operation_refused)
  next
    case removed
    then show ?thesis using inv by (auto intro: operation_fenced)
  next
    case go: admitted
    let ?k1 = "if resets_authentication c then set_aside k else k"
    obtain x k2 s2 log2 where x: "exchange_iso (recording E) C c opts ?k1 (s1, log) = (x, k2, (s2, log2))"
      by (metis prod.exhaust)
    have inv1: "card_inv ?k1" using inv card_inv_set_aside by simp
    note eff = exchange_iso_effect [OF x inv1]
    from go(4) x have concl: "conclude_iso (recording E) c k x k2 (s2, log2) = (r, k', (s', log'))" by simp
    have frame: "card_usable k2" "card_operation_active k2 = card_operation_active k"
      "card_raw k2 = card_raw k" "card_iso_channel k2 = card_iso_channel k"
      using eff go(1) by (auto split: if_splits)
    show ?thesis
    proof (cases x)
      case (Inl e)
      consider "k' = restore_authentication k k2" "err_outcome e = OC_not_sent" "r = Inl e"
        | "k' = invalidate_locked k2" "r = Inl e"
        | "k' = k2" "r = Inl e" "err_outcome e \<noteq> OC_unknown" "card_iso k = None" "k2 = ?k1"
        using concl Inl eff by (auto simp: conclude_iso_def split: if_splits)
      then show ?thesis
      proof cases
        case 1
        then show ?thesis
          using restore_authentication_inv [OF inv frame(3,4)] frame go(1)
          by (intro operation_usable) auto
      next
        case 2
        then show ?thesis using inv go(1) frame by (auto intro: operation_fenced)
      next
        case 3
        then show ?thesis using inv1 go(1) frame by (intro operation_usable) auto
      qed
    next
      case (Inr resp)
      have inv2: "card_inv k2" using eff Inr by simp
      have val: "case card_iso k2 of None \<Rightarrow> True | Some ses \<Rightarrow> is_valid ses"
        using inv2 by (auto simp: card_inv_def split: option.splits)
      obtain g2 s3 where g2: "env_generation E s2 = (g2, s3)" by fastforce
      consider e where "r = Inl e" "k' = invalidate_locked k2"
        | "r = Inr resp" "k' = k2" "\<not> resets_authentication c"
        | "r = Inr resp" "k' = k2\<lparr>card_reset_pending := False, card_selected := None\<rparr>" "resets_authentication c"
        | "r = Inr resp" "k' = restore_authentication k k2" "resets_authentication c"
        using concl Inr g2 val by (auto simp: conclude_iso_def Let_def split: if_splits option.splits)
      then show ?thesis
      proof cases
        case 1
        then show ?thesis using inv go(1) frame by (auto intro: operation_fenced)
      next
        case 2
        then show ?thesis using inv2 go(1) frame by (intro operation_usable) auto
      next
        case 3
        then have "card_inv k'" using inv2 frame(1) by (auto simp: card_inv_def)
        then show ?thesis using 3 go(1) frame by (intro operation_usable) auto
      next
        case 4
        then show ?thesis
          using restore_authentication_inv [OF inv frame(3,4)] frame go(1)
          by (intro operation_usable) auto
      qed
    qed
  qed
qed

section \<open>Authentication\<close>

lemma derive_once_Inl: "derive_once E deriver key ctx opts s = (Inl e, s') \<Longrightarrow> err_outcome e = OC_not_sent"
  by (auto simp: derive_once_def local_resolution_error_def Let_def
      split: if_splits prod.splits dep.splits sum.splits)

lemma resolve_once_Inl: "resolve_once E t provider q opts s = (Inl e, s') \<Longrightarrow> err_outcome e = OC_not_sent"
  by (auto simp: resolve_once_def local_resolution_error_def Let_def
      split: if_splits prod.splits dep.splits sum.splits)

lemma ev2_first_information:
  assumes "ev2_authenticate_first C random n key pcd exchange st = (Inr m, st')"
  shows "length (transaction_identifier (mat_information m)) = 4"
  using assms
  by (auto simp: ev2_authenticate_first_def act_bind_Inr derive_material_success exchange_nonces_success
      split: if_splits)

lemma ev2_nonfirst_information:
  assumes "ev2_authenticate_nonfirst C random n key previous exchange st = (Inr m, st')"
  shows "mat_information m = previous"
  using assms
  by (auto simp: ev2_authenticate_nonfirst_def act_bind_Inr derive_material_success split: if_splits)

lemma conclude_handshake_ok:
  assumes inv: "card_inv k" "card_usable k"
    and run: "conclude_handshake E' m (card_iso k) material install (k\<lparr>card_iso := None\<rparr>) s = (r, k', s')"
    and install: "\<And>x a k2. material = Inr x \<Longrightarrow> install x (k\<lparr>card_iso := None\<rparr>) = Inr (a, k2) \<Longrightarrow>
      card_inv k2 \<and> card_operation_active k2 = card_operation_active k"
  shows "operation_ok k log r k' log'"
proof (cases material)
  case (Inl e)
  moreover have "k\<lparr>card_iso := None, card_iso := card_iso k\<rparr> = k" by simp
  ultimately show ?thesis
    using run inv card_inv_channels [OF inv(1)]
    by (auto simp: conclude_handshake_def split: if_splits intro!: operation_usable)
next
  case (Inr x)
  obtain g s1 where g: "env_generation E' s = (g, s1)" by fastforce
  show ?thesis
  proof (cases "g = card_generation k")
    case False
    then show ?thesis
      using run Inr g inv card_inv_channels [OF inv(1)]
      by (auto simp: conclude_handshake_def intro!: operation_usable)
  next
    case True
    show ?thesis
    proof (cases "install x (k\<lparr>card_iso := None\<rparr>)")
      case Inl2: (Inl e)
      then show ?thesis
        using run Inr g True inv card_inv_channels [OF inv(1)]
        by (auto simp: conclude_handshake_def intro!: operation_usable)
    next
      case Inr2: (Inr p)
      then show ?thesis
        using run Inr g True inv install [OF Inr, of "fst p" "snd p"]
        by (auto simp: conclude_handshake_def split: prod.splits intro!: operation_usable)
    qed
  qed
qed

lemma install_ev2_inv:
  assumes "card_inv k" "card_usable k" "length (transaction_identifier (mat_information m)) = 4"
    and "install_ev2 counter n m (k\<lparr>card_iso := None\<rparr>) = Inr (a, k2)"
  shows "card_inv k2 \<and> card_operation_active k2 = card_operation_active k"
proof -
  from assms(4) obtain t where t: "ev2_create m counter = Inr t"
    "k2 = (clear_native_session (k\<lparr>card_iso := None\<rparr>))\<lparr>card_ev2 := Some t, card_key := Some (ucast n),
        card_reset_pending := False\<rparr>"
    by (auto simp: install_ev2_def split: sum.splits)
  have "ev2_inv t" "e_phase t = Ev2_ready"
    using ev2_inv_create [OF t(1) assms(3)] t(1) by (auto simp: ev2_create_def split: if_splits)
  then show ?thesis using assms(1,2) t(2) by (auto simp: card_inv_def has_native_session_def)
qed

lemma install_standard_aes_inv:
  assumes "card_inv k" "card_usable k"
    and "install_standard_aes n m (k\<lparr>card_iso := None\<rparr>) = Inr (a, k2)"
  shows "card_inv k2 \<and> card_operation_active k2 = card_operation_active k"
proof -
  from assms(3) obtain t where t: "sa_create m = Inr t"
    "k2 = (clear_native_session (k\<lparr>card_iso := None\<rparr>))\<lparr>card_standard_aes := Some t,
        card_key := Some (ucast n), card_reset_pending := False\<rparr>"
    by (auto simp: install_standard_aes_def split: sum.splits)
  have "sa_inv t" "sa_phase t = Sa_ready"
    using t(1) by (auto simp: sa_create_def sa_inv_def split: if_splits)
  then show ?thesis using assms(1,2) t(2) by (auto simp: card_inv_def has_native_session_def)
qed

lemma authenticate_ev2_locked_ok:
  assumes inv: "card_inv k" "card_usable k"
    and run: "authenticate_ev2_locked (recording E) C first n key pcd opts k (s, log) = (r, k', (s', log'))"
  shows "operation_ok k log r k' log'"
proof (cases "aes128_key_valid key \<and> \<not> (length pcd > 6 \<or> \<not> first \<and> pcd \<noteq> [])")
  case False
  then show ?thesis
    using run inv by (auto simp: authenticate_ev2_locked_def split: if_splits intro!: operation_refused)
next
  case ok: True
  obtain b raw st where b: "raw_begin (recording E) opts (card_raw k) (s, log) = (b, raw, st)"
    by (metis prod_cases3)
  show ?thesis
  proof (cases b)
    case (Inl e)
    then show ?thesis
      using run ok b inv raw_begin_Inl [OF b [unfolded Inl]]
      by (auto simp: authenticate_ev2_locked_def intro!: operation_usable)
  next
    case (Inr tx)
    have same: "k\<lparr>card_iso := None, card_raw := end_transaction raw\<rparr> = k\<lparr>card_iso := None\<rparr>"
      using end_of_transaction [OF b [unfolded Inr]] by simp
    define info where "info = (case card_ev2 k of None \<Rightarrow> empty_information | Some t \<Rightarrow> e_authentication t)"
    have info: "length (transaction_identifier info) = 4"
      using inv(1) by (auto simp: info_def empty_information_def card_inv_def ev2_inv_def split: option.splits)
    define hs where "hs = (if first
        then ev2_authenticate_first C (transaction_random (recording E)) (ucast n) key pcd
               (transaction_frame (recording E) (ch_framing raw)) (tx, st)
        else ev2_authenticate_nonfirst C (transaction_random (recording E)) (ucast n) key info
               (transaction_frame (recording E) (ch_framing raw)) (tx, st))"
    obtain material tx1 s2 where hs: "hs = (material, tx1, s2)" by (metis prod_cases3)
    have len: "length (transaction_identifier (mat_information m)) = 4" if "material = Inr m" for m
      using hs that info unfolding hs_def
      by (cases first) (auto dest: ev2_first_information ev2_nonfirst_information)
    have "conclude_handshake (recording E) (STR ''Card state changed after EV2 authentication'') (card_iso k) material
        (install_ev2 (if first then 0 else case card_ev2 k of None \<Rightarrow> 0 | Some t \<Rightarrow> e_counter t) n)
        (k\<lparr>card_iso := None\<rparr>) s2 = (r, k', (s', log'))"
      using run ok b Inr hs same unfolding hs_def info_def
      by (simp add: authenticate_ev2_locked_def Let_def split: if_splits)
    then show ?thesis
      by (rule conclude_handshake_ok [OF inv]) (use install_ev2_inv [OF inv len] in blast)
  qed
qed

lemma authenticate_standard_aes_locked_ok:
  assumes inv: "card_inv k" "card_usable k"
    and run: "authenticate_standard_aes_locked (recording E) C n key opts k (s, log) = (r, k', (s', log'))"
  shows "operation_ok k log r k' log'"
proof (cases "aes128_key_valid key")
  case False
  then show ?thesis
    using run inv by (auto simp: authenticate_standard_aes_locked_def intro!: operation_refused)
next
  case ok: True
  obtain b raw st where b: "raw_begin (recording E) opts (card_raw k) (s, log) = (b, raw, st)"
    by (metis prod_cases3)
  show ?thesis
  proof (cases b)
    case (Inl e)
    then show ?thesis
      using run ok b inv raw_begin_Inl [OF b [unfolded Inl]]
      by (auto simp: authenticate_standard_aes_locked_def intro!: operation_usable)
  next
    case (Inr tx)
    have same: "k\<lparr>card_iso := None, card_raw := end_transaction raw\<rparr> = k\<lparr>card_iso := None\<rparr>"
      using end_of_transaction [OF b [unfolded Inr]] by simp
    obtain material tx1 s2 where hs: "sa_authenticate C (transaction_random (recording E)) (ucast n) key
        (transaction_frame (recording E) (ch_framing raw)) (tx, st) = (material, tx1, s2)"
      by (metis prod_cases3)
    have "conclude_handshake (recording E) (STR ''Card state changed after Standard AES authentication'')
        (card_iso k) material (install_standard_aes n) (k\<lparr>card_iso := None\<rparr>) s2 = (r, k', (s', log'))"
      using run ok b Inr hs same by (simp add: authenticate_standard_aes_locked_def)
    then show ?thesis
      by (rule conclude_handshake_ok [OF inv]) (use install_standard_aes_inv [OF inv] in blast)
  qed
qed

text \<open>The ISO handshake never leaves its channel active.\<close>

lemma keeps_channelD: "keeps_channel m \<Longrightarrow> m st = (r, st') \<Longrightarrow> fst st' = fst st"
  by (metis keeps_channel_def snd_conv)

lemma keeps_channel_basic [simp]:
  "keeps_channel (act_require a)" "keeps_channel (act_return b)" "keeps_channel (act_lift d)"
  by (simp_all add: keeps_channel_def)

lemma keeps_channel_bind:
  assumes "keeps_channel m" "\<And>a. keeps_channel (f a)"
  shows "keeps_channel (act_bind m f)"
  unfolding keeps_channel_def
proof (intro allI)
  fix st
  show "fst (snd (act_bind m f st)) = fst st"
    using keeps_channelD [OF assms(1), of st] assms(2)
    by (auto simp: act_bind_def keeps_channel_def split: prod.splits dep.splits sum.splits)
qed

lemma keeps_channel_map_error: "keeps_channel m \<Longrightarrow> keeps_channel (act_map_error g m)"
  unfolding keeps_channel_def act_map_error_def
  by (auto split: prod.splits dep.splits sum.splits) (metis fst_conv snd_conv)+

lemma keeps_channel_environment: "keeps_channel (act_environment f)"
  by (auto simp: keeps_channel_def act_environment_def split: prod.splits)

lemma keeps_channel_exchange: "keeps_channel (act_exchange E c opts limits n oper)"
  by (auto simp: keeps_channel_def act_exchange_def dest!: checked_exchange_channel
      split: prod.splits sum.splits)

lemma keeps_channel_catch:
  assumes "catch_as e m st = (x, st')" "keeps_channel m"
  shows "fst st' = fst st"
  using assms(1) keeps_channelD [OF assms(2), of st]
  by (auto simp: catch_as_def split: prod.splits dep.splits)

lemmas keeps_channel_intros = keeps_channel_bind keeps_channel_map_error keeps_channel_environment
  keeps_channel_exchange keeps_channel_basic

lemma iso_prepare_channel: "keeps_channel (iso_prepare_authentication E ref enc b)"
  unfolding iso_prepare_authentication_def act_budget_def
  by (auto intro!: keeps_channel_intros)

lemma iso_run_channel: "keeps_channel (iso_run_authentication E C ref key enc b host rem)"
  unfolding iso_run_authentication_def act_budget_def Let_def
  by (auto intro!: keeps_channel_intros)

lemma iso_authenticate_channel:
  assumes "iso_authenticate E C ref key opts enc (ch, s) = (r, ch', s')"
  shows "ch' = ch"
  using assms
  by (auto simp: iso_authenticate_def Let_def act_environment_def
      dest!: keeps_channel_catch [OF _ iso_prepare_channel] keeps_channel_catch [OF _ iso_run_channel]
        keeps_channelD [OF iso_prepare_channel] keeps_channelD [OF iso_run_channel]
      split: if_splits prod.splits sum.splits)

lemma iso_authenticate_session:
  assumes "iso_authenticate E C ref key opts enc st = (Inr ses, st')"
  shows "is_valid ses \<and> length (is_key ses) = 16 \<and> length (is_iv ses) = 16"
proof -
  obtain b st1 host remaining st2 where
    prep: "iso_prepare_authentication E ref enc b st1 = (Returned (Inr (host, remaining)), st2)" and
    run: "iso_run_authentication E C ref key enc b host remaining st2 = (Returned (Inr ses), st')"
    using assms by (auto simp: iso_authenticate_def Let_def split: prod.splits sum.splits if_splits)
  from prep have "length host = 32"
    by (auto simp: iso_prepare_authentication_def act_bind_Inr split: if_splits)
  then show ?thesis
    using iso_run_authentication_Inr [OF run] by (auto simp: iso_session_key_length)
qed

lemma authenticate_iso_aes_locked_ok:
  assumes inv: "card_inv k" "card_usable k"
    and run: "authenticate_iso_aes_locked (recording E) C key aes_key opts k (s, log) = (r, k', (s', log'))"
  shows "operation_ok k log r k' log'"
proof (cases "\<not> card_reset_pending k \<and> aes128_key_valid aes_key")
  case False
  then show ?thesis
    using run inv by (auto simp: authenticate_iso_aes_locked_def split: if_splits intro!: operation_refused)
next
  case ok: True
  note chan = card_inv_channels [OF inv(1)]
  let ?k1 = "(clear_native_session k)\<lparr>card_iso := None, card_key := None\<rparr>"
  obtain x ch s1 where x: "iso_authenticate (recording E) C key aes_key opts automatic
      (card_iso_channel k, (s, log)) = (x, ch, s1)" by (metis prod_cases3)
  have ch: "ch = card_iso_channel k" using iso_authenticate_channel [OF x] .
  show ?thesis
  proof (cases x)
    case (Inl e)
    have restored: "(clear_native_session k)\<lparr>card_standard_aes := card_standard_aes k, card_ev2 := card_ev2 k, card_iso := card_iso k,
        card_key := card_key k, card_iso_channel := card_iso_channel k\<rparr> = k"
      by (simp add: clear_native_session_def)
    show ?thesis
      using run ok x Inl ch inv chan
      by (auto simp: authenticate_iso_aes_locked_def Let_def restored split: if_splits intro!: operation_usable)
  next
    case (Inr ses)
    note ses = iso_authenticate_session [OF x [unfolded Inr]]
    have k2: "card_inv (?k1\<lparr>card_iso_channel := ch, card_iso := Some ses, card_reset_pending := False\<rparr>)"
      using inv ses ch by (simp add: card_inv_def)
    show ?thesis
      using run ok x Inr ch inv chan k2
      by (auto simp: authenticate_iso_aes_locked_def Let_def split: if_splits prod.splits
          intro!: operation_usable)
  qed
qed

text \<open>Preflight, key sources and guard.\<close>

lemma preflight_cases:
  assumes inv: "card_inv k"
    and run: "authentication_preflight_locked (recording E) req opts k (s, log) = (r, k', (s', log'))"
  shows "log' = log \<and> (case r of
      Inl e \<Rightarrow> err_outcome e = OC_not_sent \<and> operation_ok k log r k' log'
    | Inr _ \<Rightarrow> k' = k \<and> card_usable k)"
proof -
  obtain b s1 where b: "env_stop_requested E (opt_stop opts) s = (b, s1)" by fastforce
  obtain g s2 where g: "env_generation E s1 = (g, s2)" by fastforce
  note chan = card_inv_channels [OF inv]
  show ?thesis
    using run b g inv chan
    by (cases "opt_timeout opts \<le> 0"; cases b; cases "card_usable k"; cases "req \<and> card_ev2 k = None";
        cases "g = card_generation k")
       (auto simp: authentication_preflight_locked_def intro!: operation_refused operation_usable)
qed

lemma guarded_ok:
  assumes inv: "card_inv k"
    and body: "\<And>k1 r k2 s1 log1. card_inv k1 \<Longrightarrow> body k1 (s, log) = (r, k2, (s1, log1)) \<Longrightarrow> operation_ok k1 log r k2 log1"
    and run: "guarded m body k (s, log) = (r, k', (s', log'))"
  shows "operation_ok k log r k' log'"
proof (cases "card_operation_active k")
  case True
  then show ?thesis using run inv by (auto simp: guarded_def intro!: operation_refused)
next
  case False
  obtain x k2 s2 log2 where x: "body (k\<lparr>card_operation_active := True\<rparr>) (s, log) = (x, k2, (s2, log2))"
    by (metis prod.exhaust)
  have "operation_ok (k\<lparr>card_operation_active := True\<rparr>) log x k2 log2"
    using body [OF _ x] inv by simp
  then show ?thesis
    using run False x by (cases r) (auto simp: guarded_def operation_ok_def)
qed

lemma with_key_ok:
  assumes inv: "card_inv k" "card_usable k"
    and checked: "\<And>e. checked = Inl e \<Longrightarrow> err_outcome e = OC_not_sent"
    and key: "\<And>e s1. obtain_key st = (Inl e, s1) \<Longrightarrow> err_outcome e = OC_not_sent"
    and body: "\<And>key r k2 s1 log1 s2 log2. body key k (s1, log1) = (r, k2, (s2, log2)) \<Longrightarrow> operation_ok k log1 r k2 log2"
    and run: "with_key checked obtain_key body k st = (r, k', (s', log'))"
  shows "operation_ok k log r k' log'"
proof (cases checked)
  case (Inl e)
  then show ?thesis using run inv checked by (auto simp: with_key_def intro!: operation_usable)
next
  case (Inr u)
  obtain x s1 log1 where x: "obtain_key st = (x, (s1, log1))" by (metis prod.exhaust)
  show ?thesis
  proof (cases x)
    case Inl2: (Inl e)
    then show ?thesis using run inv Inr x key by (auto simp: with_key_def intro!: operation_usable)
  next
    case Inr2: (Inr a)
    then have "body a k (s1, log1) = (r, k', (s', log'))" using run Inr x by (simp add: with_key_def)
    from body [OF this] inv show ?thesis by (simp add: operation_ok_def)
  qed
qed

lemma preflighted_ok:
  assumes inv: "card_inv k"
    and body: "\<And>k1 r k2 s1 s2 log2. card_inv k1 \<Longrightarrow> card_usable k1 \<Longrightarrow> body k1 (s1, log) = (r, k2, (s2, log2)) \<Longrightarrow>
      operation_ok k1 log r k2 log2"
    and run: "preflighted (recording E) req opts body k (s, log) = (r, k', (s', log'))"
  shows "operation_ok k log r k' log'"
proof (rule guarded_ok [OF inv _ run [unfolded preflighted_def]])
  fix k1 r k2 s1 log1
  assume inv1: "card_inv k1"
    and step: "(case authentication_preflight_locked (recording E) req opts k1 (s, log) of
       (Inl e, k1, s1) \<Rightarrow> (Inl e, k1, s1) | (Inr _, k1, s1) \<Rightarrow> body k1 s1) = (r, k2, (s1, log1))"
  obtain x k3 s3 log3 where x: "authentication_preflight_locked (recording E) req opts k1 (s, log) = (x, k3, (s3, log3))"
    by (metis prod.exhaust)
  show "operation_ok k1 log r k2 log1"
    using preflight_cases [OF inv1 x] step x inv1 body
    by (cases x) (auto simp: operation_ok_def)
qed

lemma check_errors:
  "validate_derivation_context ctx = Inl e \<Longrightarrow> err_outcome e = OC_not_sent"
  "validate_iso_context_key ctx key = Inl e \<Longrightarrow> err_outcome e = OC_not_sent"
  "validate_provider_request q p ref = Inl e \<Longrightarrow> err_outcome e = OC_not_sent"
  "pcd_check pcd = Inl e \<Longrightarrow> err_outcome e = OC_not_sent"
  by (auto simp: validate_derivation_context_def validate_iso_context_key_def validate_provider_request_def
      pcd_check_def split: if_splits option.splits)

lemma both_checks_error:
  "both_checks a b = Inl e \<Longrightarrow> (\<And>e. a = Inl e \<Longrightarrow> err_outcome e = OC_not_sent) \<Longrightarrow>
     (\<And>e. b = Inl e \<Longrightarrow> err_outcome e = OC_not_sent) \<Longrightarrow> err_outcome e = OC_not_sent"
  by (auto simp: both_checks_def split: sum.splits)

lemmas locked_ok = authenticate_standard_aes_locked_ok authenticate_ev2_locked_ok authenticate_iso_aes_locked_ok

end
