(* ===== verification/Managed_Commands.thy ===== *)
theory Managed_Commands
  imports Managed_Card
begin

text \<open>
  The remaining public commands of the managed card: every method of \<^verbatim>\<open>card_applications.cpp\<close>,
  \<^verbatim>\<open>card_files.cpp\<close>, \<^verbatim>\<open>card_keys.cpp\<close>, \<^verbatim>\<open>card_management.cpp\<close> and
  \<^verbatim>\<open>card_transactions.cpp\<close> that builds a checked command and hands it to \<^verbatim>\<open>run\<close> or
  \<^verbatim>\<open>run_void\<close>. The theorem shows that the reads, which parse what \<^verbatim>\<open>run\<close> returned,
  add no failure of their own: execution has already checked every response they parse.
\<close>

section \<open>Applications\<close>

definition card_create_application ::
  "'s environment \<Rightarrow> crypto_provider \<Rightarrow> application_configuration \<Rightarrow> exchange_options
     \<Rightarrow> ('s, unit) card_operation" where
  "card_create_application E C settings = card_run_void E C (create_application settings)"

definition card_delete_application ::
  "'s environment \<Rightarrow> crypto_provider \<Rightarrow> application_id \<Rightarrow> exchange_options
     \<Rightarrow> ('s, unit) card_operation" where
  "card_delete_application E C aid = card_run_void E C (delete_application aid)"

definition card_create_delegated_application ::
  "'s environment \<Rightarrow> crypto_provider \<Rightarrow> delegated_application_configuration \<Rightarrow> bytes \<Rightarrow> bytes \<Rightarrow> exchange_options
     \<Rightarrow> ('s, unit) card_operation" where
  "card_create_delegated_application E C settings encrypted_default_key dam_mac =
     card_run_void E C (create_delegated_application settings encrypted_default_key dam_mac)"

definition card_delete_delegated_application ::
  "'s environment \<Rightarrow> crypto_provider \<Rightarrow> application_id \<Rightarrow> bytes \<Rightarrow> exchange_options
     \<Rightarrow> ('s, unit) card_operation" where
  "card_delete_delegated_application E C aid dam_mac =
     card_run_void E C (delete_delegated_application aid dam_mac)"

section \<open>Files\<close>

definition card_read_data ::
  "'s environment \<Rightarrow> crypto_provider \<Rightarrow> file_number \<Rightarrow> offset \<Rightarrow> byte_count \<Rightarrow> communication_mode \<Rightarrow> exchange_options
     \<Rightarrow> ('s, bytes) card_operation" where
  "card_read_data E C file off len mode = card_run E C (read_data file off len mode)"

definition card_write_data ::
  "'s environment \<Rightarrow> crypto_provider \<Rightarrow> file_number \<Rightarrow> offset \<Rightarrow> bytes \<Rightarrow> communication_mode \<Rightarrow> exchange_options
     \<Rightarrow> ('s, unit) card_operation" where
  "card_write_data E C file off data mode = card_run_void E C (write_data file off data mode)"

definition card_create_data_file ::
  "'s environment \<Rightarrow> crypto_provider \<Rightarrow> data_file_configuration \<Rightarrow> exchange_options
     \<Rightarrow> ('s, unit) card_operation" where
  "card_create_data_file E C settings = card_run_void E C (create_data_file settings)"

definition card_create_value_file ::
  "'s environment \<Rightarrow> crypto_provider \<Rightarrow> value_file_configuration \<Rightarrow> exchange_options
     \<Rightarrow> ('s, unit) card_operation" where
  "card_create_value_file E C settings = card_run_void E C (create_value_file settings)"

definition card_create_record_file ::
  "'s environment \<Rightarrow> crypto_provider \<Rightarrow> record_file_configuration \<Rightarrow> exchange_options
     \<Rightarrow> ('s, unit) card_operation" where
  "card_create_record_file E C settings = card_run_void E C (create_record_file settings)"

definition card_create_transaction_mac_file ::
  "'s environment \<Rightarrow> crypto_provider \<Rightarrow> file_number \<Rightarrow> access_rights \<Rightarrow> bytes \<Rightarrow> byte \<Rightarrow> exchange_options
     \<Rightarrow> ('s, unit) card_operation" where
  "card_create_transaction_mac_file E C file access aes_key key_version =
     card_run_void E C (create_transaction_mac_file file access aes_key key_version)"

definition card_delete_file ::
  "'s environment \<Rightarrow> crypto_provider \<Rightarrow> file_number \<Rightarrow> exchange_options
     \<Rightarrow> ('s, unit) card_operation" where
  "card_delete_file E C file = card_run_void E C (delete_file file)"

definition card_change_file_settings ::
  "'s environment \<Rightarrow> crypto_provider \<Rightarrow> file_settings_change \<Rightarrow> exchange_options
     \<Rightarrow> ('s, unit) card_operation" where
  "card_change_file_settings E C settings = card_run_void E C (change_file_settings settings)"

definition card_debit ::
  "'s environment \<Rightarrow> crypto_provider \<Rightarrow> file_number \<Rightarrow> u32 \<Rightarrow> communication_mode \<Rightarrow> exchange_options
     \<Rightarrow> ('s, unit) card_operation" where
  "card_debit E C file amount mode = card_run_void E C (debit file amount mode)"

definition card_credit ::
  "'s environment \<Rightarrow> crypto_provider \<Rightarrow> file_number \<Rightarrow> u32 \<Rightarrow> communication_mode \<Rightarrow> exchange_options
     \<Rightarrow> ('s, unit) card_operation" where
  "card_credit E C file amount mode = card_run_void E C (credit file amount mode)"

definition card_limited_credit ::
  "'s environment \<Rightarrow> crypto_provider \<Rightarrow> file_number \<Rightarrow> u32 \<Rightarrow> communication_mode \<Rightarrow> exchange_options
     \<Rightarrow> ('s, unit) card_operation" where
  "card_limited_credit E C file amount mode = card_run_void E C (limited_credit file amount mode)"

definition card_restore_transfer ::
  "'s environment \<Rightarrow> crypto_provider \<Rightarrow> file_number \<Rightarrow> file_number \<Rightarrow> communication_mode \<Rightarrow> exchange_options
     \<Rightarrow> ('s, unit) card_operation" where
  "card_restore_transfer E C target source mode = card_run_void E C (restore_transfer target source mode)"

definition card_read_records ::
  "'s environment \<Rightarrow> crypto_provider \<Rightarrow> file_number \<Rightarrow> offset \<Rightarrow> byte_count \<Rightarrow> communication_mode \<Rightarrow> nat \<Rightarrow> exchange_options
     \<Rightarrow> ('s, bytes) card_operation" where
  "card_read_records E C file first_record count mode maximum_response =
     card_run E C (read_records file first_record count mode maximum_response)"

definition card_write_record ::
  "'s environment \<Rightarrow> crypto_provider \<Rightarrow> file_number \<Rightarrow> offset \<Rightarrow> bytes \<Rightarrow> communication_mode \<Rightarrow> exchange_options
     \<Rightarrow> ('s, unit) card_operation" where
  "card_write_record E C file off data mode = card_run_void E C (write_record file off data mode)"

definition card_update_record ::
  "'s environment \<Rightarrow> crypto_provider \<Rightarrow> file_number \<Rightarrow> offset \<Rightarrow> offset \<Rightarrow> bytes \<Rightarrow> communication_mode \<Rightarrow> exchange_options
     \<Rightarrow> ('s, unit) card_operation" where
  "card_update_record E C file record_number off data mode =
     card_run_void E C (update_record file record_number off data mode)"

definition card_clear_record_file ::
  "'s environment \<Rightarrow> crypto_provider \<Rightarrow> file_number \<Rightarrow> exchange_options
     \<Rightarrow> ('s, unit) card_operation" where
  "card_clear_record_file E C file = card_run_void E C (clear_record_file file)"

section \<open>Keys\<close>

definition card_change_key_settings ::
  "'s environment \<Rightarrow> crypto_provider \<Rightarrow> byte \<Rightarrow> exchange_options
     \<Rightarrow> ('s, unit) card_operation" where
  "card_change_key_settings E C settings = card_run_void E C (change_key_settings settings)"

definition card_key_set_versions ::
  "'s environment \<Rightarrow> crypto_provider \<Rightarrow> exchange_options
     \<Rightarrow> ('s, bytes) card_operation" where
  "card_key_set_versions E C = card_run E C get_key_set_versions"

definition card_change_aes_key ::
  "'s environment \<Rightarrow> crypto_provider \<Rightarrow> key_number \<Rightarrow> bytes \<Rightarrow> byte \<Rightarrow> key_number \<Rightarrow> bytes \<Rightarrow> byte option \<Rightarrow> bool \<Rightarrow> exchange_options
     \<Rightarrow> ('s, unit) card_operation" where
  "card_change_aes_key E C key new_key version authenticated_key old_key key_set picc_master_key =
     card_run_void E C (change_aes_key key new_key version authenticated_key old_key key_set picc_master_key)"

definition card_initialize_key_set ::
  "'s environment \<Rightarrow> crypto_provider \<Rightarrow> byte \<Rightarrow> exchange_options
     \<Rightarrow> ('s, unit) card_operation" where
  "card_initialize_key_set E C key_set = card_run_void E C (initialize_key_set key_set)"

definition card_finalize_key_set ::
  "'s environment \<Rightarrow> crypto_provider \<Rightarrow> byte \<Rightarrow> byte \<Rightarrow> exchange_options
     \<Rightarrow> ('s, unit) card_operation" where
  "card_finalize_key_set E C key_set version = card_run_void E C (finalize_key_set key_set version)"

definition card_roll_key_set ::
  "'s environment \<Rightarrow> crypto_provider \<Rightarrow> byte \<Rightarrow> exchange_options
     \<Rightarrow> ('s, unit) card_operation" where
  "card_roll_key_set E C key_set = card_run_void E C (roll_key_set key_set)"

section \<open>The card\<close>

definition card_format_picc ::
  "'s environment \<Rightarrow> crypto_provider \<Rightarrow> exchange_options
     \<Rightarrow> ('s, unit) card_operation" where
  "card_format_picc E C = card_run_void E C format_picc"

definition card_set_picc_configuration ::
  "'s environment \<Rightarrow> crypto_provider \<Rightarrow> picc_configuration \<Rightarrow> exchange_options
     \<Rightarrow> ('s, unit) card_operation" where
  "card_set_picc_configuration E C settings = card_run_void E C (set_picc_configuration settings)"

definition card_set_capability_configuration ::
  "'s environment \<Rightarrow> crypto_provider \<Rightarrow> bytes \<Rightarrow> exchange_options
     \<Rightarrow> ('s, unit) card_operation" where
  "card_set_capability_configuration E C settings = card_run_void E C (set_capability_configuration settings)"

definition card_set_default_aes_key ::
  "'s environment \<Rightarrow> crypto_provider \<Rightarrow> bytes \<Rightarrow> byte \<Rightarrow> exchange_options
     \<Rightarrow> ('s, unit) card_operation" where
  "card_set_default_aes_key E C aes_key key_version =
     card_run_void E C (set_default_aes_key aes_key key_version)"

definition card_set_ats ::
  "'s environment \<Rightarrow> crypto_provider \<Rightarrow> bytes \<Rightarrow> exchange_options
     \<Rightarrow> ('s, unit) card_operation" where
  "card_set_ats E C ats = card_run_void E C (set_ats ats)"

definition card_set_atqa ::
  "'s environment \<Rightarrow> crypto_provider \<Rightarrow> u16 \<Rightarrow> exchange_options
     \<Rightarrow> ('s, unit) card_operation" where
  "card_set_atqa E C atqa = card_run_void E C (set_atqa atqa)"

section \<open>Transactions\<close>

definition card_commit_transaction ::
  "'s environment \<Rightarrow> crypto_provider \<Rightarrow> bool \<Rightarrow> exchange_options
     \<Rightarrow> ('s, bytes) card_operation" where
  "card_commit_transaction E C return_transaction_mac =
     card_run E C (commit_transaction return_transaction_mac)"

definition card_abort_transaction ::
  "'s environment \<Rightarrow> crypto_provider \<Rightarrow> exchange_options
     \<Rightarrow> ('s, unit) card_operation" where
  "card_abort_transaction E C = card_run_void E C abort_transaction"

definition card_commit_reader_id ::
  "'s environment \<Rightarrow> crypto_provider \<Rightarrow> bytes \<Rightarrow> exchange_options
     \<Rightarrow> ('s, bytes) card_operation" where
  "card_commit_reader_id E C reader_id = card_run E C (commit_reader_id reader_id)"

section \<open>Reads do not fail after execution\<close>

text \<open>A parser that accepts every response the execution of the built command accepts.\<close>

definition parser_fits :: "command result \<Rightarrow> (bytes \<Rightarrow> 'a result) \<Rightarrow> bool" where
  "parser_fits built parse \<longleftrightarrow>
     (\<forall>c payload. built = Inr c \<and> parse_failure c payload = None \<and>
        c_minimum_response c \<le> length payload \<and> length payload \<le> c_maximum_response c \<longrightarrow>
        failure_of (parse payload) = None)"

lemma check_response_size_Inr:
  "check_response_size response rq = Inr r \<longleftrightarrow>
     r = response \<and> sq_minimum_response rq \<le> length response \<and> length response \<le> sq_maximum_response rq"
  by (auto simp: check_response_size_def)

lemma conclude_protected_size:
  "conclude_protected ops rq response t = (Inr payload, t') \<Longrightarrow>
   sq_minimum_response rq \<le> length payload \<and> length payload \<le> sq_maximum_response rq"
  by (auto simp: conclude_protected_def check_response_size_Inr split: sum.splits if_splits prod.splits)

lemma exchange_protected_size:
  "exchange_protected ops E rq opts t ch s = (Inr payload, t', ch', s') \<Longrightarrow>
   sq_minimum_response rq \<le> length payload \<and> length payload \<le> sq_maximum_response rq"
  by (auto simp: exchange_protected_def dest: conclude_protected_size split: sum.splits prod.splits)

lemma exchange_unprotected_size:
  "exchange_unprotected E rq opts ch s = (Inr payload, ch', s') \<Longrightarrow>
   sq_minimum_response rq \<le> length payload \<and> length payload \<le> sq_maximum_response rq"
  by (auto simp: exchange_unprotected_def check_response_size_Inr split: sum.splits prod.splits if_splits)

lemma exchange_command_size:
  assumes "exchange_command E C c opts k s = (Inr payload, k', s')"
  shows "c_minimum_response c \<le> length payload \<and> length payload \<le> c_maximum_response c"
proof -
  have "sq_minimum_response (request_of c) \<le> length payload \<and> length payload \<le> sq_maximum_response (request_of c)"
    using assms
    by (auto simp: exchange_command_def dest: exchange_protected_size exchange_unprotected_size
        split: option.splits prod.splits)
  then show ?thesis by (simp add: request_of_def)
qed

lemma conclude_command_Inr:
  "conclude_command E c protected_session result k s = (Inr payload, k', s') \<Longrightarrow>
   result = Inr payload \<and> parse_failure c payload = None"
  by (auto simp: conclude_command_def Let_def split: sum.splits prod.splits if_splits option.splits)

lemma execute_locked_Inr:
  assumes "execute_locked E C (Some c) opts k s = (Inr payload, k', s')"
  shows "parse_failure c payload = None \<and> c_minimum_response c \<le> length payload \<and>
    length payload \<le> c_maximum_response c"
  using assms
  by (auto simp: execute_locked_def admit_command_def Let_def split: sum.splits prod.splits if_splits
      dest!: conclude_command_Inr exchange_command_size)

lemma card_execute_Inr:
  assumes "card_execute E C (Some c) opts k s = (Inr payload, k', s')"
  shows "parse_failure c payload = None \<and> c_minimum_response c \<le> length payload \<and>
    length payload \<le> c_maximum_response c"
  using assms
  by (auto simp: card_execute_def guarded_def split: if_splits prod.splits dest!: execute_locked_Inr)

text \<open>A query with a fitting parser has the failure and the effect of the plain run.\<close>

definition same_effect :: "'a result \<times> 'b \<Rightarrow> 'c result \<times> 'b \<Rightarrow> bool" where
  "same_effect x y \<longleftrightarrow> failure_of (fst x) = failure_of (fst y) \<and> snd x = snd y"

lemma card_query_same_effect:
  assumes "parser_fits built parse"
  shows "same_effect (card_query E C built parse opts k s) (card_run E C built opts k s)"
proof (cases built)
  case (Inl e)
  then show ?thesis by (simp add: card_query_def card_run_def same_effect_def failure_of_def)
next
  case (Inr c)
  obtain r k' s' where x: "card_execute E C (Some c) opts k s = (r, k', s')" by (metis prod_cases3)
  show ?thesis
  proof (cases r)
    case Inl2: (Inl e)
    then show ?thesis using Inr x by (simp add: card_query_def card_run_def same_effect_def failure_of_def)
  next
    case Inr2: (Inr payload)
    have "failure_of (parse payload) = None"
      using card_execute_Inr [OF x [unfolded Inr2]] Inr assms by (simp add: parser_fits_def)
    then show ?thesis
      using Inr x Inr2 by (simp add: card_query_def card_run_def same_effect_def failure_of_def)
  qed
qed

lemma parse_failure_opcode:
  "c_opcode c = 0x6A \<Longrightarrow> parse_failure c payload = failure_of (parse_application_ids payload)"
  "c_opcode c = 0x61 \<Longrightarrow> parse_failure c payload = failure_of (parse_iso_file_ids payload)"
  "c_opcode c = 0x45 \<Longrightarrow> parse_failure c payload = failure_of (parse_key_settings payload)"
  "c_opcode c = 0xF5 \<Longrightarrow> parse_failure c payload = failure_of (parse_file_settings payload)"
  "c_opcode c = 0xF6 \<Longrightarrow> parse_failure c payload = failure_of (parse_file_counters payload)"
  "c_opcode c = 0x6C \<Longrightarrow> parse_failure c payload = failure_of (parse_value payload)"
  "c_opcode c = 0x69 \<Longrightarrow> parse_failure c payload = failure_of (parse_delegated_application_info payload)"
  "c_opcode c = 0x3C \<Longrightarrow> parse_failure c payload = failure_of (parse_originality_signature payload)"
  "c_opcode c = 0x51 \<Longrightarrow> uid_request_of (c_header c) = Some request \<Longrightarrow>
     parse_failure c payload = failure_of (parse_card_uid payload request)"
  by (simp_all add: parse_failure_def)

lemma parser_fitsI:
  assumes "\<And>c payload. built = Inr c \<Longrightarrow> parse_failure c payload = failure_of (parse payload)"
  shows "parser_fits built parse"
  unfolding parser_fits_def using assms by metis

lemma management_sel: "c_opcode (management opcode header low high) = opcode"
  "c_minimum_response (management opcode header low high) = low"
  "c_maximum_response (management opcode header low high) = high"
  by (simp_all add: management_def)

lemma file_command_Inr:
  "file_command opcode header data mode reading low high = Inr c \<Longrightarrow> c_opcode c = opcode \<and> c_header c = header"
  by (auto simp: file_command_def management_def Let_def split: if_splits)

lemma reads_fit:
  "parser_fits get_application_ids parse_application_ids"
  "parser_fits (get_delegated_application_info slot) parse_delegated_application_info"
  "parser_fits get_iso_file_ids parse_iso_file_ids"
  "parser_fits (get_file_settings file) parse_file_settings"
  "parser_fits (get_value file mode) parse_value"
  "parser_fits (get_file_counters file mode) parse_file_counters"
  "parser_fits get_key_settings parse_key_settings"
  "parser_fits read_originality_signature parse_originality_signature"
  by (rule parser_fitsI, rule parse_failure_opcode,
      auto simp: management_sel get_application_ids_def get_delegated_application_info_def get_iso_file_ids_def
        get_file_settings_def get_value_def get_file_counters_def get_key_settings_def
        read_originality_signature_def dest!: file_command_Inr split: if_splits)+

lemma key_version_fits: "parser_fits (get_key_version key key_set) parse_key_version"
  by (auto simp: parser_fits_def get_key_version_def management_sel parse_key_version_def failure_of_def
      split: if_splits option.splits)

lemma uid_read_fits: "parser_fits (get_card_uid request) (\<lambda>payload. parse_card_uid payload request)"
proof (rule parser_fitsI)
  fix c payload
  assume c: "get_card_uid request = Inr c"
  then have "c_opcode c = 0x51" "uid_request_of (c_header c) = Some request"
    by (auto simp: get_card_uid_def uid_request_of_def dest!: file_command_Inr split: card_uid_request.splits)
  then show "parse_failure c payload = failure_of (parse_card_uid payload request)"
    by (rule parse_failure_opcode)
qed

text \<open>
  Every typed read of the managed card (application and ISO file identifiers, file settings,
  value, counters, key settings and versions, UID, originality signature) fails exactly when and
  exactly as the execution of its command does, and leaves the card and the environment as that
  execution does: whatever execution accepts, the read's own parser accepts.
\<close>

theorem typed_reads_as_run:
  "same_effect (application_ids E C opts k s) (card_run E C get_application_ids opts k s) \<and>
   same_effect (card_delegated_application_info E C slot opts k s)
     (card_run E C (get_delegated_application_info slot) opts k s) \<and>
   same_effect (iso_file_ids E C opts k s) (card_run E C get_iso_file_ids opts k s) \<and>
   same_effect (card_file_settings E C file opts k s) (card_run E C (get_file_settings file) opts k s) \<and>
   same_effect (card_value E C file mode opts k s) (card_run E C (get_value file mode) opts k s) \<and>
   same_effect (card_file_counters E C file mode opts k s) (card_run E C (get_file_counters file mode) opts k s) \<and>
   same_effect (card_key_settings E C opts k s) (card_run E C get_key_settings opts k s) \<and>
   same_effect (card_key_version E C key key_set opts k s) (card_run E C (get_key_version key key_set) opts k s) \<and>
   same_effect (card_uid E C request opts k s) (card_run E C (get_card_uid request) opts k s) \<and>
   same_effect (card_originality_signature E C opts k s) (card_run E C read_originality_signature opts k s)"
  unfolding application_ids_def card_delegated_application_info_def iso_file_ids_def card_file_settings_def
    card_value_def card_file_counters_def card_key_settings_def card_key_version_def card_uid_def
    card_originality_signature_def
  by (intro conjI card_query_same_effect reads_fit key_version_fits uid_read_fits)

end
