(* ===== verification/Managed_Lifecycle.thy ===== *)
theory Managed_Lifecycle
  imports Managed_Invariant Managed_Transactions Managed_Commands
begin

text \<open>
  The managed card over its whole life: the step relation of its public operations, the cards it
  can reach, and what holds of all of them. The guarantee of \<open>Managed_Invariant\<close> is the contract
  \<open>managed_operation\<close>, a locale that every public operation interprets; the properties follow by
  rule induction over the runs. Transactions are shown to report a receipt only for a plan that was
  accepted entirely, and a definite failure only for one of which nothing was accepted.
\<close>

section \<open>Specification\<close>

text \<open>Composition of guarantees while the card stays usable or has been given up.\<close>

definition run_ok :: "card_state \<Rightarrow> 'a result \<Rightarrow> card_state \<Rightarrow> bool" where
  "run_ok k r k' \<longleftrightarrow> card_inv k' \<and> card_operation_active k' = card_operation_active k \<and>
     (case r of Inl e \<Rightarrow> err_outcome e = OC_unknown \<longrightarrow> \<not> card_usable k' | Inr _ \<Rightarrow> True)"

text \<open>
  One step of the world around a connected card: a public operation with its failure, or time that
  passes and changes the environment without the card. A reset is marked, because it is the only
  operation that makes a given-up card usable again.
\<close>

datatype step_kind = World | Reset | Operation

type_synonym 's card_world = "card_state \<times> 's \<times> exchange_log"

inductive card_step ::
  "'s environment \<Rightarrow> crypto_provider \<Rightarrow> 's card_world \<Rightarrow> step_kind \<Rightarrow> error option \<Rightarrow> 's card_world \<Rightarrow> bool"
  for E C where
  world: "card_step E C (k, s, log) World None (k, s', log)"
| reset: "card_reset (recording E) k (s, log) = (r, k', s', log') \<Longrightarrow>
    card_step E C (k, s, log) Reset (failure_of r) (k', s', log')"
| reset_authentication: "reset_authentication k (s, log) = (r, k', s', log') \<Longrightarrow>
    card_step E C (k, s, log) Operation (failure_of r) (k', s', log')"
| execute: "card_execute (recording E) C cmd opts k (s, log) = (r, k', s', log') \<Longrightarrow>
    card_step E C (k, s, log) Operation (failure_of r) (k', s', log')"
| select: "select_application (recording E) C app opts k (s, log) = (r, k', s', log') \<Longrightarrow>
    card_step E C (k, s, log) Operation (failure_of r) (k', s', log')"
| get_version: "card_get_version (recording E) C opts k (s, log) = (r, k', s', log') \<Longrightarrow>
    card_step E C (k, s, log) Operation (failure_of r) (k', s', log')"
| free_memory: "card_free_memory (recording E) C opts k (s, log) = (r, k', s', log') \<Longrightarrow>
    card_step E C (k, s, log) Operation (failure_of r) (k', s', log')"
| file_ids: "card_file_ids (recording E) C opts k (s, log) = (r, k', s', log') \<Longrightarrow>
    card_step E C (k, s, log) Operation (failure_of r) (k', s', log')"
| df_names: "card_df_names (recording E) opts k (s, log) = (r, k', s', log') \<Longrightarrow>
    card_step E C (k, s, log) Operation (failure_of r) (k', s', log')"
| iso: "iso_command (recording E) C c opts k (s, log) = (r, k', s', log') \<Longrightarrow>
    card_step E C (k, s, log) Operation (failure_of r) (k', s', log')"
| transaction: "execute_transaction (recording E) C ops mac opts k (s, log) = (r, k', s', log') \<Longrightarrow>
    card_step E C (k, s, log) Operation (failure_of r) (k', s', log')"
| standard_aes: "authenticate_standard_aes (recording E) C n key opts k (s, log) = (r, k', s', log') \<Longrightarrow>
    card_step E C (k, s, log) Operation (failure_of r) (k', s', log')"
| standard_aes_derived:
    "authenticate_standard_aes_derived (recording E) C key deriver ctx opts k (s, log) = (r, k', s', log') \<Longrightarrow>
    card_step E C (k, s, log) Operation (failure_of r) (k', s', log')"
| standard_aes_resolved:
    "authenticate_standard_aes_resolved (recording E) C token provider q opts k (s, log) = (r, k', s', log') \<Longrightarrow>
    card_step E C (k, s, log) Operation (failure_of r) (k', s', log')"
| ev2_first: "authenticate_ev2_first_aes (recording E) C n key pcd opts k (s, log) = (r, k', s', log') \<Longrightarrow>
    card_step E C (k, s, log) Operation (failure_of r) (k', s', log')"
| ev2_first_derived:
    "authenticate_ev2_first_aes_derived (recording E) C key deriver ctx pcd opts k (s, log) = (r, k', s', log') \<Longrightarrow>
    card_step E C (k, s, log) Operation (failure_of r) (k', s', log')"
| ev2_first_resolved:
    "authenticate_ev2_first_aes_resolved (recording E) C token provider q pcd opts k (s, log) = (r, k', s', log') \<Longrightarrow>
    card_step E C (k, s, log) Operation (failure_of r) (k', s', log')"
| ev2_non_first: "authenticate_ev2_non_first_aes (recording E) C n key opts k (s, log) = (r, k', s', log') \<Longrightarrow>
    card_step E C (k, s, log) Operation (failure_of r) (k', s', log')"
| ev2_non_first_derived:
    "authenticate_ev2_non_first_aes_derived (recording E) C key deriver ctx opts k (s, log) = (r, k', s', log') \<Longrightarrow>
    card_step E C (k, s, log) Operation (failure_of r) (k', s', log')"
| ev2_non_first_resolved:
    "authenticate_ev2_non_first_aes_resolved (recording E) C token provider q opts k (s, log) = (r, k', s', log') \<Longrightarrow>
    card_step E C (k, s, log) Operation (failure_of r) (k', s', log')"
| iso_aes: "authenticate_iso_aes (recording E) C ref key opts k (s, log) = (r, k', s', log') \<Longrightarrow>
    card_step E C (k, s, log) Operation (failure_of r) (k', s', log')"
| iso_aes_derived:
    "authenticate_iso_aes_derived (recording E) C ref key deriver ctx opts k (s, log) = (r, k', s', log') \<Longrightarrow>
    card_step E C (k, s, log) Operation (failure_of r) (k', s', log')"
| iso_aes_resolved:
    "authenticate_iso_aes_resolved (recording E) C ref token provider q opts k (s, log) = (r, k', s', log') \<Longrightarrow>
    card_step E C (k, s, log) Operation (failure_of r) (k', s', log')"

inductive card_reachable :: "'s environment \<Rightarrow> crypto_provider \<Rightarrow> 's card_world \<Rightarrow> bool" for E C where
  connected: "card_connect (recording E) (s, log) = (k, s', log') \<Longrightarrow> card_reachable E C (k, s', log')"
| stepped: "card_reachable E C w \<Longrightarrow> card_step E C w kind failure w' \<Longrightarrow> card_reachable E C w'"

text \<open>What a step guarantees; every operation that meets its own guarantee meets it.\<close>

definition step_ok :: "'s card_world \<Rightarrow> step_kind \<Rightarrow> error option \<Rightarrow> 's card_world \<Rightarrow> bool" where
  "step_ok w kind failure w' \<longleftrightarrow> (case (w, w') of ((k, _, log), (k', _, log')) \<Rightarrow>
     card_inv k' \<and> \<not> card_operation_active k' \<and>
     (case failure of Some e \<Rightarrow> err_outcome e = OC_unknown \<longrightarrow> \<not> card_usable k' | None \<Rightarrow> True) \<and>
     (\<not> card_usable k \<and> kind \<noteq> Reset \<longrightarrow> \<not> card_usable k' \<and> log' = log))"

text \<open>Runs in which nobody resets the card.\<close>

inductive unreset_run :: "'s environment \<Rightarrow> crypto_provider \<Rightarrow> 's card_world \<Rightarrow> 's card_world \<Rightarrow> bool" for E C where
  finished: "unreset_run E C w w"
| further: "card_step E C w kind failure w1 \<Longrightarrow> kind \<noteq> Reset \<Longrightarrow> unreset_run E C w1 w2 \<Longrightarrow> unreset_run E C w w2"

text \<open>
  What a transaction reports: a receipt means that every mutation of the plan was accepted in order,
  after every target had been verified, and then the commit; an error is either an unknown outcome
  with the card given up, or comes from a plan of which not even the first mutation was accepted.
\<close>

definition transaction_report ::
  "'s environment \<Rightarrow> crypto_provider \<Rightarrow> owned_command list \<Rightarrow> bool \<Rightarrow> exchange_options \<Rightarrow> int
     \<Rightarrow> card_state \<times> 's \<Rightarrow> bytes result \<Rightarrow> card_state \<times> 's \<Rightarrow> bool" where
  "transaction_report E C ops mac opts deadline st r st' \<longleftrightarrow>
     (case r of
        Inr receipt \<Rightarrow>
          (\<exists>cs st1 k2 s2 commit budget s3.
             plan_commands ops = Inr cs \<and>
             check_targets E C opts deadline cs Map.empty (fst st) (snd st) = (Inr (), st1) \<and>
             accepted_run E C opts deadline cs st1 (k2, s2) \<and>
             commit_transaction mac = Inr commit \<and>
             transaction_budget E opts deadline s2 = (Inr budget, s3) \<and>
             execute_locked E C (Some commit) budget k2 s3 = (Inr receipt, st'))
      | Inl e \<Rightarrow>
          (err_outcome e = OC_unknown \<and> \<not> card_usable (fst st')) \<or>
          (\<forall>c cs st1 st2.
             plan_commands ops = Inr (c # cs) \<and>
             check_targets E C opts deadline (c # cs) Map.empty (fst st) (snd st) = (Inr (), st1) \<longrightarrow>
             \<not> accepted_run E C opts deadline [c] st1 st2))"

text \<open>
  A scripted reader, the card it connects to, a script in which the reader loses the card, and a
  plan of one write with the script of its transaction.
\<close>

definition demo_card_capabilities :: transport_capabilities where
  "demo_card_capabilities = demo_capabilities\<lparr>max_native_frame := 60\<rparr>"

abbreviation demo_world :: "replay_transport environment" where
  "demo_world \<equiv> replay_environment demo_card_capabilities"

definition demo_card :: card_state where
  "demo_card = \<lparr>card_standard_aes = None, card_ev2 = None, card_key = None, card_iso = None,
     card_operation_active = False, card_generation = 1, card_usable = True, card_reset_pending = False,
     card_selected = Some 0, card_raw = demo_channel, card_iso_channel = iso_create\<rparr>"

definition demo_lost_script :: "replay_step list" where
  "demo_lost_script = [\<lparr>step_request = [0x5A, 1, 0, 0],
     step_response = Inl (unknown_error EC_timeout (STR ''Reader lost the card''))\<rparr>]"

definition demo_plan_script :: "replay_step list" where
  "demo_plan_script =
     [\<lparr>step_request = [0xF5, 1], step_response = Inr [0x00, 0x01, 0x00, 0xEE, 0xEE, 0x20, 0x00, 0x00]\<rparr>,
      \<lparr>step_request = [0x3D, 1, 0, 0, 0, 1, 0, 0, 7], step_response = Inr [0x00]\<rparr>,
      \<lparr>step_request = [0xC7], step_response = Inr [0x00]\<rparr>]"

definition demo_plan :: "owned_command list" where
  "demo_plan = [(case write_data 1 0 [7] Mode_plain of Inl _ \<Rightarrow> None | Inr c \<Rightarrow> Some c)]"

definition demo_settings :: file_settings where
  "demo_settings = (case parse_file_settings [0x01, 0x00, 0xEE, 0xEE, 0x20, 0x00, 0x00] of Inr fs \<Rightarrow> fs)"

definition demo_write_command :: command where
  "demo_write_command = (management 0x3D [1, 0, 0, 0, 1, 0, 0] 0 0)\<lparr>c_data := [7], c_request_mode := Mode_plain,
     c_response_mode := Mode_plain\<rparr>"

section \<open>Transactions\<close>

lemma transaction_budget_recording:
  "transaction_budget (recording E) opts deadline (s, log) =
     (case transaction_budget E opts deadline s of (r, s') \<Rightarrow> (r, (s', log)))"
  by (simp add: transaction_budget_def Let_def split: prod.splits)

lemma transaction_budget_Inl:
  "transaction_budget E opts deadline s = (Inl e, s') \<Longrightarrow> err_outcome e = OC_not_sent"
  by (auto simp: transaction_budget_def Let_def split: prod.splits if_splits)

lemma check_target_Inl: "check_target c file = Inl e \<Longrightarrow> err_outcome e = OC_not_sent"
  by (auto simp: check_target_def split: if_splits)

lemma plan_commands_Inl: "plan_commands ops = Inl e \<Longrightarrow> err_outcome e = OC_not_sent"
  by (induction ops) (auto split: if_splits option.splits sum.splits)

lemma commit_transaction_Inr: "\<exists>c. commit_transaction mac = Inr c"
  by (simp add: commit_transaction_def)

lemma get_file_settings_Inr: "\<exists>c. get_file_settings file = Inr c"
  by (simp add: get_file_settings_def)

lemma operation_run: "operation_ok k log r k' log' \<Longrightarrow> run_ok k r k'"
  by (simp add: operation_ok_def run_ok_def)

lemma run_operation: "run_ok k r k' \<Longrightarrow> card_usable k \<Longrightarrow> operation_ok k log r k' log'"
  by (simp add: operation_ok_def run_ok_def)

lemma run_ok_error: "run_ok k (Inl e :: 'a result) k' \<Longrightarrow> run_ok k (Inl e :: 'b result) k'"
  by (simp add: run_ok_def)

lemma run_ok_invalidated:
  "card_inv k' \<Longrightarrow> card_operation_active k' = card_operation_active k \<Longrightarrow> run_ok k (Inl e) (invalidate_locked k')"
  by (simp add: run_ok_def card_inv_channels)

lemma run_ok_kept:
  "card_inv k \<Longrightarrow> (\<And>e. r = Inl e \<Longrightarrow> err_outcome e \<noteq> OC_unknown) \<Longrightarrow> run_ok k r k"
  by (cases r) (auto simp: run_ok_def)

lemma run_ok_trans:
  "run_ok k (Inr a) k1 \<Longrightarrow> run_ok k1 r k2 \<Longrightarrow> run_ok k r k2"
  by (simp add: run_ok_def)

lemma query_settings_ok:
  assumes inv: "card_inv k"
    and run: "query_settings (recording E) C opts deadline file settings k (s, log) = (r, k', (s', log'))"
  shows "run_ok k r k'"
proof (cases "settings file")
  case (Some cached)
  then show ?thesis using run inv by (auto simp: query_settings_def intro!: run_ok_kept)
next
  case None
  obtain b s1 where b: "transaction_budget E opts deadline s = (b, s1)" by fastforce
  obtain q where q: "get_file_settings (ucast file) = Inr q" using get_file_settings_Inr by blast
  show ?thesis
  proof (cases b)
    case (Inl e)
    then show ?thesis
      using run inv None b transaction_budget_Inl [OF b [unfolded Inl]]
      by (auto simp: query_settings_def transaction_budget_recording intro!: run_ok_kept)
  next
    case (Inr budget)
    obtain x k1 s2 log2 where x: "execute_locked (recording E) C (Some q) budget k (s1, log) = (x, k1, (s2, log2))"
      by (metis prod.exhaust)
    note ok = operation_run [OF execute_locked_ok [OF inv x]]
    show ?thesis
    proof (cases x)
      case Inl2: (Inl e)
      then show ?thesis
        using run None b Inr q x ok by (auto simp: query_settings_def transaction_budget_recording run_ok_def)
    next
      case Inr2: (Inr payload)
      then have "card_inv k1" "card_operation_active k1 = card_operation_active k" using ok by (simp_all add: run_ok_def)
      then show ?thesis
        using run None b Inr q x Inr2
        by (cases "parse_file_settings payload")
           (auto simp: query_settings_def transaction_budget_recording run_ok_def card_inv_channels
             split: sum.splits)
    qed
  qed
qed

lemma check_targets_ok:
  assumes "card_inv k"
    and "check_targets (recording E) C opts deadline cs settings k (s, log) = (r, k', (s', log'))"
  shows "run_ok k r k'"
  using assms
proof (induction cs arbitrary: settings k s log)
  case Nil
  then show ?case by (auto intro!: run_ok_kept)
next
  case (Cons c cs)
  obtain x k1 s1 log1 where x: "query_settings (recording E) C opts deadline (hd (c_header c)) settings k (s, log) =
      (x, k1, (s1, log1))" by (metis prod.exhaust)
  note ok = query_settings_ok [OF Cons.prems(1) x]
  show ?case
  proof (cases x)
    case (Inl e)
    then show ?thesis using Cons.prems(2) x ok by (auto simp: run_ok_def)
  next
    case (Inr fs)
    have inv1: "card_inv k1" using ok Inr by (simp add: run_ok_def)
    show ?thesis
    proof (cases "check_target c fs")
      case Inl2: (Inl e)
      then show ?thesis
        using Cons.prems(2) x Inr ok check_target_Inl [OF Inl2] by (auto simp: run_ok_def split: sum.splits)
    next
      case Inr2: (Inr u)
      then show ?thesis
        using Cons.prems(2) x Inr ok Cons.IH [OF inv1] run_ok_trans [of k fs k1 r k'] by simp
    qed
  qed
qed

lemma staging_failure_ok:
  assumes "card_inv k1" "card_operation_active k1 = card_operation_active k"
    and "staging_failure staged e k1 s = (r, k', s')"
  shows "run_ok k r k' \<and> (\<exists>e'. r = Inl e' \<and> (staged \<longrightarrow> err_outcome e' = OC_unknown \<and> \<not> card_usable k'))"
  using assms by (auto simp: staging_failure_def run_ok_def card_inv_channels split: if_splits)

lemma stage_mutations_ok:
  assumes "card_inv k"
    and "stage_mutations (recording E) C opts deadline cs staged k (s, log) = (r, k', (s', log'))"
  shows "run_ok k r k' \<and>
    (case r of
       Inl e \<Rightarrow> staged \<longrightarrow> err_outcome e = OC_unknown \<and> \<not> card_usable k'
     | Inr _ \<Rightarrow> accepted_run (recording E) C opts deadline cs (k, (s, log)) (k', (s', log')))"
  using assms
proof (induction cs arbitrary: staged k s log)
  case Nil
  then show ?case by (auto intro!: run_ok_kept accepted_run.finished)
next
  case (Cons c cs)
  obtain b s1 where b: "transaction_budget E opts deadline s = (b, s1)" by fastforce
  show ?case
  proof (cases b)
    case (Inl e)
    then have "staging_failure staged e k (s1, log) = (r, k', (s', log'))"
      using Cons.prems(2) b by (simp add: transaction_budget_recording)
    from staging_failure_ok [OF Cons.prems(1) refl this] show ?thesis by auto
  next
    case (Inr budget)
    obtain x k1 s2 log2 where x: "execute_locked (recording E) C (Some c) budget k (s1, log) = (x, k1, (s2, log2))"
      by (metis prod.exhaust)
    note ok = operation_run [OF execute_locked_ok [OF Cons.prems(1) x]]
    have inv1: "card_inv k1" and act: "card_operation_active k1 = card_operation_active k"
      using ok by (simp_all add: run_ok_def)
    show ?thesis
    proof (cases x)
      case Inl2: (Inl e)
      then have "staging_failure staged e k1 (s2, log2) = (r, k', (s', log'))"
        using Cons.prems(2) b Inr x by (simp add: transaction_budget_recording)
      from staging_failure_ok [OF inv1 act this] show ?thesis by auto
    next
      case Inr2: (Inr payload)
      then have rest: "stage_mutations (recording E) C opts deadline cs True k1 (s2, log2) = (r, k', (s', log'))"
        using Cons.prems(2) b Inr x by (simp add: transaction_budget_recording)
      have budget: "transaction_budget (recording E) opts deadline (s, log) = (Inr budget, (s1, log))"
        using b Inr by (simp add: transaction_budget_recording)
      from Cons.IH [OF inv1 rest] run_ok_trans [OF ok [unfolded Inr2]] show ?thesis
        by (cases r) (auto intro: accepted_run.accepted [OF budget x [unfolded Inr2]])
    qed
  qed
qed

lemma commit_staged_ok:
  assumes inv: "card_inv k"
    and run: "commit_staged (recording E) C opts deadline mac k (s, log) = (r, k', (s', log'))"
  shows "run_ok k r k' \<and>
    (case r of
       Inl e \<Rightarrow> err_outcome e = OC_unknown \<and> \<not> card_usable k'
     | Inr receipt \<Rightarrow> \<exists>commit budget s1. commit_transaction mac = Inr commit \<and>
         transaction_budget (recording E) opts deadline (s, log) = (Inr budget, s1) \<and>
         execute_locked (recording E) C (Some commit) budget k s1 = (Inr receipt, k', (s', log')))"
proof -
  obtain b s1 where b: "transaction_budget E opts deadline s = (b, s1)" by fastforce
  obtain c where c: "commit_transaction mac = Inr c" using commit_transaction_Inr by blast
  show ?thesis
  proof (cases b)
    case (Inl e)
    then show ?thesis
      using run b inv by (auto simp: commit_staged_def transaction_budget_recording run_ok_def card_inv_channels)
  next
    case (Inr budget)
    obtain x k1 s2 log2 where x: "execute_locked (recording E) C (Some c) budget k (s1, log) = (x, k1, (s2, log2))"
      by (metis prod.exhaust)
    note ok = operation_run [OF execute_locked_ok [OF inv x]]
    then have "card_inv k1" "card_operation_active k1 = card_operation_active k" by (simp_all add: run_ok_def)
    then show ?thesis
      using run b Inr c x ok
      by (cases x, auto simp: commit_staged_def transaction_budget_recording run_ok_def card_inv_channels)
  qed
qed

lemma execute_transaction_locked_ok:
  assumes inv: "card_inv k"
    and run: "execute_transaction_locked (recording E) C ops mac opts k (s, log) = (r, k', (s', log'))"
  shows "operation_ok k log r k' log'"
proof (cases "card_usable k \<and> card_iso k = None \<and> \<not> (ops = [] \<or> length ops > 128 \<or> opt_timeout opts \<le> 0)")
  case False
  then show ?thesis
    using run inv by (auto simp: execute_transaction_locked_def split: if_splits intro!: operation_refused)
next
  case ok: True
  obtain now s1 where now: "env_now E s = (now, s1)" by fastforce
  let ?d = "now + opt_timeout opts * 1000000"
  show ?thesis
  proof (cases "plan_commands ops")
    case (Inl e)
    then show ?thesis
      using run ok now inv plan_commands_Inl [OF Inl]
      by (auto simp: execute_transaction_locked_def Let_def intro!: operation_usable)
  next
    case cs: (Inr cs)
    obtain x k1 s2 log2 where x: "check_targets (recording E) C opts ?d cs Map.empty k (s1, log) = (x, k1, (s2, log2))"
      by (metis prod.exhaust)
    note chk = check_targets_ok [OF inv x]
    then have inv1: "card_inv k1" by (simp add: run_ok_def)
    show ?thesis
    proof (cases x)
      case (Inl e)
      then show ?thesis
        using run ok now cs x chk by (auto simp: execute_transaction_locked_def Let_def intro: run_operation run_ok_error)
    next
      case chked: (Inr u)
      obtain y k2 s3 log3 where y: "stage_mutations (recording E) C opts ?d cs False k1 (s2, log2) = (y, k2, (s3, log3))"
        by (metis prod.exhaust)
      note st = stage_mutations_ok [OF inv1 y]
      then have inv2: "card_inv k2" and sofar: "run_ok k y k2"
        using run_ok_trans [OF chk [unfolded chked]] by (auto simp: run_ok_def)
      show ?thesis
      proof (cases y)
        case (Inl e)
        then show ?thesis
          using run ok now cs x chked y sofar
          by (auto simp: execute_transaction_locked_def Let_def intro: run_operation run_ok_error)
      next
        case (Inr v)
        then have "commit_staged (recording E) C opts ?d mac k2 (s3, log3) = (r, k', (s', log'))"
          using run ok now cs x chked y by (simp add: execute_transaction_locked_def Let_def)
        from commit_staged_ok [OF inv2 this] have "run_ok k2 r k'" by simp
        from run_ok_trans [OF sofar [unfolded Inr] this] ok show ?thesis by (auto intro: run_operation)
      qed
    qed
  qed
qed

section \<open>Every operation meets the guarantee\<close>

lemma derived_ok:
  assumes inv: "card_inv k"
    and checked: "\<And>e. checked = Inl e \<Longrightarrow> err_outcome e = OC_not_sent"
    and key: "\<And>st e s1. obtain_key st = (Inl e, s1) \<Longrightarrow> err_outcome e = OC_not_sent"
    and body: "\<And>key k1 r k2 s1 log1 s2 log2. card_inv k1 \<Longrightarrow> card_usable k1 \<Longrightarrow>
      body key k1 (s1, log1) = (r, k2, (s2, log2)) \<Longrightarrow> operation_ok k1 log1 r k2 log2"
    and run: "preflighted (recording E) req opts (with_key checked obtain_key body) k (s, log) = (r, k', (s', log'))"
  shows "operation_ok k log r k' log'"
proof (rule preflighted_ok [OF inv _ run])
  fix k1 r1 k2 s1 log1 s2 log2
  assume k1: "card_inv k1" "card_usable k1"
    and step: "with_key checked obtain_key body k1 (s1, log1) = (r1, k2, (s2, log2))"
  show "operation_ok k1 log1 r1 k2 log2"
    by (rule with_key_ok [OF k1 checked key body [OF k1(1) k1(2)] step])
qed

lemma reset_authentication_ok:
  assumes inv: "card_inv k" and run: "reset_authentication k (s, log) = (r, k', (s', log'))"
  shows "operation_ok k log r k' log'"
  by (rule guarded_ok [OF inv _ run [unfolded reset_authentication_def]])
     (auto simp: operation_ok_def card_inv_def Let_def)

lemma raw_reset_channel: "raw_reset E ch s = (r, ch', s') \<Longrightarrow> ch' = ch"
  by (auto simp: raw_reset_def split: if_splits prod.splits dep.splits)

lemma card_reset_ok:
  assumes inv: "card_inv k" "\<not> card_operation_active k"
    and run: "card_reset E k s = (r, k', s')"
  shows "card_inv k' \<and> \<not> card_operation_active k' \<and> (card_usable k' \<longleftrightarrow> r = Inr ())"
proof -
  let ?k1 = "invalidate_locked (k\<lparr>card_operation_active := True\<rparr>)"
  note chan = card_inv_channels [OF inv(1)]
  obtain x raw s1 where x: "raw_reset E (card_raw k) s = (x, raw, s1)" by (metis prod_cases3)
  have raw: "raw = card_raw k" using raw_reset_channel [OF x] .
  show ?thesis
    using run inv(2) x raw chan
    by (cases x) (auto simp: card_reset_def guarded_def card_inv_def Let_def split: prod.splits)
qed

lemma key_authentications_ok:
  assumes inv: "card_inv k"
  shows "authenticate_standard_aes (recording E) C n key opts k (s, log) = (r1, k', s', log') \<Longrightarrow> operation_ok k log r1 k' log'"
    and "authenticate_ev2_first_aes (recording E) C n key pcd opts k (s, log) = (r2, k', s', log') \<Longrightarrow> operation_ok k log r2 k' log'"
    and "authenticate_ev2_non_first_aes (recording E) C n key opts k (s, log) = (r2, k', s', log') \<Longrightarrow> operation_ok k log r2 k' log'"
    and "authenticate_iso_aes (recording E) C ref key opts k (s, log) = (r1, k', s', log') \<Longrightarrow> operation_ok k log r1 k' log'"
  unfolding authenticate_standard_aes_def authenticate_ev2_first_aes_def authenticate_ev2_non_first_aes_def
    authenticate_iso_aes_def
  by (erule preflighted_ok [OF inv, rotated]; rule locked_ok; assumption)+

lemma derived_authentications_ok:
  assumes inv: "card_inv k"
  shows "authenticate_standard_aes_derived (recording E) C key deriver ctx opts k (s, log) = (r1, k', s', log') \<Longrightarrow>
      operation_ok k log r1 k' log'"
    and "authenticate_ev2_first_aes_derived (recording E) C key deriver ctx pcd opts k (s, log) = (r2, k', s', log') \<Longrightarrow>
      operation_ok k log r2 k' log'"
    and "authenticate_ev2_non_first_aes_derived (recording E) C key deriver ctx opts k (s, log) = (r2, k', s', log') \<Longrightarrow>
      operation_ok k log r2 k' log'"
    and "authenticate_iso_aes_derived (recording E) C ref key deriver ctx opts k (s, log) = (r1, k', s', log') \<Longrightarrow>
      operation_ok k log r1 k' log'"
  unfolding authenticate_standard_aes_derived_def authenticate_ev2_first_aes_derived_def
    authenticate_ev2_non_first_aes_derived_def authenticate_iso_aes_derived_def
  by (erule derived_ok [OF inv, rotated 3];
      (erule check_errors | erule both_checks_error | erule derive_once_Inl | rule locked_ok);
      (assumption | erule check_errors)?)+

lemma resolved_authentications_ok:
  assumes inv: "card_inv k"
  shows "authenticate_standard_aes_resolved (recording E) C token provider q opts k (s, log) = (r1, k', s', log') \<Longrightarrow>
      operation_ok k log r1 k' log'"
    and "authenticate_ev2_first_aes_resolved (recording E) C token provider q pcd opts k (s, log) = (r2, k', s', log') \<Longrightarrow>
      operation_ok k log r2 k' log'"
    and "authenticate_ev2_non_first_aes_resolved (recording E) C token provider q opts k (s, log) = (r2, k', s', log') \<Longrightarrow>
      operation_ok k log r2 k' log'"
    and "authenticate_iso_aes_resolved (recording E) C ref token provider q opts k (s, log) = (r1, k', s', log') \<Longrightarrow>
      operation_ok k log r1 k' log'"
  unfolding authenticate_standard_aes_resolved_def authenticate_ev2_first_aes_resolved_def
    authenticate_ev2_non_first_aes_resolved_def authenticate_iso_aes_resolved_def
  by (erule derived_ok [OF inv, rotated 3];
      (erule check_errors | erule both_checks_error | erule resolve_once_Inl | rule locked_ok);
      (assumption | erule check_errors)?)+

section \<open>The contract of a public operation\<close>

text \<open>
  What the runs of a card rely on: an operation that meets the guarantee. A guard around such an
  operation meets it again, and a call of it on an idle card is a step that meets the step's
  guarantee.
\<close>

locale managed_operation =
  fixes body :: "('s \<times> exchange_log, 'a) card_operation"
  assumes meets: "card_inv k \<Longrightarrow> body k (s, log) = (r, k', (s', log')) \<Longrightarrow> operation_ok k log r k' log'"
begin

lemma guarded_operation: "managed_operation (guarded message body)"
  by unfold_locales (rule guarded_ok, assumption, erule meets)

lemma step:
  assumes "card_inv k" "\<not> card_operation_active k" "body k (s, log) = (r, k', (s', log'))"
  shows "step_ok (k, s, log) Operation (failure_of r) (k', s', log')"
  using meets [OF assms(1,3)] assms(2)
  by (cases r) (auto simp: operation_ok_def step_ok_def failure_of_def)

end

lemmas guarded_public = managed_operation.guarded_operation [OF managed_operation.intro]

interpretation execute: managed_operation "card_execute (recording E) C cmd opts" for E C cmd opts
  unfolding card_execute_def by (rule guarded_public) (rule execute_locked_ok)

interpretation select: managed_operation "select_application (recording E) C app opts" for E C app opts
  unfolding select_application_def by (rule guarded_public) (rule select_application_locked_ok)

interpretation get_version: managed_operation "card_get_version (recording E) C opts" for E C opts
  unfolding card_get_version_def by (rule guarded_public) (rule discover_ok)

interpretation free_memory: managed_operation "card_free_memory (recording E) C opts" for E C opts
  unfolding card_free_memory_def by (rule guarded_public) (rule discover_ok)

interpretation file_ids: managed_operation "card_file_ids (recording E) C opts" for E C opts
  unfolding card_file_ids_def by (rule guarded_public) (rule discover_ok)

interpretation df_names: managed_operation "card_df_names (recording E) opts" for E opts
  unfolding card_df_names_def by (rule guarded_public) (rule df_names_locked_ok)

interpretation iso_op: managed_operation "iso_command (recording E) C c opts" for E C c opts
  unfolding iso_command_def by (rule guarded_public) (rule iso_command_locked_ok)

interpretation transaction_op: managed_operation "execute_transaction (recording E) C ops mac opts" for E C ops mac opts
  unfolding execute_transaction_def by (rule guarded_public) (rule execute_transaction_locked_ok)

interpretation local_reset: managed_operation reset_authentication
  by unfold_locales (rule reset_authentication_ok)

interpretation standard_aes: managed_operation "authenticate_standard_aes (recording E) C n key opts" for E C n key opts
  by unfold_locales (rule key_authentications_ok)

interpretation ev2_first: managed_operation "authenticate_ev2_first_aes (recording E) C n key pcd opts"
  for E C n key pcd opts
  by unfold_locales (rule key_authentications_ok)

interpretation ev2_non_first: managed_operation "authenticate_ev2_non_first_aes (recording E) C n key opts"
  for E C n key opts
  by unfold_locales (rule key_authentications_ok)

interpretation iso_aes: managed_operation "authenticate_iso_aes (recording E) C ref key opts" for E C ref key opts
  by unfold_locales (rule key_authentications_ok)

interpretation standard_aes_derived:
  managed_operation "authenticate_standard_aes_derived (recording E) C key deriver ctx opts"
  for E C key deriver ctx opts
  by unfold_locales (rule derived_authentications_ok)

interpretation ev2_first_derived:
  managed_operation "authenticate_ev2_first_aes_derived (recording E) C key deriver ctx pcd opts"
  for E C key deriver ctx pcd opts
  by unfold_locales (rule derived_authentications_ok)

interpretation ev2_non_first_derived:
  managed_operation "authenticate_ev2_non_first_aes_derived (recording E) C key deriver ctx opts"
  for E C key deriver ctx opts
  by unfold_locales (rule derived_authentications_ok)

interpretation iso_aes_derived:
  managed_operation "authenticate_iso_aes_derived (recording E) C ref key deriver ctx opts"
  for E C ref key deriver ctx opts
  by unfold_locales (rule derived_authentications_ok)

interpretation standard_aes_resolved:
  managed_operation "authenticate_standard_aes_resolved (recording E) C token provider q opts"
  for E C token provider q opts
  by unfold_locales (rule resolved_authentications_ok)

interpretation ev2_first_resolved:
  managed_operation "authenticate_ev2_first_aes_resolved (recording E) C token provider q pcd opts"
  for E C token provider q pcd opts
  by unfold_locales (rule resolved_authentications_ok)

interpretation ev2_non_first_resolved:
  managed_operation "authenticate_ev2_non_first_aes_resolved (recording E) C token provider q opts"
  for E C token provider q opts
  by unfold_locales (rule resolved_authentications_ok)

interpretation iso_aes_resolved:
  managed_operation "authenticate_iso_aes_resolved (recording E) C ref token provider q opts"
  for E C ref token provider q opts
  by unfold_locales (rule resolved_authentications_ok)

lemmas operation_steps = execute.step select.step get_version.step free_memory.step file_ids.step df_names.step
  iso_op.step transaction_op.step local_reset.step standard_aes.step ev2_first.step ev2_non_first.step iso_aes.step
  standard_aes_derived.step ev2_first_derived.step ev2_non_first_derived.step iso_aes_derived.step
  standard_aes_resolved.step ev2_first_resolved.step ev2_non_first_resolved.step iso_aes_resolved.step

lemma card_step_ok:
  assumes "card_step E C (k, s, log) kind failure (k', s', log')" "card_inv k" "\<not> card_operation_active k"
  shows "step_ok (k, s, log) kind failure (k', s', log')"
  using assms(1)
proof (cases rule: card_step.cases)
  case world
  then show ?thesis using assms(2,3) by (simp add: step_ok_def)
next
  case (reset r)
  then show ?thesis
    using card_reset_ok [OF assms(2,3), of "recording E" "(s, log)" r k' "(s', log')"]
    by (cases r) (auto simp: failure_of_def step_ok_def)
qed (simp only:, erule operation_steps [OF assms(2,3)])+

lemma recording_reset:
  "env_reset (recording E) (s, log) = (case env_reset E s of (r, s') \<Rightarrow> (r, (s', log)))"
  by (simp add: recording_def observe_def)

section \<open>Reachable cards\<close>

lemma card_reachable_inv:
  assumes "card_reachable E C w"
  shows "card_inv (fst w) \<and> \<not> card_operation_active (fst w)"
  using assms
proof induction
  case (connected s log k s' log')
  then show ?case
    by (cases "env_generation E s")
       (auto simp: card_connect_def card_inv_def has_native_session_def raw_connect_def iso_create_def)
next
  case (stepped w kind failure w')
  obtain k s log k' s' log' where w: "w = (k, s, log)" "w' = (k', s', log')" by (metis prod_cases3)
  from card_step_ok [OF stepped(2) [unfolded w]] stepped(3) w show ?case by (auto simp: step_ok_def)
qed

lemma unusable_stays:
  assumes "unreset_run E C w w'" "card_inv (fst w)" "\<not> card_operation_active (fst w)" "\<not> card_usable (fst w)"
  shows "card_inv (fst w') \<and> \<not> card_usable (fst w') \<and> snd (snd w') = snd (snd w)"
  using assms
proof induction
  case (finished w)
  then show ?case by simp
next
  case (further w kind failure w1 w2)
  obtain k s log k1 s1 log1 where w: "w = (k, s, log)" "w1 = (k1, s1, log1)" by (metis prod_cases3)
  from card_step_ok [OF further(1) [unfolded w]] further w show ?case by (auto simp: step_ok_def)
qed

section \<open>Transactions as reported\<close>

lemma definite_staging_failure:
  assumes "card_inv k" "stage_mutations (recording E) C opts deadline (c # cs) False k (s, log) = (Inl e, k', st')"
    and "\<not> (err_outcome e = OC_unknown \<and> \<not> card_usable k')"
  shows "\<not> accepted_run (recording E) C opts deadline [c] (k, (s, log)) st2"
proof
  assume "accepted_run (recording E) C opts deadline [c] (k, (s, log)) st2"
  then obtain budget s1 payload k1 s2 where
    b: "transaction_budget (recording E) opts deadline (s, log) = (Inr budget, s1)"
    and x: "execute_locked (recording E) C (Some c) budget k s1 = (Inr payload, k1, s2)"
    by (auto elim: accepted_runE)
  obtain s1a where s1: "s1 = (s1a, log)"
    using b by (auto simp: transaction_budget_recording split: prod.splits)
  have inv1: "card_inv k1"
    using execute_locked_ok [OF assms(1), of E C "Some c" budget s1a log "Inr payload" k1 "fst s2" "snd s2"] x s1
    by (simp add: operation_ok_def)
  have "stage_mutations (recording E) C opts deadline cs True k1 (fst s2, snd s2) = (Inl e, k', (fst st', snd st'))"
    using assms(2) b x by simp
  from stage_mutations_ok [OF inv1 this] assms(3) show False by simp
qed

lemma execute_transaction_locked_report:
  assumes inv: "card_inv k"
    and pre: "card_usable k" "card_iso k = None" "ops \<noteq> []" "length ops \<le> 128" "opt_timeout opts > 0"
    and now: "env_now E s = (now, s1)"
    and run: "execute_transaction_locked (recording E) C ops mac opts k (s, log) = (r, k', (s', log'))"
  shows "transaction_report (recording E) C ops mac opts (now + opt_timeout opts * 1000000) (k, (s1, log)) r
    (k', (s', log'))"
proof (cases "plan_commands ops")
  case (Inl e)
  then show ?thesis using run pre now by (auto simp: execute_transaction_locked_def transaction_report_def)
next
  case cs: (Inr cs)
  let ?d = "now + opt_timeout opts * 1000000"
  obtain x k1 s2 log2 where x: "check_targets (recording E) C opts ?d cs Map.empty k (s1, log) = (x, k1, (s2, log2))"
    by (metis prod.exhaust)
  have inv1: "card_inv k1" using check_targets_ok [OF inv x] by (simp add: run_ok_def)
  show ?thesis
  proof (cases x)
    case (Inl e)
    then show ?thesis
      using run pre now cs x by (auto simp: execute_transaction_locked_def transaction_report_def)
  next
    case chk: (Inr u)
    obtain y k2 s3 log3 where y: "stage_mutations (recording E) C opts ?d cs False k1 (s2, log2) = (y, k2, (s3, log3))"
      by (metis prod.exhaust)
    note st = stage_mutations_ok [OF inv1 y]
    show ?thesis
    proof (cases y)
      case (Inl e)
      then have r: "r = Inl e" "k' = k2"
        using run pre now cs x chk y by (auto simp: execute_transaction_locked_def)
      show ?thesis
      proof (cases "err_outcome e = OC_unknown \<and> \<not> card_usable k2")
        case True
        then show ?thesis by (simp add: r transaction_report_def)
      next
        case False
        have "\<not> accepted_run (recording E) C opts ?d [c] (k1, (s2, log2)) st2" if "cs = c # cs'" for c cs' st2
          by (rule definite_staging_failure [OF inv1 y [unfolded that Inl] False])
        then show ?thesis
          using cs x chk by (fastforce simp: r transaction_report_def simp del: check_targets.simps)
      qed
    next
      case (Inr v)
      then have step: "commit_staged (recording E) C opts ?d mac k2 (s3, log3) = (r, k', (s', log'))"
        using run pre now cs x chk y by (simp add: execute_transaction_locked_def)
      have inv2: "card_inv k2" using st by (simp add: run_ok_def)
      show ?thesis
        using commit_staged_ok [OF inv2 step] st Inr cs x chk
        by (cases r) (simp_all add: transaction_report_def, blast)
    qed
  qed
qed

section \<open>The scripted examples\<close>

lemma demo_connect:
  "card_connect (recording demo_world) (demo_transport script, []) = (demo_card, (demo_transport script, []))"
  by (simp add: card_connect_def demo_card_def demo_defs raw_connect_def demo_card_capabilities_def
     replay_capabilities_def recording_def observe_def map_framing_def)

lemma demo_lost:
  "\<exists>e k1 t log. select_application (recording demo_world) sample_provider 1 demo_options demo_card
      (demo_transport demo_lost_script, []) = (Inl e, k1, (t, log)) \<and> err_outcome e = OC_unknown \<and> length log = 1"
  by (simp add: demo_defs channel_eval demo_card_capabilities_def demo_card_def demo_lost_script_def
    select_application_def guarded_def select_application_locked_def execute_plain_locked_def exchange_plain_def
    clear_native_session_def has_native_session_def plain_request_def application_data_def conclude_selection_def
    normalize_delivery_def)

lemmas card_eval = demo_defs channel_eval demo_card_capabilities_def demo_card_def
  guarded_def execute_locked_def admit_command_def authorize_command_def exchange_command_def exchange_unprotected_def
  request_of_def secure_validate_def secure_raw_request_def clear_payload_def check_response_size_def conclude_command_def
  has_native_session_def clear_native_session_def 

lemma demo_settings: "parse_file_settings [0x01, 0x00, 0xEE, 0xEE, 0x20, 0x00, 0x00] = Inr demo_settings"
  "fs_type demo_settings = Backup_data" "fs_communication demo_settings = Mode_plain"
  unfolding demo_settings_def by code_simp+

lemma demo_write_command: "write_data 1 0 [7] Mode_plain = Inr demo_write_command"
  by (simp add: demo_write_command_def write_data_def file_command_def management_def valid_mode_def Let_def valid_range_def
     maximum_three_byte_def range_header_def put_le_def upt_rec)

lemma demo_query:
  "get_file_settings 1 = Inr (management 0xF5 [1] 6 128)"
  by (simp add: get_file_settings_def)

lemma demo_transaction:
  "\<exists>st. execute_transaction (recording demo_world) sample_provider demo_plan False demo_options demo_card
      (demo_transport demo_plan_script, []) = (Inr [], demo_card, st)"
  by (simp add: card_eval execute_transaction_def execute_transaction_locked_def demo_plan_def demo_plan_script_def
     demo_write_command is_transactional_mutation_def query_settings_def transaction_budget_def demo_query demo_settings check_target_def
     expected_type_def demo_write_command_def management_def commit_staged_def commit_transaction_def get_file_settings_def
     parse_failure_def failure_of_def restricts_authenticated_key_def
     cong: prod.case_cong_weak sum.case_cong_weak dep.case_cong_weak)

lemma demo_reachable: "card_reachable demo_world C (demo_card, (demo_transport script, []))"
  by (rule card_reachable.connected [OF demo_connect])

lemma demo_lost_step:
  "\<exists>e k1 s1 log1. card_step demo_world sample_provider (demo_card, (demo_transport demo_lost_script, [])) Operation
      (Some e) (k1, s1, log1) \<and> err_outcome e = OC_unknown \<and> length log1 = 1"
proof -
  from demo_lost obtain e k1 t log1 where run:
    "select_application (recording demo_world) sample_provider 1 demo_options demo_card
      (demo_transport demo_lost_script, []) = (Inl e, k1, (t, log1))"
    and e: "err_outcome e = OC_unknown" "length log1 = 1" by blast
  have "card_step demo_world sample_provider (demo_card, (demo_transport demo_lost_script, [])) Operation
      (Some e) (k1, t, log1)"
    using card_step.select [OF run] by (simp add: failure_of_def)
  with e show ?thesis by blast
qed

lemma demo_value_run:
  "\<exists>c st. get_value 1 Mode_plain = Inr c \<and>
     card_execute (recording demo_world) sample_provider (Some c) demo_options demo_card
      (demo_transport demo_value_script, []) = (Inr [9, 8, 7, 6], demo_card, st) \<and> length (snd st) = 1"
  by (simp add: card_eval card_execute_def demo_value_script_def get_value_def file_command_def valid_mode_def Let_def
     management_def parse_failure_def failure_of_def restricts_authenticated_key_def parse_value_def
     cong: prod.case_cong_weak sum.case_cong_weak dep.case_cong_weak)

section \<open>Properties\<close>

text \<open>
  C1. The unknown-outcome fence. When any public operation of a reachable card fails with an unknown
  outcome (the card may or may not have acted), the card is given up: it keeps no session and no
  key, and whatever is called on it afterwards, in any order and with the environment changing in
  between, no frame reaches the transport until somebody resets the card.
\<close>

theorem unknown_outcome_fences:
  assumes "card_reachable E C (k, s, log)"
    and "card_step E C (k, s, log) kind (Some e) (k1, s1, log1)" "err_outcome e = OC_unknown"
    and "unreset_run E C (k1, s1, log1) (k2, s2, log2)"
  shows "\<not> card_usable k2 \<and> \<not> has_native_session k2 \<and> card_iso k2 = None \<and> card_key k2 = None \<and> log2 = log1"
proof -
  from card_reachable_inv [OF assms(1)] card_step_ok [OF assms(2)] assms(3)
  have "card_inv k1" "\<not> card_operation_active k1" "\<not> card_usable k1" by (auto simp: step_ok_def)
  with unusable_stays [OF assms(4)] show ?thesis by (auto simp: card_inv_def)
qed

theorem unknown_outcome_fences_witness:
  "\<exists>r k1 k2 s2 log1 log2. log1 \<noteq> [] \<and> \<not> card_usable k2 \<and> log2 = log1 \<and>
     card_execute (recording demo_world) sample_provider (Some demo_write_command) demo_options k1 (demo_transport [], log1) =
       (r, k2, (s2, log2))"
proof -
  from demo_lost_step obtain e k1 s1 log1 where step:
    "card_step demo_world sample_provider (demo_card, (demo_transport demo_lost_script, [])) Operation
      (Some e) (k1, s1, log1)" "err_outcome e = OC_unknown" "length log1 = 1" by blast
  obtain r k2 s2 log2 where run:
    "card_execute (recording demo_world) sample_provider (Some demo_write_command) demo_options k1 (demo_transport [], log1) =
       (r, k2, (s2, log2))" by (metis prod.exhaust)
  have "unreset_run demo_world sample_provider (k1, s1, log1) (k2, s2, log2)"
    by (rule unreset_run.further [OF card_step.world], simp,
        rule unreset_run.further [OF card_step.execute [OF run]], simp, rule unreset_run.finished)
  from unknown_outcome_fences [OF demo_reachable step(1,2) this] step(3) have "log1 \<noteq> []" "\<not> card_usable k2" "log2 = log1"
    by auto
  with run show ?thesis by blast
qed

text \<open>
  C2. Planned transactions. On a usable card without an ISO session, a transaction of 1 to 128
  operations with a positive timeout returns a receipt only if every target was verified, every
  mutation of the plan was accepted in order within the deadline, and then the commit was; it
  reports a definite failure only if not even the first mutation was accepted; in every other
  case it reports an unknown outcome and gives the card up.
\<close>

theorem transaction_all_or_unknown:
  assumes "card_reachable E C (k, s, log)" "card_usable k" "card_iso k = None"
    and "ops \<noteq> []" "length ops \<le> 128" "opt_timeout opts > 0" "env_now E s = (now, s1)"
    and "execute_transaction (recording E) C ops mac opts k (s, log) = (r, k', st')"
  shows "\<exists>k2. k' = k2\<lparr>card_operation_active := False\<rparr> \<and>
    transaction_report (recording E) C ops mac opts (now + opt_timeout opts * 1000000)
      (k\<lparr>card_operation_active := True\<rparr>, (s1, log)) r (k2, st')"
proof -
  let ?k = "k\<lparr>card_operation_active := True\<rparr>"
  from card_reachable_inv [OF assms(1)] have k: "card_inv ?k" "\<not> card_operation_active k" by simp_all
  from assms(8) k(2) obtain k2 where k2: "k' = k2\<lparr>card_operation_active := False\<rparr>"
    "execute_transaction_locked (recording E) C ops mac opts ?k (s, log) = (r, k2, (fst st', snd st'))"
    by (auto simp: execute_transaction_def guarded_def split: prod.splits)
  from execute_transaction_locked_report [OF k(1) _ _ assms(4-7) k2(2)] assms(2,3) k2(1) show ?thesis by auto
qed

theorem transaction_all_or_unknown_witness:
  "\<exists>st k2. execute_transaction (recording demo_world) sample_provider demo_plan False demo_options demo_card
      (demo_transport demo_plan_script, []) = (Inr [], demo_card, st) \<and>
     transaction_report (recording demo_world) sample_provider demo_plan False demo_options 5000000000
       (demo_card\<lparr>card_operation_active := True\<rparr>, ((demo_transport demo_plan_script)\<lparr>rp_clock := 1\<rparr>, [])) (Inr [])
       (k2, st)"
proof -
  from demo_transaction obtain st where run:
    "execute_transaction (recording demo_world) sample_provider demo_plan False demo_options demo_card
      (demo_transport demo_plan_script, []) = (Inr [], demo_card, st)" by blast
  have now: "env_now demo_world (demo_transport demo_plan_script) = (0, (demo_transport demo_plan_script)\<lparr>rp_clock := 1\<rparr>)"
    by (simp add: demo_transport_def)
  have pre: "card_usable demo_card" "card_iso demo_card = None" "demo_plan \<noteq> []" "length demo_plan \<le> 128"
    "opt_timeout demo_options > 0"
    by (simp_all add: demo_card_def demo_plan_def demo_options_def)
  have "0 + opt_timeout demo_options * 1000000 = 5000000000" by (simp add: demo_options_def)
  with transaction_all_or_unknown [OF demo_reachable pre now run] run show ?thesis by metis
qed

text \<open>
  C10. The invariant of the managed card: however a connected card is used (any sequence of resets,
  local authentication resets, checked, ISO and discovery commands, selections, transactions and
  authentications with a given, a derived or a resolved key, over any transport, clock, random
  source and provider), between two operations it holds at most one session; a native session is
  ready for the next command, well formed and stored with its key number; an ISO session is valid;
  a pending local reset and a given-up card exclude every session; and both channels are idle.
\<close>

theorem managed_card_invariant:
  assumes "card_reachable E C (k, s, log)"
  shows "card_inv k \<and> \<not> card_operation_active k"
  using card_reachable_inv [OF assms] by simp

theorem managed_card_invariant_witness:
  "\<exists>e k1 s1 log1. card_reachable demo_world sample_provider (k1, s1, log1) \<and> err_outcome e = OC_unknown \<and>
     card_step demo_world sample_provider (demo_card, (demo_transport demo_lost_script, [])) Operation (Some e)
       (k1, s1, log1) \<and> card_inv k1 \<and> \<not> card_operation_active k1"
proof -
  from demo_lost_step obtain e k1 s1 log1 where step:
    "card_step demo_world sample_provider (demo_card, (demo_transport demo_lost_script, [])) Operation
      (Some e) (k1, s1, log1)" "err_outcome e = OC_unknown" by blast
  have reach: "card_reachable demo_world sample_provider (k1, s1, log1)"
    by (rule card_reachable.stepped [OF demo_reachable step(1)])
  from managed_card_invariant [OF reach] reach step show ?thesis by blast
qed

text \<open>
  C24. Authorization. A checked command that the managed card executes reaches the transport only if no
  other operation is active, the card is usable, no local reset is pending, the card in the field
  is the one connected to, no ISO session is open, and the card holds what the command requires:
  a native session, an EV2 session, the PICC application selected, the very key the command names,
  one of the keys it allows.
\<close>

theorem execute_authorized:
  assumes run: "card_execute (recording E) C cmd opts k (s, log) = (r, k', (s', log'))" and sent: "log' \<noteq> log"
  shows "\<exists>c s1. cmd = Some c \<and> \<not> card_operation_active k \<and> card_usable k \<and> \<not> card_reset_pending k \<and>
    card_iso k = None \<and> env_generation E s = (card_generation k, s1) \<and>
    (c_requires_authentication c \<longrightarrow> has_native_session k) \<and>
    (c_requires_ev2_session c \<longrightarrow> card_ev2 k \<noteq> None) \<and>
    (c_requires_picc_selection c \<longrightarrow> card_selected k = Some 0) \<and>
    (c_current_authenticated_key c \<noteq> None \<longrightarrow> c_current_authenticated_key c = card_key k) \<and>
    (restricts_authenticated_key c \<longrightarrow> (\<exists>key. card_key k = Some key \<and> accepts_authenticated_key c key))"
proof -
  obtain g s1 where g: "env_generation E s = (g, s1)" by fastforce
  from run sent have idle: "\<not> card_operation_active k"
    by (auto simp: card_execute_def guarded_def split: if_splits)
  let ?k = "k\<lparr>card_operation_active := True\<rparr>"
  from run idle obtain k1 where step: "execute_locked (recording E) C cmd opts ?k (s, log) = (r, k1, (s', log'))"
    by (auto simp: card_execute_def guarded_def split: prod.splits)
  obtain c where adm: "admit_command cmd ?k = Inr c"
    using step sent by (cases "admit_command cmd ?k") (auto simp: execute_locked_def)
  have gen: "g = card_generation k"
    using step sent adm g by (auto simp: execute_locked_def split: if_splits)
  have "authorize_command c ?k = Inr ()"
    using step sent adm g gen by (cases "authorize_command c ?k") (auto simp: execute_locked_def)
  then show ?thesis
    using admit_command_Inr [OF adm] g gen idle
    by (auto simp: authorize_command_def split: if_splits option.splits)
qed

theorem execute_authorized_witness:
  "\<exists>c s'. get_value 1 Mode_plain = Inr c \<and>
     card_execute (recording demo_world) sample_provider (Some c) demo_options demo_card
      (demo_transport demo_value_script, []) = (Inr [9, 8, 7, 6], demo_card, s') \<and> \<not> c_requires_authentication c \<and>
     card_usable demo_card"
proof -
  from demo_value_run obtain c s1 log1 where c: "get_value 1 Mode_plain = Inr c"
    and run: "card_execute (recording demo_world) sample_provider (Some c) demo_options demo_card
      (demo_transport demo_value_script, []) = (Inr [9, 8, 7, 6], demo_card, (s1, log1))" "log1 \<noteq> []"
    by (metis length_0_conv one_neq_zero prod.exhaust_sel)
  have "\<not> has_native_session demo_card" by (simp add: demo_card_def has_native_session_def)
  with execute_authorized [OF run] run c show ?thesis by auto
qed

text \<open>
  C33. Recovery. From every reachable card, given up or not, a reset that the transport performs
  succeeds: the card is usable again, on the current generation, with the PICC application
  selected, without any session or pending reset, idle, and admits every checked command but the
  one that has its own operation.
\<close>

theorem reset_recovers:
  assumes "card_reachable E C (k, s, log)"
    and "env_reset E s = (Returned (Inr ()), s1)" "env_generation E s1 = (g, s2)"
  shows "\<exists>k'. card_reset (recording E) k (s, log) = (Inr (), k', (s2, log)) \<and>
    card_usable k' \<and> \<not> card_reset_pending k' \<and> card_selected k' = Some 0 \<and> card_generation k' = g \<and>
    \<not> has_native_session k' \<and> card_iso k' = None \<and> \<not> card_operation_active k' \<and>
    (\<forall>c. c_opcode c \<noteq> 0x6D \<longrightarrow> admit_command (Some c) k' = Inr c)"
proof -
  from card_reachable_inv [OF assms(1)] have "\<not> card_operation_active k" "\<not> ch_operation_active (card_raw k)"
    by (auto simp: card_inv_def)
  then show ?thesis
    using assms(2,3)
    by (simp add: recording_reset card_reset_def guarded_def raw_reset_def Let_def admit_command_def)
qed

theorem reset_recovers_witness:
  "\<exists>e k1 s1 log1 k2 s2. card_step demo_world sample_provider (demo_card, (demo_transport demo_lost_script, []))
       Operation (Some e) (k1, s1, log1) \<and> \<not> card_usable k1 \<and>
     card_reset (recording demo_world) k1 (s1, log1) = (Inr (), k2, (s2, log1)) \<and> card_usable k2"
proof -
  from demo_lost_step obtain e k1 s1 log1 where step:
    "card_step demo_world sample_provider (demo_card, (demo_transport demo_lost_script, [])) Operation
      (Some e) (k1, s1, log1)" "err_outcome e = OC_unknown" by blast
  have reach: "card_reachable demo_world sample_provider (k1, s1, log1)"
    by (rule card_reachable.stepped [OF demo_reachable step(1)])
  have "\<not> card_usable k1"
    using card_step_ok [OF step(1)] card_reachable_inv [OF demo_reachable] step(2) by (simp add: step_ok_def)
  then show ?thesis
    using reset_recovers [OF reach, of "s1\<lparr>rp_generation := rp_generation s1 + 1\<rparr>" "rp_generation s1 + 1"
        "s1\<lparr>rp_generation := rp_generation s1 + 1\<rparr>"] step(1) by fastforce
qed

end
