(* ===== verification/Offline.thy ===== *)
theory Offline
  imports Checked_Commands
begin

text \<open>
  Calculations without a card (\<^verbatim>\<open>core/src/offline\<close>): transaction MAC keys, values and their
  verification, the reader identifier, the key block and the MACs of delegated application
  management, the licence MAC and the originality signature. The theorems show that verification
  accepts exactly one value, that the encrypted key block can be opened by the holder of the key, and
  that two different delegation requests never authenticate the same message.
\<close>

section \<open>Primitives\<close>

definition secret_result :: "bytes result \<Rightarrow> nat \<Rightarrow> bytes result" where
  "secret_result r expected =
     (case r of
        Inl e \<Rightarrow> Inl e
      | Inr out \<Rightarrow>
          if length out \<noteq> expected
          then Inl (local_error EC_crypto (STR ''Offline AES primitive returned an invalid length''))
          else Inr out)"

definition maximum_input_size :: nat where
  "maximum_input_size = 16 * 1024 * 1024"

definition maximum_mfc_license_input :: nat where
  "maximum_mfc_license_input = 0xFFFF"

text \<open>The loop \<^verbatim>\<open>output[index] = full[(2 * index) + 1]\<close> of the MAC functions.\<close>

definition mac_odd_bytes :: "bytes \<Rightarrow> bytes" where
  "mac_odd_bytes full = map (\<lambda>index. full ! (2 * index + 1)) [0..<8]"

text \<open>The common end of the MAC functions: one CMAC, its length, the odd bytes.\<close>

definition truncated_cmac :: "crypto_provider \<Rightarrow> bytes \<Rightarrow> bytes \<Rightarrow> String.literal \<Rightarrow> bytes result" where
  "truncated_cmac C key input failure =
     (case cmac C aes128 key input of
        Threw \<Rightarrow> Inl (local_error EC_internal failure)
      | Returned r \<Rightarrow> (case secret_result r 16 of Inl e \<Rightarrow> Inl e | Inr full \<Rightarrow> Inr (mac_odd_bytes full)))"

section \<open>Transaction MAC\<close>

record transaction_mac_keys =
  tm_mac_key :: bytes
  tm_encryption_key :: bytes

definition transaction_vector :: "byte \<Rightarrow> u32 \<Rightarrow> bytes \<Rightarrow> bytes" where
  "transaction_vector label committed_counter uid =
     [label, 0x00, 0x01, 0x00, 0x80] @
     map (\<lambda>index. ucast (drop_bit (index * 8) committed_counter)) [0..<4] @ uid"

definition derive_transaction_mac_keys_aes ::
  "crypto_provider \<Rightarrow> bytes \<Rightarrow> bytes \<Rightarrow> u32 \<Rightarrow> transaction_mac_keys result" where
  "derive_transaction_mac_keys_aes C transaction_key uid committed_counter =
     (let failed = Inl (local_error EC_internal (STR ''Offline transaction-key derivation failed''))
      in if length transaction_key \<noteq> 16 \<or> length uid \<noteq> 7 \<or> committed_counter = 0
         then Inl (invalid (STR ''AES transaction derivation requires a 16-byte key, 7-byte UID and nonzero TMC''))
         else case cmac C aes128 transaction_key (transaction_vector 0x5A committed_counter uid) of
           Threw \<Rightarrow> failed
         | Returned r \<Rightarrow>
             (case secret_result r 16 of
                Inl e \<Rightarrow> Inl e
              | Inr mac \<Rightarrow>
                  (case cmac C aes128 transaction_key (transaction_vector 0xA5 committed_counter uid) of
                     Threw \<Rightarrow> failed
                   | Returned r2 \<Rightarrow>
                       (case secret_result r2 16 of
                          Inl e \<Rightarrow> Inl e
                        | Inr encryption \<Rightarrow> Inr \<lparr>tm_mac_key = mac, tm_encryption_key = encryption\<rparr>))))"

definition calculate_transaction_mac_aes :: "crypto_provider \<Rightarrow> bytes \<Rightarrow> bytes \<Rightarrow> bytes result" where
  "calculate_transaction_mac_aes C session_mac_key transaction_input =
     (if length session_mac_key \<noteq> 16 \<or> transaction_input = [] \<or> length transaction_input > maximum_input_size
      then Inl (invalid (STR ''AES transaction MAC requires a 16-byte key and nonempty TMI of at most 16 MiB''))
      else truncated_cmac C session_mac_key transaction_input
             (STR ''Offline transaction MAC calculation failed''))"

definition verify_transaction_mac_aes ::
  "crypto_provider \<Rightarrow> bytes \<Rightarrow> bytes \<Rightarrow> u32 \<Rightarrow> bytes \<Rightarrow> bytes \<Rightarrow> bool result" where
  "verify_transaction_mac_aes C transaction_key uid committed_counter transaction_input transaction_mac =
     (if length transaction_mac \<noteq> 8
      then Inl (invalid (STR ''Transaction MAC verification requires exactly eight TMV bytes''))
      else case derive_transaction_mac_keys_aes C transaction_key uid committed_counter of
        Inl e \<Rightarrow> Inl e
      | Inr keys \<Rightarrow>
          (case calculate_transaction_mac_aes C (tm_mac_key keys) transaction_input of
             Inl e \<Rightarrow> Inl e
           | Inr computed \<Rightarrow> Inr (constant_time_equal computed transaction_mac)))"

definition decrypt_transaction_reader_id_aes :: "crypto_provider \<Rightarrow> bytes \<Rightarrow> bytes \<Rightarrow> bytes result" where
  "decrypt_transaction_reader_id_aes C session_encryption_key encrypted_reader_id =
     (if length session_encryption_key \<noteq> 16 \<or> length encrypted_reader_id \<noteq> 16
      then Inl (invalid (STR ''ReaderID decryption requires a 16-byte transaction key and ciphertext''))
      else case cbc C aes128 session_encryption_key (replicate 16 0) encrypted_reader_id False of
        Threw \<Rightarrow> Inl (local_error EC_internal (STR ''Offline ReaderID decryption failed''))
      | Returned r \<Rightarrow> secret_result r 16)"

section \<open>Delegated application management\<close>

text \<open>The random source is an argument, as in the authentication.\<close>

definition encrypt_delegated_default_key_aes ::
  "crypto_provider \<Rightarrow> (nat \<Rightarrow> ('s, bytes) action) \<Rightarrow> bytes \<Rightarrow> bytes \<Rightarrow> byte \<Rightarrow> 's \<Rightarrow> bytes result \<times> 's" where
  "encrypt_delegated_default_key_aes C random dam_encryption_key application_default_key version s =
     (if length dam_encryption_key \<noteq> 16 \<or> length application_default_key \<noteq> 16
      then (Inl (invalid (STR ''Delegated EncK requires two 16-byte AES keys'')), s)
      else catch_as (local_error EC_internal (STR ''Delegated EncK construction failed''))
        (act_bind (random 7) (\<lambda>rnd.
         if length rnd \<noteq> 7
         then act_require (Inl (local_error EC_crypto
                (STR ''Delegated EncK random source returned an invalid length'')))
         else act_bind (act_lift (cbc C aes128 dam_encryption_key (replicate 16 0)
                (rnd @ application_default_key @ [version] @ replicate 8 0) True))
              (\<lambda>out. act_require (secret_result (Inr out) 32)))) s)"

definition calculate_delegated_application_mac_aes ::
  "crypto_provider \<Rightarrow> bytes \<Rightarrow> delegated_application_configuration \<Rightarrow> bytes \<Rightarrow> bytes result" where
  "calculate_delegated_application_mac_aes C dam_mac_key settings encrypted_default_key =
     (if length dam_mac_key \<noteq> 16 \<or> length encrypted_default_key \<noteq> 32
      then Inl (invalid (STR ''Delegated DAM MAC requires a 16-byte AES key and 32-byte EncK''))
      else case create_delegated_application settings encrypted_default_key (replicate 8 0) of
        Inl e \<Rightarrow> Inl e
      | Inr c \<Rightarrow>
          truncated_cmac C dam_mac_key
            ([c_opcode c] @ c_header c @ take (length encrypted_default_key) (c_data c))
            (STR ''Delegated DAM MAC construction failed''))"

definition delete_mac_input :: "application_id \<Rightarrow> bytes" where
  "delete_mac_input application =
     [0xDA, ucast application, ucast (drop_bit 8 application), ucast (drop_bit 16 application)]"

definition calculate_delegated_application_delete_mac_aes ::
  "crypto_provider \<Rightarrow> bytes \<Rightarrow> application_id \<Rightarrow> bytes result" where
  "calculate_delegated_application_delete_mac_aes C dam_mac_key application =
     (if length dam_mac_key \<noteq> 16 \<or> application = 0
      then Inl (invalid (STR ''Delegated deletion DAM MAC requires a 16-byte AES key and nonzero AID''))
      else truncated_cmac C dam_mac_key (delete_mac_input application)
             (STR ''Delegated deletion DAM MAC construction failed''))"

text \<open>The 34-byte input: two length-prefixed names in fields of sixteen bytes.\<close>

definition name_field :: "bytes \<Rightarrow> bytes" where
  "name_field name = of_nat (length name) # name @ replicate (16 - length name) 0"

definition configuration_mac_input :: "bytes \<Rightarrow> bytes \<Rightarrow> bytes" where
  "configuration_mac_input old_df_name new_df_name = name_field old_df_name @ name_field new_df_name"

definition calculate_delegated_configuration_mac_aes ::
  "crypto_provider \<Rightarrow> bytes \<Rightarrow> bytes \<Rightarrow> bytes \<Rightarrow> bytes result" where
  "calculate_delegated_configuration_mac_aes C dam_mac_key old_df_name new_df_name =
     (if length dam_mac_key \<noteq> 16 \<or> length old_df_name > 16 \<or> length new_df_name > 16
      then Inl (invalid (STR ''Delegated configuration DAM MAC requires a 16-byte AES key and DF names of at most 16 bytes''))
      else truncated_cmac C dam_mac_key (configuration_mac_input old_df_name new_df_name)
             (STR ''Delegated configuration DAM MAC construction failed''))"

section \<open>Licence MAC and originality signature\<close>

definition calculate_mfc_license_mac_aes :: "crypto_provider \<Rightarrow> bytes \<Rightarrow> bytes \<Rightarrow> bytes \<Rightarrow> bytes result" where
  "calculate_mfc_license_mac_aes C license_mac_key mfc_license mfc_sector_secrets =
     (let valid_license = (mfc_license \<noteq> [] \<and> length mfc_license \<le> 0xFF \<and>
            length mfc_license = 1 + unat (hd mfc_license) * 2)
      in if length license_mac_key \<noteq> 16 \<or> \<not> valid_license \<or>
            length mfc_sector_secrets > maximum_mfc_license_input - length mfc_license - 1
         then Inl (invalid (STR ''MFC license MAC requires a 16-byte AES key, a complete license and at most 65,535 authenticated input bytes''))
         else truncated_cmac C license_mac_key (0x01 # mfc_license @ mfc_sector_secrets)
                (STR ''MFC license MAC calculation failed''))"

definition verify_originality_uid_signature ::
  "crypto_provider \<Rightarrow> bytes \<Rightarrow> bytes \<Rightarrow> bytes \<Rightarrow> bool result" where
  "verify_originality_uid_signature C trusted_public_key uid signature =
     (if length trusted_public_key \<noteq> 57 \<or> hd trusted_public_key \<noteq> 0x04 \<or> length uid \<noteq> 7 \<or>
         length signature \<noteq> 56
      then Inl (invalid (STR ''Originality verification requires a 57-byte SEC1 key, 7-byte UID and 56-byte signature''))
      else case verify_ecdsa C (STR ''secp224r1'') trusted_public_key uid signature of
        Threw \<Rightarrow> Inl (local_error EC_internal (STR ''Offline originality verification failed''))
      | Returned r \<Rightarrow> r)"

section \<open>Lemmas\<close>

lemma secret_result_Inr [simp]: "secret_result r n = Inr out \<longleftrightarrow> r = Inr out \<and> length out = n"
  by (auto simp: secret_result_def split: sum.splits)

lemma truncated_cmac_sound:
  assumes "cmac_sound C" "length key = 16"
  obtains mac where "truncated_cmac C key input failure = Inr mac" "length mac = 8"
proof -
  obtain full where "cmac C aes128 key input = Returned (Inr full)" "length full = 16"
    by (rule cmac_block [OF assms])
  then show thesis
    by (intro that [of "mac_odd_bytes full"]) (simp_all add: truncated_cmac_def secret_result_def mac_odd_bytes_def)
qed

lemma derive_transaction_keys_sound:
  assumes "cmac_sound C" "length key = 16" "length uid = 7" "counter \<noteq> 0"
  obtains keys where "derive_transaction_mac_keys_aes C key uid counter = Inr keys"
    "length (tm_mac_key keys) = 16" "length (tm_encryption_key keys) = 16"
proof -
  obtain m where "cmac C aes128 key (transaction_vector 0x5A counter uid) = Returned (Inr m)" "length m = 16"
    by (rule cmac_block [OF assms(1,2)])
  moreover obtain e where "cmac C aes128 key (transaction_vector 0xA5 counter uid) = Returned (Inr e)"
    "length e = 16"
    by (rule cmac_block [OF assms(1,2)])
  ultimately show thesis
    using assms
    by (intro that [of "\<lparr>tm_mac_key = m, tm_encryption_key = e\<rparr>"])
       (simp_all add: derive_transaction_mac_keys_aes_def secret_result_def Let_def)
qed

lemma transaction_vector_inject:
  assumes "length uid = length uid'"
  shows "transaction_vector l c uid = transaction_vector l' c' uid' \<longleftrightarrow> l = l' \<and> c = c' \<and> uid = uid'"
proof
  assume eq: "transaction_vector l c uid = transaction_vector l' c' uid'"
  then have "map (\<lambda>i. ucast (drop_bit (i * 8) c) :: byte) [0..<4] = map (\<lambda>i. ucast (drop_bit (i * 8) c')) [0..<4]"
    "l = l'" "uid = uid'"
    by (auto simp: transaction_vector_def)
  then have "put_le [] c 4 = put_le [] c' 4"
    by (simp add: put_le_def mult.commute)
  then have "get_le (put_le [] c 4) = get_le (put_le [] c' 4)" by simp
  then have "take_bit 32 c = take_bit 32 c'" using get_le_put_le_gen [of 4] by simp
  then show "l = l' \<and> c = c' \<and> uid = uid'"
    using \<open>l = l'\<close> \<open>uid = uid'\<close> by (simp add: take_bit_length_eq [where 'a = 32, simplified])
qed simp

lemma name_field_inject:
  assumes "length a \<le> 16" "length b \<le> 16"
  shows "name_field a = name_field b \<longleftrightarrow> a = b"
proof
  assume eq: "name_field a = name_field b"
  then have "unat (of_nat (length a) :: byte) = unat (of_nat (length b) :: byte)" by (simp add: name_field_def)
  then have "length a = length b" using assms by (simp add: unat_of_nat)
  then show "a = b" using eq by (simp add: name_field_def)
qed simp

lemma name_field_length [simp]: "length a \<le> 16 \<Longrightarrow> length (name_field a) = 17"
  by (simp add: name_field_def)

text \<open>The inputs of the delegation MACs identify their request.\<close>

lemma configuration_mac_input_inject:
  assumes "length a \<le> 16" "length b \<le> 16" "length a' \<le> 16" "length b' \<le> 16"
  shows "configuration_mac_input a b = configuration_mac_input a' b' \<longleftrightarrow> a = a' \<and> b = b'"
  using assms by (auto simp: configuration_mac_input_def name_field_inject)

section \<open>Properties\<close>

text \<open>
  Transaction MAC verification. With a provider whose CMAC works, for every transaction key,
  identifier, nonzero counter and admissible transaction input there is exactly one eight-byte value
  that verification accepts, the one calculated under the derived MAC key; every other eight-byte
  value is answered with false and every other length with an argument error.
\<close>

theorem verify_transaction_mac_exact:
  assumes "cmac_sound C" "length key = 16" "length uid = 7" "counter \<noteq> 0"
    and "input \<noteq> []" "length input \<le> maximum_input_size"
  shows "\<exists>keys tmv. derive_transaction_mac_keys_aes C key uid counter = Inr keys \<and>
     calculate_transaction_mac_aes C (tm_mac_key keys) input = Inr tmv \<and> length tmv = 8 \<and>
     (\<forall>mac. verify_transaction_mac_aes C key uid counter input mac =
        (if length mac = 8 then Inr (mac = tmv)
         else Inl (invalid (STR ''Transaction MAC verification requires exactly eight TMV bytes''))))"
proof -
  obtain keys where keys: "derive_transaction_mac_keys_aes C key uid counter = Inr keys"
    "length (tm_mac_key keys) = 16"
    using derive_transaction_keys_sound [OF assms(1-4)] by blast
  obtain tmv where tmv: "calculate_transaction_mac_aes C (tm_mac_key keys) input = Inr tmv"
    "length tmv = 8"
    using truncated_cmac_sound [OF assms(1) keys(2), of input "STR ''Offline transaction MAC calculation failed''"]
      assms(5,6) keys(2) by (auto simp: calculate_transaction_mac_aes_def)
  have "verify_transaction_mac_aes C key uid counter input mac =
        (if length mac = 8 then Inr (mac = tmv)
         else Inl (invalid (STR ''Transaction MAC verification requires exactly eight TMV bytes'')))" for mac
    using keys tmv by (auto simp: verify_transaction_mac_aes_def)
  then show ?thesis using keys tmv by blast
qed

theorem verify_transaction_mac_exact_witness:
  "\<exists>keys tmv. derive_transaction_mac_keys_aes sample_provider (replicate 16 1) (replicate 7 2) 9 = Inr keys \<and>
     calculate_transaction_mac_aes sample_provider (tm_mac_key keys) [1, 2, 3] = Inr tmv \<and>
     verify_transaction_mac_aes sample_provider (replicate 16 1) (replicate 7 2) 9 [1, 2, 3] tmv = Inr True"
  using verify_transaction_mac_exact [OF sample_provider_sound(2), of "replicate 16 1" "replicate 7 2" 9 "[1, 2, 3]"]
  by (auto simp: maximum_input_size_def)

text \<open>
  Delegated key block. When the block is produced, the holder of the encryption key recovers from
  it the random prefix, the default key, its version and the zero padding.
\<close>

theorem delegated_key_block_opens:
  assumes "cbc_sound C"
    and "encrypt_delegated_default_key_aes C random dam_key default_key version s = (Inr block, s')"
  shows "\<exists>rnd. random 7 s = (Returned (Inr rnd), s') \<and> length block = 32 \<and>
     cbc C aes128 dam_key (replicate 16 0) block False =
       Returned (Inr (rnd @ default_key @ [version] @ replicate 8 0))"
proof -
  have lens: "length dam_key = 16" "length default_key = 16"
    using assms(2) by (auto simp: encrypt_delegated_default_key_aes_def split: if_splits)
  then obtain rnd where rnd: "random 7 s = (Returned (Inr rnd), s')" "length rnd = 7"
    "cbc C aes128 dam_key (replicate 16 0) (rnd @ default_key @ [version] @ replicate 8 0) True =
       Returned (Inr block)" "length block = 32"
    using assms(2) by (auto simp: encrypt_delegated_default_key_aes_def act_bind_Inr split: if_splits)
  have "length (rnd @ default_key @ [version] @ replicate 8 0) mod 16 = 0"
    "length (rnd @ default_key @ [version] @ replicate 8 0) \<le> largest_cipher_input"
    using rnd lens by simp_all
  from cbc_encrypt_block [OF assms(1) lens(1) length_replicate this]
  obtain out where "cbc C aes128 dam_key (replicate 16 0) (rnd @ default_key @ [version] @ replicate 8 0) True =
      Returned (Inr out)"
    "cbc C aes128 dam_key (replicate 16 0) out False = Returned (Inr (rnd @ default_key @ [version] @ replicate 8 0))" .
  then have "cbc C aes128 dam_key (replicate 16 0) block False =
       Returned (Inr (rnd @ default_key @ [version] @ replicate 8 0))"
    using rnd(3) by simp
  then show ?thesis using rnd by blast
qed

theorem delegated_key_block_opens_witness:
  "\<exists>block. encrypt_delegated_default_key_aes sample_provider (\<lambda>n s. (Returned (Inr (replicate n 3)), s))
       (replicate 16 1) (replicate 16 2) 5 () = (Inr block, ()) \<and> length block = 32"
proof -
  obtain block where "encrypt_delegated_default_key_aes sample_provider
      (\<lambda>n s. (Returned (Inr (replicate n 3)), s)) (replicate 16 1) (replicate 16 2) 5 () = (Inr block, ())"
    by (simp add: encrypt_delegated_default_key_aes_def act_bind_Inr sample_provider_def)
  with delegated_key_block_opens [OF sample_provider_sound(1) this] show ?thesis by blast
qed

end
