(* ===== verification/C_Runtime.thy ===== *)
theory C_Runtime
  imports Managed_Lifecycle Offline
begin

text \<open>
  The runtime of the C interface (\<^verbatim>\<open>c-api/src/detail/internal.hpp\<close>, \<^verbatim>\<open>runtime.cpp\<close>,
  \<^verbatim>\<open>adapters.cpp\<close>): error evidence, the exception boundary, the two handle registries, the
  checks of C arguments, the adapters around the host's transport and key-provider callbacks, and the
  functions that open, close, reset and cancel a card. The host's callbacks are parameters: functions
  over an arbitrary host state that may also throw. A pointer is either null or points to the bytes
  it claims; a structure that a pointer may miss is an option. The sizes of the structures are those
  of a 64-bit target.
\<close>

section \<open>Error evidence\<close>

type_synonym i32 = "32 word"

text \<open>\<^verbatim>\<open>enum df_error_code\<close> and the delivery outcomes, which the source asserts to be the numbers of its own enumerations.\<close>

fun error_number :: "error_code \<Rightarrow> u32" where
  "error_number EC_invalid_argument = 1"
| "error_number EC_transport = 2"
| "error_number EC_card_removed = 3"
| "error_number EC_timeout = 4"
| "error_number EC_cancelled = 5"
| "error_number EC_malformed_response = 6"
| "error_number EC_card_rejected = 7"
| "error_number EC_authentication = 8"
| "error_number EC_integrity = 9"
| "error_number EC_unsupported = 10"
| "error_number EC_stale_handle = 11"
| "error_number EC_busy = 12"
| "error_number EC_session_invalid = 13"
| "error_number EC_counter_exhausted = 14"
| "error_number EC_buffer_too_small = 15"
| "error_number EC_crypto = 16"
| "error_number EC_internal = 17"

fun outcome_number :: "outcome \<Rightarrow> u32" where
  "outcome_number OC_not_sent = 0"
| "outcome_number OC_rejected = 1"
| "outcome_number OC_succeeded = 2"
| "outcome_number OC_unknown = 3"

text \<open>The casts back, of a number the caller has checked to be in range.\<close>

definition error_codes :: "error_code list" where
  "error_codes = [EC_invalid_argument, EC_transport, EC_card_removed, EC_timeout, EC_cancelled,
     EC_malformed_response, EC_card_rejected, EC_authentication, EC_integrity, EC_unsupported,
     EC_stale_handle, EC_busy, EC_session_invalid, EC_counter_exhausted, EC_buffer_too_small,
     EC_crypto, EC_internal]"

definition error_code_of_number :: "i32 \<Rightarrow> error_code option" where
  "error_code_of_number n =
     (if 1 \<le> sint n \<and> sint n \<le> 17 then Some (error_codes ! (nat (sint n) - 1)) else None)"

definition outcome_of_number :: "u32 \<Rightarrow> outcome option" where
  "outcome_of_number n =
     (if n \<le> 3 then Some ([OC_not_sent, OC_rejected, OC_succeeded, OC_unknown] ! unat n) else None)"

text \<open>\<^verbatim>\<open>df_error\<close>; the message is the text before the terminating NUL of its 246 characters.\<close>

record c_error =
  ce_code :: u32
  ce_outcome :: u32
  ce_status :: u16
  ce_message :: string

definition message_capacity :: nat where
  "message_capacity = 246"

definition empty_c_error :: c_error where
  "empty_c_error = \<lparr>ce_code = 0, ce_outcome = 0, ce_status = 0, ce_message = []\<rparr>"

definition c_error_of :: "error \<Rightarrow> c_error" where
  "c_error_of e =
     \<lparr>ce_code = error_number (err_code e), ce_outcome = outcome_number (err_outcome e),
      ce_status = err_status e, ce_message = take (message_capacity - 1) (String.explode (err_message e))\<rparr>"

definition failure :: "c_error option \<Rightarrow> error \<Rightarrow> i32 \<times> c_error option" where
  "failure output e = (error_number (err_code e), map_option (\<lambda>_. c_error_of e) output)"

definition unexpected_error :: error where
  "unexpected_error = unknown_error EC_internal (STR ''Native operation failed'')"

definition unexpected_failure :: "c_error option \<Rightarrow> i32 \<times> c_error option" where
  "unexpected_failure output = (17, map_option (\<lambda>_. c_error_of unexpected_error) output)"

section \<open>The boundary\<close>

text \<open>
  What a C function returns: its code, the caller's error storage if there is any, and the value it
  stores in its outputs, which it does on success only.
\<close>

record 'a c_return =
  ret_code :: i32
  ret_error :: "c_error option"
  ret_value :: "'a option"

definition boundary :: "c_error option \<Rightarrow> ('s, 'a) action \<Rightarrow> 's \<Rightarrow> 'a c_return \<times> 's" where
  "boundary output function s =
     (case function s of
        (Threw, s1) \<Rightarrow>
          (case unexpected_failure output of
             (code, err) \<Rightarrow> (\<lparr>ret_code = code, ret_error = err, ret_value = None\<rparr>, s1))
      | (Returned (Inl e), s1) \<Rightarrow>
          (case failure output e of
             (code, err) \<Rightarrow> (\<lparr>ret_code = code, ret_error = err, ret_value = None\<rparr>, s1))
      | (Returned (Inr v), s1) \<Rightarrow>
          (\<lparr>ret_code = 0,
            ret_error = map_option (\<lambda>_. empty_c_error\<lparr>ce_outcome := outcome_number OC_succeeded\<rparr>) output,
            ret_value = Some v\<rparr>, s1))"

text \<open>\<^verbatim>\<open>if (!r) { return r.error(); }\<close>\<close>

definition require :: "'a result \<Rightarrow> ('a \<Rightarrow> ('s, 'b) action) \<Rightarrow> ('s, 'b) action" where
  "require r f s = (case r of Inl e \<Rightarrow> (Returned (Inl e), s) | Inr a \<Rightarrow> f a s)"

definition refuse :: "error \<Rightarrow> ('s, 'b) action" where
  "refuse e s = (Returned (Inl e), s)"

definition result_bind :: "'a result \<Rightarrow> ('a \<Rightarrow> 'b result) \<Rightarrow> 'b result" where
  "result_bind r f = (case r of Inl e \<Rightarrow> Inl e | Inr a \<Rightarrow> f a)"

section \<open>Arguments\<close>

text \<open>A pointer and a length: null with the claimed length, or the bytes pointed to.\<close>

datatype c_bytes = Null_bytes nat | Bytes_at bytes

fun c_size :: "c_bytes \<Rightarrow> nat" where
  "c_size (Null_bytes n) = n"
| "c_size (Bytes_at bs) = length bs"

fun c_view :: "c_bytes \<Rightarrow> bytes" where
  "c_view (Null_bytes n) = []"
| "c_view (Bytes_at bs) = bs"

definition is_null :: "c_bytes \<Rightarrow> bool" where
  "is_null b = (case b of Null_bytes _ \<Rightarrow> True | Bytes_at _ \<Rightarrow> False)"

definition maximum_buffer :: nat where
  "maximum_buffer = 16 * 1024 * 1024"

definition bytes_in :: "c_bytes \<Rightarrow> bytes result" where
  "bytes_in b =
     (if (c_size b \<noteq> 0 \<and> is_null b) \<or> c_size b > maximum_buffer
      then Inl (invalid (STR ''Invalid byte buffer'')) else Inr (c_view b))"

text \<open>\<^verbatim>\<open>df_buffer** output\<close>: the pointer may be null, and so must be what it points to.\<close>

datatype buffer_slot = No_slot | Slot "bytes option"

definition output_bytes :: "buffer_slot \<Rightarrow> ('s, bytes) action \<Rightarrow> ('s, bytes) action" where
  "output_bytes slot function s =
     (if slot \<noteq> Slot None
      then (Returned (Inl (invalid (STR ''Output must point to a null buffer handle''))), s)
      else function s)"

text \<open>A \<^verbatim>\<open>df_buffer\<close> handle: null, or the bytes it owns.\<close>

definition df_buffer_size :: "bytes option \<Rightarrow> nat" where
  "df_buffer_size buffer = (case buffer of None \<Rightarrow> 0 | Some bs \<Rightarrow> length bs)"

definition df_buffer_data :: "bytes option \<Rightarrow> bytes option" where
  "df_buffer_data buffer = buffer"

definition df_abi_version :: u32 where
  "df_abi_version = 1"

definition mode_in :: "u32 \<Rightarrow> communication_mode result" where
  "mode_in v =
     (if v \<noteq> 0 \<and> v \<noteq> 1 \<and> v \<noteq> 3
      then Inl (invalid (STR ''Communication must be Plain, MAC, or Full'')) else Inr (mode_of_code (ucast v)))"

definition access_rights_from_c :: "u32 \<Rightarrow> access_rights result" where
  "access_rights_from_c packed =
     (if packed > 0xFFFF then Inl (invalid (STR ''Access rights exceed sixteen bits''))
      else Inr \<lparr>ar_read_write = ucast (drop_bit 4 packed AND 0x0F), ar_change = ucast (packed AND 0x0F),
                ar_read = ucast (drop_bit 12 packed AND 0x0F), ar_write = ucast (drop_bit 8 packed AND 0x0F)\<rparr>)"

definition iso_key :: "u32 \<Rightarrow> u32 \<Rightarrow> iso_key_reference result" where
  "iso_key key application =
     (if application > 1 \<or> (application = 0 \<and> key \<noteq> 0)
      then Inl (invalid (STR ''Invalid ISO key scope''))
      else if application \<noteq> 0 then iso_application_key key
      else Inr iso_picc_master)"

definition aes128_key_in :: "c_bytes \<Rightarrow> bytes result" where
  "aes128_key_in key = result_bind (bytes_in key) aes128_key_import"

text \<open>The constructors of the identifier types.\<close>

definition application_id_make :: "u32 \<Rightarrow> application_id result" where
  "application_id_make v = number_make 0x00FFFFFF v"

definition file_number_make :: "u32 \<Rightarrow> file_number result" where
  "file_number_make v = number_make 31 v"

definition key_number_make :: "u32 \<Rightarrow> key_number result" where
  "key_number_make v = number_make 63 v"

definition offset_make :: "u32 \<Rightarrow> offset result" where
  "offset_make v = number_make 0x00FFFFFF v"

definition byte_count_make :: "u32 \<Rightarrow> byte_count result" where
  "byte_count_make v = number_make 0x00FFFFFF v"

definition reserved_is_zero :: "u64 list \<Rightarrow> bool" where
  "reserved_is_zero reserved = list_all (\<lambda>v. v = 0) reserved"

section \<open>Authentication information\<close>

record authentication_output =
  ao_struct_size :: u32
  ao_abi_version :: u32
  ao_transaction_identifier :: bytes
  ao_picc_capabilities :: bytes
  ao_pcd_capabilities :: bytes
  ao_reserved :: "u64 list"

definition sizeof_authentication_info :: u32 where
  "sizeof_authentication_info = 88"

definition write_authentication_info ::
  "authentication_output option \<Rightarrow> authentication_info \<Rightarrow> authentication_output result" where
  "write_authentication_info output info =
     (case output of
        None \<Rightarrow> Inl (invalid (STR ''Invalid authentication-info output descriptor''))
      | Some out \<Rightarrow>
          if ao_struct_size out \<noteq> sizeof_authentication_info \<or> ao_abi_version out \<noteq> df_abi_version \<or>
             \<not> reserved_is_zero (ao_reserved out)
          then Inl (invalid (STR ''Invalid authentication-info output descriptor''))
          else Inr (out\<lparr>ao_transaction_identifier := transaction_identifier info,
                        ao_picc_capabilities := picc_capabilities info,
                        ao_pcd_capabilities := pcd_capabilities info\<rparr>))"

text \<open>
  A function with such an output clears it first, and writes the information of a successful
  authentication into it; the result is the storage afterwards.
\<close>

definition reporting_authentication ::
  "authentication_output option \<Rightarrow> c_error option \<Rightarrow> ('s, authentication_info) action \<Rightarrow> 's
     \<Rightarrow> unit c_return \<times> authentication_output option \<times> 's" where
  "reporting_authentication output err body s =
     (case write_authentication_info output empty_information of
        Inl e \<Rightarrow> (case boundary err (refuse e) s of (ret, s1) \<Rightarrow> (ret, output, s1))
      | Inr cleared \<Rightarrow>
          (case body s of
             (Threw, s1) \<Rightarrow> (fst (boundary err (\<lambda>_. (Threw, ())) ()), Some cleared, s1)
           | (Returned (Inl e), s1) \<Rightarrow> (fst (boundary err (refuse e) ()), Some cleared, s1)
           | (Returned (Inr info), s1) \<Rightarrow>
               (case write_authentication_info (Some cleared) info of
                  Inl e \<Rightarrow> (fst (boundary err (refuse e) ()), Some cleared, s1)
                | Inr filled \<Rightarrow> (fst (boundary err (act_return ()) ()), Some filled, s1))))"

end
