(* ===== verification/C_Adapters.thy ===== *)
theory C_Adapters
  imports C_Runtime Transports
begin

text \<open>
  The adapters of the C interface (\<^verbatim>\<open>c-api/src/adapters.cpp\<close>, and the key requests of
  \<^verbatim>\<open>runtime.cpp\<close>): the transport that a host describes with C callbacks, as the environment of
  the protocol core, and its key provider. The host is an arbitrary state that its callbacks change.
  A host, or another thread, may report a change of the card at any time, also inside a callback;
  the transport's generation is therefore advanced by the notifications that arrived since the last
  reading. The members of the host's key-provider adapters are kept beside the host's state.
\<close>

section \<open>The host\<close>

text \<open>\<open>ch_resolved\<close> holds the adapters whose member \<^verbatim>\<open>resolved_\<close> is true.\<close>

record 'h c_host =
  ch_world :: 'h
  ch_resolved :: "nat set"

definition on_world :: "('h \<Rightarrow> 'a \<times> 'h) \<Rightarrow> 'h c_host \<Rightarrow> 'a \<times> 'h c_host" where
  "on_world f host = (case f (ch_world host) of (r, w) \<Rightarrow> (r, host\<lparr>ch_world := w\<rparr>))"

text \<open>
  What the process provides: the result of \<^verbatim>\<open>openssl_provider()\<close> with its random source, the
  steady clock, and the number of state-change notifications since the last reading.
\<close>

record 'h c_services =
  sv_crypto :: "crypto_provider result"
  sv_random :: "nat \<Rightarrow> 'h \<Rightarrow> bytes result dep \<times> 'h"
  sv_now :: "'h \<Rightarrow> int \<times> 'h"
  sv_notifications :: "'h \<Rightarrow> u64 \<times> 'h"

section \<open>Transport descriptors\<close>

text \<open>What an exchange callback leaves behind: its status and what it wrote.\<close>

record exchange_answer =
  xa_status :: i32
  xa_written :: bytes
  xa_received :: nat
  xa_evidence :: c_error

text \<open>
  \<^verbatim>\<open>df_transport_v1\<close>. An exchange callback sees the frame, the capacity of the response buffer,
  the timeout in milliseconds and the prepared evidence.
\<close>

record 'h c_transport =
  ct_struct_size :: u32
  ct_abi_version :: u32
  ct_framing :: u32
  ct_max_transmit :: u32
  ct_max_receive :: u32
  ct_max_native_frame :: u32
  ct_exchange :: "(bytes \<Rightarrow> nat \<Rightarrow> u32 \<Rightarrow> c_error \<Rightarrow> 'h \<Rightarrow> exchange_answer dep \<times> 'h) option"
  ct_cancel :: "('h \<Rightarrow> unit dep \<times> 'h) option"
  ct_reset :: "(c_error \<Rightarrow> 'h \<Rightarrow> (i32 \<times> c_error) dep \<times> 'h) option"
  ct_retain :: "('h \<Rightarrow> unit dep \<times> 'h) option"
  ct_release :: "('h \<Rightarrow> unit dep \<times> 'h) option"
  ct_reserved :: "u64 list"

definition sizeof_transport :: u32 where
  "sizeof_transport = 136"

definition callback_error :: "i32 \<Rightarrow> c_error \<Rightarrow> error" where
  "callback_error code evidence =
     make_error (case error_code_of_number code of None \<Rightarrow> EC_transport | Some c \<Rightarrow> c)
       (STR ''Reader callback failed'')
       (case outcome_of_number (ce_outcome evidence) of None \<Rightarrow> OC_unknown | Some oc \<Rightarrow> oc)
       (ce_status evidence)"

text \<open>The condition of \<^verbatim>\<open>make_transport\<close>.\<close>

definition transport_refused :: "'h c_transport \<Rightarrow> bool" where
  "transport_refused d \<longleftrightarrow>
     ct_struct_size d \<noteq> sizeof_transport \<or> ct_abi_version d \<noteq> df_abi_version \<or> ct_framing d > 1 \<or>
     ct_exchange d = None \<or> ct_max_transmit d < 6 \<or> ct_max_receive d < 2 \<or> ct_max_native_frame d < 2 \<or>
     unat (ct_max_transmit d) > maximum_buffer \<or> unat (ct_max_receive d) > maximum_buffer \<or>
     ct_max_native_frame d > ct_max_transmit d \<or>
     (ct_retain d = None) \<noteq> (ct_release d = None) \<or> \<not> reserved_is_zero (ct_reserved d)"

text \<open>The constructor and the destructor of \<^verbatim>\<open>TransportLease\<close>.\<close>

definition retain_transport :: "'h c_transport \<Rightarrow> ('h c_host, unit) action" where
  "retain_transport d host =
     (case ct_retain d of
        None \<Rightarrow> (Returned (Inr ()), host)
      | Some call \<Rightarrow>
          (case on_world call host of
             (Threw, host1) \<Rightarrow> (Threw, host1)
           | (Returned _, host1) \<Rightarrow> (Returned (Inr ()), host1)))"

definition release_transport :: "'h c_transport \<Rightarrow> 'h c_host \<Rightarrow> 'h c_host" where
  "release_transport d host = (case ct_release d of None \<Rightarrow> host | Some call \<Rightarrow> snd (on_world call host))"

definition make_transport :: "'h c_transport option \<Rightarrow> ('h c_host, 'h c_transport) action" where
  "make_transport descriptor =
     (case descriptor of
        None \<Rightarrow> refuse (invalid (STR ''Invalid transport ABI, callbacks, limits or reserved fields''))
      | Some d \<Rightarrow>
          if transport_refused d
          then refuse (invalid (STR ''Invalid transport ABI, callbacks, limits or reserved fields''))
          else act_bind (retain_transport d) (\<lambda>_. act_return d))"

definition transport_capabilities_of :: "'h c_transport \<Rightarrow> transport_capabilities" where
  "transport_capabilities_of d =
     \<lparr>cap_framing = (if ct_framing d = 0 then Framing_native else Framing_iso7816),
      max_transmit = unat (ct_max_transmit d), max_receive = unat (ct_max_receive d),
      max_native_frame = unat (ct_max_native_frame d), can_cancel = ct_cancel d \<noteq> None,
      can_reset = ct_reset d \<noteq> None, hardware_timing = False\<rparr>"

text \<open>A buffer into which a callback wrote some bytes from its start.\<close>

definition overlay :: "bytes \<Rightarrow> bytes \<Rightarrow> bytes" where
  "overlay buffer written = take (length buffer) written @ drop (length written) buffer"

definition unknown_evidence :: c_error where
  "unknown_evidence = empty_c_error\<lparr>ce_outcome := outcome_number OC_unknown\<rparr>"

definition host_exchange ::
  "nat \<Rightarrow> (bytes \<Rightarrow> nat \<Rightarrow> u32 \<Rightarrow> c_error \<Rightarrow> 'h \<Rightarrow> exchange_answer dep \<times> 'h) \<Rightarrow> bytes \<Rightarrow> exchange_options \<Rightarrow> 'h
     \<Rightarrow> bytes result dep \<times> 'h" where
  "host_exchange capacity call frame opts h =
     (case call frame capacity (of_int (min (opt_timeout opts) (2 ^ 32 - 1))) unknown_evidence h of
        (Threw, h1) \<Rightarrow> (Threw, h1)
      | (Returned answer, h1) \<Rightarrow>
          (Returned
            (if xa_status answer \<noteq> 0 then Inl (callback_error (xa_status answer) (xa_evidence answer))
             else if xa_received answer > capacity
             then Inl (unknown_error EC_malformed_response (STR ''Reader callback exceeded receive capacity''))
             else Inr (take (xa_received answer) (overlay (replicate capacity 0) (xa_written answer)))), h1))"

definition host_reset :: "(c_error \<Rightarrow> 'h \<Rightarrow> (i32 \<times> c_error) dep \<times> 'h) \<Rightarrow> 'h \<Rightarrow> unit result dep \<times> 'h" where
  "host_reset call h =
     (case call unknown_evidence h of
        (Threw, h1) \<Rightarrow> (Threw, h1)
      | (Returned (status, evidence), h1) \<Rightarrow>
          (Returned (if status \<noteq> 0 then Inl (callback_error status evidence) else Inr ()), h1))"

definition transport_callbacks_of :: "'h c_transport \<Rightarrow> 'h c_host transport_callbacks" where
  "transport_callbacks_of d =
     \<lparr>cb_exchange = map_option (\<lambda>call frame opts.
        on_world (host_exchange (unat (ct_max_receive d)) call frame opts)) (ct_exchange d),
      cb_cancel = map_option on_world (ct_cancel d),
      cb_reset = map_option (\<lambda>call. on_world (host_reset call)) (ct_reset d)\<rparr>"

section \<open>The environment of a card\<close>

text \<open>The transport's generation, with the host it runs in.\<close>

type_synonym 'h c_connection = "u64 \<times> 'h c_host"

definition read_generation :: "'h c_services \<Rightarrow> 'h c_connection \<Rightarrow> u64 \<times> 'h c_connection" where
  "read_generation S c =
     (let (notified, host) = on_world (sv_notifications S) (snd c);
          generation = fst c + notified
      in (generation, (generation, host)))"

definition callback_environment :: "'h c_services \<Rightarrow> 'h c_transport \<Rightarrow> 'h c_connection environment" where
  "callback_environment S d =
     (let caps = callback_capabilities (transport_capabilities_of d) (transport_callbacks_of d);
          calls = transport_callbacks_of d
      in \<lparr>env_capabilities = caps,
          env_generation = read_generation S,
          env_exchange = (\<lambda>frame opts c.
            case callback_exchange caps calls (\<lambda>_ host. (False, host)) frame opts (snd c) of
              (r, host) \<Rightarrow> (Returned r, (fst c, host))),
          env_reset = (\<lambda>c. case callback_reset calls (fst c) (snd c) of
              (r, generation, host) \<Rightarrow> (Returned r, (generation, host))),
          env_cancel = (\<lambda>c. (fst c, callback_cancel calls (snd c))),
          env_now = (\<lambda>c. case on_world (sv_now S) (snd c) of (t, host) \<Rightarrow> (t, (fst c, host))),
          env_stop_requested = (\<lambda>_ c. (False, c)),
          env_random = (\<lambda>n c. case on_world (sv_random S n) (snd c) of (r, host) \<Rightarrow> (r, (fst c, host)))\<rparr>)"

section \<open>Key requests\<close>

text \<open>\<^verbatim>\<open>df_key_request_v1\<close>.\<close>

record 'h c_key_request =
  cq_struct_size :: u32
  cq_abi_version :: u32
  cq_purpose :: u32
  cq_profile :: u32
  cq_scope :: u32
  cq_key_number :: u32
  cq_application_id :: u32
  cq_key_set :: u32
  cq_reference :: c_bytes
  cq_diversification :: c_bytes
  cq_user_context :: c_bytes
  cq_is_cancelled :: "('h \<Rightarrow> u32 dep \<times> 'h) option"
  cq_reserved :: "u64 list"

definition sizeof_key_request :: u32 where
  "sizeof_key_request = 160"

definition option_absent :: u32 where
  "option_absent = 0xFFFFFFFF"

text \<open>The numbers of the enumerations; no entry point expects a value outside them.\<close>

fun purpose_number :: "key_purpose \<Rightarrow> u32" where
  "purpose_number purpose_authentication = 0"
| "purpose_number purpose_current_key = 1"
| "purpose_number purpose_replacement_key = 2"
| "purpose_number purpose_delegated_application = 3"
| "purpose_number purpose_transaction_mac = 4"
| "purpose_number purpose_offline_operation = 5"
| "purpose_number purpose_other = 6"

fun profile_number :: "authentication_profile \<Rightarrow> u32" where
  "profile_number profile_standard_aes = 0"
| "profile_number profile_ev2_first = 1"
| "profile_number profile_ev2_non_first = 2"
| "profile_number profile_iso_aes = 3"
| "profile_number profile_other = 4"

fun scope_number :: "key_scope \<Rightarrow> u32" where
  "scope_number scope_native = 0"
| "scope_number scope_iso_picc = 1"
| "scope_number scope_iso_application = 2"
| "scope_number scope_other = 3"

text \<open>The conditions on the three byte strings of a request.\<close>

definition request_bytes_refused :: "'h c_key_request \<Rightarrow> bool" where
  "request_bytes_refused q \<longleftrightarrow>
     c_size (cq_reference q) = 0 \<or> c_size (cq_reference q) > 1024 \<or> is_null (cq_reference q) \<or>
     c_size (cq_diversification q) > 65536 \<or> c_size (cq_user_context q) > 65536 \<or>
     c_size (cq_diversification q) > 65536 - c_size (cq_user_context q) \<or>
     (c_size (cq_diversification q) \<noteq> 0 \<and> is_null (cq_diversification q)) \<or>
     (c_size (cq_user_context q) \<noteq> 0 \<and> is_null (cq_user_context q))"

definition query_cancelled :: "'h c_key_request \<Rightarrow> ('h c_host, unit) action" where
  "query_cancelled q host =
     (case cq_is_cancelled q of
        None \<Rightarrow> (Returned (Inr ()), host)
      | Some call \<Rightarrow>
          (case on_world call host of
             (Threw, host1) \<Rightarrow> (Threw, host1)
           | (Returned v, host1) \<Rightarrow>
               (Returned (if v \<noteq> 0
                  then Inl (local_error EC_cancelled (STR ''Key resolution cancelled before provider access''))
                  else Inr ()), host1)))"

text \<open>What both overloads of \<^verbatim>\<open>make_key_request\<close> do with an accepted request.\<close>

definition request_application :: "'h c_key_request \<Rightarrow> application_id option result" where
  "request_application q =
     (if cq_application_id q \<noteq> option_absent
      then result_bind (application_id_make (cq_application_id q)) (\<lambda>a. Inr (Some a)) else Inr None)"

definition request_key_set :: "'h c_key_request \<Rightarrow> byte option result" where
  "request_key_set q =
     (if cq_key_set q \<noteq> option_absent
      then if cq_key_set q > 15 then Inl (invalid (STR ''Key-set selector must be zero through fifteen''))
           else Inr (Some (ucast (cq_key_set q)))
      else Inr None)"

definition never_stop :: stop_token where
  "never_stop = 0"

definition complete_key_request ::
  "key_purpose \<Rightarrow> key_scope \<Rightarrow> authentication_profile option \<Rightarrow> 'h c_key_request \<Rightarrow> key_request result" where
  "complete_key_request purpose scope profile q =
     result_bind (key_number_make (cq_key_number q)) (\<lambda>key_number.
     result_bind (request_application q) (\<lambda>application.
     result_bind (request_key_set q) (\<lambda>key_set.
     result_bind (key_reference_make (c_view (cq_reference q))) (\<lambda>reference.
     result_bind (derivation_context_make purpose key_number application key_set
                    (c_view (cq_diversification q)) (c_view (cq_user_context q))) (\<lambda>context.
     key_request_make reference context scope profile never_stop)))))"

definition make_authentication_request ::
  "'h c_key_request option \<Rightarrow> authentication_profile \<Rightarrow> key_scope \<Rightarrow> u32 \<Rightarrow> ('h c_host, key_request) action" where
  "make_authentication_request request expected_profile expected_scope expected_key =
     (case request of
        None \<Rightarrow> refuse (invalid (STR ''Key request does not match the authentication entrypoint''))
      | Some q \<Rightarrow>
          if cq_struct_size q \<noteq> sizeof_key_request \<or> cq_abi_version q \<noteq> df_abi_version \<or>
             cq_purpose q \<noteq> purpose_number purpose_authentication \<or>
             cq_profile q \<noteq> profile_number expected_profile \<or> cq_scope q \<noteq> scope_number expected_scope \<or>
             cq_key_number q \<noteq> expected_key \<or> \<not> reserved_is_zero (cq_reserved q)
          then refuse (invalid (STR ''Key request does not match the authentication entrypoint''))
          else if request_bytes_refused q
          then refuse (invalid (STR ''Invalid key reference or provider context bytes''))
          else act_bind (query_cancelled q) (\<lambda>_.
            act_require (complete_key_request purpose_authentication expected_scope (Some expected_profile) q)))"

definition make_purpose_request ::
  "'h c_key_request option \<Rightarrow> key_purpose \<Rightarrow> key_scope \<Rightarrow> u32 \<Rightarrow> ('h c_host, key_request) action" where
  "make_purpose_request request expected_purpose expected_scope expected_key =
     (case request of
        None \<Rightarrow> refuse (invalid (STR ''Invalid non-authentication key request''))
      | Some q \<Rightarrow>
          if cq_struct_size q \<noteq> sizeof_key_request \<or> cq_abi_version q \<noteq> df_abi_version \<or>
             cq_purpose q \<noteq> purpose_number expected_purpose \<or> cq_profile q \<noteq> option_absent \<or>
             cq_scope q \<noteq> scope_number expected_scope \<or> cq_key_number q \<noteq> expected_key \<or>
             \<not> reserved_is_zero (cq_reserved q) \<or> request_bytes_refused q
          then refuse (invalid (STR ''Invalid non-authentication key request''))
          else act_bind (query_cancelled q) (\<lambda>_.
            act_require (complete_key_request expected_purpose expected_scope None q)))"

section \<open>Key-provider descriptors\<close>

text \<open>What a resolver leaves behind: its status, the bytes it wrote and the count it claims.\<close>

record key_answer =
  kx_status :: i32
  kx_key :: bytes
  kx_written :: nat

text \<open>\<^verbatim>\<open>df_key_provider_v1\<close>.\<close>

record 'h c_key_provider =
  kp_struct_size :: u32
  kp_abi_version :: u32
  kp_resolve :: "('h c_key_request \<Rightarrow> nat \<Rightarrow> c_error \<Rightarrow> 'h \<Rightarrow> key_answer dep \<times> 'h) option"
  kp_retain :: "('h \<Rightarrow> unit dep \<times> 'h) option"
  kp_release :: "('h \<Rightarrow> unit dep \<times> 'h) option"
  kp_reserved :: "u64 list"

definition sizeof_key_provider :: u32 where
  "sizeof_key_provider = 104"

text \<open>\<^verbatim>\<open>class KeyProviderAdapter\<close>; the identity tells two adapters of one call apart.\<close>

record 'h key_adapter =
  ka_provider :: "'h c_key_provider"
  ka_request :: "'h c_key_request"
  ka_identity :: nat

definition adapter_create ::
  "'h c_key_provider option \<Rightarrow> 'h c_key_request option \<Rightarrow> nat \<Rightarrow> ('h c_host, 'h key_adapter) action" where
  "adapter_create provider request identity host =
     (case (provider, request) of
        (Some p, Some q) \<Rightarrow>
          if kp_struct_size p \<noteq> sizeof_key_provider \<or> kp_abi_version p \<noteq> df_abi_version \<or> kp_resolve p = None \<or>
             (kp_retain p = None) \<noteq> (kp_release p = None) \<or> \<not> reserved_is_zero (kp_reserved p)
          then (Returned (Inl (invalid (STR ''Invalid AES-128 key-provider descriptor''))), host)
          else let adapter = \<lparr>ka_provider = p, ka_request = q, ka_identity = identity\<rparr>;
                   fresh = host\<lparr>ch_resolved := ch_resolved host - {identity}\<rparr>
          in (case kp_retain p of
                None \<Rightarrow> (Returned (Inr adapter), fresh)
              | Some call \<Rightarrow>
                  (case on_world call fresh of
                     (Threw, host1) \<Rightarrow> (Threw, host1)
                   | (Returned _, host1) \<Rightarrow> (Returned (Inr adapter), host1)))
      | _ \<Rightarrow> (Returned (Inl (invalid (STR ''Invalid AES-128 key-provider descriptor''))), host))"

definition adapter_destroy :: "'h key_adapter \<Rightarrow> 'h c_host \<Rightarrow> 'h c_host" where
  "adapter_destroy adapter host =
     (case kp_release (ka_provider adapter) of None \<Rightarrow> host | Some call \<Rightarrow> snd (on_world call host))"

definition conclude_resolve :: "key_answer \<Rightarrow> bytes result" where
  "conclude_resolve answer =
     (if kx_status answer \<noteq> 0
      then Inl (make_error (case error_code_of_number (kx_status answer) of None \<Rightarrow> EC_crypto | Some c \<Rightarrow> c)
             (STR ''AES-128 key provider failed'') OC_not_sent 0)
      else if kx_written answer \<noteq> 16
      then Inl (local_error EC_crypto (STR ''AES-128 key provider returned an invalid key size''))
      else aes128_key_import (overlay (replicate 16 0) (kx_key answer)))"

definition adapter_resolve :: "'h key_adapter \<Rightarrow> ('h c_host, bytes) action" where
  "adapter_resolve adapter host =
     (if ka_identity adapter \<in> ch_resolved host
      then (Returned (Inl (local_error EC_internal (STR ''Key provider was invoked more than once''))), host)
      else act_bind (query_cancelled (ka_request adapter)) (\<lambda>_ host1.
             case kp_resolve (ka_provider adapter) of
               None \<Rightarrow> (Threw, host1)
             | Some call \<Rightarrow>
                 (case on_world (call (ka_request adapter) 16 empty_c_error) host1 of
                    (Threw, host2) \<Rightarrow> (Threw, host2)
                  | (Returned answer, host2) \<Rightarrow> (Returned (conclude_resolve answer), host2)))
             (host\<lparr>ch_resolved := insert (ka_identity adapter) (ch_resolved host)\<rparr>))"

end
