(* ===== verification/C_Handles.thy ===== *)
theory C_Handles
  imports C_Adapters
begin

text \<open>
  Handles of the C interface (\<^verbatim>\<open>c-api/src/detail/internal.hpp\<close>, \<^verbatim>\<open>runtime.cpp\<close>): the
  entries and registries of managed cards and raw channels, the admission of an operation to its
  entry, and the functions \<^verbatim>\<open>df_open\<close>, \<^verbatim>\<open>df_close\<close>, \<^verbatim>\<open>df_reset\<close>,
  \<^verbatim>\<open>df_cancel\<close> and \<^verbatim>\<open>df_notify_state_change\<close>. An entry's mutex is a flag: whether
  another thread holds it. A callback that calls back into the library meets the entry with its
  member \<^verbatim>\<open>active\<close> set. Every entry carries the log of its physical exchanges, which no
  definition reads.
\<close>

section \<open>Entries\<close>

text \<open>\<^verbatim>\<open>struct Entry\<close> with the transport's generation and the card's provider.\<close>

record 'h c_entry =
  en_card :: card_state
  en_transport :: "'h c_transport"
  en_crypto :: crypto_provider
  en_generation :: u64
  en_contended :: bool
  en_active :: bool
  en_closed :: bool
  en_log :: exchange_log

text \<open>
  \<^verbatim>\<open>struct RawEntry\<close>. The native channel and the secure channel over it exist together; so do
  the ISO channel and the checked channel over it.
\<close>

record 'h raw_entry =
  re_transport :: "'h c_transport"
  re_crypto :: crypto_provider
  re_generation :: u64
  re_native :: "raw_channel option"
  re_iso :: "iso_channel option"
  re_iso_session :: "iso_session option"
  re_standard_session :: "sa_session option"
  re_ev2_session :: "ev2_session option"
  re_session_generation :: u64
  re_contended :: bool
  re_active :: bool
  re_closed :: bool
  re_log :: exchange_log

text \<open>The library: both registries with their counters, and the host.\<close>

record 'h c_library =
  lib_registry :: "u64 \<rightharpoonup> 'h c_entry"
  lib_next_handle :: u64
  lib_raw_registry :: "u64 \<rightharpoonup> 'h raw_entry"
  lib_next_raw_handle :: u64
  lib_host :: "'h c_host"

text \<open>The library as the process loads it.\<close>

definition fresh_library :: "'h \<Rightarrow> 'h c_library" where
  "fresh_library h =
     \<lparr>lib_registry = Map.empty, lib_next_handle = 1, lib_raw_registry = Map.empty, lib_next_raw_handle = 1,
      lib_host = \<lparr>ch_world = h, ch_resolved = {}\<rparr>\<rparr>"

definition on_host :: "('h c_host \<Rightarrow> 'a \<times> 'h c_host) \<Rightarrow> 'h c_library \<Rightarrow> 'a \<times> 'h c_library" where
  "on_host f L = (case f (lib_host L) of (r, host) \<Rightarrow> (r, L\<lparr>lib_host := host\<rparr>))"

definition lookup :: "u64 \<Rightarrow> 'h c_library \<Rightarrow> 'h c_entry result" where
  "lookup handle L =
     (case lib_registry L handle of
        None \<Rightarrow> Inl (local_error EC_stale_handle (STR ''Closed or unknown card handle''))
      | Some e \<Rightarrow> Inr e)"

definition lookup_raw :: "u64 \<Rightarrow> 'h c_library \<Rightarrow> 'h raw_entry result" where
  "lookup_raw handle L =
     (case lib_raw_registry L handle of
        None \<Rightarrow> Inl (local_error EC_stale_handle (STR ''Closed or unknown raw-channel handle''))
      | Some e \<Rightarrow> Inr e)"

section \<open>Operations on a card\<close>

text \<open>
  What an operation on a card runs on: the card and the world around it. The environment records the
  physical exchanges.
\<close>

type_synonym 'h entry_world = "'h c_connection \<times> exchange_log"
type_synonym ('h, 'a) card_body =
  "'h entry_world environment \<Rightarrow> crypto_provider \<Rightarrow> exchange_options \<Rightarrow> (card_state \<times> 'h entry_world, 'a) action"

definition on_card :: "('w, 'a) card_operation \<Rightarrow> (card_state \<times> 'w, 'a) action" where
  "on_card operation st =
     (case operation (fst st) (snd st) of (r, k, w) \<Rightarrow> (Returned r, (k, w)))"

definition on_entry_host :: "('h c_host \<Rightarrow> 'a \<times> 'h c_host) \<Rightarrow> 'c \<times> 'h entry_world \<Rightarrow> 'a \<times> ('c \<times> 'h entry_world)" where
  "on_entry_host f st =
     (case st of (k, ((generation, host), log)) \<Rightarrow>
        (case f host of (r, host1) \<Rightarrow> (r, (k, ((generation, host1), log)))))"

definition milliseconds :: "u32 \<Rightarrow> exchange_options" where
  "milliseconds timeout = \<lparr>opt_timeout = int (unat timeout), opt_stop = never_stop\<rparr>"

text \<open>The function of an admitted operation, between the two halves of \<^verbatim>\<open>ActiveEntry\<close>.\<close>

definition run_active ::
  "'h c_services \<Rightarrow> u64 \<Rightarrow> 'h c_entry \<Rightarrow> exchange_options \<Rightarrow> ('h, 'a) card_body \<Rightarrow> ('h c_library, 'a) action" where
  "run_active S handle e opts function L =
     (let active = e\<lparr>en_active := True\<rparr>
      in case function (recording (callback_environment S (en_transport active))) (en_crypto active) opts
                (en_card active, ((en_generation active, lib_host L), en_log active)) of
           (r, (k, ((generation, host), log))) \<Rightarrow>
             (r, L\<lparr>lib_registry := (lib_registry L)(handle \<mapsto>
                      active\<lparr>en_card := k, en_generation := generation, en_log := log, en_active := False\<rparr>),
                   lib_host := host\<rparr>))"

definition invoke ::
  "'h c_services \<Rightarrow> u64 \<Rightarrow> u32 \<Rightarrow> ('h, 'a) card_body \<Rightarrow> ('h c_library, 'a) action" where
  "invoke S handle timeout function L =
     (if timeout = 0 then (Returned (Inl (invalid (STR ''Timeout must be positive milliseconds''))), L)
      else case lookup handle L of
        Inl e \<Rightarrow> (Returned (Inl e), L)
      | Inr entry \<Rightarrow>
          if en_contended entry
          then (Returned (Inl (local_error EC_busy (STR ''Another card operation is active''))), L)
          else if en_active entry
          then (Returned (Inl (local_error EC_busy (STR ''Callback cannot reenter the active operation''))), L)
          else if en_closed entry
          then (Returned (Inl (local_error EC_stale_handle (STR ''Card is closed''))), L)
          else run_active S handle entry (milliseconds timeout) function L)"

text \<open>An adapter lives until the function returns; its destructor releases the provider's context.\<close>

definition with_adapter ::
  "'h c_key_provider option \<Rightarrow> 'h c_key_request option \<Rightarrow> nat
     \<Rightarrow> ('h key_adapter \<Rightarrow> ('h c_library, 'a) action) \<Rightarrow> ('h c_library, 'a) action" where
  "with_adapter provider request identity body =
     act_bind (on_host (adapter_create provider request identity))
       (\<lambda>adapter L. case body adapter L of
          (r, L1) \<Rightarrow> (r, L1\<lparr>lib_host := adapter_destroy adapter (lib_host L1)\<rparr>))"

text \<open>The adapter as the provider that the core calls once.\<close>

definition adapter_provider :: "'h key_adapter \<Rightarrow> 'h entry_world key_provider" where
  "adapter_provider adapter request w =
     (case on_entry_host (adapter_resolve adapter) ((), w) of (r, (_, w1)) \<Rightarrow> (r, w1))"

section \<open>Opening and closing\<close>

text \<open>
  The registration at the end of \<^verbatim>\<open>df_open\<close>; an entry that is not registered is destroyed, and
  its transport's context released.
\<close>

definition register_card ::
  "'h c_transport \<Rightarrow> crypto_provider \<Rightarrow> card_state \<Rightarrow> u64 \<Rightarrow> ('h c_library, u64) action" where
  "register_card d C k generation L =
     (if lib_next_handle L = 0xFFFFFFFFFFFFFFFF
      then (Returned (Inl (local_error EC_internal (STR ''Card handle space exhausted''))),
            L\<lparr>lib_host := release_transport d (lib_host L)\<rparr>)
      else (Returned (Inr (lib_next_handle L)),
            L\<lparr>lib_registry := (lib_registry L)(lib_next_handle L \<mapsto>
                 \<lparr>en_card = k, en_transport = d, en_crypto = C, en_generation = generation,
                  en_contended = False, en_active = False, en_closed = False, en_log = []\<rparr>),
              lib_next_handle := lib_next_handle L + 1\<rparr>))"

definition initial_generation :: u64 where
  "initial_generation = 1"

definition open_card :: "'h c_services \<Rightarrow> 'h c_transport \<Rightarrow> ('h c_library, u64) action" where
  "open_card S d L =
     (case sv_crypto S of
        Inl e \<Rightarrow> (Returned (Inl e), L\<lparr>lib_host := release_transport d (lib_host L)\<rparr>)
      | Inr C \<Rightarrow>
          (case card_connect (callback_environment S d) (initial_generation, lib_host L) of
             (k, (generation, host)) \<Rightarrow> register_card d C k generation (L\<lparr>lib_host := host\<rparr>)))"

definition df_open ::
  "'h c_services \<Rightarrow> 'h c_transport option \<Rightarrow> u64 option \<Rightarrow> c_error option \<Rightarrow> 'h c_library
     \<Rightarrow> u64 c_return \<times> 'h c_library" where
  "df_open S transport out err =
     boundary err
       (if out \<noteq> Some 0 then refuse (invalid (STR ''Output handle must point to zero''))
        else act_bind (on_host (make_transport transport)) (open_card S))"

text \<open>The last reference to a closed entry is dropped when the function returns.\<close>

definition close_card :: "u64 \<Rightarrow> ('h c_library, unit) action" where
  "close_card handle L =
     (case lookup handle L of
        Inl e \<Rightarrow> (Returned (Inl e), L)
      | Inr entry \<Rightarrow>
          if en_contended entry \<or> en_active entry
          then (Returned (Inl (local_error EC_busy
                  (STR ''Cancel or wait for the active operation before close''))), L)
          else (Returned (Inr ()),
                L\<lparr>lib_registry := (lib_registry L)(handle := None),
                  lib_host := release_transport (en_transport entry) (lib_host L)\<rparr>))"

definition df_close :: "u64 \<Rightarrow> c_error option \<Rightarrow> 'h c_library \<Rightarrow> unit c_return \<times> 'h c_library" where
  "df_close handle err = boundary err (close_card handle)"

definition df_reset ::
  "'h c_services \<Rightarrow> u64 \<Rightarrow> c_error option \<Rightarrow> 'h c_library \<Rightarrow> unit c_return \<times> 'h c_library" where
  "df_reset S handle err = boundary err (invoke S handle 5000 (\<lambda>E C opts. on_card (card_reset E)))"

text \<open>Cancellation and notification reach the transport without admission.\<close>

definition cancel_card :: "'h c_services \<Rightarrow> u64 \<Rightarrow> ('h c_library, unit) action" where
  "cancel_card S handle L =
     (case lookup handle L of
        Inl e \<Rightarrow> (Returned (Inl e), L)
      | Inr entry \<Rightarrow>
          (case env_cancel (callback_environment S (en_transport entry)) (en_generation entry, lib_host L) of
             (generation, host) \<Rightarrow>
               (Returned (Inr ()),
                L\<lparr>lib_registry := (lib_registry L)(handle \<mapsto> entry\<lparr>en_generation := generation\<rparr>),
                  lib_host := host\<rparr>)))"

definition df_cancel ::
  "'h c_services \<Rightarrow> u64 \<Rightarrow> c_error option \<Rightarrow> 'h c_library \<Rightarrow> unit c_return \<times> 'h c_library" where
  "df_cancel S handle err = boundary err (cancel_card S handle)"

definition notify_card :: "u64 \<Rightarrow> ('h c_library, unit) action" where
  "notify_card handle L =
     (case lookup handle L of
        Inl e \<Rightarrow> (Returned (Inl e), L)
      | Inr entry \<Rightarrow>
          (Returned (Inr ()),
           L\<lparr>lib_registry := (lib_registry L)(handle \<mapsto>
               entry\<lparr>en_generation := notify_state_change (en_generation entry)\<rparr>)\<rparr>))"

definition df_notify_state_change ::
  "u64 \<Rightarrow> c_error option \<Rightarrow> 'h c_library \<Rightarrow> unit c_return \<times> 'h c_library" where
  "df_notify_state_change handle err = boundary err (notify_card handle)"

end
