(* ===== verification/C_Native.thy ===== *)
theory C_Native
  imports C_Handles
begin

text \<open>
  The native functions of the C interface (\<^verbatim>\<open>c-api/src/native.cpp\<close>): each checks its C
  arguments, builds one checked command and has the managed card of its handle execute it, or
  authenticates the card with a key handed over or resolved by the host's provider.
\<close>

section \<open>Running a command\<close>

type_synonym ('h, 'a) c_function = "'h c_library \<Rightarrow> 'a c_return \<times> 'h c_library"

text \<open>\<^verbatim>\<open>card.execute(command, options)\<close>, with its response or without.\<close>

definition run_command ::
  "'w environment \<Rightarrow> crypto_provider \<Rightarrow> command \<Rightarrow> exchange_options \<Rightarrow> (card_state \<times> 'w, bytes) action" where
  "run_command E C command opts = on_card (card_execute E C (Some command) opts)"

definition run_command_void ::
  "'w environment \<Rightarrow> crypto_provider \<Rightarrow> command \<Rightarrow> exchange_options \<Rightarrow> (card_state \<times> 'w, unit) action" where
  "run_command_void E C command opts = act_bind (run_command E C command opts) (\<lambda>_. act_return ())"

section \<open>Discovery and selection\<close>

definition part_bytes :: "version_part \<Rightarrow> bytes" where
  "part_bytes p = [vp_vendor p, vp_type p, vp_subtype p, vp_major p, vp_minor p, vp_storage p, vp_protocol p]"

definition version_bytes :: "version_info \<Rightarrow> bytes" where
  "version_bytes v =
     part_bytes (vi_hardware v) @ part_bytes (vi_software v) @ vi_uid v @ vi_batch v @
     [vi_production_week v, vi_production_year v]"

definition df_get_version ::
  "'h c_services \<Rightarrow> u64 \<Rightarrow> u32 \<Rightarrow> buffer_slot \<Rightarrow> c_error option \<Rightarrow> ('h, bytes) c_function" where
  "df_get_version S handle timeout slot err =
     boundary err (invoke S handle timeout (\<lambda>E C opts.
       output_bytes slot
         (act_bind (on_card (card_get_version E C opts)) (\<lambda>v. act_return (version_bytes v)))))"

definition df_free_memory ::
  "'h c_services \<Rightarrow> u64 \<Rightarrow> u32 \<Rightarrow> bool \<Rightarrow> c_error option \<Rightarrow> ('h, u32) c_function" where
  "df_free_memory S handle timeout has_output err =
     boundary err (invoke S handle timeout (\<lambda>E C opts.
       if \<not> has_output then refuse (invalid (STR ''Output is required''))
       else on_card (card_free_memory E C opts)))"

definition df_select_application ::
  "'h c_services \<Rightarrow> u64 \<Rightarrow> u32 \<Rightarrow> u32 \<Rightarrow> c_error option \<Rightarrow> ('h, unit) c_function" where
  "df_select_application S handle aid timeout err =
     boundary err (invoke S handle timeout (\<lambda>E C opts.
       require (application_id_make aid) (\<lambda>a. on_card (select_application E C a opts))))"

definition df_file_ids ::
  "'h c_services \<Rightarrow> u64 \<Rightarrow> u32 \<Rightarrow> buffer_slot \<Rightarrow> c_error option \<Rightarrow> ('h, bytes) c_function" where
  "df_file_ids S handle timeout slot err =
     boundary err (invoke S handle timeout (\<lambda>E C opts.
       output_bytes slot
         (act_bind (on_card (card_file_ids E C opts)) (\<lambda>files. act_return (map ucast files)))))"

section \<open>Authentication\<close>

definition df_authenticate_standard_aes ::
  "'h c_services \<Rightarrow> u64 \<Rightarrow> u32 \<Rightarrow> c_bytes \<Rightarrow> u32 \<Rightarrow> c_error option \<Rightarrow> ('h, unit) c_function" where
  "df_authenticate_standard_aes S handle key_no key timeout err =
     boundary err
       (require (key_number_make key_no) (\<lambda>selector.
        require (aes128_key_in key) (\<lambda>imported.
          invoke S handle timeout (\<lambda>E C opts.
            on_card (authenticate_standard_aes E C selector imported opts)))))"

text \<open>A request and an adapter for the core's call of the host's provider.\<close>

definition with_authentication_provider ::
  "'h c_key_provider option \<Rightarrow> 'h c_key_request option \<Rightarrow> authentication_profile \<Rightarrow> key_scope \<Rightarrow> u32
     \<Rightarrow> (key_request \<Rightarrow> 'h key_adapter \<Rightarrow> ('h c_library, 'a) action) \<Rightarrow> ('h c_library, 'a) action" where
  "with_authentication_provider provider request profile scope key_no body =
     act_bind (on_host (make_authentication_request request profile scope key_no)) (\<lambda>checked.
       with_adapter provider request 0 (body checked))"

definition df_authenticate_standard_aes_provider ::
  "'h c_services \<Rightarrow> u64 \<Rightarrow> u32 \<Rightarrow> 'h c_key_provider option \<Rightarrow> 'h c_key_request option \<Rightarrow> u32
     \<Rightarrow> c_error option \<Rightarrow> ('h, unit) c_function" where
  "df_authenticate_standard_aes_provider S handle key_no provider request timeout err =
     boundary err
       (with_authentication_provider provider request profile_standard_aes scope_native key_no
         (\<lambda>checked adapter. invoke S handle timeout (\<lambda>E C opts.
            on_card (authenticate_standard_aes_resolved E C never_stop (adapter_provider adapter) checked opts))))"

text \<open>The check of the capabilities that the host offers in EV2 First.\<close>

definition pcd_in :: "c_bytes \<Rightarrow> bytes result" where
  "pcd_in pcd =
     result_bind (bytes_in pcd) (\<lambda>capabilities.
       if c_size pcd > 6 then Inl (invalid (STR ''PCD capabilities exceed six bytes'')) else Inr capabilities)"

definition df_authenticate_ev2_first_aes ::
  "'h c_services \<Rightarrow> u64 \<Rightarrow> u32 \<Rightarrow> c_bytes \<Rightarrow> u32 \<Rightarrow> authentication_output option \<Rightarrow> c_error option
     \<Rightarrow> 'h c_library \<Rightarrow> unit c_return \<times> authentication_output option \<times> 'h c_library" where
  "df_authenticate_ev2_first_aes S handle key_no key timeout out err =
     reporting_authentication out err
       (require (key_number_make key_no) (\<lambda>selector.
        require (aes128_key_in key) (\<lambda>imported.
          invoke S handle timeout (\<lambda>E C opts.
            on_card (authenticate_ev2_first_aes E C selector imported [] opts)))))"

definition df_authenticate_ev2_first_aes_provider ::
  "'h c_services \<Rightarrow> u64 \<Rightarrow> u32 \<Rightarrow> 'h c_key_provider option \<Rightarrow> 'h c_key_request option \<Rightarrow> u32
     \<Rightarrow> authentication_output option \<Rightarrow> c_error option
     \<Rightarrow> 'h c_library \<Rightarrow> unit c_return \<times> authentication_output option \<times> 'h c_library" where
  "df_authenticate_ev2_first_aes_provider S handle key_no provider request timeout out err =
     reporting_authentication out err
       (with_authentication_provider provider request profile_ev2_first scope_native key_no
         (\<lambda>checked adapter. invoke S handle timeout (\<lambda>E C opts.
            on_card (authenticate_ev2_first_aes_resolved E C never_stop (adapter_provider adapter) checked []
              opts))))"

definition df_authenticate_ev2_first_aes_with_capabilities ::
  "'h c_services \<Rightarrow> u64 \<Rightarrow> u32 \<Rightarrow> c_bytes \<Rightarrow> c_bytes \<Rightarrow> u32 \<Rightarrow> authentication_output option \<Rightarrow> c_error option
     \<Rightarrow> 'h c_library \<Rightarrow> unit c_return \<times> authentication_output option \<times> 'h c_library" where
  "df_authenticate_ev2_first_aes_with_capabilities S handle key_no key pcd timeout out err =
     reporting_authentication out err
       (require (pcd_in pcd) (\<lambda>capabilities.
        require (key_number_make key_no) (\<lambda>selector.
        require (aes128_key_in key) (\<lambda>imported.
          invoke S handle timeout (\<lambda>E C opts.
            on_card (authenticate_ev2_first_aes E C selector imported capabilities opts))))))"

definition df_authenticate_ev2_first_aes_with_capabilities_provider ::
  "'h c_services \<Rightarrow> u64 \<Rightarrow> u32 \<Rightarrow> 'h c_key_provider option \<Rightarrow> 'h c_key_request option \<Rightarrow> c_bytes \<Rightarrow> u32
     \<Rightarrow> authentication_output option \<Rightarrow> c_error option
     \<Rightarrow> 'h c_library \<Rightarrow> unit c_return \<times> authentication_output option \<times> 'h c_library" where
  "df_authenticate_ev2_first_aes_with_capabilities_provider S handle key_no provider request pcd timeout out err =
     reporting_authentication out err
       (require (pcd_in pcd) (\<lambda>capabilities.
        with_authentication_provider provider request profile_ev2_first scope_native key_no
         (\<lambda>checked adapter. invoke S handle timeout (\<lambda>E C opts.
            on_card (authenticate_ev2_first_aes_resolved E C never_stop (adapter_provider adapter) checked
              capabilities opts)))))"

definition df_authenticate_ev2_non_first_aes ::
  "'h c_services \<Rightarrow> u64 \<Rightarrow> u32 \<Rightarrow> c_bytes \<Rightarrow> u32 \<Rightarrow> authentication_output option \<Rightarrow> c_error option
     \<Rightarrow> 'h c_library \<Rightarrow> unit c_return \<times> authentication_output option \<times> 'h c_library" where
  "df_authenticate_ev2_non_first_aes S handle key_no key timeout out err =
     reporting_authentication out err
       (require (key_number_make key_no) (\<lambda>selector.
        require (aes128_key_in key) (\<lambda>imported.
          invoke S handle timeout (\<lambda>E C opts.
            on_card (authenticate_ev2_non_first_aes E C selector imported opts)))))"

definition df_authenticate_ev2_non_first_aes_provider ::
  "'h c_services \<Rightarrow> u64 \<Rightarrow> u32 \<Rightarrow> 'h c_key_provider option \<Rightarrow> 'h c_key_request option \<Rightarrow> u32
     \<Rightarrow> authentication_output option \<Rightarrow> c_error option
     \<Rightarrow> 'h c_library \<Rightarrow> unit c_return \<times> authentication_output option \<times> 'h c_library" where
  "df_authenticate_ev2_non_first_aes_provider S handle key_no provider request timeout out err =
     reporting_authentication out err
       (with_authentication_provider provider request profile_ev2_non_first scope_native key_no
         (\<lambda>checked adapter. invoke S handle timeout (\<lambda>E C opts.
            on_card (authenticate_ev2_non_first_aes_resolved E C never_stop (adapter_provider adapter) checked
              opts))))"

section \<open>Commands\<close>

definition df_application_ids ::
  "'h c_services \<Rightarrow> u64 \<Rightarrow> u32 \<Rightarrow> buffer_slot
     \<Rightarrow> c_error option \<Rightarrow> ('h, bytes) c_function" where
  "df_application_ids S handle timeout slot err =
     boundary err (invoke S handle timeout (\<lambda>E C opts.
       require get_application_ids (\<lambda>command.
         output_bytes slot (run_command E C command opts))))"

definition df_iso_file_ids ::
  "'h c_services \<Rightarrow> u64 \<Rightarrow> u32 \<Rightarrow> buffer_slot
     \<Rightarrow> c_error option \<Rightarrow> ('h, bytes) c_function" where
  "df_iso_file_ids S handle timeout slot err =
     boundary err (invoke S handle timeout (\<lambda>E C opts.
       require get_iso_file_ids (\<lambda>command.
         output_bytes slot (run_command E C command opts))))"

definition df_get_key_settings ::
  "'h c_services \<Rightarrow> u64 \<Rightarrow> u32 \<Rightarrow> buffer_slot
     \<Rightarrow> c_error option \<Rightarrow> ('h, bytes) c_function" where
  "df_get_key_settings S handle timeout slot err =
     boundary err (invoke S handle timeout (\<lambda>E C opts.
       require get_key_settings (\<lambda>command.
         output_bytes slot (run_command E C command opts))))"

definition df_get_key_set_versions ::
  "'h c_services \<Rightarrow> u64 \<Rightarrow> u32 \<Rightarrow> buffer_slot
     \<Rightarrow> c_error option \<Rightarrow> ('h, bytes) c_function" where
  "df_get_key_set_versions S handle timeout slot err =
     boundary err (invoke S handle timeout (\<lambda>E C opts.
       require get_key_set_versions (\<lambda>command.
         output_bytes slot (run_command E C command opts))))"

definition df_get_card_uid ::
  "'h c_services \<Rightarrow> u64 \<Rightarrow> u32 \<Rightarrow> buffer_slot
     \<Rightarrow> c_error option \<Rightarrow> ('h, bytes) c_function" where
  "df_get_card_uid S handle timeout slot err =
     boundary err (invoke S handle timeout (\<lambda>E C opts.
       require (get_card_uid Uid_omit_option) (\<lambda>command.
         output_bytes slot (run_command E C command opts))))"

definition df_read_originality_signature ::
  "'h c_services \<Rightarrow> u64 \<Rightarrow> u32 \<Rightarrow> buffer_slot
     \<Rightarrow> c_error option \<Rightarrow> ('h, bytes) c_function" where
  "df_read_originality_signature S handle timeout slot err =
     boundary err (invoke S handle timeout (\<lambda>E C opts.
       require read_originality_signature (\<lambda>command.
         output_bytes slot (run_command E C command opts))))"

definition df_abort_transaction ::
  "'h c_services \<Rightarrow> u64 \<Rightarrow> u32 \<Rightarrow> c_error option
     \<Rightarrow> ('h, unit) c_function" where
  "df_abort_transaction S handle timeout err =
     boundary err (invoke S handle timeout (\<lambda>E C opts.
       require abort_transaction (\<lambda>command.
         run_command_void E C command opts)))"

definition df_format_picc ::
  "'h c_services \<Rightarrow> u64 \<Rightarrow> u32 \<Rightarrow> c_error option
     \<Rightarrow> ('h, unit) c_function" where
  "df_format_picc S handle timeout err =
     boundary err (invoke S handle timeout (\<lambda>E C opts.
       require format_picc (\<lambda>command.
         run_command_void E C command opts)))"

definition df_delete_file ::
  "'h c_services \<Rightarrow> u64 \<Rightarrow> u32 \<Rightarrow> u32 \<Rightarrow> c_error option
     \<Rightarrow> ('h, unit) c_function" where
  "df_delete_file S handle file_no timeout err =
     boundary err (invoke S handle timeout (\<lambda>E C opts.
       require (file_number_make file_no) (\<lambda>f.
       require (delete_file f) (\<lambda>command.
         run_command_void E C command opts))))"

definition df_get_file_settings ::
  "'h c_services \<Rightarrow> u64 \<Rightarrow> u32 \<Rightarrow> u32 \<Rightarrow> buffer_slot
     \<Rightarrow> c_error option \<Rightarrow> ('h, bytes) c_function" where
  "df_get_file_settings S handle file_no timeout slot err =
     boundary err (invoke S handle timeout (\<lambda>E C opts.
       require (file_number_make file_no) (\<lambda>f.
       require (get_file_settings f) (\<lambda>command.
         output_bytes slot (run_command E C command opts)))))"

definition df_clear_record_file ::
  "'h c_services \<Rightarrow> u64 \<Rightarrow> u32 \<Rightarrow> u32 \<Rightarrow> c_error option
     \<Rightarrow> ('h, unit) c_function" where
  "df_clear_record_file S handle file_no timeout err =
     boundary err (invoke S handle timeout (\<lambda>E C opts.
       require (file_number_make file_no) (\<lambda>f.
       require (clear_record_file f) (\<lambda>command.
         run_command_void E C command opts))))"

definition df_get_file_counters ::
  "'h c_services \<Rightarrow> u64 \<Rightarrow> u32 \<Rightarrow> u32 \<Rightarrow> u32
     \<Rightarrow> buffer_slot \<Rightarrow> c_error option \<Rightarrow> ('h, bytes) c_function" where
  "df_get_file_counters S handle file_no communication timeout slot err =
     boundary err (invoke S handle timeout (\<lambda>E C opts.
       require (file_number_make file_no) (\<lambda>f.
       require (mode_in communication) (\<lambda>m.
       require (get_file_counters f m) (\<lambda>command.
         output_bytes slot (run_command E C command opts))))))"

definition df_delete_application ::
  "'h c_services \<Rightarrow> u64 \<Rightarrow> u32 \<Rightarrow> u32 \<Rightarrow> c_error option
     \<Rightarrow> ('h, unit) c_function" where
  "df_delete_application S handle aid timeout err =
     boundary err (invoke S handle timeout (\<lambda>E C opts.
       require (application_id_make aid) (\<lambda>a.
       require (delete_application a) (\<lambda>command.
         run_command_void E C command opts))))"

definition df_change_key_settings ::
  "'h c_services \<Rightarrow> u64 \<Rightarrow> u32 \<Rightarrow> u32 \<Rightarrow> c_error option
     \<Rightarrow> ('h, unit) c_function" where
  "df_change_key_settings S handle settings timeout err =
     boundary err (invoke S handle timeout (\<lambda>E C opts.
       if settings > 255 then refuse (invalid (STR ''Key settings exceed one byte''))
       else
       require (change_key_settings (ucast settings)) (\<lambda>command.
         run_command_void E C command opts)))"

definition df_get_key_version ::
  "'h c_services \<Rightarrow> u64 \<Rightarrow> u32 \<Rightarrow> i32 \<Rightarrow> u32
     \<Rightarrow> buffer_slot \<Rightarrow> c_error option \<Rightarrow> ('h, bytes) c_function" where
  "df_get_key_version S handle number key_set timeout slot err =
     boundary err (invoke S handle timeout (\<lambda>E C opts.
       require (key_number_make number) (\<lambda>k.
       if sint key_set < -1 \<or> sint key_set > 255 then refuse (invalid (STR ''Invalid key set''))
       else
       require (get_key_version k (if 0 \<le> sint key_set then Some (ucast key_set) else None)) (\<lambda>command.
         output_bytes slot (run_command E C command opts)))))"

definition df_initialize_key_set ::
  "'h c_services \<Rightarrow> u64 \<Rightarrow> u32 \<Rightarrow> u32 \<Rightarrow> c_error option
     \<Rightarrow> ('h, unit) c_function" where
  "df_initialize_key_set S handle key_set timeout err =
     boundary err (invoke S handle timeout (\<lambda>E C opts.
       if key_set > 255 then refuse (invalid (STR ''Invalid key set''))
       else
       require (initialize_key_set (ucast key_set)) (\<lambda>command.
         run_command_void E C command opts)))"

definition df_roll_key_set ::
  "'h c_services \<Rightarrow> u64 \<Rightarrow> u32 \<Rightarrow> u32 \<Rightarrow> c_error option
     \<Rightarrow> ('h, unit) c_function" where
  "df_roll_key_set S handle key_set timeout err =
     boundary err (invoke S handle timeout (\<lambda>E C opts.
       if key_set > 255 then refuse (invalid (STR ''Invalid key set''))
       else
       require (roll_key_set (ucast key_set)) (\<lambda>command.
         run_command_void E C command opts)))"

definition df_finalize_key_set ::
  "'h c_services \<Rightarrow> u64 \<Rightarrow> u32 \<Rightarrow> u32 \<Rightarrow> u32
     \<Rightarrow> c_error option \<Rightarrow> ('h, unit) c_function" where
  "df_finalize_key_set S handle key_set version timeout err =
     boundary err (invoke S handle timeout (\<lambda>E C opts.
       if key_set > 255 \<or> version > 255 then refuse (invalid (STR ''Invalid key set/version''))
       else
       require (finalize_key_set (ucast key_set) (ucast version)) (\<lambda>command.
         run_command_void E C command opts)))"

definition df_read_data ::
  "'h c_services \<Rightarrow> u64 \<Rightarrow> u32 \<Rightarrow> u32 \<Rightarrow> u32
     \<Rightarrow> u32 \<Rightarrow> u32 \<Rightarrow> buffer_slot \<Rightarrow> c_error option
     \<Rightarrow> ('h, bytes) c_function" where
  "df_read_data S handle file_no off len communication timeout slot err =
     boundary err (invoke S handle timeout (\<lambda>E C opts.
       require (file_number_make file_no) (\<lambda>f.
       require (mode_in communication) (\<lambda>m.
       require (offset_make off) (\<lambda>p.
       require (byte_count_make len) (\<lambda>n.
       require (read_data f p n m) (\<lambda>command.
         output_bytes slot (run_command E C command opts))))))))"

definition df_write_data ::
  "'h c_services \<Rightarrow> u64 \<Rightarrow> u32 \<Rightarrow> u32 \<Rightarrow> c_bytes
     \<Rightarrow> u32 \<Rightarrow> u32 \<Rightarrow> c_error option
     \<Rightarrow> ('h, unit) c_function" where
  "df_write_data S handle file_no off data communication timeout err =
     boundary err (invoke S handle timeout (\<lambda>E C opts.
       require (file_number_make file_no) (\<lambda>f.
       require (mode_in communication) (\<lambda>m.
       require (offset_make off) (\<lambda>p.
       require (bytes_in data) (\<lambda>d.
       require (write_data f p d m) (\<lambda>command.
         run_command_void E C command opts)))))))"

definition df_write_record ::
  "'h c_services \<Rightarrow> u64 \<Rightarrow> u32 \<Rightarrow> u32 \<Rightarrow> c_bytes
     \<Rightarrow> u32 \<Rightarrow> u32 \<Rightarrow> c_error option
     \<Rightarrow> ('h, unit) c_function" where
  "df_write_record S handle file_no off data communication timeout err =
     boundary err (invoke S handle timeout (\<lambda>E C opts.
       require (file_number_make file_no) (\<lambda>f.
       require (mode_in communication) (\<lambda>m.
       require (offset_make off) (\<lambda>p.
       require (bytes_in data) (\<lambda>d.
       require (write_record f p d m) (\<lambda>command.
         run_command_void E C command opts)))))))"

definition df_read_records ::
  "'h c_services \<Rightarrow> u64 \<Rightarrow> u32 \<Rightarrow> u32 \<Rightarrow> u32
     \<Rightarrow> u32 \<Rightarrow> u32 \<Rightarrow> buffer_slot \<Rightarrow> c_error option
     \<Rightarrow> ('h, bytes) c_function" where
  "df_read_records S handle file_no first count communication timeout slot err =
     boundary err (invoke S handle timeout (\<lambda>E C opts.
       require (file_number_make file_no) (\<lambda>f.
       require (mode_in communication) (\<lambda>m.
       require (offset_make first) (\<lambda>p.
       require (byte_count_make count) (\<lambda>n.
       require (read_records f p n m maximum_logical_response) (\<lambda>command.
         output_bytes slot (run_command E C command opts))))))))"

definition df_update_record ::
  "'h c_services \<Rightarrow> u64 \<Rightarrow> u32 \<Rightarrow> u32 \<Rightarrow> u32
     \<Rightarrow> c_bytes \<Rightarrow> u32 \<Rightarrow> u32 \<Rightarrow> c_error option
     \<Rightarrow> ('h, unit) c_function" where
  "df_update_record S handle file_no record_no off data communication timeout err =
     boundary err (invoke S handle timeout (\<lambda>E C opts.
       require (file_number_make file_no) (\<lambda>f.
       require (mode_in communication) (\<lambda>m.
       require (offset_make record_no) (\<lambda>r.
       require (offset_make off) (\<lambda>p.
       require (bytes_in data) (\<lambda>d.
       require (update_record f r p d m) (\<lambda>command.
         run_command_void E C command opts))))))))"

definition df_credit ::
  "'h c_services \<Rightarrow> u64 \<Rightarrow> u32 \<Rightarrow> u32 \<Rightarrow> u32
     \<Rightarrow> u32 \<Rightarrow> c_error option \<Rightarrow> ('h, unit) c_function" where
  "df_credit S handle file_no amount communication timeout err =
     boundary err (invoke S handle timeout (\<lambda>E C opts.
       require (file_number_make file_no) (\<lambda>f.
       require (mode_in communication) (\<lambda>m.
       require (credit f amount m) (\<lambda>command.
         run_command_void E C command opts)))))"

definition df_debit ::
  "'h c_services \<Rightarrow> u64 \<Rightarrow> u32 \<Rightarrow> u32 \<Rightarrow> u32
     \<Rightarrow> u32 \<Rightarrow> c_error option \<Rightarrow> ('h, unit) c_function" where
  "df_debit S handle file_no amount communication timeout err =
     boundary err (invoke S handle timeout (\<lambda>E C opts.
       require (file_number_make file_no) (\<lambda>f.
       require (mode_in communication) (\<lambda>m.
       require (debit f amount m) (\<lambda>command.
         run_command_void E C command opts)))))"

definition df_limited_credit ::
  "'h c_services \<Rightarrow> u64 \<Rightarrow> u32 \<Rightarrow> u32 \<Rightarrow> u32
     \<Rightarrow> u32 \<Rightarrow> c_error option \<Rightarrow> ('h, unit) c_function" where
  "df_limited_credit S handle file_no amount communication timeout err =
     boundary err (invoke S handle timeout (\<lambda>E C opts.
       require (file_number_make file_no) (\<lambda>f.
       require (mode_in communication) (\<lambda>m.
       require (limited_credit f amount m) (\<lambda>command.
         run_command_void E C command opts)))))"

definition df_commit_transaction ::
  "'h c_services \<Rightarrow> u64 \<Rightarrow> u32 \<Rightarrow> u32 \<Rightarrow> buffer_slot
     \<Rightarrow> c_error option \<Rightarrow> ('h, bytes) c_function" where
  "df_commit_transaction S handle return_mac timeout slot err =
     boundary err (invoke S handle timeout (\<lambda>E C opts.
       if return_mac > 1 then refuse (invalid (STR ''Return MAC must be boolean''))
       else
       require (commit_transaction (return_mac \<noteq> 0)) (\<lambda>command.
         output_bytes slot (run_command E C command opts))))"

definition df_commit_reader_id ::
  "'h c_services \<Rightarrow> u64 \<Rightarrow> c_bytes \<Rightarrow> u32 \<Rightarrow> buffer_slot
     \<Rightarrow> c_error option \<Rightarrow> ('h, bytes) c_function" where
  "df_commit_reader_id S handle reader_id timeout slot err =
     boundary err (invoke S handle timeout (\<lambda>E C opts.
       require (bytes_in reader_id) (\<lambda>d.
       require (commit_reader_id d) (\<lambda>command.
         output_bytes slot (run_command E C command opts)))))"

definition df_create_application ::
  "'h c_services \<Rightarrow> u64 \<Rightarrow> u32 \<Rightarrow> u32 \<Rightarrow> u32
     \<Rightarrow> i32 \<Rightarrow> c_bytes \<Rightarrow> u32 \<Rightarrow> c_error option
     \<Rightarrow> ('h, unit) c_function" where
  "df_create_application S handle aid key_settings key_count iso_id df_name timeout err =
     boundary err (invoke S handle timeout (\<lambda>E C opts.
       require (application_id_make aid) (\<lambda>a.
       if key_settings > 255 \<or> key_count > 255 \<or> sint iso_id < -1 \<or> sint iso_id > 65535 then refuse (invalid (STR ''Invalid application configuration''))
       else
       require (bytes_in df_name) (\<lambda>n.
       require (create_application \<lparr>ac_id = a, ac_key_settings = ucast key_settings,
           ac_number_of_keys = ucast key_count, ac_iso_file_identifiers = (0 \<le> sint iso_id),
           ac_key_settings3 = None, ac_key_sets = None,
           ac_iso_id = (if 0 \<le> sint iso_id then Some (ucast iso_id) else None), ac_df_name = n\<rparr>) (\<lambda>command.
         run_command_void E C command opts)))))"

definition df_create_data_file ::
  "'h c_services \<Rightarrow> u64 \<Rightarrow> u32 \<Rightarrow> u32 \<Rightarrow> u32
     \<Rightarrow> u32 \<Rightarrow> i32 \<Rightarrow> u32 \<Rightarrow> u32
     \<Rightarrow> c_error option \<Rightarrow> ('h, unit) c_function" where
  "df_create_data_file S handle file_no len communication access iso_id backup timeout err =
     boundary err (invoke S handle timeout (\<lambda>E C opts.
       require (file_number_make file_no) (\<lambda>f.
       require (mode_in communication) (\<lambda>m.
       require (access_rights_from_c access) (\<lambda>rights.
       require (byte_count_make len) (\<lambda>n.
       if sint iso_id < -1 \<or> sint iso_id > 65535 \<or> backup > 1 then refuse (invalid (STR ''Invalid data file configuration''))
       else
       require (create_data_file \<lparr>df_file = f, df_size = n, df_communication = m, df_access = rights,
           df_iso_id = (if 0 \<le> sint iso_id then Some (ucast iso_id) else None),
           df_backup = (backup \<noteq> 0), df_additional_access_rights = False\<rparr>) (\<lambda>command.
         run_command_void E C command opts)))))))"

definition df_create_value_file ::
  "'h c_services \<Rightarrow> u64 \<Rightarrow> u32 \<Rightarrow> i32 \<Rightarrow> i32
     \<Rightarrow> i32 \<Rightarrow> u32 \<Rightarrow> u32 \<Rightarrow> u32 \<Rightarrow> u32
     \<Rightarrow> u32 \<Rightarrow> c_error option \<Rightarrow> ('h, unit) c_function" where
  "df_create_value_file S handle file_no lower_limit upper_limit initial_value communication access limited free_get_value timeout err =
     boundary err (invoke S handle timeout (\<lambda>E C opts.
       require (file_number_make file_no) (\<lambda>f.
       require (mode_in communication) (\<lambda>m.
       require (access_rights_from_c access) (\<lambda>rights.
       if limited > 1 \<or> free_get_value > 1 then refuse (invalid (STR ''Flags must be boolean''))
       else
       require (create_value_file \<lparr>vf_file = f, vf_lower_limit = lower_limit, vf_upper_limit = upper_limit,
           vf_initial_value = initial_value, vf_communication = m, vf_access = rights,
           vf_limited_credit_enabled = (limited \<noteq> 0), vf_free_get_value = (free_get_value \<noteq> 0),
           vf_additional_access_rights = False\<rparr>) (\<lambda>command.
         run_command_void E C command opts))))))"

definition df_create_record_file ::
  "'h c_services \<Rightarrow> u64 \<Rightarrow> u32 \<Rightarrow> u32 \<Rightarrow> u32
     \<Rightarrow> u32 \<Rightarrow> u32 \<Rightarrow> i32 \<Rightarrow> u32 \<Rightarrow> u32
     \<Rightarrow> c_error option \<Rightarrow> ('h, unit) c_function" where
  "df_create_record_file S handle file_no record_size maximum_records communication access iso_id cyclic timeout err =
     boundary err (invoke S handle timeout (\<lambda>E C opts.
       require (file_number_make file_no) (\<lambda>f.
       require (mode_in communication) (\<lambda>m.
       require (access_rights_from_c access) (\<lambda>rights.
       require (byte_count_make record_size) (\<lambda>n.
       require (byte_count_make maximum_records) (\<lambda>count.
       if sint iso_id < -1 \<or> sint iso_id > 65535 \<or> cyclic > 1 then refuse (invalid (STR ''Invalid record configuration''))
       else
       require (create_record_file \<lparr>rf_file = f, rf_record_size = n, rf_maximum_records = count,
           rf_communication = m, rf_access = rights,
           rf_iso_id = (if 0 \<le> sint iso_id then Some (ucast iso_id) else None),
           rf_cyclic = (cyclic \<noteq> 0), rf_additional_access_rights = False\<rparr>) (\<lambda>command.
         run_command_void E C command opts))))))))"

definition df_change_file_settings ::
  "'h c_services \<Rightarrow> u64 \<Rightarrow> u32 \<Rightarrow> u32 \<Rightarrow> u32
     \<Rightarrow> u32 \<Rightarrow> u32 \<Rightarrow> c_error option
     \<Rightarrow> ('h, unit) c_function" where
  "df_change_file_settings S handle file_no communication access command_communication timeout err =
     boundary err (invoke S handle timeout (\<lambda>E C opts.
       require (file_number_make file_no) (\<lambda>f.
       require (mode_in communication) (\<lambda>m.
       require (access_rights_from_c access) (\<lambda>rights.
       require (mode_in command_communication) (\<lambda>policy.
       require (change_file_settings \<lparr>fc_file = f, fc_communication = m, fc_access = rights,
           fc_additional_access = [], fc_transaction_counter_limit = None,
           fc_command_communication = policy\<rparr>) (\<lambda>command.
         run_command_void E C command opts)))))))"

definition df_create_transaction_mac_file ::
  "'h c_services \<Rightarrow> u64 \<Rightarrow> u32 \<Rightarrow> u32 \<Rightarrow> c_bytes
     \<Rightarrow> u32 \<Rightarrow> u32 \<Rightarrow> c_error option
     \<Rightarrow> ('h, unit) c_function" where
  "df_create_transaction_mac_file S handle file_no access key version timeout err =
     boundary err (invoke S handle timeout (\<lambda>E C opts.
       require (file_number_make file_no) (\<lambda>f.
       require (access_rights_from_c access) (\<lambda>rights.
       require (bytes_in key) (\<lambda>k.
       if version > 255 then refuse (invalid (STR ''Invalid key version''))
       else
       require (create_transaction_mac_file f rights k (ucast version)) (\<lambda>command.
         run_command_void E C command opts))))))"

definition df_change_aes_key ::
  "'h c_services \<Rightarrow> u64 \<Rightarrow> u32 \<Rightarrow> c_bytes \<Rightarrow> u32
     \<Rightarrow> u32 \<Rightarrow> c_bytes \<Rightarrow> i32 \<Rightarrow> u32 \<Rightarrow> u32
     \<Rightarrow> c_error option \<Rightarrow> ('h, unit) c_function" where
  "df_change_aes_key S handle number new_key version authenticated_key old_key key_set picc_master timeout err =
     boundary err (invoke S handle timeout (\<lambda>E C opts.
       require (key_number_make number) (\<lambda>k.
       require (key_number_make authenticated_key) (\<lambda>current.
       require (bytes_in new_key) (\<lambda>n.
       require (bytes_in old_key) (\<lambda>old.
       if version > 255 \<or> sint key_set < -1 \<or> sint key_set > 255 \<or> picc_master > 1 then refuse (invalid (STR ''Invalid key configuration''))
       else
       require (change_aes_key k n (ucast version) current old
           (if 0 \<le> sint key_set then Some (ucast key_set) else None) (picc_master \<noteq> 0)) (\<lambda>command.
         run_command_void E C command opts)))))))"

definition df_get_value ::
  "'h c_services \<Rightarrow> u64 \<Rightarrow> u32 \<Rightarrow> u32 \<Rightarrow> u32 \<Rightarrow> bool \<Rightarrow> c_error option \<Rightarrow> ('h, u32) c_function" where
  "df_get_value S handle file_no communication timeout has_output err =
     boundary err (invoke S handle timeout (\<lambda>E C opts.
       if \<not> has_output then refuse (invalid (STR ''Output is required''))
       else require (file_number_make file_no) (\<lambda>f.
       require (mode_in communication) (\<lambda>m.
       require (get_value f m) (\<lambda>command.
         act_bind (run_command E C command opts) (\<lambda>response. act_require (parse_value response)))))))"

end
