(* ===== verification/C_Managed.thy ===== *)
theory C_Managed
  imports C_Native
begin

text \<open>
  The remaining functions of the C interface on managed cards: delegated applications, provider-held
  keys and transactions (\<^verbatim>\<open>c-api/src/managed_advanced.cpp\<close>), names, configuration and defaults
  (\<^verbatim>\<open>managed_extended.cpp\<close>), and ISO commands (\<^verbatim>\<open>iso.cpp\<close>).
\<close>

section \<open>Delegated applications\<close>

definition optional_byte :: "i32 \<Rightarrow> byte option" where
  "optional_byte v = (if sint v < 0 then None else Some (ucast v))"

definition optional_u16 :: "i32 \<Rightarrow> u16 option" where
  "optional_u16 v = (if sint v < 0 then None else Some (ucast v))"

definition df_create_delegated_application ::
  "'h c_services \<Rightarrow> u64 \<Rightarrow> u32 \<Rightarrow> u32 \<Rightarrow> u32 \<Rightarrow> u32 \<Rightarrow> u32 \<Rightarrow> u32 \<Rightarrow> u32 \<Rightarrow> i32 \<Rightarrow> i32
     \<Rightarrow> c_bytes \<Rightarrow> c_bytes \<Rightarrow> c_bytes \<Rightarrow> u32 \<Rightarrow> c_error option \<Rightarrow> ('h, unit) c_function" where
  "df_create_delegated_application S handle aid key_settings number_of_keys slot slot_version quota_limit
     iso_file_identifiers key_settings3 iso_id df_name encrypted_default_key dam_mac timeout err =
     boundary err
       (require (bytes_in df_name) (\<lambda>name.
        require (bytes_in encrypted_default_key) (\<lambda>encrypted.
        require (bytes_in dam_mac) (\<lambda>mac.
        require (application_id_make aid) (\<lambda>application.
        if key_settings > 0xFF \<or> number_of_keys > 0xFF \<or> slot > 0xFFFF \<or> slot_version > 0xFF \<or>
           quota_limit > 0xFFFF \<or> iso_file_identifiers > 1 \<or> sint key_settings3 < -1 \<or>
           sint key_settings3 > 0xFF \<or> sint iso_id < -1 \<or> sint iso_id > 0xFFFF
        then refuse (invalid (STR ''Invalid delegated-application configuration''))
        else let settings =
               \<lparr>dc_application =
                  \<lparr>ac_id = application, ac_key_settings = ucast key_settings,
                   ac_number_of_keys = ucast number_of_keys,
                   ac_iso_file_identifiers = (iso_file_identifiers \<noteq> 0),
                   ac_key_settings3 = optional_byte key_settings3, ac_key_sets = None,
                   ac_iso_id = optional_u16 iso_id, ac_df_name = name\<rparr>,
                dc_slot = ucast slot, dc_slot_version = ucast slot_version,
                dc_quota_limit = ucast quota_limit\<rparr>
        in invoke S handle timeout (\<lambda>E C opts.
             on_card (card_create_delegated_application E C settings encrypted mac opts)))))))"

text \<open>\<^verbatim>\<open>df_delegated_application_info_v1\<close>.\<close>

record delegated_output =
  do_struct_size :: u32
  do_abi_version :: u32
  do_slot_version :: u32
  do_quota_limit :: u32
  do_free_blocks :: u32
  do_application_id :: u32
  do_reserved :: "u64 list"

definition sizeof_delegated_info :: u32 where
  "sizeof_delegated_info = 88"

definition fill_delegated_output :: "delegated_application_info \<Rightarrow> delegated_output \<Rightarrow> delegated_output" where
  "fill_delegated_output info out =
     out\<lparr>do_slot_version := ucast (di_slot_version info), do_quota_limit := ucast (di_quota_limit info),
         do_free_blocks := ucast (di_free_blocks info), do_application_id := di_application info\<rparr>"

definition df_get_delegated_application_info ::
  "'h c_services \<Rightarrow> u64 \<Rightarrow> u32 \<Rightarrow> u32 \<Rightarrow> delegated_output option \<Rightarrow> c_error option
     \<Rightarrow> ('h, delegated_output) c_function" where
  "df_get_delegated_application_info S handle slot timeout output err =
     boundary err
       (case output of
          None \<Rightarrow> refuse (invalid (STR ''Invalid delegated-information output descriptor''))
        | Some out \<Rightarrow>
            if do_struct_size out \<noteq> sizeof_delegated_info \<or> do_abi_version out \<noteq> df_abi_version \<or>
               slot > 0xFFFF \<or> \<not> reserved_is_zero (do_reserved out)
            then refuse (invalid (STR ''Invalid delegated-information output descriptor''))
            else invoke S handle timeout (\<lambda>E C opts.
              act_bind (on_card (card_delegated_application_info E C (ucast slot) opts))
                (\<lambda>info. act_return (fill_delegated_output info out))))"

definition df_delete_delegated_application ::
  "'h c_services \<Rightarrow> u64 \<Rightarrow> u32 \<Rightarrow> c_bytes \<Rightarrow> u32 \<Rightarrow> c_error option \<Rightarrow> ('h, unit) c_function" where
  "df_delete_delegated_application S handle aid dam_mac timeout err =
     boundary err
       (require (application_id_make aid) (\<lambda>application.
        require (bytes_in dam_mac) (\<lambda>mac.
          invoke S handle timeout (\<lambda>E C opts.
            on_card (card_delete_delegated_application E C application mac opts)))))"

section \<open>Provider-held keys\<close>

text \<open>\<^verbatim>\<open>request ? request->key_number : 0\<close>.\<close>

definition requested_key :: "'h c_key_request option \<Rightarrow> u32" where
  "requested_key request = (case request of None \<Rightarrow> 0 | Some q \<Rightarrow> cq_key_number q)"

definition df_create_transaction_mac_file_provider ::
  "'h c_services \<Rightarrow> u64 \<Rightarrow> u32 \<Rightarrow> u32 \<Rightarrow> 'h c_key_provider option \<Rightarrow> 'h c_key_request option \<Rightarrow> u32 \<Rightarrow> u32
     \<Rightarrow> c_error option \<Rightarrow> ('h, unit) c_function" where
  "df_create_transaction_mac_file_provider S handle file_no access provider request version timeout err =
     boundary err
       (require (file_number_make file_no) (\<lambda>f.
        require (access_rights_from_c access) (\<lambda>rights.
        if version > 0xFF then refuse (invalid (STR ''Transaction-MAC key version exceeds one byte''))
        else act_bind (on_host (make_purpose_request request purpose_transaction_mac scope_native
                                  (requested_key request))) (\<lambda>checked.
          with_adapter provider request 0 (\<lambda>adapter.
            invoke S handle timeout (\<lambda>E C opts.
              act_bind (on_entry_host (adapter_resolve adapter)) (\<lambda>key.
                on_card (card_create_transaction_mac_file E C f rights key (ucast version) opts))))))))"

definition df_change_aes_key_provider ::
  "'h c_services \<Rightarrow> u64 \<Rightarrow> u32 \<Rightarrow> 'h c_key_provider option \<Rightarrow> 'h c_key_request option \<Rightarrow> u32 \<Rightarrow> u32
     \<Rightarrow> 'h c_key_provider option \<Rightarrow> 'h c_key_request option \<Rightarrow> i32 \<Rightarrow> u32 \<Rightarrow> u32 \<Rightarrow> c_error option
     \<Rightarrow> ('h, unit) c_function" where
  "df_change_aes_key_provider S handle number new_provider new_request version authenticated_key
     old_provider old_request key_set picc_master timeout err =
     boundary err
       (if version > 0xFF \<or> sint key_set < -1 \<or> sint key_set > 15 \<or> picc_master > 1 \<or>
           (old_provider = None) \<noteq> (old_request = None)
        then refuse (invalid (STR ''Invalid AES key-change provider configuration''))
        else
        require (key_number_make number) (\<lambda>target.
        require (key_number_make authenticated_key) (\<lambda>current.
        act_bind (on_host (make_purpose_request new_request purpose_replacement_key scope_native number)) (\<lambda>_.
        with_adapter new_provider new_request 0 (\<lambda>new_adapter.
          let change = (\<lambda>resolve_old. invoke S handle timeout (\<lambda>E C opts.
                act_bind (on_entry_host (adapter_resolve new_adapter)) (\<lambda>replacement.
                act_bind resolve_old (\<lambda>old_key.
                  on_card (card_change_aes_key E C target replacement (ucast version) current old_key
                             (optional_byte key_set) (picc_master \<noteq> 0) opts)))))
          in if old_request = None then change (act_return [])
             else act_bind (on_host (make_purpose_request old_request purpose_current_key scope_native number))
               (\<lambda>_. with_adapter old_provider old_request 1 (\<lambda>old_adapter.
                  change (on_entry_host (adapter_resolve old_adapter)))))))))"

section \<open>Transactions\<close>

text \<open>\<^verbatim>\<open>df_transaction_operation_v1\<close>.\<close>

record c_transaction_operation =
  to_struct_size :: u32
  to_abi_version :: u32
  to_kind :: u32
  to_file :: u32
  to_communication :: u32
  to_offset :: u32
  to_record :: u32
  to_amount :: u32
  to_data :: c_bytes
  to_reserved :: "u64 list"

definition sizeof_transaction_operation :: u32 where
  "sizeof_transaction_operation = 112"

text \<open>The \<^verbatim>\<open>switch\<close> over the kinds, with the fields each kind must leave zero.\<close>

definition operation_command ::
  "c_transaction_operation \<Rightarrow> file_number \<Rightarrow> communication_mode \<Rightarrow> offset \<Rightarrow> offset \<Rightarrow> bytes \<Rightarrow> command result" where
  "operation_command input file mode off record_no data =
     (if to_kind input = 1
      then if to_amount input \<noteq> 0 \<or> to_record input \<noteq> 0
           then Inl (invalid (STR ''Write-data transaction has unexpected scalar fields''))
           else write_data file off data mode
      else if to_kind input = 2
      then if to_offset input \<noteq> 0 \<or> to_record input \<noteq> 0 \<or> c_size (to_data input) \<noteq> 0
           then Inl (invalid (STR ''Credit transaction has unexpected data fields''))
           else credit file (to_amount input) mode
      else if to_kind input = 3
      then if to_offset input \<noteq> 0 \<or> to_record input \<noteq> 0 \<or> c_size (to_data input) \<noteq> 0
           then Inl (invalid (STR ''Debit transaction has unexpected data fields''))
           else debit file (to_amount input) mode
      else if to_kind input = 4
      then if to_offset input \<noteq> 0 \<or> to_record input \<noteq> 0 \<or> c_size (to_data input) \<noteq> 0
           then Inl (invalid (STR ''Limited-credit transaction has unexpected data fields''))
           else limited_credit file (to_amount input) mode
      else if to_kind input = 5
      then if to_amount input \<noteq> 0 \<or> to_record input \<noteq> 0
           then Inl (invalid (STR ''Write-record transaction has unexpected scalar fields''))
           else write_record file off data mode
      else if to_kind input = 6
      then if to_amount input \<noteq> 0
           then Inl (invalid (STR ''Update-record transaction has an unexpected amount''))
           else update_record file record_no off data mode
      else if to_kind input = 7
      then if to_amount input \<noteq> 0 \<or> to_offset input \<noteq> 0 \<or> to_record input \<noteq> 0 \<or> c_size (to_data input) \<noteq> 0
           then Inl (invalid (STR ''Clear-record transaction has unexpected fields''))
           else clear_record_file file
      else Inl (invalid (STR ''Unknown transaction operation kind'')))"

definition decode_operation :: "c_transaction_operation \<Rightarrow> command result" where
  "decode_operation input =
     (if to_struct_size input \<noteq> sizeof_transaction_operation \<or> to_abi_version input \<noteq> df_abi_version \<or>
         \<not> reserved_is_zero (to_reserved input)
      then Inl (invalid (STR ''Invalid transaction operation descriptor''))
      else result_bind (file_number_make (to_file input)) (\<lambda>file.
           result_bind (mode_in (to_communication input)) (\<lambda>mode.
           result_bind (offset_make (to_offset input)) (\<lambda>off.
           result_bind (offset_make (to_record input)) (\<lambda>record_no.
           result_bind (bytes_in (to_data input)) (\<lambda>data.
             operation_command input file mode off record_no data))))))"

text \<open>The loop that fills the plan.\<close>

fun plan_operations :: "c_transaction_operation list \<Rightarrow> owned_command list \<Rightarrow> owned_command list result" where
  "plan_operations [] plan = Inr plan"
| "plan_operations (input # rest) plan =
     (case decode_operation input of
        Inl e \<Rightarrow> Inl e
      | Inr command \<Rightarrow>
          (case plan_add (Some command) plan of
             (Inl e, plan1) \<Rightarrow> Inl e
           | (Inr _, plan1) \<Rightarrow> plan_operations rest plan1))"

definition df_execute_transaction ::
  "'h c_services \<Rightarrow> u64 \<Rightarrow> c_transaction_operation list option \<Rightarrow> u32 \<Rightarrow> u32 \<Rightarrow> buffer_slot
     \<Rightarrow> c_error option \<Rightarrow> ('h, bytes) c_function" where
  "df_execute_transaction S handle operations return_mac timeout slot err =
     boundary err
       (case operations of
          None \<Rightarrow> refuse (invalid (STR ''Transaction requires one through 128 operations''))
        | Some inputs \<Rightarrow>
            if inputs = [] \<or> length inputs > 128 \<or> return_mac > 1
            then refuse (invalid (STR ''Transaction requires one through 128 operations''))
            else require (plan_operations inputs []) (\<lambda>plan.
              output_bytes slot (invoke S handle timeout (\<lambda>E C opts.
                on_card (execute_transaction E C plan (return_mac \<noteq> 0) opts)))))"

section \<open>Names and configuration\<close>

definition df_name_bytes :: "df_name_info \<Rightarrow> bytes" where
  "df_name_bytes r =
     [ucast (dn_application r), ucast (drop_bit 8 (dn_application r)), ucast (drop_bit 16 (dn_application r)),
      ucast (drop_bit 8 (dn_iso_id r)), ucast (dn_iso_id r), of_nat (length (dn_name r))] @ dn_name r"

definition df_get_df_names ::
  "'h c_services \<Rightarrow> u64 \<Rightarrow> u32 \<Rightarrow> buffer_slot \<Rightarrow> c_error option \<Rightarrow> ('h, bytes) c_function" where
  "df_get_df_names S handle timeout slot err =
     boundary err (invoke S handle timeout (\<lambda>E C opts.
       output_bytes slot (act_bind (on_card (card_df_names E opts))
         (\<lambda>records. act_return (concat (map df_name_bytes records))))))"

definition df_reset_authentication ::
  "'h c_services \<Rightarrow> u64 \<Rightarrow> c_error option \<Rightarrow> ('h, unit) c_function" where
  "df_reset_authentication S handle err =
     boundary err (invoke S handle 5000 (\<lambda>E C opts. on_card reset_authentication))"

definition df_restore_transfer ::
  "'h c_services \<Rightarrow> u64 \<Rightarrow> u32 \<Rightarrow> u32 \<Rightarrow> u32 \<Rightarrow> u32 \<Rightarrow> c_error option \<Rightarrow> ('h, unit) c_function" where
  "df_restore_transfer S handle target_file source_file communication timeout err =
     boundary err
       (require (file_number_make target_file) (\<lambda>target.
        require (file_number_make source_file) (\<lambda>source.
        require (mode_in communication) (\<lambda>m.
          invoke S handle timeout (\<lambda>E C opts. on_card (card_restore_transfer E C target source m opts))))))"

definition uid_bytes :: "card_uid_info \<Rightarrow> bytes" where
  "uid_bytes u = cu_uid u @ (case cu_nuid u of None \<Rightarrow> [] | Some nuid \<Rightarrow> nuid)"

definition df_get_card_uid_variant ::
  "'h c_services \<Rightarrow> u64 \<Rightarrow> u32 \<Rightarrow> u32 \<Rightarrow> buffer_slot \<Rightarrow> c_error option \<Rightarrow> ('h, bytes) c_function" where
  "df_get_card_uid_variant S handle variant timeout slot err =
     boundary err
       (if variant > 2 then refuse (invalid (STR ''Unknown UID request option''))
        else invoke S handle timeout (\<lambda>E C opts.
          output_bytes slot
            (act_bind (on_card (card_uid E C
                 ([Uid_omit_option, Uid_without_nuid, Uid_with_nuid] ! unat variant) opts))
              (\<lambda>u. act_return (uid_bytes u)))))"

text \<open>\<^verbatim>\<open>df_picc_configuration_v1\<close>.\<close>

record c_picc_configuration =
  cp_struct_size :: u32
  cp_abi_version :: u32
  cp_disable_format :: u32
  cp_random_identifier :: u32
  cp_proximity_check_mandatory :: u32
  cp_virtual_card_authentication_mandatory :: u32
  cp_error_code_binding :: u32
  cp_random_identifier_configuration :: u32
  cp_four_byte_nuid_configuration :: u32
  cp_reserved :: "u64 list"

definition sizeof_picc_configuration :: u32 where
  "sizeof_picc_configuration = 104"

definition picc_configuration_in :: "c_picc_configuration option \<Rightarrow> picc_configuration result" where
  "picc_configuration_in descriptor =
     (case descriptor of
        None \<Rightarrow> Inl (invalid (STR ''Invalid PICC configuration descriptor''))
      | Some c \<Rightarrow>
          if cp_struct_size c \<noteq> sizeof_picc_configuration \<or> cp_abi_version c \<noteq> df_abi_version \<or>
             cp_disable_format c > 1 \<or> cp_random_identifier c > 1 \<or> cp_proximity_check_mandatory c > 1 \<or>
             cp_virtual_card_authentication_mandatory c > 1 \<or> cp_error_code_binding c > 1 \<or>
             cp_random_identifier_configuration c > 1 \<or> cp_four_byte_nuid_configuration c > 1 \<or>
             \<not> reserved_is_zero (cp_reserved c)
          then Inl (invalid (STR ''Invalid PICC configuration descriptor''))
          else Inr \<lparr>pc_disable_format = (cp_disable_format c \<noteq> 0),
                    pc_random_identifier = (cp_random_identifier c \<noteq> 0),
                    pc_proximity_check_mandatory = (cp_proximity_check_mandatory c \<noteq> 0),
                    pc_virtual_card_authentication_mandatory = (cp_virtual_card_authentication_mandatory c \<noteq> 0),
                    pc_error_code_binding = (cp_error_code_binding c \<noteq> 0),
                    pc_random_identifier_configuration = (cp_random_identifier_configuration c \<noteq> 0),
                    pc_four_byte_nuid_configuration = (cp_four_byte_nuid_configuration c \<noteq> 0)\<rparr>)"

definition df_set_picc_configuration ::
  "'h c_services \<Rightarrow> u64 \<Rightarrow> c_picc_configuration option \<Rightarrow> u32 \<Rightarrow> c_error option \<Rightarrow> ('h, unit) c_function" where
  "df_set_picc_configuration S handle descriptor timeout err =
     boundary err
       (require (picc_configuration_in descriptor) (\<lambda>checked.
          invoke S handle timeout (\<lambda>E C opts. on_card (card_set_picc_configuration E C checked opts))))"

definition df_set_capability_configuration ::
  "'h c_services \<Rightarrow> u64 \<Rightarrow> c_bytes \<Rightarrow> u32 \<Rightarrow> c_error option \<Rightarrow> ('h, unit) c_function" where
  "df_set_capability_configuration S handle capabilities timeout err =
     boundary err
       (require (bytes_in capabilities) (\<lambda>data.
        if length data \<noteq> 9 then refuse (invalid (STR ''Capability configuration must contain nine bytes''))
        else invoke S handle timeout (\<lambda>E C opts. on_card (card_set_capability_configuration E C data opts))))"

definition df_set_default_aes_key ::
  "'h c_services \<Rightarrow> u64 \<Rightarrow> c_bytes \<Rightarrow> u32 \<Rightarrow> u32 \<Rightarrow> c_error option \<Rightarrow> ('h, unit) c_function" where
  "df_set_default_aes_key S handle key key_version timeout err =
     boundary err
       (require (bytes_in key) (\<lambda>material.
        if length material \<noteq> 16 \<or> key_version > 0xFF
        then refuse (invalid (STR ''Default AES key requires sixteen bytes and one version byte''))
        else invoke S handle timeout (\<lambda>E C opts.
          on_card (card_set_default_aes_key E C material (ucast key_version) opts))))"

definition df_set_default_aes_key_provider ::
  "'h c_services \<Rightarrow> u64 \<Rightarrow> 'h c_key_provider option \<Rightarrow> 'h c_key_request option \<Rightarrow> u32 \<Rightarrow> u32
     \<Rightarrow> c_error option \<Rightarrow> ('h, unit) c_function" where
  "df_set_default_aes_key_provider S handle provider request key_version timeout err =
     boundary err
       (if key_version > 0xFF then refuse (invalid (STR ''Default AES key version exceeds one byte''))
        else act_bind (on_host (make_purpose_request request purpose_replacement_key scope_native
                                  (requested_key request))) (\<lambda>checked.
          with_adapter provider request 0 (\<lambda>adapter.
            invoke S handle timeout (\<lambda>E C opts.
              act_bind (on_entry_host (adapter_resolve adapter)) (\<lambda>key.
                on_card (card_set_default_aes_key E C key (ucast key_version) opts))))))"

definition df_set_ats ::
  "'h c_services \<Rightarrow> u64 \<Rightarrow> c_bytes \<Rightarrow> u32 \<Rightarrow> c_error option \<Rightarrow> ('h, unit) c_function" where
  "df_set_ats S handle ats timeout err =
     boundary err (require (bytes_in ats) (\<lambda>data.
       invoke S handle timeout (\<lambda>E C opts. on_card (card_set_ats E C data opts))))"

definition df_set_atqa ::
  "'h c_services \<Rightarrow> u64 \<Rightarrow> u32 \<Rightarrow> u32 \<Rightarrow> c_error option \<Rightarrow> ('h, unit) c_function" where
  "df_set_atqa S handle atqa timeout err =
     boundary err
       (if atqa > 0xFFFF then refuse (invalid (STR ''ATQA exceeds sixteen bits''))
        else invoke S handle timeout (\<lambda>E C opts. on_card (card_set_atqa E C (ucast atqa) opts)))"

section \<open>ISO commands\<close>

text \<open>\<^verbatim>\<open>card.iso_command(command, options)\<close>: only a successful status returns the data.\<close>

definition run_iso ::
  "'w environment \<Rightarrow> crypto_provider \<Rightarrow> iso_command \<Rightarrow> exchange_options \<Rightarrow> String.literal
     \<Rightarrow> (card_state \<times> 'w, bytes) action" where
  "run_iso E C command opts message =
     act_bind (on_card (iso_command E C command opts)) (\<lambda>response.
       if \<not> iso_success response
       then refuse (make_error EC_card_rejected message OC_rejected (ir_status response))
       else act_return (ir_data response))"

definition iso_rejected :: String.literal where
  "iso_rejected = STR ''ISO command rejected''"

text \<open>The casts of selectors that the caller has checked.\<close>

definition file_selection_in :: "u32 \<Rightarrow> file_selection" where
  "file_selection_in v =
     (if v = 0 then by_identifier else if v = 1 then child_df else if v = 2 then elementary_file
      else file_selection_other (ucast v))"

definition selection_response_in :: "u32 \<Rightarrow> selection_response" where
  "selection_response_in v = (if v = 0 then fci else if v = 12 then no_fci else selection_response_other (ucast v))"

definition record_selection_in :: "u32 \<Rightarrow> record_selection" where
  "record_selection_in v = (if v = 4 then one_record else if v = 5 then from_record else record_selection_other (ucast v))"

definition algorithm_in :: "u32 \<Rightarrow> iso_algorithm" where
  "algorithm_in v =
     (if v = 0 then algorithm_context else if v = 2 then algorithm_tdes2 else if v = 4 then algorithm_tdes3
      else if v = 9 then algorithm_aes128 else algorithm_other (ucast v))"

definition update_instruction_in :: "u32 \<Rightarrow> update_record_instruction" where
  "update_instruction_in v =
     (if v = 0xDC then update_record_dc else if v = 0xDD then update_record_dd else update_record_other (ucast v))"

definition df_iso_select_file ::
  "'h c_services \<Rightarrow> u64 \<Rightarrow> u32 \<Rightarrow> u32 \<Rightarrow> u32 \<Rightarrow> u32 \<Rightarrow> buffer_slot \<Rightarrow> c_error option \<Rightarrow> ('h, bytes) c_function" where
  "df_iso_select_file S handle identifier selection response timeout slot err =
     boundary err (invoke S handle timeout (\<lambda>E C opts.
       if selection > 2 \<or> (response \<noteq> 0 \<and> response \<noteq> 12)
       then refuse (invalid (STR ''Invalid ISO selection''))
       else require (iso_select_file identifier (file_selection_in selection) (selection_response_in response)
                       automatic) (\<lambda>command.
         output_bytes slot (run_iso E C command opts iso_rejected))))"

definition df_iso_select_df_name ::
  "'h c_services \<Rightarrow> u64 \<Rightarrow> c_bytes \<Rightarrow> u32 \<Rightarrow> u32 \<Rightarrow> buffer_slot \<Rightarrow> c_error option \<Rightarrow> ('h, bytes) c_function" where
  "df_iso_select_df_name S handle name response timeout slot err =
     boundary err (invoke S handle timeout (\<lambda>E C opts.
       require (bytes_in name) (\<lambda>data.
       if response \<noteq> 0 \<and> response \<noteq> 12 then refuse (invalid (STR ''Invalid ISO selection response''))
       else require (iso_select_df_name data (selection_response_in response) automatic) (\<lambda>command.
         output_bytes slot (run_iso E C command opts iso_rejected)))))"

definition binary_address_in :: "i32 \<Rightarrow> u32 \<Rightarrow> binary_address result" where
  "binary_address_in short_identifier off =
     (let address = (if sint short_identifier < 0 then current_file off else short_file short_identifier off)
      in if sint short_identifier < -1 then Inl (invalid (STR ''Invalid ISO short identifier'')) else address)"

definition df_iso_read_binary ::
  "'h c_services \<Rightarrow> u64 \<Rightarrow> i32 \<Rightarrow> u32 \<Rightarrow> u32 \<Rightarrow> u32 \<Rightarrow> buffer_slot \<Rightarrow> c_error option \<Rightarrow> ('h, bytes) c_function" where
  "df_iso_read_binary S handle short_identifier off len timeout slot err =
     boundary err (invoke S handle timeout (\<lambda>E C opts.
       require (binary_address_in short_identifier off) (\<lambda>address.
       require (iso_read_binary address len automatic) (\<lambda>command.
         output_bytes slot (run_iso E C command opts iso_rejected)))))"

definition df_iso_update_binary ::
  "'h c_services \<Rightarrow> u64 \<Rightarrow> i32 \<Rightarrow> u32 \<Rightarrow> c_bytes \<Rightarrow> u32 \<Rightarrow> buffer_slot \<Rightarrow> c_error option
     \<Rightarrow> ('h, bytes) c_function" where
  "df_iso_update_binary S handle short_identifier off data timeout slot err =
     boundary err (invoke S handle timeout (\<lambda>E C opts.
       require (binary_address_in short_identifier off) (\<lambda>address.
       require (bytes_in data) (\<lambda>d.
       require (iso_update_binary address d automatic) (\<lambda>command.
         output_bytes slot (run_iso E C command opts iso_rejected))))))"

definition df_iso_read_records ::
  "'h c_services \<Rightarrow> u64 \<Rightarrow> u32 \<Rightarrow> u32 \<Rightarrow> u32 \<Rightarrow> u32 \<Rightarrow> u32 \<Rightarrow> buffer_slot \<Rightarrow> c_error option
     \<Rightarrow> ('h, bytes) c_function" where
  "df_iso_read_records S handle record_no short_identifier selection len timeout slot err =
     boundary err (invoke S handle timeout (\<lambda>E C opts.
       if selection \<noteq> 4 \<and> selection \<noteq> 5 then refuse (invalid (STR ''Invalid record selector''))
       else require (iso_read_records record_no short_identifier (record_selection_in selection) len automatic)
         (\<lambda>command. output_bytes slot (run_iso E C command opts iso_rejected))))"

definition df_iso_append_record ::
  "'h c_services \<Rightarrow> u64 \<Rightarrow> u32 \<Rightarrow> c_bytes \<Rightarrow> u32 \<Rightarrow> buffer_slot \<Rightarrow> c_error option \<Rightarrow> ('h, bytes) c_function" where
  "df_iso_append_record S handle short_identifier data timeout slot err =
     boundary err (invoke S handle timeout (\<lambda>E C opts.
       require (bytes_in data) (\<lambda>d.
       require (iso_append_record short_identifier d automatic) (\<lambda>command.
         output_bytes slot (run_iso E C command opts iso_rejected)))))"

definition df_iso_get_challenge ::
  "'h c_services \<Rightarrow> u64 \<Rightarrow> u32 \<Rightarrow> u32 \<Rightarrow> buffer_slot \<Rightarrow> c_error option \<Rightarrow> ('h, bytes) c_function" where
  "df_iso_get_challenge S handle len timeout slot err =
     boundary err (invoke S handle timeout (\<lambda>E C opts.
       require (iso_get_challenge len automatic) (\<lambda>command.
         output_bytes slot (run_iso E C command opts iso_rejected))))"

definition algorithm_refused :: "u32 \<Rightarrow> bool" where
  "algorithm_refused algorithm = (algorithm \<noteq> 0 \<and> algorithm \<noteq> 2 \<and> algorithm \<noteq> 4 \<and> algorithm \<noteq> 9)"

definition df_iso_external_authenticate ::
  "'h c_services \<Rightarrow> u64 \<Rightarrow> u32 \<Rightarrow> u32 \<Rightarrow> u32 \<Rightarrow> c_bytes \<Rightarrow> u32 \<Rightarrow> buffer_slot \<Rightarrow> c_error option
     \<Rightarrow> ('h, bytes) c_function" where
  "df_iso_external_authenticate S handle number application algorithm data timeout slot err =
     boundary err (invoke S handle timeout (\<lambda>E C opts.
       require (iso_key number application) (\<lambda>k.
       require (bytes_in data) (\<lambda>d.
       if algorithm_refused algorithm then refuse (invalid (STR ''Invalid ISO algorithm''))
       else require (iso_external_authenticate (algorithm_in algorithm) k d automatic) (\<lambda>command.
         output_bytes slot (run_iso E C command opts iso_rejected))))))"

definition df_iso_internal_authenticate ::
  "'h c_services \<Rightarrow> u64 \<Rightarrow> u32 \<Rightarrow> u32 \<Rightarrow> u32 \<Rightarrow> c_bytes \<Rightarrow> u32 \<Rightarrow> buffer_slot \<Rightarrow> c_error option
     \<Rightarrow> ('h, bytes) c_function" where
  "df_iso_internal_authenticate S handle number application algorithm data timeout slot err =
     boundary err (invoke S handle timeout (\<lambda>E C opts.
       require (iso_key number application) (\<lambda>k.
       require (bytes_in data) (\<lambda>d.
       if algorithm_refused algorithm then refuse (invalid (STR ''Invalid ISO algorithm''))
       else require (iso_internal_authenticate (algorithm_in algorithm) k d automatic) (\<lambda>command.
         output_bytes slot (run_iso E C command opts iso_rejected))))))"

definition df_authenticate_iso_aes ::
  "'h c_services \<Rightarrow> u64 \<Rightarrow> u32 \<Rightarrow> u32 \<Rightarrow> c_bytes \<Rightarrow> u32 \<Rightarrow> c_error option \<Rightarrow> ('h, unit) c_function" where
  "df_authenticate_iso_aes S handle number application key timeout err =
     boundary err (invoke S handle timeout (\<lambda>E C opts.
       require (iso_key number application) (\<lambda>k.
       require (aes128_key_in key) (\<lambda>imported.
         on_card (authenticate_iso_aes E C k imported opts)))))"

definition iso_scope :: "u32 \<Rightarrow> key_scope" where
  "iso_scope application = (if application \<noteq> 0 then scope_iso_application else scope_iso_picc)"

definition df_authenticate_iso_aes_provider ::
  "'h c_services \<Rightarrow> u64 \<Rightarrow> u32 \<Rightarrow> u32 \<Rightarrow> 'h c_key_provider option \<Rightarrow> 'h c_key_request option \<Rightarrow> u32
     \<Rightarrow> c_error option \<Rightarrow> ('h, unit) c_function" where
  "df_authenticate_iso_aes_provider S handle number application provider request timeout err =
     boundary err
       (require (iso_key number application) (\<lambda>key_reference.
        with_authentication_provider provider request profile_iso_aes (iso_scope application) number
         (\<lambda>checked adapter. invoke S handle timeout (\<lambda>E C opts.
            on_card (authenticate_iso_aes_resolved E C key_reference never_stop (adapter_provider adapter)
              checked opts)))))"

definition df_iso_update_record ::
  "'h c_services \<Rightarrow> u64 \<Rightarrow> u32 \<Rightarrow> u32 \<Rightarrow> u32 \<Rightarrow> u32 \<Rightarrow> c_bytes \<Rightarrow> u32 \<Rightarrow> buffer_slot \<Rightarrow> c_error option
     \<Rightarrow> ('h, bytes) c_function" where
  "df_iso_update_record S handle instruction record_no short_identifier reference_control data timeout slot err =
     boundary err
       (if instruction \<noteq> 0xDC \<and> instruction \<noteq> 0xDD
        then refuse (invalid (STR ''ISO UPDATE RECORD instruction must be 0xDC or 0xDD''))
        else require (bytes_in data) (\<lambda>payload.
        require (iso_update_record (update_instruction_in instruction) record_no short_identifier
                   reference_control payload) (\<lambda>command.
          invoke S handle timeout (\<lambda>E C opts.
            output_bytes slot (run_iso E C command opts (STR ''ISO UPDATE RECORD rejected''))))))"

end
