(* ===== verification/C_Raw.thy ===== *)
theory C_Raw
  imports C_Managed
begin

text \<open>
  Raw channels of the C interface (\<^verbatim>\<open>c-api/src/raw.cpp\<close>): native frames and exchanges, ISO
  APDUs, the authentications and the secure exchanges that use the session of the channel. An entry
  holds at most one session, bound to the transport generation read after its handshake; every
  operation that is not a secure exchange or EV2 NonFirst clears it first.
\<close>

section \<open>Sessions of an entry\<close>

text \<open>The mutable entry and the host, as the bodies of the operations change them.\<close>

type_synonym 'h raw_state = "'h raw_entry \<times> 'h c_host"

definition raw_environment :: "'h c_services \<Rightarrow> 'h raw_entry \<Rightarrow> 'h entry_world environment" where
  "raw_environment S e = recording (callback_environment S (re_transport e))"

definition raw_world :: "'h raw_state \<Rightarrow> 'h entry_world" where
  "raw_world st = ((re_generation (fst st), snd st), re_log (fst st))"

definition leave_world :: "'h entry_world \<Rightarrow> 'h raw_entry \<Rightarrow> 'h raw_state" where
  "leave_world w e = (e\<lparr>re_generation := fst (fst w), re_log := snd w\<rparr>, snd (fst w))"

definition on_raw_host :: "('h c_host \<Rightarrow> 'a \<times> 'h c_host) \<Rightarrow> 'h raw_state \<Rightarrow> 'a \<times> 'h raw_state" where
  "on_raw_host f st = (case f (snd st) of (r, host) \<Rightarrow> (r, (fst st, host)))"

definition require_native_framing :: "'h raw_entry \<Rightarrow> u32 \<Rightarrow> unit result" where
  "require_native_framing e framing =
     (case re_native e of
        None \<Rightarrow> Inl (local_error EC_unsupported (STR ''Operation requires a native raw channel''))
      | Some ch \<Rightarrow>
          if framing > 1
          then Inl (local_error EC_unsupported (STR ''Operation requires a native raw channel''))
          else if (if ch_framing ch = direct then 0 else 1) \<noteq> framing
          then Inl (invalid (STR ''Requested native framing does not match the transport''))
          else Inr ())"

definition clear_sessions :: "'h raw_entry \<Rightarrow> 'h raw_entry" where
  "clear_sessions e =
     e\<lparr>re_standard_session := None, re_ev2_session := None, re_iso_session := None, re_session_generation := 0\<rparr>"

text \<open>\<^verbatim>\<open>entry.transport->generation()\<close>.\<close>

definition transport_generation :: "'h c_services \<Rightarrow> 'h raw_state \<Rightarrow> u64 \<times> 'h raw_state" where
  "transport_generation S st =
     (case env_generation (raw_environment S (fst st)) (raw_world st) of
        (g, w) \<Rightarrow> (g, leave_world w (fst st)))"

definition require_current_session :: "'h c_services \<Rightarrow> ('h raw_state, unit) action" where
  "require_current_session S st =
     (let stale = Inl (local_error EC_session_invalid (STR ''Raw authentication session is absent or stale''))
      in if re_session_generation (fst st) = 0
         then (Returned stale, (clear_sessions (fst st), snd st))
         else case transport_generation S st of
           (g, st1) \<Rightarrow>
             if re_session_generation (fst st) \<noteq> g
             then (Returned stale, (clear_sessions (fst st1), snd st1))
             else (Returned (Inr ()), st1))"

text \<open>The session of a handshake is stored with the generation read afterwards.\<close>

definition start_session ::
  "'h c_services \<Rightarrow> ('h raw_entry \<Rightarrow> 'h raw_entry) \<Rightarrow> ('h raw_state, unit) action" where
  "start_session S store st =
     (case transport_generation S (store (fst st), snd st) of
        (g, (e, host)) \<Rightarrow> (Returned (Inr ()), (e\<lparr>re_session_generation := g\<rparr>, host)))"

definition clearing :: "('h raw_state, unit) action" where
  "clearing st = (Returned (Inr ()), (clear_sessions (fst st), snd st))"

text \<open>\<^verbatim>\<open>if (!r) { clear_sessions(entry); return r.error(); }\<close>\<close>

definition or_clear :: "('h raw_state, 'a) action \<Rightarrow> ('h raw_state, 'a) action" where
  "or_clear m st =
     (case m st of
        (Returned (Inl e), (entry, host)) \<Rightarrow> (Returned (Inl e), (clear_sessions entry, host))
      | other \<Rightarrow> other)"

text \<open>A transaction of the native channel, ended when the operation returns.\<close>

definition with_transaction ::
  "'h c_services \<Rightarrow> exchange_options
     \<Rightarrow> ('h entry_world environment \<Rightarrow> native_framing \<Rightarrow> transaction \<Rightarrow> 'h entry_world \<Rightarrow> 'a result \<times> 'h entry_world)
     \<Rightarrow> ('h raw_state, 'a) action" where
  "with_transaction S opts f st =
     (let E = raw_environment S (fst st)
      in case raw_begin E opts (the (re_native (fst st))) (raw_world st) of
           (Inl e, ch, w) \<Rightarrow> (Returned (Inl e), leave_world w ((fst st)\<lparr>re_native := Some ch\<rparr>))
         | (Inr tx, ch, w) \<Rightarrow>
             (case f E (ch_framing ch) tx w of
                (r, w1) \<Rightarrow>
                  (Returned r, leave_world w1 ((fst st)\<lparr>re_native := Some (end_transaction ch)\<rparr>))))"

section \<open>Descriptors\<close>

text \<open>\<^verbatim>\<open>df_native_request_v1\<close>, \<^verbatim>\<open>df_native_secure_request_v1\<close> and \<^verbatim>\<open>df_iso_apdu_v1\<close>.\<close>

record c_native_request =
  nr_struct_size :: u32
  nr_abi_version :: u32
  nr_framing :: u32
  nr_command :: u32
  nr_data :: c_bytes
  nr_maximum_response :: nat
  nr_first_frame_data_size :: nat
  nr_flags :: u32
  nr_reserved32 :: u32
  nr_reserved :: "u64 list"

record c_secure_request =
  sr_struct_size :: u32
  sr_abi_version :: u32
  sr_profile :: u32
  sr_command :: u32
  sr_header :: c_bytes
  sr_data :: c_bytes
  sr_request_communication :: u32
  sr_response_communication :: u32
  sr_minimum_response :: nat
  sr_maximum_response :: nat
  sr_first_frame_data_size :: nat
  sr_flags :: u32
  sr_invalidates_session :: u32
  sr_reserved :: "u64 list"

record c_iso_apdu =
  ia_struct_size :: u32
  ia_abi_version :: u32
  ia_cla :: u32
  ia_ins :: u32
  ia_p1 :: u32
  ia_p2 :: u32
  ia_data :: c_bytes
  ia_has_le :: u32
  ia_le :: u32
  ia_length_encoding :: u32
  ia_correct_length :: u32
  ia_maximum_response :: nat
  ia_maximum_frames :: nat
  ia_reserved :: "u64 list"

definition sizeof_native_request :: u32 where
  "sizeof_native_request = 120"

definition sizeof_secure_request :: u32 where
  "sizeof_secure_request = 152"

definition sizeof_iso_apdu :: u32 where
  "sizeof_iso_apdu = 136"

text \<open>\<^verbatim>\<open>DF_RAW_NO_FIRST_FRAME_BOUNDARY\<close> is the largest size.\<close>

definition first_frame_in :: "nat \<Rightarrow> nat option" where
  "first_frame_in n = (if n = size_max then None else Some n)"

text \<open>\<^verbatim>\<open>flags & ~DF_RAW_SINGLE_CONTINUATION\<close>.\<close>

definition unknown_flags :: "u32 \<Rightarrow> bool" where
  "unknown_flags flags = (flags AND NOT 1 \<noteq> 0)"

definition length_encoding_in :: "u32 \<Rightarrow> length_encoding" where
  "length_encoding_in v = (if v = 0 then automatic else if v = 1 then short_apdu else if v = 2 then extended
     else encoding_other)"

definition make_iso_apdu :: "c_iso_apdu option \<Rightarrow> apdu result" where
  "make_iso_apdu input =
     (case input of
        None \<Rightarrow> Inl (invalid (STR ''Invalid raw ISO APDU descriptor''))
      | Some i \<Rightarrow>
          if ia_struct_size i \<noteq> sizeof_iso_apdu \<or> ia_abi_version i \<noteq> df_abi_version \<or> ia_cla i > 0xFF \<or>
             ia_ins i > 0xFF \<or> ia_p1 i > 0xFF \<or> ia_p2 i > 0xFF \<or> c_size (ia_data i) > 65535 \<or>
             ia_has_le i > 1 \<or> (ia_has_le i \<noteq> 0 \<and> (ia_le i = 0 \<or> ia_le i > 65536)) \<or>
             ia_length_encoding i > 2 \<or> ia_correct_length i > 1 \<or> ia_maximum_response i = 0 \<or>
             ia_maximum_frames i = 0 \<or> \<not> reserved_is_zero (ia_reserved i)
          then Inl (invalid (STR ''Invalid raw ISO APDU descriptor''))
          else result_bind (bytes_in (ia_data i)) (\<lambda>data.
            Inr \<lparr>a_cla = ucast (ia_cla i), a_ins = ucast (ia_ins i), a_p1 = ucast (ia_p1 i),
                 a_p2 = ucast (ia_p2 i), a_data = data,
                 a_le = (if ia_has_le i \<noteq> 0 then Some (ia_le i) else None),
                 a_encoding = length_encoding_in (ia_length_encoding i)\<rparr>))"

text \<open>The address of READ BINARY and UPDATE BINARY, as the two branches decode it.\<close>

definition apdu_binary_address :: "apdu \<Rightarrow> binary_address result" where
  "apdu_binary_address a =
     (if a_p1 a AND 0x80 \<noteq> 0
      then short_file (drop_bit 3 (ucast (a_p1 a)) AND 0x1F) (ucast (a_p2 a))
      else current_file (push_bit 8 (ucast (a_p1 a)) OR ucast (a_p2 a)))"

definition make_checked_iso_command :: "apdu \<Rightarrow> iso_command result" where
  "make_checked_iso_command a =
     (let low = a_p2 a AND 0x07;
          high = drop_bit 3 (ucast (a_p2 a)) :: u32
      in if a_cla a \<noteq> 0 then Inl (invalid (STR ''Authenticated ISO command requires CLA 00''))
      else if a_ins a = 0xA4
      then if a_p2 a \<noteq> 0x00 \<and> a_p2 a \<noteq> 0x0C
           then Inl (invalid (STR ''Invalid ISO selection response selector''))
           else if a_p1 a = 0x04
           then iso_select_df_name (a_data a) (selection_response_in (ucast (a_p2 a))) (a_encoding a)
           else if a_p1 a > 0x02 \<or> length (a_data a) \<noteq> 2
           then Inl (invalid (STR ''Invalid ISO file selection APDU''))
           else iso_select_file (push_bit 8 (ucast (a_data a ! 0)) OR ucast (a_data a ! 1))
                  (file_selection_in (ucast (a_p1 a))) (selection_response_in (ucast (a_p2 a))) (a_encoding a)
      else if a_ins a = 0xB0
      then (case a_le a of
              None \<Rightarrow> Inl (invalid (STR ''ISO READ BINARY requires Le and no command data''))
            | Some le \<Rightarrow>
                if a_data a \<noteq> [] then Inl (invalid (STR ''ISO READ BINARY requires Le and no command data''))
                else result_bind (apdu_binary_address a) (\<lambda>address. iso_read_binary address le (a_encoding a)))
      else if a_ins a = 0xD6
      then if a_le a \<noteq> None then Inl (invalid (STR ''ISO UPDATE BINARY cannot carry Le''))
           else result_bind (apdu_binary_address a) (\<lambda>address.
             iso_update_binary address (a_data a) (a_encoding a))
      else if a_ins a = 0xB2
      then (case a_le a of
              None \<Rightarrow> Inl (invalid (STR ''Invalid ISO READ RECORDS APDU''))
            | Some le \<Rightarrow>
                if a_data a \<noteq> [] \<or> (low \<noteq> 0x04 \<and> low \<noteq> 0x05)
                then Inl (invalid (STR ''Invalid ISO READ RECORDS APDU''))
                else iso_read_records (ucast (a_p1 a)) high (record_selection_in (ucast low)) le (a_encoding a))
      else if a_ins a = 0xE2
      then if a_le a \<noteq> None \<or> a_p1 a \<noteq> 0 \<or> low \<noteq> 0
           then Inl (invalid (STR ''Invalid ISO APPEND RECORD APDU''))
           else iso_append_record high (a_data a) (a_encoding a)
      else if a_ins a = 0xDC \<or> a_ins a = 0xDD
      then if a_le a \<noteq> None \<or> a_encoding a = extended
           then Inl (invalid (STR ''ISO UPDATE RECORD requires the checked short form''))
           else iso_update_record (update_instruction_in (ucast (a_ins a))) (ucast (a_p1 a)) high (ucast low)
                  (a_data a)
      else Inl (local_error EC_unsupported
             (STR ''ISO AES raw session accepts only checked data commands and EF selection'')))"

section \<open>Lifecycle\<close>

type_synonym ('h, 'a) raw_body = "exchange_options \<Rightarrow> ('h raw_state, 'a) action"

definition run_raw_active ::
  "u64 \<Rightarrow> 'h raw_entry \<Rightarrow> exchange_options \<Rightarrow> ('h, 'a) raw_body \<Rightarrow> ('h c_library, 'a) action" where
  "run_raw_active handle e opts function L =
     (case function opts (e\<lparr>re_active := True\<rparr>, lib_host L) of
        (r, (e1, host)) \<Rightarrow>
          (r, L\<lparr>lib_raw_registry := (lib_raw_registry L)(handle \<mapsto> e1\<lparr>re_active := False\<rparr>), lib_host := host\<rparr>))"

definition invoke_raw :: "u64 \<Rightarrow> u32 \<Rightarrow> ('h, 'a) raw_body \<Rightarrow> ('h c_library, 'a) action" where
  "invoke_raw handle timeout function L =
     (if timeout = 0 then (Returned (Inl (invalid (STR ''Timeout must be positive milliseconds''))), L)
      else case lookup_raw handle L of
        Inl e \<Rightarrow> (Returned (Inl e), L)
      | Inr entry \<Rightarrow>
          if re_contended entry
          then (Returned (Inl (local_error EC_busy (STR ''Another raw operation is active''))), L)
          else if re_active entry
          then (Returned (Inl (local_error EC_busy (STR ''Callback cannot reenter the active raw operation''))), L)
          else if re_closed entry
          then (Returned (Inl (local_error EC_stale_handle (STR ''Raw channel is closed''))), L)
          else run_raw_active handle entry (milliseconds timeout) function L)"

text \<open>The entry of a new channel: the ISO channel exists only over an APDU transport.\<close>

definition new_raw_entry :: "'h c_services \<Rightarrow> 'h c_transport \<Rightarrow> crypto_provider \<Rightarrow> 'h raw_entry" where
  "new_raw_entry S d C =
     (let E = callback_environment S d
      in \<lparr>re_transport = d, re_crypto = C, re_generation = initial_generation,
          re_native = Some (raw_connect E),
          re_iso = (if cap_framing (env_capabilities E) = Framing_iso7816 then Some iso_create else None),
          re_iso_session = None, re_standard_session = None, re_ev2_session = None, re_session_generation = 0,
          re_contended = False, re_active = False, re_closed = False, re_log = []\<rparr>)"

definition open_raw :: "'h c_services \<Rightarrow> 'h c_transport \<Rightarrow> ('h c_library, u64) action" where
  "open_raw S d L =
     (case sv_crypto S of
        Inl e \<Rightarrow> (Returned (Inl e), L\<lparr>lib_host := release_transport d (lib_host L)\<rparr>)
      | Inr C \<Rightarrow>
          if lib_next_raw_handle L = 0xFFFFFFFFFFFFFFFF
          then (Returned (Inl (local_error EC_internal (STR ''Raw-channel handle space exhausted''))),
                L\<lparr>lib_host := release_transport d (lib_host L)\<rparr>)
          else (Returned (Inr (lib_next_raw_handle L)),
                L\<lparr>lib_raw_registry := (lib_raw_registry L)(lib_next_raw_handle L \<mapsto> new_raw_entry S d C),
                  lib_next_raw_handle := lib_next_raw_handle L + 1\<rparr>))"

definition df_raw_open ::
  "'h c_services \<Rightarrow> 'h c_transport option \<Rightarrow> u64 option \<Rightarrow> c_error option \<Rightarrow> ('h, u64) c_function" where
  "df_raw_open S transport out err =
     boundary err
       (if out \<noteq> Some 0 then refuse (invalid (STR ''Output handle must point to zero''))
        else act_bind (on_host (make_transport transport)) (open_raw S))"

definition close_raw :: "u64 \<Rightarrow> ('h c_library, unit) action" where
  "close_raw handle L =
     (case lookup_raw handle L of
        Inl e \<Rightarrow> (Returned (Inl e), L)
      | Inr entry \<Rightarrow>
          if re_contended entry \<or> re_active entry
          then (Returned (Inl (local_error EC_busy
                  (STR ''Cancel or wait for the active raw operation before close''))), L)
          else (Returned (Inr ()),
                L\<lparr>lib_raw_registry := (lib_raw_registry L)(handle := None),
                  lib_host := release_transport (re_transport entry) (lib_host L)\<rparr>))"

definition df_raw_close :: "u64 \<Rightarrow> c_error option \<Rightarrow> ('h, unit) c_function" where
  "df_raw_close handle err = boundary err (close_raw handle)"

definition raw_reset_body :: "'h c_services \<Rightarrow> ('h, unit) raw_body" where
  "raw_reset_body S opts st =
     (let e = clear_sessions (fst st); E = raw_environment S e; w = raw_world (e, snd st)
      in case re_iso e of
           Some ch \<Rightarrow>
             (case iso_reset E ch w of
                (r, ch1, w1) \<Rightarrow> (Returned r, leave_world w1 (e\<lparr>re_iso := Some ch1\<rparr>)))
         | None \<Rightarrow>
             (case raw_reset E (the (re_native e)) w of
                (r, ch1, w1) \<Rightarrow> (Returned r, leave_world w1 (e\<lparr>re_native := Some ch1\<rparr>))))"

definition df_raw_reset :: "'h c_services \<Rightarrow> u64 \<Rightarrow> c_error option \<Rightarrow> ('h, unit) c_function" where
  "df_raw_reset S handle err = boundary err (invoke_raw handle 5000 (raw_reset_body S))"

definition cancel_raw :: "'h c_services \<Rightarrow> u64 \<Rightarrow> ('h c_library, unit) action" where
  "cancel_raw S handle L =
     (case lookup_raw handle L of
        Inl e \<Rightarrow> (Returned (Inl e), L)
      | Inr entry \<Rightarrow>
          (case env_cancel (callback_environment S (re_transport entry)) (re_generation entry, lib_host L) of
             (generation, host) \<Rightarrow>
               (Returned (Inr ()),
                L\<lparr>lib_raw_registry := (lib_raw_registry L)(handle \<mapsto> entry\<lparr>re_generation := generation\<rparr>),
                  lib_host := host\<rparr>)))"

definition df_raw_cancel :: "'h c_services \<Rightarrow> u64 \<Rightarrow> c_error option \<Rightarrow> ('h, unit) c_function" where
  "df_raw_cancel S handle err = boundary err (cancel_raw S handle)"

definition notify_raw :: "u64 \<Rightarrow> ('h c_library, unit) action" where
  "notify_raw handle L =
     (case lookup_raw handle L of
        Inl e \<Rightarrow> (Returned (Inl e), L)
      | Inr entry \<Rightarrow>
          (Returned (Inr ()),
           L\<lparr>lib_raw_registry := (lib_raw_registry L)(handle \<mapsto>
               entry\<lparr>re_generation := notify_state_change (re_generation entry)\<rparr>)\<rparr>))"

definition df_raw_notify_state_change :: "u64 \<Rightarrow> c_error option \<Rightarrow> ('h, unit) c_function" where
  "df_raw_notify_state_change handle err = boundary err (notify_raw handle)"

section \<open>Exchanges\<close>

definition raw_frame_body :: "'h c_services \<Rightarrow> u32 \<Rightarrow> byte \<Rightarrow> bytes \<Rightarrow> ('h, u32 \<times> bytes) raw_body" where
  "raw_frame_body S framing command payload opts st =
     require (require_native_framing (fst st) framing) (\<lambda>_.
       act_bind clearing (\<lambda>_.
       act_bind (with_transaction S opts (\<lambda>E fr tx w.
                   case exchange_frame E fr command payload tx w of (r, _, w1) \<Rightarrow> (r, w1)))
         (\<lambda>response. act_return (ucast (rs_status response), rs_data response)))) st"

text \<open>\<^verbatim>\<open>output_bytes\<close> around a body that also stores a status.\<close>

definition output_status_bytes :: "buffer_slot \<Rightarrow> ('s, u32 \<times> bytes) action \<Rightarrow> ('s, u32 \<times> bytes) action" where
  "output_status_bytes slot function s =
     (if slot \<noteq> Slot None
      then (Returned (Inl (invalid (STR ''Output must point to a null buffer handle''))), s)
      else function s)"

definition df_raw_native_frame ::
  "'h c_services \<Rightarrow> u64 \<Rightarrow> u32 \<Rightarrow> u32 \<Rightarrow> c_bytes \<Rightarrow> u32 \<Rightarrow> bool \<Rightarrow> buffer_slot \<Rightarrow> c_error option
     \<Rightarrow> ('h, u32 \<times> bytes) c_function" where
  "df_raw_native_frame S handle framing command data timeout has_status slot err =
     boundary err
       (if command > 0xFF \<or> \<not> has_status
        then refuse (invalid (STR ''Native command and status output are required''))
        else require (bytes_in data) (\<lambda>payload.
          output_status_bytes slot
            (invoke_raw handle timeout (raw_frame_body S framing (ucast command) payload))))"

definition raw_exchange_body :: "'h c_services \<Rightarrow> u32 \<Rightarrow> raw_request \<Rightarrow> ('h, u32 \<times> bytes) raw_body" where
  "raw_exchange_body S framing rq opts st =
     require (require_native_framing (fst st) framing) (\<lambda>_ st0.
       let e = clear_sessions (fst st0)
       in case raw_exchange (raw_environment S e) rq opts (the (re_native e)) (raw_world (e, snd st0)) of
            (r, ch, w) \<Rightarrow>
              (Returned (result_bind r (\<lambda>response. Inr (ucast (rs_status response), rs_data response))),
               leave_world w (e\<lparr>re_native := Some ch\<rparr>))) st"

definition df_raw_native_exchange ::
  "'h c_services \<Rightarrow> u64 \<Rightarrow> c_native_request option \<Rightarrow> u32 \<Rightarrow> bool \<Rightarrow> buffer_slot \<Rightarrow> c_error option
     \<Rightarrow> ('h, u32 \<times> bytes) c_function" where
  "df_raw_native_exchange S handle request timeout has_status slot err =
     boundary err
       (case request of
          None \<Rightarrow> refuse (invalid (STR ''Invalid raw native request descriptor''))
        | Some q \<Rightarrow>
            if nr_struct_size q \<noteq> sizeof_native_request \<or> nr_abi_version q \<noteq> df_abi_version \<or>
               nr_command q > 0xFF \<or> nr_maximum_response q = 0 \<or> unknown_flags (nr_flags q) \<or>
               nr_reserved32 q \<noteq> 0 \<or> \<not> reserved_is_zero (nr_reserved q) \<or> \<not> has_status
            then refuse (invalid (STR ''Invalid raw native request descriptor''))
            else require (bytes_in (nr_data q)) (\<lambda>payload.
              let rq = \<lparr>rq_command = ucast (nr_command q), rq_data = payload,
                        rq_maximum_response = nr_maximum_response q,
                        rq_first_frame_data_size = first_frame_in (nr_first_frame_data_size q),
                        rq_single_continuation_frame = (nr_flags q AND 1 \<noteq> 0)\<rparr>
              in output_status_bytes slot (invoke_raw handle timeout (raw_exchange_body S (nr_framing q) rq))))"

definition raw_iso_body :: "'h c_services \<Rightarrow> apdu \<Rightarrow> iso_limits \<Rightarrow> ('h, u32 \<times> bytes) raw_body" where
  "raw_iso_body S a limits opts st =
     (case re_iso (fst st) of
        None \<Rightarrow> (Returned (Inl (local_error EC_unsupported
                  (STR ''True ISO exchange requires ISO-wrapped transport''))), st)
      | Some ch \<Rightarrow>
          let e = clear_sessions (fst st)
          in case iso_exchange (raw_environment S e) a opts limits ch (raw_world (e, snd st)) of
               (r, ch1, w) \<Rightarrow>
                 (Returned (result_bind r (\<lambda>response. Inr (ucast (ir_status response), ir_data response))),
                  leave_world w (e\<lparr>re_iso := Some ch1\<rparr>)))"

definition df_raw_iso_exchange ::
  "'h c_services \<Rightarrow> u64 \<Rightarrow> c_iso_apdu option \<Rightarrow> u32 \<Rightarrow> bool \<Rightarrow> buffer_slot \<Rightarrow> c_error option
     \<Rightarrow> ('h, u32 \<times> bytes) c_function" where
  "df_raw_iso_exchange S handle request timeout has_status slot err =
     boundary err
       (if \<not> has_status then refuse (invalid (STR ''ISO status output is required''))
        else require (make_iso_apdu request) (\<lambda>a.
          let limits = \<lparr>lim_max_response = ia_maximum_response (the request),
                        lim_max_frames = ia_maximum_frames (the request),
                        lim_correct_length = (ia_correct_length (the request) \<noteq> 0)\<rparr>
          in output_status_bytes slot (invoke_raw handle timeout (raw_iso_body S a limits))))"

section \<open>Authentication\<close>

text \<open>
  Each authentication obtains its key, runs the handshake in one transaction and stores the session.
  \<open>obtain\<close> is the key of the caller or the call of the host's provider.
\<close>

type_synonym 'h key_source = "('h raw_state, bytes) action"

definition provider_key :: "'h key_adapter \<Rightarrow> 'h key_source" where
  "provider_key adapter = on_raw_host (adapter_resolve adapter)"

definition raw_standard_aes_body :: "'h c_services \<Rightarrow> u32 \<Rightarrow> 'h key_source \<Rightarrow> ('h, unit) raw_body" where
  "raw_standard_aes_body S key_no source opts st =
     (if re_native (fst st) = None
      then refuse (local_error EC_unsupported (STR ''Standard AES requires a native raw channel'')) st
      else act_bind clearing (\<lambda>_.
           act_bind source (\<lambda>key.
           act_bind (with_transaction S opts (\<lambda>E fr tx w.
                       case sa_authenticate (re_crypto (fst st)) (transaction_random E) (ucast key_no) key
                              (transaction_frame E fr) (tx, w) of (r, _, w1) \<Rightarrow> (r, w1))) (\<lambda>material.
           require (sa_create material) (\<lambda>session.
           start_session S (\<lambda>e. e\<lparr>re_standard_session := Some session\<rparr>))))) st)"

definition df_raw_authenticate_standard_aes ::
  "'h c_services \<Rightarrow> u64 \<Rightarrow> u32 \<Rightarrow> c_bytes \<Rightarrow> u32 \<Rightarrow> c_error option \<Rightarrow> ('h, unit) c_function" where
  "df_raw_authenticate_standard_aes S handle key_no key timeout err =
     boundary err
       (require (key_number_make key_no) (\<lambda>_.
        require (aes128_key_in key) (\<lambda>imported.
          invoke_raw handle timeout (raw_standard_aes_body S key_no (act_return imported)))))"

definition df_raw_authenticate_standard_aes_provider ::
  "'h c_services \<Rightarrow> u64 \<Rightarrow> u32 \<Rightarrow> 'h c_key_provider option \<Rightarrow> 'h c_key_request option \<Rightarrow> u32
     \<Rightarrow> c_error option \<Rightarrow> ('h, unit) c_function" where
  "df_raw_authenticate_standard_aes_provider S handle key_no provider request timeout err =
     boundary err
       (with_authentication_provider provider request profile_standard_aes scope_native key_no
         (\<lambda>_ adapter. invoke_raw handle timeout (raw_standard_aes_body S key_no (provider_key adapter))))"

definition raw_ev2_first_body ::
  "'h c_services \<Rightarrow> u32 \<Rightarrow> bytes \<Rightarrow> 'h key_source \<Rightarrow> ('h, authentication_info) raw_body" where
  "raw_ev2_first_body S key_no capabilities source opts st =
     (if re_native (fst st) = None
      then refuse (local_error EC_unsupported (STR ''EV2 First requires a native raw channel'')) st
      else act_bind clearing (\<lambda>_.
           act_bind source (\<lambda>key.
           act_bind (with_transaction S opts (\<lambda>E fr tx w.
                       case ev2_authenticate_first (re_crypto (fst st)) (transaction_random E) (ucast key_no) key
                              capabilities (transaction_frame E fr) (tx, w) of (r, _, w1) \<Rightarrow> (r, w1)))
             (\<lambda>material.
           require (ev2_create material 0) (\<lambda>session.
           act_bind (start_session S (\<lambda>e. e\<lparr>re_ev2_session := Some session\<rparr>)) (\<lambda>_.
           act_return (mat_information material)))))) st)"

definition df_raw_authenticate_ev2_first_aes ::
  "'h c_services \<Rightarrow> u64 \<Rightarrow> u32 \<Rightarrow> c_bytes \<Rightarrow> c_bytes \<Rightarrow> u32 \<Rightarrow> authentication_output option \<Rightarrow> c_error option
     \<Rightarrow> 'h c_library \<Rightarrow> unit c_return \<times> authentication_output option \<times> 'h c_library" where
  "df_raw_authenticate_ev2_first_aes S handle key_no key pcd timeout out err =
     reporting_authentication out err
       (require (key_number_make key_no) (\<lambda>_.
        require (aes128_key_in key) (\<lambda>imported.
        require (pcd_in pcd) (\<lambda>capabilities.
          invoke_raw handle timeout (raw_ev2_first_body S key_no capabilities (act_return imported))))))"

definition df_raw_authenticate_ev2_first_aes_provider ::
  "'h c_services \<Rightarrow> u64 \<Rightarrow> u32 \<Rightarrow> 'h c_key_provider option \<Rightarrow> 'h c_key_request option \<Rightarrow> c_bytes \<Rightarrow> u32
     \<Rightarrow> authentication_output option \<Rightarrow> c_error option
     \<Rightarrow> 'h c_library \<Rightarrow> unit c_return \<times> authentication_output option \<times> 'h c_library" where
  "df_raw_authenticate_ev2_first_aes_provider S handle key_no provider request pcd timeout out err =
     reporting_authentication out err
       (require (pcd_in pcd) (\<lambda>capabilities.
        with_authentication_provider provider request profile_ev2_first scope_native key_no
         (\<lambda>_ adapter. invoke_raw handle timeout
            (raw_ev2_first_body S key_no capabilities (provider_key adapter)))))"

text \<open>EV2 NonFirst gives up the session it continues before anything can fail.\<close>

definition raw_ev2_non_first_body ::
  "'h c_services \<Rightarrow> u32 \<Rightarrow> 'h key_source \<Rightarrow> ('h, authentication_info) raw_body" where
  "raw_ev2_non_first_body S key_no source opts st =
     act_bind (require_current_session S) (\<lambda>_ st1.
       case re_ev2_session (fst st1) of
         None \<Rightarrow> refuse (local_error EC_session_invalid (STR ''EV2 NonFirst requires EV2 First'')) st1
       | Some old \<Rightarrow>
           act_bind (or_clear source) (\<lambda>key.
           act_bind (or_clear (with_transaction S opts (\<lambda>E fr tx w.
                       case ev2_authenticate_nonfirst (re_crypto (fst st1)) (transaction_random E) (ucast key_no)
                              key (e_authentication old) (transaction_frame E fr) (tx, w) of (r, _, w1) \<Rightarrow> (r, w1))))
             (\<lambda>material.
           act_bind (or_clear (require (ev2_create material (e_counter old)) act_return)) (\<lambda>session.
           act_bind (start_session S (\<lambda>e. e\<lparr>re_ev2_session := Some session\<rparr>)) (\<lambda>_.
           act_return (e_authentication old)))))
             ((fst st1)\<lparr>re_ev2_session := None\<rparr>, snd st1)) st"

definition df_raw_authenticate_ev2_non_first_aes ::
  "'h c_services \<Rightarrow> u64 \<Rightarrow> u32 \<Rightarrow> c_bytes \<Rightarrow> u32 \<Rightarrow> authentication_output option \<Rightarrow> c_error option
     \<Rightarrow> 'h c_library \<Rightarrow> unit c_return \<times> authentication_output option \<times> 'h c_library" where
  "df_raw_authenticate_ev2_non_first_aes S handle key_no key timeout out err =
     reporting_authentication out err
       (require (key_number_make key_no) (\<lambda>_.
        require (aes128_key_in key) (\<lambda>imported.
          invoke_raw handle timeout (raw_ev2_non_first_body S key_no (act_return imported)))))"

definition df_raw_authenticate_ev2_non_first_aes_provider ::
  "'h c_services \<Rightarrow> u64 \<Rightarrow> u32 \<Rightarrow> 'h c_key_provider option \<Rightarrow> 'h c_key_request option \<Rightarrow> u32
     \<Rightarrow> authentication_output option \<Rightarrow> c_error option
     \<Rightarrow> 'h c_library \<Rightarrow> unit c_return \<times> authentication_output option \<times> 'h c_library" where
  "df_raw_authenticate_ev2_non_first_aes_provider S handle key_no provider request timeout out err =
     reporting_authentication out err
       (with_authentication_provider provider request profile_ev2_non_first scope_native key_no
         (\<lambda>_ adapter. invoke_raw handle timeout (raw_ev2_non_first_body S key_no (provider_key adapter))))"

definition raw_iso_aes_body ::
  "'h c_services \<Rightarrow> iso_key_reference \<Rightarrow> 'h key_source \<Rightarrow> ('h, unit) raw_body" where
  "raw_iso_aes_body S reference source opts st =
     (if re_iso (fst st) = None
      then refuse (local_error EC_unsupported (STR ''ISO AES requires an ISO raw channel'')) st
      else act_bind clearing (\<lambda>_.
           act_bind source (\<lambda>key.
           act_bind (\<lambda>st1.
             case iso_authenticate (raw_environment S (fst st1)) (re_crypto (fst st1)) reference key opts automatic
                    (the (re_iso (fst st1)), raw_world st1) of
               (r, ch, w) \<Rightarrow> (Returned r, leave_world w ((fst st1)\<lparr>re_iso := Some ch\<rparr>))) (\<lambda>session.
           start_session S (\<lambda>e. e\<lparr>re_iso_session := Some session\<rparr>)))) st)"

definition df_raw_authenticate_iso_aes ::
  "'h c_services \<Rightarrow> u64 \<Rightarrow> u32 \<Rightarrow> u32 \<Rightarrow> c_bytes \<Rightarrow> u32 \<Rightarrow> c_error option \<Rightarrow> ('h, unit) c_function" where
  "df_raw_authenticate_iso_aes S handle key_no application key timeout err =
     boundary err
       (require (iso_key key_no application) (\<lambda>reference.
        require (aes128_key_in key) (\<lambda>imported.
          invoke_raw handle timeout (raw_iso_aes_body S reference (act_return imported)))))"

definition df_raw_authenticate_iso_aes_provider ::
  "'h c_services \<Rightarrow> u64 \<Rightarrow> u32 \<Rightarrow> u32 \<Rightarrow> 'h c_key_provider option \<Rightarrow> 'h c_key_request option \<Rightarrow> u32
     \<Rightarrow> c_error option \<Rightarrow> ('h, unit) c_function" where
  "df_raw_authenticate_iso_aes_provider S handle key_no application provider request timeout err =
     boundary err
       (require (iso_key key_no application) (\<lambda>reference.
        with_authentication_provider provider request profile_iso_aes (iso_scope application) key_no
         (\<lambda>_ adapter. invoke_raw handle timeout (raw_iso_aes_body S reference (provider_key adapter)))))"

section \<open>Secure exchanges\<close>

definition iso_secure_body :: "'h c_services \<Rightarrow> iso_command \<Rightarrow> iso_limits \<Rightarrow> ('h, u32 \<times> bytes) raw_body" where
  "iso_secure_body S command limits opts st =
     act_bind (require_current_session S) (\<lambda>_ st1.
       case (re_iso (fst st1), re_iso_session (fst st1)) of
         (Some ch, Some ses) \<Rightarrow>
           (case iso_execute (raw_environment S (fst st1)) (re_crypto (fst st1)) True command opts limits ses ch
                   (raw_world st1) of
              (r, ses1, ch1, w) \<Rightarrow>
                (let e = (fst st1)\<lparr>re_iso := Some ch1, re_iso_session := Some ses1\<rparr>
                 in case r of
                      Inl err \<Rightarrow>
                        (Returned (Inl err), leave_world w
                           (if is_valid ses1 then e else e\<lparr>re_iso_session := None, re_session_generation := 0\<rparr>))
                    | Inr response \<Rightarrow>
                        (Returned (Inr (ucast (ir_status response), ir_data response)), leave_world w e)))
       | _ \<Rightarrow> refuse (local_error EC_session_invalid (STR ''ISO AES raw session is not active'')) st1) st"

definition df_raw_iso_secure_exchange ::
  "'h c_services \<Rightarrow> u64 \<Rightarrow> c_iso_apdu option \<Rightarrow> u32 \<Rightarrow> bool \<Rightarrow> buffer_slot \<Rightarrow> c_error option
     \<Rightarrow> ('h, u32 \<times> bytes) c_function" where
  "df_raw_iso_secure_exchange S handle request timeout has_status slot err =
     boundary err
       (if \<not> has_status \<or> (\<exists>q\<in>set_option request. ia_correct_length q \<noteq> 0)
        then refuse (invalid
               (STR ''Secure ISO exchange requires a status output and forbids length correction''))
        else require (make_iso_apdu request) (\<lambda>a.
             require (make_checked_iso_command a) (\<lambda>command.
               if command \<noteq> a
               then refuse (invalid (STR ''Raw ISO APDU does not exactly match its checked command form''))
               else if resets_authentication command
               then refuse (local_error EC_unsupported
                      (STR ''Authenticated ISO exchange cannot change the selected DF''))
               else output_status_bytes slot (invoke_raw handle timeout (iso_secure_body S command
                      \<lparr>lim_max_response = ia_maximum_response (the request),
                       lim_max_frames = ia_maximum_frames (the request), lim_correct_length = False\<rparr>)))))"

text \<open>
  The two branches of the body: \<open>select\<close> and \<open>store\<close> reach the session of the profile, which
  is dropped after a failure and after a command that ends the session on the card.
\<close>

definition protected_exchange ::
  "'h c_services \<Rightarrow> (crypto_provider \<Rightarrow> 't session_ops) \<Rightarrow> ('h raw_entry \<Rightarrow> 't option)
     \<Rightarrow> ('t option \<Rightarrow> 'h raw_entry \<Rightarrow> 'h raw_entry) \<Rightarrow> error \<Rightarrow> secure_request \<Rightarrow> ('h, bytes) raw_body" where
  "protected_exchange S ops select store inactive rq opts st =
     (case select (fst st) of
        None \<Rightarrow> refuse inactive st
      | Some ses \<Rightarrow>
          (case exchange_protected (ops (re_crypto (fst st))) (raw_environment S (fst st)) rq opts ses
                  (the (re_native (fst st))) (raw_world st) of
             (r, ses1, ch, w) \<Rightarrow>
               (let e = (fst st)\<lparr>re_native := Some ch\<rparr>
                in (Returned r, leave_world w
                      (if isl r \<or> sq_invalidates_session rq
                       then (store None e)\<lparr>re_session_generation := 0\<rparr>
                       else store (Some ses1) e)))))"

definition standard_inactive :: error where
  "standard_inactive = local_error EC_session_invalid (STR ''Standard AES raw session is not active'')"

definition ev2_inactive :: error where
  "ev2_inactive = local_error EC_session_invalid (STR ''EV2 raw session is not active'')"

definition native_secure_body :: "'h c_services \<Rightarrow> u32 \<Rightarrow> secure_request \<Rightarrow> ('h, bytes) raw_body" where
  "native_secure_body S profile rq opts st =
     act_bind (require_current_session S) (\<lambda>_ st1.
       if re_native (fst st1) = None
       then refuse (local_error EC_unsupported
              (STR ''Secure native exchange requires a native raw channel'')) st1
       else if profile = 1
       then protected_exchange S sa_ops re_standard_session
              (\<lambda>ses e. e\<lparr>re_standard_session := ses\<rparr>) standard_inactive rq opts st1
       else protected_exchange S ev2_ops re_ev2_session
              (\<lambda>ses e. e\<lparr>re_ev2_session := ses\<rparr>) ev2_inactive rq opts st1) st"

definition secure_request_refused :: "c_secure_request \<Rightarrow> bool" where
  "secure_request_refused q \<longleftrightarrow>
     sr_struct_size q \<noteq> sizeof_secure_request \<or> sr_abi_version q \<noteq> df_abi_version \<or> sr_command q > 0xFF \<or>
     (sr_profile q \<noteq> 1 \<and> sr_profile q \<noteq> 2) \<or> sr_minimum_response q > sr_maximum_response q \<or>
     unknown_flags (sr_flags q) \<or> sr_invalidates_session q > 1 \<or> \<not> reserved_is_zero (sr_reserved q)"

definition df_raw_native_secure_exchange ::
  "'h c_services \<Rightarrow> u64 \<Rightarrow> c_secure_request option \<Rightarrow> u32 \<Rightarrow> buffer_slot \<Rightarrow> c_error option
     \<Rightarrow> ('h, bytes) c_function" where
  "df_raw_native_secure_exchange S handle request timeout slot err =
     boundary err
       (case request of
          None \<Rightarrow> refuse (invalid (STR ''Invalid secure-native request descriptor''))
        | Some q \<Rightarrow>
            if secure_request_refused q
            then refuse (invalid (STR ''Invalid secure-native request descriptor''))
            else require (bytes_in (sr_header q)) (\<lambda>header.
                 require (bytes_in (sr_data q)) (\<lambda>data.
                 require (mode_in (sr_request_communication q)) (\<lambda>request_mode.
                 require (mode_in (sr_response_communication q)) (\<lambda>response_mode.
                   output_bytes slot (invoke_raw handle timeout (native_secure_body S (sr_profile q)
                     \<lparr>sq_command = ucast (sr_command q), sq_header = header, sq_data = data,
                      sq_request_mode = request_mode, sq_response_mode = response_mode,
                      sq_minimum_response = sr_minimum_response q, sq_maximum_response = sr_maximum_response q,
                      sq_first_frame_data_size = first_frame_in (sr_first_frame_data_size q),
                      sq_single_continuation_frame = (sr_flags q AND 1 \<noteq> 0),
                      sq_invalidates_session = (sr_invalidates_session q \<noteq> 0)\<rparr>)))))))"

end
