(* ===== verification/C_Offline.thy ===== *)
theory C_Offline
  imports C_Managed
begin

text \<open>
  Calculations of the C interface that need no card (\<^verbatim>\<open>c-api/src/offline.cpp\<close>). Each checks its C
  arguments, takes its key from the caller or from the host's provider, and hands both to the functions
  of \<^verbatim>\<open>core/src/offline\<close>. The functions with a provider check their output slot before the
  provider is asked.
\<close>

section \<open>Arguments and keys\<close>

definition validate_output_slot :: "buffer_slot \<Rightarrow> unit result" where
  "validate_output_slot slot =
     (if slot \<noteq> Slot None then Inl (invalid (STR ''Output must point to a null buffer handle'')) else Inr ())"

text \<open>The adapter is destroyed when the key has been resolved.\<close>

definition resolve_offline_key ::
  "'h c_key_provider option \<Rightarrow> 'h c_key_request option \<Rightarrow> key_purpose \<Rightarrow> ('h c_library, bytes) action" where
  "resolve_offline_key provider request purpose =
     act_bind (on_host (make_purpose_request request purpose scope_native (requested_key request)))
       (\<lambda>checked. with_adapter provider request 0 (\<lambda>adapter. on_host (adapter_resolve adapter)))"

text \<open>\<^verbatim>\<open>df_delegated_application_configuration_v1\<close>.\<close>

record c_delegated_configuration =
  dl_struct_size :: u32
  dl_abi_version :: u32
  dl_application_id :: u32
  dl_key_settings :: u32
  dl_number_of_keys :: u32
  dl_slot :: u32
  dl_slot_version :: u32
  dl_quota_limit :: u32
  dl_iso_file_identifiers :: u32
  dl_key_settings3 :: i32
  dl_iso_id :: i32
  dl_df_name :: c_bytes
  dl_has_key_sets :: u32
  dl_active_key_set_version :: u32
  dl_number_of_key_sets :: u32
  dl_maximum_key_size :: u32
  dl_key_set_settings :: u32
  dl_reserved :: "u64 list"

definition sizeof_delegated_configuration :: u32 where
  "sizeof_delegated_configuration = 152"

definition delegated_refused :: "c_delegated_configuration \<Rightarrow> bool" where
  "delegated_refused v \<longleftrightarrow>
     dl_struct_size v \<noteq> sizeof_delegated_configuration \<or> dl_abi_version v \<noteq> df_abi_version \<or>
     dl_key_settings v > 0xFF \<or> dl_number_of_keys v > 0xFF \<or> dl_slot v > 0xFFFF \<or> dl_slot_version v > 0xFF \<or>
     dl_quota_limit v > 0xFFFF \<or> dl_iso_file_identifiers v > 1 \<or>
     sint (dl_key_settings3 v) < -1 \<or> sint (dl_key_settings3 v) > 0xFF \<or>
     sint (dl_iso_id v) < -1 \<or> sint (dl_iso_id v) > 0xFFFF \<or> dl_has_key_sets v > 1 \<or>
     dl_active_key_set_version v > 0xFF \<or> dl_number_of_key_sets v > 0xFF \<or> dl_maximum_key_size v > 0xFF \<or>
     dl_key_set_settings v > 0xFF \<or> \<not> reserved_is_zero (dl_reserved v)"

definition delegated_key_sets :: "c_delegated_configuration \<Rightarrow> key_set_configuration option" where
  "delegated_key_sets v =
     (if dl_has_key_sets v \<noteq> 0
      then Some \<lparr>active_version = ucast (dl_active_key_set_version v),
                 number_of_sets = ucast (dl_number_of_key_sets v),
                 maximum_key_size = ucast (dl_maximum_key_size v), key_set_settings = ucast (dl_key_set_settings v)\<rparr>
      else None)"

definition delegated_configuration ::
  "c_delegated_configuration option \<Rightarrow> delegated_application_configuration result" where
  "delegated_configuration descriptor =
     (case descriptor of
        None \<Rightarrow> Inl (invalid (STR ''Invalid delegated-application offline descriptor''))
      | Some v \<Rightarrow>
          if delegated_refused v
          then Inl (invalid (STR ''Invalid delegated-application offline descriptor''))
          else if dl_has_key_sets v = 0 \<and>
             (dl_active_key_set_version v \<noteq> 0 \<or> dl_number_of_key_sets v \<noteq> 0 \<or> dl_maximum_key_size v \<noteq> 0 \<or>
              dl_key_set_settings v \<noteq> 0)
          then Inl (invalid (STR ''Absent delegated key-set fields must be zero''))
          else result_bind (bytes_in (dl_df_name v)) (\<lambda>name.
               result_bind (application_id_make (dl_application_id v)) (\<lambda>application.
                 Inr \<lparr>dc_application = \<lparr>ac_id = application, ac_key_settings = ucast (dl_key_settings v),
                        ac_number_of_keys = ucast (dl_number_of_keys v),
                        ac_iso_file_identifiers = (dl_iso_file_identifiers v \<noteq> 0),
                        ac_key_settings3 = optional_byte (dl_key_settings3 v),
                        ac_key_sets = delegated_key_sets v, ac_iso_id = optional_u16 (dl_iso_id v),
                        ac_df_name = name\<rparr>,
                      dc_slot = ucast (dl_slot v), dc_slot_version = ucast (dl_slot_version v),
                      dc_quota_limit = ucast (dl_quota_limit v)\<rparr>)))"

definition transaction_keys :: "crypto_provider \<Rightarrow> bytes \<Rightarrow> u32 \<Rightarrow> bytes \<Rightarrow> bytes result" where
  "transaction_keys C transaction_key counter uid =
     result_bind (derive_transaction_mac_keys_aes C transaction_key uid counter)
       (\<lambda>keys. Inr (tm_mac_key keys @ tm_encryption_key keys))"

definition transaction_mac :: "crypto_provider \<Rightarrow> bytes \<Rightarrow> u32 \<Rightarrow> bytes \<Rightarrow> bytes \<Rightarrow> bytes result" where
  "transaction_mac C transaction_key counter uid transaction_input =
     result_bind (derive_transaction_mac_keys_aes C transaction_key uid counter)
       (\<lambda>keys. calculate_transaction_mac_aes C (tm_mac_key keys) transaction_input)"

text \<open>
  The end that the functions with a buffer share: the provider of the process, then the calculation
  behind \<^verbatim>\<open>output_bytes\<close>.
\<close>

definition calculated ::
  "'h c_services \<Rightarrow> buffer_slot \<Rightarrow> (crypto_provider \<Rightarrow> bytes result) \<Rightarrow> ('h c_library, bytes) action" where
  "calculated S slot f = require (sv_crypto S) (\<lambda>C. output_bytes slot (act_require (f C)))"

definition host_random :: "'h c_services \<Rightarrow> nat \<Rightarrow> ('h c_library, bytes) action" where
  "host_random S n = on_host (on_world (sv_random S n))"

section \<open>Key derivation\<close>

definition df_offline_derive_nxp_aes128 ::
  "'h c_services \<Rightarrow> c_bytes \<Rightarrow> c_bytes \<Rightarrow> buffer_slot \<Rightarrow> c_error option \<Rightarrow> ('h, bytes) c_function" where
  "df_offline_derive_nxp_aes128 S master_key diversification slot err =
     boundary err
       (require (aes128_key_in master_key) (\<lambda>key.
        require (bytes_in diversification) (\<lambda>input.
        require (derivation_context_make purpose_offline_operation 0 None None input []) (\<lambda>ctx.
          calculated S slot (\<lambda>C. nxp_derive C key ctx)))))"

definition df_offline_derive_nxp_aes128_provider ::
  "'h c_services \<Rightarrow> 'h c_key_provider option \<Rightarrow> 'h c_key_request option \<Rightarrow> buffer_slot \<Rightarrow> c_error option
     \<Rightarrow> ('h, bytes) c_function" where
  "df_offline_derive_nxp_aes128_provider S provider request slot err =
     boundary err
       (require (validate_output_slot slot) (\<lambda>_.
        act_bind (on_host (make_purpose_request request purpose_offline_operation scope_native
                             (requested_key request))) (\<lambda>checked.
        with_adapter provider request 0 (\<lambda>adapter.
          act_bind (on_host (adapter_resolve adapter)) (\<lambda>key.
            calculated S slot (\<lambda>C. nxp_derive C key (kr_context checked)))))))"

section \<open>Delegated application management\<close>

definition encrypt_default_key ::
  "'h c_services \<Rightarrow> buffer_slot \<Rightarrow> bytes \<Rightarrow> bytes \<Rightarrow> u32 \<Rightarrow> ('h c_library, bytes) action" where
  "encrypt_default_key S slot dam_key application_key version =
     require (sv_crypto S) (\<lambda>C. output_bytes slot (\<lambda>L.
       case encrypt_delegated_default_key_aes C (host_random S) dam_key application_key (ucast version) L of
         (r, L1) \<Rightarrow> (Returned r, L1)))"

definition df_offline_encrypt_delegated_default_key_aes ::
  "'h c_services \<Rightarrow> c_bytes \<Rightarrow> c_bytes \<Rightarrow> u32 \<Rightarrow> buffer_slot \<Rightarrow> c_error option \<Rightarrow> ('h, bytes) c_function" where
  "df_offline_encrypt_delegated_default_key_aes S dam_encryption_key application_default_key version slot err =
     boundary err
       (require (aes128_key_in dam_encryption_key) (\<lambda>dam_key.
        require (aes128_key_in application_default_key) (\<lambda>application_key.
        if version > 0xFF then refuse (invalid (STR ''Delegated default-key version exceeds one byte''))
        else encrypt_default_key S slot dam_key application_key version)))"

definition df_offline_encrypt_delegated_default_key_aes_provider ::
  "'h c_services \<Rightarrow> 'h c_key_provider option \<Rightarrow> 'h c_key_request option \<Rightarrow> c_bytes \<Rightarrow> u32 \<Rightarrow> buffer_slot
     \<Rightarrow> c_error option \<Rightarrow> ('h, bytes) c_function" where
  "df_offline_encrypt_delegated_default_key_aes_provider S provider request application_default_key version slot err =
     boundary err
       (require (validate_output_slot slot) (\<lambda>_.
        require (aes128_key_in application_default_key) (\<lambda>application_key.
        if version > 0xFF then refuse (invalid (STR ''Delegated default-key version exceeds one byte''))
        else act_bind (resolve_offline_key provider request purpose_delegated_application) (\<lambda>dam_key.
          encrypt_default_key S slot dam_key application_key version))))"

definition df_offline_calculate_delegated_application_mac_aes ::
  "'h c_services \<Rightarrow> c_bytes \<Rightarrow> c_delegated_configuration option \<Rightarrow> c_bytes \<Rightarrow> buffer_slot \<Rightarrow> c_error option
     \<Rightarrow> ('h, bytes) c_function" where
  "df_offline_calculate_delegated_application_mac_aes S dam_mac_key descriptor encrypted_default_key slot err =
     boundary err
       (require (aes128_key_in dam_mac_key) (\<lambda>key.
        require (delegated_configuration descriptor) (\<lambda>config.
        require (bytes_in encrypted_default_key) (\<lambda>encrypted.
          calculated S slot (\<lambda>C. calculate_delegated_application_mac_aes C key config encrypted)))))"

definition df_offline_calculate_delegated_application_mac_aes_provider ::
  "'h c_services \<Rightarrow> 'h c_key_provider option \<Rightarrow> 'h c_key_request option \<Rightarrow> c_delegated_configuration option
     \<Rightarrow> c_bytes \<Rightarrow> buffer_slot \<Rightarrow> c_error option \<Rightarrow> ('h, bytes) c_function" where
  "df_offline_calculate_delegated_application_mac_aes_provider S provider request descriptor
     encrypted_default_key slot err =
     boundary err
       (require (validate_output_slot slot) (\<lambda>_.
        require (delegated_configuration descriptor) (\<lambda>config.
        require (bytes_in encrypted_default_key) (\<lambda>encrypted.
        act_bind (resolve_offline_key provider request purpose_delegated_application) (\<lambda>key.
          calculated S slot (\<lambda>C. calculate_delegated_application_mac_aes C key config encrypted))))))"

definition df_offline_calculate_delegated_application_delete_mac_aes ::
  "'h c_services \<Rightarrow> c_bytes \<Rightarrow> u32 \<Rightarrow> buffer_slot \<Rightarrow> c_error option \<Rightarrow> ('h, bytes) c_function" where
  "df_offline_calculate_delegated_application_delete_mac_aes S dam_mac_key aid slot err =
     boundary err
       (require (aes128_key_in dam_mac_key) (\<lambda>key.
        require (application_id_make aid) (\<lambda>application.
          calculated S slot (\<lambda>C. calculate_delegated_application_delete_mac_aes C key application))))"

definition df_offline_calculate_delegated_application_delete_mac_aes_provider ::
  "'h c_services \<Rightarrow> 'h c_key_provider option \<Rightarrow> 'h c_key_request option \<Rightarrow> u32 \<Rightarrow> buffer_slot
     \<Rightarrow> c_error option \<Rightarrow> ('h, bytes) c_function" where
  "df_offline_calculate_delegated_application_delete_mac_aes_provider S provider request aid slot err =
     boundary err
       (require (validate_output_slot slot) (\<lambda>_.
        require (application_id_make aid) (\<lambda>application.
        act_bind (resolve_offline_key provider request purpose_delegated_application) (\<lambda>key.
          calculated S slot (\<lambda>C. calculate_delegated_application_delete_mac_aes C key application)))))"

definition df_offline_calculate_delegated_configuration_mac_aes ::
  "'h c_services \<Rightarrow> c_bytes \<Rightarrow> c_bytes \<Rightarrow> c_bytes \<Rightarrow> buffer_slot \<Rightarrow> c_error option \<Rightarrow> ('h, bytes) c_function" where
  "df_offline_calculate_delegated_configuration_mac_aes S dam_mac_key old_df_name new_df_name slot err =
     boundary err
       (require (aes128_key_in dam_mac_key) (\<lambda>key.
        require (bytes_in old_df_name) (\<lambda>old_name.
        require (bytes_in new_df_name) (\<lambda>new_name.
          calculated S slot (\<lambda>C. calculate_delegated_configuration_mac_aes C key old_name new_name)))))"

definition df_offline_calculate_delegated_configuration_mac_aes_provider ::
  "'h c_services \<Rightarrow> 'h c_key_provider option \<Rightarrow> 'h c_key_request option \<Rightarrow> c_bytes \<Rightarrow> c_bytes \<Rightarrow> buffer_slot
     \<Rightarrow> c_error option \<Rightarrow> ('h, bytes) c_function" where
  "df_offline_calculate_delegated_configuration_mac_aes_provider S provider request old_df_name new_df_name slot err =
     boundary err
       (require (validate_output_slot slot) (\<lambda>_.
        require (bytes_in old_df_name) (\<lambda>old_name.
        require (bytes_in new_df_name) (\<lambda>new_name.
        act_bind (resolve_offline_key provider request purpose_delegated_application) (\<lambda>key.
          calculated S slot (\<lambda>C. calculate_delegated_configuration_mac_aes C key old_name new_name))))))"

section \<open>Licence MAC\<close>

definition df_offline_calculate_mfc_license_mac_aes ::
  "'h c_services \<Rightarrow> c_bytes \<Rightarrow> c_bytes \<Rightarrow> c_bytes \<Rightarrow> buffer_slot \<Rightarrow> c_error option \<Rightarrow> ('h, bytes) c_function" where
  "df_offline_calculate_mfc_license_mac_aes S license_mac_key mfc_license mfc_sector_secrets slot err =
     boundary err
       (require (aes128_key_in license_mac_key) (\<lambda>key.
        require (bytes_in mfc_license) (\<lambda>license.
        require (bytes_in mfc_sector_secrets) (\<lambda>secrets.
          calculated S slot (\<lambda>C. calculate_mfc_license_mac_aes C key license secrets)))))"

definition df_offline_calculate_mfc_license_mac_aes_provider ::
  "'h c_services \<Rightarrow> 'h c_key_provider option \<Rightarrow> 'h c_key_request option \<Rightarrow> c_bytes \<Rightarrow> c_bytes \<Rightarrow> buffer_slot
     \<Rightarrow> c_error option \<Rightarrow> ('h, bytes) c_function" where
  "df_offline_calculate_mfc_license_mac_aes_provider S provider request mfc_license mfc_sector_secrets slot err =
     boundary err
       (require (validate_output_slot slot) (\<lambda>_.
        require (bytes_in mfc_license) (\<lambda>license.
        require (bytes_in mfc_sector_secrets) (\<lambda>secrets.
        act_bind (resolve_offline_key provider request purpose_offline_operation) (\<lambda>key.
          calculated S slot (\<lambda>C. calculate_mfc_license_mac_aes C key license secrets))))))"

section \<open>Transaction MAC\<close>

definition df_offline_derive_transaction_mac_keys_aes ::
  "'h c_services \<Rightarrow> c_bytes \<Rightarrow> u32 \<Rightarrow> c_bytes \<Rightarrow> buffer_slot \<Rightarrow> c_error option \<Rightarrow> ('h, bytes) c_function" where
  "df_offline_derive_transaction_mac_keys_aes S transaction_key counter uid slot err =
     boundary err
       (require (aes128_key_in transaction_key) (\<lambda>key.
        require (bytes_in uid) (\<lambda>uid_view.
          calculated S slot (\<lambda>C. transaction_keys C key counter uid_view))))"

definition df_offline_derive_transaction_mac_keys_aes_provider ::
  "'h c_services \<Rightarrow> 'h c_key_provider option \<Rightarrow> 'h c_key_request option \<Rightarrow> u32 \<Rightarrow> c_bytes \<Rightarrow> buffer_slot
     \<Rightarrow> c_error option \<Rightarrow> ('h, bytes) c_function" where
  "df_offline_derive_transaction_mac_keys_aes_provider S provider request counter uid slot err =
     boundary err
       (require (validate_output_slot slot) (\<lambda>_.
        require (bytes_in uid) (\<lambda>uid_view.
        act_bind (resolve_offline_key provider request purpose_transaction_mac) (\<lambda>key.
          calculated S slot (\<lambda>C. transaction_keys C key counter uid_view)))))"

definition df_offline_calculate_transaction_mac_session_aes ::
  "'h c_services \<Rightarrow> c_bytes \<Rightarrow> c_bytes \<Rightarrow> buffer_slot \<Rightarrow> c_error option \<Rightarrow> ('h, bytes) c_function" where
  "df_offline_calculate_transaction_mac_session_aes S session_mac_key transaction_input slot err =
     boundary err
       (require (aes128_key_in session_mac_key) (\<lambda>key.
        require (bytes_in transaction_input) (\<lambda>input.
          calculated S slot (\<lambda>C. calculate_transaction_mac_aes C key input))))"

definition df_offline_calculate_transaction_mac_aes ::
  "'h c_services \<Rightarrow> c_bytes \<Rightarrow> u32 \<Rightarrow> c_bytes \<Rightarrow> c_bytes \<Rightarrow> buffer_slot \<Rightarrow> c_error option \<Rightarrow> ('h, bytes) c_function" where
  "df_offline_calculate_transaction_mac_aes S transaction_mac_key counter uid transaction_input slot err =
     boundary err
       (require (bytes_in transaction_mac_key) (\<lambda>key.
        require (bytes_in uid) (\<lambda>uid_view.
        require (bytes_in transaction_input) (\<lambda>input.
          calculated S slot (\<lambda>C. transaction_mac C key counter uid_view input)))))"

definition df_offline_calculate_transaction_mac_aes_provider ::
  "'h c_services \<Rightarrow> 'h c_key_provider option \<Rightarrow> 'h c_key_request option \<Rightarrow> u32 \<Rightarrow> c_bytes \<Rightarrow> c_bytes \<Rightarrow> buffer_slot
     \<Rightarrow> c_error option \<Rightarrow> ('h, bytes) c_function" where
  "df_offline_calculate_transaction_mac_aes_provider S provider request counter uid transaction_input slot err =
     boundary err
       (require (validate_output_slot slot) (\<lambda>_.
        act_bind (on_host (make_purpose_request request purpose_transaction_mac scope_native
                             (requested_key request))) (\<lambda>checked.
        with_adapter provider request 0 (\<lambda>adapter.
          require (bytes_in uid) (\<lambda>uid_view.
          require (bytes_in transaction_input) (\<lambda>input.
          act_bind (on_host (adapter_resolve adapter)) (\<lambda>key.
            calculated S slot (\<lambda>C. transaction_mac C key counter uid_view input))))))))"

text \<open>\<^verbatim>\<open>*verified = result.value() ? 1 : 0\<close>.\<close>

definition verified_number :: "bool \<Rightarrow> u32" where
  "verified_number b = (if b then 1 else 0)"

definition df_offline_verify_transaction_mac_aes ::
  "'h c_services \<Rightarrow> c_bytes \<Rightarrow> u32 \<Rightarrow> c_bytes \<Rightarrow> c_bytes \<Rightarrow> c_bytes \<Rightarrow> bool \<Rightarrow> c_error option
     \<Rightarrow> ('h, u32) c_function" where
  "df_offline_verify_transaction_mac_aes S transaction_key counter uid transaction_input mac has_output err =
     boundary err
       (require (aes128_key_in transaction_key) (\<lambda>key.
        require (bytes_in uid) (\<lambda>uid_view.
        require (bytes_in transaction_input) (\<lambda>input.
        require (bytes_in mac) (\<lambda>expected.
        if \<not> has_output then refuse (invalid (STR ''Transaction verification output is null''))
        else require (sv_crypto S) (\<lambda>C.
             require (verify_transaction_mac_aes C key uid_view counter input expected) (\<lambda>verified.
               act_return (verified_number verified))))))))"

definition df_offline_verify_transaction_mac_aes_provider ::
  "'h c_services \<Rightarrow> 'h c_key_provider option \<Rightarrow> 'h c_key_request option \<Rightarrow> u32 \<Rightarrow> c_bytes \<Rightarrow> c_bytes \<Rightarrow> c_bytes
     \<Rightarrow> bool \<Rightarrow> c_error option \<Rightarrow> ('h, u32) c_function" where
  "df_offline_verify_transaction_mac_aes_provider S provider request counter uid transaction_input mac has_output err =
     boundary err
       (require (bytes_in uid) (\<lambda>uid_view.
        require (bytes_in transaction_input) (\<lambda>input.
        require (bytes_in mac) (\<lambda>expected.
        if \<not> has_output then refuse (invalid (STR ''Transaction verification output is null''))
        else act_bind (resolve_offline_key provider request purpose_transaction_mac) (\<lambda>key.
             require (sv_crypto S) (\<lambda>C.
             require (verify_transaction_mac_aes C key uid_view counter input expected) (\<lambda>verified.
               act_return (verified_number verified))))))))"

definition df_offline_decrypt_transaction_reader_id_aes ::
  "'h c_services \<Rightarrow> c_bytes \<Rightarrow> c_bytes \<Rightarrow> buffer_slot \<Rightarrow> c_error option \<Rightarrow> ('h, bytes) c_function" where
  "df_offline_decrypt_transaction_reader_id_aes S session_encryption_key encrypted_reader_id slot err =
     boundary err
       (require (aes128_key_in session_encryption_key) (\<lambda>key.
        require (bytes_in encrypted_reader_id) (\<lambda>encrypted.
          calculated S slot (\<lambda>C. decrypt_transaction_reader_id_aes C key encrypted))))"

section \<open>Originality signature\<close>

text \<open>The curve is a C string, or null.\<close>

definition df_offline_verify_originality_uid_signature ::
  "'h c_services \<Rightarrow> string option \<Rightarrow> c_bytes \<Rightarrow> c_bytes \<Rightarrow> c_bytes \<Rightarrow> bool \<Rightarrow> c_error option
     \<Rightarrow> ('h, u32) c_function" where
  "df_offline_verify_originality_uid_signature S curve public_key uid signature has_output err =
     boundary err
       (if curve \<noteq> Some ''secp224r1'' \<or> \<not> has_output
        then refuse (invalid (STR ''Only the documented secp224r1 UID construction is supported''))
        else require (bytes_in public_key) (\<lambda>public_key_view.
             require (bytes_in uid) (\<lambda>uid_view.
             require (bytes_in signature) (\<lambda>signature_view.
             require (sv_crypto S) (\<lambda>C.
             require (verify_originality_uid_signature C public_key_view uid_view signature_view) (\<lambda>verified.
               act_return (verified_number verified)))))))"

end
