(* ===== verification/C_Calls.thy ===== *)
theory C_Calls
  imports C_Raw C_Offline
begin

text \<open>
  The vocabulary of the contracts of the C interface: results that do not leave the outcome open, calls
  that only compute or only reach the host, and the locale \<open>call_contract\<close>. A contract is a
  relation between the library before a call, its result and the library after it; what may be laid
  around a call in the interface keeps every such contract that does not look at the host. The
  managed cards provide one (\<open>C_Contract\<close>), the raw channels another (\<open>C_Raw_Calls\<close>).
\<close>

named_theorems contract_intros \<open>the contracts, for introduction\<close>

section \<open>Definite results\<close>

text \<open>An error that does not leave the outcome open.\<close>

definition definite :: "'a result \<Rightarrow> bool" where
  "definite r \<longleftrightarrow> (\<forall>e. r = Inl e \<longrightarrow> err_outcome e \<noteq> OC_unknown)"

definition definite_dep :: "'a result dep \<Rightarrow> bool" where
  "definite_dep r \<longleftrightarrow> (\<forall>e. r = Returned (Inl e) \<longrightarrow> err_outcome e \<noteq> OC_unknown)"

text \<open>A body that computes its result.\<close>

definition plain_body :: "('s, 'a) action \<Rightarrow> bool" where
  "plain_body f \<longleftrightarrow> (\<forall>s. \<exists>r. f s = (Returned r, s) \<and> definite r)"

lemma definite_simps [simp]:
  "definite (Inr a)"
  "definite (Inl e) \<longleftrightarrow> err_outcome e \<noteq> OC_unknown"
  "definite_dep Threw"
  "definite_dep (Returned x) \<longleftrightarrow> definite x"
  by (simp_all add: definite_def definite_dep_def)

lemma result_dep_cases:
  obtains "x = Threw" | e where "x = Returned (Inl e)" | v where "x = Returned (Inr v)"
  by (metis dep.exhaust sum.exhaust)

lemma definite_if [contract_intros]: "definite a \<Longrightarrow> definite b \<Longrightarrow> definite (if p then a else b)"
  by simp

lemma definite_bind [contract_intros]:
  "definite r \<Longrightarrow> (\<And>a. definite (f a)) \<Longrightarrow> definite (result_bind r f)"
  by (cases r) (simp_all add: result_bind_def)

lemma definite_option [contract_intros]:
  "definite a \<Longrightarrow> (\<And>x. definite (f x)) \<Longrightarrow> definite (case y of None \<Rightarrow> a | Some x \<Rightarrow> f x)"
  by (cases y) simp_all

lemma plain_return [contract_intros]: "plain_body (act_return a)"
  by (simp add: plain_body_def)

lemma plain_refuse [contract_intros]: "err_outcome e \<noteq> OC_unknown \<Longrightarrow> plain_body (refuse e)"
  by (simp add: plain_body_def refuse_def)

lemma plain_require [contract_intros]:
  "definite r \<Longrightarrow> (\<And>a. plain_body (f a)) \<Longrightarrow> plain_body (require r f)"
  by (cases r) (simp_all add: plain_body_def require_def)

lemma plain_if [contract_intros]: "plain_body f \<Longrightarrow> plain_body g \<Longrightarrow> plain_body (if p then f else g)"
  by simp

section \<open>Arguments\<close>

lemma definite_arguments [contract_intros]:
  "definite (bytes_in b)" "definite (mode_in m)" "definite (access_rights_from_c p)" "definite (iso_key n a)"
  "definite (aes128_key_in b)" "definite (application_id_make u)" "definite (file_number_make u)"
  "definite (key_number_make u)" "definite (offset_make u)" "definite (byte_count_make u)" "definite (pcd_in b)"
  "definite (binary_address_in i u)" "definite (validate_output_slot slot)"
  by (auto simp: definite_def bytes_in_def mode_in_def access_rights_from_c_def iso_key_def aes128_key_in_def
      application_id_make_def file_number_make_def key_number_make_def offset_make_def byte_count_make_def
      number_make_def aes128_key_import_def pcd_in_def result_bind_def iso_application_key_def
      binary_address_in_def current_file_def short_file_def validate_output_slot_def Let_def
      split: if_splits sum.splits)

lemma definite_iso_encode: "definite (iso_encode a)"
  by (auto simp: definite_def iso_encode_def Let_def split: if_splits option.splits)

lemma definite_iso_make: "definite (iso_make ins p1 p2 d le enc)"
  using definite_iso_encode [of "\<lparr>a_cla = 0, a_ins = ins, a_p1 = p1, a_p2 = p2, a_data = d, a_le = le, a_encoding = enc\<rparr>"]
  by (simp add: iso_make_def Let_def definite_def split: sum.splits)

lemma definite_iso_commands [contract_intros]:
  "definite (iso_select_file idn sel resp enc)" "definite (iso_select_df_name bs resp enc)"
  "definite (iso_read_binary address len enc)" "definite (iso_update_binary address bs enc)"
  "definite (iso_read_records n sid rsel len enc)" "definite (iso_append_record sid bs enc)"
  "definite (iso_update_record ins n sid rc bs)" "definite (iso_get_challenge len enc)"
  "definite (iso_external_authenticate alg ref bs enc)" "definite (iso_internal_authenticate alg ref bs enc)"
  by (simp_all add: definite_iso_make iso_select_file_def iso_select_df_name_def iso_read_binary_def
      iso_update_binary_def iso_read_records_def iso_append_record_def iso_update_record_def iso_get_challenge_def
      iso_external_authenticate_def iso_internal_authenticate_def)

section \<open>The host\<close>

text \<open>Calls that reach only the host.\<close>

definition host_call :: "('h c_library, 'a) action \<Rightarrow> bool" where
  "host_call f \<longleftrightarrow> (\<forall>L. \<exists>r host. f L = (r, L\<lparr>lib_host := host\<rparr>) \<and> definite_dep r)"

definition host_action :: "('h c_host, 'a) action \<Rightarrow> bool" where
  "host_action f \<longleftrightarrow> (\<forall>host. definite_dep (fst (f host)))"

lemma plain_host_call: "plain_body f \<Longrightarrow> host_call f"
  unfolding plain_body_def host_call_def
  by (metis c_library.surjective c_library.update_convs(5) definite_simps(4))

lemma host_call_on_host [contract_intros]: "host_action f \<Longrightarrow> host_call (on_host f)"
  unfolding host_call_def host_action_def on_host_def by (metis (mono_tags, lifting) case_prod_conv prod.exhaust_sel)

lemma host_action_bind:
  "host_action f \<Longrightarrow> (\<And>a. host_action (g a)) \<Longrightarrow> host_action (act_bind f g)"
  by (auto simp: host_action_def act_bind_def split: prod.splits dep.splits sum.splits) (metis fst_conv definite_simps)+

lemma host_action_simps:
  "definite r \<Longrightarrow> host_action (act_require r)"
  "err_outcome e \<noteq> OC_unknown \<Longrightarrow> host_action (refuse e)"
  by (simp_all add: host_action_def refuse_def)

lemma host_action_cancelled: "host_action (query_cancelled q)"
  by (auto simp: host_action_def query_cancelled_def split: option.splits prod.splits dep.splits)

lemma definite_request: "definite (complete_key_request purpose scope profile q)"
  by (auto simp: definite_def complete_key_request_def result_bind_def key_number_make_def number_make_def
      request_application_def application_id_make_def request_key_set_def key_reference_make_def
      derivation_context_make_def key_request_make_def Let_def split: if_splits sum.splits)

lemma host_action_requests [contract_intros]:
  "host_action (make_authentication_request request profile scope n)"
  "host_action (make_purpose_request request purpose scope n)"
  by (auto simp: make_authentication_request_def make_purpose_request_def host_action_simps definite_request
      intro!: host_action_bind host_action_cancelled split: option.splits)

lemma host_action_resolve [contract_intros]: "host_action (adapter_resolve a)"
proof -
  have "definite_dep (fst (adapter_resolve a host))" for host
  proof (cases "ka_identity a \<in> ch_resolved host")
    case True
    then show ?thesis by (simp add: adapter_resolve_def)
  next
    case False
    have "host_action (act_bind (query_cancelled (ka_request a)) (\<lambda>_ host1.
             case kp_resolve (ka_provider a) of
               None \<Rightarrow> (Threw, host1)
             | Some call \<Rightarrow>
                 (case on_world (call (ka_request a) 16 empty_c_error) host1 of
                    (Threw, host2) \<Rightarrow> (Threw, host2)
                  | (Returned answer, host2) \<Rightarrow> (Returned (conclude_resolve answer), host2))))"
      by (rule host_action_bind [OF host_action_cancelled])
         (auto simp: host_action_def conclude_resolve_def definite_def aes128_key_import_def
           split: option.splits prod.splits dep.splits if_splits)
    with False show ?thesis by (simp add: adapter_resolve_def host_action_def)
  qed
  then show ?thesis by (simp add: host_action_def)
qed

section \<open>Contracts of calls\<close>

text \<open>A result without its value.\<close>

fun verdict :: "'a result dep \<Rightarrow> unit result dep" where
  "verdict Threw = Threw"
| "verdict (Returned (Inl e)) = Returned (Inl e)"
| "verdict (Returned (Inr v)) = Returned (Inr ())"

lemma definite_verdict [simp]: "definite_dep (verdict r) = definite_dep r"
  by (cases r rule: result_dep_cases) simp_all

text \<open>A call meets a contract.\<close>

definition meets ::
  "(unit result dep \<Rightarrow> 'h c_library \<Rightarrow> 'h c_library \<Rightarrow> bool) \<Rightarrow> ('h c_library, 'a) action \<Rightarrow> bool" where
  "meets R f \<longleftrightarrow> (\<forall>L r L'. f L = (r, L') \<longrightarrow> R (verdict r) L L')"

lemma meetsI: "(\<And>L r L'. f L = (r, L') \<Longrightarrow> R (verdict r) L L') \<Longrightarrow> meets R f"
  unfolding meets_def by blast

lemma meetsD: "meets R f \<Longrightarrow> f L = (r, L') \<Longrightarrow> R (verdict r) L L'"
  unfolding meets_def by blast

locale call_contract =
  fixes R :: "unit result dep \<Rightarrow> 'h c_library \<Rightarrow> 'h c_library \<Rightarrow> bool"
  assumes host_only: "definite_dep r \<Longrightarrow> R r L (L\<lparr>lib_host := host\<rparr>)"
    and host_before: "R r (L\<lparr>lib_host := host\<rparr>) L' \<Longrightarrow> R r L L'"
    and host_after: "R r L L' \<Longrightarrow> R r L (L'\<lparr>lib_host := host\<rparr>)"
begin

lemma calls_host:
  assumes "host_call f"
  shows "meets R f"
proof (rule meetsI)
  fix L r L'
  assume "f L = (r, L')"
  then obtain host where "L' = L\<lparr>lib_host := host\<rparr>" "definite_dep (verdict r)"
    using assms unfolding host_call_def by (metis definite_verdict prod.inject)
  then show "R (verdict r) L L'" by (simp add: host_only)
qed

lemma refuses [contract_intros]: "err_outcome e \<noteq> OC_unknown \<Longrightarrow> meets R (refuse e)"
  by (intro calls_host plain_host_call contract_intros)

lemma requires [contract_intros]:
  assumes "definite r" "\<And>a. meets R (f a)"
  shows "meets R (require r f)"
proof (cases r)
  case (Inl e)
  then have "require r f = refuse e" by (simp add: require_def refuse_def fun_eq_iff)
  then show ?thesis using assms(1) Inl refuses [of e] by simp
next
  case (Inr a)
  then have "require r f = f a" by (simp add: require_def fun_eq_iff)
  then show ?thesis using assms(2) by simp
qed

lemma branches [contract_intros]: "meets R f \<Longrightarrow> meets R g \<Longrightarrow> meets R (if p then f else g)"
  by simp

lemma matches [contract_intros]:
  "meets R f \<Longrightarrow> (\<And>x. meets R (g x)) \<Longrightarrow> meets R (case y of None \<Rightarrow> f | Some x \<Rightarrow> g x)"
  by (cases y) simp_all

lemma names [contract_intros]: "(\<And>x. meets R (f x)) \<Longrightarrow> meets R (let x = a in f x)"
  by simp

lemma outputs [contract_intros]:
  assumes "meets R f"
  shows "meets R (output_bytes slot f)"
proof (cases "slot = Slot None")
  case True
  then have "output_bytes slot f = f" by (simp add: output_bytes_def fun_eq_iff)
  then show ?thesis using assms by simp
next
  case False
  then have "output_bytes slot f = refuse (invalid (STR ''Output must point to a null buffer handle''))"
    by (simp add: output_bytes_def refuse_def fun_eq_iff)
  then show ?thesis by (simp add: refuses)
qed

lemma outputs_status [contract_intros]:
  assumes "meets R f"
  shows "meets R (output_status_bytes slot f)"
proof (cases "slot = Slot None")
  case True
  then have "output_status_bytes slot f = f" by (simp add: output_status_bytes_def fun_eq_iff)
  then show ?thesis using assms by simp
next
  case False
  then have "output_status_bytes slot f = refuse (invalid (STR ''Output must point to a null buffer handle''))"
    by (simp add: output_status_bytes_def refuse_def fun_eq_iff)
  then show ?thesis by (simp add: refuses)
qed

lemma after_host:
  assumes "host_call f" "\<And>a. meets R (g a)"
  shows "meets R (act_bind f g)"
proof (rule meetsI)
  fix L r L'
  assume a: "act_bind f g L = (r, L')"
  obtain x host where x: "f L = (x, L\<lparr>lib_host := host\<rparr>)" "definite_dep x"
    using assms(1) unfolding host_call_def by blast
  show "R (verdict r) L L'"
  proof (cases x rule: result_dep_cases)
    case (3 v)
    then have "g v (L\<lparr>lib_host := host\<rparr>) = (r, L')" using a x(1) by (simp add: act_bind_def)
    with meetsD [OF assms(2)] show ?thesis by (blast intro: host_before)
  qed (use a x in \<open>auto simp: act_bind_def intro!: host_only\<close>)
qed

lemma with_adapter [contract_intros]:
  assumes "\<And>a. meets R (body a)"
  shows "meets R (with_adapter p q i body)"
  unfolding with_adapter_def
proof (rule after_host)
  show "host_call (on_host (adapter_create p q i))"
    by (rule host_call_on_host)
       (auto simp: host_action_def adapter_create_def Let_def split: option.splits prod.splits dep.splits)
next
  fix adapter
  show "meets R (\<lambda>L. case body adapter L of (r, L1) \<Rightarrow> (r, L1\<lparr>lib_host := adapter_destroy adapter (lib_host L1)\<rparr>))"
  proof (rule meetsI)
    fix L r L'
    assume a: "(case body adapter L of (r, L1) \<Rightarrow> (r, L1\<lparr>lib_host := adapter_destroy adapter (lib_host L1)\<rparr>)) = (r, L')"
    obtain L1 where "body adapter L = (r, L1)" "L' = L1\<lparr>lib_host := adapter_destroy adapter (lib_host L1)\<rparr>"
      using a by (auto split: prod.splits)
    with meetsD [OF assms] show "R (verdict r) L L'" by (blast intro: host_after)
  qed
qed

lemma after_request [contract_intros]:
  "(\<And>q. meets R (g q)) \<Longrightarrow> meets R (act_bind (on_host (make_purpose_request request purpose scope n)) g)"
  "(\<And>q. meets R (g q)) \<Longrightarrow> meets R (act_bind (on_host (make_authentication_request request profile scope n)) g)"
  by (intro after_host contract_intros; assumption?)+

lemma with_authentication_provider [contract_intros]:
  "(\<And>q a. meets R (body q a)) \<Longrightarrow> meets R (with_authentication_provider p request profile scope n body)"
  unfolding with_authentication_provider_def by (intro contract_intros)

end

end
