(* ===== verification/C_Raw_Sessions.thy ===== *)
theory C_Raw_Sessions
  imports C_Calls
begin

text \<open>
  What every function of the C interface on a raw channel keeps. The bodies are described by triples:
  a condition on the entry before, one for each result after success, and one after a failure; a
  failure with a definite outcome may also leave any session of the invariant.
  Between two calls an entry holds at most one session, ready for its next exchange.
\<close>

section \<open>The invariant\<close>

definition raw_idle :: "'h raw_entry \<Rightarrow> bool" where
  "raw_idle e \<longleftrightarrow>
     (case re_native e of None \<Rightarrow> False | Some ch \<Rightarrow> \<not> ch_operation_active ch) \<and>
     (case re_iso e of None \<Rightarrow> True | Some ch \<Rightarrow> \<not> ic_operation_active ch)"

definition no_session :: "'h raw_entry \<Rightarrow> bool" where
  "no_session e \<longleftrightarrow> re_standard_session e = None \<and> re_ev2_session e = None \<and> re_iso_session e = None"

definition standard_open :: "'h raw_entry \<Rightarrow> bool" where
  "standard_open e \<longleftrightarrow> raw_idle e \<and> re_ev2_session e = None \<and> re_iso_session e = None \<and>
     (\<exists>t. re_standard_session e = Some t \<and> sa_inv t \<and> sa_phase t = Sa_ready)"

definition ev2_open :: "'h raw_entry \<Rightarrow> bool" where
  "ev2_open e \<longleftrightarrow> raw_idle e \<and> re_standard_session e = None \<and> re_iso_session e = None \<and>
     (\<exists>t. re_ev2_session e = Some t \<and> ev2_inv t \<and> e_phase t = Ev2_ready)"

definition iso_open :: "'h raw_entry \<Rightarrow> bool" where
  "iso_open e \<longleftrightarrow> raw_idle e \<and> re_standard_session e = None \<and> re_ev2_session e = None \<and> re_iso e \<noteq> None \<and>
     (\<exists>t. re_iso_session e = Some t \<and> is_valid t \<and> length (is_key t) = 16 \<and> length (is_iv t) = 16)"

definition bare :: "'h raw_entry \<Rightarrow> bool" where
  "bare e \<longleftrightarrow> raw_idle e \<and> no_session e"

definition raw_inv :: "'h raw_entry \<Rightarrow> bool" where
  "raw_inv e \<longleftrightarrow> bare e \<or> standard_open e \<or> ev2_open e \<or> iso_open e"

text \<open>What no body changes.\<close>

definition same_frame :: "'h raw_entry \<Rightarrow> 'h raw_entry \<Rightarrow> bool" where
  "same_frame e e' \<longleftrightarrow> re_transport e' = re_transport e \<and> re_crypto e' = re_crypto e \<and>
     re_contended e' = re_contended e \<and> re_active e' = re_active e \<and> re_closed e' = re_closed e \<and>
     (re_native e = None) = (re_native e' = None) \<and> (re_iso e = None) = (re_iso e' = None)"

lemma same_frame_refl [simp]: "same_frame e e"
  by (simp add: same_frame_def)

lemma same_frame_trans: "same_frame a b \<Longrightarrow> same_frame b c \<Longrightarrow> same_frame a c"
  by (simp add: same_frame_def)

section \<open>Triples\<close>

fun ends :: "('a \<Rightarrow> 'h raw_entry \<Rightarrow> bool) \<Rightarrow> ('h raw_entry \<Rightarrow> bool) \<Rightarrow> 'a result dep \<Rightarrow> 'h raw_entry \<Rightarrow> bool" where
  "ends Q X Threw e = X e"
| "ends Q X (Returned (Inl err)) e = (X e \<or> raw_inv e \<and> err_outcome err \<noteq> OC_unknown)"
| "ends Q X (Returned (Inr v)) e = Q v e"

definition triple ::
  "('h raw_entry \<Rightarrow> bool) \<Rightarrow> ('h raw_state, 'a) action \<Rightarrow> ('a \<Rightarrow> 'h raw_entry \<Rightarrow> bool) \<Rightarrow> ('h raw_entry \<Rightarrow> bool) \<Rightarrow> bool"
where
  "triple P f Q X \<longleftrightarrow>
     (\<forall>e host r e' host'. P e \<longrightarrow> f (e, host) = (r, (e', host')) \<longrightarrow> same_frame e e' \<and> ends Q X r e')"

lemma tripleI:
  assumes "\<And>e host r e' host'. P e \<Longrightarrow> f (e, host) = (r, (e', host')) \<Longrightarrow> same_frame e e' \<and> ends Q X r e'"
  shows "triple P f Q X"
  using assms unfolding triple_def by blast

lemma tripleD: "triple P f Q X \<Longrightarrow> P e \<Longrightarrow> f (e, host) = (r, (e', host')) \<Longrightarrow> same_frame e e' \<and> ends Q X r e'"
  unfolding triple_def by blast

lemma ends_weaken:
  assumes "ends Q X r e" "\<And>v. Q v e \<Longrightarrow> Q' v e" "X e \<Longrightarrow> X' e"
  shows "ends Q' X' r e"
  using assms by (cases r rule: result_dep_cases) auto

lemma triple_weaken:
  assumes "triple P f Q X" "\<And>e. P' e \<Longrightarrow> P e" "\<And>v e. Q v e \<Longrightarrow> Q' v e" "\<And>e. X e \<Longrightarrow> X' e"
  shows "triple P' f Q' X'"
proof (rule tripleI)
  fix e host r e' host'
  assume "P' e" "f (e, host) = (r, (e', host'))"
  from tripleD [OF assms(1) assms(2) [OF this(1)] this(2)]
  have "same_frame e e'" "ends Q X r e'" by simp_all
  then show "same_frame e e' \<and> ends Q' X' r e'" using ends_weaken assms(3,4) by metis
qed

lemma triple_bind:
  assumes "triple P f Q X" "\<And>v. triple (Q v) (g v) R X"
  shows "triple P (act_bind f g) R X"
proof (rule tripleI)
  fix e host r e' host'
  assume a: "P e" "act_bind f g (e, host) = (r, (e', host'))"
  obtain x e1 host1 where x: "f (e, host) = (x, (e1, host1))" by (metis surj_pair)
  note f = tripleD [OF assms(1) a(1) x]
  show "same_frame e e' \<and> ends R X r e'"
  proof (cases x rule: result_dep_cases)
    case (3 v)
    then have "g v (e1, host1) = (r, (e', host'))" "Q v e1" using a x f by (simp_all add: act_bind_def)
    from tripleD [OF assms(2) this(2,1)] f show ?thesis by (blast intro: same_frame_trans)
  qed (use a x f in \<open>auto simp: act_bind_def\<close>)
qed

lemma triple_return: "(\<And>e. P e \<Longrightarrow> Q v e) \<Longrightarrow> triple P (act_return v) Q X"
  by (rule tripleI) auto

lemma triple_refuse: "(\<And>e. P e \<Longrightarrow> X e) \<Longrightarrow> triple P (refuse err) Q X"
  by (rule tripleI) (auto simp: refuse_def)

lemma triple_require:
  assumes "\<And>v. r = Inr v \<Longrightarrow> triple P (f v) Q X" "\<And>e. P e \<Longrightarrow> X e"
  shows "triple P (require r f) Q X"
proof (cases r)
  case (Inl err)
  then show ?thesis using assms(2) by (intro tripleI) (auto simp: require_def)
next
  case (Inr v)
  then have "require r f = f v" by (simp add: require_def fun_eq_iff)
  then show ?thesis using assms(1) Inr by simp
qed

lemma triple_choice:
  assumes "triple P f Q X" "triple P g Q X"
  shows "triple P (\<lambda>st. if b st then f st else g st) Q X"
  using assms unfolding triple_def by (auto split: if_splits)

lemma triple_depends:
  assumes "\<And>s. triple P (f s) Q X"
  shows "triple P (\<lambda>st. f st st) Q X"
  using assms unfolding triple_def by blast

lemma triple_assume:
  assumes "b \<Longrightarrow> triple P f Q X"
  shows "triple (\<lambda>e. P e \<and> b) f Q X"
  using assms unfolding triple_def by blast

section \<open>The steps of the bodies\<close>

lemma cleared [simp]: "raw_idle e \<Longrightarrow> bare (clear_sessions e)" "same_frame e (clear_sessions e)"
  by (simp_all add: bare_def raw_idle_def no_session_def clear_sessions_def same_frame_def)

lemma idle_cases: "bare e \<Longrightarrow> raw_idle e" "raw_inv e \<Longrightarrow> raw_idle e"
  by (auto simp: raw_inv_def bare_def standard_open_def ev2_open_def iso_open_def)

lemma bare_inv: "bare e \<Longrightarrow> raw_inv e"
  by (simp add: raw_inv_def)

text \<open>\<^verbatim>\<open>if (!r) { clear_sessions(entry); return r.error(); }\<close>\<close>

lemma triple_or_clear:
  assumes "triple P f Q bare"
  shows "triple P (or_clear f) Q bare"
proof (rule tripleI)
  fix e host r e' host'
  assume a: "P e" "or_clear f (e, host) = (r, (e', host'))"
  obtain x e1 host1 where x: "f (e, host) = (x, (e1, host1))" by (metis surj_pair)
  from tripleD [OF assms a(1) x] have f: "same_frame e e1" "ends Q bare x e1" by simp_all
  show "same_frame e e' \<and> ends Q bare r e'"
  proof (cases x rule: result_dep_cases)
    case (2 err)
    then have "e' = clear_sessions e1" "r = Returned (Inl err)" using a x by (auto simp: or_clear_def)
    then show ?thesis
      using f 2 same_frame_trans [OF f(1) cleared(2)] by (auto simp: idle_cases)
  qed (use a x f in \<open>auto simp: or_clear_def\<close>)
qed

text \<open>Conditions that do not depend on the generations and the log.\<close>

definition steady :: "('h raw_entry \<Rightarrow> bool) \<Rightarrow> bool" where
  "steady Q \<longleftrightarrow> (\<forall>e n. Q (e\<lparr>re_generation := n\<rparr>) = Q e) \<and> (\<forall>e l. Q (e\<lparr>re_log := l\<rparr>) = Q e)"

lemma steady_conditions [simp]:
  "steady raw_idle" "steady no_session" "steady standard_open" "steady ev2_open" "steady iso_open" "steady bare"
  "steady raw_inv"
  by (simp_all add: steady_def raw_idle_def no_session_def bare_def raw_inv_def standard_open_def ev2_open_def
      iso_open_def)

lemma steady_and [simp]: "steady P \<Longrightarrow> steady Q \<Longrightarrow> steady (\<lambda>e. P e \<and> Q e)"
  by (simp add: steady_def)

lemma steadyD:
  "steady Q \<Longrightarrow> Q (e\<lparr>re_generation := n, re_log := l\<rparr>) = Q e"
  by (simp add: steady_def)

lemma same_frame_updates [simp]:
  "same_frame e (e\<lparr>re_generation := n, re_log := l\<rparr>)"
  "same_frame e (e\<lparr>re_session_generation := g\<rparr>)"
  by (simp_all add: same_frame_def)

lemma clearing_then [simp]: "act_bind clearing g (e, host) = g () (clear_sessions e, host)"
  by (simp add: clearing_def)

lemma triple_clearing: "triple raw_idle clearing (\<lambda>_. bare) X"
  by (rule tripleI) (auto simp: clearing_def)

lemma on_raw_host_entry: "on_raw_host f (e, host) = (r, (e', host')) \<Longrightarrow> e' = e"
  by (auto simp: on_raw_host_def split: prod.splits)

text \<open>What obtains a key reaches the host only.\<close>

definition key_source :: "'h key_source \<Rightarrow> bool" where
  "key_source source \<longleftrightarrow> (\<forall>e host r e' host'. source (e, host) = (r, (e', host')) \<longrightarrow> e' = e)"

lemma key_sources [simp]: "key_source (act_return key)" "key_source (provider_key adapter)"
  by (auto simp: key_source_def provider_key_def dest: on_raw_host_entry)

lemma triple_source:
  assumes "key_source source"
  shows "triple P source (\<lambda>_. P) P"
proof (rule tripleI)
  fix e host r e' host'
  assume a: "P e" "source (e, host) = (r, (e', host'))"
  then have "e' = e" using assms unfolding key_source_def by blast
  then show "same_frame e e' \<and> ends (\<lambda>_. P) P r e'" using a by (cases r rule: result_dep_cases) auto
qed

lemma triple_transaction:
  assumes "\<And>E fr tx w v w1. f E fr tx w = (Inr v, w1) \<Longrightarrow> good v"
    and P: "steady P" "\<And>e. P e \<Longrightarrow> raw_idle e"
  shows "triple P (with_transaction S opts f) (\<lambda>v e. P e \<and> good v) P"
proof (rule tripleI)
  fix e host r e' host'
  assume e: "P e" and run: "with_transaction S opts f (e, host) = (r, (e', host'))"
  obtain ch where ch: "re_native e = Some ch" "\<not> ch_operation_active ch"
    using P(2) [OF e] by (auto simp: raw_idle_def split: option.splits)
  let ?E = "raw_environment S e"
  obtain b ch1 w where b: "raw_begin ?E opts ch (raw_world (e, host)) = (b, ch1, w)" by (metis prod_cases3)
  have native: "e\<lparr>re_native := Some ch\<rparr> = e"
    using ch by simp
  show "same_frame e e' \<and> ends (\<lambda>v e. P e \<and> good v) P r e'"
  proof (cases b)
    case (Inl err)
    then have "ch1 = ch" using b raw_begin_Inl [of ?E opts ch "raw_world (e, host)" err ch1 w] by auto
    then show ?thesis
      using run Inl b ch e native by (auto simp: with_transaction_def Let_def leave_world_def steadyD [OF P(1)])
  next
    case (Inr tx)
    obtain x w1 where x: "f ?E (ch_framing ch1) tx w = (x, w1)" by (metis surj_pair)
    have "end_transaction ch1 = ch" by (rule end_of_transaction [OF b [unfolded Inr]])
    then have "r = Returned x" "e' = e\<lparr>re_generation := fst (fst w1), re_log := snd w1\<rparr>"
      using run Inr b ch x native by (auto simp: with_transaction_def Let_def leave_world_def)
    then show ?thesis using e x assms(1) by (cases x) (auto simp: steadyD [OF P(1)])
  qed
qed

lemma transport_generation_entry:
  "transport_generation S (e, host) = (g, (e', host')) \<Longrightarrow> \<exists>n l. e' = e\<lparr>re_generation := n, re_log := l\<rparr>"
  by (auto simp: transport_generation_def leave_world_def split: prod.splits)

lemma triple_start:
  assumes "\<And>e. P e \<Longrightarrow> Q (store e) \<and> same_frame e (store e)"
    and "steady Q" "\<And>e g. Q (e\<lparr>re_session_generation := g\<rparr>) = Q e"
  shows "triple P (start_session S store) (\<lambda>_. Q) X"
proof (rule tripleI)
  fix e host r e' host'
  assume e: "P e" and run: "start_session S store (e, host) = (r, (e', host'))"
  obtain g e1 host1 where g: "transport_generation S (store e, host) = (g, (e1, host1))" by (metis surj_pair)
  then obtain n l where e1: "e1 = (store e)\<lparr>re_generation := n, re_log := l\<rparr>"
    using transport_generation_entry by blast
  have r: "r = Returned (Inr ())" "e' = e1\<lparr>re_session_generation := g\<rparr>"
    using run g by (auto simp: start_session_def)
  have "same_frame e e'"
    using assms(1) [OF e] e1 r(2) by (auto simp: same_frame_def)
  moreover have "Q e'"
    using assms(1) [OF e] e1 r(2) assms(2,3) by (simp add: steadyD)
  ultimately show "same_frame e e' \<and> ends (\<lambda>_. Q) X r e'" using r(1) by simp
qed

section \<open>The bodies that leave no session\<close>

lemma triple_cleared:
  assumes "triple bare g Q bare"
  shows "triple raw_inv (act_bind clearing (\<lambda>_. g)) Q bare"
  by (rule triple_bind [OF _ assms]) (rule triple_weaken [OF triple_clearing [where X = bare]], simp_all add: idle_cases)

text \<open>A body that clears the sessions once its condition on the entry is met.\<close>

lemma triple_cleared_at:
  assumes "\<And>st. triple bare (g st) Q bare" "err_outcome err \<noteq> OC_unknown"
  shows "triple raw_inv (\<lambda>st. if c st then refuse err st else act_bind clearing (\<lambda>_. g st) st) Q bare"
proof (rule triple_depends [where f = "\<lambda>s st. if c s then refuse err st else act_bind clearing (\<lambda>_. g s) st"])
  fix s
  have "triple raw_inv (refuse err) Q bare"
    using assms(2) by (intro tripleI) (auto simp: refuse_def)
  with triple_cleared [OF assms(1) [of s]]
  show "triple raw_inv (\<lambda>st. if c s then refuse err st else act_bind clearing (\<lambda>_. g s) st) Q bare"
    by (cases "c s") simp_all
qed

lemma triple_require_at:
  assumes "\<And>v. triple raw_inv (f v) Q bare" "\<And>st. definite (r st)"
  shows "triple raw_inv (\<lambda>st. require (r st) f st) Q bare"
proof (rule triple_depends [where f = "\<lambda>s. require (r s) f"])
  fix s
  show "triple raw_inv (require (r s) f) Q bare"
  proof (cases "r s")
    case (Inl err)
    then show ?thesis using assms(2) [of s] by (intro tripleI) (auto simp: require_def)
  next
    case (Inr v)
    then have "require (r s) f = f v" by (simp add: require_def fun_eq_iff)
    then show ?thesis using assms(1) by simp
  qed
qed

lemma definite_framing: "definite (require_native_framing e framing)"
  by (auto simp: require_native_framing_def definite_def split: option.splits)

lemma raw_frame_keeps: "triple raw_inv (raw_frame_body S framing command payload opts) (\<lambda>_. bare) bare"
proof -
  have "triple bare (act_bind (with_transaction S opts f) (\<lambda>response.
      act_return (ucast (rs_status response) :: u32, rs_data response))) (\<lambda>_. bare) bare" for f
    by (rule triple_bind [OF triple_transaction [where good = "\<lambda>_. True"]])
       (auto simp: bare_def intro!: triple_return)
  then have "triple raw_inv (act_bind clearing (\<lambda>_. act_bind (with_transaction S opts f) (\<lambda>response.
      act_return (ucast (rs_status response) :: u32, rs_data response)))) (\<lambda>_. bare) bare" for f
    by (rule triple_cleared)
  then show ?thesis
    unfolding raw_frame_body_def by (rule triple_require_at) (simp add: definite_framing)
qed

text \<open>The whole exchanges of the two channels, and a reset.\<close>

lemma raw_exchange_keeps: "triple raw_inv (raw_exchange_body S framing rq opts) (\<lambda>_. bare) bare"
proof (rule tripleI)
  fix e host r e' host'
  assume inv: "raw_inv e" and run: "raw_exchange_body S framing rq opts (e, host) = (r, (e', host'))"
  show "same_frame e e' \<and> ends (\<lambda>_. bare) bare r e'"
  proof (cases "require_native_framing e framing")
    case (Inl err)
    then show ?thesis
      using run inv definite_framing [of e framing] by (auto simp: raw_exchange_body_def require_def)
  next
    case (Inr u)
    let ?e = "clear_sessions e"
    have b: "bare ?e" using inv by (simp add: idle_cases)
    obtain x ch w where x: "raw_exchange (raw_environment S ?e) rq opts (the (re_native ?e)) (raw_world (?e, host)) =
        (x, ch, w)" by (metis surj_pair)
    obtain ch0 where "re_native ?e = Some ch0" using b by (auto simp: bare_def raw_idle_def split: option.splits)
    then have "?e\<lparr>re_native := Some ch\<rparr> = ?e" using raw_exchange_channel [OF x] by simp
    then have e': "e' = ?e\<lparr>re_generation := fst (fst w), re_log := snd w\<rparr>" and "r \<noteq> Threw"
      using run x Inr by (auto simp: leave_world_def raw_exchange_body_def require_def)
    from e' have "bare e'" "same_frame e e'"
      using b by (simp_all add: steadyD) (simp add: same_frame_def clear_sessions_def)
    then show ?thesis
      using \<open>r \<noteq> Threw\<close> by (cases r rule: result_dep_cases) (auto simp: bare_inv)
  qed
qed

lemma raw_iso_exchange_keeps: "triple raw_inv (raw_iso_body S a limits opts) (\<lambda>_. bare) bare"
proof (rule tripleI)
  fix e host r e' host'
  assume inv: "raw_inv e" and run: "raw_iso_body S a limits opts (e, host) = (r, (e', host'))"
  show "same_frame e e' \<and> ends (\<lambda>_. bare) bare r e'"
  proof (cases "re_iso e")
    case None
    then show ?thesis using run inv by (auto simp: raw_iso_body_def)
  next
    case (Some ch0)
    let ?e = "clear_sessions e"
    have b: "bare ?e" using inv by (simp add: idle_cases)
    obtain x ch w where x: "iso_exchange (raw_environment S ?e) a opts limits ch0 (raw_world (?e, host)) =
        (x, ch, w)" by (metis surj_pair)
    have "?e\<lparr>re_iso := Some ch\<rparr> = ?e" using iso_exchange_channel [OF x] Some by (simp add: clear_sessions_def)
    then have e': "e' = ?e\<lparr>re_generation := fst (fst w), re_log := snd w\<rparr>" and "r \<noteq> Threw"
      using run x Some by (auto simp: leave_world_def raw_iso_body_def Let_def)
    from e' have "bare e'" "same_frame e e'"
      using b by (simp_all add: steadyD) (simp add: same_frame_def clear_sessions_def)
    then show ?thesis
      using \<open>r \<noteq> Threw\<close> by (cases r rule: result_dep_cases) (auto simp: bare_inv)
  qed
qed

lemma iso_reset_channel: "iso_reset E ch s = (r, ch', s') \<Longrightarrow> ch' = ch"
  by (auto simp: iso_reset_def split: if_splits prod.splits dep.splits)

lemma raw_reset_keeps: "triple raw_inv (raw_reset_body S opts) (\<lambda>_. bare) bare"
proof (rule tripleI)
  fix e host r e' host'
  assume inv: "raw_inv e" and run: "raw_reset_body S opts (e, host) = (r, (e', host'))"
  let ?e = "clear_sessions e"
  have b: "bare ?e" using inv by (simp add: idle_cases)
  have "\<exists>n l x. e' = ?e\<lparr>re_generation := n, re_log := l\<rparr> \<and> r = Returned x"
  proof (cases "re_iso ?e")
    case None
    obtain x ch w where x: "raw_reset (raw_environment S ?e) (the (re_native ?e)) (raw_world (?e, host)) =
        (x, ch, w)" by (metis surj_pair)
    obtain ch0 where "re_native ?e = Some ch0" using b by (auto simp: bare_def raw_idle_def split: option.splits)
    then have "?e\<lparr>re_native := Some ch\<rparr> = ?e" using raw_reset_channel [OF x] by simp
    then show ?thesis using run x None by (auto simp: leave_world_def raw_reset_body_def Let_def)
  next
    case (Some ch0)
    obtain x ch w where x: "iso_reset (raw_environment S ?e) ch0 (raw_world (?e, host)) =
        (x, ch, w)" by (metis surj_pair)
    have "?e\<lparr>re_iso := Some ch\<rparr> = ?e" using iso_reset_channel [OF x] Some by (simp add: clear_sessions_def)
    then show ?thesis using run x Some by (auto simp: leave_world_def raw_reset_body_def Let_def)
  qed
  then obtain n l x where e': "e' = ?e\<lparr>re_generation := n, re_log := l\<rparr>" and r: "r = Returned x" by blast
  from e' have "bare e'" "same_frame e e'"
    using b by (simp_all add: steadyD) (simp add: same_frame_def clear_sessions_def)
  then show "same_frame e e' \<and> ends (\<lambda>_. bare) bare r e'" using r by (cases x) auto
qed

lemma standard_stores: "bare e \<Longrightarrow> sa_create m = Inr t \<Longrightarrow>
    standard_open (e\<lparr>re_standard_session := Some t\<rparr>) \<and>
    same_frame e (e\<lparr>re_standard_session := Some t\<rparr>)"
  by (auto simp: bare_def raw_idle_def no_session_def standard_open_def same_frame_def sa_create_def sa_inv_def
      split: if_splits)

lemma ev2_stores:
  assumes "raw_idle e" "re_standard_session e = None" "re_iso_session e = None" "ev2_create m n = Inr t"
    "length (transaction_identifier (mat_information m)) = 4"
  shows "ev2_open (e\<lparr>re_ev2_session := Some t\<rparr>) \<and>
    same_frame e (e\<lparr>re_ev2_session := Some t\<rparr>)"
  using assms ev2_inv_create [OF assms(4,5)]
  by (auto simp: raw_idle_def ev2_open_def same_frame_def ev2_create_def split: if_splits)

lemma iso_stores: "bare e \<Longrightarrow> re_iso e \<noteq> None \<Longrightarrow> is_valid t \<Longrightarrow> length (is_key t) = 16 \<Longrightarrow> length (is_iv t) = 16 \<Longrightarrow>
    iso_open (e\<lparr>re_iso_session := Some t\<rparr>) \<and>
    same_frame e (e\<lparr>re_iso_session := Some t\<rparr>)"
  by (auto simp: bare_def raw_idle_def no_session_def iso_open_def same_frame_def)

lemma regenerated [simp]:
  "raw_idle (e\<lparr>re_session_generation := g\<rparr>) = raw_idle e"
  "standard_open (e\<lparr>re_session_generation := g\<rparr>) = standard_open e"
  "ev2_open (e\<lparr>re_session_generation := g\<rparr>) = ev2_open e"
  "iso_open (e\<lparr>re_session_generation := g\<rparr>) = iso_open e"
  by (simp_all add: raw_idle_def standard_open_def ev2_open_def iso_open_def)

lemma raw_standard_aes_keeps:
  assumes "key_source source"
  shows "triple raw_inv (raw_standard_aes_body S key_no source opts)
    (\<lambda>_. standard_open) bare"
proof -
  have start: "triple bare (require (sa_create material) (\<lambda>session.
      start_session S (\<lambda>e. e\<lparr>re_standard_session := Some session\<rparr>)))
      (\<lambda>_. standard_open) bare" for material
    by (rule triple_require, rule triple_start) (simp_all add: standard_stores)
  have "triple bare (act_bind source (\<lambda>key. act_bind (with_transaction S opts (f key)) (\<lambda>material.
           require (sa_create material) (\<lambda>session.
           start_session S (\<lambda>e. e\<lparr>re_standard_session := Some session\<rparr>)))))
      (\<lambda>_. standard_open) bare" for f
    by (rule triple_bind [OF triple_source [OF assms]],
        rule triple_bind [OF triple_transaction [where good = "\<lambda>_. True"]])
       (simp_all add: start idle_cases)
  then show ?thesis
    unfolding raw_standard_aes_body_def by (rule triple_cleared_at) simp
qed

lemma raw_ev2_first_keeps:
  assumes "key_source source"
  shows "triple raw_inv (raw_ev2_first_body S key_no capabilities source opts)
    (\<lambda>_. ev2_open) bare"
proof -
  let ?good = "\<lambda>m. length (transaction_identifier (mat_information m)) = 4"
  have stores: "bare e \<Longrightarrow> ev2_create m 0 = Inr t \<Longrightarrow> ?good m \<Longrightarrow>
      ev2_open (e\<lparr>re_ev2_session := Some t\<rparr>) \<and> same_frame e (e\<lparr>re_ev2_session := Some t\<rparr>)" for e :: "'a raw_entry" and m t
    by (rule ev2_stores) (auto simp: bare_def no_session_def)
  have start: "triple (\<lambda>e. bare e \<and> ?good material) (require (ev2_create material 0) (\<lambda>session.
      act_bind (start_session S (\<lambda>e. e\<lparr>re_ev2_session := Some session\<rparr>)) (\<lambda>_. act_return a)))
      (\<lambda>_. ev2_open) bare" for material and a :: authentication_info
    by (rule triple_assume, rule triple_require, rule triple_bind, rule triple_start [where Q = ev2_open])
       (auto simp: stores intro: triple_return)
  have "triple bare (act_bind source (\<lambda>key.
           act_bind (with_transaction S opts (\<lambda>E fr tx w.
                       case ev2_authenticate_first C (transaction_random E) (ucast key_no) key
                              capabilities (transaction_frame E fr) (tx, w) of (r, _, w1) \<Rightarrow> (r, w1)))
             (\<lambda>material.
           require (ev2_create material 0) (\<lambda>session.
           act_bind (start_session S (\<lambda>e. e\<lparr>re_ev2_session := Some session\<rparr>)) (\<lambda>_.
           act_return (mat_information material))))))
      (\<lambda>_. ev2_open) bare" for C
    by (rule triple_bind [OF triple_source [OF assms]],
        rule triple_bind [OF triple_transaction [where good = ?good]])
       (auto simp: start idle_cases dest: ev2_first_information split: prod.splits)
  then show ?thesis
    unfolding raw_ev2_first_body_def by (rule triple_cleared_at) simp
qed

lemma raw_iso_aes_keeps:
  assumes "key_source source"
  shows "triple raw_inv (raw_iso_aes_body S reference source opts) (\<lambda>_. iso_open) bare"
proof -
  let ?P = "\<lambda>e. bare e \<and> re_iso e \<noteq> None"
  let ?good = "\<lambda>t. is_valid t \<and> length (is_key t) = 16 \<and> length (is_iv t) = 16"
  have handshake: "triple ?P (\<lambda>st1. case iso_authenticate (raw_environment S (fst st1)) (re_crypto (fst st1)) reference
         key opts automatic (the (re_iso (fst st1)), raw_world st1) of
       (r, ch, w) \<Rightarrow> (Returned r, leave_world w ((fst st1)\<lparr>re_iso := Some ch\<rparr>))) (\<lambda>t e. ?P e \<and> ?good t) bare" for key
  proof (rule tripleI)
    fix e host r e' host'
    assume e: "?P e" and run: "(case iso_authenticate (raw_environment S (fst (e, host))) (re_crypto (fst (e, host)))
        reference key opts automatic (the (re_iso (fst (e, host))), raw_world (e, host)) of
       (r, ch, w) \<Rightarrow> (Returned r, leave_world w ((fst (e, host))\<lparr>re_iso := Some ch\<rparr>))) = (r, (e', host'))"
    obtain x ch w where x: "iso_authenticate (raw_environment S e) (re_crypto e) reference key opts automatic
        (the (re_iso e), raw_world (e, host)) = (x, (ch, w))" by (metis surj_pair)
    have "e\<lparr>re_iso := Some ch\<rparr> = e" using iso_authenticate_channel [OF x] e by auto
    then have e': "e' = e\<lparr>re_generation := fst (fst w), re_log := snd w\<rparr>" and r: "r = Returned x"
      using run x by (auto simp: leave_world_def)
    from e' have "?P e'" "same_frame e e'" using e by (simp_all add: steadyD)
    moreover have "?good t" if "x = Inr t" for t
      using iso_authenticate_session [OF x [unfolded that]] .
    ultimately show "same_frame e e' \<and> ends (\<lambda>t e. ?P e \<and> ?good t) bare r e'" using r by (cases x) auto
  qed
  have start: "triple (\<lambda>e. ?P e \<and> ?good t) (start_session S (\<lambda>e. e\<lparr>re_iso_session := Some t\<rparr>))
      (\<lambda>_. iso_open) bare" for t
    by (rule triple_start, rule iso_stores) simp_all
  have run: "triple ?P (act_bind source (\<lambda>key. act_bind (\<lambda>st1.
       case iso_authenticate (raw_environment S (fst st1)) (re_crypto (fst st1)) reference key opts automatic
              (the (re_iso (fst st1)), raw_world st1) of
         (r, ch, w) \<Rightarrow> (Returned r, leave_world w ((fst st1)\<lparr>re_iso := Some ch\<rparr>))) (\<lambda>session.
           start_session S (\<lambda>e. e\<lparr>re_iso_session := Some session\<rparr>)))) (\<lambda>_. iso_open) bare"
  proof (rule triple_bind)
    show "triple ?P source (\<lambda>_. ?P) bare"
      by (rule triple_weaken [OF triple_source [OF assms, of ?P]]) simp_all
  qed (rule triple_bind [OF handshake start])
  show ?thesis
  proof (rule tripleI)
    fix e host r e' host'
    assume inv: "raw_inv e" and body: "raw_iso_aes_body S reference source opts (e, host) = (r, (e', host'))"
    show "same_frame e e' \<and> ends (\<lambda>_. iso_open) bare r e'"
    proof (cases "re_iso e")
      case None
      then show ?thesis using inv body by (auto simp: raw_iso_aes_body_def refuse_def)
    next
      case (Some ch)
      with inv have P: "?P (clear_sessions e)" by (simp add: idle_cases) (simp add: clear_sessions_def)
      from Some body have "act_bind source (\<lambda>key. act_bind (\<lambda>st1.
         case iso_authenticate (raw_environment S (fst st1)) (re_crypto (fst st1)) reference key opts automatic
                (the (re_iso (fst st1)), raw_world st1) of
           (r, ch, w) \<Rightarrow> (Returned r, leave_world w ((fst st1)\<lparr>re_iso := Some ch\<rparr>))) (\<lambda>session.
             start_session S (\<lambda>e. e\<lparr>re_iso_session := Some session\<rparr>))) (clear_sessions e, host) = (r, (e', host'))"
        by (simp add: raw_iso_aes_body_def)
      from tripleD [OF run P this] have "same_frame (clear_sessions e) e'" "ends (\<lambda>_. iso_open) bare r e'"
        by simp_all
      then show ?thesis
        using same_frame_trans [OF cleared(2)] ends_weaken bare_inv by metis
    qed
  qed
qed

end
