(* ===== verification/C_Raw_Secure.thy ===== *)
theory C_Raw_Secure
  imports C_Raw_Sessions
begin

text \<open>
  The operations that use the session of a raw channel: EV2 NonFirst, the secure native exchange and
  the secure ISO exchange. Each first checks that the session belongs to the transport's current
  generation; afterwards the channel has a session that is ready, or none.
\<close>

section \<open>The check of the session\<close>

lemma transport_generation_reads:
  assumes "transport_generation S (e, host) = (g, (e', host'))"
  shows "\<exists>n. e' = e\<lparr>re_generation := n\<rparr>"
  using assms
  by (auto simp: transport_generation_def leave_world_def raw_environment_def recording_def raw_world_def
      observe_def split: prod.splits)

lemma require_current_session_result:
  assumes "raw_inv e" "require_current_session S (e, host) = (r, (e', host'))"
  shows "r = Returned (Inr ()) \<and> re_session_generation e \<noteq> 0 \<and> (\<exists>n. e' = e\<lparr>re_generation := n\<rparr>) \<or>
    (\<exists>err. r = Returned (Inl err) \<and> err_outcome err = OC_not_sent \<and> bare e' \<and> same_frame e e' \<and> re_log e' = re_log e)"
proof (cases "re_session_generation e = 0")
  case True
  then have "e' = clear_sessions e" "r = Returned (Inl (local_error EC_session_invalid
      (STR ''Raw authentication session is absent or stale'')))"
    using assms(2) by (auto simp: require_current_session_def)
  then show ?thesis using assms(1) by (simp add: idle_cases) (simp add: clear_sessions_def)
next
  case False
  obtain g e1 host1 where g: "transport_generation S (e, host) = (g, (e1, host1))" by (metis surj_pair)
  then obtain n where e1: "e1 = e\<lparr>re_generation := n\<rparr>" using transport_generation_reads by blast
  show ?thesis
  proof (cases "re_session_generation e = g")
    case True
    then show ?thesis using assms(2) False g e1 by (auto simp: require_current_session_def)
  next
    case stale: False
    then have e': "e' = clear_sessions e1" and r: "r = Returned (Inl (local_error EC_session_invalid
        (STR ''Raw authentication session is absent or stale'')))"
      using assms(2) False g by (auto simp: require_current_session_def)
    have "bare e'"
      using assms(1) e1 e' by (simp add: idle_cases steady_conditions [unfolded steady_def])
    moreover have "same_frame e e'" "re_log e' = re_log e"
      using e1 e' by (simp_all add: same_frame_def clear_sessions_def)
    ultimately show ?thesis using r by auto
  qed
qed

section \<open>Secure native exchanges\<close>

context secure_session
begin

lemma protected_exchange_result:
  assumes run: "protected_exchange S provide select store inactive rq opts (e, host) = (r, (e', host'))"
    and provide: "provide (re_crypto e) = ops"
    and channel: "re_native e = Some ch" and session: "select e = Some t" and t: "inv t"
  shows "\<exists>x t' n l. r = Returned x \<and>
    e' = (if isl x \<or> sq_invalidates_session rq then (store None e)\<lparr>re_session_generation := 0\<rparr> else store (Some t') e)
        \<lparr>re_generation := n, re_log := l\<rparr> \<and>
    (\<not> isl x \<longrightarrow> inv t' \<and> (sq_invalidates_session rq \<or> ready t') \<and>
      sq_minimum_response rq \<le> length (projr x) \<and> length (projr x) \<le> sq_maximum_response rq)"
proof -
  obtain x t' ch' w where x: "exchange_protected ops (raw_environment S e) rq opts t ch (raw_world (e, host)) =
      (x, t', ch', w)" by (metis surj_pair)
  obtain s log s' log' where w: "raw_world (e, host) = (s, log)" "w = (s', log')" by (metis surj_pair)
  note result = exchange_protected_session [OF x [unfolded raw_environment_def w] t]
  have "e\<lparr>re_native := Some ch'\<rparr> = e" using result channel by simp
  then have "r = Returned x \<and> e' = (if isl x \<or> sq_invalidates_session rq then (store None e)\<lparr>re_session_generation := 0\<rparr>
      else store (Some t') e)\<lparr>re_generation := fst (fst w), re_log := snd w\<rparr>"
    using run x channel session provide by (auto simp: protected_exchange_def leave_world_def Let_def)
  moreover have "\<not> isl x \<longrightarrow> inv t' \<and> (sq_invalidates_session rq \<or> ready t') \<and>
      sq_minimum_response rq \<le> length (projr x) \<and> length (projr x) \<le> sq_maximum_response rq"
    using result by (cases x) (auto split: if_splits)
  ultimately show ?thesis by blast
qed

end

text \<open>What a secure native exchange may leave behind.\<close>

definition session_spent :: "secure_request \<Rightarrow> bytes result \<Rightarrow> 'h raw_entry \<Rightarrow> bool" where
  "session_spent rq x e \<longleftrightarrow> (if isl x \<or> sq_invalidates_session rq then bare e else standard_open e \<or> ev2_open e)"

lemma standard_session: "raw_inv e \<Longrightarrow> re_standard_session e = Some t \<Longrightarrow> standard_open e \<and> sa_inv t \<and> sa_phase t = Sa_ready"
  by (auto simp: raw_inv_def bare_def no_session_def standard_open_def ev2_open_def iso_open_def)

lemma ev2_session: "raw_inv e \<Longrightarrow> re_ev2_session e = Some t \<Longrightarrow> ev2_open e \<and> ev2_inv t \<and> e_phase t = Ev2_ready"
  by (auto simp: raw_inv_def bare_def no_session_def standard_open_def ev2_open_def iso_open_def)

lemma iso_session: "raw_inv e \<Longrightarrow> re_iso_session e = Some t \<Longrightarrow>
    iso_open e \<and> re_iso e \<noteq> None \<and> is_valid t \<and> length (is_key t) = 16 \<and> length (is_iv t) = 16"
  by (auto simp: raw_inv_def bare_def no_session_def standard_open_def ev2_open_def iso_open_def)

lemma raw_inv_generation [simp]: "raw_inv (e\<lparr>re_generation := n\<rparr>) = raw_inv e"
  by (simp add: steady_conditions(7) [unfolded steady_def, THEN conjunct1, rule_format])

text \<open>The branch of one profile, after the session has been checked.\<close>

lemma standard_branch:
  assumes inv: "raw_inv e"
    and run: "protected_exchange S sa_ops re_standard_session (\<lambda>ses e. e\<lparr>re_standard_session := ses\<rparr>) standard_inactive
      rq opts (e, host) = (r, (e', host'))"
  shows "same_frame e e' \<and> (\<exists>x. r = Returned x \<and>
    (session_spent rq x e' \<and> (\<not> isl x \<longrightarrow>
        sq_minimum_response rq \<le> length (projr x) \<and> length (projr x) \<le> sq_maximum_response rq) \<or>
     (\<exists>err. x = Inl err \<and> err_outcome err = OC_not_sent \<and> e' = e)))"
proof (cases "re_standard_session e")
  case None
  then show ?thesis
    using run by (auto simp: protected_exchange_def refuse_def standard_inactive_def)
next
  case (Some t)
  obtain ch where ch: "re_native e = Some ch"
    using idle_cases(2) [OF inv] by (auto simp: raw_idle_def split: option.splits)
  note t = standard_session [OF inv Some]
  from sa.protected_exchange_result [OF run refl ch Some] t obtain x t' n l where x: "r = Returned x"
    "e' = (if isl x \<or> sq_invalidates_session rq then (e\<lparr>re_standard_session := None\<rparr>)\<lparr>re_session_generation := 0\<rparr>
      else e\<lparr>re_standard_session := Some t'\<rparr>)\<lparr>re_generation := n, re_log := l\<rparr>"
    "\<not> isl x \<longrightarrow> sa_inv t' \<and> (sq_invalidates_session rq \<or> sa_phase t' = Sa_ready) \<and>
      sq_minimum_response rq \<le> length (projr x) \<and> length (projr x) \<le> sq_maximum_response rq" by blast
  have "session_spent rq x e'" "same_frame e e'"
    using x t by (auto simp: session_spent_def same_frame_def bare_def no_session_def standard_open_def raw_idle_def
        split: if_splits)
  then show ?thesis using x by blast
qed

lemma ev2_branch:
  assumes inv: "raw_inv e"
    and run: "protected_exchange S ev2_ops re_ev2_session (\<lambda>ses e. e\<lparr>re_ev2_session := ses\<rparr>) ev2_inactive
      rq opts (e, host) = (r, (e', host'))"
  shows "same_frame e e' \<and> (\<exists>x. r = Returned x \<and>
    (session_spent rq x e' \<and> (\<not> isl x \<longrightarrow>
        sq_minimum_response rq \<le> length (projr x) \<and> length (projr x) \<le> sq_maximum_response rq) \<or>
     (\<exists>err. x = Inl err \<and> err_outcome err = OC_not_sent \<and> e' = e)))"
proof (cases "re_ev2_session e")
  case None
  then show ?thesis
    using run by (auto simp: protected_exchange_def refuse_def ev2_inactive_def)
next
  case (Some t)
  obtain ch where ch: "re_native e = Some ch"
    using idle_cases(2) [OF inv] by (auto simp: raw_idle_def split: option.splits)
  note t = ev2_session [OF inv Some]
  from ev2.protected_exchange_result [OF run refl ch Some] t obtain x t' n l where x: "r = Returned x"
    "e' = (if isl x \<or> sq_invalidates_session rq then (e\<lparr>re_ev2_session := None\<rparr>)\<lparr>re_session_generation := 0\<rparr>
      else e\<lparr>re_ev2_session := Some t'\<rparr>)\<lparr>re_generation := n, re_log := l\<rparr>"
    "\<not> isl x \<longrightarrow> ev2_inv t' \<and> (sq_invalidates_session rq \<or> e_phase t' = Ev2_ready) \<and>
      sq_minimum_response rq \<le> length (projr x) \<and> length (projr x) \<le> sq_maximum_response rq" by blast
  have "session_spent rq x e'" "same_frame e e'"
    using x t by (auto simp: session_spent_def same_frame_def bare_def no_session_def ev2_open_def raw_idle_def
        split: if_splits)
  then show ?thesis using x by blast
qed

lemma native_secure_result:
  assumes inv: "raw_inv e" and run: "native_secure_body S profile rq opts (e, host) = (r, (e', host'))"
  shows "same_frame e e' \<and> (\<exists>x. r = Returned x \<and>
    (session_spent rq x e' \<and> (\<not> isl x \<longrightarrow>
        re_session_generation e \<noteq> 0 \<and> sq_minimum_response rq \<le> length (projr x) \<and> length (projr x) \<le> sq_maximum_response rq) \<or>
     (\<exists>err n. x = Inl err \<and> err_outcome err = OC_not_sent \<and> e' = e\<lparr>re_generation := n\<rparr>)))"
proof -
  obtain c e1 host1 where c: "require_current_session S (e, host) = (c, (e1, host1))" by (metis surj_pair)
  from require_current_session_result [OF inv c] show ?thesis
  proof (elim disjE exE conjE)
    fix err
    assume "c = Returned (Inl err)" "bare e1" "same_frame e e1"
    moreover from this have "r = Returned (Inl err)" "e' = e1"
      using run c by (auto simp: native_secure_body_def act_bind_def)
    ultimately show ?thesis by (simp add: session_spent_def)
  next
    fix n
    assume c1: "c = Returned (Inr ())" and gen: "re_session_generation e \<noteq> 0" and e1: "e1 = e\<lparr>re_generation := n\<rparr>"
    have idle: "raw_idle e" using inv by (simp add: idle_cases)
    then obtain ch where ch: "re_native e = Some ch" by (auto simp: raw_idle_def split: option.splits)
    have inv1: "raw_inv e1" using inv e1 by simp
    have run1: "(if profile = 1
       then protected_exchange S sa_ops re_standard_session
              (\<lambda>ses e. e\<lparr>re_standard_session := ses\<rparr>) standard_inactive rq opts (e1, host1)
       else protected_exchange S ev2_ops re_ev2_session
              (\<lambda>ses e. e\<lparr>re_ev2_session := ses\<rparr>) ev2_inactive rq opts (e1, host1)) = (r, (e', host'))"
      using run c c1 ch e1 by (cases "profile = 1") (simp_all add: native_secure_body_def)
    have frame: "same_frame e e'" if "same_frame e1 e'"
      using that e1 by (simp add: same_frame_def)
    show ?thesis
      using run1 standard_branch [OF inv1, of S rq opts host1 r e' host'] ev2_branch [OF inv1, of S rq opts host1 r e' host']
        frame e1 gen
      by (cases "profile = 1") auto
  qed
qed

section \<open>Secure ISO exchanges\<close>

lemma iso_execute_Inl:
  assumes "iso_execute E C same c opts limits ses ch s = (Inl err, ses', ch', s')" "is_valid ses"
  shows "ses' = ses \<and> err_outcome err = OC_not_sent \<or> \<not> is_valid ses'"
proof -
  obtain g s1 where g: "env_generation E s = (g, s1)" by fastforce
  show ?thesis
  proof (cases "same \<and> g = is_generation ses")
    case False
    then show ?thesis using assms g by (auto simp: iso_execute_def Let_def iso_invalidate_def split: if_splits)
  next
    case True
    show ?thesis
    proof (cases "protected_limits c limits")
      case (Inl e)
      then show ?thesis using assms g True protected_limits_Inl [OF Inl] by (auto simp: iso_execute_def)
    next
      case (Inr pl)
      obtain x ch1 s2 where x: "checked_exchange E c opts pl ch s1 = (x, ch1, s2)" by (metis prod_cases3)
      obtain s3 where "conclude_execute E C c x ses s2 = (Inl err, ses', s3)"
        using assms g True Inr x by (auto simp: iso_execute_def split: prod.splits)
      from conclude_execute_result [OF this] show ?thesis by (auto simp: iso_invalidate_def)
    qed
  qed
qed

text \<open>The entry changed in its generation and its log only.\<close>

definition advanced :: "'h raw_entry \<Rightarrow> 'h raw_entry \<Rightarrow> bool" where
  "advanced e e' \<longleftrightarrow> (\<exists>n l. e' = e\<lparr>re_generation := n, re_log := l\<rparr>)"

lemma advanced_update: "re_iso_session e = Some ses \<Longrightarrow>
    advanced e (e\<lparr>re_iso_session := Some ses, re_generation := n, re_log := l\<rparr>)"
  unfolding advanced_def by (intro exI [of _ n] exI [of _ l]) simp

lemma iso_secure_result:
  assumes inv: "raw_inv e" and run: "iso_secure_body S command limits opts (e, host) = (r, (e', host'))"
  shows "same_frame e e' \<and> (\<exists>x. r = Returned x \<and>
    (case x of
       Inr answer \<Rightarrow> iso_open e \<and> iso_open e' \<and> \<not> resets_authentication command \<and> re_session_generation e \<noteq> 0
     | Inl err \<Rightarrow> bare e' \<or> err_outcome err = OC_not_sent \<and> advanced e e'))"
proof -
  obtain c e1 host1 where c: "require_current_session S (e, host) = (c, (e1, host1))" by (metis surj_pair)
  from require_current_session_result [OF inv c] show ?thesis
  proof (elim disjE exE conjE)
    fix err
    assume "c = Returned (Inl err)" "bare e1" "same_frame e e1"
    moreover from this have "r = Returned (Inl err)" "e' = e1"
      using run c by (auto simp: iso_secure_body_def act_bind_def)
    ultimately show ?thesis by simp
  next
    fix n
    assume c1: "c = Returned (Inr ())" and gen: "re_session_generation e \<noteq> 0" and e1: "e1 = e\<lparr>re_generation := n\<rparr>"
    show ?thesis
    proof (cases "re_iso_session e")
      case None
      then have "e' = e1" "\<exists>err. r = Returned (Inl err) \<and> err_outcome err = OC_not_sent"
        using run c c1 e1 by (auto simp: iso_secure_body_def refuse_def split: option.splits)
      moreover have "advanced e e1"
        unfolding advanced_def using e1 by (intro exI [of _ n] exI [of _ "re_log e"]) simp
      moreover have "same_frame e e1" using e1 by (simp add: same_frame_def)
      ultimately show ?thesis by auto
    next
      case (Some ses)
      from iso_session [OF inv Some] obtain ch where ch: "re_iso e = Some ch" and ses: "iso_open e" "is_valid ses"
        "length (is_key ses) = 16" "length (is_iv ses) = 16" by blast
      obtain x ses1 ch1 w where x: "iso_execute (raw_environment S e1) (re_crypto e1) True command opts limits ses ch
          (raw_world (e1, host1)) = (x, ses1, ch1, w)" by (metis surj_pair)
      have ch1: "ch1 = ch" by (rule iso_execute_channel [OF x])
      show ?thesis
      proof (cases x)
        case (Inl err)
        then have "r = Returned (Inl err)" and e': "e' = (if is_valid ses1 then e\<lparr>re_iso_session := Some ses1\<rparr>
            else e\<lparr>re_iso_session := None, re_session_generation := 0\<rparr>)
            \<lparr>re_generation := fst (fst w), re_log := snd w\<rparr>"
          using run c c1 x ch ch1 Some e1 by (auto simp: iso_secure_body_def leave_world_def Let_def)
        moreover have "same_frame e e'" using e' by (simp add: same_frame_def)
        moreover have "advanced e e' \<and> err_outcome err = OC_not_sent \<or> bare e'"
          using iso_execute_Inl [OF x [unfolded Inl] ses(2)] e' ses(1,2) Some
          by (auto simp: advanced_update bare_def no_session_def iso_open_def raw_idle_def)
        ultimately show ?thesis by auto
      next
        case (Inr resp)
        then have "\<exists>answer. r = Returned (Inr answer)" and e': "e' = e\<lparr>re_iso_session := Some ses1\<rparr>
            \<lparr>re_generation := fst (fst w), re_log := snd w\<rparr>"
          using run c c1 x ch ch1 Some e1 by (auto simp: iso_secure_body_def leave_world_def Let_def)
        moreover have "same_frame e e'" using e' by (simp add: same_frame_def)
        moreover have "iso_open e'" "\<not> resets_authentication command"
          using iso_execute_Inr [OF x [unfolded Inr]] e' ses ch by (auto simp: iso_open_def raw_idle_def)
        ultimately show ?thesis using gen ses(1) by auto
      qed
    qed
  qed
qed

section \<open>EV2 NonFirst\<close>

lemma raw_ev2_non_first_keeps:
  assumes source: "key_source source"
  shows "triple raw_inv (raw_ev2_non_first_body S key_no source opts) (\<lambda>_. ev2_open) bare"
proof (rule tripleI)
  fix e host r e' host'
  assume inv: "raw_inv e" and run: "raw_ev2_non_first_body S key_no source opts (e, host) = (r, (e', host'))"
  obtain c e1 host1 where c: "require_current_session S (e, host) = (c, (e1, host1))" by (metis surj_pair)
  from require_current_session_result [OF inv c] show "same_frame e e' \<and> ends (\<lambda>_. ev2_open) bare r e'"
  proof (elim disjE exE conjE)
    fix err
    assume "c = Returned (Inl err)" "bare e1" "same_frame e e1"
    moreover from this have "r = Returned (Inl err)" "e' = e1"
      using run c by (auto simp: raw_ev2_non_first_body_def act_bind_def)
    ultimately show ?thesis by (simp add: bare_inv)
  next
    fix n
    assume c1: "c = Returned (Inr ())" and e1: "e1 = e\<lparr>re_generation := n\<rparr>"
    show ?thesis
    proof (cases "re_ev2_session e")
      case None
      then have "e' = e1" "\<exists>err. r = Returned (Inl err) \<and> err_outcome err \<noteq> OC_unknown"
        using run c c1 e1 by (auto simp: raw_ev2_non_first_body_def refuse_def)
      then show ?thesis using e1 inv by (auto simp: same_frame_def)
    next
      case (Some old)
      from ev2_session [OF inv Some] have old: "ev2_open e" "length (transaction_identifier (e_authentication old)) = 4"
        by (auto simp: ev2_inv_def)
      let ?good = "\<lambda>m. length (transaction_identifier (mat_information m)) = 4"
      let ?e = "e1\<lparr>re_ev2_session := None\<rparr>"
      have start: "triple (\<lambda>e. bare e \<and> ?good material) (act_bind (or_clear (require (ev2_create material k) act_return))
          (\<lambda>session. act_bind (start_session S (\<lambda>e. e\<lparr>re_ev2_session := Some session\<rparr>)) (\<lambda>_. act_return a)))
          (\<lambda>_. ev2_open) bare" for material k and a :: authentication_info
      proof (rule triple_bind)
        show "triple (\<lambda>e. bare e \<and> ?good material) (or_clear (require (ev2_create material k) act_return))
            (\<lambda>t e. bare e \<and> (?good material \<and> ev2_create material k = Inr t)) bare"
          by (intro triple_or_clear triple_assume triple_require triple_return) auto
        show "triple (\<lambda>e. bare e \<and> (?good material \<and> ev2_create material k = Inr t))
            (act_bind (start_session S (\<lambda>e. e\<lparr>re_ev2_session := Some t\<rparr>)) (\<lambda>_. act_return a)) (\<lambda>_. ev2_open) bare" for t
        proof (rule triple_assume, rule triple_bind)
          assume "?good material \<and> ev2_create material k = Inr t"
          then show "triple bare (start_session S (\<lambda>e. e\<lparr>re_ev2_session := Some t\<rparr>)) (\<lambda>_. ev2_open) bare"
            by (intro triple_start ev2_stores) (auto simp: bare_def no_session_def)
        qed (rule triple_return)
      qed
      have body: "triple bare (act_bind (or_clear source) (\<lambda>key.
           act_bind (or_clear (with_transaction S opts (\<lambda>E fr tx w.
                       case ev2_authenticate_nonfirst C (transaction_random E) (ucast key_no)
                              key (e_authentication old) (transaction_frame E fr) (tx, w) of (r, _, w1) \<Rightarrow> (r, w1))))
             (\<lambda>material.
           act_bind (or_clear (require (ev2_create material (e_counter old)) act_return)) (\<lambda>session.
           act_bind (start_session S (\<lambda>e. e\<lparr>re_ev2_session := Some session\<rparr>)) (\<lambda>_.
           act_return (e_authentication old))))))
          (\<lambda>_. ev2_open) bare" for C
        by (rule triple_bind [OF triple_or_clear [OF triple_source [OF source]]],
            rule triple_bind [OF triple_or_clear [OF triple_transaction [where good = ?good]]])
           (auto simp: start idle_cases old(2) dest: ev2_nonfirst_information split: prod.splits)
      have "bare ?e" using old(1) e1 by (auto simp: bare_def no_session_def ev2_open_def raw_idle_def)
      have "same_frame e ?e" using e1 by (simp add: same_frame_def)
      from Some run c c1 e1 have "act_bind (or_clear source) (\<lambda>key.
           act_bind (or_clear (with_transaction S opts (\<lambda>E fr tx w.
                       case ev2_authenticate_nonfirst (re_crypto e1) (transaction_random E) (ucast key_no)
                              key (e_authentication old) (transaction_frame E fr) (tx, w) of (r, _, w1) \<Rightarrow> (r, w1))))
             (\<lambda>material.
           act_bind (or_clear (require (ev2_create material (e_counter old)) act_return)) (\<lambda>session.
           act_bind (start_session S (\<lambda>e. e\<lparr>re_ev2_session := Some session\<rparr>)) (\<lambda>_.
           act_return (e_authentication old))))) (?e, host1) = (r, (e', host'))"
        by (simp add: raw_ev2_non_first_body_def)
      from tripleD [OF body \<open>bare ?e\<close> this] have "same_frame ?e e'" "ends (\<lambda>_. ev2_open) bare r e'" by simp_all
      then show ?thesis using same_frame_trans [OF \<open>same_frame e ?e\<close>] ends_weaken bare_inv by metis
    qed
  qed
qed

text \<open>The secure exchanges as triples.\<close>

lemma open_inv: "standard_open e \<Longrightarrow> raw_inv e" "ev2_open e \<Longrightarrow> raw_inv e" "iso_open e \<Longrightarrow> raw_inv e"
  by (simp_all add: raw_inv_def)

lemma spent_inv: "session_spent rq x e \<Longrightarrow> raw_inv e"
  by (auto simp: session_spent_def open_inv bare_inv split: if_splits)

lemma advanced_inv: "advanced e e' \<Longrightarrow> raw_inv e' = raw_inv e"
  by (auto simp: advanced_def steadyD)

lemma native_secure_keeps: "triple raw_inv (native_secure_body S profile rq opts) (\<lambda>_. raw_inv) bare"
proof (rule tripleI)
  fix e host r e' host'
  assume inv: "raw_inv e" and run: "native_secure_body S profile rq opts (e, host) = (r, (e', host'))"
  from native_secure_result [OF inv run] obtain x where x: "same_frame e e'" "r = Returned x"
    "session_spent rq x e' \<or> (\<exists>err n. x = Inl err \<and> err_outcome err = OC_not_sent \<and> e' = e\<lparr>re_generation := n\<rparr>)"
    by blast
  moreover have "raw_inv e'" using x(3) inv by (auto intro: spent_inv)
  ultimately show "same_frame e e' \<and> ends (\<lambda>_. raw_inv) bare r e'"
    by (cases x) (auto simp: session_spent_def)
qed

lemma iso_secure_keeps: "triple raw_inv (iso_secure_body S command limits opts) (\<lambda>_. raw_inv) bare"
proof (rule tripleI)
  fix e host r e' host'
  assume inv: "raw_inv e" and run: "iso_secure_body S command limits opts (e, host) = (r, (e', host'))"
  from iso_secure_result [OF inv run] obtain x where x: "same_frame e e'" "r = Returned x"
    "case x of Inr answer \<Rightarrow> iso_open e' | Inl err \<Rightarrow> bare e' \<or> err_outcome err = OC_not_sent \<and> advanced e e'"
    by (fastforce split: sum.splits)
  then show "same_frame e e' \<and> ends (\<lambda>_. raw_inv) bare r e'"
    using inv by (cases x) (auto simp: open_inv advanced_inv)
qed

end
