(* ===== verification/C_Contract.thy ===== *)
theory C_Contract
  imports C_Calls
begin

text \<open>
  What every function of the C interface on a managed card keeps. The contract of a body says what it
  does to the card of its entry; the contract of a call says what it does to the library, and is an
  instance of \<open>call_contract\<close>. Both are closed under the combinators of the interface, so that
  each function meets its contract by the rules collected here.
\<close>

section \<open>Bodies\<close>

text \<open>
  A body keeps the card's invariant; a failure with an unknown outcome gives the card up; a given-up
  card stays so and nothing is sent for it; and what throws has not touched the card.
\<close>

definition card_change ::
  "card_state \<Rightarrow> exchange_log \<Rightarrow> 'a result dep \<Rightarrow> card_state \<Rightarrow> exchange_log \<Rightarrow> bool" where
  "card_change k log r k' log' \<longleftrightarrow>
     card_inv k' \<and> \<not> card_operation_active k' \<and> (\<not> card_usable k \<longrightarrow> \<not> card_usable k' \<and> log' = log) \<and>
     (r = Threw \<longrightarrow> k' = k \<and> log' = log) \<and>
     (\<forall>e. r = Returned (Inl e) \<and> err_outcome e = OC_unknown \<longrightarrow> \<not> card_usable k')"

definition body_ok :: "(card_state \<times> 'h entry_world, 'a) action \<Rightarrow> bool" where
  "body_ok f \<longleftrightarrow>
     (\<forall>k c log r k' c' log'. card_inv k \<and> \<not> card_operation_active k \<and> f (k, (c, log)) = (r, (k', (c', log'))) \<longrightarrow>
        card_change k log r k' log')"

text \<open>A body that only talks to the host.\<close>

definition host_body :: "(card_state \<times> 'h entry_world, 'a) action \<Rightarrow> bool" where
  "host_body f \<longleftrightarrow> (\<forall>k c log. \<exists>r c'. f (k, (c, log)) = (r, (k, (c', log))) \<and> definite_dep r)"

lemma plain_host:
  assumes "plain_body f"
  shows "host_body f"
  unfolding host_body_def
proof (intro allI)
  fix k c log
  from assms obtain r where "f (k, (c, log)) = (Returned r, (k, (c, log)))" "definite r"
    unfolding plain_body_def by blast
  then show "\<exists>r c'. f (k, c, log) = (r, k, c', log) \<and> definite_dep r" by auto
qed

lemma untouched_card:
  "card_inv k \<Longrightarrow> \<not> card_operation_active k \<Longrightarrow> definite_dep r \<Longrightarrow> card_change k log r k log"
  by (auto simp: card_change_def definite_dep_def)

lemma host_body_ok:
  assumes "host_body f"
  shows "body_ok f"
  unfolding body_ok_def
proof (intro allI impI, elim conjE)
  fix k c log r k' c' log'
  assume a: "card_inv k" "\<not> card_operation_active k" "f (k, c, log) = (r, k', c', log')"
  obtain x c1 where "f (k, (c, log)) = (x, (k, (c1, log)))" "definite_dep x"
    using assms unfolding host_body_def by blast
  with a show "card_change k log r k' log'" by (simp add: untouched_card)
qed

lemma body_ok_plain [contract_intros]:
  "err_outcome e \<noteq> OC_unknown \<Longrightarrow> body_ok (refuse e)" "body_ok (act_return a)"
  by (auto intro!: host_body_ok plain_host contract_intros)

lemma body_ok_require [contract_intros]:
  assumes "definite r" "\<And>a. body_ok (f a)"
  shows "body_ok (require r f)"
proof (cases r)
  case (Inl e)
  then have "require r f = refuse e" by (simp add: require_def refuse_def fun_eq_iff)
  then show ?thesis using assms(1) Inl body_ok_plain(1) [of e] by simp
next
  case (Inr a)
  then have "require r f = f a" by (simp add: require_def fun_eq_iff)
  then show ?thesis using assms(2) by simp
qed

lemma body_ok_if [contract_intros]: "body_ok f \<Longrightarrow> body_ok g \<Longrightarrow> body_ok (if p then f else g)"
  by simp

lemma body_ok_output [contract_intros]:
  assumes "body_ok f"
  shows "body_ok (output_bytes slot f)"
proof (cases "slot = Slot None")
  case True
  then have "output_bytes slot f = f" by (simp add: output_bytes_def fun_eq_iff)
  then show ?thesis using assms by simp
next
  case False
  then have "output_bytes slot f = refuse (invalid (STR ''Output must point to a null buffer handle''))"
    by (simp add: output_bytes_def refuse_def fun_eq_iff)
  then show ?thesis by (simp add: body_ok_plain)
qed

lemma body_ok_after_host:
  assumes "host_body f" "\<And>a. body_ok (g a)"
  shows "body_ok (act_bind f g)"
  unfolding body_ok_def
proof (intro allI impI, elim conjE)
  fix k c log r k' c' log'
  assume a: "card_inv k" "\<not> card_operation_active k" "act_bind f g (k, c, log) = (r, k', c', log')"
  obtain x c1 where x: "f (k, (c, log)) = (x, (k, (c1, log)))" "definite_dep x"
    using assms(1) unfolding host_body_def by blast
  show "card_change k log r k' log'"
  proof (cases x rule: result_dep_cases)
    case (3 v)
    then have "g v (k, (c1, log)) = (r, (k', (c', log')))" using a x(1) by (simp add: act_bind_def)
    with assms(2) [of v] a show ?thesis unfolding body_ok_def by blast
  qed (use a x in \<open>auto simp: act_bind_def intro!: untouched_card\<close>)
qed

lemma body_ok_then_plain:
  assumes "body_ok f" "\<And>a. plain_body (g a)"
  shows "body_ok (act_bind f g)"
  unfolding body_ok_def
proof (intro allI impI, elim conjE)
  fix k c log r k' c' log'
  assume a: "card_inv k" "\<not> card_operation_active k" "act_bind f g (k, c, log) = (r, k', c', log')"
  obtain x k1 c1 log1 where x: "f (k, (c, log)) = (x, (k1, (c1, log1)))" by (metis prod_cases4)
  then have f: "card_change k log x k1 log1" using assms(1) a unfolding body_ok_def by blast
  show "card_change k log r k' log'"
  proof (cases x rule: result_dep_cases)
    case (3 v)
    obtain y where "g v (k1, (c1, log1)) = (Returned y, (k1, (c1, log1)))" "definite y"
      using assms(2) [of v] unfolding plain_body_def by blast
    then show ?thesis using a x f 3 by (auto simp: act_bind_def card_change_def)
  qed (use a x f in \<open>auto simp: act_bind_def card_change_def\<close>)
qed

section \<open>Operations of the card\<close>

lemma on_card_ok: "managed_operation op \<Longrightarrow> body_ok (on_card op)"
  unfolding body_ok_def on_card_def
  by (auto split: prod.splits dest!: managed_operation.meets simp: operation_ok_def card_change_def)

lemma definite_builders: "definite (checked_build call)"
  by (auto simp: definite_def dest: checked_build_error)

lemma definite_commands [contract_intros]:
  "definite get_application_ids"
  "definite get_iso_file_ids"
  "definite (create_application a)"
  "definite (create_delegated_application d k m)"
  "definite (get_delegated_application_info slot)"
  "definite (delete_application aid)"
  "definite (delete_delegated_application aid m)"
  "definite get_key_settings"
  "definite (change_key_settings b)"
  "definite (get_key_version key ks)"
  "definite get_key_set_versions"
  "definite (change_aes_key key nk v ak old ks pm)"
  "definite (initialize_key_set b)"
  "definite (finalize_key_set b v)"
  "definite (roll_key_set b)"
  "definite (create_data_file fd)"
  "definite (create_value_file fv)"
  "definite (create_record_file fr)"
  "definite (create_transaction_mac_file file ar aes v)"
  "definite (delete_file file)"
  "definite (get_file_settings file)"
  "definite (get_file_counters file md)"
  "definite (change_file_settings fs)"
  "definite (read_data file off n md)"
  "definite (write_data file off d1 md)"
  "definite (read_records file off n md mx)"
  "definite (write_record file off d1 md)"
  "definite (update_record file rno off d1 md)"
  "definite (clear_record_file file)"
  "definite (get_value file md)"
  "definite (credit file am md)"
  "definite (debit file am md)"
  "definite (limited_credit file am md)"
  "definite (restore_transfer file src md)"
  "definite (commit_transaction tm)"
  "definite abort_transaction"
  "definite (commit_reader_id d1)"
  "definite (get_card_uid rq)"
  "definite read_originality_signature"
  "definite format_picc"
  "definite (set_picc_configuration pc)"
  "definite (set_capability_configuration d1)"
  "definite (set_default_aes_key aes v)"
  "definite (set_ats d1)"
  "definite (set_atqa at)"
  by (simp_all only: checked_build.simps [symmetric] definite_builders)

lemma card_run_managed [contract_intros]:
  assumes "definite built"
  shows "managed_operation (card_run (recording E) C built opts)"
proof
  fix k s log r k' s' log'
  assume "card_inv k" "card_run (recording E) C built opts k (s, log) = (r, k', (s', log'))"
  then show "operation_ok k log r k' log'"
    using assms execute.meets [of k E C _ opts s log r k' s' log']
    by (cases built) (auto simp: card_run_def operation_ok_def)
qed

lemma card_run_void_managed [contract_intros]:
  assumes "definite built"
  shows "managed_operation (card_run_void (recording E) C built opts)"
proof
  fix k s log and r :: "unit result" and k' s' log'
  assume a: "card_inv k" "card_run_void (recording E) C built opts k (s, log) = (r, k', (s', log'))"
  obtain x k1 s1 log1 where x: "card_run (recording E) C built opts k (s, log) = (x, k1, (s1, log1))"
    by (metis prod_cases4)
  from managed_operation.meets [OF card_run_managed [OF assms] a(1) x] a(2) x
  show "operation_ok k log r k' log'"
    by (cases x) (auto simp: card_run_void_def operation_ok_def)
qed

lemma card_query_managed:
  assumes "definite built" "parser_fits built parse"
  shows "managed_operation (card_query (recording E) C built parse opts)"
proof
  fix k s log r k' s' log'
  assume a: "card_inv k" "card_query (recording E) C built parse opts k (s, log) = (r, k', (s', log'))"
  obtain x k1 s1 log1 where x: "card_run (recording E) C built opts k (s, log) = (x, k1, (s1, log1))"
    by (metis prod_cases4)
  from managed_operation.meets [OF card_run_managed [OF assms(1)] a(1) x]
    card_query_same_effect [OF assms(2), of "recording E" C opts k "(s, log)"] a(2) x
  show "operation_ok k log r k' log'"
    by (cases x; cases r) (auto simp: operation_ok_def same_effect_def failure_of_def)
qed

lemma card_execute_managed [contract_intros]: "managed_operation (card_execute (recording E) C cmd opts)"
  by unfold_locales

lemma typed_wrappers_managed [contract_intros]:
  "managed_operation (card_create_delegated_application (recording E) C d enc mac opts)"
  "managed_operation (card_delete_delegated_application (recording E) C aid mac opts)"
  "managed_operation (card_create_transaction_mac_file (recording E) C file ar aes v opts)"
  "managed_operation (card_change_aes_key (recording E) C key nk v ak old ks pm opts)"
  "managed_operation (card_restore_transfer (recording E) C file src md opts)"
  "managed_operation (card_set_picc_configuration (recording E) C pc opts)"
  "managed_operation (card_set_capability_configuration (recording E) C bs opts)"
  "managed_operation (card_set_default_aes_key (recording E) C aes v opts)"
  "managed_operation (card_set_ats (recording E) C bs opts)"
  "managed_operation (card_set_atqa (recording E) C at opts)"
  "managed_operation (card_delegated_application_info (recording E) C slot opts)"
  "managed_operation (card_uid (recording E) C rq opts)"
  unfolding card_create_delegated_application_def card_delete_delegated_application_def
    card_create_transaction_mac_file_def card_change_aes_key_def card_restore_transfer_def
    card_set_picc_configuration_def card_set_capability_configuration_def card_set_default_aes_key_def
    card_set_ats_def card_set_atqa_def card_delegated_application_info_def card_uid_def
  by (intro contract_intros card_query_managed reads_fit uid_read_fits)+

lemma public_operations_managed [contract_intros]:
  "managed_operation (select_application (recording E) C app opts)"
  "managed_operation (card_get_version (recording E) C opts)"
  "managed_operation (card_free_memory (recording E) C opts)"
  "managed_operation (card_file_ids (recording E) C opts)"
  "managed_operation (card_df_names (recording E) opts)"
  "managed_operation (iso_command (recording E) C c opts)"
  "managed_operation (execute_transaction (recording E) C ops tm opts)"
  "managed_operation reset_authentication"
  "managed_operation (authenticate_standard_aes (recording E) C key aes opts)"
  "managed_operation (authenticate_standard_aes_resolved (recording E) C token p q opts)"
  "managed_operation (authenticate_ev2_first_aes (recording E) C key aes pcd opts)"
  "managed_operation (authenticate_ev2_first_aes_resolved (recording E) C token p q pcd opts)"
  "managed_operation (authenticate_ev2_non_first_aes (recording E) C key aes opts)"
  "managed_operation (authenticate_ev2_non_first_aes_resolved (recording E) C token p q opts)"
  "managed_operation (authenticate_iso_aes (recording E) C ref aes opts)"
  "managed_operation (authenticate_iso_aes_resolved (recording E) C ref token p q opts)"
  by unfold_locales

section \<open>Calls\<close>

text \<open>An entry between two calls.\<close>

definition entry_ok :: "'h c_entry \<Rightarrow> bool" where
  "entry_ok e \<longleftrightarrow> card_inv (en_card e) \<and> \<not> card_operation_active (en_card e) \<and> \<not> en_active e \<and> \<not> en_closed e"

text \<open>What a call with this result does to the entry of its handle.\<close>

definition entry_change :: "'a result dep \<Rightarrow> 'h c_entry option \<Rightarrow> 'h c_entry option \<Rightarrow> bool" where
  "entry_change r x y \<longleftrightarrow>
     (case x of
        None \<Rightarrow> y = None \<and> definite_dep r
      | Some e \<Rightarrow>
          (\<exists>e'. y = Some e' \<and> en_transport e' = en_transport e \<and> en_crypto e' = en_crypto e \<and>
             (entry_ok e \<longrightarrow> entry_ok e' \<and> card_change (en_card e) (en_log e) r (en_card e') (en_log e'))))"

text \<open>Everything of the library but the entry of one handle and the host.\<close>

definition elsewhere_same :: "u64 \<Rightarrow> 'h c_library \<Rightarrow> 'h c_library \<Rightarrow> bool" where
  "elsewhere_same handle L L' \<longleftrightarrow>
     lib_next_handle L' = lib_next_handle L \<and> lib_raw_registry L' = lib_raw_registry L \<and>
     lib_next_raw_handle L' = lib_next_raw_handle L \<and>
     (\<forall>h. h \<noteq> handle \<longrightarrow> lib_registry L' h = lib_registry L h)"

text \<open>The contract of a call on the card of a handle.\<close>

definition card_contract :: "u64 \<Rightarrow> unit result dep \<Rightarrow> 'h c_library \<Rightarrow> 'h c_library \<Rightarrow> bool" where
  "card_contract handle r L L' \<longleftrightarrow>
     elsewhere_same handle L L' \<and> entry_change r (lib_registry L handle) (lib_registry L' handle)"

lemma entry_unchanged: "definite_dep r \<Longrightarrow> entry_change r x x"
  by (auto simp: entry_change_def entry_ok_def intro!: untouched_card split: option.splits)

lemma elsewhere_same_refl [simp]: "elsewhere_same h L L" "elsewhere_same h L (L\<lparr>lib_host := host\<rparr>)"
  by (simp_all add: elsewhere_same_def)

interpretation card: call_contract "card_contract h" for h
  by unfold_locales (auto simp: card_contract_def elsewhere_same_def entry_unchanged)

abbreviation call_ok :: "u64 \<Rightarrow> ('h c_library, 'a) action \<Rightarrow> bool" where
  "call_ok handle \<equiv> meets (card_contract handle)"

lemma entry_change_verdict [simp]: "entry_change (verdict r) x y = entry_change r x y"
  by (cases r rule: result_dep_cases) (auto simp: entry_change_def card_change_def split: option.splits)

lemma call_okD: "call_ok h f \<Longrightarrow> f L = (r, L') \<Longrightarrow>
    elsewhere_same h L L' \<and> entry_change r (lib_registry L h) (lib_registry L' h)"
  using meetsD [of "card_contract h" f L r L'] by (simp add: card_contract_def)

lemma call_okI:
  assumes "\<And>L r L'. f L = (r, L') \<Longrightarrow> elsewhere_same h L L' \<and> entry_change r (lib_registry L h) (lib_registry L' h)"
  shows "call_ok h f"
  by (rule meetsI) (use assms in \<open>simp add: card_contract_def\<close>)

text \<open>The admission of an operation.\<close>

lemma call_ok_invoke [contract_intros]:
  assumes "\<And>E C opts. body_ok (function (recording E) C opts)"
  shows "call_ok h (invoke S h timeout function)"
proof (rule call_okI)
  fix L r L'
  assume run: "invoke S h timeout function L = (r, L')"
  show "elsewhere_same h L L' \<and> entry_change r (lib_registry L h) (lib_registry L' h)"
  proof (cases "timeout = 0")
    case True
    then show ?thesis using run by (auto simp: invoke_def intro!: entry_unchanged)
  next
    case False
    show ?thesis
    proof (cases "lib_registry L h")
      case None
      then show ?thesis using run False by (auto simp: invoke_def lookup_def entry_change_def)
    next
      case (Some e)
      let ?E = "callback_environment S (en_transport e)"
      obtain x k gen host log where x: "function (recording ?E) (en_crypto e) (milliseconds timeout)
          (en_card e, ((en_generation e, lib_host L), en_log e)) = (x, (k, ((gen, host), log)))"
        by (metis surj_pair)
      consider "en_contended e \<or> en_active e \<or> en_closed e" | "\<not> en_contended e" "\<not> en_active e" "\<not> en_closed e"
        by blast
      then show ?thesis
      proof cases
        case 1
        then show ?thesis
          using run False Some by (auto simp: invoke_def lookup_def intro!: entry_unchanged split: if_splits)
      next
        case 2
        have "r = x" "lib_registry L' h = Some (e\<lparr>en_active := False, en_card := k, en_generation := gen, en_log := log\<rparr>)"
          "elsewhere_same h L L'"
          using run False Some 2 x by (auto simp: invoke_def lookup_def run_active_def Let_def elsewhere_same_def)
        moreover have "card_change (en_card e) (en_log e) x k log" if "entry_ok e"
          using assms x that unfolding body_ok_def entry_ok_def by blast
        ultimately show ?thesis
          using Some 2 by (auto simp: entry_change_def entry_ok_def card_change_def)
      qed
    qed
  qed
qed

section \<open>Bodies that ask the host\<close>

lemma host_body_on_entry_host: "host_action f \<Longrightarrow> host_body (on_entry_host f)"
  by (auto simp: host_body_def host_action_def on_entry_host_def split: prod.splits) (metis fst_conv)

lemma body_ok_resolve_then [contract_intros]:
  "(\<And>a. body_ok (g a)) \<Longrightarrow> body_ok (act_bind (on_entry_host (adapter_resolve ad)) g)"
  by (rule body_ok_after_host [OF host_body_on_entry_host [OF host_action_resolve]])

lemma body_ok_card [contract_intros]: "managed_operation op \<Longrightarrow> body_ok (on_card op)"
  by (rule on_card_ok)

lemma body_ok_card_then [contract_intros]:
  "managed_operation op \<Longrightarrow> (\<And>a. plain_body (g a)) \<Longrightarrow> body_ok (act_bind (on_card op) g)"
  by (rule body_ok_then_plain [OF on_card_ok])

lemma body_ok_commands [contract_intros]:
  "body_ok (run_command (recording E) C command opts)"
  "body_ok (run_command_void (recording E) C command opts)"
  "body_ok (run_iso (recording E) C icommand opts message)"
  unfolding run_command_void_def run_command_def run_iso_def
  by (intro contract_intros | simp add: plain_body_def refuse_def)+

lemma definite_operation: "definite (decode_operation input)"
proof -
  have "definite (operation_command input fno md off rno data)" for fno md off rno data
    unfolding operation_command_def by (intro contract_intros | simp)+
  then show ?thesis unfolding decode_operation_def by (intro contract_intros | simp)+
qed

lemma definite_plan [contract_intros]: "definite (plan_operations inputs plan)"
proof (induction inputs arbitrary: plan)
  case (Cons input rest)
  have "definite (fst (plan_add cmd plan))" for cmd :: owned_command and plan
    by (auto simp: plan_add_def definite_def split: option.splits if_splits)
  then have "err_outcome e \<noteq> OC_unknown" if "plan_add cmd plan = (Inl e, plan1)" for cmd plan1 e
    using that by (metis definite_simps(2) fst_conv)
  then show ?case
    using Cons definite_operation [of input] by (auto split: sum.splits prod.splits)
qed simp

lemma definite_picc [contract_intros]: "definite (picc_configuration_in descriptor)"
  by (auto simp: picc_configuration_in_def split: option.splits)

end

