(* ===== verification/C_Functions.thy ===== *)
theory C_Functions
  imports C_Contract
begin

text \<open>
  Every function of the C interface on a managed card: the relation of one call, and the proof that
  each of them meets the contract.
\<close>

section \<open>Calls as the caller sees them\<close>

type_synonym c_evidence = "i32 \<times> c_error option"

definition evidence :: "'a c_return \<Rightarrow> c_evidence" where
  "evidence ret = (ret_code ret, ret_error ret)"

text \<open>The evidence leaves the outcome open; an exception is reported so, too.\<close>

definition reports_unknown :: "c_evidence \<Rightarrow> bool" where
  "reports_unknown ev \<longleftrightarrow> (\<exists>ce. snd ev = Some ce \<and> ce_outcome ce = outcome_number OC_unknown)"

text \<open>
  What a call does to the library: nothing beyond the entry of its handle and the host; and the entry,
  when it was in order, still is, stays given up when it was, and has been given up when the evidence
  leaves the outcome open, unless an exception came before the card was touched.
\<close>

definition call_change :: "u64 \<Rightarrow> c_evidence \<Rightarrow> 'h c_library \<Rightarrow> 'h c_library \<Rightarrow> bool" where
  "call_change h ev L L' \<longleftrightarrow> elsewhere_same h L L' \<and>
     (case lib_registry L h of
        None \<Rightarrow> lib_registry L' h = None
      | Some e \<Rightarrow>
          (\<exists>e'. lib_registry L' h = Some e' \<and> en_transport e' = en_transport e \<and> en_crypto e' = en_crypto e \<and>
             (entry_ok e \<longrightarrow> entry_ok e' \<and>
               (\<not> card_usable (en_card e) \<longrightarrow> \<not> card_usable (en_card e') \<and> en_log e' = en_log e) \<and>
               (reports_unknown ev \<longrightarrow> \<not> card_usable (en_card e') \<or>
                  fst ev = 17 \<and> en_card e' = en_card e \<and> en_log e' = en_log e))))"

definition function_ok :: "u64 \<Rightarrow> ('h c_library \<Rightarrow> 'a c_return \<times> 'h c_library) \<Rightarrow> bool" where
  "function_ok h F \<longleftrightarrow> (\<forall>L ret L'. F L = (ret, L') \<longrightarrow> call_change h (evidence ret) L L')"

definition reporting_ok :: "u64 \<Rightarrow> ('h c_library \<Rightarrow> 'a c_return \<times> 'b \<times> 'h c_library) \<Rightarrow> bool" where
  "reporting_ok h F \<longleftrightarrow> (\<forall>L ret out L'. F L = (ret, out, L') \<longrightarrow> call_change h (evidence ret) L L')"

lemma outcome_number_unknown [simp]: "outcome_number oc = 3 \<longleftrightarrow> oc = OC_unknown"
  by (cases oc) simp_all

lemma evidence_boundary:
  "evidence (fst (boundary err (\<lambda>s. (Threw, s)) s)) = (17, map_option (\<lambda>_. c_error_of unexpected_error) err)"
  "evidence (fst (boundary err (\<lambda>s. (Returned (Inl e), s)) s)) =
     (error_number (err_code e), map_option (\<lambda>_. c_error_of e) err)"
  "evidence (fst (boundary err (\<lambda>s. (Returned (Inr v), s)) s)) =
     (0, map_option (\<lambda>_. empty_c_error\<lparr>ce_outcome := outcome_number OC_succeeded\<rparr>) err)"
  by (simp_all add: boundary_def evidence_def unexpected_failure_def failure_def)

text \<open>What the boundary makes of a result.\<close>

definition evidence_of :: "c_error option \<Rightarrow> 'a result dep \<Rightarrow> c_evidence" where
  "evidence_of err r = evidence (fst (boundary err (\<lambda>s. (r, s)) ()))"

lemma reports_unknown_evidence:
  "reports_unknown (evidence_of err r) \<Longrightarrow>
     r = Threw \<and> fst (evidence_of err r) = 17 \<or> (\<exists>e. r = Returned (Inl e) \<and> err_outcome e = OC_unknown)"
  by (cases r rule: result_dep_cases)
     (auto simp: evidence_of_def evidence_boundary reports_unknown_def c_error_of_def split: option.splits)

lemma entry_change_call:
  assumes "elsewhere_same h L L'" "entry_change r (lib_registry L h) (lib_registry L' h)"
  shows "call_change h (evidence_of err r) L L'"
proof (cases "lib_registry L h")
  case None
  then show ?thesis using assms by (simp add: call_change_def entry_change_def)
next
  case (Some e)
  then obtain e' where e': "lib_registry L' h = Some e'" "en_transport e' = en_transport e"
    "en_crypto e' = en_crypto e"
    "entry_ok e \<longrightarrow> entry_ok e' \<and> card_change (en_card e) (en_log e) r (en_card e') (en_log e')"
    using assms(2) by (auto simp: entry_change_def)
  show ?thesis
    using assms(1) Some e' reports_unknown_evidence [of err r] by (auto simp: call_change_def card_change_def)
qed

text \<open>A function is its body, reported by the boundary; an output in disorder is refused first.\<close>

lemma boundary_evidence:
  assumes "boundary err f L = (ret, L')"
  obtains r where "f L = (r, L')" "evidence ret = evidence_of err r"
proof -
  obtain r L1 where f: "f L = (r, L1)" by fastforce
  with assms have "L' = L1" "evidence ret = evidence_of err r"
    by (cases r rule: result_dep_cases;
        auto simp: boundary_def evidence_of_def evidence_def unexpected_failure_def failure_def)+
  with f that show thesis by simp
qed

lemma reporting_evidence:
  assumes "reporting_authentication out err f L = (ret, out', L')"
  obtains (ran) r where "f L = (r, L')" "evidence ret = evidence_of err r"
    | (refused) e where "L' = L" "definite (Inl e)" "evidence ret = evidence_of err (Returned (Inl e) :: unit result dep)"
proof -
  obtain r L1 where f: "f L = (r, L1)" by fastforce
  show thesis
  proof (cases "write_authentication_info out empty_information")
    case (Inl e)
    then have "L' = L" "evidence ret = evidence_of err (Returned (Inl e) :: unit result dep)" "definite (Inl e)"
      using assms by (auto simp: reporting_authentication_def boundary_def refuse_def evidence_of_def evidence_def
          failure_def write_authentication_info_def split: option.splits if_splits)
    from refused [OF this(1,3,2)] show thesis .
  next
    case (Inr cleared)
    have w: "\<exists>o2. write_authentication_info (Some cleared) info = Inr o2" for info
      using Inr by (auto simp: write_authentication_info_def split: option.splits if_splits)
    have "L' = L1 \<and> evidence ret = evidence_of err r"
    proof (cases r rule: result_dep_cases)
      case (3 info)
      from w [of info] obtain filled where "write_authentication_info (Some cleared) info = Inr filled" by blast
      then show ?thesis
        using assms f Inr 3 by (auto simp: reporting_authentication_def boundary_def evidence_of_def evidence_def)
    qed (use assms f Inr in \<open>auto simp: reporting_authentication_def boundary_def refuse_def evidence_of_def
        evidence_def unexpected_failure_def failure_def\<close>)
    with f ran show thesis by simp
  qed
qed

lemma function_ok_boundary: "call_ok h f \<Longrightarrow> function_ok h (boundary err f)"
  unfolding function_ok_def by (auto elim!: boundary_evidence dest!: call_okD intro!: entry_change_call)

lemma reporting_ok_body:
  assumes "call_ok h f"
  shows "reporting_ok h (reporting_authentication out err f)"
  unfolding reporting_ok_def
proof (intro allI impI)
  fix L ret out' L'
  assume "reporting_authentication out err f L = (ret, out', L')"
  then show "call_change h (evidence ret) L L'"
  proof (cases rule: reporting_evidence)
    case (ran r)
    with assms show ?thesis by (auto dest!: call_okD intro!: entry_change_call)
  qed (auto intro!: entry_change_call entry_unchanged)
qed

lemma function_okD: "function_ok h F \<Longrightarrow> F L = (ret, L') \<Longrightarrow> call_change h (evidence ret) L L'"
  by (simp add: function_ok_def)

lemma reporting_okD: "reporting_ok h F \<Longrightarrow> F L = (ret, out, L') \<Longrightarrow> call_change h (evidence ret) L L'"
  by (simp add: reporting_ok_def)

section \<open>The functions\<close>

text \<open>One call of a function on a managed card, other than opening, closing and resetting.\<close>

inductive managed_call ::
  "'h c_services \<Rightarrow> u64 \<Rightarrow> 'h c_library \<Rightarrow> c_evidence \<Rightarrow> 'h c_library
      \<Rightarrow> bool"
  for S h where
  get_version: "df_get_version S h timeout slot err L = (ret, L') \<Longrightarrow> managed_call S h L (evidence
      ret) L'"
| free_memory: "df_free_memory S h timeout has_output err L = (ret, L') \<Longrightarrow> managed_call S h L
      (evidence ret) L'"
| select_application: "df_select_application S h aid timeout err L = (ret, L') \<Longrightarrow> managed_call S h L
      (evidence ret) L'"
| file_ids: "df_file_ids S h timeout slot err L = (ret, L') \<Longrightarrow> managed_call S h L (evidence ret) L'"
| authenticate_standard_aes: "df_authenticate_standard_aes S h key_no key timeout err L = (ret, L')
      \<Longrightarrow> managed_call S h L (evidence ret) L'"
| authenticate_standard_aes_provider: "df_authenticate_standard_aes_provider S h key_no provider request timeout
      err L = (ret, L') \<Longrightarrow> managed_call S h L (evidence ret) L'"
| authenticate_ev2_first_aes: "df_authenticate_ev2_first_aes S h key_no key timeout out err L = (ret, out', L')
      \<Longrightarrow> managed_call S h L (evidence ret) L'"
| authenticate_ev2_first_aes_provider: "df_authenticate_ev2_first_aes_provider S h key_no provider request timeout
      out err L = (ret, out', L') \<Longrightarrow> managed_call S h L (evidence ret) L'"
| authenticate_ev2_first_aes_with_capabilities: "df_authenticate_ev2_first_aes_with_capabilities S h key_no key pcd
      timeout out err L = (ret, out', L') \<Longrightarrow> managed_call S h L (evidence ret) L'"
| authenticate_ev2_first_aes_with_capabilities_provider: "df_authenticate_ev2_first_aes_with_capabilities_provider
      S h key_no provider request pcd timeout out err L = (ret, out', L') \<Longrightarrow> managed_call S h L
      (evidence ret) L'"
| authenticate_ev2_non_first_aes: "df_authenticate_ev2_non_first_aes S h key_no key timeout out err L = (ret, out',
      L') \<Longrightarrow> managed_call S h L (evidence ret) L'"
| authenticate_ev2_non_first_aes_provider: "df_authenticate_ev2_non_first_aes_provider S h key_no provider request
      timeout out err L = (ret, out', L') \<Longrightarrow> managed_call S h L (evidence ret) L'"
| application_ids: "df_application_ids S h timeout slot err L = (ret, L') \<Longrightarrow> managed_call S h L
      (evidence ret) L'"
| iso_file_ids: "df_iso_file_ids S h timeout slot err L = (ret, L') \<Longrightarrow> managed_call S h L (evidence
      ret) L'"
| get_key_settings: "df_get_key_settings S h timeout slot err L = (ret, L') \<Longrightarrow> managed_call S h L
      (evidence ret) L'"
| get_key_set_versions: "df_get_key_set_versions S h timeout slot err L = (ret, L') \<Longrightarrow> managed_call
      S h L (evidence ret) L'"
| get_card_uid: "df_get_card_uid S h timeout slot err L = (ret, L') \<Longrightarrow> managed_call S h L (evidence
      ret) L'"
| read_originality_signature: "df_read_originality_signature S h timeout slot err L = (ret, L') \<Longrightarrow>
      managed_call S h L (evidence ret) L'"
| abort_transaction: "df_abort_transaction S h timeout err L = (ret, L') \<Longrightarrow> managed_call S h L
      (evidence ret) L'"
| format_picc: "df_format_picc S h timeout err L = (ret, L') \<Longrightarrow> managed_call S h L (evidence ret) L'"
| delete_file: "df_delete_file S h file_no timeout err L = (ret, L') \<Longrightarrow> managed_call S h L (evidence
      ret) L'"
| get_file_settings: "df_get_file_settings S h file_no timeout slot err L = (ret, L') \<Longrightarrow>
      managed_call S h L (evidence ret) L'"
| clear_record_file: "df_clear_record_file S h file_no timeout err L = (ret, L') \<Longrightarrow> managed_call S h
      L (evidence ret) L'"
| get_file_counters: "df_get_file_counters S h file_no communication timeout slot err L = (ret, L')
      \<Longrightarrow> managed_call S h L (evidence ret) L'"
| delete_application: "df_delete_application S h aid timeout err L = (ret, L') \<Longrightarrow> managed_call S h L
      (evidence ret) L'"
| change_key_settings: "df_change_key_settings S h settings timeout err L = (ret, L') \<Longrightarrow>
      managed_call S h L (evidence ret) L'"
| get_key_version: "df_get_key_version S h number key_set timeout slot err L = (ret, L') \<Longrightarrow>
      managed_call S h L (evidence ret) L'"
| initialize_key_set: "df_initialize_key_set S h key_set timeout err L = (ret, L') \<Longrightarrow> managed_call S
      h L (evidence ret) L'"
| roll_key_set: "df_roll_key_set S h key_set timeout err L = (ret, L') \<Longrightarrow> managed_call S h L
      (evidence ret) L'"
| finalize_key_set: "df_finalize_key_set S h key_set version timeout err L = (ret, L') \<Longrightarrow>
      managed_call S h L (evidence ret) L'"
| read_data: "df_read_data S h file_no off len communication timeout slot err L = (ret, L') \<Longrightarrow>
      managed_call S h L (evidence ret) L'"
| write_data: "df_write_data S h file_no off data communication timeout err L = (ret, L') \<Longrightarrow>
      managed_call S h L (evidence ret) L'"
| write_record: "df_write_record S h file_no off data communication timeout err L = (ret, L') \<Longrightarrow>
      managed_call S h L (evidence ret) L'"
| read_records: "df_read_records S h file_no first count communication timeout slot err L = (ret, L')
      \<Longrightarrow> managed_call S h L (evidence ret) L'"
| update_record: "df_update_record S h file_no record_no off data communication timeout err L = (ret, L')
      \<Longrightarrow> managed_call S h L (evidence ret) L'"
| credit: "df_credit S h file_no amount communication timeout err L = (ret, L') \<Longrightarrow> managed_call S h
      L (evidence ret) L'"
| debit: "df_debit S h file_no amount communication timeout err L = (ret, L') \<Longrightarrow> managed_call S h L
      (evidence ret) L'"
| limited_credit: "df_limited_credit S h file_no amount communication timeout err L = (ret, L') \<Longrightarrow>
      managed_call S h L (evidence ret) L'"
| commit_transaction: "df_commit_transaction S h return_mac timeout slot err L = (ret, L') \<Longrightarrow>
      managed_call S h L (evidence ret) L'"
| commit_reader_id: "df_commit_reader_id S h reader_id timeout slot err L = (ret, L') \<Longrightarrow>
      managed_call S h L (evidence ret) L'"
| create_application: "df_create_application S h aid key_settings key_count iso_id df_name timeout err L = (ret,
      L') \<Longrightarrow> managed_call S h L (evidence ret) L'"
| create_data_file: "df_create_data_file S h file_no len communication access iso_id backup timeout err L = (ret,
      L') \<Longrightarrow> managed_call S h L (evidence ret) L'"
| create_value_file: "df_create_value_file S h file_no lower_limit upper_limit initial_value communication access
      limited free_get_value timeout err L = (ret, L') \<Longrightarrow> managed_call S h L (evidence ret) L'"
| create_record_file: "df_create_record_file S h file_no record_size maximum_records communication access iso_id
      cyclic timeout err L = (ret, L') \<Longrightarrow> managed_call S h L (evidence ret) L'"
| change_file_settings: "df_change_file_settings S h file_no communication access command_communication timeout err
      L = (ret, L') \<Longrightarrow> managed_call S h L (evidence ret) L'"
| create_transaction_mac_file: "df_create_transaction_mac_file S h file_no access key version timeout err L = (ret,
      L') \<Longrightarrow> managed_call S h L (evidence ret) L'"
| change_aes_key: "df_change_aes_key S h number new_key version authenticated_key old_key key_set picc_master
      timeout err L = (ret, L') \<Longrightarrow> managed_call S h L (evidence ret) L'"
| get_value: "df_get_value S h file_no communication timeout has_output err L = (ret, L') \<Longrightarrow>
      managed_call S h L (evidence ret) L'"
| create_delegated_application: "df_create_delegated_application S h aid key_settings number_of_keys slot
      slot_version quota_limit iso_file_identifiers key_settings3 iso_id df_name encrypted_default_key dam_mac
      timeout err L = (ret, L') \<Longrightarrow> managed_call S h L (evidence ret) L'"
| get_delegated_application_info: "df_get_delegated_application_info S h slot timeout output err L = (ret, L')
      \<Longrightarrow> managed_call S h L (evidence ret) L'"
| delete_delegated_application: "df_delete_delegated_application S h aid dam_mac timeout err L = (ret, L')
      \<Longrightarrow> managed_call S h L (evidence ret) L'"
| create_transaction_mac_file_provider: "df_create_transaction_mac_file_provider S h file_no access provider
      request version timeout err L = (ret, L') \<Longrightarrow> managed_call S h L (evidence ret) L'"
| change_aes_key_provider: "df_change_aes_key_provider S h number new_provider new_request version
      authenticated_key old_provider old_request key_set picc_master timeout err L = (ret, L') \<Longrightarrow>
      managed_call S h L (evidence ret) L'"
| execute_transaction: "df_execute_transaction S h operations return_mac timeout slot err L = (ret, L')
      \<Longrightarrow> managed_call S h L (evidence ret) L'"
| get_df_names: "df_get_df_names S h timeout slot err L = (ret, L') \<Longrightarrow> managed_call S h L (evidence
      ret) L'"
| reset_authentication: "df_reset_authentication S h err L = (ret, L') \<Longrightarrow> managed_call S h L
      (evidence ret) L'"
| restore_transfer: "df_restore_transfer S h target_file source_file communication timeout err L = (ret, L')
      \<Longrightarrow> managed_call S h L (evidence ret) L'"
| get_card_uid_variant: "df_get_card_uid_variant S h variant timeout slot err L = (ret, L') \<Longrightarrow>
      managed_call S h L (evidence ret) L'"
| set_picc_configuration: "df_set_picc_configuration S h descriptor timeout err L = (ret, L') \<Longrightarrow>
      managed_call S h L (evidence ret) L'"
| set_capability_configuration: "df_set_capability_configuration S h capabilities timeout err L = (ret, L')
      \<Longrightarrow> managed_call S h L (evidence ret) L'"
| set_default_aes_key: "df_set_default_aes_key S h key key_version timeout err L = (ret, L') \<Longrightarrow>
      managed_call S h L (evidence ret) L'"
| set_default_aes_key_provider: "df_set_default_aes_key_provider S h provider request key_version timeout err L =
      (ret, L') \<Longrightarrow> managed_call S h L (evidence ret) L'"
| set_ats: "df_set_ats S h ats timeout err L = (ret, L') \<Longrightarrow> managed_call S h L (evidence ret) L'"
| set_atqa: "df_set_atqa S h atqa timeout err L = (ret, L') \<Longrightarrow> managed_call S h L (evidence ret) L'"
| iso_select_file: "df_iso_select_file S h identifier selection response timeout slot err L = (ret, L')
      \<Longrightarrow> managed_call S h L (evidence ret) L'"
| iso_select_df_name: "df_iso_select_df_name S h name response timeout slot err L = (ret, L') \<Longrightarrow>
      managed_call S h L (evidence ret) L'"
| iso_read_binary: "df_iso_read_binary S h short_identifier off len timeout slot err L = (ret, L')
      \<Longrightarrow> managed_call S h L (evidence ret) L'"
| iso_update_binary: "df_iso_update_binary S h short_identifier off data timeout slot err L = (ret, L')
      \<Longrightarrow> managed_call S h L (evidence ret) L'"
| iso_read_records: "df_iso_read_records S h record_no short_identifier selection len timeout slot err L = (ret,
      L') \<Longrightarrow> managed_call S h L (evidence ret) L'"
| iso_append_record: "df_iso_append_record S h short_identifier data timeout slot err L = (ret, L')
      \<Longrightarrow> managed_call S h L (evidence ret) L'"
| iso_get_challenge: "df_iso_get_challenge S h len timeout slot err L = (ret, L') \<Longrightarrow> managed_call S
      h L (evidence ret) L'"
| iso_external_authenticate: "df_iso_external_authenticate S h number application algorithm data timeout slot err L
      = (ret, L') \<Longrightarrow> managed_call S h L (evidence ret) L'"
| iso_internal_authenticate: "df_iso_internal_authenticate S h number application algorithm data timeout slot err L
      = (ret, L') \<Longrightarrow> managed_call S h L (evidence ret) L'"
| authenticate_iso_aes: "df_authenticate_iso_aes S h number application key timeout err L = (ret, L')
      \<Longrightarrow> managed_call S h L (evidence ret) L'"
| authenticate_iso_aes_provider: "df_authenticate_iso_aes_provider S h number application provider request timeout
      err L = (ret, L') \<Longrightarrow> managed_call S h L (evidence ret) L'"
| iso_update_record: "df_iso_update_record S h instruction record_no short_identifier reference_control data
      timeout slot err L = (ret, L') \<Longrightarrow> managed_call S h L (evidence ret) L'"

lemma functions_ok_1:
  "function_ok h (df_get_version S h timeout slot err)"
  "function_ok h (df_free_memory S h timeout has_output err)"
  "function_ok h (df_select_application S h aid timeout err)"
  "function_ok h (df_file_ids S h timeout slot err)"
  "function_ok h (df_authenticate_standard_aes S h key_no key timeout err)"
  "function_ok h (df_authenticate_standard_aes_provider S h key_no provider request timeout err)"
  "function_ok h (df_application_ids S h timeout slot err)"
  "function_ok h (df_iso_file_ids S h timeout slot err)"
  "function_ok h (df_get_key_settings S h timeout slot err)"
  "function_ok h (df_get_key_set_versions S h timeout slot err)"
  "function_ok h (df_get_card_uid S h timeout slot err)"
  "function_ok h (df_read_originality_signature S h timeout slot err)"
  "function_ok h (df_abort_transaction S h timeout err)"
  "function_ok h (df_format_picc S h timeout err)"
  unfolding df_get_version_def df_free_memory_def df_select_application_def df_file_ids_def
      df_authenticate_standard_aes_def df_authenticate_standard_aes_provider_def df_application_ids_def
      df_iso_file_ids_def df_get_key_settings_def df_get_key_set_versions_def df_get_card_uid_def
      df_read_originality_signature_def df_abort_transaction_def df_format_picc_def
  by (intro function_ok_boundary contract_intros | simp)+

lemma functions_ok_2:
  "function_ok h (df_delete_file S h file_no timeout err)"
  "function_ok h (df_get_file_settings S h file_no timeout slot err)"
  "function_ok h (df_clear_record_file S h file_no timeout err)"
  "function_ok h (df_get_file_counters S h file_no communication timeout slot err)"
  "function_ok h (df_delete_application S h aid timeout err)"
  "function_ok h (df_change_key_settings S h settings timeout err)"
  "function_ok h (df_get_key_version S h number key_set timeout slot err)"
  "function_ok h (df_initialize_key_set S h key_set2 timeout err)"
  "function_ok h (df_roll_key_set S h key_set2 timeout err)"
  "function_ok h (df_finalize_key_set S h key_set2 version timeout err)"
  "function_ok h (df_read_data S h file_no off len communication timeout slot err)"
  "function_ok h (df_write_data S h file_no off data communication timeout err)"
  "function_ok h (df_write_record S h file_no off data communication timeout err)"
  "function_ok h (df_read_records S h file_no first count communication timeout slot err)"
  unfolding df_delete_file_def df_get_file_settings_def df_clear_record_file_def df_get_file_counters_def
      df_delete_application_def df_change_key_settings_def df_get_key_version_def df_initialize_key_set_def
      df_roll_key_set_def df_finalize_key_set_def df_read_data_def df_write_data_def df_write_record_def
      df_read_records_def
  by (intro function_ok_boundary contract_intros | simp)+

lemma functions_ok_3:
  "function_ok h (df_update_record S h file_no record_no off data communication timeout err)"
  "function_ok h (df_credit S h file_no amount communication timeout err)"
  "function_ok h (df_debit S h file_no amount communication timeout err)"
  "function_ok h (df_limited_credit S h file_no amount communication timeout err)"
  "function_ok h (df_commit_transaction S h return_mac timeout slot err)"
  "function_ok h (df_commit_reader_id S h reader_id timeout slot err)"
  "function_ok h (df_create_application S h aid key_settings key_count iso_id df_name timeout err)"
  "function_ok h (df_create_data_file S h file_no len communication access iso_id backup timeout err)"
  "function_ok h (df_create_value_file S h file_no lower_limit upper_limit initial_value communication access
      limited free_get_value timeout err)"
  "function_ok h (df_create_record_file S h file_no record_size maximum_records communication access iso_id cyclic
      timeout err)"
  "function_ok h (df_change_file_settings S h file_no communication access command_communication timeout err)"
  "function_ok h (df_create_transaction_mac_file S h file_no access key version timeout err)"
  "function_ok h (df_change_aes_key S h number new_key version authenticated_key old_key key_set picc_master
      timeout err)"
  "function_ok h (df_create_delegated_application S h aid key_settings number_of_keys slot2 slot_version
      quota_limit iso_file_identifiers key_settings3 iso_id df_name encrypted_default_key dam_mac timeout err)"
  unfolding df_update_record_def df_credit_def df_debit_def df_limited_credit_def df_commit_transaction_def
      df_commit_reader_id_def df_create_application_def df_create_data_file_def df_create_value_file_def
      df_create_record_file_def df_change_file_settings_def df_create_transaction_mac_file_def
      df_change_aes_key_def df_create_delegated_application_def
  by (intro function_ok_boundary contract_intros | simp)+

lemma functions_ok_4:
  "function_ok h (df_get_delegated_application_info S h slot timeout output err)"
  "function_ok h (df_delete_delegated_application S h aid dam_mac timeout err)"
  "function_ok h (df_create_transaction_mac_file_provider S h file_no access provider request version timeout err)"
  "function_ok h (df_execute_transaction S h operations return_mac timeout slot2 err)"
  "function_ok h (df_get_df_names S h timeout slot2 err)"
  "function_ok h (df_reset_authentication S h err)"
  "function_ok h (df_restore_transfer S h target_file source_file communication timeout err)"
  "function_ok h (df_get_card_uid_variant S h variant timeout slot2 err)"
  "function_ok h (df_set_picc_configuration S h descriptor timeout err)"
  "function_ok h (df_set_capability_configuration S h capabilities timeout err)"
  "function_ok h (df_set_default_aes_key S h key key_version timeout err)"
  "function_ok h (df_set_default_aes_key_provider S h provider request key_version timeout err)"
  "function_ok h (df_set_ats S h ats timeout err)"
  "function_ok h (df_set_atqa S h atqa timeout err)"
  unfolding df_get_delegated_application_info_def df_delete_delegated_application_def
      df_create_transaction_mac_file_provider_def df_execute_transaction_def df_get_df_names_def
      df_reset_authentication_def df_restore_transfer_def df_get_card_uid_variant_def df_set_picc_configuration_def
      df_set_capability_configuration_def df_set_default_aes_key_def df_set_default_aes_key_provider_def
      df_set_ats_def df_set_atqa_def
  by (intro function_ok_boundary contract_intros | simp)+

lemma functions_ok_5:
  "function_ok h (df_iso_select_file S h identifier selection response timeout slot err)"
  "function_ok h (df_iso_select_df_name S h name response timeout slot err)"
  "function_ok h (df_iso_read_binary S h short_identifier off len timeout slot err)"
  "function_ok h (df_iso_update_binary S h short_identifier off data timeout slot err)"
  "function_ok h (df_iso_read_records S h record_no short_identifier2 selection len timeout slot err)"
  "function_ok h (df_iso_append_record S h short_identifier2 data timeout slot err)"
  "function_ok h (df_iso_get_challenge S h len timeout slot err)"
  "function_ok h (df_iso_external_authenticate S h number application algorithm data timeout slot err)"
  "function_ok h (df_iso_internal_authenticate S h number application algorithm data timeout slot err)"
  "function_ok h (df_authenticate_iso_aes S h number application key timeout err)"
  "function_ok h (df_authenticate_iso_aes_provider S h number application provider request timeout err)"
  "function_ok h (df_iso_update_record S h instruction record_no short_identifier2 reference_control data timeout
      slot err)"
  unfolding df_iso_select_file_def df_iso_select_df_name_def df_iso_read_binary_def df_iso_update_binary_def
      df_iso_read_records_def df_iso_append_record_def df_iso_get_challenge_def df_iso_external_authenticate_def
      df_iso_internal_authenticate_def df_authenticate_iso_aes_def df_authenticate_iso_aes_provider_def
      df_iso_update_record_def
  by (intro function_ok_boundary contract_intros | simp)+

lemma authentications_ok:
  "reporting_ok h (df_authenticate_ev2_first_aes S h key_no key timeout out err)"
  "reporting_ok h (df_authenticate_ev2_first_aes_provider S h key_no provider request timeout out err)"
  "reporting_ok h (df_authenticate_ev2_first_aes_with_capabilities S h key_no key pcd timeout out err)"
  "reporting_ok h (df_authenticate_ev2_first_aes_with_capabilities_provider S h key_no provider request pcd timeout
      out err)"
  "reporting_ok h (df_authenticate_ev2_non_first_aes S h key_no key timeout out err)"
  "reporting_ok h (df_authenticate_ev2_non_first_aes_provider S h key_no provider request timeout out err)"
  unfolding df_authenticate_ev2_first_aes_def df_authenticate_ev2_first_aes_provider_def
      df_authenticate_ev2_first_aes_with_capabilities_def
      df_authenticate_ev2_first_aes_with_capabilities_provider_def df_authenticate_ev2_non_first_aes_def
      df_authenticate_ev2_non_first_aes_provider_def
  by (intro reporting_ok_body contract_intros | simp)+

lemma value_ok: "function_ok h (df_get_value S h file_no communication timeout has_output err)"
proof -
  have query: "body_ok (require (get_value f m) (\<lambda>command.
      act_bind (run_command (recording E) C command opts) (\<lambda>response. act_require (parse_value response))))"
    for f m E C opts
  proof (cases "get_value f m")
    case (Inl e)
    moreover have "definite (get_value f m)" by (intro contract_intros)
    ultimately have "err_outcome e \<noteq> OC_unknown" "require (get_value f m) (\<lambda>command.
        act_bind (run_command (recording E) C command opts) (\<lambda>response. act_require (parse_value response))) = refuse e"
      by (simp_all add: fun_eq_iff require_def refuse_def)
    then show ?thesis by (simp add: body_ok_plain)
  next
    case (Inr command)
    have "require (get_value f m) (\<lambda>command. act_bind (run_command (recording E) C command opts)
        (\<lambda>response. act_require (parse_value response))) =
      on_card (card_query (recording E) C (get_value f m) parse_value opts)"
      using Inr by (auto simp: fun_eq_iff require_def act_bind_def run_command_def on_card_def card_query_def
          card_run_def split: prod.splits sum.splits)
    then show ?thesis
      by (simp add: on_card_ok card_query_managed reads_fit definite_commands)
  qed
  show ?thesis
    unfolding df_get_value_def
    by (rule function_ok_boundary, rule call_ok_invoke, rule body_ok_if, simp add: body_ok_plain)
       (rule query | rule body_ok_require | intro contract_intros)+
qed

lemma change_key_provider_ok:
  "function_ok h (df_change_aes_key_provider S h number new_provider new_request version authenticated_key
     old_provider old_request key_set picc_master timeout err)"
proof -
  have change: "call_ok h (invoke S h timeout (\<lambda>E C opts.
      act_bind (on_entry_host (adapter_resolve new_adapter)) (\<lambda>replacement.
      act_bind resolve_old (\<lambda>old_key.
        on_card (card_change_aes_key E C target replacement v current old_key ks pm opts)))))"
    if "resolve_old = act_return [] \<or> (\<exists>old_adapter. resolve_old = on_entry_host (adapter_resolve old_adapter))"
    for new_adapter resolve_old target v current ks pm
  proof -
    have "host_body resolve_old"
      using that by (auto intro: plain_host [OF plain_return] host_body_on_entry_host [OF host_action_resolve])
    then show ?thesis
      by (intro call_ok_invoke body_ok_resolve_then body_ok_after_host contract_intros)
  qed
  show ?thesis
    unfolding df_change_aes_key_provider_def Let_def
    by (intro function_ok_boundary contract_intros change | simp | blast)+
qed

lemmas managed_functions = functions_ok_1 [THEN function_okD] functions_ok_2 [THEN function_okD]
  functions_ok_3 [THEN function_okD] functions_ok_4 [THEN function_okD] functions_ok_5 [THEN function_okD]
  authentications_ok [THEN reporting_okD] value_ok [THEN function_okD] change_key_provider_ok [THEN function_okD]

lemma managed_call_change:
  assumes "managed_call S h L ev L'"
  shows "call_change h ev L L'"
  using assms
  by cases (simp only:, erule managed_functions)+

end
