(* ===== verification/C_Raw_Calls.thy ===== *)
theory C_Raw_Calls
  imports C_Raw_Secure C_Functions
begin

text \<open>
  The contract of a call on a raw channel, and the proof that every function of
  \<^verbatim>\<open>c-api/src/raw.cpp\<close> on an open channel meets it: whatever the caller passes and whatever
  the callbacks do, the channel keeps its invariant, and evidence that leaves the outcome open leaves no
  session behind.
\<close>

section \<open>The contract\<close>

definition raw_entry_ok :: "'h raw_entry \<Rightarrow> bool" where
  "raw_entry_ok e \<longleftrightarrow> raw_inv e \<and> \<not> re_active e \<and> \<not> re_closed e"

text \<open>What throws has not touched the entry or leaves no session; an open outcome leaves none either.\<close>

definition gives_up :: "'a result dep \<Rightarrow> 'h raw_entry \<Rightarrow> 'h raw_entry \<Rightarrow> bool" where
  "gives_up r e e' \<longleftrightarrow> (r = Threw \<longrightarrow> bare e' \<or> e' = e) \<and>
     (\<forall>err. r = Returned (Inl err) \<and> err_outcome err = OC_unknown \<longrightarrow> bare e')"

definition raw_entry_change :: "'a result dep \<Rightarrow> 'h raw_entry option \<Rightarrow> 'h raw_entry option \<Rightarrow> bool" where
  "raw_entry_change r x y \<longleftrightarrow>
     (case x of
        None \<Rightarrow> y = None \<and> definite_dep r
      | Some e \<Rightarrow>
          (\<exists>e'. y = Some e' \<and>
             (raw_entry_ok e \<longrightarrow> raw_entry_ok e' \<and> re_transport e' = re_transport e \<and> re_crypto e' = re_crypto e \<and>
                gives_up r e e')))"

definition raw_elsewhere_same :: "u64 \<Rightarrow> 'h c_library \<Rightarrow> 'h c_library \<Rightarrow> bool" where
  "raw_elsewhere_same handle L L' \<longleftrightarrow>
     lib_next_raw_handle L' = lib_next_raw_handle L \<and> lib_registry L' = lib_registry L \<and>
     lib_next_handle L' = lib_next_handle L \<and>
     (\<forall>h. h \<noteq> handle \<longrightarrow> lib_raw_registry L' h = lib_raw_registry L h)"

definition raw_contract :: "u64 \<Rightarrow> unit result dep \<Rightarrow> 'h c_library \<Rightarrow> 'h c_library \<Rightarrow> bool" where
  "raw_contract handle r L L' \<longleftrightarrow>
     raw_elsewhere_same handle L L' \<and> raw_entry_change r (lib_raw_registry L handle) (lib_raw_registry L' handle)"

lemma raw_entry_unchanged: "definite_dep r \<Longrightarrow> raw_entry_change r x x"
  by (auto simp: raw_entry_change_def gives_up_def definite_dep_def split: option.splits)

interpretation channel: call_contract "raw_contract h" for h
  by unfold_locales (auto simp: raw_contract_def raw_elsewhere_same_def raw_entry_unchanged)

abbreviation raw_call_ok :: "u64 \<Rightarrow> ('h c_library, 'a) action \<Rightarrow> bool" where
  "raw_call_ok handle \<equiv> meets (raw_contract handle)"

lemma gives_up_verdict [simp]: "gives_up (verdict r) e e' = gives_up r e e'"
  by (cases r rule: result_dep_cases) (auto simp: gives_up_def)

lemma raw_entry_change_verdict [simp]: "raw_entry_change (verdict r) x y = raw_entry_change r x y"
  by (auto simp: raw_entry_change_def split: option.splits)

lemma raw_call_okD: "raw_call_ok h f \<Longrightarrow> f L = (r, L') \<Longrightarrow>
    raw_elsewhere_same h L L' \<and> raw_entry_change r (lib_raw_registry L h) (lib_raw_registry L' h)"
  using meetsD [of "raw_contract h" f L r L'] by (simp add: raw_contract_def)

lemma raw_call_okI:
  assumes "\<And>L r L'. f L = (r, L') \<Longrightarrow>
      raw_elsewhere_same h L L' \<and> raw_entry_change r (lib_raw_registry L h) (lib_raw_registry L' h)"
  shows "raw_call_ok h f"
  by (rule meetsI) (use assms in \<open>simp add: raw_contract_def\<close>)

section \<open>Bodies\<close>

text \<open>The bodies that keep the channel.\<close>

definition raw_body_ok :: "('h raw_state, 'a) action \<Rightarrow> bool" where
  "raw_body_ok f \<longleftrightarrow> triple raw_inv f (\<lambda>_. raw_inv) bare"

lemma raw_bodyI: "triple raw_inv f Q bare \<Longrightarrow> (\<And>v e. Q v e \<Longrightarrow> raw_inv e) \<Longrightarrow> raw_body_ok f"
  unfolding raw_body_ok_def by (erule triple_weaken) auto

lemma raw_bodies [contract_intros]:
  "raw_body_ok (raw_reset_body S opts)"
  "raw_body_ok (raw_frame_body S framing command payload opts)"
  "raw_body_ok (raw_exchange_body S framing rq opts)"
  "raw_body_ok (raw_iso_body S a limits opts)"
  "key_source source \<Longrightarrow> raw_body_ok (raw_standard_aes_body S key_no source opts)"
  "key_source source \<Longrightarrow> raw_body_ok (raw_ev2_first_body S key_no capabilities source opts)"
  "key_source source \<Longrightarrow> raw_body_ok (raw_ev2_non_first_body S key_no source opts)"
  "key_source source \<Longrightarrow> raw_body_ok (raw_iso_aes_body S reference source opts)"
  "raw_body_ok (iso_secure_body S icommand limits opts)"
  "raw_body_ok (native_secure_body S profile request opts)"
  by (auto intro: raw_bodyI [OF raw_reset_keeps] raw_bodyI [OF raw_frame_keeps] raw_bodyI [OF raw_exchange_keeps]
      raw_bodyI [OF raw_iso_exchange_keeps] raw_bodyI [OF raw_standard_aes_keeps] raw_bodyI [OF raw_ev2_first_keeps]
      raw_bodyI [OF raw_ev2_non_first_keeps] raw_bodyI [OF raw_iso_aes_keeps] raw_bodyI [OF iso_secure_keeps]
      raw_bodyI [OF native_secure_keeps] simp: bare_inv open_inv)

lemma active_inv [simp]: "raw_inv (e\<lparr>re_active := b\<rparr>) = raw_inv e" "bare (e\<lparr>re_active := b\<rparr>) = bare e"
  by (simp_all add: raw_inv_def bare_def raw_idle_def no_session_def standard_open_def ev2_open_def iso_open_def)

lemma raw_call_invoke [contract_intros]:
  assumes "\<And>opts. raw_body_ok (function opts)"
  shows "raw_call_ok h (invoke_raw h timeout function)"
proof (rule raw_call_okI)
  fix L r L'
  assume run: "invoke_raw h timeout function L = (r, L')"
  show "raw_elsewhere_same h L L' \<and> raw_entry_change r (lib_raw_registry L h) (lib_raw_registry L' h)"
  proof (cases "lib_raw_registry L h")
    case None
    then show ?thesis
      using run by (auto simp: invoke_raw_def lookup_raw_def raw_entry_change_def raw_elsewhere_same_def split: if_splits)
  next
    case (Some e)
    show ?thesis
    proof (cases "timeout = 0 \<or> re_contended e \<or> re_active e \<or> re_closed e")
      case True
      then show ?thesis
        using run Some by (auto simp: invoke_raw_def lookup_raw_def raw_elsewhere_same_def intro!: raw_entry_unchanged
            split: if_splits)
    next
      case False
      obtain x e1 host where x: "function (milliseconds timeout) (e\<lparr>re_active := True\<rparr>, lib_host L) = (x, (e1, host))"
        by (metis surj_pair)
      have r: "r = x" "L' = L\<lparr>lib_raw_registry := (lib_raw_registry L)(h \<mapsto> e1\<lparr>re_active := False\<rparr>), lib_host := host\<rparr>"
        using run Some False x by (auto simp: invoke_raw_def lookup_raw_def run_raw_active_def)
      have body: "same_frame (e\<lparr>re_active := True\<rparr>) e1 \<and> ends (\<lambda>_. raw_inv) bare x e1" if "raw_entry_ok e"
        using tripleD [OF assms [unfolded raw_body_ok_def] _ x] that
        by (simp add: raw_entry_ok_def)
      show ?thesis
        using r Some body by (cases x rule: result_dep_cases)
          (auto simp: raw_elsewhere_same_def raw_entry_change_def raw_entry_ok_def gives_up_def same_frame_def bare_inv)
    qed
  qed
qed

section \<open>The functions\<close>

text \<open>
  What a call does to the library: nothing beyond the entry of its handle and the host; and the entry,
  when it was in order, still is, and has no session when the evidence leaves the outcome open, unless an
  exception came before the entry was touched.
\<close>

definition raw_change :: "u64 \<Rightarrow> c_evidence \<Rightarrow> 'h c_library \<Rightarrow> 'h c_library \<Rightarrow> bool" where
  "raw_change h ev L L' \<longleftrightarrow> raw_elsewhere_same h L L' \<and>
     (case lib_raw_registry L h of
        None \<Rightarrow> lib_raw_registry L' h = None
      | Some e \<Rightarrow>
          (\<exists>e'. lib_raw_registry L' h = Some e' \<and>
             (raw_entry_ok e \<longrightarrow> raw_entry_ok e' \<and> re_transport e' = re_transport e \<and> re_crypto e' = re_crypto e \<and>
               (reports_unknown ev \<longrightarrow> bare e' \<or> fst ev = 17 \<and> e' = e))))"

lemma raw_change_call:
  assumes "raw_elsewhere_same h L L'" "raw_entry_change r (lib_raw_registry L h) (lib_raw_registry L' h)"
  shows "raw_change h (evidence_of err r) L L'"
  using assms reports_unknown_evidence [of err r]
  by (auto simp: raw_change_def raw_entry_change_def gives_up_def split: option.splits)

lemma raw_boundary: "boundary err f L = (ret, L') \<Longrightarrow> raw_call_ok h f \<Longrightarrow> raw_change h (evidence ret) L L'"
  by (erule boundary_evidence) (auto dest!: raw_call_okD intro!: raw_change_call)

lemma raw_reporting:
  assumes "reporting_authentication out err f L = (ret, out', L')" "raw_call_ok h f"
  shows "raw_change h (evidence ret) L L'"
proof (rule reporting_evidence [OF assms(1)])
  fix r
  assume "f L = (r, L')" "evidence ret = evidence_of err r"
  with assms(2) show ?thesis by (auto dest!: raw_call_okD intro!: raw_change_call)
next
  fix e
  assume "L' = L" "definite (Inl e)" "evidence ret = evidence_of err (Returned (Inl e) :: unit result dep)"
  then show ?thesis by (auto simp: raw_elsewhere_same_def intro!: raw_change_call raw_entry_unchanged)
qed

lemma raw_entry_generation [simp]: "raw_entry_ok (e\<lparr>re_generation := n\<rparr>) = raw_entry_ok e"
  by (simp add: raw_entry_ok_def)

lemma raw_call_transport [contract_intros]: "raw_call_ok h (cancel_raw S h)" "raw_call_ok h (notify_raw h)"
  by (rule raw_call_okI;
      auto simp: cancel_raw_def notify_raw_def lookup_raw_def raw_elsewhere_same_def raw_entry_change_def gives_up_def
        split: option.splits prod.splits)+

lemma definite_apdu [contract_intros]: "definite (make_iso_apdu input)"
  unfolding make_iso_apdu_def by (auto simp: definite_def result_bind_def bytes_in_def split: option.splits if_splits)

lemma definite_address: "definite (apdu_binary_address a)"
  by (auto simp: apdu_binary_address_def definite_def short_file_def current_file_def split: if_splits)

lemma definite_checked_iso [contract_intros]: "definite (make_checked_iso_command a)"
  unfolding make_checked_iso_command_def Let_def
  by (intro contract_intros definite_address | simp)+

text \<open>One call of a function on a raw channel, other than opening and closing.\<close>

inductive raw_call :: "'h c_services \<Rightarrow> u64 \<Rightarrow> 'h c_library \<Rightarrow> c_evidence \<Rightarrow> 'h c_library \<Rightarrow> bool" for S h where
  reset: "df_raw_reset S h err L = (ret, L') \<Longrightarrow> raw_call S h L (evidence ret) L'"
| cancel: "df_raw_cancel S h err L = (ret, L') \<Longrightarrow> raw_call S h L (evidence ret) L'"
| notify: "df_raw_notify_state_change h err L = (ret, L') \<Longrightarrow> raw_call S h L (evidence ret) L'"
| native_frame: "df_raw_native_frame S h framing command data timeout has_status slot err L = (ret, L')
    \<Longrightarrow> raw_call S h L (evidence ret) L'"
| native_exchange: "df_raw_native_exchange S h native timeout has_status slot err L = (ret, L')
    \<Longrightarrow> raw_call S h L (evidence ret) L'"
| iso_exchange: "df_raw_iso_exchange S h input timeout has_status slot err L = (ret, L')
    \<Longrightarrow> raw_call S h L (evidence ret) L'"
| standard_aes: "df_raw_authenticate_standard_aes S h key_no key timeout err L = (ret, L')
    \<Longrightarrow> raw_call S h L (evidence ret) L'"
| standard_aes_provider: "df_raw_authenticate_standard_aes_provider S h key_no provider request timeout err L = (ret, L')
    \<Longrightarrow> raw_call S h L (evidence ret) L'"
| ev2_first: "df_raw_authenticate_ev2_first_aes S h key_no key pcd timeout out err L = (ret, out', L')
    \<Longrightarrow> raw_call S h L (evidence ret) L'"
| ev2_first_provider: "df_raw_authenticate_ev2_first_aes_provider S h key_no provider request pcd timeout out err L =
    (ret, out', L') \<Longrightarrow> raw_call S h L (evidence ret) L'"
| ev2_non_first: "df_raw_authenticate_ev2_non_first_aes S h key_no key timeout out err L = (ret, out', L')
    \<Longrightarrow> raw_call S h L (evidence ret) L'"
| ev2_non_first_provider: "df_raw_authenticate_ev2_non_first_aes_provider S h key_no provider request timeout out err L =
    (ret, out', L') \<Longrightarrow> raw_call S h L (evidence ret) L'"
| iso_aes: "df_raw_authenticate_iso_aes S h key_no application key timeout err L = (ret, L')
    \<Longrightarrow> raw_call S h L (evidence ret) L'"
| iso_aes_provider: "df_raw_authenticate_iso_aes_provider S h key_no application provider request timeout err L = (ret, L')
    \<Longrightarrow> raw_call S h L (evidence ret) L'"
| iso_secure: "df_raw_iso_secure_exchange S h input timeout has_status slot err L = (ret, L')
    \<Longrightarrow> raw_call S h L (evidence ret) L'"
| native_secure: "df_raw_native_secure_exchange S h secure timeout slot err L = (ret, L')
    \<Longrightarrow> raw_call S h L (evidence ret) L'"

lemmas raw_functions = df_raw_reset_def df_raw_cancel_def df_raw_notify_state_change_def df_raw_native_frame_def
  df_raw_native_exchange_def df_raw_iso_exchange_def df_raw_authenticate_standard_aes_def
  df_raw_authenticate_standard_aes_provider_def df_raw_authenticate_ev2_first_aes_def
  df_raw_authenticate_ev2_first_aes_provider_def df_raw_authenticate_ev2_non_first_aes_def
  df_raw_authenticate_ev2_non_first_aes_provider_def df_raw_authenticate_iso_aes_def
  df_raw_authenticate_iso_aes_provider_def df_raw_iso_secure_exchange_def df_raw_native_secure_exchange_def

lemma raw_call_change:
  assumes "raw_call S h L ev L'"
  shows "raw_change h ev L L'"
  using assms
  by cases (simp only: raw_functions, erule raw_boundary raw_reporting, (intro contract_intros | simp)+)+

end
