(* ===== verification/C_Library.thy ===== *)
theory C_Library
  imports C_Raw_Calls
begin

text \<open>
  The library as its callers see it: any sequence of calls of the C interface, on any handles, between
  which the host changes and other threads hold and release the locks of the entries. The theory
  states the invariant of both registries, the frame of every call, and what a sequence of calls
  keeps.
\<close>

section \<open>Offline calculations\<close>

text \<open>A calculation reaches the host only.\<close>

definition host_contract :: "unit result dep \<Rightarrow> 'h c_library \<Rightarrow> 'h c_library \<Rightarrow> bool" where
  "host_contract r L L' \<longleftrightarrow> (\<exists>host. L' = L\<lparr>lib_host := host\<rparr>)"

interpretation calculation: call_contract host_contract
  by unfold_locales (auto simp: host_contract_def)

lemma host_contract_same [simp]: "host_contract r L L" "host_contract r L (L\<lparr>lib_host := host\<rparr>)"
  by (auto simp: host_contract_def intro: exI [of _ "lib_host L"])

lemma host_contract_any: "host_contract r L L' \<Longrightarrow> host_contract r' L L'"
  by (simp add: host_contract_def)

lemma host_contract_trans: "host_contract r L L1 \<Longrightarrow> host_contract r' L1 L2 \<Longrightarrow> host_contract r'' L L2"
  by (auto simp: host_contract_def)

lemma calculation_bind:
  assumes "meets host_contract f" "\<And>a. meets host_contract (g a)"
  shows "meets host_contract (act_bind f g)"
proof (rule meetsI)
  fix L r L'
  assume a: "act_bind f g L = (r, L')"
  obtain x L1 where x: "f L = (x, L1)" by fastforce
  note f = meetsD [OF assms(1) x]
  show "host_contract (verdict r) L L'"
  proof (cases x rule: result_dep_cases)
    case (3 v)
    then have "g v L1 = (r, L')" using a x by (simp add: act_bind_def)
    from host_contract_trans [OF f meetsD [OF assms(2) this]] show ?thesis .
  qed (use a x f in \<open>auto simp: act_bind_def\<close>)
qed

lemma calculation_rules:
  "meets host_contract (refuse e)" "meets host_contract (act_return v)" "meets host_contract (act_require r)"
  "meets host_contract (on_host h)"
  by (auto intro!: meetsI simp: refuse_def act_return_def act_require_def on_host_def split: prod.splits)

lemma calculation_require:
  assumes "\<And>a. meets host_contract (f a)"
  shows "meets host_contract (require r f)"
proof (cases r)
  case (Inr a)
  then have "require r f = f a" by (simp add: require_def fun_eq_iff)
  then show ?thesis using assms by simp
qed (auto intro!: meetsI simp: require_def)

lemma calculation_random:
  "meets host_contract (\<lambda>L. case encrypt_delegated_default_key_aes C (host_random S) key application_key version L of
     (r, L1) \<Rightarrow> (Returned r, L1))"
proof (rule meetsI)
  fix L r L'
  assume run: "(case encrypt_delegated_default_key_aes C (host_random S) key application_key version L of
     (r, L1) \<Rightarrow> (Returned r, L1)) = (r, L')"
  have lift: "meets host_contract (act_lift d)" for d :: "bytes result dep"
    by (rule meetsI) (auto simp: act_lift_def)
  have inner: "meets host_contract (act_bind (host_random S 7) (\<lambda>rnd.
         if length rnd \<noteq> 7
         then act_require (Inl (local_error EC_crypto
                (STR ''Delegated EncK random source returned an invalid length'')))
         else act_bind (act_lift (cbc C aes128 key (replicate 16 0)
                (rnd @ application_key @ [version] @ replicate 8 0) True))
              (\<lambda>out. act_require (secret_result (Inr out) 32))))"
    unfolding host_random_def
    by (intro calculation_bind calculation.branches calculation_rules lift)
  show "host_contract (verdict r) L L'"
    using run meetsD [OF inner]
    by (auto simp: encrypt_delegated_default_key_aes_def catch_as_def split: if_splits prod.splits dep.splits
        intro: host_contract_any)
qed

inductive offline_call :: "'h c_services \<Rightarrow> 'h c_library \<Rightarrow> c_evidence \<Rightarrow> 'h c_library \<Rightarrow> bool" for S where
  derive_nxp_aes128: "df_offline_derive_nxp_aes128 S master_key diversification slot err L = (ret, L')
    \<Longrightarrow> offline_call S L (evidence ret) L'"
| derive_nxp_aes128_provider: "df_offline_derive_nxp_aes128_provider S provider request slot err L = (ret, L')
    \<Longrightarrow> offline_call S L (evidence ret) L'"
| encrypt_delegated_default_key_aes: "df_offline_encrypt_delegated_default_key_aes S dam_encryption_key
    application_default_key version slot err L = (ret, L') \<Longrightarrow> offline_call S L (evidence ret) L'"
| encrypt_delegated_default_key_aes_provider: "df_offline_encrypt_delegated_default_key_aes_provider S provider
    request application_default_key version slot err L = (ret, L') \<Longrightarrow> offline_call S L (evidence
    ret) L'"
| calculate_delegated_application_mac_aes: "df_offline_calculate_delegated_application_mac_aes S dam_mac_key
    descriptor encrypted_default_key slot err L = (ret, L') \<Longrightarrow> offline_call S L (evidence ret)
    L'"
| calculate_delegated_application_mac_aes_provider: "df_offline_calculate_delegated_application_mac_aes_provider
    S provider request descriptor encrypted_default_key slot err L = (ret, L') \<Longrightarrow> offline_call S
    L (evidence ret) L'"
| calculate_delegated_application_delete_mac_aes: "df_offline_calculate_delegated_application_delete_mac_aes S
    dam_mac_key aid slot err L = (ret, L') \<Longrightarrow> offline_call S L (evidence ret) L'"
| calculate_delegated_application_delete_mac_aes_provider:
    "df_offline_calculate_delegated_application_delete_mac_aes_provider S provider request aid slot err L =
    (ret, L') \<Longrightarrow> offline_call S L (evidence ret) L'"
| calculate_delegated_configuration_mac_aes: "df_offline_calculate_delegated_configuration_mac_aes S dam_mac_key
    old_df_name new_df_name slot err L = (ret, L') \<Longrightarrow> offline_call S L (evidence ret) L'"
| calculate_delegated_configuration_mac_aes_provider:
    "df_offline_calculate_delegated_configuration_mac_aes_provider S provider request old_df_name new_df_name
    slot err L = (ret, L') \<Longrightarrow> offline_call S L (evidence ret) L'"
| calculate_mfc_license_mac_aes: "df_offline_calculate_mfc_license_mac_aes S license_mac_key mfc_license
    mfc_sector_secrets slot err L = (ret, L') \<Longrightarrow> offline_call S L (evidence ret) L'"
| calculate_mfc_license_mac_aes_provider: "df_offline_calculate_mfc_license_mac_aes_provider S provider request
    mfc_license mfc_sector_secrets slot err L = (ret, L') \<Longrightarrow> offline_call S L (evidence ret) L'"
| derive_transaction_mac_keys_aes: "df_offline_derive_transaction_mac_keys_aes S transaction_key counter uid
    slot err L = (ret, L') \<Longrightarrow> offline_call S L (evidence ret) L'"
| derive_transaction_mac_keys_aes_provider: "df_offline_derive_transaction_mac_keys_aes_provider S provider
    request counter uid slot err L = (ret, L') \<Longrightarrow> offline_call S L (evidence ret) L'"
| calculate_transaction_mac_session_aes: "df_offline_calculate_transaction_mac_session_aes S session_mac_key
    transaction_input slot err L = (ret, L') \<Longrightarrow> offline_call S L (evidence ret) L'"
| calculate_transaction_mac_aes: "df_offline_calculate_transaction_mac_aes S transaction_mac_key counter uid
    transaction_input slot err L = (ret, L') \<Longrightarrow> offline_call S L (evidence ret) L'"
| calculate_transaction_mac_aes_provider: "df_offline_calculate_transaction_mac_aes_provider S provider request
    counter uid transaction_input slot err L = (ret, L') \<Longrightarrow> offline_call S L (evidence ret) L'"
| verify_transaction_mac_aes: "df_offline_verify_transaction_mac_aes S transaction_key counter uid
    transaction_input mac has_output err L = (ret, L') \<Longrightarrow> offline_call S L (evidence ret) L'"
| verify_transaction_mac_aes_provider: "df_offline_verify_transaction_mac_aes_provider S provider request
    counter uid transaction_input mac has_output err L = (ret, L') \<Longrightarrow> offline_call S L (evidence
    ret) L'"
| decrypt_transaction_reader_id_aes: "df_offline_decrypt_transaction_reader_id_aes S session_encryption_key
    encrypted_reader_id slot err L = (ret, L') \<Longrightarrow> offline_call S L (evidence ret) L'"
| verify_originality_uid_signature: "df_offline_verify_originality_uid_signature S curve public_key uid
    signature has_output err L = (ret, L') \<Longrightarrow> offline_call S L (evidence ret) L'"

lemmas offline_functions = df_offline_derive_nxp_aes128_def df_offline_derive_nxp_aes128_provider_def
  df_offline_encrypt_delegated_default_key_aes_def df_offline_encrypt_delegated_default_key_aes_provider_def
  df_offline_calculate_delegated_application_mac_aes_def
  df_offline_calculate_delegated_application_mac_aes_provider_def
  df_offline_calculate_delegated_application_delete_mac_aes_def
  df_offline_calculate_delegated_application_delete_mac_aes_provider_def
  df_offline_calculate_delegated_configuration_mac_aes_def
  df_offline_calculate_delegated_configuration_mac_aes_provider_def df_offline_calculate_mfc_license_mac_aes_def
  df_offline_calculate_mfc_license_mac_aes_provider_def df_offline_derive_transaction_mac_keys_aes_def
  df_offline_derive_transaction_mac_keys_aes_provider_def df_offline_calculate_transaction_mac_session_aes_def
  df_offline_calculate_transaction_mac_aes_def df_offline_calculate_transaction_mac_aes_provider_def
  df_offline_verify_transaction_mac_aes_def df_offline_verify_transaction_mac_aes_provider_def
  df_offline_decrypt_transaction_reader_id_aes_def df_offline_verify_originality_uid_signature_def

lemma offline_call_host:
  assumes "offline_call S L ev L'"
  shows "\<exists>host. L' = L\<lparr>lib_host := host\<rparr>"
  using assms
    by cases
      (simp only: offline_functions calculated_def resolve_offline_key_def encrypt_default_key_def,
       erule boundary_evidence, drule meetsD [rotated, where R = host_contract],
       (intro calculation_rules calculation_require calculation_bind calculation_random calculation.branches calculation.outputs
         calculation.with_adapter), simp add: host_contract_def)+

section \<open>Signals and resets\<close>

lemma signals_ok: "call_ok h (cancel_card S h)" "call_ok h (notify_card h)"
  by (rule call_okI;
      auto simp: cancel_card_def notify_card_def lookup_def elsewhere_same_def entry_change_def entry_ok_def
        card_change_def split: option.splits prod.splits)+

lemma signal_changes:
  "df_cancel S h err L = (ret, L') \<Longrightarrow> call_change h (evidence ret) L L'"
  "df_notify_state_change h err L = (ret, L') \<Longrightarrow> call_change h (evidence ret) L L'"
  unfolding df_cancel_def df_notify_state_change_def
  by (rule function_okD [OF function_ok_boundary]; (rule signals_ok | assumption))+

text \<open>A reset keeps the entry in order; it alone can make a given-up card usable again.\<close>

lemma reset_change:
  assumes "df_reset S h err L = (ret, L')"
  shows "elsewhere_same h L L' \<and>
    (case lib_registry L h of
       None \<Rightarrow> lib_registry L' h = None
     | Some e \<Rightarrow> \<exists>e'. lib_registry L' h = Some e' \<and> (entry_ok e \<longrightarrow> entry_ok e'))"
proof -
  obtain r where run: "invoke S h 5000 (\<lambda>E C opts. on_card (card_reset E)) L = (r, L')"
    using assms unfolding df_reset_def by (rule boundary_evidence)
  show ?thesis
  proof (cases "lib_registry L h")
    case None
    then show ?thesis using run by (auto simp: invoke_def lookup_def)
  next
    case (Some e)
    show ?thesis
    proof (cases "en_contended e \<or> en_active e \<or> en_closed e")
      case True
      then show ?thesis using run Some by (auto simp: invoke_def lookup_def split: if_splits)
    next
      case False
      obtain x k gen host log where x: "card_reset (recording (callback_environment S (en_transport e))) (en_card e)
          ((en_generation e, lib_host L), en_log e) = (x, k, ((gen, host), log))"
        by (metis surj_pair)
      have "entry_ok e \<longrightarrow> card_inv k \<and> \<not> card_operation_active k"
        using card_reset_ok [OF _ _ x] by (auto simp: entry_ok_def)
      then show ?thesis
        using run Some False x
        by (auto simp: invoke_def lookup_def run_active_def on_card_def elsewhere_same_def entry_ok_def)
    qed
  qed
qed

section \<open>Opening and closing\<close>

text \<open>Opening registers the next handle, or none; closing removes a handle, or nothing.\<close>

definition card_opened :: "'h c_library \<Rightarrow> 'h c_library \<Rightarrow> bool" where
  "card_opened L L' \<longleftrightarrow> lib_next_handle L \<noteq> 0xFFFFFFFFFFFFFFFF \<and>
     (\<exists>e. entry_ok e \<and> card_usable (en_card e) \<and> en_log e = [] \<and>
        lib_registry L' = (lib_registry L)(lib_next_handle L \<mapsto> e) \<and> lib_next_handle L' = lib_next_handle L + 1)"

definition raw_opened :: "'h c_library \<Rightarrow> 'h c_library \<Rightarrow> bool" where
  "raw_opened L L' \<longleftrightarrow> lib_next_raw_handle L \<noteq> 0xFFFFFFFFFFFFFFFF \<and>
     (\<exists>e. raw_entry_ok e \<and> lib_raw_registry L' = (lib_raw_registry L)(lib_next_raw_handle L \<mapsto> e) \<and>
        lib_next_raw_handle L' = lib_next_raw_handle L + 1)"

lemma openedI:
  "lib_next_handle L \<noteq> 0xFFFFFFFFFFFFFFFF \<Longrightarrow> entry_ok e \<Longrightarrow> card_usable (en_card e) \<Longrightarrow> en_log e = [] \<Longrightarrow>
     card_opened L (L\<lparr>lib_host := host, lib_registry := (lib_registry L)(lib_next_handle L \<mapsto> e),
       lib_next_handle := lib_next_handle L + 1\<rparr>)"
  "lib_next_raw_handle L \<noteq> 0xFFFFFFFFFFFFFFFF \<Longrightarrow> raw_entry_ok c \<Longrightarrow>
     raw_opened L (L\<lparr>lib_host := host, lib_raw_registry := (lib_raw_registry L)(lib_next_raw_handle L \<mapsto> c),
       lib_next_raw_handle := lib_next_raw_handle L + 1\<rparr>)"
  by (simp_all add: card_opened_def raw_opened_def) blast+

lemma open_change:
  assumes "df_open S transport out err L = (ret, L')"
  shows "lib_raw_registry L' = lib_raw_registry L \<and> lib_next_raw_handle L' = lib_next_raw_handle L \<and>
    (lib_registry L' = lib_registry L \<and> lib_next_handle L' = lib_next_handle L \<or>
     card_opened L L')"
proof -
  have connected: "card_inv k \<and> \<not> card_operation_active k \<and> card_usable k" if "card_connect E s = (k, s')"
    for E :: "'b environment" and s k s'
    using that by (auto simp: card_connect_def card_inv_def has_native_session_def raw_connect_def iso_create_def
        split: prod.splits)
  show ?thesis
    using assms
    by (auto simp: df_open_def boundary_def refuse_def act_bind_def on_host_def open_card_def register_card_def
        unexpected_failure_def failure_def Let_def split: if_splits prod.splits dep.splits sum.splits
        dest!: connected intro!: openedI) (simp_all add: entry_ok_def)
qed

lemma close_change:
  assumes "df_close h err L = (ret, L')"
  shows "lib_raw_registry L' = lib_raw_registry L \<and> lib_next_raw_handle L' = lib_next_raw_handle L \<and>
    lib_next_handle L' = lib_next_handle L \<and>
    (lib_registry L' = lib_registry L \<or> lib_registry L' = (lib_registry L)(h := None))"
  using assms
  by (auto simp: df_close_def boundary_def close_card_def lookup_def unexpected_failure_def failure_def
      split: if_splits option.splits)

lemma new_raw_entry_ok: "raw_entry_ok (new_raw_entry S d C)"
  by (auto simp: new_raw_entry_def raw_entry_ok_def raw_inv_def bare_def raw_idle_def no_session_def raw_connect_def
      iso_create_def Let_def)

lemma raw_open_change:
  assumes "df_raw_open S transport out err L = (ret, L')"
  shows "lib_registry L' = lib_registry L \<and> lib_next_handle L' = lib_next_handle L \<and>
    (lib_raw_registry L' = lib_raw_registry L \<and> lib_next_raw_handle L' = lib_next_raw_handle L \<or>
     raw_opened L L')"
  using assms
  by (auto simp: df_raw_open_def boundary_def refuse_def act_bind_def on_host_def open_raw_def
      unexpected_failure_def failure_def split: if_splits prod.splits dep.splits sum.splits
      intro!: openedI new_raw_entry_ok)

lemma raw_close_change:
  assumes "df_raw_close h err L = (ret, L')"
  shows "lib_registry L' = lib_registry L \<and> lib_next_handle L' = lib_next_handle L \<and>
    lib_next_raw_handle L' = lib_next_raw_handle L \<and>
    (lib_raw_registry L' = lib_raw_registry L \<or> lib_raw_registry L' = (lib_raw_registry L)(h := None))"
  using assms
  by (auto simp: df_raw_close_def boundary_def close_raw_def lookup_raw_def unexpected_failure_def failure_def
      split: if_splits option.splits)

section \<open>Sequences of calls\<close>

text \<open>What a step is about: a card, a raw channel, a registry, a calculation or the surroundings.\<close>

datatype step_kind =
    Card_call u64 | Card_reset u64 | Card_open | Card_close u64
  | Channel_call u64 | Channel_open | Channel_close u64
  | Calculation | Surroundings

inductive library_step ::
  "'h c_services \<Rightarrow> 'h c_library \<Rightarrow> step_kind \<Rightarrow> c_evidence option \<Rightarrow> 'h c_library \<Rightarrow> bool" for S where
  on_card: "managed_call S h L ev L' \<Longrightarrow> library_step S L (Card_call h) (Some ev) L'"
| cancel: "df_cancel S h err L = (ret, L') \<Longrightarrow> library_step S L (Card_call h) (Some (evidence ret)) L'"
| notify: "df_notify_state_change h err L = (ret, L') \<Longrightarrow> library_step S L (Card_call h) (Some (evidence ret)) L'"
| reset: "df_reset S h err L = (ret, L') \<Longrightarrow> library_step S L (Card_reset h) (Some (evidence ret)) L'"
| open_card: "df_open S transport out err L = (ret, L') \<Longrightarrow> library_step S L Card_open (Some (evidence ret)) L'"
| close_card: "df_close h err L = (ret, L') \<Longrightarrow> library_step S L (Card_close h) (Some (evidence ret)) L'"
| on_channel: "raw_call S h L ev L' \<Longrightarrow> library_step S L (Channel_call h) (Some ev) L'"
| open_channel: "df_raw_open S transport out err L = (ret, L') \<Longrightarrow> library_step S L Channel_open (Some (evidence ret)) L'"
| close_channel: "df_raw_close h err L = (ret, L') \<Longrightarrow> library_step S L (Channel_close h) (Some (evidence ret)) L'"
| calculation: "offline_call S L ev L' \<Longrightarrow> library_step S L Calculation (Some ev) L'"
| host: "library_step S L Surroundings None (L\<lparr>lib_host := host\<rparr>)"
| card_lock: "lib_registry L h = Some e \<Longrightarrow>
    library_step S L Surroundings None (L\<lparr>lib_registry := (lib_registry L)(h \<mapsto> e\<lparr>en_contended := b\<rparr>)\<rparr>)"
| channel_lock: "lib_raw_registry L h = Some c \<Longrightarrow>
    library_step S L Surroundings None (L\<lparr>lib_raw_registry := (lib_raw_registry L)(h \<mapsto> c\<lparr>re_contended := b\<rparr>)\<rparr>)"

inductive library_reachable :: "'h c_services \<Rightarrow> 'h c_library \<Rightarrow> bool" for S where
  loaded: "library_reachable S (fresh_library h)"
| stepped: "library_reachable S L \<Longrightarrow> library_step S L kind ev L' \<Longrightarrow> library_reachable S L'"

text \<open>A sequence of steps of admitted kinds.\<close>

inductive library_run :: "'h c_services \<Rightarrow> (step_kind \<Rightarrow> bool) \<Rightarrow> 'h c_library \<Rightarrow> 'h c_library \<Rightarrow> bool" for S admit where
  none: "library_run S admit L L"
| more: "library_run S admit L L1 \<Longrightarrow> admit kind \<Longrightarrow> library_step S L1 kind ev L2 \<Longrightarrow> library_run S admit L L2"

lemma library_run_reachable: "library_run S admit L L' \<Longrightarrow> library_reachable S L \<Longrightarrow> library_reachable S L'"
  by (induction rule: library_run.induct) (auto intro: library_reachable.stepped)

section \<open>The frame of a step\<close>

text \<open>The handles of a kind.\<close>

definition of_card :: "step_kind \<Rightarrow> u64 \<Rightarrow> bool" where
  "of_card kind h \<longleftrightarrow> kind = Card_call h \<or> kind = Card_reset h \<or> kind = Card_close h"

definition of_channel :: "step_kind \<Rightarrow> u64 \<Rightarrow> bool" where
  "of_channel kind h \<longleftrightarrow> kind = Channel_call h \<or> kind = Channel_close h"

text \<open>Two entries that differ in their lock only.\<close>

definition same_card :: "'h c_entry option \<Rightarrow> 'h c_entry option \<Rightarrow> bool" where
  "same_card x y \<longleftrightarrow> x = y \<or> (\<exists>e b. x = Some e \<and> y = Some (e\<lparr>en_contended := b\<rparr>))"

definition same_channel :: "'h raw_entry option \<Rightarrow> 'h raw_entry option \<Rightarrow> bool" where
  "same_channel x y \<longleftrightarrow> x = y \<or> (\<exists>e b. x = Some e \<and> y = Some (e\<lparr>re_contended := b\<rparr>))"

lemma same_refl [simp]: "same_card x x" "same_channel y y"
  by (simp_all add: same_card_def same_channel_def)

lemma same_cardD: "same_card (Some e) y \<Longrightarrow> \<exists>e'. y = Some e' \<and> en_card e' = en_card e \<and> en_log e' = en_log e \<and> entry_ok e' = entry_ok e"
  by (auto simp: same_card_def entry_ok_def)

lemma same_card_None: "same_card None y \<Longrightarrow> y = None" "same_channel None x \<Longrightarrow> x = None"
  by (auto simp: same_card_def same_channel_def)

lemma contended_ok [simp]: "entry_ok (e\<lparr>en_contended := b\<rparr>) = entry_ok e" "raw_entry_ok (c\<lparr>re_contended := b\<rparr>) = raw_entry_ok c"
  by (simp_all add: entry_ok_def raw_entry_ok_def raw_inv_def bare_def raw_idle_def no_session_def standard_open_def
      ev2_open_def iso_open_def)

lemma same_channelD: "same_channel (Some e) y \<Longrightarrow> \<exists>e'. y = Some e' \<and> raw_entry_ok e' = raw_entry_ok e"
  by (auto simp: same_channel_def)

text \<open>What a step on a handle leaves.\<close>

definition card_stays :: "'h c_entry option \<Rightarrow> 'h c_entry option \<Rightarrow> bool" where
  "card_stays x y \<longleftrightarrow>
     (case x of None \<Rightarrow> y = None | Some e \<Rightarrow> \<exists>e'. y = Some e' \<and> (entry_ok e \<longrightarrow> entry_ok e'))"

definition channel_stays :: "'h raw_entry option \<Rightarrow> 'h raw_entry option \<Rightarrow> bool" where
  "channel_stays x y \<longleftrightarrow>
     (case x of None \<Rightarrow> y = None | Some e \<Rightarrow> \<exists>e'. y = Some e' \<and> (raw_entry_ok e \<longrightarrow> raw_entry_ok e'))"

lemma call_change_frame:
  assumes "call_change h ev L L'"
  shows "elsewhere_same h L L' \<and> card_stays (lib_registry L h) (lib_registry L' h)"
  using assms by (auto simp: call_change_def card_stays_def split: option.splits)

lemma raw_change_frame:
  assumes "raw_change h ev L L'"
  shows "raw_elsewhere_same h L L' \<and> channel_stays (lib_raw_registry L h) (lib_raw_registry L' h)"
  using assms by (auto simp: raw_change_def channel_stays_def split: option.splits)

text \<open>The effect of a step on the card registry, by its kind.\<close>

definition card_frame :: "'h c_library \<Rightarrow> step_kind \<Rightarrow> 'h c_library \<Rightarrow> bool" where
  "card_frame L kind L' \<longleftrightarrow>
     lib_next_handle L' = lib_next_handle L \<and>
       (\<forall>h. if kind = Card_close h then lib_registry L' h = lib_registry L h \<or> lib_registry L' h = None
            else if of_card kind h then card_stays (lib_registry L h) (lib_registry L' h)
            else same_card (lib_registry L h) (lib_registry L' h)) \<or>
     kind = Card_open \<and> card_opened L L'"

definition channel_frame :: "'h c_library \<Rightarrow> step_kind \<Rightarrow> 'h c_library \<Rightarrow> bool" where
  "channel_frame L kind L' \<longleftrightarrow>
     lib_next_raw_handle L' = lib_next_raw_handle L \<and>
       (\<forall>h. if kind = Channel_close h then lib_raw_registry L' h = lib_raw_registry L h \<or> lib_raw_registry L' h = None
            else if of_channel kind h then channel_stays (lib_raw_registry L h) (lib_raw_registry L' h)
            else same_channel (lib_raw_registry L h) (lib_raw_registry L' h)) \<or>
     kind = Channel_open \<and> raw_opened L L'"

lemma card_frameI: "elsewhere_same h L L' \<Longrightarrow> card_stays (lib_registry L h) (lib_registry L' h) \<Longrightarrow>
    of_card kind h \<Longrightarrow> kind \<noteq> Card_close h \<Longrightarrow> card_frame L kind L' \<and> channel_frame L kind L'"
  by (auto simp: card_frame_def channel_frame_def elsewhere_same_def of_card_def of_channel_def)

lemma channel_frameI: "raw_elsewhere_same h L L' \<Longrightarrow> channel_stays (lib_raw_registry L h) (lib_raw_registry L' h) \<Longrightarrow>
    card_frame L (Channel_call h) L' \<and> channel_frame L (Channel_call h) L'"
  by (auto simp: card_frame_def channel_frame_def raw_elsewhere_same_def of_card_def of_channel_def)

lemma library_step_frame:
  assumes "library_step S L kind ev L'"
  shows "card_frame L kind L' \<and> channel_frame L kind L'"
  using assms
proof cases
  case (on_card h ev)
  then show ?thesis using card_frameI [of h L L' kind] call_change_frame [OF managed_call_change [OF on_card(3)]] on_card(1) by (simp add: of_card_def)
next
  case (cancel h err ret)
  then show ?thesis using card_frameI [of h L L' kind] call_change_frame [OF signal_changes(1) [OF cancel(3)]] cancel(1) by (simp add: of_card_def)
next
  case (notify h err ret)
  then show ?thesis using card_frameI [of h L L' kind] call_change_frame [OF signal_changes(2) [OF notify(3)]] notify(1) by (simp add: of_card_def)
next
  case (reset h err ret)
  then show ?thesis
    using card_frameI [of h L L' kind] reset_change [OF reset(3)] reset(1) by (simp add: of_card_def card_stays_def)
next
  case (open_card transport out err ret)
  then show ?thesis
    using open_change [OF open_card(3)] by (auto simp: card_frame_def channel_frame_def of_card_def of_channel_def)
next
  case (close_card h err ret)
  then show ?thesis
    using close_change [OF close_card(3)] by (auto simp: card_frame_def channel_frame_def of_card_def of_channel_def)
next
  case (on_channel h ev)
  then show ?thesis using channel_frameI [of h L L'] raw_change_frame [OF raw_call_change [OF on_channel(3)]] on_channel(1) by simp
next
  case (open_channel transport out err ret)
  then show ?thesis
    using raw_open_change [OF open_channel(3)] by (auto simp: card_frame_def channel_frame_def of_card_def of_channel_def)
next
  case (close_channel h err ret)
  then show ?thesis
    using raw_close_change [OF close_channel(3)] by (auto simp: card_frame_def channel_frame_def of_card_def of_channel_def)
next
  case (calculation ev)
  then show ?thesis
    using offline_call_host by (fastforce simp: card_frame_def channel_frame_def of_card_def of_channel_def)
qed (auto simp: card_frame_def channel_frame_def of_card_def of_channel_def same_card_def same_channel_def)

section \<open>What the library keeps\<close>

definition library_ok :: "'h c_library \<Rightarrow> bool" where
  "library_ok L \<longleftrightarrow> 0 < lib_next_handle L \<and> 0 < lib_next_raw_handle L \<and>
     (\<forall>h e. lib_registry L h = Some e \<longrightarrow> entry_ok e \<and> 0 < h \<and> h < lib_next_handle L) \<and>
     (\<forall>h e. lib_raw_registry L h = Some e \<longrightarrow> raw_entry_ok e \<and> 0 < h \<and> h < lib_next_raw_handle L)"

lemma next_handle: "(n::u64) \<noteq> 0xFFFFFFFFFFFFFFFF \<Longrightarrow> n < n + 1 \<and> 0 < n + 1 \<and> (h < n \<longrightarrow> h < n + 1)"
proof -
  assume "n \<noteq> 0xFFFFFFFFFFFFFFFF"
  then have "unat n \<noteq> 0xFFFFFFFFFFFFFFFF" by (simp add: word_unat_eq_iff)
  moreover have "unat n < 2 ^ 64" using unsigned_less [of n] by simp
  ultimately have "unat (n + 1) = unat n + 1" by (simp add: unat_word_ariths)
  then show ?thesis by (auto simp: word_less_nat_alt)
qed

lemma card_stays_ok:
  "card_stays x (Some e') \<Longrightarrow> (\<And>e. x = Some e \<Longrightarrow> entry_ok e \<and> P) \<Longrightarrow> entry_ok e' \<and> P"
  "same_card x (Some e') \<Longrightarrow> (\<And>e. x = Some e \<Longrightarrow> entry_ok e \<and> P) \<Longrightarrow> entry_ok e' \<and> P"
  by (auto simp: card_stays_def same_card_def split: option.splits)

lemma channel_stays_ok:
  "channel_stays x (Some e') \<Longrightarrow> (\<And>e. x = Some e \<Longrightarrow> raw_entry_ok e \<and> P) \<Longrightarrow> raw_entry_ok e' \<and> P"
  "same_channel x (Some e') \<Longrightarrow> (\<And>e. x = Some e \<Longrightarrow> raw_entry_ok e \<and> P) \<Longrightarrow> raw_entry_ok e' \<and> P"
  by (auto simp: channel_stays_def same_channel_def split: option.splits)

lemma card_frame_ok:
  assumes frame: "card_frame L kind L'" and ok: "0 < lib_next_handle L"
    "\<And>h e. lib_registry L h = Some e \<Longrightarrow> entry_ok e \<and> (0 < h \<and> h < lib_next_handle L)"
  shows "0 < lib_next_handle L' \<and> (lib_registry L' h = Some e \<longrightarrow> entry_ok e \<and> 0 < h \<and> h < lib_next_handle L')"
proof (cases "card_opened L L'")
  case True
  then show ?thesis
    using ok next_handle [of "lib_next_handle L" h]
    by (auto simp: card_opened_def split: if_splits)
next
  case False
  with frame have counter: "lib_next_handle L' = lib_next_handle L" and
    at: "if kind = Card_close h then lib_registry L' h = lib_registry L h \<or> lib_registry L' h = None
      else if of_card kind h then card_stays (lib_registry L h) (lib_registry L' h)
      else same_card (lib_registry L h) (lib_registry L' h)"
    by (auto simp: card_frame_def)
  then show ?thesis
    using ok card_stays_ok [of "lib_registry L h" e "0 < h \<and> h < lib_next_handle L"] by (auto split: if_splits)
qed

lemma channel_frame_ok:
  assumes frame: "channel_frame L kind L'" and ok: "0 < lib_next_raw_handle L"
    "\<And>h e. lib_raw_registry L h = Some e \<Longrightarrow> raw_entry_ok e \<and> (0 < h \<and> h < lib_next_raw_handle L)"
  shows "0 < lib_next_raw_handle L' \<and>
    (lib_raw_registry L' h = Some e \<longrightarrow> raw_entry_ok e \<and> 0 < h \<and> h < lib_next_raw_handle L')"
proof (cases "raw_opened L L'")
  case True
  then show ?thesis
    using ok next_handle [of "lib_next_raw_handle L" h]
    by (auto simp: raw_opened_def split: if_splits)
next
  case False
  with frame have counter: "lib_next_raw_handle L' = lib_next_raw_handle L" and
    at: "if kind = Channel_close h then lib_raw_registry L' h = lib_raw_registry L h \<or> lib_raw_registry L' h = None
      else if of_channel kind h then channel_stays (lib_raw_registry L h) (lib_raw_registry L' h)
      else same_channel (lib_raw_registry L h) (lib_raw_registry L' h)"
    by (auto simp: channel_frame_def)
  then show ?thesis
    using ok channel_stays_ok [of "lib_raw_registry L h" e "0 < h \<and> h < lib_next_raw_handle L"]
    by (auto split: if_splits)
qed

lemma library_step_ok:
  assumes "library_step S L kind ev L'" "library_ok L"
  shows "library_ok L'"
proof -
  from library_step_frame [OF assms(1)] have "card_frame L kind L'" "channel_frame L kind L'" by simp_all
  with card_frame_ok [of L kind L'] channel_frame_ok [of L kind L'] assms(2) show ?thesis
    unfolding library_ok_def by blast
qed

lemma library_reachable_ok: "library_reachable S L \<Longrightarrow> library_ok L"
  by (induction rule: library_reachable.induct) (auto simp: library_ok_def fresh_library_def dest: library_step_ok)

text \<open>A handle that was given out and closed stays unknown.\<close>

definition card_gone :: "u64 \<Rightarrow> 'h c_library \<Rightarrow> bool" where
  "card_gone h L \<longleftrightarrow> h < lib_next_handle L \<and> lib_registry L h = None"

definition channel_gone :: "u64 \<Rightarrow> 'h c_library \<Rightarrow> bool" where
  "channel_gone h L \<longleftrightarrow> h < lib_next_raw_handle L \<and> lib_raw_registry L h = None"

lemma gone_step:
  assumes "library_step S L kind ev L'"
  shows "card_gone h L \<Longrightarrow> card_gone h L'" "channel_gone h L \<Longrightarrow> channel_gone h L'"
proof -
  from library_step_frame [OF assms] have frames: "card_frame L kind L'" "channel_frame L kind L'" by simp_all
  show "card_gone h L'" if "card_gone h L"
  proof (cases "card_opened L L'")
    case True
    then show ?thesis
      using that next_handle [of "lib_next_handle L" h] by (auto simp: card_opened_def card_gone_def)
  next
    case False
    then show ?thesis
      using frames(1) that by (auto simp: card_frame_def card_gone_def card_stays_def dest!: spec [of _ h] same_card_None
        split: if_splits)
  qed
  show "channel_gone h L'" if "channel_gone h L"
  proof (cases "raw_opened L L'")
    case True
    then show ?thesis
      using that next_handle [of "lib_next_raw_handle L" h]
      by (auto simp: raw_opened_def channel_gone_def)
  next
    case False
    then show ?thesis
      using frames(2) that by (auto simp: channel_frame_def channel_gone_def channel_stays_def
        dest!: spec [of _ h] same_card_None split: if_splits)
  qed
qed

lemma gone_run:
  assumes "library_run S admit L L'"
  shows "card_gone h L \<Longrightarrow> card_gone h L'" "channel_gone h L \<Longrightarrow> channel_gone h L'"
  using assms by (induction rule: library_run.induct) (auto dest: gone_step)

end
