(* ===== verification/C_Safety.thy ===== *)
theory C_Safety
  imports C_Library
begin

text \<open>
  What the C interface promises its callers over sequences of calls: the invariant of the library, the
  fence after an unknown outcome, the isolation of handles and the end of a handle. The examples run
  a library with one host whose reader loses the card in every exchange.
\<close>

section \<open>Given-up cards\<close>

definition given_up :: "u64 \<Rightarrow> exchange_log \<Rightarrow> 'h c_library \<Rightarrow> bool" where
  "given_up h log L \<longleftrightarrow>
     (\<exists>e. lib_registry L h = Some e \<and> entry_ok e \<and> \<not> card_usable (en_card e) \<and> en_log e = log)"

lemma given_up_call: "call_change h ev L L' \<Longrightarrow> given_up h log L \<Longrightarrow> given_up h log L'"
  by (auto simp: call_change_def given_up_def)

lemma card_kept:
  assumes "library_step S L kind ev L'" "library_ok L" "lib_registry L h = Some e" "\<not> of_card kind h"
  shows "same_card (Some e) (lib_registry L' h)"
proof -
  have "h \<noteq> lib_next_handle L" using assms(2,3) by (auto simp: library_ok_def)
  then show ?thesis
    using library_step_frame [OF assms(1)] assms(3,4)
    by (auto simp: card_frame_def card_opened_def of_card_def dest: spec [of _ h])
qed

lemma channel_kept:
  assumes "library_step S L kind ev L'" "library_ok L" "lib_raw_registry L h = Some e" "\<not> of_channel kind h"
  shows "same_channel (Some e) (lib_raw_registry L' h)"
proof -
  have "h \<noteq> lib_next_raw_handle L" using assms(2,3) by (auto simp: library_ok_def)
  then show ?thesis
    using library_step_frame [OF assms(1)] assms(3,4)
    by (auto simp: channel_frame_def raw_opened_def of_channel_def dest: spec [of _ h])
qed

inductive_cases card_callE: "library_step S L (Card_call h) ev L'"

lemma card_call_change: "library_step S L (Card_call h) ev L' \<Longrightarrow> \<exists>e. call_change h e L L'"
  by (erule card_callE; blast dest: managed_call_change signal_changes)

lemma given_up_step:
  assumes "library_step S L kind ev L'" "library_ok L" "given_up h log L" "kind \<noteq> Card_reset h" "kind \<noteq> Card_close h"
  shows "given_up h log L'"
proof (cases "kind = Card_call h")
  case True
  with assms(1) card_call_change given_up_call assms(3) show ?thesis by blast
next
  case False
  obtain e where e: "lib_registry L h = Some e" "entry_ok e" "\<not> card_usable (en_card e)" "en_log e = log"
    using assms(3) by (auto simp: given_up_def)
  have "same_card (Some e) (lib_registry L' h)"
    using card_kept [OF assms(1,2) e(1)] False assms(4,5) by (simp add: of_card_def)
  then show ?thesis using e by (auto simp: given_up_def dest!: same_cardD)
qed

lemma given_up_run:
  assumes "library_run S (\<lambda>kind. kind \<noteq> Card_reset h \<and> kind \<noteq> Card_close h) L L'"
  shows "library_ok L \<Longrightarrow> given_up h log L \<Longrightarrow> library_ok L' \<and> given_up h log L'"
  using assms by (induction rule: library_run.induct) (auto dest: given_up_step library_step_ok)

section \<open>An example\<close>

text \<open>A reader that loses the card in every exchange, and the process around it.\<close>

definition lost_transport :: "u32 \<Rightarrow> unit c_transport" where
  "lost_transport framing =
     \<lparr>ct_struct_size = 136, ct_abi_version = df_abi_version, ct_framing = framing, ct_max_transmit = 64,
      ct_max_receive = 64, ct_max_native_frame = 60, ct_exchange = Some (\<lambda>_ _ _ _ h. (Threw, h)),
      ct_cancel = None, ct_reset = None, ct_retain = None, ct_release = None, ct_reserved = []\<rparr>"

definition quiet_services :: "unit c_services" where
  "quiet_services =
     \<lparr>sv_crypto = Inr sample_provider, sv_random = (\<lambda>n h. (Returned (Inr (replicate n 0)), h)),
      sv_now = (\<lambda>h. (0, h)), sv_notifications = (\<lambda>h. (0, h))\<rparr>"

definition opened_library :: "unit c_library" where
  "opened_library = snd (df_open quiet_services (Some (lost_transport 0)) (Some 0) None (fresh_library ()))"

lemma opened_reachable: "library_reachable quiet_services opened_library"
  unfolding opened_library_def
  by (rule library_reachable.stepped [OF library_reachable.loaded library_step.open_card]) (rule surjective_pairing)

lemmas adapter_eval = callback_environment_def callback_capabilities_def transport_capabilities_of_def
  transport_callbacks_of_def callback_exchange_def read_generation_def on_world_def host_exchange_def
  lost_transport_def quiet_services_def recording_def observe_def map_framing_def make_transport_def
  transport_refused_def sizeof_transport_def maximum_buffer_def reserved_is_zero_def retain_transport_def
  act_bind_def on_host_def boundary_def refuse_def Let_def

lemma opened_card: "\<exists>e. lib_registry opened_library 1 = Some e \<and> en_transport e = lost_transport 0 \<and>
    en_crypto e = sample_provider \<and>
    en_card e = demo_card \<and> en_generation e = 1 \<and> en_log e = [] \<and> \<not> en_contended e \<and> \<not> en_active e \<and> \<not> en_closed e"
  unfolding opened_library_def
  by (simp add: adapter_eval df_open_def open_card_def register_card_def card_connect_def raw_connect_def
      fresh_library_def initial_generation_def demo_card_def demo_channel_def)

text \<open>The first exchange with the lost card.\<close>

lemma lost_selection:
  "\<exists>k log. select_application (recording (callback_environment quiet_services (lost_transport 0))) sample_provider 1
      (milliseconds 5000) demo_card ((1, host), []) = (Inl (unknown_error EC_transport (STR ''Reader callback threw an exception'')), k, ((1, host), log)) \<and> length log = 1"
  by (simp add: adapter_eval channel_eval card_eval milliseconds_def never_stop_def select_application_def select_application_locked_def execute_plain_locked_def exchange_plain_def plain_request_def application_data_def conclude_selection_def normalize_delivery_def)

lemma lost_call:
  "\<exists>ret L1. df_select_application quiet_services 1 1 5000 (Some empty_c_error) opened_library = (ret, L1) \<and>
     reports_unknown (evidence ret) \<and> fst (evidence ret) \<noteq> 17 \<and>
     (\<exists>e1. lib_registry L1 1 = Some e1 \<and> length (en_log e1) = 1)"
proof -
  obtain e where e: "lib_registry opened_library 1 = Some e" "en_transport e = lost_transport 0"
    "en_crypto e = sample_provider" "en_card e = demo_card" "en_generation e = 1" "en_log e = []" "\<not> en_contended e" "\<not> en_active e" "\<not> en_closed e"
    using opened_card by blast
  obtain k log where run: "select_application (recording (callback_environment quiet_services (lost_transport 0)))
      sample_provider 1 (milliseconds 5000) demo_card ((1, lib_host opened_library), []) =
      (Inl (unknown_error EC_transport (STR ''Reader callback threw an exception'')), k, ((1, lib_host opened_library), log))"
    "length log = 1"
    using lost_selection by blast
  show ?thesis
    using e run
    by (simp add: df_select_application_def application_id_make_def number_make_def require_def invoke_def lookup_def run_active_def
        on_card_def boundary_def failure_def evidence_def reports_unknown_def c_error_of_def)
qed

section \<open>Properties\<close>

text \<open>
  C4. The invariant of the library. Whatever calls are made on it, on any handles and in any order, while
  the host changes and other threads lock entries: every registered card keeps the invariant of a
  managed card, every raw channel holds at most one session and that one is ready, no entry is left
  active, and every handle in use was given out by the counter of its registry.
\<close>

theorem library_invariant: "library_reachable S L \<Longrightarrow> library_ok L"
  by (rule library_reachable_ok)

theorem library_invariant_witness:
  "library_ok opened_library \<and> (\<exists>e. lib_registry opened_library 1 = Some e \<and> card_usable (en_card e))"
  using library_invariant [OF opened_reachable] opened_card by (auto simp: demo_card_def)

text \<open>
  C3. The fence across calls. When the evidence of a call on a managed card leaves its outcome open,
  the card is given up, and stays given up, without one more frame sent to it, through any sequence of
  calls on this and other handles that neither resets nor closes it. Only an exception of a callback
  that came before the card was touched, reported with code 17, leaves the card and its log as they were.
\<close>

theorem unknown_outcome_stops_card:
  assumes "library_reachable S L" "lib_registry L h = Some e"
    and "managed_call S h L ev L1" "reports_unknown ev"
    and "library_run S (\<lambda>kind. kind \<noteq> Card_reset h \<and> kind \<noteq> Card_close h) L1 L2"
  shows "\<exists>e1. lib_registry L1 h = Some e1 \<and>
    (fst ev = 17 \<and> en_card e1 = en_card e \<and> en_log e1 = en_log e \<or>
     (\<exists>e2. lib_registry L2 h = Some e2 \<and> \<not> card_usable (en_card e1) \<and> \<not> card_usable (en_card e2) \<and>
        en_log e2 = en_log e1))"
proof -
  have step: "library_step S L (Card_call h) (Some ev) L1" using assms(3) by (rule library_step.on_card)
  have ok: "library_ok L" "library_ok L1"
    using library_reachable_ok [OF assms(1)] library_step_ok [OF step] by blast+
  obtain e1 where e1: "lib_registry L1 h = Some e1" "entry_ok e1"
    "\<not> card_usable (en_card e1) \<or> fst ev = 17 \<and> en_card e1 = en_card e \<and> en_log e1 = en_log e"
    using managed_call_change [OF assms(3)] assms(2,4) ok(1) by (auto simp: call_change_def library_ok_def)
  show ?thesis
  proof (cases "card_usable (en_card e1)")
    case False
    then have "given_up h (en_log e1) L1" using e1 by (auto simp: given_up_def)
    from given_up_run [OF assms(5) ok(2) this] e1 False show ?thesis by (auto simp: given_up_def)
  qed (use e1 in blast)
qed

theorem unknown_outcome_stops_card_witness:
  "\<exists>ret L1 e1. df_select_application quiet_services 1 1 5000 (Some empty_c_error) opened_library = (ret, L1) \<and>
     reports_unknown (evidence ret) \<and> lib_registry L1 1 = Some e1 \<and> \<not> card_usable (en_card e1) \<and> en_log e1 \<noteq> []"
proof -
  obtain ret L1 e1 where call: "df_select_application quiet_services 1 1 5000 (Some empty_c_error) opened_library = (ret, L1)"
    "reports_unknown (evidence ret)" "fst (evidence ret) \<noteq> 17" "lib_registry L1 1 = Some e1" "length (en_log e1) = 1"
    using lost_call by blast
  obtain e where "lib_registry opened_library 1 = Some e" using opened_card by blast
  from unknown_outcome_stops_card [OF opened_reachable this managed_call.select_application [OF call(1)] call(2)
      library_run.none] call
  show ?thesis by fastforce
qed

text \<open>
  C17. The isolation of handles. A step that is not about an open card's handle leaves the card, its
  session, its transport and the frames sent to it exactly as they were, up to the lock another
  thread may hold; the same for a raw channel.
\<close>

theorem handles_are_isolated:
  assumes "library_reachable S L" "library_step S L kind ev L'"
  shows "(\<forall>h e. lib_registry L h = Some e \<and> \<not> of_card kind h \<longrightarrow>
      (\<exists>b. lib_registry L' h = Some (e\<lparr>en_contended := b\<rparr>))) \<and>
    (\<forall>h c. lib_raw_registry L h = Some c \<and> \<not> of_channel kind h \<longrightarrow>
      (\<exists>b. lib_raw_registry L' h = Some (c\<lparr>re_contended := b\<rparr>)))"
proof (intro conjI allI impI; elim conjE)
  have ok: "library_ok L" by (rule library_reachable_ok [OF assms(1)])
  show "\<exists>b. lib_registry L' h = Some (e\<lparr>en_contended := b\<rparr>)"
    if "lib_registry L h = Some e" "\<not> of_card kind h" for h e
    using card_kept [OF assms(2) ok that] by (auto simp: same_card_def intro: exI [of _ "en_contended e"])
  show "\<exists>b. lib_raw_registry L' h = Some (c\<lparr>re_contended := b\<rparr>)"
    if "lib_raw_registry L h = Some c" "\<not> of_channel kind h" for h c
    using channel_kept [OF assms(2) ok that] by (auto simp: same_channel_def intro: exI [of _ "re_contended c"])
qed

theorem handles_are_isolated_witness:
  "\<exists>ret L' e. df_raw_open quiet_services (Some (lost_transport 0)) (Some 0) None opened_library = (ret, L') \<and>
     lib_registry opened_library 1 = Some e \<and> (\<exists>b. lib_registry L' 1 = Some (e\<lparr>en_contended := b\<rparr>))"
proof -
  obtain ret L' where run: "df_raw_open quiet_services (Some (lost_transport 0)) (Some 0) None opened_library = (ret, L')"
    by (metis surj_pair)
  obtain e where e: "lib_registry opened_library 1 = Some e" using opened_card by blast
  have "\<not> of_card Channel_open 1" by (simp add: of_card_def)
  with handles_are_isolated [OF opened_reachable library_step.open_channel [OF run]] e run show ?thesis by blast
qed

text \<open>
  C16. The end of a handle. A handle that was given out and closed never names a card or a channel
  again, through any further calls; a call on it changes nothing but the host.
\<close>

theorem closed_handles_stay_closed:
  assumes "library_run S admit L L'"
  shows "(h < lib_next_handle L \<and> lib_registry L h = None \<longrightarrow>
      h < lib_next_handle L' \<and> lib_registry L' h = None \<and>
      (\<forall>ev L2. managed_call S h L' ev L2 \<longrightarrow> lib_registry L2 = lib_registry L' \<and> lib_raw_registry L2 = lib_raw_registry L')) \<and>
    (h < lib_next_raw_handle L \<and> lib_raw_registry L h = None \<longrightarrow>
      h < lib_next_raw_handle L' \<and> lib_raw_registry L' h = None \<and>
      (\<forall>ev L2. raw_call S h L' ev L2 \<longrightarrow> lib_registry L2 = lib_registry L' \<and> lib_raw_registry L2 = lib_raw_registry L'))"
proof (rule conjI; rule impI; elim conjE)
  assume "h < lib_next_handle L" "lib_registry L h = None"
  with gone_run(1) [OF assms] have gone: "h < lib_next_handle L'" "lib_registry L' h = None"
    by (auto simp: card_gone_def)
  moreover have "lib_registry L2 = lib_registry L' \<and> lib_raw_registry L2 = lib_raw_registry L'"
    if "managed_call S h L' ev L2" for ev L2
    using managed_call_change [OF that] gone by (auto simp: call_change_def elsewhere_same_def fun_eq_iff) metis
  ultimately show "h < lib_next_handle L' \<and> lib_registry L' h = None \<and>
      (\<forall>ev L2. managed_call S h L' ev L2 \<longrightarrow> lib_registry L2 = lib_registry L' \<and> lib_raw_registry L2 = lib_raw_registry L')"
    by blast
next
  assume "h < lib_next_raw_handle L" "lib_raw_registry L h = None"
  with gone_run(2) [OF assms] have gone: "h < lib_next_raw_handle L'" "lib_raw_registry L' h = None"
    by (auto simp: channel_gone_def)
  moreover have "lib_registry L2 = lib_registry L' \<and> lib_raw_registry L2 = lib_raw_registry L'"
    if "raw_call S h L' ev L2" for ev L2
    using raw_call_change [OF that] gone by (auto simp: raw_change_def raw_elsewhere_same_def fun_eq_iff) metis
  ultimately show "h < lib_next_raw_handle L' \<and> lib_raw_registry L' h = None \<and>
      (\<forall>ev L2. raw_call S h L' ev L2 \<longrightarrow> lib_registry L2 = lib_registry L' \<and> lib_raw_registry L2 = lib_raw_registry L')"
    by blast
qed

theorem closed_handles_stay_closed_witness:
  "\<exists>ret L. df_close 1 None opened_library = (ret, L) \<and> ret_code ret = 0 \<and> lib_registry L 1 = None \<and>
     (\<forall>ev L2. managed_call quiet_services 1 L ev L2 \<longrightarrow> lib_registry L2 = lib_registry L)"
proof -
  obtain ret L where run: "df_close 1 None opened_library = (ret, L)" by (metis surj_pair)
  obtain e where e: "lib_registry opened_library 1 = Some e" "\<not> en_contended e" "\<not> en_active e"
    using opened_card by blast
  have gone: "ret_code ret = 0" "1 < lib_next_handle L" "lib_registry L 1 = None"
    using run e library_reachable_ok [OF opened_reachable]
    by (auto simp: df_close_def close_card_def lookup_def boundary_def library_ok_def)
  from closed_handles_stay_closed [OF library_run.none, of 1 L quiet_services] gone run show ?thesis by blast
qed

end
