(* ===== verification/C_Raw_Properties.thy ===== *)
theory C_Raw_Properties
  imports C_Safety
begin

text \<open>
  What the raw channels of the C interface promise: sessions that are never used across generations and
  never survive a doubtful exchange, and the ISO commands that a secure exchange accepts.
\<close>

section \<open>Addresses of binary files\<close>

lemma small_identifier:
  assumes "(idn::u32) \<le> 31"
  obtains k where "k < 32" "idn = of_nat k"
proof -
  have "unat idn \<le> 31" using assms by (simp add: word_le_nat_alt)
  then show thesis using that [of "unat idn"] by simp
qed

definition short_p1 :: "u32 \<Rightarrow> byte" where
  "short_p1 idn = ucast (0x80 OR idn)"

definition decoded_identifier :: "byte \<Rightarrow> u32" where
  "decoded_identifier p1 = drop_bit 3 (ucast p1) AND 0x1F"

lemma short_identifiers:
  "\<forall>k\<in>set [0..<32]. short_p1 (of_nat k) AND 0x80 \<noteq> 0 \<and> decoded_identifier (short_p1 (of_nat k)) \<le> 31 \<and>
     (short_p1 (decoded_identifier (short_p1 (of_nat k))) = short_p1 (of_nat k) \<longleftrightarrow> k = 18)"
  unfolding short_p1_def decoded_identifier_def by code_simp

lemma short_decoding:
  assumes "idn \<le> 31"
  shows "short_p1 idn AND 0x80 \<noteq> 0" "decoded_identifier (short_p1 idn) \<le> 31"
    "short_p1 (decoded_identifier (short_p1 idn)) = short_p1 idn \<longleftrightarrow> idn = 0x12"
proof -
  obtain k where k: "k < 32" "idn = of_nat k" using assms by (rule small_identifier)
  have "k = 18 \<longleftrightarrow> (of_nat k :: u32) = 0x12"
    using k(1) by (auto simp: word_unat_eq_iff unat_of_nat)
  then show "short_p1 idn AND 0x80 \<noteq> 0" "decoded_identifier (short_p1 idn) \<le> 31"
    "short_p1 (decoded_identifier (short_p1 idn)) = short_p1 idn \<longleftrightarrow> idn = 0x12"
    using short_identifiers k by auto
qed

lemma small_word: "unat (w::u32) < 2 ^ n \<Longrightarrow> bit w i \<longleftrightarrow> i < n \<and> bit w i"
  by (metis bit_take_bit_iff take_bit_nat_eq_self_iff unsigned_take_bit_eq word_unat_eq_iff)

lemma short_offset:
  assumes "(off::u32) \<le> 255"
  shows "ucast (ucast off :: byte) = off"
proof -
  have "unat off < 2 ^ 8" using assms by (simp add: word_le_nat_alt)
  from small_word [OF this] show ?thesis
    by (intro bit_word_eqI) (auto simp: bit_simps)
qed

lemma current_decoding:
  assumes "(off::u32) \<le> 0x7FFF"
  shows "(ucast (drop_bit 8 off) :: byte) AND 0x80 = 0"
    "push_bit 8 (ucast (ucast (drop_bit 8 off) :: byte)) OR ucast (ucast off :: byte) = off"
proof -
  have "unat off < 2 ^ 15" using assms by (simp add: word_le_nat_alt)
  note small = small_word [OF this]
  have mask: "bit (0x80 :: byte) n \<longleftrightarrow> n = 7" for n
  proof -
    have "(0x80 :: byte) = push_bit 7 1" by simp
    then show ?thesis by (simp only: bit_push_bit_iff bit_1_iff) auto
  qed
  show "(ucast (drop_bit 8 off) :: byte) AND 0x80 = 0"
  proof (rule bit_word_eqI)
    fix n
    assume "n < LENGTH(8)"
    have "\<not> bit off 15" using small [of 15] by simp
    then have "\<not> (bit (ucast (drop_bit 8 off) :: byte) n \<and> n = 7)" by (auto simp: bit_simps)
    then show "bit ((ucast (drop_bit 8 off) :: byte) AND 0x80) n \<longleftrightarrow> bit (0 :: byte) n"
      by (simp only: bit_and_iff mask) simp
  qed
  show "push_bit 8 (ucast (ucast (drop_bit 8 off) :: byte)) OR ucast (ucast off :: byte) = off"
    by (intro bit_word_eqI) (auto simp: bit_simps dest: small [THEN iffD1])
qed

lemma iso_make_result: "iso_make ins p1 p2 d le enc = Inr a \<Longrightarrow>
    a = \<lparr>a_cla = 0, a_ins = ins, a_p1 = p1, a_p2 = p2, a_data = d, a_le = le, a_encoding = enc\<rparr>"
  by (simp add: iso_make_def Let_def split: sum.splits)

lemma read_binary_apdu:
  assumes "iso_read_binary address n enc = Inr a"
  shows "a = \<lparr>a_cla = 0, a_ins = 0xB0, a_p1 = ba_p1 address, a_p2 = ba_p2 address, a_data = [], a_le = Some n,
    a_encoding = enc\<rparr>"
  using assms by (simp add: iso_read_binary_def iso_make_result)

lemma update_binary_apdu:
  assumes "iso_update_binary address d enc = Inr a"
  shows "a = \<lparr>a_cla = 0, a_ins = 0xD6, a_p1 = ba_p1 address, a_p2 = ba_p2 address, a_data = d, a_le = None,
    a_encoding = enc\<rparr>"
  using assms by (auto simp: iso_update_binary_def split: if_splits dest: iso_make_result)

lemma binary_p1: "iso_read_binary address n enc = Inr a \<Longrightarrow> a_p1 a = ba_p1 address"
  "iso_update_binary address d enc = Inr a \<Longrightarrow> a_p1 a = ba_p1 address"
  by (auto dest: read_binary_apdu update_binary_apdu)

text \<open>The command rebuilt from an APDU, by the address the APDU is decoded to.\<close>

lemma rebuilt_read:
  assumes "iso_read_binary address n enc = Inr a" "apdu_binary_address a = Inr decoded"
  shows "make_checked_iso_command a = iso_read_binary decoded n enc"
  using read_binary_apdu [OF assms(1)] assms(2) by (simp add: make_checked_iso_command_def Let_def result_bind_def)

lemma rebuilt_update:
  assumes "iso_update_binary address d enc = Inr a" "apdu_binary_address a = Inr decoded"
  shows "make_checked_iso_command a = iso_update_binary decoded d enc"
  using update_binary_apdu [OF assms(1)] assms(2) by (simp add: make_checked_iso_command_def Let_def result_bind_def)

lemma decoded_current:
  assumes "current_file off = Inr address" "a_p1 a = ba_p1 address" "a_p2 a = ba_p2 address"
  shows "apdu_binary_address a = Inr address"
proof -
  have "off \<le> 0x7FFF" "address = \<lparr>ba_p1 = ucast (drop_bit 8 off), ba_p2 = ucast off\<rparr>"
    using assms(1) by (auto simp: current_file_def split: if_splits)
  then show ?thesis
    using current_decoding [of off] assms by (simp add: apdu_binary_address_def)
qed

lemma decoded_short:
  assumes "short_file idn off = Inr address" "a_p1 a = ba_p1 address" "a_p2 a = ba_p2 address"
  shows "\<exists>decoded. apdu_binary_address a = Inr decoded \<and> ba_p2 decoded = ba_p2 address \<and>
    (ba_p1 decoded = ba_p1 address \<longleftrightarrow> idn = 0x12)"
proof -
  have le: "idn \<le> 31" "off \<le> 255" and address: "address = \<lparr>ba_p1 = short_p1 idn, ba_p2 = ucast off\<rparr>"
    using assms(1) by (auto simp: short_file_def short_p1_def split: if_splits)
  have "apdu_binary_address a = short_file (decoded_identifier (short_p1 idn)) off"
    using short_decoding(1) [OF le(1)] short_offset [OF le(2)] assms(2,3) address
    by (simp add: apdu_binary_address_def decoded_identifier_def)
  then have "apdu_binary_address a = Inr \<lparr>ba_p1 = short_p1 (decoded_identifier (short_p1 idn)), ba_p2 = ucast off\<rparr>"
    using short_decoding(2) [OF le(1)] le(2) by (simp add: short_file_def short_p1_def not_less)
  then show ?thesis using short_decoding(3) [OF le(1)] address by simp
qed

lemma checked_binary_exact:
  assumes "iso_read_binary address n enc = Inr a \<or> iso_update_binary address d enc = Inr a"
  shows "(current_file off = Inr address \<longrightarrow> make_checked_iso_command a = Inr a) \<and>
    (short_file idn off = Inr address \<longrightarrow> (make_checked_iso_command a = Inr a \<longleftrightarrow> idn = 0x12))"
proof (intro conjI impI)
  have params: "a_p1 a = ba_p1 address" "a_p2 a = ba_p2 address"
    using assms by (auto dest!: read_binary_apdu update_binary_apdu)
  show "make_checked_iso_command a = Inr a" if "current_file off = Inr address"
    using decoded_current [OF that params] assms rebuilt_read rebuilt_update by metis
  show "make_checked_iso_command a = Inr a \<longleftrightarrow> idn = 0x12" if short: "short_file idn off = Inr address"
  proof -
    obtain decoded where d: "apdu_binary_address a = Inr decoded" "ba_p2 decoded = ba_p2 address"
      "ba_p1 decoded = ba_p1 address \<longleftrightarrow> idn = 0x12"
      using decoded_short [OF short params] by blast
    have same: "decoded = address" if "idn = 0x12" using d that by (cases decoded; cases address) simp
    have "ba_p1 decoded = ba_p1 address" if "make_checked_iso_command a = Inr a"
      using assms that rebuilt_read [OF _ d(1)] rebuilt_update [OF _ d(1)] params(1) binary_p1 by metis
    then show ?thesis using d(3) same rebuilt_read [OF _ d(1)] rebuilt_update [OF _ d(1)] assms by metis
  qed
qed

lemma checked_binary_rebuilt:
  assumes "short_file idn off = Inr address"
    "iso_read_binary address n enc = Inr a \<or> iso_update_binary address d enc = Inr a"
  shows "\<exists>command. make_checked_iso_command a = Inr command"
proof -
  have params: "a_p1 a = ba_p1 address" "a_p2 a = ba_p2 address"
    using assms by (auto dest!: read_binary_apdu update_binary_apdu)
  obtain decoded where d: "apdu_binary_address a = Inr decoded" using decoded_short [OF assms(1) params] by blast
  have encode: "iso_encode \<lparr>a_cla = 0, a_ins = i, a_p1 = p, a_p2 = q, a_data = x, a_le = l, a_encoding = enc\<rparr> = Inr w \<Longrightarrow>
      \<exists>w. iso_encode \<lparr>a_cla = 0, a_ins = i, a_p1 = p', a_p2 = q', a_data = x, a_le = l, a_encoding = enc\<rparr> = Inr w"
    for i p q x l w p' q'
    by (auto simp: iso_encode_def needs_extended_def Let_def split: if_splits option.splits)
  then have "iso_make i p q x l enc = Inr a \<Longrightarrow> \<exists>a'. iso_make i p' q' x l enc = Inr a'" for i p q x l p' q'
    using encode [of i p q x l _ p' q'] by (fastforce simp: iso_make_def Let_def split: sum.splits)
  then have "iso_read_binary address n enc = Inr a \<Longrightarrow> \<exists>a'. iso_read_binary decoded n enc = Inr a'"
    "iso_update_binary address d enc = Inr a \<Longrightarrow> \<exists>a'. iso_update_binary decoded d enc = Inr a'"
    unfolding iso_read_binary_def iso_update_binary_def by (auto split: if_splits)
  then show ?thesis using assms(2) rebuilt_read [OF _ d] rebuilt_update [OF _ d] by metis
qed

section \<open>Examples\<close>

text \<open>READ BINARY of sixteen bytes of the short file 1, as a caller describes it.\<close>

definition sample_short_read :: c_iso_apdu where
  "sample_short_read =
     \<lparr>ia_struct_size = 136, ia_abi_version = df_abi_version, ia_cla = 0, ia_ins = 0xB0, ia_p1 = 0x81, ia_p2 = 0,
      ia_data = Bytes_at [], ia_has_le = 1, ia_le = 16, ia_length_encoding = 0, ia_correct_length = 0,
      ia_maximum_response = 16, ia_maximum_frames = 1, ia_reserved = []\<rparr>"

lemma sample_short:
  "short_file 1 0 = Inr \<lparr>ba_p1 = 0x81, ba_p2 = 0\<rparr>"
  "iso_read_binary \<lparr>ba_p1 = 0x81, ba_p2 = 0\<rparr> 16 automatic =
     Inr \<lparr>a_cla = 0, a_ins = 0xB0, a_p1 = 0x81, a_p2 = 0, a_data = [], a_le = Some 16, a_encoding = automatic\<rparr>"
  "make_iso_apdu (Some sample_short_read) =
     Inr \<lparr>a_cla = 0, a_ins = 0xB0, a_p1 = 0x81, a_p2 = 0, a_data = [], a_le = Some 16, a_encoding = automatic\<rparr>"
  "ia_correct_length sample_short_read = 0"
  by (simp_all add: short_file_def iso_read_binary_def iso_make_def iso_encode_def make_iso_apdu_def sample_short_read_def
      sizeof_iso_apdu_def reserved_is_zero_def bytes_in_def is_null_def result_bind_def length_encoding_in_def Let_def
      iso_builder_defs maximum_buffer_def valid_encoding_def maximum_expected_data_def)

text \<open>A raw channel over a reader that loses the card in every exchange.\<close>

definition opened_channel :: "unit c_library" where
  "opened_channel = snd (df_raw_open quiet_services (Some (lost_transport 0)) (Some 0) None (fresh_library ()))"

lemma channel_reachable: "library_reachable quiet_services opened_channel"
  unfolding opened_channel_def
  by (rule library_reachable.stepped [OF library_reachable.loaded library_step.open_channel]) (rule surjective_pairing)

lemma opened_channel_entry:
  "lib_raw_registry opened_channel 1 = Some (new_raw_entry quiet_services (lost_transport 0) sample_provider)"
  unfolding opened_channel_def
  by (simp add: adapter_eval df_raw_open_def open_raw_def fresh_library_def)

lemma lost_frame:
  "\<exists>ret L1. df_raw_native_frame quiet_services 1 0 0x60 (Bytes_at []) 5000 True (Slot None)
      (Some empty_c_error) opened_channel = (ret, L1) \<and> reports_unknown (evidence ret) \<and> fst (evidence ret) \<noteq> 17"
  using opened_channel_entry
  by (simp add: df_raw_native_frame_def bytes_in_def is_null_def output_status_bytes_def invoke_raw_def lookup_raw_def
      new_raw_entry_def run_raw_active_def raw_frame_body_def require_native_framing_def require_def clearing_def
      clear_sessions_def with_transaction_def raw_environment_def raw_world_def leave_world_def channel_eval adapter_eval
      raw_connect_def initial_generation_def milliseconds_def never_stop_def failure_def evidence_def reports_unknown_def
      c_error_of_def)

text \<open>A channel with an EV2 session of some generation.\<close>

definition demo_host :: "unit c_host" where
  "demo_host = \<lparr>ch_world = (), ch_resolved = {}\<rparr>"

definition demo_entry :: "u64 \<Rightarrow> unit raw_entry" where
  "demo_entry generation =
     (new_raw_entry quiet_services (lost_transport 0) sample_provider)
       \<lparr>re_ev2_session := Some sample_ev2, re_session_generation := generation\<rparr>"

lemma demo_entry_inv: "raw_inv (demo_entry generation)"
  using new_raw_entry_ok [of quiet_services "lost_transport 0" sample_provider] sample_ev2_inv
  by (simp add: demo_entry_def raw_inv_def ev2_open_def raw_entry_ok_def raw_idle_def new_raw_entry_def raw_connect_def Let_def
      adapter_eval)

section \<open>Properties\<close>

text \<open>
  C13. No session survives an open outcome. When the evidence of a call on a raw channel leaves its
  outcome open, the channel has no session left, of any profile, so nothing protected can follow before
  a new authentication; only an exception of a callback that came before the channel was touched,
  reported with code 17, leaves the channel as it was.
\<close>

theorem raw_unknown_drops_session:
  assumes "library_reachable S L" "lib_raw_registry L h = Some e" "raw_call S h L ev L'" "reports_unknown ev"
  shows "\<exists>e'. lib_raw_registry L' h = Some e' \<and>
    (re_standard_session e' = None \<and> re_ev2_session e' = None \<and> re_iso_session e' = None \<or> fst ev = 17 \<and> e' = e)"
proof -
  have "raw_entry_ok e" using library_reachable_ok [OF assms(1)] assms(2) by (simp add: library_ok_def)
  then show ?thesis
    using raw_call_change [OF assms(3)] assms(2,4) by (auto simp: raw_change_def bare_def no_session_def)
qed

theorem raw_unknown_drops_session_witness:
  "\<exists>ret L1 e1. df_raw_native_frame quiet_services 1 0 0x60 (Bytes_at []) 5000 True (Slot None) (Some empty_c_error)
      opened_channel = (ret, L1) \<and> reports_unknown (evidence ret) \<and> lib_raw_registry L1 1 = Some e1 \<and>
      re_ev2_session e1 = None"
proof -
  obtain ret L1 where call: "df_raw_native_frame quiet_services 1 0 0x60 (Bytes_at []) 5000 True (Slot None)
      (Some empty_c_error) opened_channel = (ret, L1)" "reports_unknown (evidence ret)" "fst (evidence ret) \<noteq> 17"
    using lost_frame by blast
  from raw_unknown_drops_session [OF channel_reachable opened_channel_entry raw_call.native_frame [OF call(1)] call(2)]
    call show ?thesis by auto
qed

lemma native_secure_needs_current:
  assumes inv: "raw_inv e" and run: "native_secure_body S profile rq opts (e, host) = (Returned (Inr d), st')"
  shows "re_session_generation e \<noteq> 0 \<and> re_session_generation e = fst (transport_generation S (e, host)) \<and>
    (if profile = 1 then re_standard_session e \<noteq> None else re_ev2_session e \<noteq> None)"
proof -
  obtain c e1 host1 where c: "require_current_session S (e, host) = (c, (e1, host1))" by (metis surj_pair)
  have passed: "c = Returned (Inr ())"
    using run c by (auto simp: native_secure_body_def act_bind_def split: dep.splits sum.splits)
  have "re_session_generation e \<noteq> 0 \<and> re_session_generation e = fst (transport_generation S (e, host))"
    using c passed by (cases "transport_generation S (e, host)")
      (auto simp: require_current_session_def Let_def split: if_splits)
  moreover obtain n where "e1 = e\<lparr>re_generation := n\<rparr>"
    using require_current_session_result [OF inv c] passed by auto
  ultimately show ?thesis
    using run c passed
    by (auto simp: native_secure_body_def act_bind_def protected_exchange_def refuse_def split: if_splits option.splits)
qed

text \<open>
  C14. Secure native exchanges. From a channel in order, a secure native exchange returns. If it
  succeeds, the channel had a session of the requested profile, made under the generation that the
  transport reports now, the data satisfies the bounds of the request, and one session is ready again, or
  none is left when the command ends it on the card; if it fails, no session is left, or nothing was sent
  and the channel has changed in nothing but the generation it last read.
\<close>

theorem raw_secure_exchange_keeps_or_drops:
  assumes "raw_inv e" "native_secure_body S profile rq opts (e, host) = (r, (e', host'))"
  shows "\<exists>x. r = Returned x \<and> raw_inv e' \<and>
    (case x of
       Inr d \<Rightarrow>
         re_session_generation e \<noteq> 0 \<and> re_session_generation e = fst (transport_generation S (e, host)) \<and>
         (if profile = 1 then re_standard_session e \<noteq> None else re_ev2_session e \<noteq> None) \<and>
         sq_minimum_response rq \<le> length d \<and> length d \<le> sq_maximum_response rq \<and>
         (if sq_invalidates_session rq then no_session e' else standard_open e' \<or> ev2_open e')
     | Inl err \<Rightarrow> no_session e' \<or> err_outcome err = OC_not_sent \<and> (\<exists>n. e' = e\<lparr>re_generation := n\<rparr>))"
proof -
  obtain x where x: "r = Returned x" "session_spent rq x e' \<and> (\<not> isl x \<longrightarrow> re_session_generation e \<noteq> 0 \<and>
        sq_minimum_response rq \<le> length (projr x) \<and> length (projr x) \<le> sq_maximum_response rq) \<or>
     (\<exists>err n. x = Inl err \<and> err_outcome err = OC_not_sent \<and> e' = e\<lparr>re_generation := n\<rparr>)"
    using native_secure_result [OF assms] by blast
  moreover have "raw_inv e'" using x(2) assms(1) by (auto intro: spent_inv)
  moreover have "re_session_generation e = fst (transport_generation S (e, host)) \<and>
      (if profile = 1 then re_standard_session e \<noteq> None else re_ev2_session e \<noteq> None)" if "x = Inr d" for d
    using native_secure_needs_current [OF assms(1)] assms(2) x(1) that by blast
  ultimately show ?thesis
    by (cases x) (auto simp: session_spent_def bare_def)
qed

theorem raw_secure_exchange_keeps_or_drops_witness:
  "\<exists>r e' host'. native_secure_body quiet_services 2 demo_value_request (milliseconds 5000) (demo_entry 1, demo_host) =
      (r, (e', host')) \<and> r \<noteq> Threw \<and> raw_inv e'"
proof -
  obtain r e' host' where run: "native_secure_body quiet_services 2 demo_value_request (milliseconds 5000)
      (demo_entry 1, demo_host) = (r, (e', host'))" by (metis surj_pair)
  from raw_secure_exchange_keeps_or_drops [OF demo_entry_inv this] run show ?thesis by auto
qed

text \<open>
  C15. Sessions end with their generation. When the channel has no session generation, or the transport
  now reports another one, every operation that would use the session is refused before anything is
  sent: the error says not sent, the log of the exchanges is unchanged and no session is left.
\<close>

theorem stale_session_is_refused:
  assumes "raw_inv e"
    and "re_session_generation e = 0 \<or> fst (transport_generation S (e, host)) \<noteq> re_session_generation e"
  shows "\<exists>e1 host1. no_session e1 \<and> re_log e1 = re_log e \<and>
    native_secure_body S profile rq opts (e, host) =
      (Returned (Inl (local_error EC_session_invalid (STR ''Raw authentication session is absent or stale''))), (e1, host1)) \<and>
    iso_secure_body S command limits opts (e, host) =
      (Returned (Inl (local_error EC_session_invalid (STR ''Raw authentication session is absent or stale''))), (e1, host1)) \<and>
    raw_ev2_non_first_body S key_no source opts (e, host) =
      (Returned (Inl (local_error EC_session_invalid (STR ''Raw authentication session is absent or stale''))), (e1, host1))"
proof -
  obtain c e1 host1 where c: "require_current_session S (e, host) = (c, (e1, host1))" by (metis surj_pair)
  have stale: "c = Returned (Inl (local_error EC_session_invalid (STR ''Raw authentication session is absent or stale'')))"
    using c assms(2) by (cases "transport_generation S (e, host)") (auto simp: require_current_session_def Let_def split: if_splits)
  then have "no_session e1" "re_log e1 = re_log e"
    using require_current_session_result [OF assms(1) c] by (auto simp: bare_def)
  with c stale show ?thesis
    by (auto simp: native_secure_body_def iso_secure_body_def raw_ev2_non_first_body_def act_bind_def)
qed

theorem stale_session_is_refused_witness:
  "\<exists>e1 host1. native_secure_body quiet_services 2 demo_value_request (milliseconds 5000) (demo_entry 5, demo_host) =
      (Returned (Inl (local_error EC_session_invalid (STR ''Raw authentication session is absent or stale''))), (e1, host1)) \<and>
     re_ev2_session (demo_entry 5) \<noteq> None \<and> no_session e1"
proof -
  have "fst (transport_generation quiet_services (demo_entry 5, demo_host)) = 1"
    by (simp add: transport_generation_def raw_environment_def raw_world_def adapter_eval demo_entry_def demo_host_def
        new_raw_entry_def initial_generation_def)
  then have "re_session_generation (demo_entry 5) = 0 \<or>
      fst (transport_generation quiet_services (demo_entry 5, demo_host)) \<noteq> re_session_generation (demo_entry 5)"
    by (simp add: demo_entry_def)
  from stale_session_is_refused [OF demo_entry_inv this, where profile = 2 and rq = demo_value_request and opts = "milliseconds 5000"]
  have "\<exists>e1 host1. no_session e1 \<and> native_secure_body quiet_services 2 demo_value_request (milliseconds 5000)
      (demo_entry 5, demo_host) = (Returned (Inl (local_error EC_session_invalid
        (STR ''Raw authentication session is absent or stale''))), (e1, host1))" by blast
  moreover have "re_ev2_session (demo_entry 5) \<noteq> None" by (simp add: demo_entry_def)
  ultimately show ?thesis by blast
qed

text \<open>
  ISO commands of a secure exchange. The APDU of a checked READ BINARY or UPDATE BINARY is rebuilt
  exactly when it addresses the current file, at every offset; when it addresses a file by its short
  identifier, it is rebuilt exactly for the identifier 18 alone.
\<close>

theorem secure_iso_binary_addresses:
  assumes "iso_read_binary address n enc = Inr a \<or> iso_update_binary address d enc = Inr a"
  shows "(current_file off = Inr address \<longrightarrow> make_checked_iso_command a = Inr a) \<and>
    (short_file idn off = Inr address \<longrightarrow> (make_checked_iso_command a = Inr a \<longleftrightarrow> idn = 0x12))"
  by (rule checked_binary_exact [OF assms])

theorem secure_iso_binary_addresses_witness:
  "make_checked_iso_command \<lparr>a_cla = 0, a_ins = 0xB0, a_p1 = 0x81, a_p2 = 0, a_data = [], a_le = Some 16,
      a_encoding = automatic\<rparr> \<noteq>
     Inr \<lparr>a_cla = 0, a_ins = 0xB0, a_p1 = 0x81, a_p2 = 0, a_data = [], a_le = Some 16, a_encoding = automatic\<rparr>"
  using secure_iso_binary_addresses [OF disjI1 [OF sample_short(2)], where idn = 1 and off = 0] sample_short(1) by simp

text \<open>
  C38. Short files are refused. A secure ISO exchange with a checked READ BINARY or UPDATE BINARY of any
  other short file than 18 is refused as an invalid argument, before the channel is looked at.
\<close>

theorem secure_iso_short_files_refused:
  assumes "short_file idn off = Inr address" "idn \<noteq> 0x12"
    and "iso_read_binary address n enc = Inr a \<or> iso_update_binary address d enc = Inr a"
    and "make_iso_apdu (Some q) = Inr a" "ia_correct_length q = 0"
  shows "\<exists>ret. df_raw_iso_secure_exchange S h (Some q) timeout True slot err L = (ret, L) \<and>
    ret_code ret = error_number EC_invalid_argument \<and> ret_value ret = None"
proof -
  have "make_checked_iso_command a \<noteq> Inr a" using checked_binary_exact [OF assms(3)] assms(1,2) by blast
  then obtain command where "make_checked_iso_command a = Inr command" "command \<noteq> a"
    using checked_binary_rebuilt [OF assms(1,3)] by auto
  then show ?thesis
    using assms(4,5) by (simp add: df_raw_iso_secure_exchange_def require_def refuse_def boundary_def failure_def)
qed

theorem secure_iso_short_files_refused_witness:
  "\<exists>a ret. iso_read_binary \<lparr>ba_p1 = 0x81, ba_p2 = 0\<rparr> 16 automatic = Inr a \<and>
     df_raw_iso_secure_exchange quiet_services 1 (Some sample_short_read) 5000 True (Slot None) None opened_channel =
       (ret, opened_channel) \<and> ret_code ret = error_number EC_invalid_argument"
proof -
  from sample_short secure_iso_short_files_refused [OF sample_short(1) _ disjI1 [OF sample_short(2)] sample_short(3,4),
      of quiet_services 1 5000 "Slot None" None opened_channel]
  show ?thesis by auto
qed

end
