(* ===== verification/Pcsc.thy ===== *)
theory Pcsc
  imports Environment
begin

text \<open>
  The PC/SC transport (\<^verbatim>\<open>transports/pcsc/src/pcsc.cpp\<close>): reader discovery with its bounded
  retry and the parsing of the service's list of names, the opening of a reader, and the exchange and
  reset of a connection. The PC/SC service is a parameter: a record of the calls the source makes, over
  an arbitrary state of the service. Statuses and sizes are 32-bit, the widths of \<^verbatim>\<open>LONG\<close> and \<^verbatim>\<open>DWORD\<close> on
  Windows and macOS; pcsc-lite on Linux stores the same values in wider integers. The numbers that the service's headers give
  to its symbolic statuses are fields of the same record.
\<close>

section \<open>The service\<close>

type_synonym status = "32 word"

text \<open>
  What a call that fills a buffer leaves behind: the status, the bytes written from the start of the
  buffer and the size it reports.
\<close>

record 'a filled =
  fl_status :: status
  fl_written :: "'a list"
  fl_size :: "32 word"

text \<open>
  \<open>ps_list context capacity\<close> asks for the names, where no capacity stands for the null buffer;
  \<open>ps_connect context name\<close> asks for shared access with either protocol and answers status, card and
  protocol; \<open>ps_transmit card protocol frame capacity\<close> exchanges one frame.
\<close>

record ('x, 's) pcsc_service =
  ps_no_smartcard :: status
  ps_removed_card :: status
  ps_reset_card :: status
  ps_timed_out :: status
  ps_cancelled :: status
  ps_no_readers :: status
  ps_small_buffer :: status
  ps_establish :: "'s \<Rightarrow> (status \<times> 'x) \<times> 's"
  ps_list :: "'x \<Rightarrow> nat option \<Rightarrow> 's \<Rightarrow> char filled \<times> 's"
  ps_connect :: "'x \<Rightarrow> string \<Rightarrow> 's \<Rightarrow> (status \<times> u64 \<times> u32) \<times> 's"
  ps_disconnect :: "u64 \<Rightarrow> 's \<Rightarrow> 's"
  ps_transmit :: "u64 \<Rightarrow> u32 \<Rightarrow> bytes \<Rightarrow> nat \<Rightarrow> 's \<Rightarrow> byte filled \<times> 's"
  ps_reconnect :: "u64 \<Rightarrow> 's \<Rightarrow> (status \<times> u32) \<times> 's"

text \<open>\<^verbatim>\<open>std::to_string\<close>.\<close>

fun decimal :: "nat \<Rightarrow> string" where
  "decimal n = (if n < 10 then [char_of (n + 48)] else decimal (n div 10) @ [char_of (n mod 10 + 48)])"

definition pcsc_category :: "('x, 's) pcsc_service \<Rightarrow> status \<Rightarrow> error_code" where
  "pcsc_category A status =
     (if status = ps_no_smartcard A \<or> status = ps_removed_card A \<or> status = ps_reset_card A then EC_card_removed
      else if status = ps_timed_out A then EC_timeout
      else if status = ps_cancelled A then EC_cancelled
      else EC_transport)"

definition pcsc_error :: "('x, 's) pcsc_service \<Rightarrow> status \<Rightarrow> outcome \<Rightarrow> error" where
  "pcsc_error A status oc =
     make_error (pcsc_category A status)
       (String.implode (''PC/SC operation failed (status '' @ decimal (unat status) @ '')'')) oc 0"

definition pcsc_failure :: "('x, 's) pcsc_service \<Rightarrow> status \<Rightarrow> error" where
  "pcsc_failure A status = pcsc_error A status OC_not_sent"

text \<open>A buffer of zeros into which a call wrote some elements, resized to the reported size.\<close>

definition resized :: "'a \<Rightarrow> nat \<Rightarrow> 'a filled \<Rightarrow> 'a list" where
  "resized zero capacity answer =
     take (unat (fl_size answer))
       (take capacity (fl_written answer) @ replicate (capacity - length (fl_written answer)) zero)"

section \<open>Reader discovery\<close>

abbreviation nul :: char where
  "nul \<equiv> CHR 0x00"

text \<open>\<^verbatim>\<open>struct ReaderInfo\<close>: identifier and name.\<close>

record reader_info =
  ri_id :: string
  ri_name :: string

definition list_error :: "String.literal \<Rightarrow> error" where
  "list_error message = local_error EC_malformed_response message"

text \<open>
  The loop over the names; nothing but the position in the list bounds it, so it is a partial function
  and its termination a theorem.
\<close>

partial_function (option) reader_loop ::
  "string \<Rightarrow> nat \<Rightarrow> reader_info list \<Rightarrow> (reader_info list \<times> nat) result option" where
  "reader_loop names offset infos =
     (if offset < length names \<and> names ! offset \<noteq> nul
      then let name = takeWhile (\<lambda>c. c \<noteq> nul) (drop offset names)
           in if offset + length name = length names
              then Some (Inl (list_error (STR ''Unterminated PC/SC reader name'')))
              else reader_loop names (offset + (length name + 1)) (infos @ [\<lparr>ri_id = name, ri_name = name\<rparr>])
      else Some (Inr (infos, offset)))"

definition parse_readers :: "string \<Rightarrow> reader_info list result option" where
  "parse_readers names =
     (if last names \<noteq> nul
      then Some (Inl (list_error (STR ''PC/SC reader list is not NUL-terminated'')))
      else case reader_loop names 0 [] of
        None \<Rightarrow> None
      | Some (Inl e) \<Rightarrow> Some (Inl e)
      | Some (Inr (infos, offset)) \<Rightarrow>
          Some (if \<forall>c\<in>set (drop offset names). c = nul then Inr infos
                else Inl (list_error (STR ''PC/SC reader list has data after its terminator''))))"

definition max_reader_list_bytes :: nat where
  "max_reader_list_bytes = 1024 * 1024"

text \<open>What one attempt decides: a result, or another attempt.\<close>

datatype 'a attempt = Retry | Conclude 'a

definition conclude_listing ::
  "('x, 's) pcsc_service \<Rightarrow> bool \<Rightarrow> nat \<Rightarrow> char filled \<Rightarrow> reader_info list result option attempt" where
  "conclude_listing A last_attempt capacity answer =
     (let requires_larger_buffer =
            fl_status answer = ps_small_buffer A \<or> unat (fl_size answer) > capacity
      in if fl_status answer = ps_no_readers A then Conclude (Some (Inr []))
         else if requires_larger_buffer \<and> \<not> last_attempt then Retry
         else if requires_larger_buffer
         then Conclude (Some (Inl (local_error EC_transport (STR ''PC/SC reader list changed during discovery''))))
         else if fl_status answer \<noteq> 0 then Conclude (Some (Inl (pcsc_failure A (fl_status answer))))
         else if fl_size answer = 0 then Conclude (Some (Inr []))
         else Conclude (parse_readers (resized nul capacity answer)))"

definition list_attempt ::
  "('x, 's) pcsc_service \<Rightarrow> 'x \<Rightarrow> bool \<Rightarrow> 's \<Rightarrow> reader_info list result option attempt \<times> 's" where
  "list_attempt A context last_attempt s =
     (case ps_list A context None s of
        (asked, s1) \<Rightarrow>
          if fl_status asked = ps_no_readers A then (Conclude (Some (Inr [])), s1)
          else if fl_status asked \<noteq> 0 then (Conclude (Some (Inl (pcsc_failure A (fl_status asked)))), s1)
          else if fl_size asked = 0 then (Conclude (Some (Inr [])), s1)
          else if unat (fl_size asked) > max_reader_list_bytes
          then (Conclude (Some (Inl (list_error (STR ''PC/SC reader list is oversized'')))), s1)
          else (case ps_list A context (Some (unat (fl_size asked))) s1 of
                  (answer, s2) \<Rightarrow> (conclude_listing A last_attempt (unat (fl_size asked)) answer, s2)))"

fun readers_loop ::
  "('x, 's) pcsc_service \<Rightarrow> 'x \<Rightarrow> nat \<Rightarrow> 's \<Rightarrow> reader_info list result option \<times> 's" where
  "readers_loop A context 0 s =
     (Some (Inl (local_error EC_internal (STR ''PC/SC reader discovery exhausted its attempts''))), s)"
| "readers_loop A context (Suc attempts) s =
     (case list_attempt A context (attempts = 0) s of
        (Conclude r, s1) \<Rightarrow> (r, s1)
      | (Retry, s1) \<Rightarrow> readers_loop A context attempts s1)"

definition max_list_attempts :: nat where
  "max_list_attempts = 2"

definition readers :: "('x, 's) pcsc_service \<Rightarrow> 'x \<Rightarrow> 's \<Rightarrow> reader_info list result option \<times> 's" where
  "readers A context = readers_loop A context max_list_attempts"

section \<open>Connections\<close>

text \<open>The members of \<^verbatim>\<open>class Connection\<close> that change or are read.\<close>

record connection =
  cn_card :: u64
  cn_protocol :: u32
  cn_generation :: u64

definition pcsc_provider :: "('x, 's) pcsc_service \<Rightarrow> 's \<Rightarrow> 'x result \<times> 's" where
  "pcsc_provider A s =
     (case ps_establish A s of
        ((status, context), s1) \<Rightarrow> (if status \<noteq> 0 then Inl (pcsc_failure A status) else Inr context, s1))"

definition pcsc_open :: "('x, 's) pcsc_service \<Rightarrow> 'x \<Rightarrow> string \<Rightarrow> 's \<Rightarrow> connection result \<times> 's" where
  "pcsc_open A context identifier s =
     (if identifier = [] \<or> nul \<in> set identifier
      then (Inl (invalid (STR ''A nonempty PC/SC reader identifier is required'')), s)
      else case ps_connect A context identifier s of
        ((status, opened, protocol), s1) \<Rightarrow>
          (if status \<noteq> 0 then Inl (pcsc_failure A status)
           else Inr \<lparr>cn_card = opened, cn_protocol = protocol, cn_generation = 1\<rparr>, s1))"

definition pcsc_close :: "('x, 's) pcsc_service \<Rightarrow> connection \<Rightarrow> 's \<Rightarrow> 's" where
  "pcsc_close A c = ps_disconnect A (cn_card c)"

definition pcsc_capabilities :: transport_capabilities where
  "pcsc_capabilities =
     \<lparr>cap_framing = Framing_iso7816, max_transmit = 261, max_receive = 65538, max_native_frame = 60,
      can_cancel = False, can_reset = True, hardware_timing = False\<rparr>"

text \<open>What follows a transmission; \<open>elapsed\<close> counts nanoseconds.\<close>

definition conclude_transmit ::
  "('x, 's) pcsc_service \<Rightarrow> exchange_options \<Rightarrow> byte filled \<Rightarrow> connection \<Rightarrow> int \<Rightarrow> bytes result \<times> connection" where
  "conclude_transmit A opts answer c elapsed =
     (if fl_status answer \<noteq> 0
      then let e = pcsc_error A (fl_status answer) OC_unknown
           in (Inl e, if err_code e = EC_card_removed then c\<lparr>cn_generation := cn_generation c + 1\<rparr> else c)
      else if elapsed > opt_timeout opts * 1000000
      then (Inl (unknown_error EC_timeout (STR ''PC/SC driver exceeded the exchange budget'')), c)
      else if unat (fl_size answer) > max_receive pcsc_capabilities
      then (Inl (unknown_error EC_malformed_response (STR ''PC/SC returned an oversized response'')), c)
      else (Inr (resized 0 (max_receive pcsc_capabilities) answer), c))"

definition pcsc_exchange ::
  "('x, 's) pcsc_service \<Rightarrow> (stop_token \<Rightarrow> 's \<Rightarrow> bool \<times> 's) \<Rightarrow> ('s \<Rightarrow> int \<times> 's) \<Rightarrow> bytes \<Rightarrow> exchange_options
     \<Rightarrow> connection \<times> 's \<Rightarrow> bytes result \<times> connection \<times> 's" where
  "pcsc_exchange A stop_requested now frame opts st =
     (case st of (c, s) \<Rightarrow>
        (case stop_requested (opt_stop opts) s of
           (stopped, s1) \<Rightarrow>
             if stopped then (Inl (local_error EC_cancelled (STR ''Cancelled before PC/SC transmission'')), c, s1)
             else if opt_timeout opts \<le> 0 \<or> length frame > max_transmit pcsc_capabilities
             then (Inl (invalid (STR ''PC/SC exchange exceeds configured limits'')), c, s1)
             else (case now s1 of
               (started, s2) \<Rightarrow>
                 (case ps_transmit A (cn_card c) (cn_protocol c) frame (max_receive pcsc_capabilities) s2 of
                    (answer, s3) \<Rightarrow>
                      if fl_status answer \<noteq> 0
                      then (case conclude_transmit A opts answer c 0 of (r, c1) \<Rightarrow> (r, c1, s3))
                      else (case now s3 of
                        (finished, s4) \<Rightarrow>
                          (case conclude_transmit A opts answer c (finished - started) of
                             (r, c1) \<Rightarrow> (r, c1, s4)))))))"

definition pcsc_reset :: "('x, 's) pcsc_service \<Rightarrow> connection \<times> 's \<Rightarrow> unit result \<times> connection \<times> 's" where
  "pcsc_reset A st =
     (case st of (c, s) \<Rightarrow>
        (let c1 = c\<lparr>cn_generation := cn_generation c + 1\<rparr>
         in case ps_reconnect A (cn_card c1) s of
              ((status, protocol), s1) \<Rightarrow>
                if status \<noteq> 0 then (Inl (pcsc_error A status OC_unknown), c1, s1)
                else (Inr (), c1\<lparr>cn_protocol := protocol\<rparr>, s1)))"

text \<open>The transport as an environment of the protocol core.\<close>

definition pcsc_environment ::
  "('x, 's) pcsc_service \<Rightarrow> (stop_token \<Rightarrow> 's \<Rightarrow> bool \<times> 's) \<Rightarrow> ('s \<Rightarrow> int \<times> 's)
     \<Rightarrow> (nat \<Rightarrow> 's \<Rightarrow> bytes result dep \<times> 's) \<Rightarrow> (connection \<times> 's) environment" where
  "pcsc_environment A stop_requested now random =
     \<lparr>env_capabilities = pcsc_capabilities,
      env_generation = (\<lambda>st. (cn_generation (fst st), st)),
      env_exchange = (\<lambda>frame opts st. case pcsc_exchange A stop_requested now frame opts st of
        (r, st1) \<Rightarrow> (Returned r, st1)),
      env_reset = (\<lambda>st. case pcsc_reset A st of (r, st1) \<Rightarrow> (Returned r, st1)),
      env_cancel = (\<lambda>st. st),
      env_now = (\<lambda>st. case now (snd st) of (t, s) \<Rightarrow> (t, (fst st, s))),
      env_stop_requested = (\<lambda>token st. case stop_requested token (snd st) of (b, s) \<Rightarrow> (b, (fst st, s))),
      env_random = (\<lambda>n st. case random n (snd st) of (r, s) \<Rightarrow> (r, (fst st, s)))\<rparr>"

end
