(* ===== verification/Pcsc_Contract.thy ===== *)
theory Pcsc_Contract
  imports Pcsc
begin

text \<open>
  The PC/SC transport against its contract: the list of reader names is read exactly, discovery ends
  after at most two attempts, and an exchange tells whether its frame may have been sent.
\<close>

declare decimal.simps [simp del]

section \<open>The list of readers\<close>

text \<open>A list of names as the service writes it: each name and its end, then only ends.\<close>

definition multi_string :: "string list \<Rightarrow> string" where
  "multi_string names = concat (map (\<lambda>n. n @ [nul]) names)"

definition well_named :: "string list \<Rightarrow> bool" where
  "well_named names \<longleftrightarrow> (\<forall>n\<in>set names. n \<noteq> [] \<and> nul \<notin> set n)"

definition info_of :: "string \<Rightarrow> reader_info" where
  "info_of n = \<lparr>ri_id = n, ri_name = n\<rparr>"

lemma multi_string_simps [simp]:
  "multi_string [] = []" "multi_string (n # ns) = n @ nul # multi_string ns"
  by (simp_all add: multi_string_def)

text \<open>What a string is, at any position, for the loop.\<close>

lemma name_split:
  assumes "takeWhile (\<lambda>c. c \<noteq> nul) s \<noteq> s"
  shows "s = takeWhile (\<lambda>c. c \<noteq> nul) s @ nul # drop (length (takeWhile (\<lambda>c. c \<noteq> nul) s) + 1) s"
proof -
  have d: "dropWhile (\<lambda>c. c \<noteq> nul) s \<noteq> []"
    using assms by (metis append_Nil2 takeWhile_dropWhile_id)
  then have "hd (dropWhile (\<lambda>c. c \<noteq> nul) s) = nul" using hd_dropWhile by blast
  then have "dropWhile (\<lambda>c. c \<noteq> nul) s = nul # tl (dropWhile (\<lambda>c. c \<noteq> nul) s)" using d by (metis list.collapse)
  moreover have "tl (dropWhile (\<lambda>c. c \<noteq> nul) s) = drop (length (takeWhile (\<lambda>c. c \<noteq> nul) s) + 1) s"
    by (simp add: dropWhile_eq_drop drop_Suc tl_drop)
  ultimately show ?thesis by (metis takeWhile_dropWhile_id)
qed

lemma reader_loop_result:
  "offset \<le> length s \<Longrightarrow>
     (\<exists>names rest. drop offset s = multi_string names @ rest \<and> well_named names \<and> (rest \<noteq> [] \<longrightarrow> hd rest = nul) \<and>
        reader_loop s offset infos = Some (Inr (infos @ map info_of names, length s - length rest))) \<or>
     (\<exists>names name e. drop offset s = multi_string names @ name \<and> well_named names \<and> name \<noteq> [] \<and> nul \<notin> set name \<and>
        reader_loop s offset infos = Some (Inl e))"
proof (induction "length s - offset" arbitrary: offset infos rule: less_induct)
  case less
  show ?case
  proof (cases "offset < length s \<and> s ! offset \<noteq> nul")
    case False
    then have "reader_loop s offset infos = Some (Inr (infos, offset))" by (subst reader_loop.simps) auto
    moreover have "drop offset s = [] \<or> hd (drop offset s) = nul" 
      using False less.prems by (cases "offset = length s") (auto simp: hd_drop_conv_nth)
    ultimately show ?thesis
      using less.prems by (intro disjI1 exI [of _ "[]"] exI [of _ "drop offset s"]) (auto simp: well_named_def)
  next
    case True
    define s1 where "s1 = drop offset s"
    define name where "name = takeWhile (\<lambda>c. c \<noteq> nul) s1"
    have named: "name \<noteq> []" "nul \<notin> set name"
      using True by (auto simp: name_def s1_def takeWhile_eq_Nil_iff hd_drop_conv_nth dest: set_takeWhileD)
    show ?thesis
    proof (cases "offset + length name = length s")
      case end_: True
      then have "name = s1" using takeWhile_eq_take [of "\<lambda>c. c \<noteq> nul" s1] by (simp add: name_def s1_def)
      moreover have "\<exists>e. reader_loop s offset infos = Some (Inl e)"
        using True end_ by (subst reader_loop.simps) (simp add: name_def s1_def)
      ultimately show ?thesis
        using named by (intro disjI2 exI [of _ "[]"] exI [of _ name]) (auto simp: well_named_def s1_def)
    next
      case False
      then have "name \<noteq> s1" using less.prems by (auto simp: s1_def)
      define rest1 where "rest1 = drop (offset + (length name + 1)) s"
      from name_split [OF \<open>name \<noteq> s1\<close> [unfolded name_def]] have at: "drop offset s = name @ nul # rest1"
        unfolding name_def [symmetric] by (simp add: s1_def rest1_def add.commute)
      have size: "offset + (length name + 1) \<le> length s"
        using arg_cong [OF at, of length] less.prems by simp
      have step: "reader_loop s offset infos = reader_loop s (offset + (length name + 1)) (infos @ [info_of name])"
        using True False by (subst reader_loop.simps) (simp add: Let_def info_of_def name_def s1_def)
      have smaller: "length s - (offset + (length name + 1)) < length s - offset" using True by arith
      from less.hyps [OF smaller size, of "infos @ [info_of name]"] show ?thesis
      proof (elim disjE exE conjE)
        fix names rest
        assume "drop (offset + (length name + 1)) s = multi_string names @ rest" "well_named names"
          "rest \<noteq> [] \<longrightarrow> hd rest = nul"
          "reader_loop s (offset + (length name + 1)) (infos @ [info_of name]) =
             Some (Inr ((infos @ [info_of name]) @ map info_of names, length s - length rest))"
        with at step named show ?thesis
          by (intro disjI1 exI [of _ "name # names"] exI [of _ rest]) (simp add: well_named_def rest1_def)
      next
        fix names name' e
        assume "drop (offset + (length name + 1)) s = multi_string names @ name'" "well_named names" "name' \<noteq> []"
          "nul \<notin> set name'" "reader_loop s (offset + (length name + 1)) (infos @ [info_of name]) = Some (Inl e)"
        with at step named show ?thesis
          by (intro disjI2 exI [of _ "name # names"] exI [of _ name']) (simp add: well_named_def rest1_def)
      qed
    qed
  qed
qed

lemma hd_named: "n \<noteq> [] \<Longrightarrow> nul \<notin> set n \<Longrightarrow> hd n \<noteq> nul"
  by (metis hd_in_set)

text \<open>The decomposition of a list is unique.\<close>

lemma multi_string_unique:
  assumes "multi_string ns @ xs = multi_string ms @ ys" "well_named ns" "well_named ms"
    and "xs \<noteq> [] \<longrightarrow> hd xs = nul" "ys \<noteq> [] \<longrightarrow> hd ys = nul"
  shows "ns = ms \<and> xs = ys"
  using assms
proof (induction ns arbitrary: ms)
  case Nil
  then show ?case by (cases ms) (auto simp: well_named_def hd_append hd_named split: if_splits)
next
  case (Cons n ns)
  show ?case
  proof (cases ms)
    case Nil
    then show ?thesis using Cons.prems by (auto simp: well_named_def hd_append hd_named split: if_splits)
  next
    case (Cons m ms')
    with Cons.prems have eq: "n @ nul # (multi_string ns @ xs) = m @ nul # (multi_string ms' @ ys)" "nul \<notin> set n" "nul \<notin> set m"
      by (simp_all add: well_named_def)
    have "takeWhile (\<lambda>c. c \<noteq> nul) (n @ nul # a) = n" if "nul \<notin> set n" for n a :: string
      using that by (induction n) auto
    with eq have "n = m" by metis
    with eq Cons.IH [of ms'] Cons Cons.prems show ?thesis by (simp add: well_named_def)
  qed
qed

lemma last_multi_string: "ns \<noteq> [] \<Longrightarrow> last (multi_string ns) = nul \<and> multi_string ns \<noteq> []"
proof (induction ns)
  case (Cons n ns)
  then show ?case by (cases "ns = []") simp_all
qed simp

lemma all_nul: "(\<forall>c\<in>set s. c = nul) \<longleftrightarrow> s = replicate (length s) nul"
  by (metis in_set_replicate replicate_eqI)

text \<open>A name without its end stands at the end of no list.\<close>

lemma unterminated:
  assumes "multi_string ns @ name = multi_string ms @ replicate k nul" "well_named ns" "well_named ms"
    "name \<noteq> []" "nul \<notin> set name"
  shows False
proof -
  have "last (multi_string ms @ replicate k nul) = nul"
    using assms(1,4) last_multi_string [of ms] by (cases "k = 0"; cases "ms = []") auto
  moreover have "last (multi_string ns @ name) = last name" using assms(4) by simp
  ultimately have "last name = nul" using assms(1) by simp
  then show False using assms(4,5) last_in_set by metis
qed

lemma parse_readers_result:
  assumes "s \<noteq> []"
  shows "\<exists>r. parse_readers s = Some r \<and>
    (\<forall>infos. r = Inr infos \<longleftrightarrow> (\<exists>ns k. well_named ns \<and> s = multi_string ns @ replicate k nul \<and> infos = map info_of ns))"
proof (cases "last s = nul")
  case False
  have "last s = nul" if "s = multi_string ns @ replicate k nul" for ns k
    using that assms last_multi_string [of ns] by (cases "k = 0"; cases "ns = []") auto
  with False show ?thesis by (auto simp: parse_readers_def)
next
  case True
  from reader_loop_result [OF le0, of s "[]"] show ?thesis
  proof (elim disjE exE conjE)
    fix names rest
    assume s: "drop 0 s = multi_string names @ rest" "well_named names" "rest \<noteq> [] \<longrightarrow> hd rest = nul"
      and loop: "reader_loop s 0 [] = Some (Inr ([] @ map info_of names, length s - length rest))"
    have rest: "drop (length s - length rest) s = rest" using s(1) by simp
    have only: "names = ns \<and> rest = replicate k nul" if "well_named ns" "s = multi_string ns @ replicate k nul" for ns k
      using multi_string_unique [of names rest ns "replicate k nul"] s that by (cases k) auto
    show ?thesis
    proof (cases "\<forall>c\<in>set rest. c = nul")
      case True
      then have "parse_readers s = Some (Inr (map info_of names))"
        using loop rest \<open>last s = nul\<close> by (simp add: parse_readers_def)
      moreover have "s = multi_string names @ replicate (length rest) nul" using s(1) True all_nul [of rest] by simp
      ultimately show ?thesis using only s(2) by blast
    next
      case False
      then have "\<exists>e. parse_readers s = Some (Inl e)" using loop rest True by (simp add: parse_readers_def)
      moreover have "s \<noteq> multi_string ns @ replicate k nul" if "well_named ns" for ns k
        using only [OF that, of k] False by auto
      ultimately show ?thesis by auto
    qed
  next
    fix names name e
    assume s: "drop 0 s = multi_string names @ name" "well_named names" "name \<noteq> []" "nul \<notin> set name"
      and loop: "reader_loop s 0 [] = Some (Inl e)"
    have "s \<noteq> multi_string ns @ replicate k nul" if "well_named ns" for ns k
      using unterminated [of names name ns k] s that by auto
    then show ?thesis using loop True by (auto simp: parse_readers_def)
  qed
qed

text \<open>The answer that is parsed is never empty.\<close>

lemma resized_length: "length (resized zero n answer) = min (unat (fl_size answer)) n"
  by (simp add: resized_def)

text \<open>Discovery returns, after at most two calls of the service in each of at most two attempts.\<close>

definition counted :: "('x, 's) pcsc_service \<Rightarrow> ('x, 's \<times> nat) pcsc_service" where
  "counted A =
     \<lparr>ps_no_smartcard = ps_no_smartcard A, ps_removed_card = ps_removed_card A, ps_reset_card = ps_reset_card A,
      ps_timed_out = ps_timed_out A, ps_cancelled = ps_cancelled A, ps_no_readers = ps_no_readers A,
      ps_small_buffer = ps_small_buffer A,
      ps_establish = (\<lambda>(s, n). case ps_establish A s of (r, s1) \<Rightarrow> (r, (s1, n))),
      ps_list = (\<lambda>x capacity (s, n). case ps_list A x capacity s of (r, s1) \<Rightarrow> (r, (s1, n + 1))),
      ps_connect = (\<lambda>x name (s, n). case ps_connect A x name s of (r, s1) \<Rightarrow> (r, (s1, n))),
      ps_disconnect = (\<lambda>c (s, n). (ps_disconnect A c s, n)),
      ps_transmit = (\<lambda>c p frame capacity (s, n). case ps_transmit A c p frame capacity s of (r, s1) \<Rightarrow> (r, (s1, n))),
      ps_reconnect = (\<lambda>c (s, n). case ps_reconnect A c s of (r, s1) \<Rightarrow> (r, (s1, n)))\<rparr>"

lemma attempt_total:
  assumes "list_attempt A ctx final s = (Conclude r, s')"
  shows "\<exists>x. r = Some x"
proof -
  have parse: "\<exists>x. parse_readers (resized nul n answer) = Some x" if "fl_size answer \<noteq> 0" "unat (fl_size answer) \<le> n" for n answer
  proof -
    have "0 < unat (fl_size answer)" using that(1) by (simp add: unat_gt_0)
    then have "resized nul n answer \<noteq> []" using that resized_length [of nul n answer] by auto
    from parse_readers_result [OF this] show ?thesis by blast
  qed
  show ?thesis
    using assms parse
    by (auto simp: list_attempt_def conclude_listing_def Let_def split: prod.splits if_splits)
qed

lemma attempt_retries: "list_attempt A ctx True s \<noteq> (Retry, s')"
  by (auto simp: list_attempt_def conclude_listing_def Let_def split: prod.splits if_splits)

lemma attempt_calls:
  "list_attempt (counted A) ctx final (s, n) = (r, (s', n')) \<Longrightarrow> n' \<le> n + 2"
  by (auto simp: list_attempt_def counted_def split: prod.splits if_splits)

lemma readers_loop_total: "\<exists>x. fst (readers_loop A ctx k s) = Some x"
  by (induction k arbitrary: s) (auto split: prod.splits attempt.splits dest: attempt_total)

lemma readers_loop_calls: "readers_loop (counted A) ctx k (s, n) = (r, (s', n')) \<Longrightarrow> n' \<le> n + 2 * k"
proof (induction k arbitrary: s n)
  case (Suc k)
  obtain x s1 n1 where x: "list_attempt (counted A) ctx (k = 0) (s, n) = (x, (s1, n1))" by (metis surj_pair)
  then show ?case
    using Suc.prems Suc.IH [of s1 n1] attempt_calls [OF x] by (cases x) auto
qed simp

section \<open>An example\<close>

text \<open>A service whose reader has lost its card.\<close>

definition removed_service :: "(unit, unit) pcsc_service" where
  "removed_service =
     \<lparr>ps_no_smartcard = 1, ps_removed_card = 2, ps_reset_card = 3, ps_timed_out = 4, ps_cancelled = 5,
      ps_no_readers = 6, ps_small_buffer = 7, ps_establish = (\<lambda>s. ((0, ()), s)),
      ps_list = (\<lambda>_ _ s. (\<lparr>fl_status = 6, fl_written = [], fl_size = 0\<rparr>, s)),
      ps_connect = (\<lambda>_ _ s. ((0, 7, 2), s)), ps_disconnect = (\<lambda>_ s. s),
      ps_transmit = (\<lambda>_ _ _ _ s. (\<lparr>fl_status = 2, fl_written = [], fl_size = 0\<rparr>, s)),
      ps_reconnect = (\<lambda>_ s. ((0, 2), s))\<rparr>"

definition demo_connection :: connection where
  "demo_connection = \<lparr>cn_card = 7, cn_protocol = 2, cn_generation = 1\<rparr>"

lemma removed_code: "err_code (pcsc_error removed_service 2 oc) = EC_card_removed"
  by (simp add: pcsc_error_def pcsc_category_def removed_service_def)

lemma removed_exchange:
  "pcsc_exchange removed_service (\<lambda>_ s. (False, s)) (\<lambda>s. (0, s)) [0x90] \<lparr>opt_timeout = 5, opt_stop = 0\<rparr>
     (demo_connection, ()) =
   (Inl (pcsc_error removed_service 2 OC_unknown), (demo_connection\<lparr>cn_generation := 2\<rparr>, ()))"
proof -
  have transmit: "ps_transmit removed_service x p f n s = (\<lparr>fl_status = 2, fl_written = [], fl_size = 0\<rparr>, s)"
    for x p f n s
    by (simp add: removed_service_def)
  have concluded: "conclude_transmit removed_service opts \<lparr>fl_status = 2, fl_written = [], fl_size = 0\<rparr> demo_connection 0 =
      (Inl (pcsc_error removed_service 2 OC_unknown), demo_connection\<lparr>cn_generation := 2\<rparr>)" for opts
    by (simp add: conclude_transmit_def removed_code demo_connection_def)
  show ?thesis
    by (simp add: pcsc_exchange_def transmit concluded) (simp add: pcsc_capabilities_def)
qed

section \<open>Properties\<close>

text \<open>
  C39. Reader discovery ends. Whatever the PC/SC service answers, and however long its list of names
  is, the discovery returns a list or an error, after at most four calls for the list.
\<close>

theorem reader_discovery_ends:
  "\<exists>x s' n'. readers (counted A) ctx (s, n) = (Some x, (s', n')) \<and> n' \<le> n + 4"
proof -
  obtain r s' n' where run: "readers_loop (counted A) ctx 2 (s, n) = (r, (s', n'))" by (metis surj_pair)
  with readers_loop_total [of "counted A" ctx 2 "(s, n)"] readers_loop_calls [OF run] show ?thesis
    by (auto simp: readers_def max_list_attempts_def)
qed

text \<open>
  The reader list is read exactly. A nonempty answer of the service is accepted if and only if it
  consists of nonempty names without NUL, each followed by a NUL, and then of nothing but NULs; the
  readers are then these names in their order. The parser returns on every input.
\<close>

theorem parse_readers_exact:
  assumes "s \<noteq> []"
  shows "\<exists>r. parse_readers s = Some r \<and>
    (\<forall>infos. r = Inr infos \<longleftrightarrow>
       (\<exists>names k. (\<forall>n\<in>set names. n \<noteq> [] \<and> nul \<notin> set n) \<and>
          s = concat (map (\<lambda>n. n @ [nul]) names) @ replicate k nul \<and>
          infos = map (\<lambda>n. \<lparr>ri_id = n, ri_name = n\<rparr>) names))"
  using parse_readers_result [OF assms] by (simp add: well_named_def multi_string_def info_of_def [abs_def])

theorem parse_readers_exact_witness:
  "parse_readers [CHR ''A'', nul, CHR ''B'', CHR ''C'', nul, nul] =
     Some (Inr [\<lparr>ri_id = ''A'', ri_name = ''A''\<rparr>, \<lparr>ri_id = ''BC'', ri_name = ''BC''\<rparr>])"
proof -
  let ?s = "[CHR ''A'', nul, CHR ''B'', CHR ''C'', nul, nul]"
  let ?infos = "[\<lparr>ri_id = ''A'', ri_name = ''A''\<rparr>, \<lparr>ri_id = ''BC'', ri_name = ''BC''\<rparr>]"
  have list: "\<exists>names k. (\<forall>n\<in>set names. n \<noteq> [] \<and> nul \<notin> set n) \<and>
      ?s = concat (map (\<lambda>n. n @ [nul]) names) @ replicate k nul \<and>
      ?infos = map (\<lambda>n. \<lparr>ri_id = n, ri_name = n\<rparr>) names"
    by (rule exI [of _ "[''A'', ''BC'']"], rule exI [of _ "Suc 0"]) simp
  from parse_readers_exact [of ?s, OF list.distinct(2)] show ?thesis
  proof (elim exE conjE)
    fix r
    assume r: "parse_readers ?s = Some r" and exact: "\<forall>infos. r = Inr infos \<longleftrightarrow>
       (\<exists>names k. (\<forall>n\<in>set names. n \<noteq> [] \<and> nul \<notin> set n) \<and>
          ?s = concat (map (\<lambda>n. n @ [nul]) names) @ replicate k nul \<and>
          infos = map (\<lambda>n. \<lparr>ri_id = n, ri_name = n\<rparr>) names)"
    from iffD2 [OF spec [OF exact, of ?infos] list] r show ?thesis by (rule subst)
  qed
qed

text \<open>
  C40. The evidence of a PC/SC exchange. An error that says not sent means that the service was never
  asked to transmit: nothing but the query of the stop token happened. Every other error leaves the
  outcome open, and the connection's generation advances exactly when the card was removed or reset.
  A response needs a positive timeout and a frame of at most 261 bytes, and has at most 65538 bytes.
\<close>

theorem pcsc_exchange_contract:
  assumes "pcsc_exchange A stop_requested now frame opts (c, s) = (r, c', s')"
  shows "case r of
      Inr d \<Rightarrow> 0 < opt_timeout opts \<and> length frame \<le> 261 \<and> length d \<le> 65538 \<and> c' = c
    | Inl e \<Rightarrow>
        err_outcome e = OC_not_sent \<and> c' = c \<and> s' = snd (stop_requested (opt_stop opts) s) \<or>
        err_outcome e = OC_unknown \<and> cn_card c' = cn_card c \<and> cn_protocol c' = cn_protocol c \<and>
          cn_generation c' = cn_generation c + (if err_code e = EC_card_removed then 1 else 0)"
  using assms
  by (auto simp: pcsc_exchange_def conclude_transmit_def pcsc_error_def pcsc_capabilities_def resized_length Let_def
      split: prod.splits if_splits)

theorem pcsc_exchange_contract_witness:
  "\<exists>e c' s'. pcsc_exchange removed_service (\<lambda>_ s. (False, s)) (\<lambda>s. (0, s)) [0x90] \<lparr>opt_timeout = 5, opt_stop = 0\<rparr>
       (demo_connection, ()) = (Inl e, (c', s')) \<and> err_outcome e = OC_unknown \<and> cn_generation c' = 2"
proof -
  have "err_outcome (pcsc_error removed_service 2 OC_unknown) = OC_unknown"
    "cn_generation (demo_connection\<lparr>cn_generation := 2\<rparr>) = 2"
    using pcsc_exchange_contract [OF removed_exchange] by (simp_all add: removed_code demo_connection_def)
  with removed_exchange show ?thesis by blast
qed

end
