(* ===== verification/Cpp_Values.thy ===== *)
theory Cpp_Values
  imports C_Runtime
begin

text \<open>
  The values of the C++17 facade (\<^verbatim>\<open>sdk/cpp17/include/desfire/cpp17/result.hpp\<close>,
  \<^verbatim>\<open>types.hpp\<close>, \<^verbatim>\<open>throwing.hpp\<close>): error evidence copied from the C interface, results,
  range-checked identifiers, timeouts and borrowed byte strings. An enumeration of the facade is a
  scoped enumeration over \<^verbatim>\<open>std::uint32_t\<close> whose enumerators are the numbers of the C
  interface; it is modelled as that number, so a cast is the identity.
\<close>

section \<open>Errors and results\<close>

record cpp_error =
  xe_code :: u32
  xe_outcome :: u32
  xe_status :: u16
  xe_message :: string

type_synonym 'a cpp_result = "cpp_error + 'a"

text \<open>\<^verbatim>\<open>Error::from_native\<close>: the message is the text before the NUL.\<close>

definition error_from_native :: "c_error \<Rightarrow> cpp_error" where
  "error_from_native native =
     \<lparr>xe_code = ce_code native, xe_outcome = ce_outcome native, xe_status = ce_status native,
      xe_message = ce_message native\<rparr>"

definition cpp_invalid_argument :: "string \<Rightarrow> cpp_error" where
  "cpp_invalid_argument message =
     \<lparr>xe_code = error_number EC_invalid_argument, xe_outcome = outcome_number OC_not_sent, xe_status = 0,
      xe_message = message\<rparr>"

definition native_error :: "i32 \<Rightarrow> c_error \<Rightarrow> cpp_error" where
  "native_error status native =
     (if ce_code native \<noteq> 0 then error_from_native native
      else \<lparr>xe_code = status, xe_outcome = outcome_number OC_not_sent, xe_status = 0,
            xe_message = ''C ABI returned failure without error evidence''\<rparr>)"

section \<open>The throwing adapter\<close>

text \<open>\<^verbatim>\<open>ErrorException\<close>: the text of \<^verbatim>\<open>std::runtime_error\<close> and the error itself.\<close>

record error_exception =
  ee_what :: string
  ee_error :: cpp_error

definition error_exception_of :: "cpp_error \<Rightarrow> error_exception" where
  "error_exception_of e = \<lparr>ee_what = xe_message e, ee_error = e\<rparr>"

datatype 'a thrown = Thrown error_exception | Value 'a

definition value_or_throw :: "'a cpp_result \<Rightarrow> 'a thrown" where
  "value_or_throw r = (case r of Inl e \<Rightarrow> Thrown (error_exception_of e) | Inr v \<Rightarrow> Value v)"

section \<open>Identifiers and settings\<close>

definition identifier_make :: "u32 \<Rightarrow> u32 \<Rightarrow> u32 \<Rightarrow> u32 cpp_result" where
  "identifier_make minimum maximum v =
     (if v < minimum \<or> v > maximum
      then Inl (cpp_invalid_argument ''identifier is outside its documented range'') else Inr v)"

definition cpp_application_id :: "u32 \<Rightarrow> u32 cpp_result" where
  "cpp_application_id = identifier_make 0 0xFFFFFF"

definition cpp_file_number :: "u32 \<Rightarrow> u32 cpp_result" where
  "cpp_file_number = identifier_make 0 31"

definition cpp_key_number :: "u32 \<Rightarrow> u32 cpp_result" where
  "cpp_key_number = identifier_make 0 63"

definition cpp_key_set_number :: "u32 \<Rightarrow> u32 cpp_result" where
  "cpp_key_set_number = identifier_make 0 15"

definition cpp_iso_file_id :: "u32 \<Rightarrow> u32 cpp_result" where
  "cpp_iso_file_id = identifier_make 0 0xFFFF"

definition cpp_offset :: "u32 \<Rightarrow> u32 cpp_result" where
  "cpp_offset = identifier_make 0 0xFFFFFF"

definition cpp_byte_count :: "u32 \<Rightarrow> u32 cpp_result" where
  "cpp_byte_count = identifier_make 0 0xFFFFFF"

definition cpp_key_version :: "u32 \<Rightarrow> u32 cpp_result" where
  "cpp_key_version = identifier_make 0 0xFF"

definition cpp_iso_record :: "u32 \<Rightarrow> u32 cpp_result" where
  "cpp_iso_record = identifier_make 0 0xFF"

definition access_rights_from_raw :: "u32 \<Rightarrow> u32 cpp_result" where
  "access_rights_from_raw v =
     (if v > 0xFFFF then Inl (cpp_invalid_argument ''access rights exceed sixteen bits'') else Inr v)"

definition key_settings_from_raw :: "u32 \<Rightarrow> u32 cpp_result" where
  "key_settings_from_raw v =
     (if v > 0xFF then Inl (cpp_invalid_argument ''key settings exceed one byte'') else Inr v)"

section \<open>Timeouts and bytes\<close>

text \<open>The count of a \<^verbatim>\<open>std::chrono::milliseconds\<close> is a signed 64-bit integer.\<close>

definition timeout_milliseconds :: "64 word \<Rightarrow> u32 cpp_result" where
  "timeout_milliseconds count =
     (if count \<le>s 0 \<or> count > 0xFFFFFFFF
      then Inl (cpp_invalid_argument ''timeout must fit a positive 32-bit millisecond value'')
      else Inr (ucast count))"

text \<open>\<^verbatim>\<open>byte_data(bytes)\<close> with \<^verbatim>\<open>bytes.size()\<close>, as the C interface takes them.\<close>

definition byte_data :: "bytes \<Rightarrow> c_bytes" where
  "byte_data bs = (if bs = [] then Null_bytes 0 else Bytes_at bs)"

lemma byte_data_view [simp]: "c_view (byte_data bs) = bs" "c_size (byte_data bs) = length bs"
  by (simp_all add: byte_data_def)

lemma byte_data_null [simp]: "is_null (byte_data bs) \<longleftrightarrow> bs = []"
  by (simp add: byte_data_def is_null_def)

lemma bytes_in_byte_data:
  "bytes_in (byte_data bs) =
     (if length bs > maximum_buffer then Inl (invalid (STR ''Invalid byte buffer'')) else Inr bs)"
  by (auto simp: bytes_in_def)

section \<open>Agreement with the C interface\<close>

text \<open>A result that the facade reports without a call: nothing was sent and no card answered.\<close>

definition local_failure :: "cpp_error \<Rightarrow> bool" where
  "local_failure e \<longleftrightarrow> xe_outcome e = outcome_number OC_not_sent \<and> xe_status e = 0"

lemma local_failure_invalid [simp]: "local_failure (cpp_invalid_argument m)"
  by (simp add: local_failure_def cpp_invalid_argument_def)

text \<open>What the facade admits as an identifier, the constructors of the core admit, and nothing else.\<close>

lemma identifier_make_iff: "identifier_make lo hi v = Inr w \<longleftrightarrow> w = v \<and> lo \<le> v \<and> v \<le> hi"
  by (auto simp: identifier_make_def not_less)

lemma identifiers_agree:
  "(\<exists>e. cpp_application_id v = Inl e) = (\<exists>e. application_id_make v = Inl e)"
  "(\<exists>e. cpp_file_number v = Inl e) = (\<exists>e. file_number_make v = Inl e)"
  "(\<exists>e. cpp_key_number v = Inl e) = (\<exists>e. key_number_make v = Inl e)"
  "(\<exists>e. cpp_offset v = Inl e) = (\<exists>e. offset_make v = Inl e)"
  "(\<exists>e. cpp_byte_count v = Inl e) = (\<exists>e. byte_count_make v = Inl e)"
  by (auto simp: cpp_application_id_def cpp_file_number_def cpp_key_number_def cpp_offset_def cpp_byte_count_def
      identifier_make_def application_id_make_def file_number_make_def key_number_make_def offset_make_def
      byte_count_make_def number_make_def split: if_splits)

text \<open>A timeout that is accepted is positive, and the core waits for exactly as long.\<close>

lemma uint_of_sint: "0 \<le> sint (w :: 64 word) \<Longrightarrow> uint w = sint w"
proof -
  assume nonneg: "0 \<le> sint w"
  have "sint w = uint w - 2 ^ 64 * of_bool (bit (uint w) 63)"
    using signed_take_bit_eq_take_bit_minus [of 63 "uint w"] unsigned_less [of w, where 'a = int]
    by (simp add: sint_uint take_bit_int_eq_self)
  moreover have "uint w < 2 ^ 64" using unsigned_less [of w, where 'a = int] by simp
  ultimately show "uint w = sint w" using nonneg by (cases "bit (uint w) 63") auto
qed

lemma timeout_accepted:
  "timeout_milliseconds count = Inr t \<longleftrightarrow> 0 < sint count \<and> sint count < 2 ^ 32 \<and> t = ucast count"
proof (cases "0 \<le> sint count")
  case True
  then have "count > 0xFFFFFFFF \<longleftrightarrow> \<not> sint count < 2 ^ 32"
    by (auto simp: word_less_def uint_of_sint)
  then show ?thesis by (auto simp: timeout_milliseconds_def word_sle_eq)
qed (auto simp: timeout_milliseconds_def word_sle_eq)

lemma timeout_exact:
  assumes "timeout_milliseconds count = Inr t"
  shows "t \<noteq> 0" "int (unat t) = sint count"
proof -
  have s: "0 < sint count" "sint count < 2 ^ 32" "t = ucast count"
    using assms by (simp_all add: timeout_accepted)
  have "uint t = take_bit 32 (uint count)" unfolding s(3) by (simp add: unsigned_ucast_eq)
  also have "\<dots> = sint count" using s(1,2) by (simp add: uint_of_sint take_bit_int_eq_self)
  finally show n: "int (unat t) = sint count" by simp
  then show "t \<noteq> 0" using s(1) by auto
qed

end
