(* ===== verification/Cpp_Keys.thy ===== *)
theory Cpp_Keys
  imports Cpp_Values C_Adapters
begin

text \<open>
  Keys of the C++17 facade (\<^verbatim>\<open>sdk/cpp17/include/desfire/cpp17/key_provider.hpp\<close>): the move-only
  \<^verbatim>\<open>Aes128Key\<close>, key requests with their validation, and the adapter that lets a C++ provider
  answer the key-provider callback of the C interface. The enumerators of purposes, profiles and scopes
  are the numbers of the C interface. A provider, a deriver and a cancellation check are functions over
  the state of the host; they are \<^verbatim>\<open>noexcept\<close> and return.
\<close>

section \<open>Keys\<close>

record aes_key =
  ak_bytes :: bytes
  ak_valid :: bool

definition aes_key_empty :: aes_key where
  "aes_key_empty = \<lparr>ak_bytes = replicate 16 0, ak_valid = False\<rparr>"

definition aes_key_wipe :: "aes_key \<Rightarrow> aes_key" where
  "aes_key_wipe key = \<lparr>ak_bytes = map (\<lambda>_. 0) (ak_bytes key), ak_valid = False\<rparr>"

text \<open>The new object and the one moved from.\<close>

definition aes_key_move :: "aes_key \<Rightarrow> aes_key \<times> aes_key" where
  "aes_key_move other = (\<lparr>ak_bytes = ak_bytes other, ak_valid = ak_valid other\<rparr>, aes_key_wipe other)"

text \<open>Assignment between two different objects; the destination wipes itself first.\<close>

definition aes_key_assign :: "aes_key \<Rightarrow> aes_key \<Rightarrow> aes_key \<times> aes_key" where
  "aes_key_assign self other =
     ((aes_key_wipe self)\<lparr>ak_bytes := ak_bytes other, ak_valid := ak_valid other\<rparr>, aes_key_wipe other)"

definition aes_key_import :: "bytes \<Rightarrow> aes_key cpp_result" where
  "aes_key_import bs =
     (if length bs \<noteq> 16
      then Inl (cpp_invalid_argument ''AES-128 keys must contain exactly sixteen bytes'')
      else let key = aes_key_empty\<lparr>ak_bytes := bs, ak_valid := True\<rparr> in Inr (fst (aes_key_move key)))"

definition aes_key_data :: "aes_key \<Rightarrow> bytes option" where
  "aes_key_data key = (if ak_valid key then Some (ak_bytes key) else None)"

definition aes_key_size :: "aes_key \<Rightarrow> nat" where
  "aes_key_size key = (if ak_valid key then length (ak_bytes key) else 0)"

text \<open>\<^verbatim>\<open>key.data(), key.size()\<close> as an argument of the C interface.\<close>

definition aes_key_argument :: "aes_key \<Rightarrow> c_bytes" where
  "aes_key_argument key =
     (case aes_key_data key of None \<Rightarrow> Null_bytes (aes_key_size key) | Some bs \<Rightarrow> Bytes_at bs)"

text \<open>A key object always has its sixteen bytes, zero unless it is valid.\<close>

definition aes_key_ok :: "aes_key \<Rightarrow> bool" where
  "aes_key_ok key \<longleftrightarrow> length (ak_bytes key) = 16 \<and> (\<not> ak_valid key \<longrightarrow> ak_bytes key = replicate 16 0)"

lemma aes_key_operations_ok:
  "aes_key_ok aes_key_empty"
  "aes_key_ok key \<Longrightarrow> aes_key_ok (aes_key_wipe key)"
  "aes_key_ok key \<Longrightarrow> aes_key_ok (fst (aes_key_move key)) \<and> aes_key_ok (snd (aes_key_move key))"
  "aes_key_ok self \<Longrightarrow> aes_key_ok other \<Longrightarrow>
     aes_key_ok (fst (aes_key_assign self other)) \<and> aes_key_ok (snd (aes_key_assign self other))"
  "aes_key_import bs = Inr key \<Longrightarrow> aes_key_ok key"
  by (auto simp: aes_key_ok_def aes_key_empty_def aes_key_wipe_def aes_key_move_def aes_key_assign_def
      aes_key_import_def map_replicate_const split: if_splits)

text \<open>Ownership moves: the source is empty afterwards and none of its bytes are left in it.\<close>

lemma aes_key_moved:
  assumes "aes_key_ok other"
  shows "snd (aes_key_move other) = aes_key_empty" "snd (aes_key_assign self other) = aes_key_empty"
    "fst (aes_key_move other) = other" "fst (aes_key_assign self other) = other"
  using assms by (simp_all add: aes_key_ok_def aes_key_move_def aes_key_assign_def aes_key_wipe_def
      aes_key_empty_def map_replicate_const)

lemma aes_key_argument_valid [simp]:
  "ak_valid key \<Longrightarrow> aes_key_argument key = Bytes_at (ak_bytes key)"
  by (simp add: aes_key_argument_def aes_key_data_def)

section \<open>Requests\<close>

text \<open>\<^verbatim>\<open>CancellationToken\<close>: its check with the context it is called on.\<close>

type_synonym 'h cancellation_token = "('h \<Rightarrow> bool \<times> 'h) option"

definition stop_requested :: "'h cancellation_token \<Rightarrow> 'h \<Rightarrow> bool \<times> 'h" where
  "stop_requested token h = (case token of None \<Rightarrow> (False, h) | Some check \<Rightarrow> check h)"

text \<open>\<^verbatim>\<open>Aes128DerivationContext\<close>.\<close>

record cpp_context =
  xd_purpose :: u32
  xd_key_number :: u32
  xd_application :: "u32 option"
  xd_key_set :: "u32 option"
  xd_diversification :: bytes
  xd_user_context :: bytes

text \<open>\<^verbatim>\<open>KeyRequest\<close>.\<close>

record 'h cpp_key_request =
  xr_reference :: bytes
  xr_context :: cpp_context
  xr_profile :: "u32 option"
  xr_scope :: u32
  xr_cancellation :: "'h cancellation_token"

text \<open>\<^verbatim>\<open>Aes128KeyDeriver::derive\<close> and \<^verbatim>\<open>Aes128KeyProvider::resolve\<close>.\<close>

type_synonym 'h cpp_deriver = "aes_key \<Rightarrow> cpp_context \<Rightarrow> 'h \<Rightarrow> aes_key cpp_result \<times> 'h"
type_synonym 'h cpp_provider = "'h cpp_key_request \<Rightarrow> 'h \<Rightarrow> aes_key cpp_result \<times> 'h"

definition validate_key_request :: "'h cpp_key_request \<Rightarrow> unit cpp_result" where
  "validate_key_request request =
     (let diversification_size = length (xd_diversification (xr_context request));
          user_size = length (xd_user_context (xr_context request));
          purpose = xd_purpose (xr_context request)
      in if xr_reference request = [] \<or> length (xr_reference request) > 1024
         then Inl (cpp_invalid_argument ''key reference must contain one through 1024 bytes'')
         else if diversification_size > 65536 \<or> user_size > 65536 \<or> diversification_size > 65536 - user_size
         then Inl (cpp_invalid_argument ''diversification input and user context exceed the 64-KiB bound'')
         else if purpose > purpose_number purpose_offline_operation
         then Inl (cpp_invalid_argument ''key request purpose is outside the documented range'')
         else if purpose = purpose_number purpose_authentication \<and> xr_profile request = None
         then Inl (cpp_invalid_argument ''authentication key requests require an auth profile'')
         else if purpose \<noteq> purpose_number purpose_authentication \<and> xr_profile request \<noteq> None
         then Inl (cpp_invalid_argument ''non-authentication key requests must omit the authentication profile'')
         else Inr ())"

section \<open>The provider callback\<close>

definition key_cancelled :: "'h cancellation_token option \<Rightarrow> 'h \<Rightarrow> u32 \<times> 'h" where
  "key_cancelled context h =
     (case context of
        None \<Rightarrow> (0, h)
      | Some token \<Rightarrow> (case stop_requested token h of (stop, h1) \<Rightarrow> (if stop then 1 else 0, h1)))"

text \<open>
  \<^verbatim>\<open>write_native_error\<close>. The characters are copied as they are, so the text that C sees ends at the
  first NUL among them.
\<close>

definition write_native_error :: "cpp_error \<Rightarrow> c_error option \<Rightarrow> c_error option" where
  "write_native_error source destination =
     map_option (\<lambda>_.
       \<lparr>ce_code = xe_code source, ce_outcome = xe_outcome source, ce_status = xe_status source,
        ce_message = takeWhile (\<lambda>c. c \<noteq> CHR 0x00) (take (message_capacity - 1) (xe_message source))\<rparr>) destination"

text \<open>
  \<^verbatim>\<open>resolve_key\<close>: the callback's context is the pair of provider and request; \<open>has_key\<close> and
  \<open>has_written\<close> tell whether the two output pointers are not null. The answer is the status with what
  was written to them, and the caller's evidence.
\<close>

definition resolve_key ::
  "('h cpp_provider \<times> 'h cpp_key_request) option \<Rightarrow> bool \<Rightarrow> nat \<Rightarrow> bool \<Rightarrow> c_error option \<Rightarrow> 'h
     \<Rightarrow> (key_answer \<times> c_error option) \<times> 'h" where
  "resolve_key context has_key capacity has_written err h =
     (let refused = (\<lambda>failure h1.
            ((\<lparr>kx_status = xe_code failure, kx_key = [], kx_written = 0\<rparr>, write_native_error failure err), h1))
      in case context of
           None \<Rightarrow> refused (cpp_invalid_argument ''invalid AES provider callback storage'') h
         | Some (provider, request) \<Rightarrow>
             if \<not> has_key \<or> \<not> has_written \<or> capacity \<noteq> 16
             then refused (cpp_invalid_argument ''invalid AES provider callback storage'') h
             else (case provider request h of
                (Inl e, h1) \<Rightarrow> refused e h1
              | (Inr key, h1) \<Rightarrow>
                  if \<not> ak_valid key
                  then refused \<lparr>xe_code = error_number EC_crypto, xe_outcome = outcome_number OC_not_sent,
                                xe_status = 0, xe_message = ''AES provider returned an invalid key''\<rparr> h1
                  else ((\<lparr>kx_status = 0, kx_key = take 16 (ak_bytes key), kx_written = 16\<rparr>, err), h1)))"

text \<open>
  \<^verbatim>\<open>ProviderCall\<close>: the two descriptors that borrow the C++ objects during one call. The C
  interface passes storage for the key, its count and the error, and does not read the error.
\<close>

definition provider_descriptor :: "'h cpp_provider \<Rightarrow> 'h cpp_key_request \<Rightarrow> 'h c_key_provider" where
  "provider_descriptor provider request =
     \<lparr>kp_struct_size = sizeof_key_provider, kp_abi_version = df_abi_version,
      kp_resolve = Some (\<lambda>_ capacity err h.
        case resolve_key (Some (provider, request)) True capacity True (Some err) h of
          ((answer, _), h1) \<Rightarrow> (Returned answer, h1)),
      kp_retain = None, kp_release = None, kp_reserved = replicate 8 0\<rparr>"

definition request_descriptor :: "'h cpp_key_request \<Rightarrow> 'h c_key_request" where
  "request_descriptor request =
     \<lparr>cq_struct_size = sizeof_key_request, cq_abi_version = df_abi_version,
      cq_purpose = xd_purpose (xr_context request),
      cq_profile = (case xr_profile request of None \<Rightarrow> option_absent | Some p \<Rightarrow> p),
      cq_scope = xr_scope request, cq_key_number = xd_key_number (xr_context request),
      cq_application_id = (case xd_application (xr_context request) of None \<Rightarrow> option_absent | Some a \<Rightarrow> a),
      cq_key_set = (case xd_key_set (xr_context request) of None \<Rightarrow> option_absent | Some k \<Rightarrow> k),
      cq_reference = byte_data (xr_reference request),
      cq_diversification = byte_data (xd_diversification (xr_context request)),
      cq_user_context = byte_data (xd_user_context (xr_context request)),
      cq_is_cancelled = Some (\<lambda>h. case key_cancelled (Some (xr_cancellation request)) h of
        (v, h1) \<Rightarrow> (Returned v, h1)),
      cq_reserved = replicate 8 0\<rparr>"

end
