(* ===== verification/Cpp_Buffers.thy ===== *)
theory Cpp_Buffers
  imports Cpp_Keys C_Raw C_Offline C_Managed
begin

text \<open>
  What the C++17 facade stands on (\<^verbatim>\<open>sdk/cpp17/include/desfire/cpp17/raw.hpp\<close>): the loaded C
  library together with the memory of the buffers it gives out, the sole owner \<^verbatim>\<open>raw::Buffer\<close>
  of such a buffer, and the shapes of the calls: every operation of the facade passes fresh error
  storage and fresh outputs to one function of the C interface, adopts the buffer it stored and turns the
  code and the evidence into a result. The memory keeps a record of faults (a pointer to no live
  buffer was read or freed) and of what each buffer held when its memory was given back; no definition
  reads either.
\<close>

section \<open>The library and its buffers\<close>

record 'h native =
  nv_library :: "'h c_library"
  nv_buffers :: "nat \<rightharpoonup> bytes"
  nv_next_buffer :: nat
  nv_fault :: bool
  nv_released :: "bytes list"

text \<open>\<^verbatim>\<open>*output = owned.release()\<close>: a buffer with a result leaves the library.\<close>

definition release_buffer :: "bytes \<Rightarrow> 'h native \<Rightarrow> nat \<times> 'h native" where
  "release_buffer bs N =
     (nv_next_buffer N,
      N\<lparr>nv_buffers := (nv_buffers N)(nv_next_buffer N \<mapsto> bs), nv_next_buffer := nv_next_buffer N + 1\<rparr>)"

text \<open>\<^verbatim>\<open>df_buffer_free\<close>: the bytes are wiped before the memory is given back.\<close>

definition df_buffer_free :: "nat option \<Rightarrow> 'h native \<Rightarrow> 'h native" where
  "df_buffer_free buffer N =
     (case buffer of
        None \<Rightarrow> N
      | Some a \<Rightarrow>
          (case nv_buffers N a of
             None \<Rightarrow> N\<lparr>nv_fault := True\<rparr>
           | Some bs \<Rightarrow> N\<lparr>nv_buffers := (nv_buffers N)(a := None), nv_released := nv_released N @ [wipe bs]\<rparr>))"

text \<open>A pointer is followed.\<close>

definition follow :: "nat option \<Rightarrow> 'h native \<Rightarrow> bytes option \<times> 'h native" where
  "follow buffer N =
     (case buffer of
        None \<Rightarrow> (None, N)
      | Some a \<Rightarrow> (nv_buffers N a, if nv_buffers N a = None then N\<lparr>nv_fault := True\<rparr> else N))"

definition on_library :: "('h c_library \<Rightarrow> 'a \<times> 'h c_library) \<Rightarrow> 'h native \<Rightarrow> 'a \<times> 'h native" where
  "on_library call N = (case call (nv_library N) of (r, L) \<Rightarrow> (r, N\<lparr>nv_library := L\<rparr>))"

section \<open>Buffers\<close>

text \<open>\<^verbatim>\<open>class Buffer\<close>: its member \<^verbatim>\<open>buffer_\<close>.\<close>

type_synonym cpp_buffer = "nat option"

definition buffer_default :: cpp_buffer where
  "buffer_default = None"

definition buffer_adopt :: "nat option \<Rightarrow> cpp_buffer" where
  "buffer_adopt buffer = buffer"

text \<open>The new object and the one moved from.\<close>

definition buffer_move :: "cpp_buffer \<Rightarrow> cpp_buffer \<times> cpp_buffer" where
  "buffer_move other = (other, None)"

definition buffer_reset :: "cpp_buffer \<Rightarrow> 'h native \<Rightarrow> cpp_buffer \<times> 'h native" where
  "buffer_reset self N = (if self \<noteq> None then (None, df_buffer_free self N) else (self, N))"

text \<open>Assignment between two different objects: the destination and the one moved from.\<close>

definition buffer_assign :: "cpp_buffer \<Rightarrow> cpp_buffer \<Rightarrow> 'h native \<Rightarrow> cpp_buffer \<times> cpp_buffer \<times> 'h native" where
  "buffer_assign self other N = (case buffer_reset self N of (_, N1) \<Rightarrow> (other, None, N1))"

definition buffer_destroy :: "cpp_buffer \<Rightarrow> 'h native \<Rightarrow> 'h native" where
  "buffer_destroy self N = snd (buffer_reset self N)"

definition buffer_size :: "cpp_buffer \<Rightarrow> 'h native \<Rightarrow> nat \<times> 'h native" where
  "buffer_size self N = (case follow self N of (bytes, N1) \<Rightarrow> (df_buffer_size bytes, N1))"

definition buffer_data :: "cpp_buffer \<Rightarrow> 'h native \<Rightarrow> bytes option \<times> 'h native" where
  "buffer_data self N = (case follow self N of (bytes, N1) \<Rightarrow> (df_buffer_data bytes, N1))"

definition buffer_copy :: "cpp_buffer \<Rightarrow> 'h native \<Rightarrow> bytes \<times> 'h native" where
  "buffer_copy self N =
     (case buffer_size self N of
        (count, N1) \<Rightarrow>
          if count = 0 then ([], N1)
          else (case buffer_data self N1 of
                  (data, N2) \<Rightarrow> (take count (case data of None \<Rightarrow> [] | Some bs \<Rightarrow> bs), N2)))"

definition buffer_present :: "cpp_buffer \<Rightarrow> bool" where
  "buffer_present self \<longleftrightarrow> self \<noteq> None"

section \<open>The shapes of a call\<close>

type_synonym ('h, 'a) cpp_call = "'h native \<Rightarrow> 'a cpp_result \<times> 'h native"

text \<open>\<^verbatim>\<open>df_error error{}\<close> after a call.\<close>

definition error_storage :: "'a c_return \<Rightarrow> c_error" where
  "error_storage ret = (case ret_error ret of None \<Rightarrow> empty_c_error | Some e \<Rightarrow> e)"

definition wrap_void :: "('h, unit) c_function \<Rightarrow> ('h, unit) cpp_call" where
  "wrap_void call N =
     (case on_library call N of
        (ret, N1) \<Rightarrow>
          (if ret_code ret \<noteq> 0 then Inl (native_error (ret_code ret) (error_storage ret)) else Inr (), N1))"

text \<open>An output that is zero before the call.\<close>

definition stored :: "'a \<Rightarrow> 'a c_return \<Rightarrow> 'a" where
  "stored initial ret = (case ret_value ret of None \<Rightarrow> initial | Some v \<Rightarrow> v)"

definition wrap_scalar :: "'a \<Rightarrow> ('h, 'a) c_function \<Rightarrow> ('h, 'a) cpp_call" where
  "wrap_scalar initial call N =
     (case on_library call N of
        (ret, N1) \<Rightarrow>
          (if ret_code ret \<noteq> 0 then Inl (native_error (ret_code ret) (error_storage ret))
           else Inr (stored initial ret), N1))"

text \<open>The pointer \<^verbatim>\<open>df_buffer* buffer{}\<close> after a call that stores its bytes there.\<close>

definition stored_buffer :: "bytes option \<Rightarrow> 'h native \<Rightarrow> nat option \<times> 'h native" where
  "stored_buffer bytes N =
     (case bytes of
        None \<Rightarrow> (None, N)
      | Some bs \<Rightarrow> (case release_buffer bs N of (a, N1) \<Rightarrow> (Some a, N1)))"

text \<open>
  The end of a call with such a pointer: the local owner adopts it, is moved into a success, and is
  destroyed.
\<close>

definition adopt_and_report ::
  "i32 \<Rightarrow> c_error \<Rightarrow> nat option \<Rightarrow> (cpp_buffer \<Rightarrow> 'a) \<Rightarrow> ('h, 'a) cpp_call" where
  "adopt_and_report status err buffer build N =
     (let owned = buffer_adopt buffer
      in if status \<noteq> 0 then (Inl (native_error status err), buffer_destroy owned N)
         else (case buffer_move owned of
                 (moved, owned1) \<Rightarrow> (Inr (build moved), buffer_destroy owned1 N)))"

definition wrap_buffer :: "('h, bytes) c_function \<Rightarrow> ('h, cpp_buffer) cpp_call" where
  "wrap_buffer call N =
     (case on_library call N of
        (ret, N1) \<Rightarrow>
          (case stored_buffer (ret_value ret) N1 of
             (buffer, N2) \<Rightarrow> adopt_and_report (ret_code ret) (error_storage ret) buffer (\<lambda>b. b) N2))"

text \<open>\<^verbatim>\<open>AuthenticationInfo\<close> and the output it is copied from.\<close>

record cpp_authentication_info =
  xi_transaction_identifier :: bytes
  xi_picc_capabilities :: bytes
  xi_pcd_capabilities :: bytes

definition information_output :: authentication_output where
  "information_output =
     \<lparr>ao_struct_size = sizeof_authentication_info, ao_abi_version = df_abi_version,
      ao_transaction_identifier = replicate 4 0, ao_picc_capabilities = replicate 6 0,
      ao_pcd_capabilities = replicate 6 0, ao_reserved = replicate 8 0\<rparr>"

definition information_from_native :: "authentication_output \<Rightarrow> cpp_authentication_info" where
  "information_from_native native =
     \<lparr>xi_transaction_identifier = ao_transaction_identifier native,
      xi_picc_capabilities = ao_picc_capabilities native, xi_pcd_capabilities = ao_pcd_capabilities native\<rparr>"

definition wrap_information ::
  "('h c_library \<Rightarrow> unit c_return \<times> authentication_output option \<times> 'h c_library)
     \<Rightarrow> ('h, cpp_authentication_info) cpp_call" where
  "wrap_information call N =
     (case call (nv_library N) of
        (ret, out, L) \<Rightarrow>
          (if ret_code ret \<noteq> 0 then Inl (native_error (ret_code ret) (error_storage ret))
           else Inr (information_from_native (case out of None \<Rightarrow> information_output | Some i \<Rightarrow> i)),
           N\<lparr>nv_library := L\<rparr>))"

text \<open>\<^verbatim>\<open>NativeResponse\<close> and \<^verbatim>\<open>IsoResponse\<close>.\<close>

record native_response =
  xn_status :: u32
  xn_data :: cpp_buffer

record cpp_iso_response =
  xs_status :: u16
  xs_data :: cpp_buffer

definition wrap_status :: "(u32 \<Rightarrow> cpp_buffer \<Rightarrow> 'a) \<Rightarrow> ('h, u32 \<times> bytes) c_function \<Rightarrow> ('h, 'a) cpp_call" where
  "wrap_status build call N =
     (case on_library call N of
        (ret, N1) \<Rightarrow>
          (case stored_buffer (map_option snd (ret_value ret)) N1 of
             (buffer, N2) \<Rightarrow>
               adopt_and_report (ret_code ret) (error_storage ret) buffer
                 (build (case ret_value ret of None \<Rightarrow> 0 | Some v \<Rightarrow> fst v)) N2))"

definition native_response_of :: "u32 \<Rightarrow> cpp_buffer \<Rightarrow> native_response" where
  "native_response_of status data = \<lparr>xn_status = status, xn_data = data\<rparr>"

definition iso_response_of :: "u32 \<Rightarrow> cpp_buffer \<Rightarrow> cpp_iso_response" where
  "iso_response_of status data = \<lparr>xs_status = ucast status, xs_data = data\<rparr>"

definition delegated_info_output :: delegated_output where
  "delegated_info_output =
     \<lparr>do_struct_size = sizeof_delegated_info, do_abi_version = df_abi_version, do_slot_version = 0,
      do_quota_limit = 0, do_free_blocks = 0, do_application_id = 0, do_reserved = replicate 8 0\<rparr>"

text \<open>The storage a call starts with.\<close>

abbreviation fresh_error :: "c_error option" where
  "fresh_error \<equiv> Some empty_c_error"

abbreviation fresh_buffer :: buffer_slot where
  "fresh_buffer \<equiv> Slot None"

abbreviation fresh_information :: "authentication_output option" where
  "fresh_information \<equiv> Some information_output"

abbreviation fresh_delegated_info :: "delegated_output option" where
  "fresh_delegated_info \<equiv> Some delegated_info_output"

section \<open>Identity and handles\<close>

text \<open>
  The identity of the library that was loaded, and the one generated into the facade
  (\<^verbatim>\<open>sdk/generated/operation_manifest.generated.hpp\<close>).
\<close>

record library_identity =
  li_abi_version :: u32
  li_manifest :: "string option"

definition generated_abi_version :: u32 where
  "generated_abi_version = 1"

definition generated_manifest :: string where
  "generated_manifest = ''15bff2b3d371174e8b26350f95b2f6589149b50fab11652ec181961015416596''"

definition manifest_sha256 :: "library_identity \<Rightarrow> string" where
  "manifest_sha256 loaded = (case li_manifest loaded of None \<Rightarrow> [] | Some digest \<Rightarrow> digest)"

definition validate_native_identity :: "library_identity \<Rightarrow> unit cpp_result" where
  "validate_native_identity loaded =
     (if li_abi_version loaded \<noteq> generated_abi_version \<or> manifest_sha256 loaded \<noteq> generated_manifest
      then Inl \<lparr>xe_code = error_number EC_unsupported, xe_outcome = outcome_number OC_not_sent, xe_status = 0,
                xe_message = ''loaded C ABI identity does not match the C++17 facade''\<rparr>
      else Inr ())"

text \<open>\<^verbatim>\<open>raw::Card\<close> and \<^verbatim>\<open>raw::Channel\<close>: their member \<^verbatim>\<open>handle_\<close>.\<close>

type_synonym cpp_handle = u64

definition handle_move :: "cpp_handle \<Rightarrow> cpp_handle \<times> cpp_handle" where
  "handle_move other = (other, 0)"

text \<open>\<^verbatim>\<open>lifecycle(function, closing)\<close>: the result, the handle afterwards and the library.\<close>

definition lifecycle ::
  "(u64 \<Rightarrow> c_error option \<Rightarrow> ('h, unit) c_function) \<Rightarrow> bool \<Rightarrow> cpp_handle \<Rightarrow> 'h native
     \<Rightarrow> unit cpp_result \<times> cpp_handle \<times> 'h native" where
  "lifecycle function closing handle N =
     (case on_library (function handle fresh_error) N of
        (ret, N1) \<Rightarrow>
          if ret_code ret \<noteq> 0 then (Inl (native_error (ret_code ret) (error_storage ret)), handle, N1)
          else (Inr (), if closing then 0 else handle, N1))"

definition destroy_with :: "(u64 \<Rightarrow> c_error option \<Rightarrow> ('h, unit) c_function) \<Rightarrow> cpp_handle \<Rightarrow> 'h native \<Rightarrow> 'h native" where
  "destroy_with function handle N =
     (if handle \<noteq> 0 then snd (on_library (function handle fresh_error) N) else N)"

definition open_with ::
  "library_identity \<Rightarrow> (u64 option \<Rightarrow> c_error option \<Rightarrow> ('h, u64) c_function) \<Rightarrow> ('h, cpp_handle) cpp_call" where
  "open_with loaded function N =
     (case validate_native_identity loaded of
        Inl e \<Rightarrow> (Inl e, N)
      | Inr _ \<Rightarrow>
          (case on_library (function (Some 0) fresh_error) N of
             (ret, N1) \<Rightarrow>
               (if ret_code ret \<noteq> 0 then Inl (native_error (ret_code ret) (error_storage ret))
                else Inr (stored 0 ret), N1)))"

end
