(* ===== verification/Cpp_Raw.thy ===== *)
theory Cpp_Raw
  imports Cpp_Buffers
begin

text \<open>
  The raw classes of the C++17 facade (\<^verbatim>\<open>sdk/cpp17/include/desfire/cpp17/raw.hpp\<close>):
  \<^verbatim>\<open>raw::Card\<close> and \<^verbatim>\<open>raw::Channel\<close>, each the sole owner of a handle of the C interface.
  Every method is one call of the interface in the shape of its outputs; a pointer with its length is one
  argument.
\<close>

section \<open>Managed cards\<close>

definition raw_card_open ::
  "'h c_services \<Rightarrow> library_identity \<Rightarrow> 'h c_transport \<Rightarrow> ('h, cpp_handle) cpp_call" where
  "raw_card_open S loaded transport = open_with loaded (df_open S (Some transport))"

definition raw_card_destroy :: "cpp_handle \<Rightarrow> 'h native \<Rightarrow> 'h native" where
  "raw_card_destroy = destroy_with df_close"

definition raw_card_close :: "cpp_handle \<Rightarrow> 'h native \<Rightarrow> unit cpp_result \<times> cpp_handle \<times> 'h native" where
  "raw_card_close = lifecycle df_close True"

definition raw_card_reset ::
  "'h c_services \<Rightarrow> cpp_handle \<Rightarrow> 'h native \<Rightarrow> unit cpp_result \<times> cpp_handle \<times> 'h native" where
  "raw_card_reset S = lifecycle (df_reset S) False"

definition raw_card_cancel ::
  "'h c_services \<Rightarrow> cpp_handle \<Rightarrow> 'h native \<Rightarrow> unit cpp_result \<times> cpp_handle \<times> 'h native" where
  "raw_card_cancel S = lifecycle (df_cancel S) False"

definition raw_card_notify_state_change ::
  "cpp_handle \<Rightarrow> 'h native \<Rightarrow> unit cpp_result \<times> cpp_handle \<times> 'h native" where
  "raw_card_notify_state_change = lifecycle df_notify_state_change False"

definition raw_card_get_version ::
  "'h c_services \<Rightarrow> cpp_handle \<Rightarrow> u32 \<Rightarrow> ('h, cpp_buffer) cpp_call" where
  "raw_card_get_version S handle timeout_ms =
     wrap_buffer (df_get_version S handle timeout_ms fresh_buffer fresh_error)"

definition raw_card_free_memory ::
  "'h c_services \<Rightarrow> cpp_handle \<Rightarrow> u32 \<Rightarrow> ('h, u32) cpp_call" where
  "raw_card_free_memory S handle timeout_ms =
     wrap_scalar 0 (df_free_memory S handle timeout_ms True fresh_error)"

definition raw_card_select_application ::
  "'h c_services \<Rightarrow> cpp_handle \<Rightarrow> u32 \<Rightarrow> u32 \<Rightarrow>
    ('h, unit) cpp_call" where
  "raw_card_select_application S handle aid timeout_ms =
     wrap_void (df_select_application S handle aid timeout_ms fresh_error)"

definition raw_card_file_ids ::
  "'h c_services \<Rightarrow> cpp_handle \<Rightarrow> u32 \<Rightarrow> ('h, cpp_buffer) cpp_call" where
  "raw_card_file_ids S handle timeout_ms =
     wrap_buffer (df_file_ids S handle timeout_ms fresh_buffer fresh_error)"

definition raw_card_authenticate_standard_aes ::
  "'h c_services \<Rightarrow> cpp_handle \<Rightarrow> u32 \<Rightarrow> c_bytes \<Rightarrow> u32
    \<Rightarrow> ('h, unit) cpp_call" where
  "raw_card_authenticate_standard_aes S handle key_no key timeout_ms =
     wrap_void (df_authenticate_standard_aes S handle key_no key timeout_ms fresh_error)"

definition raw_card_authenticate_standard_aes_provider ::
  "'h c_services \<Rightarrow> cpp_handle \<Rightarrow> u32 \<Rightarrow> 'h c_key_provider option
    \<Rightarrow> 'h c_key_request option \<Rightarrow> u32 \<Rightarrow> ('h, unit) cpp_call" where
  "raw_card_authenticate_standard_aes_provider S handle key_no provider request timeout_ms =
     wrap_void (df_authenticate_standard_aes_provider S handle key_no provider request timeout_ms
       fresh_error)"

definition raw_card_authenticate_ev2_first_aes ::
  "'h c_services \<Rightarrow> cpp_handle \<Rightarrow> u32 \<Rightarrow> c_bytes \<Rightarrow> u32
    \<Rightarrow> ('h, cpp_authentication_info) cpp_call" where
  "raw_card_authenticate_ev2_first_aes S handle key_no key timeout_ms =
     wrap_information (df_authenticate_ev2_first_aes S handle key_no key timeout_ms fresh_information
       fresh_error)"

definition raw_card_authenticate_ev2_first_aes_provider ::
  "'h c_services \<Rightarrow> cpp_handle \<Rightarrow> u32 \<Rightarrow> 'h c_key_provider option
    \<Rightarrow> 'h c_key_request option \<Rightarrow> u32 \<Rightarrow>
    ('h, cpp_authentication_info) cpp_call" where
  "raw_card_authenticate_ev2_first_aes_provider S handle key_no provider request timeout_ms =
     wrap_information (df_authenticate_ev2_first_aes_provider S handle key_no provider request timeout_ms
       fresh_information fresh_error)"

definition raw_card_authenticate_ev2_first_aes_with_capabilities ::
  "'h c_services \<Rightarrow> cpp_handle \<Rightarrow> u32 \<Rightarrow> c_bytes \<Rightarrow> c_bytes
    \<Rightarrow> u32 \<Rightarrow> ('h, cpp_authentication_info) cpp_call" where
  "raw_card_authenticate_ev2_first_aes_with_capabilities S handle key_no key pcd timeout_ms =
     wrap_information (df_authenticate_ev2_first_aes_with_capabilities S handle key_no key pcd timeout_ms
       fresh_information fresh_error)"

definition raw_card_authenticate_ev2_first_aes_with_capabilities_provider ::
  "'h c_services \<Rightarrow> cpp_handle \<Rightarrow> u32 \<Rightarrow> 'h c_key_provider option
    \<Rightarrow> 'h c_key_request option \<Rightarrow> c_bytes \<Rightarrow> u32 \<Rightarrow>
    ('h, cpp_authentication_info) cpp_call" where
  "raw_card_authenticate_ev2_first_aes_with_capabilities_provider S handle key_no provider request pcd
    timeout_ms =
     wrap_information (df_authenticate_ev2_first_aes_with_capabilities_provider S handle key_no provider
       request pcd timeout_ms fresh_information fresh_error)"

definition raw_card_authenticate_ev2_non_first_aes ::
  "'h c_services \<Rightarrow> cpp_handle \<Rightarrow> u32 \<Rightarrow> c_bytes \<Rightarrow> u32
    \<Rightarrow> ('h, cpp_authentication_info) cpp_call" where
  "raw_card_authenticate_ev2_non_first_aes S handle key_no key timeout_ms =
     wrap_information (df_authenticate_ev2_non_first_aes S handle key_no key timeout_ms fresh_information
       fresh_error)"

definition raw_card_authenticate_ev2_non_first_aes_provider ::
  "'h c_services \<Rightarrow> cpp_handle \<Rightarrow> u32 \<Rightarrow> 'h c_key_provider option
    \<Rightarrow> 'h c_key_request option \<Rightarrow> u32 \<Rightarrow>
    ('h, cpp_authentication_info) cpp_call" where
  "raw_card_authenticate_ev2_non_first_aes_provider S handle key_no provider request timeout_ms =
     wrap_information (df_authenticate_ev2_non_first_aes_provider S handle key_no provider request
       timeout_ms fresh_information fresh_error)"

definition raw_card_application_ids ::
  "'h c_services \<Rightarrow> cpp_handle \<Rightarrow> u32 \<Rightarrow> ('h, cpp_buffer) cpp_call" where
  "raw_card_application_ids S handle timeout_ms =
     wrap_buffer (df_application_ids S handle timeout_ms fresh_buffer fresh_error)"

definition raw_card_iso_file_ids ::
  "'h c_services \<Rightarrow> cpp_handle \<Rightarrow> u32 \<Rightarrow> ('h, cpp_buffer) cpp_call" where
  "raw_card_iso_file_ids S handle timeout_ms =
     wrap_buffer (df_iso_file_ids S handle timeout_ms fresh_buffer fresh_error)"

definition raw_card_get_key_settings ::
  "'h c_services \<Rightarrow> cpp_handle \<Rightarrow> u32 \<Rightarrow> ('h, cpp_buffer) cpp_call" where
  "raw_card_get_key_settings S handle timeout_ms =
     wrap_buffer (df_get_key_settings S handle timeout_ms fresh_buffer fresh_error)"

definition raw_card_get_key_set_versions ::
  "'h c_services \<Rightarrow> cpp_handle \<Rightarrow> u32 \<Rightarrow> ('h, cpp_buffer) cpp_call" where
  "raw_card_get_key_set_versions S handle timeout_ms =
     wrap_buffer (df_get_key_set_versions S handle timeout_ms fresh_buffer fresh_error)"

definition raw_card_get_card_uid ::
  "'h c_services \<Rightarrow> cpp_handle \<Rightarrow> u32 \<Rightarrow> ('h, cpp_buffer) cpp_call" where
  "raw_card_get_card_uid S handle timeout_ms =
     wrap_buffer (df_get_card_uid S handle timeout_ms fresh_buffer fresh_error)"

definition raw_card_read_originality_signature ::
  "'h c_services \<Rightarrow> cpp_handle \<Rightarrow> u32 \<Rightarrow> ('h, cpp_buffer) cpp_call" where
  "raw_card_read_originality_signature S handle timeout_ms =
     wrap_buffer (df_read_originality_signature S handle timeout_ms fresh_buffer fresh_error)"

definition raw_card_abort_transaction ::
  "'h c_services \<Rightarrow> cpp_handle \<Rightarrow> u32 \<Rightarrow> ('h, unit) cpp_call" where
  "raw_card_abort_transaction S handle timeout_ms =
     wrap_void (df_abort_transaction S handle timeout_ms fresh_error)"

definition raw_card_format_picc ::
  "'h c_services \<Rightarrow> cpp_handle \<Rightarrow> u32 \<Rightarrow> ('h, unit) cpp_call" where
  "raw_card_format_picc S handle timeout_ms =
     wrap_void (df_format_picc S handle timeout_ms fresh_error)"

definition raw_card_delete_file ::
  "'h c_services \<Rightarrow> cpp_handle \<Rightarrow> u32 \<Rightarrow> u32 \<Rightarrow>
    ('h, unit) cpp_call" where
  "raw_card_delete_file S handle file_no timeout_ms =
     wrap_void (df_delete_file S handle file_no timeout_ms fresh_error)"

definition raw_card_get_file_settings ::
  "'h c_services \<Rightarrow> cpp_handle \<Rightarrow> u32 \<Rightarrow> u32 \<Rightarrow>
    ('h, cpp_buffer) cpp_call" where
  "raw_card_get_file_settings S handle file_no timeout_ms =
     wrap_buffer (df_get_file_settings S handle file_no timeout_ms fresh_buffer fresh_error)"

definition raw_card_clear_record_file ::
  "'h c_services \<Rightarrow> cpp_handle \<Rightarrow> u32 \<Rightarrow> u32 \<Rightarrow>
    ('h, unit) cpp_call" where
  "raw_card_clear_record_file S handle file_no timeout_ms =
     wrap_void (df_clear_record_file S handle file_no timeout_ms fresh_error)"

definition raw_card_get_file_counters ::
  "'h c_services \<Rightarrow> cpp_handle \<Rightarrow> u32 \<Rightarrow> u32 \<Rightarrow> u32
    \<Rightarrow> ('h, cpp_buffer) cpp_call" where
  "raw_card_get_file_counters S handle file_no communication timeout_ms =
     wrap_buffer (df_get_file_counters S handle file_no communication timeout_ms fresh_buffer fresh_error)"

definition raw_card_delete_application ::
  "'h c_services \<Rightarrow> cpp_handle \<Rightarrow> u32 \<Rightarrow> u32 \<Rightarrow>
    ('h, unit) cpp_call" where
  "raw_card_delete_application S handle aid timeout_ms =
     wrap_void (df_delete_application S handle aid timeout_ms fresh_error)"

definition raw_card_change_key_settings ::
  "'h c_services \<Rightarrow> cpp_handle \<Rightarrow> u32 \<Rightarrow> u32 \<Rightarrow>
    ('h, unit) cpp_call" where
  "raw_card_change_key_settings S handle settings timeout_ms =
     wrap_void (df_change_key_settings S handle settings timeout_ms fresh_error)"

definition raw_card_get_key_version ::
  "'h c_services \<Rightarrow> cpp_handle \<Rightarrow> u32 \<Rightarrow> i32 \<Rightarrow> u32
    \<Rightarrow> ('h, cpp_buffer) cpp_call" where
  "raw_card_get_key_version S handle number key_set timeout_ms =
     wrap_buffer (df_get_key_version S handle number key_set timeout_ms fresh_buffer fresh_error)"

definition raw_card_initialize_key_set ::
  "'h c_services \<Rightarrow> cpp_handle \<Rightarrow> u32 \<Rightarrow> u32 \<Rightarrow>
    ('h, unit) cpp_call" where
  "raw_card_initialize_key_set S handle key_set timeout_ms =
     wrap_void (df_initialize_key_set S handle key_set timeout_ms fresh_error)"

definition raw_card_roll_key_set ::
  "'h c_services \<Rightarrow> cpp_handle \<Rightarrow> u32 \<Rightarrow> u32 \<Rightarrow>
    ('h, unit) cpp_call" where
  "raw_card_roll_key_set S handle key_set timeout_ms =
     wrap_void (df_roll_key_set S handle key_set timeout_ms fresh_error)"

definition raw_card_finalize_key_set ::
  "'h c_services \<Rightarrow> cpp_handle \<Rightarrow> u32 \<Rightarrow> u32 \<Rightarrow> u32
    \<Rightarrow> ('h, unit) cpp_call" where
  "raw_card_finalize_key_set S handle key_set version timeout_ms =
     wrap_void (df_finalize_key_set S handle key_set version timeout_ms fresh_error)"

definition raw_card_read_data ::
  "'h c_services \<Rightarrow> cpp_handle \<Rightarrow> u32 \<Rightarrow> u32 \<Rightarrow> u32
    \<Rightarrow> u32 \<Rightarrow> u32 \<Rightarrow> ('h, cpp_buffer) cpp_call" where
  "raw_card_read_data S handle file_no off len communication timeout_ms =
     wrap_buffer (df_read_data S handle file_no off len communication timeout_ms fresh_buffer fresh_error)"

definition raw_card_write_data ::
  "'h c_services \<Rightarrow> cpp_handle \<Rightarrow> u32 \<Rightarrow> u32 \<Rightarrow> c_bytes
    \<Rightarrow> u32 \<Rightarrow> u32 \<Rightarrow> ('h, unit) cpp_call" where
  "raw_card_write_data S handle file_no off data communication timeout_ms =
     wrap_void (df_write_data S handle file_no off data communication timeout_ms fresh_error)"

definition raw_card_write_record ::
  "'h c_services \<Rightarrow> cpp_handle \<Rightarrow> u32 \<Rightarrow> u32 \<Rightarrow> c_bytes
    \<Rightarrow> u32 \<Rightarrow> u32 \<Rightarrow> ('h, unit) cpp_call" where
  "raw_card_write_record S handle file_no off data communication timeout_ms =
     wrap_void (df_write_record S handle file_no off data communication timeout_ms fresh_error)"

definition raw_card_read_records ::
  "'h c_services \<Rightarrow> cpp_handle \<Rightarrow> u32 \<Rightarrow> u32 \<Rightarrow> u32
    \<Rightarrow> u32 \<Rightarrow> u32 \<Rightarrow> ('h, cpp_buffer) cpp_call" where
  "raw_card_read_records S handle file_no first count communication timeout_ms =
     wrap_buffer (df_read_records S handle file_no first count communication timeout_ms fresh_buffer
       fresh_error)"

definition raw_card_update_record ::
  "'h c_services \<Rightarrow> cpp_handle \<Rightarrow> u32 \<Rightarrow> u32 \<Rightarrow> u32
    \<Rightarrow> c_bytes \<Rightarrow> u32 \<Rightarrow> u32 \<Rightarrow> ('h, unit) cpp_call" where
  "raw_card_update_record S handle file_no record_no off data communication timeout_ms =
     wrap_void (df_update_record S handle file_no record_no off data communication timeout_ms fresh_error)"

definition raw_card_credit ::
  "'h c_services \<Rightarrow> cpp_handle \<Rightarrow> u32 \<Rightarrow> u32 \<Rightarrow> u32
    \<Rightarrow> u32 \<Rightarrow> ('h, unit) cpp_call" where
  "raw_card_credit S handle file_no amount communication timeout_ms =
     wrap_void (df_credit S handle file_no amount communication timeout_ms fresh_error)"

definition raw_card_debit ::
  "'h c_services \<Rightarrow> cpp_handle \<Rightarrow> u32 \<Rightarrow> u32 \<Rightarrow> u32
    \<Rightarrow> u32 \<Rightarrow> ('h, unit) cpp_call" where
  "raw_card_debit S handle file_no amount communication timeout_ms =
     wrap_void (df_debit S handle file_no amount communication timeout_ms fresh_error)"

definition raw_card_limited_credit ::
  "'h c_services \<Rightarrow> cpp_handle \<Rightarrow> u32 \<Rightarrow> u32 \<Rightarrow> u32
    \<Rightarrow> u32 \<Rightarrow> ('h, unit) cpp_call" where
  "raw_card_limited_credit S handle file_no amount communication timeout_ms =
     wrap_void (df_limited_credit S handle file_no amount communication timeout_ms fresh_error)"

definition raw_card_get_value ::
  "'h c_services \<Rightarrow> cpp_handle \<Rightarrow> u32 \<Rightarrow> u32 \<Rightarrow> u32
    \<Rightarrow> ('h, i32) cpp_call" where
  "raw_card_get_value S handle file_no communication timeout_ms =
     wrap_scalar 0 (df_get_value S handle file_no communication timeout_ms True fresh_error)"

definition raw_card_commit_transaction ::
  "'h c_services \<Rightarrow> cpp_handle \<Rightarrow> u32 \<Rightarrow> u32 \<Rightarrow>
    ('h, cpp_buffer) cpp_call" where
  "raw_card_commit_transaction S handle return_mac timeout_ms =
     wrap_buffer (df_commit_transaction S handle return_mac timeout_ms fresh_buffer fresh_error)"

definition raw_card_commit_reader_id ::
  "'h c_services \<Rightarrow> cpp_handle \<Rightarrow> c_bytes \<Rightarrow> u32 \<Rightarrow>
    ('h, cpp_buffer) cpp_call" where
  "raw_card_commit_reader_id S handle reader_id timeout_ms =
     wrap_buffer (df_commit_reader_id S handle reader_id timeout_ms fresh_buffer fresh_error)"

definition raw_card_create_application ::
  "'h c_services \<Rightarrow> cpp_handle \<Rightarrow> u32 \<Rightarrow> u32 \<Rightarrow> u32
    \<Rightarrow> i32 \<Rightarrow> c_bytes \<Rightarrow> u32 \<Rightarrow> ('h, unit) cpp_call" where
  "raw_card_create_application S handle aid key_settings key_count iso_id df_name timeout_ms =
     wrap_void (df_create_application S handle aid key_settings key_count iso_id df_name timeout_ms
       fresh_error)"

definition raw_card_create_data_file ::
  "'h c_services \<Rightarrow> cpp_handle \<Rightarrow> u32 \<Rightarrow> u32 \<Rightarrow> u32
    \<Rightarrow> u32 \<Rightarrow> i32 \<Rightarrow> u32 \<Rightarrow> u32 \<Rightarrow>
    ('h, unit) cpp_call" where
  "raw_card_create_data_file S handle file_no len communication access iso_id backup timeout_ms =
     wrap_void (df_create_data_file S handle file_no len communication access iso_id backup timeout_ms
       fresh_error)"

definition raw_card_create_value_file ::
  "'h c_services \<Rightarrow> cpp_handle \<Rightarrow> u32 \<Rightarrow> i32 \<Rightarrow> i32
    \<Rightarrow> i32 \<Rightarrow> u32 \<Rightarrow> u32 \<Rightarrow> u32 \<Rightarrow> u32 \<Rightarrow>
    u32 \<Rightarrow> ('h, unit) cpp_call" where
  "raw_card_create_value_file S handle file_no lower_limit upper_limit initial_value communication access
    limited free_get_value timeout_ms =
     wrap_void (df_create_value_file S handle file_no lower_limit upper_limit initial_value communication
       access limited free_get_value timeout_ms fresh_error)"

definition raw_card_create_record_file ::
  "'h c_services \<Rightarrow> cpp_handle \<Rightarrow> u32 \<Rightarrow> u32 \<Rightarrow> u32
    \<Rightarrow> u32 \<Rightarrow> u32 \<Rightarrow> i32 \<Rightarrow> u32 \<Rightarrow> u32 \<Rightarrow>
    ('h, unit) cpp_call" where
  "raw_card_create_record_file S handle file_no record_size maximum_records communication access iso_id
    cyclic timeout_ms =
     wrap_void (df_create_record_file S handle file_no record_size maximum_records communication access
       iso_id cyclic timeout_ms fresh_error)"

definition raw_card_change_file_settings ::
  "'h c_services \<Rightarrow> cpp_handle \<Rightarrow> u32 \<Rightarrow> u32 \<Rightarrow> u32
    \<Rightarrow> u32 \<Rightarrow> u32 \<Rightarrow> ('h, unit) cpp_call" where
  "raw_card_change_file_settings S handle file_no communication access command_communication timeout_ms =
     wrap_void (df_change_file_settings S handle file_no communication access command_communication
       timeout_ms fresh_error)"

definition raw_card_create_transaction_mac_file ::
  "'h c_services \<Rightarrow> cpp_handle \<Rightarrow> u32 \<Rightarrow> u32 \<Rightarrow> c_bytes
    \<Rightarrow> u32 \<Rightarrow> u32 \<Rightarrow> ('h, unit) cpp_call" where
  "raw_card_create_transaction_mac_file S handle file_no access key version timeout_ms =
     wrap_void (df_create_transaction_mac_file S handle file_no access key version timeout_ms fresh_error)"

definition raw_card_change_aes_key ::
  "'h c_services \<Rightarrow> cpp_handle \<Rightarrow> u32 \<Rightarrow> c_bytes \<Rightarrow> u32
    \<Rightarrow> u32 \<Rightarrow> c_bytes \<Rightarrow> i32 \<Rightarrow> u32 \<Rightarrow> u32
    \<Rightarrow> ('h, unit) cpp_call" where
  "raw_card_change_aes_key S handle number new_key version authenticated_key old_key key_set picc_master
    timeout_ms =
     wrap_void (df_change_aes_key S handle number new_key version authenticated_key old_key key_set
       picc_master timeout_ms fresh_error)"

definition raw_card_iso_select_file ::
  "'h c_services \<Rightarrow> cpp_handle \<Rightarrow> u32 \<Rightarrow> u32 \<Rightarrow> u32
    \<Rightarrow> u32 \<Rightarrow> ('h, cpp_buffer) cpp_call" where
  "raw_card_iso_select_file S handle identifier selection response timeout_ms =
     wrap_buffer (df_iso_select_file S handle identifier selection response timeout_ms fresh_buffer
       fresh_error)"

definition raw_card_iso_select_df_name ::
  "'h c_services \<Rightarrow> cpp_handle \<Rightarrow> c_bytes \<Rightarrow> u32 \<Rightarrow> u32
    \<Rightarrow> ('h, cpp_buffer) cpp_call" where
  "raw_card_iso_select_df_name S handle name response timeout_ms =
     wrap_buffer (df_iso_select_df_name S handle name response timeout_ms fresh_buffer fresh_error)"

definition raw_card_iso_read_binary ::
  "'h c_services \<Rightarrow> cpp_handle \<Rightarrow> i32 \<Rightarrow> u32 \<Rightarrow> u32
    \<Rightarrow> u32 \<Rightarrow> ('h, cpp_buffer) cpp_call" where
  "raw_card_iso_read_binary S handle short_identifier off len timeout_ms =
     wrap_buffer (df_iso_read_binary S handle short_identifier off len timeout_ms fresh_buffer
       fresh_error)"

definition raw_card_iso_update_binary ::
  "'h c_services \<Rightarrow> cpp_handle \<Rightarrow> i32 \<Rightarrow> u32 \<Rightarrow> c_bytes
    \<Rightarrow> u32 \<Rightarrow> ('h, cpp_buffer) cpp_call" where
  "raw_card_iso_update_binary S handle short_identifier off data timeout_ms =
     wrap_buffer (df_iso_update_binary S handle short_identifier off data timeout_ms fresh_buffer
       fresh_error)"

definition raw_card_iso_read_records ::
  "'h c_services \<Rightarrow> cpp_handle \<Rightarrow> u32 \<Rightarrow> u32 \<Rightarrow> u32
    \<Rightarrow> u32 \<Rightarrow> u32 \<Rightarrow> ('h, cpp_buffer) cpp_call" where
  "raw_card_iso_read_records S handle record_no short_identifier selection len timeout_ms =
     wrap_buffer (df_iso_read_records S handle record_no short_identifier selection len timeout_ms
       fresh_buffer fresh_error)"

definition raw_card_iso_append_record ::
  "'h c_services \<Rightarrow> cpp_handle \<Rightarrow> u32 \<Rightarrow> c_bytes \<Rightarrow> u32
    \<Rightarrow> ('h, cpp_buffer) cpp_call" where
  "raw_card_iso_append_record S handle short_identifier data timeout_ms =
     wrap_buffer (df_iso_append_record S handle short_identifier data timeout_ms fresh_buffer fresh_error)"

definition raw_card_iso_get_challenge ::
  "'h c_services \<Rightarrow> cpp_handle \<Rightarrow> u32 \<Rightarrow> u32 \<Rightarrow>
    ('h, cpp_buffer) cpp_call" where
  "raw_card_iso_get_challenge S handle len timeout_ms =
     wrap_buffer (df_iso_get_challenge S handle len timeout_ms fresh_buffer fresh_error)"

definition raw_card_iso_external_authenticate ::
  "'h c_services \<Rightarrow> cpp_handle \<Rightarrow> u32 \<Rightarrow> u32 \<Rightarrow> u32
    \<Rightarrow> c_bytes \<Rightarrow> u32 \<Rightarrow> ('h, cpp_buffer) cpp_call" where
  "raw_card_iso_external_authenticate S handle number application algorithm data timeout_ms =
     wrap_buffer (df_iso_external_authenticate S handle number application algorithm data timeout_ms
       fresh_buffer fresh_error)"

definition raw_card_iso_internal_authenticate ::
  "'h c_services \<Rightarrow> cpp_handle \<Rightarrow> u32 \<Rightarrow> u32 \<Rightarrow> u32
    \<Rightarrow> c_bytes \<Rightarrow> u32 \<Rightarrow> ('h, cpp_buffer) cpp_call" where
  "raw_card_iso_internal_authenticate S handle number application algorithm data timeout_ms =
     wrap_buffer (df_iso_internal_authenticate S handle number application algorithm data timeout_ms
       fresh_buffer fresh_error)"

definition raw_card_authenticate_iso_aes ::
  "'h c_services \<Rightarrow> cpp_handle \<Rightarrow> u32 \<Rightarrow> u32 \<Rightarrow> c_bytes
    \<Rightarrow> u32 \<Rightarrow> ('h, unit) cpp_call" where
  "raw_card_authenticate_iso_aes S handle number application key timeout_ms =
     wrap_void (df_authenticate_iso_aes S handle number application key timeout_ms fresh_error)"

definition raw_card_authenticate_iso_aes_provider ::
  "'h c_services \<Rightarrow> cpp_handle \<Rightarrow> u32 \<Rightarrow> u32 \<Rightarrow> 'h
    c_key_provider option \<Rightarrow> 'h c_key_request option \<Rightarrow> u32 \<Rightarrow>
    ('h, unit) cpp_call" where
  "raw_card_authenticate_iso_aes_provider S handle number application provider request timeout_ms =
     wrap_void (df_authenticate_iso_aes_provider S handle number application provider request timeout_ms
       fresh_error)"

definition raw_card_get_df_names ::
  "'h c_services \<Rightarrow> cpp_handle \<Rightarrow> u32 \<Rightarrow> ('h, cpp_buffer) cpp_call" where
  "raw_card_get_df_names S handle timeout_ms =
     wrap_buffer (df_get_df_names S handle timeout_ms fresh_buffer fresh_error)"

definition raw_card_reset_authentication ::
  "'h c_services \<Rightarrow> cpp_handle \<Rightarrow> ('h, unit) cpp_call" where
  "raw_card_reset_authentication S handle =
     wrap_void (df_reset_authentication S handle fresh_error)"

definition raw_card_restore_transfer ::
  "'h c_services \<Rightarrow> cpp_handle \<Rightarrow> u32 \<Rightarrow> u32 \<Rightarrow> u32
    \<Rightarrow> u32 \<Rightarrow> ('h, unit) cpp_call" where
  "raw_card_restore_transfer S handle target_file source_file communication timeout_ms =
     wrap_void (df_restore_transfer S handle target_file source_file communication timeout_ms fresh_error)"

definition raw_card_create_delegated_application ::
  "'h c_services \<Rightarrow> cpp_handle \<Rightarrow> u32 \<Rightarrow> u32 \<Rightarrow> u32
    \<Rightarrow> u32 \<Rightarrow> u32 \<Rightarrow> u32 \<Rightarrow> u32 \<Rightarrow> i32 \<Rightarrow>
    i32 \<Rightarrow> c_bytes \<Rightarrow> c_bytes \<Rightarrow> c_bytes \<Rightarrow> u32 \<Rightarrow>
    ('h, unit) cpp_call" where
  "raw_card_create_delegated_application S handle aid key_settings number_of_keys slot slot_version
    quota_limit iso_file_identifiers key_settings3 iso_id df_name encrypted_default_key dam_mac timeout_ms
    =
     wrap_void (df_create_delegated_application S handle aid key_settings number_of_keys slot slot_version
       quota_limit iso_file_identifiers key_settings3 iso_id df_name encrypted_default_key dam_mac
       timeout_ms fresh_error)"

definition raw_card_get_delegated_application_info ::
  "'h c_services \<Rightarrow> cpp_handle \<Rightarrow> u32 \<Rightarrow> u32 \<Rightarrow>
    ('h, delegated_output) cpp_call" where
  "raw_card_get_delegated_application_info S handle slot timeout_ms =
     wrap_scalar delegated_info_output (df_get_delegated_application_info S handle slot timeout_ms
       fresh_delegated_info fresh_error)"

definition raw_card_delete_delegated_application ::
  "'h c_services \<Rightarrow> cpp_handle \<Rightarrow> u32 \<Rightarrow> c_bytes \<Rightarrow> u32
    \<Rightarrow> ('h, unit) cpp_call" where
  "raw_card_delete_delegated_application S handle aid dam_mac timeout_ms =
     wrap_void (df_delete_delegated_application S handle aid dam_mac timeout_ms fresh_error)"

definition raw_card_get_card_uid_variant ::
  "'h c_services \<Rightarrow> cpp_handle \<Rightarrow> u32 \<Rightarrow> u32 \<Rightarrow>
    ('h, cpp_buffer) cpp_call" where
  "raw_card_get_card_uid_variant S handle option timeout_ms =
     wrap_buffer (df_get_card_uid_variant S handle option timeout_ms fresh_buffer fresh_error)"

definition raw_card_set_picc_configuration ::
  "'h c_services \<Rightarrow> cpp_handle \<Rightarrow> c_picc_configuration option \<Rightarrow> u32
    \<Rightarrow> ('h, unit) cpp_call" where
  "raw_card_set_picc_configuration S handle picc timeout_ms =
     wrap_void (df_set_picc_configuration S handle picc timeout_ms fresh_error)"

definition raw_card_set_capability_configuration ::
  "'h c_services \<Rightarrow> cpp_handle \<Rightarrow> c_bytes \<Rightarrow> u32 \<Rightarrow>
    ('h, unit) cpp_call" where
  "raw_card_set_capability_configuration S handle capabilities timeout_ms =
     wrap_void (df_set_capability_configuration S handle capabilities timeout_ms fresh_error)"

definition raw_card_set_default_aes_key ::
  "'h c_services \<Rightarrow> cpp_handle \<Rightarrow> c_bytes \<Rightarrow> u32 \<Rightarrow> u32
    \<Rightarrow> ('h, unit) cpp_call" where
  "raw_card_set_default_aes_key S handle key key_version timeout_ms =
     wrap_void (df_set_default_aes_key S handle key key_version timeout_ms fresh_error)"

definition raw_card_set_default_aes_key_provider ::
  "'h c_services \<Rightarrow> cpp_handle \<Rightarrow> 'h c_key_provider option \<Rightarrow> 'h
    c_key_request option \<Rightarrow> u32 \<Rightarrow> u32 \<Rightarrow> ('h, unit) cpp_call" where
  "raw_card_set_default_aes_key_provider S handle provider request key_version timeout_ms =
     wrap_void (df_set_default_aes_key_provider S handle provider request key_version timeout_ms
       fresh_error)"

definition raw_card_set_ats ::
  "'h c_services \<Rightarrow> cpp_handle \<Rightarrow> c_bytes \<Rightarrow> u32 \<Rightarrow>
    ('h, unit) cpp_call" where
  "raw_card_set_ats S handle ats timeout_ms =
     wrap_void (df_set_ats S handle ats timeout_ms fresh_error)"

definition raw_card_set_atqa ::
  "'h c_services \<Rightarrow> cpp_handle \<Rightarrow> u32 \<Rightarrow> u32 \<Rightarrow>
    ('h, unit) cpp_call" where
  "raw_card_set_atqa S handle atqa timeout_ms =
     wrap_void (df_set_atqa S handle atqa timeout_ms fresh_error)"

definition raw_card_iso_update_record ::
  "'h c_services \<Rightarrow> cpp_handle \<Rightarrow> u32 \<Rightarrow> u32 \<Rightarrow> u32
    \<Rightarrow> u32 \<Rightarrow> c_bytes \<Rightarrow> u32 \<Rightarrow> ('h, cpp_buffer) cpp_call" where
  "raw_card_iso_update_record S handle instruction record_no short_identifier reference_control data
    timeout_ms =
     wrap_buffer (df_iso_update_record S handle instruction record_no short_identifier reference_control
       data timeout_ms fresh_buffer fresh_error)"

definition raw_card_execute_transaction ::
  "'h c_services \<Rightarrow> cpp_handle \<Rightarrow> c_transaction_operation list option \<Rightarrow>
    u32 \<Rightarrow> u32 \<Rightarrow> ('h, cpp_buffer) cpp_call" where
  "raw_card_execute_transaction S handle operations return_mac timeout_ms =
     wrap_buffer (df_execute_transaction S handle operations return_mac timeout_ms fresh_buffer
       fresh_error)"

definition raw_card_change_aes_key_provider ::
  "'h c_services \<Rightarrow> cpp_handle \<Rightarrow> u32 \<Rightarrow> 'h c_key_provider option
    \<Rightarrow> 'h c_key_request option \<Rightarrow> u32 \<Rightarrow> u32 \<Rightarrow> 'h
    c_key_provider option \<Rightarrow> 'h c_key_request option \<Rightarrow> i32 \<Rightarrow> u32
    \<Rightarrow> u32 \<Rightarrow> ('h, unit) cpp_call" where
  "raw_card_change_aes_key_provider S handle number new_key_provider new_key_request version
    authenticated_key old_key_provider old_key_request key_set picc_master timeout_ms =
     wrap_void (df_change_aes_key_provider S handle number new_key_provider new_key_request version
       authenticated_key old_key_provider old_key_request key_set picc_master timeout_ms fresh_error)"

definition raw_card_create_transaction_mac_file_provider ::
  "'h c_services \<Rightarrow> cpp_handle \<Rightarrow> u32 \<Rightarrow> u32 \<Rightarrow> 'h
    c_key_provider option \<Rightarrow> 'h c_key_request option \<Rightarrow> u32 \<Rightarrow> u32
    \<Rightarrow> ('h, unit) cpp_call" where
  "raw_card_create_transaction_mac_file_provider S handle file_no access provider request version
    timeout_ms =
     wrap_void (df_create_transaction_mac_file_provider S handle file_no access provider request version
       timeout_ms fresh_error)"

section \<open>Raw channels\<close>

definition raw_channel_open ::
  "'h c_services \<Rightarrow> library_identity \<Rightarrow> 'h c_transport \<Rightarrow> ('h, cpp_handle) cpp_call" where
  "raw_channel_open S loaded transport = open_with loaded (df_raw_open S (Some transport))"

definition raw_channel_destroy :: "cpp_handle \<Rightarrow> 'h native \<Rightarrow> 'h native" where
  "raw_channel_destroy = destroy_with df_raw_close"

definition raw_channel_close :: "cpp_handle \<Rightarrow> 'h native \<Rightarrow> unit cpp_result \<times> cpp_handle \<times> 'h native" where
  "raw_channel_close = lifecycle df_raw_close True"

definition raw_channel_reset ::
  "'h c_services \<Rightarrow> cpp_handle \<Rightarrow> 'h native \<Rightarrow> unit cpp_result \<times> cpp_handle \<times> 'h native" where
  "raw_channel_reset S = lifecycle (df_raw_reset S) False"

definition raw_channel_cancel ::
  "'h c_services \<Rightarrow> cpp_handle \<Rightarrow> 'h native \<Rightarrow> unit cpp_result \<times> cpp_handle \<times> 'h native" where
  "raw_channel_cancel S = lifecycle (df_raw_cancel S) False"

definition raw_channel_notify_state_change ::
  "cpp_handle \<Rightarrow> 'h native \<Rightarrow> unit cpp_result \<times> cpp_handle \<times> 'h native" where
  "raw_channel_notify_state_change = lifecycle df_raw_notify_state_change False"

definition raw_channel_native_frame ::
  "'h c_services \<Rightarrow> cpp_handle \<Rightarrow> u32 \<Rightarrow> u32 \<Rightarrow> c_bytes
    \<Rightarrow> u32 \<Rightarrow> ('h, native_response) cpp_call" where
  "raw_channel_native_frame S handle framing command data timeout_ms =
     wrap_status native_response_of (df_raw_native_frame S handle framing command data timeout_ms True
       fresh_buffer fresh_error)"

definition raw_channel_native_exchange ::
  "'h c_services \<Rightarrow> cpp_handle \<Rightarrow> c_native_request option \<Rightarrow> u32
    \<Rightarrow> ('h, native_response) cpp_call" where
  "raw_channel_native_exchange S handle request timeout_ms =
     wrap_status native_response_of (df_raw_native_exchange S handle request timeout_ms True fresh_buffer
       fresh_error)"

definition raw_channel_iso_exchange ::
  "'h c_services \<Rightarrow> cpp_handle \<Rightarrow> c_iso_apdu option \<Rightarrow> u32 \<Rightarrow>
    ('h, cpp_iso_response) cpp_call" where
  "raw_channel_iso_exchange S handle request timeout_ms =
     wrap_status iso_response_of (df_raw_iso_exchange S handle request timeout_ms True fresh_buffer
       fresh_error)"

definition raw_channel_authenticate_standard_aes ::
  "'h c_services \<Rightarrow> cpp_handle \<Rightarrow> u32 \<Rightarrow> c_bytes \<Rightarrow> u32
    \<Rightarrow> ('h, unit) cpp_call" where
  "raw_channel_authenticate_standard_aes S handle key_no key timeout_ms =
     wrap_void (df_raw_authenticate_standard_aes S handle key_no key timeout_ms fresh_error)"

definition raw_channel_authenticate_standard_aes_provider ::
  "'h c_services \<Rightarrow> cpp_handle \<Rightarrow> u32 \<Rightarrow> 'h c_key_provider option
    \<Rightarrow> 'h c_key_request option \<Rightarrow> u32 \<Rightarrow> ('h, unit) cpp_call" where
  "raw_channel_authenticate_standard_aes_provider S handle key_no provider request timeout_ms =
     wrap_void (df_raw_authenticate_standard_aes_provider S handle key_no provider request timeout_ms
       fresh_error)"

definition raw_channel_authenticate_ev2_first_aes ::
  "'h c_services \<Rightarrow> cpp_handle \<Rightarrow> u32 \<Rightarrow> c_bytes \<Rightarrow> c_bytes
    \<Rightarrow> u32 \<Rightarrow> ('h, cpp_authentication_info) cpp_call" where
  "raw_channel_authenticate_ev2_first_aes S handle key_no key pcd timeout_ms =
     wrap_information (df_raw_authenticate_ev2_first_aes S handle key_no key pcd timeout_ms
       fresh_information fresh_error)"

definition raw_channel_authenticate_ev2_first_aes_provider ::
  "'h c_services \<Rightarrow> cpp_handle \<Rightarrow> u32 \<Rightarrow> 'h c_key_provider option
    \<Rightarrow> 'h c_key_request option \<Rightarrow> c_bytes \<Rightarrow> u32 \<Rightarrow>
    ('h, cpp_authentication_info) cpp_call" where
  "raw_channel_authenticate_ev2_first_aes_provider S handle key_no provider request pcd timeout_ms =
     wrap_information (df_raw_authenticate_ev2_first_aes_provider S handle key_no provider request pcd
       timeout_ms fresh_information fresh_error)"

definition raw_channel_authenticate_ev2_non_first_aes ::
  "'h c_services \<Rightarrow> cpp_handle \<Rightarrow> u32 \<Rightarrow> c_bytes \<Rightarrow> u32
    \<Rightarrow> ('h, cpp_authentication_info) cpp_call" where
  "raw_channel_authenticate_ev2_non_first_aes S handle key_no key timeout_ms =
     wrap_information (df_raw_authenticate_ev2_non_first_aes S handle key_no key timeout_ms
       fresh_information fresh_error)"

definition raw_channel_authenticate_ev2_non_first_aes_provider ::
  "'h c_services \<Rightarrow> cpp_handle \<Rightarrow> u32 \<Rightarrow> 'h c_key_provider option
    \<Rightarrow> 'h c_key_request option \<Rightarrow> u32 \<Rightarrow>
    ('h, cpp_authentication_info) cpp_call" where
  "raw_channel_authenticate_ev2_non_first_aes_provider S handle key_no provider request timeout_ms =
     wrap_information (df_raw_authenticate_ev2_non_first_aes_provider S handle key_no provider request
       timeout_ms fresh_information fresh_error)"

definition raw_channel_authenticate_iso_aes ::
  "'h c_services \<Rightarrow> cpp_handle \<Rightarrow> u32 \<Rightarrow> u32 \<Rightarrow> c_bytes
    \<Rightarrow> u32 \<Rightarrow> ('h, unit) cpp_call" where
  "raw_channel_authenticate_iso_aes S handle key_no application key timeout_ms =
     wrap_void (df_raw_authenticate_iso_aes S handle key_no application key timeout_ms fresh_error)"

definition raw_channel_authenticate_iso_aes_provider ::
  "'h c_services \<Rightarrow> cpp_handle \<Rightarrow> u32 \<Rightarrow> u32 \<Rightarrow> 'h
    c_key_provider option \<Rightarrow> 'h c_key_request option \<Rightarrow> u32 \<Rightarrow>
    ('h, unit) cpp_call" where
  "raw_channel_authenticate_iso_aes_provider S handle key_no application provider request timeout_ms =
     wrap_void (df_raw_authenticate_iso_aes_provider S handle key_no application provider request
       timeout_ms fresh_error)"

definition raw_channel_iso_secure_exchange ::
  "'h c_services \<Rightarrow> cpp_handle \<Rightarrow> c_iso_apdu option \<Rightarrow> u32 \<Rightarrow>
    ('h, cpp_iso_response) cpp_call" where
  "raw_channel_iso_secure_exchange S handle request timeout_ms =
     wrap_status iso_response_of (df_raw_iso_secure_exchange S handle request timeout_ms True fresh_buffer
       fresh_error)"

definition raw_channel_native_secure_exchange ::
  "'h c_services \<Rightarrow> cpp_handle \<Rightarrow> c_secure_request option \<Rightarrow> u32
    \<Rightarrow> ('h, cpp_buffer) cpp_call" where
  "raw_channel_native_secure_exchange S handle request timeout_ms =
     wrap_buffer (df_raw_native_secure_exchange S handle request timeout_ms fresh_buffer fresh_error)"

end
