(* ===== verification/Cpp_Card.thy ===== *)
theory Cpp_Card
  imports Cpp_Raw
begin

text \<open>
  The friendly card of the C++17 facade (\<^verbatim>\<open>sdk/cpp17/include/desfire/cpp17/card.hpp\<close>): every
  public method of \<^verbatim>\<open>Card\<close>, with its checks before the call, the conversion of its
  arguments, and the copy of its result. The member \<^verbatim>\<open>raw_\<close> is the handle. Overloads that take
  a key from a deriver or a provider have the suffix \<open>_derived\<close> or \<open>_provided\<close>. An argument of an
  identifier type is the number it holds.
\<close>

section \<open>Configurations\<close>

record cpp_application_configuration =
  xa_application :: u32
  xa_key_settings :: u32
  xa_number_of_keys :: u32
  xa_iso_file_id :: "u32 option"
  xa_df_name :: bytes

record cpp_data_file_configuration =
  xf_file :: u32
  xf_length :: u32
  xf_communication :: u32
  xf_access_rights :: u32
  xf_iso_file_id :: "u32 option"
  xf_backup :: bool

record cpp_value_file_configuration =
  xv_file :: u32
  xv_lower_limit :: i32
  xv_upper_limit :: i32
  xv_initial_value :: i32
  xv_communication :: u32
  xv_access_rights :: u32
  xv_limited_credit :: bool
  xv_free_get_value :: bool

record cpp_record_file_configuration =
  xo_file :: u32
  xo_record_size :: u32
  xo_maximum_records :: u32
  xo_communication :: u32
  xo_access_rights :: u32
  xo_iso_file_id :: "u32 option"
  xo_cyclic :: bool

record cpp_change_key_configuration =
  xk_key :: u32
  xk_version :: u32
  xk_authenticated_key :: u32
  xk_key_set :: "u32 option"
  xk_picc_master :: bool

record cpp_picc_configuration =
  xp_disable_format :: bool
  xp_random_identifier :: bool
  xp_proximity_check_mandatory :: bool
  xp_virtual_card_authentication_mandatory :: bool
  xp_error_code_binding :: bool
  xp_random_identifier_configuration :: bool
  xp_four_byte_nuid_configuration :: bool

section \<open>Conversions and checks\<close>

text \<open>\<^verbatim>\<open>value ? 1U : 0U\<close>\<close>

definition flag :: "bool \<Rightarrow> u32" where
  "flag b = (if b then 1 else 0)"

definition optional_iso_id :: "u32 option \<Rightarrow> i32" where
  "optional_iso_id v = (case v of None \<Rightarrow> -1 | Some n \<Rightarrow> n)"

definition optional_key_set :: "u32 option \<Rightarrow> i32" where
  "optional_key_set v = (case v of None \<Rightarrow> -1 | Some n \<Rightarrow> n)"

definition optional_short_id :: "u32 option \<Rightarrow> i32" where
  "optional_short_id v = (case v of None \<Rightarrow> -1 | Some n \<Rightarrow> n)"

definition empty_key_error :: cpp_error where
  "empty_key_error = cpp_invalid_argument ''AES-128 key ownership is empty''"

definition require_live_key :: "aes_key \<Rightarrow> unit cpp_result" where
  "require_live_key key = (if \<not> ak_valid key then Inl empty_key_error else Inr ())"

definition validate_direct_authentication :: "u32 \<Rightarrow> aes_key \<Rightarrow> unit cpp_result" where
  "validate_direct_authentication key_number key =
     (if key_number > 31 then Inl (cpp_invalid_argument ''native authentication key number exceeds 31'')
      else if \<not> ak_valid key then Inl empty_key_error
      else Inr ())"

definition before_io :: "cpp_error \<Rightarrow> cpp_error" where
  "before_io e = e\<lparr>xe_outcome := outcome_number OC_not_sent, xe_status := 0\<rparr>"

text \<open>Host code that runs between the calls of the interface.\<close>

definition on_native_host :: "('h \<Rightarrow> 'a \<times> 'h) \<Rightarrow> 'h native \<Rightarrow> 'a \<times> 'h native" where
  "on_native_host f = on_library (on_host (on_world f))"

definition facade_derive_key :: "aes_key \<Rightarrow> 'h cpp_deriver \<Rightarrow> cpp_context \<Rightarrow> u32 \<Rightarrow> ('h, aes_key) cpp_call" where
  "facade_derive_key master_key deriver context expected_purpose N =
     (let diversification_size = length (xd_diversification context);
          user_size = length (xd_user_context context)
      in if \<not> ak_valid master_key
         then (Inl (cpp_invalid_argument ''AES-128 master key ownership is empty''), N)
         else if xd_purpose context \<noteq> expected_purpose
         then (Inl (cpp_invalid_argument ''key derivation purpose does not match operation''), N)
         else if diversification_size > 65536 \<or> user_size > 65536 \<or> diversification_size > 65536 - user_size
         then (Inl (cpp_invalid_argument ''diversification input and user context exceed the 64-KiB bound''), N)
         else (case on_native_host (deriver master_key context) N of
            (Inl e, N1) \<Rightarrow> (Inl (before_io e), N1)
          | (Inr key, N1) \<Rightarrow>
              (if \<not> ak_valid key
               then Inl \<lparr>xe_code = error_number EC_crypto, xe_outcome = outcome_number OC_not_sent, xe_status = 0,
                         xe_message = ''AES-128 deriver returned an invalid key''\<rparr>
               else Inr key, N1)))"

definition derive_authentication_key ::
  "aes_key \<Rightarrow> 'h cpp_deriver \<Rightarrow> cpp_context \<Rightarrow> ('h, aes_key) cpp_call" where
  "derive_authentication_key master_key deriver context =
     facade_derive_key master_key deriver context (purpose_number purpose_authentication)"

definition facade_validate_request :: "'h cpp_key_request \<Rightarrow> u32 \<Rightarrow> unit cpp_result" where
  "facade_validate_request request expected_purpose =
     (case validate_key_request request of
        Inl e \<Rightarrow> Inl e
      | Inr _ \<Rightarrow>
          if xd_purpose (xr_context request) \<noteq> expected_purpose
          then Inl (cpp_invalid_argument ''key request purpose does not match operation'') else Inr ())"

definition validate_provider_authentication :: "'h cpp_key_request \<Rightarrow> u32 \<Rightarrow> bool \<Rightarrow> unit cpp_result" where
  "validate_provider_authentication request expected over_iso =
     (case validate_key_request request of
        Inl e \<Rightarrow> Inl e
      | Inr _ \<Rightarrow>
          if xr_profile request \<noteq> Some expected
          then Inl (cpp_invalid_argument ''key request authentication profile does not match operation'')
          else if over_iso
          then if xr_scope request \<noteq> scope_number scope_iso_picc \<and>
                  xr_scope request \<noteq> scope_number scope_iso_application
               then Inl (cpp_invalid_argument ''ISO AES requires an ISO key scope'') else Inr ()
          else if xr_scope request \<noteq> scope_number scope_native
          then Inl (cpp_invalid_argument ''native AES requires native key scope'')
          else Inr ())"

text \<open>\<^verbatim>\<open>if (!checked) { return failure(checked.error()); }\<close>, for a check and for a call.\<close>

definition after_check :: "unit cpp_result \<Rightarrow> ('h, 'a) cpp_call \<Rightarrow> ('h, 'a) cpp_call" where
  "after_check checked call N = (case checked of Inl e \<Rightarrow> (Inl e, N) | Inr _ \<Rightarrow> call N)"

definition after_call :: "('h, 'a) cpp_call \<Rightarrow> ('a \<Rightarrow> ('h, 'b) cpp_call) \<Rightarrow> ('h, 'b) cpp_call" where
  "after_call first next_call N =
     (case first N of (Inl e, N1) \<Rightarrow> (Inl e, N1) | (Inr v, N1) \<Rightarrow> next_call v N1)"

definition timed :: "64 word \<Rightarrow> (u32 \<Rightarrow> ('h, 'a) cpp_call) \<Rightarrow> ('h, 'a) cpp_call" where
  "timed timeout function N =
     (case timeout_milliseconds timeout of Inl e \<Rightarrow> (Inl e, N) | Inr t \<Rightarrow> function t N)"

text \<open>The buffer is copied and, at the end of its scope, destroyed.\<close>

definition timed_buffer :: "64 word \<Rightarrow> (u32 \<Rightarrow> ('h, cpp_buffer) cpp_call) \<Rightarrow> ('h, bytes) cpp_call" where
  "timed_buffer timeout function N =
     (case timed timeout function N of
        (Inl e, N1) \<Rightarrow> (Inl e, N1)
      | (Inr buffer, N1) \<Rightarrow>
          (case buffer_copy buffer N1 of (bytes, N2) \<Rightarrow> (Inr bytes, buffer_destroy buffer N2)))"

section \<open>The card\<close>

definition facade_open ::
  "'h c_services \<Rightarrow> library_identity \<Rightarrow> 'h c_transport \<Rightarrow> ('h, cpp_handle) cpp_call" where
  "facade_open S loaded transport N =
     (case raw_card_open S loaded transport N of
        (Inl e, N1) \<Rightarrow> (Inl e, N1)
      | (Inr opened, N1) \<Rightarrow> (Inr (fst (handle_move opened)), N1))"

definition facade_close :: "cpp_handle \<Rightarrow> 'h native \<Rightarrow> unit cpp_result \<times> cpp_handle \<times> 'h native" where
  "facade_close = raw_card_close"

definition facade_reset ::
  "'h c_services \<Rightarrow> cpp_handle \<Rightarrow> 'h native \<Rightarrow> unit cpp_result \<times> cpp_handle \<times> 'h native" where
  "facade_reset = raw_card_reset"

definition facade_cancel ::
  "'h c_services \<Rightarrow> cpp_handle \<Rightarrow> 'h native \<Rightarrow> unit cpp_result \<times> cpp_handle \<times> 'h native" where
  "facade_cancel = raw_card_cancel"

definition facade_notify_state_change ::
  "cpp_handle \<Rightarrow> 'h native \<Rightarrow> unit cpp_result \<times> cpp_handle \<times> 'h native" where
  "facade_notify_state_change = raw_card_notify_state_change"

definition facade_reset_authentication :: "'h c_services \<Rightarrow> cpp_handle \<Rightarrow> ('h, unit) cpp_call" where
  "facade_reset_authentication S handle = raw_card_reset_authentication S handle"

definition facade_get_version ::
  "'h c_services \<Rightarrow> cpp_handle \<Rightarrow> 64 word \<Rightarrow> ('h, bytes) cpp_call" where
  "facade_get_version S handle timeout =
     timed_buffer timeout (\<lambda>t. raw_card_get_version S handle t)"

definition facade_free_memory ::
  "'h c_services \<Rightarrow> cpp_handle \<Rightarrow> 64 word \<Rightarrow> ('h, u32) cpp_call" where
  "facade_free_memory S handle timeout =
     timed timeout (\<lambda>t. raw_card_free_memory S handle t)"

definition facade_select_application ::
  "'h c_services \<Rightarrow> cpp_handle \<Rightarrow> u32 \<Rightarrow> 64 word \<Rightarrow>
    ('h, unit) cpp_call" where
  "facade_select_application S handle application timeout =
     timed timeout (\<lambda>t. raw_card_select_application S handle application t)"

definition facade_file_ids ::
  "'h c_services \<Rightarrow> cpp_handle \<Rightarrow> 64 word \<Rightarrow> ('h, bytes) cpp_call" where
  "facade_file_ids S handle timeout =
     timed_buffer timeout (\<lambda>t. raw_card_file_ids S handle t)"

definition facade_application_ids ::
  "'h c_services \<Rightarrow> cpp_handle \<Rightarrow> 64 word \<Rightarrow> ('h, bytes) cpp_call" where
  "facade_application_ids S handle timeout =
     timed_buffer timeout (\<lambda>t. raw_card_application_ids S handle t)"

definition facade_df_names ::
  "'h c_services \<Rightarrow> cpp_handle \<Rightarrow> 64 word \<Rightarrow> ('h, bytes) cpp_call" where
  "facade_df_names S handle timeout =
     timed_buffer timeout (\<lambda>t. raw_card_get_df_names S handle t)"

definition facade_iso_file_ids ::
  "'h c_services \<Rightarrow> cpp_handle \<Rightarrow> 64 word \<Rightarrow> ('h, bytes) cpp_call" where
  "facade_iso_file_ids S handle timeout =
     timed_buffer timeout (\<lambda>t. raw_card_iso_file_ids S handle t)"

definition facade_authenticate_standard_aes ::
  "'h c_services \<Rightarrow> cpp_handle \<Rightarrow> u32 \<Rightarrow> aes_key \<Rightarrow> 64 word
    \<Rightarrow> ('h, unit) cpp_call" where
  "facade_authenticate_standard_aes S handle key_no key timeout =
     after_check (validate_direct_authentication key_no key) (timed timeout (\<lambda>t.
       raw_card_authenticate_standard_aes S handle key_no (aes_key_argument key) t))"

definition facade_authenticate_standard_aes_derived ::
  "'h c_services \<Rightarrow> cpp_handle \<Rightarrow> aes_key \<Rightarrow> 'h cpp_deriver \<Rightarrow>
    cpp_context \<Rightarrow> 64 word \<Rightarrow> ('h, unit) cpp_call" where
  "facade_authenticate_standard_aes_derived S handle master_key deriver context timeout =
     after_call (derive_authentication_key master_key deriver context) (\<lambda>key.
       facade_authenticate_standard_aes S handle (xd_key_number context) key timeout)"

definition facade_authenticate_standard_aes_provided ::
  "'h c_services \<Rightarrow> cpp_handle \<Rightarrow> 'h cpp_provider \<Rightarrow> 'h cpp_key_request
    \<Rightarrow> 64 word \<Rightarrow> ('h, unit) cpp_call" where
  "facade_authenticate_standard_aes_provided S handle provider request timeout =
     after_check (validate_provider_authentication request (profile_number profile_standard_aes) False)
       (timed timeout (\<lambda>t. raw_card_authenticate_standard_aes_provider S handle (xd_key_number
       (xr_context request)) (Some (provider_descriptor provider request)) (Some (request_descriptor
       request)) t))"

definition facade_authenticate_ev2_first_aes ::
  "'h c_services \<Rightarrow> cpp_handle \<Rightarrow> u32 \<Rightarrow> aes_key \<Rightarrow> 64 word
    \<Rightarrow> ('h, cpp_authentication_info) cpp_call" where
  "facade_authenticate_ev2_first_aes S handle key_no key timeout =
     after_check (validate_direct_authentication key_no key) (timed timeout (\<lambda>t.
       raw_card_authenticate_ev2_first_aes S handle key_no (aes_key_argument key) t))"

definition facade_authenticate_ev2_first_aes_derived ::
  "'h c_services \<Rightarrow> cpp_handle \<Rightarrow> aes_key \<Rightarrow> 'h cpp_deriver \<Rightarrow>
    cpp_context \<Rightarrow> 64 word \<Rightarrow> ('h, cpp_authentication_info) cpp_call" where
  "facade_authenticate_ev2_first_aes_derived S handle master_key deriver context timeout =
     after_call (derive_authentication_key master_key deriver context) (\<lambda>key.
       facade_authenticate_ev2_first_aes S handle (xd_key_number context) key timeout)"

definition facade_authenticate_ev2_first_aes_provided ::
  "'h c_services \<Rightarrow> cpp_handle \<Rightarrow> 'h cpp_provider \<Rightarrow> 'h cpp_key_request
    \<Rightarrow> 64 word \<Rightarrow> ('h, cpp_authentication_info) cpp_call" where
  "facade_authenticate_ev2_first_aes_provided S handle provider request timeout =
     after_check (validate_provider_authentication request (profile_number profile_ev2_first) False) (timed
       timeout (\<lambda>t. raw_card_authenticate_ev2_first_aes_provider S handle (xd_key_number
       (xr_context request)) (Some (provider_descriptor provider request)) (Some (request_descriptor
       request)) t))"

definition require_capabilities :: "bytes \<Rightarrow> unit cpp_result" where
  "require_capabilities pcd =
     (if length pcd > 6 then Inl (cpp_invalid_argument ''PCD capabilities may contain at most six bytes'')
      else Inr ())"

definition facade_authenticate_ev2_first_aes_with_capabilities ::
  "'h c_services \<Rightarrow> cpp_handle \<Rightarrow> u32 \<Rightarrow> aes_key \<Rightarrow> bytes
    \<Rightarrow> 64 word \<Rightarrow> ('h, cpp_authentication_info) cpp_call" where
  "facade_authenticate_ev2_first_aes_with_capabilities S handle key_no key pcd timeout =
     after_check (validate_direct_authentication key_no key) (after_check (require_capabilities pcd) (timed
       timeout (\<lambda>t. raw_card_authenticate_ev2_first_aes_with_capabilities S handle key_no
       (aes_key_argument key) (byte_data pcd) t)))"

definition facade_authenticate_ev2_first_aes_with_capabilities_derived ::
  "'h c_services \<Rightarrow> cpp_handle \<Rightarrow> aes_key \<Rightarrow> 'h cpp_deriver \<Rightarrow>
    cpp_context \<Rightarrow> bytes \<Rightarrow> 64 word \<Rightarrow>
    ('h, cpp_authentication_info) cpp_call" where
  "facade_authenticate_ev2_first_aes_with_capabilities_derived S handle master_key deriver context pcd
    timeout =
     after_check (require_capabilities pcd) (after_call (derive_authentication_key master_key deriver
       context) (\<lambda>key. facade_authenticate_ev2_first_aes_with_capabilities S handle (xd_key_number
       context) key pcd timeout))"

definition facade_authenticate_ev2_first_aes_with_capabilities_provided ::
  "'h c_services \<Rightarrow> cpp_handle \<Rightarrow> 'h cpp_provider \<Rightarrow> 'h cpp_key_request
    \<Rightarrow> bytes \<Rightarrow> 64 word \<Rightarrow> ('h, cpp_authentication_info) cpp_call" where
  "facade_authenticate_ev2_first_aes_with_capabilities_provided S handle provider request pcd timeout =
     after_check (validate_provider_authentication request (profile_number profile_ev2_first) False)
       (after_check (require_capabilities pcd) (timed timeout (\<lambda>t.
       raw_card_authenticate_ev2_first_aes_with_capabilities_provider S handle (xd_key_number (xr_context
       request)) (Some (provider_descriptor provider request)) (Some (request_descriptor request))
       (byte_data pcd) t)))"

definition facade_authenticate_ev2_non_first_aes ::
  "'h c_services \<Rightarrow> cpp_handle \<Rightarrow> u32 \<Rightarrow> aes_key \<Rightarrow> 64 word
    \<Rightarrow> ('h, cpp_authentication_info) cpp_call" where
  "facade_authenticate_ev2_non_first_aes S handle key_no key timeout =
     after_check (validate_direct_authentication key_no key) (timed timeout (\<lambda>t.
       raw_card_authenticate_ev2_non_first_aes S handle key_no (aes_key_argument key) t))"

definition facade_authenticate_ev2_non_first_aes_derived ::
  "'h c_services \<Rightarrow> cpp_handle \<Rightarrow> aes_key \<Rightarrow> 'h cpp_deriver \<Rightarrow>
    cpp_context \<Rightarrow> 64 word \<Rightarrow> ('h, cpp_authentication_info) cpp_call" where
  "facade_authenticate_ev2_non_first_aes_derived S handle master_key deriver context timeout =
     after_call (derive_authentication_key master_key deriver context) (\<lambda>key.
       facade_authenticate_ev2_non_first_aes S handle (xd_key_number context) key timeout)"

definition facade_authenticate_ev2_non_first_aes_provided ::
  "'h c_services \<Rightarrow> cpp_handle \<Rightarrow> 'h cpp_provider \<Rightarrow> 'h cpp_key_request
    \<Rightarrow> 64 word \<Rightarrow> ('h, cpp_authentication_info) cpp_call" where
  "facade_authenticate_ev2_non_first_aes_provided S handle provider request timeout =
     after_check (validate_provider_authentication request (profile_number profile_ev2_non_first) False)
       (timed timeout (\<lambda>t. raw_card_authenticate_ev2_non_first_aes_provider S handle (xd_key_number
       (xr_context request)) (Some (provider_descriptor provider request)) (Some (request_descriptor
       request)) t))"

definition facade_authenticate_iso_aes ::
  "'h c_services \<Rightarrow> cpp_handle \<Rightarrow> u32 \<Rightarrow> bool \<Rightarrow> aes_key
    \<Rightarrow> 64 word \<Rightarrow> ('h, unit) cpp_call" where
  "facade_authenticate_iso_aes S handle key_no application_key key timeout =
     after_check (require_live_key key) (timed timeout (\<lambda>t. raw_card_authenticate_iso_aes S handle
       key_no (flag application_key) (aes_key_argument key) t))"

definition facade_authenticate_iso_aes_derived ::
  "'h c_services \<Rightarrow> cpp_handle \<Rightarrow> bool \<Rightarrow> aes_key \<Rightarrow> 'h
    cpp_deriver \<Rightarrow> cpp_context \<Rightarrow> 64 word \<Rightarrow> ('h, unit) cpp_call" where
  "facade_authenticate_iso_aes_derived S handle application_key master_key deriver context timeout =
     after_call (derive_authentication_key master_key deriver context) (\<lambda>key.
       facade_authenticate_iso_aes S handle (xd_key_number context) application_key key timeout)"

definition facade_authenticate_iso_aes_provided ::
  "'h c_services \<Rightarrow> cpp_handle \<Rightarrow> 'h cpp_provider \<Rightarrow> 'h cpp_key_request
    \<Rightarrow> 64 word \<Rightarrow> ('h, unit) cpp_call" where
  "facade_authenticate_iso_aes_provided S handle provider request timeout =
     after_check (validate_provider_authentication request (profile_number profile_iso_aes) True) (timed
       timeout (\<lambda>t. raw_card_authenticate_iso_aes_provider S handle (xd_key_number (xr_context
       request)) (flag (xr_scope request = scope_number scope_iso_application)) (Some (provider_descriptor
       provider request)) (Some (request_descriptor request)) t))"

definition facade_get_key_settings ::
  "'h c_services \<Rightarrow> cpp_handle \<Rightarrow> 64 word \<Rightarrow> ('h, bytes) cpp_call" where
  "facade_get_key_settings S handle timeout =
     timed_buffer timeout (\<lambda>t. raw_card_get_key_settings S handle t)"

definition facade_get_key_set_versions ::
  "'h c_services \<Rightarrow> cpp_handle \<Rightarrow> 64 word \<Rightarrow> ('h, bytes) cpp_call" where
  "facade_get_key_set_versions S handle timeout =
     timed_buffer timeout (\<lambda>t. raw_card_get_key_set_versions S handle t)"

definition facade_get_key_version ::
  "'h c_services \<Rightarrow> cpp_handle \<Rightarrow> u32 \<Rightarrow> u32 option \<Rightarrow> 64 word
    \<Rightarrow> ('h, bytes) cpp_call" where
  "facade_get_key_version S handle key key_set timeout =
     timed_buffer timeout (\<lambda>t. raw_card_get_key_version S handle key (optional_key_set key_set) t)"

definition facade_change_key_settings ::
  "'h c_services \<Rightarrow> cpp_handle \<Rightarrow> u32 \<Rightarrow> 64 word \<Rightarrow>
    ('h, unit) cpp_call" where
  "facade_change_key_settings S handle settings timeout =
     timed timeout (\<lambda>t. raw_card_change_key_settings S handle settings t)"

definition facade_initialize_key_set ::
  "'h c_services \<Rightarrow> cpp_handle \<Rightarrow> u32 \<Rightarrow> 64 word \<Rightarrow>
    ('h, unit) cpp_call" where
  "facade_initialize_key_set S handle key_set timeout =
     timed timeout (\<lambda>t. raw_card_initialize_key_set S handle key_set t)"

definition facade_roll_key_set ::
  "'h c_services \<Rightarrow> cpp_handle \<Rightarrow> u32 \<Rightarrow> 64 word \<Rightarrow>
    ('h, unit) cpp_call" where
  "facade_roll_key_set S handle key_set timeout =
     timed timeout (\<lambda>t. raw_card_roll_key_set S handle key_set t)"

definition facade_finalize_key_set ::
  "'h c_services \<Rightarrow> cpp_handle \<Rightarrow> u32 \<Rightarrow> u32 \<Rightarrow> 64 word
    \<Rightarrow> ('h, unit) cpp_call" where
  "facade_finalize_key_set S handle key_set version timeout =
     timed timeout (\<lambda>t. raw_card_finalize_key_set S handle key_set version t)"

definition facade_create_application ::
  "'h c_services \<Rightarrow> cpp_handle \<Rightarrow> cpp_application_configuration \<Rightarrow> 64 word
    \<Rightarrow> ('h, unit) cpp_call" where
  "facade_create_application S handle config timeout =
     timed timeout (\<lambda>t. raw_card_create_application S handle (xa_application config)
       (xa_key_settings config) (xa_number_of_keys config) (optional_iso_id (xa_iso_file_id config))
       (byte_data (xa_df_name config)) t)"

definition facade_delete_application ::
  "'h c_services \<Rightarrow> cpp_handle \<Rightarrow> u32 \<Rightarrow> 64 word \<Rightarrow>
    ('h, unit) cpp_call" where
  "facade_delete_application S handle application timeout =
     (if application = 0 then (\<lambda>N. (Inl (cpp_invalid_argument ''the PICC application cannot be
       deleted''), N)) else timed timeout (\<lambda>t. raw_card_delete_application S handle application
       t))"

definition facade_delete_file ::
  "'h c_services \<Rightarrow> cpp_handle \<Rightarrow> u32 \<Rightarrow> 64 word \<Rightarrow>
    ('h, unit) cpp_call" where
  "facade_delete_file S handle file_no timeout =
     timed timeout (\<lambda>t. raw_card_delete_file S handle file_no t)"

definition facade_get_file_settings ::
  "'h c_services \<Rightarrow> cpp_handle \<Rightarrow> u32 \<Rightarrow> 64 word \<Rightarrow>
    ('h, bytes) cpp_call" where
  "facade_get_file_settings S handle file_no timeout =
     timed_buffer timeout (\<lambda>t. raw_card_get_file_settings S handle file_no t)"

definition facade_get_file_counters ::
  "'h c_services \<Rightarrow> cpp_handle \<Rightarrow> u32 \<Rightarrow> u32 \<Rightarrow> 64 word
    \<Rightarrow> ('h, bytes) cpp_call" where
  "facade_get_file_counters S handle file_no communication timeout =
     timed_buffer timeout (\<lambda>t. raw_card_get_file_counters S handle file_no communication t)"

definition facade_read_data ::
  "'h c_services \<Rightarrow> cpp_handle \<Rightarrow> u32 \<Rightarrow> u32 \<Rightarrow> u32
    \<Rightarrow> u32 \<Rightarrow> 64 word \<Rightarrow> ('h, bytes) cpp_call" where
  "facade_read_data S handle file_no off len communication timeout =
     timed_buffer timeout (\<lambda>t. raw_card_read_data S handle file_no off len communication t)"

definition facade_write_data ::
  "'h c_services \<Rightarrow> cpp_handle \<Rightarrow> u32 \<Rightarrow> u32 \<Rightarrow> bytes
    \<Rightarrow> u32 \<Rightarrow> 64 word \<Rightarrow> ('h, unit) cpp_call" where
  "facade_write_data S handle file_no off data communication timeout =
     timed timeout (\<lambda>t. raw_card_write_data S handle file_no off (byte_data data) communication t)"

definition facade_read_records ::
  "'h c_services \<Rightarrow> cpp_handle \<Rightarrow> u32 \<Rightarrow> u32 \<Rightarrow> u32
    \<Rightarrow> u32 \<Rightarrow> 64 word \<Rightarrow> ('h, bytes) cpp_call" where
  "facade_read_records S handle file_no first count communication timeout =
     timed_buffer timeout (\<lambda>t. raw_card_read_records S handle file_no first count communication t)"

definition facade_write_record ::
  "'h c_services \<Rightarrow> cpp_handle \<Rightarrow> u32 \<Rightarrow> u32 \<Rightarrow> bytes
    \<Rightarrow> u32 \<Rightarrow> 64 word \<Rightarrow> ('h, unit) cpp_call" where
  "facade_write_record S handle file_no off data communication timeout =
     timed timeout (\<lambda>t. raw_card_write_record S handle file_no off (byte_data data) communication
       t)"

definition facade_update_record ::
  "'h c_services \<Rightarrow> cpp_handle \<Rightarrow> u32 \<Rightarrow> u32 \<Rightarrow> u32
    \<Rightarrow> bytes \<Rightarrow> u32 \<Rightarrow> 64 word \<Rightarrow> ('h, unit) cpp_call" where
  "facade_update_record S handle file_no record_no off data communication timeout =
     timed timeout (\<lambda>t. raw_card_update_record S handle file_no record_no off (byte_data data)
       communication t)"

definition facade_clear_record_file ::
  "'h c_services \<Rightarrow> cpp_handle \<Rightarrow> u32 \<Rightarrow> 64 word \<Rightarrow>
    ('h, unit) cpp_call" where
  "facade_clear_record_file S handle file_no timeout =
     timed timeout (\<lambda>t. raw_card_clear_record_file S handle file_no t)"

definition facade_get_value ::
  "'h c_services \<Rightarrow> cpp_handle \<Rightarrow> u32 \<Rightarrow> u32 \<Rightarrow> 64 word
    \<Rightarrow> ('h, i32) cpp_call" where
  "facade_get_value S handle file_no communication timeout =
     timed timeout (\<lambda>t. raw_card_get_value S handle file_no communication t)"

definition value_mutation ::
  "(u32 \<Rightarrow> u32 \<Rightarrow> u32 \<Rightarrow> u32 \<Rightarrow> ('h, unit) cpp_call) \<Rightarrow> u32 \<Rightarrow> u32 \<Rightarrow> u32 \<Rightarrow> 64 word \<Rightarrow> ('h, unit) cpp_call" where
  "value_mutation function file_no amount communication timeout =
     timed timeout (\<lambda>t. function file_no amount communication t)"

definition facade_credit ::
  "'h c_services \<Rightarrow> cpp_handle \<Rightarrow> u32 \<Rightarrow> u32 \<Rightarrow> u32
    \<Rightarrow> 64 word \<Rightarrow> ('h, unit) cpp_call" where
  "facade_credit S handle file_no amount communication timeout =
     value_mutation (raw_card_credit S handle) file_no amount communication timeout"

definition facade_debit ::
  "'h c_services \<Rightarrow> cpp_handle \<Rightarrow> u32 \<Rightarrow> u32 \<Rightarrow> u32
    \<Rightarrow> 64 word \<Rightarrow> ('h, unit) cpp_call" where
  "facade_debit S handle file_no amount communication timeout =
     value_mutation (raw_card_debit S handle) file_no amount communication timeout"

definition facade_limited_credit ::
  "'h c_services \<Rightarrow> cpp_handle \<Rightarrow> u32 \<Rightarrow> u32 \<Rightarrow> u32
    \<Rightarrow> 64 word \<Rightarrow> ('h, unit) cpp_call" where
  "facade_limited_credit S handle file_no amount communication timeout =
     value_mutation (raw_card_limited_credit S handle) file_no amount communication timeout"

definition facade_commit_transaction ::
  "'h c_services \<Rightarrow> cpp_handle \<Rightarrow> bool \<Rightarrow> 64 word \<Rightarrow>
    ('h, bytes) cpp_call" where
  "facade_commit_transaction S handle return_mac timeout =
     timed_buffer timeout (\<lambda>t. raw_card_commit_transaction S handle (flag return_mac) t)"

definition facade_abort_transaction ::
  "'h c_services \<Rightarrow> cpp_handle \<Rightarrow> 64 word \<Rightarrow> ('h, unit) cpp_call" where
  "facade_abort_transaction S handle timeout =
     timed timeout (\<lambda>t. raw_card_abort_transaction S handle t)"

definition facade_commit_reader_id ::
  "'h c_services \<Rightarrow> cpp_handle \<Rightarrow> bytes \<Rightarrow> 64 word \<Rightarrow>
    ('h, bytes) cpp_call" where
  "facade_commit_reader_id S handle reader_id timeout =
     timed_buffer timeout (\<lambda>t. raw_card_commit_reader_id S handle (byte_data reader_id) t)"

definition facade_restore_transfer ::
  "'h c_services \<Rightarrow> cpp_handle \<Rightarrow> u32 \<Rightarrow> u32 \<Rightarrow> u32
    \<Rightarrow> 64 word \<Rightarrow> ('h, unit) cpp_call" where
  "facade_restore_transfer S handle target source communication timeout =
     timed timeout (\<lambda>t. raw_card_restore_transfer S handle target source communication t)"

definition facade_create_data_file ::
  "'h c_services \<Rightarrow> cpp_handle \<Rightarrow> cpp_data_file_configuration \<Rightarrow> 64 word
    \<Rightarrow> ('h, unit) cpp_call" where
  "facade_create_data_file S handle config timeout =
     timed timeout (\<lambda>t. raw_card_create_data_file S handle (xf_file config) (xf_length config)
       (xf_communication config) (xf_access_rights config) (optional_iso_id (xf_iso_file_id config)) (flag
       (xf_backup config)) t)"

definition facade_create_value_file ::
  "'h c_services \<Rightarrow> cpp_handle \<Rightarrow> cpp_value_file_configuration \<Rightarrow> 64 word
    \<Rightarrow> ('h, unit) cpp_call" where
  "facade_create_value_file S handle config timeout =
     timed timeout (\<lambda>t. raw_card_create_value_file S handle (xv_file config) (xv_lower_limit
       config) (xv_upper_limit config) (xv_initial_value config) (xv_communication config)
       (xv_access_rights config) (flag (xv_limited_credit config)) (flag (xv_free_get_value config)) t)"

definition facade_create_record_file ::
  "'h c_services \<Rightarrow> cpp_handle \<Rightarrow> cpp_record_file_configuration \<Rightarrow> 64 word
    \<Rightarrow> ('h, unit) cpp_call" where
  "facade_create_record_file S handle config timeout =
     timed timeout (\<lambda>t. raw_card_create_record_file S handle (xo_file config) (xo_record_size
       config) (xo_maximum_records config) (xo_communication config) (xo_access_rights config)
       (optional_iso_id (xo_iso_file_id config)) (flag (xo_cyclic config)) t)"

definition facade_change_file_settings ::
  "'h c_services \<Rightarrow> cpp_handle \<Rightarrow> u32 \<Rightarrow> u32 \<Rightarrow> u32
    \<Rightarrow> u32 \<Rightarrow> 64 word \<Rightarrow> ('h, unit) cpp_call" where
  "facade_change_file_settings S handle file_no communication access command_communication timeout =
     timed timeout (\<lambda>t. raw_card_change_file_settings S handle file_no communication access
       command_communication t)"

definition facade_create_transaction_mac_file ::
  "'h c_services \<Rightarrow> cpp_handle \<Rightarrow> u32 \<Rightarrow> u32 \<Rightarrow> aes_key
    \<Rightarrow> u32 \<Rightarrow> 64 word \<Rightarrow> ('h, unit) cpp_call" where
  "facade_create_transaction_mac_file S handle file_no access key version timeout =
     after_check (require_live_key key) (timed timeout (\<lambda>t. raw_card_create_transaction_mac_file S
       handle file_no access (aes_key_argument key) version t))"

definition facade_create_transaction_mac_file_derived ::
  "'h c_services \<Rightarrow> cpp_handle \<Rightarrow> u32 \<Rightarrow> u32 \<Rightarrow> aes_key
    \<Rightarrow> 'h cpp_deriver \<Rightarrow> cpp_context \<Rightarrow> u32 \<Rightarrow> 64 word
    \<Rightarrow> ('h, unit) cpp_call" where
  "facade_create_transaction_mac_file_derived S handle file_no access master_key deriver context version
    timeout =
     after_call (facade_derive_key master_key deriver context (purpose_number purpose_transaction_mac))
       (\<lambda>key. facade_create_transaction_mac_file S handle file_no access key version timeout)"

definition facade_create_transaction_mac_file_provided ::
  "'h c_services \<Rightarrow> cpp_handle \<Rightarrow> u32 \<Rightarrow> u32 \<Rightarrow> 'h cpp_provider
    \<Rightarrow> 'h cpp_key_request \<Rightarrow> u32 \<Rightarrow> 64 word \<Rightarrow>
    ('h, unit) cpp_call" where
  "facade_create_transaction_mac_file_provided S handle file_no access provider request version timeout =
     after_check (facade_validate_request request (purpose_number purpose_transaction_mac)) (timed timeout
       (\<lambda>t. raw_card_create_transaction_mac_file_provider S handle file_no access (Some
       (provider_descriptor provider request)) (Some (request_descriptor request)) version t))"

definition facade_change_aes_key ::
  "'h c_services \<Rightarrow> cpp_handle \<Rightarrow> cpp_change_key_configuration \<Rightarrow> aes_key
    \<Rightarrow> aes_key option \<Rightarrow> 64 word \<Rightarrow> ('h, unit) cpp_call" where
  "facade_change_aes_key S handle config replacement old_key timeout =
     (if \<not> ak_valid replacement \<or> (\<exists>key\<in>set_option old_key. \<not> ak_valid key) then
       (\<lambda>N. (Inl empty_key_error, N)) else timed timeout (\<lambda>t. raw_card_change_aes_key S
       handle (xk_key config) (aes_key_argument replacement) (xk_version config) (xk_authenticated_key
       config) (case old_key of None \<Rightarrow> Null_bytes 0 | Some key \<Rightarrow> aes_key_argument
       key) (optional_key_set (xk_key_set config)) (flag (xk_picc_master config)) t))"

definition facade_change_aes_key_provided ::
  "'h c_services \<Rightarrow> cpp_handle \<Rightarrow> cpp_change_key_configuration \<Rightarrow> 'h
    cpp_provider \<Rightarrow> 'h cpp_key_request \<Rightarrow> 'h cpp_provider option \<Rightarrow> 'h
    cpp_key_request option \<Rightarrow> 64 word \<Rightarrow> ('h, unit) cpp_call" where
  "facade_change_aes_key_provided S handle config replacement_provider replacement_request old_provider
    old_request timeout =
     after_check (facade_validate_request replacement_request (purpose_number purpose_replacement_key)) (if
       (old_provider = None) \<noteq> (old_request = None) then (\<lambda>N. (Inl (cpp_invalid_argument
       ''old key provider and request must either both be present or both be absent''), N)) else
       after_check (case old_request of None \<Rightarrow> Inr () | Some request \<Rightarrow>
       facade_validate_request request (purpose_number purpose_current_key)) (timed timeout (\<lambda>t.
       raw_card_change_aes_key_provider S handle (xk_key config) (Some (provider_descriptor
       replacement_provider replacement_request)) (Some (request_descriptor replacement_request))
       (xk_version config) (xk_authenticated_key config) (case (old_provider, old_request) of (Some
       provider, Some request) \<Rightarrow> Some (provider_descriptor provider request) | _ \<Rightarrow>
       None) (map_option request_descriptor old_request) (optional_key_set (xk_key_set config)) (flag
       (xk_picc_master config)) t)))"

definition facade_get_card_uid ::
  "'h c_services \<Rightarrow> cpp_handle \<Rightarrow> 64 word \<Rightarrow> ('h, bytes) cpp_call" where
  "facade_get_card_uid S handle timeout =
     timed_buffer timeout (\<lambda>t. raw_card_get_card_uid S handle t)"

definition facade_get_card_uid_variant ::
  "'h c_services \<Rightarrow> cpp_handle \<Rightarrow> u32 \<Rightarrow> 64 word \<Rightarrow>
    ('h, bytes) cpp_call" where
  "facade_get_card_uid_variant S handle option timeout =
     timed_buffer timeout (\<lambda>t. raw_card_get_card_uid_variant S handle option t)"

definition facade_read_originality_signature ::
  "'h c_services \<Rightarrow> cpp_handle \<Rightarrow> 64 word \<Rightarrow> ('h, bytes) cpp_call" where
  "facade_read_originality_signature S handle timeout =
     timed_buffer timeout (\<lambda>t. raw_card_read_originality_signature S handle t)"

definition facade_format_picc ::
  "'h c_services \<Rightarrow> cpp_handle \<Rightarrow> 64 word \<Rightarrow> ('h, unit) cpp_call" where
  "facade_format_picc S handle timeout =
     timed timeout (\<lambda>t. raw_card_format_picc S handle t)"

definition picc_descriptor :: "cpp_picc_configuration \<Rightarrow> c_picc_configuration" where
  "picc_descriptor config =
     \<lparr>cp_struct_size = sizeof_picc_configuration, cp_abi_version = df_abi_version,
      cp_disable_format = flag (xp_disable_format config),
      cp_random_identifier = flag (xp_random_identifier config),
      cp_proximity_check_mandatory = flag (xp_proximity_check_mandatory config),
      cp_virtual_card_authentication_mandatory = flag (xp_virtual_card_authentication_mandatory config),
      cp_error_code_binding = flag (xp_error_code_binding config),
      cp_random_identifier_configuration = flag (xp_random_identifier_configuration config),
      cp_four_byte_nuid_configuration = flag (xp_four_byte_nuid_configuration config),
      cp_reserved = replicate 8 0\<rparr>"

definition facade_set_picc_configuration ::
  "'h c_services \<Rightarrow> cpp_handle \<Rightarrow> cpp_picc_configuration \<Rightarrow> 64 word
    \<Rightarrow> ('h, unit) cpp_call" where
  "facade_set_picc_configuration S handle config timeout =
     timed timeout (\<lambda>t. raw_card_set_picc_configuration S handle (Some (picc_descriptor config))
       t)"

definition facade_set_capability_configuration ::
  "'h c_services \<Rightarrow> cpp_handle \<Rightarrow> bytes \<Rightarrow> 64 word \<Rightarrow>
    ('h, unit) cpp_call" where
  "facade_set_capability_configuration S handle capabilities timeout =
     timed timeout (\<lambda>t. raw_card_set_capability_configuration S handle (byte_data capabilities) t)"

definition facade_set_default_aes_key ::
  "'h c_services \<Rightarrow> cpp_handle \<Rightarrow> aes_key \<Rightarrow> u32 \<Rightarrow> 64 word
    \<Rightarrow> ('h, unit) cpp_call" where
  "facade_set_default_aes_key S handle key version timeout =
     after_check (require_live_key key) (timed timeout (\<lambda>t. raw_card_set_default_aes_key S handle
       (aes_key_argument key) version t))"

definition facade_set_default_aes_key_derived ::
  "'h c_services \<Rightarrow> cpp_handle \<Rightarrow> aes_key \<Rightarrow> 'h cpp_deriver \<Rightarrow>
    cpp_context \<Rightarrow> u32 \<Rightarrow> 64 word \<Rightarrow> ('h, unit) cpp_call" where
  "facade_set_default_aes_key_derived S handle master_key deriver context version timeout =
     after_call (facade_derive_key master_key deriver context (purpose_number purpose_replacement_key))
       (\<lambda>key. facade_set_default_aes_key S handle key version timeout)"

definition facade_set_default_aes_key_provided ::
  "'h c_services \<Rightarrow> cpp_handle \<Rightarrow> 'h cpp_provider \<Rightarrow> 'h cpp_key_request
    \<Rightarrow> u32 \<Rightarrow> 64 word \<Rightarrow> ('h, unit) cpp_call" where
  "facade_set_default_aes_key_provided S handle provider request version timeout =
     after_check (facade_validate_request request (purpose_number purpose_replacement_key)) (timed timeout
       (\<lambda>t. raw_card_set_default_aes_key_provider S handle (Some (provider_descriptor provider
       request)) (Some (request_descriptor request)) version t))"

definition facade_set_ats ::
  "'h c_services \<Rightarrow> cpp_handle \<Rightarrow> bytes \<Rightarrow> 64 word \<Rightarrow>
    ('h, unit) cpp_call" where
  "facade_set_ats S handle ats timeout =
     timed timeout (\<lambda>t. raw_card_set_ats S handle (byte_data ats) t)"

definition facade_set_atqa ::
  "'h c_services \<Rightarrow> cpp_handle \<Rightarrow> u16 \<Rightarrow> 64 word \<Rightarrow>
    ('h, unit) cpp_call" where
  "facade_set_atqa S handle atqa timeout =
     timed timeout (\<lambda>t. raw_card_set_atqa S handle (ucast atqa) t)"

definition facade_iso_select_file ::
  "'h c_services \<Rightarrow> cpp_handle \<Rightarrow> u32 \<Rightarrow> u32 \<Rightarrow> u32
    \<Rightarrow> 64 word \<Rightarrow> ('h, bytes) cpp_call" where
  "facade_iso_select_file S handle identifier selection response timeout =
     timed_buffer timeout (\<lambda>t. raw_card_iso_select_file S handle identifier selection response t)"

definition facade_iso_select_df_name ::
  "'h c_services \<Rightarrow> cpp_handle \<Rightarrow> bytes \<Rightarrow> u32 \<Rightarrow> 64 word
    \<Rightarrow> ('h, bytes) cpp_call" where
  "facade_iso_select_df_name S handle name response timeout =
     timed_buffer timeout (\<lambda>t. raw_card_iso_select_df_name S handle (byte_data name) response t)"

definition facade_iso_read_binary ::
  "'h c_services \<Rightarrow> cpp_handle \<Rightarrow> u32 option \<Rightarrow> u32 \<Rightarrow> u32
    \<Rightarrow> 64 word \<Rightarrow> ('h, bytes) cpp_call" where
  "facade_iso_read_binary S handle short_identifier off len timeout =
     timed_buffer timeout (\<lambda>t. raw_card_iso_read_binary S handle (optional_short_id
       short_identifier) off len t)"

definition facade_iso_update_binary ::
  "'h c_services \<Rightarrow> cpp_handle \<Rightarrow> u32 option \<Rightarrow> u32 \<Rightarrow> bytes
    \<Rightarrow> 64 word \<Rightarrow> ('h, bytes) cpp_call" where
  "facade_iso_update_binary S handle short_identifier off data timeout =
     timed_buffer timeout (\<lambda>t. raw_card_iso_update_binary S handle (optional_short_id
       short_identifier) off (byte_data data) t)"

definition facade_iso_read_records ::
  "'h c_services \<Rightarrow> cpp_handle \<Rightarrow> u32 \<Rightarrow> u32 \<Rightarrow> u32
    \<Rightarrow> u32 \<Rightarrow> 64 word \<Rightarrow> ('h, bytes) cpp_call" where
  "facade_iso_read_records S handle record_no short_identifier selection len timeout =
     timed_buffer timeout (\<lambda>t. raw_card_iso_read_records S handle record_no short_identifier
       selection len t)"

definition facade_iso_append_record ::
  "'h c_services \<Rightarrow> cpp_handle \<Rightarrow> u32 \<Rightarrow> bytes \<Rightarrow> 64 word
    \<Rightarrow> ('h, bytes) cpp_call" where
  "facade_iso_append_record S handle short_identifier data timeout =
     timed_buffer timeout (\<lambda>t. raw_card_iso_append_record S handle short_identifier (byte_data
       data) t)"

definition facade_iso_get_challenge ::
  "'h c_services \<Rightarrow> cpp_handle \<Rightarrow> u32 \<Rightarrow> 64 word \<Rightarrow>
    ('h, bytes) cpp_call" where
  "facade_iso_get_challenge S handle len timeout =
     timed_buffer timeout (\<lambda>t. raw_card_iso_get_challenge S handle len t)"

definition facade_iso_external_authenticate ::
  "'h c_services \<Rightarrow> cpp_handle \<Rightarrow> u32 \<Rightarrow> bool \<Rightarrow> u32
    \<Rightarrow> bytes \<Rightarrow> 64 word \<Rightarrow> ('h, bytes) cpp_call" where
  "facade_iso_external_authenticate S handle key_number application_key algorithm data timeout =
     timed_buffer timeout (\<lambda>t. raw_card_iso_external_authenticate S handle key_number (flag
       application_key) algorithm (byte_data data) t)"

definition facade_iso_internal_authenticate ::
  "'h c_services \<Rightarrow> cpp_handle \<Rightarrow> u32 \<Rightarrow> bool \<Rightarrow> u32
    \<Rightarrow> bytes \<Rightarrow> 64 word \<Rightarrow> ('h, bytes) cpp_call" where
  "facade_iso_internal_authenticate S handle key_number application_key algorithm data timeout =
     timed_buffer timeout (\<lambda>t. raw_card_iso_internal_authenticate S handle key_number (flag
       application_key) algorithm (byte_data data) t)"

end
