(* ===== verification/Cpp_Offline.thy ===== *)
theory Cpp_Offline
  imports Cpp_Card
begin

text \<open>
  The offline helpers of the C++17 facade (\<^verbatim>\<open>sdk/cpp17/include/desfire/cpp17/offline.hpp\<close>):
  each checks the identity of the library and its key or request, makes one call of the C interface and
  copies the result. Overloads that take a provider have the suffix \<open>_provided\<close>.
\<close>

section \<open>Configurations and keys\<close>

record cpp_key_set_configuration =
  xq_active_version :: byte
  xq_number_of_sets :: byte
  xq_maximum_key_size :: byte
  xq_settings :: byte

record cpp_delegated_configuration =
  xd2_application_id :: u32
  xd2_key_settings :: byte
  xd2_number_of_keys :: byte
  xd2_slot :: u16
  xd2_slot_version :: byte
  xd2_quota_limit :: u16
  xd2_iso_file_identifiers :: bool
  xd2_key_settings3 :: "byte option"
  xd2_iso_id :: "u16 option"
  xd2_df_name :: bytes
  xd2_key_set :: "cpp_key_set_configuration option"

record cpp_transaction_keys =
  xt_mac_key :: bytes
  xt_encryption_key :: bytes

definition derive_aes128_key ::
  "aes_key \<Rightarrow> 'h cpp_deriver \<Rightarrow> cpp_context \<Rightarrow> u32 \<Rightarrow> ('h, aes_key) cpp_call" where
  "derive_aes128_key master_key deriver context expected_purpose N =
     (if \<not> ak_valid master_key \<or> xd_purpose context \<noteq> expected_purpose \<or>
         length (xd_diversification context) > 65536 \<or> length (xd_user_context context) > 65536 \<or>
         length (xd_diversification context) > 65536 - length (xd_user_context context)
      then (Inl (cpp_invalid_argument ''invalid offline derivation key, purpose or context''), N)
      else (case on_native_host (deriver master_key context) N of
         (Inl e, N1) \<Rightarrow> (Inl (e\<lparr>xe_outcome := outcome_number OC_not_sent, xe_status := 0\<rparr>), N1)
       | (Inr key, N1) \<Rightarrow>
           (if ak_valid key then Inr key
            else Inl \<lparr>xe_code = error_number EC_crypto, xe_outcome = outcome_number OC_not_sent, xe_status = 0,
                      xe_message = ''AES-128 deriver returned an invalid key''\<rparr>, N1)))"

section \<open>Shared steps\<close>

definition buffer_result :: "i32 \<Rightarrow> nat option \<Rightarrow> c_error \<Rightarrow> ('h, bytes) cpp_call" where
  "buffer_result status buffer err N =
     (let owned = buffer_adopt buffer
      in if status \<noteq> 0 then (Inl (native_error status err), buffer_destroy owned N)
         else (case buffer_copy owned N of (bytes, N1) \<Rightarrow> (Inr bytes, buffer_destroy owned N1)))"

definition offline_buffer :: "('h, bytes) c_function \<Rightarrow> ('h, bytes) cpp_call" where
  "offline_buffer call N =
     (case on_library call N of
        (ret, N1) \<Rightarrow>
          (case stored_buffer (ret_value ret) N1 of
             (buffer, N2) \<Rightarrow> buffer_result (ret_code ret) buffer (error_storage ret) N2))"

definition verified_flag :: "('h, u32) cpp_call \<Rightarrow> ('h, bool) cpp_call" where
  "verified_flag call N =
     (case call N of (Inl e, N1) \<Rightarrow> (Inl e, N1) | (Inr verified, N1) \<Rightarrow> (Inr (verified \<noteq> 0), N1))"

definition require_key :: "library_identity \<Rightarrow> aes_key \<Rightarrow> string \<Rightarrow> unit cpp_result" where
  "require_key loaded key message =
     (case validate_native_identity loaded of
        Inl e \<Rightarrow> Inl e
      | Inr _ \<Rightarrow> if ak_valid key then Inr () else Inl (cpp_invalid_argument message))"

definition require_request :: "library_identity \<Rightarrow> 'h cpp_key_request \<Rightarrow> u32 \<Rightarrow> unit cpp_result" where
  "require_request loaded request purpose =
     (case validate_native_identity loaded of
        Inl e \<Rightarrow> Inl e
      | Inr _ \<Rightarrow>
          (case validate_key_request request of
             Inl e \<Rightarrow> Inl e
           | Inr _ \<Rightarrow>
               if xd_purpose (xr_context request) \<noteq> purpose
               then Inl (cpp_invalid_argument ''key request purpose does not match operation'') else Inr ()))"

definition delegated_descriptor :: "cpp_delegated_configuration \<Rightarrow> c_delegated_configuration" where
  "delegated_descriptor v =
     \<lparr>dl_struct_size = sizeof_delegated_configuration, dl_abi_version = df_abi_version,
      dl_application_id = xd2_application_id v, dl_key_settings = ucast (xd2_key_settings v),
      dl_number_of_keys = ucast (xd2_number_of_keys v), dl_slot = ucast (xd2_slot v),
      dl_slot_version = ucast (xd2_slot_version v), dl_quota_limit = ucast (xd2_quota_limit v),
      dl_iso_file_identifiers = flag (xd2_iso_file_identifiers v),
      dl_key_settings3 = (case xd2_key_settings3 v of None \<Rightarrow> -1 | Some b \<Rightarrow> ucast b),
      dl_iso_id = (case xd2_iso_id v of None \<Rightarrow> -1 | Some n \<Rightarrow> ucast n),
      dl_df_name = byte_data (xd2_df_name v),
      dl_has_key_sets = (case xd2_key_set v of None \<Rightarrow> 0 | Some _ \<Rightarrow> 1),
      dl_active_key_set_version = (case xd2_key_set v of None \<Rightarrow> 0 | Some k \<Rightarrow> ucast (xq_active_version k)),
      dl_number_of_key_sets = (case xd2_key_set v of None \<Rightarrow> 0 | Some k \<Rightarrow> ucast (xq_number_of_sets k)),
      dl_maximum_key_size = (case xd2_key_set v of None \<Rightarrow> 0 | Some k \<Rightarrow> ucast (xq_maximum_key_size k)),
      dl_key_set_settings = (case xd2_key_set v of None \<Rightarrow> 0 | Some k \<Rightarrow> ucast (xq_settings k)),
      dl_reserved = replicate 8 0\<rparr>"

definition split_transaction_keys :: "('h, bytes) cpp_call \<Rightarrow> ('h, cpp_transaction_keys) cpp_call" where
  "split_transaction_keys call N =
     (case call N of
        (Inl e, N1) \<Rightarrow> (Inl e, N1)
      | (Inr bytes, N1) \<Rightarrow>
          (if length bytes \<noteq> 32
           then Inl (cpp_invalid_argument ''native transaction keys have an invalid length'')
           else Inr \<lparr>xt_mac_key = take 16 bytes, xt_encryption_key = drop 16 bytes\<rparr>, N1))"

section \<open>The helpers\<close>

definition facade_offline_derive_nxp_aes128 ::
  "'h c_services \<Rightarrow> library_identity \<Rightarrow> aes_key \<Rightarrow> bytes \<Rightarrow>
    ('h, bytes) cpp_call" where
  "facade_offline_derive_nxp_aes128 S loaded master_key diversification =
     after_check (require_key loaded master_key ''AES-128 master key ownership is empty'') (offline_buffer
       (df_offline_derive_nxp_aes128 S (aes_key_argument master_key) (byte_data diversification)
       fresh_buffer fresh_error))"

definition facade_offline_derive_nxp_aes128_provided ::
  "'h c_services \<Rightarrow> library_identity \<Rightarrow> 'h cpp_provider \<Rightarrow> 'h
    cpp_key_request \<Rightarrow> ('h, bytes) cpp_call" where
  "facade_offline_derive_nxp_aes128_provided S loaded provider request =
     after_check (require_request loaded request (purpose_number purpose_offline_operation))
       (offline_buffer (df_offline_derive_nxp_aes128_provider S (Some (provider_descriptor provider
       request)) (Some (request_descriptor request)) fresh_buffer fresh_error))"

definition facade_offline_encrypt_delegated_default_key_aes ::
  "'h c_services \<Rightarrow> library_identity \<Rightarrow> aes_key \<Rightarrow> aes_key \<Rightarrow>
    byte \<Rightarrow> ('h, bytes) cpp_call" where
  "facade_offline_encrypt_delegated_default_key_aes S loaded dam_encryption_key application_default_key
    version =
     after_check (require_key loaded dam_encryption_key ''DAMEncKey is empty'') (after_check (require_key
       loaded application_default_key ''delegated application default key is empty'') (offline_buffer
       (df_offline_encrypt_delegated_default_key_aes S (aes_key_argument dam_encryption_key)
       (aes_key_argument application_default_key) (ucast version) fresh_buffer fresh_error)))"

definition facade_offline_encrypt_delegated_default_key_aes_provided ::
  "'h c_services \<Rightarrow> library_identity \<Rightarrow> 'h cpp_provider \<Rightarrow> 'h
    cpp_key_request \<Rightarrow> aes_key \<Rightarrow> byte \<Rightarrow> ('h, bytes) cpp_call" where
  "facade_offline_encrypt_delegated_default_key_aes_provided S loaded provider request
    application_default_key version =
     after_check (require_request loaded request (purpose_number purpose_delegated_application))
       (after_check (require_key loaded application_default_key ''delegated application default key is
       empty'') (offline_buffer (df_offline_encrypt_delegated_default_key_aes_provider S (Some
       (provider_descriptor provider request)) (Some (request_descriptor request)) (aes_key_argument
       application_default_key) (ucast version) fresh_buffer fresh_error)))"

definition facade_offline_calculate_delegated_application_mac_aes ::
  "'h c_services \<Rightarrow> library_identity \<Rightarrow> aes_key \<Rightarrow>
    cpp_delegated_configuration \<Rightarrow> bytes \<Rightarrow> ('h, bytes) cpp_call" where
  "facade_offline_calculate_delegated_application_mac_aes S loaded dam_mac_key config encrypted_default_key
    =
     after_check (require_key loaded dam_mac_key ''DAMMACKey is empty'') (offline_buffer
       (df_offline_calculate_delegated_application_mac_aes S (aes_key_argument dam_mac_key) (Some
       (delegated_descriptor config)) (byte_data encrypted_default_key) fresh_buffer fresh_error))"

definition facade_offline_calculate_delegated_application_mac_aes_provided ::
  "'h c_services \<Rightarrow> library_identity \<Rightarrow> 'h cpp_provider \<Rightarrow> 'h
    cpp_key_request \<Rightarrow> cpp_delegated_configuration \<Rightarrow> bytes \<Rightarrow>
    ('h, bytes) cpp_call" where
  "facade_offline_calculate_delegated_application_mac_aes_provided S loaded provider request config
    encrypted_default_key =
     after_check (require_request loaded request (purpose_number purpose_delegated_application))
       (offline_buffer (df_offline_calculate_delegated_application_mac_aes_provider S (Some
       (provider_descriptor provider request)) (Some (request_descriptor request)) (Some
       (delegated_descriptor config)) (byte_data encrypted_default_key) fresh_buffer fresh_error))"

definition facade_offline_calculate_delegated_application_delete_mac_aes ::
  "'h c_services \<Rightarrow> library_identity \<Rightarrow> aes_key \<Rightarrow> u32 \<Rightarrow>
    ('h, bytes) cpp_call" where
  "facade_offline_calculate_delegated_application_delete_mac_aes S loaded dam_mac_key application_id =
     after_check (require_key loaded dam_mac_key ''DAMMACKey is empty'') (offline_buffer
       (df_offline_calculate_delegated_application_delete_mac_aes S (aes_key_argument dam_mac_key)
       application_id fresh_buffer fresh_error))"

definition facade_offline_calculate_delegated_application_delete_mac_aes_provided ::
  "'h c_services \<Rightarrow> library_identity \<Rightarrow> 'h cpp_provider \<Rightarrow> 'h
    cpp_key_request \<Rightarrow> u32 \<Rightarrow> ('h, bytes) cpp_call" where
  "facade_offline_calculate_delegated_application_delete_mac_aes_provided S loaded provider request
    application_id =
     after_check (require_request loaded request (purpose_number purpose_delegated_application))
       (offline_buffer (df_offline_calculate_delegated_application_delete_mac_aes_provider S (Some
       (provider_descriptor provider request)) (Some (request_descriptor request)) application_id
       fresh_buffer fresh_error))"

definition facade_offline_calculate_delegated_configuration_mac_aes ::
  "'h c_services \<Rightarrow> library_identity \<Rightarrow> aes_key \<Rightarrow> bytes \<Rightarrow>
    bytes \<Rightarrow> ('h, bytes) cpp_call" where
  "facade_offline_calculate_delegated_configuration_mac_aes S loaded dam_mac_key old_df_name new_df_name =
     after_check (require_key loaded dam_mac_key ''DAMMACKey is empty'') (offline_buffer
       (df_offline_calculate_delegated_configuration_mac_aes S (aes_key_argument dam_mac_key) (byte_data
       old_df_name) (byte_data new_df_name) fresh_buffer fresh_error))"

definition facade_offline_calculate_delegated_configuration_mac_aes_provided ::
  "'h c_services \<Rightarrow> library_identity \<Rightarrow> 'h cpp_provider \<Rightarrow> 'h
    cpp_key_request \<Rightarrow> bytes \<Rightarrow> bytes \<Rightarrow> ('h, bytes) cpp_call" where
  "facade_offline_calculate_delegated_configuration_mac_aes_provided S loaded provider request old_df_name
    new_df_name =
     after_check (require_request loaded request (purpose_number purpose_delegated_application))
       (offline_buffer (df_offline_calculate_delegated_configuration_mac_aes_provider S (Some
       (provider_descriptor provider request)) (Some (request_descriptor request)) (byte_data old_df_name)
       (byte_data new_df_name) fresh_buffer fresh_error))"

definition facade_offline_calculate_mfc_license_mac_aes ::
  "'h c_services \<Rightarrow> library_identity \<Rightarrow> aes_key \<Rightarrow> bytes \<Rightarrow>
    bytes \<Rightarrow> ('h, bytes) cpp_call" where
  "facade_offline_calculate_mfc_license_mac_aes S loaded license_mac_key license sector_secrets =
     after_check (require_key loaded license_mac_key ''MFCLicenseMACKey is empty'') (offline_buffer
       (df_offline_calculate_mfc_license_mac_aes S (aes_key_argument license_mac_key) (byte_data license)
       (byte_data sector_secrets) fresh_buffer fresh_error))"

definition facade_offline_calculate_mfc_license_mac_aes_provided ::
  "'h c_services \<Rightarrow> library_identity \<Rightarrow> 'h cpp_provider \<Rightarrow> 'h
    cpp_key_request \<Rightarrow> bytes \<Rightarrow> bytes \<Rightarrow> ('h, bytes) cpp_call" where
  "facade_offline_calculate_mfc_license_mac_aes_provided S loaded provider request license sector_secrets =
     after_check (require_request loaded request (purpose_number purpose_offline_operation))
       (offline_buffer (df_offline_calculate_mfc_license_mac_aes_provider S (Some (provider_descriptor
       provider request)) (Some (request_descriptor request)) (byte_data license) (byte_data
       sector_secrets) fresh_buffer fresh_error))"

definition facade_offline_derive_transaction_mac_keys_aes ::
  "'h c_services \<Rightarrow> library_identity \<Rightarrow> aes_key \<Rightarrow> u32 \<Rightarrow> bytes
    \<Rightarrow> ('h, cpp_transaction_keys) cpp_call" where
  "facade_offline_derive_transaction_mac_keys_aes S loaded transaction_key counter uid =
     after_check (require_key loaded transaction_key ''transaction key is empty'') (split_transaction_keys
       (offline_buffer (df_offline_derive_transaction_mac_keys_aes S (aes_key_argument transaction_key)
       counter (byte_data uid) fresh_buffer fresh_error)))"

definition facade_offline_derive_transaction_mac_keys_aes_provided ::
  "'h c_services \<Rightarrow> library_identity \<Rightarrow> 'h cpp_provider \<Rightarrow> 'h
    cpp_key_request \<Rightarrow> u32 \<Rightarrow> bytes \<Rightarrow>
    ('h, cpp_transaction_keys) cpp_call" where
  "facade_offline_derive_transaction_mac_keys_aes_provided S loaded provider request counter uid =
     after_check (require_request loaded request (purpose_number purpose_transaction_mac))
       (split_transaction_keys (offline_buffer (df_offline_derive_transaction_mac_keys_aes_provider S (Some
       (provider_descriptor provider request)) (Some (request_descriptor request)) counter (byte_data uid)
       fresh_buffer fresh_error)))"

definition facade_offline_calculate_transaction_mac_session_aes ::
  "'h c_services \<Rightarrow> library_identity \<Rightarrow> aes_key \<Rightarrow> bytes \<Rightarrow>
    ('h, bytes) cpp_call" where
  "facade_offline_calculate_transaction_mac_session_aes S loaded session_mac_key transaction_input =
     after_check (require_key loaded session_mac_key ''transaction session key is empty'') (offline_buffer
       (df_offline_calculate_transaction_mac_session_aes S (aes_key_argument session_mac_key) (byte_data
       transaction_input) fresh_buffer fresh_error))"

definition facade_offline_calculate_transaction_mac_aes ::
  "'h c_services \<Rightarrow> library_identity \<Rightarrow> aes_key \<Rightarrow> u32 \<Rightarrow> bytes
    \<Rightarrow> bytes \<Rightarrow> ('h, bytes) cpp_call" where
  "facade_offline_calculate_transaction_mac_aes S loaded transaction_mac_key counter uid transaction_input
    =
     after_check (require_key loaded transaction_mac_key ''AES-128 transaction-MAC key ownership is
       empty'') (offline_buffer (df_offline_calculate_transaction_mac_aes S (aes_key_argument
       transaction_mac_key) counter (byte_data uid) (byte_data transaction_input) fresh_buffer
       fresh_error))"

definition facade_offline_calculate_transaction_mac_aes_provided ::
  "'h c_services \<Rightarrow> library_identity \<Rightarrow> 'h cpp_provider \<Rightarrow> 'h
    cpp_key_request \<Rightarrow> u32 \<Rightarrow> bytes \<Rightarrow> bytes \<Rightarrow>
    ('h, bytes) cpp_call" where
  "facade_offline_calculate_transaction_mac_aes_provided S loaded provider request counter uid
    transaction_input =
     after_check (require_request loaded request (purpose_number purpose_transaction_mac)) (offline_buffer
       (df_offline_calculate_transaction_mac_aes_provider S (Some (provider_descriptor provider request))
       (Some (request_descriptor request)) counter (byte_data uid) (byte_data transaction_input)
       fresh_buffer fresh_error))"

definition facade_offline_verify_transaction_mac_aes ::
  "'h c_services \<Rightarrow> library_identity \<Rightarrow> aes_key \<Rightarrow> u32 \<Rightarrow> bytes
    \<Rightarrow> bytes \<Rightarrow> bytes \<Rightarrow> ('h, bool) cpp_call" where
  "facade_offline_verify_transaction_mac_aes S loaded transaction_key counter uid transaction_input mac =
     after_check (require_key loaded transaction_key ''transaction key is empty'') (verified_flag
       (wrap_scalar 0 (df_offline_verify_transaction_mac_aes S (aes_key_argument transaction_key) counter
       (byte_data uid) (byte_data transaction_input) (byte_data mac) True fresh_error)))"

definition facade_offline_verify_transaction_mac_aes_provided ::
  "'h c_services \<Rightarrow> library_identity \<Rightarrow> 'h cpp_provider \<Rightarrow> 'h
    cpp_key_request \<Rightarrow> u32 \<Rightarrow> bytes \<Rightarrow> bytes \<Rightarrow> bytes
    \<Rightarrow> ('h, bool) cpp_call" where
  "facade_offline_verify_transaction_mac_aes_provided S loaded provider request counter uid
    transaction_input mac =
     after_check (require_request loaded request (purpose_number purpose_transaction_mac)) (verified_flag
       (wrap_scalar 0 (df_offline_verify_transaction_mac_aes_provider S (Some (provider_descriptor provider
       request)) (Some (request_descriptor request)) counter (byte_data uid) (byte_data transaction_input)
       (byte_data mac) True fresh_error)))"

definition facade_offline_decrypt_transaction_reader_id_aes ::
  "'h c_services \<Rightarrow> library_identity \<Rightarrow> aes_key \<Rightarrow> bytes \<Rightarrow>
    ('h, bytes) cpp_call" where
  "facade_offline_decrypt_transaction_reader_id_aes S loaded session_encryption_key encrypted_reader_id =
     after_check (require_key loaded session_encryption_key ''transaction encryption key is empty'')
       (offline_buffer (df_offline_decrypt_transaction_reader_id_aes S (aes_key_argument
       session_encryption_key) (byte_data encrypted_reader_id) fresh_buffer fresh_error))"

definition facade_offline_verify_originality_uid_signature ::
  "'h c_services \<Rightarrow> library_identity \<Rightarrow> string \<Rightarrow> bytes \<Rightarrow>
    bytes \<Rightarrow> bytes \<Rightarrow> ('h, bool) cpp_call" where
  "facade_offline_verify_originality_uid_signature S loaded curve public_key uid signature =
     after_check (validate_native_identity loaded) (verified_flag (wrap_scalar 0
       (df_offline_verify_originality_uid_signature S (Some (takeWhile (\<lambda>c. c \<noteq> CHR 0x00)
       curve)) (byte_data public_key) (byte_data uid) (byte_data signature) True fresh_error)))"

end
