(* ===== verification/Cpp_Contract.thy ===== *)
theory Cpp_Contract
  imports Cpp_Offline C_Library
begin

text \<open>
  What a call of the C++17 facade does, as the locale \<open>interface_calls\<close> over a family of calls of the C
  interface: the evidence of such a call carries the code it returned; then every operation of the facade
  either fails locally, having reached nothing but the host, or makes one call of the family, whose
  verdict it reports as it is; and it leaves the memory of the native buffers as it found it, except for
  the buffer it hands out. Managed cards, raw channels and offline calculations are the instances.
\<close>

section \<open>Reports\<close>

text \<open>The function returned evidence, and stored its outputs exactly when it succeeded.\<close>

definition conclusive :: "'a c_return \<Rightarrow> bool" where
  "conclusive ret \<longleftrightarrow> ret_error ret \<noteq> None \<and> (ret_value ret = None \<longleftrightarrow> ret_code ret \<noteq> 0)"

lemma error_number_nonzero [simp]: "error_number c \<noteq> 0"
  by (cases c) simp_all

lemma conclusive_boundary: "boundary (Some x) f L = (ret, L') \<Longrightarrow> conclusive ret"
  by (auto simp: boundary_def conclusive_def unexpected_failure_def failure_def
      split: prod.splits dep.splits sum.splits)

text \<open>The evidence of a function carries its code.\<close>

definition coded :: "c_evidence \<Rightarrow> bool" where
  "coded ev \<longleftrightarrow> (\<forall>ce. snd ev = Some ce \<longrightarrow> ce_code ce = fst ev)"

lemma coded_evidence: "coded (evidence_of err r)"
  by (cases r rule: result_dep_cases)
     (auto simp: coded_def evidence_of_def evidence_boundary c_error_of_def empty_c_error_def unexpected_error_def
        unknown_error_def make_error_def)

lemma coded_boundary: "boundary err f L = (ret, L') \<Longrightarrow> coded (evidence ret)"
  by (erule boundary_evidence) (simp add: coded_evidence)

lemma coded_reporting: "reporting_authentication out err f L = (ret, out', L') \<Longrightarrow> coded (evidence ret)"
  by (erule reporting_evidence) (simp_all add: coded_evidence)

text \<open>A function of the family, called with fresh storage.\<close>

definition provides ::
  "('h c_library \<Rightarrow> c_evidence \<Rightarrow> 'h c_library \<Rightarrow> bool) \<Rightarrow> ('h, 'a) c_function \<Rightarrow> bool" where
  "provides R F \<longleftrightarrow> (\<forall>L ret L'. F L = (ret, L') \<longrightarrow> R L (evidence ret) L' \<and> conclusive ret)"

definition provides_information ::
  "('h c_library \<Rightarrow> c_evidence \<Rightarrow> 'h c_library \<Rightarrow> bool)
     \<Rightarrow> ('h c_library \<Rightarrow> unit c_return \<times> authentication_output option \<times> 'h c_library) \<Rightarrow> bool" where
  "provides_information R F \<longleftrightarrow>
     (\<forall>L ret out L'. F L = (ret, out, L') \<longrightarrow> R L (evidence ret) L' \<and> ret_error ret \<noteq> None)"

lemma providesI:
  assumes "\<And>L ret L'. F L = (ret, L') \<Longrightarrow> R L (evidence ret) L'" "F = boundary (Some x) f"
  shows "provides R F"
  using assms conclusive_boundary unfolding provides_def by metis

lemma reporting_has_error:
  "reporting_authentication out (Some x) f L = (ret, out', L') \<Longrightarrow> ret_error ret \<noteq> None"
  by (auto simp: reporting_authentication_def boundary_def refuse_def unexpected_failure_def failure_def act_return_def
      split: prod.splits dep.splits sum.splits)

lemma provides_informationI:
  assumes "\<And>L ret out L'. F L = (ret, out, L') \<Longrightarrow> R L (evidence ret) L'"
    "F = reporting_authentication out0 (Some x) f"
  shows "provides_information R F"
  using assms reporting_has_error unfolding provides_information_def by metis

lemma providesD: "provides R F \<Longrightarrow> F L = (ret, L') \<Longrightarrow> R L (evidence ret) L' \<and> ret_error ret \<noteq> None"
  by (simp add: provides_def conclusive_def)

lemma provides_informationD:
  "provides_information R F \<Longrightarrow> F L = (ret, out, L') \<Longrightarrow> R L (evidence ret) L' \<and> ret_error ret \<noteq> None"
  by (simp add: provides_information_def)

section \<open>Memory\<close>

definition memory_ok :: "'h native \<Rightarrow> bool" where
  "memory_ok N \<longleftrightarrow> (\<forall>a bs. nv_buffers N a = Some bs \<longrightarrow> a < nv_next_buffer N)"

text \<open>What a call does to the memory when it hands out the buffer \<open>b\<close>.\<close>

definition memory_step :: "'h native \<Rightarrow> nat option \<Rightarrow> 'h native \<Rightarrow> bool" where
  "memory_step N b N' \<longleftrightarrow>
     nv_fault N' = nv_fault N \<and> nv_next_buffer N \<le> nv_next_buffer N' \<and>
     (\<exists>wiped. nv_released N' = nv_released N @ wiped \<and> (\<forall>bs\<in>set wiped. \<forall>x\<in>set bs. x = 0)) \<and>
     (case b of
        None \<Rightarrow> nv_buffers N' = nv_buffers N
      | Some a \<Rightarrow> nv_next_buffer N \<le> a \<and> a < nv_next_buffer N' \<and>
          (\<exists>bs. nv_buffers N' = (nv_buffers N)(a \<mapsto> bs)))"

lemma memory_step_refl [simp]: "memory_step N None N"
  by (simp add: memory_step_def)

lemma memory_step_library [simp]:
  "memory_step N b (N'\<lparr>nv_library := L\<rparr>) = memory_step N b N'"
  "memory_step (N\<lparr>nv_library := L\<rparr>) b N' = memory_step N b N'"
  by (cases b; simp add: memory_step_def)+

lemma memory_ok_library [simp]: "memory_ok (N\<lparr>nv_library := L\<rparr>) = memory_ok N"
  by (simp add: memory_ok_def)

lemma memory_step_ok: "memory_step N b N' \<Longrightarrow> memory_ok N \<Longrightarrow> memory_ok N'"
  by (fastforce simp: memory_step_def memory_ok_def split: option.splits if_splits)

lemma memory_step_trans: "memory_step N None N1 \<Longrightarrow> memory_step N1 b N2 \<Longrightarrow> memory_step N b N2"
  by (fastforce simp: memory_step_def split: option.splits)

text \<open>A stored buffer, and what becomes of it.\<close>

lemma stored_buffer_step:
  "stored_buffer value N = (b, N1) \<Longrightarrow> memory_step N b N1 \<and> nv_library N1 = nv_library N \<and>
     (case value of None \<Rightarrow> b = None | Some bs \<Rightarrow> \<exists>a. b = Some a \<and> nv_buffers N1 a = Some bs)"
  by (auto simp: stored_buffer_def release_buffer_def memory_step_def split: option.splits)

lemma destroy_step:
  assumes "memory_ok N" "memory_step N b N1"
  shows "memory_step N None (buffer_destroy b N1)" "nv_library (buffer_destroy b N1) = nv_library N1"
proof -
  have fresh: "nv_buffers N a = None" if "nv_next_buffer N \<le> a" for a
    using assms(1) that by (meson memory_ok_def not_le option.exhaust_sel)
  show "memory_step N None (buffer_destroy b N1)"
    using assms(2) fresh
    by (auto simp: memory_step_def buffer_destroy_def buffer_reset_def df_buffer_free_def fun_upd_idem_iff
        split: option.splits)
  show "nv_library (buffer_destroy b N1) = nv_library N1"
    by (simp add: buffer_destroy_def buffer_reset_def df_buffer_free_def split: option.splits)
qed

lemma copy_live:
  assumes "case b of None \<Rightarrow> True | Some a \<Rightarrow> nv_buffers N a \<noteq> None"
  shows "buffer_copy b N = (case b of None \<Rightarrow> [] | Some a \<Rightarrow> the (nv_buffers N a), N)"
  using assms
  by (auto simp: buffer_copy_def buffer_size_def buffer_data_def follow_def df_buffer_size_def df_buffer_data_def
      split: option.splits)

section \<open>The verdict of a call\<close>

text \<open>A result agrees with evidence: success with success, an error with the very evidence.\<close>

definition agrees :: "'a cpp_result \<Rightarrow> c_evidence \<Rightarrow> bool" where
  "agrees r ev \<longleftrightarrow>
     (case r of
        Inl e \<Rightarrow> fst ev \<noteq> 0 \<and> xe_code e = fst ev \<and> (\<exists>ce. snd ev = Some ce \<and> e = error_from_native ce)
      | Inr _ \<Rightarrow> fst ev = 0)"

text \<open>What a call comes to: host code may have run before it.\<close>

definition comes_to ::
  "('h c_library \<Rightarrow> c_evidence \<Rightarrow> 'h c_library \<Rightarrow> bool) \<Rightarrow> 'h c_library \<Rightarrow> 'a cpp_result \<Rightarrow> 'h c_library \<Rightarrow> bool" where
  "comes_to R L r L' \<longleftrightarrow>
     (\<exists>host. (L' = L\<lparr>lib_host := host\<rparr> \<and> (\<exists>e. r = Inl e \<and> local_failure e)) \<or>
        (\<exists>ev. R (L\<lparr>lib_host := host\<rparr>) ev L' \<and> agrees r ev))"

lemma comes_to_refuse: "local_failure e \<Longrightarrow> comes_to R L (Inl e) L"
  unfolding comes_to_def by (metis c_library.surjective c_library.update_convs(5))

lemma comes_to_local: "local_failure e \<Longrightarrow> comes_to R L (Inl e) (L\<lparr>lib_host := host\<rparr>)"
  by (auto simp: comes_to_def)

lemma comes_to_call: "R L ev L' \<Longrightarrow> agrees r ev \<Longrightarrow> comes_to R L r L'"
  unfolding comes_to_def by (metis c_library.surjective c_library.update_convs(5))

lemma comes_to_host: "comes_to R (L\<lparr>lib_host := host\<rparr>) r L' \<Longrightarrow> comes_to R L r L'"
  by (auto simp: comes_to_def)

text \<open>Results are compared up to their values.\<close>

definition same_verdict :: "'a cpp_result \<Rightarrow> 'b cpp_result \<Rightarrow> bool" where
  "same_verdict r r' \<longleftrightarrow> (case r of Inl e \<Rightarrow> r' = Inl e | Inr _ \<Rightarrow> (\<exists>v. r' = Inr v))"

lemma comes_to_verdict: "same_verdict r r' \<Longrightarrow> comes_to R L r L' \<Longrightarrow> comes_to R L r' L'"
  by (cases r; cases r') (fastforce simp: comes_to_def agrees_def same_verdict_def)+

definition handed_out :: "('a \<Rightarrow> nat option) \<Rightarrow> 'a cpp_result \<Rightarrow> nat option" where
  "handed_out own r = (case r of Inl _ \<Rightarrow> None | Inr v \<Rightarrow> own v)"

lemma handed_out_simps [simp]: "handed_out own (Inl e) = None" "handed_out own (Inr v) = own v"
  by (simp_all add: handed_out_def)

abbreviation owns_nothing :: "'a \<Rightarrow> nat option" where
  "owns_nothing \<equiv> \<lambda>_. None"

definition wrapped ::
  "('h c_library \<Rightarrow> c_evidence \<Rightarrow> 'h c_library \<Rightarrow> bool) \<Rightarrow> ('a \<Rightarrow> nat option) \<Rightarrow> ('h, 'a) cpp_call \<Rightarrow> bool" where
  "wrapped R own f \<longleftrightarrow>
     (\<forall>N r N'. memory_ok N \<longrightarrow> f N = (r, N') \<longrightarrow>
        comes_to R (nv_library N) r (nv_library N') \<and> memory_step N (handed_out own r) N')"

lemma wrappedI:
  assumes "\<And>N r N'. memory_ok N \<Longrightarrow> f N = (r, N') \<Longrightarrow>
     comes_to R (nv_library N) r (nv_library N') \<and> memory_step N (handed_out own r) N'"
  shows "wrapped R own f"
  using assms by (simp add: wrapped_def)

lemma wrappedD:
  "wrapped R own f \<Longrightarrow> memory_ok N \<Longrightarrow> f N = (r, N') \<Longrightarrow>
     comes_to R (nv_library N) r (nv_library N') \<and> memory_step N (handed_out own r) N'"
  by (simp add: wrapped_def)

named_theorems wrapped_intros \<open>operations of the facade, for introduction\<close>

text \<open>Host code between the checks and the call.\<close>

definition host_part :: "('h, 'a) cpp_call \<Rightarrow> bool" where
  "host_part f \<longleftrightarrow>
     (\<forall>N r N'. f N = (r, N') \<longrightarrow> (\<exists>host. N' = N\<lparr>nv_library := (nv_library N)\<lparr>lib_host := host\<rparr>\<rparr>) \<and>
        (\<forall>e. r = Inl e \<longrightarrow> local_failure e))"

definition local_check :: "'a cpp_result \<Rightarrow> bool" where
  "local_check checked \<longleftrightarrow> (\<forall>e. checked = Inl e \<longrightarrow> local_failure e)"

section \<open>The contract\<close>

lemma host_partD:
  assumes "host_part f" "f N = (r, N')"
  shows "\<exists>host. N' = N\<lparr>nv_library := (nv_library N)\<lparr>lib_host := host\<rparr>\<rparr>" "r = Inl e \<Longrightarrow> local_failure e"
  using assms unfolding host_part_def by auto

lemma same_host [simp]: "N\<lparr>nv_library := (nv_library N)\<lparr>lib_host := lib_host (nv_library N)\<rparr>\<rparr> = N"
  by simp

lemma on_native_host_step:
  "on_native_host f N = (x, N') \<Longrightarrow> \<exists>host. N' = N\<lparr>nv_library := (nv_library N)\<lparr>lib_host := host\<rparr>\<rparr>"
  by (auto simp: on_native_host_def on_library_def on_host_def on_world_def split: prod.splits)

lemma local_checks [wrapped_intros]:
  "local_check (timeout_milliseconds count)"
  "local_check (require_live_key key)"
  "local_check (validate_direct_authentication n key)"
  "local_check (facade_validate_request request purpose)"
  "local_check (validate_provider_authentication request profile over)"
  "local_check (require_capabilities pcd)"
  "local_check (validate_native_identity loaded)"
  "local_check (require_key loaded key message)"
  "local_check (require_request loaded request purpose)"
  "local_check (Inr v)"
  by (auto simp: local_check_def timeout_milliseconds_def require_live_key_def empty_key_error_def
      validate_direct_authentication_def facade_validate_request_def validate_provider_authentication_def
      validate_key_request_def require_capabilities_def validate_native_identity_def require_key_def
      require_request_def local_failure_def cpp_invalid_argument_def Let_def split: if_splits sum.splits)

lemma host_part_derive [wrapped_intros]:
  "host_part (facade_derive_key master_key deriver context purpose)"
  "host_part (derive_authentication_key master_key deriver context)"
proof -
  have derive: "host_part (facade_derive_key master_key deriver context p)" for p
    unfolding host_part_def
  proof (intro allI impI)
    fix N r N'
    assume run: "facade_derive_key master_key deriver context p N = (r, N')"
    obtain x N1 where d: "on_native_host (deriver master_key context) N = (x, N1)" by fastforce
    have "N' = N \<or> N' = N1"
      using run d by (auto simp: facade_derive_key_def Let_def split: if_splits sum.splits)
    then have "\<exists>host. N' = N\<lparr>nv_library := (nv_library N)\<lparr>lib_host := host\<rparr>\<rparr>"
      using on_native_host_step [OF d] same_host [of N] by metis
    moreover have "\<forall>e. r = Inl e \<longrightarrow> local_failure e"
      using run d by (auto simp: facade_derive_key_def Let_def local_failure_def cpp_invalid_argument_def before_io_def
          split: if_splits sum.splits)
    ultimately show "(\<exists>host. N' = N\<lparr>nv_library := (nv_library N)\<lparr>lib_host := host\<rparr>\<rparr>) \<and>
      (\<forall>e. r = Inl e \<longrightarrow> local_failure e)" ..
  qed
  show "host_part (facade_derive_key master_key deriver context purpose)" by (rule derive)
  show "host_part (derive_authentication_key master_key deriver context)"
    unfolding derive_authentication_key_def by (rule derive)
qed

locale interface_calls =
  fixes R :: "'h c_library \<Rightarrow> c_evidence \<Rightarrow> 'h c_library \<Rightarrow> bool"
  assumes carries_code: "R L ev L' \<Longrightarrow> coded ev"
begin

text \<open>The fallback of \<^verbatim>\<open>native_error\<close> is not reached.\<close>

lemma failed_agrees:
  assumes "R L (evidence ret) L'" "ret_error ret \<noteq> None" "ret_code ret \<noteq> 0"
  shows "agrees (Inl (native_error (ret_code ret) (error_storage ret))) (evidence ret)"
  using assms carries_code [OF assms(1)]
  by (auto simp: agrees_def native_error_def error_storage_def evidence_def coded_def error_from_native_def)

lemma succeeded_agrees: "ret_code ret = 0 \<Longrightarrow> agrees (Inr v) (evidence ret)"
  by (simp add: agrees_def evidence_def)

lemma returned:
  assumes "provides R F" "F L = (ret, L')"
  shows "ret_code ret \<noteq> 0 \<Longrightarrow> comes_to R L (Inl (native_error (ret_code ret) (error_storage ret))) L'"
    "ret_code ret = 0 \<Longrightarrow> comes_to R L (Inr v) L'"
  using providesD [OF assms] by (blast intro: comes_to_call failed_agrees succeeded_agrees)+

lemma returned_information:
  assumes "provides_information R F" "F L = (ret, out, L')"
  shows "ret_code ret \<noteq> 0 \<Longrightarrow> comes_to R L (Inl (native_error (ret_code ret) (error_storage ret))) L'"
    "ret_code ret = 0 \<Longrightarrow> comes_to R L (Inr v) L'"
  using provides_informationD [OF assms] by (blast intro: comes_to_call failed_agrees succeeded_agrees)+

lemma wrap_scalar_ok [wrapped_intros]:
  assumes "provides R F"
  shows "wrapped R owns_nothing (wrap_scalar initial F)"
proof (rule wrappedI)
  fix N r N'
  assume "wrap_scalar initial F N = (r, N')"
  then show "comes_to R (nv_library N) r (nv_library N') \<and> memory_step N (handed_out owns_nothing r) N'"
    by (cases "F (nv_library N)") (auto dest: returned [OF assms] simp: wrap_scalar_def on_library_def handed_out_def split: sum.splits)
qed

lemma wrap_void_ok [wrapped_intros]:
  assumes "provides R F"
  shows "wrapped R owns_nothing (wrap_void F)"
proof (rule wrappedI)
  fix N r N'
  assume "wrap_void F N = (r, N')"
  then show "comes_to R (nv_library N) r (nv_library N') \<and> memory_step N (handed_out owns_nothing r) N'"
    by (cases "F (nv_library N)") (auto dest: returned [OF assms] simp: wrap_void_def on_library_def handed_out_def split: sum.splits)
qed

lemma wrap_information_ok [wrapped_intros]:
  assumes "provides_information R F"
  shows "wrapped R owns_nothing (wrap_information F)"
proof (rule wrappedI)
  fix N r N'
  assume "wrap_information F N = (r, N')"
  then show "comes_to R (nv_library N) r (nv_library N') \<and> memory_step N (handed_out owns_nothing r) N'"
    by (cases "F (nv_library N)") (auto dest: returned_information [OF assms] simp: wrap_information_def handed_out_def split: sum.splits)
qed

lemma adopt_ok:
  assumes "memory_ok N" "memory_step N b N1" "R L (evidence ret) (nv_library N1)" "ret_error ret \<noteq> None"
    and "adopt_and_report (ret_code ret) (error_storage ret) b build N1 = (r, N')" "\<And>x. own (build x) = x"
  shows "comes_to R L r (nv_library N') \<and> memory_step N (handed_out own r) N'"
  using assms destroy_step [OF assms(1,2)] memory_step_refl
  by (auto simp: adopt_and_report_def buffer_adopt_def buffer_move_def Let_def handed_out_def buffer_destroy_def
      buffer_reset_def intro: comes_to_call failed_agrees succeeded_agrees split: if_splits)

lemma wrap_buffer_ok [wrapped_intros]:
  assumes "provides R F"
  shows "wrapped R (\<lambda>b. b) (wrap_buffer F)"
proof (rule wrappedI)
  fix N r N'
  assume ok: "memory_ok N" and run: "wrap_buffer F N = (r, N')"
  obtain ret L where F: "F (nv_library N) = (ret, L)" by fastforce
  obtain b N2 where st: "stored_buffer (ret_value ret) (N\<lparr>nv_library := L\<rparr>) = (b, N2)" by fastforce
  show "comes_to R (nv_library N) r (nv_library N') \<and> memory_step N (handed_out (\<lambda>b. b) r) N'"
    using adopt_ok [of N b N2 "nv_library N" ret "\<lambda>b. b" r N' "\<lambda>b. b"] ok run F stored_buffer_step [OF st] assms st
    by (auto simp: wrap_buffer_def on_library_def provides_def conclusive_def)
qed

lemma wrap_status_ok:
  assumes "provides R F" "\<And>n x. own (build n x) = x"
  shows "wrapped R own (wrap_status build F)"
proof (rule wrappedI)
  fix N r N'
  assume ok: "memory_ok N" and run: "wrap_status build F N = (r, N')"
  obtain ret L where F: "F (nv_library N) = (ret, L)" by fastforce
  obtain b N2 where st: "stored_buffer (map_option snd (ret_value ret)) (N\<lparr>nv_library := L\<rparr>) = (b, N2)" by fastforce
  show "comes_to R (nv_library N) r (nv_library N') \<and> memory_step N (handed_out own r) N'"
    using adopt_ok [of N b N2 "nv_library N" ret "build (case ret_value ret of None \<Rightarrow> 0 | Some v \<Rightarrow> fst v)" r N' own]
      ok run F stored_buffer_step [OF st] assms st
    by (auto simp: wrap_status_def on_library_def provides_def conclusive_def)
qed

lemma status_responses_ok [wrapped_intros]:
  "provides R F \<Longrightarrow> wrapped R xn_data (wrap_status native_response_of F)"
  "provides R F \<Longrightarrow> wrapped R xs_data (wrap_status iso_response_of F)"
  by (rule wrap_status_ok; simp add: native_response_of_def iso_response_of_def)+

lemma refuse_ok [wrapped_intros]: "local_failure e \<Longrightarrow> wrapped R own (\<lambda>N. (Inl e, N))"
  by (auto simp: wrapped_def intro: comes_to_refuse)

lemma branch_ok [wrapped_intros]: "wrapped R own f \<Longrightarrow> wrapped R own g \<Longrightarrow> wrapped R own (if p then f else g)"
  by simp

lemma after_check_ok [wrapped_intros]:
  "local_check checked \<Longrightarrow> wrapped R own f \<Longrightarrow> wrapped R own (after_check checked f)"
  by (auto simp: wrapped_def after_check_def local_check_def intro: comes_to_refuse split: sum.splits)

lemma timed_ok [wrapped_intros]: "(\<And>t. wrapped R own (f t)) \<Longrightarrow> wrapped R own (timed timeout f)"
  using local_checks(1) [of timeout]
  by (auto simp: wrapped_def timed_def local_check_def intro: comes_to_refuse split: sum.splits)

lemma after_call_ok [wrapped_intros]:
  assumes "host_part f" "\<And>v. wrapped R own (g v)"
  shows "wrapped R own (after_call f g)"
proof (rule wrappedI)
  fix N r N'
  assume ok: "memory_ok N" and run: "after_call f g N = (r, N')"
  obtain x N1 where f: "f N = (x, N1)" by fastforce
  obtain host where N1: "N1 = N\<lparr>nv_library := (nv_library N)\<lparr>lib_host := host\<rparr>\<rparr>"
    "\<And>e. x = Inl e \<Longrightarrow> local_failure e"
    using host_partD [OF assms(1) f] by blast
  show "comes_to R (nv_library N) r (nv_library N') \<and> memory_step N (handed_out own r) N'"
  proof (cases x)
    case (Inl e)
    with run f have "r = Inl e" "N' = N1" by (auto simp: after_call_def)
    with N1 Inl show ?thesis by (simp add: comes_to_local)
  next
    case (Inr v)
    with run f have "g v N1 = (r, N')" by (simp add: after_call_def)
    from wrappedD [OF assms(2) _ this] ok N1(1)
    have "comes_to R ((nv_library N)\<lparr>lib_host := host\<rparr>) r (nv_library N')" "memory_step N (handed_out own r) N'"
      by simp_all
    then show ?thesis by (blast intro: comes_to_host)
  qed
qed

text \<open>The buffer of the inner call is copied and given back.\<close>

lemma timed_buffer_ok [wrapped_intros]:
  assumes "\<And>t. wrapped R (\<lambda>b. b) (f t)"
  shows "wrapped R owns_nothing (timed_buffer timeout f)"
proof (rule wrappedI)
  fix N r N'
  assume ok: "memory_ok N" and run: "timed_buffer timeout f N = (r, N')"
  obtain x N1 where inner: "timed timeout f N = (x, N1)" by fastforce
  note step = wrappedD [OF timed_ok [of "\<lambda>b. b" f, OF assms] ok inner]
  show "comes_to R (nv_library N) r (nv_library N') \<and> memory_step N (handed_out owns_nothing r) N'"
  proof (cases x)
    case (Inl e)
    then have "r = Inl e" "N' = N1" using run inner by (auto simp: timed_buffer_def)
    moreover have "same_verdict x r" using Inl \<open>r = Inl e\<close> by (simp add: same_verdict_def)
    ultimately show ?thesis using step Inl comes_to_verdict [of x r] by auto
  next
    case (Inr b)
    have live: "case b of None \<Rightarrow> True | Some a \<Rightarrow> nv_buffers N1 a \<noteq> None"
      using step Inr by (auto simp: memory_step_def split: option.splits)
    have "N' = buffer_destroy b N1" "same_verdict x r"
      using run inner Inr copy_live [OF live] by (auto simp: timed_buffer_def same_verdict_def)
    moreover have "memory_step N b N1" using step Inr by simp
    ultimately show ?thesis
      using step destroy_step [OF ok] comes_to_verdict by (auto simp: handed_out_def split: sum.splits)
  qed
qed

lemma offline_buffer_ok [wrapped_intros]:
  assumes "provides R F"
  shows "wrapped R owns_nothing (offline_buffer F)"
proof (rule wrappedI)
  fix N r N'
  assume ok: "memory_ok N" and run: "offline_buffer F N = (r, N')"
  obtain ret L where F: "F (nv_library N) = (ret, L)" by fastforce
  obtain b N2 where st: "stored_buffer (ret_value ret) (N\<lparr>nv_library := L\<rparr>) = (b, N2)" by fastforce
  note s = stored_buffer_step [OF st]
  have live: "case b of None \<Rightarrow> True | Some a \<Rightarrow> nv_buffers N2 a \<noteq> None"
    using s by (auto split: option.splits)
  have stored: "memory_step N b N2" "nv_library N2 = L" using s by auto
  have "comes_to R (nv_library N) r (nv_library N2)" "N' = buffer_destroy b N2"
    using run F st copy_live [OF live] returned [OF assms F, folded stored(2)]
    by (auto simp: offline_buffer_def buffer_result_def on_library_def buffer_adopt_def split: if_splits)
  then show "comes_to R (nv_library N) r (nv_library N') \<and> memory_step N (handed_out owns_nothing r) N'"
    using destroy_step [OF ok stored(1)] by (auto simp: handed_out_def split: sum.splits)
qed

lemma verified_flag_ok [wrapped_intros]:
  "wrapped R owns_nothing f \<Longrightarrow> wrapped R owns_nothing (verified_flag f)"
  by (fastforce simp: wrapped_def verified_flag_def same_verdict_def handed_out_def intro: comes_to_verdict
      split: prod.splits sum.splits)

end

end
