(* ===== verification/Cpp_Functions.thy ===== *)
theory Cpp_Functions
  imports Cpp_Contract
begin

text \<open>
  Every operation of the C++17 facade that calls the C interface: the instances of the contract, the
  relations of one call of \<^verbatim>\<open>raw::Card\<close>, \<^verbatim>\<open>raw::Channel\<close>, \<^verbatim>\<open>Card\<close> and the offline helpers,
  and the proof that each of them meets the contract.
\<close>

section \<open>The instances\<close>

lemmas managed_definitions = df_abort_transaction_def df_application_ids_def df_authenticate_ev2_first_aes_def
  df_authenticate_ev2_first_aes_provider_def df_authenticate_ev2_first_aes_with_capabilities_def
  df_authenticate_ev2_first_aes_with_capabilities_provider_def df_authenticate_ev2_non_first_aes_def
  df_authenticate_ev2_non_first_aes_provider_def df_authenticate_iso_aes_def
  df_authenticate_iso_aes_provider_def df_authenticate_standard_aes_def
  df_authenticate_standard_aes_provider_def df_change_aes_key_def df_change_aes_key_provider_def
  df_change_file_settings_def df_change_key_settings_def df_clear_record_file_def df_commit_reader_id_def
  df_commit_transaction_def df_create_application_def df_create_data_file_def
  df_create_delegated_application_def df_create_record_file_def df_create_transaction_mac_file_def
  df_create_transaction_mac_file_provider_def df_create_value_file_def df_credit_def df_debit_def
  df_delete_application_def df_delete_delegated_application_def df_delete_file_def df_execute_transaction_def
  df_file_ids_def df_finalize_key_set_def df_format_picc_def df_free_memory_def df_get_card_uid_def
  df_get_card_uid_variant_def df_get_delegated_application_info_def df_get_df_names_def
  df_get_file_counters_def df_get_file_settings_def df_get_key_set_versions_def df_get_key_settings_def
  df_get_key_version_def df_get_value_def df_get_version_def df_initialize_key_set_def df_iso_append_record_def
  df_iso_external_authenticate_def df_iso_file_ids_def df_iso_get_challenge_def
  df_iso_internal_authenticate_def df_iso_read_binary_def df_iso_read_records_def df_iso_select_df_name_def
  df_iso_select_file_def df_iso_update_binary_def df_iso_update_record_def df_limited_credit_def
  df_read_data_def df_read_originality_signature_def df_read_records_def df_reset_authentication_def
  df_restore_transfer_def df_roll_key_set_def df_select_application_def df_set_atqa_def df_set_ats_def
  df_set_capability_configuration_def df_set_default_aes_key_def df_set_default_aes_key_provider_def
  df_set_picc_configuration_def df_update_record_def df_write_data_def df_write_record_def

interpretation managed: interface_calls "managed_call S handle" for S handle
proof (unfold_locales, erule managed_call.cases)
qed (simp only: managed_definitions, erule coded_boundary coded_reporting)+

interpretation raw: interface_calls "raw_call S handle" for S handle
proof (unfold_locales, erule raw_call.cases)
qed (simp only: raw_functions, erule coded_boundary coded_reporting)+

interpretation offline: interface_calls "offline_call S" for S
proof (unfold_locales, erule offline_call.cases)
qed (simp only: offline_functions, erule coded_boundary)+

section \<open>The functions behind the calls\<close>

lemma managed_provides_1 [wrapped_intros]:
  "provides (managed_call S handle) (df_get_version S handle timeout_ms fresh_buffer fresh_error)"
  "provides (managed_call S handle) (df_free_memory S handle timeout_ms True fresh_error)"
  "provides (managed_call S handle) (df_select_application S handle aid timeout_ms fresh_error)"
  "provides (managed_call S handle) (df_file_ids S handle timeout_ms fresh_buffer fresh_error)"
  "provides (managed_call S handle) (df_authenticate_standard_aes S handle key_no key timeout_ms fresh_error)"
  "provides (managed_call S handle) (df_authenticate_standard_aes_provider S handle key_no provider request
    timeout_ms fresh_error)"
  "provides (managed_call S handle) (df_application_ids S handle timeout_ms fresh_buffer fresh_error)"
  "provides (managed_call S handle) (df_iso_file_ids S handle timeout_ms fresh_buffer fresh_error)"
  "provides (managed_call S handle) (df_get_key_settings S handle timeout_ms fresh_buffer fresh_error)"
  "provides (managed_call S handle) (df_get_key_set_versions S handle timeout_ms fresh_buffer fresh_error)"
  "provides (managed_call S handle) (df_get_card_uid S handle timeout_ms fresh_buffer fresh_error)"
  "provides (managed_call S handle) (df_read_originality_signature S handle timeout_ms fresh_buffer
    fresh_error)"
  "provides (managed_call S handle) (df_abort_transaction S handle timeout_ms fresh_error)"
  "provides (managed_call S handle) (df_format_picc S handle timeout_ms fresh_error)"
  "provides (managed_call S handle) (df_delete_file S handle file_no timeout_ms fresh_error)"
  "provides (managed_call S handle) (df_get_file_settings S handle file_no timeout_ms fresh_buffer
    fresh_error)"
  by (rule providesI, erule managed_call.intros, rule df_abort_transaction_def df_application_ids_def
    df_authenticate_standard_aes_def df_authenticate_standard_aes_provider_def df_delete_file_def
    df_file_ids_def df_format_picc_def df_free_memory_def df_get_card_uid_def df_get_file_settings_def
    df_get_key_set_versions_def df_get_key_settings_def df_get_version_def df_iso_file_ids_def
    df_read_originality_signature_def df_select_application_def)+

lemma managed_provides_2 [wrapped_intros]:
  "provides (managed_call S handle) (df_clear_record_file S handle file_no timeout_ms fresh_error)"
  "provides (managed_call S handle) (df_get_file_counters S handle file_no communication timeout_ms
    fresh_buffer fresh_error)"
  "provides (managed_call S handle) (df_delete_application S handle aid timeout_ms fresh_error)"
  "provides (managed_call S handle) (df_change_key_settings S handle settings timeout_ms fresh_error)"
  "provides (managed_call S handle) (df_get_key_version S handle number key_set timeout_ms fresh_buffer
    fresh_error)"
  "provides (managed_call S handle) (df_initialize_key_set S handle key_set timeout_ms fresh_error)"
  "provides (managed_call S handle) (df_roll_key_set S handle key_set timeout_ms fresh_error)"
  "provides (managed_call S handle) (df_finalize_key_set S handle key_set version timeout_ms fresh_error)"
  "provides (managed_call S handle) (df_read_data S handle file_no off len communication timeout_ms
    fresh_buffer fresh_error)"
  "provides (managed_call S handle) (df_write_data S handle file_no off data communication timeout_ms
    fresh_error)"
  "provides (managed_call S handle) (df_write_record S handle file_no off data communication timeout_ms
    fresh_error)"
  "provides (managed_call S handle) (df_read_records S handle file_no first count communication timeout_ms
    fresh_buffer fresh_error)"
  "provides (managed_call S handle) (df_update_record S handle file_no record_no off data communication
    timeout_ms fresh_error)"
  "provides (managed_call S handle) (df_credit S handle file_no amount communication timeout_ms fresh_error)"
  "provides (managed_call S handle) (df_debit S handle file_no amount communication timeout_ms fresh_error)"
  "provides (managed_call S handle) (df_limited_credit S handle file_no amount communication timeout_ms
    fresh_error)"
  by (rule providesI, erule managed_call.intros, rule df_change_key_settings_def df_clear_record_file_def
    df_credit_def df_debit_def df_delete_application_def df_finalize_key_set_def df_get_file_counters_def
    df_get_key_version_def df_initialize_key_set_def df_limited_credit_def df_read_data_def df_read_records_def
    df_roll_key_set_def df_update_record_def df_write_data_def df_write_record_def)+

lemma managed_provides_3 [wrapped_intros]:
  "provides (managed_call S handle) (df_get_value S handle file_no communication timeout_ms True fresh_error)"
  "provides (managed_call S handle) (df_commit_transaction S handle return_mac timeout_ms fresh_buffer
    fresh_error)"
  "provides (managed_call S handle) (df_commit_reader_id S handle reader_id timeout_ms fresh_buffer
    fresh_error)"
  "provides (managed_call S handle) (df_create_application S handle aid key_settings key_count iso_id df_name
    timeout_ms fresh_error)"
  "provides (managed_call S handle) (df_create_data_file S handle file_no len communication access iso_id
    backup timeout_ms fresh_error)"
  "provides (managed_call S handle) (df_create_value_file S handle file_no lower_limit upper_limit
    initial_value communication access limited free_get_value timeout_ms fresh_error)"
  "provides (managed_call S handle) (df_create_record_file S handle file_no record_size maximum_records
    communication access iso_id cyclic timeout_ms fresh_error)"
  "provides (managed_call S handle) (df_change_file_settings S handle file_no communication access
    command_communication timeout_ms fresh_error)"
  "provides (managed_call S handle) (df_create_transaction_mac_file S handle file_no access key version
    timeout_ms fresh_error)"
  "provides (managed_call S handle) (df_change_aes_key S handle number new_key version authenticated_key
    old_key key_set picc_master timeout_ms fresh_error)"
  "provides (managed_call S handle) (df_iso_select_file S handle identifier selection response timeout_ms
    fresh_buffer fresh_error)"
  "provides (managed_call S handle) (df_iso_select_df_name S handle name response timeout_ms fresh_buffer
    fresh_error)"
  "provides (managed_call S handle) (df_iso_read_binary S handle short_identifier off len timeout_ms
    fresh_buffer fresh_error)"
  "provides (managed_call S handle) (df_iso_update_binary S handle short_identifier off data timeout_ms
    fresh_buffer fresh_error)"
  "provides (managed_call S handle) (df_iso_read_records S handle record_no short_identifier selection len
    timeout_ms fresh_buffer fresh_error)"
  "provides (managed_call S handle) (df_iso_append_record S handle short_identifier data timeout_ms
    fresh_buffer fresh_error)"
  by (rule providesI, erule managed_call.intros, rule df_change_aes_key_def df_change_file_settings_def
    df_commit_reader_id_def df_commit_transaction_def df_create_application_def df_create_data_file_def
    df_create_record_file_def df_create_transaction_mac_file_def df_create_value_file_def df_get_value_def
    df_iso_append_record_def df_iso_read_binary_def df_iso_read_records_def df_iso_select_df_name_def
    df_iso_select_file_def df_iso_update_binary_def)+

lemma managed_provides_4 [wrapped_intros]:
  "provides (managed_call S handle) (df_iso_get_challenge S handle len timeout_ms fresh_buffer fresh_error)"
  "provides (managed_call S handle) (df_iso_external_authenticate S handle number application algorithm data
    timeout_ms fresh_buffer fresh_error)"
  "provides (managed_call S handle) (df_iso_internal_authenticate S handle number application algorithm data
    timeout_ms fresh_buffer fresh_error)"
  "provides (managed_call S handle) (df_authenticate_iso_aes S handle number application key timeout_ms
    fresh_error)"
  "provides (managed_call S handle) (df_authenticate_iso_aes_provider S handle number application provider
    request timeout_ms fresh_error)"
  "provides (managed_call S handle) (df_get_df_names S handle timeout_ms fresh_buffer fresh_error)"
  "provides (managed_call S handle) (df_reset_authentication S handle fresh_error)"
  "provides (managed_call S handle) (df_restore_transfer S handle target_file source_file communication
    timeout_ms fresh_error)"
  "provides (managed_call S handle) (df_create_delegated_application S handle aid key_settings number_of_keys
    slot slot_version quota_limit iso_file_identifiers key_settings3 iso_id df_name encrypted_default_key
    dam_mac timeout_ms fresh_error)"
  "provides (managed_call S handle) (df_get_delegated_application_info S handle slot timeout_ms
    fresh_delegated_info fresh_error)"
  "provides (managed_call S handle) (df_delete_delegated_application S handle aid dam_mac timeout_ms
    fresh_error)"
  "provides (managed_call S handle) (df_get_card_uid_variant S handle option timeout_ms fresh_buffer
    fresh_error)"
  "provides (managed_call S handle) (df_set_picc_configuration S handle picc timeout_ms fresh_error)"
  "provides (managed_call S handle) (df_set_capability_configuration S handle capabilities timeout_ms
    fresh_error)"
  "provides (managed_call S handle) (df_set_default_aes_key S handle key key_version timeout_ms fresh_error)"
  "provides (managed_call S handle) (df_set_default_aes_key_provider S handle provider request key_version
    timeout_ms fresh_error)"
  by (rule providesI, erule managed_call.intros, rule df_authenticate_iso_aes_def
    df_authenticate_iso_aes_provider_def df_create_delegated_application_def
    df_delete_delegated_application_def df_get_card_uid_variant_def df_get_delegated_application_info_def
    df_get_df_names_def df_iso_external_authenticate_def df_iso_get_challenge_def
    df_iso_internal_authenticate_def df_reset_authentication_def df_restore_transfer_def
    df_set_capability_configuration_def df_set_default_aes_key_def df_set_default_aes_key_provider_def
    df_set_picc_configuration_def)+

lemma managed_provides_5 [wrapped_intros]:
  "provides (managed_call S handle) (df_set_ats S handle ats timeout_ms fresh_error)"
  "provides (managed_call S handle) (df_set_atqa S handle atqa timeout_ms fresh_error)"
  "provides (managed_call S handle) (df_iso_update_record S handle instruction record_no short_identifier
    reference_control data timeout_ms fresh_buffer fresh_error)"
  "provides (managed_call S handle) (df_execute_transaction S handle operations return_mac timeout_ms
    fresh_buffer fresh_error)"
  "provides (managed_call S handle) (df_change_aes_key_provider S handle number new_key_provider
    new_key_request version authenticated_key old_key_provider old_key_request key_set picc_master timeout_ms
    fresh_error)"
  "provides (managed_call S handle) (df_create_transaction_mac_file_provider S handle file_no access provider
    request version timeout_ms fresh_error)"
  by (rule providesI, erule managed_call.intros, rule df_change_aes_key_provider_def
    df_create_transaction_mac_file_provider_def df_execute_transaction_def df_iso_update_record_def
    df_set_atqa_def df_set_ats_def)+

lemma managed_provides_information [wrapped_intros]:
  "provides_information (managed_call S handle) (df_authenticate_ev2_first_aes S handle key_no key timeout_ms
    fresh_information fresh_error)"
  "provides_information (managed_call S handle) (df_authenticate_ev2_first_aes_provider S handle key_no
    provider request timeout_ms fresh_information fresh_error)"
  "provides_information (managed_call S handle) (df_authenticate_ev2_first_aes_with_capabilities S handle
    key_no key pcd timeout_ms fresh_information fresh_error)"
  "provides_information (managed_call S handle) (df_authenticate_ev2_first_aes_with_capabilities_provider S
    handle key_no provider request pcd timeout_ms fresh_information fresh_error)"
  "provides_information (managed_call S handle) (df_authenticate_ev2_non_first_aes S handle key_no key
    timeout_ms fresh_information fresh_error)"
  "provides_information (managed_call S handle) (df_authenticate_ev2_non_first_aes_provider S handle key_no
    provider request timeout_ms fresh_information fresh_error)"
  by (rule provides_informationI, erule managed_call.intros, rule df_authenticate_ev2_first_aes_def
    df_authenticate_ev2_first_aes_provider_def df_authenticate_ev2_first_aes_with_capabilities_def
    df_authenticate_ev2_first_aes_with_capabilities_provider_def df_authenticate_ev2_non_first_aes_def
    df_authenticate_ev2_non_first_aes_provider_def)+

lemma channel_provides_1 [wrapped_intros]:
  "provides (raw_call S handle) (df_raw_native_frame S handle framing command data timeout_ms True fresh_buffer
    fresh_error)"
  "provides (raw_call S handle) (df_raw_native_exchange S handle native_request timeout_ms True fresh_buffer
    fresh_error)"
  "provides (raw_call S handle) (df_raw_iso_exchange S handle apdu timeout_ms True fresh_buffer fresh_error)"
  "provides (raw_call S handle) (df_raw_authenticate_standard_aes S handle key_no key timeout_ms fresh_error)"
  "provides (raw_call S handle) (df_raw_authenticate_standard_aes_provider S handle key_no provider request
    timeout_ms fresh_error)"
  "provides (raw_call S handle) (df_raw_authenticate_iso_aes S handle key_no application key timeout_ms
    fresh_error)"
  "provides (raw_call S handle) (df_raw_authenticate_iso_aes_provider S handle key_no application provider
    request timeout_ms fresh_error)"
  "provides (raw_call S handle) (df_raw_iso_secure_exchange S handle apdu timeout_ms True fresh_buffer
    fresh_error)"
  "provides (raw_call S handle) (df_raw_native_secure_exchange S handle secure_request timeout_ms fresh_buffer
    fresh_error)"
  by (rule providesI, erule raw_call.intros, rule df_raw_authenticate_iso_aes_def
    df_raw_authenticate_iso_aes_provider_def df_raw_authenticate_standard_aes_def
    df_raw_authenticate_standard_aes_provider_def df_raw_iso_exchange_def df_raw_iso_secure_exchange_def
    df_raw_native_exchange_def df_raw_native_frame_def df_raw_native_secure_exchange_def)+

lemma channel_provides_information [wrapped_intros]:
  "provides_information (raw_call S handle) (df_raw_authenticate_ev2_first_aes S handle key_no key pcd
    timeout_ms fresh_information fresh_error)"
  "provides_information (raw_call S handle) (df_raw_authenticate_ev2_first_aes_provider S handle key_no
    provider request pcd timeout_ms fresh_information fresh_error)"
  "provides_information (raw_call S handle) (df_raw_authenticate_ev2_non_first_aes S handle key_no key
    timeout_ms fresh_information fresh_error)"
  "provides_information (raw_call S handle) (df_raw_authenticate_ev2_non_first_aes_provider S handle key_no
    provider request timeout_ms fresh_information fresh_error)"
  by (rule provides_informationI, erule raw_call.intros, rule df_raw_authenticate_ev2_first_aes_def
    df_raw_authenticate_ev2_first_aes_provider_def df_raw_authenticate_ev2_non_first_aes_def
    df_raw_authenticate_ev2_non_first_aes_provider_def)+

lemma offline_provides_1 [wrapped_intros]:
  "provides (offline_call S) (df_offline_derive_nxp_aes128 S (aes_key_argument master_key) (byte_data
    diversification) fresh_buffer fresh_error)"
  "provides (offline_call S) (df_offline_derive_nxp_aes128_provider S (Some (provider_descriptor provider
    request)) (Some (request_descriptor request)) fresh_buffer fresh_error)"
  "provides (offline_call S) (df_offline_encrypt_delegated_default_key_aes S (aes_key_argument
    dam_encryption_key) (aes_key_argument application_default_key) (ucast version) fresh_buffer fresh_error)"
  "provides (offline_call S) (df_offline_encrypt_delegated_default_key_aes_provider S (Some
    (provider_descriptor provider request)) (Some (request_descriptor request)) (aes_key_argument
    application_default_key) (ucast version) fresh_buffer fresh_error)"
  "provides (offline_call S) (df_offline_calculate_delegated_application_mac_aes S (aes_key_argument
    dam_mac_key) (Some (delegated_descriptor config)) (byte_data encrypted_default_key) fresh_buffer
    fresh_error)"
  "provides (offline_call S) (df_offline_calculate_delegated_application_mac_aes_provider S (Some
    (provider_descriptor provider request)) (Some (request_descriptor request)) (Some (delegated_descriptor
    config)) (byte_data encrypted_default_key) fresh_buffer fresh_error)"
  "provides (offline_call S) (df_offline_calculate_delegated_application_delete_mac_aes S (aes_key_argument
    dam_mac_key) application_id fresh_buffer fresh_error)"
  "provides (offline_call S) (df_offline_calculate_delegated_application_delete_mac_aes_provider S (Some
    (provider_descriptor provider request)) (Some (request_descriptor request)) application_id fresh_buffer
    fresh_error)"
  "provides (offline_call S) (df_offline_calculate_delegated_configuration_mac_aes S (aes_key_argument
    dam_mac_key) (byte_data old_df_name) (byte_data new_df_name) fresh_buffer fresh_error)"
  "provides (offline_call S) (df_offline_calculate_delegated_configuration_mac_aes_provider S (Some
    (provider_descriptor provider request)) (Some (request_descriptor request)) (byte_data old_df_name)
    (byte_data new_df_name) fresh_buffer fresh_error)"
  "provides (offline_call S) (df_offline_calculate_mfc_license_mac_aes S (aes_key_argument license_mac_key)
    (byte_data license) (byte_data sector_secrets) fresh_buffer fresh_error)"
  by (rule providesI, erule offline_call.intros, rule offline_functions)+

lemma offline_provides_2 [wrapped_intros]:
  "provides (offline_call S) (df_offline_calculate_mfc_license_mac_aes_provider S (Some (provider_descriptor
    provider request)) (Some (request_descriptor request)) (byte_data license) (byte_data sector_secrets)
    fresh_buffer fresh_error)"
  "provides (offline_call S) (df_offline_derive_transaction_mac_keys_aes S (aes_key_argument transaction_key)
    counter (byte_data uid) fresh_buffer fresh_error)"
  "provides (offline_call S) (df_offline_derive_transaction_mac_keys_aes_provider S (Some (provider_descriptor
    provider request)) (Some (request_descriptor request)) counter (byte_data uid) fresh_buffer fresh_error)"
  "provides (offline_call S) (df_offline_calculate_transaction_mac_session_aes S (aes_key_argument
    session_mac_key) (byte_data transaction_input) fresh_buffer fresh_error)"
  "provides (offline_call S) (df_offline_calculate_transaction_mac_aes S (aes_key_argument transaction_mac_key)
    counter (byte_data uid) (byte_data transaction_input) fresh_buffer fresh_error)"
  "provides (offline_call S) (df_offline_calculate_transaction_mac_aes_provider S (Some (provider_descriptor
    provider request)) (Some (request_descriptor request)) counter (byte_data uid) (byte_data
    transaction_input) fresh_buffer fresh_error)"
  "provides (offline_call S) (df_offline_verify_transaction_mac_aes S (aes_key_argument transaction_key)
    counter (byte_data uid) (byte_data transaction_input) (byte_data mac) True fresh_error)"
  "provides (offline_call S) (df_offline_verify_transaction_mac_aes_provider S (Some (provider_descriptor
    provider request)) (Some (request_descriptor request)) counter (byte_data uid) (byte_data
    transaction_input) (byte_data mac) True fresh_error)"
  "provides (offline_call S) (df_offline_decrypt_transaction_reader_id_aes S (aes_key_argument
    session_encryption_key) (byte_data encrypted_reader_id) fresh_buffer fresh_error)"
  "provides (offline_call S) (df_offline_verify_originality_uid_signature S (Some (takeWhile (\<lambda>c. c
    \<noteq> CHR 0x00) curve)) (byte_data public_key) (byte_data uid) (byte_data signature) True fresh_error)"
  by (rule providesI, erule offline_call.intros, rule offline_functions)+

section \<open>Calls\<close>

text \<open>The failure of a call, and its verdict.\<close>

definition failed_by :: "'a cpp_result \<Rightarrow> cpp_error option" where
  "failed_by r = (case r of Inl e \<Rightarrow> Some e | Inr _ \<Rightarrow> None)"

definition verdict_of :: "cpp_error option \<Rightarrow> unit cpp_result" where
  "verdict_of failed = (case failed of None \<Rightarrow> Inr () | Some e \<Rightarrow> Inl e)"

definition runs :: "('h, 'a) cpp_call \<Rightarrow> 'h native \<Rightarrow> 'a cpp_result \<Rightarrow> 'h native \<Rightarrow> bool" where
  "runs f N r N' \<longleftrightarrow> f N = (r, N')"

lemma wrapped_outcome:
  assumes "runs f N r N'" "memory_ok N" "wrapped R own f"
  shows "comes_to R (nv_library N) (verdict_of (failed_by r)) (nv_library N') \<and> memory_step N (handed_out own r) N'"
proof -
  have "same_verdict r (verdict_of (failed_by r))"
    by (cases r) (simp_all add: same_verdict_def verdict_of_def failed_by_def)
  then show ?thesis using wrappedD [OF assms(3,2) assms(1) [unfolded runs_def]] comes_to_verdict by blast
qed

text \<open>One call of a method of \<^verbatim>\<open>raw::Card\<close>, with the buffer it hands out.\<close>

inductive raw_card_call ::
  "'h c_services \<Rightarrow> cpp_handle \<Rightarrow> 'h native \<Rightarrow> cpp_error option \<Rightarrow> nat option \<Rightarrow> 'h native \<Rightarrow> bool" for S handle where
  get_version: "runs (raw_card_get_version S handle timeout_ms) N r N' \<Longrightarrow> raw_card_call S handle
    N (failed_by r) (handed_out (\<lambda>b. b) r) N'"
| free_memory: "runs (raw_card_free_memory S handle timeout_ms) N r N' \<Longrightarrow> raw_card_call S handle
    N (failed_by r) (handed_out owns_nothing r) N'"
| select_application: "runs (raw_card_select_application S handle aid timeout_ms) N r N' \<Longrightarrow>
    raw_card_call S handle N (failed_by r) (handed_out owns_nothing r) N'"
| file_ids: "runs (raw_card_file_ids S handle timeout_ms) N r N' \<Longrightarrow> raw_card_call S handle N
    (failed_by r) (handed_out (\<lambda>b. b) r) N'"
| authenticate_standard_aes: "runs (raw_card_authenticate_standard_aes S handle key_no key timeout_ms) N r N'
    \<Longrightarrow> raw_card_call S handle N (failed_by r) (handed_out owns_nothing r) N'"
| authenticate_standard_aes_provider: "runs (raw_card_authenticate_standard_aes_provider S handle key_no
    provider request timeout_ms) N r N' \<Longrightarrow> raw_card_call S handle N (failed_by r) (handed_out
    owns_nothing r) N'"
| authenticate_ev2_first_aes: "runs (raw_card_authenticate_ev2_first_aes S handle key_no key timeout_ms) N r N'
    \<Longrightarrow> raw_card_call S handle N (failed_by r) (handed_out owns_nothing r) N'"
| authenticate_ev2_first_aes_provider: "runs (raw_card_authenticate_ev2_first_aes_provider S handle key_no
    provider request timeout_ms) N r N' \<Longrightarrow> raw_card_call S handle N (failed_by r) (handed_out
    owns_nothing r) N'"
| authenticate_ev2_first_aes_with_capabilities: "runs (raw_card_authenticate_ev2_first_aes_with_capabilities S
    handle key_no key pcd timeout_ms) N r N' \<Longrightarrow> raw_card_call S handle N (failed_by r)
    (handed_out owns_nothing r) N'"
| authenticate_ev2_first_aes_with_capabilities_provider: "runs
    (raw_card_authenticate_ev2_first_aes_with_capabilities_provider S handle key_no provider request pcd
    timeout_ms) N r N' \<Longrightarrow> raw_card_call S handle N (failed_by r) (handed_out owns_nothing r) N'"
| authenticate_ev2_non_first_aes: "runs (raw_card_authenticate_ev2_non_first_aes S handle key_no key
    timeout_ms) N r N' \<Longrightarrow> raw_card_call S handle N (failed_by r) (handed_out owns_nothing r) N'"
| authenticate_ev2_non_first_aes_provider: "runs (raw_card_authenticate_ev2_non_first_aes_provider S handle
    key_no provider request timeout_ms) N r N' \<Longrightarrow> raw_card_call S handle N (failed_by r)
    (handed_out owns_nothing r) N'"
| application_ids: "runs (raw_card_application_ids S handle timeout_ms) N r N' \<Longrightarrow> raw_card_call
    S handle N (failed_by r) (handed_out (\<lambda>b. b) r) N'"
| iso_file_ids: "runs (raw_card_iso_file_ids S handle timeout_ms) N r N' \<Longrightarrow> raw_card_call S
    handle N (failed_by r) (handed_out (\<lambda>b. b) r) N'"
| get_key_settings: "runs (raw_card_get_key_settings S handle timeout_ms) N r N' \<Longrightarrow>
    raw_card_call S handle N (failed_by r) (handed_out (\<lambda>b. b) r) N'"
| get_key_set_versions: "runs (raw_card_get_key_set_versions S handle timeout_ms) N r N' \<Longrightarrow>
    raw_card_call S handle N (failed_by r) (handed_out (\<lambda>b. b) r) N'"
| get_card_uid: "runs (raw_card_get_card_uid S handle timeout_ms) N r N' \<Longrightarrow> raw_card_call S
    handle N (failed_by r) (handed_out (\<lambda>b. b) r) N'"
| read_originality_signature: "runs (raw_card_read_originality_signature S handle timeout_ms) N r N'
    \<Longrightarrow> raw_card_call S handle N (failed_by r) (handed_out (\<lambda>b. b) r) N'"
| abort_transaction: "runs (raw_card_abort_transaction S handle timeout_ms) N r N' \<Longrightarrow>
    raw_card_call S handle N (failed_by r) (handed_out owns_nothing r) N'"
| format_picc: "runs (raw_card_format_picc S handle timeout_ms) N r N' \<Longrightarrow> raw_card_call S handle
    N (failed_by r) (handed_out owns_nothing r) N'"
| delete_file: "runs (raw_card_delete_file S handle file_no timeout_ms) N r N' \<Longrightarrow> raw_card_call
    S handle N (failed_by r) (handed_out owns_nothing r) N'"
| get_file_settings: "runs (raw_card_get_file_settings S handle file_no timeout_ms) N r N' \<Longrightarrow>
    raw_card_call S handle N (failed_by r) (handed_out (\<lambda>b. b) r) N'"
| clear_record_file: "runs (raw_card_clear_record_file S handle file_no timeout_ms) N r N' \<Longrightarrow>
    raw_card_call S handle N (failed_by r) (handed_out owns_nothing r) N'"
| get_file_counters: "runs (raw_card_get_file_counters S handle file_no communication timeout_ms) N r N'
    \<Longrightarrow> raw_card_call S handle N (failed_by r) (handed_out (\<lambda>b. b) r) N'"
| delete_application: "runs (raw_card_delete_application S handle aid timeout_ms) N r N' \<Longrightarrow>
    raw_card_call S handle N (failed_by r) (handed_out owns_nothing r) N'"
| change_key_settings: "runs (raw_card_change_key_settings S handle settings timeout_ms) N r N'
    \<Longrightarrow> raw_card_call S handle N (failed_by r) (handed_out owns_nothing r) N'"
| get_key_version: "runs (raw_card_get_key_version S handle number key_set timeout_ms) N r N' \<Longrightarrow>
    raw_card_call S handle N (failed_by r) (handed_out (\<lambda>b. b) r) N'"
| initialize_key_set: "runs (raw_card_initialize_key_set S handle key_set timeout_ms) N r N' \<Longrightarrow>
    raw_card_call S handle N (failed_by r) (handed_out owns_nothing r) N'"
| roll_key_set: "runs (raw_card_roll_key_set S handle key_set timeout_ms) N r N' \<Longrightarrow>
    raw_card_call S handle N (failed_by r) (handed_out owns_nothing r) N'"
| finalize_key_set: "runs (raw_card_finalize_key_set S handle key_set version timeout_ms) N r N'
    \<Longrightarrow> raw_card_call S handle N (failed_by r) (handed_out owns_nothing r) N'"
| read_data: "runs (raw_card_read_data S handle file_no off len communication timeout_ms) N r N'
    \<Longrightarrow> raw_card_call S handle N (failed_by r) (handed_out (\<lambda>b. b) r) N'"
| write_data: "runs (raw_card_write_data S handle file_no off data communication timeout_ms) N r N'
    \<Longrightarrow> raw_card_call S handle N (failed_by r) (handed_out owns_nothing r) N'"
| write_record: "runs (raw_card_write_record S handle file_no off data communication timeout_ms) N r N'
    \<Longrightarrow> raw_card_call S handle N (failed_by r) (handed_out owns_nothing r) N'"
| read_records: "runs (raw_card_read_records S handle file_no first count communication timeout_ms) N r N'
    \<Longrightarrow> raw_card_call S handle N (failed_by r) (handed_out (\<lambda>b. b) r) N'"
| update_record: "runs (raw_card_update_record S handle file_no record_no off data communication timeout_ms) N
    r N' \<Longrightarrow> raw_card_call S handle N (failed_by r) (handed_out owns_nothing r) N'"
| credit: "runs (raw_card_credit S handle file_no amount communication timeout_ms) N r N' \<Longrightarrow>
    raw_card_call S handle N (failed_by r) (handed_out owns_nothing r) N'"
| debit: "runs (raw_card_debit S handle file_no amount communication timeout_ms) N r N' \<Longrightarrow>
    raw_card_call S handle N (failed_by r) (handed_out owns_nothing r) N'"
| limited_credit: "runs (raw_card_limited_credit S handle file_no amount communication timeout_ms) N r N'
    \<Longrightarrow> raw_card_call S handle N (failed_by r) (handed_out owns_nothing r) N'"
| get_value: "runs (raw_card_get_value S handle file_no communication timeout_ms) N r N' \<Longrightarrow>
    raw_card_call S handle N (failed_by r) (handed_out owns_nothing r) N'"
| commit_transaction: "runs (raw_card_commit_transaction S handle return_mac timeout_ms) N r N'
    \<Longrightarrow> raw_card_call S handle N (failed_by r) (handed_out (\<lambda>b. b) r) N'"
| commit_reader_id: "runs (raw_card_commit_reader_id S handle reader_id timeout_ms) N r N' \<Longrightarrow>
    raw_card_call S handle N (failed_by r) (handed_out (\<lambda>b. b) r) N'"
| create_application: "runs (raw_card_create_application S handle aid key_settings key_count iso_id df_name
    timeout_ms) N r N' \<Longrightarrow> raw_card_call S handle N (failed_by r) (handed_out owns_nothing r) N'"
| create_data_file: "runs (raw_card_create_data_file S handle file_no len communication access iso_id backup
    timeout_ms) N r N' \<Longrightarrow> raw_card_call S handle N (failed_by r) (handed_out owns_nothing r) N'"
| create_value_file: "runs (raw_card_create_value_file S handle file_no lower_limit upper_limit initial_value
    communication access limited free_get_value timeout_ms) N r N' \<Longrightarrow> raw_card_call S handle N
    (failed_by r) (handed_out owns_nothing r) N'"
| create_record_file: "runs (raw_card_create_record_file S handle file_no record_size maximum_records
    communication access iso_id cyclic timeout_ms) N r N' \<Longrightarrow> raw_card_call S handle N (failed_by
    r) (handed_out owns_nothing r) N'"
| change_file_settings: "runs (raw_card_change_file_settings S handle file_no communication access
    command_communication timeout_ms) N r N' \<Longrightarrow> raw_card_call S handle N (failed_by r)
    (handed_out owns_nothing r) N'"
| create_transaction_mac_file: "runs (raw_card_create_transaction_mac_file S handle file_no access key version
    timeout_ms) N r N' \<Longrightarrow> raw_card_call S handle N (failed_by r) (handed_out owns_nothing r) N'"
| change_aes_key: "runs (raw_card_change_aes_key S handle number new_key version authenticated_key old_key
    key_set picc_master timeout_ms) N r N' \<Longrightarrow> raw_card_call S handle N (failed_by r) (handed_out
    owns_nothing r) N'"
| iso_select_file: "runs (raw_card_iso_select_file S handle identifier selection response timeout_ms) N r N'
    \<Longrightarrow> raw_card_call S handle N (failed_by r) (handed_out (\<lambda>b. b) r) N'"
| iso_select_df_name: "runs (raw_card_iso_select_df_name S handle name response timeout_ms) N r N'
    \<Longrightarrow> raw_card_call S handle N (failed_by r) (handed_out (\<lambda>b. b) r) N'"
| iso_read_binary: "runs (raw_card_iso_read_binary S handle short_identifier off len timeout_ms) N r N'
    \<Longrightarrow> raw_card_call S handle N (failed_by r) (handed_out (\<lambda>b. b) r) N'"
| iso_update_binary: "runs (raw_card_iso_update_binary S handle short_identifier off data timeout_ms) N r N'
    \<Longrightarrow> raw_card_call S handle N (failed_by r) (handed_out (\<lambda>b. b) r) N'"
| iso_read_records: "runs (raw_card_iso_read_records S handle record_no short_identifier selection len
    timeout_ms) N r N' \<Longrightarrow> raw_card_call S handle N (failed_by r) (handed_out (\<lambda>b. b) r)
    N'"
| iso_append_record: "runs (raw_card_iso_append_record S handle short_identifier data timeout_ms) N r N'
    \<Longrightarrow> raw_card_call S handle N (failed_by r) (handed_out (\<lambda>b. b) r) N'"
| iso_get_challenge: "runs (raw_card_iso_get_challenge S handle len timeout_ms) N r N' \<Longrightarrow>
    raw_card_call S handle N (failed_by r) (handed_out (\<lambda>b. b) r) N'"
| iso_external_authenticate: "runs (raw_card_iso_external_authenticate S handle number application algorithm
    data timeout_ms) N r N' \<Longrightarrow> raw_card_call S handle N (failed_by r) (handed_out (\<lambda>b.
    b) r) N'"
| iso_internal_authenticate: "runs (raw_card_iso_internal_authenticate S handle number application algorithm
    data timeout_ms) N r N' \<Longrightarrow> raw_card_call S handle N (failed_by r) (handed_out (\<lambda>b.
    b) r) N'"
| authenticate_iso_aes: "runs (raw_card_authenticate_iso_aes S handle number application key timeout_ms) N r N'
    \<Longrightarrow> raw_card_call S handle N (failed_by r) (handed_out owns_nothing r) N'"
| authenticate_iso_aes_provider: "runs (raw_card_authenticate_iso_aes_provider S handle number application
    provider request timeout_ms) N r N' \<Longrightarrow> raw_card_call S handle N (failed_by r) (handed_out
    owns_nothing r) N'"
| get_df_names: "runs (raw_card_get_df_names S handle timeout_ms) N r N' \<Longrightarrow> raw_card_call S
    handle N (failed_by r) (handed_out (\<lambda>b. b) r) N'"
| reset_authentication: "runs (raw_card_reset_authentication S handle ) N r N' \<Longrightarrow> raw_card_call
    S handle N (failed_by r) (handed_out owns_nothing r) N'"
| restore_transfer: "runs (raw_card_restore_transfer S handle target_file source_file communication timeout_ms)
    N r N' \<Longrightarrow> raw_card_call S handle N (failed_by r) (handed_out owns_nothing r) N'"
| create_delegated_application: "runs (raw_card_create_delegated_application S handle aid key_settings
    number_of_keys slot slot_version quota_limit iso_file_identifiers key_settings3 iso_id df_name
    encrypted_default_key dam_mac timeout_ms) N r N' \<Longrightarrow> raw_card_call S handle N (failed_by r)
    (handed_out owns_nothing r) N'"
| get_delegated_application_info: "runs (raw_card_get_delegated_application_info S handle slot timeout_ms) N r
    N' \<Longrightarrow> raw_card_call S handle N (failed_by r) (handed_out owns_nothing r) N'"
| delete_delegated_application: "runs (raw_card_delete_delegated_application S handle aid dam_mac timeout_ms) N
    r N' \<Longrightarrow> raw_card_call S handle N (failed_by r) (handed_out owns_nothing r) N'"
| get_card_uid_variant: "runs (raw_card_get_card_uid_variant S handle option timeout_ms) N r N'
    \<Longrightarrow> raw_card_call S handle N (failed_by r) (handed_out (\<lambda>b. b) r) N'"
| set_picc_configuration: "runs (raw_card_set_picc_configuration S handle picc timeout_ms) N r N'
    \<Longrightarrow> raw_card_call S handle N (failed_by r) (handed_out owns_nothing r) N'"
| set_capability_configuration: "runs (raw_card_set_capability_configuration S handle capabilities timeout_ms)
    N r N' \<Longrightarrow> raw_card_call S handle N (failed_by r) (handed_out owns_nothing r) N'"
| set_default_aes_key: "runs (raw_card_set_default_aes_key S handle key key_version timeout_ms) N r N'
    \<Longrightarrow> raw_card_call S handle N (failed_by r) (handed_out owns_nothing r) N'"
| set_default_aes_key_provider: "runs (raw_card_set_default_aes_key_provider S handle provider request
    key_version timeout_ms) N r N' \<Longrightarrow> raw_card_call S handle N (failed_by r) (handed_out
    owns_nothing r) N'"
| set_ats: "runs (raw_card_set_ats S handle ats timeout_ms) N r N' \<Longrightarrow> raw_card_call S handle N
    (failed_by r) (handed_out owns_nothing r) N'"
| set_atqa: "runs (raw_card_set_atqa S handle atqa timeout_ms) N r N' \<Longrightarrow> raw_card_call S handle
    N (failed_by r) (handed_out owns_nothing r) N'"
| iso_update_record: "runs (raw_card_iso_update_record S handle instruction record_no short_identifier
    reference_control data timeout_ms) N r N' \<Longrightarrow> raw_card_call S handle N (failed_by r)
    (handed_out (\<lambda>b. b) r) N'"
| execute_transaction: "runs (raw_card_execute_transaction S handle operations return_mac timeout_ms) N r N'
    \<Longrightarrow> raw_card_call S handle N (failed_by r) (handed_out (\<lambda>b. b) r) N'"
| change_aes_key_provider: "runs (raw_card_change_aes_key_provider S handle number new_key_provider
    new_key_request version authenticated_key old_key_provider old_key_request key_set picc_master timeout_ms)
    N r N' \<Longrightarrow> raw_card_call S handle N (failed_by r) (handed_out owns_nothing r) N'"
| create_transaction_mac_file_provider: "runs (raw_card_create_transaction_mac_file_provider S handle file_no
    access provider request version timeout_ms) N r N' \<Longrightarrow> raw_card_call S handle N (failed_by r)
    (handed_out owns_nothing r) N'"

inductive raw_channel_call ::
  "'h c_services \<Rightarrow> cpp_handle \<Rightarrow> 'h native \<Rightarrow> cpp_error option \<Rightarrow> nat option \<Rightarrow> 'h native \<Rightarrow> bool" for S handle where
  native_frame: "runs (raw_channel_native_frame S handle framing command data timeout_ms) N r N'
    \<Longrightarrow> raw_channel_call S handle N (failed_by r) (handed_out xn_data r) N'"
| native_exchange: "runs (raw_channel_native_exchange S handle request timeout_ms) N r N' \<Longrightarrow>
    raw_channel_call S handle N (failed_by r) (handed_out xn_data r) N'"
| iso_exchange: "runs (raw_channel_iso_exchange S handle request timeout_ms) N r N' \<Longrightarrow>
    raw_channel_call S handle N (failed_by r) (handed_out xs_data r) N'"
| authenticate_standard_aes: "runs (raw_channel_authenticate_standard_aes S handle key_no key timeout_ms) N r
    N' \<Longrightarrow> raw_channel_call S handle N (failed_by r) (handed_out owns_nothing r) N'"
| authenticate_standard_aes_provider: "runs (raw_channel_authenticate_standard_aes_provider S handle key_no
    provider request timeout_ms) N r N' \<Longrightarrow> raw_channel_call S handle N (failed_by r) (handed_out
    owns_nothing r) N'"
| authenticate_ev2_first_aes: "runs (raw_channel_authenticate_ev2_first_aes S handle key_no key pcd timeout_ms)
    N r N' \<Longrightarrow> raw_channel_call S handle N (failed_by r) (handed_out owns_nothing r) N'"
| authenticate_ev2_first_aes_provider: "runs (raw_channel_authenticate_ev2_first_aes_provider S handle key_no
    provider request pcd timeout_ms) N r N' \<Longrightarrow> raw_channel_call S handle N (failed_by r)
    (handed_out owns_nothing r) N'"
| authenticate_ev2_non_first_aes: "runs (raw_channel_authenticate_ev2_non_first_aes S handle key_no key
    timeout_ms) N r N' \<Longrightarrow> raw_channel_call S handle N (failed_by r) (handed_out owns_nothing r)
    N'"
| authenticate_ev2_non_first_aes_provider: "runs (raw_channel_authenticate_ev2_non_first_aes_provider S handle
    key_no provider request timeout_ms) N r N' \<Longrightarrow> raw_channel_call S handle N (failed_by r)
    (handed_out owns_nothing r) N'"
| authenticate_iso_aes: "runs (raw_channel_authenticate_iso_aes S handle key_no application key timeout_ms) N r
    N' \<Longrightarrow> raw_channel_call S handle N (failed_by r) (handed_out owns_nothing r) N'"
| authenticate_iso_aes_provider: "runs (raw_channel_authenticate_iso_aes_provider S handle key_no application
    provider request timeout_ms) N r N' \<Longrightarrow> raw_channel_call S handle N (failed_by r) (handed_out
    owns_nothing r) N'"
| iso_secure_exchange: "runs (raw_channel_iso_secure_exchange S handle request timeout_ms) N r N'
    \<Longrightarrow> raw_channel_call S handle N (failed_by r) (handed_out xs_data r) N'"
| native_secure_exchange: "runs (raw_channel_native_secure_exchange S handle request timeout_ms) N r N'
    \<Longrightarrow> raw_channel_call S handle N (failed_by r) (handed_out (\<lambda>b. b) r) N'"

text \<open>One call of a method of the friendly card.\<close>

inductive facade_call ::
  "'h c_services \<Rightarrow> cpp_handle \<Rightarrow> 'h native \<Rightarrow> cpp_error option \<Rightarrow> 'h native \<Rightarrow> bool" for S handle where
  get_version: "runs (facade_get_version S handle timeout) N r N' \<Longrightarrow> facade_call S handle N
    (failed_by r) N'"
| free_memory: "runs (facade_free_memory S handle timeout) N r N' \<Longrightarrow> facade_call S handle N
    (failed_by r) N'"
| select_application: "runs (facade_select_application S handle application timeout) N r N' \<Longrightarrow>
    facade_call S handle N (failed_by r) N'"
| file_ids: "runs (facade_file_ids S handle timeout) N r N' \<Longrightarrow> facade_call S handle N (failed_by
    r) N'"
| application_ids: "runs (facade_application_ids S handle timeout) N r N' \<Longrightarrow> facade_call S
    handle N (failed_by r) N'"
| df_names: "runs (facade_df_names S handle timeout) N r N' \<Longrightarrow> facade_call S handle N (failed_by
    r) N'"
| iso_file_ids: "runs (facade_iso_file_ids S handle timeout) N r N' \<Longrightarrow> facade_call S handle N
    (failed_by r) N'"
| authenticate_standard_aes: "runs (facade_authenticate_standard_aes S handle key_no key timeout) N r N'
    \<Longrightarrow> facade_call S handle N (failed_by r) N'"
| authenticate_standard_aes_derived: "runs (facade_authenticate_standard_aes_derived S handle master_key
    deriver context timeout) N r N' \<Longrightarrow> facade_call S handle N (failed_by r) N'"
| authenticate_standard_aes_provided: "runs (facade_authenticate_standard_aes_provided S handle provider
    request timeout) N r N' \<Longrightarrow> facade_call S handle N (failed_by r) N'"
| authenticate_ev2_first_aes: "runs (facade_authenticate_ev2_first_aes S handle key_no key timeout) N r N'
    \<Longrightarrow> facade_call S handle N (failed_by r) N'"
| authenticate_ev2_first_aes_derived: "runs (facade_authenticate_ev2_first_aes_derived S handle master_key
    deriver context timeout) N r N' \<Longrightarrow> facade_call S handle N (failed_by r) N'"
| authenticate_ev2_first_aes_provided: "runs (facade_authenticate_ev2_first_aes_provided S handle provider
    request timeout) N r N' \<Longrightarrow> facade_call S handle N (failed_by r) N'"
| authenticate_ev2_first_aes_with_capabilities: "runs (facade_authenticate_ev2_first_aes_with_capabilities S
    handle key_no key pcd timeout) N r N' \<Longrightarrow> facade_call S handle N (failed_by r) N'"
| authenticate_ev2_first_aes_with_capabilities_derived: "runs
    (facade_authenticate_ev2_first_aes_with_capabilities_derived S handle master_key deriver context pcd
    timeout) N r N' \<Longrightarrow> facade_call S handle N (failed_by r) N'"
| authenticate_ev2_first_aes_with_capabilities_provided: "runs
    (facade_authenticate_ev2_first_aes_with_capabilities_provided S handle provider request pcd timeout) N r N'
    \<Longrightarrow> facade_call S handle N (failed_by r) N'"
| authenticate_ev2_non_first_aes: "runs (facade_authenticate_ev2_non_first_aes S handle key_no key timeout) N r
    N' \<Longrightarrow> facade_call S handle N (failed_by r) N'"
| authenticate_ev2_non_first_aes_derived: "runs (facade_authenticate_ev2_non_first_aes_derived S handle
    master_key deriver context timeout) N r N' \<Longrightarrow> facade_call S handle N (failed_by r) N'"
| authenticate_ev2_non_first_aes_provided: "runs (facade_authenticate_ev2_non_first_aes_provided S handle
    provider request timeout) N r N' \<Longrightarrow> facade_call S handle N (failed_by r) N'"
| authenticate_iso_aes: "runs (facade_authenticate_iso_aes S handle key_no application_key key timeout) N r N'
    \<Longrightarrow> facade_call S handle N (failed_by r) N'"
| authenticate_iso_aes_derived: "runs (facade_authenticate_iso_aes_derived S handle application_key master_key
    deriver context timeout) N r N' \<Longrightarrow> facade_call S handle N (failed_by r) N'"
| authenticate_iso_aes_provided: "runs (facade_authenticate_iso_aes_provided S handle provider request timeout)
    N r N' \<Longrightarrow> facade_call S handle N (failed_by r) N'"
| get_key_settings: "runs (facade_get_key_settings S handle timeout) N r N' \<Longrightarrow> facade_call S
    handle N (failed_by r) N'"
| get_key_set_versions: "runs (facade_get_key_set_versions S handle timeout) N r N' \<Longrightarrow>
    facade_call S handle N (failed_by r) N'"
| get_key_version: "runs (facade_get_key_version S handle key key_set timeout) N r N' \<Longrightarrow>
    facade_call S handle N (failed_by r) N'"
| change_key_settings: "runs (facade_change_key_settings S handle settings timeout) N r N' \<Longrightarrow>
    facade_call S handle N (failed_by r) N'"
| initialize_key_set: "runs (facade_initialize_key_set S handle key_set timeout) N r N' \<Longrightarrow>
    facade_call S handle N (failed_by r) N'"
| roll_key_set: "runs (facade_roll_key_set S handle key_set timeout) N r N' \<Longrightarrow> facade_call S
    handle N (failed_by r) N'"
| finalize_key_set: "runs (facade_finalize_key_set S handle key_set version timeout) N r N' \<Longrightarrow>
    facade_call S handle N (failed_by r) N'"
| create_application: "runs (facade_create_application S handle config timeout) N r N' \<Longrightarrow>
    facade_call S handle N (failed_by r) N'"
| delete_application: "runs (facade_delete_application S handle application timeout) N r N' \<Longrightarrow>
    facade_call S handle N (failed_by r) N'"
| delete_file: "runs (facade_delete_file S handle file_no timeout) N r N' \<Longrightarrow> facade_call S
    handle N (failed_by r) N'"
| get_file_settings: "runs (facade_get_file_settings S handle file_no timeout) N r N' \<Longrightarrow>
    facade_call S handle N (failed_by r) N'"
| get_file_counters: "runs (facade_get_file_counters S handle file_no communication timeout) N r N'
    \<Longrightarrow> facade_call S handle N (failed_by r) N'"
| read_data: "runs (facade_read_data S handle file_no off len communication timeout) N r N' \<Longrightarrow>
    facade_call S handle N (failed_by r) N'"
| write_data: "runs (facade_write_data S handle file_no off data communication timeout) N r N'
    \<Longrightarrow> facade_call S handle N (failed_by r) N'"
| read_records: "runs (facade_read_records S handle file_no first count communication timeout) N r N'
    \<Longrightarrow> facade_call S handle N (failed_by r) N'"
| write_record: "runs (facade_write_record S handle file_no off data communication timeout) N r N'
    \<Longrightarrow> facade_call S handle N (failed_by r) N'"
| update_record: "runs (facade_update_record S handle file_no record_no off data communication timeout) N r N'
    \<Longrightarrow> facade_call S handle N (failed_by r) N'"
| clear_record_file: "runs (facade_clear_record_file S handle file_no timeout) N r N' \<Longrightarrow>
    facade_call S handle N (failed_by r) N'"
| get_value: "runs (facade_get_value S handle file_no communication timeout) N r N' \<Longrightarrow>
    facade_call S handle N (failed_by r) N'"
| credit: "runs (facade_credit S handle file_no amount communication timeout) N r N' \<Longrightarrow>
    facade_call S handle N (failed_by r) N'"
| debit: "runs (facade_debit S handle file_no amount communication timeout) N r N' \<Longrightarrow>
    facade_call S handle N (failed_by r) N'"
| limited_credit: "runs (facade_limited_credit S handle file_no amount communication timeout) N r N'
    \<Longrightarrow> facade_call S handle N (failed_by r) N'"
| commit_transaction: "runs (facade_commit_transaction S handle return_mac timeout) N r N' \<Longrightarrow>
    facade_call S handle N (failed_by r) N'"
| abort_transaction: "runs (facade_abort_transaction S handle timeout) N r N' \<Longrightarrow> facade_call S
    handle N (failed_by r) N'"
| commit_reader_id: "runs (facade_commit_reader_id S handle reader_id timeout) N r N' \<Longrightarrow>
    facade_call S handle N (failed_by r) N'"
| restore_transfer: "runs (facade_restore_transfer S handle target source communication timeout) N r N'
    \<Longrightarrow> facade_call S handle N (failed_by r) N'"
| create_data_file: "runs (facade_create_data_file S handle config timeout) N r N' \<Longrightarrow>
    facade_call S handle N (failed_by r) N'"
| create_value_file: "runs (facade_create_value_file S handle config timeout) N r N' \<Longrightarrow>
    facade_call S handle N (failed_by r) N'"
| create_record_file: "runs (facade_create_record_file S handle config timeout) N r N' \<Longrightarrow>
    facade_call S handle N (failed_by r) N'"
| change_file_settings: "runs (facade_change_file_settings S handle file_no communication access
    command_communication timeout) N r N' \<Longrightarrow> facade_call S handle N (failed_by r) N'"
| create_transaction_mac_file: "runs (facade_create_transaction_mac_file S handle file_no access key version
    timeout) N r N' \<Longrightarrow> facade_call S handle N (failed_by r) N'"
| create_transaction_mac_file_derived: "runs (facade_create_transaction_mac_file_derived S handle file_no
    access master_key deriver context version timeout) N r N' \<Longrightarrow> facade_call S handle N
    (failed_by r) N'"
| create_transaction_mac_file_provided: "runs (facade_create_transaction_mac_file_provided S handle file_no
    access provider request version timeout) N r N' \<Longrightarrow> facade_call S handle N (failed_by r) N'"
| change_aes_key: "runs (facade_change_aes_key S handle config replacement old_key timeout) N r N'
    \<Longrightarrow> facade_call S handle N (failed_by r) N'"
| change_aes_key_provided: "runs (facade_change_aes_key_provided S handle config replacement_provider
    replacement_request old_provider old_request timeout) N r N' \<Longrightarrow> facade_call S handle N
    (failed_by r) N'"
| get_card_uid: "runs (facade_get_card_uid S handle timeout) N r N' \<Longrightarrow> facade_call S handle N
    (failed_by r) N'"
| get_card_uid_variant: "runs (facade_get_card_uid_variant S handle option timeout) N r N' \<Longrightarrow>
    facade_call S handle N (failed_by r) N'"
| read_originality_signature: "runs (facade_read_originality_signature S handle timeout) N r N'
    \<Longrightarrow> facade_call S handle N (failed_by r) N'"
| format_picc: "runs (facade_format_picc S handle timeout) N r N' \<Longrightarrow> facade_call S handle N
    (failed_by r) N'"
| set_picc_configuration: "runs (facade_set_picc_configuration S handle config timeout) N r N'
    \<Longrightarrow> facade_call S handle N (failed_by r) N'"
| set_capability_configuration: "runs (facade_set_capability_configuration S handle capabilities timeout) N r
    N' \<Longrightarrow> facade_call S handle N (failed_by r) N'"
| set_default_aes_key: "runs (facade_set_default_aes_key S handle key version timeout) N r N' \<Longrightarrow>
    facade_call S handle N (failed_by r) N'"
| set_default_aes_key_derived: "runs (facade_set_default_aes_key_derived S handle master_key deriver context
    version timeout) N r N' \<Longrightarrow> facade_call S handle N (failed_by r) N'"
| set_default_aes_key_provided: "runs (facade_set_default_aes_key_provided S handle provider request version
    timeout) N r N' \<Longrightarrow> facade_call S handle N (failed_by r) N'"
| set_ats: "runs (facade_set_ats S handle ats timeout) N r N' \<Longrightarrow> facade_call S handle N
    (failed_by r) N'"
| set_atqa: "runs (facade_set_atqa S handle atqa timeout) N r N' \<Longrightarrow> facade_call S handle N
    (failed_by r) N'"
| iso_select_file: "runs (facade_iso_select_file S handle identifier selection response timeout) N r N'
    \<Longrightarrow> facade_call S handle N (failed_by r) N'"
| iso_select_df_name: "runs (facade_iso_select_df_name S handle name response timeout) N r N' \<Longrightarrow>
    facade_call S handle N (failed_by r) N'"
| iso_read_binary: "runs (facade_iso_read_binary S handle short_identifier off len timeout) N r N'
    \<Longrightarrow> facade_call S handle N (failed_by r) N'"
| iso_update_binary: "runs (facade_iso_update_binary S handle short_identifier off data timeout) N r N'
    \<Longrightarrow> facade_call S handle N (failed_by r) N'"
| iso_read_records: "runs (facade_iso_read_records S handle record_no short_identifier selection len timeout) N
    r N' \<Longrightarrow> facade_call S handle N (failed_by r) N'"
| iso_append_record: "runs (facade_iso_append_record S handle short_identifier data timeout) N r N'
    \<Longrightarrow> facade_call S handle N (failed_by r) N'"
| iso_get_challenge: "runs (facade_iso_get_challenge S handle len timeout) N r N' \<Longrightarrow> facade_call
    S handle N (failed_by r) N'"
| iso_external_authenticate: "runs (facade_iso_external_authenticate S handle key_number application_key
    algorithm data timeout) N r N' \<Longrightarrow> facade_call S handle N (failed_by r) N'"
| iso_internal_authenticate: "runs (facade_iso_internal_authenticate S handle key_number application_key
    algorithm data timeout) N r N' \<Longrightarrow> facade_call S handle N (failed_by r) N'"
| reset_authentication: "runs (facade_reset_authentication S handle) N r N' \<Longrightarrow> facade_call S
    handle N (failed_by r) N'"

inductive facade_offline_call ::
  "'h c_services \<Rightarrow> library_identity \<Rightarrow> 'h native \<Rightarrow> cpp_error option \<Rightarrow> 'h native \<Rightarrow> bool" for S loaded where
  derive_nxp_aes128: "runs (facade_offline_derive_nxp_aes128 S loaded master_key diversification) N r N'
    \<Longrightarrow> facade_offline_call S loaded N (failed_by r) N'"
| derive_nxp_aes128_provided: "runs (facade_offline_derive_nxp_aes128_provided S loaded provider request) N r
    N' \<Longrightarrow> facade_offline_call S loaded N (failed_by r) N'"
| encrypt_delegated_default_key_aes: "runs (facade_offline_encrypt_delegated_default_key_aes S loaded
    dam_encryption_key application_default_key version) N r N' \<Longrightarrow> facade_offline_call S loaded N
    (failed_by r) N'"
| encrypt_delegated_default_key_aes_provided: "runs (facade_offline_encrypt_delegated_default_key_aes_provided
    S loaded provider request application_default_key version) N r N' \<Longrightarrow> facade_offline_call S
    loaded N (failed_by r) N'"
| calculate_delegated_application_mac_aes: "runs (facade_offline_calculate_delegated_application_mac_aes S
    loaded dam_mac_key config encrypted_default_key) N r N' \<Longrightarrow> facade_offline_call S loaded N
    (failed_by r) N'"
| calculate_delegated_application_mac_aes_provided: "runs
    (facade_offline_calculate_delegated_application_mac_aes_provided S loaded provider request config
    encrypted_default_key) N r N' \<Longrightarrow> facade_offline_call S loaded N (failed_by r) N'"
| calculate_delegated_application_delete_mac_aes: "runs
    (facade_offline_calculate_delegated_application_delete_mac_aes S loaded dam_mac_key application_id) N r N'
    \<Longrightarrow> facade_offline_call S loaded N (failed_by r) N'"
| calculate_delegated_application_delete_mac_aes_provided: "runs
    (facade_offline_calculate_delegated_application_delete_mac_aes_provided S loaded provider request
    application_id) N r N' \<Longrightarrow> facade_offline_call S loaded N (failed_by r) N'"
| calculate_delegated_configuration_mac_aes: "runs (facade_offline_calculate_delegated_configuration_mac_aes S
    loaded dam_mac_key old_df_name new_df_name) N r N' \<Longrightarrow> facade_offline_call S loaded N
    (failed_by r) N'"
| calculate_delegated_configuration_mac_aes_provided: "runs
    (facade_offline_calculate_delegated_configuration_mac_aes_provided S loaded provider request old_df_name
    new_df_name) N r N' \<Longrightarrow> facade_offline_call S loaded N (failed_by r) N'"
| calculate_mfc_license_mac_aes: "runs (facade_offline_calculate_mfc_license_mac_aes S loaded license_mac_key
    license sector_secrets) N r N' \<Longrightarrow> facade_offline_call S loaded N (failed_by r) N'"
| calculate_mfc_license_mac_aes_provided: "runs (facade_offline_calculate_mfc_license_mac_aes_provided S loaded
    provider request license sector_secrets) N r N' \<Longrightarrow> facade_offline_call S loaded N (failed_by
    r) N'"
| derive_transaction_mac_keys_aes: "runs (facade_offline_derive_transaction_mac_keys_aes S loaded
    transaction_key counter uid) N r N' \<Longrightarrow> facade_offline_call S loaded N (failed_by r) N'"
| derive_transaction_mac_keys_aes_provided: "runs (facade_offline_derive_transaction_mac_keys_aes_provided S
    loaded provider request counter uid) N r N' \<Longrightarrow> facade_offline_call S loaded N (failed_by r)
    N'"
| calculate_transaction_mac_session_aes: "runs (facade_offline_calculate_transaction_mac_session_aes S loaded
    session_mac_key transaction_input) N r N' \<Longrightarrow> facade_offline_call S loaded N (failed_by r)
    N'"
| calculate_transaction_mac_aes: "runs (facade_offline_calculate_transaction_mac_aes S loaded
    transaction_mac_key counter uid transaction_input) N r N' \<Longrightarrow> facade_offline_call S loaded N
    (failed_by r) N'"
| calculate_transaction_mac_aes_provided: "runs (facade_offline_calculate_transaction_mac_aes_provided S loaded
    provider request counter uid transaction_input) N r N' \<Longrightarrow> facade_offline_call S loaded N
    (failed_by r) N'"
| verify_transaction_mac_aes: "runs (facade_offline_verify_transaction_mac_aes S loaded transaction_key counter
    uid transaction_input mac) N r N' \<Longrightarrow> facade_offline_call S loaded N (failed_by r) N'"
| verify_transaction_mac_aes_provided: "runs (facade_offline_verify_transaction_mac_aes_provided S loaded
    provider request counter uid transaction_input mac) N r N' \<Longrightarrow> facade_offline_call S loaded N
    (failed_by r) N'"
| decrypt_transaction_reader_id_aes: "runs (facade_offline_decrypt_transaction_reader_id_aes S loaded
    session_encryption_key encrypted_reader_id) N r N' \<Longrightarrow> facade_offline_call S loaded N
    (failed_by r) N'"
| verify_originality_uid_signature: "runs (facade_offline_verify_originality_uid_signature S loaded curve
    public_key uid signature) N r N' \<Longrightarrow> facade_offline_call S loaded N (failed_by r) N'"

lemmas raw_card_definitions = raw_card_get_version_def raw_card_free_memory_def raw_card_select_application_def
  raw_card_file_ids_def raw_card_authenticate_standard_aes_def raw_card_authenticate_standard_aes_provider_def
  raw_card_authenticate_ev2_first_aes_def raw_card_authenticate_ev2_first_aes_provider_def
  raw_card_authenticate_ev2_first_aes_with_capabilities_def
  raw_card_authenticate_ev2_first_aes_with_capabilities_provider_def
  raw_card_authenticate_ev2_non_first_aes_def raw_card_authenticate_ev2_non_first_aes_provider_def
  raw_card_application_ids_def raw_card_iso_file_ids_def raw_card_get_key_settings_def
  raw_card_get_key_set_versions_def raw_card_get_card_uid_def raw_card_read_originality_signature_def
  raw_card_abort_transaction_def raw_card_format_picc_def raw_card_delete_file_def
  raw_card_get_file_settings_def raw_card_clear_record_file_def raw_card_get_file_counters_def
  raw_card_delete_application_def raw_card_change_key_settings_def raw_card_get_key_version_def
  raw_card_initialize_key_set_def raw_card_roll_key_set_def raw_card_finalize_key_set_def
  raw_card_read_data_def raw_card_write_data_def raw_card_write_record_def raw_card_read_records_def
  raw_card_update_record_def raw_card_credit_def raw_card_debit_def raw_card_limited_credit_def
  raw_card_get_value_def raw_card_commit_transaction_def raw_card_commit_reader_id_def
  raw_card_create_application_def raw_card_create_data_file_def raw_card_create_value_file_def
  raw_card_create_record_file_def raw_card_change_file_settings_def raw_card_create_transaction_mac_file_def
  raw_card_change_aes_key_def raw_card_iso_select_file_def raw_card_iso_select_df_name_def
  raw_card_iso_read_binary_def raw_card_iso_update_binary_def raw_card_iso_read_records_def
  raw_card_iso_append_record_def raw_card_iso_get_challenge_def raw_card_iso_external_authenticate_def
  raw_card_iso_internal_authenticate_def raw_card_authenticate_iso_aes_def
  raw_card_authenticate_iso_aes_provider_def raw_card_get_df_names_def raw_card_reset_authentication_def
  raw_card_restore_transfer_def raw_card_create_delegated_application_def
  raw_card_get_delegated_application_info_def raw_card_delete_delegated_application_def
  raw_card_get_card_uid_variant_def raw_card_set_picc_configuration_def
  raw_card_set_capability_configuration_def raw_card_set_default_aes_key_def
  raw_card_set_default_aes_key_provider_def raw_card_set_ats_def raw_card_set_atqa_def
  raw_card_iso_update_record_def raw_card_execute_transaction_def raw_card_change_aes_key_provider_def
  raw_card_create_transaction_mac_file_provider_def

lemmas raw_channel_definitions = raw_channel_native_frame_def raw_channel_native_exchange_def
  raw_channel_iso_exchange_def raw_channel_authenticate_standard_aes_def
  raw_channel_authenticate_standard_aes_provider_def raw_channel_authenticate_ev2_first_aes_def
  raw_channel_authenticate_ev2_first_aes_provider_def raw_channel_authenticate_ev2_non_first_aes_def
  raw_channel_authenticate_ev2_non_first_aes_provider_def raw_channel_authenticate_iso_aes_def
  raw_channel_authenticate_iso_aes_provider_def raw_channel_iso_secure_exchange_def
  raw_channel_native_secure_exchange_def

lemmas facade_definitions = facade_reset_authentication_def value_mutation_def facade_get_version_def
  facade_free_memory_def facade_select_application_def facade_file_ids_def facade_application_ids_def
  facade_df_names_def facade_iso_file_ids_def facade_authenticate_standard_aes_def
  facade_authenticate_standard_aes_derived_def facade_authenticate_standard_aes_provided_def
  facade_authenticate_ev2_first_aes_def facade_authenticate_ev2_first_aes_derived_def
  facade_authenticate_ev2_first_aes_provided_def facade_authenticate_ev2_first_aes_with_capabilities_def
  facade_authenticate_ev2_first_aes_with_capabilities_derived_def
  facade_authenticate_ev2_first_aes_with_capabilities_provided_def facade_authenticate_ev2_non_first_aes_def
  facade_authenticate_ev2_non_first_aes_derived_def facade_authenticate_ev2_non_first_aes_provided_def
  facade_authenticate_iso_aes_def facade_authenticate_iso_aes_derived_def
  facade_authenticate_iso_aes_provided_def facade_get_key_settings_def facade_get_key_set_versions_def
  facade_get_key_version_def facade_change_key_settings_def facade_initialize_key_set_def
  facade_roll_key_set_def facade_finalize_key_set_def facade_create_application_def
  facade_delete_application_def facade_delete_file_def facade_get_file_settings_def
  facade_get_file_counters_def facade_read_data_def facade_write_data_def facade_read_records_def
  facade_write_record_def facade_update_record_def facade_clear_record_file_def facade_get_value_def
  facade_credit_def facade_debit_def facade_limited_credit_def facade_commit_transaction_def
  facade_abort_transaction_def facade_commit_reader_id_def facade_restore_transfer_def
  facade_create_data_file_def facade_create_value_file_def facade_create_record_file_def
  facade_change_file_settings_def facade_create_transaction_mac_file_def
  facade_create_transaction_mac_file_derived_def facade_create_transaction_mac_file_provided_def
  facade_change_aes_key_def facade_change_aes_key_provided_def facade_get_card_uid_def
  facade_get_card_uid_variant_def facade_read_originality_signature_def facade_format_picc_def
  facade_set_picc_configuration_def facade_set_capability_configuration_def facade_set_default_aes_key_def
  facade_set_default_aes_key_derived_def facade_set_default_aes_key_provided_def facade_set_ats_def
  facade_set_atqa_def facade_iso_select_file_def facade_iso_select_df_name_def facade_iso_read_binary_def
  facade_iso_update_binary_def facade_iso_read_records_def facade_iso_append_record_def
  facade_iso_get_challenge_def facade_iso_external_authenticate_def facade_iso_internal_authenticate_def

lemmas facade_offline_definitions = facade_offline_derive_nxp_aes128_def
  facade_offline_derive_nxp_aes128_provided_def facade_offline_encrypt_delegated_default_key_aes_def
  facade_offline_encrypt_delegated_default_key_aes_provided_def
  facade_offline_calculate_delegated_application_mac_aes_def
  facade_offline_calculate_delegated_application_mac_aes_provided_def
  facade_offline_calculate_delegated_application_delete_mac_aes_def
  facade_offline_calculate_delegated_application_delete_mac_aes_provided_def
  facade_offline_calculate_delegated_configuration_mac_aes_def
  facade_offline_calculate_delegated_configuration_mac_aes_provided_def
  facade_offline_calculate_mfc_license_mac_aes_def facade_offline_calculate_mfc_license_mac_aes_provided_def
  facade_offline_derive_transaction_mac_keys_aes_def
  facade_offline_derive_transaction_mac_keys_aes_provided_def
  facade_offline_calculate_transaction_mac_session_aes_def facade_offline_calculate_transaction_mac_aes_def
  facade_offline_calculate_transaction_mac_aes_provided_def facade_offline_verify_transaction_mac_aes_def
  facade_offline_verify_transaction_mac_aes_provided_def facade_offline_decrypt_transaction_reader_id_aes_def
  facade_offline_verify_originality_uid_signature_def

end
