(* ===== verification/Cpp_Verdicts.thy ===== *)
theory Cpp_Verdicts
  imports Cpp_Functions
begin

text \<open>
  Every call of the facade meets the contract of its family of functions: it fails locally or makes one
  call of the C interface whose verdict it reports, and keeps no native buffer but the one it hands out.
\<close>

section \<open>More of the contract\<close>

lemma local_failures [wrapped_intros]:
  "local_failure (cpp_invalid_argument m)" "local_failure empty_key_error"
  by (simp_all add: local_failure_def cpp_invalid_argument_def empty_key_error_def)

lemma local_check_option [wrapped_intros]:
  "(\<And>v. local_check (check v)) \<Longrightarrow> local_check (case r of None \<Rightarrow> Inr () | Some v \<Rightarrow> check v)"
  by (cases r) (simp_all add: local_check_def)

lemma quiet_outcome:
  assumes "runs f N r N'" "memory_ok N" "wrapped R owns_nothing f"
  shows "comes_to R (nv_library N) (verdict_of (failed_by r)) (nv_library N') \<and> memory_step N None N'"
  using wrapped_outcome [OF assms] by (simp add: handed_out_def split: sum.splits)

text \<open>Both transaction keys have sixteen bytes.\<close>

definition yields :: "('a \<Rightarrow> bool) \<Rightarrow> ('s, 'a) action \<Rightarrow> bool" where
  "yields P act \<longleftrightarrow> (\<forall>s v s'. act s = (Returned (Inr v), s') \<longrightarrow> P v)"

lemma yields_require: "(\<And>a. yields P (f a)) \<Longrightarrow> yields P (require r f)"
  by (auto simp: yields_def require_def split: sum.splits)

lemma yields_bind: "(\<And>a. yields P (f a)) \<Longrightarrow> yields P (act_bind act f)"
  by (auto simp: yields_def act_bind_def split: prod.splits dep.splits sum.splits)

lemma yields_output: "(\<And>v. r = Inr v \<Longrightarrow> P v) \<Longrightarrow> yields P (output_bytes slot (act_require r))"
  by (auto simp: yields_def output_bytes_def act_require_def)

lemma yields_boundary: "yields P act \<Longrightarrow> boundary err act L = (ret, L') \<Longrightarrow> ret_value ret = Some v \<Longrightarrow> P v"
  unfolding yields_def boundary_def by (auto split: prod.splits dep.splits sum.splits) blast+

lemma transaction_keys_length: "transaction_keys C key counter uid = Inr v \<Longrightarrow> length v = 32"
  by (auto simp: transaction_keys_def result_bind_def derive_transaction_mac_keys_aes_def secret_result_def Let_def
      split: sum.splits if_splits dep.splits)

lemma derived_keys_length:
  "df_offline_derive_transaction_mac_keys_aes S key counter uid slot err L = (ret, L') \<Longrightarrow> ret_value ret = Some v
     \<Longrightarrow> length v = 32"
  "df_offline_derive_transaction_mac_keys_aes_provider S provider request counter uid slot err L = (ret, L')
     \<Longrightarrow> ret_value ret = Some v \<Longrightarrow> length v = 32"
  unfolding df_offline_derive_transaction_mac_keys_aes_def df_offline_derive_transaction_mac_keys_aes_provider_def
    calculated_def
  by (erule (1) yields_boundary [rotated], intro yields_require yields_bind yields_output, erule transaction_keys_length)+

context interface_calls
begin

lemma split_transaction_keys_ok:
  assumes "provides R F" "\<And>L ret L' v. F L = (ret, L') \<Longrightarrow> ret_value ret = Some v \<Longrightarrow> length v = 32"
  shows "wrapped R owns_nothing (split_transaction_keys (offline_buffer F))"
proof (rule wrappedI)
  fix N r N'
  assume ok: "memory_ok N" and run: "split_transaction_keys (offline_buffer F) N = (r, N')"
  obtain x where inner: "offline_buffer F N = (x, N')"
    using run by (cases "offline_buffer F N") (auto simp: split_transaction_keys_def split: sum.splits)
  obtain ret L where F: "F (nv_library N) = (ret, L)" by fastforce
  obtain b N2 where st: "stored_buffer (ret_value ret) (N\<lparr>nv_library := L\<rparr>) = (b, N2)" by fastforce
  have live: "case b of None \<Rightarrow> True | Some a \<Rightarrow> nv_buffers N2 a \<noteq> None"
    using stored_buffer_step [OF st] by (auto split: option.splits)
  have "length bs = 32" if "x = Inr bs" for bs
    using that inner F st copy_live [OF live] stored_buffer_step [OF st] assms(2) [OF F] assms(1)
    by (auto simp: offline_buffer_def buffer_result_def on_library_def buffer_adopt_def provides_def conclusive_def
        split: if_splits option.splits)
  then have "same_verdict x r"
    using run inner by (auto simp: split_transaction_keys_def same_verdict_def split: sum.splits)
  then show "comes_to R (nv_library N) r (nv_library N') \<and> memory_step N (handed_out owns_nothing r) N'"
    using wrappedD [OF offline_buffer_ok [OF assms(1)] ok inner] comes_to_verdict
    by (auto simp: handed_out_def split: sum.splits)
qed

end

lemma transaction_keys_wrapped [wrapped_intros]:
  "wrapped (offline_call S) owns_nothing (split_transaction_keys (offline_buffer
     (df_offline_derive_transaction_mac_keys_aes S (aes_key_argument key) counter (byte_data uid) fresh_buffer fresh_error)))"
  "wrapped (offline_call S) owns_nothing (split_transaction_keys (offline_buffer
     (df_offline_derive_transaction_mac_keys_aes_provider S (Some (provider_descriptor provider request))
        (Some (request_descriptor request)) counter (byte_data uid) fresh_buffer fresh_error)))"
  by (rule offline.split_transaction_keys_ok, intro wrapped_intros, erule (1) derived_keys_length)+

section \<open>Every call\<close>

lemma raw_card_call_contract:
  assumes "raw_card_call S handle N failed b N'" "memory_ok N"
  shows "comes_to (managed_call S handle) (nv_library N) (verdict_of failed) (nv_library N') \<and> memory_step N b N'"
  using assms
  by (induction rule: raw_card_call.induct)
     (erule (1) wrapped_outcome, simp only: raw_card_definitions, intro wrapped_intros)+

lemma raw_channel_call_contract:
  assumes "raw_channel_call S handle N failed b N'" "memory_ok N"
  shows "comes_to (raw_call S handle) (nv_library N) (verdict_of failed) (nv_library N') \<and> memory_step N b N'"
  using assms
  by (induction rule: raw_channel_call.induct)
     (erule (1) wrapped_outcome, simp only: raw_channel_definitions, intro wrapped_intros)+

lemma facade_call_contract:
  assumes "facade_call S handle N failed N'" "memory_ok N"
  shows "comes_to (managed_call S handle) (nv_library N) (verdict_of failed) (nv_library N') \<and> memory_step N None N'"
  using assms
  by (induction rule: facade_call.induct)
     (erule (1) quiet_outcome, simp only: facade_definitions raw_card_definitions, intro wrapped_intros)+

lemma facade_offline_call_contract:
  assumes "facade_offline_call S loaded N failed N'" "memory_ok N"
  shows "comes_to (offline_call S) (nv_library N) (verdict_of failed) (nv_library N') \<and> memory_step N None N'"
  using assms
  by (induction rule: facade_offline_call.induct)
     (erule (1) quiet_outcome, simp only: facade_offline_definitions, intro wrapped_intros)+

end
