(* ===== verification/Ownership.thy ===== *)
theory Ownership
  imports Main
begin

text \<open>
  Sole ownership of resources by the members of objects, as move-only classes keep it: lemmas shared by the
  secret storage of the core and by the buffers and handles of the C++17 facade.
\<close>

section \<open>Sole owners\<close>

text \<open>The resources that objects hold, each by its member.\<close>

definition held :: "('v \<Rightarrow> 'r option) \<Rightarrow> ('x \<rightharpoonup> 'v) \<Rightarrow> 'x \<rightharpoonup> 'r" where
  "held member objects x = Option.bind (objects x) member"

definition sole_owners :: "('x \<rightharpoonup> 'r) \<Rightarrow> 'r set \<Rightarrow> bool" where
  "sole_owners owner live \<longleftrightarrow>
     (\<forall>x r. owner x = Some r \<longrightarrow> r \<in> live \<and> (\<forall>y. owner y = Some r \<longrightarrow> y = x)) \<and> (\<forall>r\<in>live. \<exists>x. owner x = Some r)"

lemma held_simps [simp]:
  "held member (objects(x \<mapsto> v)) = (held member objects)(x := member v)"
  "held member (objects(x := None)) = (held member objects)(x := None)"
  "held member Map.empty = Map.empty"
  by (auto simp: held_def)

lemma held_at: "objects x = None \<Longrightarrow> held member objects x = None" "objects x = Some v \<Longrightarrow> held member objects x = member v"
  by (simp_all add: held_def)

lemma sole_owners_none [simp]: "sole_owners Map.empty {}"
  by (simp add: sole_owners_def)

lemma sole_ownersI:
  assumes "\<And>x r. owner x = Some r \<Longrightarrow> r \<in> live \<and> (\<forall>y. owner y = Some r \<longrightarrow> y = x)"
    and "\<And>r. r \<in> live \<Longrightarrow> \<exists>x. owner x = Some r"
  shows "sole_owners owner live"
  using assms by (simp add: sole_owners_def)

lemma sole_ownersD:
  assumes "sole_owners owner live"
  shows "owner x = Some r \<Longrightarrow> r \<in> live" "owner x = Some r \<Longrightarrow> owner y = Some r \<Longrightarrow> y = x"
    "r \<in> live \<Longrightarrow> \<exists>x. owner x = Some r"
  using assms by (auto simp: sole_owners_def)

lemma sole_owners_take:
  assumes "sole_owners owner live" "owner x = None" "r \<notin> live"
  shows "sole_owners (owner(x \<mapsto> r)) (insert r live)"
proof (rule sole_ownersI)
  fix y q
  assume "(owner(x \<mapsto> r)) y = Some q"
  then show "q \<in> insert r live \<and> (\<forall>z. (owner(x \<mapsto> r)) z = Some q \<longrightarrow> z = y)"
    using sole_ownersD [OF assms(1)] assms(3) by (auto split: if_splits)
next
  fix q
  assume "q \<in> insert r live"
  then show "\<exists>y. (owner(x \<mapsto> r)) y = Some q"
    using sole_ownersD(3) [OF assms(1), of q] assms(2,3) by (metis fun_upd_apply insertE option.distinct(1))
qed

lemma sole_owners_give:
  assumes "sole_owners owner live" "owner x = Some r"
  shows "sole_owners (owner(x := None)) (live - {r})"
proof (rule sole_ownersI)
  fix y q
  assume "(owner(x := None)) y = Some q"
  then show "q \<in> live - {r} \<and> (\<forall>z. (owner(x := None)) z = Some q \<longrightarrow> z = y)"
    using sole_ownersD [OF assms(1)] assms(2) by (auto split: if_splits)
next
  fix q
  assume "q \<in> live - {r}"
  then show "\<exists>y. (owner(x := None)) y = Some q"
    using sole_ownersD(3) [OF assms(1), of q] assms(2) by (metis Diff_iff fun_upd_apply option.inject singletonI)
qed

lemma sole_owners_idle: "sole_owners owner live \<Longrightarrow> owner x = None \<Longrightarrow> sole_owners (owner(x := None)) live"
  by (simp add: fun_upd_idem)

lemma sole_owners_move:
  assumes "sole_owners owner live" "owner y = None"
  shows "sole_owners (owner(x := None, y := owner x)) live"
proof (rule sole_ownersI)
  fix z q
  assume "(owner(x := None, y := owner x)) z = Some q"
  then show "q \<in> live \<and> (\<forall>w. (owner(x := None, y := owner x)) w = Some q \<longrightarrow> w = z)"
    using sole_ownersD(1,2) [OF assms(1)] by (auto split: if_splits)
next
  fix q
  assume "q \<in> live"
  then obtain z where z: "owner z = Some q" using sole_ownersD(3) [OF assms(1)] by blast
  then have "(owner(x := None, y := owner x)) (if z = x then y else z) = Some q"
    using assms(2) by auto
  then show "\<exists>w. (owner(x := None, y := owner x)) w = Some q" ..
qed

end
