(* ===== verification/Cpp_Ownership.thy ===== *)
theory Cpp_Ownership
  imports Cpp_Verdicts Ownership
begin

text \<open>
  Programs over the C++17 facade: the native library together with the live objects of the classes
  \<^verbatim>\<open>Buffer\<close>, \<^verbatim>\<open>Card\<close> and \<^verbatim>\<open>Channel\<close>, and the steps a program can take with them. The
  invariant says that ownership is exact: each native buffer and each open handle has one owner.
\<close>

section \<open>Programs\<close>

text \<open>
  The live objects by name. The last two fields only record, for the statement of the invariant, the
  handles whose owner was destroyed while the library refused to close them; no step reads them.
\<close>

record 'h cpp_program =
  pg_native :: "'h native"
  pg_buffers :: "nat \<rightharpoonup> cpp_buffer"
  pg_cards :: "nat \<rightharpoonup> cpp_handle"
  pg_channels :: "nat \<rightharpoonup> cpp_handle"
  pg_left_cards :: "u64 set"
  pg_left_channels :: "u64 set"

definition program_start :: "'h \<Rightarrow> 'h cpp_program" where
  "program_start h =
     \<lparr>pg_native = \<lparr>nv_library = fresh_library h, nv_buffers = Map.empty, nv_next_buffer = 0, nv_fault = False,
                   nv_released = []\<rparr>,
      pg_buffers = Map.empty, pg_cards = Map.empty, pg_channels = Map.empty,
      pg_left_cards = {}, pg_left_channels = {}\<rparr>"

text \<open>A buffer that a call hands out becomes a new object.\<close>

definition received :: "nat \<Rightarrow> nat option \<Rightarrow> (nat \<rightharpoonup> cpp_buffer) \<Rightarrow> nat \<rightharpoonup> cpp_buffer" where
  "received x b objects = (case b of None \<Rightarrow> objects | Some a \<Rightarrow> objects(x \<mapsto> Some a))"

definition left_open :: "cpp_handle \<Rightarrow> u64 set \<Rightarrow> u64 set \<Rightarrow> u64 set" where
  "left_open h known left = (if h \<in> known then insert h left else left)"

text \<open>The result of opening is an object.\<close>

definition opened_object :: "nat \<Rightarrow> cpp_handle cpp_result \<Rightarrow> (nat \<rightharpoonup> cpp_handle) \<Rightarrow> nat \<rightharpoonup> cpp_handle" where
  "opened_object c r objects = (case r of Inl _ \<Rightarrow> objects | Inr h \<Rightarrow> objects(c \<mapsto> h))"

inductive program_step :: "'h c_services \<Rightarrow> library_identity \<Rightarrow> 'h cpp_program \<Rightarrow> 'h cpp_program \<Rightarrow> bool"
  for S loaded where
  new_buffer: "pg_buffers P x = None \<Longrightarrow>
    program_step S loaded P (P\<lparr>pg_buffers := (pg_buffers P)(x \<mapsto> buffer_default)\<rparr>)"
| move_buffer: "pg_buffers P x = Some b \<Longrightarrow> pg_buffers P y = None \<Longrightarrow> buffer_move b = (b1, b2) \<Longrightarrow>
    program_step S loaded P (P\<lparr>pg_buffers := (pg_buffers P)(x \<mapsto> b2, y \<mapsto> b1)\<rparr>)"
| assign_buffer: "pg_buffers P x = Some b \<Longrightarrow> pg_buffers P y = Some c \<Longrightarrow> x \<noteq> y \<Longrightarrow>
    buffer_assign b c (pg_native P) = (b1, c1, N) \<Longrightarrow>
    program_step S loaded P (P\<lparr>pg_buffers := (pg_buffers P)(x \<mapsto> b1, y \<mapsto> c1), pg_native := N\<rparr>)"
| destroy_buffer: "pg_buffers P x = Some b \<Longrightarrow>
    program_step S loaded P (P\<lparr>pg_buffers := (pg_buffers P)(x := None), pg_native := buffer_destroy b (pg_native P)\<rparr>)"
| size_of_buffer: "pg_buffers P x = Some b \<Longrightarrow> buffer_size b (pg_native P) = (n, N) \<Longrightarrow>
    program_step S loaded P (P\<lparr>pg_native := N\<rparr>)"
| data_of_buffer: "pg_buffers P x = Some b \<Longrightarrow> buffer_data b (pg_native P) = (d, N) \<Longrightarrow>
    program_step S loaded P (P\<lparr>pg_native := N\<rparr>)"
| copy_buffer: "pg_buffers P x = Some b \<Longrightarrow> buffer_copy b (pg_native P) = (bs, N) \<Longrightarrow>
    program_step S loaded P (P\<lparr>pg_native := N\<rparr>)"
| open_card: "pg_cards P c = None \<Longrightarrow> facade_open S loaded transport (pg_native P) = (r, N) \<Longrightarrow>
    program_step S loaded P (P\<lparr>pg_native := N, pg_cards := opened_object c r (pg_cards P)\<rparr>)"
| move_card: "pg_cards P c = Some h \<Longrightarrow> pg_cards P d = None \<Longrightarrow> handle_move h = (h1, h2) \<Longrightarrow>
    program_step S loaded P (P\<lparr>pg_cards := (pg_cards P)(c \<mapsto> h2, d \<mapsto> h1)\<rparr>)"
| close_card: "pg_cards P c = Some h \<Longrightarrow> facade_close h (pg_native P) = (r, h', N) \<Longrightarrow>
    program_step S loaded P (P\<lparr>pg_native := N, pg_cards := (pg_cards P)(c \<mapsto> h')\<rparr>)"
| reset_card: "pg_cards P c = Some h \<Longrightarrow> facade_reset S h (pg_native P) = (r, h', N) \<Longrightarrow>
    program_step S loaded P (P\<lparr>pg_native := N, pg_cards := (pg_cards P)(c \<mapsto> h')\<rparr>)"
| cancel_card: "pg_cards P c = Some h \<Longrightarrow> facade_cancel S h (pg_native P) = (r, h', N) \<Longrightarrow>
    program_step S loaded P (P\<lparr>pg_native := N, pg_cards := (pg_cards P)(c \<mapsto> h')\<rparr>)"
| notify_card: "pg_cards P c = Some h \<Longrightarrow> facade_notify_state_change h (pg_native P) = (r, h', N) \<Longrightarrow>
    program_step S loaded P (P\<lparr>pg_native := N, pg_cards := (pg_cards P)(c \<mapsto> h')\<rparr>)"
| destroy_card: "pg_cards P c = Some h \<Longrightarrow> raw_card_destroy h (pg_native P) = N \<Longrightarrow>
    program_step S loaded P (P\<lparr>pg_native := N, pg_cards := (pg_cards P)(c := None),
      pg_left_cards := left_open h (dom (lib_registry (nv_library N))) (pg_left_cards P)\<rparr>)"
| call_card: "pg_cards P c = Some h \<Longrightarrow> pg_buffers P x = None \<Longrightarrow> raw_card_call S h (pg_native P) failed b N \<Longrightarrow>
    program_step S loaded P (P\<lparr>pg_native := N, pg_buffers := received x b (pg_buffers P)\<rparr>)"
| use_card: "pg_cards P c = Some h \<Longrightarrow> facade_call S h (pg_native P) failed N \<Longrightarrow>
    program_step S loaded P (P\<lparr>pg_native := N\<rparr>)"
| calculate: "facade_offline_call S loaded (pg_native P) failed N \<Longrightarrow> program_step S loaded P (P\<lparr>pg_native := N\<rparr>)"
| open_channel: "pg_channels P c = None \<Longrightarrow> raw_channel_open S loaded transport (pg_native P) = (r, N) \<Longrightarrow>
    program_step S loaded P (P\<lparr>pg_native := N, pg_channels := opened_object c r (pg_channels P)\<rparr>)"
| move_channel: "pg_channels P c = Some h \<Longrightarrow> pg_channels P d = None \<Longrightarrow> handle_move h = (h1, h2) \<Longrightarrow>
    program_step S loaded P (P\<lparr>pg_channels := (pg_channels P)(c \<mapsto> h2, d \<mapsto> h1)\<rparr>)"
| close_channel: "pg_channels P c = Some h \<Longrightarrow> raw_channel_close h (pg_native P) = (r, h', N) \<Longrightarrow>
    program_step S loaded P (P\<lparr>pg_native := N, pg_channels := (pg_channels P)(c \<mapsto> h')\<rparr>)"
| reset_channel: "pg_channels P c = Some h \<Longrightarrow> raw_channel_reset S h (pg_native P) = (r, h', N) \<Longrightarrow>
    program_step S loaded P (P\<lparr>pg_native := N, pg_channels := (pg_channels P)(c \<mapsto> h')\<rparr>)"
| cancel_channel: "pg_channels P c = Some h \<Longrightarrow> raw_channel_cancel S h (pg_native P) = (r, h', N) \<Longrightarrow>
    program_step S loaded P (P\<lparr>pg_native := N, pg_channels := (pg_channels P)(c \<mapsto> h')\<rparr>)"
| notify_channel: "pg_channels P c = Some h \<Longrightarrow> raw_channel_notify_state_change h (pg_native P) = (r, h', N) \<Longrightarrow>
    program_step S loaded P (P\<lparr>pg_native := N, pg_channels := (pg_channels P)(c \<mapsto> h')\<rparr>)"
| destroy_channel: "pg_channels P c = Some h \<Longrightarrow> raw_channel_destroy h (pg_native P) = N \<Longrightarrow>
    program_step S loaded P (P\<lparr>pg_native := N, pg_channels := (pg_channels P)(c := None),
      pg_left_channels := left_open h (dom (lib_raw_registry (nv_library N))) (pg_left_channels P)\<rparr>)"
| call_channel: "pg_channels P c = Some h \<Longrightarrow> pg_buffers P x = None \<Longrightarrow>
    raw_channel_call S h (pg_native P) failed b N \<Longrightarrow>
    program_step S loaded P (P\<lparr>pg_native := N, pg_buffers := received x b (pg_buffers P)\<rparr>)"
| around: "library_step S (nv_library (pg_native P)) Surroundings ev L \<Longrightarrow>
    program_step S loaded P (P\<lparr>pg_native := (pg_native P)\<lparr>nv_library := L\<rparr>\<rparr>)"

inductive program_reachable :: "'h c_services \<Rightarrow> library_identity \<Rightarrow> 'h cpp_program \<Rightarrow> bool" for S loaded where
  started: "program_reachable S loaded (program_start h)"
| stepped: "program_reachable S loaded P \<Longrightarrow> program_step S loaded P P' \<Longrightarrow> program_reachable S loaded P'"

section \<open>The memory of the buffers\<close>

definition memory_owned :: "(nat \<rightharpoonup> cpp_buffer) \<Rightarrow> 'h native \<Rightarrow> bool" where
  "memory_owned objects N \<longleftrightarrow> memory_ok N \<and> \<not> nv_fault N \<and> (\<forall>bs\<in>set (nv_released N). \<forall>x\<in>set bs. x = 0) \<and>
     sole_owners (held (\<lambda>b. b) objects) (dom (nv_buffers N))"

lemma memory_owned_ok: "memory_owned objects N \<Longrightarrow> memory_ok N"
  by (simp add: memory_owned_def)

lemma memory_owned_library [simp]: "memory_owned objects (N\<lparr>nv_library := L\<rparr>) = memory_owned objects N"
  by (simp add: memory_owned_def)

lemma memory_owned_step:
  assumes "memory_owned objects N" "memory_step N b N'" "objects x = None"
  shows "memory_owned (received x b objects) N'"
proof (cases b)
  case None
  then show ?thesis
    using assms memory_step_ok [OF assms(2)] by (auto simp: memory_owned_def memory_step_def received_def)
next
  case (Some a)
  obtain bs where at: "nv_next_buffer N \<le> a" "nv_buffers N' = (nv_buffers N)(a \<mapsto> bs)"
    using assms(2) Some by (auto simp: memory_step_def)
  have "nv_buffers N a = None"
    using assms(1) at(1) by (cases "nv_buffers N a") (auto simp: memory_owned_def memory_ok_def)
  with at(2) have new: "nv_buffers N' = (nv_buffers N)(a \<mapsto> bs)" "a \<notin> dom (nv_buffers N)" by auto
  have "sole_owners (held (\<lambda>b. b) (received x b objects)) (dom (nv_buffers N'))"
    using sole_owners_take [of "held (\<lambda>b. b) objects" "dom (nv_buffers N)" x a] assms(1,3) new Some
    by (simp add: memory_owned_def received_def held_at)
  then show ?thesis
    using assms memory_step_ok [OF assms(2)] by (auto simp: memory_owned_def memory_step_def)
qed

lemma memory_owned_quiet:
  assumes "memory_owned objects N" "memory_step N None N'"
  shows "memory_owned objects N'"
  using assms memory_step_ok [OF assms(2)] by (auto simp: memory_owned_def memory_step_def)

lemma owned_live:
  "memory_owned objects N \<Longrightarrow> objects x = Some b \<Longrightarrow> case b of None \<Rightarrow> True | Some a \<Rightarrow> nv_buffers N a \<noteq> None"
  using sole_ownersD(1) [of "held (\<lambda>b. b) objects" "dom (nv_buffers N)" x]
  by (auto simp: memory_owned_def held_at split: option.splits)

lemma memory_owned_freed:
  assumes "memory_owned objects N" "objects x = Some b"
  shows "memory_owned (objects(x := None)) (buffer_destroy b N)" "memory_owned (objects(x \<mapsto> None)) (buffer_destroy b N)"
proof -
  let ?own = "held (\<lambda>b. b) objects"
  have at: "?own x = b" using assms(2) by (simp add: held_at)
  have owned: "sole_owners (?own(x := None)) (dom (nv_buffers (buffer_destroy b N)))"
  proof (cases b)
    case None
    then show ?thesis
      using assms at sole_owners_idle [of ?own "dom (nv_buffers N)" x]
      by (simp add: memory_owned_def buffer_destroy_def buffer_reset_def)
  next
    case (Some a)
    have "nv_buffers N a \<noteq> None" using owned_live [OF assms] Some by simp
    then show ?thesis
      using assms at Some sole_owners_give [of ?own "dom (nv_buffers N)" x a]
      by (auto simp: memory_owned_def buffer_destroy_def buffer_reset_def df_buffer_free_def)
  qed
  have rest: "memory_ok (buffer_destroy b N)" "\<not> nv_fault (buffer_destroy b N)"
    "\<forall>bs\<in>set (nv_released (buffer_destroy b N)). \<forall>x\<in>set bs. x = 0"
    using assms(1) owned_live [OF assms]
    by (auto simp: memory_owned_def memory_ok_def buffer_destroy_def buffer_reset_def df_buffer_free_def
        split: option.splits if_splits)
  show "memory_owned (objects(x := None)) (buffer_destroy b N)" "memory_owned (objects(x \<mapsto> None)) (buffer_destroy b N)"
    using owned rest by (simp_all add: memory_owned_def)
qed

lemma memory_owned_moved:
  assumes "memory_owned objects N" "objects y = Some b" "x \<noteq> y" "held (\<lambda>b. b) objects x = None"
  shows "memory_owned (objects(y \<mapsto> None, x \<mapsto> b)) N"
  using assms sole_owners_move [of "held (\<lambda>b. b) objects" "dom (nv_buffers N)" x y]
  by (simp add: memory_owned_def held_at)

lemma owned_reads:
  assumes "memory_owned objects N" "objects x = Some b"
  shows "buffer_size b N = (n, N') \<Longrightarrow> N' = N" "buffer_data b N = (d, N') \<Longrightarrow> N' = N" "buffer_copy b N = (bs, N') \<Longrightarrow> N' = N"
  using owned_live [OF assms] copy_live [OF owned_live [OF assms]]
  by (auto simp: buffer_size_def buffer_data_def follow_def split: option.splits)

section \<open>The registries of the library\<close>

definition handle_resource :: "cpp_handle \<Rightarrow> u64 option" where
  "handle_resource h = (if h = 0 then None else Some h)"

definition handles_owned :: "(nat \<rightharpoonup> cpp_handle) \<Rightarrow> u64 set \<Rightarrow> u64 set \<Rightarrow> bool" where
  "handles_owned objects left known \<longleftrightarrow> left \<subseteq> known \<and> sole_owners (held handle_resource objects) (known - left)"

lemma handles_owned_opened:
  assumes "handles_owned objects left known" "objects c = None" "h \<noteq> 0" "h \<notin> known"
  shows "handles_owned (objects(c \<mapsto> h)) left (insert h known)"
proof -
  have "insert h known - left = insert h (known - left)" using assms by (auto simp: handles_owned_def)
  then show ?thesis
    using sole_owners_take [of "held handle_resource objects" "known - left" c h] assms
    by (auto simp: handles_owned_def held_at handle_resource_def)
qed

lemma handles_owned_moved:
  assumes "handles_owned objects left known" "objects c = Some h" "objects d = None"
  shows "handles_owned (objects(c \<mapsto> 0, d \<mapsto> h)) left known"
  using assms sole_owners_move [of "held handle_resource objects" "known - left" d c]
  by (simp add: handles_owned_def held_at handle_resource_def)

lemma handles_owned_known: "handles_owned objects left known \<Longrightarrow> objects c = Some h \<Longrightarrow> h \<noteq> 0 \<Longrightarrow> h \<in> known - left"
  using sole_ownersD(1) [of "held handle_resource objects" "known - left" c h]
  by (simp add: handles_owned_def held_at handle_resource_def)

lemma handles_owned_given:
  assumes "handles_owned objects left known" "objects c = Some h" "h \<noteq> 0"
  shows "handles_owned (objects(c \<mapsto> 0)) left (known - {h})" "handles_owned (objects(c := None)) left (known - {h})"
    "handles_owned (objects(c := None)) (insert h left) known"
proof -
  have own: "sole_owners ((held handle_resource objects)(c := None)) (known - left - {h})"
    using assms sole_owners_give [of "held handle_resource objects" "known - left" c h]
    by (simp add: handles_owned_def held_at handle_resource_def)
  have "h \<in> known - left" by (rule handles_owned_known [OF assms])
  moreover have "left \<subseteq> known" using assms(1) by (simp add: handles_owned_def)
  moreover have "known - {h} - left = known - left - {h}" "known - insert h left = known - left - {h}" by auto
  ultimately show "handles_owned (objects(c \<mapsto> 0)) left (known - {h})" "handles_owned (objects(c := None)) left (known - {h})"
    "handles_owned (objects(c := None)) (insert h left) known"
    using own by (auto simp: handles_owned_def handle_resource_def)
qed

lemma handles_owned_idle:
  "handles_owned objects left known \<Longrightarrow> objects c = Some 0 \<Longrightarrow> handles_owned (objects(c := None)) left known"
  using sole_owners_idle [of "held handle_resource objects" "known - left" c]
  by (simp add: handles_owned_def held_at handle_resource_def)

lemma handles_owned_destroyed:
  assumes "handles_owned objects left known" "objects c = Some h" "0 \<notin> known"
    and "known' = (if closed then known - {h} else known)"
  shows "handles_owned (objects(c := None)) (left_open h known' left) known'"
proof (cases "h = 0")
  case True
  then show ?thesis using assms handles_owned_idle by (auto simp: left_open_def)
next
  case False
  then show ?thesis
    using assms handles_owned_given [OF assms(1,2) False] handles_owned_known [OF assms(1,2) False]
    by (auto simp: left_open_def)
qed

text \<open>Steps that leave the handles as they are.\<close>

definition quiet_kind :: "step_kind \<Rightarrow> bool" where
  "quiet_kind kind \<longleftrightarrow> (case kind of Card_open \<Rightarrow> False | Card_close _ \<Rightarrow> False | Channel_open \<Rightarrow> False
     | Channel_close _ \<Rightarrow> False | _ \<Rightarrow> True)"

lemma quiet_kinds: "quiet_kind (Card_call h)" "quiet_kind (Card_reset h)" "quiet_kind (Channel_call h)"
  "quiet_kind Calculation" "quiet_kind Surroundings"
  by (simp_all add: quiet_kind_def)

definition same_handles :: "'h c_library \<Rightarrow> 'h c_library \<Rightarrow> bool" where
  "same_handles L L' \<longleftrightarrow>
     dom (lib_registry L') = dom (lib_registry L) \<and> dom (lib_raw_registry L') = dom (lib_raw_registry L)"

lemma stays_domain: "card_stays x y \<Longrightarrow> (x = None) = (y = None)" "channel_stays u v \<Longrightarrow> (u = None) = (v = None)"
  "same_card x y \<Longrightarrow> (x = None) = (y = None)" "same_channel u v \<Longrightarrow> (u = None) = (v = None)"
  by (auto simp: card_stays_def channel_stays_def same_card_def same_channel_def split: option.splits)

lemma quiet_step:
  assumes "library_step S L kind ev L'" "quiet_kind kind"
  shows "same_handles L L'"
proof -
  have kinds: "kind \<noteq> Card_open" "kind \<noteq> Card_close h" "kind \<noteq> Channel_open" "kind \<noteq> Channel_close h" for h
    using assms(2) by (auto simp: quiet_kind_def)
  have "card_stays (lib_registry L h) (lib_registry L' h) \<or> same_card (lib_registry L h) (lib_registry L' h)"
    "channel_stays (lib_raw_registry L h) (lib_raw_registry L' h) \<or> same_channel (lib_raw_registry L h) (lib_raw_registry L' h)"
    for h
    using library_step_frame [OF assms(1)] kinds by (auto simp: card_frame_def channel_frame_def split: if_splits)
  then have "(lib_registry L h = None) = (lib_registry L' h = None)" "(lib_raw_registry L h = None) = (lib_raw_registry L' h = None)" for h
    using stays_domain by blast+
  then show ?thesis unfolding same_handles_def dom_def by auto
qed

lemma quiet_run: "library_run S quiet_kind L L' \<Longrightarrow> same_handles L L'"
  by (induction rule: library_run.induct) (simp add: same_handles_def, metis same_handles_def quiet_step)

text \<open>What a call comes to is a run: host code, then at most one call.\<close>

lemma comes_to_run:
  assumes "comes_to R L r L'" "\<And>L ev L'. R L ev L' \<Longrightarrow> library_step S L kind (Some ev) L'" "admit kind" "admit Surroundings"
  shows "library_run S admit L L'"
proof -
  obtain host where host: "L' = L\<lparr>lib_host := host\<rparr> \<or> (\<exists>ev. R (L\<lparr>lib_host := host\<rparr>) ev L')"
    using assms(1) by (auto simp: comes_to_def)
  have "library_run S admit L (L\<lparr>lib_host := host\<rparr>)"
    by (rule library_run.more, rule library_run.none, rule assms(4), rule library_step.host)
  with host assms(2,3) show ?thesis by (blast intro: library_run.more)
qed

lemma calls_run:
  assumes "memory_ok N"
  shows "raw_card_call S h N failed b N' \<Longrightarrow> library_run S quiet_kind (nv_library N) (nv_library N') \<and> memory_step N b N'"
    "raw_channel_call S h N failed b N' \<Longrightarrow> library_run S quiet_kind (nv_library N) (nv_library N') \<and> memory_step N b N'"
    "facade_call S h N failed N' \<Longrightarrow> library_run S quiet_kind (nv_library N) (nv_library N') \<and> memory_step N None N'"
    "facade_offline_call S loaded N failed N' \<Longrightarrow>
       library_run S quiet_kind (nv_library N) (nv_library N') \<and> memory_step N None N'"
proof -
  note runs = comes_to_run [where admit = quiet_kind and S = S, rotated 2]
  show "library_run S quiet_kind (nv_library N) (nv_library N') \<and> memory_step N b N'" if "raw_card_call S h N failed b N'"
    using raw_card_call_contract [OF that assms] by (blast intro: runs [of "Card_call h"] library_step.on_card quiet_kinds)
  show "library_run S quiet_kind (nv_library N) (nv_library N') \<and> memory_step N b N'" if "raw_channel_call S h N failed b N'"
    using raw_channel_call_contract [OF that assms]
    by (blast intro: runs [of "Channel_call h"] library_step.on_channel quiet_kinds)
  show "library_run S quiet_kind (nv_library N) (nv_library N') \<and> memory_step N None N'" if "facade_call S h N failed N'"
    using facade_call_contract [OF that assms] by (blast intro: runs [of "Card_call h"] library_step.on_card quiet_kinds)
  show "library_run S quiet_kind (nv_library N) (nv_library N') \<and> memory_step N None N'"
    if "facade_offline_call S loaded N failed N'"
    using facade_offline_call_contract [OF that assms]
    by (blast intro: runs [of Calculation] library_step.calculation quiet_kinds)
qed

section \<open>The lifecycle of a handle\<close>

lemma lifecycle_result:
  assumes "lifecycle f closing h N = (r, h', N')"
  obtains ret L' where "f h fresh_error (nv_library N) = (ret, L')" "N' = N\<lparr>nv_library := L'\<rparr>"
    "h' = (if closing \<and> ret_code ret = 0 then 0 else h)"
  using assms by (auto simp: lifecycle_def on_library_def split: prod.splits if_splits)

lemma destroy_result:
  "destroy_with f h N = (if h = 0 then N else N\<lparr>nv_library := snd (f h fresh_error (nv_library N))\<rparr>)"
  by (simp add: destroy_with_def on_library_def split: prod.splits)

lemma boundary_result:
  assumes "boundary err act L = (ret, L')"
  shows "(\<exists>v. act L = (Returned (Inr v), L') \<and> ret_code ret = 0 \<and> ret_value ret = Some v) \<or>
    (\<exists>r. act L = (r, L') \<and> (\<forall>v. r \<noteq> Returned (Inr v)) \<and> ret_code ret \<noteq> 0)"
proof -
  obtain r L1 where act: "act L = (r, L1)" by fastforce
  show ?thesis
    using act assms by (cases r rule: result_dep_cases) (auto simp: boundary_def unexpected_failure_def failure_def)
qed

lemma close_result:
  "df_close h err L = (ret, L') \<Longrightarrow> lib_raw_registry L' = lib_raw_registry L \<and>
     (if ret_code ret = 0 then lib_registry L h \<noteq> None \<and> lib_registry L' = (lib_registry L)(h := None)
      else lib_registry L' = lib_registry L)"
  "df_raw_close h err L = (ret, L') \<Longrightarrow> lib_registry L' = lib_registry L \<and>
     (if ret_code ret = 0 then lib_raw_registry L h \<noteq> None \<and> lib_raw_registry L' = (lib_raw_registry L)(h := None)
      else lib_raw_registry L' = lib_raw_registry L)"
  unfolding df_close_def df_raw_close_def
  by (drule boundary_result; auto simp: close_card_def close_raw_def lookup_def lookup_raw_def split: if_splits option.splits)+

lemma opened_result:
  assumes "open_card S d L = (r, L')"
  shows "if \<exists>h. r = Returned (Inr h)
    then r = Returned (Inr (lib_next_handle L)) \<and> dom (lib_registry L') = insert (lib_next_handle L) (dom (lib_registry L))
    else lib_registry L' = lib_registry L"
  using assms by (auto simp: open_card_def register_card_def dom_def split: sum.splits prod.splits if_splits)

end
