(* ===== verification/Cpp_Programs.thy ===== *)
theory Cpp_Programs
  imports Cpp_Ownership
begin

text \<open>
  The invariant of programs over the C++17 facade, and that every step of a program keeps it.
\<close>

section \<open>Opening\<close>

lemma opened_card_result:
  "open_card S d L = (Returned (Inr h), L') \<Longrightarrow>
     h = lib_next_handle L \<and> (\<exists>e. lib_registry L' = (lib_registry L)(h \<mapsto> e))"
  "open_card S d L = (r, L') \<Longrightarrow> \<forall>h. r \<noteq> Returned (Inr h) \<Longrightarrow> lib_registry L' = lib_registry L"
  by (auto simp: open_card_def register_card_def split: sum.splits prod.splits if_splits)

lemma opened_channel_result:
  "open_raw S d L = (Returned (Inr h), L') \<Longrightarrow>
     h = lib_next_raw_handle L \<and> (\<exists>e. lib_raw_registry L' = (lib_raw_registry L)(h \<mapsto> e))"
  "open_raw S d L = (r, L') \<Longrightarrow> \<forall>h. r \<noteq> Returned (Inr h) \<Longrightarrow> lib_raw_registry L' = lib_raw_registry L"
  by (auto simp: open_raw_def split: sum.splits if_splits)

lemma host_registries:
  "on_host f L = (x, L1) \<Longrightarrow> lib_registry L1 = lib_registry L \<and> lib_next_handle L1 = lib_next_handle L \<and>
     lib_raw_registry L1 = lib_raw_registry L \<and> lib_next_raw_handle L1 = lib_next_raw_handle L"
  by (auto simp: on_host_def split: prod.splits)

lemma open_result:
  assumes "df_open S t (Some 0) err L = (ret, L')"
  shows "if ret_code ret = 0
    then ret_value ret = Some (lib_next_handle L) \<and> dom (lib_registry L') = insert (lib_next_handle L) (dom (lib_registry L))
    else lib_registry L' = lib_registry L"
proof -
  obtain x L1 where made: "on_host (make_transport t) L = (x, L1)" by fastforce
  show ?thesis
    using boundary_result [OF assms [unfolded df_open_def]] made host_registries [OF made]
    by (cases x rule: result_dep_cases) (auto simp: act_bind_def dest: opened_card_result)
qed

lemma raw_open_result:
  assumes "df_raw_open S t (Some 0) err L = (ret, L')"
  shows "if ret_code ret = 0
    then ret_value ret = Some (lib_next_raw_handle L) \<and>
      dom (lib_raw_registry L') = insert (lib_next_raw_handle L) (dom (lib_raw_registry L))
    else lib_raw_registry L' = lib_raw_registry L"
proof -
  obtain x L1 where made: "on_host (make_transport t) L = (x, L1)" by fastforce
  show ?thesis
    using boundary_result [OF assms [unfolded df_raw_open_def]] made host_registries [OF made]
    by (cases x rule: result_dep_cases) (auto simp: act_bind_def dest: opened_channel_result)
qed

text \<open>An object is opened: refused with no call, or by one call.\<close>

lemma open_with_result:
  assumes "open_with loaded function N = (r, N')"
  shows "(\<exists>e. r = Inl e \<and> local_failure e \<and> N' = N) \<or>
    (\<exists>ret L'. function (Some 0) fresh_error (nv_library N) = (ret, L') \<and> N' = N\<lparr>nv_library := L'\<rparr> \<and>
       (if ret_code ret = 0 then r = Inr (stored 0 ret) else \<exists>e. r = Inl e))"
  using assms local_checks(7) [of loaded]
  by (auto simp: open_with_def on_library_def local_check_def split: sum.splits prod.splits if_splits)

lemma facade_open_raw: "facade_open S loaded t N = (r, N') \<Longrightarrow> open_with loaded (df_open S (Some t)) N = (r, N')"
  by (auto simp: facade_open_def raw_card_open_def handle_move_def split: prod.splits sum.splits)

section \<open>The invariant\<close>

definition program_ok :: "'h c_services \<Rightarrow> 'h cpp_program \<Rightarrow> bool" where
  "program_ok S P \<longleftrightarrow>
     library_reachable S (nv_library (pg_native P)) \<and> memory_owned (pg_buffers P) (pg_native P) \<and>
     handles_owned (pg_cards P) (pg_left_cards P) (dom (lib_registry (nv_library (pg_native P)))) \<and>
     handles_owned (pg_channels P) (pg_left_channels P) (dom (lib_raw_registry (nv_library (pg_native P))))"

lemma program_okD:
  assumes "program_ok S P"
  shows "library_reachable S (nv_library (pg_native P))" "memory_owned (pg_buffers P) (pg_native P)"
    "handles_owned (pg_cards P) (pg_left_cards P) (dom (lib_registry (nv_library (pg_native P))))"
    "handles_owned (pg_channels P) (pg_left_channels P) (dom (lib_raw_registry (nv_library (pg_native P))))"
    "memory_ok (pg_native P)"
  using assms by (auto simp: program_ok_def memory_owned_def)

lemma no_null_handle:
  "library_reachable S L \<Longrightarrow> 0 \<notin> dom (lib_registry L)" "library_reachable S L \<Longrightarrow> 0 \<notin> dom (lib_raw_registry L)"
  by (fastforce dest!: library_reachable_ok simp: library_ok_def)+

text \<open>The next handle is new.\<close>

lemma next_handle_new:
  "library_reachable S L \<Longrightarrow> lib_next_handle L \<noteq> 0 \<and> lib_next_handle L \<notin> dom (lib_registry L)"
  "library_reachable S L \<Longrightarrow> lib_next_raw_handle L \<noteq> 0 \<and> lib_next_raw_handle L \<notin> dom (lib_raw_registry L)"
  by (fastforce dest!: library_reachable_ok simp: library_ok_def)+

lemma program_used:
  assumes "program_ok S P" "library_run S quiet_kind (nv_library (pg_native P)) (nv_library N) \<and> memory_step (pg_native P) b N"
    "pg_buffers P x = None"
  shows "program_ok S (P\<lparr>pg_native := N, pg_buffers := received x b (pg_buffers P)\<rparr>)"
  using assms program_okD [OF assms(1)] quiet_run [of S "nv_library (pg_native P)" "nv_library N"]
    library_run_reachable [of S quiet_kind "nv_library (pg_native P)" "nv_library N"]
    memory_owned_step [of "pg_buffers P" "pg_native P" b N x]
  by (simp add: program_ok_def same_handles_def)

lemma program_used_quietly:
  assumes "program_ok S P" "library_run S quiet_kind (nv_library (pg_native P)) (nv_library N) \<and> memory_step (pg_native P) None N"
  shows "program_ok S (P\<lparr>pg_native := N\<rparr>)"
  using assms program_okD [OF assms(1)] quiet_run [of S "nv_library (pg_native P)" "nv_library N"]
    library_run_reachable [of S quiet_kind "nv_library (pg_native P)" "nv_library N"]
    memory_owned_quiet [of "pg_buffers P" "pg_native P" N]
  by (simp add: program_ok_def same_handles_def)

lemma program_stepped:
  assumes "program_ok S P" "library_step S (nv_library (pg_native P)) kind ev L" "quiet_kind kind"
  shows "program_ok S (P\<lparr>pg_native := (pg_native P)\<lparr>nv_library := L\<rparr>\<rparr>)"
  using program_okD [OF assms(1)] quiet_step [OF assms(2,3)] library_reachable.stepped [OF _ assms(2)]
  by (simp add: program_ok_def same_handles_def)

text \<open>A lifecycle call that does not close leaves the object as it is.\<close>

lemma program_signalled:
  assumes "program_ok S P" "lifecycle f False h (pg_native P) = (r, h', N)" "quiet_kind kind"
    "\<And>ret L. f h fresh_error (nv_library (pg_native P)) = (ret, L) \<Longrightarrow>
       library_step S (nv_library (pg_native P)) kind (Some (evidence ret)) L"
  shows "h' = h \<and> program_ok S (P\<lparr>pg_native := N\<rparr>)"
  using assms(2)
proof (rule lifecycle_result)
  fix ret L
  assume run: "f h fresh_error (nv_library (pg_native P)) = (ret, L)" "N = (pg_native P)\<lparr>nv_library := L\<rparr>"
    and "h' = (if False \<and> ret_code ret = 0 then 0 else h)"
  then show ?thesis using program_stepped [OF assms(1) assms(4) [OF run(1)] assms(3)] by simp
qed


section \<open>Steps on objects\<close>

text \<open>Opened, closed and destroyed cards and channels.\<close>

lemma program_opened:
  assumes "program_ok S P"
  shows "pg_cards P c = None \<Longrightarrow> facade_open S loaded t (pg_native P) = (r, N) \<Longrightarrow>
      program_ok S (P\<lparr>pg_native := N, pg_cards := opened_object c r (pg_cards P)\<rparr>)"
    "pg_channels P c = None \<Longrightarrow> raw_channel_open S loaded t (pg_native P) = (r, N) \<Longrightarrow>
      program_ok S (P\<lparr>pg_native := N, pg_channels := opened_object c r (pg_channels P)\<rparr>)"
proof -
  note ok = program_okD [OF assms]
  show "program_ok S (P\<lparr>pg_native := N, pg_cards := opened_object c r (pg_cards P)\<rparr>)"
    if free: "pg_cards P c = None" and run: "facade_open S loaded t (pg_native P) = (r, N)"
    using open_with_result [OF facade_open_raw [OF run]]
  proof (elim disjE exE conjE)
    fix e
    assume "r = Inl e" "N = pg_native P"
    then show ?thesis using assms by (simp add: opened_object_def program_ok_def)
  next
    fix ret L'
    assume call: "df_open S (Some t) (Some 0) fresh_error (nv_library (pg_native P)) = (ret, L')"
      and N: "N = (pg_native P)\<lparr>nv_library := L'\<rparr>"
      and r: "if ret_code ret = 0 then r = Inr (stored 0 ret) else \<exists>e. r = Inl e"
    show ?thesis
      using ok N r free open_result [OF call] open_change [OF call] next_handle_new(1) [OF ok(1)]
        library_reachable.stepped [OF ok(1) library_step.open_card [OF call]]
      by (auto simp: program_ok_def opened_object_def stored_def intro: handles_owned_opened split: if_splits)
  qed
  show "program_ok S (P\<lparr>pg_native := N, pg_channels := opened_object c r (pg_channels P)\<rparr>)"
    if free: "pg_channels P c = None" and run: "raw_channel_open S loaded t (pg_native P) = (r, N)"
    using open_with_result [OF run [unfolded raw_channel_open_def]]
  proof (elim disjE exE conjE)
    fix e
    assume "r = Inl e" "N = pg_native P"
    then show ?thesis using assms by (simp add: opened_object_def program_ok_def)
  next
    fix ret L'
    assume call: "df_raw_open S (Some t) (Some 0) fresh_error (nv_library (pg_native P)) = (ret, L')"
      and N: "N = (pg_native P)\<lparr>nv_library := L'\<rparr>"
      and r: "if ret_code ret = 0 then r = Inr (stored 0 ret) else \<exists>e. r = Inl e"
    show ?thesis
      using ok N r free raw_open_result [OF call] raw_open_change [OF call] next_handle_new(2) [OF ok(1)]
        library_reachable.stepped [OF ok(1) library_step.open_channel [OF call]]
      by (auto simp: program_ok_def opened_object_def stored_def intro: handles_owned_opened split: if_splits)
  qed
qed

lemma program_closed:
  assumes "program_ok S P"
  shows "pg_cards P c = Some h \<Longrightarrow> facade_close h (pg_native P) = (r, h', N) \<Longrightarrow>
      program_ok S (P\<lparr>pg_native := N, pg_cards := (pg_cards P)(c \<mapsto> h')\<rparr>)"
    "pg_channels P c = Some h \<Longrightarrow> raw_channel_close h (pg_native P) = (r, h', N) \<Longrightarrow>
      program_ok S (P\<lparr>pg_native := N, pg_channels := (pg_channels P)(c \<mapsto> h')\<rparr>)"
proof -
  note ok = program_okD [OF assms]
  show "program_ok S (P\<lparr>pg_native := N, pg_cards := (pg_cards P)(c \<mapsto> h')\<rparr>)"
    if at: "pg_cards P c = Some h" and run: "facade_close h (pg_native P) = (r, h', N)"
    using run [unfolded facade_close_def raw_card_close_def]
  proof (rule lifecycle_result)
    fix ret L'
    assume call: "df_close h fresh_error (nv_library (pg_native P)) = (ret, L')"
      and N: "N = (pg_native P)\<lparr>nv_library := L'\<rparr>" and h': "h' = (if True \<and> ret_code ret = 0 then 0 else h)"
    have live: "ret_code ret = 0 \<Longrightarrow> h \<noteq> 0"
      using close_result(1) [OF call] no_null_handle(1) [OF ok(1)] by auto
    show ?thesis
      using ok N h' close_result(1) [OF call] handles_owned_given(1) [OF ok(3) at live]
        library_reachable.stepped [OF ok(1) library_step.close_card [OF call]] at
      by (auto simp: program_ok_def fun_upd_idem split: if_splits)
  qed
  show "program_ok S (P\<lparr>pg_native := N, pg_channels := (pg_channels P)(c \<mapsto> h')\<rparr>)"
    if at: "pg_channels P c = Some h" and run: "raw_channel_close h (pg_native P) = (r, h', N)"
    using run [unfolded raw_channel_close_def]
  proof (rule lifecycle_result)
    fix ret L'
    assume call: "df_raw_close h fresh_error (nv_library (pg_native P)) = (ret, L')"
      and N: "N = (pg_native P)\<lparr>nv_library := L'\<rparr>" and h': "h' = (if True \<and> ret_code ret = 0 then 0 else h)"
    have live: "ret_code ret = 0 \<Longrightarrow> h \<noteq> 0"
      using close_result(2) [OF call] no_null_handle(2) [OF ok(1)] by auto
    show ?thesis
      using ok N h' close_result(2) [OF call] handles_owned_given(1) [OF ok(4) at live]
        library_reachable.stepped [OF ok(1) library_step.close_channel [OF call]] at
      by (auto simp: program_ok_def fun_upd_idem split: if_splits)
  qed
qed

lemma program_destroyed:
  assumes "program_ok S P"
  shows "pg_cards P c = Some h \<Longrightarrow> raw_card_destroy h (pg_native P) = N \<Longrightarrow>
      program_ok S (P\<lparr>pg_native := N, pg_cards := (pg_cards P)(c := None),
        pg_left_cards := left_open h (dom (lib_registry (nv_library N))) (pg_left_cards P)\<rparr>)"
    "pg_channels P c = Some h \<Longrightarrow> raw_channel_destroy h (pg_native P) = N \<Longrightarrow>
      program_ok S (P\<lparr>pg_native := N, pg_channels := (pg_channels P)(c := None),
        pg_left_channels := left_open h (dom (lib_raw_registry (nv_library N))) (pg_left_channels P)\<rparr>)"
proof -
  note ok = program_okD [OF assms]
  let ?L = "nv_library (pg_native P)"
  show "program_ok S (P\<lparr>pg_native := N, pg_cards := (pg_cards P)(c := None),
        pg_left_cards := left_open h (dom (lib_registry (nv_library N))) (pg_left_cards P)\<rparr>)"
    if at: "pg_cards P c = Some h" and run: "raw_card_destroy h (pg_native P) = N"
  proof (cases "h = 0")
    case True
    then show ?thesis
      using ok at run handles_owned_destroyed [OF ok(3) at no_null_handle(1) [OF ok(1)], of _ False]
      by (simp add: raw_card_destroy_def destroy_result program_ok_def)
  next
    case False
    obtain ret L' where call: "df_close h fresh_error ?L = (ret, L')" by fastforce
    have dom: "dom (lib_registry L') = (if ret_code ret = 0 then dom (lib_registry ?L) - {h} else dom (lib_registry ?L))"
      using close_result(1) [OF call] by auto
    show ?thesis
      using ok at run call False close_result(1) [OF call]
        handles_owned_destroyed [OF ok(3) at no_null_handle(1) [OF ok(1)] dom]
        library_reachable.stepped [OF ok(1) library_step.close_card [OF call]]
      by (auto simp: raw_card_destroy_def destroy_result program_ok_def)
  qed
  show "program_ok S (P\<lparr>pg_native := N, pg_channels := (pg_channels P)(c := None),
        pg_left_channels := left_open h (dom (lib_raw_registry (nv_library N))) (pg_left_channels P)\<rparr>)"
    if at: "pg_channels P c = Some h" and run: "raw_channel_destroy h (pg_native P) = N"
  proof (cases "h = 0")
    case True
    then show ?thesis
      using ok at run handles_owned_destroyed [OF ok(4) at no_null_handle(2) [OF ok(1)], of _ False]
      by (simp add: raw_channel_destroy_def destroy_result program_ok_def)
  next
    case False
    obtain ret L' where call: "df_raw_close h fresh_error ?L = (ret, L')" by fastforce
    have dom: "dom (lib_raw_registry L') =
        (if ret_code ret = 0 then dom (lib_raw_registry ?L) - {h} else dom (lib_raw_registry ?L))"
      using close_result(2) [OF call] by auto
    show ?thesis
      using ok at run call False close_result(2) [OF call]
        handles_owned_destroyed [OF ok(4) at no_null_handle(2) [OF ok(1)] dom]
        library_reachable.stepped [OF ok(1) library_step.close_channel [OF call]]
      by (auto simp: raw_channel_destroy_def destroy_result program_ok_def)
  qed
qed


text \<open>Moved handles, and buffers that are made, moved and destroyed.\<close>

lemma program_moved:
  "program_ok S P \<Longrightarrow> pg_cards P c = Some h \<Longrightarrow> pg_cards P d = None \<Longrightarrow> handle_move h = (h1, h2) \<Longrightarrow>
     program_ok S (P\<lparr>pg_cards := (pg_cards P)(c \<mapsto> h2, d \<mapsto> h1)\<rparr>)"
  "program_ok S P \<Longrightarrow> pg_channels P c = Some h \<Longrightarrow> pg_channels P d = None \<Longrightarrow> handle_move h = (h1, h2) \<Longrightarrow>
     program_ok S (P\<lparr>pg_channels := (pg_channels P)(c \<mapsto> h2, d \<mapsto> h1)\<rparr>)"
  using handles_owned_moved [of "pg_cards P" "pg_left_cards P" _ c h d]
    handles_owned_moved [of "pg_channels P" "pg_left_channels P" _ c h d]
  by (auto simp: program_ok_def handle_move_def)

lemma memory_owned_empty: "memory_owned objects N \<Longrightarrow> objects x = None \<Longrightarrow> memory_owned (objects(x \<mapsto> None)) N"
  using sole_owners_idle [of "held (\<lambda>b. b) objects" "dom (nv_buffers N)" x]
  by (simp add: memory_owned_def held_at)

lemma program_buffers:
  assumes "program_ok S P"
  shows "pg_buffers P x = None \<Longrightarrow> program_ok S (P\<lparr>pg_buffers := (pg_buffers P)(x \<mapsto> buffer_default)\<rparr>)"
    "pg_buffers P x = Some b \<Longrightarrow> pg_buffers P y = None \<Longrightarrow> buffer_move b = (b1, b2) \<Longrightarrow>
      program_ok S (P\<lparr>pg_buffers := (pg_buffers P)(x \<mapsto> b2, y \<mapsto> b1)\<rparr>)"
    "pg_buffers P x = Some b \<Longrightarrow> pg_buffers P y = Some c \<Longrightarrow> x \<noteq> y \<Longrightarrow>
      buffer_assign b c (pg_native P) = (b1, c1, N) \<Longrightarrow>
      program_ok S (P\<lparr>pg_buffers := (pg_buffers P)(x \<mapsto> b1, y \<mapsto> c1), pg_native := N\<rparr>)"
    "pg_buffers P x = Some b \<Longrightarrow>
      program_ok S (P\<lparr>pg_buffers := (pg_buffers P)(x := None), pg_native := buffer_destroy b (pg_native P)\<rparr>)"
proof -
  note ok = program_okD [OF assms]
  have same: "nv_library (buffer_destroy b N) = nv_library N" for b and N :: "'a native"
    by (simp add: buffer_destroy_def buffer_reset_def df_buffer_free_def split: option.splits)
  show "program_ok S (P\<lparr>pg_buffers := (pg_buffers P)(x \<mapsto> buffer_default)\<rparr>)" if "pg_buffers P x = None"
    using ok that by (simp add: program_ok_def buffer_default_def memory_owned_empty)
  show "program_ok S (P\<lparr>pg_buffers := (pg_buffers P)(x \<mapsto> b2, y \<mapsto> b1)\<rparr>)"
    if "pg_buffers P x = Some b" "pg_buffers P y = None" "buffer_move b = (b1, b2)"
    using ok that memory_owned_moved [OF ok(2) that(1), of y]
    by (cases "y = x") (auto simp: program_ok_def buffer_move_def held_at)
  show "program_ok S (P\<lparr>pg_buffers := (pg_buffers P)(x := None), pg_native := buffer_destroy b (pg_native P)\<rparr>)"
    if "pg_buffers P x = Some b"
    using ok memory_owned_freed(1) [OF ok(2) that] by (simp add: program_ok_def same)
  show "program_ok S (P\<lparr>pg_buffers := (pg_buffers P)(x \<mapsto> b1, y \<mapsto> c1), pg_native := N\<rparr>)"
    if "pg_buffers P x = Some b" "pg_buffers P y = Some c" "x \<noteq> y" "buffer_assign b c (pg_native P) = (b1, c1, N)"
  proof -
    have N: "b1 = c" "c1 = None" "N = buffer_destroy b (pg_native P)"
      using that(4) by (auto simp: buffer_assign_def buffer_destroy_def split: prod.splits)
    have "memory_owned ((pg_buffers P)(x \<mapsto> None, y \<mapsto> None, x \<mapsto> c)) N"
      using memory_owned_moved [OF memory_owned_freed(2) [OF ok(2) that(1)], of y c x] that N(3)
      by (simp add: held_at)
    then have "memory_owned ((pg_buffers P)(x \<mapsto> b1, y \<mapsto> c1)) N"
      using N that(3) by (simp add: fun_upd_twist)
    then show ?thesis using ok N(3) by (simp add: program_ok_def same)
  qed
qed

section \<open>Every step\<close>

lemma program_step_ok:
  assumes "program_step S loaded P P'" "program_ok S P"
  shows "program_ok S P'"
  using assms(1)
proof cases
  case (size_of_buffer x b n N)
  then show ?thesis using assms(2) owned_reads(1) [OF program_okD(2) [OF assms(2)] size_of_buffer(2)] by simp
next
  case (data_of_buffer x b d N)
  then show ?thesis using assms(2) owned_reads(2) [OF program_okD(2) [OF assms(2)] data_of_buffer(2)] by simp
next
  case (copy_buffer x b bs N)
  then show ?thesis using assms(2) owned_reads(3) [OF program_okD(2) [OF assms(2)] copy_buffer(2)] by simp
next
  case (reset_card c h r h' N)
  then show ?thesis
    using program_signalled [OF assms(2), of "df_reset S" h r h' N "Card_reset h"]
    by (simp add: facade_reset_def raw_card_reset_def quiet_kinds library_step.reset fun_upd_idem)
next
  case (cancel_card c h r h' N)
  then show ?thesis
    using program_signalled [OF assms(2), of "df_cancel S" h r h' N "Card_call h"]
    by (simp add: facade_cancel_def raw_card_cancel_def quiet_kinds library_step.cancel fun_upd_idem)
next
  case (notify_card c h r h' N)
  then show ?thesis
    using program_signalled [OF assms(2), of df_notify_state_change h r h' N "Card_call h"]
    by (simp add: facade_notify_state_change_def raw_card_notify_state_change_def quiet_kinds library_step.notify fun_upd_idem)
next
  case (reset_channel c h r h' N)
  then show ?thesis
    using program_signalled [OF assms(2), of "df_raw_reset S" h r h' N "Channel_call h"]
    by (simp add: raw_channel_reset_def quiet_kinds library_step.on_channel raw_call.reset fun_upd_idem)
next
  case (cancel_channel c h r h' N)
  then show ?thesis
    using program_signalled [OF assms(2), of "df_raw_cancel S" h r h' N "Channel_call h"]
    by (simp add: raw_channel_cancel_def quiet_kinds library_step.on_channel raw_call.cancel fun_upd_idem)
next
  case (notify_channel c h r h' N)
  then show ?thesis
    using program_signalled [OF assms(2), of df_raw_notify_state_change h r h' N "Channel_call h"]
    by (simp add: raw_channel_notify_state_change_def quiet_kinds library_step.on_channel raw_call.notify fun_upd_idem)
next
  case (call_card c h x failed b N)
  then show ?thesis
    using program_used [OF assms(2) calls_run(1) [OF program_okD(5) [OF assms(2)] call_card(4)]] by simp
next
  case (use_card c h failed N)
  then show ?thesis
    using program_used_quietly [OF assms(2) calls_run(3) [OF program_okD(5) [OF assms(2)] use_card(3)]] by simp
next
  case (calculate failed N)
  then show ?thesis
    using program_used_quietly [OF assms(2) calls_run(4) [OF program_okD(5) [OF assms(2)] calculate(2)]] by simp
next
  case (call_channel c h x failed b N)
  then show ?thesis
    using program_used [OF assms(2) calls_run(2) [OF program_okD(5) [OF assms(2)] call_channel(4)]] by simp
next
  case (around ev L)
  then show ?thesis using program_stepped [OF assms(2) around(2) quiet_kinds(5)] by simp
qed (use assms(2) in \<open>blast intro: program_buffers program_opened program_closed program_destroyed program_moved\<close>)+

lemma program_reachable_ok: "program_reachable S loaded P \<Longrightarrow> program_ok S P"
proof (induction rule: program_reachable.induct)
  case (started h)
  show ?case
    using library_reachable.loaded
    by (simp add: program_ok_def program_start_def memory_owned_def memory_ok_def handles_owned_def fresh_library_def)
next
  case (stepped P P')
  then show ?case by (blast intro: program_step_ok)
qed

end
