(* ===== verification/Cpp_Properties.thy ===== *)
theory Cpp_Properties
  imports Cpp_Programs C_Safety
begin

text \<open>
  What the C++17 facade promises its programs: exact ownership of native buffers and handles, calls that
  add nothing to the C interface and take nothing away, the fence after an unknown outcome, buffers
  that cannot be told from values, and keys that travel from a provider to the core unchanged.
\<close>

section \<open>Ownership\<close>

text \<open>The invariant spelt out.\<close>

lemma memory_owned_exact:
  assumes "memory_owned objects N"
  shows "\<not> nv_fault N \<and> (\<forall>bs\<in>set (nv_released N). \<forall>x\<in>set bs. x = 0) \<and>
    (\<forall>a. a \<in> dom (nv_buffers N) \<longleftrightarrow> (\<exists>x. objects x = Some (Some a))) \<and>
    (\<forall>a x y. objects x = Some (Some a) \<and> objects y = Some (Some a) \<longrightarrow> x = y)"
proof -
  have own: "sole_owners (held (\<lambda>b. b) objects) (dom (nv_buffers N))"
    using assms by (simp add: memory_owned_def)
  have "held (\<lambda>b. b) objects x = Some a \<longleftrightarrow> objects x = Some (Some a)" for x a
    by (auto simp: held_def bind_eq_Some_conv)
  with own have "(\<forall>a. a \<in> dom (nv_buffers N) \<longleftrightarrow> (\<exists>x. objects x = Some (Some a))) \<and>
    (\<forall>a x y. objects x = Some (Some a) \<and> objects y = Some (Some a) \<longrightarrow> x = y)"
    unfolding sole_owners_def by metis
  with assms show ?thesis by (simp add: memory_owned_def)
qed

lemma handles_owned_exact:
  assumes "handles_owned objects left known"
  shows "(\<forall>h. h \<in> known \<longleftrightarrow> h \<in> left \<or> h \<noteq> 0 \<and> (\<exists>c. objects c = Some h)) \<and>
    (\<forall>h c d. objects c = Some h \<and> h \<noteq> 0 \<longrightarrow> h \<notin> left \<and> (objects d = Some h \<longrightarrow> c = d))"
proof -
  have own: "sole_owners (held handle_resource objects) (known - left)" "left \<subseteq> known"
    using assms by (simp_all add: handles_owned_def)
  have "held handle_resource objects c = Some h \<longleftrightarrow> objects c = Some h \<and> h \<noteq> 0" for c h
    by (auto simp: held_def handle_resource_def bind_eq_Some_conv split: if_splits)
  note member = this [symmetric]
  show ?thesis
  proof (intro conjI allI impI)
    show "h \<in> known \<longleftrightarrow> h \<in> left \<or> h \<noteq> 0 \<and> (\<exists>c. objects c = Some h)" for h
      using own(2) sole_ownersD(3) [OF own(1), of h] sole_ownersD(1) [OF own(1), of _ h] member by blast
    show "h \<notin> left" if "objects c = Some h \<and> h \<noteq> 0" for h c
      using sole_ownersD(1) [OF own(1), of c h] that member by blast
    show "c = d" if "objects c = Some h \<and> h \<noteq> 0" "objects d = Some h" for h c d
      using sole_ownersD(2) [OF own(1), of d h c] that member by blast
  qed
qed

text \<open>
  C5. Exact ownership in programs over the C++17 facade. Whatever a program does with its buffers, cards and
  channels, in whatever order, while other threads lock entries: no pointer to a freed buffer is
  ever read or freed again, every buffer that was freed had been wiped, every native buffer is held by
  exactly one Buffer object, and every open card and channel by exactly one object, except
  those whose object was destroyed while the library refused to close them, which nobody holds.
\<close>

theorem facade_ownership:
  assumes "program_reachable S loaded P"
  defines "N \<equiv> pg_native P"
  shows "\<not> nv_fault N \<and> (\<forall>bs\<in>set (nv_released N). \<forall>x\<in>set bs. x = 0) \<and>
    (\<forall>a. nv_buffers N a \<noteq> None \<longleftrightarrow> (\<exists>x. pg_buffers P x = Some (Some a))) \<and>
    (\<forall>a x y. pg_buffers P x = Some (Some a) \<and> pg_buffers P y = Some (Some a) \<longrightarrow> x = y) \<and>
    (\<forall>h. lib_registry (nv_library N) h \<noteq> None \<longleftrightarrow> h \<in> pg_left_cards P \<or> h \<noteq> 0 \<and> (\<exists>c. pg_cards P c = Some h)) \<and>
    (\<forall>h c d. pg_cards P c = Some h \<and> h \<noteq> 0 \<longrightarrow> h \<notin> pg_left_cards P \<and> (pg_cards P d = Some h \<longrightarrow> c = d)) \<and>
    (\<forall>h. lib_raw_registry (nv_library N) h \<noteq> None \<longleftrightarrow>
       h \<in> pg_left_channels P \<or> h \<noteq> 0 \<and> (\<exists>c. pg_channels P c = Some h)) \<and>
    (\<forall>h c d. pg_channels P c = Some h \<and> h \<noteq> 0 \<longrightarrow> h \<notin> pg_left_channels P \<and> (pg_channels P d = Some h \<longrightarrow> c = d))"
proof -
  note ok = program_okD [OF program_reachable_ok [OF assms(1)], folded N_def]
  show ?thesis
    using memory_owned_exact [OF ok(2)] handles_owned_exact [OF ok(3)] handles_owned_exact [OF ok(4)]
    unfolding domIff by (elim conjE) (intro conjI; assumption)
qed

text \<open>An example: a program that opened one card on the reader that loses it.\<close>

definition matching_identity :: library_identity where
  "matching_identity = \<lparr>li_abi_version = generated_abi_version, li_manifest = Some generated_manifest\<rparr>"

definition facade_demo_native :: "unit native" where
  "facade_demo_native = snd (facade_open quiet_services matching_identity (lost_transport 0) (pg_native (program_start ())))"

definition facade_demo_program :: "unit cpp_program" where
  "facade_demo_program = (program_start ())\<lparr>pg_native := facade_demo_native, pg_cards := [0 \<mapsto> 1]\<rparr>"

lemma facade_demo_opened:
  "facade_open quiet_services matching_identity (lost_transport 0) (pg_native (program_start ())) = (Inr 1, facade_demo_native) \<and>
   (\<exists>e. lib_registry (nv_library facade_demo_native) 1 = Some e \<and> en_transport e = lost_transport 0 \<and>
      en_crypto e = sample_provider \<and> en_card e = demo_card \<and> en_generation e = 1 \<and> en_log e = [] \<and>
      \<not> en_contended e \<and> \<not> en_active e \<and> \<not> en_closed e) \<and> nv_buffers facade_demo_native = Map.empty"
  unfolding facade_demo_native_def
  by (simp add: adapter_eval df_open_def open_card_def register_card_def card_connect_def raw_connect_def
      fresh_library_def initial_generation_def demo_card_def demo_channel_def facade_open_def raw_card_open_def
      open_with_def validate_native_identity_def matching_identity_def manifest_sha256_def program_start_def
      on_library_def handle_move_def stored_def)

lemma facade_demo_reachable: "program_reachable quiet_services matching_identity facade_demo_program"
proof -
  have "program_step quiet_services matching_identity (program_start ())
      ((program_start ())\<lparr>pg_native := facade_demo_native,
        pg_cards := opened_object 0 (Inr 1) (pg_cards (program_start ()))\<rparr>)"
    using facade_demo_opened by (intro program_step.open_card) (auto simp: program_start_def)
  then have "program_step quiet_services matching_identity (program_start ()) facade_demo_program"
    by (simp add: facade_demo_program_def opened_object_def program_start_def)
  then show ?thesis by (rule program_reachable.stepped [OF program_reachable.started])
qed

theorem facade_ownership_witness:
  "\<exists>e. lib_registry (nv_library (pg_native facade_demo_program)) 1 = Some e \<and> pg_cards facade_demo_program 0 = Some 1 \<and>
     (\<forall>d. pg_cards facade_demo_program d = Some 1 \<longrightarrow> d = 0) \<and> 1 \<notin> pg_left_cards facade_demo_program"
proof -
  have card: "pg_cards facade_demo_program 0 = Some 1" by (simp add: facade_demo_program_def)
  have "\<forall>h c d. pg_cards facade_demo_program c = Some h \<and> h \<noteq> 0 \<longrightarrow>
      h \<notin> pg_left_cards facade_demo_program \<and> (pg_cards facade_demo_program d = Some h \<longrightarrow> c = d)"
    using facade_ownership [OF facade_demo_reachable] by (elim conjE) assumption
  from this [THEN spec [of _ 1], THEN spec [of _ 0]] card
  have "1 \<notin> pg_left_cards facade_demo_program \<and> (pg_cards facade_demo_program d = Some 1 \<longrightarrow> 0 = d)" for d by simp
  moreover have "nv_library (pg_native facade_demo_program) = nv_library facade_demo_native" by (simp add: facade_demo_program_def)
  ultimately show ?thesis using card facade_demo_opened by metis
qed

section \<open>Calls\<close>

text \<open>
  The specification of a call: the host runs, and then either the call was refused, with nothing sent, or
  one function of the family ran, and what it reported is what the caller gets.
\<close>

definition at_most_one_call ::
  "('h c_library \<Rightarrow> c_evidence \<Rightarrow> 'h c_library \<Rightarrow> bool) \<Rightarrow> 'h c_library \<Rightarrow> cpp_error option \<Rightarrow> 'h c_library \<Rightarrow> bool" where
  "at_most_one_call R L failed L' \<longleftrightarrow>
     (\<exists>host. L' = L\<lparr>lib_host := host\<rparr> \<and>
          (\<exists>e. failed = Some e \<and> xe_outcome e = outcome_number OC_not_sent \<and> xe_status e = 0) \<or>
        (\<exists>code err. R (L\<lparr>lib_host := host\<rparr>) (code, err) L' \<and>
          (case failed of
             None \<Rightarrow> code = 0
           | Some e \<Rightarrow> code \<noteq> 0 \<and> xe_code e = code \<and> (\<exists>ce. err = Some ce \<and> e = error_from_native ce))))"

lemma comes_to_one_call: "comes_to R L (verdict_of failed) L' \<Longrightarrow> at_most_one_call R L failed L'"
  by (cases failed) (auto simp: comes_to_def at_most_one_call_def verdict_of_def agrees_def local_failure_def)

lemma handed_out_success:
  "raw_card_call S h N failed b N' \<Longrightarrow> b \<noteq> None \<Longrightarrow> failed = None"
  "raw_channel_call S h N failed b N' \<Longrightarrow> b \<noteq> None \<Longrightarrow> failed = None"
  by (erule raw_card_call.cases raw_channel_call.cases; auto simp: handed_out_def failed_by_def split: sum.splits)+

text \<open>
  C6. The facade adds nothing to the C interface. In every program, a method of the friendly card and an
  offline helper either refuse without a call, with evidence that nothing was sent, or make exactly
  one call of the C interface and report its verdict, code, outcome, status and message unchanged; and
  they leave no native buffer behind.
\<close>

theorem facade_refines_interface:
  assumes "program_reachable S loaded P"
  shows "(\<forall>h failed N. facade_call S h (pg_native P) failed N \<longrightarrow>
      at_most_one_call (managed_call S h) (nv_library (pg_native P)) failed (nv_library N) \<and>
      nv_buffers N = nv_buffers (pg_native P)) \<and>
    (\<forall>failed N. facade_offline_call S loaded (pg_native P) failed N \<longrightarrow>
      at_most_one_call (offline_call S) (nv_library (pg_native P)) failed (nv_library N) \<and>
      nv_buffers N = nv_buffers (pg_native P))"
proof -
  note ok = program_okD(5) [OF program_reachable_ok [OF assms]]
  show ?thesis
  proof (intro conjI allI impI)
    fix h failed N
    assume call: "facade_call S h (pg_native P) failed N"
    show "at_most_one_call (managed_call S h) (nv_library (pg_native P)) failed (nv_library N)"
      "nv_buffers N = nv_buffers (pg_native P)"
      using facade_call_contract [OF call ok] by (auto simp: memory_step_def intro: comes_to_one_call)
  next
    fix failed N
    assume call: "facade_offline_call S loaded (pg_native P) failed N"
    show "at_most_one_call (offline_call S) (nv_library (pg_native P)) failed (nv_library N)"
      "nv_buffers N = nv_buffers (pg_native P)"
      using facade_offline_call_contract [OF call ok] by (auto simp: memory_step_def intro: comes_to_one_call)
  qed
qed

text \<open>
  C12. The raw classes. In every program, a method of the raw card or channel makes at most one call of the
  C interface and reports its verdict unchanged; when it succeeds with a buffer, that buffer is a
  new one and no other buffer is touched, and when it fails there is none.
\<close>

theorem raw_classes_refine_interface:
  assumes "program_reachable S loaded P"
  shows "(\<forall>h failed b N. raw_card_call S h (pg_native P) failed b N \<longrightarrow>
      at_most_one_call (managed_call S h) (nv_library (pg_native P)) failed (nv_library N) \<and>
      (case b of
         None \<Rightarrow> nv_buffers N = nv_buffers (pg_native P)
       | Some a \<Rightarrow> failed = None \<and> nv_buffers (pg_native P) a = None \<and>
           (\<exists>bs. nv_buffers N = (nv_buffers (pg_native P))(a \<mapsto> bs)))) \<and>
    (\<forall>h failed b N. raw_channel_call S h (pg_native P) failed b N \<longrightarrow>
      at_most_one_call (raw_call S h) (nv_library (pg_native P)) failed (nv_library N) \<and>
      (case b of
         None \<Rightarrow> nv_buffers N = nv_buffers (pg_native P)
       | Some a \<Rightarrow> failed = None \<and> nv_buffers (pg_native P) a = None \<and>
           (\<exists>bs. nv_buffers N = (nv_buffers (pg_native P))(a \<mapsto> bs))))"
proof -
  note ok = program_okD(5) [OF program_reachable_ok [OF assms]]
  have fresh: "nv_buffers (pg_native P) a = None" if "nv_next_buffer (pg_native P) \<le> a" for a
    using ok that by (cases "nv_buffers (pg_native P) a") (auto simp: memory_ok_def)
  have step: "case b of None \<Rightarrow> nv_buffers N = nv_buffers (pg_native P)
      | Some a \<Rightarrow> failed = None \<and> nv_buffers (pg_native P) a = None \<and>
          (\<exists>bs. nv_buffers N = (nv_buffers (pg_native P))(a \<mapsto> bs))"
    if "memory_step (pg_native P) b N" "b \<noteq> None \<Longrightarrow> failed = None" for b N and failed :: "cpp_error option"
    using that fresh by (auto simp: memory_step_def split: option.splits)
  show ?thesis
  proof (intro conjI allI impI)
    fix h failed b N
    assume call: "raw_card_call S h (pg_native P) failed b N"
    show "at_most_one_call (managed_call S h) (nv_library (pg_native P)) failed (nv_library N)"
      using raw_card_call_contract [OF call ok] comes_to_one_call by blast
    show "case b of None \<Rightarrow> nv_buffers N = nv_buffers (pg_native P)
      | Some a \<Rightarrow> failed = None \<and> nv_buffers (pg_native P) a = None \<and>
          (\<exists>bs. nv_buffers N = (nv_buffers (pg_native P))(a \<mapsto> bs))"
      using raw_card_call_contract [OF call ok] handed_out_success(1) [OF call] by (intro step) auto
  next
    fix h failed b N
    assume call: "raw_channel_call S h (pg_native P) failed b N"
    show "at_most_one_call (raw_call S h) (nv_library (pg_native P)) failed (nv_library N)"
      using raw_channel_call_contract [OF call ok] comes_to_one_call by blast
    show "case b of None \<Rightarrow> nv_buffers N = nv_buffers (pg_native P)
      | Some a \<Rightarrow> failed = None \<and> nv_buffers (pg_native P) a = None \<and>
          (\<exists>bs. nv_buffers N = (nv_buffers (pg_native P))(a \<mapsto> bs))"
      using raw_channel_call_contract [OF call ok] handed_out_success(2) [OF call] by (intro step) auto
  qed
qed

text \<open>The program selects an application, and loses the card.\<close>

lemma boundary_library: "snd (boundary err act L) = snd (act L)"
  by (cases "act L"; cases "fst (act L)" rule: result_dep_cases)
    (auto simp: boundary_def unexpected_failure_def failure_def)

lemma facade_demo_library: "nv_library facade_demo_native = opened_library"
proof -
  obtain ret L where made: "df_open quiet_services (Some (lost_transport 0)) (Some 0) fresh_error (fresh_library ()) = (ret, L)"
    by fastforce
  then have "opened_library = L"
    unfolding opened_library_def df_open_def using boundary_library snd_conv by metis
  with made show ?thesis
    by (auto simp: facade_demo_native_def facade_open_def raw_card_open_def open_with_def validate_native_identity_def
        matching_identity_def manifest_sha256_def program_start_def on_library_def)
qed

lemma facade_demo_program_native [simp]: "pg_native facade_demo_program = facade_demo_native"
  by (simp add: facade_demo_program_def)

lemma facade_demo_selection:
  "\<exists>x N. facade_call quiet_services 1 facade_demo_native (Some x) N \<and>
     raw_card_call quiet_services 1 facade_demo_native (Some x) None N \<and> xe_outcome x = outcome_number OC_unknown \<and> xe_code x \<noteq> 17 \<and>
     (\<exists>e. lib_registry (nv_library N) 1 = Some e \<and> length (en_log e) = 1)"
proof -
  obtain ret L1 where call: "df_select_application quiet_services 1 1 5000 fresh_error opened_library = (ret, L1)"
    "reports_unknown (evidence ret)" "fst (evidence ret) \<noteq> 17" "\<exists>e1. lib_registry L1 1 = Some e1 \<and> length (en_log e1) = 1"
    using lost_call by blast
  have "timeout_milliseconds 5000 = Inr 5000" by (simp add: timeout_milliseconds_def word_sle_eq)
  moreover have failed: "ret_code ret \<noteq> 0" "ret_error ret = Some ce \<Longrightarrow> ce_code ce \<noteq> 0 \<and> ce_code ce = ret_code ret" for ce
  proof -
    have "coded (evidence ret)" using call(1) unfolding df_select_application_def by (rule coded_boundary)
    moreover have "ret_code ret = 0 \<Longrightarrow> \<not> reports_unknown (evidence ret)"
      using boundary_result [OF call(1) [unfolded df_select_application_def]] call(1) [unfolded df_select_application_def]
      by (auto simp: boundary_def evidence_def reports_unknown_def)
    ultimately show "ret_code ret \<noteq> 0" "ret_error ret = Some ce \<Longrightarrow> ce_code ce \<noteq> 0 \<and> ce_code ce = ret_code ret"
      using call(2) by (auto simp: coded_def evidence_def)
  qed
  moreover define r :: "unit cpp_result" where "r = Inl (native_error (ret_code ret) (error_storage ret))"
  ultimately have "runs (facade_select_application quiet_services 1 1 5000) facade_demo_native r (facade_demo_native\<lparr>nv_library := L1\<rparr>)"
    "runs (raw_card_select_application quiet_services 1 1 5000) facade_demo_native r (facade_demo_native\<lparr>nv_library := L1\<rparr>)"
    using call(1) facade_demo_library
    by (simp_all add: runs_def facade_select_application_def timed_def raw_card_select_application_def wrap_void_def on_library_def)
  then have "facade_call quiet_services 1 facade_demo_native (failed_by r) (facade_demo_native\<lparr>nv_library := L1\<rparr>)"
    "raw_card_call quiet_services 1 facade_demo_native (failed_by r) (handed_out owns_nothing r) (facade_demo_native\<lparr>nv_library := L1\<rparr>)"
    by (blast intro: facade_call.select_application raw_card_call.select_application)+
  then show ?thesis
    using call failed
    by (fastforce simp: r_def failed_by_def native_error_def error_storage_def error_from_native_def reports_unknown_def
        evidence_def)
qed

theorem facade_refines_interface_witness:
  "\<exists>x (N :: unit native). at_most_one_call (managed_call quiet_services 1) opened_library (Some x) (nv_library N) \<and>
     xe_outcome x = outcome_number OC_unknown \<and> nv_buffers N = Map.empty"
proof -
  obtain x N where call: "facade_call quiet_services 1 facade_demo_native (Some x) N" "xe_outcome x = outcome_number OC_unknown"
    using facade_demo_selection by blast
  have "\<forall>h failed N. facade_call quiet_services h (pg_native facade_demo_program) failed N \<longrightarrow>
      at_most_one_call (managed_call quiet_services h) (nv_library (pg_native facade_demo_program)) failed (nv_library N) \<and>
      nv_buffers N = nv_buffers (pg_native facade_demo_program)"
    using facade_refines_interface [OF facade_demo_reachable] by (rule conjunct1)
  with call(1) have "at_most_one_call (managed_call quiet_services 1) (nv_library facade_demo_native) (Some x) (nv_library N)"
    "nv_buffers N = nv_buffers facade_demo_native"
    by fastforce+
  with call(2) facade_demo_opened facade_demo_library show ?thesis by metis
qed

theorem raw_classes_refine_interface_witness:
  "\<exists>x (N :: unit native). at_most_one_call (managed_call quiet_services 1) opened_library (Some x) (nv_library N) \<and>
     xe_outcome x = outcome_number OC_unknown \<and> nv_buffers N = Map.empty"
proof -
  obtain x N where call: "raw_card_call quiet_services 1 facade_demo_native (Some x) None N" "xe_outcome x = outcome_number OC_unknown"
    using facade_demo_selection by blast
  have "\<forall>h failed b N. raw_card_call quiet_services h (pg_native facade_demo_program) failed b N \<longrightarrow>
      at_most_one_call (managed_call quiet_services h) (nv_library (pg_native facade_demo_program)) failed (nv_library N) \<and>
      (case b of
         None \<Rightarrow> nv_buffers N = nv_buffers (pg_native facade_demo_program)
       | Some a \<Rightarrow> failed = None \<and> nv_buffers (pg_native facade_demo_program) a = None \<and>
           (\<exists>bs. nv_buffers N = (nv_buffers (pg_native facade_demo_program))(a \<mapsto> bs)))"
    using raw_classes_refine_interface [OF facade_demo_reachable] by (rule conjunct1)
  with call(1) have "at_most_one_call (managed_call quiet_services 1) (nv_library facade_demo_native) (Some x) (nv_library N)"
    "nv_buffers N = nv_buffers facade_demo_native"
    by fastforce+
  with call(2) facade_demo_opened facade_demo_library show ?thesis by metis
qed

section \<open>The fence\<close>

text \<open>
  Any use of the facade and of what surrounds it, one operation after the other, on any objects: commands, raw
  exchanges, offline helpers, opening, cancelling, reports of state changes, resetting, closing and destroying,
  operations on buffers, other threads. Only the card with the handle \<open>h\<close> is not reset, closed or
  destroyed.
\<close>

inductive facade_use :: "'h c_services \<Rightarrow> library_identity \<Rightarrow> u64 \<Rightarrow> 'h native \<Rightarrow> 'h native \<Rightarrow> bool"
  for S loaded h N where
  idle: "facade_use S loaded h N N"
| friendly: "facade_use S loaded h N N1 \<Longrightarrow> facade_call S g N1 failed N2 \<Longrightarrow> facade_use S loaded h N N2"
| raw_card: "facade_use S loaded h N N1 \<Longrightarrow> raw_card_call S g N1 failed b N2 \<Longrightarrow> facade_use S loaded h N N2"
| raw_channel: "facade_use S loaded h N N1 \<Longrightarrow> raw_channel_call S g N1 failed b N2 \<Longrightarrow> facade_use S loaded h N N2"
| helper: "facade_use S loaded h N N1 \<Longrightarrow> facade_offline_call S loaded N1 failed N2 \<Longrightarrow> facade_use S loaded h N N2"
| open_card: "facade_use S loaded h N N1 \<Longrightarrow> facade_open S loaded t N1 = (r, N2) \<Longrightarrow> facade_use S loaded h N N2"
| cancel_card: "facade_use S loaded h N N1 \<Longrightarrow> facade_cancel S g N1 = (r, g', N2) \<Longrightarrow> facade_use S loaded h N N2"
| notify_card: "facade_use S loaded h N N1 \<Longrightarrow> facade_notify_state_change g N1 = (r, g', N2) \<Longrightarrow> facade_use S loaded h N N2"
| reset_card: "facade_use S loaded h N N1 \<Longrightarrow> g \<noteq> h \<Longrightarrow> facade_reset S g N1 = (r, g', N2) \<Longrightarrow> facade_use S loaded h N N2"
| close_card: "facade_use S loaded h N N1 \<Longrightarrow> g \<noteq> h \<Longrightarrow> facade_close g N1 = (r, g', N2) \<Longrightarrow> facade_use S loaded h N N2"
| destroy_card: "facade_use S loaded h N N1 \<Longrightarrow> g \<noteq> h \<Longrightarrow> raw_card_destroy g N1 = N2 \<Longrightarrow> facade_use S loaded h N N2"
| open_channel: "facade_use S loaded h N N1 \<Longrightarrow> raw_channel_open S loaded t N1 = (r, N2) \<Longrightarrow> facade_use S loaded h N N2"
| cancel_channel: "facade_use S loaded h N N1 \<Longrightarrow> raw_channel_cancel S g N1 = (r, g', N2) \<Longrightarrow> facade_use S loaded h N N2"
| notify_channel: "facade_use S loaded h N N1 \<Longrightarrow> raw_channel_notify_state_change g N1 = (r, g', N2) \<Longrightarrow>
    facade_use S loaded h N N2"
| reset_channel: "facade_use S loaded h N N1 \<Longrightarrow> raw_channel_reset S g N1 = (r, g', N2) \<Longrightarrow> facade_use S loaded h N N2"
| close_channel: "facade_use S loaded h N N1 \<Longrightarrow> raw_channel_close g N1 = (r, g', N2) \<Longrightarrow> facade_use S loaded h N N2"
| destroy_channel: "facade_use S loaded h N N1 \<Longrightarrow> raw_channel_destroy g N1 = N2 \<Longrightarrow> facade_use S loaded h N N2"
| assign_buffer: "facade_use S loaded h N N1 \<Longrightarrow> buffer_assign b c N1 = (b', c', N2) \<Longrightarrow> facade_use S loaded h N N2"
| destroy_buffer: "facade_use S loaded h N N1 \<Longrightarrow> buffer_destroy b N1 = N2 \<Longrightarrow> facade_use S loaded h N N2"
| read_buffer: "facade_use S loaded h N N1 \<Longrightarrow>
    buffer_copy b N1 = (bs, N2) \<or> buffer_size b N1 = (n, N2) \<or> buffer_data b N1 = (d, N2) \<Longrightarrow> facade_use S loaded h N N2"
| around: "facade_use S loaded h N N1 \<Longrightarrow> library_step S (nv_library N1) Surroundings ev L \<Longrightarrow>
    facade_use S loaded h N (N1\<lparr>nv_library := L\<rparr>)"

text \<open>Each operation is a run of the library that neither resets nor closes the card.\<close>

abbreviation spares :: "u64 \<Rightarrow> step_kind \<Rightarrow> bool" where
  "spares h kind \<equiv> kind \<noteq> Card_reset h \<and> kind \<noteq> Card_close h"

definition spared :: "'h c_services \<Rightarrow> u64 \<Rightarrow> 'h native \<Rightarrow> 'h native \<Rightarrow> bool" where
  "spared S h N N' \<longleftrightarrow> memory_ok N' \<and> library_run S (spares h) (nv_library N) (nv_library N')"

lemma library_run_trans: "library_run S admit L1 L2 \<Longrightarrow> library_run S admit L L1 \<Longrightarrow> library_run S admit L L2"
  by (induction rule: library_run.induct) (auto intro: library_run.more)

lemma spared_run:
  assumes "spared S h N N1" "library_run S (spares h) (nv_library N1) (nv_library N2)" "memory_ok N2"
  shows "spared S h N N2"
  using assms library_run_trans unfolding spared_def by blast

lemma spared_step:
  assumes "spared S h N N1" "library_step S (nv_library N1) kind ev L" "spares h kind"
  shows "spared S h N (N1\<lparr>nv_library := L\<rparr>)"
  using assms by (auto simp: spared_def memory_ok_def intro: library_run.more)

lemma spared_lifecycle:
  assumes "spared S h N N1" "lifecycle f closing g N1 = (r, g', N2)" "spares h kind"
    and "\<And>ret L. f g fresh_error (nv_library N1) = (ret, L) \<Longrightarrow> library_step S (nv_library N1) kind (Some (evidence ret)) L"
  shows "spared S h N N2"
  using assms(2) by (rule lifecycle_result) (use assms in \<open>auto intro: spared_step\<close>)

lemma spared_destroy:
  assumes "spared S h N N1" "spares h kind"
    and "\<And>ret L. f g fresh_error (nv_library N1) = (ret, L) \<Longrightarrow> library_step S (nv_library N1) kind (Some (evidence ret)) L"
  shows "spared S h N (destroy_with f g N1)"
  using spared_step [OF assms(1) assms(3) assms(2)] assms(1)
  by (cases "f g fresh_error (nv_library N1)") (auto simp: destroy_result)

lemma spared_open:
  assumes "spared S h N N1" "open_with loaded f N1 = (r, N2)" "spares h kind"
    and "\<And>ret L. f (Some 0) fresh_error (nv_library N1) = (ret, L) \<Longrightarrow>
      library_step S (nv_library N1) kind (Some (evidence ret)) L"
  shows "spared S h N N2"
  using assms(2) spared_step [OF assms(1) assms(4) assms(3)] assms(1)
  by (auto simp: open_with_def on_library_def split: sum.splits prod.splits)

lemma spared_buffers:
  assumes "spared S h N N1"
  shows "spared S h N (buffer_destroy b N1)" "buffer_assign b c N1 = (b', c', N2) \<Longrightarrow> spared S h N N2"
    "buffer_copy b N1 = (bs, N2) \<or> buffer_size b N1 = (n, N2) \<or> buffer_data b N1 = (d, N2) \<Longrightarrow> spared S h N N2"
  using assms
  by (auto simp: spared_def memory_ok_def buffer_assign_def buffer_destroy_def buffer_reset_def df_buffer_free_def
      buffer_copy_def buffer_size_def buffer_data_def follow_def split: option.splits if_splits prod.splits)

lemma facade_use_spared:
  assumes "facade_use S loaded h N N'" "memory_ok N"
  shows "spared S h N N'"
  using assms
proof (induction rule: facade_use.induct)
  case idle
  then show ?case by (simp add: spared_def library_run.none)
next
  case (friendly N1 g failed N2)
  then have c: "spared S h N N1" "memory_ok N1" by (auto simp: spared_def)
  from facade_call_contract [OF friendly(2) c(2)] show ?case
    using spared_run [OF c(1)] memory_step_ok [OF _ c(2)]
    by (blast intro: comes_to_run [where kind = "Card_call g"] library_step.on_card)
next
  case (raw_card N1 g failed b N2)
  then have c: "spared S h N N1" "memory_ok N1" by (auto simp: spared_def)
  from raw_card_call_contract [OF raw_card(2) c(2)] show ?case
    using spared_run [OF c(1)] memory_step_ok [OF _ c(2)]
    by (blast intro: comes_to_run [where kind = "Card_call g"] library_step.on_card)
next
  case (raw_channel N1 g failed b N2)
  then have c: "spared S h N N1" "memory_ok N1" by (auto simp: spared_def)
  from raw_channel_call_contract [OF raw_channel(2) c(2)] show ?case
    using spared_run [OF c(1)] memory_step_ok [OF _ c(2)]
    by (blast intro: comes_to_run [where kind = "Channel_call g"] library_step.on_channel)
next
  case (helper N1 failed N2)
  then have c: "spared S h N N1" "memory_ok N1" by (auto simp: spared_def)
  from facade_offline_call_contract [OF helper(2) c(2)] show ?case
    using spared_run [OF c(1)] memory_step_ok [OF _ c(2)]
    by (blast intro: comes_to_run [where kind = Calculation] library_step.calculation)
next
  case (open_card N1 t r N2)
  then have "spared S h N N1" by blast
  from spared_open [OF this facade_open_raw [OF open_card(2)], of Card_open] show ?case
    using library_step.open_card by blast
next
  case (open_channel N1 t r N2)
  then have "spared S h N N1" by blast
  from spared_open [OF this open_channel(2) [unfolded raw_channel_open_def], of Channel_open] show ?case
    using library_step.open_channel by blast
next
  case (cancel_card N1 g r g' N2)
  then show ?case
    using spared_lifecycle [of S h N N1 "df_cancel S" False g r g' N2 "Card_call g"]
    by (simp add: facade_cancel_def raw_card_cancel_def library_step.cancel)
next
  case (notify_card N1 g r g' N2)
  then show ?case
    using spared_lifecycle [of S h N N1 df_notify_state_change False g r g' N2 "Card_call g"]
    by (simp add: facade_notify_state_change_def raw_card_notify_state_change_def library_step.notify)
next
  case (reset_card N1 g r g' N2)
  then show ?case
    using spared_lifecycle [of S h N N1 "df_reset S" False g r g' N2 "Card_reset g"]
    by (simp add: facade_reset_def raw_card_reset_def library_step.reset)
next
  case (close_card N1 g r g' N2)
  then show ?case
    using spared_lifecycle [of S h N N1 df_close True g r g' N2 "Card_close g"]
    by (simp add: facade_close_def raw_card_close_def library_step.close_card)
next
  case (destroy_card N1 g N2)
  then show ?case
    using spared_destroy [of S h N N1 "Card_close g" df_close g] by (auto simp: raw_card_destroy_def library_step.close_card)
next
  case (cancel_channel N1 g r g' N2)
  then show ?case
    using spared_lifecycle [of S h N N1 "df_raw_cancel S" False g r g' N2 "Channel_call g"]
    by (simp add: raw_channel_cancel_def library_step.on_channel raw_call.cancel)
next
  case (notify_channel N1 g r g' N2)
  then show ?case
    using spared_lifecycle [of S h N N1 df_raw_notify_state_change False g r g' N2 "Channel_call g"]
    by (simp add: raw_channel_notify_state_change_def library_step.on_channel raw_call.notify)
next
  case (reset_channel N1 g r g' N2)
  then show ?case
    using spared_lifecycle [of S h N N1 "df_raw_reset S" False g r g' N2 "Channel_call g"]
    by (simp add: raw_channel_reset_def library_step.on_channel raw_call.reset)
next
  case (close_channel N1 g r g' N2)
  then show ?case
    using spared_lifecycle [of S h N N1 df_raw_close True g r g' N2 "Channel_close g"]
    by (simp add: raw_channel_close_def library_step.close_channel)
next
  case (destroy_channel N1 g N2)
  then show ?case
    using spared_destroy [of S h N N1 "Channel_close g" df_raw_close g]
    by (auto simp: raw_channel_destroy_def library_step.close_channel)
next
  case (around N1 ev L)
  then show ?case by (auto intro: spared_step)
qed (auto intro: spared_buffers)

text \<open>
  C11. The fence reaches C++. When a method of the friendly card returns an error whose outcome is unknown,
  the card is given up: through any further use of the facade, on this and other objects, that does not
  reset, close or destroy this very card, it stays unusable and not one more frame is sent to it. Only an exception of a callback that came
  before the card was touched, reported with code 17, leaves card and log as they were.
\<close>

theorem facade_unknown_outcome_stops_card:
  assumes "program_reachable S loaded P" "pg_cards P c = Some h" "h \<noteq> 0"
    and "facade_call S h (pg_native P) (Some x) N1" "xe_outcome x = outcome_number OC_unknown"
    and "facade_use S loaded h N1 N2"
  shows "\<exists>e e1. lib_registry (nv_library (pg_native P)) h = Some e \<and> lib_registry (nv_library N1) h = Some e1 \<and>
    (xe_code x = 17 \<and> en_card e1 = en_card e \<and> en_log e1 = en_log e \<or>
     (\<exists>e2. lib_registry (nv_library N2) h = Some e2 \<and> \<not> card_usable (en_card e1) \<and> \<not> card_usable (en_card e2) \<and>
        en_log e2 = en_log e1))"
proof -
  note ok = program_okD [OF program_reachable_ok [OF assms(1)]]
  obtain e where e: "lib_registry (nv_library (pg_native P)) h = Some e"
    using handles_owned_known [OF ok(3) assms(2,3)] by auto
  note contract = facade_call_contract [OF assms(4) ok(5)]
  have "\<not> local_failure x" using assms(5) by (simp add: local_failure_def)
  with contract obtain host ev where call: "managed_call S h ((nv_library (pg_native P))\<lparr>lib_host := host\<rparr>) ev (nv_library N1)"
    and says: "fst ev = xe_code x" "reports_unknown ev"
    using assms(5) by (auto simp: comes_to_def verdict_of_def agrees_def reports_unknown_def error_from_native_def)
  have lib: "library_ok ((nv_library (pg_native P))\<lparr>lib_host := host\<rparr>)"
    using library_reachable_ok [OF ok(1)] by (simp add: library_ok_def)
  have lib1: "library_ok (nv_library N1)" by (rule library_step_ok [OF library_step.on_card [OF call] lib])
  obtain e1 where e1: "lib_registry (nv_library N1) h = Some e1" "entry_ok e1"
    "\<not> card_usable (en_card e1) \<or> fst ev = 17 \<and> en_card e1 = en_card e \<and> en_log e1 = en_log e"
    using managed_call_change [OF call] e says(2) lib by (auto simp: call_change_def library_ok_def)
  show ?thesis
  proof (cases "card_usable (en_card e1)")
    case False
    then have "given_up h (en_log e1) (nv_library N1)" using e1 by (auto simp: given_up_def)
    moreover have "library_run S (spares h) (nv_library N1) (nv_library N2)"
      using facade_use_spared [OF assms(6)] memory_step_ok [OF _ ok(5)] contract unfolding spared_def by blast
    ultimately have "given_up h (en_log e1) (nv_library N2)" using given_up_run lib1 by blast
    then show ?thesis using e e1 False by (auto simp: given_up_def)
  qed (use e e1 says in auto)
qed

theorem facade_unknown_outcome_stops_card_witness:
  "\<exists>x (N1 :: unit native) e1. facade_call quiet_services 1 facade_demo_native (Some x) N1 \<and>
     lib_registry (nv_library N1) 1 = Some e1 \<and> \<not> card_usable (en_card e1) \<and> length (en_log e1) = 1"
proof -
  obtain x N1 e where call: "facade_call quiet_services 1 facade_demo_native (Some x) N1" "xe_outcome x = outcome_number OC_unknown"
    "xe_code x \<noteq> 17" "lib_registry (nv_library N1) 1 = Some e" "length (en_log e) = 1"
    using facade_demo_selection by blast
  have "pg_cards facade_demo_program 0 = Some 1" by (simp add: facade_demo_program_def)
  from facade_unknown_outcome_stops_card [OF facade_demo_reachable this _ _ call(2) facade_use.idle] call show ?thesis
    by fastforce
qed

section \<open>Buffers\<close>

text \<open>
  The specification of a method that returns bytes: no buffers, no evidence in storage. A duration that is not
  positive or does not fit 32 bits of milliseconds is refused; otherwise one function runs, with the number.
\<close>

definition interface_bytes ::
  "64 word \<Rightarrow> (u32 \<Rightarrow> ('h, bytes) c_function) \<Rightarrow> 'h c_library \<Rightarrow> bytes cpp_result \<times> 'h c_library" where
  "interface_bytes timeout function L =
     (if sint timeout \<le> 0 \<or> 2 ^ 32 \<le> sint timeout
      then (Inl \<lparr>xe_code = 1, xe_outcome = 0, xe_status = 0,
                 xe_message = ''timeout must fit a positive 32-bit millisecond value''\<rparr>, L)
      else
        (case function (word_of_int (sint timeout)) L of
           (ret, L') \<Rightarrow>
             (if ret_code ret \<noteq> 0 then Inl (error_from_native (the (ret_error ret))) else Inr (the (ret_value ret)), L')))"

text \<open>An empty byte string goes to the C interface as a null pointer.\<close>

definition bytes_at :: "bytes \<Rightarrow> c_bytes" where
  "bytes_at bs = (case bs of [] \<Rightarrow> Null_bytes 0 | _ \<Rightarrow> Bytes_at bs)"

lemma bytes_at_eq: "byte_data bs = bytes_at bs"
  by (simp add: byte_data_def bytes_at_def split: list.splits)

lemma interface_bytes_eq:
  "interface_bytes timeout function L =
     (case timeout_milliseconds timeout of
        Inl e \<Rightarrow> (Inl e, L)
      | Inr t \<Rightarrow>
          (case function t L of
             (ret, L') \<Rightarrow>
               (if ret_code ret \<noteq> 0 then Inl (error_from_native (the (ret_error ret))) else Inr (the (ret_value ret)), L')))"
proof (cases "timeout_milliseconds timeout")
  case (Inl e)
  then have "\<not> (0 < sint timeout \<and> sint timeout < 2 ^ 32)"
    using timeout_accepted [of timeout "ucast timeout"] by simp
  then show ?thesis
    using Inl by (auto simp: interface_bytes_def timeout_milliseconds_def cpp_invalid_argument_def split: if_splits)
next
  case (Inr t)
  have "word_of_int (sint timeout) = t" using timeout_exact(2) [OF Inr] by (metis word_of_int_uint uint_nat)
  moreover have "0 < sint timeout" "sint timeout < 2 ^ 32" using Inr by (simp_all add: timeout_accepted)
  ultimately show ?thesis using Inr by (simp add: interface_bytes_def)
qed

text \<open>A call leaves the values of the buffers as they are.\<close>

definition returns_plainly :: "'a cpp_result \<times> 'h c_library \<Rightarrow> 'h native \<Rightarrow> 'a cpp_result \<times> 'h native \<Rightarrow> bool" where
  "returns_plainly expected N outcome \<longleftrightarrow>
     fst outcome = fst expected \<and> nv_library (snd outcome) = snd expected \<and>
     nv_buffers (snd outcome) = nv_buffers N \<and> nv_fault (snd outcome) = nv_fault N"

lemma failure_exact:
  assumes "provides (managed_call S h) F" "F L = (ret, L')" "ret_code ret \<noteq> 0"
  shows "native_error (ret_code ret) (error_storage ret) = error_from_native (the (ret_error ret))" "ret_value ret = None"
proof -
  have "managed_call S h L (evidence ret) L'" and c: "conclusive ret" using assms(1,2) by (auto simp: provides_def)
  from managed.carries_code [OF this(1)] have "coded (evidence ret)" .
  with c assms(3) show "native_error (ret_code ret) (error_storage ret) = error_from_native (the (ret_error ret))"
    "ret_value ret = None"
    by (cases "ret_error ret"; simp add: conclusive_def coded_def evidence_def native_error_def error_storage_def)+
qed

lemma timed_buffer_exact:
  assumes ok: "memory_ok N" and prov: "\<And>t. provides (managed_call S h) (function t)"
  shows "returns_plainly (interface_bytes timeout function (nv_library N)) N (timed_buffer timeout (\<lambda>t. wrap_buffer (function t)) N)"
proof -
  obtain r N' where run: "timed_buffer timeout (\<lambda>t. wrap_buffer (function t)) N = (r, N')" by fastforce
  have "wrapped (managed_call S h) owns_nothing (timed_buffer timeout (\<lambda>t. wrap_buffer (function t)))"
    by (intro wrapped_intros prov)
  from wrappedD [OF this ok run] have memory: "nv_buffers N' = nv_buffers N" "nv_fault N' = nv_fault N"
    by (auto simp: memory_step_def handed_out_def split: sum.splits)
  have "r = fst (interface_bytes timeout function (nv_library N)) \<and> nv_library N' = snd (interface_bytes timeout function (nv_library N))"
  proof (cases "timeout_milliseconds timeout")
    case (Inl e)
    then show ?thesis using run by (simp add: timed_buffer_def timed_def interface_bytes_eq)
  next
    case (Inr t)
    obtain ret L where F: "function t (nv_library N) = (ret, L)" by fastforce
    obtain b N2 where st: "stored_buffer (ret_value ret) (N\<lparr>nv_library := L\<rparr>) = (b, N2)" by fastforce
    note s = stored_buffer_step [OF st]
    have live: "case b of None \<Rightarrow> True | Some a \<Rightarrow> nv_buffers N2 a \<noteq> None" using s by (auto split: option.splits)
    have same: "nv_library (buffer_destroy b N2) = L"
      using destroy_step(2) [of "N\<lparr>nv_library := L\<rparr>" b N2] s ok by simp
    show ?thesis
      using run Inr F st s same copy_live [OF live] failure_exact [OF prov F] prov [of t]
      by (auto simp: timed_buffer_def timed_def interface_bytes_eq wrap_buffer_def on_library_def adopt_and_report_def
          buffer_adopt_def buffer_move_def buffer_destroy_def buffer_reset_def provides_def conclusive_def
          split: if_splits option.splits)
  qed
  with run memory show ?thesis by (simp add: returns_plainly_def)
qed

lemmas facade_bytes_methods =
  facade_get_version_def raw_card_get_version_def facade_file_ids_def raw_card_file_ids_def
  facade_application_ids_def raw_card_application_ids_def facade_df_names_def raw_card_get_df_names_def
  facade_iso_file_ids_def raw_card_iso_file_ids_def facade_get_key_settings_def raw_card_get_key_settings_def
  facade_get_key_set_versions_def raw_card_get_key_set_versions_def facade_get_key_version_def
  raw_card_get_key_version_def facade_get_file_settings_def raw_card_get_file_settings_def
  facade_get_file_counters_def raw_card_get_file_counters_def facade_read_data_def raw_card_read_data_def
  facade_read_records_def raw_card_read_records_def facade_commit_transaction_def
  raw_card_commit_transaction_def facade_commit_reader_id_def raw_card_commit_reader_id_def
  facade_get_card_uid_def raw_card_get_card_uid_def facade_get_card_uid_variant_def
  raw_card_get_card_uid_variant_def facade_read_originality_signature_def
  raw_card_read_originality_signature_def facade_iso_select_file_def raw_card_iso_select_file_def
  facade_iso_select_df_name_def raw_card_iso_select_df_name_def facade_iso_read_binary_def
  raw_card_iso_read_binary_def facade_iso_update_binary_def raw_card_iso_update_binary_def
  facade_iso_read_records_def raw_card_iso_read_records_def facade_iso_append_record_def
  raw_card_iso_append_record_def facade_iso_get_challenge_def raw_card_iso_get_challenge_def
  facade_iso_external_authenticate_def raw_card_iso_external_authenticate_def
  facade_iso_internal_authenticate_def raw_card_iso_internal_authenticate_def flag_def optional_key_set_def
  optional_short_id_def bytes_at_eq

text \<open>
  C18. Buffers cannot be told from values. In every program, each of the 26 methods of the friendly card that
  return bytes gives what the function of the C interface behind it would give if it returned its
  bytes as a value: a duration out of range is refused without a call; otherwise that function runs once, with
  the arguments of the method (an absent number as -1, a flag as 0 or 1, empty bytes as a null pointer), and its
  bytes or its evidence are the result; every native buffer that existed keeps its contents and no other
  one is left.
\<close>

theorem facade_bytes_exact:
  assumes "program_reachable S loaded P"
  defines "N \<equiv> pg_native P" and "L \<equiv> nv_library (pg_native P)"
  shows "returns_plainly (interface_bytes timeout (\<lambda>t. df_get_version S h t fresh_buffer fresh_error) L) N
       (facade_get_version S h timeout N) \<and>
    returns_plainly (interface_bytes timeout (\<lambda>t. df_file_ids S h t fresh_buffer fresh_error) L) N
       (facade_file_ids S h timeout N) \<and>
    returns_plainly (interface_bytes timeout (\<lambda>t. df_application_ids S h t fresh_buffer fresh_error) L) N
       (facade_application_ids S h timeout N) \<and>
    returns_plainly (interface_bytes timeout (\<lambda>t. df_get_df_names S h t fresh_buffer fresh_error) L) N
       (facade_df_names S h timeout N) \<and>
    returns_plainly (interface_bytes timeout (\<lambda>t. df_iso_file_ids S h t fresh_buffer fresh_error) L) N
       (facade_iso_file_ids S h timeout N) \<and>
    returns_plainly (interface_bytes timeout (\<lambda>t. df_get_key_settings S h t fresh_buffer fresh_error) L) N
       (facade_get_key_settings S h timeout N) \<and>
    returns_plainly (interface_bytes timeout (\<lambda>t. df_get_key_set_versions S h t fresh_buffer fresh_error) L) N
       (facade_get_key_set_versions S h timeout N) \<and>
    returns_plainly (interface_bytes timeout (\<lambda>t. df_get_key_version S h key (case key_set of None \<Rightarrow> -1 | Some n \<Rightarrow> n) t fresh_buffer fresh_error) L) N
       (facade_get_key_version S h key key_set timeout N) \<and>
    returns_plainly (interface_bytes timeout (\<lambda>t. df_get_file_settings S h file_no t fresh_buffer fresh_error) L) N
       (facade_get_file_settings S h file_no timeout N) \<and>
    returns_plainly (interface_bytes timeout (\<lambda>t. df_get_file_counters S h file_no communication t fresh_buffer fresh_error) L) N
       (facade_get_file_counters S h file_no communication timeout N) \<and>
    returns_plainly (interface_bytes timeout (\<lambda>t. df_read_data S h file_no off len communication t fresh_buffer fresh_error) L) N
       (facade_read_data S h file_no off len communication timeout N) \<and>
    returns_plainly (interface_bytes timeout (\<lambda>t. df_read_records S h file_no first count communication t fresh_buffer fresh_error) L) N
       (facade_read_records S h file_no first count communication timeout N) \<and>
    returns_plainly (interface_bytes timeout (\<lambda>t. df_commit_transaction S h (if return_mac then 1 else 0) t fresh_buffer fresh_error) L) N
       (facade_commit_transaction S h return_mac timeout N) \<and>
    returns_plainly (interface_bytes timeout (\<lambda>t. df_commit_reader_id S h (bytes_at reader_id) t fresh_buffer fresh_error) L) N
       (facade_commit_reader_id S h reader_id timeout N) \<and>
    returns_plainly (interface_bytes timeout (\<lambda>t. df_get_card_uid S h t fresh_buffer fresh_error) L) N
       (facade_get_card_uid S h timeout N) \<and>
    returns_plainly (interface_bytes timeout (\<lambda>t. df_get_card_uid_variant S h variant t fresh_buffer fresh_error) L) N
       (facade_get_card_uid_variant S h variant timeout N) \<and>
    returns_plainly (interface_bytes timeout (\<lambda>t. df_read_originality_signature S h t fresh_buffer fresh_error) L) N
       (facade_read_originality_signature S h timeout N) \<and>
    returns_plainly (interface_bytes timeout (\<lambda>t. df_iso_select_file S h identifier selection response t fresh_buffer fresh_error) L) N
       (facade_iso_select_file S h identifier selection response timeout N) \<and>
    returns_plainly (interface_bytes timeout (\<lambda>t. df_iso_select_df_name S h (bytes_at name) response t fresh_buffer fresh_error) L) N
       (facade_iso_select_df_name S h name response timeout N) \<and>
    returns_plainly (interface_bytes timeout (\<lambda>t. df_iso_read_binary S h (case short of None \<Rightarrow> -1 | Some n \<Rightarrow> n) off len t fresh_buffer fresh_error) L) N
       (facade_iso_read_binary S h short off len timeout N) \<and>
    returns_plainly (interface_bytes timeout (\<lambda>t. df_iso_update_binary S h (case short of None \<Rightarrow> -1 | Some n \<Rightarrow> n) off (bytes_at data) t fresh_buffer fresh_error) L) N
       (facade_iso_update_binary S h short off data timeout N) \<and>
    returns_plainly (interface_bytes timeout (\<lambda>t. df_iso_read_records S h record_no sid selection len t fresh_buffer fresh_error) L) N
       (facade_iso_read_records S h record_no sid selection len timeout N) \<and>
    returns_plainly (interface_bytes timeout (\<lambda>t. df_iso_append_record S h sid (bytes_at data) t fresh_buffer fresh_error) L) N
       (facade_iso_append_record S h sid data timeout N) \<and>
    returns_plainly (interface_bytes timeout (\<lambda>t. df_iso_get_challenge S h len t fresh_buffer fresh_error) L) N
       (facade_iso_get_challenge S h len timeout N) \<and>
    returns_plainly (interface_bytes timeout (\<lambda>t. df_iso_external_authenticate S h key (if application then 1 else 0) algorithm (bytes_at data) t fresh_buffer fresh_error) L) N
       (facade_iso_external_authenticate S h key application algorithm data timeout N) \<and>
    returns_plainly (interface_bytes timeout (\<lambda>t. df_iso_internal_authenticate S h key (if application then 1 else 0) algorithm (bytes_at data) t fresh_buffer fresh_error) L) N
       (facade_iso_internal_authenticate S h key application algorithm data timeout N)"
proof -
  have ok: "memory_ok N"
    using program_okD(5) [OF program_reachable_ok [OF assms(1)]] by (simp add: N_def)
  show ?thesis
    unfolding L_def N_def [symmetric] facade_bytes_methods
    by (intro conjI; rule timed_buffer_exact [where S = S and h = h, OF ok];
        rule managed_provides_1 managed_provides_2 managed_provides_3 managed_provides_4 managed_provides_5)
qed

theorem facade_bytes_exact_witness:
  "\<exists>e. fst (facade_read_data quiet_services 9 1 0 4 0 5000 facade_demo_native) = Inl e \<and>
     xe_code e = error_number EC_stale_handle \<and> xe_outcome e = outcome_number OC_not_sent \<and>
     nv_buffers (snd (facade_read_data quiet_services 9 1 0 4 0 5000 facade_demo_native)) = Map.empty"
proof -
  have gone: "lib_registry opened_library 9 = None"
    unfolding opened_library_def
    by (simp add: adapter_eval df_open_def open_card_def register_card_def card_connect_def raw_connect_def
        fresh_library_def initial_generation_def)
  have "timeout_milliseconds 5000 = Inr 5000" by (simp add: timeout_milliseconds_def word_sle_eq)
  then have "\<exists>e. fst (interface_bytes 5000 (\<lambda>t. df_read_data quiet_services 9 1 0 4 0 t fresh_buffer fresh_error) opened_library) =
      Inl e \<and> xe_code e = error_number EC_stale_handle \<and> xe_outcome e = outcome_number OC_not_sent"
    using gone
    by (simp add: interface_bytes_eq df_read_data_def boundary_def invoke_def lookup_def failure_def c_error_of_def
        local_error_def make_error_def error_from_native_def)
  then show ?thesis
    using facade_bytes_exact [OF facade_demo_reachable, where timeout = 5000 and h = 9 and file_no = 1 and off = 0 and len = 4
      and communication = 0] facade_demo_opened
    by (simp add: returns_plainly_def facade_demo_library)
qed

end
