(* ===== verification/Cpp_Providers.thy ===== *)
theory Cpp_Providers
  imports Cpp_Keys
begin

text \<open>
  Key providers written in C++: the request a program builds, as the C interface reads it, and the key
  the provider returns, as the operation that asked for it receives it.
\<close>

section \<open>Requests\<close>

text \<open>What the identifier types of the facade guarantee.\<close>

definition identifiers_ok :: "cpp_context \<Rightarrow> bool" where
  "identifiers_ok context \<longleftrightarrow> cpp_key_number (xd_key_number context) = Inr (xd_key_number context) \<and>
     (\<forall>a. xd_application context = Some a \<longrightarrow> cpp_application_id a = Inr a) \<and>
     (\<forall>k. xd_key_set context = Some k \<longrightarrow> cpp_key_set_number k = Inr k)"

text \<open>The request of the core that carries the same facts.\<close>

definition core_request ::
  "key_purpose \<Rightarrow> key_scope \<Rightarrow> authentication_profile option \<Rightarrow> 'h cpp_key_request \<Rightarrow> key_request" where
  "core_request purpose scope profile request =
     \<lparr>kr_reference = xr_reference request,
      kr_context =
        \<lparr>dx_purpose = purpose, dx_key_number = xd_key_number (xr_context request),
         dx_application = xd_application (xr_context request),
         dx_key_set = map_option ucast (xd_key_set (xr_context request)),
         dx_diversification_input = xd_diversification (xr_context request),
         dx_user_context = xd_user_context (xr_context request)\<rparr>,
      kr_scope = scope, kr_profile = profile, kr_cancellation = never_stop\<rparr>"

lemma purpose_number_eq [simp]: "purpose_number p = purpose_number q \<longleftrightarrow> p = q"
  by (cases p; cases q; simp)

lemma request_descriptor_accepted:
  assumes "validate_key_request r = Inr ()"
  shows "\<not> request_bytes_refused (request_descriptor r)" "reserved_is_zero (cq_reserved (request_descriptor r))"
    "(xr_profile r = None) = (xd_purpose (xr_context r) \<noteq> purpose_number purpose_authentication)"
  using assms
  by (auto simp: validate_key_request_def request_bytes_refused_def request_descriptor_def reserved_is_zero_def Let_def
      list_all_iff split: if_splits)

lemma request_not_cancelled:
  assumes "stop_requested (xr_cancellation r) (ch_world host) = (False, w)"
  shows "query_cancelled (request_descriptor r) host = (Returned (Inr ()), host\<lparr>ch_world := w\<rparr>)"
  using assms by (simp add: query_cancelled_def request_descriptor_def key_cancelled_def on_world_def)

lemma request_cancelled:
  assumes "stop_requested (xr_cancellation r) (ch_world host) = (True, w)"
  shows "query_cancelled (request_descriptor r) host =
    (Returned (Inl (local_error EC_cancelled (STR ''Key resolution cancelled before provider access''))), host\<lparr>ch_world := w\<rparr>)"
  using assms by (simp add: query_cancelled_def request_descriptor_def key_cancelled_def on_world_def)

lemma number_ucast: "(k :: u32) \<le> 15 \<Longrightarrow> (ucast k :: byte) \<le> 15"
proof -
  assume "k \<le> 15"
  then have "uint k \<le> 15" by (simp add: word_le_def)
  moreover have "uint (ucast k :: byte) \<le> uint k"
    by (simp add: unsigned_ucast_eq take_bit_eq_mod zmod_le_nonneg_dividend)
  ultimately show ?thesis by (simp add: word_le_def)
qed

lemma request_completed:
  assumes "validate_key_request r = Inr ()" "identifiers_ok (xr_context r)" "p \<noteq> purpose_other" "sc \<noteq> scope_other"
    and "f \<noteq> Some profile_other" "(p = purpose_authentication) = (f \<noteq> None)"
    and "\<And>x. f = Some x \<Longrightarrow> (x = profile_iso_aes) = (sc \<noteq> scope_native)"
  shows "complete_key_request p sc f (request_descriptor r) = Inr (core_request p sc f r)"
proof -
  have bounds: "xr_reference r \<noteq> []" "length (xr_reference r) \<le> 1024"
    "length (xd_diversification (xr_context r)) \<le> maximum_context_size" "length (xd_user_context (xr_context r)) \<le> maximum_context_size"
    "\<not> length (xd_diversification (xr_context r)) > maximum_context_size - length (xd_user_context (xr_context r))"
    using assms(1) by (auto simp: validate_key_request_def maximum_context_size_def Let_def split: if_splits)
  have number: "key_number_make (xd_key_number (xr_context r)) = Inr (xd_key_number (xr_context r))"
    using assms(2) by (simp add: identifiers_ok_def cpp_key_number_def identifier_make_iff key_number_make_def number_make_def
        not_less)
  have application: "request_application (request_descriptor r) = Inr (xd_application (xr_context r))"
    using assms(2) by (cases "xd_application (xr_context r)")
      (auto simp: identifiers_ok_def request_application_def request_descriptor_def cpp_application_id_def identifier_make_iff
        application_id_make_def number_make_def result_bind_def option_absent_def not_less)
  have set_bound: "k \<le> 15" if "xd_key_set (xr_context r) = Some k" for k
    using assms(2) that by (simp add: identifiers_ok_def cpp_key_set_number_def identifier_make_iff)
  have key_set: "request_key_set (request_descriptor r) = Inr (map_option ucast (xd_key_set (xr_context r)))"
    using set_bound by (cases "xd_key_set (xr_context r)")
      (auto simp: request_key_set_def request_descriptor_def option_absent_def not_less)
  have small: "\<not> (ucast k :: byte) > 15" if "xd_key_set (xr_context r) = Some k" for k
    using number_ucast [OF set_bound [OF that]] by (simp add: not_less)
  show ?thesis
    using assms(3-7) bounds number application key_set small
    by (auto simp: complete_key_request_def result_bind_def key_reference_make_def derivation_context_make_def
        key_request_make_def core_request_def request_descriptor_def split: option.splits)
qed

text \<open>The fields that the entry points look at.\<close>

lemma descriptor_header:
  "cq_struct_size (request_descriptor r) = sizeof_key_request" "cq_abi_version (request_descriptor r) = df_abi_version"
  "cq_purpose (request_descriptor r) = xd_purpose (xr_context r)" "cq_scope (request_descriptor r) = xr_scope r"
  "cq_key_number (request_descriptor r) = xd_key_number (xr_context r)"
  "cq_profile (request_descriptor r) = (case xr_profile r of None \<Rightarrow> option_absent | Some p \<Rightarrow> p)"
  by (simp_all add: request_descriptor_def)

lemma token_asked:
  assumes "stop_requested (xr_cancellation r) (ch_world host) = (stop, w)"
  shows "act_bind (query_cancelled (request_descriptor r)) (\<lambda>_. act_require (Inr q)) host =
    (Returned (if stop then Inl (local_error EC_cancelled (STR ''Key resolution cancelled before provider access'')) else Inr q),
     host\<lparr>ch_world := w\<rparr>)"
  using assms request_cancelled [of r host w] request_not_cancelled [of r host w]
  by (cases stop) (simp_all add: act_bind_def act_require_def)

lemma purpose_request_exact:
  assumes "validate_key_request r = Inr ()" "identifiers_ok (xr_context r)"
    and "stop_requested (xr_cancellation r) (ch_world host) = (stop, w)"
    and p: "p \<noteq> purpose_authentication" "p \<noteq> purpose_other"
  shows "make_purpose_request (Some (request_descriptor r)) p scope_native n host =
        (if xd_purpose (xr_context r) = purpose_number p \<and> xr_scope r = scope_number scope_native \<and> n = xd_key_number (xr_context r)
         then (Returned (if stop then Inl (local_error EC_cancelled (STR ''Key resolution cancelled before provider access''))
                         else Inr (core_request p scope_native None r)), host\<lparr>ch_world := w\<rparr>)
         else (Returned (Inl (invalid (STR ''Invalid non-authentication key request''))), host))"
proof -
  note accepted = request_descriptor_accepted [OF assms(1)]
  have "complete_key_request p scope_native None (request_descriptor r) = Inr (core_request p scope_native None r)"
    by (rule request_completed [OF assms(1,2) p(2)]) (use p in simp_all)
  moreover have "xr_profile r = None" if "xd_purpose (xr_context r) = purpose_number p"
    using accepted(3) that p(1) by (simp del: purpose_number.simps)
  ultimately show ?thesis
    using accepted(1,2) token_asked [OF assms(3)]
    by (auto simp: make_purpose_request_def descriptor_header refuse_def simp del: purpose_number.simps scope_number.simps)
qed

lemma authentication_request_exact:
  assumes "validate_key_request r = Inr ()" "identifiers_ok (xr_context r)"
    and "stop_requested (xr_cancellation r) (ch_world host) = (stop, w)"
    and f: "f \<noteq> profile_other" "sc \<noteq> scope_other" "(f = profile_iso_aes) = (sc \<noteq> scope_native)"
  shows "make_authentication_request (Some (request_descriptor r)) f sc n host =
        (if xr_profile r = Some (profile_number f) \<and> xr_scope r = scope_number sc \<and> n = xd_key_number (xr_context r)
         then (Returned (if stop then Inl (local_error EC_cancelled (STR ''Key resolution cancelled before provider access''))
                         else Inr (core_request purpose_authentication sc (Some f) r)), host\<lparr>ch_world := w\<rparr>)
         else (Returned (Inl (invalid (STR ''Key request does not match the authentication entrypoint''))), host))"
proof -
  note accepted = request_descriptor_accepted [OF assms(1)]
  have "complete_key_request purpose_authentication sc (Some f) (request_descriptor r) =
      Inr (core_request purpose_authentication sc (Some f) r)"
    by (rule request_completed [OF assms(1,2) _ f(2)]) (use f in simp_all)
  moreover have "xd_purpose (xr_context r) = purpose_number purpose_authentication" if "xr_profile r = Some (profile_number f)"
    using accepted(3) that by (simp del: purpose_number.simps)
  moreover have "xr_profile r \<noteq> None" if "xd_purpose (xr_context r) = purpose_number purpose_authentication"
    using accepted(3) that by (simp del: purpose_number.simps)
  ultimately show ?thesis
    using accepted(1,2) token_asked [OF assms(3)]
    by (auto simp: make_authentication_request_def descriptor_header refuse_def
        simp del: purpose_number.simps scope_number.simps profile_number.simps split: option.splits)
qed

text \<open>
  C19. A key request arrives as it was written. Take a request that the facade's check accepts, with
  identifiers made by its types. The entry point of the C interface for another purpose than
  authentication accepts it exactly when it names that purpose, the native scope and the key number of the
  call and its token does not ask for a stop; the entry point of an authentication profile exactly when it
  names the profile, the scope and the key number of the call and the token does not ask for a stop.
  An accepted request reaches the core with the same reference, purpose, profile, scope, key number,
  application, key set, diversification input and user context. One that does not match is refused
  before the token is asked, one whose token asks for a stop is refused as cancelled.
\<close>

theorem key_request_round_trip:
  assumes "validate_key_request r = Inr ()" "identifiers_ok (xr_context r)"
    and "stop_requested (xr_cancellation r) (ch_world host) = (stop, w)"
  shows "(\<forall>p n. p \<noteq> purpose_authentication \<and> p \<noteq> purpose_other \<longrightarrow>
      make_purpose_request (Some (request_descriptor r)) p scope_native n host =
        (if xd_purpose (xr_context r) = purpose_number p \<and> xr_scope r = scope_number scope_native \<and> n = xd_key_number (xr_context r)
         then (Returned (if stop then Inl (local_error EC_cancelled (STR ''Key resolution cancelled before provider access''))
                         else Inr (core_request p scope_native None r)), host\<lparr>ch_world := w\<rparr>)
         else (Returned (Inl (invalid (STR ''Invalid non-authentication key request''))), host))) \<and>
    (\<forall>f sc n. f \<noteq> profile_other \<and> sc \<noteq> scope_other \<and> (f = profile_iso_aes) = (sc \<noteq> scope_native) \<longrightarrow>
      make_authentication_request (Some (request_descriptor r)) f sc n host =
        (if xr_profile r = Some (profile_number f) \<and> xr_scope r = scope_number sc \<and> n = xd_key_number (xr_context r)
         then (Returned (if stop then Inl (local_error EC_cancelled (STR ''Key resolution cancelled before provider access''))
                         else Inr (core_request purpose_authentication sc (Some f) r)), host\<lparr>ch_world := w\<rparr>)
         else (Returned (Inl (invalid (STR ''Key request does not match the authentication entrypoint''))), host)))"
  by (intro conjI allI impI; elim conjE;
      rule purpose_request_exact [OF assms] authentication_request_exact [OF assms]; assumption)

text \<open>An example.\<close>

definition provider_demo_request :: "unit cpp_key_request" where
  "provider_demo_request =
     \<lparr>xr_reference = [0x6B, 0x31],
      xr_context = \<lparr>xd_purpose = purpose_number purpose_replacement_key, xd_key_number = 3, xd_application = Some 0x112233,
        xd_key_set = None, xd_diversification = [4, 0x22], xd_user_context = []\<rparr>,
      xr_profile = None, xr_scope = scope_number scope_native, xr_cancellation = None\<rparr>"

definition provider_demo_host :: "unit c_host" where
  "provider_demo_host = \<lparr>ch_world = (), ch_resolved = {}\<rparr>"

theorem key_request_round_trip_witness:
  "make_purpose_request (Some (request_descriptor provider_demo_request)) purpose_replacement_key scope_native 3 provider_demo_host =
     (Returned (Inr (core_request purpose_replacement_key scope_native None provider_demo_request)), provider_demo_host)"
proof -
  have "validate_key_request provider_demo_request = Inr ()" "identifiers_ok (xr_context provider_demo_request)"
    "stop_requested (xr_cancellation provider_demo_request) (ch_world provider_demo_host) = (False, ())"
    by (simp_all add: provider_demo_request_def provider_demo_host_def validate_key_request_def identifiers_ok_def stop_requested_def
        cpp_key_number_def cpp_application_id_def identifier_make_def)
  from key_request_round_trip [OF this] show ?thesis
    by (simp add: provider_demo_request_def provider_demo_host_def)
qed

section \<open>Keys\<close>

text \<open>
  C20. A provider is asked once, and its key arrives. The descriptor of a C++ provider is accepted; unless the
  request was cancelled, in which case the provider is not asked at all, the provider runs once, a
  valid key arrives with its sixteen bytes, and an error or an empty key becomes an error with nothing sent; asking
  the adapter again is refused.
\<close>

theorem provider_key_arrives:
  "\<exists>adapter host1.
     adapter_create (Some (provider_descriptor prov r)) (Some (request_descriptor r)) n host = (Returned (Inr adapter), host1) \<and>
     ch_world host1 = ch_world host \<and>
     (case stop_requested (xr_cancellation r) (ch_world host) of
        (stop, w) \<Rightarrow>
          (case prov r w of
             (answer, w1) \<Rightarrow>
               \<exists>result host2. adapter_resolve adapter host1 = (Returned result, host2) \<and>
                 ch_world host2 = (if stop then w else w1) \<and>
                 (case answer of
                    Inr key \<Rightarrow>
                      if \<not> stop \<and> ak_valid key then result = Inr (take 16 (ak_bytes key @ replicate 16 0))
                      else \<exists>e. result = Inl e \<and> err_outcome e = OC_not_sent
                  | Inl _ \<Rightarrow> \<exists>e. result = Inl e \<and> err_outcome e = OC_not_sent) \<and>
                 (\<exists>e. adapter_resolve adapter host2 = (Returned (Inl e), host2) \<and> err_code e = EC_internal)))"
proof -
  define adapter where "adapter = \<lparr>ka_provider = provider_descriptor prov r, ka_request = request_descriptor r, ka_identity = n\<rparr>"
  define host1 where "host1 = host\<lparr>ch_resolved := ch_resolved host - {n}\<rparr>"
  have created: "adapter_create (Some (provider_descriptor prov r)) (Some (request_descriptor r)) n host =
      (Returned (Inr adapter), host1)"
    by (simp add: adapter_create_def provider_descriptor_def reserved_is_zero_def adapter_def host1_def list_all_iff)
  obtain stop w where stop: "stop_requested (xr_cancellation r) (ch_world host) = (stop, w)" by fastforce
  obtain answer w1 where answer: "prov r w = (answer, w1)" by fastforce
  let ?host2 = "host1\<lparr>ch_resolved := insert n (ch_resolved host1), ch_world := if stop then w else w1\<rparr>"
  have again: "adapter_resolve adapter ?host2 =
      (Returned (Inl (local_error EC_internal (STR ''Key provider was invoked more than once''))), ?host2)"
    by (simp add: adapter_resolve_def adapter_def)
  show ?thesis
  proof (cases stop)
    case True
    then have "adapter_resolve adapter host1 =
        (Returned (Inl (local_error EC_cancelled (STR ''Key resolution cancelled before provider access''))), ?host2)"
      using request_cancelled [of r "host1\<lparr>ch_resolved := insert n (ch_resolved host1)\<rparr>" w] stop
      by (simp add: adapter_resolve_def adapter_def host1_def act_bind_def)
    then show ?thesis
      using created again stop answer True
      by (auto simp: host1_def local_error_def make_error_def split: sum.splits)
  next
    case False
    then have asked: "adapter_resolve adapter host1 =
        (Returned (conclude_resolve (fst (fst (resolve_key (Some (prov, r)) True 16 True (Some empty_c_error) w)))), ?host2)"
      using request_not_cancelled [of r "host1\<lparr>ch_resolved := insert n (ch_resolved host1)\<rparr>" w] stop answer
      by (auto simp: adapter_resolve_def adapter_def host1_def act_bind_def provider_descriptor_def on_world_def
          resolve_key_def Let_def split: sum.splits)
    show ?thesis
      using created again stop answer False asked
      by (auto simp: host1_def resolve_key_def conclude_resolve_def Let_def make_error_def local_error_def
          aes128_key_import_def overlay_def min_def split: sum.splits)
  qed
qed

end
