(* ===== verification/Openssl.thy ===== *)
theory Openssl
  imports Environment
begin

text \<open>
  The cryptographic provider of the SDK (\<^verbatim>\<open>providers/crypto-openssl/src/openssl.cpp\<close>). OpenSSL is a
  parameter: a record of the calls the source makes, over an arbitrary state of the library. Its
  objects are numbers, and the source's smart pointers and frees are definitions: the state keeps which
  object is alive and of what type, a fault (an object was used or freed when it was not alive or had
  another type), and the output buffers that \<^verbatim>\<open>random\<close>, \<^verbatim>\<open>cbc\<close> and \<^verbatim>\<open>cmac\<close> freed instead of returning
  them, with the bytes they held at that moment. No definition reads the fault or the buffers.
\<close>

section \<open>The library and its objects\<close>

datatype ossl_type = Ossl_lib_ctx | Ossl_module | Ossl_cipher | Ossl_cipher_ctx | Ossl_mac | Ossl_mac_ctx
  | Ossl_pkey_ctx | Ossl_pkey | Ossl_ecdsa_sig | Ossl_bignum

text \<open>
  A call that creates an object is told its number and answers whether there is one; the other calls answer
  their status and what they write. The arguments are in the order of the calls: for example
  \<open>ol_cipher_init ctx cipher key iv direction\<close>, \<open>ol_mac_init ctx key cipher_name\<close>.
\<close>

record 's openssl =
  ol_lib_ctx_new :: "nat \<Rightarrow> 's \<Rightarrow> bool \<times> 's"
  ol_provider_load :: "nat \<Rightarrow> String.literal \<Rightarrow> nat \<Rightarrow> 's \<Rightarrow> bool \<times> 's"
  ol_rand_bytes :: "nat \<Rightarrow> nat \<Rightarrow> 's \<Rightarrow> (u32 \<times> bytes) \<times> 's"
  ol_cipher_fetch :: "nat \<Rightarrow> String.literal \<Rightarrow> nat \<Rightarrow> 's \<Rightarrow> bool \<times> 's"
  ol_cipher_ctx_new :: "nat \<Rightarrow> 's \<Rightarrow> bool \<times> 's"
  ol_cipher_init :: "nat \<Rightarrow> nat \<Rightarrow> bytes \<Rightarrow> bytes \<Rightarrow> u32 \<Rightarrow> 's \<Rightarrow> u32 \<times> 's"
  ol_set_padding :: "nat \<Rightarrow> u32 \<Rightarrow> 's \<Rightarrow> u32 \<times> 's"
  ol_cipher_update :: "nat \<Rightarrow> bytes \<Rightarrow> 's \<Rightarrow> (u32 \<times> bytes \<times> u32) \<times> 's"
  ol_cipher_final :: "nat \<Rightarrow> 's \<Rightarrow> (u32 \<times> bytes \<times> u32) \<times> 's"
  ol_mac_fetch :: "nat \<Rightarrow> String.literal \<Rightarrow> nat \<Rightarrow> 's \<Rightarrow> bool \<times> 's"
  ol_mac_ctx_new :: "nat \<Rightarrow> nat \<Rightarrow> 's \<Rightarrow> bool \<times> 's"
  ol_mac_init :: "nat \<Rightarrow> bytes \<Rightarrow> String.literal \<Rightarrow> 's \<Rightarrow> u32 \<times> 's"
  ol_mac_update :: "nat \<Rightarrow> bytes \<Rightarrow> 's \<Rightarrow> u32 \<times> 's"
  ol_mac_final :: "nat \<Rightarrow> nat \<Rightarrow> 's \<Rightarrow> (u32 \<times> bytes \<times> nat) \<times> 's"
  ol_pkey_ctx_from_name :: "nat \<Rightarrow> String.literal \<Rightarrow> nat \<Rightarrow> 's \<Rightarrow> bool \<times> 's"
  ol_fromdata_init :: "nat \<Rightarrow> 's \<Rightarrow> u32 \<times> 's"
  ol_fromdata :: "nat \<Rightarrow> String.literal \<Rightarrow> bytes \<Rightarrow> nat \<Rightarrow> 's \<Rightarrow> bool \<times> 's"
  ol_ecdsa_sig_new :: "nat \<Rightarrow> 's \<Rightarrow> bool \<times> 's"
  ol_bin2bn :: "bytes \<Rightarrow> nat \<Rightarrow> 's \<Rightarrow> bool \<times> 's"
  ol_ecdsa_sig_set0 :: "nat \<Rightarrow> nat \<Rightarrow> nat \<Rightarrow> 's \<Rightarrow> u32 \<times> 's"
  ol_i2d_size :: "nat \<Rightarrow> 's \<Rightarrow> u32 \<times> 's"
  ol_i2d :: "nat \<Rightarrow> 's \<Rightarrow> (u32 \<times> bytes) \<times> 's"
  ol_pkey_ctx_from_pkey :: "nat \<Rightarrow> nat \<Rightarrow> nat \<Rightarrow> 's \<Rightarrow> bool \<times> 's"
  ol_verify_init :: "nat \<Rightarrow> 's \<Rightarrow> u32 \<times> 's"
  ol_verify :: "nat \<Rightarrow> bytes \<Rightarrow> bytes \<Rightarrow> 's \<Rightarrow> u32 \<times> 's"

record 's ossl_state =
  oy_world :: 's
  oy_live :: "nat \<rightharpoonup> ossl_type"
  oy_next :: nat
  oy_fault :: bool
  oy_discarded :: "bytes list"

text \<open>A call that creates an object, and one that uses objects that have to be alive.\<close>

definition ossl_new ::
  "ossl_type \<Rightarrow> (nat \<Rightarrow> 's \<Rightarrow> bool \<times> 's) \<Rightarrow> 's ossl_state \<Rightarrow> nat option \<times> 's ossl_state" where
  "ossl_new type create st =
     (case create (oy_next st) (oy_world st) of
        (True, w) \<Rightarrow>
          (Some (oy_next st),
           st\<lparr>oy_world := w, oy_live := (oy_live st)(oy_next st \<mapsto> type), oy_next := oy_next st + 1\<rparr>)
      | (False, w) \<Rightarrow> (None, st\<lparr>oy_world := w\<rparr>))"

definition ossl_use :: "(nat \<times> ossl_type) list \<Rightarrow> ('s \<Rightarrow> 'a \<times> 's) \<Rightarrow> 's ossl_state \<Rightarrow> 'a \<times> 's ossl_state" where
  "ossl_use objects f st =
     (case f (oy_world st) of
        (r, w) \<Rightarrow>
          (r, st\<lparr>oy_world := w,
                oy_fault := (oy_fault st \<or> \<not> list_all (\<lambda>(p, type). oy_live st p = Some type) objects)\<rparr>))"

definition ossl_new_from ::
  "(nat \<times> ossl_type) list \<Rightarrow> ossl_type \<Rightarrow> (nat \<Rightarrow> 's \<Rightarrow> bool \<times> 's) \<Rightarrow> 's ossl_state \<Rightarrow>
   nat option \<times> 's ossl_state" where
  "ossl_new_from objects type create st =
     (case ossl_use objects (\<lambda>w. ((), w)) st of (_, st1) \<Rightarrow> ossl_new type create st1)"

text \<open>The frees of OpenSSL do nothing with a null pointer.\<close>

definition ossl_free :: "ossl_type \<Rightarrow> nat option \<Rightarrow> 's ossl_state \<Rightarrow> 's ossl_state" where
  "ossl_free type pointer st =
     (case pointer of
        None \<Rightarrow> st
      | Some p \<Rightarrow>
          if oy_live st p = Some type then st\<lparr>oy_live := (oy_live st)(p := None)\<rparr> else st\<lparr>oy_fault := True\<rparr>)"

text \<open>\<^verbatim>\<open>Owner\<close>: the object lives as long as the rest of the block, and is freed on every path out of it.\<close>

definition owner ::
  "(nat \<times> ossl_type) list \<Rightarrow> ossl_type \<Rightarrow> (nat \<Rightarrow> 's \<Rightarrow> bool \<times> 's) \<Rightarrow>
   (nat option \<Rightarrow> 's ossl_state \<Rightarrow> 'a \<times> 's ossl_state) \<Rightarrow> 's ossl_state \<Rightarrow> 'a \<times> 's ossl_state" where
  "owner objects type create block st =
     (case ossl_new_from objects type create st of
        (p, st1) \<Rightarrow> (case block p st1 of (r, st2) \<Rightarrow> (r, ossl_free type p st2)))"

text \<open>A buffer with bytes written from a position on; nothing is written behind its end.\<close>

definition written_at :: "nat \<Rightarrow> bytes \<Rightarrow> bytes \<Rightarrow> bytes" where
  "written_at i xs buffer =
     take i buffer @ take (length buffer - i) xs @ drop (i + length (take (length buffer - i) xs)) buffer"

definition discard :: "bytes \<Rightarrow> 's ossl_state \<Rightarrow> 's ossl_state" where
  "discard out st = st\<lparr>oy_discarded := oy_discarded st @ [out]\<rparr>"

definition ossl_failure :: error where
  "ossl_failure = local_error EC_crypto (STR ''Cryptographic provider operation failed'')"

fun cipher_name :: "cipher \<Rightarrow> String.literal" where
  "cipher_name aes128 = STR ''AES-128-CBC''"
| "cipher_name aes192 = STR ''AES-192-CBC''"
| "cipher_name aes256 = STR ''AES-256-CBC''"
| "cipher_name des = STR ''DES-CBC''"
| "cipher_name tdes2 = STR ''DES-EDE-CBC''"
| "cipher_name tdes3 = STR ''DES-EDE3-CBC''"

definition legacy_refused :: error where
  "legacy_refused = local_error EC_unsupported (STR ''Legacy cryptography requires explicit opt-in'')"

section \<open>The provider object\<close>

record openssl_object =
  op_context :: "nat option"
  op_normal :: "nat option"
  op_legacy :: "nat option"
  op_allow_legacy :: bool

definition load_module ::
  "'s openssl \<Rightarrow> nat \<Rightarrow> String.literal \<Rightarrow> 's ossl_state \<Rightarrow> nat option \<times> 's ossl_state" where
  "load_module A context name = ossl_new_from [(context, Ossl_lib_ctx)] Ossl_module (ol_provider_load A context name)"

definition openssl_construct :: "'s openssl \<Rightarrow> bool \<Rightarrow> 's ossl_state \<Rightarrow> openssl_object \<times> 's ossl_state" where
  "openssl_construct A legacy st =
     (case ossl_new Ossl_lib_ctx (ol_lib_ctx_new A) st of
        (None, st1) \<Rightarrow>
          (\<lparr>op_context = None, op_normal = None, op_legacy = None, op_allow_legacy = legacy\<rparr>, st1)
      | (Some context, st1) \<Rightarrow>
          (case load_module A context (STR ''default'') st1 of
             (normal, st2) \<Rightarrow>
               (case if legacy then load_module A context (STR ''legacy'') st2 else (None, st2) of
                  (extra, st3) \<Rightarrow>
                    (\<lparr>op_context = Some context, op_normal = normal, op_legacy = extra,
                      op_allow_legacy = legacy\<rparr>, st3))))"

definition openssl_destroy :: "openssl_object \<Rightarrow> 's ossl_state \<Rightarrow> 's ossl_state" where
  "openssl_destroy self st =
     ossl_free Ossl_lib_ctx (op_context self)
       (ossl_free Ossl_module (op_normal self) (ossl_free Ossl_module (op_legacy self) st))"

definition openssl_good :: "openssl_object \<Rightarrow> bool" where
  "openssl_good self \<longleftrightarrow>
     op_context self \<noteq> None \<and> op_normal self \<noteq> None \<and> (\<not> op_allow_legacy self \<or> op_legacy self \<noteq> None)"

definition openssl_provider :: "'s openssl \<Rightarrow> bool \<Rightarrow> 's ossl_state \<Rightarrow> openssl_object result \<times> 's ossl_state" where
  "openssl_provider A allow_legacy st =
     (case openssl_construct A allow_legacy st of
        (p, st1) \<Rightarrow> if \<not> openssl_good p then (Inl ossl_failure, openssl_destroy p st1) else (Inr p, st1))"

section \<open>The primitives\<close>

text \<open>The context of an object that the factory returned.\<close>

abbreviation context_of :: "openssl_object \<Rightarrow> nat" where
  "context_of self \<equiv> the (op_context self)"

definition openssl_random ::
  "'s openssl \<Rightarrow> openssl_object \<Rightarrow> nat \<Rightarrow> 's ossl_state \<Rightarrow> bytes result \<times> 's ossl_state" where
  "openssl_random A self n st =
     (if n > 16 * 1024 * 1024 then (Inl (invalid (STR ''Random request too large'')), st)
      else if n = 0 then (Inr [], st)
      else
        (case ossl_use [(context_of self, Ossl_lib_ctx)] (ol_rand_bytes A (context_of self) n) st of
           ((status, bytes), st1) \<Rightarrow>
             let out = written_at 0 bytes (replicate n 0)
             in if status \<noteq> 1 then (Inl ossl_failure, discard out st1) else (Inr out, st1)))"

text \<open>\<^verbatim>\<open>cbc\<close> once cipher and context exist: initialisation without padding, the data, the rest.\<close>

definition run_cipher ::
  "'s openssl \<Rightarrow> nat \<Rightarrow> nat \<Rightarrow> bytes \<Rightarrow> bytes \<Rightarrow> bytes \<Rightarrow> nat \<Rightarrow> bool \<Rightarrow> 's ossl_state \<Rightarrow>
   bytes result \<times> 's ossl_state" where
  "run_cipher A cipher ctx key iv input headroom encrypt st =
     (case ossl_use [(ctx, Ossl_cipher_ctx), (cipher, Ossl_cipher)]
             (ol_cipher_init A ctx cipher key iv (if encrypt then 1 else 0)) st of
        (status, st1) \<Rightarrow> if status \<noteq> 1 then (Inl ossl_failure, st1)
      else (case ossl_use [(ctx, Ossl_cipher_ctx)] (ol_set_padding A ctx 0) st1 of
        (status, st2) \<Rightarrow> if status \<noteq> 1 then (Inl ossl_failure, st2)
      else (case ossl_use [(ctx, Ossl_cipher_ctx)] (ol_cipher_update A ctx input) st2 of
        ((status, bytes, used), st3) \<Rightarrow>
          let out = written_at 0 bytes (replicate (length input + headroom) 0)
          in if status \<noteq> 1 \<or> sint used < 0 \<or> unat used > length out
             then (Inl ossl_failure, discard (wipe out) st3)
      else (case ossl_use [(ctx, Ossl_cipher_ctx)] (ol_cipher_final A ctx) st3 of
        ((status, bytes, tail), st4) \<Rightarrow>
          let out = written_at (unat used) bytes out
          in if status \<noteq> 1 \<or> sint tail < 0 \<or> unat tail > length out - unat used
             then (Inl ossl_failure, discard (wipe out) st4)
             else (Inr (take (unat used + unat tail) out), st4)))))"

definition openssl_cbc ::
  "'s openssl \<Rightarrow> openssl_object \<Rightarrow> cipher \<Rightarrow> bytes \<Rightarrow> bytes \<Rightarrow> bytes \<Rightarrow> bool \<Rightarrow> 's ossl_state \<Rightarrow>
   bytes result \<times> 's ossl_state" where
  "openssl_cbc A self algorithm key iv input encrypt st =
     (if length key \<noteq> key_size algorithm \<or> length iv \<noteq> block_size algorithm \<or>
         length input mod length iv \<noteq> 0 \<or> length input > largest_cipher_input
      then (Inl (invalid (STR ''Invalid cipher key, IV, or block length'')), st)
      else if block_size algorithm = 8 \<and> \<not> op_allow_legacy self then (Inl legacy_refused, st)
      else
        owner [(context_of self, Ossl_lib_ctx)] Ossl_cipher
          (ol_cipher_fetch A (context_of self) (cipher_name algorithm)) (\<lambda>cipher.
        owner [] Ossl_cipher_ctx (ol_cipher_ctx_new A) (\<lambda>ctx st1.
          case (cipher, ctx) of
            (Some c, Some x) \<Rightarrow> run_cipher A c x key iv input (block_size algorithm) encrypt st1
          | _ \<Rightarrow> (Inl ossl_failure, st1))) st)"

definition run_mac ::
  "'s openssl \<Rightarrow> nat \<Rightarrow> bytes \<Rightarrow> String.literal \<Rightarrow> bytes \<Rightarrow> nat \<Rightarrow> 's ossl_state \<Rightarrow> bytes result \<times> 's ossl_state" where
  "run_mac A ctx key name input width st =
     (case ossl_use [(ctx, Ossl_mac_ctx)] (ol_mac_init A ctx key name) st of
        (status, st1) \<Rightarrow> if status \<noteq> 1 then (Inl ossl_failure, discard (replicate width 0) st1)
      else (case ossl_use [(ctx, Ossl_mac_ctx)] (ol_mac_update A ctx input) st1 of
        (status, st2) \<Rightarrow> if status \<noteq> 1 then (Inl ossl_failure, discard (replicate width 0) st2)
      else (case ossl_use [(ctx, Ossl_mac_ctx)] (ol_mac_final A ctx width) st2 of
        ((status, bytes, count), st3) \<Rightarrow>
          let out = written_at 0 bytes (replicate width 0)
          in if status \<noteq> 1 then (Inl ossl_failure, discard out st3)
             else (Inr (take count (out @ replicate (count - width) 0)), st3))))"

definition openssl_cmac ::
  "'s openssl \<Rightarrow> openssl_object \<Rightarrow> cipher \<Rightarrow> bytes \<Rightarrow> bytes \<Rightarrow> 's ossl_state \<Rightarrow> bytes result \<times> 's ossl_state" where
  "openssl_cmac A self algorithm key input st =
     (if length key \<noteq> key_size algorithm then (Inl (invalid (STR ''Invalid CMAC key size'')), st)
      else if block_size algorithm = 8 \<and> \<not> op_allow_legacy self then (Inl legacy_refused, st)
      else
        owner [(context_of self, Ossl_lib_ctx)] Ossl_mac (ol_mac_fetch A (context_of self) (STR ''CMAC'')) (\<lambda>mac st1.
          case mac of
            None \<Rightarrow> (Inl ossl_failure, st1)
          | Some m \<Rightarrow>
              owner [(m, Ossl_mac)] Ossl_mac_ctx (ol_mac_ctx_new A m) (\<lambda>ctx st2.
                case ctx of
                  None \<Rightarrow> (Inl ossl_failure, discard (replicate (block_size algorithm) 0) st2)
                | Some x \<Rightarrow> run_mac A x key (cipher_name algorithm) input (block_size algorithm) st2) st1) st)"

section \<open>Signatures\<close>

text \<open>The curve's name as a C string.\<close>

definition c_string :: "String.literal \<Rightarrow> String.literal" where
  "c_string name = String.implode (takeWhile (\<lambda>c. c \<noteq> CHR 0x00) (String.explode name))"

text \<open>
  The two halves become numbers that the signature object takes over; when it does not, they are freed
  here. After the transfer they are parts of the signature object and no objects of their own.
\<close>

definition signature_values ::
  "'s openssl \<Rightarrow> nat option \<Rightarrow> bytes \<Rightarrow> bytes \<Rightarrow> 's ossl_state \<Rightarrow> bool \<times> 's ossl_state" where
  "signature_values A sig front rear st =
     (case ossl_new Ossl_bignum (ol_bin2bn A front) st of
        (r, st1) \<Rightarrow>
          (case ossl_new Ossl_bignum (ol_bin2bn A rear) st1 of
             (s, st2) \<Rightarrow>
               (case (case (sig, r, s) of
                        (Some g, Some x, Some y) \<Rightarrow>
                          ossl_use [(g, Ossl_ecdsa_sig), (x, Ossl_bignum), (y, Ossl_bignum)]
                            (ol_ecdsa_sig_set0 A g x y) st2
                      | _ \<Rightarrow> (0, st2)) of
                  (status, st3) \<Rightarrow>
                    if status \<noteq> 1 then (False, ossl_free Ossl_bignum s (ossl_free Ossl_bignum r st3))
                    else (True, st3\<lparr>oy_live := (oy_live st3)(the r := None, the s := None)\<rparr>))))"

definition signature_der :: "'s openssl \<Rightarrow> nat \<Rightarrow> 's ossl_state \<Rightarrow> bytes option \<times> 's ossl_state" where
  "signature_der A sig st =
     (case ossl_use [(sig, Ossl_ecdsa_sig)] (ol_i2d_size A sig) st of
        (needed, st1) \<Rightarrow> if sint needed \<le> 0 then (None, st1)
      else (case ossl_use [(sig, Ossl_ecdsa_sig)] (ol_i2d A sig) st1 of
        ((written, bytes), st2) \<Rightarrow>
          if written \<noteq> needed then (None, st2) else (Some (written_at 0 bytes (replicate (unat needed) 0)), st2)))"

definition run_verify ::
  "'s openssl \<Rightarrow> nat \<Rightarrow> bytes \<Rightarrow> bytes \<Rightarrow> 's ossl_state \<Rightarrow> bool result \<times> 's ossl_state" where
  "run_verify A ctx der digest st =
     (case ossl_use [(ctx, Ossl_pkey_ctx)] (ol_verify_init A ctx) st of
        (status, st1) \<Rightarrow> if status \<noteq> 1 then (Inl ossl_failure, st1)
      else (case ossl_use [(ctx, Ossl_pkey_ctx)] (ol_verify A ctx der digest) st1 of
        (answer, st2) \<Rightarrow> if sint answer < 0 then (Inl ossl_failure, st2) else (Inr (answer = 1), st2)))"

text \<open>From the imported key to the answer.\<close>

definition verify_with_key ::
  "'s openssl \<Rightarrow> nat \<Rightarrow> nat \<Rightarrow> bytes \<Rightarrow> bytes \<Rightarrow> 's ossl_state \<Rightarrow> bool result \<times> 's ossl_state" where
  "verify_with_key A context key digest signature =
     owner [] Ossl_ecdsa_sig (ol_ecdsa_sig_new A) (\<lambda>sig st.
       let n = length signature div 2
       in case signature_values A sig (take n signature) (drop n signature) st of
            (False, st1) \<Rightarrow> (Inl ossl_failure, st1)
          | (True, st1) \<Rightarrow>
              (case signature_der A (the sig) st1 of
                 (None, st2) \<Rightarrow> (Inl ossl_failure, st2)
               | (Some der, st2) \<Rightarrow>
                   owner [(context, Ossl_lib_ctx), (key, Ossl_pkey)] Ossl_pkey_ctx
                     (ol_pkey_ctx_from_pkey A context key) (\<lambda>ctx st3.
                       case ctx of
                         None \<Rightarrow> (Inl ossl_failure, st3)
                       | Some x \<Rightarrow> run_verify A x der digest st3) st2))"

definition openssl_verify_ecdsa ::
  "'s openssl \<Rightarrow> openssl_object \<Rightarrow> String.literal \<Rightarrow> bytes \<Rightarrow> bytes \<Rightarrow> bytes \<Rightarrow> 's ossl_state \<Rightarrow>
   bool result \<times> 's ossl_state" where
  "openssl_verify_ecdsa A self curve public_key digest signature st =
     (if String.explode curve = [] \<or> public_key = [] \<or> signature = [] \<or> length signature mod 2 \<noteq> 0 \<or>
         length signature > 132
      then (Inl (invalid (STR ''Invalid ECDSA input'')), st)
      else
        owner [(context_of self, Ossl_lib_ctx)] Ossl_pkey_ctx
          (ol_pkey_ctx_from_name A (context_of self) (STR ''EC'')) (\<lambda>import st1.
            case import of
              None \<Rightarrow> (Inl ossl_failure, st1)
            | Some i \<Rightarrow>
                (case ossl_use [(i, Ossl_pkey_ctx)] (ol_fromdata_init A i) st1 of
                   (status, st2) \<Rightarrow>
                     if status \<noteq> 1 then (Inl ossl_failure, st2)
                     else owner [(i, Ossl_pkey_ctx)] Ossl_pkey (ol_fromdata A i (c_string curve) public_key)
                       (\<lambda>key st3. case key of
                            None \<Rightarrow> (Inl ossl_failure, st3)
                          | Some k \<Rightarrow> verify_with_key A (context_of self) k digest signature st3) st2)) st)"

text \<open>
  The provider as the core sees it: one function for each primitive, of its inputs in a given state of the
  library.
\<close>

definition crypto_provider_of :: "'s openssl \<Rightarrow> openssl_object \<Rightarrow> 's ossl_state \<Rightarrow> crypto_provider" where
  "crypto_provider_of A self st =
     \<lparr>cbc = (\<lambda>algorithm key iv input encrypt. Returned (fst (openssl_cbc A self algorithm key iv input encrypt st))),
      cmac = (\<lambda>algorithm key input. Returned (fst (openssl_cmac A self algorithm key input st))),
      verify_ecdsa = (\<lambda>curve public_key digest signature.
        Returned (fst (openssl_verify_ecdsa A self curve public_key digest signature st)))\<rparr>"

end
