(* ===== verification/Openssl_Contract.thy ===== *)
theory Openssl_Contract
  imports Openssl
begin

text \<open>
  What the OpenSSL provider does with the objects of the library, whatever the library answers, and what
  it gives the core when the library works as documented.
\<close>

section \<open>Blocks that leave nothing behind\<close>

definition ossl_ok :: "'s ossl_state \<Rightarrow> bool" where
  "ossl_ok st \<longleftrightarrow> \<not> oy_fault st \<and> (\<forall>p type. oy_live st p = Some type \<longrightarrow> p < oy_next st)"

abbreviation alive :: "(nat \<times> ossl_type) list \<Rightarrow> 's ossl_state \<Rightarrow> bool" where
  "alive objects st \<equiv> \<forall>(p, type)\<in>set objects. oy_live st p = Some type"

text \<open>A block that may rely on some objects being alive, and that ends with the same objects alive.\<close>

definition tidy :: "(nat \<times> ossl_type) list \<Rightarrow> ('s ossl_state \<Rightarrow> 'a \<times> 's ossl_state) \<Rightarrow> bool" where
  "tidy G block \<longleftrightarrow>
     (\<forall>st. ossl_ok st \<and> alive G st \<longrightarrow> ossl_ok (snd (block st)) \<and> oy_live (snd (block st)) = oy_live st)"

named_theorems tidy_intros

lemma tidyD:
  "tidy G block \<Longrightarrow> ossl_ok st \<Longrightarrow> alive G st \<Longrightarrow> block st = (r, st') \<Longrightarrow> ossl_ok st' \<and> oy_live st' = oy_live st"
  unfolding tidy_def by (metis snd_conv)

lemma use_step:
  assumes "ossl_use objects f st = (r, st')" "ossl_ok st" "alive objects st"
  shows "ossl_ok st' \<and> oy_live st' = oy_live st"
  using assms by (auto simp: ossl_use_def ossl_ok_def list_all_iff split: prod.splits)

lemma new_step:
  assumes "ossl_new type create st = (p, st')" "ossl_ok st"
  shows "ossl_ok st' \<and>
    (case p of None \<Rightarrow> oy_live st' = oy_live st
     | Some n \<Rightarrow> oy_live st n = None \<and> oy_live st' = (oy_live st)(n \<mapsto> type))"
proof -
  have "oy_live st (oy_next st) = None"
    using assms(2) by (cases "oy_live st (oy_next st)") (auto simp: ossl_ok_def)
  then show ?thesis
    using assms by (auto simp: ossl_new_def ossl_ok_def less_Suc_eq split: prod.splits bool.splits if_splits)
qed

lemma new_from_step:
  assumes "ossl_new_from objects type create st = (p, st')" "ossl_ok st" "alive objects st"
  shows "ossl_ok st' \<and>
    (case p of None \<Rightarrow> oy_live st' = oy_live st
     | Some n \<Rightarrow> oy_live st n = None \<and> oy_live st' = (oy_live st)(n \<mapsto> type))"
proof -
  obtain st1 where used: "ossl_use objects (\<lambda>w. ((), w)) st = ((), st1)"
    by (cases "ossl_use objects (\<lambda>w. ((), w)) st") simp
  with assms(1) have "ossl_new type create st1 = (p, st')" by (simp add: ossl_new_from_def)
  with use_step [OF used assms(2,3)] show ?thesis using new_step [of type create st1 p st'] by (simp split: option.splits)
qed

lemma free_step:
  assumes "ossl_ok st" "\<And>n. p = Some n \<Longrightarrow> oy_live st n = Some type"
  shows "ossl_ok (ossl_free type p st)"
    "oy_live (ossl_free type p st) = (case p of None \<Rightarrow> oy_live st | Some n \<Rightarrow> (oy_live st)(n := None))"
  using assms by (auto simp: ossl_free_def ossl_ok_def split: option.splits)

lemma tidy_return [tidy_intros]: "tidy G (\<lambda>st. (r, st))"
  by (simp add: tidy_def)

lemma tidy_discard [tidy_intros]: "tidy G (\<lambda>st. (r, discard out st))"
  by (auto simp: tidy_def discard_def ossl_ok_def)

lemma tidy_use [tidy_intros]:
  fixes f :: "'s \<Rightarrow> 'a \<times> 's"
  assumes "set objects \<subseteq> set G" "\<And>r. tidy G (k r)"
  shows "tidy G (\<lambda>st. case ossl_use objects f st of (r, st1) \<Rightarrow> k r st1)"
  unfolding tidy_def
proof (intro allI impI)
  fix st :: "'s ossl_state"
  assume st: "ossl_ok st \<and> alive G st"
  obtain r st1 where use: "ossl_use objects f st = (r, st1)" by fastforce
  from use_step [OF use] st assms(1) have "ossl_ok st1 \<and> oy_live st1 = oy_live st" by fastforce
  with assms(2) st use show "ossl_ok (snd (case ossl_use objects f st of (r, st1) \<Rightarrow> k r st1)) \<and>
      oy_live (snd (case ossl_use objects f st of (r, st1) \<Rightarrow> k r st1)) = oy_live st"
    by (simp add: tidy_def)
qed

lemma tidy_owner [tidy_intros]:
  fixes create :: "nat \<Rightarrow> 's \<Rightarrow> bool \<times> 's"
  assumes "set objects \<subseteq> set G" "\<And>p. tidy ((p, type) # G) (block (Some p))" "tidy G (block None)"
  shows "tidy G (owner objects type create block)"
  unfolding tidy_def
proof (intro allI impI)
  fix st :: "'s ossl_state"
  assume st: "ossl_ok st \<and> alive G st"
  obtain p st1 where made: "ossl_new_from objects type create st = (p, st1)" by fastforce
  obtain r st2 where ran: "block p st1 = (r, st2)" by fastforce
  have s1: "ossl_ok st1" and p: "case p of None \<Rightarrow> oy_live st1 = oy_live st
      | Some n \<Rightarrow> oy_live st n = None \<and> oy_live st1 = (oy_live st)(n \<mapsto> type)"
    using new_from_step [OF made] st assms(1) by fastforce+
  have s2: "ossl_ok st2 \<and> oy_live st2 = oy_live st1"
  proof (cases p)
    case None
    then show ?thesis using tidyD [OF assms(3) s1] ran p st by simp
  next
    case (Some n)
    then have "alive ((n, type) # G) st1" using p st by fastforce
    then show ?thesis using tidyD [OF assms(2) s1] ran Some by blast
  qed
  have "oy_live st2 n = Some type" if "p = Some n" for n using that p s2 by simp
  from free_step [OF conjunct1 [OF s2] this, of p]
  have "ossl_ok (ossl_free type p st2) \<and> oy_live (ossl_free type p st2) = oy_live st"
    using p s2 by (cases p) auto
  then show "ossl_ok (snd (owner objects type create block st)) \<and>
      oy_live (snd (owner objects type create block st)) = oy_live st"
    using made ran by (simp add: owner_def)
qed

lemma tidy_if [tidy_intros]:
  "(b \<Longrightarrow> tidy G f) \<Longrightarrow> (\<not> b \<Longrightarrow> tidy G g) \<Longrightarrow> tidy G (\<lambda>st. if b then f st else g st)"
  by (cases b) simp_all

lemma tidy_let [tidy_intros]: "tidy G (k x) \<Longrightarrow> tidy G (\<lambda>st. let y = x in k y st)"
  by simp

lemma tidy_pair [tidy_intros]: "(\<And>a b. x = (a, b) \<Longrightarrow> tidy G (k a b)) \<Longrightarrow> tidy G (\<lambda>st. case x of (a, b) \<Rightarrow> k a b st)"
  by (cases x) simp

section \<open>The primitives leave nothing behind\<close>

lemma run_cipher_tidy [tidy_intros]:
  "{(ctx, Ossl_cipher_ctx), (cipher, Ossl_cipher)} \<subseteq> set G \<Longrightarrow>
   tidy G (run_cipher A cipher ctx key iv input headroom encrypt)"
  unfolding run_cipher_def by (intro tidy_intros) auto

lemma run_mac_tidy [tidy_intros]:
  "(ctx, Ossl_mac_ctx) \<in> set G \<Longrightarrow> tidy G (run_mac A ctx key name input width)"
  unfolding run_mac_def by (intro tidy_intros) auto

lemma run_verify_tidy [tidy_intros]:
  "(ctx, Ossl_pkey_ctx) \<in> set G \<Longrightarrow> tidy G (run_verify A ctx der digest)"
  unfolding run_verify_def by (intro tidy_intros) auto

lemma tidy_bind [tidy_intros]:
  fixes f :: "'s ossl_state \<Rightarrow> 'a \<times> 's ossl_state"
  assumes "tidy G f" "\<And>r. tidy G (k r)"
  shows "tidy G (\<lambda>st. case f st of (r, st1) \<Rightarrow> k r st1)"
  unfolding tidy_def
proof (intro allI impI)
  fix st :: "'s ossl_state"
  assume st: "ossl_ok st \<and> alive G st"
  obtain r st1 where run: "f st = (r, st1)" by fastforce
  with tidyD [OF assms(1) _ _ run] st have "ossl_ok st1 \<and> oy_live st1 = oy_live st" by blast
  with assms(2) st run show "ossl_ok (snd (case f st of (r, st1) \<Rightarrow> k r st1)) \<and>
      oy_live (snd (case f st of (r, st1) \<Rightarrow> k r st1)) = oy_live st"
    by (simp add: tidy_def)
qed

lemma tidy_bool [tidy_intros]: "tidy G f \<Longrightarrow> tidy G g \<Longrightarrow> tidy G (\<lambda>st. case b of True \<Rightarrow> f st | False \<Rightarrow> g st)"
  by (cases b) simp_all

lemma tidy_option [tidy_intros]:
  "(x = None \<Longrightarrow> tidy G f) \<Longrightarrow> (\<And>y. x = Some y \<Longrightarrow> tidy G (g y)) \<Longrightarrow>
   tidy G (\<lambda>st. case x of None \<Rightarrow> f st | Some y \<Rightarrow> g y st)"
  by (cases x) simp_all

section \<open>Signatures leave nothing behind\<close>

text \<open>Two numbers are created; either the signature takes both over, or both are freed.\<close>

lemma signature_values_tidy:
  assumes "\<And>g. sig = Some g \<Longrightarrow> (g, Ossl_ecdsa_sig) \<in> set G"
  shows "tidy G (signature_values A sig front rear :: 's ossl_state \<Rightarrow> bool \<times> 's ossl_state)"
  unfolding tidy_def
proof (intro allI impI)
  fix st :: "'s ossl_state"
  assume st: "ossl_ok st \<and> alive G st"
  obtain r st1 where r: "ossl_new Ossl_bignum (ol_bin2bn A front) st = (r, st1)" by fastforce
  obtain s st2 where s: "ossl_new Ossl_bignum (ol_bin2bn A rear) st1 = (s, st2)" by fastforce
  obtain status st3 where transfer: "(case (sig, r, s) of
      (Some g, Some x, Some y) \<Rightarrow> ossl_use [(g, Ossl_ecdsa_sig), (x, Ossl_bignum), (y, Ossl_bignum)] (ol_ecdsa_sig_set0 A g x y) st2
    | _ \<Rightarrow> (0, st2)) = (status, st3)" by fastforce
  note first = new_step [OF r conjunct1 [OF st]]
  note second = new_step [OF s conjunct1 [OF first]]
  have live: "oy_live st2 x = Some Ossl_bignum" if "r = Some x \<or> s = Some x" for x
    using that first second by (auto split: option.splits)
  have same: "oy_live st2 g = Some Ossl_ecdsa_sig" if "sig = Some g" for g
  proof -
    have "oy_live st g = Some Ossl_ecdsa_sig" using st assms [OF that] by fastforce
    then show ?thesis using first second by (auto split: option.splits)
  qed
  have third: "ossl_ok st3 \<and> oy_live st3 = oy_live st2"
  proof (cases "sig \<noteq> None \<and> r \<noteq> None \<and> s \<noteq> None")
    case True
    then obtain g x y where "sig = Some g" "r = Some x" "s = Some y" by auto
    then show ?thesis using transfer use_step [of "[(g, Ossl_ecdsa_sig), (x, Ossl_bignum), (y, Ossl_bignum)]" "ol_ecdsa_sig_set0 A g x y" st2 status st3]
        second live same by simp
  next
    case False
    then show ?thesis using transfer second by (auto split: option.splits)
  qed
  have distinct: "s \<noteq> Some x" if "r = Some x" for x
    using that first second by (auto split: option.splits)
  show "ossl_ok (snd (signature_values A sig front rear st)) \<and> oy_live (snd (signature_values A sig front rear st)) = oy_live st"
  proof (cases "status = 1")
    case True
    then have "r \<noteq> None \<and> s \<noteq> None" using transfer by (auto split: option.splits)
    then obtain x y where xy: "r = Some x" "s = Some y" by auto
    then have "oy_live st = (oy_live st3)(x := None, y := None)"
      using first second third by (auto simp: fun_eq_iff split: if_splits)
    then show ?thesis
      using r s transfer True xy third by (auto simp: signature_values_def ossl_ok_def)
  next
    case False
    have freed: "ossl_ok (ossl_free Ossl_bignum r st3)"
      "oy_live (ossl_free Ossl_bignum r st3) = (case r of None \<Rightarrow> oy_live st3 | Some n \<Rightarrow> (oy_live st3)(n := None))"
      by (rule free_step; use third live in simp)+
    have "oy_live (ossl_free Ossl_bignum r st3) n = Some Ossl_bignum" if "s = Some n" for n
      using that freed(2) third live [of n] distinct by (auto split: option.splits)
    from free_step [OF freed(1) this, of s]
    have "ossl_ok (ossl_free Ossl_bignum s (ossl_free Ossl_bignum r st3)) \<and>
        oy_live (ossl_free Ossl_bignum s (ossl_free Ossl_bignum r st3)) = oy_live st"
      using freed(2) first second third by (auto simp: fun_eq_iff split: option.splits if_splits)
    then show ?thesis using r s transfer False by (simp add: signature_values_def)
  qed
qed

lemma signature_values_null: "\<exists>st'. signature_values A None front rear st = (False, st')"
  by (auto simp: signature_values_def split: prod.splits)

lemma signature_der_tidy [tidy_intros]: "(sig, Ossl_ecdsa_sig) \<in> set G \<Longrightarrow> tidy G (signature_der A sig)"
  unfolding signature_der_def by (intro tidy_intros) auto

lemma verify_with_key_tidy [tidy_intros]:
  fixes A :: "'s openssl"
  assumes "(context, Ossl_lib_ctx) \<in> set G" "(key, Ossl_pkey) \<in> set G"
  shows "tidy G (verify_with_key A context key digest signature)"
  unfolding verify_with_key_def Let_def
proof (rule tidy_owner)
  fix p
  show "tidy ((p, Ossl_ecdsa_sig) # G)
      (\<lambda>st. case signature_values A (Some p) (take (length signature div 2) signature) (drop (length signature div 2) signature) st of
         (False, st1) \<Rightarrow> (Inl ossl_failure, st1)
       | (True, st1) \<Rightarrow>
           (case signature_der A (the (Some p)) st1 of
              (None, st2) \<Rightarrow> (Inl ossl_failure, st2)
            | (Some der, st2) \<Rightarrow>
                owner [(context, Ossl_lib_ctx), (key, Ossl_pkey)] Ossl_pkey_ctx (ol_pkey_ctx_from_pkey A context key)
                  (\<lambda>ctx st3. case ctx of None \<Rightarrow> (Inl ossl_failure, st3) | Some x \<Rightarrow> run_verify A x der digest st3) st2))"
    by (intro tidy_intros signature_values_tidy) (use assms in auto)
next
  show "tidy G
      (\<lambda>st. case signature_values A None (take (length signature div 2) signature) (drop (length signature div 2) signature) st of
         (False, st1) \<Rightarrow> (Inl ossl_failure, st1)
       | (True, st1) \<Rightarrow>
           (case signature_der A (the None) st1 of
              (None, st2) \<Rightarrow> (Inl ossl_failure, st2)
            | (Some der, st2) \<Rightarrow>
                owner [(context, Ossl_lib_ctx), (key, Ossl_pkey)] Ossl_pkey_ctx (ol_pkey_ctx_from_pkey A context key)
                  (\<lambda>ctx st3. case ctx of None \<Rightarrow> (Inl ossl_failure, st3) | Some x \<Rightarrow> run_verify A x der digest st3) st2))" (is "tidy G ?block")
    unfolding tidy_def
  proof (intro allI impI)
    fix st :: "'s ossl_state"
    assume st: "ossl_ok st \<and> alive G st"
    obtain st1 where run: "signature_values A None (take (length signature div 2) signature)
        (drop (length signature div 2) signature) st = (False, st1)"
      using signature_values_null by blast
    from tidyD [OF signature_values_tidy [of None G] _ _ run] st
    show "ossl_ok (snd (?block st)) \<and> oy_live (snd (?block st)) = oy_live st" by (simp add: run)
  qed
qed simp

text \<open>The primitives of a provider whose context is alive.\<close>

lemma openssl_random_tidy: "tidy [(context_of self, Ossl_lib_ctx)] (openssl_random A self n)"
  unfolding openssl_random_def by (intro tidy_intros) auto

lemma openssl_cbc_tidy: "tidy [(context_of self, Ossl_lib_ctx)] (openssl_cbc A self algorithm key iv input encrypt)"
  unfolding openssl_cbc_def by (intro tidy_intros) (auto intro!: tidy_intros)

lemma openssl_cmac_tidy: "tidy [(context_of self, Ossl_lib_ctx)] (openssl_cmac A self algorithm key input)"
  unfolding openssl_cmac_def by (intro tidy_intros) auto

lemma openssl_verify_ecdsa_tidy:
  "tidy [(context_of self, Ossl_lib_ctx)] (openssl_verify_ecdsa A self curve public_key digest signature)"
  unfolding openssl_verify_ecdsa_def by (intro tidy_intros) auto

section \<open>The output that the ciphers give up\<close>

lemma ossl_use_discarded: "ossl_use objects f st = (r, st') \<Longrightarrow> oy_discarded st' = oy_discarded st"
  by (auto simp: ossl_use_def split: prod.splits)

lemma ossl_new_discarded: "ossl_new_from objects type create st = (p, st') \<Longrightarrow> oy_discarded st' = oy_discarded st"
  by (auto simp: ossl_new_from_def ossl_new_def ossl_use_def split: prod.splits bool.splits)

lemma ossl_free_discarded [simp]: "oy_discarded (ossl_free type p st) = oy_discarded st"
  by (auto simp: ossl_free_def split: option.splits)

lemma discard_discarded [simp]: "oy_discarded (discard out st) = oy_discarded st @ [out]"
  by (simp add: discard_def)

lemma owner_discarded:
  assumes "owner objects type create block st = (r, st')"
  obtains p st1 st2 where "oy_discarded st1 = oy_discarded st" "block p st1 = (r, st2)"
    "oy_discarded st' = oy_discarded st2"
  using assms ossl_new_discarded [of objects type create st] by (auto simp: owner_def split: prod.splits)

text \<open>What a cipher left unfinished is erased first, and an output that is returned is not also given up.\<close>

definition wiped_only :: "'a result \<Rightarrow> 's ossl_state \<Rightarrow> 's ossl_state \<Rightarrow> bool" where
  "wiped_only r st st' \<longleftrightarrow>
     (\<exists>more. oy_discarded st' = oy_discarded st @ more \<and> (\<forall>out\<in>set more. \<forall>b\<in>set out. b = 0) \<and>
        (\<forall>v. r = Inr v \<longrightarrow> more = []))"

lemma run_cipher_discarded:
  "run_cipher A cipher ctx key iv input headroom encrypt st = (r, st') \<Longrightarrow> wiped_only r st st'"
  by (auto simp: run_cipher_def Let_def wiped_only_def split: prod.splits if_splits dest!: ossl_use_discarded)

lemma openssl_cbc_discarded:
  assumes "openssl_cbc A self algorithm key iv input encrypt st = (r, st')"
  shows "wiped_only r st st'"
proof (cases "oy_discarded st' = oy_discarded st")
  case True
  then show ?thesis by (simp add: wiped_only_def)
next
  case False
  then obtain c st1 st2 where first: "oy_discarded st1 = oy_discarded st" "oy_discarded st' = oy_discarded st2"
    and inner: "owner [] Ossl_cipher_ctx (ol_cipher_ctx_new A) (\<lambda>x st3. case (c, x) of
        (Some c, Some x) \<Rightarrow> run_cipher A c x key iv input (block_size algorithm) encrypt st3
      | _ \<Rightarrow> (Inl ossl_failure, st3)) st1 = (r, st2)"
    using assms unfolding openssl_cbc_def by (auto split: if_splits elim!: owner_discarded [where objects = "[(context_of self, Ossl_lib_ctx)]"])
  obtain x st3 st4 where "oy_discarded st3 = oy_discarded st1" "oy_discarded st2 = oy_discarded st4"
    "(case (c, x) of (Some c, Some x) \<Rightarrow> run_cipher A c x key iv input (block_size algorithm) encrypt st3
      | _ \<Rightarrow> (Inl ossl_failure, st3)) = (r, st4)"
    using owner_discarded [OF inner] by metis
  with first False show ?thesis
    using run_cipher_discarded [of A _ _ key iv input "block_size algorithm" encrypt st3 r st4]
    by (auto simp: wiped_only_def split: option.splits)
qed

end
