(* ===== verification/Openssl_Properties.thy ===== *)
theory Openssl_Properties
  imports Openssl_Contract
begin

text \<open>
  The OpenSSL provider as a whole: objects from its construction to its destruction, and the contract of a
  cryptographic provider that the core relies on.
\<close>

section \<open>Construction and destruction\<close>

definition added :: "ossl_type \<Rightarrow> nat option \<Rightarrow> (nat \<rightharpoonup> ossl_type) \<Rightarrow> nat \<rightharpoonup> ossl_type" where
  "added type p live = (case p of None \<Rightarrow> live | Some n \<Rightarrow> live(n \<mapsto> type))"

abbreviation unused :: "nat option \<Rightarrow> (nat \<rightharpoonup> ossl_type) \<Rightarrow> bool" where
  "unused p live \<equiv> \<forall>n. p = Some n \<longrightarrow> live n = None"

lemma new_added:
  assumes "ossl_new type create st = (p, st')" "ossl_ok st"
  shows "ossl_ok st' \<and> oy_live st' = added type p (oy_live st) \<and> unused p (oy_live st)"
  using new_step [OF assms] by (auto simp: added_def split: option.splits)

lemma load_added:
  assumes "load_module A c name st = (p, st')" "ossl_ok st" "oy_live st c = Some Ossl_lib_ctx"
  shows "ossl_ok st' \<and> oy_live st' = added Ossl_module p (oy_live st) \<and> unused p (oy_live st)"
  using new_from_step [OF assms(1) [unfolded load_module_def] assms(2)] assms(3)
  by (auto simp: added_def split: option.splits)

lemma free_added:
  assumes "ossl_ok st" "oy_live st = added type p live" "unused p live"
  shows "ossl_ok (ossl_free type p st) \<and> oy_live (ossl_free type p st) = live"
  using free_step [OF assms(1), of p type] assms(2,3)
  by (cases p) (auto simp: added_def fun_upd_idem_iff)

text \<open>What a provider holds.\<close>

definition holds :: "openssl_object \<Rightarrow> (nat \<rightharpoonup> ossl_type) \<Rightarrow> 's ossl_state \<Rightarrow> bool" where
  "holds p live st \<longleftrightarrow> ossl_ok st \<and> unused (op_context p) live \<and>
     unused (op_normal p) (added Ossl_lib_ctx (op_context p) live) \<and>
     unused (op_legacy p) (added Ossl_module (op_normal p) (added Ossl_lib_ctx (op_context p) live)) \<and>
     oy_live st = added Ossl_module (op_legacy p) (added Ossl_module (op_normal p) (added Ossl_lib_ctx (op_context p) live))"

lemma added_none [simp]: "added type None live = live"
  by (simp add: added_def)

lemma construct_holds:
  assumes "openssl_construct A legacy st = (p, st')" "ossl_ok st"
  shows "holds p (oy_live st) st' \<and> op_allow_legacy p = legacy"
proof -
  obtain c st1 where c: "ossl_new Ossl_lib_ctx (ol_lib_ctx_new A) st = (c, st1)" by fastforce
  note lib = new_added [OF c assms(2)]
  show ?thesis
  proof (cases c)
    case None
    then show ?thesis using assms(1) c lib by (auto simp: openssl_construct_def holds_def)
  next
    case (Some n)
    obtain d st2 where d: "load_module A n (STR ''default'') st1 = (d, st2)" by fastforce
    have normal: "ossl_ok st2 \<and> oy_live st2 = added Ossl_module d (oy_live st1) \<and> unused d (oy_live st1)"
      by (rule load_added [OF d]) (use lib Some in \<open>auto simp: added_def\<close>)
    obtain l st3 where l: "(if legacy then load_module A n (STR ''legacy'') st2 else (None, st2)) = (l, st3)" by fastforce
    have alive: "oy_live st2 n = Some Ossl_lib_ctx"
      using lib normal Some by (auto simp: added_def split: option.splits)
    have "ossl_ok st3 \<and> oy_live st3 = added Ossl_module l (oy_live st2) \<and> unused l (oy_live st2)"
      using l load_added [OF _ conjunct1 [OF normal] alive, of A "STR ''legacy''" l st3] normal by (auto split: if_splits)
    then show ?thesis
      using assms(1) c d l Some lib normal by (auto simp: openssl_construct_def holds_def split: prod.splits)
  qed
qed

lemma destroy_holds:
  assumes "holds p live st"
  shows "ossl_ok (openssl_destroy p st) \<and> oy_live (openssl_destroy p st) = live"
proof -
  note h = assms [unfolded holds_def]
  have one: "ossl_ok (ossl_free Ossl_module (op_legacy p) st) \<and> oy_live (ossl_free Ossl_module (op_legacy p) st) =
      added Ossl_module (op_normal p) (added Ossl_lib_ctx (op_context p) live)"
    by (rule free_added) (use h in blast)+
  have two: "ossl_ok (ossl_free Ossl_module (op_normal p) (ossl_free Ossl_module (op_legacy p) st)) \<and>
      oy_live (ossl_free Ossl_module (op_normal p) (ossl_free Ossl_module (op_legacy p) st)) =
        added Ossl_lib_ctx (op_context p) live"
    by (rule free_added) (use one h in blast)+
  show ?thesis unfolding openssl_destroy_def by (rule free_added) (use two h in blast)+
qed

text \<open>Any use of a provider.\<close>

inductive openssl_uses :: "'s openssl \<Rightarrow> openssl_object \<Rightarrow> 's ossl_state \<Rightarrow> 's ossl_state \<Rightarrow> bool" for A p st where
  unused_yet: "openssl_uses A p st st"
| random: "openssl_uses A p st st1 \<Longrightarrow> openssl_random A p n st1 = (r, st2) \<Longrightarrow> openssl_uses A p st st2"
| cipher: "openssl_uses A p st st1 \<Longrightarrow> openssl_cbc A p algorithm key iv input encrypt st1 = (r, st2) \<Longrightarrow> openssl_uses A p st st2"
| mac: "openssl_uses A p st st1 \<Longrightarrow> openssl_cmac A p algorithm key input st1 = (r, st2) \<Longrightarrow> openssl_uses A p st st2"
| signature: "openssl_uses A p st st1 \<Longrightarrow> openssl_verify_ecdsa A p curve public_key digest sig st1 = (v, st2) \<Longrightarrow>
    openssl_uses A p st st2"

lemma holds_context:
  assumes "holds p live st" "op_context p \<noteq> None"
  shows "alive [(context_of p, Ossl_lib_ctx)] st"
  using assms by (auto simp: holds_def added_def split: option.splits)

lemma tidy_holds:
  assumes "tidy [(context_of p, Ossl_lib_ctx)] f" "holds p live st" "op_context p \<noteq> None" "f st = (r, st')"
  shows "holds p live st'"
proof -
  have "ossl_ok st" using assms(2) by (simp add: holds_def)
  from tidyD [OF assms(1) this holds_context [OF assms(2,3)] assms(4)] assms(2) show ?thesis by (simp add: holds_def)
qed

lemma openssl_uses_holds:
  assumes "openssl_uses A p st st'" "holds p live st" "op_context p \<noteq> None"
  shows "holds p live st'"
  using assms
proof (induction rule: openssl_uses.induct)
  case unused_yet
  then show ?case by simp
next
  case (random st1 n r st2)
  then show ?case using tidy_holds [OF openssl_random_tidy] by blast
next
  case (cipher st1 algorithm key iv input encrypt r st2)
  then show ?case using tidy_holds [OF openssl_cbc_tidy] by blast
next
  case (mac st1 algorithm key input r st2)
  then show ?case using tidy_holds [OF openssl_cmac_tidy] by blast
next
  case (signature st1 curve public_key digest sig v st2)
  then show ?case using tidy_holds [OF openssl_verify_ecdsa_tidy] by blast
qed

text \<open>
  C31. The objects of OpenSSL. Whatever the library answers, a provider that could not be made leaves
  nothing behind; one that was made can be used in any way: each primitive frees exactly what it
  created, on every path, uses no object that is null, freed or of another type and hands each number of a
  signature over once; a cipher that fails leaves only zeros in the output it frees; and the destructor
  then frees exactly what the constructor created.
\<close>

theorem openssl_frees_exactly:
  assumes "ossl_ok st" "openssl_provider A legacy st = (r, st1)"
  shows "case r of
      Inl e \<Rightarrow> e = ossl_failure \<and> \<not> oy_fault st1 \<and> oy_live st1 = oy_live st
    | Inr p \<Rightarrow>
        (\<forall>st2. openssl_uses A p st1 st2 \<longrightarrow>
           \<not> oy_fault st2 \<and> oy_live st2 = oy_live st1 \<and>
           (\<forall>algorithm key iv input encrypt result st3.
              openssl_cbc A p algorithm key iv input encrypt st2 = (result, st3) \<longrightarrow>
              (\<exists>more. oy_discarded st3 = oy_discarded st2 @ more \<and> (\<forall>out\<in>set more. \<forall>b\<in>set out. b = 0) \<and>
                 (\<forall>out. result = Inr out \<longrightarrow> more = []))) \<and>
           \<not> oy_fault (openssl_destroy p st2) \<and> oy_live (openssl_destroy p st2) = oy_live st)"
proof -
  obtain p st0 where made: "openssl_construct A legacy st = (p, st0)" by fastforce
  have h: "holds p (oy_live st) st0" using construct_holds [OF made assms(1)] by simp
  show ?thesis
  proof (cases "openssl_good p")
    case False
    then show ?thesis using assms(2) made destroy_holds [OF h] by (auto simp: openssl_provider_def ossl_ok_def)
  next
    case True
    then have r: "r = Inr p" "st1 = st0" and lib: "op_context p \<noteq> None"
      using assms(2) made by (auto simp: openssl_provider_def openssl_good_def)
    have "holds p (oy_live st) st2" if "openssl_uses A p st1 st2" for st2
      using openssl_uses_holds [OF that] h lib r(2) by simp
    then have "\<not> oy_fault st2 \<and> oy_live st2 = oy_live st1 \<and>
        \<not> oy_fault (openssl_destroy p st2) \<and> oy_live (openssl_destroy p st2) = oy_live st"
      if "openssl_uses A p st1 st2" for st2
      using h r(2) destroy_holds [of p "oy_live st" st2] that unfolding holds_def ossl_ok_def by metis
    then show ?thesis using openssl_cbc_discarded unfolding r(1) wiped_only_def by auto
  qed
qed

section \<open>A library that works\<close>

text \<open>
  The documented behaviour of the calls for AES-128 in CBC mode without padding, one after the other: every
  call succeeds, and what update and final write is together the transformed input.
\<close>

definition evp_cipher_works :: "'s openssl \<Rightarrow> (bytes \<Rightarrow> bytes \<Rightarrow> bool \<Rightarrow> bytes \<Rightarrow> bytes) \<Rightarrow> bool" where
  "evp_cipher_works A F \<longleftrightarrow>
     (\<forall>context c x key iv input encrypt w.
        length key = 16 \<and> length iv = 16 \<and> length input mod 16 = 0 \<and> length input \<le> largest_cipher_input \<longrightarrow>
        (\<exists>w1 w2 w3 w4 w5 w6 front used rest tail.
           ol_cipher_fetch A context (STR ''AES-128-CBC'') c w = (True, w1) \<and> ol_cipher_ctx_new A x w1 = (True, w2) \<and>
           ol_cipher_init A x c key iv (if encrypt then 1 else 0) w2 = (1, w3) \<and> ol_set_padding A x 0 w3 = (1, w4) \<and>
           ol_cipher_update A x input w4 = ((1, front, used), w5) \<and> ol_cipher_final A x w5 = ((1, rest, tail), w6) \<and>
           0 \<le> sint used \<and> 0 \<le> sint tail \<and> unat used = length front \<and> unat tail = length rest \<and>
           front @ rest = F key iv encrypt input))"

text \<open>Encryption preserves the length, and decryption inverts it.\<close>

definition block_permutation :: "(bytes \<Rightarrow> bytes \<Rightarrow> bool \<Rightarrow> bytes \<Rightarrow> bytes) \<Rightarrow> bool" where
  "block_permutation F \<longleftrightarrow>
     (\<forall>key iv input encrypt. length key = 16 \<and> length iv = 16 \<and> length input mod 16 = 0 \<longrightarrow>
        length (F key iv encrypt input) = length input \<and> F key iv False (F key iv True input) = input)"

text \<open>The documented behaviour of the calls for CMAC over AES-128: a MAC of one block.\<close>

definition evp_mac_works :: "'s openssl \<Rightarrow> bool" where
  "evp_mac_works A \<longleftrightarrow>
     (\<forall>context m x key input w. length key = 16 \<longrightarrow>
        (\<exists>w1 w2 w3 w4 w5 mac.
           ol_mac_fetch A context (STR ''CMAC'') m w = (True, w1) \<and> ol_mac_ctx_new A m x w1 = (True, w2) \<and>
           ol_mac_init A x key (STR ''AES-128-CBC'') w2 = (1, w3) \<and> ol_mac_update A x input w3 = (1, w4) \<and>
           ol_mac_final A x 16 w4 = ((1, mac, 16), w5) \<and> length mac = 16))"

lemma written_first: "length xs \<le> length buffer \<Longrightarrow> written_at 0 xs buffer = xs @ drop (length xs) buffer"
  by (simp add: written_at_def)

lemma written_next:
  "length ys \<le> length buffer \<Longrightarrow> written_at (length xs) ys (xs @ buffer) = xs @ ys @ drop (length ys) buffer"
  by (simp add: written_at_def)

lemma openssl_cbc_works:
  assumes "evp_cipher_works A F" "block_permutation F" "length key = 16" "length iv = 16"
    and "length input mod 16 = 0" "length input \<le> largest_cipher_input"
  shows "fst (openssl_cbc A p aes128 key iv input encrypt st) = Inr (F key iv encrypt input)"
proof -
  obtain w1 w2 w3 w4 w5 w6 front used rest tail where calls:
    "ol_cipher_fetch A (context_of p) (STR ''AES-128-CBC'') (oy_next st) (oy_world st) = (True, w1)"
    "ol_cipher_ctx_new A (oy_next st + 1) w1 = (True, w2)"
    "ol_cipher_init A (oy_next st + 1) (oy_next st) key iv (if encrypt then 1 else 0) w2 = (1, w3)"
    "ol_set_padding A (oy_next st + 1) 0 w3 = (1, w4)"
    "ol_cipher_update A (oy_next st + 1) input w4 = ((1, front, used), w5)"
    "ol_cipher_final A (oy_next st + 1) w5 = ((1, rest, tail), w6)"
    and sizes: "0 \<le> sint used" "0 \<le> sint tail" "unat used = length front" "unat tail = length rest"
    and out: "front @ rest = F key iv encrypt input"
    using assms(1,3-6) unfolding evp_cipher_works_def by metis
  have fits: "length front + length rest = length input"
    using out assms(2-5) unfolding block_permutation_def by (metis length_append)
  define buffer :: bytes where "buffer = replicate (length input + 16) 0"
  have first: "written_at 0 front buffer = front @ drop (length front) buffer"
    using fits by (intro written_first) (simp add: buffer_def)
  have both: "written_at (length front) rest (front @ drop (length front) buffer) =
      front @ rest @ drop (length rest) (drop (length front) buffer)"
    using fits by (intro written_next) (simp add: buffer_def)
  have lengths: "length buffer = length input + 16" by (simp add: buffer_def)
  have "fst (run_cipher A (oy_next st) (oy_next st + 1) key iv input 16 encrypt st') = Inr (front @ rest)"
    if "oy_world st' = w2" for st'
    using that calls sizes fits
    by (simp add: run_cipher_def ossl_use_def buffer_def [symmetric] first both lengths Let_def)
  with calls out assms(3-6) show ?thesis
    by (simp add: openssl_cbc_def owner_def ossl_new_from_def ossl_new_def ossl_use_def block_size_def case_prod_unfold)
qed

lemma openssl_cmac_works:
  assumes "evp_mac_works A" "length key = 16"
  shows "\<exists>mac. fst (openssl_cmac A p aes128 key input st) = Inr mac \<and> length mac = 16"
proof -
  obtain w1 w2 w3 w4 w5 mac where calls:
    "ol_mac_fetch A (context_of p) (STR ''CMAC'') (oy_next st) (oy_world st) = (True, w1)"
    "ol_mac_ctx_new A (oy_next st) (oy_next st + 1) w1 = (True, w2)"
    "ol_mac_init A (oy_next st + 1) key (STR ''AES-128-CBC'') w2 = (1, w3)"
    "ol_mac_update A (oy_next st + 1) input w3 = (1, w4)"
    "ol_mac_final A (oy_next st + 1) 16 w4 = ((1, mac, 16), w5)" and size: "length mac = 16"
    using assms unfolding evp_mac_works_def by metis
  have "written_at 0 mac (replicate 16 0) = mac" using written_first [of mac "replicate 16 0"] size by simp
  then have "fst (run_mac A (oy_next st + 1) key (STR ''AES-128-CBC'') input 16 st') = Inr mac" if "oy_world st' = w2" for st'
    using that calls size by (simp add: run_mac_def ossl_use_def Let_def)
  with calls size assms(2) show ?thesis
    by (simp add: openssl_cmac_def owner_def ossl_new_from_def ossl_new_def ossl_use_def block_size_def case_prod_unfold)
qed

lemma openssl_random_size: "openssl_random A p n st = (Inr out, st') \<Longrightarrow> length out = n"
  by (auto simp: openssl_random_def written_at_def Let_def split: if_splits prod.splits)

text \<open>
  C30. The provider meets the contract of the core. When OpenSSL's calls for AES-128 work as documented, what
  \<^verbatim>\<open>openssl_provider()\<close> returns encrypts and decrypts as the sessions and authentications of the
  core require and calculates whole MACs, with or without the legacy module; random bytes have
  the requested number; and without the opt-in no DES primitive is ever started.
\<close>

theorem openssl_provider_sound:
  assumes "evp_cipher_works A F" "block_permutation F" "evp_mac_works A"
    and "openssl_provider A legacy st = (Inr p, st1)"
  shows "cbc_sound (crypto_provider_of A p st2) \<and> cmac_sound (crypto_provider_of A p st2) \<and>
    (\<forall>n out st3. openssl_random A p n st2 = (Inr out, st3) \<longrightarrow> length out = n) \<and>
    (\<forall>c key iv input encrypt. block_size c = 8 \<and> \<not> legacy \<longrightarrow>
       (\<exists>e. openssl_cbc A p c key iv input encrypt st2 = (Inl e, st2)) \<and>
       (\<exists>e. openssl_cmac A p c key input st2 = (Inl e, st2)))"
proof -
  obtain p' st0 where made: "openssl_construct A legacy st = (p', st0)" by fastforce
  then have "op_allow_legacy p = legacy"
    using assms(4) by (auto simp: openssl_provider_def openssl_construct_def split: prod.splits option.splits if_splits)
  moreover have "cbc_sound (crypto_provider_of A p st2)"
    unfolding cbc_sound_def
  proof (intro allI impI; elim conjE)
    fix key iv input :: bytes
    assume sizes: "length key = 16" "length iv = 16" "length input mod 16 = 0" "length input \<le> largest_cipher_input"
    have same: "length (F key iv True input) = length input" "F key iv False (F key iv True input) = input"
      using assms(2) sizes by (simp_all add: block_permutation_def)
    then show "\<exists>out. cbc (crypto_provider_of A p st2) aes128 key iv input True = Returned (Inr out) \<and>
        length out = length input \<and> cbc (crypto_provider_of A p st2) aes128 key iv out False = Returned (Inr input)"
      using openssl_cbc_works [OF assms(1,2) sizes, of p True st2]
        openssl_cbc_works [OF assms(1,2) sizes(1,2), of "F key iv True input" p False st2] sizes
      by (simp add: crypto_provider_of_def)
  qed
  moreover have "cmac_sound (crypto_provider_of A p st2)"
    using openssl_cmac_works [OF assms(3)] by (simp add: cmac_sound_def crypto_provider_of_def)
  ultimately show ?thesis
    using openssl_random_size by (auto simp: openssl_cbc_def openssl_cmac_def)
qed

section \<open>An example\<close>

text \<open>
  A library whose state is the first key byte and the message of the MAC: the cipher masks every byte and the
  MAC repeats the sum of key and message.
\<close>

definition masking_openssl :: "(byte \<times> bytes) openssl" where
  "masking_openssl =
     \<lparr>ol_lib_ctx_new = (\<lambda>n w. (True, w)), ol_provider_load = (\<lambda>c name n w. (True, w)),
      ol_rand_bytes = (\<lambda>c n w. ((1, replicate n 3), w)),
      ol_cipher_fetch = (\<lambda>c name n w. (True, w)), ol_cipher_ctx_new = (\<lambda>n w. (True, w)),
      ol_cipher_init = (\<lambda>x c key iv direction (k, m). (1, (hd key, m))), ol_set_padding = (\<lambda>x on w. (1, w)),
      ol_cipher_update = (\<lambda>x input (k, m). ((1, map (\<lambda>b. b XOR (k XOR 0x5A)) input, of_nat (length input)), (k, m))),
      ol_cipher_final = (\<lambda>x w. ((1, [], 0), w)),
      ol_mac_fetch = (\<lambda>c name n w. (True, w)), ol_mac_ctx_new = (\<lambda>m n w. (True, w)),
      ol_mac_init = (\<lambda>x key name (k, m). (1, (hd key, []))), ol_mac_update = (\<lambda>x input (k, m). (1, (k, m @ input))),
      ol_mac_final = (\<lambda>x size (k, m). ((1, replicate 16 (foldl (+) k m), 16), (k, m))),
      ol_pkey_ctx_from_name = (\<lambda>c name n w. (True, w)), ol_fromdata_init = (\<lambda>x w. (1, w)),
      ol_fromdata = (\<lambda>x curve key n w. (True, w)), ol_ecdsa_sig_new = (\<lambda>n w. (True, w)),
      ol_bin2bn = (\<lambda>bytes n w. (True, w)), ol_ecdsa_sig_set0 = (\<lambda>g r s w. (1, w)),
      ol_i2d_size = (\<lambda>g w. (8, w)), ol_i2d = (\<lambda>g w. ((8, replicate 8 1), w)),
      ol_pkey_ctx_from_pkey = (\<lambda>c k n w. (True, w)), ol_verify_init = (\<lambda>x w. (1, w)),
      ol_verify = (\<lambda>x der digest w. (if digest = [] then 0 else 1, w))\<rparr>"

definition blank_ossl :: "(byte \<times> bytes) ossl_state" where
  "blank_ossl = \<lparr>oy_world = (0, []), oy_live = Map.empty, oy_next = 0, oy_fault = False, oy_discarded = []\<rparr>"

definition masking_object :: openssl_object where
  "masking_object = \<lparr>op_context = Some 0, op_normal = Some 1, op_legacy = None, op_allow_legacy = False\<rparr>"

lemma masking_provider:
  "\<exists>st1. openssl_provider masking_openssl False blank_ossl = (Inr masking_object, st1)"
  by (simp add: openssl_provider_def openssl_construct_def load_module_def ossl_new_from_def ossl_new_def ossl_use_def
      masking_openssl_def blank_ossl_def openssl_good_def masking_object_def)

lemma masking_works:
  "evp_cipher_works masking_openssl (\<lambda>key iv encrypt input. map (\<lambda>b. b XOR (hd key XOR 0x5A)) input)"
  "block_permutation (\<lambda>key iv encrypt input. map (\<lambda>b. b XOR (hd key XOR 0x5A)) input)" "evp_mac_works masking_openssl"
proof -
  have "sint (of_nat n :: u32) = int n \<and> unat (of_nat n :: u32) = n" if "n \<le> largest_cipher_input" for n
    using that by (simp add: signed_of_nat signed_take_bit_int_eq_self unsigned_of_nat take_bit_nat_eq_self)
  then show "evp_cipher_works masking_openssl (\<lambda>key iv encrypt input. map (\<lambda>b. b XOR (hd key XOR 0x5A)) input)"
    by (auto simp: evp_cipher_works_def masking_openssl_def)
  have "(b XOR (k XOR 0x5A)) XOR (k XOR 0x5A) = b" for b k :: byte by (simp add: xor.assoc)
  then show "block_permutation (\<lambda>key iv encrypt input. map (\<lambda>b. b XOR (hd key XOR 0x5A)) input)"
    by (simp add: block_permutation_def comp_def)
  show "evp_mac_works masking_openssl" by (simp add: evp_mac_works_def masking_openssl_def)
qed

theorem openssl_provider_sound_witness:
  "cbc_sound (crypto_provider_of masking_openssl masking_object blank_ossl) \<and>
   cmac_sound (crypto_provider_of masking_openssl masking_object blank_ossl)"
proof -
  obtain st1 where "openssl_provider masking_openssl False blank_ossl = (Inr masking_object, st1)" using masking_provider by blast
  from openssl_provider_sound [OF masking_works this] show ?thesis by blast
qed

theorem openssl_frees_exactly_witness:
  "\<exists>st1 st2. openssl_provider masking_openssl False blank_ossl = (Inr masking_object, st1) \<and>
     openssl_verify_ecdsa masking_openssl masking_object (STR ''P-224'') [4] [7] [1, 2] st1 = (Inr True, st2) \<and>
     \<not> oy_fault (openssl_destroy masking_object st2) \<and> oy_live (openssl_destroy masking_object st2) = Map.empty"
proof -
  obtain st1 where made: "openssl_provider masking_openssl False blank_ossl = (Inr masking_object, st1)" using masking_provider by blast
  obtain v st2 where run: "openssl_verify_ecdsa masking_openssl masking_object (STR ''P-224'') [4] [7] [1, 2] st1 = (v, st2)"
    by fastforce
  have "ossl_ok blank_ossl" by (simp add: ossl_ok_def blank_ossl_def)
  moreover have "String.explode (STR ''P-224'') \<noteq> []" by (simp add: Literal.rep_eq)
  then have "v = Inr True"
    using run
    by (auto simp: openssl_verify_ecdsa_def verify_with_key_def signature_values_def signature_der_def run_verify_def
        owner_def ossl_new_from_def ossl_new_def ossl_use_def masking_openssl_def Let_def split: prod.splits)
  ultimately show ?thesis
    using openssl_frees_exactly [OF _ made] made run openssl_uses.signature [OF openssl_uses.unused_yet run]
    by (auto simp: blank_ossl_def)
qed

end
