(* ===== verification/Secure_Buffer.thy ===== *)
theory Secure_Buffer
  imports Foundation Ownership
begin

text \<open>
  Secret storage (\<^verbatim>\<open>foundation/src/secure_buffer.cpp\<close>): the move-only class \<^verbatim>\<open>SecureBuffer\<close> over
  the memory of its byte vectors. A vector is the address of its allocation, or none when it is empty. The
  memory also keeps a fault (a use of an allocation that is gone) and the contents of every
  allocation that a buffer gave back; no definition reads either.
\<close>

section \<open>Memory\<close>

record secret_memory =
  sm_blocks :: "nat \<rightharpoonup> bytes"
  sm_next :: nat
  sm_fault :: bool
  sm_released :: "bytes list"

type_synonym byte_vector = "nat option"

definition vector_new :: "bytes \<Rightarrow> secret_memory \<Rightarrow> byte_vector \<times> secret_memory" where
  "vector_new bs M =
     (if bs = [] then (None, M)
      else (Some (sm_next M), M\<lparr>sm_blocks := (sm_blocks M)(sm_next M \<mapsto> bs), sm_next := sm_next M + 1\<rparr>))"

text \<open>An access to the elements of a vector: a function of the bytes, with the bytes it leaves.\<close>

definition vector_access :: "byte_vector \<Rightarrow> (bytes \<Rightarrow> 'a \<times> bytes) \<Rightarrow> secret_memory \<Rightarrow> 'a \<times> secret_memory" where
  "vector_access v f M =
     (case v of
        None \<Rightarrow> (fst (f []), M)
      | Some a \<Rightarrow>
          (case sm_blocks M a of
             None \<Rightarrow> (fst (f []), M\<lparr>sm_fault := True\<rparr>)
           | Some bs \<Rightarrow> (case f bs of (r, bs') \<Rightarrow> (r, M\<lparr>sm_blocks := (sm_blocks M)(a \<mapsto> bs')\<rparr>))))"

definition vector_release :: "byte_vector \<Rightarrow> secret_memory \<Rightarrow> secret_memory" where
  "vector_release v M =
     (case v of
        None \<Rightarrow> M
      | Some a \<Rightarrow>
          (case sm_blocks M a of
             None \<Rightarrow> M\<lparr>sm_fault := True\<rparr>
           | Some bs \<Rightarrow> M\<lparr>sm_blocks := (sm_blocks M)(a := None), sm_released := sm_released M @ [bs]\<rparr>))"

section \<open>The class\<close>

text \<open>Construction from a view, from a vector that is adopted, and of zeros.\<close>

definition secure_copy :: "bytes \<Rightarrow> secret_memory \<Rightarrow> byte_vector \<times> secret_memory" where
  "secure_copy data = vector_new data"

definition secure_adopt :: "byte_vector \<Rightarrow> byte_vector \<times> byte_vector" where
  "secure_adopt data = (data, None)"

definition secure_sized :: "nat \<Rightarrow> secret_memory \<Rightarrow> byte_vector \<times> secret_memory" where
  "secure_sized n = vector_new (replicate n 0)"

definition secure_wipe :: "byte_vector \<Rightarrow> secret_memory \<Rightarrow> secret_memory" where
  "secure_wipe self M = snd (vector_access self (\<lambda>bs. ((), wipe bs)) M)"

definition secure_destroy :: "byte_vector \<Rightarrow> secret_memory \<Rightarrow> secret_memory" where
  "secure_destroy self M = vector_release self (secure_wipe self M)"

definition secure_move :: "byte_vector \<Rightarrow> byte_vector \<times> byte_vector" where
  "secure_move other = (other, None)"

text \<open>Assignment between two different objects; the vector's own assignment releases its allocation.\<close>

definition secure_assign :: "byte_vector \<Rightarrow> byte_vector \<Rightarrow> secret_memory \<Rightarrow> byte_vector \<times> byte_vector \<times> secret_memory" where
  "secure_assign self other M = (other, None, vector_release self (secure_wipe self M))"

definition secure_view :: "byte_vector \<Rightarrow> secret_memory \<Rightarrow> bytes \<times> secret_memory" where
  "secure_view self = vector_access self (\<lambda>bs. (bs, bs))"

text \<open>What a client writes through the mutable view.\<close>

definition secure_mutable_view :: "byte_vector \<Rightarrow> (bytes \<Rightarrow> bytes) \<Rightarrow> secret_memory \<Rightarrow> secret_memory" where
  "secure_mutable_view self write M =
     snd (vector_access self (\<lambda>bs. ((), take (length bs) (write bs) @ drop (length (write bs)) bs)) M)"

definition secure_size :: "byte_vector \<Rightarrow> secret_memory \<Rightarrow> nat \<times> secret_memory" where
  "secure_size self = vector_access self (\<lambda>bs. (length bs, bs))"

section \<open>Programs over secret storage\<close>

inductive secret_step :: "(nat \<rightharpoonup> byte_vector) \<times> secret_memory \<Rightarrow> (nat \<rightharpoonup> byte_vector) \<times> secret_memory \<Rightarrow> bool" where
  copied: "objects x = None \<Longrightarrow> secure_copy bs M = (v, M') \<Longrightarrow> secret_step (objects, M) (objects(x \<mapsto> v), M')"
| adopted: "objects x = None \<Longrightarrow> vector_new bs M = (v, M') \<Longrightarrow> secret_step (objects, M) (objects(x \<mapsto> fst (secure_adopt v)), M')"
| sized: "objects x = None \<Longrightarrow> secure_sized n M = (v, M') \<Longrightarrow> secret_step (objects, M) (objects(x \<mapsto> v), M')"
| destroyed: "objects x = Some v \<Longrightarrow> secret_step (objects, M) (objects(x := None), secure_destroy v M)"
| moved: "objects x = Some v \<Longrightarrow> objects y = None \<Longrightarrow> secure_move v = (v1, v2) \<Longrightarrow>
    secret_step (objects, M) (objects(x \<mapsto> v2, y \<mapsto> v1), M)"
| assigned: "objects x = Some v \<Longrightarrow> objects y = Some w \<Longrightarrow> x \<noteq> y \<Longrightarrow> secure_assign v w M = (v1, w1, M') \<Longrightarrow>
    secret_step (objects, M) (objects(x \<mapsto> v1, y \<mapsto> w1), M')"
| viewed: "objects x = Some v \<Longrightarrow> secure_view v M = (bs, M') \<Longrightarrow> secret_step (objects, M) (objects, M')"
| written: "objects x = Some v \<Longrightarrow> secret_step (objects, M) (objects, secure_mutable_view v write M)"
| measured: "objects x = Some v \<Longrightarrow> secure_size v M = (n, M') \<Longrightarrow> secret_step (objects, M) (objects, M')"

definition secrets_ok :: "(nat \<rightharpoonup> byte_vector) \<times> secret_memory \<Rightarrow> bool" where
  "secrets_ok P = (case P of (objects, M) \<Rightarrow>
     \<not> sm_fault M \<and> (\<forall>a bs. sm_blocks M a = Some bs \<longrightarrow> a < sm_next M) \<and> (\<forall>bs\<in>set (sm_released M). \<forall>b\<in>set bs. b = 0) \<and>
     sole_owners (held (\<lambda>v. v) objects) (dom (sm_blocks M)))"

lemma vector_new_ok:
  assumes "secrets_ok (objects, M)" "objects x = None" "vector_new bs M = (v, M')"
  shows "secrets_ok (objects(x \<mapsto> v), M')"
proof (cases "bs = []")
  case True
  then show ?thesis
    using assms by (auto simp: secrets_ok_def vector_new_def held_at intro: sole_owners_idle)
next
  case False
  have "sm_next M \<notin> dom (sm_blocks M)" using assms(1) by (auto simp: secrets_ok_def)
  with assms(1,2) have "sole_owners ((held (\<lambda>v. v) objects)(x \<mapsto> sm_next M)) (insert (sm_next M) (dom (sm_blocks M)))"
    by (intro sole_owners_take) (auto simp: secrets_ok_def held_at)
  then show ?thesis
    using assms False by (auto simp: secrets_ok_def vector_new_def less_Suc_eq split: if_splits)
qed

lemma vector_access_ok:
  assumes "secrets_ok (objects, M)" "objects x = Some v" "vector_access v f M = (r, M')"
  shows "secrets_ok (objects, M') \<and> dom (sm_blocks M') = dom (sm_blocks M)"
proof (cases v)
  case (Some a)
  then have "held (\<lambda>v. v) objects x = Some a" using assms(2) by (simp add: held_at)
  then have "a \<in> dom (sm_blocks M)" using assms(1) sole_ownersD(1) by (fastforce simp: secrets_ok_def)
  then have "insert a (dom (sm_blocks M)) = dom (sm_blocks M)" and "\<exists>bs. sm_blocks M a = Some bs" by auto
  then show ?thesis
    using assms(1,3) Some by (auto simp: secrets_ok_def vector_access_def split: prod.splits if_splits)
qed (use assms in \<open>simp add: vector_access_def\<close>)

lemma erase_ok:
  assumes "secrets_ok (objects, M)" "objects x = Some v"
  shows "secrets_ok (objects(x \<mapsto> None), vector_release v (secure_wipe v M))"
proof (cases v)
  case None
  then show ?thesis
    using assms by (auto simp: secrets_ok_def vector_release_def secure_wipe_def vector_access_def held_at intro: sole_owners_idle)
next
  case (Some a)
  then have own: "held (\<lambda>v. v) objects x = Some a" using assms(2) by (simp add: held_at)
  with assms(1) obtain bs where bs: "sm_blocks M a = Some bs" using sole_ownersD(1) by (fastforce simp: secrets_ok_def)
  from assms(1) own have "sole_owners ((held (\<lambda>v. v) objects)(x := None)) (dom (sm_blocks M) - {a})"
    by (intro sole_owners_give) (auto simp: secrets_ok_def)
  with assms(1) bs Some show ?thesis
    by (auto simp: secrets_ok_def vector_release_def secure_wipe_def vector_access_def)
qed

lemma secrets_forget: "secrets_ok (objects(x \<mapsto> None), M) \<Longrightarrow> secrets_ok (objects(x := None), M)"
  by (simp add: secrets_ok_def)

lemma secrets_move:
  assumes "secrets_ok (objects, M)" "objects x = Some v" "objects y = None \<or> objects y = Some None" "x \<noteq> y"
  shows "secrets_ok (objects(x \<mapsto> None, y \<mapsto> v), M)"
proof -
  have "held (\<lambda>v. v) objects y = None" "held (\<lambda>v. v) objects x = v" using assms(2,3) by (auto simp: held_at)
  with assms(1) have "sole_owners ((held (\<lambda>v. v) objects)(x := None, y := v)) (dom (sm_blocks M))"
    using sole_owners_move [of "held (\<lambda>v. v) objects" "dom (sm_blocks M)" y x] by (simp add: secrets_ok_def)
  with assms(1) show ?thesis by (simp add: secrets_ok_def)
qed

text \<open>
  Whatever a program does with its secret buffers, every allocation has exactly one owner, none is used
  after its end, and every allocation that a buffer gave back had been overwritten with zeros.
\<close>

theorem secret_step_ok: "secret_step P Q \<Longrightarrow> secrets_ok P \<Longrightarrow> secrets_ok Q"
proof (induction rule: secret_step.induct)
  case (destroyed objects x v M)
  then show ?case using erase_ok [of objects M x v] secrets_forget by (simp add: secure_destroy_def)
next
  case (moved objects x v y v1 v2 M)
  then have "x \<noteq> y" by auto
  with moved secrets_move [of objects M x v y] show ?case by (simp add: secure_move_def)
next
  case (assigned objects x v y w M v1 w1 M')
  then have "secrets_ok (objects(x \<mapsto> None), M')" using erase_ok [of objects M x v] by (simp add: secure_assign_def)
  from secrets_move [OF this, of y w x] assigned show ?case by (simp add: secure_assign_def fun_upd_twist)
next
  case (written objects x v M wr)
  show ?case
    unfolding secure_mutable_view_def by (rule conjunct1 [OF vector_access_ok [OF written(2,1) prod.collapse [symmetric]]])
qed (auto simp: secure_copy_def secure_adopt_def secure_sized_def secure_view_def secure_size_def
  dest: vector_new_ok vector_access_ok)

end
