(* ===== verification/Spec2Isabelle.thy ===== *)
theory Spec2Isabelle
  imports Managed_Lifecycle Offline C_Raw_Properties Pcsc_Contract Cpp_Properties Cpp_Providers
    Openssl_Properties Secure_Buffer
begin

text \<open>
  Verification library of the DESFire EV3 SDK: the C++ core that lets a host talk to a MIFARE
  DESFire EV3 card, from the bytes on the wire to the managed card object, as HOL definitions that
  follow the source function by function, with the theorems that make it correct.

  \<^bold>\<open>The program.\<close> A transport carries frames to the card (\<^verbatim>\<open>transports\<close>); the native channel
  turns commands into chained frames and the ISO channel turns them into APDUs
  (\<^verbatim>\<open>core/src/native/raw\<close>, \<^verbatim>\<open>core/src/iso7816/raw\<close>); checked commands restrict what a client
  can build (\<^verbatim>\<open>core/src/native/checked\<close>, \<^verbatim>\<open>core/src/iso7816/checked\<close>); sessions protect
  commands and verify answers (\<^verbatim>\<open>core/src/security\<close>, \<^verbatim>\<open>core/src/iso7816/security\<close>), on the
  keys that the authentications agree on; the secure channel combines a session with the native
  channel (\<^verbatim>\<open>core/src/native/secure\<close>); the managed card owns all of it, admits one operation at
  a time and gives itself up when an outcome is unknown (\<^verbatim>\<open>core/src/managed\<close>); offline functions
  check transaction MACs and build delegated-application data (\<^verbatim>\<open>core/src/offline\<close>). The C interface
  (\<^verbatim>\<open>c-api\<close>) gives all of it to other languages: handles in two registries, host callbacks for
  transports and keys, error evidence instead of exceptions. The C++17 facade (\<^verbatim>\<open>sdk/cpp17\<close>) calls the C
  interface for C++ programs: objects that own handles and native buffers, typed keys, requests and
  results. A transport for PC/SC readers
  (\<^verbatim>\<open>transports/pcsc\<close>) finds readers and exchanges frames through the service of the system.

  \<^bold>\<open>Theories and the code they model.\<close>
  \<^item> \<open>Prelude\<close>: results as sums, the shared lemmas on lists, words and spans, the collections of
    rewrite rules.
  \<^item> \<open>Foundation\<close> (\<^verbatim>\<open>foundation\<close>): errors with their outcome evidence, wire integers,
    hexadecimal text, CRC-16, CRC-32, constant-time comparison, wiping.
  \<^item> \<open>Secure_Buffer\<close> (\<^verbatim>\<open>foundation/src/secure_buffer.cpp\<close>): the move-only secret storage over the memory
    of its vectors, and the invariant of programs over it; \<open>Ownership\<close> holds the lemmas on sole owners
    that it shares with the C++17 facade.
  \<^item> \<open>Environment\<close>: the abstract transport, clock, stop tokens and random source as one record of
    functions over an environment state (\<^verbatim>\<open>transport.hpp\<close>), the provider as a record of
    primitives (\<^verbatim>\<open>crypto_provider.hpp\<close>), actions that may throw, and \<open>recording\<close>, which keeps a log
    of every frame handed to the transport and of its answer.
  \<^item> \<open>Transports\<close> (\<^verbatim>\<open>transports/replay\<close>, \<^verbatim>\<open>transports/callback\<close>): the scripted and the
    callback transport; the replay transport is the environment of the witnesses.
  \<^item> \<open>Openssl\<close>, \<open>Openssl_Contract\<close>, \<open>Openssl_Properties\<close>
    (\<^verbatim>\<open>providers/crypto-openssl/src/openssl.cpp\<close>): the provider over a record of OpenSSL's calls, the rules
    for blocks that free what they create, and the two properties.
  \<^item> \<open>Native_Codec\<close>, \<open>Native_Channel\<close> (\<^verbatim>\<open>core/src/native/raw\<close>): both framings, transactions,
    deadlines, generation checks, the additional-frame loop.
  \<^item> \<open>Session_Contract\<close>, \<open>Ev2_Session\<close>, \<open>Standard_Aes_Session\<close>: the operations the secure channel
    calls on a session, and the two sessions that provide them.
  \<^item> \<open>Authentication\<close> (\<^verbatim>\<open>authentication.cpp\<close> of both): EV2 First and NonFirst and standard AES.
  \<^item> \<open>Checked_Commands\<close>, \<open>Checked_Parsers\<close> (\<^verbatim>\<open>core/src/native/checked\<close>, \<^verbatim>\<open>core/src/model\<close>):
    every builder and every response parser.
  \<^item> \<open>Secure_Channel\<close> (\<^verbatim>\<open>core/src/native/secure/channel.cpp\<close>): protected and unprotected exchange.
  \<^item> \<open>Iso_Channel\<close>, \<open>Iso_Commands\<close>, \<open>Iso_Session\<close> (\<^verbatim>\<open>core/src/iso7816\<close>): APDUs and the ISO
    channel, checked ISO commands, the ISO AES session and its authentication.
  \<^item> \<open>Key_Derivation\<close> (\<^verbatim>\<open>core/src/security/key_derivation\<close>, \<^verbatim>\<open>model/authentication.hpp\<close>): keys,
    contexts, provider requests, NXP diversification.
  \<^item> \<open>Offline\<close> (\<^verbatim>\<open>core/src/offline\<close>).
  \<^item> \<open>Managed_Card\<close>, \<open>Managed_Commands\<close>, \<open>Managed_Authentication\<close>, \<open>Managed_Transactions\<close>
    (\<^verbatim>\<open>core/src/managed\<close>): the state of \<^verbatim>\<open>CardImpl\<close> as \<open>card_state\<close> and every public
    operation of \<^verbatim>\<open>Card\<close> as a function from state and environment to result, state and
    environment.
  \<^item> \<open>Managed_Invariant\<close>, \<open>Managed_Lifecycle\<close>: the invariant, the contract of an operation, the
    step relation over all public operations and the properties of reachable cards.

  \<^item> \<open>C_Runtime\<close>, \<open>C_Adapters\<close>, \<open>C_Handles\<close> (\<^verbatim>\<open>c-api/src/runtime.cpp\<close>, \<^verbatim>\<open>adapters.cpp\<close>,
    \<^verbatim>\<open>detail/internal.hpp\<close>): error evidence and the exception boundary, checks of C arguments, the
    host's transport and key provider, entries, registries and the admission of a call.
  \<^item> \<open>C_Native\<close>, \<open>C_Managed\<close>, \<open>C_Raw\<close>, \<open>C_Offline\<close> (\<^verbatim>\<open>native.cpp\<close>, \<^verbatim>\<open>managed_advanced.cpp\<close>,
    \<^verbatim>\<open>managed_extended.cpp\<close>, \<^verbatim>\<open>iso.cpp\<close>, \<^verbatim>\<open>raw.cpp\<close>, \<^verbatim>\<open>offline.cpp\<close>): one definition for each
    exported function.
  \<^item> \<open>C_Calls\<close>, \<open>C_Contract\<close>, \<open>C_Functions\<close>: what a call may do to the library, as the locale
    \<open>call_contract\<close>, its instance for managed cards, and the proof that every function meets it.
  \<^item> \<open>C_Raw_Sessions\<close>, \<open>C_Raw_Secure\<close>, \<open>C_Raw_Calls\<close>: the invariant of a raw channel, triples for
    the bodies of its functions, and its instance of the contract.
  \<^item> \<open>C_Library\<close>, \<open>C_Safety\<close>, \<open>C_Raw_Properties\<close>: sequences of calls on one library with any number
    of handles, and the properties over them.
  \<^item> \<open>Pcsc\<close>, \<open>Pcsc_Contract\<close> (\<^verbatim>\<open>transports/pcsc/src/pcsc.cpp\<close>): the transport over a service that is
    a parameter, and its properties.
  \<^item> \<open>Cpp_Values\<close> (\<^verbatim>\<open>result.hpp\<close>, \<^verbatim>\<open>types.hpp\<close>, \<^verbatim>\<open>throwing.hpp\<close>), \<open>Cpp_Keys\<close>
    (\<^verbatim>\<open>key_provider.hpp\<close>), \<open>Cpp_Buffers\<close> and \<open>Cpp_Raw\<close> (\<^verbatim>\<open>raw.hpp\<close>), \<open>Cpp_Card\<close> (\<^verbatim>\<open>card.hpp\<close>),
    \<open>Cpp_Offline\<close> (\<^verbatim>\<open>offline.hpp\<close>), all under \<^verbatim>\<open>sdk/cpp17/include/desfire/cpp17\<close>: the facade, one
    definition for each method, \<open>raw_card_\<close>, \<open>raw_channel_\<close>, \<open>facade_\<close> and \<open>facade_offline_\<close> before its name.
  \<^item> \<open>Cpp_Contract\<close>, \<open>Cpp_Functions\<close>, \<open>Cpp_Verdicts\<close>: what a wrapper may do with one function of the
    C interface, and the proof that every method does no more.
  \<^item> \<open>Cpp_Ownership\<close>, \<open>Cpp_Programs\<close>: programs over buffers, cards and channels as a step relation, and
    the invariant of all reachable ones.
  \<^item> \<open>Cpp_Properties\<close>, \<open>Cpp_Providers\<close>: the properties of the facade and of C++ key providers.

  \<^bold>\<open>Conventions.\<close> A class is a record, a \<^verbatim>\<open>Result\<close> a sum of an error and a value, an enumeration
  a datatype (with a constructor for values outside it where the source checks for them), an
  integer a word of its width, \<^verbatim>\<open>size_t\<close> a natural number, a duration an integer of
  milliseconds, a point in time an integer of nanoseconds. State is passed explicitly; a pointer to
  a session is an option. A dependency that may throw returns \<open>Threw\<close> or \<open>Returned\<close>, and the
  source's \<^verbatim>\<open>catch\<close> clauses are branches. Definitions are executable; the witnesses evaluate
  them on scripted cards.

  \<^bold>\<open>What the lemmas show.\<close> For the channels: which frames reach the transport, what a success
  means, and that an error reported as not sent is honest. For the sessions: exact acceptance
  conditions, round trips with the card's side, counters that are never reused, and failing closed.
  For the authentications: agreement with a card that holds the key and
  computes its side from the byte numbering of the card's documentation. For builders and parsers: type
  and bounds of what is built, exactness of what is accepted. For the managed card: the invariant of
  all reachable states, authorization, the fence after an unknown outcome, recovery by reset, and
  transactions that are reported as done, as not begun, or as unknown. For the C interface: the
  invariant of both registries under any sequence of calls, the fence for cards and for the sessions of
  raw channels as the evidence reports it (an exception of a callback before the channel was touched is the one
  call with an open outcome that changes nothing), isolation and end of handles, and sessions that do not outlive
  their generation. For PC/SC: discovery ends and reads exactly the names the service lists, and the
  evidence of an exchange tells whether it may have been sent. For the C++17 facade: every buffer and every
  open handle has exactly one owner in any program, every method is at most one call of the C interface
  with its verdict unchanged, every method that returns bytes equals its specification without
  buffers, the fence holds for errors as C++ sees them until the card itself is reset, and requests and keys of
  a provider arrive as they were written. For OpenSSL: every object is freed once on every path, a cipher
  that fails leaves only zeros in the output it frees, and the provider meets what the core assumes of one.

  \<^bold>\<open>Interfaces.\<close> \<open>Session_Contract\<close> states as a locale what the secure channel needs of a session;
  both sessions interpret it. \<open>Managed_Lifecycle\<close> states as the locale \<open>managed_operation\<close> what the
  runs of a card need of an operation; all twenty-one public operations interpret it. \<open>C_Calls\<close> states as the
  locale \<open>call_contract\<close> what the combinators around a call need of its contract; the contracts of managed
  cards, raw channels and offline calculations interpret it. \<open>Cpp_Contract\<close> states as the locale
  \<open>interface_calls\<close> what the facade needs of a family of C functions; the interpretations \<open>managed\<close>, \<open>raw\<close> and
  \<open>offline\<close> of \<open>Cpp_Functions\<close> discharge it for the functions of the model.

  \<^bold>\<open>Bounds.\<close> The recursions that count down are the source's own bounded loops: 4096 frames of a
  native chain or of a DF-name list, \<open>lim_max_frames\<close> (at most 65536) frames of an ISO command, the
  last sixteen positions of the CRC boundary search; when the count is used up the definitions
  return the source's error. No other fuel is used; every other recursion is structural or has a
  measure. The loop over a list of reader names has no bound in the source: it is a partial function, and
  \<open>reader_discovery_ends\<close> proves that it returns.

  \<^bold>\<open>Hypotheses.\<close> Theorems that need a working provider assume that decryption inverts encryption,
  that lengths are preserved up to the size the provider accepts, and that the CMAC has sixteen bytes; a concrete provider with these
  properties is the witness, and \<open>openssl_provider_sound\<close> proves them of the provider of the repository when
  OpenSSL's calls for AES-128 work as documented. Transports, clocks, stop tokens, random sources, derivers and key
  providers are arbitrary functions.

  \<^bold>\<open>The C interface in the model.\<close> Pointers to inputs are options, output slots are what they point to,
  and a call returns its code, its error record and its value. Sizes of structures are those of 64-bit
  targets. The host is an arbitrary state that callbacks and other threads change; a change of the card
  that the host reports while a call runs advances the generation when it is next read. The mutex of an
  entry is a flag that steps of the surroundings set and clear: a call meets it free and runs to its end,
  or meets it taken and answers \<^verbatim>\<open>busy\<close>. Callbacks do not call back into the library. Each entry keeps
  a log of its physical exchanges that no definition reads.

  \<^bold>\<open>The C++17 facade in the model.\<close> The state \<open>native\<close> is the library and a heap of native buffers: a
  \<^verbatim>\<open>Buffer\<close> object is an optional address, moving from it empties it, destroying it wipes and frees
  the buffer it holds. Two fields are for the proofs only: \<open>nv_fault\<close> records a use of an address that is not
  allocated, \<open>nv_released\<close> the contents of each buffer as it was freed. A raw object is its handle, zero after
  a move or a close; the friendly card holds a raw one. A program is three maps from names to objects;
  \<open>pg_left_cards\<close> and \<open>pg_left_channels\<close> keep the handles that a destructor could not close because the entry was in
  use, as the source ignores the answer there. A method that throws in C++ only where memory runs out is total here.

  \<^bold>\<open>Not modelled.\<close> The bindings for other languages (\<^verbatim>\<open>sdk/kotlin\<close>, \<^verbatim>\<open>sdk/node\<close>, \<^verbatim>\<open>sdk/python\<close>) convert
  values of their runtimes and call the C interface. OpenSSL and the PC/SC service are libraries outside
  the repository and parameters here. Allocation failures, the memory of inputs beyond its bytes, and copies of secrets that the
  compiler or the system makes are not modelled. Cancellation acts through the environment's stop
  tokens.
\<close>

end
